(* ===== verification/CoreLab_Prelude.thy ===== *)
theory CoreLab_Prelude
  imports Complex_Main "HOL-Library.Sublist"
begin

text \<open>
  Shared vocabulary of the development: the Python values the services exchange (integers,
  decimal rendering, texts as code points, datetimes with and without a UTC offset, JSON
  payloads), the result type for code that raises, and the generic list lemmas that several
  components use. The collection \<open>row_simps\<close> gathers the rewrite rules for table look-ups and
  updates.
\<close>

named_theorems row_simps

section \<open>Texts\<close>

text \<open>
  Fixed texts (actions, types, titles) are \<^typ>\<open>string\<close>. Texts supplied by users and scripts
  are lists of Unicode code points, because the code measures them in characters in one place
  and in UTF-8 bytes in another.
\<close>

type_synonym ustring = "nat list"

definition utf8_width :: "nat \<Rightarrow> nat" where
  "utf8_width c = (if c < 128 then 1 else if c < 2048 then 2 else if c < 65536 then 3 else 4)"

text \<open>\<open>len(s.encode("utf-8"))\<close>.\<close>

definition utf8_len :: "ustring \<Rightarrow> nat" where
  "utf8_len s = sum_list (map utf8_width s)"

lemma utf8_width_bounds: "1 \<le> utf8_width c" "utf8_width c \<le> 4"
  by (simp_all add: utf8_width_def)

lemma utf8_len_bounds: "length s \<le> utf8_len s" "utf8_len s \<le> 4 * length s"
proof (induction s)
  case (Cons c s)
  { case 1 then show ?case using Cons utf8_width_bounds[of c] by (simp add: utf8_len_def) }
  { case 2 then show ?case using Cons utf8_width_bounds[of c] by (simp add: utf8_len_def) }
qed (simp_all add: utf8_len_def)

lemma utf8_len_append: "utf8_len (s @ t) = utf8_len s + utf8_len t"
  by (simp add: utf8_len_def)

text \<open>Decimal rendering of an integer, Python's \<open>str(n)\<close>.\<close>

definition digit_char :: "nat \<Rightarrow> char" where
  "digit_char d = char_of (48 + d)"

fun nat_str :: "nat \<Rightarrow> string" where
  "nat_str n = (if n < 10 then [digit_char n] else nat_str (n div 10) @ [digit_char (n mod 10)])"

declare nat_str.simps [simp del]

definition int_str :: "int \<Rightarrow> string" where
  "int_str i = (if i < 0 then ''-'' @ nat_str (nat (- i)) else nat_str (nat i))"

section \<open>Datetimes\<close>

text \<open>
  A Python datetime is a wall-clock reading, in microseconds, with an optional UTC offset.
  Comparing a naive with an aware value raises \<open>TypeError\<close>, which is \<^const>\<open>None\<close> here;
  two aware values compare by instant. A DATETIME column keeps the wall-clock reading only.
\<close>

record datetime =
  dt_wall :: int
  dt_off :: "int option"

definition dt_naive :: "int \<Rightarrow> datetime" where
  "dt_naive t = \<lparr>dt_wall = t, dt_off = None\<rparr>"

definition dt_utc :: "int \<Rightarrow> datetime" where
  "dt_utc t = \<lparr>dt_wall = t, dt_off = Some 0\<rparr>"

text \<open>\<open>d.replace(tzinfo=None)\<close> and \<open>d.astimezone(UTC).replace(tzinfo=None)\<close>.\<close>

definition dt_strip :: "datetime \<Rightarrow> int" where
  "dt_strip d = dt_wall d"

definition dt_to_utc :: "datetime \<Rightarrow> int" where
  "dt_to_utc d = (case dt_off d of None \<Rightarrow> dt_wall d | Some off \<Rightarrow> dt_wall d - off)"

definition dt_cmp :: "(int \<Rightarrow> int \<Rightarrow> bool) \<Rightarrow> datetime \<Rightarrow> datetime \<Rightarrow> bool option" where
  "dt_cmp f a b = (case (dt_off a, dt_off b) of
      (None, None) \<Rightarrow> Some (f (dt_wall a) (dt_wall b))
    | (Some x, Some y) \<Rightarrow> Some (f (dt_wall a - x) (dt_wall b - y))
    | _ \<Rightarrow> None)"

definition dt_lt :: "datetime \<Rightarrow> datetime \<Rightarrow> bool option" where
  "dt_lt = dt_cmp (<)"

definition dt_le :: "datetime \<Rightarrow> datetime \<Rightarrow> bool option" where
  "dt_le = dt_cmp (\<le>)"

lemma dt_utc_sel [simp]: "dt_wall (dt_utc t) = t" "dt_off (dt_utc t) = Some 0"
    "dt_strip (dt_utc t) = t" "dt_to_utc (dt_utc t) = t"
  by (simp_all add: dt_utc_def dt_strip_def dt_to_utc_def)

lemma dt_naive_sel [simp]: "dt_wall (dt_naive t) = t" "dt_off (dt_naive t) = None"
    "dt_strip (dt_naive t) = t" "dt_to_utc (dt_naive t) = t"
  by (simp_all add: dt_naive_def dt_strip_def dt_to_utc_def)

lemma dt_cmp_utc [simp]: "dt_lt (dt_utc a) (dt_utc b) = Some (a < b)"
    "dt_le (dt_utc a) (dt_utc b) = Some (a \<le> b)"
  by (simp_all add: dt_lt_def dt_le_def dt_cmp_def)

lemma dt_cmp_naive [simp]: "dt_lt (dt_naive a) (dt_naive b) = Some (a < b)"
    "dt_le (dt_naive a) (dt_naive b) = Some (a \<le> b)"
  by (simp_all add: dt_lt_def dt_le_def dt_cmp_def)

lemma dt_cmp_mixed [simp]: "dt_lt (dt_utc a) (dt_naive b) = None" "dt_lt (dt_naive a) (dt_utc b) = None"
    "dt_le (dt_utc a) (dt_naive b) = None" "dt_le (dt_naive a) (dt_utc b) = None"
  by (simp_all add: dt_lt_def dt_le_def dt_cmp_def)

definition seconds :: "int \<Rightarrow> int" where
  "seconds n = n * 1000000"

definition minutes :: "int \<Rightarrow> int" where
  "minutes n = seconds (n * 60)"

definition days :: "int \<Rightarrow> int" where
  "days n = seconds (n * 86400)"

text \<open>
  \<open>(end - start).total_seconds() / 3600.0\<close>: the exact quotient. The double the code
  computes differs from it by less than half a microsecond for every span under two centuries,
  so its comparison with a whole number of hours has the same outcome.
\<close>

definition hours_between :: "int \<Rightarrow> int \<Rightarrow> rat" where
  "hours_between s e = of_int (e - s) / 3600000000"

lemma hours_between_gt: "hours_between s e > of_int m \<longleftrightarrow> e - s > m * 3600000000"
proof -
  have "hours_between s e > of_int m \<longleftrightarrow> (of_int (e - s) :: rat) > of_int m * 3600000000"
    by (simp add: hours_between_def pos_less_divide_eq)
  also have "\<dots> \<longleftrightarrow> (of_int (e - s) :: rat) > of_int (m * 3600000000)"
    by (simp only: of_int_mult of_int_numeral)
  finally show ?thesis by (simp only: of_int_less_iff)
qed

text \<open>\<open>round(x, 2)\<close> on the exact value, halves to even.\<close>

definition round_half_even :: "rat \<Rightarrow> int" where
  "round_half_even x = (let f = \<lfloor>x\<rfloor>; d = x - of_int f in
     if d < 1/2 then f else if d > 1/2 then f + 1 else if even f then f else f + 1)"

definition round2 :: "rat \<Rightarrow> rat" where
  "round2 x = of_int (round_half_even (x * 100)) / 100"

section \<open>JSON payloads\<close>

datatype json =
    JNull
  | JBool bool
  | JInt int
  | JNum rat
  | JStr string
  | JTime datetime
  | JList "json list"
  | JObj "(string \<times> json) list"

type_synonym payload = "(string \<times> json) list"

definition jopt :: "('a \<Rightarrow> json) \<Rightarrow> 'a option \<Rightarrow> json" where
  "jopt f x = (case x of None \<Rightarrow> JNull | Some v \<Rightarrow> f v)"

text \<open>\<open>d.update(extra)\<close> on association lists: an existing key keeps its place.\<close>

fun dict_set :: "('k \<times> 'v) list \<Rightarrow> 'k \<Rightarrow> 'v \<Rightarrow> ('k \<times> 'v) list" where
  "dict_set [] k v = [(k, v)]"
| "dict_set ((k', v') # xs) k v = (if k' = k then (k, v) # xs else (k', v') # dict_set xs k v)"

fun dict_update :: "('k \<times> 'v) list \<Rightarrow> ('k \<times> 'v) list \<Rightarrow> ('k \<times> 'v) list" where
  "dict_update d [] = d"
| "dict_update d ((k, v) # xs) = dict_update (dict_set d k v) xs"

lemma map_of_dict_set: "map_of (dict_set d k v) = (map_of d)(k \<mapsto> v)"
  by (induction d) (auto simp: fun_eq_iff)

lemma map_of_dict_update: "distinct (map fst e) \<Longrightarrow> map_of (dict_update d e) = map_of d ++ map_of e"
proof (induction e arbitrary: d)
  case (Cons x e)
  obtain k v where x: "x = (k, v)" by (cases x)
  with Cons.prems have "k \<notin> fst ` set e" by auto
  then have "map_of e k = None" by (simp add: map_of_eq_None_iff)
  with Cons x show ?case by (auto simp: map_of_dict_set fun_eq_iff map_add_def split: option.splits)
qed simp

section \<open>Results\<close>

text \<open>Code that raises returns \<^const>\<open>Inl\<close> with the error; sequencing stops at the first error.\<close>

fun rbind :: "'e + 'a \<Rightarrow> ('a \<Rightarrow> 'e + 'b) \<Rightarrow> 'e + 'b" where
  "rbind (Inl e) f = Inl e"
| "rbind (Inr a) f = f a"

lemma rbind_eq_Inr: "rbind m f = Inr b \<longleftrightarrow> (\<exists>a. m = Inr a \<and> f a = Inr b)"
  by (cases m) auto

lemma rbind_eq_Inl: "rbind m f = Inl e \<longleftrightarrow> m = Inl e \<or> (\<exists>a. m = Inr a \<and> f a = Inl e)"
  by (cases m) auto

text \<open>An operation that did not fail, with the state it left.\<close>

lemma outcome_Inr: "\<not> isl (fst x) \<Longrightarrow> \<exists>v s. x = (Inr v, s)"
  by (metis isl_def obj_sumE prod.collapse)

lemma not_isl_Inr: "\<not> isl x \<Longrightarrow> \<exists>v. x = Inr v"
  by (metis isl_def obj_sumE)

lemma rbind_cong [fundef_cong]:
  "m = m' \<Longrightarrow> (\<And>a. m' = Inr a \<Longrightarrow> f a = f' a) \<Longrightarrow> rbind m f = rbind m' f'"
  by (cases m) auto

section \<open>Lists as tables\<close>

text \<open>A table is a list of rows in primary-key order; rows are looked up and replaced by key.\<close>

definition row_by :: "('r \<Rightarrow> int) \<Rightarrow> int \<Rightarrow> 'r list \<Rightarrow> 'r option" where
  "row_by key k rs = find (\<lambda>r. key r = k) rs"

definition row_put :: "('r \<Rightarrow> int) \<Rightarrow> 'r \<Rightarrow> 'r list \<Rightarrow> 'r list" where
  "row_put key r rs = map (\<lambda>x. if key x = key r then r else x) rs"

lemma row_by_Some: "row_by key k rs = Some r \<Longrightarrow> r \<in> set rs \<and> key r = k"
  by (auto simp: row_by_def find_Some_iff)

lemma row_by_None [row_simps]: "row_by key k rs = None \<longleftrightarrow> k \<notin> key ` set rs"
  by (auto simp: row_by_def find_None_iff)

lemma row_by_in: "distinct (map key rs) \<Longrightarrow> r \<in> set rs \<Longrightarrow> row_by key (key r) rs = Some r"
proof (induction rs)
  case (Cons x rs)
  show ?case
  proof (cases "r = x")
    case True
    then show ?thesis by (simp add: row_by_def)
  next
    case False
    with Cons.prems have "r \<in> set rs" "key x \<noteq> key r"
      by (auto simp: image_iff)
    with Cons show ?thesis by (auto simp: row_by_def)
  qed
qed simp

lemma row_by_iff: "distinct (map key rs) \<Longrightarrow> row_by key k rs = Some r \<longleftrightarrow> r \<in> set rs \<and> key r = k"
  using row_by_Some row_by_in by metis

lemma map_key_row_put [row_simps]: "map key (row_put key r rs) = map key rs"
  by (induction rs) (auto simp: row_put_def)

lemma set_row_put: "distinct (map key rs) \<Longrightarrow> x \<in> set rs \<Longrightarrow> key x = key r \<Longrightarrow>
    set (row_put key r rs) = insert r (set rs - {x})"
proof (induction rs)
  case (Cons y rs)
  show ?case
  proof (cases "x = y")
    case True
    with Cons.prems have nk: "key r \<notin> key ` set rs" by auto
    then have "row_put key r rs = rs"
      unfolding row_put_def by (intro map_idI) (auto simp: image_iff)
    with True Cons.prems nk show ?thesis by (auto simp: row_put_def image_iff)
  next
    case False
    with Cons.prems have "x \<in> set rs" "key y \<noteq> key r" by (auto simp: image_iff)
    with Cons False show ?thesis by (auto simp: row_put_def)
  qed
qed simp

lemma row_by_row_put: "row_by key k (row_put key r rs) =
    (if k = key r \<and> k \<in> key ` set rs then Some r else row_by key k rs)"
  by (induction rs) (auto simp: row_put_def row_by_def)

lemma row_put_other: "x \<in> set rs \<Longrightarrow> key x \<noteq> key r \<Longrightarrow> x \<in> set (row_put key r rs)"
  by (force simp: row_put_def)

lemma row_putD: "x \<in> set (row_put key r rs) \<Longrightarrow> x = r \<or> (x \<in> set rs \<and> key x \<noteq> key r)"
  by (auto simp: row_put_def split: if_splits)

lemma row_put_id: "distinct (map key rs) \<Longrightarrow> r \<in> set rs \<Longrightarrow> row_put key r rs = rs"
proof -
  assume d: "distinct (map key rs)" and r: "r \<in> set rs"
  then have "\<And>x. x \<in> set rs \<Longrightarrow> key x = key r \<Longrightarrow> x = r"
    by (auto simp: distinct_map inj_on_def)
  then show ?thesis unfolding row_put_def by (intro map_idI) auto
qed

section \<open>Sums over sublists\<close>

lemma sum_list_filter_le_nonneg:
  fixes f :: "'a \<Rightarrow> int"
  assumes "\<And>x. x \<in> set xs \<Longrightarrow> 0 \<le> f x"
  shows "sum_list (map f (filter P xs)) \<le> sum_list (map f xs)"
  using assms by (induction xs) (auto simp: add_increasing)

lemma sum_list_filter_mono:
  fixes f :: "'a \<Rightarrow> int"
  assumes "\<And>x. x \<in> set xs \<Longrightarrow> 0 \<le> f x" and "\<And>x. x \<in> set xs \<Longrightarrow> P x \<Longrightarrow> Q x"
  shows "sum_list (map f (filter P xs)) \<le> sum_list (map f (filter Q xs))"
  using assms by (induction xs) (auto simp: add_increasing)

end
