(* ===== verification/Data_Model.thy ===== *)
theory Data_Model
  imports CoreLab_Prelude
begin

text \<open>
  The rows of \<open>backend/corelab_backend/models\<close> the services below read and write, the database
  they live in, and the request session of \<open>db.py\<close>: a transaction on that database together
  with the ORM object that was changed and not yet flushed, and the frames already pushed to
  browser sockets. The table \<open>reservation\<close> enforces its CHECK constraints and unsigned columns
  when a row is flushed (\<open>res_row_ok\<close>). DATETIME columns are integers: microseconds of the
  stored wall clock.
\<close>

section \<open>Rows\<close>

text \<open>
  Columns no modelled operation reads or writes (inventory strings of a server, telemetry columns
  of a GPU) are left out of the records.
\<close>

datatype res_status = Scheduled | Active | Completed | Cancelled | Failed

datatype script_status = S_Running | S_Completed | S_Failed | S_Killed

datatype link_source = SshChallenge | PasswordPam | AdminPreparedThenSsh | AdminDeclared

datatype server_status = Pending | Online | Offline | Maintenance

datatype user_role = RoleUser | RoleLabAdmin

record user =
  u_id :: int
  u_lab_id :: int
  u_username :: string
  u_role :: user_role
  u_is_active :: bool
  u_email :: string
  u_display_name :: ustring
  u_password_hash :: "string option"
  u_last_login_at :: "int option"
  u_created_by_user_id :: "int option"

record server =
  srv_id :: int
  srv_lab_id :: int
  srv_hostname :: string
  srv_status :: server_status
  srv_last_heartbeat_at :: "int option"
  srv_max_reservation_hours :: "int option"
  srv_is_active :: bool
  srv_approved_at :: "int option"
  srv_approved_by_user_id :: "int option"
  srv_display_name :: "string option"
  srv_agent_token_hash :: "string option"
  srv_agent_version :: "string option"
  srv_created_by_user_id :: "int option"

record gpu =
  gpu_id :: int
  gpu_server_id :: int
  gpu_index :: int
  gpu_memory_total_mb :: "int option"
  gpu_is_active :: bool

datatype pa_source = AgentCreated | DiscoveredScan | AdminManualRegister

record physical_account =
  pa_id :: int
  pa_server_id :: int
  pa_linux_username :: string
  pa_is_active :: bool
  pa_uid :: "int option"
  pa_gid :: "int option"
  pa_home_directory :: "string option"
  pa_default_shell :: "string option"
  pa_source :: pa_source
  pa_created_by_user_id :: "int option"
  pa_notes :: "ustring option"
  pa_last_seen_at :: "int option"

record account_link =
  al_id :: int
  al_user_id :: int
  al_physical_account_id :: int
  al_source :: link_source
  al_is_active :: bool
  al_proof_evidence :: payload
  al_established_at :: int
  al_established_by_user_id :: int
  al_revoked_by_user_id :: "int option"
  al_revoked_at :: "int option"
  al_revoke_reason :: "string option"

text \<open>The keys of a user, their copies on physical accounts, and the requests for an account.\<close>

record ssh_public_key =
  sk_id :: int
  sk_user_id :: int
  sk_public_key :: ustring
  sk_fingerprint_sha256 :: string
  sk_key_type :: string
  sk_comment :: "ustring option"
  sk_is_active :: bool
  sk_disabled_at :: "int option"

record authorized_key_entry =
  ke_id :: int
  ke_physical_account_id :: int
  ke_ssh_public_key_id :: int
  ke_pushed_by_user_id :: int
  ke_pushed_for_user_id :: int
  ke_pushed_at :: int
  ke_is_active :: bool
  ke_removed_at :: "int option"
  ke_removed_by_user_id :: "int option"

datatype request_status = ReqPending | ReqApproved | ReqDenied | ReqWithdrawn

record account_link_request =
  lr_id :: int
  lr_requester_user_id :: int
  lr_physical_account_id :: int
  lr_status :: request_status
  lr_request_note :: "ustring option"
  lr_decided_by_user_id :: "int option"
  lr_decided_at :: "int option"
  lr_decision_note :: "ustring option"
  lr_created_at :: int

text \<open>What the administrator of a server allows its agent to do.\<close>

record agent_capability =
  cp_id :: int
  cp_server_id :: int
  cp_capability_key :: string
  cp_is_enabled :: bool
  cp_is_dangerous :: bool
  cp_notes :: "ustring option"
  cp_updated_by_user_id :: int

text \<open>One-time tokens; the tables hold their hashes.\<close>

record enrollment_token =
  en_id :: int
  en_lab_id :: int
  en_token_hash :: string
  en_expected_hostname_pattern :: "string option"
  en_expires_at :: int
  en_used_at :: "int option"
  en_used_by_server_id :: "int option"
  en_created_at :: int
  en_created_by_user_id :: int

datatype token_purpose = Activation | PasswordReset

record setup_token =
  tk_id :: int
  tk_user_id :: int
  tk_token_hash :: string
  tk_purpose :: token_purpose
  tk_expires_at :: int
  tk_used_at :: "int option"
  tk_created_by_user_id :: "int option"

record registration_invite =
  ri_id :: int
  ri_lab_id :: int
  ri_token_hash :: string
  ri_role :: user_role
  ri_expires_at :: int
  ri_used_at :: "int option"
  ri_used_by_user_id :: "int option"
  ri_created_at :: int
  ri_created_by_user_id :: "int option"

record server_admin_grant =
  gr_id :: int
  gr_user_id :: int
  gr_server_id :: int
  gr_is_active :: bool
  gr_granted_by_user_id :: int
  gr_notes :: "ustring option"
  gr_revoked_by_user_id :: "int option"
  gr_revoked_at :: "int option"

record reservation =
  r_id :: int
  r_user_id :: int
  r_server_id :: int
  r_gpu_id :: "int option"
  r_account_link_id :: int
  r_group_id :: "string option"
  r_start_at :: int
  r_end_at :: int
  r_status :: res_status
  r_gpu_memory_mb :: "int option"
  r_gpu_compute_share_pct :: "int option"
  r_script :: "ustring option"
  r_script_scheduled_start_at :: "int option"
  r_script_max_runtime_seconds :: "int option"
  r_script_started_at :: "int option"
  r_script_finished_at :: "int option"
  r_script_exit_code :: "int option"
  r_script_output_size_bytes :: "int option"
  r_script_log_path :: "string option"
  r_script_log_tail_text :: "ustring option"
  r_script_log_tail_truncated :: bool
  r_script_status :: "script_status option"
  r_script_dispatch_started_at :: "int option"
  r_created_at :: int
  r_cancelled_at :: "int option"
  r_cancelled_by_user_id :: "int option"
  r_cancellation_reason :: "string option"

record audit_entry =
  au_id :: int
  au_action :: string
  au_actor_user_id :: "int option"
  au_lab_id :: "int option"
  au_target_type :: "string option"
  au_target_id :: "int option"
  au_target_lab_id :: "int option"
  au_target_server_id :: "int option"
  au_payload :: "payload option"
  au_ip_address :: "string option"
  au_user_agent :: "string option"
  au_result :: string
  au_error_message :: "string option"
  au_created_at :: int

text \<open>What an agent watches for on a server, and the events it raised.\<close>

datatype policy_severity = LogOnly | Notify | SevWarn | AutoKill

record agent_policy =
  ap_id :: int
  ap_server_id :: int
  ap_policy_key :: string
  ap_enabled :: bool
  ap_severity :: policy_severity
  ap_threshold_value :: "payload option"
  ap_grace_period_seconds :: "int option"
  ap_notify_admin :: bool
  ap_notes :: "ustring option"
  ap_updated_by_user_id :: int

datatype alert_severity = AlertInfo | AlertWarn | AlertCritical

record alert_event =
  ev_id :: int
  ev_server_id :: int
  ev_gpu_id :: "int option"
  ev_reservation_id :: "int option"
  ev_event_type :: string
  ev_severity :: alert_severity
  ev_payload :: "payload option"
  ev_notified_user_ids :: "int list"
  ev_is_resolved :: bool
  ev_resolved_at :: "int option"
  ev_resolved_by_user_id :: "int option"
  ev_resolution_note :: "ustring option"
  ev_created_at :: int

text \<open>A laboratory; the column of its addresses holds JSON.\<close>

record lab =
  lab_id :: int
  lab_name :: ustring
  lab_slug :: string
  lab_public_urls :: "json list"

datatype severity = Info | Warn | Error

record notification =
  nt_id :: int
  nt_recipient_user_id :: int
  nt_type :: string
  nt_severity :: severity
  nt_title :: string
  nt_body :: "string option"
  nt_payload :: "payload option"
  nt_cta_url :: "string option"
  nt_is_read :: bool
  nt_created_at :: int

text \<open>The literals stored in the \<open>status\<close> and \<open>script_status\<close> columns.\<close>

fun status_str :: "res_status \<Rightarrow> string" where
  "status_str Scheduled = ''scheduled''"
| "status_str Active = ''active''"
| "status_str Completed = ''completed''"
| "status_str Cancelled = ''cancelled''"
| "status_str Failed = ''failed''"

fun script_status_str :: "script_status \<Rightarrow> string" where
  "script_status_str S_Running = ''running''"
| "script_status_str S_Completed = ''completed''"
| "script_status_str S_Failed = ''failed''"
| "script_status_str S_Killed = ''killed''"

text \<open>\<open>ACTIVE_STATUSES\<close> and \<open>TERMINAL_STATUSES\<close>.\<close>

definition active_status :: "res_status \<Rightarrow> bool" where
  "active_status s \<longleftrightarrow> s = Scheduled \<or> s = Active"

definition terminal_status :: "res_status \<Rightarrow> bool" where
  "terminal_status s \<longleftrightarrow> s = Completed \<or> s = Cancelled \<or> s = Failed"

lemma active_status_simps [simp]: "active_status Scheduled" "active_status Active"
    "\<not> active_status Completed" "\<not> active_status Cancelled" "\<not> active_status Failed"
  by (simp_all add: active_status_def)

lemma terminal_not_active: "terminal_status s \<longleftrightarrow> \<not> active_status s"
  by (cases s) (simp_all add: terminal_status_def)

section \<open>The CHECK constraints of the reservation table\<close>

definition ck_res_time_order :: "reservation \<Rightarrow> bool" where
  "ck_res_time_order r \<longleftrightarrow> r_start_at r < r_end_at r"

definition ck_res_script_time :: "reservation \<Rightarrow> bool" where
  "ck_res_script_time r \<longleftrightarrow> (case r_script_scheduled_start_at r of None \<Rightarrow> True
     | Some t \<Rightarrow> r_start_at r \<le> t \<and> t < r_end_at r)"

definition ck_res_compute_pct :: "reservation \<Rightarrow> bool" where
  "ck_res_compute_pct r \<longleftrightarrow> (case r_gpu_compute_share_pct r of None \<Rightarrow> True
     | Some p \<Rightarrow> 1 \<le> p \<and> p \<le> 100)"

text \<open>\<open>INTEGER(unsigned=True)\<close>: MySQL rejects a value out of range in strict mode.\<close>

definition unsigned_int_col :: "int option \<Rightarrow> bool" where
  "unsigned_int_col c \<longleftrightarrow> (case c of None \<Rightarrow> True | Some v \<Rightarrow> 0 \<le> v \<and> v < 2 ^ 32)"

definition signed_int_col :: "int option \<Rightarrow> bool" where
  "signed_int_col c \<longleftrightarrow> (case c of None \<Rightarrow> True | Some v \<Rightarrow> - (2 ^ 31) \<le> v \<and> v < 2 ^ 31)"

text \<open>A VARCHAR column counts characters: the bytes of a text that do not continue one.\<close>

definition char_count :: "string \<Rightarrow> nat" where
  "char_count s = length (filter (\<lambda>c. \<not> (128 \<le> (of_char c :: nat) \<and> (of_char c :: nat) < 192)) s)"

definition varchar_col :: "nat \<Rightarrow> string option \<Rightarrow> bool" where
  "varchar_col n c \<longleftrightarrow> (case c of None \<Rightarrow> True | Some v \<Rightarrow> char_count v \<le> n)"

text \<open>A TEXT column holds at most 65,535 bytes.\<close>

definition text_col :: "ustring option \<Rightarrow> bool" where
  "text_col c \<longleftrightarrow> (case c of None \<Rightarrow> True | Some v \<Rightarrow> utf8_len v \<le> 65535)"

definition res_row_ok :: "reservation \<Rightarrow> bool" where
  "res_row_ok r \<longleftrightarrow> ck_res_time_order r \<and> ck_res_script_time r \<and> ck_res_compute_pct r
     \<and> unsigned_int_col (r_gpu_memory_mb r) \<and> unsigned_int_col (r_script_max_runtime_seconds r)
     \<and> text_col (r_script r) \<and> text_col (r_script_log_tail_text r)
     \<and> signed_int_col (r_script_exit_code r) \<and> unsigned_int_col (r_script_output_size_bytes r)
     \<and> varchar_col 255 (r_script_log_path r)"

text \<open>The constraints read the times and quantities only.\<close>

lemma res_row_ok_upd [simp]:
    "res_row_ok (r\<lparr>r_id := i\<rparr>) = res_row_ok r"
    "res_row_ok (r\<lparr>r_status := st\<rparr>) = res_row_ok r"
    "res_row_ok (r\<lparr>r_script_status := ss\<rparr>) = res_row_ok r"
    "res_row_ok (r\<lparr>r_script_started_at := t\<rparr>) = res_row_ok r"
    "res_row_ok (r\<lparr>r_script_finished_at := t\<rparr>) = res_row_ok r"
    "res_row_ok (r\<lparr>r_script_log_tail_truncated := b\<rparr>) = res_row_ok r"
    "res_row_ok (r\<lparr>r_script_dispatch_started_at := t\<rparr>) = res_row_ok r"
    "res_row_ok (r\<lparr>r_cancelled_at := t\<rparr>) = res_row_ok r"
    "res_row_ok (r\<lparr>r_cancelled_by_user_id := u\<rparr>) = res_row_ok r"
    "res_row_ok (r\<lparr>r_cancellation_reason := cr\<rparr>) = res_row_ok r"
  by (simp_all add: res_row_ok_def ck_res_time_order_def ck_res_script_time_def ck_res_compute_pct_def
      split: option.split)

text \<open>What a script reports goes into columns of limited range.\<close>

lemma res_row_ok_reported:
    "res_row_ok (r\<lparr>r_script_exit_code := x\<rparr>) \<Longrightarrow> signed_int_col x"
    "res_row_ok (r\<lparr>r_script_output_size_bytes := y\<rparr>) \<Longrightarrow> unsigned_int_col y"
    "res_row_ok (r\<lparr>r_script_log_path := p\<rparr>) \<Longrightarrow> varchar_col 255 p"
    "res_row_ok r \<Longrightarrow> res_row_ok (r\<lparr>r_script_exit_code := x\<rparr>) = signed_int_col x"
    "res_row_ok r \<Longrightarrow> res_row_ok (r\<lparr>r_script_output_size_bytes := y\<rparr>) = unsigned_int_col y"
    "res_row_ok r \<Longrightarrow> res_row_ok (r\<lparr>r_script_log_path := p\<rparr>) = varchar_col 255 p"
  by (auto simp: res_row_ok_def ck_res_time_order_def ck_res_script_time_def ck_res_compute_pct_def split: option.splits)

section \<open>The database\<close>

record db =
  d_users :: "int \<rightharpoonup> user"
  d_servers :: "int \<rightharpoonup> server"
  d_gpus :: "int \<rightharpoonup> gpu"
  d_gpu_ids :: "int list"
  d_pas :: "int \<rightharpoonup> physical_account"
  d_links :: "int \<rightharpoonup> account_link"
  d_link_ids :: "int list"
  d_grants :: "server_admin_grant list"
  d_reservations :: "reservation list"
  d_next_reservation :: int
  d_audit :: "audit_entry list"
  d_next_audit :: int
  d_notifications :: "notification list"
  d_next_notification :: int
  d_user_ids :: "int list"
  d_ssh_keys :: "ssh_public_key list"
  d_next_ssh_key :: int
  d_key_entries :: "authorized_key_entry list"
  d_next_key_entry :: int
  d_link_requests :: "account_link_request list"
  d_next_link_request :: int
  d_setup_tokens :: "setup_token list"
  d_next_setup_token :: int
  d_invites :: "registration_invite list"
  d_next_invite :: int
  d_next_link :: int
  d_pa_ids :: "int list"
  d_next_user :: int
  d_server_ids :: "int list"
  d_next_server :: int
  d_enrollments :: "enrollment_token list"
  d_next_enrollment :: int
  d_capabilities :: "agent_capability list"
  d_next_capability :: int
  d_next_grant :: int
  d_next_gpu :: int
  d_next_pa :: int
  d_policies :: "agent_policy list"
  d_next_policy :: int
  d_alerts :: "alert_event list"
  d_next_alert :: int
  d_labs :: "lab list"
  d_next_lab :: int

definition db_empty :: db where
  "db_empty = \<lparr>d_users = Map.empty, d_servers = Map.empty, d_gpus = Map.empty, d_gpu_ids = [], d_pas = Map.empty,
     d_links = Map.empty, d_link_ids = [], d_grants = [], d_reservations = [], d_next_reservation = 1,
     d_audit = [], d_next_audit = 1, d_notifications = [], d_next_notification = 1,
     d_user_ids = [],
     d_ssh_keys = [], d_next_ssh_key = 1, d_key_entries = [], d_next_key_entry = 1, d_link_requests = [],
     d_next_link_request = 1, d_setup_tokens = [], d_next_setup_token = 1, d_invites = [], d_next_invite = 1,
     d_next_link = 1, d_pa_ids = [], d_next_user = 1,
     d_server_ids = [], d_next_server = 1, d_enrollments = [], d_next_enrollment = 1, d_capabilities = [],
     d_next_capability = 1, d_next_grant = 1, d_next_gpu = 1, d_next_pa = 1,
     d_policies = [], d_next_policy = 1, d_alerts = [], d_next_alert = 1, d_labs = [], d_next_lab = 1\<rparr>"

text \<open>The rows of a table in primary-key order, for the queries that scan it.\<close>

definition link_rows :: "db \<Rightarrow> account_link list" where
  "link_rows d = List.map_filter (d_links d) (d_link_ids d)"

definition user_rows :: "db \<Rightarrow> user list" where
  "user_rows d = List.map_filter (d_users d) (d_user_ids d)"

definition pa_rows :: "db \<Rightarrow> physical_account list" where
  "pa_rows d = List.map_filter (d_pas d) (d_pa_ids d)"

definition server_rows :: "db \<Rightarrow> server list" where
  "server_rows d = List.map_filter (d_servers d) (d_server_ids d)"

definition gpu_rows :: "db \<Rightarrow> gpu list" where
  "gpu_rows d = List.map_filter (d_gpus d) (d_gpu_ids d)"

text \<open>
  Primary keys are unique and below the AUTO_INCREMENT counter, and rows satisfy the constraints.
\<close>

definition db_wf :: "db \<Rightarrow> bool" where
  "db_wf d \<longleftrightarrow> distinct (map r_id (d_reservations d))
     \<and> (\<forall>r \<in> set (d_reservations d). r_id r < d_next_reservation d \<and> res_row_ok r)"

lemma db_wf_empty [simp]: "db_wf db_empty"
  by (simp add: db_wf_def db_empty_def)

section \<open>The session\<close>

text \<open>
  \<open>get_session_factory\<close> builds sessions with \<open>autoflush=False\<close>: a query never sees an ORM
  object that was changed and not flushed (\<open>s_dirty\<close>), but \<open>commit\<close> flushes it. Pushed frames
  (\<open>s_pushes\<close>) leave the process at once and no rollback recalls them. \<open>s_clock\<close> is the
  reading of \<open>datetime.now(UTC)\<close> and of CURRENT_TIMESTAMP during the operation.
\<close>

datatype ws_frame =
    ReservationStatusChange payload
  | NotificationNew payload
  | AlertNew payload

record session =
  s_db :: db
  s_dirty :: "reservation option"
  s_pushes :: "(int \<times> ws_frame) list"
  s_clock :: int

definition open_session :: "db \<Rightarrow> int \<Rightarrow> session" where
  "open_session d clock = \<lparr>s_db = d, s_dirty = None, s_pushes = [], s_clock = clock\<rparr>"

lemma open_session_simps [simp]: "s_db (open_session d c) = d" "s_dirty (open_session d c) = None"
    "s_pushes (open_session d c) = []" "s_clock (open_session d c) = c"
  by (simp_all add: open_session_def)

definition reservations :: "session \<Rightarrow> reservation list" where
  "reservations s = d_reservations (s_db s)"

lemma reservations_upd [simp]: "reservations (s\<lparr>s_dirty := x\<rparr>) = reservations s"
    "reservations (s\<lparr>s_pushes := p\<rparr>) = reservations s" "reservations (s\<lparr>s_clock := c\<rparr>) = reservations s"
    "reservations (s\<lparr>s_db := d\<rparr>) = d_reservations d"
  by (simp_all add: reservations_def)

definition get_reservation :: "session \<Rightarrow> int \<Rightarrow> reservation option" where
  "get_reservation s i = row_by r_id i (reservations s)"

text \<open>UPDATE of one row, INSERT of one row (the id comes from AUTO_INCREMENT).\<close>

definition db_update_res :: "reservation \<Rightarrow> db \<Rightarrow> db" where
  "db_update_res r d = d\<lparr>d_reservations := row_put r_id r (d_reservations d)\<rparr>"

definition db_insert_res :: "reservation \<Rightarrow> db \<Rightarrow> db" where
  "db_insert_res r d = d\<lparr>d_reservations := d_reservations d @ [r\<lparr>r_id := d_next_reservation d\<rparr>],
     d_next_reservation := d_next_reservation d + 1\<rparr>"

definition s_update_res :: "reservation \<Rightarrow> session \<Rightarrow> session" where
  "s_update_res r s = s\<lparr>s_db := db_update_res r (s_db s)\<rparr>"

lemma s_update_res_sel [row_simps]:
    "reservations (s_update_res r s) = row_put r_id r (reservations s)"
    "s_dirty (s_update_res r s) = s_dirty s" "s_pushes (s_update_res r s) = s_pushes s"
    "s_clock (s_update_res r s) = s_clock s" "d_servers (s_db (s_update_res r s)) = d_servers (s_db s)"
    "d_gpus (s_db (s_update_res r s)) = d_gpus (s_db s)"
    "d_links (s_db (s_update_res r s)) = d_links (s_db s)"
    "d_pas (s_db (s_update_res r s)) = d_pas (s_db s)"
    "d_grants (s_db (s_update_res r s)) = d_grants (s_db s)"
    "d_audit (s_db (s_update_res r s)) = d_audit (s_db s)"
    "d_next_reservation (s_db (s_update_res r s)) = d_next_reservation (s_db s)"
    "d_notifications (s_db (s_update_res r s)) = d_notifications (s_db s)"
  by (simp_all add: s_update_res_def db_update_res_def reservations_def)

lemma db_wf_update: "db_wf d \<Longrightarrow> res_row_ok r \<Longrightarrow> r_id r < d_next_reservation d \<Longrightarrow> db_wf (db_update_res r d)"
  by (auto simp: db_wf_def db_update_res_def row_simps dest: row_putD)

lemma db_wf_insert: "db_wf d \<Longrightarrow> res_row_ok r \<Longrightarrow> db_wf (db_insert_res r d)"
  unfolding db_wf_def db_insert_res_def by auto

section \<open>Errors of the reservation services\<close>

text \<open>
  One constructor per exception class of \<open>reservation_service\<close>, with the attributes the API
  layer reads; \<open>InvalidTimeError\<close> keeps which check raised it in place of the message. The last
  two are not \<open>ReservationError\<close>s: Python's \<open>TypeError\<close> and the error of a flush the database refuses (an
  \<open>IntegrityError\<close> or \<open>DataError\<close>).
\<close>

datatype invalid_time =
    NoItems
  | GpuNullRequiresScript nat
  | GpuNullWithShare nat
  | EndNotAfterStart
  | StartInPast
  | ServerMissing int
  | ScriptStartOutOfRange
  | GpuMissing int

datatype res_error =
    ReservationError
  | ReservationOverlapError "int list"
  | ReservationMemoryExceededError int int int "int list"
  | ReservationComputeExceededError int int "int list"
  | ReservationMixExclusiveSharedError "int list"
  | ReservationTooLongError int rat
  | InvalidTimeError invalid_time
  | LinkNotVerifiedError int
  | NoActiveLinkError int
  | ScriptTooLargeError
  | ReservationNotFoundError
  | CancelNotPermittedError
  | GroupCancelRunningScriptError "int list"
  | ReservationIllegalTransitionError string string
  | PyTypeError
  | DbFlushError

text \<open>\<open>isinstance(exc, ReservationError)\<close>.\<close>

fun is_reservation_error :: "res_error \<Rightarrow> bool" where
  "is_reservation_error PyTypeError = False"
| "is_reservation_error DbFlushError = False"
| "is_reservation_error _ = True"

text \<open>\<open>flush\<close> of one changed row: the constraints are checked, then the row is written.\<close>

definition flush_res :: "reservation \<Rightarrow> session \<Rightarrow> res_error + session" where
  "flush_res r s = (if res_row_ok r then Inr ((s_update_res r s)\<lparr>s_dirty := None\<rparr>) else Inl DbFlushError)"

text \<open>
  \<open>commit\<close> flushes what is still dirty. \<open>get_session\<close> commits after a normal return and after an
  \<open>HTTPException\<close>, and rolls back after any other exception, a failing flush included.
\<close>

definition commit :: "session \<Rightarrow> res_error + db" where
  "commit s = (case s_dirty s of None \<Rightarrow> Inr (s_db s)
     | Some r \<Rightarrow> (case flush_res r s of Inl e \<Rightarrow> Inl e | Inr s' \<Rightarrow> Inr (s_db s')))"

lemma commit_clean [simp]: "s_dirty s = None \<Longrightarrow> commit s = Inr (s_db s)"
  by (simp add: commit_def)

section \<open>Other tables\<close>

text \<open>
  The services of the remaining tables flush every change before they read the table again, so a
  change goes to the database at once.
\<close>

definition upd_db :: "(db \<Rightarrow> db) \<Rightarrow> session \<Rightarrow> session" where
  "upd_db f s = s\<lparr>s_db := f (s_db s)\<rparr>"

lemma upd_db_sel [simp]: "s_db (upd_db f s) = f (s_db s)" "s_dirty (upd_db f s) = s_dirty s"
    "s_pushes (upd_db f s) = s_pushes s" "s_clock (upd_db f s) = s_clock s"
  by (simp_all add: upd_db_def)

text \<open>\<open>scalar_one_or_none\<close>: more than one row is an exception.\<close>

definition one_or_none :: "'e \<Rightarrow> 'a list \<Rightarrow> 'e + 'a option" where
  "one_or_none e xs = (case xs of [] \<Rightarrow> Inr None | [x] \<Rightarrow> Inr (Some x) | _ \<Rightarrow> Inl e)"

lemma one_or_none_simps [simp]: "one_or_none e [] = Inr None" "one_or_none e [x] = Inr (Some x)"
    "one_or_none e (x # y # zs) = Inl e"
  by (simp_all add: one_or_none_def)

lemma one_or_none_Some: "one_or_none e xs = Inr (Some x) \<longleftrightarrow> xs = [x]"
  by (cases xs rule: remdups_adj.cases) auto

lemma one_or_none_None: "one_or_none e xs = Inr None \<longleftrightarrow> xs = []"
  by (cases xs rule: remdups_adj.cases) auto

end
