(* ===== verification/Audit_Notify.thy ===== *)
theory Audit_Notify
  imports Data_Model "HOL-Library.Product_Lexorder"
begin

text \<open>
  \<open>services/audit_service.py\<close> (the append-only writer and the lab-scoped read surface) and
  \<open>services/notification_service.py\<close> (persist, de-duplicate, push). Both writers append rows of
  their own tables; every caller has flushed its reservation row before it calls them. The
  soft-failure branches (a log line instead of an exception when the database or a socket is
  down) are not modelled: the database accepts the row and the push is recorded.
\<close>

section \<open>Writing audit rows\<close>

record req_ctx =
  rc_ip :: "string option"
  rc_ua :: "string option"

definition no_ctx :: req_ctx where
  "no_ctx = \<lparr>rc_ip = None, rc_ua = None\<rparr>"

text \<open>The keyword arguments of \<open>write\<close>; \<open>result\<close> and \<open>error_message\<close> keep their defaults.\<close>

definition audit_of :: "string \<Rightarrow> int option \<Rightarrow> int option \<Rightarrow> string option \<Rightarrow> int option \<Rightarrow>
    int option \<Rightarrow> int option \<Rightarrow> payload option \<Rightarrow> req_ctx \<Rightarrow> audit_entry" where
  "audit_of action actor lab ttype tid tlab tserver pl c =
    \<lparr>au_id = 0, au_action = action, au_actor_user_id = actor, au_lab_id = lab, au_target_type = ttype,
     au_target_id = tid, au_target_lab_id = tlab, au_target_server_id = tserver, au_payload = pl,
     au_ip_address = rc_ip c, au_user_agent = rc_ua c, au_result = ''ok'', au_error_message = None,
     au_created_at = 0\<rparr>"

definition audit_write :: "audit_entry \<Rightarrow> session \<Rightarrow> session" where
  "audit_write e s = s\<lparr>s_db := (s_db s)\<lparr>
     d_audit := d_audit (s_db s) @ [e\<lparr>au_id := d_next_audit (s_db s), au_created_at := s_clock s\<rparr>],
     d_next_audit := d_next_audit (s_db s) + 1\<rparr>\<rparr>"

lemma audit_write_sel [row_simps]:
    "reservations (audit_write e s) = reservations s" "s_dirty (audit_write e s) = s_dirty s"
    "s_pushes (audit_write e s) = s_pushes s" "s_clock (audit_write e s) = s_clock s"
    "d_servers (s_db (audit_write e s)) = d_servers (s_db s)"
    "d_gpus (s_db (audit_write e s)) = d_gpus (s_db s)"
    "d_links (s_db (audit_write e s)) = d_links (s_db s)"
    "d_pas (s_db (audit_write e s)) = d_pas (s_db s)"
    "d_grants (s_db (audit_write e s)) = d_grants (s_db s)"
    "d_reservations (s_db (audit_write e s)) = d_reservations (s_db s)"
    "d_next_reservation (s_db (audit_write e s)) = d_next_reservation (s_db s)"
    "d_notifications (s_db (audit_write e s)) = d_notifications (s_db s)"
    "d_audit (s_db (audit_write e s)) =
       d_audit (s_db s) @ [e\<lparr>au_id := d_next_audit (s_db s), au_created_at := s_clock s\<rparr>]"
  by (simp_all add: audit_write_def reservations_def)

lemma db_wf_audit_write [simp]: "db_wf (s_db (audit_write e s)) = db_wf (s_db s)"
  by (simp add: db_wf_def row_simps)

section \<open>Reading audit rows\<close>

datatype audit_scope = ScopeAll | ScopeServerAdmin | ScopeUser

record audit_access_ctx =
  ac_scope :: audit_scope
  ac_server_ids :: "int list"
  ac_forced_actor_user_id :: "int option"

record audit_filters =
  af_actor_user_id :: "int option"
  af_action :: "string option"
  af_target_type :: "string option"
  af_target_server_id :: "int option"
  af_created_at_from :: "int option"
  af_created_at_to :: "int option"

definition server_in_lab :: "db \<Rightarrow> int \<Rightarrow> int \<Rightarrow> bool" where
  "server_in_lab d lab sid \<longleftrightarrow> (case d_servers d sid of None \<Rightarrow> False | Some sv \<Rightarrow> srv_lab_id sv = lab)"

text \<open>
  \<open>_apply_scope\<close>: a comparison with NULL is not true. The \<open>user\<close> scope asserts that the caller's
  id is set; \<^const>\<open>None\<close> is the failed assertion.
\<close>

definition in_lab_scope :: "db \<Rightarrow> int \<Rightarrow> audit_entry \<Rightarrow> bool" where
  "in_lab_scope d lab e \<longleftrightarrow> au_lab_id e = Some lab
     \<or> (case au_target_server_id e of None \<Rightarrow> False | Some sid \<Rightarrow> server_in_lab d lab sid)"

definition apply_scope :: "db \<Rightarrow> audit_access_ctx \<Rightarrow> int \<Rightarrow> audit_entry list \<Rightarrow> audit_entry list option" where
  "apply_scope d c lab es = (let base = filter (in_lab_scope d lab) es in
     case ac_scope c of
       ScopeAll \<Rightarrow> Some base
     | ScopeServerAdmin \<Rightarrow> Some (if ac_server_ids c = [] then []
         else filter (\<lambda>e. \<exists>sid \<in> set (ac_server_ids c). au_target_server_id e = Some sid) base)
     | ScopeUser \<Rightarrow> (case ac_forced_actor_user_id c of None \<Rightarrow> None
         | Some u \<Rightarrow> Some (filter (\<lambda>e. au_actor_user_id e = Some u) base)))"

definition opt_filter :: "'v option \<Rightarrow> ('v \<Rightarrow> 'a \<Rightarrow> bool) \<Rightarrow> 'a list \<Rightarrow> 'a list" where
  "opt_filter v p xs = (case v of None \<Rightarrow> xs | Some x \<Rightarrow> filter (p x) xs)"

definition apply_filters :: "audit_filters \<Rightarrow> audit_entry list \<Rightarrow> audit_entry list" where
  "apply_filters f es =
     opt_filter (af_created_at_to f) (\<lambda>t e. au_created_at e \<le> t)
    (opt_filter (af_created_at_from f) (\<lambda>t e. au_created_at e \<ge> t)
    (opt_filter (af_target_server_id f) (\<lambda>v e. au_target_server_id e = Some v)
    (opt_filter (af_target_type f) (\<lambda>v e. au_target_type e = Some v)
    (opt_filter (af_action f) (\<lambda>v e. au_action e = v)
    (opt_filter (af_actor_user_id f) (\<lambda>v e. au_actor_user_id e = Some v) es)))))"

text \<open>\<open>ORDER BY created_at DESC, id DESC\<close>.\<close>

definition newest_first :: "audit_entry list \<Rightarrow> audit_entry list" where
  "newest_first es = sort_key (\<lambda>e. (- au_created_at e, - au_id e)) es"

text \<open>\<open>_serialise\<close>, with the user row found for the actor.\<close>

definition serialise_audit :: "db \<Rightarrow> audit_entry \<Rightarrow> payload" where
  "serialise_audit d e =
    [(''id'', JInt (au_id e)),
     (''actor'', (case au_actor_user_id e of None \<Rightarrow> JNull
        | Some u \<Rightarrow> JObj [(''id'', JInt u), (''username'', jopt (JStr \<circ> u_username) (d_users d u))])),
     (''action'', JStr (au_action e)),
     (''target_type'', jopt JStr (au_target_type e)),
     (''target_id'', jopt JInt (au_target_id e)),
     (''target_server_id'', jopt JInt (au_target_server_id e)),
     (''payload'', jopt JObj (au_payload e)),
     (''ip_address'', jopt JStr (au_ip_address e)),
     (''result'', JStr (au_result e)),
     (''created_at'', JTime (dt_naive (au_created_at e)))]"

definition list_logs :: "db \<Rightarrow> int \<Rightarrow> audit_access_ctx \<Rightarrow> audit_filters \<Rightarrow> nat \<Rightarrow> nat \<Rightarrow>
    (payload list \<times> nat) option" where
  "list_logs d lab c f page psize = (case apply_scope d c lab (d_audit d) of None \<Rightarrow> None
     | Some scoped \<Rightarrow> (let base = apply_filters f scoped;
                          rows = take psize (drop ((page - 1) * psize) (newest_first base)) in
         Some (map (serialise_audit d) rows, length base)))"

text \<open>\<open>get_log\<close>: the outer option is the failed assertion, the inner one the absent row.\<close>

definition get_log :: "db \<Rightarrow> int \<Rightarrow> int \<Rightarrow> audit_access_ctx \<Rightarrow> payload option option" where
  "get_log d aid lab c = (case apply_scope d c lab (filter (\<lambda>e. au_id e = aid) (d_audit d)) of
     None \<Rightarrow> None | Some [] \<Rightarrow> Some None | Some (e # _) \<Rightarrow> Some (Some (serialise_audit d e)))"

text \<open>What a caller may see, stated without the query.\<close>

definition may_see :: "db \<Rightarrow> int \<Rightarrow> audit_access_ctx \<Rightarrow> audit_entry \<Rightarrow> bool" where
  "may_see d lab c e \<longleftrightarrow> in_lab_scope d lab e \<and> (case ac_scope c of
       ScopeAll \<Rightarrow> True
     | ScopeServerAdmin \<Rightarrow> (\<exists>sid \<in> set (ac_server_ids c). au_target_server_id e = Some sid)
     | ScopeUser \<Rightarrow> (\<exists>u. ac_forced_actor_user_id c = Some u \<and> au_actor_user_id e = Some u))"

definition scope_ok :: "audit_access_ctx \<Rightarrow> bool" where
  "scope_ok c \<longleftrightarrow> (ac_scope c = ScopeUser \<longrightarrow> ac_forced_actor_user_id c \<noteq> None)"

definition passes :: "audit_filters \<Rightarrow> audit_entry \<Rightarrow> bool" where
  "passes f e \<longleftrightarrow> (\<forall>v. af_actor_user_id f = Some v \<longrightarrow> au_actor_user_id e = Some v)
     \<and> (\<forall>v. af_action f = Some v \<longrightarrow> au_action e = v)
     \<and> (\<forall>v. af_target_type f = Some v \<longrightarrow> au_target_type e = Some v)
     \<and> (\<forall>v. af_target_server_id f = Some v \<longrightarrow> au_target_server_id e = Some v)
     \<and> (\<forall>t. af_created_at_from f = Some t \<longrightarrow> t \<le> au_created_at e)
     \<and> (\<forall>t. af_created_at_to f = Some t \<longrightarrow> au_created_at e \<le> t)"

lemma opt_filter_all: "opt_filter v p xs = filter (\<lambda>e. \<forall>x. v = Some x \<longrightarrow> p x e) xs"
  by (cases v) (simp_all add: opt_filter_def)

lemma apply_filters_filter: "apply_filters f es = filter (passes f) es"
  by (simp add: apply_filters_def opt_filter_all passes_def filter_filter conj_ac cong: filter_cong)

lemma apply_scope_filter: "apply_scope d c lab es = Some xs \<Longrightarrow> xs = filter (may_see d lab c) es"
  by (auto simp: apply_scope_def may_see_def Let_def filter_filter conj_commute
      intro!: filter_cong split: audit_scope.splits option.splits if_splits)

lemma apply_scope_ok: "scope_ok c \<Longrightarrow> apply_scope d c lab es = Some (filter (may_see d lab c) es)"
  using apply_scope_filter[of d c lab es]
  by (cases "apply_scope d c lab es")
    (auto simp: apply_scope_def scope_ok_def Let_def split: audit_scope.splits option.splits if_splits)

lemma newest_first_perm [simp]: "set (newest_first es) = set es" "length (newest_first es) = length es"
  by (simp_all add: newest_first_def)

lemma newest_first_sorted: "sorted_wrt (\<lambda>a b. au_created_at b \<le> au_created_at a) (newest_first es)"
proof -
  have "sorted_wrt (\<lambda>a b. (- au_created_at a, - au_id a) \<le> (- au_created_at b, - au_id b)) (newest_first es)"
    using sorted_sort_key[of "\<lambda>e. (- au_created_at e, - au_id e)" es]
    by (simp add: newest_first_def sorted_map)
  then show ?thesis by (rule sorted_wrt_mono_rel[rotated]) (auto simp: less_eq_prod_def)
qed

text \<open>The entries a caller gets to see, newest first.\<close>

definition visible_log :: "db \<Rightarrow> int \<Rightarrow> audit_access_ctx \<Rightarrow> audit_filters \<Rightarrow> audit_entry list" where
  "visible_log d lab c f = newest_first (filter (\<lambda>e. may_see d lab c e \<and> passes f e) (d_audit d))"

lemma visible_log_sorted: "sorted_wrt (\<lambda>a b. au_created_at b \<le> au_created_at a) (visible_log d lab c f)"
  unfolding visible_log_def by (rule newest_first_sorted)

lemma list_logs_visible:
  assumes "scope_ok c"
  shows "list_logs d lab c f page psize =
    Some (map (serialise_audit d) (take psize (drop ((page - 1) * psize) (visible_log d lab c f))),
          length (visible_log d lab c f))"
  by (simp add: list_logs_def apply_scope_ok[OF assms] apply_filters_filter visible_log_def
      filter_filter Let_def)

lemma get_log_may_see:
  assumes "get_log d aid lab c = Some (Some pl)"
  shows "\<exists>e \<in> set (d_audit d). pl = serialise_audit d e \<and> au_id e = aid \<and> may_see d lab c e"
proof -
  from assms obtain e es where "apply_scope d c lab (filter (\<lambda>e. au_id e = aid) (d_audit d)) = Some (e # es)"
    and pl: "pl = serialise_audit d e"
    by (auto simp: get_log_def split: option.splits list.splits)
  then have "e # es = filter (may_see d lab c) (filter (\<lambda>e. au_id e = aid) (d_audit d))"
    by (blast dest: apply_scope_filter)
  then have "e \<in> set (filter (may_see d lab c) (filter (\<lambda>e. au_id e = aid) (d_audit d)))"
    by (metis list.set_intros(1))
  with pl show ?thesis by auto
qed

text \<open>Consecutive pages partition the result: nothing is lost and nothing is shown twice.\<close>

lemma pages_concat:
  "concat (map (\<lambda>k. take n (drop (k * n) xs)) [0..<m]) = take (m * n) xs"
proof (induction m)
  case (Suc m)
  have "take (m * n) xs @ take n (drop (m * n) xs) = take (m * n + n) xs"
    by (simp add: take_add)
  with Suc show ?case by (simp add: add.commute)
qed simp

lemma list_logs_pages:
  assumes "scope_ok c"
  shows "concat (map (\<lambda>k. fst (the (list_logs d lab c f (Suc k) psize))) [0..<m])
       = map (serialise_audit d) (take (m * psize) (visible_log d lab c f))"
  using arg_cong[OF pages_concat[of psize "visible_log d lab c f" m], of "map (serialise_audit d)"]
  by (simp add: list_logs_visible[OF assms] map_concat comp_def)

section \<open>Notifications\<close>

definition dedup_pk_keys :: "string \<Rightarrow> string option" where
  "dedup_pk_keys = map_of
    [(''reservation.started'', ''reservation_id''),
     (''reservation.completed'', ''reservation_id''),
     (''reservation.failed'', ''reservation_id''),
     (''reservation.cancelled_by_other'', ''reservation_id''),
     (''script.started'', ''reservation_id''),
     (''script.completed'', ''reservation_id''),
     (''script.failed'', ''reservation_id''),
     (''script.killed'', ''reservation_id''),
     (''link.prepared'', ''account_link_request_id'')]"

text \<open>The text \<open>json_unquote(json_extract(...))\<close> and \<open>str(value)\<close> yield for integers and strings.\<close>

fun json_text :: "json \<Rightarrow> string option" where
  "json_text (JInt i) = Some (int_str i)"
| "json_text (JStr t) = Some t"
| "json_text _ = None"

definition payload_pk :: "string \<Rightarrow> payload option \<Rightarrow> string option" where
  "payload_pk k pl = Option.bind pl (\<lambda>p. Option.bind (map_of p k) json_text)"

definition dedup_match :: "int \<Rightarrow> string \<Rightarrow> string \<Rightarrow> string \<Rightarrow> int \<Rightarrow> notification \<Rightarrow> bool" where
  "dedup_match recipient ty k pk cutoff n \<longleftrightarrow> nt_recipient_user_id n = recipient \<and> nt_type n = ty
     \<and> nt_created_at n \<ge> cutoff \<and> payload_pk k (nt_payload n) = Some pk"

definition dedup_hit :: "session \<Rightarrow> int \<Rightarrow> string \<Rightarrow> string \<Rightarrow> string \<Rightarrow> int \<Rightarrow> notification option" where
  "dedup_hit s recipient ty k pk window =
     find (dedup_match recipient ty k pk (s_clock s - seconds window)) (d_notifications (s_db s))"

fun severity_str :: "severity \<Rightarrow> string" where
  "severity_str Info = ''info''"
| "severity_str Warn = ''warn''"
| "severity_str Error = ''error''"

definition push_to_user :: "int \<Rightarrow> ws_frame \<Rightarrow> session \<Rightarrow> session" where
  "push_to_user u fr s = s\<lparr>s_pushes := s_pushes s @ [(u, fr)]\<rparr>"

definition notification_frame :: "notification \<Rightarrow> ws_frame" where
  "notification_frame n = NotificationNew
    [(''id'', JInt (nt_id n)), (''type'', JStr (nt_type n)), (''severity'', JStr (severity_str (nt_severity n))),
     (''title'', JStr (nt_title n)), (''body'', jopt JStr (nt_body n)), (''payload'', jopt JObj (nt_payload n)),
     (''cta_url'', jopt JStr (nt_cta_url n)), (''is_read'', JBool (nt_is_read n)),
     (''created_at'', JTime (dt_naive (nt_created_at n)))]"

definition insert_notification :: "int \<Rightarrow> string \<Rightarrow> string \<Rightarrow> severity \<Rightarrow> string option \<Rightarrow> payload option \<Rightarrow>
    string option \<Rightarrow> session \<Rightarrow> session" where
  "insert_notification recipient ty title sev body pl cta s =
    (let n = \<lparr>nt_id = d_next_notification (s_db s), nt_recipient_user_id = recipient, nt_type = ty,
              nt_severity = sev, nt_title = title, nt_body = body, nt_payload = pl, nt_cta_url = cta,
              nt_is_read = False, nt_created_at = s_clock s\<rparr>
     in push_to_user recipient (notification_frame n)
       (s\<lparr>s_db := (s_db s)\<lparr>d_notifications := d_notifications (s_db s) @ [n],
            d_next_notification := d_next_notification (s_db s) + 1\<rparr>\<rparr>))"

text \<open>
  \<open>create_notification\<close> with its window; most callers leave it at \<open>DEFAULT_DEDUP_WINDOW_SECONDS\<close>. The
  returned row is not used by any caller and is left out.
\<close>

definition DEFAULT_DEDUP_WINDOW_SECONDS :: int where
  "DEFAULT_DEDUP_WINDOW_SECONDS = 60"

definition create_notification_within :: "int \<Rightarrow> int \<Rightarrow> string \<Rightarrow> string \<Rightarrow> severity \<Rightarrow> string option \<Rightarrow>
    payload option \<Rightarrow> string option \<Rightarrow> session \<Rightarrow> session" where
  "create_notification_within window recipient ty title sev body pl cta s =
    (case Option.bind (dedup_pk_keys ty) (\<lambda>k. map_option (Pair k) (payload_pk k pl)) of
       Some (k, pk) \<Rightarrow>
         (case dedup_hit s recipient ty k pk window of
            Some n \<Rightarrow> s
          | None \<Rightarrow> insert_notification recipient ty title sev body pl cta s)
     | None \<Rightarrow> insert_notification recipient ty title sev body pl cta s)"

definition create_notification :: "int \<Rightarrow> string \<Rightarrow> string \<Rightarrow> severity \<Rightarrow> string option \<Rightarrow> payload option \<Rightarrow>
    string option \<Rightarrow> session \<Rightarrow> session" where
  "create_notification recipient ty title sev body pl cta s =
    create_notification_within DEFAULT_DEDUP_WINDOW_SECONDS recipient ty title sev body pl cta s"

lemma push_to_user_sel [row_simps]: "s_db (push_to_user u fr s) = s_db s"
    "s_dirty (push_to_user u fr s) = s_dirty s" "s_clock (push_to_user u fr s) = s_clock s"
    "s_pushes (push_to_user u fr s) = s_pushes s @ [(u, fr)]" "reservations (push_to_user u fr s) = reservations s"
  by (simp_all add: push_to_user_def reservations_def)

lemma insert_notification_sel [row_simps]:
    "reservations (insert_notification r ty ti se bo pl ct s) = reservations s"
    "s_dirty (insert_notification r ty ti se bo pl ct s) = s_dirty s"
    "s_clock (insert_notification r ty ti se bo pl ct s) = s_clock s"
    "d_servers (s_db (insert_notification r ty ti se bo pl ct s)) = d_servers (s_db s)"
    "d_gpus (s_db (insert_notification r ty ti se bo pl ct s)) = d_gpus (s_db s)"
    "d_links (s_db (insert_notification r ty ti se bo pl ct s)) = d_links (s_db s)"
    "d_pas (s_db (insert_notification r ty ti se bo pl ct s)) = d_pas (s_db s)"
    "d_grants (s_db (insert_notification r ty ti se bo pl ct s)) = d_grants (s_db s)"
    "d_reservations (s_db (insert_notification r ty ti se bo pl ct s)) = d_reservations (s_db s)"
    "d_next_reservation (s_db (insert_notification r ty ti se bo pl ct s)) = d_next_reservation (s_db s)"
    "d_audit (s_db (insert_notification r ty ti se bo pl ct s)) = d_audit (s_db s)"
  by (simp_all add: insert_notification_def Let_def push_to_user_def reservations_def)

lemma create_notification_within_cases: "create_notification_within w r ty ti se bo pl ct s = s
    \<or> create_notification_within w r ty ti se bo pl ct s = insert_notification r ty ti se bo pl ct s"
  by (auto simp: create_notification_within_def split: option.splits)

lemma create_notification_cases: "create_notification r ty ti se bo pl ct s = s
    \<or> create_notification r ty ti se bo pl ct s = insert_notification r ty ti se bo pl ct s"
  unfolding create_notification_def by (rule create_notification_within_cases)

lemma create_notification_sel [row_simps]:
    "reservations (create_notification r ty ti se bo pl ct s) = reservations s"
    "s_dirty (create_notification r ty ti se bo pl ct s) = s_dirty s"
    "s_clock (create_notification r ty ti se bo pl ct s) = s_clock s"
    "d_servers (s_db (create_notification r ty ti se bo pl ct s)) = d_servers (s_db s)"
    "d_gpus (s_db (create_notification r ty ti se bo pl ct s)) = d_gpus (s_db s)"
    "d_links (s_db (create_notification r ty ti se bo pl ct s)) = d_links (s_db s)"
    "d_pas (s_db (create_notification r ty ti se bo pl ct s)) = d_pas (s_db s)"
    "d_grants (s_db (create_notification r ty ti se bo pl ct s)) = d_grants (s_db s)"
    "d_reservations (s_db (create_notification r ty ti se bo pl ct s)) = d_reservations (s_db s)"
    "d_next_reservation (s_db (create_notification r ty ti se bo pl ct s)) = d_next_reservation (s_db s)"
    "d_audit (s_db (create_notification r ty ti se bo pl ct s)) = d_audit (s_db s)"
  using create_notification_cases[of r ty ti se bo pl ct s] by (auto simp: row_simps)

lemma db_wf_create_notification [simp]:
  "db_wf (s_db (create_notification r ty ti se bo pl ct s)) = db_wf (s_db s)"
  by (simp add: db_wf_def row_simps)

text \<open>
  Spacing: rows with the same de-duplication key were created more than the window apart,
  as long as the clock has not run backwards.
\<close>

definition same_dedup_key :: "notification \<Rightarrow> notification \<Rightarrow> bool" where
  "same_dedup_key a b \<longleftrightarrow> nt_recipient_user_id a = nt_recipient_user_id b \<and> nt_type a = nt_type b
     \<and> (\<exists>k pk. dedup_pk_keys (nt_type a) = Some k \<and> payload_pk k (nt_payload a) = Some pk
            \<and> payload_pk k (nt_payload b) = Some pk)"

definition dedup_spaced :: "notification list \<Rightarrow> bool" where
  "dedup_spaced ns \<longleftrightarrow> sorted_wrt (\<lambda>a b. same_dedup_key a b \<longrightarrow>
     nt_created_at a + seconds DEFAULT_DEDUP_WINDOW_SECONDS < nt_created_at b) ns"

lemma create_notification_spaced:
  assumes "dedup_spaced (d_notifications (s_db s))"
  shows "dedup_spaced (d_notifications (s_db (create_notification r ty ti se bo pl ct s)))"
proof (cases "create_notification r ty ti se bo pl ct s = s")
  case True
  then show ?thesis using assms by simp
next
  case False
  then have ins: "create_notification r ty ti se bo pl ct s = insert_notification r ty ti se bo pl ct s"
    using create_notification_cases[of r ty ti se bo pl ct s] by blast
  have "\<not> same_dedup_key m n \<or> nt_created_at m + seconds 60 < s_clock s"
    if m: "m \<in> set (d_notifications (s_db s))"
      and n: "nt_recipient_user_id n = r" "nt_type n = ty" "nt_payload n = pl" for m n
  proof (rule ccontr)
    assume "\<not> ?thesis"
    then obtain k pk where "dedup_pk_keys ty = Some k" "payload_pk k pl = Some pk"
      "nt_recipient_user_id m = r" "nt_type m = ty" "payload_pk k (nt_payload m) = Some pk"
      "\<not> nt_created_at m + seconds 60 < s_clock s"
      using n by (auto simp: same_dedup_key_def)
    then have "dedup_hit s r ty k pk 60 \<noteq> None" and "create_notification r ty ti se bo pl ct s =
        (case dedup_hit s r ty k pk 60 of Some n \<Rightarrow> s
         | None \<Rightarrow> insert_notification r ty ti se bo pl ct s)"
      using m by (auto simp: dedup_hit_def dedup_match_def find_None_iff create_notification_def create_notification_within_def
          DEFAULT_DEDUP_WINDOW_SECONDS_def intro!: exI[of _ m])
    with False show False by (auto split: option.splits)
  qed
  note key = this
  let ?n = "\<lparr>nt_id = d_next_notification (s_db s), nt_recipient_user_id = r, nt_type = ty,
      nt_severity = se, nt_title = ti, nt_body = bo, nt_payload = pl, nt_cta_url = ct,
      nt_is_read = False, nt_created_at = s_clock s\<rparr>"
  have "\<forall>m \<in> set (d_notifications (s_db s)). same_dedup_key m ?n \<longrightarrow>
      nt_created_at m + seconds 60 < nt_created_at ?n"
    using key[where n = ?n] by auto
  then show ?thesis using assms
    by (simp add: ins insert_notification_def Let_def push_to_user_def dedup_spaced_def
        sorted_wrt_append DEFAULT_DEDUP_WINDOW_SECONDS_def)
qed

end
