(* ===== verification/Reservation_Core.thy ===== *)
theory Reservation_Core
  imports Data_Model "HOL-Library.Multiset"
begin

text \<open>
  The decision layer of \<open>services/reservation_service.py\<close>: the two transition tables, the input
  rows (\<open>ItemDraft\<close>), the conflict classifier, the window query, and the checks on time and
  account link. The locale \<open>lifecycle\<close> states what a transition table promises to the code that
  follows it, the locale \<open>admission\<close> what a conflict classifier promises to the code that books;
  both are interpreted here on the code's tables and classifier.
\<close>

section \<open>Transition tables\<close>

fun allowed_transitions :: "res_status \<Rightarrow> res_status list" where
  "allowed_transitions Scheduled = [Active, Cancelled]"
| "allowed_transitions Active = [Completed, Failed, Cancelled]"
| "allowed_transitions Completed = []"
| "allowed_transitions Cancelled = []"
| "allowed_transitions Failed = []"

fun allowed_script_transitions :: "script_status option \<Rightarrow> script_status list" where
  "allowed_script_transitions None = [S_Running]"
| "allowed_script_transitions (Some S_Running) = [S_Completed, S_Failed, S_Killed]"
| "allowed_script_transitions (Some _) = []"

definition res_step :: "res_status \<Rightarrow> res_status \<Rightarrow> bool" where
  "res_step a b \<longleftrightarrow> b \<in> set (allowed_transitions a)"

definition script_step :: "script_status option \<Rightarrow> script_status option \<Rightarrow> bool" where
  "script_step a b \<longleftrightarrow> (case b of None \<Rightarrow> False | Some t \<Rightarrow> t \<in> set (allowed_script_transitions a))"

definition assert_transition_allowed :: "res_status \<Rightarrow> res_status \<Rightarrow> res_error + unit" where
  "assert_transition_allowed current target =
    (if target \<notin> set (allowed_transitions current)
     then Inl (ReservationIllegalTransitionError (status_str current) (status_str target))
     else Inr ())"

lemma assert_transition_ok: "assert_transition_allowed a b = Inr () \<longleftrightarrow> res_step a b"
  by (simp add: assert_transition_allowed_def res_step_def)

text \<open>A table of moves in which every move goes up and the final states have none.\<close>

locale lifecycle =
  fixes step :: "'st \<Rightarrow> 'st \<Rightarrow> bool"
    and final :: "'st \<Rightarrow> bool"
    and rank :: "'st \<Rightarrow> nat"
    and height :: nat
  assumes final_stuck: "final a \<Longrightarrow> \<not> step a b"
    and step_up: "step a b \<Longrightarrow> rank a < rank b"
    and rank_height: "rank a \<le> height"
    and stuck_final: "\<not> final a \<Longrightarrow> \<exists>b. step a b"
begin

lemma final_absorbing: "step\<^sup>*\<^sup>* a b \<Longrightarrow> final a \<Longrightarrow> b = a"
  by (induction rule: converse_rtranclp_induct) (auto dest: final_stuck)

lemma steps_up: "step\<^sup>*\<^sup>* a b \<Longrightarrow> rank a \<le> rank b"
  by (induction rule: rtranclp_induct) (auto dest: step_up)

lemma no_return: "step a b \<Longrightarrow> \<not> step\<^sup>*\<^sup>* b a"
  using step_up steps_up by fastforce

lemma steps_antisym: "step\<^sup>*\<^sup>* a b \<Longrightarrow> step\<^sup>*\<^sup>* b a \<Longrightarrow> a = b"
  by (metis converse_rtranclpE no_return rtranclp_trans)

lemma path_length: "successively step (a # p) \<Longrightarrow> rank a + length p \<le> rank (last (a # p))"
proof (induction p arbitrary: a)
  case (Cons b p)
  then have "step a b" and "successively step (b # p)" by (auto simp: successively.simps)
  with Cons.IH[of b] step_up[of a b] show ?case by auto
qed simp

lemma path_bounded: "successively step p \<Longrightarrow> length p \<le> Suc height"
proof (cases p)
  case (Cons a q)
  moreover assume "successively step p"
  ultimately show ?thesis using path_length[of a q] rank_height[of "last (a # q)"] by auto
qed simp

end

fun res_rank :: "res_status \<Rightarrow> nat" where
  "res_rank Scheduled = 0"
| "res_rank Active = 1"
| "res_rank _ = 2"

fun script_rank :: "script_status option \<Rightarrow> nat" where
  "script_rank None = 0"
| "script_rank (Some S_Running) = 1"
| "script_rank (Some _) = 2"

definition script_final :: "script_status option \<Rightarrow> bool" where
  "script_final s \<longleftrightarrow> s \<in> {Some S_Completed, Some S_Failed, Some S_Killed}"

interpretation res_life: lifecycle res_step terminal_status res_rank 2
proof
  fix a b :: res_status
  show "terminal_status a \<Longrightarrow> \<not> res_step a b"
    by (cases a) (auto simp: res_step_def terminal_status_def)
  show "res_step a b \<Longrightarrow> res_rank a < res_rank b"
    by (cases a) (auto simp: res_step_def)
  show "res_rank a \<le> 2" by (cases a) auto
  show "\<not> terminal_status a \<Longrightarrow> \<exists>b. res_step a b"
    by (cases a) (auto simp: res_step_def terminal_status_def)
qed

interpretation script_life: lifecycle script_step script_final script_rank 2
proof
  fix a b :: "script_status option"
  show "script_final a \<Longrightarrow> \<not> script_step a b"
    by (auto simp: script_step_def script_final_def split: option.splits)
  show "script_step a b \<Longrightarrow> script_rank a < script_rank b"
    by (cases a rule: script_rank.cases; cases b) (auto simp: script_step_def)
  show "script_rank a \<le> 2" by (cases a rule: script_rank.cases) auto
  have "script_step None (Some S_Running)" "script_step (Some S_Running) (Some S_Failed)"
    by (simp_all add: script_step_def)
  then show "\<not> script_final a \<Longrightarrow> \<exists>b. script_step a b"
    by (cases a rule: script_rank.cases) (auto simp: script_final_def)
qed

section \<open>Input rows and conflict records\<close>

record item_draft =
  it_server_id :: int
  it_gpu_id :: "int option"
  it_start_at :: datetime
  it_end_at :: datetime
  it_account_link_id :: int
  it_gpu_memory_mb :: "int option"
  it_gpu_compute_share_pct :: "int option"

datatype conflict_type =
    ExclusiveConflict | MemoryExceeded | MixExclusiveShared | ComputeExceeded | TimeTooLong | InvalidTime

record memory_detail =
  md_used_mb :: int
  md_would_use_mb :: int
  md_total_mb :: int
  md_exceeds_by_mb :: int

record compute_detail =
  cd_used_pct :: int
  cd_would_use_pct :: int
  cd_exceeds_by_pct :: int

record time_detail =
  td_max_hours :: "int option"
  td_requested_hours :: rat

record conflict_record =
  cf_input_index :: int
  cf_type :: conflict_type
  cf_ids :: "int list"
  cf_memory :: "memory_detail option"
  cf_compute :: "compute_detail option"
  cf_time :: "time_detail option"

definition plain_conflict :: "int \<Rightarrow> conflict_type \<Rightarrow> int list \<Rightarrow> conflict_record" where
  "plain_conflict i ty ids = \<lparr>cf_input_index = i, cf_type = ty, cf_ids = ids,
     cf_memory = None, cf_compute = None, cf_time = None\<rparr>"

section \<open>The conflict classifier\<close>

text \<open>Python's \<open>x or 0\<close>.\<close>

definition or0 :: "int option \<Rightarrow> int" where
  "or0 x = (case x of None \<Rightarrow> 0 | Some v \<Rightarrow> v)"

lemma or0_simps [simp]: "or0 None = 0" "or0 (Some v) = v"
  by (simp_all add: or0_def)

definition used_mb :: "reservation list \<Rightarrow> int" where
  "used_mb rs = sum_list (map (\<lambda>r. or0 (r_gpu_memory_mb r)) rs)"

definition used_pct :: "reservation list \<Rightarrow> int" where
  "used_pct rs = sum_list (map (\<lambda>r. or0 (r_gpu_compute_share_pct r)) rs)"

definition shared_row :: "reservation \<Rightarrow> bool" where
  "shared_row r \<longleftrightarrow> r_gpu_memory_mb r \<noteq> None"

definition classify_compute :: "int option \<Rightarrow> reservation list \<Rightarrow> conflict_record option" where
  "classify_compute pct in_window = (case pct of None \<Rightarrow> None | Some q \<Rightarrow>
     (if used_pct in_window + q > 100
      then Some \<lparr>cf_input_index = -1, cf_type = ComputeExceeded,
             cf_ids = map r_id (filter (\<lambda>r. r_gpu_compute_share_pct r \<noteq> None) in_window),
             cf_memory = None,
             cf_compute = Some \<lparr>cd_used_pct = used_pct in_window, cd_would_use_pct = q,
               cd_exceeds_by_pct = used_pct in_window + q - 100\<rparr>,
             cf_time = None\<rparr>
      else None))"

definition classify_conflict :: "item_draft \<Rightarrow> reservation list \<Rightarrow> gpu \<Rightarrow> conflict_record option" where
  "classify_conflict new_item in_window g =
    (if in_window = [] then None
     else case it_gpu_memory_mb new_item of
       None \<Rightarrow>
         (let shared_rows = filter shared_row in_window in
          if shared_rows \<noteq> [] then Some (plain_conflict (-1) MixExclusiveShared (map r_id shared_rows))
          else Some (plain_conflict (-1) ExclusiveConflict (map r_id in_window)))
     | Some m \<Rightarrow>
         (let exclusive_rows = filter (\<lambda>r. \<not> shared_row r) in_window in
          if exclusive_rows \<noteq> [] then Some (plain_conflict (-1) MixExclusiveShared (map r_id exclusive_rows))
          else
            (let used = used_mb in_window; tot = or0 (gpu_memory_total_mb g) in
             if tot \<noteq> 0 \<and> used + m > tot
             then Some \<lparr>cf_input_index = -1, cf_type = MemoryExceeded, cf_ids = map r_id in_window,
                    cf_memory = Some \<lparr>md_used_mb = used, md_would_use_mb = m, md_total_mb = tot,
                      md_exceeds_by_mb = used + m - tot\<rparr>,
                    cf_compute = None, cf_time = None\<rparr>
             else classify_compute (it_gpu_compute_share_pct new_item) in_window)))"

text \<open>The rule the classifier decides, as one predicate over the quantities.\<close>

definition fits :: "int option \<Rightarrow> int option \<Rightarrow> reservation list \<Rightarrow> int \<Rightarrow> bool" where
  "fits mem pct W tot \<longleftrightarrow> W = [] \<or>
     (case mem of None \<Rightarrow> False | Some m \<Rightarrow>
        (\<forall>r \<in> set W. shared_row r) \<and> (tot = 0 \<or> used_mb W + m \<le> tot)
        \<and> (case pct of None \<Rightarrow> True | Some q \<Rightarrow> used_pct W + q \<le> 100))"

lemma classify_conflict_None:
  "classify_conflict it W g = None \<longleftrightarrow>
     fits (it_gpu_memory_mb it) (it_gpu_compute_share_pct it) W (or0 (gpu_memory_total_mb g))"
  by (auto simp: classify_conflict_def fits_def Let_def classify_compute_def filter_empty_conv
      split: option.splits if_splits)

text \<open>Which rows a refusal names, and with which numbers.\<close>

lemma classify_conflict_Some:
  assumes "classify_conflict it W g = Some c"
  shows "cf_input_index c = -1 \<and> W \<noteq> [] \<and> set (cf_ids c) \<subseteq> r_id ` set W
    \<and> cf_type c \<in> {ExclusiveConflict, MixExclusiveShared, MemoryExceeded, ComputeExceeded}
    \<and> (cf_type c = MemoryExceeded \<longrightarrow> (\<exists>d. cf_memory c = Some d \<and> md_exceeds_by_mb d > 0
          \<and> md_exceeds_by_mb d = md_used_mb d + md_would_use_mb d - md_total_mb d))
    \<and> (cf_type c = ComputeExceeded \<longrightarrow> (\<exists>d. cf_compute c = Some d \<and> cd_exceeds_by_pct d > 0
          \<and> cd_exceeds_by_pct d = cd_used_pct d + cd_would_use_pct d - 100))"
  using assms
  by (auto simp: classify_conflict_def Let_def classify_compute_def plain_conflict_def
      split: option.splits if_splits)

section \<open>The window query\<close>

definition overlaps :: "int \<Rightarrow> int \<Rightarrow> reservation \<Rightarrow> bool" where
  "overlaps s e r \<longleftrightarrow> r_start_at r < e \<and> r_end_at r > s"

definition occupies :: "int \<Rightarrow> reservation \<Rightarrow> bool" where
  "occupies g r \<longleftrightarrow> r_gpu_id r = Some g \<and> active_status (r_status r)"

definition window_rows :: "reservation list \<Rightarrow> int \<Rightarrow> int \<Rightarrow> int \<Rightarrow> reservation list" where
  "window_rows rs g s e = filter (\<lambda>r. occupies g r \<and> overlaps s e r) rs"

definition window_active_reservations :: "session \<Rightarrow> int \<Rightarrow> datetime \<Rightarrow> datetime \<Rightarrow> reservation list" where
  "window_active_reservations s g start_at end_at =
     window_rows (reservations s) g (dt_wall start_at) (dt_wall end_at)"

section \<open>Validation of one item\<close>

definition validate_item_time :: "session \<Rightarrow> item_draft \<Rightarrow> datetime \<Rightarrow> res_error + server" where
  "validate_item_time s item now =
    (let start_at = dt_strip (it_start_at item); end_at = dt_strip (it_end_at item);
         now_naive = dt_strip now in
     if end_at \<le> start_at then Inl (InvalidTimeError EndNotAfterStart)
     else if start_at < now_naive - minutes 5 then Inl (InvalidTimeError StartInPast)
     else case d_servers (s_db s) (it_server_id item) of
       None \<Rightarrow> Inl (InvalidTimeError (ServerMissing (it_server_id item)))
     | Some sv \<Rightarrow>
         (case srv_max_reservation_hours sv of
            None \<Rightarrow> Inr sv
          | Some mh \<Rightarrow>
              (let requested = hours_between start_at end_at in
               if requested > of_int mh then Inl (ReservationTooLongError mh requested) else Inr sv)))"

definition load_link_or_raise :: "session \<Rightarrow> int \<Rightarrow> int \<Rightarrow> res_error + account_link" where
  "load_link_or_raise s account_link_id user_id =
    (case d_links (s_db s) account_link_id of
       None \<Rightarrow> Inl (NoActiveLinkError account_link_id)
     | Some link \<Rightarrow>
         if \<not> al_is_active link \<or> al_user_id link \<noteq> user_id then Inl (NoActiveLinkError account_link_id)
         else if al_source link = AdminDeclared then Inl (LinkNotVerifiedError account_link_id)
         else Inr link)"

lemma validate_item_time_Inr:
  "validate_item_time s item now = Inr sv \<longleftrightarrow>
     dt_wall (it_start_at item) < dt_wall (it_end_at item)
     \<and> dt_wall now - minutes 5 \<le> dt_wall (it_start_at item)
     \<and> d_servers (s_db s) (it_server_id item) = Some sv
     \<and> (case srv_max_reservation_hours sv of None \<Rightarrow> True
        | Some mh \<Rightarrow> dt_wall (it_end_at item) - dt_wall (it_start_at item) \<le> mh * 3600000000)"
  by (auto simp: validate_item_time_def Let_def dt_strip_def hours_between_gt split: option.splits if_splits)

lemma load_link_Inr:
  "load_link_or_raise s l u = Inr link \<longleftrightarrow> d_links (s_db s) l = Some link \<and> al_is_active link
     \<and> al_user_id link = u \<and> al_source link \<noteq> AdminDeclared"
  by (auto simp: load_link_or_raise_def split: option.splits if_splits)

section \<open>Capacity of a GPU\<close>

text \<open>
  The rows that hold a GPU at one instant, and what the booking rules promise of them: at most
  one row, or only shared rows whose memory and compute shares add up to no more than the GPU
  has (a GPU with no recorded memory is not limited).
\<close>

definition covers :: "int \<Rightarrow> reservation \<Rightarrow> bool" where
  "covers t r \<longleftrightarrow> r_start_at r \<le> t \<and> t < r_end_at r"

definition live_on :: "reservation list \<Rightarrow> int \<Rightarrow> int \<Rightarrow> reservation list" where
  "live_on rs g t = filter (\<lambda>r. occupies g r \<and> covers t r) rs"

definition slot_ok :: "int \<Rightarrow> reservation list \<Rightarrow> bool" where
  "slot_ok tot L \<longleftrightarrow> length L \<le> 1 \<or>
     ((\<forall>r \<in> set L. shared_row r) \<and> (tot = 0 \<or> used_mb L \<le> tot) \<and> used_pct L \<le> 100)"

definition gpu_total :: "db \<Rightarrow> int \<Rightarrow> int" where
  "gpu_total d g = (case d_gpus d g of None \<Rightarrow> 0 | Some gp \<Rightarrow> or0 (gpu_memory_total_mb gp))"

definition capacity_ok :: "db \<Rightarrow> bool" where
  "capacity_ok d \<longleftrightarrow> (\<forall>g t. slot_ok (gpu_total d g) (live_on (d_reservations d) g t))"

definition amounts_ok :: "reservation \<Rightarrow> bool" where
  "amounts_ok r \<longleftrightarrow> 0 \<le> or0 (r_gpu_memory_mb r) \<and> 0 \<le> or0 (r_gpu_compute_share_pct r)
     \<and> or0 (r_gpu_compute_share_pct r) \<le> 100"

lemma res_row_ok_amounts: "res_row_ok r \<Longrightarrow> amounts_ok r"
  by (auto simp: res_row_ok_def amounts_ok_def ck_res_compute_pct_def unsigned_int_col_def
      split: option.splits)

lemma slot_ok_mset:
  assumes "mset L = mset L'"
  shows "slot_ok tot L = slot_ok tot L'"
proof -
  from assms have "length L = length L'" "set L = set L'"
    by (auto dest: mset_eq_length mset_eq_setD)
  moreover have "used_mb L = used_mb L'" "used_pct L = used_pct L'"
    using assms by (simp_all add: used_mb_def used_pct_def flip: sum_mset_sum_list)
  ultimately show ?thesis by (simp add: slot_ok_def)
qed

lemma live_on_mset: "mset rs = mset rs' \<Longrightarrow> mset (live_on rs g t) = mset (live_on rs' g t)"
  by (simp add: live_on_def)

lemma slot_ok_filter:
  assumes "slot_ok tot L" and "\<And>r. r \<in> set L \<Longrightarrow> amounts_ok r"
  shows "slot_ok tot (filter P L)"
proof (cases "length L \<le> 1")
  case True
  then have "length (filter P L) \<le> 1" using length_filter_le[of P L] by linarith
  then show ?thesis by (simp add: slot_ok_def)
next
  case False
  have "used_mb (filter P L) \<le> used_mb L" "used_pct (filter P L) \<le> used_pct L"
    unfolding used_mb_def used_pct_def
    using assms(2) by (auto intro!: sum_list_filter_le_nonneg simp: amounts_ok_def)
  with False assms(1) show ?thesis by (auto simp: slot_ok_def)
qed

text \<open>Rows that release a GPU or stay as they are never break its capacity.\<close>

definition no_new_claim :: "reservation \<Rightarrow> reservation \<Rightarrow> bool" where
  "no_new_claim old new \<longleftrightarrow> (\<forall>g. occupies g new \<longrightarrow> occupies g old)
     \<and> r_start_at new = r_start_at old \<and> r_end_at new = r_end_at old
     \<and> r_gpu_memory_mb new = r_gpu_memory_mb old
     \<and> r_gpu_compute_share_pct new = r_gpu_compute_share_pct old"

lemma slot_ok_map:
  assumes f: "\<And>r. r \<in> set rs \<Longrightarrow> no_new_claim r (f r)"
    and am: "\<And>r. r \<in> set rs \<Longrightarrow> amounts_ok r"
    and ok: "slot_ok tot (live_on rs g t)"
  shows "slot_ok tot (live_on (map f rs) g t)"
proof -
  let ?K = "filter (\<lambda>r. occupies g (f r)) (live_on rs g t)"
  have "live_on (map f rs) g t = map f ?K"
    using f by (auto simp: live_on_def filter_map o_def no_new_claim_def covers_def intro!: arg_cong[of _ _ "map f"] filter_cong)
  moreover have "\<And>r. r \<in> set ?K \<Longrightarrow> no_new_claim r (f r)"
    using f by (auto simp: live_on_def)
  then have "used_mb (map f ?K) = used_mb ?K" "used_pct (map f ?K) = used_pct ?K"
      "(\<forall>r \<in> set (map f ?K). shared_row r) = (\<forall>r \<in> set ?K. shared_row r)"
    unfolding used_mb_def used_pct_def by (auto simp: no_new_claim_def shared_row_def intro!: arg_cong[of _ _ sum_list])
  then have "slot_ok tot (map f ?K) = slot_ok tot ?K" by (simp add: slot_ok_def)
  moreover have "slot_ok tot ?K"
    using ok am by (intro slot_ok_filter) (auto simp: live_on_def)
  ultimately show ?thesis by simp
qed

lemma mset_row_put:
  assumes "distinct (map key rs)" and "key r \<in> key ` set rs"
  shows "mset (row_put key r rs) = add_mset r (mset (filter (\<lambda>x. key x \<noteq> key r) rs))"
  using assms
proof (induction rs)
  case (Cons y rs)
  show ?case
  proof (cases "key y = key r")
    case True
    with Cons.prems have nk: "key r \<notin> key ` set rs" by auto
    then have "row_put key r rs = rs" "filter (\<lambda>x. key x \<noteq> key r) rs = rs"
      unfolding row_put_def by (auto intro!: map_idI filter_True simp: image_iff)
    with True show ?thesis by (simp add: row_put_def)
  next
    case False
    with Cons show ?thesis by (auto simp: row_put_def)
  qed
qed simp

text \<open>Two rows compete for a GPU.\<close>

definition rows_contend :: "reservation \<Rightarrow> reservation \<Rightarrow> bool" where
  "rows_contend a b \<longleftrightarrow> r_gpu_id a \<noteq> None \<and> r_gpu_id a = r_gpu_id b
     \<and> r_start_at a < r_end_at b \<and> r_end_at a > r_start_at b"

text \<open>The contract between a classifier (the provider) and the operations that book with it.\<close>

locale admission =
  fixes refuses :: "int option \<Rightarrow> int option \<Rightarrow> reservation list \<Rightarrow> int \<Rightarrow> bool"
  assumes exclusive_alone: "\<not> refuses None pct W tot \<Longrightarrow> W = []"
    and shared_only: "\<not> refuses (Some m) pct W tot \<Longrightarrow> r \<in> set W \<Longrightarrow> shared_row r"
    and memory_fits: "\<not> refuses (Some m) pct W tot \<Longrightarrow> W \<noteq> [] \<Longrightarrow> tot = 0 \<or> used_mb W + m \<le> tot"
    and compute_fits: "\<not> refuses (Some m) (Some q) W tot \<Longrightarrow> W \<noteq> [] \<Longrightarrow> used_pct W + q \<le> 100"
begin

lemma admitted_slot:
  assumes ok: "slot_ok tot (live_on rs g t)"
    and amounts: "\<And>r. r \<in> set rs \<Longrightarrow> amounts_ok r"
    and W: "W = window_rows rs g (r_start_at n) (r_end_at n)"
    and adm: "\<not> refuses (r_gpu_memory_mb n) (r_gpu_compute_share_pct n) W tot"
    and n: "covers t n"
  shows "slot_ok tot (n # live_on rs g t)"
proof (cases "live_on rs g t = []")
  case True
  then show ?thesis by (simp add: slot_ok_def)
next
  case False
  let ?L = "live_on rs g t"
  have sub: "?L = filter (covers t) W"
    using n by (auto simp: W live_on_def window_rows_def overlaps_def covers_def intro!: filter_cong)
  then have "W \<noteq> []" using False by auto
  then obtain m where m: "r_gpu_memory_mb n = Some m"
    using adm exclusive_alone by (cases "r_gpu_memory_mb n") auto
  have Wam: "\<And>r. r \<in> set W \<Longrightarrow> amounts_ok r" using amounts by (auto simp: W window_rows_def)
  have le: "used_mb ?L \<le> used_mb W" "used_pct ?L \<le> used_pct W"
    unfolding sub used_mb_def used_pct_def
    using Wam by (auto intro!: sum_list_filter_le_nonneg simp: amounts_ok_def)
  have shared: "\<forall>r \<in> set (n # ?L). shared_row r"
    using adm shared_only m by (auto simp: sub shared_row_def)
  have mb: "tot = 0 \<or> used_mb (n # ?L) \<le> tot"
    using memory_fits[of m _ W tot] adm m \<open>W \<noteq> []\<close> le by (auto simp: used_mb_def)
  have "used_pct (n # ?L) \<le> 100"
  proof (cases "r_gpu_compute_share_pct n")
    case None
    show ?thesis
    proof (cases "length ?L \<le> 1")
      case True
      with False obtain x where x: "?L = [x]" by (cases ?L) auto
      then have "x \<in> set rs" unfolding live_on_def by (metis filter_eq_ConsD in_set_conv_decomp)
      with None x amounts show ?thesis by (auto simp: used_pct_def amounts_ok_def)
    next
      case False
      with ok None show ?thesis by (simp add: slot_ok_def used_pct_def)
    qed
  next
    case (Some q)
    with compute_fits[of m q W tot] adm m \<open>W \<noteq> []\<close> le show ?thesis by (simp add: used_pct_def)
  qed
  with shared mb show ?thesis by (simp add: slot_ok_def)
qed

text \<open>Adding an admitted row to a table that respects capacity keeps capacity.\<close>

lemma admitted_rows:
  assumes ok: "\<And>g t. slot_ok (tot g) (live_on rs g t)"
    and amounts: "\<And>r. r \<in> set rs \<Longrightarrow> amounts_ok r"
    and adm: "\<And>g. occupies g n \<Longrightarrow> \<not> refuses (r_gpu_memory_mb n) (r_gpu_compute_share_pct n)
        (window_rows rs g (r_start_at n) (r_end_at n)) (tot g)"
  shows "slot_ok (tot g) (live_on (n # rs) g t)"
  using admitted_slot[OF ok amounts refl] adm ok by (auto simp: live_on_def)

text \<open>A batch whose rows were all admitted against the same table, and do not compete with each other.\<close>

lemma admitted_batch:
  assumes ok: "\<And>g t. slot_ok (tot g) (live_on rs g t)"
    and amounts: "\<And>r. r \<in> set rs \<union> set ns \<Longrightarrow> amounts_ok r"
    and adm: "\<And>n g. n \<in> set ns \<Longrightarrow> occupies g n \<Longrightarrow> \<not> refuses (r_gpu_memory_mb n)
        (r_gpu_compute_share_pct n) (window_rows rs g (r_start_at n) (r_end_at n)) (tot g)"
    and apart: "sorted_wrt (\<lambda>a b. \<not> rows_contend a b) ns"
  shows "slot_ok (tot g) (live_on (rs @ ns) g t)"
  using assms
proof (induction ns arbitrary: rs g t)
  case (Cons n ns)
  have step: "\<And>g t. slot_ok (tot g) (live_on (n # rs) g t)"
    by (rule admitted_rows) (use Cons.prems in auto)
  have same: "window_rows (n # rs) g (r_start_at m) (r_end_at m) =
      window_rows rs g (r_start_at m) (r_end_at m)" if "m \<in> set ns" "occupies g m" for m g
    using Cons.prems(4) that by (auto simp: window_rows_def rows_contend_def occupies_def overlaps_def)
  have "slot_ok (tot g) (live_on ((n # rs) @ ns) g t)"
    by (rule Cons.IH) (use step Cons.prems same in auto)
  moreover have "mset (live_on ((n # rs) @ ns) g t) = mset (live_on (rs @ n # ns) g t)"
    by (rule live_on_mset) simp
  ultimately show ?case using slot_ok_mset by blast
qed simp

text \<open>Replacing a row by an admitted one, the other rows being its window.\<close>

lemma admitted_replace:
  assumes d: "distinct (map r_id rs)" and old: "r_id n \<in> r_id ` set rs"
    and ok: "\<And>g t. slot_ok (tot g) (live_on rs g t)"
    and amounts: "\<And>r. r \<in> set rs \<Longrightarrow> amounts_ok r"
    and adm: "\<And>g. occupies g n \<Longrightarrow> \<not> refuses (r_gpu_memory_mb n) (r_gpu_compute_share_pct n)
        (filter (\<lambda>r. r_id r \<noteq> r_id n) (window_rows rs g (r_start_at n) (r_end_at n))) (tot g)"
  shows "slot_ok (tot g) (live_on (row_put r_id n rs) g t)"
proof -
  let ?others = "filter (\<lambda>x. r_id x \<noteq> r_id n) rs"
  have others: "slot_ok (tot g) (live_on ?others g t)" for g t
    using slot_ok_filter[OF ok, of g t "\<lambda>x. r_id x \<noteq> r_id n"] amounts
    by (auto simp: live_on_def filter_filter conj_commute cong: filter_cong)
  have "slot_ok (tot g) (live_on (n # ?others) g t)"
    by (rule admitted_rows[OF others])
      (use amounts adm in \<open>auto simp: window_rows_def filter_filter conj_commute cong: filter_cong\<close>)
  moreover have "mset (live_on (n # ?others) g t) = mset (live_on (row_put r_id n rs) g t)"
    by (rule live_on_mset) (simp add: mset_row_put[OF d old])
  ultimately show ?thesis using slot_ok_mset by blast
qed

end

text \<open>The code's classifier meets the contract.\<close>

definition classifier_refuses :: "int option \<Rightarrow> int option \<Rightarrow> reservation list \<Rightarrow> int \<Rightarrow> bool" where
  "classifier_refuses mem pct W tot \<longleftrightarrow> classify_conflict
     \<lparr>it_server_id = 0, it_gpu_id = None, it_start_at = dt_naive 0, it_end_at = dt_naive 0,
      it_account_link_id = 0, it_gpu_memory_mb = mem, it_gpu_compute_share_pct = pct\<rparr> W
     \<lparr>gpu_id = 0, gpu_server_id = 0, gpu_index = 0, gpu_memory_total_mb = Some tot, gpu_is_active = True\<rparr>
     \<noteq> None"

lemma classifier_refuses_iff: "classifier_refuses mem pct W tot \<longleftrightarrow> \<not> fits mem pct W tot"
proof -
  have "\<And>x. (x \<noteq> None) = (\<not> (x = None))" by simp
  then show ?thesis unfolding classifier_refuses_def by (simp only: classify_conflict_None) simp
qed

lemma classify_refuses: "classify_conflict it W g \<noteq> None \<longleftrightarrow>
    classifier_refuses (it_gpu_memory_mb it) (it_gpu_compute_share_pct it) W (or0 (gpu_memory_total_mb g))"
  by (simp add: classifier_refuses_iff classify_conflict_None del: not_None_eq)

interpretation booking: admission classifier_refuses
  by unfold_locales (auto simp: classifier_refuses_iff fits_def split: option.splits)

end
