(* ===== verification/Reservation_Booking.thy ===== *)
theory Reservation_Booking
  imports Audit_Notify Reservation_Core
begin

text \<open>
  The booking operations of \<open>services/reservation_service.py\<close>: \<open>preview_conflicts\<close>,
  \<open>create_reservation_batch\<close>, \<open>modify_reservation\<close> and the two listings, with the frame and the
  audit rows they emit. An operation returns its result together with the session, because an
  \<open>HTTPException\<close> does not undo what the session holds: \<open>modify_reservation\<close> leaves the ORM row
  changed when a later check raises.
\<close>

section \<open>Frames and links\<close>

datatype lifecycle_change = ChangeCreated | ChangeCancelled | ChangeTransition

fun change_str :: "lifecycle_change \<Rightarrow> string" where
  "change_str ChangeCreated = ''created''"
| "change_str ChangeCancelled = ''cancelled''"
| "change_str ChangeTransition = ''transition''"

text \<open>
  \<open>_serialize_reservation_for_ws\<close>. The two time attributes are passed apart: a row just created
  still carries the request's datetimes, a row loaded from the database carries naive ones.
  \<open>cancelled_at\<close> is only ever set in the session that serialises it, to \<open>datetime.now(UTC)\<close>.
\<close>

definition serialize_reservation_for_ws ::
    "reservation \<Rightarrow> datetime \<Rightarrow> datetime \<Rightarrow> lifecycle_change \<Rightarrow> payload" where
  "serialize_reservation_for_ws r st en change =
    [(''reservation_id'', JInt (r_id r)), (''change'', JStr (change_str change)),
     (''status'', JStr (status_str (r_status r))), (''user_id'', JInt (r_user_id r)),
     (''server_id'', JInt (r_server_id r)), (''gpu_id'', jopt JInt (r_gpu_id r)),
     (''account_link_id'', JInt (r_account_link_id r)), (''group_id'', jopt JStr (r_group_id r)),
     (''start_at'', JTime st), (''end_at'', JTime en),
     (''gpu_memory_mb'', jopt JInt (r_gpu_memory_mb r)),
     (''gpu_compute_share_pct'', jopt JInt (r_gpu_compute_share_pct r)),
     (''cancelled_at'', jopt (JTime \<circ> dt_utc) (r_cancelled_at r)),
     (''cancellation_reason'', jopt JStr (r_cancellation_reason r))]"

definition push_reservation_lifecycle ::
    "reservation \<Rightarrow> datetime \<Rightarrow> datetime \<Rightarrow> lifecycle_change \<Rightarrow> session \<Rightarrow> session" where
  "push_reservation_lifecycle r st en change s =
     push_to_user (r_user_id r) (ReservationStatusChange (serialize_reservation_for_ws r st en change)) s"

definition reservation_cta_url :: "session \<Rightarrow> reservation \<Rightarrow> string" where
  "reservation_cta_url s r = (case d_links (s_db s) (r_account_link_id r) of
      Some link \<Rightarrow> ''/me/accounts/'' @ int_str (al_physical_account_id link)
        @ ''/reservations?highlight='' @ int_str (r_id r)
    | None \<Rightarrow> ''/me/all-reservations'')"

section \<open>Preview\<close>

record time_limit_check =
  tl_input_index :: nat
  tl_max_hours :: "int option"
  tl_requested_hours :: rat
  tl_would_exceed :: bool

definition no_check :: "nat \<Rightarrow> time_limit_check" where
  "no_check idx = \<lparr>tl_input_index = idx, tl_max_hours = None, tl_requested_hours = 0, tl_would_exceed = False\<rparr>"

definition invalid_time_conflict :: "nat \<Rightarrow> conflict_record" where
  "invalid_time_conflict idx = plain_conflict (int idx) InvalidTime []"

text \<open>\<open>item.end_at <= item.start_at or item.start_at < grace\<close>, or a \<open>TypeError\<close>.\<close>

definition preview_time_bad :: "item_draft \<Rightarrow> datetime \<Rightarrow> bool option" where
  "preview_time_bad item grace = (case dt_le (it_end_at item) (it_start_at item) of
      None \<Rightarrow> None
    | Some True \<Rightarrow> Some True
    | Some False \<Rightarrow> dt_lt (it_start_at item) grace)"

definition preview_gpu :: "session \<Rightarrow> nat \<Rightarrow> item_draft \<Rightarrow> conflict_record list" where
  "preview_gpu s idx item = (case it_gpu_id item of None \<Rightarrow> []
    | Some g \<Rightarrow> (case d_gpus (s_db s) g of None \<Rightarrow> [invalid_time_conflict idx]
      | Some gp \<Rightarrow>
          (case classify_conflict item
                  (window_active_reservations s g (it_start_at item) (it_end_at item)) gp of
             None \<Rightarrow> []
           | Some c \<Rightarrow> [c\<lparr>cf_input_index := int idx\<rparr>])))"

definition preview_item :: "session \<Rightarrow> datetime \<Rightarrow> nat \<Rightarrow> item_draft \<Rightarrow>
    res_error + (conflict_record list \<times> time_limit_check)" where
  "preview_item s now idx item =
    (case preview_time_bad item (now\<lparr>dt_wall := dt_wall now - minutes 5\<rparr>) of
       None \<Rightarrow> Inl PyTypeError
     | Some True \<Rightarrow> Inr ([invalid_time_conflict idx], no_check idx)
     | Some False \<Rightarrow>
        (case d_servers (s_db s) (it_server_id item) of
           None \<Rightarrow> Inr ([invalid_time_conflict idx], no_check idx)
         | Some sv \<Rightarrow>
            (let requested = hours_between (dt_to_utc (it_start_at item)) (dt_to_utc (it_end_at item));
                 max_hours = srv_max_reservation_hours sv;
                 would_exceed = (case max_hours of None \<Rightarrow> False | Some mh \<Rightarrow> requested > of_int mh)
             in Inr ((if would_exceed
                      then [(plain_conflict (int idx) TimeTooLong [])\<lparr>cf_time :=
                              Some \<lparr>td_max_hours = max_hours, td_requested_hours = round2 requested\<rparr>\<rparr>]
                      else []) @ preview_gpu s idx item,
                 \<lparr>tl_input_index = idx, tl_max_hours = max_hours, tl_requested_hours = round2 requested,
                  tl_would_exceed = would_exceed\<rparr>))))"

fun preview_from :: "session \<Rightarrow> datetime \<Rightarrow> nat \<Rightarrow> item_draft list \<Rightarrow>
    res_error + (conflict_record list \<times> time_limit_check list)" where
  "preview_from s now idx [] = Inr ([], [])"
| "preview_from s now idx (item # items) =
     rbind (preview_item s now idx item) (\<lambda>(cs, tl).
     rbind (preview_from s now (Suc idx) items) (\<lambda>(cs', tls). Inr (cs @ cs', tl # tls)))"

definition preview_conflicts :: "session \<Rightarrow> item_draft list \<Rightarrow> datetime \<Rightarrow>
    res_error + (conflict_record list \<times> time_limit_check list)" where
  "preview_conflicts s items now = preview_from s now 0 items"

section \<open>Create\<close>

definition SCRIPT_MAX_BYTES :: nat where
  "SCRIPT_MAX_BYTES = 4096"

definition script_too_large :: "ustring option \<Rightarrow> bool" where
  "script_too_large script \<longleftrightarrow> (case script of None \<Rightarrow> False | Some t \<Rightarrow> utf8_len t > SCRIPT_MAX_BYTES)"

text \<open>The first loop: a row without a GPU needs a script and declares no share.\<close>

fun check_mode3 :: "ustring option \<Rightarrow> nat \<Rightarrow> item_draft list \<Rightarrow> res_error + unit" where
  "check_mode3 script idx [] = Inr ()"
| "check_mode3 script idx (item # items) =
    (if it_gpu_id item = None \<and> script = None then Inl (InvalidTimeError (GpuNullRequiresScript idx))
     else if it_gpu_id item = None \<and> (it_gpu_memory_mb item \<noteq> None \<or> it_gpu_compute_share_pct item \<noteq> None)
     then Inl (InvalidTimeError (GpuNullWithShare idx))
     else check_mode3 script (Suc idx) items)"

text \<open>\<open>start_at <= script_scheduled_start_at < end_at\<close>, a chained comparison.\<close>

definition in_span :: "datetime \<Rightarrow> datetime \<Rightarrow> datetime \<Rightarrow> bool option" where
  "in_span st t en = (case dt_le st t of None \<Rightarrow> None | Some False \<Rightarrow> Some False | Some True \<Rightarrow> dt_lt t en)"

definition check_script_start :: "datetime option \<Rightarrow> item_draft \<Rightarrow> res_error + unit" where
  "check_script_start sst item = (case sst of None \<Rightarrow> Inr ()
    | Some t \<Rightarrow> (case in_span (it_start_at item) t (it_end_at item) of
        None \<Rightarrow> Inl PyTypeError
      | Some True \<Rightarrow> Inr ()
      | Some False \<Rightarrow> Inl (InvalidTimeError ScriptStartOutOfRange)))"

text \<open>The second loop: time, server, link and script start of every item.\<close>

fun check_items :: "session \<Rightarrow> int \<Rightarrow> datetime \<Rightarrow> datetime option \<Rightarrow> item_draft list \<Rightarrow> res_error + unit" where
  "check_items s user_id now sst [] = Inr ()"
| "check_items s user_id now sst (item # items) =
     rbind (validate_item_time s item now) (\<lambda>_.
     rbind (load_link_or_raise s (it_account_link_id item) user_id) (\<lambda>_.
     rbind (check_script_start sst item) (\<lambda>_. check_items s user_id now sst items)))"

text \<open>The third loop: every item against the booked rows.\<close>

definition conflict_error :: "conflict_record \<Rightarrow> res_error" where
  "conflict_error c = (case cf_type c of
      ExclusiveConflict \<Rightarrow> ReservationOverlapError (cf_ids c)
    | MixExclusiveShared \<Rightarrow> ReservationMixExclusiveSharedError (cf_ids c)
    | MemoryExceeded \<Rightarrow> (case cf_memory c of
        Some m \<Rightarrow> ReservationMemoryExceededError (md_used_mb m) (md_would_use_mb m) (md_total_mb m) (cf_ids c)
      | None \<Rightarrow> ReservationMemoryExceededError 0 0 0 (cf_ids c))
    | _ \<Rightarrow> (case cf_compute c of
        Some p \<Rightarrow> ReservationComputeExceededError (cd_used_pct p) (cd_would_use_pct p) (cf_ids c)
      | None \<Rightarrow> ReservationComputeExceededError 0 0 (cf_ids c)))"

definition check_conflict :: "session \<Rightarrow> item_draft \<Rightarrow> res_error + unit" where
  "check_conflict s item = (case it_gpu_id item of None \<Rightarrow> Inr ()
    | Some g \<Rightarrow> (case d_gpus (s_db s) g of None \<Rightarrow> Inl (InvalidTimeError (GpuMissing g))
      | Some gp \<Rightarrow>
          (case classify_conflict item
                  (window_active_reservations s g (it_start_at item) (it_end_at item)) gp of
             None \<Rightarrow> Inr ()
           | Some c \<Rightarrow> Inl (conflict_error c))))"

fun check_conflicts :: "session \<Rightarrow> item_draft list \<Rightarrow> res_error + unit" where
  "check_conflicts s [] = Inr ()"
| "check_conflicts s (item # items) = rbind (check_conflict s item) (\<lambda>_. check_conflicts s items)"

text \<open>
  The row of one item. \<open>share_script\<close> decides which rows carry the script; the trigger time falls
  back to the start of the item. A script that is the empty string counts as absent in the two
  conditional expressions on \<open>carry_script\<close>, but is stored.
\<close>

definition truthy :: "ustring option \<Rightarrow> bool" where
  "truthy t \<longleftrightarrow> (case t of None \<Rightarrow> False | Some x \<Rightarrow> x \<noteq> [])"

definition carry_script :: "ustring option \<Rightarrow> bool \<Rightarrow> nat \<Rightarrow> ustring option" where
  "carry_script script share_script idx = (if share_script \<or> idx = 0 then script else None)"

definition new_row :: "int \<Rightarrow> string \<Rightarrow> ustring option \<Rightarrow> datetime option \<Rightarrow> int option \<Rightarrow> bool \<Rightarrow>
    int \<Rightarrow> nat \<Rightarrow> item_draft \<Rightarrow> reservation" where
  "new_row user_id gid script sst max_runtime share_script clock idx item =
    (let cs = carry_script script share_script idx in
     \<lparr>r_id = 0, r_user_id = user_id, r_server_id = it_server_id item, r_gpu_id = it_gpu_id item,
      r_account_link_id = it_account_link_id item, r_group_id = Some gid,
      r_start_at = dt_wall (it_start_at item), r_end_at = dt_wall (it_end_at item),
      r_status = Scheduled, r_gpu_memory_mb = it_gpu_memory_mb item,
      r_gpu_compute_share_pct = it_gpu_compute_share_pct item, r_script = cs,
      r_script_scheduled_start_at = (if truthy cs
        then Some (case sst of Some t \<Rightarrow> dt_wall t | None \<Rightarrow> dt_wall (it_start_at item)) else None),
      r_script_max_runtime_seconds = (if truthy cs then max_runtime else None),
      r_script_started_at = None, r_script_finished_at = None, r_script_exit_code = None,
      r_script_output_size_bytes = None, r_script_log_path = None, r_script_log_tail_text = None,
      r_script_log_tail_truncated = False, r_script_status = None, r_script_dispatch_started_at = None,
      r_created_at = clock, r_cancelled_at = None, r_cancelled_by_user_id = None,
      r_cancellation_reason = None\<rparr>)"

fun new_rows :: "(nat \<Rightarrow> item_draft \<Rightarrow> reservation) \<Rightarrow> nat \<Rightarrow> item_draft list \<Rightarrow> reservation list" where
  "new_rows f idx [] = []"
| "new_rows f idx (item # items) = f idx item # new_rows f (Suc idx) items"

text \<open>\<open>session.add\<close> for each row, then one flush: all rows are inserted, or none.\<close>

fun insert_rows :: "reservation list \<Rightarrow> db \<Rightarrow> db" where
  "insert_rows [] d = d"
| "insert_rows (r # rs) d = insert_rows rs (db_insert_res r d)"

definition flush_new :: "reservation list \<Rightarrow> session \<Rightarrow> res_error + session" where
  "flush_new rs s = (if list_all res_row_ok rs then Inr (s\<lparr>s_db := insert_rows rs (s_db s)\<rparr>)
     else Inl DbFlushError)"

definition create_audit :: "int \<Rightarrow> int \<Rightarrow> req_ctx \<Rightarrow> reservation \<Rightarrow> item_draft \<Rightarrow> audit_entry" where
  "create_audit user_id lab ctx r item =
     audit_of ''reservation.create'' (Some user_id) (Some lab) (Some ''reservation'') (Some (r_id r))
       (Some lab) (Some (r_server_id r))
       (Some [(''gpu_id'', jopt JInt (r_gpu_id r)), (''start_at'', JTime (it_start_at item)),
              (''end_at'', JTime (it_end_at item)), (''account_link_id'', JInt (r_account_link_id r)),
              (''group_id'', jopt JStr (r_group_id r)), (''gpu_memory_mb'', jopt JInt (r_gpu_memory_mb r)),
              (''gpu_compute_share_pct'', jopt JInt (r_gpu_compute_share_pct r)),
              (''has_script'', JBool (r_script r \<noteq> None))]) ctx"

fun announce_created :: "int \<Rightarrow> int \<Rightarrow> req_ctx \<Rightarrow> (reservation \<times> item_draft) list \<Rightarrow> session \<Rightarrow> session" where
  "announce_created user_id lab ctx [] s = s"
| "announce_created user_id lab ctx ((r, item) # rest) s =
     announce_created user_id lab ctx rest
       (push_reservation_lifecycle r (it_start_at item) (it_end_at item) ChangeCreated
         (audit_write (create_audit user_id lab ctx r item) s))"

text \<open>The ids the rows received, in insertion order.\<close>

fun with_ids :: "int \<Rightarrow> reservation list \<Rightarrow> reservation list" where
  "with_ids k [] = []"
| "with_ids k (r # rs) = r\<lparr>r_id := k\<rparr> # with_ids (k + 1) rs"

definition create_reservation_batch :: "item_draft list \<Rightarrow> int \<Rightarrow> int \<Rightarrow> ustring option \<Rightarrow>
    datetime option \<Rightarrow> int option \<Rightarrow> bool \<Rightarrow> datetime \<Rightarrow> string \<Rightarrow> req_ctx \<Rightarrow> session \<Rightarrow>
    (res_error + (string \<times> reservation list)) \<times> session" where
  "create_reservation_batch items user_id lab script sst max_runtime share_script now gid ctx s =
    (if items = [] then (Inl (InvalidTimeError NoItems), s)
     else if script_too_large script then (Inl ScriptTooLargeError, s)
     else case rbind (check_mode3 script 0 items) (\<lambda>_.
               rbind (check_items s user_id now sst items) (\<lambda>_. check_conflicts s items)) of
       Inl e \<Rightarrow> (Inl e, s)
     | Inr _ \<Rightarrow>
        (let rows = new_rows (new_row user_id gid script sst max_runtime share_script (s_clock s)) 0 items;
             created = with_ids (d_next_reservation (s_db s)) rows
         in case flush_new rows s of
              Inl e \<Rightarrow> (Inl e, s)
            | Inr s' \<Rightarrow> (Inr (gid, created),
                announce_created user_id lab ctx (zip created items) s')))"

section \<open>Modify\<close>

record modify_args =
  mo_start_at :: "datetime option"
  mo_end_at :: "datetime option"
  mo_script :: "ustring option"
  mo_script_scheduled_start_at :: "datetime option"
  mo_script_max_runtime_seconds :: "int option"

definition opt_else :: "'a option \<Rightarrow> 'a \<Rightarrow> 'a" where
  "opt_else x d = (case x of None \<Rightarrow> d | Some v \<Rightarrow> v)"

text \<open>\<open>row.start_at\<close> and \<open>row.end_at\<close> after the two assignments: a new value keeps its offset in the
ORM object, the column keeps the wall clock.\<close>

definition new_start :: "modify_args \<Rightarrow> reservation \<Rightarrow> datetime" where
  "new_start a row = opt_else (mo_start_at a) (dt_naive (r_start_at row))"

definition new_end :: "modify_args \<Rightarrow> reservation \<Rightarrow> datetime" where
  "new_end a row = opt_else (mo_end_at a) (dt_naive (r_end_at row))"

definition retimed :: "modify_args \<Rightarrow> bool" where
  "retimed a \<longleftrightarrow> mo_start_at a \<noteq> None \<or> mo_end_at a \<noteq> None"

definition timed_row :: "modify_args \<Rightarrow> reservation \<Rightarrow> reservation" where
  "timed_row a row = row\<lparr>r_start_at := dt_wall (new_start a row), r_end_at := dt_wall (new_end a row)\<rparr>"

text \<open>The checks on a new time window; the rows of the window other than the row itself.\<close>

definition modify_item :: "reservation \<Rightarrow> datetime \<Rightarrow> datetime \<Rightarrow> item_draft" where
  "modify_item row st en = \<lparr>it_server_id = r_server_id row, it_gpu_id = r_gpu_id row, it_start_at = st,
     it_end_at = en, it_account_link_id = r_account_link_id row, it_gpu_memory_mb = r_gpu_memory_mb row,
     it_gpu_compute_share_pct = r_gpu_compute_share_pct row\<rparr>"

definition modify_time_check :: "session \<Rightarrow> reservation \<Rightarrow> datetime \<Rightarrow> datetime \<Rightarrow> datetime \<Rightarrow> res_error + unit" where
  "modify_time_check s row st en now =
    (let item = modify_item row st en in
     rbind (validate_item_time s item now) (\<lambda>_.
       (case r_gpu_id row of None \<Rightarrow> Inr ()
        | Some g \<Rightarrow> (case d_gpus (s_db s) g of None \<Rightarrow> Inl (InvalidTimeError (GpuMissing g))
          | Some gp \<Rightarrow>
             (let in_window = filter (\<lambda>r. r_id r \<noteq> r_id row) (window_active_reservations s g st en) in
              case classify_conflict item in_window gp of
                None \<Rightarrow> Inr ()
              | Some c \<Rightarrow> Inl (ReservationOverlapError (cf_ids c)))))))"

definition modify_script :: "modify_args \<Rightarrow> datetime \<Rightarrow> reservation \<Rightarrow> reservation" where
  "modify_script a st row = (case mo_script a of None \<Rightarrow> row
    | Some t \<Rightarrow> row\<lparr>r_script := Some t,
        r_script_scheduled_start_at :=
          (if r_script_scheduled_start_at row = None \<and> mo_script_scheduled_start_at a = None
           then Some (dt_wall st) else r_script_scheduled_start_at row)\<rparr>)"

text \<open>The script trigger: normalised to a naive value, then compared with the row's attributes.\<close>

definition modify_trigger_check :: "modify_args \<Rightarrow> datetime \<Rightarrow> datetime \<Rightarrow> res_error + unit" where
  "modify_trigger_check a st en = (case mo_script_scheduled_start_at a of None \<Rightarrow> Inr ()
    | Some d \<Rightarrow> (case in_span st (dt_naive (dt_to_utc d)) en of
        None \<Rightarrow> Inl PyTypeError
      | Some True \<Rightarrow> Inr ()
      | Some False \<Rightarrow> Inl (InvalidTimeError ScriptStartOutOfRange)))"

definition modify_knobs :: "modify_args \<Rightarrow> reservation \<Rightarrow> reservation" where
  "modify_knobs a row = row\<lparr>
     r_script_scheduled_start_at := (case mo_script_scheduled_start_at a of
        None \<Rightarrow> r_script_scheduled_start_at row | Some d \<Rightarrow> Some (dt_to_utc d)),
     r_script_max_runtime_seconds := (case mo_script_max_runtime_seconds a of
        None \<Rightarrow> r_script_max_runtime_seconds row | Some v \<Rightarrow> Some v)\<rparr>"

definition fields_changed :: "modify_args \<Rightarrow> string list" where
  "fields_changed a =
     (if mo_start_at a \<noteq> None then [''start_at''] else []) @
     (if mo_end_at a \<noteq> None then [''end_at''] else []) @
     (if mo_script a \<noteq> None then [''script''] else []) @
     (if mo_script_scheduled_start_at a \<noteq> None then [''script_scheduled_start_at''] else []) @
     (if mo_script_max_runtime_seconds a \<noteq> None then [''script_max_runtime_seconds''] else [])"

definition modify_audit :: "int \<Rightarrow> int \<Rightarrow> req_ctx \<Rightarrow> reservation \<Rightarrow> modify_args \<Rightarrow> audit_entry" where
  "modify_audit actor lab ctx r a =
     audit_of ''reservation.modify'' (Some actor) (Some lab) (Some ''reservation'') (Some (r_id r))
       (Some lab) (Some (r_server_id r))
       (Some [(''fields_changed'', JList (map JStr (fields_changed a)))]) ctx"

definition modify_reservation :: "int \<Rightarrow> int \<Rightarrow> modify_args \<Rightarrow> int \<Rightarrow> datetime \<Rightarrow> req_ctx \<Rightarrow> session \<Rightarrow>
    (res_error + reservation) \<times> session" where
  "modify_reservation rid actor a lab now ctx s =
    (case get_reservation s rid of
       None \<Rightarrow> (Inl ReservationNotFoundError, s)
     | Some row \<Rightarrow>
        if r_status row \<noteq> Scheduled then (Inl ReservationError, s)
        else if r_user_id row \<noteq> actor then (Inl CancelNotPermittedError, s)
        else if (mo_script_scheduled_start_at a \<noteq> None \<or> mo_script_max_runtime_seconds a \<noteq> None)
             \<and> (r_script_status row \<noteq> None \<or> r_script_dispatch_started_at row \<noteq> None)
        then (Inl ReservationError, s)
        else
         (let st = new_start a row;
              en = new_end a row;
              row1 = timed_row a row;
              s1 = (if retimed a then s\<lparr>s_dirty := Some row1\<rparr> else s)
          in case (if retimed a then modify_time_check s row1 st en now else Inr ()) of
               Inl e \<Rightarrow> (Inl e, s1)
             | Inr _ \<Rightarrow>
                 if script_too_large (mo_script a) then (Inl ScriptTooLargeError, s1)
                 else
                  (let row2 = modify_script a st row1;
                       s2 = (if mo_script a \<noteq> None then s1\<lparr>s_dirty := Some row2\<rparr> else s1)
                   in case modify_trigger_check a st en of
                        Inl e \<Rightarrow> (Inl e, s2)
                      | Inr _ \<Rightarrow>
                         (let row3 = modify_knobs a row2 in
                          case flush_res row3 s2 of
                            Inl e \<Rightarrow> (Inl e, s2)
                          | Inr s3 \<Rightarrow> (Inr row3, audit_write (modify_audit actor lab ctx row3 a) s3)))))"

section \<open>Listings\<close>

definition status_in :: "string list option \<Rightarrow> reservation \<Rightarrow> bool" where
  "status_in statuses r \<longleftrightarrow> (case statuses of None \<Rightarrow> True
     | Some ss \<Rightarrow> ss = [] \<or> status_str (r_status r) \<in> set ss)"

definition opt_holds :: "'v option \<Rightarrow> ('v \<Rightarrow> bool) \<Rightarrow> bool" where
  "opt_holds v p \<longleftrightarrow> (case v of None \<Rightarrow> True | Some x \<Rightarrow> p x)"

definition list_reservations :: "session \<Rightarrow> int option \<Rightarrow> int option \<Rightarrow> int option \<Rightarrow> datetime option \<Rightarrow>
    datetime option \<Rightarrow> string list option \<Rightarrow> nat \<Rightarrow> reservation list" where
  "list_reservations s server gp usr starts_after ends_before statuses limit =
     take limit (sort_key r_start_at (filter (\<lambda>r.
        opt_holds server (\<lambda>v. r_server_id r = v) \<and> opt_holds gp (\<lambda>v. r_gpu_id r = Some v)
        \<and> opt_holds usr (\<lambda>v. r_user_id r = v)
        \<and> opt_holds starts_after (\<lambda>t. r_end_at r > dt_wall t)
        \<and> opt_holds ends_before (\<lambda>t. r_start_at r < dt_wall t)
        \<and> status_in statuses r) (reservations s)))"

definition list_for_link :: "session \<Rightarrow> int \<Rightarrow> string list option \<Rightarrow> nat \<Rightarrow> reservation list" where
  "list_for_link s link statuses limit =
     take limit (sort_key (\<lambda>r. - r_start_at r)
       (filter (\<lambda>r. r_account_link_id r = link \<and> status_in statuses r) (reservations s)))"

end
