(* ===== verification/Reservation_Lifecycle.thy ===== *)
theory Reservation_Lifecycle
  imports Reservation_Booking
begin

text \<open>
  The operations of \<open>services/reservation_service.py\<close> that move a booked row through its state
  machine: the two cancellations, the three scheduler transitions, the script status
  synchronisation, the bounded log tail and the dispatch marker. Every one reads the row, checks
  the move, writes the row, then the audit entry, the notification and the frame, in that order.
\<close>

definition push_row :: "reservation \<Rightarrow> lifecycle_change \<Rightarrow> session \<Rightarrow> session" where
  "push_row r change s =
     push_reservation_lifecycle r (dt_naive (r_start_at r)) (dt_naive (r_end_at r)) change s"

section \<open>Cancellation\<close>

definition cancelled_row :: "int \<Rightarrow> int \<Rightarrow> string option \<Rightarrow> reservation \<Rightarrow> reservation" where
  "cancelled_row now actor reason row = row\<lparr>r_status := Cancelled, r_cancelled_at := Some now,
     r_cancelled_by_user_id := Some actor, r_cancellation_reason := reason\<rparr>"

definition cancel_audit :: "int \<Rightarrow> bool \<Rightarrow> string option \<Rightarrow> int \<Rightarrow> req_ctx \<Rightarrow> reservation \<Rightarrow> audit_entry" where
  "cancel_audit actor can_admin reason lab ctx row =
     audit_of ''reservation.cancel'' (Some actor) (Some lab) (Some ''reservation'') (Some (r_id row))
       (Some lab) (Some (r_server_id row))
       (Some [(''owner_user_id'', JInt (r_user_id row)), (''reason'', jopt JStr reason),
              (''by_admin'', JBool (can_admin \<and> r_user_id row \<noteq> actor))]) ctx"

definition cancel_notification :: "int \<Rightarrow> string option \<Rightarrow> reservation \<Rightarrow> session \<Rightarrow> session" where
  "cancel_notification actor reason row s =
     create_notification (r_user_id row) ''reservation.cancelled_by_other''
       (''Your reservation #'' @ int_str (r_id row) @ '' was cancelled by admin'') Warn reason
       (Some [(''reservation_id'', JInt (r_id row)), (''actor_user_id'', JInt actor),
              (''reason'', jopt JStr reason)])
       (Some (reservation_cta_url s row)) s"

definition cancel_reservation :: "int \<Rightarrow> int \<Rightarrow> bool \<Rightarrow> string option \<Rightarrow> int \<Rightarrow> req_ctx \<Rightarrow> session \<Rightarrow>
    (res_error + reservation) \<times> session" where
  "cancel_reservation rid actor can_admin reason lab ctx s =
    (case get_reservation s rid of
       None \<Rightarrow> (Inl ReservationNotFoundError, s)
     | Some row \<Rightarrow>
        if terminal_status (r_status row) then (Inl ReservationError, s)
        else if \<not> can_admin \<and> r_user_id row \<noteq> actor then (Inl CancelNotPermittedError, s)
        else case assert_transition_allowed (r_status row) Cancelled of
          Inl e \<Rightarrow> (Inl e, s)
        | Inr _ \<Rightarrow>
           (let row' = cancelled_row (s_clock s) actor reason row in
            case flush_res row' s of
              Inl e \<Rightarrow> (Inl e, s\<lparr>s_dirty := Some row'\<rparr>)
            | Inr s1 \<Rightarrow>
               (let s2 = audit_write (cancel_audit actor can_admin reason lab ctx row') s1;
                    s3 = (if can_admin \<and> r_user_id row' \<noteq> actor
                          then cancel_notification actor reason row' s2 else s2)
                in (Inr row', push_row row' ChangeCancelled s3))))"

text \<open>\<open>cancel_group\<close>: one flush for all rows, one audit row, one frame per row.\<close>

definition group_rows :: "session \<Rightarrow> string \<Rightarrow> reservation list" where
  "group_rows s gid = filter (\<lambda>r. r_group_id r = Some gid \<and> active_status (r_status r)) (reservations s)"

definition script_running_row :: "reservation \<Rightarrow> bool" where
  "script_running_row r \<longleftrightarrow> r_status r = Active \<and> r_script_status r = Some S_Running"

fun flush_all :: "reservation list \<Rightarrow> session \<Rightarrow> res_error + session" where
  "flush_all [] s = Inr s"
| "flush_all (r # rs) s = rbind (flush_res r s) (flush_all rs)"

fun push_rows :: "reservation list \<Rightarrow> lifecycle_change \<Rightarrow> session \<Rightarrow> session" where
  "push_rows [] change s = s"
| "push_rows (r # rs) change s = push_rows rs change (push_row r change s)"

definition cancel_group_audit :: "string \<Rightarrow> int \<Rightarrow> bool \<Rightarrow> string option \<Rightarrow> int \<Rightarrow> req_ctx \<Rightarrow> reservation list \<Rightarrow>
    audit_entry" where
  "cancel_group_audit gid actor can_admin reason lab ctx rows =
     audit_of ''reservation.cancel.group'' (Some actor) (Some lab) (Some ''reservation_group'') None
       (Some lab) (Some (r_server_id (hd rows)))
       (Some [(''group_id'', JStr gid), (''count'', JInt (int (length rows))), (''reason'', jopt JStr reason),
              (''owner_user_id'', JInt (r_user_id (hd rows))),
              (''by_admin'', JBool (can_admin \<and> r_user_id (hd rows) \<noteq> actor))]) ctx"

definition cancel_group :: "string \<Rightarrow> int \<Rightarrow> bool \<Rightarrow> string option \<Rightarrow> int \<Rightarrow> req_ctx \<Rightarrow> session \<Rightarrow>
    (res_error + reservation list) \<times> session" where
  "cancel_group gid actor can_admin reason lab ctx s =
    (case group_rows s gid of
       [] \<Rightarrow> (Inl ReservationNotFoundError, s)
     | first # rest \<Rightarrow>
        if \<not> can_admin \<and> r_user_id first \<noteq> actor then (Inl CancelNotPermittedError, s)
        else
         (let running = map r_id (filter script_running_row (first # rest)) in
          if running \<noteq> [] then (Inl (GroupCancelRunningScriptError running), s)
          else
           (let rows' = map (cancelled_row (s_clock s) actor reason) (first # rest) in
            case flush_all rows' s of
              Inl e \<Rightarrow> (Inl e, s)
            | Inr s1 \<Rightarrow> (Inr rows', push_rows rows' ChangeCancelled
                (audit_write (cancel_group_audit gid actor can_admin reason lab ctx rows') s1)))))"

section \<open>Scheduler transitions\<close>

definition script_json :: "reservation \<Rightarrow> json" where
  "script_json r = jopt (JStr \<circ> script_status_str) (r_script_status r)"

definition write_transition_audit :: "reservation \<Rightarrow> res_status \<Rightarrow> res_status \<Rightarrow> string \<Rightarrow> int option \<Rightarrow> int \<Rightarrow>
    payload \<Rightarrow> req_ctx \<Rightarrow> session \<Rightarrow> session" where
  "write_transition_audit row from_status to_status trigger actor lab extra ctx s =
     audit_write (audit_of ''reservation.transition'' actor (Some lab) (Some ''reservation'') (Some (r_id row))
       (Some lab) (Some (r_server_id row))
       (Some (dict_update [(''from'', JStr (status_str from_status)), (''to'', JStr (status_str to_status)),
          (''trigger'', JStr trigger), (''gpu_id'', jopt JInt (r_gpu_id row))] extra)) ctx) s"

definition transition_to_active :: "reservation \<Rightarrow> int \<Rightarrow> string \<Rightarrow> int option \<Rightarrow> int option \<Rightarrow> req_ctx \<Rightarrow>
    session \<Rightarrow> res_error + (reservation \<times> session)" where
  "transition_to_active row lab trigger actor now ctx s =
     rbind (assert_transition_allowed (r_status row) Active) (\<lambda>_.
     let row' = row\<lparr>r_status := Active\<rparr> in
     rbind (flush_res row' s) (\<lambda>s1.
     let s2 = write_transition_audit row' (r_status row) Active trigger actor lab
                [(''at'', JTime (dt_utc (opt_else now (s_clock s))))] ctx s1;
         s3 = create_notification (r_user_id row') ''reservation.started''
                (''Your reservation #'' @ int_str (r_id row') @ '' has started'') Info None
                (Some [(''reservation_id'', JInt (r_id row')), (''server_id'', JInt (r_server_id row')),
                       (''gpu_id'', jopt JInt (r_gpu_id row'))])
                (Some (reservation_cta_url s2 row')) s2
     in Inr (row', push_row row' ChangeTransition s3)))"

definition transition_to_completed :: "reservation \<Rightarrow> int \<Rightarrow> string \<Rightarrow> int option \<Rightarrow> int option \<Rightarrow> req_ctx \<Rightarrow>
    session \<Rightarrow> res_error + (reservation \<times> session)" where
  "transition_to_completed row lab trigger actor now ctx s =
     rbind (assert_transition_allowed (r_status row) Completed) (\<lambda>_.
     let row' = row\<lparr>r_status := Completed\<rparr> in
     rbind (flush_res row' s) (\<lambda>s1.
     let s2 = write_transition_audit row' (r_status row) Completed trigger actor lab
                [(''at'', JTime (dt_utc (opt_else now (s_clock s)))), (''script_status'', script_json row')] ctx s1;
         s3 = create_notification (r_user_id row') ''reservation.completed''
                (''Your reservation #'' @ int_str (r_id row') @ '' completed'') Info None
                (Some [(''reservation_id'', JInt (r_id row')), (''script_status'', script_json row')])
                (Some (reservation_cta_url s2 row')) s2
     in Inr (row', push_row row' ChangeTransition s3)))"

text \<open>\<open>if not reservation.cancellation_reason\<close>: an absent or an empty reason is replaced.\<close>

definition failed_row :: "string \<Rightarrow> reservation \<Rightarrow> reservation" where
  "failed_row reason row = row\<lparr>r_status := Failed, r_cancellation_reason :=
     (case r_cancellation_reason row of None \<Rightarrow> Some reason
      | Some old \<Rightarrow> if old = '''' then Some reason else Some old)\<rparr>"

definition transition_to_failed :: "reservation \<Rightarrow> int \<Rightarrow> string \<Rightarrow> string \<Rightarrow> int option \<Rightarrow> int option \<Rightarrow> req_ctx \<Rightarrow>
    session \<Rightarrow> res_error + (reservation \<times> session)" where
  "transition_to_failed row lab reason trigger actor now ctx s =
     rbind (assert_transition_allowed (r_status row) Failed) (\<lambda>_.
     let row' = failed_row reason row in
     rbind (flush_res row' s) (\<lambda>s1.
     let s2 = write_transition_audit row' (r_status row) Failed trigger actor lab
                [(''at'', JTime (dt_utc (opt_else now (s_clock s)))), (''script_status'', script_json row'),
                 (''reason'', JStr reason)] ctx s1;
         s3 = create_notification (r_user_id row') ''reservation.failed''
                (''Your reservation #'' @ int_str (r_id row') @ '' failed: '' @ reason) Warn None
                (Some [(''reservation_id'', JInt (r_id row')), (''reason'', JStr reason),
                       (''script_status'', script_json row')])
                (Some (reservation_cta_url s2 row')) s2
     in Inr (row', push_row row' ChangeTransition s3)))"

section \<open>Script status\<close>

definition script_status_row :: "script_status \<Rightarrow> int option \<Rightarrow> int option \<Rightarrow> int option \<Rightarrow> reservation \<Rightarrow> reservation" where
  "script_status_row new exit_code started_at finished_at row =
    (let r1 = row\<lparr>r_script_status := Some new\<rparr>;
         r2 = (if new = S_Running \<and> started_at \<noteq> None then r1\<lparr>r_script_started_at := started_at\<rparr> else r1)
     in if new \<in> {S_Completed, S_Failed, S_Killed}
        then (let r3 = (if finished_at \<noteq> None then r2\<lparr>r_script_finished_at := finished_at\<rparr> else r2)
              in if exit_code \<noteq> None then r3\<lparr>r_script_exit_code := exit_code\<rparr> else r3)
        else r2)"

definition script_lifecycle_audit :: "script_status option \<Rightarrow> script_status \<Rightarrow> string \<Rightarrow> int option \<Rightarrow> int option \<Rightarrow>
    int \<Rightarrow> req_ctx \<Rightarrow> reservation \<Rightarrow> audit_entry" where
  "script_lifecycle_audit current new trigger exit_code actor lab ctx row =
     audit_of ''reservation.script.lifecycle'' actor (Some lab) (Some ''reservation'') (Some (r_id row))
       (Some lab) (Some (r_server_id row))
       (Some [(''from'', jopt (JStr \<circ> script_status_str) current), (''to'', JStr (script_status_str new)),
              (''trigger'', JStr trigger), (''exit_code'', jopt JInt exit_code)]) ctx"

definition update_script_status :: "reservation \<Rightarrow> script_status \<Rightarrow> int \<Rightarrow> string \<Rightarrow> int option \<Rightarrow> int option \<Rightarrow>
    int option \<Rightarrow> int option \<Rightarrow> req_ctx \<Rightarrow> session \<Rightarrow> res_error + (reservation \<times> session)" where
  "update_script_status row new lab trigger exit_code started_at finished_at actor ctx s =
    (if new \<notin> set (allowed_script_transitions (r_script_status row))
     then Inl (ReservationIllegalTransitionError
       (case r_script_status row of None \<Rightarrow> ''null'' | Some c \<Rightarrow> script_status_str c) (script_status_str new))
     else
      (let row' = script_status_row new exit_code started_at finished_at row in
       rbind (flush_res row' s) (\<lambda>s1.
         Inr (row', audit_write
           (script_lifecycle_audit (r_script_status row) new trigger exit_code actor lab ctx row') s1))))"

text \<open>The log tail: \<open>combined[-max_chars:]\<close>, which for 0 is the whole text.\<close>

definition SCRIPT_LOG_TAIL_MAX_CHARS :: nat where
  "SCRIPT_LOG_TAIL_MAX_CHARS = 65536"

definition py_last :: "nat \<Rightarrow> 'a list \<Rightarrow> 'a list" where
  "py_last n xs = (if n = 0 then xs else drop (length xs - n) xs)"

definition tail_row :: "ustring \<Rightarrow> nat \<Rightarrow> reservation \<Rightarrow> reservation" where
  "tail_row t max_chars row =
    (let combined = opt_else (r_script_log_tail_text row) [] @ t in
     if length combined > max_chars
     then row\<lparr>r_script_log_tail_text := Some (py_last max_chars combined), r_script_log_tail_truncated := True\<rparr>
     else row\<lparr>r_script_log_tail_text := Some combined\<rparr>)"

definition append_script_log_tail :: "reservation \<Rightarrow> ustring \<Rightarrow> nat \<Rightarrow> session \<Rightarrow>
    res_error + (reservation \<times> session)" where
  "append_script_log_tail row t max_chars s =
    (if t = [] then Inr (row, s)
     else (let row' = tail_row t max_chars row in rbind (flush_res row' s) (\<lambda>s1. Inr (row', s1))))"

section \<open>Dispatch marker\<close>

definition dispatched_audit :: "reservation \<Rightarrow> int option \<Rightarrow> int \<Rightarrow> int \<Rightarrow> audit_entry" where
  "dispatched_audit row actor lab now =
     audit_of ''reservation.script.dispatched'' actor (Some lab) (Some ''reservation'') (Some (r_id row))
       (Some lab) (Some (r_server_id row))
       (Some [(''trigger'', JStr ''scheduler_dispatch''), (''dispatch_started_at'', JTime (dt_utc now))]) no_ctx"

definition mark_script_dispatched :: "reservation \<Rightarrow> int \<Rightarrow> int \<Rightarrow> int option \<Rightarrow> session \<Rightarrow>
    res_error + (reservation \<times> session)" where
  "mark_script_dispatched row lab now actor s =
    (if r_status row \<noteq> Active
     then Inl (ReservationIllegalTransitionError (status_str (r_status row)) ''script.dispatched'')
     else case r_script_status row of
       Some c \<Rightarrow> Inl (ReservationIllegalTransitionError (script_status_str c) ''running'')
     | None \<Rightarrow>
        (let row' = row\<lparr>r_script_status := Some S_Running, r_script_dispatch_started_at := Some now\<rparr> in
         rbind (flush_res row' s) (\<lambda>s1. Inr (row', audit_write (dispatched_audit row' actor lab now) s1))))"

end
