(* ===== verification/Agent_Rpc.thy ===== *)
theory Agent_Rpc
  imports Data_Model
begin

text \<open>
  \<open>services/agent_rpc.py\<close>, requests over the websocket of an agent matched with their responses by
  correlation id, and \<open>services/agent_hub.py\<close>, the pool of those websockets. The other components
  see the outcome of a request only (\<open>rpc_outcome\<close>).
\<close>

section \<open>Outcomes\<close>

text \<open>
  What \<open>request_response\<close> does: it raises one of its own errors (with the text of the
  exception), raises something else (a socket error of the send, an unknown frame type), or returns
  the response payload.
\<close>

datatype rpc_outcome =
    AgentOffline string
  | AgentRpcTimeout string
  | UnexpectedResponseType string
  | RpcOtherError
  | RpcReturned payload

text \<open>Python's truth value of a JSON value.\<close>

fun json_truthy :: "json \<Rightarrow> bool" where
  "json_truthy JNull = False"
| "json_truthy (JBool b) = b"
| "json_truthy (JInt i) = (i \<noteq> 0)"
| "json_truthy (JNum q) = (q \<noteq> 0)"
| "json_truthy (JStr t) = (t \<noteq> '''')"
| "json_truthy (JTime _) = True"
| "json_truthy (JList xs) = (xs \<noteq> [])"
| "json_truthy (JObj xs) = (xs \<noteq> [])"

definition RPC_REQUEST_TO_RESPONSE :: "string \<Rightarrow> string option" where
  "RPC_REQUEST_TO_RESPONSE = map_of
    [(''backend.ssh.verify_sig'', ''agent.ssh.verify_sig.response''),
     (''backend.pam.verify'', ''agent.pam.verify.response''),
     (''backend.authorized_key.push'', ''agent.authorized_key.push.response''),
     (''backend.authorized_key.revoke'', ''agent.authorized_key.revoke.response''),
     (''backend.authorized_key.read'', ''agent.authorized_key.read.response''),
     (''backend.script.execute'', ''agent.script.execute.response''),
     (''backend.script.cancel'', ''agent.script.cancel.response''),
     (''backend.policy.sync'', ''agent.policy.sync.response''),
     (''backend.account_link_cache.sync'', ''agent.account_link_cache.sync.response''),
     (''backend.linux.useradd'', ''agent.linux.useradd.response''),
     (''backend.linux.userdel'', ''agent.linux.userdel.response''),
     (''backend.gpu.kill_process'', ''agent.gpu.kill_process.response''),
     (''backend.config.update_urls'', ''agent.config.update_urls.ack''),
     (''backend.capability.sync'', ''agent.capability.sync.ack'')]"

section \<open>The pool of connections\<close>

text \<open>Sockets are named by numbers; \<open>register\<close> also says which socket it closed.\<close>

type_synonym hub = "int \<rightharpoonup> nat"

definition hub_register :: "int \<Rightarrow> nat \<Rightarrow> hub \<Rightarrow> nat option \<times> hub" where
  "hub_register sid ws h = (case h sid of
      Some old \<Rightarrow> (if old \<noteq> ws then Some old else None, h(sid \<mapsto> ws))
    | None \<Rightarrow> (None, h(sid \<mapsto> ws)))"

definition hub_unregister :: "int \<Rightarrow> nat \<Rightarrow> hub \<Rightarrow> hub" where
  "hub_unregister sid ws h = (if h sid = Some ws then h(sid := None) else h)"

section \<open>Requests and responses\<close>

text \<open>
  \<open>_PENDING\<close> maps a correlation id to the expected type and the future of the waiting request. The
  future outlives its entry, so futures are a map of their own here. \<open>_OPTIONAL_RESPONSES\<close> keeps its
  insertion order.
\<close>

datatype future = Waiting | FutureResult payload | FutureError string | FutureCancelled

record rpc_state =
  rp_pending :: "string \<rightharpoonup> string"
  rp_futures :: "string \<rightharpoonup> future"
  rp_optional :: "(string \<times> string) list"

definition MAX_OPTIONAL_RESPONSES :: nat where
  "MAX_OPTIONAL_RESPONSES = 1024"

text \<open>The loop that drops the oldest entries.\<close>

fun evict :: "nat \<Rightarrow> 'a list \<Rightarrow> 'a list" where
  "evict n [] = []"
| "evict n (x # xs) = (if length (x # xs) > n then evict n xs else x # xs)"

definition expect_optional_response :: "string \<Rightarrow> string \<Rightarrow> rpc_state \<Rightarrow> bool \<times> rpc_state" where
  "expect_optional_response cid frame st = (case RPC_REQUEST_TO_RESPONSE frame of
      None \<Rightarrow> (False, st)
    | Some expected \<Rightarrow> (True, st\<lparr>rp_optional := evict MAX_OPTIONAL_RESPONSES (dict_set (rp_optional st) cid expected)\<rparr>))"

definition future_done :: "future \<Rightarrow> bool" where
  "future_done f \<longleftrightarrow> f \<noteq> Waiting"

definition type_mismatch :: "string \<Rightarrow> string \<Rightarrow> string" where
  "type_mismatch expected got = ''expected '' @ expected @ '', got '' @ got"

definition deliver_response :: "string option \<Rightarrow> string \<Rightarrow> payload \<Rightarrow> rpc_state \<Rightarrow> bool \<times> rpc_state" where
  "deliver_response cid frame pl st = (case cid of
      None \<Rightarrow> (False, st)
    | Some c \<Rightarrow> (case rp_pending st c of
        None \<Rightarrow> (map_of (rp_optional st) c = Some frame,
                 st\<lparr>rp_optional := filter (\<lambda>(k, _). k \<noteq> c) (rp_optional st)\<rparr>)
      | Some expected \<Rightarrow>
          (let st' = st\<lparr>rp_pending := (rp_pending st)(c := None)\<rparr> in
           if rp_futures st c \<noteq> Some Waiting then (False, st')
           else if frame \<noteq> expected then (True, st'\<lparr>rp_futures := (rp_futures st)(c \<mapsto> FutureError (type_mismatch expected frame))\<rparr>)
           else (True, st'\<lparr>rp_futures := (rp_futures st)(c \<mapsto> FutureResult pl)\<rparr>))))"

text \<open>
  \<open>request_response\<close> up to its await, and from the end of the wait on. \<open>sent\<close> says whether the socket
  took the frame. The wait ends when the future is done, or at the timeout.
\<close>

definition start_request :: "hub \<Rightarrow> int \<Rightarrow> string \<Rightarrow> string \<Rightarrow> bool \<Rightarrow> rpc_state \<Rightarrow> rpc_outcome option \<times> rpc_state" where
  "start_request pool sid frame cid sent st = (case RPC_REQUEST_TO_RESPONSE frame of
      None \<Rightarrow> (Some RpcOtherError, st)
    | Some expected \<Rightarrow> (case pool sid of
        None \<Rightarrow> (Some (AgentOffline (''no live agent connection for server '' @ int_str sid)), st)
      | Some _ \<Rightarrow> if sent then (None, st\<lparr>rp_pending := (rp_pending st)(cid \<mapsto> expected),
                                         rp_futures := (rp_futures st)(cid \<mapsto> Waiting)\<rparr>)
                   else (Some RpcOtherError, st\<lparr>rp_pending := (rp_pending st)(cid := None)\<rparr>)))"

definition finish_request :: "string \<Rightarrow> string \<Rightarrow> rpc_state \<Rightarrow> rpc_outcome \<times> rpc_state" where
  "finish_request timeout_text cid st =
    (let st' = st\<lparr>rp_pending := (rp_pending st)(cid := None)\<rparr> in
     case rp_futures st cid of
       Some (FutureResult pl) \<Rightarrow> (RpcReturned pl, st')
     | Some (FutureError msg) \<Rightarrow> (UnexpectedResponseType msg, st')
     | Some Waiting \<Rightarrow> (AgentRpcTimeout timeout_text, st'\<lparr>rp_futures := (rp_futures st)(cid \<mapsto> FutureCancelled)\<rparr>)
     | _ \<Rightarrow> (RpcOtherError, st'))"

section \<open>A request is answered by the first response that carries its id\<close>

fun deliver_all :: "(string option \<times> string \<times> payload) list \<Rightarrow> rpc_state \<Rightarrow> rpc_state" where
  "deliver_all [] st = st"
| "deliver_all ((cid, frame, pl) # rs) st = deliver_all rs (snd (deliver_response cid frame pl st))"

definition answer_of :: "string \<Rightarrow> string \<Rightarrow> string \<Rightarrow> (string option \<times> string \<times> payload) list \<Rightarrow> rpc_outcome" where
  "answer_of timeout_text cid expected rs = (case find (\<lambda>(c, _, _). c = Some cid) rs of
      None \<Rightarrow> AgentRpcTimeout timeout_text
    | Some (_, frame, pl) \<Rightarrow> if frame = expected then RpcReturned pl
        else UnexpectedResponseType (type_mismatch expected frame))"

lemma deliver_other: "c \<noteq> Some cid \<Longrightarrow> rp_pending (snd (deliver_response c frame pl st)) cid = rp_pending st cid
    \<and> rp_futures (snd (deliver_response c frame pl st)) cid = rp_futures st cid"
  by (auto simp: deliver_response_def Let_def split: option.splits)

lemma deliver_not_pending: "rp_pending st cid = None \<Longrightarrow>
    rp_pending (deliver_all rs st) cid = None \<and> rp_futures (deliver_all rs st) cid = rp_futures st cid"
proof (induction rs arbitrary: st)
  case (Cons r rs)
  obtain c frame pl where r: "r = (c, frame, pl)" by (cases r)
  have "rp_pending (snd (deliver_response c frame pl st)) cid = None
      \<and> rp_futures (snd (deliver_response c frame pl st)) cid = rp_futures st cid"
  proof (cases "c = Some cid")
    case True
    with Cons.prems show ?thesis by (simp add: deliver_response_def)
  next
    case False
    with Cons.prems deliver_other show ?thesis by simp
  qed
  with Cons.IH r show ?case by simp
qed simp

lemma deliver_all_answer:
  assumes "rp_pending st cid = Some expected" and "rp_futures st cid = Some Waiting"
  shows "fst (finish_request text cid (deliver_all rs st)) = answer_of text cid expected rs"
  using assms
proof (induction rs arbitrary: st)
  case Nil
  then show ?case by (simp add: finish_request_def answer_of_def Let_def)
next
  case (Cons r rs)
  obtain c frame pl where r: "r = (c, frame, pl)" by (cases r)
  show ?case
  proof (cases "c = Some cid")
    case False
    with Cons r deliver_other[OF False, of frame pl st] show ?thesis
      by (simp add: answer_of_def)
  next
    case True
    let ?st = "snd (deliver_response c frame pl st)"
    have "rp_pending ?st cid = None" and f: "rp_futures ?st cid = Some (if frame = expected then FutureResult pl
        else FutureError (type_mismatch expected frame))"
      using Cons.prems True by (simp_all add: deliver_response_def Let_def)
    then have "rp_futures (deliver_all rs ?st) cid = rp_futures ?st cid" by (simp add: deliver_not_pending)
    with f True r show ?thesis by (simp add: finish_request_def answer_of_def Let_def)
  qed
qed

lemma evict_length: "length (evict n xs) = min n (length xs)"
  by (induction n xs rule: evict.induct) auto

lemma evict_suffix: "evict n xs = drop (length xs - n) xs"
  by (induction n xs rule: evict.induct) (auto simp: Suc_diff_le)

lemma length_dict_set: "length (dict_set d k v) \<le> Suc (length d)"
  by (induction d) auto

end
