(* ===== verification/Scheduler.thy ===== *)
theory Scheduler
  imports Reservation_Lifecycle Agent_Rpc
begin

text \<open>
  \<open>services/reservation_scheduler.py\<close>: one tick promotes the due scheduled rows, closes the due
  active rows, marks the due scripts as dispatched and reaps the stuck dispatches, in one
  transaction; the RPCs are fired after the commit. With it \<open>services/_serializable_retry.py\<close>,
  which repeats the tick on a deadlock. A loop works on the rows its query returned, in the order
  of the table; \<open>now\<close> is the one reading of the clock the tick takes. What the agent answers is
  an argument.
\<close>

section \<open>Loops over a result set\<close>

text \<open>\<open>for row in rows: ...\<close>, with the accumulators of the loop and the session threaded through.\<close>

fun for_rows :: "('r \<Rightarrow> 'a \<times> session \<Rightarrow> res_error + ('a \<times> session)) \<Rightarrow> 'r list \<Rightarrow> 'a \<times> session \<Rightarrow>
    res_error + ('a \<times> session)" where
  "for_rows step [] st = Inr st"
| "for_rows step (r # rs) st = rbind (step r st) (for_rows step rs)"

definition server_lab_id :: "session \<Rightarrow> int \<Rightarrow> int option" where
  "server_lab_id s sid = map_option srv_lab_id (d_servers (s_db s) sid)"

section \<open>Promotion and closing\<close>

definition promote_step :: "int \<Rightarrow> reservation \<Rightarrow> nat \<times> session \<Rightarrow> res_error + (nat \<times> session)" where
  "promote_step now row st = (case st of (promoted, s) \<Rightarrow>
     (case server_lab_id s (r_server_id row) of
        None \<Rightarrow> Inr (promoted, s)
      | Some lab \<Rightarrow>
          rbind (transition_to_active row lab ''scheduler_start_at'' None (Some now) no_ctx s)
            (\<lambda>(_, s'). Inr (promoted + 1, s'))))"

definition due_scheduled :: "int \<Rightarrow> reservation \<Rightarrow> bool" where
  "due_scheduled now r \<longleftrightarrow> r_status r = Scheduled \<and> r_start_at r \<le> now"

definition promote_due_scheduled :: "int \<Rightarrow> session \<Rightarrow> res_error + (nat \<times> session)" where
  "promote_due_scheduled now s =
     for_rows (promote_step now) (filter (due_scheduled now) (reservations s)) (0, s)"

definition script_bad :: "reservation \<Rightarrow> bool" where
  "script_bad r \<longleftrightarrow> r_script_status r = Some S_Failed \<or> r_script_status r = Some S_Killed"

definition script_reason :: "reservation \<Rightarrow> string" where
  "script_reason r = ''script_'' @ (case r_script_status r of None \<Rightarrow> ''None'' | Some c \<Rightarrow> script_status_str c)"

definition close_step :: "int \<Rightarrow> reservation \<Rightarrow> (nat \<times> nat) \<times> session \<Rightarrow> res_error + ((nat \<times> nat) \<times> session)" where
  "close_step now row st = (case st of ((completed, failed), s) \<Rightarrow>
     (case server_lab_id s (r_server_id row) of
        None \<Rightarrow> Inr ((completed, failed), s)
      | Some lab \<Rightarrow>
          if script_bad row
          then rbind (transition_to_failed row lab (script_reason row) ''scheduler_end_at'' None (Some now) no_ctx s)
                 (\<lambda>(_, s'). Inr ((completed, failed + 1), s'))
          else rbind (transition_to_completed row lab ''scheduler_end_at'' None (Some now) no_ctx s)
                 (\<lambda>(_, s'). Inr ((completed + 1, failed), s'))))"

definition due_active :: "int \<Rightarrow> reservation \<Rightarrow> bool" where
  "due_active now r \<longleftrightarrow> r_status r = Active \<and> r_end_at r \<le> now"

definition close_due_active :: "int \<Rightarrow> session \<Rightarrow> res_error + ((nat \<times> nat) \<times> session)" where
  "close_due_active now s = for_rows (close_step now) (filter (due_active now) (reservations s)) ((0, 0), s)"

section \<open>Dispatch\<close>

text \<open>The fields of \<open>ExecuteScriptRequest\<close> the scheduler sets.\<close>

record execute_request =
  ex_reservation_id :: int
  ex_linux_username :: string
  ex_script :: ustring
  ex_max_runtime_seconds :: "int option"
  ex_stdout_log_path_hint :: string

type_synonym pending_rpc = "int \<times> int \<times> execute_request"

text \<open>The caller has checked that the row has a script; \<^const>\<open>None\<close> would be the failed assertion.\<close>

definition build_execute_payload :: "reservation \<Rightarrow> string \<Rightarrow> execute_request option" where
  "build_execute_payload r linux_username = (case r_script r of None \<Rightarrow> None
     | Some t \<Rightarrow> Some \<lparr>ex_reservation_id = r_id r, ex_linux_username = linux_username, ex_script = t,
         ex_max_runtime_seconds = r_script_max_runtime_seconds r,
         ex_stdout_log_path_hint = ''/home/'' @ linux_username @ ''/.corelab/jobs/'' @ int_str (r_id r) @ ''.log''\<rparr>)"

text \<open>The join over link and account; a row without both is not in the result.\<close>

definition linux_username_of :: "session \<Rightarrow> int \<Rightarrow> string option" where
  "linux_username_of s link = Option.bind (d_links (s_db s) link)
     (\<lambda>l. map_option pa_linux_username (d_pas (s_db s) (al_physical_account_id l)))"

definition due_script :: "int \<Rightarrow> reservation \<Rightarrow> bool" where
  "due_script now r \<longleftrightarrow> r_status r = Active \<and> r_script r \<noteq> None
     \<and> (case r_script_scheduled_start_at r of None \<Rightarrow> False | Some t \<Rightarrow> t \<le> now) \<and> r_script_status r = None"

definition dispatch_step :: "int \<Rightarrow> reservation \<Rightarrow> pending_rpc list \<times> session \<Rightarrow>
    res_error + (pending_rpc list \<times> session)" where
  "dispatch_step now row st = (case st of (pending, s) \<Rightarrow>
     (case linux_username_of s (r_account_link_id row) of
        None \<Rightarrow> Inr (pending, s)
      | Some user \<Rightarrow>
         (case server_lab_id s (r_server_id row) of
            None \<Rightarrow> Inr (pending, s)
          | Some lab \<Rightarrow>
              rbind (mark_script_dispatched row lab now None s) (\<lambda>(row', s').
                (case build_execute_payload row' user of
                   None \<Rightarrow> Inl PyTypeError
                 | Some p \<Rightarrow> Inr (pending @ [(r_id row', r_server_id row', p)], s'))))))"

definition dispatch_due_scripts :: "int \<Rightarrow> session \<Rightarrow> res_error + (pending_rpc list \<times> session)" where
  "dispatch_due_scripts now s = for_rows (dispatch_step now) (filter (due_script now) (reservations s)) ([], s)"

section \<open>The watchdog\<close>

definition WATCHDOG_STUCK_SECONDS :: int where
  "WATCHDOG_STUCK_SECONDS = 60"

definition WATCHDOG_MAX_DISPATCH_ATTEMPTS :: nat where
  "WATCHDOG_MAX_DISPATCH_ATTEMPTS = 3"

definition about_reservation :: "string \<Rightarrow> int \<Rightarrow> audit_entry \<Rightarrow> bool" where
  "about_reservation action rid e \<longleftrightarrow> au_action e = action \<and> au_target_type e = Some ''reservation''
     \<and> au_target_id e = Some rid"

definition count_dispatch_failures :: "session \<Rightarrow> int \<Rightarrow> nat" where
  "count_dispatch_failures s rid =
     length (filter (about_reservation ''reservation.script.dispatch_attempt_failed'' rid) (d_audit (s_db s)))"

definition lifecycle_started_seen :: "session \<Rightarrow> int \<Rightarrow> bool" where
  "lifecycle_started_seen s rid \<longleftrightarrow>
     length (filter (about_reservation ''reservation.script.lifecycle.started'' rid) (d_audit (s_db s))) > 0"

definition stuck_dispatch :: "int \<Rightarrow> reservation \<Rightarrow> bool" where
  "stuck_dispatch now r \<longleftrightarrow> r_status r = Active \<and> r_script_status r = Some S_Running
     \<and> (case r_script_dispatch_started_at r of None \<Rightarrow> False
        | Some t \<Rightarrow> t < now - seconds WATCHDOG_STUCK_SECONDS)"

definition giveup_reason :: string where
  "giveup_reason = ''dispatch_'' @ nat_str WATCHDOG_MAX_DISPATCH_ATTEMPTS @ ''x_failed_after_''
     @ int_str WATCHDOG_STUCK_SECONDS @ ''s''"

definition retry_audit :: "reservation \<Rightarrow> int \<Rightarrow> nat \<Rightarrow> int \<Rightarrow> audit_entry" where
  "retry_audit row lab attempts now =
     audit_of ''reservation.script.dispatch_retry'' None (Some lab) (Some ''reservation'') (Some (r_id row))
       (Some lab) (Some (r_server_id row))
       (Some [(''attempt_number'', JInt (int attempts + 1)), (''dispatch_started_at'', JTime (dt_utc now)),
              (''trigger'', JStr ''watchdog'')]) no_ctx"

record watchdog_counts =
  wc_cleared :: nat
  wc_retried :: nat
  wc_failed :: nat
  wc_pending :: "pending_rpc list"

definition watchdog_step :: "int \<Rightarrow> reservation \<Rightarrow> watchdog_counts \<times> session \<Rightarrow>
    res_error + (watchdog_counts \<times> session)" where
  "watchdog_step now row st = (case st of (c, s) \<Rightarrow>
     (case server_lab_id s (r_server_id row) of
        None \<Rightarrow> Inr (c, s)
      | Some lab \<Rightarrow>
          if lifecycle_started_seen s (r_id row)
          then rbind (flush_res (row\<lparr>r_script_dispatch_started_at := None\<rparr>) s)
                 (\<lambda>s'. Inr (c\<lparr>wc_cleared := wc_cleared c + 1\<rparr>, s'))
          else
            (let attempts = count_dispatch_failures s (r_id row) in
             if attempts \<ge> WATCHDOG_MAX_DISPATCH_ATTEMPTS
             then rbind (transition_to_failed row lab giveup_reason ''scheduler_watchdog_dispatch_giveup''
                           None (Some now) no_ctx s)
                    (\<lambda>(_, s'). Inr (c\<lparr>wc_failed := wc_failed c + 1\<rparr>, s'))
             else
               (case linux_username_of s (r_account_link_id row) of
                  None \<Rightarrow> Inr (c, s)
                | Some user \<Rightarrow>
                   (case build_execute_payload row user of
                      None \<Rightarrow> Inl PyTypeError
                    | Some p \<Rightarrow>
                        rbind (flush_res (row\<lparr>r_script_dispatch_started_at := Some now\<rparr>) s)
                          (\<lambda>s'. Inr (c\<lparr>wc_retried := wc_retried c + 1,
                                       wc_pending := wc_pending c @ [(r_id row, r_server_id row, p)]\<rparr>,
                                     audit_write (retry_audit row lab attempts now) s')))))))"

definition retry_stuck_dispatches :: "int \<Rightarrow> session \<Rightarrow> res_error + (watchdog_counts \<times> session)" where
  "retry_stuck_dispatches now s = for_rows (watchdog_step now) (filter (stuck_dispatch now) (reservations s))
     (\<lparr>wc_cleared = 0, wc_retried = 0, wc_failed = 0, wc_pending = []\<rparr>, s)"

section \<open>The tick\<close>

text \<open>
  The transactional pass on a session just opened. An error leaves through \<open>session.begin()\<close>,
  which rolls the transaction back. The counters are only logged.
\<close>

definition tick_body :: "session \<Rightarrow> res_error + ((pending_rpc list \<times> pending_rpc list) \<times> session)" where
  "tick_body s = (let now = s_clock s in
     rbind (promote_due_scheduled now s) (\<lambda>(promoted, s1).
     rbind (close_due_active now s1) (\<lambda>(closed, s2).
     rbind (dispatch_due_scripts now s2) (\<lambda>(pending_dispatch, s3).
     rbind (retry_stuck_dispatches now s3) (\<lambda>(c, s4).
       Inr ((pending_dispatch, wc_pending c), s4))))))"

section \<open>The deadlock retry\<close>

text \<open>\<open>OperationalError\<close> with its message, or any other exception.\<close>

datatype py_exc = OperationalError string | OtherException | AssertionError

definition is_deadlock :: "string \<Rightarrow> bool" where
  "is_deadlock msg \<longleftrightarrow> sublist ''1213'' msg \<or> sublist ''Deadlock found'' msg"

text \<open>
  The loop over \<open>range(max_retries)\<close>; \<open>coro\<close> runs one attempt on the outside world, the list
  collects the sleeps. Falling off the loop is the final assertion.
\<close>

fun retry_loop :: "('st \<Rightarrow> (py_exc + 'a) \<times> 'st) \<Rightarrow> nat \<Rightarrow> rat \<Rightarrow> nat list \<Rightarrow> 'st \<times> rat list \<Rightarrow>
    (py_exc + 'a) \<times> 'st \<times> rat list" where
  "retry_loop coro max_retries backoff [] (st, sleeps) = (Inl AssertionError, st, sleeps)"
| "retry_loop coro max_retries backoff (attempt # rest) (st, sleeps) =
    (case coro st of
       (Inr a, st') \<Rightarrow> (Inr a, st', sleeps)
     | (Inl (OperationalError msg), st') \<Rightarrow>
         if \<not> is_deadlock msg \<or> attempt = max_retries - 1 then (Inl (OperationalError msg), st', sleeps)
         else retry_loop coro max_retries backoff rest (st', sleeps @ [backoff * 2 ^ attempt])
     | (Inl e, st') \<Rightarrow> (Inl e, st', sleeps))"

definition with_serializable_retry :: "('st \<Rightarrow> (py_exc + 'a) \<times> 'st) \<Rightarrow> nat \<Rightarrow> rat \<Rightarrow> 'st \<Rightarrow>
    (py_exc + 'a) \<times> 'st \<times> rat list" where
  "with_serializable_retry coro max_retries backoff st =
     retry_loop coro max_retries backoff [0..<max_retries] (st, [])"

section \<open>Firing the RPCs\<close>

text \<open>The text of a rejection.\<close>

definition response_error :: "payload \<Rightarrow> json" where
  "response_error p = (let e = opt_else (map_of p ''error'') JNull; d = opt_else (map_of p ''detail'') JNull in
     if json_truthy e then e else if json_truthy d then d else JObj p)"

definition dispatch_failed_audit :: "session \<Rightarrow> int \<Rightarrow> int \<Rightarrow> string \<Rightarrow> string \<Rightarrow> audit_entry" where
  "dispatch_failed_audit s rid sid error_class error_message =
     audit_of ''reservation.script.dispatch_attempt_failed'' None (server_lab_id s sid) (Some ''reservation'')
       (Some rid) (server_lab_id s sid) (Some sid)
       (Some [(''reason'', JStr error_message), (''error_class'', JStr error_class)]) no_ctx"

definition record_dispatch_attempt_failed :: "int \<Rightarrow> int \<Rightarrow> string \<Rightarrow> string \<Rightarrow> session \<Rightarrow> session" where
  "record_dispatch_attempt_failed rid sid error_class error_message s =
     audit_write (dispatch_failed_audit s rid sid error_class error_message) s"

definition dispatch_accepted :: "rpc_outcome \<Rightarrow> bool" where
  "dispatch_accepted out \<longleftrightarrow> (case out of
     RpcReturned p \<Rightarrow> map_of p ''ok'' = Some (JBool True) \<and> map_of p ''started'' = Some (JBool True)
   | _ \<Rightarrow> False)"

definition dispatch_one :: "(json \<Rightarrow> string) \<Rightarrow> int \<Rightarrow> int \<Rightarrow> rpc_outcome \<Rightarrow> session \<Rightarrow> session" where
  "dispatch_one py_str rid sid out s = (case out of
     AgentOffline msg \<Rightarrow> record_dispatch_attempt_failed rid sid ''AgentOfflineError'' msg s
   | AgentRpcTimeout msg \<Rightarrow> record_dispatch_attempt_failed rid sid ''AgentRpcTimeoutError'' msg s
   | UnexpectedResponseType msg \<Rightarrow> record_dispatch_attempt_failed rid sid ''UnexpectedResponseTypeError'' msg s
   | RpcOtherError \<Rightarrow> s
   | RpcReturned p \<Rightarrow>
       if map_of p ''ok'' \<noteq> Some (JBool True) \<or> map_of p ''started'' \<noteq> Some (JBool True)
       then record_dispatch_attempt_failed rid sid ''AgentRejectedScriptExecution'' (py_str (response_error p)) s
       else s)"

end
