(* ===== verification/Script_Lifecycle.thy ===== *)
theory Script_Lifecycle
  imports Scheduler
begin

text \<open>
  \<open>services/script_lifecycle_service.py\<close>: the handlers of the agent's script events, and the
  cancellation of an active reservation whose script is running, which asks the agent to kill the
  script and waits for the confirmation before it cancels the row. The registry of awaited kills
  is explicit; what the agent answers, what other transactions commit during the wait and whether
  the confirmation arrives are arguments. A handler that raises leaves its session uncommitted.
\<close>

section \<open>Event payloads\<close>

record script_started_event =
  ss_reservation_id :: int
  ss_pid :: int
  ss_started_at :: datetime
  ss_log_path :: "string option"

record script_output_chunk_event =
  oc_reservation_id :: int
  oc_text :: ustring

record script_finished_event =
  sf_reservation_id :: int
  sf_exit_code :: "int option"
  sf_finished_at :: datetime
  sf_duration_seconds :: rat
  sf_output_size_bytes :: int
  sf_log_path :: "string option"
  sf_killed_by_corelab :: bool
  sf_killed_reason :: "string option"

definition str_truthy :: "string option \<Rightarrow> bool" where
  "str_truthy x \<longleftrightarrow> (case x of None \<Rightarrow> False | Some t \<Rightarrow> t \<noteq> '''')"

section \<open>Notifications\<close>

definition script_cta_url :: "session \<Rightarrow> reservation \<Rightarrow> string" where
  "script_cta_url s row = (case d_links (s_db s) (r_account_link_id row) of
      Some link \<Rightarrow> ''/me/accounts/'' @ int_str (al_physical_account_id link) @ ''/scripts#res-'' @ int_str (r_id row)
    | None \<Rightarrow> ''/me/reservations'')"

definition notify_script_event :: "reservation \<Rightarrow> string \<Rightarrow> string \<Rightarrow> severity \<Rightarrow> string option \<Rightarrow> payload \<Rightarrow>
    session \<Rightarrow> session" where
  "notify_script_event row ty title sev body extra s =
     create_notification (r_user_id row) ty title sev body
       (Some (dict_update [(''reservation_id'', JInt (r_id row)), (''server_id'', JInt (r_server_id row)),
                           (''gpu_id'', jopt JInt (r_gpu_id row))] extra))
       (Some (script_cta_url s row)) s"

section \<open>The registry of awaited kills\<close>

text \<open>
  \<open>_PENDING_KILLS\<close> maps a reservation to one \<open>asyncio.Event\<close>; an event is a handle, and the set
  holds the events that were set.
\<close>

record kill_registry =
  kr_waiting :: "int \<rightharpoonup> nat"
  kr_set :: "nat set"
  kr_next :: nat

definition register_pending_kill :: "int \<Rightarrow> kill_registry \<Rightarrow> nat \<times> kill_registry" where
  "register_pending_kill rid k = (kr_next k,
     k\<lparr>kr_waiting := (kr_waiting k)(rid \<mapsto> kr_next k), kr_next := kr_next k + 1\<rparr>)"

definition discard_pending_kill :: "int \<Rightarrow> kill_registry \<Rightarrow> kill_registry" where
  "discard_pending_kill rid k = k\<lparr>kr_waiting := (kr_waiting k)(rid := None)\<rparr>"

definition signal_lifecycle_kill :: "int \<Rightarrow> kill_registry \<Rightarrow> kill_registry" where
  "signal_lifecycle_kill rid k = (case kr_waiting k rid of None \<Rightarrow> k
     | Some e \<Rightarrow> k\<lparr>kr_set := insert e (kr_set k)\<rparr>)"

section \<open>Started\<close>

definition started_extra :: "script_started_event \<Rightarrow> payload" where
  "started_extra p = [(''pid'', JInt (ss_pid p)), (''log_path'', jopt JStr (ss_log_path p)),
     (''started_at'', JTime (ss_started_at p))]"

definition started_audit :: "script_started_event \<Rightarrow> int \<Rightarrow> reservation \<Rightarrow> audit_entry" where
  "started_audit p lab row =
     audit_of ''reservation.script.lifecycle.started'' None (Some lab) (Some ''reservation'') (Some (r_id row))
       (Some lab) (Some (r_server_id row))
       (Some (started_extra p @ [(''trigger'', JStr ''agent.script.started'')])) no_ctx"

definition started_notification :: "script_started_event \<Rightarrow> reservation \<Rightarrow> session \<Rightarrow> session" where
  "started_notification p row s =
     notify_script_event row ''script.started'' ''Script started'' Info
       (Some (''#'' @ int_str (r_id row) @ '' on server #'' @ int_str (r_server_id row) @ '' GPU #''
          @ (case r_gpu_id row of None \<Rightarrow> ''None'' | Some g \<Rightarrow> int_str g)))
       (started_extra p) s"

definition log_path_row :: "string option \<Rightarrow> reservation \<Rightarrow> reservation" where
  "log_path_row p row = (if str_truthy p then row\<lparr>r_script_log_path := p\<rparr> else row)"

definition acked_row :: "script_started_event \<Rightarrow> reservation \<Rightarrow> reservation" where
  "acked_row p row = (let r1 = row\<lparr>r_script_dispatch_started_at := None\<rparr>;
       r2 = (if r_script_started_at r1 = None then r1\<lparr>r_script_started_at := Some (dt_wall (ss_started_at p))\<rparr> else r1)
     in log_path_row (ss_log_path p) r2)"

definition on_script_started :: "script_started_event \<Rightarrow> int \<Rightarrow> session \<Rightarrow> res_error + session" where
  "on_script_started p lab s =
    (case get_reservation s (ss_reservation_id p) of
       None \<Rightarrow> Inr s
     | Some row \<Rightarrow>
        if r_script_status row = Some S_Running
        then (let row' = acked_row p row in
              rbind (flush_res row' s) (\<lambda>s1.
                Inr (started_notification p row' (audit_write (started_audit p lab row') s1))))
        else if r_script_status row = None
        then rbind (update_script_status row S_Running lab ''agent.script.started'' None
                      (Some (dt_wall (ss_started_at p))) None None no_ctx s) (\<lambda>(row1, s1).
              (let row2 = log_path_row (ss_log_path p) row1 in
               rbind (if str_truthy (ss_log_path p) then flush_res row2 s1 else Inr s1) (\<lambda>s2.
                 Inr (started_notification p row2 (audit_write (started_audit p lab row2) s2)))))
        else Inr s)"

section \<open>Output\<close>

definition on_script_output_chunk :: "script_output_chunk_event \<Rightarrow> session \<Rightarrow> res_error + session" where
  "on_script_output_chunk p s =
    (case get_reservation s (oc_reservation_id p) of
       None \<Rightarrow> Inr s
     | Some row \<Rightarrow> rbind (append_script_log_tail row (oc_text p) SCRIPT_LOG_TAIL_MAX_CHARS s) (\<lambda>(_, s'). Inr s'))"

section \<open>Finished\<close>

definition finished_status :: "script_finished_event \<Rightarrow> script_status" where
  "finished_status p = (if sf_killed_by_corelab p then S_Killed
     else if sf_exit_code p = Some 0 then S_Completed else S_Failed)"

text \<open>\<open>f"{d:.0f}s" if d else dash\<close>; the dash is the UTF-8 form of U+2014.\<close>

definition duration_text :: "rat \<Rightarrow> string" where
  "duration_text d = (if d \<noteq> 0 then int_str (round_half_even d) @ ''s''
     else map char_of [0xE2 :: nat, 0x80, 0x94])"

definition finished_body :: "script_finished_event \<Rightarrow> script_status \<Rightarrow> reservation \<Rightarrow> string" where
  "finished_body p st row = (case st of
     S_Completed \<Rightarrow> ''#'' @ int_str (r_id row) @ '' exit 0 in '' @ duration_text (sf_duration_seconds p)
   | S_Failed \<Rightarrow> ''#'' @ int_str (r_id row) @ '' exit ''
       @ (case sf_exit_code p of None \<Rightarrow> ''None'' | Some c \<Rightarrow> int_str c) @ '' after ''
       @ duration_text (sf_duration_seconds p)
   | _ \<Rightarrow> ''#'' @ int_str (r_id row) @ '' killed (''
       @ (if str_truthy (sf_killed_reason p) then opt_else (sf_killed_reason p) '''' else ''platform'')
       @ '') after '' @ duration_text (sf_duration_seconds p))"

fun finished_notification_meta :: "script_status \<Rightarrow> (string \<times> severity \<times> string) option" where
  "finished_notification_meta S_Completed = Some (''script.completed'', Info, ''Script completed'')"
| "finished_notification_meta S_Failed = Some (''script.failed'', Error, ''Script failed'')"
| "finished_notification_meta S_Killed = Some (''script.killed'', Warn, ''Script killed'')"
| "finished_notification_meta S_Running = None"

definition finished_extra :: "script_finished_event \<Rightarrow> payload" where
  "finished_extra p = [(''exit_code'', jopt JInt (sf_exit_code p)), (''duration_seconds'', JNum (sf_duration_seconds p)),
     (''log_path'', jopt JStr (sf_log_path p)), (''output_size_bytes'', JInt (sf_output_size_bytes p)),
     (''killed_by_corelab'', JBool (sf_killed_by_corelab p)), (''killed_reason'', jopt JStr (sf_killed_reason p))]"

definition output_row :: "script_finished_event \<Rightarrow> reservation \<Rightarrow> reservation" where
  "output_row p row = log_path_row (sf_log_path p)
     (if sf_output_size_bytes p \<noteq> 0 then row\<lparr>r_script_output_size_bytes := Some (sf_output_size_bytes p)\<rparr> else row)"

definition finished_notification :: "script_finished_event \<Rightarrow> script_status \<Rightarrow> reservation \<Rightarrow> session \<Rightarrow> session" where
  "finished_notification p st row s = (case finished_notification_meta st of None \<Rightarrow> s
     | Some (ty, sev, title) \<Rightarrow>
         notify_script_event row ty title sev (Some (finished_body p st row)) (finished_extra p) s)"

definition on_script_finished :: "script_finished_event \<Rightarrow> int \<Rightarrow> kill_registry \<Rightarrow> session \<Rightarrow>
    res_error + (kill_registry \<times> session)" where
  "on_script_finished p lab k s =
    (case get_reservation s (sf_reservation_id p) of
       None \<Rightarrow> Inr (k, s)
     | Some row \<Rightarrow>
        (let st = finished_status p in
         rbind (if r_script_status row = Some S_Running
                then rbind (update_script_status row st lab ''agent.script.finished'' (sf_exit_code p) None
                              (Some (dt_wall (sf_finished_at p))) None no_ctx s) (\<lambda>(row1, s1).
                       (let row2 = output_row p row1 in
                        rbind (flush_res row2 s1) (\<lambda>s2. Inr (finished_notification p st row2 s2))))
                else Inr s)
           (\<lambda>s'. Inr (if sf_killed_by_corelab p then signal_lifecycle_kill (sf_reservation_id p) k else k, s'))))"

section \<open>Cancelling a reservation whose script runs\<close>

datatype cancel_error =
    AgentUnreachableDuringCancelError string
  | LifecycleEventTimeoutError string
  | CancelServiceError res_error
  | CancelOtherError

record rpc_call =
  rp_server_id :: int
  rp_frame_type :: string
  rp_payload :: payload

definition cancel_rpc :: "reservation \<Rightarrow> string \<Rightarrow> rpc_call" where
  "cancel_rpc row why = \<lparr>rp_server_id = r_server_id row, rp_frame_type = ''backend.script.cancel'',
     rp_payload = [(''reservation_id'', JInt (r_id row)), (''reason'', JStr why)]\<rparr>"

definition attempt_failed_audit :: "reservation \<Rightarrow> int \<Rightarrow> int \<Rightarrow> payload \<Rightarrow> req_ctx \<Rightarrow> audit_entry" where
  "attempt_failed_audit row actor lab pl ctx =
     audit_of ''reservation.cancel.attempt_failed'' (Some actor) (Some lab) (Some ''reservation'') (Some (r_id row))
       (Some lab) (Some (r_server_id row)) (Some pl) ctx"

definition unreachable_payload :: "string \<Rightarrow> payload" where
  "unreachable_payload cls = [(''reason'', JStr ''agent_unreachable_during_cancel,kept active''),
     (''error_class'', JStr cls)]"

definition timeout_payload :: payload where
  "timeout_payload = [(''reason'', JStr ''lifecycle_event_timeout,kept active''), (''waited_seconds'', JNum 10)]"

text \<open>
  \<open>rpc\<close> is the outcome of the request, \<open>meanwhile\<close> what other transactions commit before the
  locking read of the cancellation (this session has written nothing yet), \<open>confirmed\<close> whether the
  event was set in time. The last component is the request sent.
\<close>

definition cancel_active_with_running_script :: "reservation \<Rightarrow> int \<Rightarrow> bool \<Rightarrow> string option \<Rightarrow> int \<Rightarrow> string \<Rightarrow>
    req_ctx \<Rightarrow> rpc_outcome \<Rightarrow> (db \<Rightarrow> db) \<Rightarrow> bool \<Rightarrow> session \<Rightarrow> (cancel_error + reservation) \<times> session \<times> rpc_call list" where
  "cancel_active_with_running_script row actor can_admin reason lab why ctx rpc meanwhile confirmed s =
    (let calls = [cancel_rpc row why];
         unreachable = (\<lambda>cls msg. (Inl (AgentUnreachableDuringCancelError msg),
            audit_write (attempt_failed_audit row actor lab (unreachable_payload cls) ctx) s, calls))
     in case rpc of
          AgentOffline msg \<Rightarrow> unreachable ''AgentOfflineError'' msg
        | AgentRpcTimeout msg \<Rightarrow> unreachable ''AgentRpcTimeoutError'' msg
        | UnexpectedResponseType msg \<Rightarrow> (Inl CancelOtherError, s, calls)
        | RpcOtherError \<Rightarrow> (Inl CancelOtherError, s, calls)
        | RpcReturned resp \<Rightarrow>
            (let s1 = s\<lparr>s_db := meanwhile (s_db s)\<rparr> in
             if \<not> confirmed
             then (Inl (LifecycleEventTimeoutError (''agent did not push script.finished within 10.0s for reservation ''
                     @ int_str (r_id row))),
                   audit_write (attempt_failed_audit row actor lab timeout_payload ctx) s1, calls)
             else (case cancel_reservation (r_id row) actor can_admin reason lab ctx s1 of
                     (Inl e, s2) \<Rightarrow> (Inl (CancelServiceError e), s2, calls)
                   | (Inr row', s2) \<Rightarrow> (Inr row', s2, calls))))"

text \<open>The registry around it: registered before the request, discarded on every way out.\<close>

definition cancel_registry :: "int \<Rightarrow> (kill_registry \<Rightarrow> kill_registry) \<Rightarrow> kill_registry \<Rightarrow> kill_registry \<times> bool" where
  "cancel_registry rid wait_window k =
    (let (e, k1) = register_pending_kill rid k; k2 = wait_window k1
     in (discard_pending_kill rid k2, e \<in> kr_set k2))"

end
