(* ===== verification/Recommender.thy ===== *)
theory Recommender
  imports Reservation_Core "HOL-Library.Product_Lexorder"
begin

text \<open>
  \<open>services/schedule_recommender.py\<close>: the earliest windows in which a server has enough free
  GPUs. The query results are computed from the tables, the sweep is the code's loop over the
  sorted events. A Python set of GPU ids is a list without repetitions.
\<close>

type_synonym interval = "int \<times> int"

record candidate =
  ca_server_id :: int
  ca_gpu_ids :: "int list"
  ca_start_at :: int
  ca_end_at :: int

section \<open>Picking GPUs\<close>

definition busy_at :: "interval list \<Rightarrow> int \<Rightarrow> bool" where
  "busy_at bs t \<longleftrightarrow> (\<exists>(b_start, b_end) \<in> set bs. b_start \<le> t \<and> t < b_end)"

text \<open>The loop of \<open>_pick_first_n\<close>; the list of picked ids is built in order.\<close>

fun pick_from :: "int list \<Rightarrow> nat \<Rightarrow> (int \<Rightarrow> interval list) \<Rightarrow> int \<Rightarrow> int list \<Rightarrow> int list" where
  "pick_from [] n busy t picked = picked"
| "pick_from (g # gs) n busy t picked =
    (if busy_at (busy g) t then pick_from gs n busy t picked
     else if length (picked @ [g]) = n then picked @ [g]
     else pick_from gs n busy t (picked @ [g]))"

definition pick_first_n :: "int list \<Rightarrow> nat \<Rightarrow> (int \<Rightarrow> interval list) \<Rightarrow> int \<Rightarrow> int list" where
  "pick_first_n gpu_ids n busy at_time = pick_from gpu_ids n busy at_time []"

section \<open>The sweep of one server\<close>

text \<open>An event is a time, \<open>-1\<close> for leaving and \<open>1\<close> for entering the free set, and a GPU.\<close>

type_synonym event = "int \<times> int \<times> int"

definition gpu_events :: "(int \<Rightarrow> interval list) \<Rightarrow> int \<Rightarrow> event list" where
  "gpu_events busy g = concat (map (\<lambda>(b_start, b_end). [(b_start, -1, g), (b_end, 1, g)]) (busy g))"

definition sorted_events :: "int list \<Rightarrow> (int \<Rightarrow> interval list) \<Rightarrow> event list" where
  "sorted_events gpu_ids busy =
     sort_key (\<lambda>(t, delta, g). (t, delta)) (concat (map (gpu_events busy) gpu_ids))"

definition initial_free :: "int list \<Rightarrow> (int \<Rightarrow> interval list) \<Rightarrow> int \<Rightarrow> int list" where
  "initial_free gpu_ids busy window_start = filter (\<lambda>g. \<not> busy_at (busy g) window_start) (remdups gpu_ids)"

fun apply_event :: "event \<Rightarrow> int list \<Rightarrow> int list" where
  "apply_event (t, delta, g) free = (if delta = -1 then removeAll g free else List.insert g free)"

text \<open>
  The event loop. \<^const>\<open>Inl\<close> is the early return with the start of the window, \<^const>\<open>Inr\<close> the
  candidate that is open when the loop ends or breaks.
\<close>

fun sweep :: "nat \<Rightarrow> int \<Rightarrow> int \<Rightarrow> event list \<Rightarrow> int list \<Rightarrow> int option \<Rightarrow> int + int option" where
  "sweep n duration window_end [] free cand = Inr cand"
| "sweep n duration window_end ((t, delta, g) # evs) free cand =
    (let free' = apply_event (t, delta, g) free;
         enough = (length free' \<ge> n)
     in case cand of
          None \<Rightarrow>
            (let cand' = (if enough then Some t else None)
             in if t \<ge> window_end then Inr cand' else sweep n duration window_end evs free' cand')
        | Some c \<Rightarrow>
            if enough
            then (if t \<ge> window_end then Inr (Some c) else sweep n duration window_end evs free' (Some c))
            else if t - c \<ge> duration then Inl c
            else (if t \<ge> window_end then Inr None else sweep n duration window_end evs free' None))"

definition window_at :: "int list \<Rightarrow> nat \<Rightarrow> (int \<Rightarrow> interval list) \<Rightarrow> int \<Rightarrow> int \<Rightarrow> int list \<times> int \<times> int" where
  "window_at gpu_ids n busy duration c = (pick_first_n gpu_ids n busy c, c, c + duration)"

definition earliest_window_for_server :: "int list \<Rightarrow> (int \<Rightarrow> interval list) \<Rightarrow> int \<Rightarrow> int \<Rightarrow> nat \<Rightarrow> int \<Rightarrow>
    (int list \<times> int \<times> int) option" where
  "earliest_window_for_server gpu_ids busy window_start window_end n duration =
    (let free0 = initial_free gpu_ids busy window_start;
         cand0 = (if length free0 \<ge> n then Some window_start else None)
     in case sweep n duration window_end (sorted_events gpu_ids busy) free0 cand0 of
          Inl c \<Rightarrow> Some (window_at gpu_ids n busy duration c)
        | Inr None \<Rightarrow> None
        | Inr (Some c) \<Rightarrow> if window_end - c \<ge> duration then Some (window_at gpu_ids n busy duration c) else None)"

section \<open>The queries and the result\<close>

definition HORIZON_DAYS :: int where
  "HORIZON_DAYS = 7"

definition lab_gpu :: "db \<Rightarrow> int \<Rightarrow> gpu \<Rightarrow> bool" where
  "lab_gpu d lab g \<longleftrightarrow> gpu_is_active g \<and> (case d_servers d (gpu_server_id g) of None \<Rightarrow> False
     | Some sv \<Rightarrow> srv_lab_id sv = lab \<and> srv_is_active sv \<and> srv_status sv \<in> {Online, Offline})"

text \<open>\<open>setdefault(server_id, []).append(gpu_id)\<close> on an insertion-ordered dict.\<close>

fun group_append :: "int \<Rightarrow> int \<Rightarrow> (int \<times> int list) list \<Rightarrow> (int \<times> int list) list" where
  "group_append k v [] = [(k, [v])]"
| "group_append k v ((k', vs) # rest) = (if k' = k then (k, vs @ [v]) # rest else (k', vs) # group_append k v rest)"

definition gpus_by_server :: "db \<Rightarrow> int \<Rightarrow> (int \<times> int list) list" where
  "gpus_by_server d lab = fold (\<lambda>g acc. group_append (gpu_server_id g) (gpu_id g) acc)
     (sort_key (\<lambda>g. (gpu_server_id g, gpu_index g)) (filter (lab_gpu d lab) (gpu_rows d))) []"

definition busy_by_gpu :: "reservation list \<Rightarrow> int list \<Rightarrow> int \<Rightarrow> int \<Rightarrow> int \<Rightarrow> interval list" where
  "busy_by_gpu rs gids lo hi g = (if g \<notin> set gids then [] else
     map (\<lambda>r. (max (r_start_at r) lo, min (r_end_at r) hi))
       (sort_key r_start_at (filter (\<lambda>r. occupies g r \<and> r_start_at r < hi \<and> r_end_at r > lo) rs)))"

datatype recommend_error = ValueError string

fun candidates_of :: "(int \<times> int list) list \<Rightarrow> (int \<Rightarrow> interval list) \<Rightarrow> int \<Rightarrow> int \<Rightarrow> nat \<Rightarrow> int \<Rightarrow> candidate list" where
  "candidates_of [] busy lo hi n duration = []"
| "candidates_of ((sid, gids) # rest) busy lo hi n duration =
    (case earliest_window_for_server gids busy lo hi n duration of
       None \<Rightarrow> candidates_of rest busy lo hi n duration
     | Some (picked, st, en) \<Rightarrow>
         \<lparr>ca_server_id = sid, ca_gpu_ids = picked, ca_start_at = st, ca_end_at = en\<rparr>
           # candidates_of rest busy lo hi n duration)"

definition recommend :: "session \<Rightarrow> int \<Rightarrow> int \<Rightarrow> int \<Rightarrow> datetime option \<Rightarrow> nat \<Rightarrow>
    recommend_error + candidate list" where
  "recommend s lab gpu_count time_limit_seconds after top_k =
    (if gpu_count < 1 then Inl (ValueError ''gpu_count must be >= 1'')
     else if time_limit_seconds < 60 then Inl (ValueError ''time_limit_seconds must be >= 60'')
     else
      (let now = s_clock s;
           search_start = max (case after of None \<Rightarrow> now | Some a \<Rightarrow> dt_strip a) now;
           horizon_end = search_start + days HORIZON_DAYS;
           n = nat gpu_count;
           eligible = filter (\<lambda>(sid, gids). length gids \<ge> n) (gpus_by_server (s_db s) lab);
           all_gpu_ids = concat (map snd eligible);
           busy = busy_by_gpu (reservations s) all_gpu_ids search_start horizon_end
       in Inr (take top_k (sort_key ca_start_at
            (candidates_of eligible busy search_start horizon_end n (seconds time_limit_seconds))))))"

end
