(* ===== verification/Reservation_Api.thy ===== *)
theory Reservation_Api
  imports Script_Lifecycle Recommender
begin

text \<open>
  \<open>api/v1/reservations.py\<close> over \<open>db.py\<close>: the endpoints, the mapping of service errors to HTTP
  errors, and what the request session does with the outcome. An endpoint takes the session and
  returns its outcome with the session it leaves; \<open>end_request\<close> is the exit of \<open>get_session\<close>.
  The text of an exception (\<open>exc_str\<close>) only appears in the body of an error.
\<close>

section \<open>Outcomes\<close>

datatype api_error = HttpException nat payload | Uncaught

type_synonym 'a outcome = "api_error + 'a"

text \<open>
  \<open>get_session\<close>: commit after a return and after an \<open>HTTPException\<close>, roll back otherwise. \<open>base\<close>
  is what the database holds when this transaction is rolled back. A failing commit is an
  uncaught exception.
\<close>

definition end_request :: "db \<Rightarrow> 'a outcome \<times> session \<Rightarrow> 'a outcome \<times> db" where
  "end_request base out = (case out of (res, s) \<Rightarrow>
     (case res of
        Inl Uncaught \<Rightarrow> (Inl Uncaught, base)
      | _ \<Rightarrow> (case commit s of Inl e \<Rightarrow> (Inl Uncaught, base) | Inr d \<Rightarrow> (res, d))))"

text \<open>The wire form of a row (\<open>ReservationRead\<close>): datetimes leave as UTC instants.\<close>

definition reservation_read :: "datetime \<Rightarrow> datetime \<Rightarrow> reservation \<Rightarrow> reservation" where
  "reservation_read st en r = r\<lparr>r_start_at := dt_to_utc st, r_end_at := dt_to_utc en\<rparr>"

definition read_row :: "reservation \<Rightarrow> reservation" where
  "read_row r = reservation_read (dt_naive (r_start_at r)) (dt_naive (r_end_at r)) r"

section \<open>Errors\<close>

definition conflict_detail :: "string \<Rightarrow> payload \<Rightarrow> payload" where
  "conflict_detail code extra = dict_update [(''code'', JStr code)] extra"

definition ids_json :: "int list \<Rightarrow> json" where
  "ids_json xs = JList (map JInt xs)"

fun map_service_error :: "(res_error \<Rightarrow> string) \<Rightarrow> res_error \<Rightarrow> api_error" where
  "map_service_error str (ReservationOverlapError ids) = HttpException 409
     (conflict_detail ''RESERVATION_OVERLAP'' [(''conflicting_reservation_ids'', ids_json ids)])"
| "map_service_error str (ReservationMixExclusiveSharedError ids) = HttpException 409
     (conflict_detail ''RESERVATION_MIX_EXCLUSIVE_SHARED'' [(''conflicting_reservation_ids'', ids_json ids)])"
| "map_service_error str (ReservationMemoryExceededError used would tot ids) = HttpException 409
     (conflict_detail ''RESERVATION_MEMORY_EXCEEDED'' [(''conflicting_reservation_ids'', ids_json ids),
        (''memory'', JObj [(''used_mb'', JInt used), (''would_use_mb'', JInt would), (''total_mb'', JInt tot),
                           (''exceeds_by_mb'', JInt (used + would - tot))])])"
| "map_service_error str (ReservationComputeExceededError used would ids) = HttpException 409
     (conflict_detail ''RESERVATION_COMPUTE_EXCEEDED'' [(''conflicting_reservation_ids'', ids_json ids),
        (''compute'', JObj [(''used_pct'', JInt used), (''would_use_pct'', JInt would),
                            (''exceeds_by_pct'', JInt (used + would - 100))])])"
| "map_service_error str (ReservationTooLongError mh req) = HttpException 422
     (conflict_detail ''RESERVATION_TOO_LONG'' [(''max_hours'', JInt mh), (''requested_hours'', JNum req)])"
| "map_service_error str (InvalidTimeError why) = HttpException 422
     (conflict_detail ''INVALID_TIME'' [(''message'', JStr (str (InvalidTimeError why)))])"
| "map_service_error str (LinkNotVerifiedError l) = HttpException 422
     (conflict_detail ''LINK_NOT_VERIFIED'' [(''message'', JStr (str (LinkNotVerifiedError l)))])"
| "map_service_error str (NoActiveLinkError l) = HttpException 422
     (conflict_detail ''NO_ACTIVE_LINK'' [(''message'', JStr (str (NoActiveLinkError l)))])"
| "map_service_error str ScriptTooLargeError = HttpException 422 (conflict_detail ''SCRIPT_TOO_LARGE'' [])"
| "map_service_error str (GroupCancelRunningScriptError ids) = HttpException 409
     (conflict_detail ''GROUP_CANCEL_RUNNING_SCRIPT_UNSUPPORTED''
        [(''message'', JStr (str (GroupCancelRunningScriptError ids))), (''running_reservation_ids'', ids_json ids)])"
| "map_service_error str CancelNotPermittedError = HttpException 403
     (conflict_detail ''CANCEL_NOT_PERMITTED'' [(''message'', JStr (str CancelNotPermittedError))])"
| "map_service_error str ReservationNotFoundError = HttpException 404
     (conflict_detail ''RESERVATION_NOT_FOUND'' [(''message'', JStr (str ReservationNotFoundError))])"
| "map_service_error str e = HttpException 400 (conflict_detail ''RESERVATION_ERROR'' [(''message'', JStr (str e))])"

text \<open>\<open>except ReservationError\<close>: anything else goes on to \<open>get_session\<close>.\<close>

definition service_error :: "(res_error \<Rightarrow> string) \<Rightarrow> res_error \<Rightarrow> api_error" where
  "service_error str e = (if is_reservation_error e then map_service_error str e else Uncaught)"

definition not_found :: api_error where
  "not_found = HttpException 404 [(''detail'', JStr ''reservation_not_found'')]"

section \<open>Jurisdiction\<close>

definition user_can_admin_server :: "session \<Rightarrow> user \<Rightarrow> int \<Rightarrow> bool" where
  "user_can_admin_server s u sid \<longleftrightarrow> u_role u = RoleLabAdmin
     \<or> (\<exists>g \<in> set (d_grants (s_db s)). gr_user_id g = u_id u \<and> gr_server_id g = sid \<and> gr_is_active g)"

section \<open>Requests\<close>

text \<open>The bounds \<open>schemas/reservation.py\<close> puts on a request body; a body outside them is a 422 of the framework.\<close>

record reservation_create_request =
  cq_items :: "item_draft list"
  cq_script :: "ustring option"
  cq_script_scheduled_start_at :: "datetime option"
  cq_script_max_runtime_seconds :: "int option"
  cq_share_script :: bool

definition ge_opt :: "int \<Rightarrow> int option \<Rightarrow> bool" where
  "ge_opt lo x \<longleftrightarrow> (case x of None \<Rightarrow> True | Some v \<Rightarrow> lo \<le> v)"

definition item_body_ok :: "item_draft \<Rightarrow> bool" where
  "item_body_ok it \<longleftrightarrow> ge_opt 1 (it_gpu_memory_mb it) \<and> ge_opt 1 (it_gpu_compute_share_pct it)
     \<and> (case it_gpu_compute_share_pct it of None \<Rightarrow> True | Some v \<Rightarrow> v \<le> 100)"

definition create_body_ok :: "reservation_create_request \<Rightarrow> bool" where
  "create_body_ok q \<longleftrightarrow> 1 \<le> length (cq_items q) \<and> length (cq_items q) \<le> 64 \<and> list_all item_body_ok (cq_items q)
     \<and> (case cq_script q of None \<Rightarrow> True | Some t \<Rightarrow> length t \<le> 4096)
     \<and> ge_opt 1 (cq_script_max_runtime_seconds q)"

definition modify_body_ok :: "modify_args \<Rightarrow> bool" where
  "modify_body_ok a \<longleftrightarrow> (case mo_script a of None \<Rightarrow> True | Some t \<Rightarrow> length t \<le> 4096)
     \<and> ge_opt 60 (mo_script_max_runtime_seconds a)"

section \<open>Creating\<close>

text \<open>The response carries the request's datetimes: the session does not reload the rows.\<close>

definition create_reservations_ep :: "(res_error \<Rightarrow> string) \<Rightarrow> user \<Rightarrow> reservation_create_request \<Rightarrow> string \<Rightarrow> req_ctx \<Rightarrow>
    session \<Rightarrow> (string \<times> reservation list) outcome \<times> session" where
  "create_reservations_ep str u q gid ctx s =
    (case create_reservation_batch (cq_items q) (u_id u) (u_lab_id u) (cq_script q)
            (cq_script_scheduled_start_at q) (cq_script_max_runtime_seconds q) (cq_share_script q)
            (dt_utc (s_clock s)) gid ctx s of
       (Inl e, s') \<Rightarrow> (Inl (service_error str e), s')
     | (Inr (g, rows), s') \<Rightarrow>
         (Inr (g, map2 (\<lambda>it r. reservation_read (it_start_at it) (it_end_at it) r) (cq_items q) rows), s'))"

definition resolve_link_owned_by :: "session \<Rightarrow> int \<Rightarrow> int \<Rightarrow> account_link option" where
  "resolve_link_owned_by s pa uid = find (\<lambda>l. al_physical_account_id l = pa \<and> al_user_id l = uid \<and> al_is_active l)
     (link_rows (s_db s))"

definition create_reservations_for_pa_ep :: "(res_error \<Rightarrow> string) \<Rightarrow> user \<Rightarrow> int \<Rightarrow> reservation_create_request \<Rightarrow> string \<Rightarrow>
    req_ctx \<Rightarrow> session \<Rightarrow> (string \<times> reservation list) outcome \<times> session" where
  "create_reservations_for_pa_ep str u pa q gid ctx s =
    (case resolve_link_owned_by s pa (u_id u) of
       None \<Rightarrow> (Inl (HttpException 404 [(''detail'', JStr ''no_active_link_for_pa'')]), s)
     | Some link \<Rightarrow> create_reservations_ep str u
         (q\<lparr>cq_items := map (\<lambda>it. it\<lparr>it_account_link_id := al_id link\<rparr>) (cq_items q)\<rparr>) gid ctx s)"

section \<open>Recommending and previewing\<close>

definition recommend_ep :: "user \<Rightarrow> int \<Rightarrow> int \<Rightarrow> datetime option \<Rightarrow> nat \<Rightarrow> session \<Rightarrow>
    candidate list outcome \<times> session" where
  "recommend_ep u gpu_count limit after top_k s =
    (case recommend s (u_lab_id u) gpu_count limit after top_k of
       Inl (ValueError msg) \<Rightarrow> (Inl (HttpException 422 [(''detail'', JStr msg)]), s)
     | Inr cs \<Rightarrow> (Inr cs, s))"

definition preview_ep :: "int \<Rightarrow> item_draft list \<Rightarrow> session \<Rightarrow>
    (conflict_record list \<times> time_limit_check list) outcome \<times> session" where
  "preview_ep link items s =
    (case preview_conflicts s (map (\<lambda>it. it\<lparr>it_account_link_id := link\<rparr>) items) (dt_utc (s_clock s)) of
       Inl e \<Rightarrow> (Inl (service_error (\<lambda>_. '''') e), s) | Inr r \<Rightarrow> (Inr r, s))"

section \<open>Reading\<close>

text \<open>The default limits of the two listings.\<close>

definition DEFAULT_LIST_LIMIT :: nat where
  "DEFAULT_LIST_LIMIT = 500"

definition LINK_LIST_LIMIT :: nat where
  "LINK_LIST_LIMIT = 200"

definition list_reservations_ep :: "int option \<Rightarrow> int option \<Rightarrow> int option \<Rightarrow> datetime option \<Rightarrow> datetime option \<Rightarrow>
    string list option \<Rightarrow> user \<Rightarrow> session \<Rightarrow> reservation list" where
  "list_reservations_ep srv gp usr after before statuses u s =
     map read_row (list_reservations s srv gp usr after before statuses DEFAULT_LIST_LIMIT)"

definition get_reservation_ep :: "int \<Rightarrow> user \<Rightarrow> session \<Rightarrow> reservation outcome" where
  "get_reservation_ep rid u s = (case get_reservation s rid of None \<Rightarrow> Inl not_found | Some r \<Rightarrow> Inr (read_row r))"

definition list_my_reservations_ep :: "string list option \<Rightarrow> user \<Rightarrow> session \<Rightarrow> reservation list" where
  "list_my_reservations_ep statuses u s =
     map read_row (list_reservations s None None (Some (u_id u)) None None statuses DEFAULT_LIST_LIMIT)"

definition list_reservations_for_pa_ep :: "int \<Rightarrow> string list option \<Rightarrow> user \<Rightarrow> session \<Rightarrow> reservation list outcome" where
  "list_reservations_for_pa_ep pa statuses u s = (case resolve_link_owned_by s pa (u_id u) of
      None \<Rightarrow> Inl (HttpException 404 [(''detail'', JStr ''no_active_link_for_pa'')])
    | Some link \<Rightarrow> Inr (map read_row (list_for_link s (al_id link) statuses LINK_LIST_LIMIT)))"

record script_log_read =
  sl_reservation_id :: int
  sl_text :: ustring
  sl_truncated :: bool
  sl_log_path :: "string option"
  sl_output_size_bytes :: "int option"
  sl_script_status :: "script_status option"
  sl_script_started_at :: "int option"
  sl_script_finished_at :: "int option"

definition can_read_script_log :: "session \<Rightarrow> reservation \<Rightarrow> user \<Rightarrow> bool" where
  "can_read_script_log s row u \<longleftrightarrow> r_user_id row = u_id u \<or> user_can_admin_server s u (r_server_id row)"

definition get_script_log_ep :: "int \<Rightarrow> user \<Rightarrow> session \<Rightarrow> script_log_read outcome" where
  "get_script_log_ep rid u s = (case get_reservation s rid of None \<Rightarrow> Inl not_found
    | Some row \<Rightarrow>
        if can_read_script_log s row u
        then Inr \<lparr>sl_reservation_id = r_id row, sl_text = opt_else (r_script_log_tail_text row) [],
               sl_truncated = r_script_log_tail_truncated row, sl_log_path = r_script_log_path row,
               sl_output_size_bytes = r_script_output_size_bytes row, sl_script_status = r_script_status row,
               sl_script_started_at = r_script_started_at row, sl_script_finished_at = r_script_finished_at row\<rparr>
        else Inl (HttpException 403 (conflict_detail ''SCRIPT_LOG_FORBIDDEN'' [])))"

section \<open>Modifying\<close>

definition modify_reservation_ep :: "(res_error \<Rightarrow> string) \<Rightarrow> user \<Rightarrow> int \<Rightarrow> modify_args \<Rightarrow> req_ctx \<Rightarrow> session \<Rightarrow>
    reservation outcome \<times> session" where
  "modify_reservation_ep str u rid a ctx s =
    (case modify_reservation rid (u_id u) a (u_lab_id u) (dt_utc (s_clock s)) ctx s of
       (Inl e, s') \<Rightarrow> (Inl (service_error str e), s')
     | (Inr row, s') \<Rightarrow> (Inr (reservation_read
          (opt_else (mo_start_at a) (dt_naive (r_start_at row))) (opt_else (mo_end_at a) (dt_naive (r_end_at row))) row), s'))"

section \<open>Cancelling\<close>

definition cancel_http_error :: "(res_error \<Rightarrow> string) \<Rightarrow> cancel_error \<Rightarrow> api_error" where
  "cancel_http_error str e = (case e of
     AgentUnreachableDuringCancelError msg \<Rightarrow>
       HttpException 503 [(''code'', JStr ''AGENT_UNREACHABLE_DURING_CANCEL''),
         (''message'', JStr (''Could not reach the agent to stop the running script; ''
            @ ''reservation is still active. Try again once the agent is back online.'')), (''error'', JStr msg)]
   | LifecycleEventTimeoutError msg \<Rightarrow>
       HttpException 504 [(''code'', JStr ''SCRIPT_LIFECYCLE_TIMEOUT''),
         (''message'', JStr (''Agent acknowledged the cancel but did not confirm the ''
            @ ''script terminated in time; reservation is still active.'')), (''error'', JStr msg)]
   | CancelServiceError r \<Rightarrow> service_error str r
   | CancelOtherError \<Rightarrow> Uncaught)"

text \<open>
  The last component is what was sent to the agent. \<open>rpc\<close>, \<open>meanwhile\<close> and \<open>confirmed\<close> describe the
  wait for the kill, which only happens when the script runs.
\<close>

definition cancel_reservation_ep :: "(res_error \<Rightarrow> string) \<Rightarrow> user \<Rightarrow> int \<Rightarrow> string option \<Rightarrow> req_ctx \<Rightarrow>
    rpc_outcome \<Rightarrow> (db \<Rightarrow> db) \<Rightarrow> bool \<Rightarrow> session \<Rightarrow> reservation outcome \<times> session \<times> rpc_call list" where
  "cancel_reservation_ep str u rid reason ctx rpc meanwhile confirmed s =
    (case get_reservation s rid of
       None \<Rightarrow> (Inl not_found, s, [])
     | Some row \<Rightarrow>
        (let can_admin = user_can_admin_server s u (r_server_id row) in
         if r_status row = Active \<and> r_script_status row = Some S_Running
         then (let why = (if can_admin \<and> r_user_id row \<noteq> u_id u then ''admin_cancel'' else ''user_cancel'') in
               case cancel_active_with_running_script row (u_id u) can_admin reason (u_lab_id u) why ctx
                      rpc meanwhile confirmed s of
                 (Inl e, s', calls) \<Rightarrow> (Inl (cancel_http_error str e), s', calls)
               | (Inr row', s', calls) \<Rightarrow> (Inr (read_row row'), s', calls))
         else (case cancel_reservation rid (u_id u) can_admin reason (u_lab_id u) ctx s of
                 (Inl e, s') \<Rightarrow> (Inl (service_error str e), s', [])
               | (Inr row', s') \<Rightarrow> (Inr (read_row row'), s', []))))"

text \<open>What a rollback of that request leaves behind.\<close>

definition cancel_base :: "rpc_outcome \<Rightarrow> (db \<Rightarrow> db) \<Rightarrow> int \<Rightarrow> session \<Rightarrow> db" where
  "cancel_base rpc meanwhile rid s = (case get_reservation s rid of None \<Rightarrow> s_db s
     | Some row \<Rightarrow> if r_status row = Active \<and> r_script_status row = Some S_Running
         then (case rpc of RpcReturned _ \<Rightarrow> meanwhile (s_db s) | _ \<Rightarrow> s_db s) else s_db s)"

text \<open>The admin right of a group is taken from one row of it, in primary-key order.\<close>

definition group_sample :: "session \<Rightarrow> string \<Rightarrow> reservation option" where
  "group_sample s gid = find (\<lambda>r. r_group_id r = Some gid) (reservations s)"

definition cancel_group_ep :: "(res_error \<Rightarrow> string) \<Rightarrow> user \<Rightarrow> string \<Rightarrow> string option \<Rightarrow> req_ctx \<Rightarrow> session \<Rightarrow>
    reservation list outcome \<times> session" where
  "cancel_group_ep str u gid reason ctx s =
    (let can_admin = (case group_sample s gid of None \<Rightarrow> False
           | Some r \<Rightarrow> user_can_admin_server s u (r_server_id r)) in
     case cancel_group gid (u_id u) can_admin reason (u_lab_id u) ctx s of
       (Inl e, s') \<Rightarrow> (Inl (service_error str e), s')
     | (Inr rows, s') \<Rightarrow> (Inr (map read_row rows), s'))"

end
