(* ===== verification/Booking_Props.thy ===== *)
theory Booking_Props
  imports Reservation_Booking
begin

text \<open>
  What the booking operations guarantee. First the frame lemmas of \<open>create_reservation_batch\<close>
  (which tables it extends, and by what), then capacity, then \<open>modify_reservation\<close>.
\<close>

section \<open>Frames of the announcements\<close>

lemma push_reservation_sel [row_simps]:
    "s_db (push_reservation_lifecycle r st en c s) = s_db s"
    "s_dirty (push_reservation_lifecycle r st en c s) = s_dirty s"
    "s_clock (push_reservation_lifecycle r st en c s) = s_clock s"
    "reservations (push_reservation_lifecycle r st en c s) = reservations s"
    "s_pushes (push_reservation_lifecycle r st en c s) = s_pushes s @
       [(r_user_id r, ReservationStatusChange (serialize_reservation_for_ws r st en c))]"
  by (simp_all add: push_reservation_lifecycle_def row_simps)

lemma announce_created_sel [row_simps]:
    "d_reservations (s_db (announce_created u lab ctx rs s)) = d_reservations (s_db s)"
    "d_next_reservation (s_db (announce_created u lab ctx rs s)) = d_next_reservation (s_db s)"
    "d_gpus (s_db (announce_created u lab ctx rs s)) = d_gpus (s_db s)"
    "d_servers (s_db (announce_created u lab ctx rs s)) = d_servers (s_db s)"
    "d_links (s_db (announce_created u lab ctx rs s)) = d_links (s_db s)"
    "s_dirty (announce_created u lab ctx rs s) = s_dirty s"
  by (induction u lab ctx rs s rule: announce_created.induct) (simp_all add: row_simps)

lemma announce_created_audit:
  "map au_action (d_audit (s_db (announce_created u lab ctx rs s))) =
     map au_action (d_audit (s_db s)) @ replicate (length rs) ''reservation.create''
   \<and> map au_target_id (d_audit (s_db (announce_created u lab ctx rs s))) =
     map au_target_id (d_audit (s_db s)) @ map (\<lambda>(r, _). Some (r_id r)) rs"
  by (induction u lab ctx rs s rule: announce_created.induct)
    (simp_all add: row_simps create_audit_def audit_of_def)

lemma announce_created_pushes:
  "map fst (s_pushes (announce_created u lab ctx rs s)) = map fst (s_pushes s) @ map (\<lambda>(r, _). r_user_id r) rs"
  by (induction u lab ctx rs s rule: announce_created.induct) (simp_all add: row_simps)

section \<open>Inserting rows\<close>

lemma length_new_rows [simp]: "length (new_rows f k items) = length items"
  by (induction f k items rule: new_rows.induct) simp_all

lemma length_with_ids [simp]: "length (with_ids k rs) = length rs"
  by (induction k rs rule: with_ids.induct) simp_all

lemma set_with_ids: "r \<in> set (with_ids k rs) \<Longrightarrow> \<exists>r0 \<in> set rs. \<exists>i \<ge> k. r = r0\<lparr>r_id := i\<rparr>"
proof (induction rs arbitrary: k)
  case (Cons x rs)
  then consider "r = x\<lparr>r_id := k\<rparr>" | "r \<in> set (with_ids (k + 1) rs)" by auto
  then show ?case
  proof cases
    case 2
    from Cons.IH[OF this] obtain r0 i where "r0 \<in> set rs" "i \<ge> k + 1" "r = r0\<lparr>r_id := i\<rparr>" by blast
    then show ?thesis by (intro bexI[of _ r0] exI[of _ i]) auto
  qed auto
qed simp

lemma ids_with_ids: "map r_id (with_ids k rs) = map (\<lambda>i. k + int i) [0..<length rs]"
proof (induction rs arbitrary: k)
  case (Cons r rs)
  have "map (\<lambda>i. k + int i) [0..<Suc (length rs)] = k # map (\<lambda>i. (k + 1) + int i) [0..<length rs]"
    by (simp add: upt_conv_Cons map_Suc_upt[symmetric] del: upt_Suc)
  with Cons show ?case by simp
qed simp

lemma insert_rows_sel:
    "d_reservations (insert_rows rs d) = d_reservations d @ with_ids (d_next_reservation d) rs
     \<and> d_next_reservation (insert_rows rs d) = d_next_reservation d + int (length rs)
     \<and> d_gpus (insert_rows rs d) = d_gpus d \<and> d_audit (insert_rows rs d) = d_audit d
     \<and> d_servers (insert_rows rs d) = d_servers d \<and> d_links (insert_rows rs d) = d_links d
     \<and> d_notifications (insert_rows rs d) = d_notifications d"
  by (induction rs arbitrary: d) (simp_all add: db_insert_res_def)

lemma db_wf_insert_rows: "db_wf d \<Longrightarrow> list_all res_row_ok rs \<Longrightarrow> db_wf (insert_rows rs d)"
  by (induction rs arbitrary: d) (simp_all add: db_wf_insert)

lemma set_new_rows: "r \<in> set (new_rows f k items) \<Longrightarrow> \<exists>item \<in> set items. \<exists>i \<ge> k. r = f i item"
proof (induction items arbitrary: k)
  case (Cons x items)
  then consider "r = f k x" | "r \<in> set (new_rows f (Suc k) items)" by auto
  then show ?case
  proof cases
    case 2
    from Cons.IH[OF this] obtain item i where "item \<in> set items" "i \<ge> Suc k" "r = f i item" by blast
    then show ?thesis by (intro bexI[of _ item] exI[of _ i]) auto
  qed auto
qed simp

section \<open>What a successful creation went through\<close>

lemma check_items_Inr: "check_items s u now sst items = Inr () \<longleftrightarrow> (\<forall>item \<in> set items.
     (\<exists>sv. validate_item_time s item now = Inr sv)
     \<and> (\<exists>l. load_link_or_raise s (it_account_link_id item) u = Inr l)
     \<and> check_script_start sst item = Inr ())"
  by (induction items) (auto simp: rbind_eq_Inr)

lemma check_conflicts_Inr: "check_conflicts s items = Inr () \<longleftrightarrow>
    (\<forall>item \<in> set items. check_conflict s item = Inr ())"
  by (induction items) (auto simp: rbind_eq_Inr)

lemma check_mode3_Inr: "check_mode3 script k items = Inr () \<longleftrightarrow> (\<forall>item \<in> set items. it_gpu_id item = None \<longrightarrow>
    script \<noteq> None \<and> it_gpu_memory_mb item = None \<and> it_gpu_compute_share_pct item = None)"
  by (induction script k items rule: check_mode3.induct) auto

lemma check_conflict_Inr: "check_conflict s item = Inr () \<longleftrightarrow> (\<forall>g. it_gpu_id item = Some g \<longrightarrow>
    (\<exists>gp. d_gpus (s_db s) g = Some gp \<and> classify_conflict item
       (window_rows (reservations s) g (dt_wall (it_start_at item)) (dt_wall (it_end_at item))) gp = None))"
  by (auto simp: check_conflict_def window_active_reservations_def split: option.splits)

definition batch_rows :: "item_draft list \<Rightarrow> int \<Rightarrow> ustring option \<Rightarrow> datetime option \<Rightarrow> int option \<Rightarrow> bool \<Rightarrow>
    string \<Rightarrow> session \<Rightarrow> reservation list" where
  "batch_rows items u script sst mr share gid s =
     with_ids (d_next_reservation (s_db s)) (new_rows (new_row u gid script sst mr share (s_clock s)) 0 items)"

lemma create_Inr:
  assumes "create_reservation_batch items u lab script sst mr share now gid ctx s = (Inr (g, rows), s')"
  shows "items \<noteq> []" "\<not> script_too_large script" "check_mode3 script 0 items = Inr ()"
    "check_items s u now sst items = Inr ()" "check_conflicts s items = Inr ()"
    "list_all res_row_ok (new_rows (new_row u gid script sst mr share (s_clock s)) 0 items)"
    "g = gid" "rows = batch_rows items u script sst mr share gid s"
    "s' = announce_created u lab ctx (zip rows items) (s\<lparr>s_db := insert_rows
        (new_rows (new_row u gid script sst mr share (s_clock s)) 0 items) (s_db s)\<rparr>)"
  using assms by (auto simp: create_reservation_batch_def Let_def rbind_eq_Inr batch_rows_def flush_new_def
      split: if_splits sum.splits)

lemma create_Inl:
  "create_reservation_batch items u lab script sst mr share now gid ctx s = (Inl e, s') \<Longrightarrow> s' = s"
  by (auto simp: create_reservation_batch_def Let_def split: if_splits sum.splits)

lemma create_tables:
  assumes "create_reservation_batch items u lab script sst mr share now gid ctx s = (Inr (g, rows), s')"
  shows "reservations s' = reservations s @ rows"
    "d_gpus (s_db s') = d_gpus (s_db s)" "s_dirty s' = s_dirty s"
    "map au_action (d_audit (s_db s')) = map au_action (d_audit (s_db s)) @
       replicate (length items) ''reservation.create''"
    "length rows = length items"
    "d_next_reservation (s_db s') = d_next_reservation (s_db s) + int (length items)"
  using create_Inr[OF assms] insert_rows_sel[of _ "s_db s"]
  by (simp_all add: reservations_def row_simps batch_rows_def announce_created_audit)

lemma create_db_wf:
  assumes "create_reservation_batch items u lab script sst mr share now gid ctx s = (res, s')"
    and "db_wf (s_db s)"
  shows "db_wf (s_db s')"
proof (cases res)
  case (Inl e)
  with assms create_Inl show ?thesis by blast
next
  case (Inr gr)
  obtain g rows where "gr = (g, rows)" by (cases gr)
  with assms Inr have c: "create_reservation_batch items u lab script sst mr share now gid ctx s = (Inr (g, rows), s')"
    by simp
  have "db_wf (insert_rows (new_rows (new_row u gid script sst mr share (s_clock s)) 0 items) (s_db s))"
    using db_wf_insert_rows assms(2) create_Inr(6)[OF c] by blast
  then show ?thesis using create_Inr(9)[OF c] by (simp add: db_wf_def row_simps)
qed

lemma batch_rows_origin:
  assumes "r \<in> set (batch_rows items u script sst mr share gid s)"
  obtains item i k where "item \<in> set items"
    "r = (new_row u gid script sst mr share (s_clock s) i item)\<lparr>r_id := k\<rparr>"
    "k \<ge> d_next_reservation (s_db s)"
proof -
  from assms obtain r0 k where r0: "r0 \<in> set (new_rows (new_row u gid script sst mr share (s_clock s)) 0 items)"
    and k: "k \<ge> d_next_reservation (s_db s)" "r = r0\<lparr>r_id := k\<rparr>"
    by (auto simp: batch_rows_def dest: set_with_ids)
  from set_new_rows[OF r0] obtain item i where "item \<in> set items"
    "r0 = new_row u gid script sst mr share (s_clock s) i item" by blast
  with k that show thesis by blast
qed

lemma new_row_sel [simp]:
    "r_user_id (new_row u gid script sst mr share c i item) = u"
    "r_server_id (new_row u gid script sst mr share c i item) = it_server_id item"
    "r_gpu_id (new_row u gid script sst mr share c i item) = it_gpu_id item"
    "r_account_link_id (new_row u gid script sst mr share c i item) = it_account_link_id item"
    "r_group_id (new_row u gid script sst mr share c i item) = Some gid"
    "r_start_at (new_row u gid script sst mr share c i item) = dt_wall (it_start_at item)"
    "r_end_at (new_row u gid script sst mr share c i item) = dt_wall (it_end_at item)"
    "r_status (new_row u gid script sst mr share c i item) = Scheduled"
    "r_gpu_memory_mb (new_row u gid script sst mr share c i item) = it_gpu_memory_mb item"
    "r_gpu_compute_share_pct (new_row u gid script sst mr share c i item) = it_gpu_compute_share_pct item"
    "r_script (new_row u gid script sst mr share c i item) = carry_script script share i"
    "r_script_status (new_row u gid script sst mr share c i item) = None"
    "r_script_dispatch_started_at (new_row u gid script sst mr share c i item) = None"
    "r_script_log_tail_text (new_row u gid script sst mr share c i item) = None"
  by (simp_all add: new_row_def Let_def)

section \<open>Capacity of a created batch\<close>

definition items_contend :: "item_draft \<Rightarrow> item_draft \<Rightarrow> bool" where
  "items_contend a b \<longleftrightarrow> it_gpu_id a \<noteq> None \<and> it_gpu_id a = it_gpu_id b
     \<and> dt_wall (it_start_at a) < dt_wall (it_end_at b) \<and> dt_wall (it_end_at a) > dt_wall (it_start_at b)"

definition items_apart :: "item_draft list \<Rightarrow> bool" where
  "items_apart items \<longleftrightarrow> sorted_wrt (\<lambda>a b. \<not> items_contend a b) items"

lemma rows_apart_with_ids:
  "sorted_wrt (\<lambda>a b. \<not> items_contend a b) items \<Longrightarrow>
   sorted_wrt (\<lambda>a b. \<not> rows_contend a b) (with_ids k (new_rows (new_row u gid script sst mr share c) i items))"
proof (induction items arbitrary: k i)
  case (Cons item items)
  have "\<not> rows_contend ((new_row u gid script sst mr share c i item)\<lparr>r_id := k\<rparr>) r"
    if r: "r \<in> set (with_ids (k + 1) (new_rows (new_row u gid script sst mr share c) (Suc i) items))" for r
  proof -
    from set_with_ids[OF r] obtain r0 k' where "r = r0\<lparr>r_id := k'\<rparr>"
      "r0 \<in> set (new_rows (new_row u gid script sst mr share c) (Suc i) items)" by blast
    with set_new_rows obtain it2 j where "it2 \<in> set items"
      "r = (new_row u gid script sst mr share c j it2)\<lparr>r_id := k'\<rparr>" by blast
    with Cons.prems show ?thesis by (auto simp: rows_contend_def items_contend_def)
  qed
  with Cons show ?case by simp
qed simp

lemma create_capacity:
  assumes c: "create_reservation_batch items u lab script sst mr share now gid ctx s = (Inr (g, rows), s')"
    and wf: "db_wf (s_db s)" and cap: "capacity_ok (s_db s)" and apart: "items_apart items"
  shows "capacity_ok (s_db s')"
proof -
  have rows: "rows = batch_rows items u script sst mr share gid s" by (rule create_Inr[OF c])
  have adm: "\<not> classifier_refuses (r_gpu_memory_mb n) (r_gpu_compute_share_pct n)
      (window_rows (reservations s) gp (r_start_at n) (r_end_at n)) (gpu_total (s_db s) gp)"
    if n: "n \<in> set rows" "occupies gp n" for n gp
  proof -
    from n(1) obtain item i k where it: "item \<in> set items"
      "n = (new_row u gid script sst mr share (s_clock s) i item)\<lparr>r_id := k\<rparr>"
      unfolding rows by (rule batch_rows_origin)
    with n(2) have "it_gpu_id item = Some gp" by (simp add: occupies_def)
    with it create_Inr(5)[OF c] obtain gpu where "d_gpus (s_db s) gp = Some gpu" "classify_conflict item
        (window_rows (reservations s) gp (dt_wall (it_start_at item)) (dt_wall (it_end_at item))) gpu = None"
      by (auto simp: check_conflicts_Inr check_conflict_Inr)
    then show ?thesis using it(2)
      by (simp add: classify_conflict_None classifier_refuses_iff gpu_total_def)
  qed
  have ok_new: "res_row_ok n" if "n \<in> set rows" for n
    using that create_Inr(6)[OF c] unfolding rows batch_rows_def
    by (auto dest!: set_with_ids simp: list_all_iff)
  have "slot_ok (gpu_total (s_db s) gp) (live_on (reservations s @ rows) gp t)" for gp t
  proof (rule booking.admitted_batch)
    show "\<And>g t. slot_ok (gpu_total (s_db s) g) (live_on (reservations s) g t)"
      using cap by (simp add: capacity_ok_def reservations_def)
    show "\<And>r. r \<in> set (reservations s) \<union> set rows \<Longrightarrow> amounts_ok r"
      using wf ok_new by (auto simp: db_wf_def reservations_def intro: res_row_ok_amounts)
    show "sorted_wrt (\<lambda>a b. \<not> rows_contend a b) rows"
      using apart unfolding rows batch_rows_def items_apart_def by (rule rows_apart_with_ids)
  qed (use adm in blast)
  then show ?thesis
    using create_tables(1,2)[OF c] by (simp add: capacity_ok_def gpu_total_def reservations_def)
qed

section \<open>Modification\<close>

definition modified_row :: "modify_args \<Rightarrow> reservation \<Rightarrow> reservation" where
  "modified_row a row = modify_knobs a (modify_script a (new_start a row) (timed_row a row))"

lemma modified_row_sel [simp]:
    "r_id (modified_row a row) = r_id row" "r_user_id (modified_row a row) = r_user_id row"
    "r_server_id (modified_row a row) = r_server_id row" "r_gpu_id (modified_row a row) = r_gpu_id row"
    "r_status (modified_row a row) = r_status row"
    "r_account_link_id (modified_row a row) = r_account_link_id row"
    "r_start_at (modified_row a row) = dt_wall (new_start a row)"
    "r_end_at (modified_row a row) = dt_wall (new_end a row)"
    "r_gpu_memory_mb (modified_row a row) = r_gpu_memory_mb row"
    "r_gpu_compute_share_pct (modified_row a row) = r_gpu_compute_share_pct row"
    "r_script_status (modified_row a row) = r_script_status row"
    "r_script_dispatch_started_at (modified_row a row) = r_script_dispatch_started_at row"
  by (simp_all add: modified_row_def modify_knobs_def modify_script_def timed_row_def split: option.splits)

lemma modify_Inr:
  assumes "modify_reservation rid actor a lab now ctx s = (Inr row', s')"
  obtains row where "get_reservation s rid = Some row" "r_status row = Scheduled" "r_user_id row = actor"
    "mo_script_scheduled_start_at a \<noteq> None \<or> mo_script_max_runtime_seconds a \<noteq> None \<longrightarrow>
       r_script_status row = None \<and> r_script_dispatch_started_at row = None"
    "retimed a \<longrightarrow> modify_time_check s (timed_row a row) (new_start a row) (new_end a row) now = Inr ()"
    "\<not> script_too_large (mo_script a)" "res_row_ok row'" "row' = modified_row a row"
    "modify_trigger_check a (new_start a row) (new_end a row) = Inr ()"
    "reservations s' = row_put r_id row' (reservations s)"
    "s_dirty s' = None" "d_gpus (s_db s') = d_gpus (s_db s)"
    "d_next_reservation (s_db s') = d_next_reservation (s_db s)"
proof -
  from assms obtain row where row: "get_reservation s rid = Some row"
    by (auto simp: modify_reservation_def split: option.splits)
  show thesis
    by (rule that[of row])
      (use assms row in \<open>auto simp: modify_reservation_def Let_def flush_res_def row_simps
        modified_row_def split: if_splits sum.splits\<close>)
qed

lemma modify_Inl:
  assumes "modify_reservation rid actor a lab now ctx s = (Inl e, s')"
  shows "s_db s' = s_db s \<and> s_pushes s' = s_pushes s"
  using assms
  by (auto simp: modify_reservation_def Let_def split: if_splits sum.splits option.splits)

lemma no_new_claim_refl [simp]: "no_new_claim r r"
  by (simp add: no_new_claim_def)

lemma row_by_unique: "distinct (map r_id rs) \<Longrightarrow> row_by r_id i rs = Some row \<Longrightarrow> x \<in> set rs \<Longrightarrow> r_id x = i \<Longrightarrow> x = row"
  by (metis option.inject row_by_in)

text \<open>Replacing one row by one that claims no more keeps capacity.\<close>

lemma capacity_row_put:
  assumes wf: "db_wf (s_db s)" and cap: "capacity_ok (s_db s)"
    and old: "row_by r_id (r_id n) (reservations s) = Some row" and nn: "no_new_claim row n"
    and res: "d_reservations d = row_put r_id n (reservations s)" and gp: "d_gpus d = d_gpus (s_db s)"
  shows "capacity_ok d"
proof -
  have "slot_ok (gpu_total (s_db s) g) (live_on (row_put r_id n (reservations s)) g t)" for g t
    unfolding row_put_def
  proof (rule slot_ok_map)
    fix r assume r: "r \<in> set (reservations s)"
    with wf old nn show "no_new_claim r (if r_id r = r_id n then n else r)"
      using row_by_unique[of "reservations s" "r_id n" row r] by (auto simp: db_wf_def reservations_def)
    show "amounts_ok r" using r wf by (auto simp: db_wf_def reservations_def intro: res_row_ok_amounts)
  next
    show "slot_ok (gpu_total (s_db s) g) (live_on (reservations s) g t)"
      using cap by (simp add: capacity_ok_def reservations_def)
  qed
  then show ?thesis by (simp add: capacity_ok_def res gpu_total_def gp)
qed

lemma modify_capacity:
  assumes m: "modify_reservation rid actor a lab now ctx s = (Inr row', s')"
    and wf: "db_wf (s_db s)" and cap: "capacity_ok (s_db s)"
  shows "capacity_ok (s_db s')"
proof -
  obtain row where row: "get_reservation s rid = Some row" "row' = modified_row a row"
    "retimed a \<longrightarrow> modify_time_check s (timed_row a row) (new_start a row) (new_end a row) now = Inr ()"
    and s': "reservations s' = row_put r_id row' (reservations s)" "d_gpus (s_db s') = d_gpus (s_db s)"
    by (rule modify_Inr[OF m]) blast
  from row have in_rows: "row \<in> set (reservations s)" "r_id row = rid"
    by (auto simp: get_reservation_def dest: row_by_Some)
  show ?thesis
  proof (cases "retimed a")
    case False
    then have "no_new_claim row row'"
      by (simp add: row no_new_claim_def occupies_def new_start_def new_end_def retimed_def opt_else_def)
    then show ?thesis using row in_rows s'
      by (intro capacity_row_put[OF wf cap]) (auto simp: get_reservation_def reservations_def)
  next
    case True
    have adm: "\<not> classifier_refuses (r_gpu_memory_mb row') (r_gpu_compute_share_pct row')
        (filter (\<lambda>r. r_id r \<noteq> r_id row') (window_rows (reservations s) g (r_start_at row') (r_end_at row')))
        (gpu_total (s_db s) g)" if "occupies g row'" for g
    proof -
      from that have "r_gpu_id row = Some g" by (simp add: row occupies_def)
      with True row(3) obtain gp where "d_gpus (s_db s) g = Some gp"
        "classify_conflict (modify_item (timed_row a row) (new_start a row) (new_end a row))
          (filter (\<lambda>r. r_id r \<noteq> rid) (window_rows (reservations s) g (dt_wall (new_start a row))
             (dt_wall (new_end a row)))) gp = None"
        using in_rows(2) by (auto simp: modify_time_check_def Let_def rbind_eq_Inr timed_row_def
            window_active_reservations_def split: option.splits)
      then show ?thesis using in_rows(2)
        by (simp add: classify_conflict_None classifier_refuses_iff gpu_total_def row modify_item_def timed_row_def)
    qed
    have "slot_ok (gpu_total (s_db s) g) (live_on (row_put r_id row' (reservations s)) g t)" for g t
      by (rule booking.admitted_replace)
        (use wf cap adm in_rows row(2) in
          \<open>auto simp: db_wf_def capacity_ok_def reservations_def intro: res_row_ok_amounts\<close>)
    then show ?thesis using s' by (simp add: capacity_ok_def gpu_total_def reservations_def)
  qed
qed

lemma modify_db_wf:
  assumes m: "modify_reservation rid actor a lab now ctx s = (Inr row', s')" and wf: "db_wf (s_db s)"
  shows "db_wf (s_db s')"
proof -
  obtain row where row: "get_reservation s rid = Some row" "row' = modified_row a row" "res_row_ok row'"
    and s': "reservations s' = row_put r_id row' (reservations s)"
      "d_next_reservation (s_db s') = d_next_reservation (s_db s)"
    by (rule modify_Inr[OF m]) blast
  then have "r_id row' < d_next_reservation (s_db s)"
    using wf by (auto simp: get_reservation_def db_wf_def reservations_def dest!: row_by_Some)
  with wf row(3) have "db_wf (db_update_res row' (s_db s))" by (rule db_wf_update)
  then show ?thesis using s' by (simp add: db_wf_def db_update_res_def reservations_def)
qed

section \<open>Preview and creation agree\<close>

text \<open>
  For a request in UTC with a valid link, previewing one item reports nothing exactly when the
  checks of the creation pass.
\<close>

definition utc_item :: "item_draft \<Rightarrow> bool" where
  "utc_item item \<longleftrightarrow> dt_off (it_start_at item) = Some 0 \<and> dt_off (it_end_at item) = Some 0"

lemma preview_item_agrees:
  assumes "utc_item item" and "dt_off now = Some 0"
  shows "(\<exists>tl. preview_item s now idx item = Inr ([], tl)) \<longleftrightarrow>
    (\<exists>sv. validate_item_time s item now = Inr sv) \<and> check_conflict s item = Inr ()"
  using assms
  by (auto simp: preview_item_def preview_time_bad_def utc_item_def validate_item_time_Inr dt_le_def dt_lt_def
      dt_cmp_def preview_gpu_def check_conflict_def dt_to_utc_def Let_def hours_between_gt
      plain_conflict_def invalid_time_conflict_def split: option.splits bool.splits if_splits)

end
