(* ===== verification/Lifecycle_Props.thy ===== *)
theory Lifecycle_Props
  imports Booking_Props Reservation_Lifecycle
begin

text \<open>
  What the life-cycle operations guarantee. \<open>writes_row\<close> is the frame every one of them obeys: one
  row of the table is replaced, audit rows are only appended, no other table than the
  notifications is touched. \<open>row_evolves\<close> says which replacements are legal. From the two the
  invariants of the database follow once, for all operations.
\<close>

section \<open>Frames\<close>

definition same_tables :: "session \<Rightarrow> session \<Rightarrow> bool" where
  "same_tables s s' \<longleftrightarrow> d_gpus (s_db s') = d_gpus (s_db s) \<and> d_servers (s_db s') = d_servers (s_db s)
     \<and> d_links (s_db s') = d_links (s_db s) \<and> d_pas (s_db s') = d_pas (s_db s)
     \<and> d_grants (s_db s') = d_grants (s_db s) \<and> s_clock s' = s_clock s
     \<and> d_next_reservation (s_db s') = d_next_reservation (s_db s)
     \<and> prefix (d_audit (s_db s)) (d_audit (s_db s'))"

definition writes_row :: "reservation \<Rightarrow> session \<Rightarrow> session \<Rightarrow> bool" where
  "writes_row row' s s' \<longleftrightarrow> reservations s' = row_put r_id row' (reservations s) \<and> same_tables s s'
     \<and> res_row_ok row' \<and> s_dirty s' = None"

lemma same_tables_refl [simp]: "same_tables s s"
  by (simp add: same_tables_def)

lemma same_tables_trans: "same_tables s s' \<Longrightarrow> same_tables s' s'' \<Longrightarrow> same_tables s s''"
  by (auto simp: same_tables_def)

lemma same_tables_writers [simp, intro]:
    "same_tables s (audit_write e s)"
    "same_tables s (create_notification r ty ti se bo pl ct s)"
    "same_tables s (push_to_user u fr s)"
    "same_tables s (push_row row c s)"
    "same_tables s (s\<lparr>s_dirty := x\<rparr>)"
  by (simp_all add: same_tables_def row_simps push_row_def)

lemma push_row_sel [row_simps]:
    "s_db (push_row r c s) = s_db s" "s_dirty (push_row r c s) = s_dirty s"
    "s_clock (push_row r c s) = s_clock s" "reservations (push_row r c s) = reservations s"
    "s_pushes (push_row r c s) = s_pushes s @ [(r_user_id r, ReservationStatusChange
       (serialize_reservation_for_ws r (dt_naive (r_start_at r)) (dt_naive (r_end_at r)) c))]"
  by (simp_all add: push_row_def row_simps)

lemma flush_res_Inr: "flush_res r s = Inr s' \<longleftrightarrow> res_row_ok r \<and> s' = (s_update_res r s)\<lparr>s_dirty := None\<rparr>"
  by (auto simp: flush_res_def)

lemma writes_row_flush: "flush_res r s = Inr s' \<Longrightarrow> writes_row r s s'"
  by (simp add: flush_res_Inr writes_row_def same_tables_def row_simps)

text \<open>What follows the flush keeps the frame.\<close>

lemma writes_row_after:
    "writes_row r s s' \<Longrightarrow> writes_row r s (audit_write e s')"
    "writes_row r s s' \<Longrightarrow> writes_row r s (create_notification u ty ti se bo pl ct s')"
    "writes_row r s s' \<Longrightarrow> writes_row r s (push_row row c s')"
    "writes_row r s s' \<Longrightarrow> writes_row r s (push_to_user u fr s')"
  by (simp_all add: writes_row_def same_tables_def row_simps prefix_def) auto

lemma writes_row_transition:
  "writes_row r s s' \<Longrightarrow> writes_row r s (write_transition_audit row a b tr ac lab ex ctx s')"
  by (simp add: write_transition_audit_def writes_row_after)

lemmas writes_row_intros = writes_row_after writes_row_transition

section \<open>Legal changes of a row\<close>

text \<open>
  The columns no operation ever rewrites, the two state machines, and the columns that move only
  while the row is scheduled. A row that was sent to the agent carries a script.
\<close>

definition dispatch_has_script :: "reservation \<Rightarrow> bool" where
  "dispatch_has_script r \<longleftrightarrow> (r_script_dispatch_started_at r \<noteq> None \<longrightarrow> r_script r \<noteq> None)"

definition frozen_once_started :: "reservation \<Rightarrow> reservation \<Rightarrow> bool" where
  "frozen_once_started r r' \<longleftrightarrow> (r_status r \<noteq> Scheduled \<longrightarrow> r_start_at r' = r_start_at r
     \<and> r_end_at r' = r_end_at r \<and> r_script r' = r_script r
     \<and> r_script_max_runtime_seconds r' = r_script_max_runtime_seconds r)"

definition row_evolves :: "reservation \<Rightarrow> reservation \<Rightarrow> bool" where
  "row_evolves r r' \<longleftrightarrow> r_id r' = r_id r \<and> r_user_id r' = r_user_id r \<and> r_server_id r' = r_server_id r
     \<and> r_gpu_id r' = r_gpu_id r \<and> r_account_link_id r' = r_account_link_id r
     \<and> r_group_id r' = r_group_id r \<and> r_created_at r' = r_created_at r
     \<and> r_gpu_memory_mb r' = r_gpu_memory_mb r \<and> r_gpu_compute_share_pct r' = r_gpu_compute_share_pct r
     \<and> (dispatch_has_script r \<longrightarrow> dispatch_has_script r') \<and> frozen_once_started r r'
     \<and> res_step\<^sup>*\<^sup>* (r_status r) (r_status r') \<and> script_step\<^sup>*\<^sup>* (r_script_status r) (r_script_status r')"

lemma row_evolves_refl [simp]: "row_evolves r r"
  by (simp add: row_evolves_def frozen_once_started_def)

lemma never_back_to_scheduled: "res_step\<^sup>*\<^sup>* a b \<Longrightarrow> a \<noteq> Scheduled \<Longrightarrow> b \<noteq> Scheduled"
proof (induction rule: rtranclp_induct)
  case (step b c)
  then show ?case by (cases b) (auto simp: res_step_def)
qed simp

lemma row_evolves_trans: "row_evolves a b \<Longrightarrow> row_evolves b c \<Longrightarrow> row_evolves a c"
  unfolding row_evolves_def frozen_once_started_def
  by (auto dest: never_back_to_scheduled intro: rtranclp_trans)

definition table_evolves :: "reservation list \<Rightarrow> reservation list \<Rightarrow> bool" where
  "table_evolves rs rs' \<longleftrightarrow> (\<forall>r \<in> set rs. \<exists>r' \<in> set rs'. row_evolves r r')"

lemma table_evolves_refl [simp]: "table_evolves rs rs"
  by (auto simp: table_evolves_def intro: row_evolves_refl)

lemma table_evolves_trans: "table_evolves a b \<Longrightarrow> table_evolves b c \<Longrightarrow> table_evolves a c"
  unfolding table_evolves_def using row_evolves_trans by meson

lemma table_evolves_append [simp]: "table_evolves rs (rs @ ns)"
  by (auto simp: table_evolves_def intro: row_evolves_refl)

lemma table_evolves_row_put:
  assumes d: "distinct (map r_id rs)" and row: "row_by r_id (r_id row') rs = Some row"
    and ev: "row_evolves row row'"
  shows "table_evolves rs (row_put r_id row' rs)"
  unfolding table_evolves_def
proof
  fix r assume r: "r \<in> set rs"
  show "\<exists>r' \<in> set (row_put r_id row' rs). row_evolves r r'"
  proof (cases "r_id r = r_id row'")
    case True
    then have "r = row" using row_by_unique[OF d row r] by simp
    moreover have "row' \<in> set (row_put r_id row' rs)" using r True by (force simp: row_put_def)
    ultimately show ?thesis using ev by blast
  next
    case False
    with r have "r \<in> set (row_put r_id row' rs)" by (rule row_put_other)
    then show ?thesis using row_evolves_refl by blast
  qed
qed

section \<open>The invariant of the database\<close>

definition db_ok :: "db \<Rightarrow> bool" where
  "db_ok d \<longleftrightarrow> db_wf d \<and> (\<forall>r \<in> set (d_reservations d). dispatch_has_script r)"

text \<open>
  A legal development of the database: every row has a legal successor and the audit log is only
  extended. It evolves when it also stays within capacity.
\<close>

definition develops :: "db \<Rightarrow> db \<Rightarrow> bool" where
  "develops d d' \<longleftrightarrow> table_evolves (d_reservations d) (d_reservations d') \<and> prefix (d_audit d) (d_audit d')"

definition evolves :: "db \<Rightarrow> db \<Rightarrow> bool" where
  "evolves d d' \<longleftrightarrow> develops d d' \<and> (capacity_ok d \<longrightarrow> capacity_ok d')"

lemma develops_refl [simp]: "develops d d"
  by (simp add: develops_def)

lemma develops_trans: "develops a b \<Longrightarrow> develops b c \<Longrightarrow> develops a c"
  by (auto simp: develops_def intro: table_evolves_trans)

lemma evolves_refl [simp]: "evolves d d"
  by (simp add: evolves_def)

lemma evolves_trans: "evolves a b \<Longrightarrow> evolves b c \<Longrightarrow> evolves a c"
  by (auto simp: evolves_def intro: develops_trans)

text \<open>One row replaced by a legal successor.\<close>

lemma writes_row_develops:
  assumes w: "writes_row row' s s'" and row: "get_reservation s (r_id row') = Some row"
    and ev: "row_evolves row row'" and ok: "db_ok (s_db s)"
  shows "db_ok (s_db s')" "develops (s_db s) (s_db s')"
proof -
  from ok have wf: "db_wf (s_db s)" by (simp add: db_ok_def)
  from row have in_rows: "row \<in> set (reservations s)" "r_id row' = r_id row"
    by (auto simp: get_reservation_def dest: row_by_Some)
  with wf have lt: "r_id row' < d_next_reservation (s_db s)"
    by (auto simp: db_wf_def reservations_def)
  have res: "d_reservations (s_db s') = row_put r_id row' (d_reservations (s_db s))"
    using w by (simp add: writes_row_def reservations_def)
  have "db_wf (db_update_res row' (s_db s))"
    using wf w lt by (intro db_wf_update) (auto simp: writes_row_def)
  then have "db_wf (s_db s')"
    using w res by (simp add: db_wf_def db_update_res_def writes_row_def same_tables_def)
  moreover have "\<forall>r \<in> set (d_reservations (s_db s')). dispatch_has_script r"
    using ok ev in_rows(1) by (auto simp: res db_ok_def row_evolves_def reservations_def dest!: row_putD)
  ultimately show "db_ok (s_db s')" by (simp add: db_ok_def)
  show "develops (s_db s) (s_db s')"
    using w wf row ev
    by (auto simp: develops_def writes_row_def same_tables_def get_reservation_def db_wf_def reservations_def
        intro!: table_evolves_row_put)
qed

text \<open>When the successor also claims nothing new, capacity is kept.\<close>

lemma writes_row_ok:
  assumes w: "writes_row row' s s'" and row: "get_reservation s (r_id row') = Some row"
    and ev: "row_evolves row row'" and nn: "no_new_claim row row'" and ok: "db_ok (s_db s)"
  shows "db_ok (s_db s')" "evolves (s_db s) (s_db s')"
proof -
  note dev = writes_row_develops[OF w row ev ok]
  from ok have wf: "db_wf (s_db s)" by (simp add: db_ok_def)
  have "capacity_ok (s_db s')" if "capacity_ok (s_db s)"
    by (rule capacity_row_put[OF wf that _ nn])
      (use w row in \<open>simp_all add: writes_row_def same_tables_def get_reservation_def reservations_def\<close>)
  with dev show "db_ok (s_db s')" "evolves (s_db s) (s_db s')" by (simp_all add: evolves_def)
qed

lemma no_new_claim_status:
  "active_status (r_status row) \<Longrightarrow> r_gpu_id row' = r_gpu_id row \<Longrightarrow> r_start_at row' = r_start_at row \<Longrightarrow>
   r_end_at row' = r_end_at row \<Longrightarrow> r_gpu_memory_mb row' = r_gpu_memory_mb row \<Longrightarrow>
   r_gpu_compute_share_pct row' = r_gpu_compute_share_pct row \<Longrightarrow> no_new_claim row row'"
  by (simp add: no_new_claim_def occupies_def)

lemma res_step_active: "res_step a b \<Longrightarrow> active_status a"
  using res_life.final_stuck terminal_not_active by blast


section \<open>Cancelling one reservation\<close>

lemma cancelled_row_sel [simp]:
    "r_id (cancelled_row now u re row) = r_id row" "r_status (cancelled_row now u re row) = Cancelled"
    "r_user_id (cancelled_row now u re row) = r_user_id row"
    "r_group_id (cancelled_row now u re row) = r_group_id row"
    "r_script_status (cancelled_row now u re row) = r_script_status row"
    "res_row_ok (cancelled_row now u re row) = res_row_ok row"
  by (simp_all add: cancelled_row_def)

lemma cancelled_row_evolves: "active_status (r_status row) \<Longrightarrow> row_evolves row (cancelled_row now u re row)"
  by (cases "r_status row") (auto simp: row_evolves_def frozen_once_started_def dispatch_has_script_def cancelled_row_def res_step_def intro!: r_into_rtranclp)

lemma cancelled_row_claim: "active_status (r_status row) \<Longrightarrow> no_new_claim row (cancelled_row now u re row)"
  by (rule no_new_claim_status) (simp_all add: cancelled_row_def)

lemma cancel_Inr:
  assumes "cancel_reservation rid actor can_admin reason lab ctx s = (Inr row', s')"
  shows "\<exists>row. get_reservation s rid = Some row \<and> active_status (r_status row)
     \<and> (can_admin \<or> r_user_id row = actor) \<and> row' = cancelled_row (s_clock s) actor reason row
     \<and> writes_row row' s s'"
proof -
  from assms obtain row where row: "get_reservation s rid = Some row" "active_status (r_status row)"
    "can_admin \<or> r_user_id row = actor" "row' = cancelled_row (s_clock s) actor reason row" "res_row_ok row'"
    and s': "s' = push_row row' ChangeCancelled
        (if can_admin \<and> r_user_id row' \<noteq> actor
         then cancel_notification actor reason row'
           (audit_write (cancel_audit actor can_admin reason lab ctx row') ((s_update_res row' s)\<lparr>s_dirty := None\<rparr>))
         else audit_write (cancel_audit actor can_admin reason lab ctx row') ((s_update_res row' s)\<lparr>s_dirty := None\<rparr>))"
    by (auto simp: cancel_reservation_def Let_def flush_res_def terminal_not_active
        split: option.splits if_splits sum.splits)
  have "writes_row row' s ((s_update_res row' s)\<lparr>s_dirty := None\<rparr>)"
    by (rule writes_row_flush) (simp add: flush_res_def row(5))
  then have "writes_row row' s s'"
    by (simp add: s' cancel_notification_def writes_row_after)
  with row show ?thesis by blast
qed

text \<open>A refusal leaves the database alone; only the failing flush leaves the session dirty.\<close>

lemma cancel_Inl:
  assumes "cancel_reservation rid actor can_admin reason lab ctx s = (Inl e, s')"
  shows "s_db s' = s_db s \<and> s_pushes s' = s_pushes s \<and> (e \<noteq> DbFlushError \<longrightarrow> s' = s)"
  using assms
  by (auto simp: cancel_reservation_def Let_def flush_res_def assert_transition_allowed_def
      split: option.splits if_splits sum.splits)

text \<open>Cancelling an existing row fails only for the two documented reasons.\<close>

lemma cancel_total:
  assumes row: "get_reservation s rid = Some row" and wf: "db_wf (s_db s)"
    and act: "active_status (r_status row)" and perm: "can_admin \<or> r_user_id row = actor"
  shows "\<exists>row' s'. cancel_reservation rid actor can_admin reason lab ctx s = (Inr row', s')"
proof -
  from row wf have "res_row_ok row" by (auto simp: get_reservation_def db_wf_def reservations_def dest!: row_by_Some)
  with row act perm show ?thesis
    by (cases "r_status row")
      (auto simp: cancel_reservation_def Let_def flush_res_def assert_transition_allowed_def terminal_status_def)
qed

section \<open>The scheduler's transitions\<close>

lemma transition_to_active_Inr:
  assumes "transition_to_active row lab tr ac now ctx s = Inr (row', s')"
  shows "r_status row = Scheduled \<and> row' = row\<lparr>r_status := Active\<rparr> \<and> writes_row row' s s'"
proof -
  have "r_status row = Scheduled" if "res_step (r_status row) Active"
    using that by (cases "r_status row") (auto simp: res_step_def)
  with assms show ?thesis
    by (auto simp: transition_to_active_def rbind_eq_Inr Let_def assert_transition_ok
        intro!: writes_row_intros dest: writes_row_flush)
qed

lemma transition_to_completed_Inr:
  assumes "transition_to_completed row lab tr ac now ctx s = Inr (row', s')"
  shows "r_status row = Active \<and> row' = row\<lparr>r_status := Completed\<rparr> \<and> writes_row row' s s'"
proof -
  have "r_status row = Active" if "res_step (r_status row) Completed"
    using that by (cases "r_status row") (auto simp: res_step_def)
  with assms show ?thesis
    by (auto simp: transition_to_completed_def rbind_eq_Inr Let_def assert_transition_ok
        intro!: writes_row_intros dest: writes_row_flush)
qed

lemma failed_row_sel [simp]:
    "r_id (failed_row re row) = r_id row" "r_status (failed_row re row) = Failed"
    "r_script_status (failed_row re row) = r_script_status row"
    "res_row_ok (failed_row re row) = res_row_ok row"
  by (simp_all add: failed_row_def)

lemma transition_to_failed_Inr:
  assumes "transition_to_failed row lab reason tr ac now ctx s = Inr (row', s')"
  shows "r_status row = Active \<and> row' = failed_row reason row \<and> writes_row row' s s'"
proof -
  have "r_status row = Active" if "res_step (r_status row) Failed"
    using that by (cases "r_status row") (auto simp: res_step_def)
  with assms show ?thesis
    by (auto simp: transition_to_failed_def rbind_eq_Inr Let_def assert_transition_ok
        intro!: writes_row_intros dest: writes_row_flush)
qed

text \<open>On a row that satisfies the constraints, a transition fails only on the table.\<close>

lemma transition_total:
  assumes "res_row_ok row"
  shows "r_status row = Scheduled \<Longrightarrow> \<exists>s'. transition_to_active row lab tr ac now ctx s = Inr (row\<lparr>r_status := Active\<rparr>, s')"
    "r_status row = Active \<Longrightarrow> \<exists>s'. transition_to_completed row lab tr ac now ctx s = Inr (row\<lparr>r_status := Completed\<rparr>, s')"
    "r_status row = Active \<Longrightarrow> \<exists>s'. transition_to_failed row lab reason tr ac now ctx s = Inr (failed_row reason row, s')"
  using assms
  by (simp_all add: transition_to_active_def transition_to_completed_def transition_to_failed_def
      assert_transition_allowed_def flush_res_def Let_def)

lemma scheduler_row_evolves:
    "r_status row = Scheduled \<Longrightarrow> row_evolves row (row\<lparr>r_status := Active\<rparr>)"
    "r_status row = Active \<Longrightarrow> row_evolves row (row\<lparr>r_status := Completed\<rparr>)"
    "r_status row = Active \<Longrightarrow> row_evolves row (failed_row re row)"
  by (auto simp: row_evolves_def frozen_once_started_def dispatch_has_script_def failed_row_def res_step_def intro!: r_into_rtranclp)

lemma scheduler_row_claim:
    "r_status row = Scheduled \<Longrightarrow> no_new_claim row (row\<lparr>r_status := Active\<rparr>)"
    "r_status row = Active \<Longrightarrow> no_new_claim row (row\<lparr>r_status := Completed\<rparr>)"
    "r_status row = Active \<Longrightarrow> no_new_claim row (failed_row re row)"
  by (auto intro: no_new_claim_status simp: failed_row_def)

section \<open>Script status, log tail, dispatch marker\<close>

lemma script_status_row_sel [simp]:
    "r_id (script_status_row new x st fi row) = r_id row"
    "r_status (script_status_row new x st fi row) = r_status row"
    "r_script_status (script_status_row new x st fi row) = Some new"
    "r_script_log_tail_text (script_status_row new x st fi row) = r_script_log_tail_text row"
    "r_start_at (script_status_row new x st fi row) = r_start_at row"
    "r_end_at (script_status_row new x st fi row) = r_end_at row"
    "r_script_dispatch_started_at (script_status_row new x st fi row) = r_script_dispatch_started_at row"
  by (simp_all add: script_status_row_def Let_def)

lemma script_status_row_ok:
    "res_row_ok row \<Longrightarrow> signed_int_col x \<Longrightarrow> res_row_ok (script_status_row new x st fi row)"
    "res_row_ok row \<Longrightarrow> new \<noteq> S_Running \<Longrightarrow> res_row_ok (script_status_row new x st fi row) = signed_int_col x"
  by (cases new; cases x; auto simp: script_status_row_def Let_def res_row_ok_reported signed_int_col_def)+

lemma script_status_row_evolves:
  "new \<in> set (allowed_script_transitions (r_script_status row)) \<Longrightarrow> row_evolves row (script_status_row new x st fi row)"
  by (auto simp: row_evolves_def frozen_once_started_def dispatch_has_script_def script_status_row_def Let_def script_step_def intro!: r_into_rtranclp)

lemma same_status_claim:
  "r_status row' = r_status row \<Longrightarrow> r_gpu_id row' = r_gpu_id row \<Longrightarrow> r_start_at row' = r_start_at row \<Longrightarrow>
   r_end_at row' = r_end_at row \<Longrightarrow> r_gpu_memory_mb row' = r_gpu_memory_mb row \<Longrightarrow>
   r_gpu_compute_share_pct row' = r_gpu_compute_share_pct row \<Longrightarrow> no_new_claim row row'"
  by (simp add: no_new_claim_def occupies_def)

lemma script_status_row_claim: "no_new_claim row (script_status_row new x st fi row)"
  by (rule same_status_claim) (simp_all add: script_status_row_def Let_def)

lemma update_script_status_Inr:
  "update_script_status row new lab tr x st fi ac ctx s = Inr (row', s') \<Longrightarrow>
     new \<in> set (allowed_script_transitions (r_script_status row))
     \<and> row' = script_status_row new x st fi row \<and> writes_row row' s s'"
  by (auto simp: update_script_status_def Let_def rbind_eq_Inr split: if_splits intro!: writes_row_intros dest: writes_row_flush)

lemma update_script_status_total:
  "res_row_ok row \<Longrightarrow> new \<in> set (allowed_script_transitions (r_script_status row)) \<Longrightarrow> signed_int_col x \<Longrightarrow>
   \<exists>s'. update_script_status row new lab tr x st fi ac ctx s = Inr (script_status_row new x st fi row, s')"
  by (simp add: update_script_status_def Let_def flush_res_def script_status_row_ok)

lemma update_script_status_overflow:
  "res_row_ok row \<Longrightarrow> new \<in> set (allowed_script_transitions (r_script_status row)) \<Longrightarrow> new \<noteq> S_Running \<Longrightarrow> \<not> signed_int_col x \<Longrightarrow>
   update_script_status row new lab tr x st fi ac ctx s = Inl DbFlushError"
  by (simp add: update_script_status_def Let_def flush_res_def script_status_row_ok)

lemma py_last_props:
    "0 < n \<Longrightarrow> length (py_last n xs) \<le> n" "n < length xs \<Longrightarrow> 0 < n \<Longrightarrow> length (py_last n xs) = n"
    "suffix (py_last n xs) xs"
  by (simp_all add: py_last_def suffix_drop)

text \<open>The two branches, with the concatenation kept folded.\<close>

lemma tail_row_cases:
  assumes "c = opt_else (r_script_log_tail_text row) [] @ t"
  shows "tail_row t m row = (if length c > m
    then row\<lparr>r_script_log_tail_text := Some (py_last m c), r_script_log_tail_truncated := True\<rparr>
    else row\<lparr>r_script_log_tail_text := Some c\<rparr>)"
  by (simp add: tail_row_def assms)

lemma tail_row_sel [simp]:
    "r_id (tail_row t m row) = r_id row" "r_status (tail_row t m row) = r_status row"
    "r_script_status (tail_row t m row) = r_script_status row"
  by (simp_all add: tail_row_def Let_def)

lemma tail_row_evolves: "row_evolves row (tail_row t m row)"
  by (simp add: row_evolves_def frozen_once_started_def dispatch_has_script_def tail_row_def Let_def)

lemma tail_row_claim: "no_new_claim row (tail_row t m row)"
  by (rule same_status_claim) (simp_all add: tail_row_def Let_def)

lemma append_tail_Inr:
  "append_script_log_tail row t m s = Inr (row', s') \<Longrightarrow>
     (t = [] \<and> row' = row \<and> s' = s) \<or> (t \<noteq> [] \<and> row' = tail_row t m row \<and> writes_row row' s s')"
  by (auto simp: append_script_log_tail_def Let_def rbind_eq_Inr split: if_splits intro!: writes_row_intros dest: writes_row_flush)

text \<open>
  The stored tail is always the end of what was stored before and the new text, and never longer
  than the cap; it is cut exactly when the cap is exceeded.
\<close>

lemma tail_row_text:
  assumes "0 < m"
  shows "\<exists>out. r_script_log_tail_text (tail_row t m row) = Some out \<and> length out \<le> m
     \<and> suffix out (opt_else (r_script_log_tail_text row) [] @ t)
     \<and> (length out < length (opt_else (r_script_log_tail_text row) [] @ t)
          \<longrightarrow> length out = m \<and> r_script_log_tail_truncated (tail_row t m row))"
proof -
  obtain c where c: "c = opt_else (r_script_log_tail_text row) [] @ t" by simp
  show ?thesis
    unfolding c[symmetric] tail_row_cases[OF c, of m] using assms py_last_props[of m c] by auto
qed

text \<open>
  The cap is counted in characters and the column in bytes: a text above the cap never fits the
  column, so the branch that truncates always fails at the flush.
\<close>

lemma truncation_never_stored:
  assumes long: "length (opt_else (r_script_log_tail_text row) [] @ t) > SCRIPT_LOG_TAIL_MAX_CHARS"
    and ok: "res_row_ok row"
  shows "append_script_log_tail row t SCRIPT_LOG_TAIL_MAX_CHARS s = Inl DbFlushError"
proof -
  obtain c where c: "c = opt_else (r_script_log_tail_text row) [] @ t" by simp
  let ?m = SCRIPT_LOG_TAIL_MAX_CHARS
  from long have "?m < length c" by (simp only: c)
  then have out: "length (py_last ?m c) = ?m" "r_script_log_tail_text (tail_row t ?m row) = Some (py_last ?m c)"
    using py_last_props(2)[of ?m c] by (simp_all add: tail_row_cases[OF c] SCRIPT_LOG_TAIL_MAX_CHARS_def)
  with utf8_len_bounds(1)[of "py_last ?m c"] have bad: "\<not> res_row_ok (tail_row t ?m row)"
    by (simp add: res_row_ok_def text_col_def SCRIPT_LOG_TAIL_MAX_CHARS_def)
  have "utf8_len (opt_else (r_script_log_tail_text row) []) \<le> 65535"
    using ok by (auto simp: res_row_ok_def text_col_def opt_else_def utf8_len_def split: option.splits)
  then have "t \<noteq> []"
    using long utf8_len_bounds(1)[of "opt_else (r_script_log_tail_text row) []"]
    by (auto simp: SCRIPT_LOG_TAIL_MAX_CHARS_def)
  with bad show ?thesis by (simp add: append_script_log_tail_def Let_def flush_res_def)
qed

lemma mark_dispatched_Inr:
  "mark_script_dispatched row lab now ac s = Inr (row', s') \<Longrightarrow>
     r_status row = Active \<and> r_script_status row = None
     \<and> row' = row\<lparr>r_script_status := Some S_Running, r_script_dispatch_started_at := Some now\<rparr> \<and> writes_row row' s s'"
  by (auto simp: mark_script_dispatched_def Let_def rbind_eq_Inr split: if_splits option.splits
      intro!: writes_row_intros dest: writes_row_flush)

lemma mark_dispatched_row:
  assumes "r_script_status row = None" and "r_script row \<noteq> None"
  shows "row_evolves row (row\<lparr>r_script_status := Some S_Running, r_script_dispatch_started_at := Some now\<rparr>)"
    "no_new_claim row (row\<lparr>r_script_status := Some S_Running, r_script_dispatch_started_at := Some now\<rparr>)"
  using assms
  by (auto simp: row_evolves_def frozen_once_started_def dispatch_has_script_def script_step_def intro!: r_into_rtranclp same_status_claim)

lemma mark_dispatched_total:
  "res_row_ok row \<Longrightarrow> r_status row = Active \<Longrightarrow> r_script_status row = None \<Longrightarrow>
   \<exists>s'. mark_script_dispatched row lab now ac s =
     Inr (row\<lparr>r_script_status := Some S_Running, r_script_dispatch_started_at := Some now\<rparr>, s')"
  by (simp add: mark_script_dispatched_def Let_def flush_res_def)

section \<open>Cancelling a group\<close>

lemma fold_row_put:
  assumes "distinct (map key ys)"
  shows "fold (row_put key) ys rs = map (\<lambda>x. case row_by key (key x) ys of Some y \<Rightarrow> y | None \<Rightarrow> x) rs"
  using assms
proof (induction ys arbitrary: rs)
  case Nil
  then show ?case by (simp add: row_by_def)
next
  case (Cons y ys)
  then have nk: "row_by key (key y) ys = None" by (simp add: row_by_None)
  from Cons have "fold (row_put key) (y # ys) rs =
      map (\<lambda>x. case row_by key (key x) ys of Some y \<Rightarrow> y | None \<Rightarrow> x) (row_put key y rs)" by simp
  also have "\<dots> = map (\<lambda>x. case row_by key (key x) (y # ys) of Some y \<Rightarrow> y | None \<Rightarrow> x) rs"
    unfolding row_put_def map_map using nk by (intro map_cong) (auto simp: row_by_def)
  finally show ?case .
qed

lemma row_by_map_filter:
  assumes "distinct (map key rs)" and "x \<in> set rs" and "\<And>r. key (f r) = key r"
  shows "row_by key (key x) (map f (filter P rs)) = (if P x then Some (f x) else None)"
proof -
  have "distinct (map key (map f (filter P rs)))"
    using assms(1,3) by (simp add: distinct_map_filter o_def)
  then have "row_by key (key x) (map f (filter P rs)) = Some (f x)" if "P x"
    using that assms by (subst row_by_iff) auto
  moreover have "row_by key (key x) (map f (filter P rs)) = None" if "\<not> P x"
    using that assms unfolding row_by_None by (auto simp: image_iff distinct_map inj_on_def)
  ultimately show ?thesis by simp
qed

lemma flush_all_Inr:
  "flush_all rows s = Inr s' \<Longrightarrow> reservations s' = fold (row_put r_id) rows (reservations s)
     \<and> same_tables s s' \<and> list_all res_row_ok rows \<and> (rows \<noteq> [] \<longrightarrow> s_dirty s' = None)"
proof (induction rows arbitrary: s)
  case (Cons r rows)
  from Cons.prems obtain s1 where s1: "flush_res r s = Inr s1" and rest: "flush_all rows s1 = Inr s'"
    by (auto simp: rbind_eq_Inr)
  from s1 have "writes_row r s s1" by (rule writes_row_flush)
  then show ?case using Cons.IH[OF rest] rest
    by (auto simp: writes_row_def intro: same_tables_trans)
qed simp

lemma push_rows_sel [row_simps]:
    "s_db (push_rows rs c s) = s_db s" "s_dirty (push_rows rs c s) = s_dirty s"
    "s_clock (push_rows rs c s) = s_clock s" "reservations (push_rows rs c s) = reservations s"
  by (induction rs c s rule: push_rows.induct) (simp_all add: row_simps)

definition in_group :: "string \<Rightarrow> reservation \<Rightarrow> bool" where
  "in_group gid r \<longleftrightarrow> r_group_id r = Some gid \<and> active_status (r_status r)"

text \<open>The group operation is the row operation on every row of the group at once.\<close>

lemma cancel_group_Inr:
  assumes c: "cancel_group gid actor can_admin reason lab ctx s = (Inr rows', s')"
    and wf: "db_wf (s_db s)"
  shows "reservations s' = map (\<lambda>r. if in_group gid r then cancelled_row (s_clock s) actor reason r else r) (reservations s)
     \<and> rows' = map (cancelled_row (s_clock s) actor reason) (filter (in_group gid) (reservations s))
     \<and> rows' \<noteq> [] \<and> same_tables s s' \<and> (\<forall>r \<in> set (reservations s). in_group gid r \<longrightarrow> \<not> script_running_row r)
     \<and> (can_admin \<or> r_user_id (hd rows') = actor)"
proof -
  let ?f = "cancelled_row (s_clock s) actor reason"
  have g: "group_rows s gid = filter (in_group gid) (reservations s)"
    by (simp add: group_rows_def in_group_def cong: filter_cong)
  from c obtain s1 where rows: "group_rows s gid \<noteq> []" "rows' = map ?f (group_rows s gid)"
      "can_admin \<or> r_user_id (hd (group_rows s gid)) = actor"
      "filter script_running_row (group_rows s gid) = []"
    and s1: "flush_all rows' s = Inr s1"
    and s': "s' = push_rows rows' ChangeCancelled
        (audit_write (cancel_group_audit gid actor can_admin reason lab ctx rows') s1)"
    by (auto simp: cancel_group_def Let_def split: list.splits if_splits sum.splits)
  have d: "distinct (map r_id (reservations s))" using wf by (simp add: db_wf_def reservations_def)
  have "reservations s' = fold (row_put r_id) rows' (reservations s)"
    using flush_all_Inr[OF s1] by (simp add: s' row_simps)
  also have "\<dots> = map (\<lambda>r. if in_group gid r then ?f r else r) (reservations s)"
  proof (subst fold_row_put)
    show "distinct (map r_id rows')"
      unfolding rows(2) g using d by (simp add: distinct_map_filter o_def)
    show "map (\<lambda>x. case row_by r_id (r_id x) rows' of None \<Rightarrow> x | Some y \<Rightarrow> y) (reservations s) =
      map (\<lambda>r. if in_group gid r then ?f r else r) (reservations s)"
      unfolding rows(2) g by (intro map_cong) (simp_all add: row_by_map_filter[OF d])
  qed
  finally have res: "reservations s' = map (\<lambda>r. if in_group gid r then ?f r else r) (reservations s)" .
  moreover have "same_tables s s'"
    using flush_all_Inr[OF s1] by (auto simp: s' same_tables_def row_simps prefix_def)
  moreover have "r_user_id (hd rows') = r_user_id (hd (group_rows s gid))"
    using rows(1,2) by (simp add: hd_map)
  ultimately show ?thesis using rows unfolding g by (auto simp: filter_empty_conv)
qed

lemma cancel_group_Inl:
  "cancel_group gid actor can_admin reason lab ctx s = (Inl e, s') \<Longrightarrow> s' = s"
  by (auto simp: cancel_group_def Let_def split: list.splits if_splits sum.splits)

text \<open>All rows replaced at once by legal successors that claim nothing new.\<close>

lemma map_rows_ok:
  assumes ok: "db_ok (s_db s)" and st: "same_tables s s'" and res: "reservations s' = map f (reservations s)"
    and f: "\<And>r. r \<in> set (reservations s) \<Longrightarrow> row_evolves r (f r) \<and> no_new_claim r (f r) \<and> res_row_ok (f r)"
  shows "db_ok (s_db s')" "evolves (s_db s) (s_db s')"
proof -
  from ok have wf: "db_wf (s_db s)" by (simp add: db_ok_def)
  have dres: "d_reservations (s_db s') = map f (d_reservations (s_db s))"
    using res by (simp add: reservations_def)
  have f': "row_evolves r (f r)" "no_new_claim r (f r)" "res_row_ok (f r)" "r_id (f r) = r_id r"
    if "r \<in> set (d_reservations (s_db s))" for r
    using f[of r] that by (auto simp: reservations_def row_evolves_def)
  then have ids: "map r_id (map f (d_reservations (s_db s))) = map r_id (d_reservations (s_db s))" by simp
  have "db_wf (s_db s')"
    using wf st f' unfolding db_wf_def dres ids by (auto simp: same_tables_def)
  moreover have "\<forall>r \<in> set (d_reservations (s_db s')). dispatch_has_script r"
    using ok f'(1) by (auto simp: dres db_ok_def row_evolves_def)
  ultimately show "db_ok (s_db s')" by (simp add: db_ok_def)
  have "slot_ok (gpu_total (s_db s) g) (live_on (map f (d_reservations (s_db s))) g t)"
    if "capacity_ok (s_db s)" for g t
  proof (rule slot_ok_map)
    fix r assume "r \<in> set (d_reservations (s_db s))"
    then show "amounts_ok r" "no_new_claim r (f r)"
      using wf f' by (auto simp: db_wf_def intro: res_row_ok_amounts)
  qed (use that in \<open>simp add: capacity_ok_def\<close>)
  then show "evolves (s_db s) (s_db s')"
    using f st by (auto simp: evolves_def develops_def table_evolves_def dres capacity_ok_def gpu_total_def same_tables_def
        reservations_def)
qed

lemma cancel_group_ok:
  assumes c: "cancel_group gid actor can_admin reason lab ctx s = (Inr rows', s')" and ok: "db_ok (s_db s)"
  shows "db_ok (s_db s')" "evolves (s_db s) (s_db s')"
proof -
  let ?g = "\<lambda>r. if in_group gid r then cancelled_row (s_clock s) actor reason r else r"
  from ok have wf: "db_wf (s_db s)" by (simp add: db_ok_def)
  have g: "row_evolves r (?g r) \<and> no_new_claim r (?g r) \<and> res_row_ok (?g r)" if "r \<in> set (reservations s)" for r
    using that wf
    by (auto simp: in_group_def db_wf_def reservations_def intro: cancelled_row_evolves cancelled_row_claim)
  note frame = cancel_group_Inr[OF c wf]
  show "db_ok (s_db s')" "evolves (s_db s) (s_db s')"
    by (rule map_rows_ok[OF ok, of s' ?g]; use frame g in blast)+
qed

end
