(* ===== verification/Scheduler_Props.thy ===== *)
theory Scheduler_Props
  imports Scheduler Lifecycle_Props
begin

text \<open>
  The tick as a function on rows. The locale \<open>row_loop\<close> is the contract between a loop of the
  scheduler and its body: the body replaces the row it is given by \<open>f row\<close> and changes nothing
  the other iterations read. Its four interpretations give one equation per phase, and the tick
  is their composition (\<open>tick_row\<close>), which never fails on a well-formed database.
\<close>

section \<open>What a tick leaves alone\<close>

text \<open>The audit rows the watchdog reads.\<close>

definition script_trail :: "session \<Rightarrow> audit_entry list" where
  "script_trail s = filter (\<lambda>e. au_action e = ''reservation.script.dispatch_attempt_failed''
     \<or> au_action e = ''reservation.script.lifecycle.started'') (d_audit (s_db s))"

definition keeps :: "session \<Rightarrow> session \<Rightarrow> bool" where
  "keeps s s' \<longleftrightarrow> same_tables s s' \<and> script_trail s' = script_trail s
     \<and> (s_dirty s = None \<longrightarrow> s_dirty s' = None)"

lemma keeps_refl [simp]: "keeps s s"
  by (simp add: keeps_def)

lemma keeps_trans: "keeps s s' \<Longrightarrow> keeps s' s'' \<Longrightarrow> keeps s s''"
  by (auto simp: keeps_def intro: same_tables_trans)

lemma count_dispatch_failures_trail:
  "count_dispatch_failures s rid =
     length (filter (about_reservation ''reservation.script.dispatch_attempt_failed'' rid) (script_trail s))"
  by (auto simp: count_dispatch_failures_def script_trail_def about_reservation_def
      intro!: arg_cong[of _ _ length] filter_cong)

lemma lifecycle_started_trail:
  "lifecycle_started_seen s rid \<longleftrightarrow>
     length (filter (about_reservation ''reservation.script.lifecycle.started'' rid) (script_trail s)) > 0"
proof -
  have "filter (about_reservation ''reservation.script.lifecycle.started'' rid) (script_trail s) =
      filter (about_reservation ''reservation.script.lifecycle.started'' rid) (d_audit (s_db s))"
    by (auto simp: script_trail_def about_reservation_def intro!: filter_cong)
  then show ?thesis by (simp add: lifecycle_started_seen_def)
qed

lemma keeps_reads:
  assumes "keeps s s'"
  shows "server_lab_id s' i = server_lab_id s i" "linux_username_of s' l = linux_username_of s l"
    "count_dispatch_failures s' i = count_dispatch_failures s i"
    "lifecycle_started_seen s' i = lifecycle_started_seen s i" "s_clock s' = s_clock s"
  using assms
  by (simp_all add: keeps_def same_tables_def server_lab_id_def linux_username_of_def
      count_dispatch_failures_trail lifecycle_started_trail)

lemma script_trail_writers:
    "au_action e \<noteq> ''reservation.script.dispatch_attempt_failed'' \<Longrightarrow>
     au_action e \<noteq> ''reservation.script.lifecycle.started'' \<Longrightarrow> script_trail (audit_write e s) = script_trail s"
    "script_trail (create_notification u ty ti se bo pl ct s) = script_trail s"
    "script_trail (push_row row c s) = script_trail s"
    "script_trail (s_update_res r s) = script_trail s"
    "script_trail (s\<lparr>s_dirty := x\<rparr>) = script_trail s"
    "script_trail (write_transition_audit row a b tr ac lab ex ctx s) = script_trail s"
  by (simp_all add: script_trail_def row_simps write_transition_audit_def audit_of_def)

lemma transition_trail:
    "transition_to_active row lab tr ac now ctx s = Inr (row', s') \<Longrightarrow> script_trail s' = script_trail s"
    "transition_to_completed row lab tr ac now ctx s = Inr (row', s') \<Longrightarrow> script_trail s' = script_trail s"
    "transition_to_failed row lab re tr ac now ctx s = Inr (row', s') \<Longrightarrow> script_trail s' = script_trail s"
    "mark_script_dispatched row lab n ac s = Inr (row', s') \<Longrightarrow> script_trail s' = script_trail s"
    "flush_res row s = Inr s' \<Longrightarrow> script_trail s' = script_trail s"
  by (auto simp: transition_to_active_def transition_to_completed_def transition_to_failed_def
      mark_script_dispatched_def dispatched_audit_def audit_of_def
      rbind_eq_Inr Let_def flush_res_Inr script_trail_writers split: if_splits option.splits)

section \<open>The loop contract\<close>

locale row_loop =
  fixes s0 :: session
    and P :: "reservation \<Rightarrow> bool"
    and f :: "reservation \<Rightarrow> reservation"
    and upd :: "reservation \<Rightarrow> 'a \<Rightarrow> 'a"
    and step :: "reservation \<Rightarrow> 'a \<times> session \<Rightarrow> res_error + ('a \<times> session)"
  assumes same_key: "r_id (f r) = r_id r"
    and step_ok: "keeps s0 s \<Longrightarrow> P r \<Longrightarrow> res_row_ok r \<Longrightarrow> dispatch_has_script r \<Longrightarrow>
        \<exists>s'. step r (a, s) = Inr (upd r a, s') \<and> keeps s s'
          \<and> (reservations s' = row_put r_id (f r) (reservations s) \<or> f r = r \<and> reservations s' = reservations s)"
begin

lemma loop_runs:
  assumes "keeps s0 s" and "distinct (map r_id (reservations s))"
    and "\<And>r. r \<in> set rs \<Longrightarrow> P r \<and> res_row_ok r \<and> dispatch_has_script r \<and> r \<in> set (reservations s)" and "distinct (map r_id rs)"
  shows "\<exists>s'. for_rows step rs (a, s) = Inr (fold upd rs a, s') \<and> keeps s s'
    \<and> reservations s' = fold (row_put r_id) (map f rs) (reservations s)"
  using assms
proof (induction rs arbitrary: a s)
  case (Cons r rs)
  from Cons.prems step_ok obtain s1 where s1: "step r (a, s) = Inr (upd r a, s1)" "keeps s s1"
    "reservations s1 = row_put r_id (f r) (reservations s) \<or> f r = r \<and> reservations s1 = reservations s"
    by (metis list.set_intros(1))
  have "row_put r_id r (reservations s) = reservations s"
    using Cons.prems by (intro row_put_id) auto
  with s1(3) have res: "reservations s1 = row_put r_id (f r) (reservations s)" by auto
  have "\<exists>s'. for_rows step rs (upd r a, s1) = Inr (fold upd rs (upd r a), s') \<and> keeps s1 s'
      \<and> reservations s' = fold (row_put r_id) (map f rs) (reservations s1)"
  proof (rule Cons.IH)
    show "keeps s0 s1" using Cons.prems(1) s1(2) by (rule keeps_trans)
    show "distinct (map r_id (reservations s1))" using Cons.prems(2) by (simp add: res map_key_row_put)
    fix x assume x: "x \<in> set rs"
    then have "r_id x \<noteq> r_id (f r)" using Cons.prems(4) by (auto simp: same_key image_iff)
    then show "P x \<and> res_row_ok x \<and> dispatch_has_script x \<and> x \<in> set (reservations s1)"
      using Cons.prems(3) x by (auto simp: res intro: row_put_other)
  qed (use Cons.prems in auto)
  then obtain s' where "for_rows step rs (upd r a, s1) = Inr (fold upd rs (upd r a), s')" "keeps s1 s'"
    "reservations s' = fold (row_put r_id) (map f rs) (reservations s1)" by blast
  with s1 res show ?case by (auto intro: keeps_trans)
qed simp

text \<open>The whole phase: the rows of the query are mapped, the others stay.\<close>

lemma phase:
  assumes "keeps s0 s" and ok: "db_ok (s_db s)"
  shows "\<exists>s'. for_rows step (filter P (reservations s)) (a, s) = Inr (fold upd (filter P (reservations s)) a, s')
    \<and> keeps s s' \<and> reservations s' = map (\<lambda>r. if P r then f r else r) (reservations s)"
proof -
  have d: "distinct (map r_id (reservations s))" using ok by (simp add: db_ok_def db_wf_def reservations_def)
  have "fold (row_put r_id) (map f (filter P (reservations s))) (reservations s) =
      map (\<lambda>r. if P r then f r else r) (reservations s)"
  proof (subst fold_row_put)
    show "distinct (map r_id (map f (filter P (reservations s))))"
      using d by (simp add: distinct_map_filter o_def same_key)
    show "map (\<lambda>x. case row_by r_id (r_id x) (map f (filter P (reservations s))) of None \<Rightarrow> x | Some y \<Rightarrow> y)
      (reservations s) = map (\<lambda>r. if P r then f r else r) (reservations s)"
      by (intro map_cong) (simp_all add: row_by_map_filter[OF d] same_key)
  qed
  moreover have "\<exists>s'. for_rows step (filter P (reservations s)) (a, s) =
      Inr (fold upd (filter P (reservations s)) a, s') \<and> keeps s s'
      \<and> reservations s' = fold (row_put r_id) (map f (filter P (reservations s))) (reservations s)"
    by (rule loop_runs) (use assms d in \<open>auto simp: distinct_map_filter db_ok_def db_wf_def reservations_def\<close>)
  ultimately show ?thesis by metis
qed

end


section \<open>The four phases\<close>

text \<open>The row each phase leaves, as a function of the tables the tick does not change.\<close>

definition known_server :: "session \<Rightarrow> reservation \<Rightarrow> bool" where
  "known_server s r \<longleftrightarrow> server_lab_id s (r_server_id r) \<noteq> None"

definition promoted_row :: "session \<Rightarrow> reservation \<Rightarrow> reservation" where
  "promoted_row s r = (if known_server s r then r\<lparr>r_status := Active\<rparr> else r)"

definition closed_row :: "session \<Rightarrow> reservation \<Rightarrow> reservation" where
  "closed_row s r = (if \<not> known_server s r then r
     else if script_bad r then failed_row (script_reason r) r else r\<lparr>r_status := Completed\<rparr>)"

definition dispatchable :: "session \<Rightarrow> reservation \<Rightarrow> bool" where
  "dispatchable s r \<longleftrightarrow> known_server s r \<and> linux_username_of s (r_account_link_id r) \<noteq> None"

definition dispatched_row :: "session \<Rightarrow> int \<Rightarrow> reservation \<Rightarrow> reservation" where
  "dispatched_row s now r = (if dispatchable s r
     then r\<lparr>r_script_status := Some S_Running, r_script_dispatch_started_at := Some now\<rparr> else r)"

definition watched_row :: "session \<Rightarrow> int \<Rightarrow> reservation \<Rightarrow> reservation" where
  "watched_row s now r = (if \<not> known_server s r then r
     else if lifecycle_started_seen s (r_id r) then r\<lparr>r_script_dispatch_started_at := None\<rparr>
     else if count_dispatch_failures s (r_id r) \<ge> WATCHDOG_MAX_DISPATCH_ATTEMPTS then failed_row giveup_reason r
     else if dispatchable s r then r\<lparr>r_script_dispatch_started_at := Some now\<rparr> else r)"

text \<open>The RPC a row asks for.\<close>

definition row_rpc :: "session \<Rightarrow> reservation \<Rightarrow> pending_rpc list" where
  "row_rpc s r = (case Option.bind (linux_username_of s (r_account_link_id r)) (build_execute_payload r) of
     None \<Rightarrow> [] | Some p \<Rightarrow> [(r_id r, r_server_id r, p)])"

lemma phase_rows_id [simp]: "r_id (promoted_row s r) = r_id r" "r_id (closed_row s r) = r_id r"
    "r_id (dispatched_row s now r) = r_id r" "r_id (watched_row s now r) = r_id r"
  by (simp_all add: promoted_row_def closed_row_def dispatched_row_def watched_row_def)

lemma phase_rows_server [simp]: "r_server_id (promoted_row s r) = r_server_id r" "r_server_id (closed_row s r) = r_server_id r"
    "r_server_id (dispatched_row s now r) = r_server_id r" "r_server_id (watched_row s now r) = r_server_id r"
  by (simp_all add: promoted_row_def closed_row_def dispatched_row_def watched_row_def failed_row_def)

lemma writes_keeps: "writes_row r s s' \<Longrightarrow> script_trail s' = script_trail s \<Longrightarrow> keeps s s'"
  by (simp add: keeps_def writes_row_def)

text \<open>The two ways a body meets the contract.\<close>

lemma step_skipped: "x = Inr (a', s) \<Longrightarrow> fr = r \<Longrightarrow> \<exists>s'. x = Inr (a', s') \<and> keeps s s'
    \<and> (reservations s' = row_put r_id fr (reservations s) \<or> fr = r \<and> reservations s' = reservations s)"
  by simp

lemma step_written: "x = Inr (a', s') \<Longrightarrow> writes_row fr s s' \<Longrightarrow> script_trail s' = script_trail s \<Longrightarrow>
    \<exists>s'. x = Inr (a', s') \<and> keeps s s'
    \<and> (reservations s' = row_put r_id fr (reservations s) \<or> fr = r \<and> reservations s' = reservations s)"
  using writes_keeps[of fr s s'] by (auto simp: writes_row_def)

definition count_if :: "bool \<Rightarrow> nat \<Rightarrow> nat" where
  "count_if b n = (if b then n + 1 else n)"

interpretation promote: row_loop s0 "due_scheduled now" "promoted_row s0" "\<lambda>r. count_if (known_server s0 r)"
    "promote_step now" for s0 now
proof
  fix r s a assume k: "keeps s0 s" "due_scheduled now r" "res_row_ok r"
  show "\<exists>s'. promote_step now r (a, s) = Inr (count_if (known_server s0 r) a, s') \<and> keeps s s'
     \<and> (reservations s' = row_put r_id (promoted_row s0 r) (reservations s)
        \<or> promoted_row s0 r = r \<and> reservations s' = reservations s)"
  proof (cases "server_lab_id s0 (r_server_id r)")
    case None
    with k show ?thesis
      by (intro step_skipped) (simp_all add: promote_step_def keeps_reads promoted_row_def known_server_def count_if_def)
  next
    case (Some lab)
    have "r_status r = Scheduled" using k(2) by (simp add: due_scheduled_def)
    then obtain s' where s': "transition_to_active r lab ''scheduler_start_at'' None (Some now) no_ctx s
        = Inr (r\<lparr>r_status := Active\<rparr>, s')"
      using transition_total(1)[OF k(3)] by blast
    from transition_to_active_Inr[OF s'] transition_trail(1)[OF s'] Some k s' show ?thesis
      by (intro step_written[of _ _ s'])
        (simp_all add: promote_step_def keeps_reads promoted_row_def known_server_def count_if_def)
  qed
qed simp

definition close_counts :: "session \<Rightarrow> reservation \<Rightarrow> nat \<times> nat \<Rightarrow> nat \<times> nat" where
  "close_counts s r c = (if \<not> known_server s r then c
     else if script_bad r then (fst c, snd c + 1) else (fst c + 1, snd c))"

interpretation close: row_loop s0 "due_active now" "closed_row s0" "close_counts s0" "close_step now" for s0 now
proof
  fix r s and a :: "nat \<times> nat" assume k: "keeps s0 s" "due_active now r" "res_row_ok r"
  obtain c fl where a: "a = (c, fl)" by (cases a)
  have act: "r_status r = Active" using k(2) by (simp add: due_active_def)
  show "\<exists>s'. close_step now r (a, s) = Inr (close_counts s0 r a, s') \<and> keeps s s'
     \<and> (reservations s' = row_put r_id (closed_row s0 r) (reservations s)
        \<or> closed_row s0 r = r \<and> reservations s' = reservations s)"
  proof (cases "server_lab_id s0 (r_server_id r)")
    case None
    with k show ?thesis
      by (intro step_skipped) (simp_all add: a close_step_def keeps_reads closed_row_def known_server_def close_counts_def)
  next
    case (Some lab)
    obtain s1 where s1: "transition_to_failed r lab (script_reason r) ''scheduler_end_at'' None (Some now) no_ctx s
        = Inr (failed_row (script_reason r) r, s1)"
      using transition_total(3)[OF k(3) act] by blast
    obtain s2 where s2: "transition_to_completed r lab ''scheduler_end_at'' None (Some now) no_ctx s
        = Inr (r\<lparr>r_status := Completed\<rparr>, s2)"
      using transition_total(2)[OF k(3) act] by blast
    show ?thesis
    proof (cases "script_bad r")
      case True
      with transition_to_failed_Inr[OF s1] transition_trail(3)[OF s1] s1 Some k show ?thesis
        by (intro step_written[of _ _ s1])
          (simp_all add: a close_step_def keeps_reads closed_row_def known_server_def close_counts_def)
    next
      case False
      with transition_to_completed_Inr[OF s2] transition_trail(2)[OF s2] s2 Some k show ?thesis
        by (intro step_written[of _ _ s2])
          (simp_all add: a close_step_def keeps_reads closed_row_def known_server_def close_counts_def)
    qed
  qed
qed simp

definition add_rpc :: "session \<Rightarrow> reservation \<Rightarrow> pending_rpc list \<Rightarrow> pending_rpc list" where
  "add_rpc s r pending = (if dispatchable s r then pending @ row_rpc s r else pending)"

interpretation dispatch: row_loop s0 "due_script now" "dispatched_row s0 now" "add_rpc s0" "dispatch_step now" for s0 now
proof
  fix r s and a :: "pending_rpc list" assume k: "keeps s0 s" "due_script now r" "res_row_ok r"
  from k(2) have st: "r_status r = Active" "r_script_status r = None" "r_script r \<noteq> None"
    by (simp_all add: due_script_def)
  show "\<exists>s'. dispatch_step now r (a, s) = Inr (add_rpc s0 r a, s') \<and> keeps s s'
     \<and> (reservations s' = row_put r_id (dispatched_row s0 now r) (reservations s)
        \<or> dispatched_row s0 now r = r \<and> reservations s' = reservations s)"
  proof (cases "dispatchable s0 r")
    case False
    then have "dispatch_step now r (a, s) = Inr (a, s)"
      using k(1) by (auto simp: dispatch_step_def keeps_reads known_server_def dispatchable_def split: option.split)
    with False show ?thesis by (intro step_skipped) (simp_all add: dispatched_row_def add_rpc_def)
  next
    case True
    then obtain lab user where lu: "server_lab_id s0 (r_server_id r) = Some lab"
      "linux_username_of s0 (r_account_link_id r) = Some user"
      by (auto simp: dispatchable_def known_server_def)
    obtain s' where s': "mark_script_dispatched r lab now None s
        = Inr (r\<lparr>r_script_status := Some S_Running, r_script_dispatch_started_at := Some now\<rparr>, s')"
      using mark_dispatched_total[OF k(3) st(1,2)] by blast
    from st(3) obtain t where "r_script r = Some t" by blast
    then have "dispatch_step now r (a, s) = Inr (add_rpc s0 r a, s')"
      using lu k(1) s' True
      by (simp add: dispatch_step_def keeps_reads add_rpc_def row_rpc_def build_execute_payload_def)
    with mark_dispatched_Inr[OF s'] transition_trail(4)[OF s'] True show ?thesis
      by (intro step_written[of _ _ s']) (simp_all add: dispatched_row_def)
  qed
qed simp

definition watch_counts :: "session \<Rightarrow> reservation \<Rightarrow> watchdog_counts \<Rightarrow> watchdog_counts" where
  "watch_counts s r c = (if \<not> known_server s r then c
     else if lifecycle_started_seen s (r_id r) then c\<lparr>wc_cleared := wc_cleared c + 1\<rparr>
     else if count_dispatch_failures s (r_id r) \<ge> WATCHDOG_MAX_DISPATCH_ATTEMPTS
     then c\<lparr>wc_failed := wc_failed c + 1\<rparr>
     else if dispatchable s r
     then c\<lparr>wc_retried := wc_retried c + 1, wc_pending := wc_pending c @ row_rpc s r\<rparr> else c)"

lemma flush_row_ok: "res_row_ok r \<Longrightarrow> \<exists>s'. flush_res r s = Inr s'"
  by (simp add: flush_res_def)

interpretation watchdog: row_loop s0 "stuck_dispatch now" "watched_row s0 now" "watch_counts s0" "watchdog_step now"
    for s0 now
proof
  fix r s and a :: watchdog_counts
  assume k: "keeps s0 s" "stuck_dispatch now r" "res_row_ok r" "dispatch_has_script r"
  from k(2,4) obtain t where t: "r_script r = Some t" and st: "r_status r = Active"
    by (auto simp: stuck_dispatch_def dispatch_has_script_def split: option.splits)
  let ?goal = "\<exists>s'. watchdog_step now r (a, s) = Inr (watch_counts s0 r a, s') \<and> keeps s s'
     \<and> (reservations s' = row_put r_id (watched_row s0 now r) (reservations s)
        \<or> watched_row s0 now r = r \<and> reservations s' = reservations s)"
  show ?goal
  proof (cases "server_lab_id s0 (r_server_id r)")
    case None
    with k show ?thesis
      by (intro step_skipped) (simp_all add: watchdog_step_def keeps_reads watched_row_def known_server_def watch_counts_def)
  next
    case (Some lab)
    note base = watchdog_step_def keeps_reads[OF k(1)] watched_row_def known_server_def watch_counts_def Some
    obtain s1 where s1: "flush_res (r\<lparr>r_script_dispatch_started_at := None\<rparr>) s = Inr s1"
      using flush_row_ok[of "r\<lparr>r_script_dispatch_started_at := None\<rparr>" s] k(3) by auto
    obtain s2 where s2: "transition_to_failed r lab giveup_reason ''scheduler_watchdog_dispatch_giveup'' None
        (Some now) no_ctx s = Inr (failed_row giveup_reason r, s2)"
      using transition_total(3)[OF k(3) st] by blast
    obtain s3 where s3: "flush_res (r\<lparr>r_script_dispatch_started_at := Some now\<rparr>) s = Inr s3"
      using flush_row_ok[of "r\<lparr>r_script_dispatch_started_at := Some now\<rparr>" s] k(3) by auto
    note w1 = writes_row_flush[OF s1] transition_trail(5)[OF s1]
    note w2 = transition_to_failed_Inr[OF s2] transition_trail(3)[OF s2]
    have "au_action (retry_audit r lab n now) = ''reservation.script.dispatch_retry''" for n
      by (simp add: retry_audit_def audit_of_def)
    then have w3: "writes_row (r\<lparr>r_script_dispatch_started_at := Some now\<rparr>) s (audit_write (retry_audit r lab n now) s3)"
        "script_trail (audit_write (retry_audit r lab n now) s3) = script_trail s" for n
      using writes_row_flush[OF s3] transition_trail(5)[OF s3]
      by (simp_all add: writes_row_after script_trail_writers)
    consider "lifecycle_started_seen s0 (r_id r)"
      | "\<not> lifecycle_started_seen s0 (r_id r)"
        "count_dispatch_failures s0 (r_id r) \<ge> WATCHDOG_MAX_DISPATCH_ATTEMPTS"
      | "\<not> lifecycle_started_seen s0 (r_id r)"
        "\<not> count_dispatch_failures s0 (r_id r) \<ge> WATCHDOG_MAX_DISPATCH_ATTEMPTS" by blast
    then show ?thesis
    proof cases
      case 1
      with w1 s1 show ?thesis by (intro step_written[of _ _ s1]) (simp_all add: base)
    next
      case 2
      with w2 s2 show ?thesis by (intro step_written[of _ _ s2]) (simp_all add: base)
    next
      case 3
      show ?thesis
      proof (cases "linux_username_of s0 (r_account_link_id r)")
        case None
        with 3 show ?thesis by (intro step_skipped) (simp_all add: base dispatchable_def)
      next
        case u: (Some user)
        let ?n = "count_dispatch_failures s0 (r_id r)"
        have "watchdog_step now r (a, s) =
            Inr (watch_counts s0 r a, audit_write (retry_audit r lab ?n now) s3)"
          using 3 u s3 t by (simp add: base dispatchable_def row_rpc_def build_execute_payload_def)
        moreover have "watched_row s0 now r = r\<lparr>r_script_dispatch_started_at := Some now\<rparr>"
          using 3 u by (simp add: base dispatchable_def)
        ultimately show ?thesis using w3[of ?n]
          by (intro step_written[of _ _ "audit_write (retry_audit r lab ?n now) s3"]) simp_all
      qed
    qed
  qed
qed simp


section \<open>The tick\<close>

lemma phase_rows_legal:
  assumes "res_row_ok r"
  shows "due_scheduled now r \<Longrightarrow> row_evolves r (promoted_row s r) \<and> no_new_claim r (promoted_row s r) \<and> res_row_ok (promoted_row s r)"
    "due_active now r \<Longrightarrow> row_evolves r (closed_row s r) \<and> no_new_claim r (closed_row s r) \<and> res_row_ok (closed_row s r)"
    "due_script now r \<Longrightarrow> row_evolves r (dispatched_row s now r) \<and> no_new_claim r (dispatched_row s now r)
       \<and> res_row_ok (dispatched_row s now r)"
    "stuck_dispatch now r \<Longrightarrow> dispatch_has_script r \<Longrightarrow> row_evolves r (watched_row s now r)
       \<and> no_new_claim r (watched_row s now r) \<and> res_row_ok (watched_row s now r)"
  using assms mark_dispatched_row[of r now]
  by (auto simp: due_scheduled_def due_active_def due_script_def stuck_dispatch_def promoted_row_def closed_row_def
      dispatched_row_def watched_row_def scheduler_row_evolves scheduler_row_claim row_evolves_def[of r "_\<lparr>r_script_dispatch_started_at := _\<rparr>"]
      frozen_once_started_def dispatch_has_script_def intro!: same_status_claim split: option.splits)

definition tick_row :: "session \<Rightarrow> int \<Rightarrow> reservation \<Rightarrow> reservation" where
  "tick_row s now r =
    (let r1 = (if due_scheduled now r then promoted_row s r else r);
         r2 = (if due_active now r1 then closed_row s r1 else r1);
         r3 = (if due_script now r2 then dispatched_row s now r2 else r2)
     in if stuck_dispatch now r3 then watched_row s now r3 else r3)"

text \<open>The rows the dispatch phase sees.\<close>

definition settled_row :: "session \<Rightarrow> int \<Rightarrow> reservation \<Rightarrow> reservation" where
  "settled_row s now r = (let r1 = (if due_scheduled now r then promoted_row s r else r)
     in if due_active now r1 then closed_row s r1 else r1)"

lemma fold_add_rpc: "fold (add_rpc s) rs acc = acc @ concat (map (row_rpc s) (filter (dispatchable s) rs))"
  by (induction rs arbitrary: acc) (simp_all add: add_rpc_def)

lemma row_fun_cong:
  assumes "keeps s s'"
  shows "promoted_row s' = promoted_row s" "closed_row s' = closed_row s" "dispatched_row s' = dispatched_row s"
    "watched_row s' = watched_row s" "dispatchable s' = dispatchable s" "row_rpc s' = row_rpc s"
  using keeps_reads[OF assms]
  by (simp_all add: fun_eq_iff promoted_row_def closed_row_def dispatched_row_def watched_row_def known_server_def
      dispatchable_def row_rpc_def)

lemma phase_ok:
  assumes ok: "db_ok (s_db s)" and k: "keeps s s'"
    and res: "reservations s' = map (\<lambda>r. if P r then f r else r) (reservations s)"
    and f: "\<And>r. P r \<Longrightarrow> res_row_ok r \<Longrightarrow> dispatch_has_script r \<Longrightarrow> row_evolves r (f r) \<and> no_new_claim r (f r) \<and> res_row_ok (f r)"
  shows "db_ok (s_db s') \<and> evolves (s_db s) (s_db s')"
proof -
  have "row_evolves r (if P r then f r else r) \<and> no_new_claim r (if P r then f r else r)
      \<and> res_row_ok (if P r then f r else r)" if "r \<in> set (reservations s)" for r
    using f[of r] ok that by (auto simp: db_ok_def db_wf_def reservations_def)
  with map_rows_ok[OF ok _ res] k show ?thesis by (simp add: keeps_def)
qed

lemma tick_body_runs:
  assumes ok: "db_ok (s_db s)" and now: "now = s_clock s"
  shows "\<exists>(c :: watchdog_counts) s'. tick_body s = Inr ((concat (map (row_rpc s)
      (filter (\<lambda>r. due_script now r \<and> dispatchable s r) (map (settled_row s now) (reservations s)))), wc_pending c), s')
    \<and> reservations s' = map (tick_row s now) (reservations s) \<and> keeps s s' \<and> db_ok (s_db s')
    \<and> evolves (s_db s) (s_db s')"
proof -
  obtain n s1 where s1: "promote_due_scheduled now s = Inr (n, s1)" "keeps s s1"
    "reservations s1 = map (\<lambda>r. if due_scheduled now r then promoted_row s r else r) (reservations s)"
    using promote.phase[OF keeps_refl ok, of now 0] unfolding promote_due_scheduled_def by blast
  have ok1: "db_ok (s_db s1) \<and> evolves (s_db s) (s_db s1)"
    by (rule phase_ok[OF ok s1(2,3)]) (rule phase_rows_legal(1))
  obtain c s2 where s2: "close_due_active now s1 = Inr (c, s2)" "keeps s1 s2"
    "reservations s2 = map (\<lambda>r. if due_active now r then closed_row s r else r) (reservations s1)"
    using close.phase[OF s1(2), of now "(0, 0)"] ok1 unfolding close_due_active_def by blast
  have ok2: "db_ok (s_db s2) \<and> evolves (s_db s1) (s_db s2)"
    by (rule phase_ok[OF conjunct1[OF ok1] s2(2,3)]) (rule phase_rows_legal(2))
  have k2: "keeps s s2" by (rule keeps_trans[OF s1(2) s2(2)])
  obtain s3 where s3: "dispatch_due_scripts now s2 =
      Inr (fold (add_rpc s) (filter (due_script now) (reservations s2)) [], s3)" "keeps s2 s3"
    "reservations s3 = map (\<lambda>r. if due_script now r then dispatched_row s now r else r) (reservations s2)"
    using dispatch.phase[OF k2, of now "[]"] ok2 unfolding dispatch_due_scripts_def by blast
  have ok3: "db_ok (s_db s3) \<and> evolves (s_db s2) (s_db s3)"
    by (rule phase_ok[OF conjunct1[OF ok2] s3(2,3)]) (rule phase_rows_legal(3))
  have k3: "keeps s s3" by (rule keeps_trans[OF k2 s3(2)])
  obtain w s4 where s4: "retry_stuck_dispatches now s3 = Inr (w, s4)" "keeps s3 s4"
    "reservations s4 = map (\<lambda>r. if stuck_dispatch now r then watched_row s now r else r) (reservations s3)"
    using watchdog.phase[OF k3, of now] ok3 unfolding retry_stuck_dispatches_def by blast
  have ok4: "db_ok (s_db s4) \<and> evolves (s_db s3) (s_db s4)"
    by (rule phase_ok[OF conjunct1[OF ok3] s4(2,3)]) (rule phase_rows_legal(4))
  have "reservations s2 = map (settled_row s now) (reservations s)"
    by (simp add: s1(3) s2(3) settled_row_def Let_def)
  then have pd: "fold (add_rpc s) (filter (due_script now) (reservations s2)) [] =
      concat (map (row_rpc s) (filter (\<lambda>r. due_script now r \<and> dispatchable s r) (map (settled_row s now) (reservations s))))"
    by (simp add: fold_add_rpc filter_filter conj_commute)
  have "tick_body s = Inr ((fold (add_rpc s) (filter (due_script now) (reservations s2)) [], wc_pending w), s4)"
    using s1(1) s2(1) s3(1) s4(1) by (simp add: tick_body_def now)
  moreover have "reservations s4 = map (tick_row s now) (reservations s)"
    by (simp add: s1(3) s2(3) s3(3) s4(3) tick_row_def Let_def)
  moreover have "keeps s s4" by (rule keeps_trans[OF k3 s4(2)])
  moreover have "evolves (s_db s) (s_db s4)"
    using ok1 ok2 ok3 ok4 by (blast intro: evolves_trans)
  ultimately show ?thesis using ok4 unfolding pd by (intro exI[of _ w] exI[of _ s4]) simp
qed

text \<open>A scheduled row whose whole window has passed is closed in the same tick; its script never ran.\<close>

lemma tick_row_missed:
  assumes "known_server s r" "r_status r = Scheduled" "r_start_at r \<le> now" "r_end_at r \<le> now" "r_script_status r = None"
  shows "r_status (tick_row s now r) = Completed \<and> r_script_status (tick_row s now r) = None"
  using assms
  by (simp add: tick_row_def Let_def due_scheduled_def due_active_def promoted_row_def closed_row_def script_bad_def
      due_script_def stuck_dispatch_def known_server_def)

section \<open>No script is dispatched twice\<close>

lemma settled_row_script [simp]: "r_script_status (settled_row s now r) = r_script_status r"
    "r_id (settled_row s now r) = r_id r"
  by (simp_all add: settled_row_def Let_def promoted_row_def closed_row_def failed_row_def)

lemma tick_row_alt: "tick_row s now r = (let r3 = (if due_script now (settled_row s now r)
      then dispatched_row s now (settled_row s now r) else settled_row s now r)
    in if stuck_dispatch now r3 then watched_row s now r3 else r3)"
  by (simp add: tick_row_def settled_row_def Let_def)

lemma tick_row_id [simp]: "r_id (tick_row s now r) = r_id r" "r_server_id (tick_row s now r) = r_server_id r"
  by (simp_all add: tick_row_def Let_def)

lemma settled_not_due: "known_server s r \<Longrightarrow>
    \<not> due_scheduled now (settled_row s now r) \<and> \<not> due_active now (settled_row s now r)"
  by (simp add: settled_row_def Let_def due_scheduled_def due_active_def promoted_row_def closed_row_def
      known_server_def failed_row_def del: not_None_eq)

lemma dispatched_row_due [simp]: "due_scheduled now (dispatched_row s n r) = due_scheduled now r"
    "due_active now (dispatched_row s n r) = due_active now r"
  by (simp_all add: dispatched_row_def due_scheduled_def due_active_def)

lemma watched_row_due: "\<not> due_active now r \<Longrightarrow> \<not> due_active now (watched_row s n r)"
    "\<not> due_scheduled now r \<Longrightarrow> \<not> due_scheduled now (watched_row s n r)"
  by (simp_all add: watched_row_def due_scheduled_def due_active_def)

text \<open>A tick leaves no due row of a known server behind.\<close>

lemma tick_row_settled:
  assumes "known_server s r"
  shows "\<not> due_scheduled now (tick_row s now r) \<and> \<not> due_active now (tick_row s now r)"
  using settled_not_due[OF assms, of now] by (simp add: tick_row_alt Let_def watched_row_due)

lemma dispatched_now_running:
  assumes "due_script now (settled_row s now r)" "dispatchable s (settled_row s now r)"
  shows "r_script_status (tick_row s now r) = Some S_Running \<and> r_script_dispatch_started_at (tick_row s now r) = Some now"
  using assms
  by (simp add: tick_row_alt Let_def dispatched_row_def stuck_dispatch_def WATCHDOG_STUCK_SECONDS_def seconds_def)

lemma row_rpc_id: "x \<in> set (row_rpc s r) \<Longrightarrow> fst x = r_id r"
  by (auto simp: row_rpc_def split: option.splits)

lemma script_never_reset: "script_step\<^sup>*\<^sup>* a b \<Longrightarrow> a \<noteq> None \<Longrightarrow> b \<noteq> None"
  using script_life.steps_up[of a b] by (cases a rule: script_rank.cases; cases b) auto

lemma dispatched_once:
  assumes ok: "db_ok (s_db s)" and t1: "tick_body s = Inr ((pd, pr), s1)"
    and later: "develops (s_db s1) (s_db s2)" and ok2: "db_ok (s_db s2)"
    and t2: "tick_body s2 = Inr ((pd2, pr2), s3)"
  shows "fst ` set pd \<inter> fst ` set pd2 = {}"
proof (rule equals0I)
  fix i assume "i \<in> fst ` set pd \<inter> fst ` set pd2"
  then have i: "i \<in> fst ` set pd" "i \<in> fst ` set pd2" by simp_all
  from tick_body_runs[OF ok refl] t1
  have pd: "pd = concat (map (row_rpc s) (filter (\<lambda>r. due_script (s_clock s) r \<and> dispatchable s r)
        (map (settled_row s (s_clock s)) (reservations s))))"
    and s1: "reservations s1 = map (tick_row s (s_clock s)) (reservations s)" by auto
  from tick_body_runs[OF ok2 refl] t2
  have pd2: "pd2 = concat (map (row_rpc s2) (filter (\<lambda>r. due_script (s_clock s2) r \<and> dispatchable s2 r)
        (map (settled_row s2 (s_clock s2)) (reservations s2))))" by auto
  from i(1) obtain r where r: "r \<in> set (reservations s)" "r_id r = i"
    "due_script (s_clock s) (settled_row s (s_clock s) r)" "dispatchable s (settled_row s (s_clock s) r)"
    unfolding pd by (auto dest!: row_rpc_id)
  from i(2) obtain r2 where r2: "r2 \<in> set (reservations s2)" "r_id r2 = i"
    "due_script (s_clock s2) (settled_row s2 (s_clock s2) r2)"
    unfolding pd2 by (auto dest!: row_rpc_id)
  from r(1) have "tick_row s (s_clock s) r \<in> set (reservations s1)" by (simp add: s1)
  with later obtain r' where r': "r' \<in> set (reservations s2)" "row_evolves (tick_row s (s_clock s) r) r'"
    unfolding develops_def table_evolves_def reservations_def by blast
  then have "r_id r' = i" using r(2) by (simp add: row_evolves_def)
  moreover have "distinct (map r_id (reservations s2))"
    using ok2 by (simp add: db_ok_def db_wf_def reservations_def)
  ultimately have "r' = r2" using r'(1) r2(1,2) by (auto simp: distinct_map inj_on_def)
  with r'(2) dispatched_now_running[OF r(3,4)] have "r_script_status r2 \<noteq> None"
    using script_never_reset by (auto simp: row_evolves_def)
  with r2(3) show False by (simp add: due_script_def)
qed

section \<open>The watchdog\<close>

lemma watchdog_gives_up:
  assumes "stuck_dispatch now r" "now < r_end_at r" "known_server s r" "\<not> lifecycle_started_seen s (r_id r)"
    "count_dispatch_failures s (r_id r) \<ge> WATCHDOG_MAX_DISPATCH_ATTEMPTS"
  shows "tick_row s now r = failed_row giveup_reason r"
  using assms
  by (auto simp: tick_row_def Let_def due_scheduled_def due_active_def due_script_def stuck_dispatch_def watched_row_def)

text \<open>
  Only failed attempts count: a dispatch the agent accepts without ever reporting a start is sent
  again at every pass, however often it was sent before.
\<close>

lemma watchdog_retries:
  assumes "stuck_dispatch now r" "now < r_end_at r" "dispatchable s r" "\<not> lifecycle_started_seen s (r_id r)"
    "count_dispatch_failures s (r_id r) < WATCHDOG_MAX_DISPATCH_ATTEMPTS"
  shows "tick_row s now r = r\<lparr>r_script_dispatch_started_at := Some now\<rparr>"
  using assms
  by (auto simp: tick_row_def Let_def due_scheduled_def due_active_def due_script_def stuck_dispatch_def watched_row_def
      dispatchable_def)

lemma dispatch_one_trail:
  "count_dispatch_failures (dispatch_one py_str rid sid out s) i = count_dispatch_failures s i
     + (if i = rid \<and> \<not> dispatch_accepted out \<and> out \<noteq> RpcOtherError then 1 else 0)"
  by (cases out) (auto simp: dispatch_one_def dispatch_accepted_def count_dispatch_failures_def
      record_dispatch_attempt_failed_def row_simps about_reservation_def dispatch_failed_audit_def audit_of_def)

lemma dispatch_one_frame: "reservations (dispatch_one py_str rid sid out s) = reservations s"
  by (auto simp: dispatch_one_def record_dispatch_attempt_failed_def row_simps split: rpc_outcome.splits)

section \<open>The deadlock retry\<close>

text \<open>The attempts, as the iterated run of the body; a deadlock is the only outcome that is retried.\<close>

definition nth_state :: "('st \<Rightarrow> (py_exc + 'a) \<times> 'st) \<Rightarrow> 'st \<Rightarrow> nat \<Rightarrow> 'st" where
  "nth_state coro st k = ((snd \<circ> coro) ^^ k) st"

definition deadlocked :: "py_exc + 'a \<Rightarrow> bool" where
  "deadlocked out \<longleftrightarrow> (case out of Inl (OperationalError msg) \<Rightarrow> is_deadlock msg | _ \<Rightarrow> False)"

lemma retry_loop_spec:
  assumes "k < m" and "\<And>j. j < k \<Longrightarrow> deadlocked (fst (coro (nth_state coro st j)))"
    and "\<not> deadlocked (fst (coro (nth_state coro st k))) \<or> k = m - 1" and "i \<le> k"
  shows "retry_loop coro m b [i..<m] (nth_state coro st i, map (\<lambda>j. b * 2 ^ j) [0..<i]) =
    (fst (coro (nth_state coro st k)), nth_state coro st (Suc k), map (\<lambda>j. b * 2 ^ j) [0..<k])"
  using assms(4)
proof (induction i rule: inc_induct)
  case base
  obtain out st' where c: "coro (nth_state coro st k) = (out, st')" by (cases "coro (nth_state coro st k)")
  then have st': "nth_state coro st (Suc k) = st'" by (simp add: nth_state_def)
  have "[k..<m] = k # [Suc k..<m]" using assms(1) by (simp add: upt_conv_Cons)
  with c assms(3) st' show ?case
    by (auto simp: deadlocked_def split: sum.splits py_exc.splits)
next
  case (step i)
  obtain out st' where c: "coro (nth_state coro st i) = (out, st')" by (cases "coro (nth_state coro st i)")
  then have st': "nth_state coro st (Suc i) = st'" by (simp add: nth_state_def)
  from assms(2)[of i] step c obtain msg where "out = Inl (OperationalError msg)" "is_deadlock msg"
    by (auto simp: deadlocked_def split: sum.splits py_exc.splits)
  moreover have "[i..<m] = i # [Suc i..<m]" "i \<noteq> m - 1" using assms(1) step by (auto simp: upt_conv_Cons)
  ultimately show ?case using step.IH c st' by simp
qed

lemma with_retry_spec:
  assumes "k < m" and "\<And>j. j < k \<Longrightarrow> deadlocked (fst (coro (nth_state coro st j)))"
    and "\<not> deadlocked (fst (coro (nth_state coro st k))) \<or> k = m - 1"
  shows "with_serializable_retry coro m b st =
    (fst (coro (nth_state coro st k)), nth_state coro st (Suc k), map (\<lambda>j. b * 2 ^ j) [0..<k])"
proof -
  have "retry_loop coro m b [0..<m] (nth_state coro st 0, map (\<lambda>j. b * 2 ^ j) [0..<0]) =
      (fst (coro (nth_state coro st k)), nth_state coro st (Suc k), map (\<lambda>j. b * 2 ^ j) [0..<k])"
    by (rule retry_loop_spec) (use assms in auto)
  then show ?thesis by (simp add: with_serializable_retry_def nth_state_def)
qed

lemma retry_index_exists:
  assumes "0 < m"
  shows "\<exists>k < m. (\<forall>j < k. deadlocked (fst (coro (nth_state coro st j))))
    \<and> (\<not> deadlocked (fst (coro (nth_state coro st k))) \<or> k = m - 1)"
proof (cases "\<exists>k < m. \<not> deadlocked (fst (coro (nth_state coro st k)))")
  case True
  then obtain k where k: "k < m" "\<not> deadlocked (fst (coro (nth_state coro st k)))" by blast
  let ?k = "LEAST k. \<not> deadlocked (fst (coro (nth_state coro st k)))"
  have "?k \<le> k" using k(2) by (rule Least_le)
  moreover have "\<not> deadlocked (fst (coro (nth_state coro st ?k)))" using k(2) by (rule LeastI)
  moreover have "\<And>j. j < ?k \<Longrightarrow> deadlocked (fst (coro (nth_state coro st j)))" using not_less_Least by blast
  ultimately show ?thesis using k(1) by (meson le_less_trans)
next
  case False
  moreover have "m - 1 < m" using assms by simp
  ultimately show ?thesis by (metis less_trans)
qed

text \<open>The number of sleeps is below the budget, and their total is below \<open>2 ^ m * b\<close>.\<close>

lemma sum_backoff: "sum_list (map (\<lambda>j. b * 2 ^ j) [0..<k]) = (b :: rat) * (2 ^ k - 1)"
  by (induction k) (simp_all add: algebra_simps)

end
