(* ===== verification/Script_Props.thy ===== *)
theory Script_Props
  imports Script_Lifecycle Scheduler_Props
begin

text \<open>
  What the script handlers guarantee: every event leaves a legal database and moves the script
  status along its machine; stale and unknown events change nothing; an acknowledged start takes
  the row away from the watchdog for good; a cancellation that waits for a kill never ends the
  reservation without the confirmation.
\<close>

section \<open>Two writes of one row\<close>

lemma row_put_twice: "key a = key b \<Longrightarrow> row_put key b (row_put key a rs) = row_put key b rs"
  by (simp add: row_put_def)

lemma writes_row_trans:
  "writes_row a s s1 \<Longrightarrow> writes_row b s1 s2 \<Longrightarrow> r_id a = r_id b \<Longrightarrow> writes_row b s s2"
  by (auto simp: writes_row_def row_put_twice intro: same_tables_trans)

lemma notify_keeps_row: "writes_row r s s' \<Longrightarrow> writes_row r s (notify_script_event row ty ti se bo ex s')"
  by (simp add: notify_script_event_def writes_row_after)

lemma notify_frame [row_simps]: "reservations (notify_script_event row ty ti se bo ex s) = reservations s"
    "d_audit (s_db (notify_script_event row ty ti se bo ex s)) = d_audit (s_db s)"
  by (simp_all add: notify_script_event_def row_simps)

lemma log_path_row_sel [simp]:
    "r_id (log_path_row p row) = r_id row" "r_status (log_path_row p row) = r_status row"
    "r_script_status (log_path_row p row) = r_script_status row"
    "r_script_dispatch_started_at (log_path_row p row) = r_script_dispatch_started_at row"
  by (simp_all add: log_path_row_def)

lemma varchar_col_empty: "\<not> str_truthy p \<Longrightarrow> varchar_col n p"
  by (cases p) (simp_all add: str_truthy_def varchar_col_def char_count_def)

lemma log_path_row_ok: "res_row_ok row \<Longrightarrow> res_row_ok (log_path_row p row) = varchar_col 255 p"
  by (simp add: log_path_row_def res_row_ok_reported varchar_col_empty)

lemma log_path_row_legal: "row_evolves r row \<Longrightarrow> row_evolves r (log_path_row p row)"
    "no_new_claim r row \<Longrightarrow> no_new_claim r (log_path_row p row)"
  by (simp_all add: log_path_row_def row_evolves_def frozen_once_started_def dispatch_has_script_def
      no_new_claim_def occupies_def)

lemma acked_row_sel [simp]:
    "r_id (acked_row p row) = r_id row" "r_status (acked_row p row) = r_status row"
    "r_script_status (acked_row p row) = r_script_status row"
    "r_script_dispatch_started_at (acked_row p row) = None"
  by (simp_all add: acked_row_def Let_def)

lemma acked_row_ok: "res_row_ok row \<Longrightarrow> res_row_ok (acked_row p row) = varchar_col 255 (ss_log_path p)"
  by (simp add: acked_row_def Let_def log_path_row_ok)

lemma acked_row_legal: "row_evolves row (acked_row p row)" "no_new_claim row (acked_row p row)"
  by (auto simp: acked_row_def Let_def log_path_row_def row_evolves_def frozen_once_started_def
      dispatch_has_script_def no_new_claim_def occupies_def)

lemma output_row_sel [simp]:
    "r_id (output_row p row) = r_id row" "r_status (output_row p row) = r_status row"
    "r_script_status (output_row p row) = r_script_status row"
    "r_script_exit_code (output_row p row) = r_script_exit_code row"
    "r_script_output_size_bytes (output_row p row)
       = (if sf_output_size_bytes p \<noteq> 0 then Some (sf_output_size_bytes p) else r_script_output_size_bytes row)"
  by (simp_all add: output_row_def log_path_row_def)

lemma output_row_ok: "res_row_ok row \<Longrightarrow>
    res_row_ok (output_row p row) \<longleftrightarrow> unsigned_int_col (Some (sf_output_size_bytes p)) \<and> varchar_col 255 (sf_log_path p)"
proof (cases "sf_output_size_bytes p = 0")
  case True
  then show "res_row_ok row \<Longrightarrow> ?thesis" by (simp add: output_row_def log_path_row_ok unsigned_int_col_def)
next
  case False
  assume ok: "res_row_ok row"
  let ?r = "row\<lparr>r_script_output_size_bytes := Some (sf_output_size_bytes p)\<rparr>"
  have row: "res_row_ok ?r \<longleftrightarrow> unsigned_int_col (Some (sf_output_size_bytes p))" by (rule res_row_ok_reported(5)[OF ok])
  have out: "output_row p row = log_path_row (sf_log_path p) ?r" using False by (simp add: output_row_def)
  show ?thesis
  proof (cases "res_row_ok ?r")
    case True
    with log_path_row_ok[OF True, of "sf_log_path p"] row show ?thesis by (simp add: out)
  next
    case bad: False
    have size: "r_script_output_size_bytes (log_path_row (sf_log_path p) ?r) = Some (sf_output_size_bytes p)"
      by (simp add: log_path_row_def)
    have big: "\<not> unsigned_int_col (Some (sf_output_size_bytes p))" using bad row by blast
    have "\<not> res_row_ok (log_path_row (sf_log_path p) ?r)"
    proof
      assume "res_row_ok (log_path_row (sf_log_path p) ?r)"
      then have "unsigned_int_col (r_script_output_size_bytes (log_path_row (sf_log_path p) ?r))" unfolding res_row_ok_def by blast
      with size big show False by simp
    qed
    with big show ?thesis by (simp add: out)
  qed
qed

lemma output_row_legal: "row_evolves r row \<Longrightarrow> row_evolves r (output_row p row)"
    "no_new_claim r row \<Longrightarrow> no_new_claim r (output_row p row)"
  by (simp_all add: output_row_def log_path_row_def row_evolves_def frozen_once_started_def dispatch_has_script_def
      no_new_claim_def occupies_def)

section \<open>One event, one legal row change\<close>

text \<open>Either nothing changed, or one existing row was replaced by a legal successor.\<close>

definition legal_change :: "session \<Rightarrow> session \<Rightarrow> int \<Rightarrow> bool" where
  "legal_change s s' rid \<longleftrightarrow> s' = s \<or> (\<exists>row row'. get_reservation s rid = Some row \<and> writes_row row' s s'
     \<and> r_id row' = rid \<and> row_evolves row row' \<and> no_new_claim row row')"

lemma legal_change_ok:
  assumes "legal_change s s' rid" and ok: "db_ok (s_db s)"
  shows "db_ok (s_db s') \<and> evolves (s_db s) (s_db s')"
  using assms writes_row_ok[of _ s s'] unfolding legal_change_def by auto

lemma get_reservation_id: "get_reservation s i = Some row \<Longrightarrow> r_id row = i"
  by (auto simp: get_reservation_def dest: row_by_Some)

lemma started_legal:
  assumes "on_script_started p lab s = Inr s'"
  shows "legal_change s s' (ss_reservation_id p)"
proof (cases "get_reservation s (ss_reservation_id p)")
  case None
  with assms show ?thesis by (simp add: on_script_started_def legal_change_def)
next
  case (Some row)
  note id = get_reservation_id[OF Some]
  consider "r_script_status row = Some S_Running" | "r_script_status row = None"
    | "r_script_status row \<noteq> Some S_Running" "r_script_status row \<noteq> None" by blast
  then show ?thesis
  proof cases
    case 1
    from assms Some 1 obtain s1 where s1: "flush_res (acked_row p row) s = Inr s1"
      and s': "s' = started_notification p (acked_row p row) (audit_write (started_audit p lab (acked_row p row)) s1)"
      by (auto simp: on_script_started_def Let_def rbind_eq_Inr)
    have "writes_row (acked_row p row) s s'"
      unfolding s' started_notification_def
      by (intro notify_keeps_row writes_row_after(1)) (rule writes_row_flush[OF s1])
    with Some id show ?thesis unfolding legal_change_def
      by (intro disjI2 exI[of _ row] exI[of _ "acked_row p row"]) (simp add: acked_row_legal)
  next
    case 2
    from assms Some 2 obtain row1 s1 s2 where
      u: "update_script_status row S_Running lab ''agent.script.started'' None (Some (dt_wall (ss_started_at p)))
            None None no_ctx s = Inr (row1, s1)"
      and s2: "(if str_truthy (ss_log_path p) then flush_res (log_path_row (ss_log_path p) row1) s1 else Inr s1) = Inr s2"
      and s': "s' = started_notification p (log_path_row (ss_log_path p) row1)
         (audit_write (started_audit p lab (log_path_row (ss_log_path p) row1)) s2)"
      by (auto simp: on_script_started_def Let_def rbind_eq_Inr)
    note u' = update_script_status_Inr[OF u]
    let ?r = "log_path_row (ss_log_path p) row1"
    have "writes_row ?r s s2"
    proof (cases "str_truthy (ss_log_path p)")
      case True
      with s2 have "writes_row ?r s1 s2" by (intro writes_row_flush) simp
      with u' show ?thesis by (auto intro: writes_row_trans)
    next
      case False
      then have "?r = row1" "s2 = s1" using s2 by (simp_all add: log_path_row_def)
      moreover from u' have "writes_row row1 s s1" by blast
      ultimately show ?thesis by (simp only:)
    qed
    then have "writes_row ?r s s'"
      unfolding s' started_notification_def by (intro notify_keeps_row writes_row_after(1))
    moreover have "row_evolves row ?r" "no_new_claim row ?r"
      using u' script_status_row_evolves script_status_row_claim by (auto intro!: log_path_row_legal)
    ultimately show ?thesis using Some id u' unfolding legal_change_def
      by (intro disjI2 exI[of _ row] exI[of _ ?r]) simp
  next
    case 3
    with assms Some show ?thesis by (simp add: on_script_started_def legal_change_def)
  qed
qed

lemma chunk_legal:
  assumes "on_script_output_chunk p s = Inr s'"
  shows "legal_change s s' (oc_reservation_id p)"
proof (cases "get_reservation s (oc_reservation_id p)")
  case None
  with assms show ?thesis by (simp add: on_script_output_chunk_def legal_change_def)
next
  case (Some row)
  with assms obtain row' where "append_script_log_tail row (oc_text p) SCRIPT_LOG_TAIL_MAX_CHARS s = Inr (row', s')"
    by (auto simp: on_script_output_chunk_def rbind_eq_Inr)
  from append_tail_Inr[OF this] Some show ?thesis
    unfolding legal_change_def using get_reservation_id[OF Some]
      tail_row_evolves[of row "oc_text p" SCRIPT_LOG_TAIL_MAX_CHARS]
      tail_row_claim[of row "oc_text p" SCRIPT_LOG_TAIL_MAX_CHARS]
    by (metis tail_row_sel(1))
qed

text \<open>The row of a finished script, and what becomes of the registry.\<close>

definition finished_row :: "script_finished_event \<Rightarrow> reservation \<Rightarrow> reservation" where
  "finished_row p row = output_row p
     (script_status_row (finished_status p) (sf_exit_code p) None (Some (dt_wall (sf_finished_at p))) row)"

definition kill_seen :: "script_finished_event \<Rightarrow> kill_registry \<Rightarrow> kill_registry" where
  "kill_seen p k = (if sf_killed_by_corelab p then signal_lifecycle_kill (sf_reservation_id p) k else k)"

lemma finished_row_sel [simp]:
    "r_id (finished_row p row) = r_id row" "r_status (finished_row p row) = r_status row"
    "r_script_status (finished_row p row) = Some (finished_status p)"
    "sf_exit_code p \<noteq> None \<Longrightarrow> r_script_exit_code (finished_row p row) = sf_exit_code p"
  by (auto simp: finished_row_def script_status_row_def finished_status_def Let_def)

lemma finished_row_legal:
  assumes "r_script_status row = Some S_Running"
  shows "row_evolves row (finished_row p row)" "no_new_claim row (finished_row p row)"
proof -
  have "finished_status p \<in> set (allowed_script_transitions (r_script_status row))"
    using assms by (simp add: finished_status_def)
  then show "row_evolves row (finished_row p row)" "no_new_claim row (finished_row p row)"
    unfolding finished_row_def using script_status_row_evolves script_status_row_claim
    by (auto intro!: output_row_legal)
qed

lemma finished_absent:
  "get_reservation s (sf_reservation_id p) = None \<Longrightarrow> on_script_finished p lab k s = Inr (k, s)"
  by (simp add: on_script_finished_def)

lemma finished_stale:
  "get_reservation s (sf_reservation_id p) = Some row \<Longrightarrow> r_script_status row \<noteq> Some S_Running \<Longrightarrow>
   on_script_finished p lab k s = Inr (kill_seen p k, s)"
  by (simp add: on_script_finished_def kill_seen_def Let_def)

lemma finished_running:
  assumes row: "get_reservation s (sf_reservation_id p) = Some row" "r_script_status row = Some S_Running"
    and e: "on_script_finished p lab k s = Inr (k', s')"
  shows "k' = kill_seen p k \<and> writes_row (finished_row p row) s s'"
proof -
  from e row obtain row1 s1 s2 where
    u: "update_script_status row (finished_status p) lab ''agent.script.finished'' (sf_exit_code p) None
          (Some (dt_wall (sf_finished_at p))) None no_ctx s = Inr (row1, s1)"
    and s2: "flush_res (output_row p row1) s1 = Inr s2"
    and s': "s' = finished_notification p (finished_status p) (output_row p row1) s2"
    and k': "k' = kill_seen p k"
    by (auto simp: on_script_finished_def Let_def rbind_eq_Inr kill_seen_def)
  note u' = update_script_status_Inr[OF u]
  then have r: "finished_row p row = output_row p row1" by (simp add: finished_row_def)
  have "writes_row (output_row p row1) s s2"
    using u' writes_row_flush[OF s2] by (auto intro: writes_row_trans)
  then show ?thesis
    by (auto simp: r s' k' finished_notification_def notify_keeps_row split: option.splits)
qed

text \<open>What the event reports fits the columns: the exit code, the size of the log and its path.\<close>

definition event_fits :: "script_finished_event \<Rightarrow> bool" where
  "event_fits p \<longleftrightarrow> signed_int_col (sf_exit_code p) \<and> unsigned_int_col (Some (sf_output_size_bytes p)) \<and> varchar_col 255 (sf_log_path p)"

lemma finished_status_not_running [simp]: "finished_status p \<noteq> S_Running"
  by (simp add: finished_status_def)

lemma finished_allowed: "r_script_status row = Some S_Running \<Longrightarrow> finished_status p \<in> set (allowed_script_transitions (r_script_status row))"
  by (simp add: finished_status_def)

lemma get_reservation_ok: "db_wf (s_db s) \<Longrightarrow> get_reservation s i = Some row \<Longrightarrow> res_row_ok row"
  by (auto simp: get_reservation_def db_wf_def reservations_def dest!: row_by_Some)

lemma finished_overflow:
  assumes "db_wf (s_db s)" and "get_reservation s (sf_reservation_id p) = Some row" and "r_script_status row = Some S_Running"
    and "\<not> event_fits p"
  shows "on_script_finished p lab k s = Inl DbFlushError"
proof -
  note ok = get_reservation_ok[OF assms(1,2)] and al = finished_allowed[OF assms(3), of p]
  show ?thesis
  proof (cases "signed_int_col (sf_exit_code p)")
    case False
    from update_script_status_overflow[OF ok al finished_status_not_running False] assms(2,3) show ?thesis
      by (simp add: on_script_finished_def Let_def)
  next
    case True
    let ?r = "script_status_row (finished_status p) (sf_exit_code p) None (Some (dt_wall (sf_finished_at p))) row"
    from update_script_status_total[OF ok al True] obtain s1 where
      u: "update_script_status row (finished_status p) lab ''agent.script.finished'' (sf_exit_code p) None
            (Some (dt_wall (sf_finished_at p))) None no_ctx s = Inr (?r, s1)" by blast
    have "\<not> res_row_ok (output_row p ?r)"
      using True assms(4) by (simp add: output_row_ok script_status_row_ok(1)[OF ok True] event_fits_def)
    with u assms(2,3) show ?thesis by (simp add: on_script_finished_def Let_def flush_res_def)
  qed
qed

lemma finished_returns:
  assumes "db_wf (s_db s)" and "event_fits p"
  shows "\<exists>k' s'. on_script_finished p lab k s = Inr (k', s')"
proof (cases "get_reservation s (sf_reservation_id p)")
  case None
  then show ?thesis by (simp add: finished_absent)
next
  case (Some row)
  show ?thesis
  proof (cases "r_script_status row = Some S_Running")
    case True
    note ok = get_reservation_ok[OF assms(1) Some]
    from assms(2) have x: "signed_int_col (sf_exit_code p)" by (simp add: event_fits_def)
    from update_script_status_total[OF ok finished_allowed[OF True] x] obtain s1 where
      u: "update_script_status row (finished_status p) lab ''agent.script.finished'' (sf_exit_code p) None
            (Some (dt_wall (sf_finished_at p))) None no_ctx s =
          Inr (script_status_row (finished_status p) (sf_exit_code p) None (Some (dt_wall (sf_finished_at p))) row, s1)"
      by blast
    with Some True assms(2) show ?thesis
      by (simp add: on_script_finished_def Let_def flush_res_def output_row_ok script_status_row_ok(1)[OF ok x] event_fits_def)
  qed (use Some in \<open>simp add: finished_stale\<close>)
qed

lemma finished_legal:
  assumes "on_script_finished p lab k s = Inr (k', s')"
  shows "legal_change s s' (sf_reservation_id p)"
proof (cases "get_reservation s (sf_reservation_id p)")
  case None
  with assms show ?thesis by (simp add: finished_absent legal_change_def)
next
  case (Some row)
  show ?thesis
  proof (cases "r_script_status row = Some S_Running")
    case False
    with assms Some show ?thesis by (simp add: finished_stale legal_change_def)
  next
    case True
    with finished_running[OF Some True assms] Some show ?thesis
      using get_reservation_id[OF Some] unfolding legal_change_def
      by (intro disjI2 exI[of _ row] exI[of _ "finished_row p row"]) (simp add: finished_row_legal)
  qed
qed


section \<open>The acknowledged start\<close>

lemma started_seen_mono:
  "prefix (d_audit (s_db s)) (d_audit (s_db s')) \<Longrightarrow> lifecycle_started_seen s i \<Longrightarrow> lifecycle_started_seen s' i"
  by (auto simp: lifecycle_started_seen_def prefix_def)

lemma started_audit_about: "about_reservation ''reservation.script.lifecycle.started'' (r_id row)
    ((started_audit p lab row)\<lparr>au_id := a, au_created_at := t\<rparr>)"
  by (simp add: about_reservation_def started_audit_def audit_of_def)

lemma started_ack:
  assumes "on_script_started p lab s = Inr s'" and row: "get_reservation s (ss_reservation_id p) = Some row"
    and run: "r_script_status row = Some S_Running"
  shows "lifecycle_started_seen s' (ss_reservation_id p)
    \<and> get_reservation s' (ss_reservation_id p) = Some (acked_row p row)"
proof -
  note id = get_reservation_id[OF row]
  from assms obtain s1 where s1: "flush_res (acked_row p row) s = Inr s1"
    and s': "s' = started_notification p (acked_row p row) (audit_write (started_audit p lab (acked_row p row)) s1)"
    by (auto simp: on_script_started_def Let_def rbind_eq_Inr)
  have "reservations s' = row_put r_id (acked_row p row) (reservations s)"
    using s1 by (simp add: s' started_notification_def row_simps flush_res_Inr)
  moreover have "ss_reservation_id p \<in> r_id ` set (reservations s)"
    using row row_by_Some[of r_id _ "reservations s" row] by (force simp: get_reservation_def)
  ultimately have "get_reservation s' (ss_reservation_id p) = Some (acked_row p row)"
    using id by (simp add: get_reservation_def row_by_row_put)
  moreover have "lifecycle_started_seen s' (ss_reservation_id p)"
    using started_audit_about[where row = "acked_row p row" and p = p and lab = lab] id
    by (simp add: s' started_notification_def lifecycle_started_seen_def row_simps)
  ultimately show ?thesis by blast
qed

section \<open>Cancelling a running script\<close>

lemma cancel_active_Inr:
  assumes "cancel_active_with_running_script row actor can_admin reason lab why ctx rpc meanwhile confirmed s
    = (Inr row', s', calls)"
  shows "confirmed \<and> (\<exists>resp. rpc = RpcReturned resp)
    \<and> cancel_reservation (r_id row) actor can_admin reason lab ctx (s\<lparr>s_db := meanwhile (s_db s)\<rparr>) = (Inr row', s')"
  using assms
  by (auto simp: cancel_active_with_running_script_def Let_def split: rpc_outcome.splits if_splits prod.splits sum.splits)

lemma cancel_active_Inl:
  assumes "cancel_active_with_running_script row actor can_admin reason lab why ctx rpc meanwhile confirmed s
    = (Inl e, s', calls)"
  shows "d_reservations (s_db s') = d_reservations (s_db s) \<or> d_reservations (s_db s') = d_reservations (meanwhile (s_db s))"
proof -
  from assms consider "d_reservations (s_db s') = d_reservations (s_db s)"
    | "d_reservations (s_db s') = d_reservations (meanwhile (s_db s))"
    | e' where "cancel_reservation (r_id row) actor can_admin reason lab ctx (s\<lparr>s_db := meanwhile (s_db s)\<rparr>) = (Inl e', s')"
    by (auto simp: cancel_active_with_running_script_def Let_def row_simps
        split: rpc_outcome.splits if_splits prod.splits sum.splits)
  then show ?thesis
  proof cases
    case 3
    then show ?thesis using cancel_Inl by fastforce
  qed auto
qed

lemma cancel_active_calls:
  "snd (snd (cancel_active_with_running_script row actor can_admin reason lab why ctx rpc meanwhile confirmed s))
     = [cancel_rpc row why]"
  by (auto simp: cancel_active_with_running_script_def Let_def split: rpc_outcome.split prod.split sum.split)

section \<open>The registry\<close>

definition registry_ok :: "kill_registry \<Rightarrow> bool" where
  "registry_ok k \<longleftrightarrow> (\<forall>e \<in> kr_set k. e < kr_next k) \<and> (\<forall>rid e. kr_waiting k rid = Some e \<longrightarrow> e < kr_next k)"

datatype registry_op = RegOp int | DiscardOp int | SignalOp int

fun reg_exec :: "registry_op \<Rightarrow> kill_registry \<Rightarrow> kill_registry" where
  "reg_exec (RegOp rid) k = snd (register_pending_kill rid k)"
| "reg_exec (DiscardOp rid) k = discard_pending_kill rid k"
| "reg_exec (SignalOp rid) k = signal_lifecycle_kill rid k"

fun op_rid :: "registry_op \<Rightarrow> int" where
  "op_rid (RegOp rid) = rid" | "op_rid (DiscardOp rid) = rid" | "op_rid (SignalOp rid) = rid"

lemma registry_ok_exec: "registry_ok k \<Longrightarrow> registry_ok (reg_exec x k)"
  by (cases x) (auto simp: registry_ok_def register_pending_kill_def discard_pending_kill_def
      signal_lifecycle_kill_def less_Suc_eq split: option.splits if_splits)

lemma other_ops_keep_waiting: "op_rid x \<noteq> rid \<Longrightarrow> kr_waiting (reg_exec x k) rid = kr_waiting k rid"
  by (cases x) (auto simp: register_pending_kill_def discard_pending_kill_def signal_lifecycle_kill_def split: option.splits)

lemma set_is_kept: "e \<in> kr_set k \<Longrightarrow> e \<in> kr_set (reg_exec x k)"
  by (cases x) (auto simp: register_pending_kill_def discard_pending_kill_def signal_lifecycle_kill_def split: option.splits)

lemma fold_set_is_kept: "e \<in> kr_set k \<Longrightarrow> e \<in> kr_set (fold reg_exec xs k)"
  by (induction xs arbitrary: k) (auto intro: set_is_kept)

lemma fold_other_ops: "(\<And>x. x \<in> set xs \<Longrightarrow> op_rid x \<noteq> rid) \<Longrightarrow> kr_waiting (fold reg_exec xs k) rid = kr_waiting k rid"
  by (induction xs arbitrary: k) (auto simp: other_ops_keep_waiting)

text \<open>A confirmation is delivered to the waiting cancellation, whatever happens to other reservations.\<close>

lemma wakeup:
  assumes "\<And>x. x \<in> set before \<Longrightarrow> op_rid x \<noteq> rid"
  shows "snd (cancel_registry rid (fold reg_exec (before @ SignalOp rid # later)) k)"
proof -
  let ?k1 = "snd (register_pending_kill rid k)"
  let ?k2 = "fold reg_exec before ?k1"
  have "kr_waiting ?k2 rid = kr_waiting ?k1 rid" using assms by (rule fold_other_ops)
  then have "kr_waiting ?k2 rid = Some (kr_next k)" by (simp add: register_pending_kill_def)
  then have "kr_next k \<in> kr_set (reg_exec (SignalOp rid) ?k2)" by (simp add: signal_lifecycle_kill_def)
  then have "kr_next k \<in> kr_set (fold reg_exec later (reg_exec (SignalOp rid) ?k2))" by (rule fold_set_is_kept)
  then show ?thesis by (simp add: cancel_registry_def Let_def register_pending_kill_def)
qed

text \<open>A second cancellation of the same reservation takes the confirmation away from the first.\<close>

lemma lost_wakeup:
  assumes "registry_ok k"
  shows "\<not> snd (cancel_registry rid (fold reg_exec [RegOp rid, SignalOp rid]) k)"
  using assms
  by (auto simp: cancel_registry_def Let_def register_pending_kill_def signal_lifecycle_kill_def registry_ok_def)

end
