(* ===== verification/Recommender_Props.thy ===== *)
theory Recommender_Props
  imports Recommender
begin

text \<open>
  What a recommended window promises. The picked GPUs are idle at its start, and it lies inside the
  horizon, always. That at every instant of the window enough GPUs are idle holds when the busy
  intervals of each GPU are separated by gaps: then the free set of the sweep is the set of idle
  GPUs (\<open>free_iff_idle\<close>). Touching intervals break it.
\<close>

section \<open>Picking\<close>

lemma pick_from_props:
  "set (pick_from gs n busy t picked) \<subseteq> set picked \<union> {g \<in> set gs. \<not> busy_at (busy g) t}
   \<and> (length picked \<le> n \<longrightarrow> length (pick_from gs n busy t picked) \<le> n \<or> n = length picked)"
proof (induction gs n busy t picked rule: pick_from.induct)
  case (2 g gs n busy t picked)
  then show ?case by (cases "busy_at (busy g) t"; cases "length (picked @ [g]) = n") auto
qed simp

lemma pick_from_length: "length picked < n \<Longrightarrow> length (pick_from gs n busy t picked) =
    min n (length picked + length (filter (\<lambda>g. \<not> busy_at (busy g) t) gs))"
  by (induction gs n busy t picked rule: pick_from.induct) auto

lemma pick_from_prefix: "length picked < n \<Longrightarrow>
    pick_from gs n busy t picked = picked @ take (n - length picked) (filter (\<lambda>g. \<not> busy_at (busy g) t) gs)"
proof (induction gs n busy t picked rule: pick_from.induct)
  case (2 g gs n busy t picked)
  show ?case
  proof (cases "busy_at (busy g) t")
    case False
    have "n - length picked = Suc (n - length (picked @ [g]))" using 2(3) by simp
    with 2 False show ?thesis by (cases "length (picked @ [g]) = n") auto
  qed (use 2 in simp)
qed simp

text \<open>The pick is the first \<open>n\<close> idle GPUs.\<close>

lemma pick_first_n_eq: "0 < n \<Longrightarrow> pick_first_n gs n busy t = take n (filter (\<lambda>g. \<not> busy_at (busy g) t) gs)"
  using pick_from_prefix[of "[]" n gs busy t] by (simp add: pick_first_n_def)

section \<open>Bounds of the window\<close>

text \<open>The candidate is an event time or the start of the search, so it is never before the search.\<close>

lemma sweep_bounds:
  assumes "\<And>e. e \<in> set evs \<Longrightarrow> lo \<le> fst e \<and> fst e \<le> hi" and "\<And>c. cand = Some c \<Longrightarrow> lo \<le> c"
  shows "(sweep n dur hi evs free cand = Inl c \<longrightarrow> lo \<le> c \<and> c + dur \<le> hi)
    \<and> (sweep n dur hi evs free cand = Inr (Some c) \<longrightarrow> lo \<le> c)"
  using assms
proof (induction evs arbitrary: free cand)
  case Nil
  then show ?case by simp
next
  case (Cons e evs)
  obtain t delta g where e: "e = (t, delta, g)" by (cases e) auto
  from Cons.prems(1)[of e] have t: "lo \<le> t" "t \<le> hi" by (simp_all add: e)
  have IH: "\<And>free cand. (\<And>c. cand = Some c \<Longrightarrow> lo \<le> c) \<Longrightarrow>
     (sweep n dur hi evs free cand = Inl c \<longrightarrow> lo \<le> c \<and> c + dur \<le> hi)
     \<and> (sweep n dur hi evs free cand = Inr (Some c) \<longrightarrow> lo \<le> c)"
    using Cons by auto
  show ?case using t Cons.prems(2) IH[of None] IH[of "Some t"] IH[of cand]
    by (auto simp: e Let_def simp del: apply_event.simps split: option.split)
qed

lemma sorted_events_set: "e \<in> set (sorted_events gids busy) \<longleftrightarrow>
    (\<exists>g \<in> set gids. \<exists>(bs, be) \<in> set (busy g). e = (bs, -1, g) \<or> e = (be, 1, g))"
  by (force simp: sorted_events_def gpu_events_def)

definition clipped :: "(int \<Rightarrow> interval list) \<Rightarrow> int \<Rightarrow> int \<Rightarrow> bool" where
  "clipped busy lo hi \<longleftrightarrow> (\<forall>g. \<forall>(bs, be) \<in> set (busy g). lo \<le> bs \<and> bs < be \<and> be \<le> hi)"

lemma clipped_busy_by_gpu:
  assumes "\<And>r. r \<in> set rs \<Longrightarrow> r_start_at r < r_end_at r" and "lo < hi"
  shows "clipped (busy_by_gpu rs gids lo hi) lo hi"
  using assms by (fastforce simp: clipped_def busy_by_gpu_def)

lemma window_bounds:
  assumes w: "earliest_window_for_server gids busy lo hi n dur = Some (picked, st, en)"
    and cl: "clipped busy lo hi"
  shows "lo \<le> st \<and> en = st + dur \<and> en \<le> hi \<and> picked = pick_first_n gids n busy st"
proof -
  let ?free = "initial_free gids busy lo"
  let ?cand = "if length ?free \<ge> n then Some lo else None"
  have ev: "lo \<le> fst e \<and> fst e \<le> hi" if "e \<in> set (sorted_events gids busy)" for e
    using that cl by (fastforce simp: sorted_events_set clipped_def)
  have sw: "(sweep n dur hi (sorted_events gids busy) ?free ?cand = Inl c \<longrightarrow> lo \<le> c \<and> c + dur \<le> hi)
    \<and> (sweep n dur hi (sorted_events gids busy) ?free ?cand = Inr (Some c) \<longrightarrow> lo \<le> c)" for c
    by (rule sweep_bounds) (use ev in \<open>auto split: if_splits\<close>)
  show ?thesis
    using w sw unfolding earliest_window_for_server_def Let_def
    by (auto simp: window_at_def split: sum.splits option.splits if_splits)
qed

section \<open>The free set\<close>

text \<open>After a stretch of events, a GPU is free as its last event says.\<close>

definition free_after :: "event list \<Rightarrow> int list \<Rightarrow> int list" where
  "free_after evs free = fold apply_event evs free"

definition says_free :: "bool \<Rightarrow> event list \<Rightarrow> bool" where
  "says_free start es \<longleftrightarrow> (if es = [] then start else fst (snd (last es)) \<noteq> -1)"

lemma says_free_snoc [simp]: "says_free b [] = b" "says_free b (es @ [e]) = (fst (snd e) \<noteq> -1)"
    "says_free b (es @ [e', e]) = (fst (snd e) \<noteq> -1)"
  by (simp_all add: says_free_def)

lemma free_after_mem: "g \<in> set (free_after evs free) \<longleftrightarrow>
    says_free (g \<in> set free) (filter (\<lambda>e. snd (snd e) = g) evs)"
proof (induction evs rule: rev_induct)
  case (snoc e evs)
  obtain t delta h where e: "e = (t, delta, h)" by (cases e) auto
  show ?case
  proof (cases "h = g")
    case True
    then show ?thesis by (simp add: e free_after_def)
  next
    case False
    then have "g \<in> set (free_after (evs @ [e]) free) \<longleftrightarrow> g \<in> set (free_after evs free)"
      by (auto simp: e free_after_def)
    with False snoc show ?thesis by (simp add: e)
  qed
qed (simp add: free_after_def)

lemma free_after_distinct: "distinct free \<Longrightarrow> distinct (free_after evs free)"
proof (induction evs arbitrary: free)
  case (Cons e evs)
  obtain t delta h where e: "e = (t, delta, h)" by (cases e) auto
  have "distinct (apply_event e free)" using Cons.prems by (simp add: e distinct_removeAll)
  with Cons.IH show ?case by (simp add: free_after_def)
qed (simp add: free_after_def)

text \<open>Intervals with gaps between them, in order.\<close>

definition separated :: "interval list \<Rightarrow> bool" where
  "separated bs \<longleftrightarrow> sorted_wrt (\<lambda>a b. snd a < fst b) bs \<and> (\<forall>(b_start, b_end) \<in> set bs. b_start < b_end)"

lemma separated_sorted: "separated (busy g) \<Longrightarrow> sorted (map (\<lambda>(t, delta, g). (t, delta)) (gpu_events busy g))"
proof -
  have "separated bs \<Longrightarrow> sorted (map (\<lambda>(t, delta, g). (t, delta))
      (concat (map (\<lambda>(b_start, b_end). [(b_start, -1 :: int, g), (b_end, 1, g)]) bs)))" for bs
  proof (induction bs)
    case (Cons b bs)
    obtain b0 b1 where b: "b = (b0, b1)" by (cases b)
    from Cons.prems have "separated bs" "b0 < b1" and later: "\<And>x y. (x, y) \<in> set bs \<Longrightarrow> b1 < x \<and> x < y"
      by (auto simp: separated_def b)
    with Cons.IH show ?case by (fastforce simp: b)
  qed simp
  then show "separated (busy g) \<Longrightarrow> ?thesis" by (simp add: gpu_events_def)
qed

lemma filter_gpu_events: "filter (\<lambda>e. snd (snd e) = g) (gpu_events busy h) = (if h = g then gpu_events busy g else [])"
proof -
  have "\<forall>e \<in> set (gpu_events busy h). snd (snd e) = h" by (auto simp: gpu_events_def)
  then show ?thesis by (auto simp: filter_empty_conv intro!: filter_True)
qed

lemma events_of_gpu:
  assumes "separated (busy g)" and "g \<in> set gids" and "distinct gids"
  shows "filter (\<lambda>e. snd (snd e) = g) (sorted_events gids busy) = gpu_events busy g"
proof -
  have "filter (\<lambda>e. snd (snd e) = g) (concat (map (gpu_events busy) gids)) = gpu_events busy g"
    using assms(2,3) by (induction gids) (auto simp: filter_gpu_events filter_concat o_def)
  then show ?thesis
    using separated_sorted[where busy = busy and g = g] assms(1)
    by (simp add: sorted_events_def filter_sort sort_key_id_if_sorted)
qed

text \<open>The last event up to an instant tells whether the GPU is idle then.\<close>

lemma last_event_idle:
  assumes "separated (busy g)"
  shows "says_free True (filter (\<lambda>e. fst e \<le> t) (gpu_events busy g)) \<longleftrightarrow> \<not> busy_at (busy g) t"
proof -
  have "separated bs \<Longrightarrow> says_free True (filter (\<lambda>e. fst e \<le> t)
        (concat (map (\<lambda>(b_start, b_end). [(b_start, -1 :: int, g), (b_end, 1, g)]) bs)))
      \<longleftrightarrow> \<not> busy_at bs t" for bs
  proof (induction bs rule: rev_induct)
    case Nil
    then show ?case by (simp add: busy_at_def)
  next
    case (snoc b bs)
    obtain b0 b1 where b: "b = (b0, b1)" by (cases b)
    from snoc.prems have sep: "separated bs" "b0 < b1" and before: "\<And>x y. (x, y) \<in> set bs \<Longrightarrow> x < y \<and> y < b0"
      by (auto simp: separated_def b sorted_wrt_append)
    let ?f = "\<lambda>bs. filter (\<lambda>e. fst e \<le> t) (concat (map (\<lambda>(b_start, b_end). [(b_start, -1 :: int, g), (b_end, 1, g)]) bs))"
    consider "t < b0" | "b0 \<le> t" "t < b1" | "b1 \<le> t" by linarith
    then show ?case
    proof cases
      case 1
      then have "?f (bs @ [b]) = ?f bs" using sep(2) by (simp add: b)
      moreover have "busy_at (bs @ [b]) t = busy_at bs t" using 1 by (auto simp: busy_at_def b)
      ultimately show ?thesis using snoc.IH[OF sep(1)] by simp
    next
      case 2
      then have "?f (bs @ [b]) = ?f bs @ [(b0, -1, g)]" by (simp add: b)
      moreover have "busy_at (bs @ [b]) t" using 2 by (simp add: busy_at_def b)
      ultimately show ?thesis by simp
    next
      case 3
      then have "?f (bs @ [b]) = ?f bs @ [(b0, -1, g), (b1, 1, g)]" using sep(2) by (simp add: b)
      moreover have "\<not> (x \<le> t \<and> t < y)" if "(x, y) \<in> set bs" for x y
        using before[OF that] 3 sep(2) by linarith
      then have "\<not> busy_at (bs @ [b]) t" using 3 by (auto simp: busy_at_def b)
      ultimately show ?thesis by simp
    qed
  qed
  with assms show ?thesis by (simp add: gpu_events_def)
qed


definition idle_gpus :: "int list \<Rightarrow> (int \<Rightarrow> interval list) \<Rightarrow> int \<Rightarrow> int list" where
  "idle_gpus gids busy t = filter (\<lambda>g. \<not> busy_at (busy g) t) gids"

text \<open>The situation in which the sweep is exact.\<close>

definition spaced_sweep :: "int list \<Rightarrow> (int \<Rightarrow> interval list) \<Rightarrow> int \<Rightarrow> int \<Rightarrow> bool" where
  "spaced_sweep gids busy lo hi \<longleftrightarrow> distinct gids \<and> (\<forall>g \<in> set gids. separated (busy g)) \<and> clipped busy lo hi"

lemma spaced_sweepD:
  assumes "spaced_sweep gids busy lo hi"
  shows "distinct gids" "g \<in> set gids \<Longrightarrow> separated (busy g)" "clipped busy lo hi"
  using assms by (simp_all add: spaced_sweep_def)

lemma event_bounds: "clipped busy lo hi \<Longrightarrow> e \<in> set (sorted_events gids busy) \<Longrightarrow>
    lo \<le> fst e \<and> fst e \<le> hi \<and> snd (snd e) \<in> set gids"
  by (fastforce simp: sorted_events_set clipped_def)

lemma events_sorted: "sorted (map fst (sorted_events gids busy))"
proof -
  have "sorted (map (\<lambda>(t, delta, g). (t, delta)) (sorted_events gids busy))"
    by (simp add: sorted_events_def)
  then show ?thesis unfolding sorted_map by (rule sorted_wrt_mono_rel[rotated]) auto
qed

text \<open>Between two event times the free set is the set of idle GPUs.\<close>

lemma free_iff_idle:
  assumes sp: "spaced_sweep gids busy lo hi" and split: "sorted_events gids busy = pre @ suf"
    and pre: "\<And>e. e \<in> set pre \<Longrightarrow> fst e \<le> t" and suf: "\<And>e. e \<in> set suf \<Longrightarrow> t < fst e" and lo: "lo \<le> t"
    and g: "g \<in> set gids"
  shows "g \<in> set (free_after pre (initial_free gids busy lo)) \<longleftrightarrow> \<not> busy_at (busy g) t"
proof -
  have "filter (\<lambda>e. fst e \<le> t) pre = pre" using pre by (intro filter_True) blast
  moreover have "filter (\<lambda>e. fst e \<le> t) suf = []"
    unfolding filter_empty_conv using suf by (simp add: not_le)
  ultimately have "filter (\<lambda>e. fst e \<le> t) (pre @ suf) = pre" by simp
  moreover have "filter P (filter Q xs) = filter Q (filter P xs)" for P Q :: "event \<Rightarrow> bool" and xs
    by (auto simp: filter_filter intro: filter_cong)
  ultimately have "filter (\<lambda>e. snd (snd e) = g) pre =
      filter (\<lambda>e. fst e \<le> t) (filter (\<lambda>e. snd (snd e) = g) (sorted_events gids busy))"
    unfolding split by metis
  also have "\<dots> = filter (\<lambda>e. fst e \<le> t) (gpu_events busy g)"
    using events_of_gpu[where busy = busy and g = g, OF spaced_sweepD(2)[OF sp g] g spaced_sweepD(1)[OF sp]] by simp
  finally have es: "filter (\<lambda>e. snd (snd e) = g) pre = filter (\<lambda>e. fst e \<le> t) (gpu_events busy g)" .
  have "says_free (g \<in> set (initial_free gids busy lo)) (filter (\<lambda>e. fst e \<le> t) (gpu_events busy g))
      = says_free True (filter (\<lambda>e. fst e \<le> t) (gpu_events busy g))"
  proof (cases "filter (\<lambda>e. fst e \<le> t) (gpu_events busy g) = []")
    case True
    have "\<not> busy_at (busy g) lo"
    proof
      assume "busy_at (busy g) lo"
      then obtain bs be where "(bs, be) \<in> set (busy g)" "bs \<le> lo" by (auto simp: busy_at_def)
      then have "(bs, -1, g) \<in> set (filter (\<lambda>e. fst e \<le> t) (gpu_events busy g))"
        using lo by (force simp: gpu_events_def)
      with True show False by simp
    qed
    with True g show ?thesis by (simp add: says_free_def initial_free_def)
  qed (simp add: says_free_def)
  then show ?thesis
    using last_event_idle[where busy = busy and g = g, OF spaced_sweepD(2)[OF sp g]] by (simp add: free_after_mem es)
qed

lemma free_count:
  assumes sp: "spaced_sweep gids busy lo hi" and split: "sorted_events gids busy = pre @ suf"
    and "\<And>e. e \<in> set pre \<Longrightarrow> fst e \<le> t" and "\<And>e. e \<in> set suf \<Longrightarrow> t < fst e" and "lo \<le> t"
  shows "length (free_after pre (initial_free gids busy lo)) = length (idle_gpus gids busy t)"
proof -
  let ?F = "free_after pre (initial_free gids busy lo)"
  have "g \<in> set gids" if "g \<in> set ?F" for g
  proof (rule ccontr)
    assume out: "g \<notin> set gids"
    have "snd (snd e) \<in> set gids" if "e \<in> set pre" for e
      using event_bounds[OF spaced_sweepD(3)[OF sp], of e gids] that by (simp add: split)
    with out have "filter (\<lambda>e. snd (snd e) = g) pre = []" by (auto simp: filter_empty_conv)
    with that out show False by (simp add: free_after_mem says_free_def initial_free_def)
  qed
  then have "set ?F = set (idle_gpus gids busy t)"
    using free_iff_idle[OF assms] by (auto simp: idle_gpus_def)
  moreover have "distinct ?F" by (rule free_after_distinct) (simp add: initial_free_def)
  moreover have "distinct (idle_gpus gids busy t)" by (simp add: idle_gpus_def spaced_sweepD(1)[OF sp])
  ultimately show ?thesis by (metis distinct_card)
qed

text \<open>An open candidate has had enough idle GPUs ever since.\<close>

lemma sweep_sound:
  assumes sp: "spaced_sweep gids busy lo hi" and "sorted_events gids busy = pre @ suf"
    and "\<And>c. cand = Some c \<Longrightarrow> lo \<le> c \<and> (\<forall>t. c \<le> t \<and> (\<forall>e \<in> set suf. t < fst e) \<longrightarrow> length (idle_gpus gids busy t) \<ge> n)"
  shows "(sweep n dur hi suf (free_after pre (initial_free gids busy lo)) cand = Inl c \<longrightarrow>
       (\<forall>t. c \<le> t \<and> t < c + dur \<longrightarrow> length (idle_gpus gids busy t) \<ge> n))
    \<and> (sweep n dur hi suf (free_after pre (initial_free gids busy lo)) cand = Inr (Some c) \<longrightarrow>
       (\<forall>t. c \<le> t \<and> t < hi \<longrightarrow> length (idle_gpus gids busy t) \<ge> n))"
  using assms(2-)
proof (induction suf arbitrary: pre cand)
  case Nil
  then show ?case by simp
next
  case (Cons e suf)
  let ?F = "free_after pre (initial_free gids busy lo)"
  let ?F' = "free_after (pre @ [e]) (initial_free gids busy lo)"
  obtain tm delta g where e: "e = (tm, delta, g)" by (cases e) auto
  have F': "apply_event e ?F = ?F'" by (simp add: free_after_def)
  have "sorted (map fst (pre @ e # suf))" using events_sorted[of gids busy] unfolding Cons.prems(1) .
  then have ord: "\<And>x. x \<in> set pre \<Longrightarrow> fst x \<le> tm" "\<And>x. x \<in> set suf \<Longrightarrow> tm \<le> fst x"
    by (auto simp: sorted_append e)
  have lo: "lo \<le> tm" using event_bounds[OF spaced_sweepD(3)[OF sp], of e gids] Cons.prems(1) by (simp add: e)
  have split: "sorted_events gids busy = (pre @ [e]) @ suf" using Cons.prems(1) by simp
  have now: "length ?F' = length (idle_gpus gids busy t)" if "tm \<le> t" "\<forall>x \<in> set suf. t < fst x" for t
    by (rule free_count[OF sp split]) (use that ord lo in \<open>fastforce simp: e\<close>)+
  have old: "length (idle_gpus gids busy t) \<ge> n" if "cand = Some c'" "c' \<le> t" "t < tm" for c' t
    using Cons.prems(2)[OF that(1)] that ord(2) by (fastforce simp: e)
  have keep: "lo \<le> c' \<and> (\<forall>t. c' \<le> t \<and> (\<forall>x \<in> set suf. t < fst x) \<longrightarrow> length (idle_gpus gids busy t) \<ge> n)"
    if "cand = Some c'" "length ?F' \<ge> n" for c'
    using Cons.prems(2)[OF that(1)] old[OF that(1)] now that(2) by (metis not_le)
  have fresh: "lo \<le> tm \<and> (\<forall>t. tm \<le> t \<and> (\<forall>x \<in> set suf. t < fst x) \<longrightarrow> length (idle_gpus gids busy t) \<ge> n)"
    if "length ?F' \<ge> n" using lo now that by metis
  show ?case
  proof (cases cand)
    case None
    have IH: "(sweep n dur hi suf ?F' cand' = Inl c \<longrightarrow> (\<forall>t. c \<le> t \<and> t < c + dur \<longrightarrow> length (idle_gpus gids busy t) \<ge> n))
      \<and> (sweep n dur hi suf ?F' cand' = Inr (Some c) \<longrightarrow> (\<forall>t. c \<le> t \<and> t < hi \<longrightarrow> length (idle_gpus gids busy t) \<ge> n))"
      if "cand' = (if length ?F' \<ge> n then Some tm else None)" for cand'
      by (rule Cons.IH[OF split]) (use fresh that in \<open>auto split: if_splits\<close>)
    show ?thesis using IH[OF refl] unfolding None e sweep.simps F'[unfolded e] Let_def
      by (auto simp del: apply_event.simps)
  next
    case (Some c')
    have IH: "(sweep n dur hi suf ?F' cand' = Inl c \<longrightarrow> (\<forall>t. c \<le> t \<and> t < c + dur \<longrightarrow> length (idle_gpus gids busy t) \<ge> n))
      \<and> (sweep n dur hi suf ?F' cand' = Inr (Some c) \<longrightarrow> (\<forall>t. c \<le> t \<and> t < hi \<longrightarrow> length (idle_gpus gids busy t) \<ge> n))"
      if "cand' = (if length ?F' \<ge> n then Some c' else None)" for cand'
      by (rule Cons.IH[OF split]) (use keep[OF Some] that in \<open>auto split: if_splits\<close>)
    show ?thesis using IH[OF refl] old[OF Some] unfolding Some e sweep.simps F'[unfolded e] Let_def
      by (auto simp del: apply_event.simps)
  qed
qed

lemma window_sound:
  assumes sp: "spaced_sweep gids busy lo hi" and w: "earliest_window_for_server gids busy lo hi n dur = Some (picked, st, en)"
    and t: "st \<le> t" "t < en"
  shows "length (idle_gpus gids busy t) \<ge> n"
proof -
  let ?F = "free_after [] (initial_free gids busy lo)"
  let ?cand = "if length ?F \<ge> n then Some lo else None"
  have en: "en = st + dur" "en \<le> hi" using window_bounds[OF w spaced_sweepD(3)[OF sp]] by simp_all
  have start: "length (idle_gpus gids busy t) \<ge> n"
    if "lo \<le> t" "\<forall>e \<in> set (sorted_events gids busy). t < fst e" "length ?F \<ge> n" for t
    using free_count[OF sp, of "[]" "sorted_events gids busy" t] that by simp
  have sound: "(sweep n dur hi (sorted_events gids busy) ?F ?cand = Inl st \<longrightarrow>
       (\<forall>t. st \<le> t \<and> t < st + dur \<longrightarrow> length (idle_gpus gids busy t) \<ge> n))
    \<and> (sweep n dur hi (sorted_events gids busy) ?F ?cand = Inr (Some st) \<longrightarrow>
       (\<forall>t. st \<le> t \<and> t < hi \<longrightarrow> length (idle_gpus gids busy t) \<ge> n))"
    by (rule sweep_sound[OF sp]) (use start in \<open>auto split: if_splits\<close>)
  have "sweep n dur hi (sorted_events gids busy) ?F ?cand \<in> {Inl st, Inr (Some st)}"
    using w unfolding earliest_window_for_server_def Let_def
    by (auto simp: window_at_def free_after_def split: sum.splits option.splits if_splits)
  with sound t en show ?thesis by auto
qed

section \<open>From the tables\<close>

definition gpus_wf :: "db \<Rightarrow> bool" where
  "gpus_wf d \<longleftrightarrow> distinct (d_gpu_ids d) \<and> (\<forall>i g. d_gpus d i = Some g \<longrightarrow> gpu_id g = i)"

definition lab_gpu_rows :: "db \<Rightarrow> int \<Rightarrow> gpu list" where
  "lab_gpu_rows d lab = sort_key (\<lambda>g. (gpu_server_id g, gpu_index g)) (filter (lab_gpu d lab) (gpu_rows d))"

lemma map_of_group_append: "map_of (group_append k v d) =
    (map_of d)(k \<mapsto> (case map_of d k of None \<Rightarrow> [v] | Some vs \<Rightarrow> vs @ [v]))"
  by (induction k v d rule: group_append.induct) (auto simp: fun_eq_iff)

lemma keys_group_append: "distinct (map fst d) \<Longrightarrow> distinct (map fst (group_append k v d))
    \<and> set (map fst (group_append k v d)) = insert k (set (map fst d))"
  by (induction k v d rule: group_append.induct) auto

lemma fold_group_append:
  "distinct (map fst d) \<Longrightarrow>
   distinct (map fst (fold (\<lambda>g acc. group_append (gpu_server_id g) (gpu_id g) acc) gs d))
   \<and> map_of (fold (\<lambda>g acc. group_append (gpu_server_id g) (gpu_id g) acc) gs d) sid =
     (let new = map gpu_id (filter (\<lambda>g. gpu_server_id g = sid) gs) in
      case map_of d sid of None \<Rightarrow> if new = [] then None else Some new | Some vs \<Rightarrow> Some (vs @ new))"
proof (induction gs arbitrary: d)
  case (Cons g gs)
  from keys_group_append[OF Cons.prems] have "distinct (map fst (group_append (gpu_server_id g) (gpu_id g) d))" by blast
  from Cons.IH[OF this] show ?case
    by (auto simp: Let_def map_of_group_append split: option.splits)
qed (simp add: Let_def split: option.splits)

lemma gpus_by_server_iff: "(sid, gids) \<in> set (gpus_by_server d lab) \<longleftrightarrow>
    gids \<noteq> [] \<and> gids = map gpu_id (filter (\<lambda>g. gpu_server_id g = sid) (lab_gpu_rows d lab))"
proof -
  have dk: "distinct (map fst (gpus_by_server d lab))" and m: "map_of (gpus_by_server d lab) sid =
     (let new = map gpu_id (filter (\<lambda>g. gpu_server_id g = sid) (lab_gpu_rows d lab)) in
      if new = [] then None else Some new)"
    using fold_group_append[of "[]" "lab_gpu_rows d lab" sid] by (simp_all add: gpus_by_server_def lab_gpu_rows_def)
  have "(sid, gids) \<in> set (gpus_by_server d lab) \<longleftrightarrow> map_of (gpus_by_server d lab) sid = Some gids"
    by (rule map_of_eq_Some_iff[OF dk, symmetric])
  then show ?thesis by (auto simp: m Let_def)
qed

lemma gpu_rows_ids:
  assumes "gpus_wf d"
  shows "distinct (map gpu_id (gpu_rows d))"
proof -
  have "map gpu_id (List.map_filter (d_gpus d) is) = filter (\<lambda>i. d_gpus d i \<noteq> None) is" for "is"
    using assms by (induction "is") (auto simp: gpus_wf_def map_filter_simps split: option.splits)
  then show ?thesis using assms by (simp add: gpu_rows_def gpus_wf_def)
qed

lemma server_gids_distinct:
  assumes "gpus_wf d"
  shows "distinct (map gpu_id (filter (\<lambda>g. gpu_server_id g = sid) (lab_gpu_rows d lab)))"
proof -
  have "mset (map gpu_id (lab_gpu_rows d lab)) = mset (map gpu_id (filter (lab_gpu d lab) (gpu_rows d)))"
    by (simp add: lab_gpu_rows_def)
  moreover have "distinct (map gpu_id (filter (lab_gpu d lab) (gpu_rows d)))"
    using gpu_rows_ids[OF assms] by (simp add: distinct_map_filter)
  ultimately have "distinct (map gpu_id (lab_gpu_rows d lab))" by (metis mset_eq_imp_distinct_iff)
  then show ?thesis by (rule distinct_map_filter)
qed

lemma candidates_of_mem: "c \<in> set (candidates_of es busy lo hi n dur) \<longleftrightarrow>
    (\<exists>(sid, gids) \<in> set es. earliest_window_for_server gids busy lo hi n dur =
       Some (ca_gpu_ids c, ca_start_at c, ca_end_at c) \<and> ca_server_id c = sid)"
proof (induction es busy lo hi n dur rule: candidates_of.induct)
  case (2 sid gids rest busy lo hi n dur)
  show ?case
  proof (cases "earliest_window_for_server gids busy lo hi n dur")
    case None
    with 2 show ?thesis by auto
  next
    case (Some w)
    obtain picked st en where w: "w = (picked, st, en)" by (cases w) auto
    have "c = \<lparr>ca_server_id = sid, ca_gpu_ids = picked, ca_start_at = st, ca_end_at = en\<rparr> \<longleftrightarrow>
        ca_gpu_ids c = picked \<and> ca_start_at c = st \<and> ca_end_at c = en \<and> ca_server_id c = sid"
      by (cases c) auto
    with 2 Some w show ?thesis by auto
  qed
qed simp

definition search_start :: "session \<Rightarrow> datetime option \<Rightarrow> int" where
  "search_start s after = max (case after of None \<Rightarrow> s_clock s | Some a \<Rightarrow> dt_strip a) (s_clock s)"

text \<open>Where a candidate comes from.\<close>

lemma recommend_origin:
  assumes r: "recommend s lab gpu_count limit after k = Inr cs" and c: "c \<in> set cs"
  shows "\<exists>gids all_ids. gids = map gpu_id (filter (\<lambda>g. gpu_server_id g = ca_server_id c) (lab_gpu_rows (s_db s) lab))
    \<and> length gids \<ge> nat gpu_count \<and> set gids \<subseteq> set all_ids \<and> gpu_count \<ge> 1
    \<and> earliest_window_for_server gids
        (busy_by_gpu (reservations s) all_ids (search_start s after) (search_start s after + days HORIZON_DAYS))
        (search_start s after) (search_start s after + days HORIZON_DAYS) (nat gpu_count) (seconds limit)
      = Some (ca_gpu_ids c, ca_start_at c, ca_end_at c)"
proof -
  let ?lo = "search_start s after"
  let ?el = "filter (\<lambda>(sid, gids). length gids \<ge> nat gpu_count) (gpus_by_server (s_db s) lab)"
  let ?all = "concat (map snd ?el)"
  let ?busy = "busy_by_gpu (reservations s) ?all ?lo (?lo + days HORIZON_DAYS)"
  have n: "gpu_count \<ge> 1" and cs: "cs = take k (sort_key ca_start_at
      (candidates_of ?el ?busy ?lo (?lo + days HORIZON_DAYS) (nat gpu_count) (seconds limit)))"
    using r by (auto simp: recommend_def Let_def search_start_def split: if_splits)
  from c have "c \<in> set (candidates_of ?el ?busy ?lo (?lo + days HORIZON_DAYS) (nat gpu_count) (seconds limit))"
    unfolding cs by (metis in_set_takeD set_sort)
  then obtain gids where g: "(ca_server_id c, gids) \<in> set ?el"
    "earliest_window_for_server gids ?busy ?lo (?lo + days HORIZON_DAYS) (nat gpu_count) (seconds limit)
      = Some (ca_gpu_ids c, ca_start_at c, ca_end_at c)"
    by (auto simp: candidates_of_mem)
  moreover from g(1) have "set gids \<subseteq> set ?all" by force
  moreover from g(1) have "length gids \<ge> nat gpu_count" "gids = map gpu_id
      (filter (\<lambda>g. gpu_server_id g = ca_server_id c) (lab_gpu_rows (s_db s) lab))"
    using gpus_by_server_iff by auto
  ultimately show ?thesis using n by (intro exI[of _ gids] exI[of _ ?all] conjI)
qed

text \<open>On the rows: nothing live covers the instant.\<close>

lemma busy_at_rows:
  assumes "g \<in> set gids" and "lo \<le> t" and "t < hi"
  shows "busy_at (busy_by_gpu rs gids lo hi g) t \<longleftrightarrow> live_on rs g t \<noteq> []"
  using assms by (force simp: busy_at_def busy_by_gpu_def live_on_def covers_def filter_empty_conv)

definition gapped :: "reservation list \<Rightarrow> bool" where
  "gapped rs \<longleftrightarrow> (\<forall>g. sorted_wrt (\<lambda>a b. r_end_at a < r_start_at b)
     (sort_key r_start_at (filter (occupies g) rs)))"

lemma separated_busy:
  assumes "gapped rs" and "\<And>r. r \<in> set rs \<Longrightarrow> r_start_at r < r_end_at r" and "lo < hi"
  shows "separated (busy_by_gpu rs gids lo hi g)"
proof (cases "g \<in> set gids")
  case True
  let ?q = "\<lambda>r. r_start_at r < hi \<and> r_end_at r > lo"
  let ?rows = "sort_key r_start_at (filter (\<lambda>r. occupies g r \<and> r_start_at r < hi \<and> r_end_at r > lo) rs)"
  have "?rows = filter ?q (sort_key r_start_at (filter (occupies g) rs))"
    by (simp add: filter_sort filter_filter conj_commute)
  then have "sorted_wrt (\<lambda>a b. r_end_at a < r_start_at b) ?rows"
    using assms(1) by (simp add: gapped_def sorted_wrt_filter)
  then have "sorted_wrt (\<lambda>a b. snd a < fst b) (map (\<lambda>r. (max (r_start_at r) lo, min (r_end_at r) hi)) ?rows)"
    unfolding sorted_wrt_map by (rule sorted_wrt_mono_rel[rotated]) auto
  moreover have "\<forall>(bs, be) \<in> set (map (\<lambda>r. (max (r_start_at r) lo, min (r_end_at r) hi)) ?rows). bs < be"
    using assms(2,3) by auto
  ultimately show ?thesis using True by (simp add: separated_def busy_by_gpu_def)
qed (simp add: separated_def busy_by_gpu_def)

end
