(* ===== verification/Api_Props.thy ===== *)
theory Api_Props
  imports Reservation_Api Script_Props Recommender_Props
begin

text \<open>
  The requests as transactions: what each endpoint leaves in the database once the request session
  has ended, and the step relation of the whole reservation system (\<open>db_step\<close>), whose steps are the
  requests, the agent's events, the recorded dispatch failures and the ticks.
\<close>

section \<open>Ending a request\<close>

lemma end_request_clean:
  "s_dirty s = None \<Longrightarrow> end_request base (res, s) = (res, if res = Inl Uncaught then base else s_db s)"
  by (auto simp: end_request_def split: sum.split api_error.split)

text \<open>An error with a dirty row: the commit writes the row if the table accepts it.\<close>

lemma end_request_dirty:
  "end_request base (Inl (HttpException c b), s\<lparr>s_dirty := Some row\<rparr>) =
     (if res_row_ok row then (Inl (HttpException c b), db_update_res row (s_db s)) else (Inl Uncaught, base))"
  by (auto simp: end_request_def commit_def flush_res_def s_update_res_def)

lemma map_service_error_http: "\<exists>c b. map_service_error str e = HttpException c b"
  by (cases e) simp_all

lemma service_error_cases: "service_error str e = Uncaught \<or> (\<exists>c b. service_error str e = HttpException c b)"
  using map_service_error_http[of str e] by (auto simp: service_error_def)

section \<open>Creating\<close>

lemma announce_audit_prefix: "prefix (d_audit (s_db s)) (d_audit (s_db (announce_created u lab ctx rs s)))"
proof (induction u lab ctx rs s rule: announce_created.induct)
  case (2 u lab ctx r item rest s)
  have "prefix (d_audit (s_db s)) (d_audit (s_db (push_reservation_lifecycle r (it_start_at item) (it_end_at item)
      ChangeCreated (audit_write (create_audit u lab ctx r item) s))))"
    by (simp add: row_simps)
  with 2 show ?case using prefix_order.trans by simp
qed simp

lemma create_ok:
  assumes c: "create_reservation_batch items u lab script sst mr share now gid ctx s = (Inr (g, rows), s')"
    and ok: "db_ok (s_db s)"
  shows "db_ok (s_db s')" "develops (s_db s) (s_db s')"
    "items_apart items \<Longrightarrow> evolves (s_db s) (s_db s')"
proof -
  from ok have wf: "db_wf (s_db s)" by (simp add: db_ok_def)
  note t = create_tables[OF c]
  have "dispatch_has_script r" if "r \<in> set rows" for r
    using that unfolding create_Inr(8)[OF c]
    by (auto elim!: batch_rows_origin simp: dispatch_has_script_def)
  with ok t(1) create_db_wf[OF c wf] show "db_ok (s_db s')"
    by (auto simp: db_ok_def reservations_def)
  have "prefix (d_audit (s_db s)) (d_audit (s_db s'))"
    using announce_audit_prefix[of "s\<lparr>s_db := insert_rows (new_rows (new_row u gid script sst mr share (s_clock s)) 0 items)
      (s_db s)\<rparr>"] insert_rows_sel unfolding create_Inr(9)[OF c] by simp
  with t(1) show dev: "develops (s_db s) (s_db s')"
    by (simp add: develops_def reservations_def)
  show "evolves (s_db s) (s_db s')" if "items_apart items"
    using dev create_capacity[OF c wf _ that] by (simp add: evolves_def)
qed

section \<open>Modifying\<close>

lemma modified_row_evolves:
  assumes "r_status row = Scheduled"
  shows "row_evolves row (modified_row a row)" "row_evolves row (timed_row a row)"
    "row_evolves row (modify_script a (new_start a row) (timed_row a row))"
  using assms
  by (auto simp: row_evolves_def frozen_once_started_def dispatch_has_script_def modified_row_def modify_knobs_def
      modify_script_def timed_row_def split: option.splits)

lemma modify_audit_prefix:
  "modify_reservation rid actor a lab now ctx s = (Inr row', s') \<Longrightarrow> prefix (d_audit (s_db s)) (d_audit (s_db s'))
     \<and> d_servers (s_db s') = d_servers (s_db s) \<and> d_links (s_db s') = d_links (s_db s) \<and> d_pas (s_db s') = d_pas (s_db s)
     \<and> d_grants (s_db s') = d_grants (s_db s) \<and> s_clock s' = s_clock s"
  by (auto simp: modify_reservation_def Let_def flush_res_def row_simps split: option.splits if_splits sum.splits)

lemma modify_writes:
  assumes m: "modify_reservation rid actor a lab now ctx s = (Inr row', s')"
  shows "\<exists>row. get_reservation s rid = Some row \<and> r_status row = Scheduled \<and> r_user_id row = actor
    \<and> row' = modified_row a row \<and> writes_row row' s s'"
proof -
  obtain row where "get_reservation s rid = Some row" "r_status row = Scheduled" "r_user_id row = actor"
    "res_row_ok row'" "row' = modified_row a row" "reservations s' = row_put r_id row' (reservations s)"
    "s_dirty s' = None" "d_gpus (s_db s') = d_gpus (s_db s)" "d_next_reservation (s_db s') = d_next_reservation (s_db s)"
    by (rule modify_Inr[OF m]) blast
  with modify_audit_prefix[OF m] show ?thesis by (auto simp: writes_row_def same_tables_def)
qed

lemma modify_ok:
  assumes m: "modify_reservation rid actor a lab now ctx s = (Inr row', s')" and ok: "db_ok (s_db s)"
  shows "db_ok (s_db s')" "evolves (s_db s) (s_db s')"
proof -
  obtain row where row: "get_reservation s rid = Some row" "r_status row = Scheduled" "row' = modified_row a row"
    "writes_row row' s s'"
    using modify_writes[OF m] by blast
  then have "get_reservation s (r_id row') = Some row" by (simp add: get_reservation_id)
  from writes_row_develops[OF row(4) this _ ok] modified_row_evolves(1)[OF row(2), of a] row(3)
  have dev: "db_ok (s_db s')" "develops (s_db s) (s_db s')" by auto
  from ok have "db_wf (s_db s)" by (simp add: db_ok_def)
  with modify_capacity[OF m] dev show "db_ok (s_db s')" "evolves (s_db s) (s_db s')"
    by (simp_all add: evolves_def)
qed

text \<open>What a failed modification leaves in the session.\<close>

lemma modify_Inl_dirty:
  assumes "modify_reservation rid actor a lab now ctx s = (Inl e, s')"
  shows "s' = s \<or> (\<exists>row x. get_reservation s rid = Some row \<and> r_status row = Scheduled \<and> r_user_id row = actor
    \<and> s' = s\<lparr>s_dirty := Some x\<rparr> \<and> x \<in> {timed_row a row, modify_script a (new_start a row) (timed_row a row)})"
  using assms
  by (auto simp: modify_reservation_def Let_def split: option.splits if_splits sum.splits)

lemma dirty_commit_ok:
  assumes row: "get_reservation s rid = Some row" and ev: "row_evolves row x" and ok: "db_ok (s_db s)"
    and rok: "res_row_ok x"
  shows "db_ok (db_update_res x (s_db s))" "develops (s_db s) (db_update_res x (s_db s))"
proof -
  have w: "writes_row x s ((s_update_res x s)\<lparr>s_dirty := None\<rparr>)"
    by (rule writes_row_flush) (simp add: flush_res_def rok)
  have "get_reservation s (r_id x) = Some row" using row ev by (simp add: row_evolves_def get_reservation_id)
  from writes_row_develops[OF w this ev ok]
  show "db_ok (db_update_res x (s_db s))" "develops (s_db s) (db_update_res x (s_db s))"
    by (simp_all add: s_update_res_def)
qed

lemma modify_ep_ok:
  assumes e: "end_request (s_db s) (modify_reservation_ep str u rid a ctx s) = (res, d')"
    and clean: "s_dirty s = None" and ok: "db_ok (s_db s)"
  shows "db_ok d'" "develops (s_db s) d'" "\<not> isl res \<Longrightarrow> evolves (s_db s) d'"
proof -
  obtain out s' where m: "modify_reservation rid (u_id u) a (u_lab_id u) (dt_utc (s_clock s)) ctx s = (out, s')"
    by (cases "modify_reservation rid (u_id u) a (u_lab_id u) (dt_utc (s_clock s)) ctx s")
  have "db_ok d' \<and> develops (s_db s) d' \<and> (\<not> isl res \<longrightarrow> evolves (s_db s) d')"
  proof (cases out)
    case (Inr row')
    with m have m': "modify_reservation rid (u_id u) a (u_lab_id u) (dt_utc (s_clock s)) ctx s = (Inr row', s')" by simp
    then have "s_dirty s' = None" using modify_writes by (blast dest: writes_row_def[THEN iffD1])
    with e m Inr have "d' = s_db s'" by (simp add: modify_reservation_ep_def end_request_clean)
    with modify_ok[OF m' ok] show ?thesis by (simp add: evolves_def)
  next
    case (Inl err)
    with m have m': "modify_reservation rid (u_id u) a (u_lab_id u) (dt_utc (s_clock s)) ctx s = (Inl err, s')" by simp
    from modify_Inl_dirty[OF m'] consider "s' = s"
      | row x where "get_reservation s rid = Some row" "r_status row = Scheduled" "s' = s\<lparr>s_dirty := Some x\<rparr>"
        "x \<in> {timed_row a row, modify_script a (new_start a row) (timed_row a row)}" by blast
    then show ?thesis
    proof cases
      case 1
      with e m Inl clean ok show ?thesis
        by (auto simp: modify_reservation_ep_def end_request_clean split: if_splits)
    next
      case (2 row x)
      then have ev: "row_evolves row x" using modified_row_evolves by auto
      from e m Inl 2(3) have e': "end_request (s_db s) (Inl (service_error str err), s\<lparr>s_dirty := Some x\<rparr>) = (res, d')"
        by (simp add: modify_reservation_ep_def)
      show ?thesis
      proof (cases "service_error str err = Uncaught")
        case True
        with e' ok show ?thesis by (auto simp: end_request_def)
      next
        case False
        with service_error_cases[of str err] obtain c b where "service_error str err = HttpException c b" by blast
        with e' dirty_commit_ok[OF 2(1) ev ok] ok show ?thesis
          by (auto simp: end_request_dirty split: if_splits)
      qed
    qed
  qed
  then show "db_ok d'" "develops (s_db s) d'" "\<not> isl res \<Longrightarrow> evolves (s_db s) d'" by simp_all
qed

end
