(* ===== verification/System.thy ===== *)
theory System
  imports Api_Props
begin

text \<open>
  The reservation system as a transition system on the database: one step is one committed
  transaction. Every step keeps the database legal and only develops it; capacity survives every
  step except two, which the labels single out: an accepted batch whose items compete with each other, and a
  PATCH that was answered with an error.
\<close>

section \<open>Cancelling\<close>

lemma cancel_ok:
  assumes c: "cancel_reservation rid actor can_admin reason lab ctx s = (Inr row', s')" and ok: "db_ok (s_db s)"
  shows "db_ok (s_db s') \<and> evolves (s_db s) (s_db s') \<and> s_dirty s' = None"
proof -
  from cancel_Inr[OF c] obtain row where row: "get_reservation s rid = Some row" "active_status (r_status row)"
    "row' = cancelled_row (s_clock s) actor reason row" "writes_row row' s s'" by blast
  then have "get_reservation s (r_id row') = Some row" by (simp add: get_reservation_id)
  from writes_row_ok[OF row(4) this _ _ ok] row cancelled_row_evolves cancelled_row_claim
  show ?thesis by (auto simp: writes_row_def)
qed

lemma cancel_Inl_dirty:
  assumes c: "cancel_reservation rid actor can_admin reason lab ctx s = (Inl e, s')" and wf: "db_wf (s_db s)"
  shows "s' = s"
proof (cases "e = DbFlushError")
  case False
  with cancel_Inl[OF c] show ?thesis by blast
next
  case True
  have "\<not> (\<exists>row. get_reservation s rid = Some row \<and> active_status (r_status row) \<and> (can_admin \<or> r_user_id row = actor))"
    using cancel_total[OF _ wf, of rid _ can_admin actor reason lab ctx] c by fastforce
  with True c show ?thesis
    by (auto simp: cancel_reservation_def terminal_not_active assert_transition_allowed_def
        split: option.splits if_splits)
qed

lemma audit_write_ok:
  fixes e :: audit_entry
  shows "db_ok (s_db (audit_write e s)) = db_ok (s_db s)"
    "evolves (s_db s) (s_db (audit_write e s))"
  by (simp_all add: db_ok_def db_wf_def evolves_def develops_def capacity_ok_def gpu_total_def row_simps)

lemma audit_write_ok_at: "evolves d (s_db (audit_write e (s\<lparr>s_db := d\<rparr>)))"
    "db_ok (s_db (audit_write e (s\<lparr>s_db := d\<rparr>))) = db_ok d"
  using audit_write_ok[where s = "s\<lparr>s_db := d\<rparr>" and e = e] by simp_all

text \<open>A cancellation that never waits.\<close>

lemma cancel_plain_ok:
  assumes ok: "db_ok (s_db s)" and clean: "s_dirty s = None"
    and c: "cancel_reservation rid actor can_admin reason lab ctx s = (out, s')"
  shows "db_ok (s_db s') \<and> evolves (s_db s) (s_db s') \<and> s_dirty s' = None"
proof (cases out)
  case (Inl e)
  have "s' = s"
    by (rule cancel_Inl_dirty) (use c Inl ok in \<open>auto simp: db_ok_def\<close>)
  with ok clean show ?thesis by simp
next
  case (Inr row')
  with c cancel_ok ok show ?thesis by blast
qed

lemma cancel_active_ok:
  assumes c: "cancel_active_with_running_script row actor can_admin reason lab why ctx rpc (\<lambda>_. d) confirmed s = (out, s', calls)"
    and ok: "db_ok d" and clean: "s_dirty s = None" and rpc: "rpc = RpcReturned resp"
  shows "db_ok (s_db s') \<and> evolves d (s_db s') \<and> s_dirty s' = None"
proof (cases confirmed)
  case False
  with c rpc clean ok show ?thesis
    by (auto simp: cancel_active_with_running_script_def Let_def audit_write_ok_at audit_write_sel)
next
  case True
  obtain out2 s2 where c2: "cancel_reservation (r_id row) actor can_admin reason lab ctx (s\<lparr>s_db := d\<rparr>) = (out2, s2)"
    by (cases "cancel_reservation (r_id row) actor can_admin reason lab ctx (s\<lparr>s_db := d\<rparr>)")
  have "db_ok (s_db s2) \<and> evolves d (s_db s2) \<and> s_dirty s2 = None"
    using cancel_plain_ok[OF _ _ c2] ok clean by simp
  with c rpc True c2 show ?thesis
    by (auto simp: cancel_active_with_running_script_def Let_def split: sum.splits)
qed

lemma cancel_active_unreachable_ok:
  assumes c: "cancel_active_with_running_script row actor can_admin reason lab why ctx rpc m confirmed s = (out, s', calls)"
    and ok: "db_ok (s_db s)" and clean: "s_dirty s = None" and rpc: "\<And>resp. rpc \<noteq> RpcReturned resp"
  shows "db_ok (s_db s') \<and> evolves (s_db s) (s_db s') \<and> s_dirty s' = None"
  using c ok clean rpc
  by (cases rpc) (auto simp: cancel_active_with_running_script_def Let_def audit_write_ok audit_write_sel)

lemma cancel_group_step_ok:
  assumes c: "cancel_group gid actor can_admin reason lab ctx s = (out, s')"
    and ok: "db_ok (s_db s)" and clean: "s_dirty s = None"
  shows "db_ok (s_db s') \<and> evolves (s_db s) (s_db s') \<and> s_dirty s' = None"
proof (cases out)
  case (Inl e)
  have "s' = s"
    by (rule cancel_group_Inl) (use c Inl in auto)
  with ok clean show ?thesis by simp
next
  case (Inr rows)
  with c have c': "cancel_group gid actor can_admin reason lab ctx s = (Inr rows, s')" by simp
  have "s_dirty s' = None"
  proof -
    from c' obtain r rs s1 where "flush_all (r # rs) s = Inr s1" "s_dirty s' = s_dirty s1"
      by (auto simp: cancel_group_def Let_def row_simps split: list.splits if_splits sum.splits
          simp del: flush_all.simps)
    with flush_all_Inr show ?thesis by fastforce
  qed
  with cancel_group_ok[OF c' ok] show ?thesis by blast
qed

section \<open>The steps\<close>

datatype step_label = Booked "item_draft list" bool | Patched bool | Other

text \<open>A cancellation whose wait ended at the database \<open>d\<close>; the request itself started on some earlier one.\<close>

inductive db_step :: "step_label \<Rightarrow> db \<Rightarrow> db \<Rightarrow> bool" where
  create: "end_request d (create_reservations_ep str u q gid ctx (open_session d clock)) = (res, d') \<Longrightarrow>
    db_step (Booked (cq_items q) (\<not> isl res)) d d'"
| patch: "end_request d (modify_reservation_ep str u rid a ctx (open_session d clock)) = (res, d') \<Longrightarrow>
    db_step (Patched (\<not> isl res)) d d'"
| cancel: "cancel_reservation_ep str u rid reason ctx rpc (\<lambda>x. x) confirmed (open_session d clock) = (out, s', calls) \<Longrightarrow>
    end_request d (out, s') = (res, d') \<Longrightarrow> db_step Other d d'"
| cancel_waited: "get_reservation (open_session d0 clock) rid = Some row \<Longrightarrow> r_status row = Active \<Longrightarrow>
    r_script_status row = Some S_Running \<Longrightarrow>
    cancel_reservation_ep str u rid reason ctx (RpcReturned resp) (\<lambda>_. d) confirmed (open_session d0 clock) = (out, s', calls) \<Longrightarrow>
    end_request d (out, s') = (res, d') \<Longrightarrow> db_step Other d d'"
| cancel_all: "end_request d (cancel_group_ep str u gid reason ctx (open_session d clock)) = (res, d') \<Longrightarrow>
    db_step Other d d'"
| script_started: "on_script_started p lab (open_session d clock) = Inr s' \<Longrightarrow> db_step Other d (s_db s')"
| script_output: "on_script_output_chunk p lab_chunk = Inr s' \<Longrightarrow> lab_chunk = open_session d clock \<Longrightarrow> db_step Other d (s_db s')"
| script_finished: "on_script_finished p2 lab k (open_session d clock) = Inr (k', s') \<Longrightarrow> db_step Other d (s_db s')"
| tick: "tick_body (open_session d clock) = Inr (pending, s') \<Longrightarrow> db_step Other d (s_db s')"
| dispatch: "s' = dispatch_one py_str rid sid rpc_out (open_session d clock) \<Longrightarrow> db_step Other d (s_db s')"

inductive_cases db_step_createE: "db_step (Booked items ok) d d'"
inductive_cases db_step_patchE: "db_step (Patched ok) d d'"
inductive_cases db_step_otherE: "db_step Other d d'"

lemma create_step_ok:
  assumes "end_request d (create_reservations_ep str u q gid ctx (open_session d clock)) = (res, d')" and ok: "db_ok d"
  shows "db_ok d' \<and> develops d d' \<and> (isl res \<or> items_apart (cq_items q) \<longrightarrow> evolves d d')"
proof -
  obtain out s' where c: "create_reservation_batch (cq_items q) (u_id u) (u_lab_id u) (cq_script q)
      (cq_script_scheduled_start_at q) (cq_script_max_runtime_seconds q) (cq_share_script q) (dt_utc clock) gid ctx
      (open_session d clock) = (out, s')"
    by (cases "create_reservation_batch (cq_items q) (u_id u) (u_lab_id u) (cq_script q)
      (cq_script_scheduled_start_at q) (cq_script_max_runtime_seconds q) (cq_share_script q) (dt_utc clock) gid ctx
      (open_session d clock)")
  show ?thesis
  proof (cases out)
    case (Inl e)
    with c create_Inl have "s' = open_session d clock" by blast
    with assms c Inl show ?thesis
      by (auto simp: create_reservations_ep_def end_request_clean split: if_splits)
  next
    case (Inr gr)
    obtain g rows where gr: "gr = (g, rows)" by (cases gr)
    with c Inr have c': "create_reservation_batch (cq_items q) (u_id u) (u_lab_id u) (cq_script q)
      (cq_script_scheduled_start_at q) (cq_script_max_runtime_seconds q) (cq_share_script q) (dt_utc clock) gid ctx
      (open_session d clock) = (Inr (g, rows), s')" by simp
    have "s_dirty s' = None" using create_tables(3)[OF c'] by simp
    with assms c Inr gr have "d' = s_db s' \<and> \<not> isl res" by (auto simp: create_reservations_ep_def end_request_clean)
    with create_ok[OF c'] ok show ?thesis by simp
  qed
qed

lemma ended_ok:
  assumes "end_request d (out, s') = (res, d')" and "db_ok (s_db s') \<and> evolves d (s_db s') \<and> s_dirty s' = None"
    and "db_ok d"
  shows "db_ok d' \<and> evolves d d'"
  using assms by (auto simp: end_request_clean split: if_splits)

lemma cancel_step_ok:
  assumes c: "cancel_reservation_ep str u rid reason ctx rpc (\<lambda>x. x) confirmed (open_session d clock) = (out, s', calls)"
    and ok: "db_ok d"
  shows "db_ok (s_db s') \<and> evolves d (s_db s') \<and> s_dirty s' = None"
proof (cases "get_reservation (open_session d clock) rid")
  case None
  with c ok show ?thesis by (auto simp: cancel_reservation_ep_def)
next
  case (Some row)
  let ?adm = "user_can_admin_server (open_session d clock) u (r_server_id row)"
  show ?thesis
  proof (cases "r_status row = Active \<and> r_script_status row = Some S_Running")
    case False
    obtain o2 s2 where c2: "cancel_reservation rid (u_id u) ?adm reason (u_lab_id u) ctx (open_session d clock) = (o2, s2)"
      by (cases "cancel_reservation rid (u_id u) ?adm reason (u_lab_id u) ctx (open_session d clock)")
    with c Some False have "s' = s2" by (auto simp: cancel_reservation_ep_def Let_def split: sum.splits)
    with cancel_plain_ok[OF _ _ c2] ok show ?thesis by simp
  next
    case True
    let ?why = "if ?adm \<and> r_user_id row \<noteq> u_id u then ''admin_cancel'' else ''user_cancel''"
    obtain o2 s2 cl where c2: "cancel_active_with_running_script row (u_id u) ?adm reason (u_lab_id u) ?why ctx rpc
        (\<lambda>x. x) confirmed (open_session d clock) = (o2, s2, cl)"
      by (cases "cancel_active_with_running_script row (u_id u) ?adm reason (u_lab_id u) ?why ctx rpc
        (\<lambda>x. x) confirmed (open_session d clock)") auto
    with c Some True have s': "s' = s2" by (auto simp: cancel_reservation_ep_def Let_def split: sum.splits)
    show ?thesis
    proof (cases "\<exists>resp. rpc = RpcReturned resp")
      case True
      then obtain resp where rpc: "rpc = RpcReturned resp" by blast
      have same: "cancel_active_with_running_script row (u_id u) ?adm reason (u_lab_id u) ?why ctx rpc
          (\<lambda>_. d) confirmed (open_session d clock) = (o2, s2, cl)"
        using c2 by (simp add: cancel_active_with_running_script_def rpc Let_def)
      from cancel_active_ok[OF same ok _ rpc] show ?thesis by (simp add: s')
    next
      case False
      with cancel_active_unreachable_ok[OF c2] ok show ?thesis by (simp add: s')
    qed
  qed
qed

lemma cancel_waited_ok:
  assumes row: "get_reservation (open_session d0 clock) rid = Some row" "r_status row = Active"
      "r_script_status row = Some S_Running"
    and c: "cancel_reservation_ep str u rid reason ctx (RpcReturned resp) (\<lambda>_. d) confirmed (open_session d0 clock) = (out, s', calls)"
    and ok: "db_ok d"
  shows "db_ok (s_db s') \<and> evolves d (s_db s') \<and> s_dirty s' = None"
proof -
  let ?adm = "user_can_admin_server (open_session d0 clock) u (r_server_id row)"
  let ?why = "if ?adm \<and> r_user_id row \<noteq> u_id u then ''admin_cancel'' else ''user_cancel''"
  obtain o2 s2 cl where c2: "cancel_active_with_running_script row (u_id u) ?adm reason (u_lab_id u) ?why ctx
      (RpcReturned resp) (\<lambda>_. d) confirmed (open_session d0 clock) = (o2, s2, cl)"
    by (cases "cancel_active_with_running_script row (u_id u) ?adm reason (u_lab_id u) ?why ctx
      (RpcReturned resp) (\<lambda>_. d) confirmed (open_session d0 clock)") auto
  with c row have "s' = s2" by (auto simp: cancel_reservation_ep_def Let_def split: sum.splits)
  with cancel_active_ok[OF c2 ok _ refl] show ?thesis by simp
qed

text \<open>Which steps are known to respect capacity: a refused batch always does.\<close>

fun careful :: "step_label \<Rightarrow> bool" where
  "careful (Booked items accepted) = (accepted \<longrightarrow> items_apart items)"
| "careful (Patched accepted) = accepted"
| "careful Other = True"

lemma step_ok: "db_step l d d' \<Longrightarrow> db_ok d \<Longrightarrow> db_ok d' \<and> develops d d' \<and> (careful l \<longrightarrow> evolves d d')"
proof (induction rule: db_step.induct)
  case (create d str u q gid ctx clock res d')
  with create_step_ok show ?case by auto
next
  case (patch d str u rid a ctx clock res d')
  with modify_ep_ok[of "open_session d clock" str u rid a ctx res d'] show ?case by auto
next
  case (cancel str u rid reason ctx rpc confirmed d clock out s' calls res d')
  with cancel_step_ok[OF cancel(1)] ended_ok[OF cancel(2)] have "db_ok d' \<and> evolves d d'" by blast
  then show ?case by (simp add: evolves_def)
next
  case (cancel_waited d0 clock rid row str u reason ctx resp d confirmed out s' calls res d')
  with cancel_waited_ok[OF cancel_waited(1-4)] ended_ok[OF cancel_waited(5)] have "db_ok d' \<and> evolves d d'" by blast
  then show ?case by (simp add: evolves_def)
next
  case (cancel_all d str u gid reason ctx clock res d')
  obtain out s2 where c2: "cancel_group gid (u_id u) (case group_sample (open_session d clock) gid of None \<Rightarrow> False
      | Some r \<Rightarrow> user_can_admin_server (open_session d clock) u (r_server_id r)) reason (u_lab_id u) ctx
      (open_session d clock) = (out, s2)"
    by (cases "cancel_group gid (u_id u) (case group_sample (open_session d clock) gid of None \<Rightarrow> False
      | Some r \<Rightarrow> user_can_admin_server (open_session d clock) u (r_server_id r)) reason (u_lab_id u) ctx
      (open_session d clock)")
  from cancel_all(1) c2 obtain out' where "end_request d (out', s2) = (res, d')"
    by (cases out) (auto simp: cancel_group_ep_def Let_def)
  with cancel_group_step_ok[OF c2] cancel_all(2) have "db_ok d' \<and> evolves d d'" by (intro ended_ok) simp_all
  then show ?case by (simp add: evolves_def)
next
  case (script_started p lab d clock s')
  with legal_change_ok[OF started_legal[OF script_started(1)]] show ?case by (simp add: evolves_def)
next
  case (script_output p s0 s' d clock)
  with legal_change_ok[OF chunk_legal[OF script_output(1)]] show ?case by (simp add: evolves_def)
next
  case (script_finished p lab k d clock k' s')
  with legal_change_ok[OF finished_legal[OF script_finished(1)]] show ?case by (simp add: evolves_def)
next
  case (tick d clock pending s')
  with tick_body_runs[of "open_session d clock" clock] show ?case by (auto simp: evolves_def)
next
  case (dispatch s' py_str rid sid out d clock)
  have "db_ok (s_db s') = db_ok d \<and> evolves d (s_db s')"
    unfolding dispatch(1) using audit_write_ok[where s = "open_session d clock"]
    by (auto simp: dispatch_one_def record_dispatch_attempt_failed_def split: rpc_outcome.split)
  with dispatch(2) show ?case by (simp add: evolves_def)
qed

section \<open>Runs\<close>

inductive db_run :: "step_label list \<Rightarrow> db \<Rightarrow> db \<Rightarrow> bool" where
  start: "db_run [] d d"
| more: "db_run ls d d' \<Longrightarrow> db_step l d' d'' \<Longrightarrow> db_run (ls @ [l]) d d''"

lemma run_ok: "db_run ls d d' \<Longrightarrow> db_ok d \<Longrightarrow> db_ok d' \<and> develops d d' \<and> (list_all careful ls \<longrightarrow> evolves d d')"
proof (induction rule: db_run.induct)
  case (more ls d d' l d'')
  with step_ok[OF more(2)] show ?case by (auto intro: develops_trans evolves_trans)
qed simp

lemma run_append: "db_run ls' d1 d2 \<Longrightarrow> db_run ls d d1 \<Longrightarrow> db_run (ls @ ls') d d2"
proof (induction rule: db_run.induct)
  case (more ls' d1 d2 l d3)
  from db_run.more[OF more.IH[OF more.prems] more.hyps(2)] show ?case by simp
qed simp

end
