(* ===== verification/Scenario.thy ===== *)
theory Scenario
  imports System
begin

text \<open>
  A small laboratory on which the properties are exercised: one server with two GPUs of 8 GB, a
  lab administrator and two members, each with a verified account on the server.
\<close>

definition hour :: int where
  "hour = 3600000000"

definition sc_user :: "int \<Rightarrow> user" where
  "sc_user i = \<lparr>u_id = i, u_lab_id = 1, u_username = ''user'',
     u_role = (if i = 9 then RoleLabAdmin else RoleUser), u_is_active = True,
     u_email = ''user@lab'', u_display_name = [], u_password_hash = None, u_last_login_at = None, u_created_by_user_id = None\<rparr>"

definition sc_server :: server where
  "sc_server = \<lparr>srv_id = 1, srv_lab_id = 1, srv_hostname = ''node'', srv_status = Online,
     srv_last_heartbeat_at = None, srv_max_reservation_hours = Some 24, srv_is_active = True,
     srv_approved_at = Some 0, srv_approved_by_user_id = Some 9, srv_display_name = None,
     srv_agent_token_hash = None, srv_agent_version = None, srv_created_by_user_id = None\<rparr>"

definition sc_gpu :: "int \<Rightarrow> gpu" where
  "sc_gpu i = \<lparr>gpu_id = i, gpu_server_id = 1, gpu_index = i - 1, gpu_memory_total_mb = Some 8000, gpu_is_active = True\<rparr>"

definition sc_link :: "int \<Rightarrow> account_link" where
  "sc_link i = \<lparr>al_id = i, al_user_id = i, al_physical_account_id = i, al_source = SshChallenge, al_is_active = True,
     al_proof_evidence = [], al_established_at = 0, al_established_by_user_id = i, al_revoked_by_user_id = None,
     al_revoked_at = None, al_revoke_reason = None\<rparr>"

definition sc_pa :: "int \<Rightarrow> physical_account" where
  "sc_pa i = \<lparr>pa_id = i, pa_server_id = 1, pa_linux_username = ''alice'', pa_is_active = True,
     pa_uid = None, pa_gid = None, pa_home_directory = None, pa_default_shell = None, pa_source = AdminManualRegister,
     pa_created_by_user_id = None, pa_notes = None, pa_last_seen_at = None\<rparr>"

definition sc_db :: "reservation list \<Rightarrow> int \<Rightarrow> db" where
  "sc_db rs next = \<lparr>d_users = [1 \<mapsto> sc_user 1, 2 \<mapsto> sc_user 2, 9 \<mapsto> sc_user 9], d_servers = [1 \<mapsto> sc_server],
     d_gpus = [1 \<mapsto> sc_gpu 1, 2 \<mapsto> sc_gpu 2], d_gpu_ids = [1, 2], d_pas = [1 \<mapsto> sc_pa 1, 2 \<mapsto> sc_pa 2],
     d_links = [1 \<mapsto> sc_link 1, 2 \<mapsto> sc_link 2], d_link_ids = [1, 2], d_grants = [],
     d_reservations = rs, d_next_reservation = next, d_audit = [], d_next_audit = 1,
     d_notifications = [], d_next_notification = 1,
     d_user_ids = [1, 2, 9],
     d_ssh_keys = [], d_next_ssh_key = 1, d_key_entries = [], d_next_key_entry = 1, d_link_requests = [],
     d_next_link_request = 1, d_setup_tokens = [], d_next_setup_token = 1, d_invites = [], d_next_invite = 1,
     d_next_link = 3, d_pa_ids = [1, 2], d_next_user = 10,
     d_server_ids = [1], d_next_server = 2, d_enrollments = [], d_next_enrollment = 1, d_capabilities = [],
     d_next_capability = 1, d_next_grant = 1, d_next_gpu = 3, d_next_pa = 3,
     d_policies = [], d_next_policy = 1, d_alerts = [], d_next_alert = 1, d_labs = [\<lparr>lab_id = 1, lab_name = [], lab_slug = ''lab'', lab_public_urls = []\<rparr>], d_next_lab = 2\<rparr>"

text \<open>A reservation of one GPU from hour \<open>a\<close> to hour \<open>b\<close>.\<close>

definition sc_res :: "int \<Rightarrow> int \<Rightarrow> int \<Rightarrow> int \<Rightarrow> int \<Rightarrow> res_status \<Rightarrow> reservation" where
  "sc_res i usr g a b st = \<lparr>r_id = i, r_user_id = usr, r_server_id = 1, r_gpu_id = Some g, r_account_link_id = usr,
     r_group_id = Some ''grp'', r_start_at = a * hour, r_end_at = b * hour, r_status = st,
     r_gpu_memory_mb = None, r_gpu_compute_share_pct = None, r_script = None,
     r_script_scheduled_start_at = None, r_script_max_runtime_seconds = None,
     r_script_started_at = None, r_script_finished_at = None, r_script_exit_code = None,
     r_script_output_size_bytes = None, r_script_log_path = None, r_script_log_tail_text = None,
     r_script_log_tail_truncated = False, r_script_status = None, r_script_dispatch_started_at = None,
     r_created_at = 0, r_cancelled_at = None, r_cancelled_by_user_id = None, r_cancellation_reason = None\<rparr>"

text \<open>One whose script is due at its start.\<close>

definition sc_script :: "int \<Rightarrow> int \<Rightarrow> int \<Rightarrow> int \<Rightarrow> int \<Rightarrow> res_status \<Rightarrow> reservation" where
  "sc_script i usr g a b st = (sc_res i usr g a b st)\<lparr>r_script := Some [101, 99, 104, 111],
     r_script_scheduled_start_at := Some (a * hour)\<rparr>"

definition sc_item :: "int \<Rightarrow> int \<Rightarrow> int \<Rightarrow> int \<Rightarrow> item_draft" where
  "sc_item g link a b = \<lparr>it_server_id = 1, it_gpu_id = Some g, it_start_at = dt_utc (a * hour),
     it_end_at = dt_utc (b * hour), it_account_link_id = link, it_gpu_memory_mb = None,
     it_gpu_compute_share_pct = None\<rparr>"

definition sc_create :: "item_draft list \<Rightarrow> reservation_create_request" where
  "sc_create items = \<lparr>cq_items = items, cq_script = None, cq_script_scheduled_start_at = None,
     cq_script_max_runtime_seconds = None, cq_share_script = True\<rparr>"

definition no_change :: modify_args where
  "no_change = \<lparr>mo_start_at = None, mo_end_at = None, mo_script = None, mo_script_scheduled_start_at = None,
     mo_script_max_runtime_seconds = None\<rparr>"

lemmas sc_defs = sc_db_def sc_res_def sc_script_def sc_user_def sc_server_def sc_gpu_def sc_link_def sc_pa_def
  sc_item_def sc_create_def no_change_def hour_def

lemmas row_ok_defs = db_ok_def db_wf_def res_row_ok_def ck_res_time_order_def ck_res_script_time_def
  ck_res_compute_pct_def unsigned_int_col_def signed_int_col_def varchar_col_def char_count_def text_col_def utf8_len_def utf8_width_def dispatch_has_script_def

text \<open>Capacity of a table with no two rows on one GPU at one time.\<close>

lemma capacity_no_overlap:
  assumes "sorted_wrt (\<lambda>a b. \<not> rows_contend a b) (filter (\<lambda>r. active_status (r_status r)) (d_reservations d))"
  shows "capacity_ok d"
proof -
  have "length (live_on rs g t) \<le> 1"
    if "sorted_wrt (\<lambda>a b. \<not> rows_contend a b) (filter (\<lambda>r. active_status (r_status r)) rs)" for rs g t
    using that
  proof (induction rs)
    case (Cons r rs)
    show ?case
    proof (cases "occupies g r \<and> covers t r")
      case True
      then have "live_on rs g t = []"
        using Cons.prems by (fastforce simp: live_on_def filter_empty_conv occupies_def covers_def rows_contend_def)
      then show ?thesis by (simp add: live_on_def)
    next
      case False
      with Cons show ?thesis by (auto simp: live_on_def split: if_splits)
    qed
  qed (simp add: live_on_def)
  with assms show ?thesis by (simp add: capacity_ok_def slot_ok_def)
qed

text \<open>Two exclusive rows at one instant exceed it.\<close>

lemma capacity_broken: "length (live_on (d_reservations d) g t) = 2 \<Longrightarrow>
    \<not> (\<forall>r \<in> set (live_on (d_reservations d) g t). shared_row r) \<Longrightarrow> \<not> capacity_ok d"
  unfolding capacity_ok_def slot_ok_def by (metis numeral_le_one_iff semiring_norm(69))

end
