(* ===== verification/Guarantees_Booking.thy ===== *)
theory Guarantees_Booking
  imports Scenario
begin

text \<open>
  The guarantees of the booking component, stated over the service operations and the endpoints,
  each with the numbers of \<open>Scenario\<close> as its instance.
\<close>

section \<open>Creating\<close>


definition sc_batch :: "(res_error + (string \<times> reservation list)) \<times> session" where
  "sc_batch = create_reservation_batch [sc_item 1 1 1 3, sc_item 1 1 3 4, sc_item 2 1 1 3] 1 1 None None None True
     (dt_utc 0) ''g'' no_ctx (open_session (sc_db [sc_res 1 2 1 4 5 Scheduled] 2) 0)"

lemma sc_batch_accepted: "\<exists>g rows s'. sc_batch = (Inr (g, rows), s')"
proof -
  have "\<not> isl (fst sc_batch)" by code_simp
  from outcome_Inr[OF this] show ?thesis by auto
qed



text \<open>
  Creation is all or nothing: an error leaves the session as it was; a success appends one row
  per item, with consecutive fresh ids, and one audit row per item.
\<close>

theorem create_all_or_nothing:
  "case create_reservation_batch items u lab script sst mr share now gid ctx s of
     (Inl e, s') \<Rightarrow> s' = s
   | (Inr (g, rows), s') \<Rightarrow> g = gid \<and> reservations s' = reservations s @ rows
       \<and> map r_id rows = map (\<lambda>i. d_next_reservation (s_db s) + int i) [0..<length items]
       \<and> map au_action (d_audit (s_db s')) = map au_action (d_audit (s_db s))
           @ replicate (length items) ''reservation.create''"
proof (cases "create_reservation_batch items u lab script sst mr share now gid ctx s")
  case (Pair out s')
  show ?thesis
  proof (cases out)
    case (Inl e)
    with Pair create_Inl show ?thesis by simp
  next
    case (Inr gr)
    obtain g rows where "gr = (g, rows)" by (cases gr)
    with Pair Inr have c: "create_reservation_batch items u lab script sst mr share now gid ctx s = (Inr (g, rows), s')"
      by simp
    have "map r_id rows = map (\<lambda>i. d_next_reservation (s_db s) + int i) [0..<length items]"
      unfolding create_Inr(8)[OF c] by (simp add: batch_rows_def ids_with_ids)
    with create_tables[OF c] create_Inr(7)[OF c] c show ?thesis by simp
  qed
qed

text \<open>
  What the service has checked of every row it accepted: a time window that is positive, not
  more than five minutes in the past and within the server's limit, a verified active account
  link of the caller, and, without a GPU, a script and no share.
\<close>

theorem created_rows_checked:
  assumes "create_reservation_batch items u lab script sst mr share now gid ctx s = (Inr (g, rows), s')"
    and "item \<in> set items"
  shows "dt_wall (it_start_at item) < dt_wall (it_end_at item)
    \<and> dt_wall now - minutes 5 \<le> dt_wall (it_start_at item)
    \<and> (\<exists>sv. d_servers (s_db s) (it_server_id item) = Some sv
        \<and> (\<forall>mh. srv_max_reservation_hours sv = Some mh \<longrightarrow>
             dt_wall (it_end_at item) - dt_wall (it_start_at item) \<le> mh * 3600000000))
    \<and> (\<exists>l. d_links (s_db s) (it_account_link_id item) = Some l \<and> al_is_active l \<and> al_user_id l = u
        \<and> al_source l \<noteq> AdminDeclared)
    \<and> (it_gpu_id item = None \<longrightarrow> script \<noteq> None \<and> it_gpu_memory_mb item = None \<and> it_gpu_compute_share_pct item = None)"
proof -
  from create_Inr(4)[OF assms(1)] assms(2) obtain sv l where
    "validate_item_time s item now = Inr sv" "load_link_or_raise s (it_account_link_id item) u = Inr l"
    by (auto simp: check_items_Inr)
  then show ?thesis
    using create_Inr(3)[OF assms(1)] assms(2)
    by (auto simp: validate_item_time_Inr load_link_Inr check_mode3_Inr split: option.splits)
qed

theorem created_rows_checked_witness:
  "\<exists>l. d_links (sc_db [] 1) 1 = Some l \<and> al_is_active l \<and> al_user_id l = 1 \<and> al_source l \<noteq> AdminDeclared"
proof -
  obtain g rows s' where b: "sc_batch = (Inr (g, rows), s')" using sc_batch_accepted by blast
  have "sc_item 1 1 1 3 \<in> set [sc_item 1 1 1 3, sc_item 1 1 3 4, sc_item 2 1 1 3]" by simp
  from created_rows_checked[OF b[unfolded sc_batch_def] this] show ?thesis by (simp add: sc_db_def sc_item_def)
qed

text \<open>
  The items of one batch are checked against the booked rows only, not against each other: two
  exclusive items for one GPU and one time are both accepted, and the GPU is booked twice.
\<close>

theorem batch_not_checked_against_itself:
  "\<exists>d'. snd (end_request (sc_db [] 1) (create_reservations_ep (\<lambda>_. '''') (sc_user 1)
       (sc_create [sc_item 1 1 1 3, sc_item 1 1 1 3]) ''g'' no_ctx (open_session (sc_db [] 1) 0))) = d'
     \<and> length (live_on (d_reservations d') 1 (2 * hour)) = 2 \<and> \<not> capacity_ok d'"
proof -
  let ?d = "snd (end_request (sc_db [] 1) (create_reservations_ep (\<lambda>_. '''') (sc_user 1)
       (sc_create [sc_item 1 1 1 3, sc_item 1 1 1 3]) ''g'' no_ctx (open_session (sc_db [] 1) 0)))"
  have "length (live_on (d_reservations ?d) 1 (2 * hour)) = 2" by code_simp
  moreover have "\<not> list_all shared_row (live_on (d_reservations ?d) 1 (2 * hour))" by code_simp
  ultimately show ?thesis using capacity_broken[of ?d 1 "2 * hour"] by (simp add: list_all_iff)
qed

text \<open>
  An empty window is never a conflict, whatever is asked: a shared item that wants more memory
  than the GPU has is accepted.
\<close>

theorem oversized_share_accepted:
  "map r_gpu_memory_mb (d_reservations (snd (end_request (sc_db [] 1) (create_reservations_ep (\<lambda>_. '''') (sc_user 1)
     (sc_create [(sc_item 1 1 1 3)\<lparr>it_gpu_memory_mb := Some 9000\<rparr>]) ''g'' no_ctx (open_session (sc_db [] 1) 0)))))
   = [Some 9000] \<and> gpu_total (sc_db [] 1) 1 = 8000"
  by code_simp

text \<open>
  A creation request with an explicit UTC offset is stored by its wall clock and answered by
  its instant: what the response says is not what is stored.
\<close>

theorem offset_dropped:
  "let q = sc_create [(sc_item 1 1 1 3)\<lparr>it_start_at := \<lparr>dt_wall = 9 * hour, dt_off = Some (8 * hour)\<rparr>,
             it_end_at := \<lparr>dt_wall = 10 * hour, dt_off = Some (8 * hour)\<rparr>\<rparr>];
       out = end_request (sc_db [] 1) (create_reservations_ep (\<lambda>_. '''') (sc_user 1) q ''g'' no_ctx (open_session (sc_db [] 1) 0))
   in (case fst out of Inr (g, rows) \<Rightarrow> map r_start_at rows | Inl e \<Rightarrow> []) = [1 * hour]
      \<and> map r_start_at (d_reservations (snd out)) = [9 * hour]"
  by code_simp

section \<open>Previewing\<close>

text \<open>
  For a request in UTC, the preview of an item reports nothing exactly when the time check and
  the conflict check of the creation pass.
\<close>

theorem preview_agrees:
  assumes "utc_item item" and "dt_off now = Some 0"
  shows "(\<exists>tl. preview_item s now idx item = Inr ([], tl)) \<longleftrightarrow>
    (\<exists>sv. validate_item_time s item now = Inr sv) \<and> check_conflict s item = Inr ()"
  using assms by (rule preview_item_agrees)

theorem preview_agrees_witness:
  "(\<exists>tl. preview_item (open_session (sc_db [] 1) 0) (dt_utc 0) 0 (sc_item 1 1 1 3) = Inr ([], tl)) \<longleftrightarrow>
    (\<exists>sv. validate_item_time (open_session (sc_db [] 1) 0) (sc_item 1 1 1 3) (dt_utc 0) = Inr sv)
    \<and> check_conflict (open_session (sc_db [] 1) 0) (sc_item 1 1 1 3) = Inr ()"
  by (rule preview_agrees) (simp_all add: utc_item_def sc_item_def dt_utc_def)

section \<open>Modifying\<close>

text \<open>
  A modification the service accepts keeps every GPU within capacity.
\<close>

theorem modification_within_capacity:
  assumes "modify_reservation rid actor a lab now ctx s = (Inr row', s')"
    and "db_wf (s_db s)" and "capacity_ok (s_db s)"
  shows "capacity_ok (s_db s')"
  using assms by (rule modify_capacity)

definition sc_two :: db where
  "sc_two = sc_db [sc_res 1 1 1 1 2 Scheduled, sc_res 2 2 1 3 4 Scheduled] 3"

lemma sc_two_ok: "db_ok sc_two" "capacity_ok sc_two"
proof -
  show "db_ok sc_two" by code_simp
  have "sorted_wrt (\<lambda>a b. \<not> rows_contend a b) (filter (\<lambda>r. active_status (r_status r)) (d_reservations sc_two))"
    by (simp add: sc_two_def sc_defs rows_contend_def)
  then show "capacity_ok sc_two" by (rule capacity_no_overlap)
qed

definition sc_stretch :: "int \<Rightarrow> modify_args" where
  "sc_stretch b = no_change\<lparr>mo_end_at := Some (dt_utc (b * hour))\<rparr>"

theorem modification_within_capacity_witness:
  "\<exists>row' s'. modify_reservation 1 1 (sc_stretch 3) 1 (dt_utc 0) no_ctx (open_session sc_two 0) = (Inr row', s')
     \<and> capacity_ok (s_db s')"
proof -
  let ?m = "modify_reservation 1 1 (sc_stretch 3) 1 (dt_utc 0) no_ctx (open_session sc_two 0)"
  have "\<not> isl (fst ?m)" by code_simp
  from outcome_Inr[OF this] obtain row' s' where m: "?m = (Inr row', s')" by blast
  have "capacity_ok (s_db s')"
    by (rule modification_within_capacity[OF m]) (use sc_two_ok in \<open>simp_all add: db_ok_def\<close>)
  with m show ?thesis by blast
qed

text \<open>
  A modification changes the caller's own scheduled row and nothing else, and only the columns
  the request names; on an error the tables are as they were before (the session may not be).
\<close>

theorem modification_frame:
  "case modify_reservation rid actor a lab now ctx s of
     (Inr row', s') \<Rightarrow> (\<exists>row. get_reservation s rid = Some row \<and> r_status row = Scheduled \<and> r_user_id row = actor
        \<and> row' = modified_row a row \<and> reservations s' = row_put r_id row' (reservations s)
        \<and> same_tables s s' \<and> res_row_ok row')
   | (Inl e, s') \<Rightarrow> s_db s' = s_db s \<and> s_pushes s' = s_pushes s"
proof (cases "modify_reservation rid actor a lab now ctx s")
  case (Pair out s')
  then show ?thesis
  proof (cases out)
    case (Inl e)
    with Pair modify_Inl show ?thesis by auto
  next
    case (Inr row')
    with Pair have "modify_reservation rid actor a lab now ctx s = (Inr row', s')" by simp
    from modify_writes[OF this] Pair Inr show ?thesis by (auto simp: writes_row_def)
  qed
qed

text \<open>
  A PATCH whose new times are refused is stored all the same: the service has already assigned
  them to the row, the error becomes an HTTP error, and the request session commits after an HTTP
  error. The answer is the error, the table has the refused times.
\<close>

theorem refused_patch_is_stored:
  assumes row: "get_reservation s rid = Some row" "r_status row = Scheduled" "r_user_id row = u_id u"
    and knobs: "mo_script_scheduled_start_at a = None" "mo_script_max_runtime_seconds a = None"
    and refused: "retimed a" "modify_time_check s (timed_row a row) (new_start a row) (new_end a row) (dt_utc (s_clock s)) = Inl e"
      "is_reservation_error e"
    and table: "res_row_ok (timed_row a row)"
  shows "end_request (s_db s) (modify_reservation_ep str u rid a ctx s) =
    (Inl (map_service_error str e), db_update_res (timed_row a row) (s_db s))"
proof -
  obtain c b where h: "map_service_error str e = HttpException c b" using map_service_error_http by blast
  have "modify_reservation rid (u_id u) a (u_lab_id u) (dt_utc (s_clock s)) ctx s =
      (Inl e, s\<lparr>s_dirty := Some (timed_row a row)\<rparr>)"
    using row knobs refused by (simp add: modify_reservation_def Let_def)
  then show ?thesis
    using table refused(3) h by (simp add: modify_reservation_ep_def service_error_def end_request_dirty)
qed

theorem refused_patch_is_stored_witness:
  "end_request sc_two (modify_reservation_ep (\<lambda>_. '''') (sc_user 1) 1 (sc_stretch 4) no_ctx (open_session sc_two 0)) =
     (Inl (HttpException 409 (conflict_detail ''RESERVATION_OVERLAP'' [(''conflicting_reservation_ids'', ids_json [2])])),
      db_update_res ((sc_res 1 1 1 1 2 Scheduled)\<lparr>r_end_at := 4 * hour\<rparr>) sc_two)
   \<and> capacity_ok sc_two
   \<and> \<not> capacity_ok (db_update_res ((sc_res 1 1 1 1 2 Scheduled)\<lparr>r_end_at := 4 * hour\<rparr>) sc_two)"
proof -
  let ?row = "sc_res 1 1 1 1 2 Scheduled"
  let ?s = "open_session sc_two 0"
  let ?a = "sc_stretch 4"
  have t: "timed_row ?a ?row = ?row\<lparr>r_end_at := 4 * hour\<rparr>"
    by (simp add: timed_row_def sc_stretch_def no_change_def new_start_def new_end_def opt_else_def sc_res_def)
  have "end_request (s_db ?s) (modify_reservation_ep (\<lambda>_. '''') (sc_user 1) 1 ?a no_ctx ?s) =
      (Inl (map_service_error (\<lambda>_. '''') (ReservationOverlapError [2])), db_update_res (timed_row ?a ?row) (s_db ?s))"
  proof (rule refused_patch_is_stored)
    show "get_reservation ?s 1 = Some ?row" by code_simp
    show "modify_time_check ?s (timed_row ?a ?row) (new_start ?a ?row) (new_end ?a ?row) (dt_utc (s_clock ?s))
        = Inl (ReservationOverlapError [2])" by code_simp
    show "res_row_ok (timed_row ?a ?row)" by code_simp
  qed (simp_all add: sc_defs sc_stretch_def retimed_def)
  moreover have "\<not> capacity_ok (db_update_res (?row\<lparr>r_end_at := 4 * hour\<rparr>) sc_two)"
  proof (rule capacity_broken)
    show "length (live_on (d_reservations (db_update_res (?row\<lparr>r_end_at := 4 * hour\<rparr>) sc_two)) 1 (3 * hour)) = 2"
      by code_simp
    have "\<not> list_all shared_row (live_on (d_reservations (db_update_res (?row\<lparr>r_end_at := 4 * hour\<rparr>) sc_two)) 1 (3 * hour))"
      by code_simp
    then show "\<not> (\<forall>r \<in> set (live_on (d_reservations (db_update_res (?row\<lparr>r_end_at := 4 * hour\<rparr>) sc_two)) 1 (3 * hour)).
        shared_row r)" by (simp add: list_all_iff)
  qed
  ultimately show ?thesis using sc_two_ok by (simp add: t)
qed

end
