(* ===== verification/Guarantees_Lifecycle.thy ===== *)
theory Guarantees_Lifecycle
  imports Scenario
begin

text \<open>
  The guarantees of the life cycle of a reservation: cancellation, the scheduler's tick, the script
  handlers and the cancellation of a running script.
\<close>

section \<open>Cancelling\<close>

text \<open>
  Cancellation is guarded: it succeeds only on a scheduled or active row, only for its owner or
  an administrator, and then replaces exactly that row by its cancelled form; an error leaves the
  tables as they were.
\<close>

theorem cancellation_guarded:
  "case cancel_reservation rid actor can_admin reason lab ctx s of
     (Inr row', s') \<Rightarrow> (\<exists>row. get_reservation s rid = Some row \<and> active_status (r_status row)
        \<and> (can_admin \<or> r_user_id row = actor) \<and> row' = cancelled_row (s_clock s) actor reason row
        \<and> reservations s' = row_put r_id row' (reservations s) \<and> same_tables s s')
   | (Inl e, s') \<Rightarrow> s_db s' = s_db s \<and> s_pushes s' = s_pushes s"
proof (cases "cancel_reservation rid actor can_admin reason lab ctx s")
  case (Pair out s')
  then show ?thesis
  proof (cases out)
    case (Inl e)
    with Pair cancel_Inl show ?thesis by auto
  next
    case (Inr row')
    with Pair have "cancel_reservation rid actor can_admin reason lab ctx s = (Inr row', s')" by simp
    from cancel_Inr[OF this] Pair Inr show ?thesis by (auto simp: writes_row_def)
  qed
qed

text \<open>
  Cancelling a group is the cancellation of every live row of the group and of no other row, in
  one transaction; it is refused when one of them has a running script, and the permission is that
  of the first row.
\<close>

theorem group_cancellation:
  assumes "cancel_group gid actor can_admin reason lab ctx s = (Inr rows', s')" and "db_wf (s_db s)"
  shows "reservations s' = map (\<lambda>r. if in_group gid r then cancelled_row (s_clock s) actor reason r else r) (reservations s)
    \<and> rows' = map (cancelled_row (s_clock s) actor reason) (filter (in_group gid) (reservations s)) \<and> rows' \<noteq> []
    \<and> (\<forall>r \<in> set (reservations s). in_group gid r \<longrightarrow> \<not> script_running_row r)
    \<and> (can_admin \<or> r_user_id (hd rows') = actor)"
  using cancel_group_Inr[OF assms] by blast

definition sc_group :: db where
  "sc_group = sc_db [sc_res 1 1 1 1 2 Scheduled, sc_res 2 1 2 1 2 Scheduled, sc_res 3 1 1 3 4 Completed] 4"

theorem group_cancellation_witness:
  "\<exists>rows' s'. cancel_group ''grp'' 1 False None 1 no_ctx (open_session sc_group 0) = (Inr rows', s')
     \<and> map r_status (reservations s') = [Cancelled, Cancelled, Completed]"
proof -
  let ?m = "cancel_group ''grp'' 1 False None 1 no_ctx (open_session sc_group 0)"
  have "\<not> isl (fst ?m)" by code_simp
  from outcome_Inr[OF this] obtain rows' s' where m: "?m = (Inr rows', s')" by blast
  have "db_ok sc_group" by code_simp
  then have wf: "db_wf (s_db (open_session sc_group 0))" by (simp add: db_ok_def)
  have "map r_status (reservations s') = [Cancelled, Cancelled, Completed]"
    using group_cancellation[OF m wf]
    by (simp add: sc_group_def sc_db_def sc_res_def in_group_def reservations_def)
  with m show ?thesis by (intro exI[of _ rows'] exI[of _ s']) simp
qed

section \<open>The log tail\<close>

text \<open>
  The stored log tail is a suffix of all the text received, never longer than the cap, and it
  is shorter than that text only when it has exactly the length of the cap and is marked truncated.
\<close>

theorem log_tail_bounded:
  assumes "0 < m"
  shows "\<exists>out. r_script_log_tail_text (tail_row t m row) = Some out \<and> length out \<le> m
     \<and> suffix out (opt_else (r_script_log_tail_text row) [] @ t)
     \<and> (length out < length (opt_else (r_script_log_tail_text row) [] @ t)
          \<longrightarrow> length out = m \<and> r_script_log_tail_truncated (tail_row t m row))"
  using assms by (rule tail_row_text)

theorem log_tail_bounded_witness:
  "\<exists>out. r_script_log_tail_text (tail_row [1, 2, 3] 2 (sc_res 1 1 1 1 2 Active)) = Some out \<and> length out \<le> 2"
  using log_tail_bounded[of 2 "[1, 2, 3]" "sc_res 1 1 1 1 2 Active"] by auto

text \<open>
  The cap counts characters and the column bytes: a tail that would have to be cut never fits
  the column, so the append that should truncate fails instead, whatever the text.
\<close>

theorem truncation_fails:
  assumes "length (opt_else (r_script_log_tail_text row) [] @ t) > SCRIPT_LOG_TAIL_MAX_CHARS" and "res_row_ok row"
  shows "append_script_log_tail row t SCRIPT_LOG_TAIL_MAX_CHARS s = Inl DbFlushError"
  using assms by (rule truncation_never_stored)

theorem truncation_fails_witness:
  "append_script_log_tail (sc_res 1 1 1 1 2 Active) (replicate 65537 120) SCRIPT_LOG_TAIL_MAX_CHARS
     (open_session (sc_db [] 1) 0) = Inl DbFlushError"
proof (rule truncation_fails)
  show "SCRIPT_LOG_TAIL_MAX_CHARS
      < length (opt_else (r_script_log_tail_text (sc_res 1 1 1 1 2 Active)) [] @ replicate 65537 120)"
    by (simp add: SCRIPT_LOG_TAIL_MAX_CHARS_def)
  show "res_row_ok (sc_res 1 1 1 1 2 Active)" by code_simp
qed

section \<open>The tick\<close>

text \<open>
  C4. On a legal database the tick never fails, and its effect on the table is one function applied
  to every row (\<open>tick_row\<close>): promote, close, mark as dispatched, and the watchdog. The scripts it
  queues are those of the rows it marked. The database stays legal.
\<close>

theorem tick_refines:
  assumes "db_ok d"
  shows "\<exists>(c :: watchdog_counts) s'. tick_body (open_session d now) =
      Inr ((concat (map (row_rpc (open_session d now)) (filter (\<lambda>r. due_script now r \<and> dispatchable (open_session d now) r)
             (map (settled_row (open_session d now) now) (d_reservations d)))), wc_pending c), s')
    \<and> d_reservations (s_db s') = map (tick_row (open_session d now) now) (d_reservations d)
    \<and> same_tables (open_session d now) s' \<and> db_ok (s_db s')"
proof -
  let ?s = "open_session d now"
  have ok: "db_ok (s_db ?s)" and now: "now = s_clock ?s" using assms by simp_all
  obtain c :: watchdog_counts and s' where t: "tick_body ?s = Inr ((concat (map (row_rpc ?s)
      (filter (\<lambda>r. due_script now r \<and> dispatchable ?s r) (map (settled_row ?s now) (reservations ?s)))), wc_pending c), s')"
    "reservations s' = map (tick_row ?s now) (reservations ?s)" "keeps ?s s'" "db_ok (s_db s')"
    using tick_body_runs[OF ok now] by blast
  then show ?thesis by (intro exI[of _ c] exI[of _ s']) (simp add: reservations_def keeps_def)
qed

definition sc_due :: db where
  "sc_due = sc_db [sc_script 1 1 1 1 3 Scheduled, sc_res 2 2 2 1 2 Active, sc_res 3 2 1 4 5 Scheduled] 4"

lemma sc_due_ok: "db_ok sc_due"
  by (simp add: sc_due_def sc_defs row_ok_defs)

theorem tick_refines_witness:
  "\<exists>x s'. tick_body (open_session sc_due (2 * hour)) = Inr (x, s')
     \<and> map (\<lambda>r. (r_status r, r_script_status r)) (d_reservations (s_db s'))
       = [(Active, Some S_Running), (Completed, None), (Scheduled, None)]"
proof -
  obtain x s' where t: "tick_body (open_session sc_due (2 * hour)) = Inr (x, s')"
    "d_reservations (s_db s') = map (tick_row (open_session sc_due (2 * hour)) (2 * hour)) (d_reservations sc_due)"
    using tick_refines[OF sc_due_ok, of "2 * hour"] by blast
  have "map (\<lambda>r. (r_status r, r_script_status r))
      (map (tick_row (open_session sc_due (2 * hour)) (2 * hour)) (d_reservations sc_due))
      = [(Active, Some S_Running), (Completed, None), (Scheduled, None)]" by code_simp
  with t show ?thesis by auto
qed

text \<open>
  C6. A tick leaves nothing due behind: afterwards no row of a known server is still scheduled past
  its start or still active past its end.
\<close>

theorem nothing_due_after_tick:
  assumes "db_ok d"
  shows "\<exists>x s'. tick_body (open_session d now) = Inr (x, s')
    \<and> (\<forall>r \<in> set (d_reservations (s_db s')). d_servers d (r_server_id r) \<noteq> None \<longrightarrow>
         \<not> due_scheduled now r \<and> \<not> due_active now r)"
proof -
  let ?s = "open_session d now"
  have ok: "db_ok (s_db ?s)" and now: "now = s_clock ?s" using assms by simp_all
  obtain x s' where t: "tick_body ?s = Inr (x, s')" "reservations s' = map (tick_row ?s now) (reservations ?s)"
    using tick_body_runs[OF ok now] by blast
  have "\<not> due_scheduled now r \<and> \<not> due_active now r"
    if r: "r \<in> set (reservations s')" and known: "d_servers d (r_server_id r) \<noteq> None" for r
  proof -
    from r t(2) obtain r0 where "r = tick_row ?s now r0" by auto
    with known have "r = tick_row ?s now r0" "known_server ?s r0"
      by (auto simp: known_server_def server_lab_id_def)
    then show ?thesis using tick_row_settled by blast
  qed
  with t(1) show ?thesis unfolding reservations_def by blast
qed

theorem nothing_due_after_tick_witness:
  "\<exists>x s'. tick_body (open_session sc_due (2 * hour)) = Inr (x, s')
     \<and> (\<forall>r \<in> set (d_reservations (s_db s')). d_servers sc_due (r_server_id r) \<noteq> None \<longrightarrow>
         \<not> due_scheduled (2 * hour) r \<and> \<not> due_active (2 * hour) r)"
  by (rule nothing_due_after_tick[OF sc_due_ok])

text \<open>
  C5. A script is queued for its first dispatch at most once: what one tick queued, no later tick
  queues again, whatever legal development the database went through in between.
\<close>

theorem dispatched_at_most_once:
  assumes "db_ok d" and "tick_body (open_session d now) = Inr ((pd, pr), s1)"
    and "develops (s_db s1) d2" and "db_ok d2" and "tick_body (open_session d2 later) = Inr ((pd2, pr2), s3)"
  shows "fst ` set pd \<inter> fst ` set pd2 = {}"
  using dispatched_once[of "open_session d now" pd pr s1 "open_session d2 later" pd2 pr2 s3] assms by simp

theorem dispatched_at_most_once_witness:
  "\<exists>pd pr s1 pd2 pr2 s3. tick_body (open_session sc_due (2 * hour)) = Inr ((pd, pr), s1) \<and> map fst pd = [1]
     \<and> tick_body (open_session (s_db s1) (2 * hour + 1)) = Inr ((pd2, pr2), s3) \<and> 1 \<notin> fst ` set pd2"
proof -
  let ?s = "open_session sc_due (2 * hour)"
  obtain pr s1 where t1: "tick_body ?s = Inr ((concat (map (row_rpc ?s)
      (filter (\<lambda>r. due_script (2 * hour) r \<and> dispatchable ?s r) (map (settled_row ?s (2 * hour)) (d_reservations sc_due)))), pr), s1)"
    and ok1: "db_ok (s_db s1)"
    using tick_body_runs[of ?s "2 * hour"] sc_due_ok by (auto simp: reservations_def)
  have ids: "map fst (concat (map (row_rpc ?s)
      (filter (\<lambda>r. due_script (2 * hour) r \<and> dispatchable ?s r) (map (settled_row ?s (2 * hour)) (d_reservations sc_due))))) = [1]"
    by code_simp
  obtain pd2 pr2 s3 where t2: "tick_body (open_session (s_db s1) (2 * hour + 1)) = Inr ((pd2, pr2), s3)"
    using tick_body_runs[of "open_session (s_db s1) (2 * hour + 1)" "2 * hour + 1"] ok1 by auto
  let ?pd = "concat (map (row_rpc ?s)
      (filter (\<lambda>r. due_script (2 * hour) r \<and> dispatchable ?s r) (map (settled_row ?s (2 * hour)) (d_reservations sc_due))))"
  have "1 \<in> fst ` set ?pd" using ids by (metis list.set_intros(1) list.set_map)
  moreover have "fst ` set ?pd \<inter> fst ` set pd2 = {}"
    by (rule dispatched_at_most_once[OF sc_due_ok t1 develops_refl ok1 t2])
  ultimately have "1 \<notin> fst ` set pd2" by blast
  with t1 ids t2 show ?thesis
    by (intro exI[of _ ?pd] exI[of _ pr] exI[of _ s1] exI[of _ pd2] exI[of _ pr2] exI[of _ s3] conjI)
qed

text \<open>
  A reservation whose whole window passed between two ticks is promoted and closed in one tick,
  before the dispatch phase: it ends as completed although its script never ran.
\<close>

theorem missed_window_completes:
  assumes "known_server s r" "r_status r = Scheduled" "r_start_at r \<le> now" "r_end_at r \<le> now" "r_script_status r = None"
  shows "r_status (tick_row s now r) = Completed \<and> r_script_status (tick_row s now r) = None"
  using assms by (rule tick_row_missed)

theorem missed_window_completes_witness:
  "r_status (tick_row (open_session sc_due (3 * hour)) (3 * hour) (sc_script 1 1 1 1 3 Scheduled)) = Completed
     \<and> r_script_status (tick_row (open_session sc_due (3 * hour)) (3 * hour) (sc_script 1 1 1 1 3 Scheduled)) = None"
  by (rule missed_window_completes) (code_simp, code_simp, code_simp, code_simp, code_simp)

section \<open>The watchdog\<close>

text \<open>
  The watchdog gives up: a dispatch that has been waiting for more than a minute with three
  recorded failures and no reported start fails the reservation.
\<close>

theorem watchdog_fails_after_three:
  assumes "stuck_dispatch now r" "now < r_end_at r" "known_server s r" "\<not> lifecycle_started_seen s (r_id r)"
    "count_dispatch_failures s (r_id r) \<ge> WATCHDOG_MAX_DISPATCH_ATTEMPTS"
  shows "tick_row s now r = failed_row giveup_reason r"
  using assms by (rule watchdog_gives_up)

definition sc_stuck :: reservation where
  "sc_stuck = (sc_script 1 1 1 1 5 Active)\<lparr>r_script_status := Some S_Running,
     r_script_dispatch_started_at := Some (1 * hour)\<rparr>"

definition sc_failures :: "nat \<Rightarrow> session" where
  "sc_failures n = (dispatch_one (\<lambda>_. '''') 1 1 (AgentOffline '''') ^^ n) (open_session (sc_db [sc_stuck] 2) (2 * hour))"

theorem watchdog_fails_after_three_witness:
  "tick_row (sc_failures 3) (2 * hour) sc_stuck = failed_row giveup_reason sc_stuck"
proof (rule watchdog_fails_after_three)
  show "stuck_dispatch (2 * hour) sc_stuck" "2 * hour < r_end_at sc_stuck" by code_simp+
  show "known_server (sc_failures 3) sc_stuck" by code_simp
  show "\<not> lifecycle_started_seen (sc_failures 3) (r_id sc_stuck)" by code_simp
  have "count_dispatch_failures (sc_failures 0) 1 = 0" by code_simp
  then have "count_dispatch_failures (sc_failures n) 1 = n" for n
    by (induction n) (simp_all add: sc_failures_def dispatch_one_trail dispatch_accepted_def)
  then show "count_dispatch_failures (sc_failures 3) (r_id sc_stuck) \<ge> WATCHDOG_MAX_DISPATCH_ATTEMPTS"
    by (simp add: WATCHDOG_MAX_DISPATCH_ATTEMPTS_def sc_stuck_def sc_script_def sc_res_def)
qed

text \<open>
  Only recorded failures count towards giving up: a dispatch the agent accepts without ever
  reporting a start is sent again at every pass, and its timer restarted, however often it was
  retried before.
\<close>

theorem watchdog_retries_without_bound:
  assumes "stuck_dispatch now r" "now < r_end_at r" "dispatchable s r" "\<not> lifecycle_started_seen s (r_id r)"
    "count_dispatch_failures s (r_id r) < WATCHDOG_MAX_DISPATCH_ATTEMPTS"
  shows "tick_row s now r = r\<lparr>r_script_dispatch_started_at := Some now\<rparr>"
  using assms by (rule watchdog_retries)

theorem watchdog_retries_without_bound_witness:
  "tick_row ((audit_write (retry_audit sc_stuck 1 0 0) ^^ 2) (sc_failures 0)) (2 * hour) sc_stuck
     = sc_stuck\<lparr>r_script_dispatch_started_at := Some (2 * hour)\<rparr>"
proof (rule watchdog_retries_without_bound)
  let ?s = "(audit_write (retry_audit sc_stuck 1 0 0) ^^ 2) (sc_failures 0)"
  show "stuck_dispatch (2 * hour) sc_stuck" "2 * hour < r_end_at sc_stuck" by code_simp+
  show "dispatchable ?s sc_stuck" by code_simp
  have "\<not> lifecycle_started_seen (sc_failures 0) 1 \<and> count_dispatch_failures (sc_failures 0) 1 = 0" by code_simp
  then have "\<not> lifecycle_started_seen ?s 1" "count_dispatch_failures ?s 1 = 0"
    by (simp_all add: lifecycle_started_seen_def count_dispatch_failures_def row_simps numeral_eq_Suc
        about_reservation_def retry_audit_def audit_of_def)
  then show "\<not> lifecycle_started_seen ?s (r_id sc_stuck)"
    "count_dispatch_failures ?s (r_id sc_stuck) < WATCHDOG_MAX_DISPATCH_ATTEMPTS"
    by (simp_all add: WATCHDOG_MAX_DISPATCH_ATTEMPTS_def sc_stuck_def sc_script_def sc_res_def)
qed

text \<open>
  The RPC of a dispatch records exactly one failure when the agent is unreachable or does not
  answer ok and started, none when it accepts, and touches no reservation.
\<close>

theorem dispatch_failure_recorded:
  "count_dispatch_failures (dispatch_one py_str rid sid out s) i = count_dispatch_failures s i
     + (if i = rid \<and> \<not> dispatch_accepted out \<and> out \<noteq> RpcOtherError then 1 else 0)
   \<and> reservations (dispatch_one py_str rid sid out s) = reservations s"
  by (simp add: dispatch_one_trail dispatch_one_frame)

section \<open>The deadlock retry\<close>

text \<open>
  C7. The deadlock middleware runs the body again as long as it ends in a deadlock, at most \<open>m\<close>
  times, and returns the first other outcome, or the last deadlock. It sleeps \<open>b * 2 ^ j\<close> between
  attempts, so less than \<open>b * 2 ^ (m - 1)\<close> in total.
\<close>

theorem deadlock_retry:
  assumes "0 < m" and "0 < b"
  shows "\<exists>k < m. (\<forall>j < k. deadlocked (fst (coro (nth_state coro st j))))
    \<and> (\<not> deadlocked (fst (coro (nth_state coro st k))) \<or> k = m - 1)
    \<and> with_serializable_retry coro m b st =
        (fst (coro (nth_state coro st k)), nth_state coro st (Suc k), map (\<lambda>j. b * 2 ^ j) [0..<k])
    \<and> sum_list (map (\<lambda>j. b * 2 ^ j) [0..<k]) < b * 2 ^ (m - 1)"
proof -
  obtain k where k: "k < m" "\<forall>j < k. deadlocked (fst (coro (nth_state coro st j)))"
    "\<not> deadlocked (fst (coro (nth_state coro st k))) \<or> k = m - 1"
    using retry_index_exists[OF assms(1), of coro st] by auto
  have "with_serializable_retry coro m b st =
      (fst (coro (nth_state coro st k)), nth_state coro st (Suc k), map (\<lambda>j. b * 2 ^ j) [0..<k])"
    by (rule with_retry_spec) (use k in auto)
  moreover have le: "(2 :: rat) ^ k \<le> 2 ^ (m - 1)" using k(1) by (intro power_increasing) auto
  have "b * (2 ^ k - 1) < b * 2 ^ (m - 1)"
    using assms(2) le by (intro mult_strict_left_mono) linarith+
  then have "sum_list (map (\<lambda>j. b * 2 ^ j) [0..<k]) < b * 2 ^ (m - 1)" by (simp only: sum_backoff)
  ultimately show ?thesis using k by blast
qed

definition sc_flaky :: "nat \<Rightarrow> (py_exc + nat) \<times> nat" where
  "sc_flaky n = (if n < 2 then Inl (OperationalError ''(1213, Deadlock found)'') else Inr n, n + 1)"

theorem deadlock_retry_witness:
  "\<exists>k < 5. with_serializable_retry sc_flaky 5 (1/20) 0 =
      (fst (sc_flaky (nth_state sc_flaky 0 k)), nth_state sc_flaky 0 (Suc k), map (\<lambda>j. 1/20 * 2 ^ j) [0..<k])
    \<and> sum_list (map (\<lambda>j. 1/20 * 2 ^ j) [0..<k]) < (1/20 :: rat) * 2 ^ (5 - 1 :: nat)"
proof -
  have "(0 :: nat) < 5" "(0 :: rat) < 1/20" by simp_all
  from deadlock_retry[OF this, of sc_flaky 0] obtain k where "k < 5"
    "with_serializable_retry sc_flaky 5 (1/20) 0 =
      (fst (sc_flaky (nth_state sc_flaky 0 k)), nth_state sc_flaky 0 (Suc k), map (\<lambda>j. 1/20 * 2 ^ j) [0..<k])"
    "sum_list (map (\<lambda>j. 1/20 * 2 ^ j) [0..<k]) < (1/20 :: rat) * 2 ^ (5 - 1 :: nat)"
    by (elim exE conjE)
  then show ?thesis by (intro exI[of _ k] conjI)
qed

section \<open>Script events\<close>

text \<open>
  The agent's acknowledgement of a dispatched script ends the watch: the dispatch timer is
  cleared and the started marker is in the log, so the row is no longer stuck at any time.
\<close>

theorem acknowledged_start:
  assumes "on_script_started p lab s = Inr s'" and "get_reservation s (ss_reservation_id p) = Some row"
    and "r_script_status row = Some S_Running"
  shows "lifecycle_started_seen s' (ss_reservation_id p)
    \<and> (\<exists>row'. get_reservation s' (ss_reservation_id p) = Some row' \<and> r_script_status row' = Some S_Running
         \<and> r_script_started_at row' \<noteq> None \<and> \<not> stuck_dispatch now row')"
proof -
  note ack = started_ack[OF assms]
  have "r_script_started_at (acked_row p row) \<noteq> None" by (auto simp: acked_row_def log_path_row_def Let_def)
  then show ?thesis using ack assms(3) by (auto simp: stuck_dispatch_def)
qed

definition sc_ack :: script_started_event where
  "sc_ack = \<lparr>ss_reservation_id = 1, ss_pid = 77, ss_started_at = dt_utc (2 * hour), ss_log_path = None\<rparr>"

theorem acknowledged_start_witness:
  "\<exists>s'. on_script_started sc_ack 1 (open_session (sc_db [sc_stuck] 2) (2 * hour)) = Inr s'
     \<and> lifecycle_started_seen s' 1"
proof -
  let ?s = "open_session (sc_db [sc_stuck] 2) (2 * hour)"
  have row: "get_reservation ?s (ss_reservation_id sc_ack) = Some sc_stuck" by code_simp
  have run: "r_script_status sc_stuck = Some S_Running" by code_simp
  have "res_row_ok sc_stuck" by (simp add: sc_stuck_def sc_defs row_ok_defs)
  then have "res_row_ok (acked_row sc_ack sc_stuck)" by (simp add: acked_row_ok sc_ack_def varchar_col_def)
  then have "\<exists>s'. on_script_started sc_ack 1 ?s = Inr s'"
    using row run by (simp add: on_script_started_def Let_def flush_res_def)
  then obtain s' where e: "on_script_started sc_ack 1 ?s = Inr s'" by blast
  from acknowledged_start[OF e row run, of 0] e show ?thesis by (auto simp: sc_ack_def)
qed

text \<open>
  The reason of a kill goes into the TEXT column of a notification. A longer one breaks the session behind the handler, which catches the
  error: that is outside of the model, where notifications are always written.
\<close>

definition notice_fits :: "script_finished_event \<Rightarrow> bool" where
  "notice_fits p \<longleftrightarrow> length (opt_else (sf_killed_reason p) []) \<le> 65000"

text \<open>
  C8. The handler of a finished event with a reason of at most 65,000 bytes, on a well-formed database. For an unknown reservation it changes nothing; a
  stale event (the script is not running) leaves the session as it is. For a running script it fails, and nothing is
  stored, exactly when a value it reports does not fit its column: an exit code that is no signed 32-bit number, a log of
  4 GiB or more (or of a negative size), a log path of more than 255 characters. Otherwise exactly that row is replaced by
  its legal successor: killed, completed or failed, as the event says, with the exit code and the size, and a waiting
  cancellation is woken exactly when the event reports a kill.
\<close>

theorem finished_event:
  assumes "db_wf (s_db s)" and "notice_fits p"
  shows "case get_reservation s (sf_reservation_id p) of
      None \<Rightarrow> on_script_finished p lab k s = Inr (k, s)
    | Some row \<Rightarrow>
        if r_script_status row \<noteq> Some S_Running
        then on_script_finished p lab k s = Inr (if sf_killed_by_corelab p then signal_lifecycle_kill (sf_reservation_id p) k else k, s)
        else if \<not> event_fits p then on_script_finished p lab k s = Inl DbFlushError
        else \<exists>s' row'. on_script_finished p lab k s
              = Inr (if sf_killed_by_corelab p then signal_lifecycle_kill (sf_reservation_id p) k else k, s')
          \<and> reservations s' = row_put r_id row' (reservations s) \<and> same_tables s s'
          \<and> row_evolves row row' \<and> r_status row' = r_status row \<and> r_script_status row' = Some (finished_status p)
          \<and> (sf_exit_code p \<noteq> None \<longrightarrow> r_script_exit_code row' = sf_exit_code p)
          \<and> (sf_output_size_bytes p \<noteq> 0 \<longrightarrow> r_script_output_size_bytes row' = Some (sf_output_size_bytes p))"
proof (cases "get_reservation s (sf_reservation_id p)")
  case None
  then show ?thesis by (simp add: finished_absent)
next
  case (Some row)
  consider "r_script_status row \<noteq> Some S_Running" | "r_script_status row = Some S_Running" "\<not> event_fits p"
    | "r_script_status row = Some S_Running" "event_fits p" by blast
  then show ?thesis
  proof cases
    case 3
    obtain k' s' where e: "on_script_finished p lab k s = Inr (k', s')"
      using finished_returns[OF assms(1) 3(2)] by blast
    have size: "sf_output_size_bytes p \<noteq> 0 \<longrightarrow> r_script_output_size_bytes (finished_row p row) = Some (sf_output_size_bytes p)"
      by (simp add: finished_row_def)
    from finished_running[OF Some 3(1) e] e Some 3 size show ?thesis
      by (auto simp: kill_seen_def writes_row_def intro!: exI[of _ "finished_row p row"] finished_row_legal)
  qed (use Some in \<open>simp_all add: finished_stale kill_seen_def finished_overflow[OF assms(1)]\<close>)
qed

definition sc_kill :: script_finished_event where
  "sc_kill = \<lparr>sf_reservation_id = 1, sf_exit_code = Some 137, sf_finished_at = dt_utc (2 * hour), sf_duration_seconds = 5,
     sf_output_size_bytes = 0, sf_log_path = None, sf_killed_by_corelab = True, sf_killed_reason = None\<rparr>"

definition no_kills :: kill_registry where
  "no_kills = \<lparr>kr_waiting = Map.empty, kr_set = {}, kr_next = 0\<rparr>"

theorem finished_event_witness:
  "on_script_finished (sc_kill\<lparr>sf_output_size_bytes := 2 ^ 32\<rparr>) 1 no_kills (open_session (sc_db [sc_stuck] 2) (2 * hour)) = Inl DbFlushError
   \<and> (\<exists>s' row'. on_script_finished sc_kill 1 no_kills (open_session (sc_db [sc_stuck] 2) (2 * hour))
        = Inr (signal_lifecycle_kill 1 no_kills, s')
     \<and> reservations s' = [row'] \<and> r_script_status row' = Some S_Killed \<and> r_script_exit_code row' = Some 137)"
proof -
  let ?s = "open_session (sc_db [sc_stuck] 2) (2 * hour)"
  have g: "get_reservation ?s (sf_reservation_id sc_kill) = Some sc_stuck" by code_simp
  have run: "r_script_status sc_stuck = Some S_Running" by (simp add: sc_stuck_def)
  have "res_row_ok sc_stuck" by (simp add: sc_stuck_def sc_defs row_ok_defs)
  then have "db_wf (s_db ?s)" by (simp add: db_wf_def sc_db_def sc_stuck_def sc_script_def sc_res_def)
  note wf = this
  let ?big = "sc_kill\<lparr>sf_output_size_bytes := 2 ^ 32\<rparr>"
  have short: "notice_fits sc_kill" "notice_fits ?big" by (simp_all add: notice_fits_def sc_kill_def opt_else_def)
  have "\<not> event_fits ?big" by (simp add: event_fits_def unsigned_int_col_def)
  moreover have "get_reservation ?s (sf_reservation_id ?big) = Some sc_stuck" using g by simp
  ultimately have big: "on_script_finished ?big 1 no_kills ?s = Inl DbFlushError"
    using finished_event[OF wf short(2), of 1 no_kills] run by simp
  have fits: "event_fits sc_kill" by (simp add: event_fits_def sc_kill_def signed_int_col_def unsigned_int_col_def varchar_col_def)
  from finished_event[OF wf short(1), of 1 no_kills] obtain s' row' where
    e: "on_script_finished sc_kill 1 no_kills ?s
        = Inr (if sf_killed_by_corelab sc_kill then signal_lifecycle_kill (sf_reservation_id sc_kill) no_kills else no_kills, s')"
    and w: "reservations s' = row_put r_id row' (reservations ?s)" "row_evolves sc_stuck row'"
      "r_script_status row' = Some (finished_status sc_kill)"
      "sf_exit_code sc_kill \<noteq> None \<longrightarrow> r_script_exit_code row' = sf_exit_code sc_kill"
    by (auto simp: g run fits)
  have "r_id row' = r_id sc_stuck" using w(2) by (simp add: row_evolves_def)
  then have "reservations s' = [row']" using w(1) by (simp add: reservations_def sc_db_def row_put_def)
  with big e w show ?thesis by (intro conjI exI[of _ s'] exI[of _ row']) (simp_all add: sc_kill_def finished_status_def)
qed

section \<open>Cancelling a running script\<close>

text \<open>
  A reservation whose script runs is cancelled only after the agent answered and confirmed the
  kill; without the confirmation the reservation is left as it is.
\<close>

theorem running_script_cancelled_after_kill:
  "case cancel_active_with_running_script row actor can_admin reason lab why ctx rpc meanwhile confirmed s of
     (Inr row', s', calls) \<Rightarrow> confirmed \<and> (\<exists>resp. rpc = RpcReturned resp)
        \<and> cancel_reservation (r_id row) actor can_admin reason lab ctx (s\<lparr>s_db := meanwhile (s_db s)\<rparr>) = (Inr row', s')
   | (Inl e, s', calls) \<Rightarrow> d_reservations (s_db s') = d_reservations (s_db s)
        \<or> d_reservations (s_db s') = d_reservations (meanwhile (s_db s))"
proof (cases "cancel_active_with_running_script row actor can_admin reason lab why ctx rpc meanwhile confirmed s")
  case (fields out s' calls)
  show ?thesis
  proof (cases out)
    case (Inl e)
    with fields have "cancel_active_with_running_script row actor can_admin reason lab why ctx rpc meanwhile confirmed s
      = (Inl e, s', calls)" by simp
    from cancel_active_Inl[OF this] fields Inl show ?thesis by simp
  next
    case (Inr row')
    with fields have "cancel_active_with_running_script row actor can_admin reason lab why ctx rpc meanwhile confirmed s
      = (Inr row', s', calls)" by simp
    from cancel_active_Inr[OF this] fields Inr show ?thesis by simp
  qed
qed

text \<open>
  The permission to cancel is only checked after the kill: the request of a user who is neither
  the owner nor an administrator still makes the agent kill the running script, and is answered
  with 403 afterwards.
\<close>

theorem kill_before_permission:
  assumes "get_reservation s rid = Some row" "r_status row = Active" "r_script_status row = Some S_Running"
    and "r_user_id row \<noteq> u_id u" "\<not> user_can_admin_server s u (r_server_id row)"
  shows "\<exists>s'. cancel_reservation_ep str u rid reason ctx (RpcReturned resp) (\<lambda>d. d) True s =
    (Inl (map_service_error str CancelNotPermittedError), s', [cancel_rpc row ''user_cancel''])"
proof -
  have id: "r_id row = rid" using get_reservation_id[OF assms(1)] .
  have "get_reservation (s\<lparr>s_db := s_db s\<rparr>) rid = Some row" using assms(1) by simp
  then have "cancel_reservation rid (u_id u) False reason (u_lab_id u) ctx s = (Inl CancelNotPermittedError, s)"
    using assms by (simp add: cancel_reservation_def terminal_status_def)
  then show ?thesis
    using assms id by (simp add: cancel_reservation_ep_def cancel_active_with_running_script_def cancel_http_error_def
        service_error_def)
qed

theorem kill_before_permission_witness:
  "\<exists>s'. cancel_reservation_ep (\<lambda>_. '''') (sc_user 2) 1 None no_ctx (RpcReturned []) (\<lambda>d. d) True
      (open_session (sc_db [sc_stuck] 2) (2 * hour)) =
    (Inl (map_service_error (\<lambda>_. '''') CancelNotPermittedError), s', [cancel_rpc sc_stuck ''user_cancel''])"
proof (rule kill_before_permission)
  show "get_reservation (open_session (sc_db [sc_stuck] 2) (2 * hour)) 1 = Some sc_stuck" by code_simp
  show "r_status sc_stuck = Active" "r_script_status sc_stuck = Some S_Running" by code_simp+
  show "r_user_id sc_stuck \<noteq> u_id (sc_user 2)" by code_simp
  show "\<not> user_can_admin_server (open_session (sc_db [sc_stuck] 2) (2 * hour)) (sc_user 2) (r_server_id sc_stuck)"
    by code_simp
qed

text \<open>
  The confirmation of a kill reaches the cancellation that waits for it, whatever is registered,
  discarded or signalled for other reservations meanwhile.
\<close>

theorem confirmation_delivered:
  assumes "\<And>x. x \<in> set before \<Longrightarrow> op_rid x \<noteq> rid"
  shows "snd (cancel_registry rid (fold reg_exec (before @ SignalOp rid # later)) k)"
  using assms by (rule wakeup)

theorem confirmation_delivered_witness:
  "snd (cancel_registry 1 (fold reg_exec ([RegOp 2, SignalOp 2] @ SignalOp 1 # [DiscardOp 2])) no_kills)"
  by (rule confirmation_delivered) auto

text \<open>
  Two cancellations of one reservation share one slot of the registry: the second registration
  replaces the first, which then never sees the confirmation and times out.
\<close>

theorem second_cancellation_steals_confirmation:
  assumes "registry_ok k"
  shows "\<not> snd (cancel_registry rid (fold reg_exec [RegOp rid, SignalOp rid]) k)"
  using assms by (rule lost_wakeup)

theorem second_cancellation_steals_confirmation_witness:
  "\<not> snd (cancel_registry 1 (fold reg_exec [RegOp 1, SignalOp 1]) no_kills)"
  by (rule second_cancellation_steals_confirmation) (simp add: registry_ok_def no_kills_def)

end
