(* ===== verification/Guarantees_Reads.thy ===== *)
theory Guarantees_Reads
  imports Scenario
begin

text \<open>
  The guarantees of the read surfaces: the recommender, the audit log, the notifications and the
  script log.
\<close>

section \<open>The recommender\<close>

definition server_gids :: "db \<Rightarrow> int \<Rightarrow> int \<Rightarrow> int list" where
  "server_gids d lab sid = map gpu_id (filter (\<lambda>g. gpu_server_id g = sid) (lab_gpu_rows d lab))"

lemma rows_clipped: "db_wf (s_db s) \<Longrightarrow> lo < hi \<Longrightarrow> clipped (busy_by_gpu (reservations s) gids lo hi) lo hi"
  by (rule clipped_busy_by_gpu) (auto simp: db_wf_def reservations_def res_row_ok_def ck_res_time_order_def)

lemma horizon_pos: "x < x + days HORIZON_DAYS"
  by (simp add: days_def seconds_def HORIZON_DAYS_def)

lemma recommend_limit: "recommend s lab n limit after k = Inr cs \<Longrightarrow> 60 \<le> limit"
  by (auto simp: recommend_def split: if_splits)

text \<open>
  A recommended window starts no earlier than now, has the length that was asked for, ends
  within the horizon, and the GPUs it names, at most as many as asked for, are active GPUs of the
  server in the caller's lab and idle at its start.
\<close>

theorem recommended_window:
  assumes r: "recommend s lab gpu_count limit after k = Inr cs" and c: "c \<in> set cs" and wf: "db_wf (s_db s)"
  shows "s_clock s \<le> ca_start_at c \<and> ca_end_at c = ca_start_at c + seconds limit
    \<and> ca_end_at c \<le> search_start s after + days HORIZON_DAYS
    \<and> set (ca_gpu_ids c) \<subseteq> set (server_gids (s_db s) lab (ca_server_id c)) \<and> length (ca_gpu_ids c) \<le> nat gpu_count
    \<and> (\<forall>g \<in> set (ca_gpu_ids c). live_on (reservations s) g (ca_start_at c) = [])"
proof -
  let ?lo = "search_start s after"
  let ?hi = "?lo + days HORIZON_DAYS"
  obtain gids all_ids where o: "gids = server_gids (s_db s) lab (ca_server_id c)" "set gids \<subseteq> set all_ids" "gpu_count \<ge> 1"
    "earliest_window_for_server gids (busy_by_gpu (reservations s) all_ids ?lo ?hi) ?lo ?hi (nat gpu_count) (seconds limit)
      = Some (ca_gpu_ids c, ca_start_at c, ca_end_at c)"
    using recommend_origin[OF r c] by (auto simp: server_gids_def)
  note b = window_bounds[OF o(4) rows_clipped[OF wf horizon_pos]]
  have pos: "0 < seconds limit" using recommend_limit[OF r] by (simp add: seconds_def)
  have picked: "ca_gpu_ids c = take (nat gpu_count)
      (filter (\<lambda>g. \<not> busy_at (busy_by_gpu (reservations s) all_ids ?lo ?hi g) (ca_start_at c)) gids)"
    using b o(3) by (simp add: pick_first_n_eq)
  then have idle: "g \<in> set gids \<and> \<not> busy_at (busy_by_gpu (reservations s) all_ids ?lo ?hi g) (ca_start_at c)"
    if "g \<in> set (ca_gpu_ids c)" for g
    using that by (auto dest: in_set_takeD)
  have "live_on (reservations s) g (ca_start_at c) = []" if "g \<in> set (ca_gpu_ids c)" for g
    using idle[OF that] busy_at_rows[of g all_ids ?lo "ca_start_at c" ?hi "reservations s"] o(2) b pos by auto
  moreover have "s_clock s \<le> ?lo" by (simp add: search_start_def)
  moreover have "length (ca_gpu_ids c) \<le> nat gpu_count" by (simp add: picked)
  ultimately show ?thesis using b idle o(1) by auto
qed

definition sc_gap :: db where
  "sc_gap = sc_db [sc_res 1 1 1 1 2 Scheduled, sc_res 2 2 1 4 5 Scheduled] 3"

theorem recommended_window_witness:
  "\<exists>c cs. recommend (open_session sc_gap 0) 1 1 3600 None 3 = Inr (c # cs)
     \<and> ca_end_at c = ca_start_at c + seconds 3600 \<and> length (ca_gpu_ids c) \<le> 1"
proof -
  let ?r = "recommend (open_session sc_gap 0) 1 1 3600 None 3"
  have "\<not> isl ?r" by code_simp
  then obtain cs where cs: "?r = Inr cs" using not_isl_Inr by blast
  have "length (projr ?r) = 1" by code_simp
  then obtain c where c: "cs = [c]" by (cases cs) (auto simp: cs)
  have "db_wf (s_db (open_session sc_gap 0))" by (simp add: sc_gap_def sc_defs row_ok_defs)
  from recommended_window[OF cs _ this, of c] c cs show ?thesis by (intro exI[of _ c] exI[of _ "[]"]) simp
qed

text \<open>
  C9. When the live rows of every GPU are separated by gaps, at every instant of a recommended window
  at least as many GPUs of the server as asked for are idle.
\<close>

theorem recommended_window_has_room:
  assumes r: "recommend s lab gpu_count limit after k = Inr cs" and c: "c \<in> set cs"
    and ok: "db_wf (s_db s)" "gpus_wf (s_db s)" and gaps: "gapped (reservations s)"
    and t: "ca_start_at c \<le> t" "t < ca_end_at c"
  shows "nat gpu_count \<le> length (filter (\<lambda>g. live_on (reservations s) g t = []) (server_gids (s_db s) lab (ca_server_id c)))"
proof -
  let ?lo = "search_start s after"
  let ?hi = "?lo + days HORIZON_DAYS"
  obtain gids all_ids where o: "gids = server_gids (s_db s) lab (ca_server_id c)" "set gids \<subseteq> set all_ids"
    "earliest_window_for_server gids (busy_by_gpu (reservations s) all_ids ?lo ?hi) ?lo ?hi (nat gpu_count) (seconds limit)
      = Some (ca_gpu_ids c, ca_start_at c, ca_end_at c)"
    using recommend_origin[OF r c] by (auto simp: server_gids_def)
  note cl = rows_clipped[OF ok(1) horizon_pos]
  note b = window_bounds[OF o(3) cl]
  have "separated (busy_by_gpu (reservations s) all_ids ?lo ?hi g)" for g
    by (rule separated_busy[OF gaps _ horizon_pos])
      (use ok(1) in \<open>auto simp: db_wf_def reservations_def res_row_ok_def ck_res_time_order_def\<close>)
  then have "spaced_sweep gids (busy_by_gpu (reservations s) all_ids ?lo ?hi) ?lo ?hi"
    using cl server_gids_distinct[OF ok(2)] by (simp add: spaced_sweep_def o(1) server_gids_def)
  from window_sound[OF this o(3) t]
  have "nat gpu_count \<le> length (idle_gpus gids (busy_by_gpu (reservations s) all_ids ?lo ?hi) t)" .
  moreover have "busy_at (busy_by_gpu (reservations s) all_ids ?lo ?hi g) t \<longleftrightarrow> live_on (reservations s) g t \<noteq> []"
    if "g \<in> set gids" for g
    by (rule busy_at_rows) (use that o(2) b t in auto)
  then have "idle_gpus gids (busy_by_gpu (reservations s) all_ids ?lo ?hi) t =
      filter (\<lambda>g. live_on (reservations s) g t = []) gids"
    unfolding idle_gpus_def by (intro filter_cong) auto
  ultimately show ?thesis by (simp add: o(1))
qed

theorem recommended_window_has_room_witness:
  "\<exists>c cs. recommend (open_session sc_gap 0) 1 2 3600 None 3 = Inr (c # cs)
     \<and> 2 \<le> length (filter (\<lambda>g. live_on (d_reservations sc_gap) g (ca_start_at c)= []) (server_gids sc_gap 1 (ca_server_id c)))"
proof -
  let ?s = "open_session sc_gap 0"
  let ?r = "recommend ?s 1 2 3600 None 3"
  have "\<not> isl ?r" by code_simp
  then obtain cs where cs: "?r = Inr cs" using not_isl_Inr by blast
  have "length (projr ?r) = 1" by code_simp
  then obtain c where c: "cs = [c]" by (cases cs) (auto simp: cs)
  have wf: "db_wf (s_db ?s)" by (simp add: sc_gap_def sc_defs row_ok_defs)
  have gw: "gpus_wf (s_db ?s)" by (auto simp: gpus_wf_def sc_gap_def sc_db_def sc_gpu_def split: if_splits)
  have gaps: "gapped (reservations ?s)"
    by (auto simp: gapped_def sc_gap_def sc_defs reservations_def occupies_def)
  have "ca_end_at c = ca_start_at c + seconds 3600"
    using recommended_window[OF cs _ wf, of c] c by simp
  then have "nat 2 \<le> length (filter (\<lambda>g. live_on (reservations ?s) g (ca_start_at c) = []) (server_gids (s_db ?s) 1 (ca_server_id c)))"
    by (intro recommended_window_has_room[OF cs _ wf gw gaps]) (simp_all add: c seconds_def)
  then show ?thesis using c cs by (intro exI[of _ c] exI[of _ "[]"]) (simp add: reservations_def)
qed

text \<open>
  Two reservations that follow each other without a gap break the sweep: the end of the first is
  applied after the start of the second, so the GPU counts as free during the second. The window
  recommended then starts where the GPU is busy, and no GPU can be named for it.
\<close>

theorem back_to_back_recommended:
  "map (\<lambda>c. (ca_gpu_ids c, ca_start_at c, ca_end_at c))
     (projr (recommend (open_session ((sc_db [sc_res 1 1 1 0 10 Active, sc_res 2 2 1 10 20 Scheduled] 3)
        \<lparr>d_gpu_ids := [1]\<rparr>) (1 * hour)) 1 1 3600 None 3)) = [([], 10 * hour, 11 * hour)]
   \<and> length (live_on [sc_res 1 1 1 0 10 Active, sc_res 2 2 1 10 20 Scheduled] 1 (10 * hour)) = 1"
  by code_simp

text \<open>
  Enough GPUs are idle at every instant, but not the same ones: the GPU picked at the start of the
  window can be booked before its end.
\<close>

theorem picked_gpu_not_free_throughout:
  "earliest_window_for_server [1, 2] (\<lambda>g. if g = 1 then [(5, 20)] else [(0, 4)]) 0 100 1 10 = Some ([1], 0, 10)
   \<and> spaced_sweep [1, 2] (\<lambda>g. if g = 1 then [(5, 20)] else [(0, 4)]) 0 100"
proof
  show "earliest_window_for_server [1, 2] (\<lambda>g. if g = 1 then [(5, 20)] else [(0, 4)]) 0 100 1 10 = Some ([1], 0, 10)"
    by code_simp
  show "spaced_sweep [1, 2] (\<lambda>g. if g = 1 then [(5, 20)] else [(0, 4)]) 0 100"
    by (simp add: spaced_sweep_def separated_def clipped_def)
qed

section \<open>The audit log\<close>

text \<open>
  C10. Reading the audit log page by page yields exactly the entries the caller may see and the filters
  admit, newest first, each once: entries of the caller's lab and, for a server administrator, of an
  administered server, for a user, of that user. Every page reports their number.
\<close>

theorem audit_pages_show_the_visible_log:
  assumes "scope_ok c"
  shows "(\<forall>page. \<exists>items. list_logs d lab c f page psize = Some (items, length (visible_log d lab c f)))
    \<and> (length (visible_log d lab c f) \<le> m * psize \<longrightarrow>
        concat (map (\<lambda>k. fst (the (list_logs d lab c f (Suc k) psize))) [0..<m])
        = map (serialise_audit d) (visible_log d lab c f))
    \<and> set (visible_log d lab c f) = {e \<in> set (d_audit d). may_see d lab c e \<and> passes f e}
    \<and> sorted_wrt (\<lambda>a b. au_created_at b \<le> au_created_at a) (visible_log d lab c f)"
  using list_logs_visible[OF assms, of d lab f] list_logs_pages[OF assms, of d lab f psize m]
  by (simp add: visible_log_sorted) (auto simp: visible_log_def)

definition sc_entry :: "int \<Rightarrow> int \<Rightarrow> audit_entry" where
  "sc_entry i actor = (audit_of ''reservation.create'' (Some actor) (Some 1) None None (Some 1) (Some 1) None no_ctx)
     \<lparr>au_id := i, au_created_at := i\<rparr>"

definition sc_log :: db where
  "sc_log = (sc_db [] 1)\<lparr>d_audit := [sc_entry 1 1, sc_entry 2 2, sc_entry 3 1]\<rparr>"

definition no_filters :: audit_filters where
  "no_filters = \<lparr>af_actor_user_id = None, af_action = None, af_target_type = None, af_target_server_id = None,
     af_created_at_from = None, af_created_at_to = None\<rparr>"

definition user_scope :: "int \<Rightarrow> audit_access_ctx" where
  "user_scope u = \<lparr>ac_scope = ScopeUser, ac_server_ids = [], ac_forced_actor_user_id = Some u\<rparr>"

theorem audit_pages_show_the_visible_log_witness:
  "concat (map (\<lambda>k. fst (the (list_logs sc_log 1 (user_scope 1) no_filters (Suc k) 1))) [0..<2])
     = map (serialise_audit sc_log) [sc_entry 3 1, sc_entry 1 1]"
proof -
  have v: "visible_log sc_log 1 (user_scope 1) no_filters = [sc_entry 3 1, sc_entry 1 1]"
    by (simp add: visible_log_def newest_first_def may_see_def in_lab_scope_def passes_def user_scope_def no_filters_def
        sc_log_def sc_entry_def audit_of_def)
  have "scope_ok (user_scope 1)" by (simp add: scope_ok_def user_scope_def)
  from audit_pages_show_the_visible_log[OF this, of sc_log 1 no_filters 1 2] v show ?thesis by simp
qed

section \<open>Notifications\<close>

text \<open>
  Notifications about one object are spaced: if rows with the same recipient, type and key are
  more than the window apart, they still are after any further creation.
\<close>

theorem notifications_stay_spaced:
  assumes "dedup_spaced (d_notifications (s_db s))"
  shows "dedup_spaced (d_notifications (s_db (create_notification r ty ti se bo pl ct s)))"
  using assms by (rule create_notification_spaced)

theorem notifications_stay_spaced_witness:
  "dedup_spaced (d_notifications (s_db (create_notification 1 ''script.started'' ''t'' Info None
     (Some [(''reservation_id'', JInt 1)]) None (open_session (sc_db [] 1) 0))))"
  by (rule notifications_stay_spaced) (simp add: dedup_spaced_def sc_db_def)

section \<open>The script log\<close>

text \<open>
  The script log of a reservation is only returned to its owner, a lab administrator or a user with
  an active grant on the server.
\<close>

theorem script_log_protected:
  "case get_script_log_ep rid u s of
     Inr v \<Rightarrow> (\<exists>row. get_reservation s rid = Some row \<and> sl_reservation_id v = rid
        \<and> sl_text v = opt_else (r_script_log_tail_text row) []
        \<and> (r_user_id row = u_id u \<or> u_role u = RoleLabAdmin
           \<or> (\<exists>g \<in> set (d_grants (s_db s)). gr_user_id g = u_id u \<and> gr_server_id g = r_server_id row \<and> gr_is_active g)))
   | Inl e \<Rightarrow> \<exists>c b. e = HttpException c b \<and> c \<in> {403, 404}"
proof (cases "get_reservation s rid")
  case None
  then show ?thesis by (simp add: get_script_log_ep_def not_found_def)
next
  case (Some row)
  then show ?thesis using get_reservation_id[OF Some]
    by (auto simp: get_script_log_ep_def can_read_script_log_def user_can_admin_server_def)
qed

end
