(* ===== verification/Account_Links.thy ===== *)
theory Account_Links
  imports Audit_Notify Agent_Rpc
begin

text \<open>
  \<open>services/account_link_service.py\<close>: who may act as which Linux account. A link is established by a
  proof (an SSH signature or a PAM password), declared by an administrator, revoked, or upgraded
  from declared to verified. \<open>rpc\<close> is the answer of the agent to a frame, \<open>coll\<close> the equality of the
  database's collation on names.
\<close>

section \<open>Tables\<close>

datatype access_error =
    PhysicalAccountNotFoundError
  | SshKeyNotOwnedByUserError
  | LinkAlreadyActiveError int int
  | AdminDeclaredCannotActAsError int
  | AccountLinkError
  | AlreadyLinkedError
  | DuplicatePendingError
  | RequestNotFoundError
  | InvalidStatusTransitionError request_status
  | NoActiveSshKeyError
  | NotRequester
  | IntegrityError
  | MultipleResultsFound
  | RpcUncaught

definition put_link :: "account_link \<Rightarrow> db \<Rightarrow> db" where
  "put_link l d = d\<lparr>d_links := (d_links d)(al_id l \<mapsto> l)\<rparr>"

definition put_key_entry :: "authorized_key_entry \<Rightarrow> db \<Rightarrow> db" where
  "put_key_entry e d = d\<lparr>d_key_entries := row_put ke_id e (d_key_entries d)\<rparr>"

definition put_link_request :: "account_link_request \<Rightarrow> db \<Rightarrow> db" where
  "put_link_request q d = d\<lparr>d_link_requests := row_put lr_id q (d_link_requests d)\<rparr>"

definition get_key :: "session \<Rightarrow> int \<Rightarrow> ssh_public_key option" where
  "get_key s i = row_by sk_id i (d_ssh_keys (s_db s))"

text \<open>The unique key \<open>uq_link_user_pa_active\<close> on (user, account, active), and \<open>uq_ake_pa_key\<close> on (account, key).\<close>

definition active_links_of :: "db \<Rightarrow> int \<Rightarrow> int \<Rightarrow> account_link list" where
  "active_links_of d uid pid = filter (\<lambda>l. al_user_id l = uid \<and> al_physical_account_id l = pid \<and> al_is_active l) (link_rows d)"

definition insert_link :: "account_link \<Rightarrow> session \<Rightarrow> access_error + (account_link \<times> session)" where
  "insert_link l s =
    (let d = s_db s; row = l\<lparr>al_id := d_next_link d, al_established_at := s_clock s\<rparr> in
     if al_is_active l \<and> active_links_of d (al_user_id l) (al_physical_account_id l) \<noteq> [] then Inl IntegrityError
     else Inr (row, upd_db (\<lambda>d. (put_link row d)\<lparr>d_link_ids := d_link_ids d @ [al_id row], d_next_link := al_id row + 1\<rparr>) s))"

definition find_key_entry_rows :: "db \<Rightarrow> int \<Rightarrow> int \<Rightarrow> authorized_key_entry list" where
  "find_key_entry_rows d pid kid = filter (\<lambda>e. ke_physical_account_id e = pid \<and> ke_ssh_public_key_id e = kid) (d_key_entries d)"

definition insert_key_entry :: "authorized_key_entry \<Rightarrow> session \<Rightarrow> access_error + (authorized_key_entry \<times> session)" where
  "insert_key_entry e s =
    (let d = s_db s; row = e\<lparr>ke_id := d_next_key_entry d, ke_pushed_at := s_clock s\<rparr> in
     if find_key_entry_rows d (ke_physical_account_id e) (ke_ssh_public_key_id e) \<noteq> [] then Inl IntegrityError
     else Inr (row, upd_db (\<lambda>d. d\<lparr>d_key_entries := d_key_entries d @ [row], d_next_key_entry := ke_id row + 1\<rparr>) s))"

section \<open>The answer of the agent\<close>

type_synonym rpc = "int \<Rightarrow> string \<Rightarrow> payload \<Rightarrow> rpc_outcome"

section \<open>Look-ups\<close>

definition resolve_physical_account :: "(string \<Rightarrow> string \<Rightarrow> bool) \<Rightarrow> session \<Rightarrow> int \<Rightarrow> string \<Rightarrow>
    access_error + physical_account" where
  "resolve_physical_account coll s sid uname =
    rbind (one_or_none MultipleResultsFound
        (filter (\<lambda>p. pa_server_id p = sid \<and> coll (pa_linux_username p) uname \<and> pa_is_active p) (pa_rows (s_db s))))
      (\<lambda>x. case x of None \<Rightarrow> Inl PhysicalAccountNotFoundError | Some p \<Rightarrow> Inr p)"

definition assert_ssh_key_owned :: "session \<Rightarrow> int \<Rightarrow> int \<Rightarrow> access_error + ssh_public_key" where
  "assert_ssh_key_owned s kid uid = (case get_key s kid of
      None \<Rightarrow> Inl SshKeyNotOwnedByUserError
    | Some k \<Rightarrow> if sk_user_id k = uid \<and> sk_is_active k then Inr k else Inl SshKeyNotOwnedByUserError)"

definition existing_active_link :: "session \<Rightarrow> int \<Rightarrow> int \<Rightarrow> access_error + account_link option" where
  "existing_active_link s uid pid = one_or_none MultipleResultsFound (active_links_of (s_db s) uid pid)"

section \<open>Establishing\<close>

definition draft_link :: "int \<Rightarrow> int \<Rightarrow> link_source \<Rightarrow> payload \<Rightarrow> int \<Rightarrow> account_link" where
  "draft_link uid pid src proof by =
    \<lparr>al_id = 0, al_user_id = uid, al_physical_account_id = pid, al_source = src, al_is_active = True,
     al_proof_evidence = proof, al_established_at = 0, al_established_by_user_id = by,
     al_revoked_by_user_id = None, al_revoked_at = None, al_revoke_reason = None\<rparr>"

text \<open>\<open>datetime.now(UTC).isoformat()\<close>, kept as the instant.\<close>

definition utcnow_json :: "session \<Rightarrow> json" where
  "utcnow_json s = JTime (dt_utc (s_clock s))"

text \<open>The duplicate check, the insert and the audit row the three writers share.\<close>

definition establish_link :: "account_link \<Rightarrow> string \<Rightarrow> int \<Rightarrow> int \<Rightarrow> int \<Rightarrow> payload \<Rightarrow> req_ctx \<Rightarrow> session \<Rightarrow>
    access_error + (account_link \<times> session)" where
  "establish_link l action actor lab sid pl ctx s =
    rbind (existing_active_link s (al_user_id l) (al_physical_account_id l)) (\<lambda>existing.
      case existing of
        Some _ \<Rightarrow> Inl (LinkAlreadyActiveError (al_user_id l) (al_physical_account_id l))
      | None \<Rightarrow> rbind (insert_link l s) (\<lambda>(row, s').
          Inr (row, audit_write (audit_of action (Some actor) (Some lab) (Some ''account_link'') (Some (al_id row))
                 (Some lab) (Some sid) (Some pl) ctx) s')))"

definition establish_via_pam :: "int \<Rightarrow> int \<Rightarrow> int \<Rightarrow> int \<Rightarrow> req_ctx \<Rightarrow> session \<Rightarrow>
    access_error + (account_link \<times> session)" where
  "establish_via_pam uid pid lab sid ctx s =
    establish_link (draft_link uid pid PasswordPam
        [(''method'', JStr ''pam''), (''verified_at'', utcnow_json s)] uid)
      ''account_link.established'' uid lab sid
      [(''physical_account_id'', JInt pid), (''source'', JStr ''password_pam'')] ctx s"

definition establish_via_ssh_challenge :: "int \<Rightarrow> int \<Rightarrow> string \<Rightarrow> json \<Rightarrow> int \<Rightarrow> int \<Rightarrow> req_ctx \<Rightarrow> session \<Rightarrow>
    access_error + (account_link \<times> session)" where
  "establish_via_ssh_challenge uid pid challenge signer lab sid ctx s =
    establish_link (draft_link uid pid SshChallenge
        [(''method'', JStr ''ssh-sign''), (''challenge_id'', JStr challenge), (''signer_fingerprint'', signer),
         (''verified_at'', utcnow_json s)] uid)
      ''account_link.established'' uid lab sid
      [(''physical_account_id'', JInt pid), (''source'', JStr ''ssh_challenge''), (''challenge_id'', JStr challenge)] ctx s"

definition admin_declare_link :: "int \<Rightarrow> int \<Rightarrow> string \<Rightarrow> int \<Rightarrow> int \<Rightarrow> int \<Rightarrow> req_ctx \<Rightarrow> session \<Rightarrow>
    access_error + (account_link \<times> session)" where
  "admin_declare_link pid owner reason by lab sid ctx s =
    establish_link (draft_link owner pid AdminDeclared
        [(''method'', JStr ''admin-declared''), (''declared_by'', JInt by), (''declared_at'', utcnow_json s),
         (''reason'', JStr reason)] by)
      ''account_link.admin_declared'' by lab sid
      [(''owner_user_id'', JInt owner), (''physical_account_id'', JInt pid), (''reason'', JStr reason)] ctx s"

section \<open>Reading\<close>

definition get_active_link_for_actas :: "session \<Rightarrow> int \<Rightarrow> int \<Rightarrow> access_error + account_link" where
  "get_active_link_for_actas s uid pid =
    rbind (existing_active_link s uid pid) (\<lambda>x. case x of
        None \<Rightarrow> Inl AccountLinkError
      | Some l \<Rightarrow> if al_source l = AdminDeclared then Inl (AdminDeclaredCannotActAsError (al_id l)) else Inr l)"

definition list_active_for_user :: "session \<Rightarrow> int \<Rightarrow> account_link list" where
  "list_active_for_user s uid = filter (\<lambda>l. al_user_id l = uid \<and> al_is_active l) (link_rows (s_db s))"

definition list_all_for_user :: "session \<Rightarrow> int \<Rightarrow> account_link list" where
  "list_all_for_user s uid = rev (filter (\<lambda>l. al_user_id l = uid) (link_rows (s_db s)))"

definition load_link_in_lab :: "session \<Rightarrow> int \<Rightarrow> int \<Rightarrow> access_error + account_link" where
  "load_link_in_lab s lid lab = (case d_links (s_db s) lid of
      None \<Rightarrow> Inl AccountLinkError
    | Some l \<Rightarrow> (case d_pas (s_db s) (al_physical_account_id l) of
        None \<Rightarrow> Inl AccountLinkError
      | Some p \<Rightarrow> (case d_servers (s_db s) (pa_server_id p) of
          None \<Rightarrow> Inl AccountLinkError
        | Some sv \<Rightarrow> if srv_lab_id sv = lab then Inr l else Inl AccountLinkError)))"

definition reverse_lookup_users :: "(string \<Rightarrow> string \<Rightarrow> bool) \<Rightarrow> session \<Rightarrow> int \<Rightarrow> string \<Rightarrow>
    access_error + account_link list" where
  "reverse_lookup_users coll s sid uname =
    rbind (one_or_none MultipleResultsFound
        (filter (\<lambda>p. pa_server_id p = sid \<and> coll (pa_linux_username p) uname \<and> pa_is_active p) (pa_rows (s_db s))))
      (\<lambda>x. case x of None \<Rightarrow> Inr []
         | Some p \<Rightarrow> Inr (filter (\<lambda>l. al_physical_account_id l = pa_id p \<and> al_is_active l) (link_rows (s_db s))))"

section \<open>Revoking\<close>

definition revoked_row :: "account_link \<Rightarrow> int \<Rightarrow> string \<Rightarrow> session \<Rightarrow> account_link" where
  "revoked_row l actor reason s = l\<lparr>al_is_active := False, al_revoked_at := Some (s_clock s),
     al_revoked_by_user_id := Some actor, al_revoke_reason := Some reason\<rparr>"

text \<open>One key entry: the RPC, and the row is marked whatever the agent answered.\<close>

definition removed_entry :: "authorized_key_entry \<Rightarrow> int \<Rightarrow> session \<Rightarrow> authorized_key_entry" where
  "removed_entry e actor s = e\<lparr>ke_is_active := False, ke_removed_at := Some (s_clock s),
     ke_removed_by_user_id := Some actor\<rparr>"

fun revoke_outcome :: "authorized_key_entry \<Rightarrow> ssh_public_key \<Rightarrow> rpc_outcome \<Rightarrow> access_error + payload" where
  "revoke_outcome e k (RpcReturned _) = Inr [(''entry_id'', JInt (ke_id e)), (''key_id'', JInt (sk_id k)), (''ok'', JBool True)]"
| "revoke_outcome e k (AgentOffline m) = Inr [(''entry_id'', JInt (ke_id e)), (''key_id'', JInt (sk_id k)),
     (''ok'', JBool False), (''error'', JStr m)]"
| "revoke_outcome e k (AgentRpcTimeout m) = Inr [(''entry_id'', JInt (ke_id e)), (''key_id'', JInt (sk_id k)),
     (''ok'', JBool False), (''error'', JStr m)]"
| "revoke_outcome e k _ = Inl RpcUncaught"

fun revoke_entries :: "rpc \<Rightarrow> physical_account \<Rightarrow> int \<Rightarrow> authorized_key_entry list \<Rightarrow> session \<Rightarrow>
    access_error + (payload list \<times> session)" where
  "revoke_entries rpc p actor [] s = Inr ([], s)"
| "revoke_entries rpc p actor (e # es) s = (case get_key s (ke_ssh_public_key_id e) of
      None \<Rightarrow> revoke_entries rpc p actor es s
    | Some k \<Rightarrow> rbind (revoke_outcome e k (rpc (pa_server_id p) ''backend.authorized_key.revoke''
          [(''linux_username'', JStr (pa_linux_username p)), (''fingerprint'', JStr (sk_fingerprint_sha256 k))]))
        (\<lambda>out. rbind (revoke_entries rpc p actor es (upd_db (put_key_entry (removed_entry e actor s)) s))
          (\<lambda>(os, s'). Inr (out # os, s'))))"

definition entries_to_revoke :: "db \<Rightarrow> int \<Rightarrow> int \<Rightarrow> authorized_key_entry list" where
  "entries_to_revoke d pid uid =
    filter (\<lambda>e. ke_physical_account_id e = pid \<and> ke_pushed_for_user_id e = uid \<and> ke_is_active e) (d_key_entries d)"

definition revoke_link :: "rpc \<Rightarrow> account_link \<Rightarrow> int \<Rightarrow> string \<Rightarrow> int \<Rightarrow> int \<Rightarrow> bool \<Rightarrow> req_ctx \<Rightarrow> session \<Rightarrow>
    access_error + (account_link \<times> session)" where
  "revoke_link rpc l actor reason lab sid revoke_key ctx s =
    (if \<not> al_is_active l then Inl AccountLinkError
     else let row = revoked_row l actor reason s; s1 = upd_db (put_link row) s in
       rbind (if revoke_key then (case d_pas (s_db s1) (al_physical_account_id l) of
                None \<Rightarrow> Inr ([], s1)
              | Some p \<Rightarrow> revoke_entries rpc p actor (entries_to_revoke (s_db s1) (pa_id p) (al_user_id l)) s1)
              else Inr ([], s1))
         (\<lambda>(outcome, s2). Inr (row, audit_write (audit_of ''account_link.revoked'' (Some actor) (Some lab)
            (Some ''account_link'') (Some (al_id l)) (Some lab) (Some sid)
            (Some [(''reason'', JStr reason), (''user_id'', JInt (al_user_id l)),
                   (''physical_account_id'', JInt (al_physical_account_id l)), (''revoke_key'', JBool revoke_key),
                   (''key_revoke_outcome'', JList (map JObj outcome))]) ctx) s2)))"

section \<open>Upgrading\<close>

definition upgrade_admin_declared_to_ssh :: "int \<Rightarrow> int \<Rightarrow> string \<Rightarrow> json \<Rightarrow> int \<Rightarrow> int \<Rightarrow> req_ctx \<Rightarrow> session \<Rightarrow>
    access_error + (account_link \<times> session)" where
  "upgrade_admin_declared_to_ssh uid pid challenge signer lab sid ctx s =
    rbind (existing_active_link s uid pid) (\<lambda>x. case x of
        None \<Rightarrow> Inl AccountLinkError
      | Some old \<Rightarrow>
          if al_source old \<noteq> AdminDeclared then Inl AccountLinkError
          else let s1 = upd_db (put_link (revoked_row old uid ''upgraded_to_verified'' s)) s in
            rbind (insert_link (draft_link uid pid SshChallenge
                [(''method'', JStr ''ssh-sign''), (''challenge_id'', JStr challenge), (''signer_fingerprint'', signer),
                 (''verified_at'', utcnow_json s), (''upgraded_from_link_id'', JInt (al_id old))] uid) s1)
              (\<lambda>(row, s2). Inr (row, audit_write (audit_of ''account_link.upgraded'' (Some uid) (Some lab)
                 (Some ''account_link'') (Some (al_id row)) (Some lab) (Some sid)
                 (Some [(''old_link_id'', JInt (al_id old)), (''new_link_id'', JInt (al_id row)),
                        (''physical_account_id'', JInt pid), (''challenge_id'', JStr challenge)]) ctx) s2)))"

end
