(* ===== verification/Link_Requests.thy ===== *)
theory Link_Requests
  imports Account_Links
begin

text \<open>
  \<open>services/account_link_request_service.py\<close>: a member asks for an existing physical account, an
  administrator approves (and the agent gets the member's key to install) or denies, the member may
  withdraw. The approved member then claims the account with an SSH challenge.
\<close>

section \<open>Tables\<close>

definition insert_link_request :: "account_link_request \<Rightarrow> session \<Rightarrow> account_link_request \<times> session" where
  "insert_link_request q s =
    (let row = q\<lparr>lr_id := d_next_link_request (s_db s), lr_created_at := s_clock s\<rparr> in
     (row, upd_db (\<lambda>d. d\<lparr>d_link_requests := d_link_requests d @ [row], d_next_link_request := lr_id row + 1\<rparr>) s))"

definition latest_active_key_for_user :: "session \<Rightarrow> int \<Rightarrow> access_error + ssh_public_key" where
  "latest_active_key_for_user s uid =
    (case rev (filter (\<lambda>k. sk_user_id k = uid \<and> sk_is_active k) (d_ssh_keys (s_db s))) of
       [] \<Rightarrow> Inl NoActiveSshKeyError | k # _ \<Rightarrow> Inr k)"

definition find_key_entry :: "session \<Rightarrow> int \<Rightarrow> int \<Rightarrow> access_error + authorized_key_entry option" where
  "find_key_entry s pid kid = one_or_none MultipleResultsFound (find_key_entry_rows (s_db s) pid kid)"

definition pending_rows :: "db \<Rightarrow> int \<Rightarrow> int \<Rightarrow> account_link_request list" where
  "pending_rows d uid pid = filter (\<lambda>q. lr_requester_user_id q = uid \<and> lr_physical_account_id q = pid
     \<and> lr_status q = ReqPending) (d_link_requests d)"

section \<open>Creating\<close>

definition create_request :: "int \<Rightarrow> int \<Rightarrow> ustring option \<Rightarrow> int \<Rightarrow> req_ctx \<Rightarrow> session \<Rightarrow>
    access_error + (account_link_request \<times> session)" where
  "create_request uid pid note lab ctx s = (case d_pas (s_db s) pid of
      None \<Rightarrow> Inl PhysicalAccountNotFoundError
    | Some p \<Rightarrow>
      if \<not> pa_is_active p then Inl PhysicalAccountNotFoundError
      else (case d_servers (s_db s) (pa_server_id p) of
        None \<Rightarrow> Inl PhysicalAccountNotFoundError
      | Some sv \<Rightarrow>
        if srv_lab_id sv \<noteq> lab then Inl PhysicalAccountNotFoundError
        else rbind (existing_active_link s uid pid) (\<lambda>existing. case existing of
          Some _ \<Rightarrow> Inl AlreadyLinkedError
        | None \<Rightarrow> rbind (one_or_none MultipleResultsFound (pending_rows (s_db s) uid pid)) (\<lambda>pending. case pending of
            Some _ \<Rightarrow> Inl DuplicatePendingError
          | None \<Rightarrow>
            let (row, s') = insert_link_request \<lparr>lr_id = 0, lr_requester_user_id = uid, lr_physical_account_id = pid,
                  lr_status = ReqPending, lr_request_note = note, lr_decided_by_user_id = None, lr_decided_at = None,
                  lr_decision_note = None, lr_created_at = 0\<rparr> s
            in Inr (row, audit_write (audit_of ''account_link_request.created'' (Some uid) (Some lab)
                 (Some ''account_link_request'') (Some (lr_id row)) (Some lab) (Some (pa_server_id p))
                 (Some [(''physical_account_id'', JInt pid), (''linux_username'', JStr (pa_linux_username p))]) ctx) s')))))"

section \<open>Deciding\<close>

definition load_request_in_lab :: "session \<Rightarrow> int \<Rightarrow> int \<Rightarrow>
    access_error + (account_link_request \<times> physical_account \<times> server)" where
  "load_request_in_lab s rid lab = (case row_by lr_id rid (d_link_requests (s_db s)) of
      None \<Rightarrow> Inl RequestNotFoundError
    | Some q \<Rightarrow> (case d_pas (s_db s) (lr_physical_account_id q) of
        None \<Rightarrow> Inl RequestNotFoundError
      | Some p \<Rightarrow> (case d_servers (s_db s) (pa_server_id p) of
          None \<Rightarrow> Inl RequestNotFoundError
        | Some sv \<Rightarrow> if srv_lab_id sv = lab then Inr (q, p, sv) else Inl RequestNotFoundError)))"

text \<open>The frame that asks the agent to install a key. Labels and key texts are code points on the wire.\<close>

definition to_ustring :: "string \<Rightarrow> ustring" where
  "to_ustring t = map of_char t"

definition JText :: "ustring \<Rightarrow> json" where
  "JText t = JList (map (JInt \<circ> int) t)"

definition push_payload :: "physical_account \<Rightarrow> ssh_public_key \<Rightarrow> string \<Rightarrow> payload" where
  "push_payload p k label = [(''linux_username'', JStr (pa_linux_username p)), (''public_key'', JText (sk_public_key k)),
     (''label'', JStr label)]"

definition rpc_get :: "payload \<Rightarrow> string \<Rightarrow> json \<Rightarrow> json" where
  "rpc_get pl k dflt = (case map_of pl k of Some v \<Rightarrow> v | None \<Rightarrow> dflt)"

definition pushed_fields :: "payload \<Rightarrow> payload" where
  "pushed_fields pl = [(''ok'', JBool True), (''installed_path'', rpc_get pl ''installed_path'' (JStr '''')),
     (''fingerprint'', rpc_get pl ''fingerprint'' (JStr '''')), (''mock_warning'', rpc_get pl ''mock_warning'' JNull)]"

definition draft_entry :: "int \<Rightarrow> int \<Rightarrow> int \<Rightarrow> int \<Rightarrow> authorized_key_entry" where
  "draft_entry pid kid by for = \<lparr>ke_id = 0, ke_physical_account_id = pid, ke_ssh_public_key_id = kid,
     ke_pushed_by_user_id = by, ke_pushed_for_user_id = for, ke_pushed_at = 0, ke_is_active = True,
     ke_removed_at = None, ke_removed_by_user_id = None\<rparr>"

text \<open>The RPC of an approval with the insert of the key entry.\<close>

definition approve_push :: "rpc \<Rightarrow> account_link_request \<Rightarrow> physical_account \<Rightarrow> server \<Rightarrow> ssh_public_key \<Rightarrow> int \<Rightarrow> session \<Rightarrow>
    access_error + (bool \<times> payload \<times> session)" where
  "approve_push rpc q p sv k admin s =
    (case rpc (srv_id sv) ''backend.authorized_key.push''
            (push_payload p k (''corelab:user='' @ int_str (lr_requester_user_id q) @ '';link_request='' @ int_str (lr_id q))) of
       RpcReturned pl \<Rightarrow> rbind (insert_key_entry (draft_entry (pa_id p) (sk_id k) admin (lr_requester_user_id q)) s)
         (\<lambda>(e, s'). Inr (True, [(''attempted'', JBool True)] @ pushed_fields pl @ [(''authorized_key_entry_id'', JInt (ke_id e))], s'))
     | AgentOffline m \<Rightarrow> Inr (False, [(''attempted'', JBool True), (''ok'', JBool False), (''error'', JStr m)], s)
     | AgentRpcTimeout m \<Rightarrow> Inr (False, [(''attempted'', JBool True), (''ok'', JBool False), (''error'', JStr m)], s)
     | _ \<Rightarrow> Inl RpcUncaught)"

definition decided :: "account_link_request \<Rightarrow> request_status \<Rightarrow> int \<Rightarrow> ustring option \<Rightarrow> session \<Rightarrow> account_link_request" where
  "decided q st admin note s = q\<lparr>lr_status := st, lr_decided_by_user_id := Some admin,
     lr_decided_at := Some (s_clock s), lr_decision_note := note\<rparr>"

definition request_audit :: "string \<Rightarrow> int \<Rightarrow> int \<Rightarrow> account_link_request \<Rightarrow> server \<Rightarrow> payload \<Rightarrow> req_ctx \<Rightarrow> session \<Rightarrow> session" where
  "request_audit action actor lab q sv pl ctx = audit_write (audit_of action (Some actor) (Some lab)
     (Some ''account_link_request'') (Some (lr_id q)) (Some lab) (Some (srv_id sv)) (Some pl) ctx)"

definition prepared_payload :: "account_link_request \<Rightarrow> physical_account \<Rightarrow> server \<Rightarrow> bool \<Rightarrow> payload" where
  "prepared_payload q p sv ok = [(''account_link_request_id'', JInt (lr_id q)), (''physical_account_id'', JInt (pa_id p)),
     (''server_id'', JInt (srv_id sv)), (''linux_username'', JStr (pa_linux_username p)), (''push_ok'', JBool ok)]"

definition account_at :: "physical_account \<Rightarrow> server \<Rightarrow> string" where
  "account_at p sv = pa_linux_username p @ ''@'' @ srv_hostname sv"

definition approve_request :: "rpc \<Rightarrow> int \<Rightarrow> ustring option \<Rightarrow> int \<Rightarrow> int \<Rightarrow> req_ctx \<Rightarrow> session \<Rightarrow>
    access_error + (account_link_request \<times> session)" where
  "approve_request rpc rid note admin lab ctx s =
    rbind (load_request_in_lab s rid lab) (\<lambda>(q, p, sv).
      if lr_status q \<noteq> ReqPending then Inl (InvalidStatusTransitionError (lr_status q))
      else rbind (latest_active_key_for_user s (lr_requester_user_id q)) (\<lambda>k.
        rbind (approve_push rpc q p sv k admin s) (\<lambda>(ok, outcome, s1).
          let row = decided q ReqApproved admin note s1;
              s2 = upd_db (put_link_request row) s1;
              s3 = request_audit ''account_link_request.approved'' admin lab row sv
                     [(''physical_account_id'', JInt (pa_id p)), (''linux_username'', JStr (pa_linux_username p)),
                      (''ssh_public_key_id'', JInt (sk_id k)), (''push_outcome'', JObj outcome)] ctx s2
          in Inr (row, create_notification (lr_requester_user_id q) ''link.prepared''
               (if ok then ''Admin prepared account '' @ account_at p sv @ ''; run SSH challenge to claim''
                else ''Admin approved '' @ account_at p sv @ '' but key push failed; retry'')
               (if ok then Info else Warn) None (Some (prepared_payload q p sv ok)) (Some ''/account-link-requests'') s3))))"

text \<open>The retry reactivates an entry that exists; its first result says whether the push succeeded.\<close>

definition revived_entry :: "authorized_key_entry \<Rightarrow> int \<Rightarrow> int \<Rightarrow> session \<Rightarrow> authorized_key_entry" where
  "revived_entry e admin for s = e\<lparr>ke_pushed_by_user_id := admin, ke_pushed_for_user_id := for,
     ke_pushed_at := s_clock s, ke_is_active := True, ke_removed_at := None, ke_removed_by_user_id := None\<rparr>"

definition retry_push :: "rpc \<Rightarrow> account_link_request \<Rightarrow> physical_account \<Rightarrow> server \<Rightarrow> ssh_public_key \<Rightarrow>
    authorized_key_entry option \<Rightarrow> int \<Rightarrow> session \<Rightarrow> access_error + (bool \<times> payload \<times> session)" where
  "retry_push rpc q p sv k existing admin s =
    (let base = [(''attempted'', JBool True), (''ssh_public_key_id'', JInt (sk_id k))];
         failed = (\<lambda>m. Inr (False, base @ [(''ok'', JBool False), (''error'', JStr m)], s)) in
     case rpc (srv_id sv) ''backend.authorized_key.push''
            (push_payload p k (''corelab:user='' @ int_str (lr_requester_user_id q) @ '';link_request='' @ int_str (lr_id q) @ '';retry=1'')) of
       RpcReturned pl \<Rightarrow>
         rbind (case existing of
             None \<Rightarrow> insert_key_entry (draft_entry (pa_id p) (sk_id k) admin (lr_requester_user_id q)) s
           | Some e \<Rightarrow> let e' = revived_entry e admin (lr_requester_user_id q) s in Inr (e', upd_db (put_key_entry e') s))
         (\<lambda>(e, s'). Inr (True, base @ pushed_fields pl @ [(''authorized_key_entry_id'', JInt (ke_id e))], s'))
     | AgentOffline m \<Rightarrow> failed m
     | AgentRpcTimeout m \<Rightarrow> failed m
     | _ \<Rightarrow> Inl RpcUncaught)"

definition retry_push_for_request :: "rpc \<Rightarrow> int \<Rightarrow> int \<Rightarrow> int \<Rightarrow> req_ctx \<Rightarrow> session \<Rightarrow>
    access_error + (account_link_request \<times> payload \<times> session)" where
  "retry_push_for_request rpc rid admin lab ctx s =
    rbind (load_request_in_lab s rid lab) (\<lambda>(q, p, sv).
      if lr_status q \<noteq> ReqApproved then Inl (InvalidStatusTransitionError (lr_status q))
      else rbind (latest_active_key_for_user s (lr_requester_user_id q)) (\<lambda>k.
        rbind (find_key_entry s (pa_id p) (sk_id k)) (\<lambda>existing.
          let audit = (\<lambda>action outcome. request_audit action admin lab q sv
                [(''physical_account_id'', JInt (pa_id p)), (''linux_username'', JStr (pa_linux_username p)),
                 (''push_outcome'', JObj outcome)] ctx);
              go = rbind (retry_push rpc q p sv k existing admin s) (\<lambda>(ok, outcome, s1).
                let s2 = audit ''account_link_request.key_push_retried'' outcome s1 in
                Inr (q, outcome, if ok then create_notification_within 0 (lr_requester_user_id q) ''link.prepared''
                    (''Account '' @ account_at p sv @ '' is prepared; run SSH challenge to claim'') Info None
                    (Some (prepared_payload q p sv True @ [(''retry'', JBool True)])) (Some ''/account-link-requests'') s2
                  else s2))
          in case existing of
            Some e \<Rightarrow>
              if ke_is_active e then
                let outcome = [(''ok'', JBool True), (''attempted'', JBool False), (''already_active'', JBool True),
                      (''authorized_key_entry_id'', JInt (ke_id e)), (''ssh_public_key_id'', JInt (sk_id k))]
                in Inr (q, outcome, audit ''account_link_request.key_push_retry.skipped'' outcome s)
              else go
          | None \<Rightarrow> go)))"

definition deny_request :: "int \<Rightarrow> ustring option \<Rightarrow> int \<Rightarrow> int \<Rightarrow> req_ctx \<Rightarrow> session \<Rightarrow>
    access_error + (account_link_request \<times> session)" where
  "deny_request rid note admin lab ctx s =
    rbind (load_request_in_lab s rid lab) (\<lambda>(q, p, sv).
      if lr_status q \<noteq> ReqPending then Inl (InvalidStatusTransitionError (lr_status q))
      else let row = decided q ReqDenied admin note s;
               note_json = jopt JText note;
               s1 = request_audit ''account_link_request.denied'' admin lab row sv
                     [(''physical_account_id'', JInt (pa_id p)), (''decision_note'', note_json)] ctx
                     (upd_db (put_link_request row) s)
           in Inr (row, create_notification (lr_requester_user_id q) ''link.denied''
                (''Admin denied your request for '' @ account_at p sv) Warn None
                (Some [(''account_link_request_id'', JInt (lr_id q)), (''physical_account_id'', JInt (pa_id p)),
                       (''server_id'', JInt (srv_id sv)), (''linux_username'', JStr (pa_linux_username p)),
                       (''decision_note'', note_json)]) (Some ''/account-link-requests'') s1))"

definition withdraw_request :: "int \<Rightarrow> int \<Rightarrow> int \<Rightarrow> req_ctx \<Rightarrow> session \<Rightarrow>
    access_error + (account_link_request \<times> session)" where
  "withdraw_request rid uid lab ctx s =
    rbind (load_request_in_lab s rid lab) (\<lambda>(q, p, sv).
      if lr_requester_user_id q \<noteq> uid then Inl NotRequester
      else if lr_status q \<noteq> ReqPending then Inl (InvalidStatusTransitionError (lr_status q))
      else let row = q\<lparr>lr_status := ReqWithdrawn, lr_decided_at := Some (s_clock s)\<rparr>
           in Inr (row, request_audit ''account_link_request.withdrawn'' uid lab row sv
                [(''physical_account_id'', JInt (pa_id p))] ctx (upd_db (put_link_request row) s)))"

section \<open>Listings\<close>

definition list_for_requester :: "session \<Rightarrow> int \<Rightarrow> account_link_request list" where
  "list_for_requester s uid = rev (filter (\<lambda>q. lr_requester_user_id q = uid) (d_link_requests (s_db s)))"

text \<open>The join of a request with its account and server.\<close>

definition request_in_lab :: "db \<Rightarrow> int \<Rightarrow> account_link_request \<Rightarrow> bool" where
  "request_in_lab d lab q = (case d_pas d (lr_physical_account_id q) of None \<Rightarrow> False
     | Some p \<Rightarrow> (case d_servers d (pa_server_id p) of None \<Rightarrow> False | Some sv \<Rightarrow> srv_lab_id sv = lab))"

definition requests_with :: "session \<Rightarrow> int \<Rightarrow> request_status \<Rightarrow> account_link_request list" where
  "requests_with s lab st = rev (filter (\<lambda>q. request_in_lab (s_db s) lab q \<and> lr_status q = st) (d_link_requests (s_db s)))"

definition list_pending_in_lab :: "session \<Rightarrow> int \<Rightarrow> account_link_request list" where
  "list_pending_in_lab s lab = requests_with s lab ReqPending"

fun needing_push :: "session \<Rightarrow> account_link_request list \<Rightarrow> access_error + account_link_request list" where
  "needing_push s [] = Inr []"
| "needing_push s (q # qs) = (case latest_active_key_for_user s (lr_requester_user_id q) of
      Inl _ \<Rightarrow> needing_push s qs
    | Inr k \<Rightarrow> rbind (find_key_entry s (lr_physical_account_id q) (sk_id k)) (\<lambda>e.
        rbind (needing_push s qs) (\<lambda>rest.
          Inr (if (case e of None \<Rightarrow> True | Some e \<Rightarrow> \<not> ke_is_active e) then q # rest else rest))))"

definition list_needing_key_push_in_lab :: "session \<Rightarrow> int \<Rightarrow> access_error + account_link_request list" where
  "list_needing_key_push_in_lab s lab = needing_push s (requests_with s lab ReqApproved)"

section \<open>The review card\<close>

record lateral_entry =
  la_fingerprint_sha256 :: string
  la_label :: "ustring option"
  la_physical_account_id :: int
  la_linux_username :: string
  la_server_hostname :: string
  la_pushed_at :: int

record request_context =
  rq_request_id :: int
  rq_requester :: user
  rq_pa :: physical_account
  rq_server :: server
  rq_is_first_time :: bool
  rq_total :: nat
  rq_approved :: nat
  rq_denied :: nat
  rq_withdrawn :: nat
  rq_active_keys :: "ssh_public_key list"
  rq_lateral :: "lateral_entry list"

definition lateral_of :: "db \<Rightarrow> int \<Rightarrow> int \<Rightarrow> lateral_entry list" where
  "lateral_of d uid lab = List.map_filter (\<lambda>e.
     if ke_pushed_for_user_id e = uid \<and> ke_is_active e then
       (case (row_by sk_id (ke_ssh_public_key_id e) (d_ssh_keys d), d_pas d (ke_physical_account_id e)) of
          (Some k, Some p) \<Rightarrow> (case d_servers d (pa_server_id p) of
             Some sv \<Rightarrow> if srv_lab_id sv = lab then Some \<lparr>la_fingerprint_sha256 = sk_fingerprint_sha256 k,
                 la_label = sk_comment k, la_physical_account_id = pa_id p, la_linux_username = pa_linux_username p,
                 la_server_hostname = srv_hostname sv, la_pushed_at = ke_pushed_at e\<rparr> else None
           | None \<Rightarrow> None)
        | _ \<Rightarrow> None)
     else None) (d_key_entries d)"

definition status_count :: "db \<Rightarrow> int \<Rightarrow> request_status \<Rightarrow> nat" where
  "status_count d uid st = length (filter (\<lambda>q. lr_requester_user_id q = uid \<and> lr_status q = st) (d_link_requests d))"

text \<open>The requester exists by the foreign key; a missing row is the failed assertion.\<close>

definition build_request_context :: "session \<Rightarrow> int \<Rightarrow> int \<Rightarrow> access_error + request_context" where
  "build_request_context s rid lab =
    rbind (load_request_in_lab s rid lab) (\<lambda>(q, p, sv).
      let d = s_db s; uid = lr_requester_user_id q in
      case d_users d uid of
        None \<Rightarrow> Inl IntegrityError
      | Some u \<Rightarrow>
        let keys = rev (filter (\<lambda>k. sk_user_id k = uid \<and> sk_is_active k) (d_ssh_keys d)) in
        Inr \<lparr>rq_request_id = lr_id q, rq_requester = u, rq_pa = p, rq_server = sv,
          rq_is_first_time = (filter (\<lambda>l. al_user_id l = uid \<and> al_physical_account_id l = lr_physical_account_id q) (link_rows d) = []),
          rq_total = status_count d uid ReqApproved + status_count d uid ReqDenied
            + status_count d uid ReqWithdrawn + status_count d uid ReqPending,
          rq_approved = status_count d uid ReqApproved, rq_denied = status_count d uid ReqDenied,
          rq_withdrawn = status_count d uid ReqWithdrawn, rq_active_keys = keys,
          rq_lateral = (if keys = [] then [] else lateral_of d uid lab)\<rparr>)"

end
