(* ===== verification/Link_Props.thy ===== *)
theory Link_Props
  imports Link_Requests
begin

text \<open>
  What the link and request services guarantee. \<open>access_ok\<close> is the legality of the access tables: unique
  keys, at most one active link of a user on an account, at most one pending request, one key entry per
  account and key, and every verified link established by its own user. \<open>access_dev\<close> is how they may
  change: no row is lost, a revoked link stays revoked, a decided request stays decided. Every
  operation keeps the first and obeys the second.
\<close>

section \<open>The link table as a list of rows\<close>

definition links_keyed :: "db \<Rightarrow> bool" where
  "links_keyed d \<longleftrightarrow> distinct (d_link_ids d) \<and> (\<forall>i \<in> set (d_link_ids d). \<exists>l. d_links d i = Some l \<and> al_id l = i)
     \<and> (\<forall>i \<in> set (d_link_ids d). i < d_next_link d) \<and> (\<forall>i. d_links d i \<noteq> None \<longrightarrow> i \<in> set (d_link_ids d))"

lemma map_filter_some: "(\<And>i. i \<in> set xs \<Longrightarrow> f i = Some (g i)) \<Longrightarrow> List.map_filter f xs = map g xs"
  by (induction xs) (simp_all add: List.map_filter_simps)

lemma link_rows_map: "links_keyed d \<Longrightarrow> link_rows d = map (\<lambda>i. the (d_links d i)) (d_link_ids d)"
  unfolding link_rows_def by (rule map_filter_some) (auto simp: links_keyed_def)

lemma link_rows_ids: "links_keyed d \<Longrightarrow> map al_id (link_rows d) = d_link_ids d"
  by (auto simp: link_rows_map links_keyed_def intro!: map_idI)

lemma link_rows_distinct: "links_keyed d \<Longrightarrow> distinct (map al_id (link_rows d))"
  by (simp add: link_rows_ids) (simp add: links_keyed_def)

lemma in_link_rows: "links_keyed d \<Longrightarrow> l \<in> set (link_rows d) \<longleftrightarrow> d_links d (al_id l) = Some l"
  by (force simp: link_rows_map links_keyed_def)

lemma put_link_keyed: "links_keyed d \<Longrightarrow> al_id l \<in> set (d_link_ids d) \<Longrightarrow> links_keyed (put_link l d)"
  by (auto simp: links_keyed_def put_link_def)

lemma link_rows_put:
  assumes "links_keyed d" and "al_id l \<in> set (d_link_ids d)"
  shows "link_rows (put_link l d) = row_put al_id l (link_rows d)"
  unfolding link_rows_map[OF put_link_keyed[OF assms]] link_rows_map[OF assms(1)] row_put_def map_map
  using assms by (auto simp: put_link_def links_keyed_def)

definition add_link :: "account_link \<Rightarrow> db \<Rightarrow> db" where
  "add_link row d = (put_link row d)\<lparr>d_link_ids := d_link_ids d @ [al_id row], d_next_link := al_id row + 1\<rparr>"

lemma add_link_keyed: "links_keyed d \<Longrightarrow> al_id row = d_next_link d \<Longrightarrow> links_keyed (add_link row d)"
  by (auto simp: links_keyed_def add_link_def put_link_def)

lemma link_rows_add:
  assumes "links_keyed d" and "al_id row = d_next_link d"
  shows "link_rows (add_link row d) = link_rows d @ [row]"
proof -
  have "al_id row \<notin> set (d_link_ids d)" using assms by (auto simp: links_keyed_def)
  with assms show ?thesis
    by (subst link_rows_map[OF add_link_keyed]) (auto simp: link_rows_map add_link_def put_link_def)
qed

lemma insert_link_Inr: "insert_link l s = Inr (row, s') \<longleftrightarrow>
    row = l\<lparr>al_id := d_next_link (s_db s), al_established_at := s_clock s\<rparr> \<and> s' = upd_db (add_link row) s
    \<and> \<not> (al_is_active l \<and> active_links_of (s_db s) (al_user_id l) (al_physical_account_id l) \<noteq> [])"
  by (auto simp: insert_link_def add_link_def Let_def)

section \<open>Legal access tables\<close>

definition link_pair :: "account_link \<Rightarrow> int \<times> int" where
  "link_pair l = (al_user_id l, al_physical_account_id l)"

text \<open>At most one active row per pair, stated on the list.\<close>

definition one_active :: "('r \<Rightarrow> bool) \<Rightarrow> ('r \<Rightarrow> 'p) \<Rightarrow> 'r list \<Rightarrow> bool" where
  "one_active on pair rs \<longleftrightarrow> distinct (map pair (filter on rs))"

lemma one_active_filter: "one_active on pair rs \<Longrightarrow> length (filter (\<lambda>r. pair r = x \<and> on r) rs) \<le> 1"
proof (induction rs)
  case (Cons r rs)
  then show ?case
    by (auto simp: one_active_def filter_empty_conv image_iff split: if_splits)
qed simp

lemma one_active_append: "one_active on pair (rs @ [r]) \<longleftrightarrow>
    one_active on pair rs \<and> (on r \<longrightarrow> filter (\<lambda>x. pair x = pair r \<and> on x) rs = [])"
  by (auto simp: one_active_def filter_empty_conv image_iff)

text \<open>Replacing a row by one that is not newly active keeps it.\<close>

lemma one_active_row_put:
  assumes "one_active on pair rs" and "distinct (map key rs)"
    and "\<And>x. x \<in> set rs \<Longrightarrow> key x = key r \<Longrightarrow> pair x = pair r \<and> (on r \<longrightarrow> on x)"
  shows "one_active on pair (row_put key r rs)"
  using assms
proof (induction rs)
  case (Cons y rs)
  have ih: "one_active on pair (row_put key r rs)"
    using Cons by (auto simp: one_active_def split: if_splits)
  have sub: "pair ` set (filter on (row_put key r rs)) \<subseteq> pair ` set (filter on rs)"
  proof
    fix p assume "p \<in> pair ` set (filter on (row_put key r rs))"
    then obtain x where x: "x \<in> set rs" "on (if key x = key r then r else x)" "p = pair (if key x = key r then r else x)"
      by (auto simp: row_put_def)
    then have "on x \<and> p = pair x" using Cons.prems(3)[of x] by (auto split: if_splits)
    with x(1) show "p \<in> pair ` set (filter on rs)" by auto
  qed
  show ?case
  proof (cases "key y = key r")
    case True
    then have "pair y = pair r" "on r \<Longrightarrow> on y" using Cons.prems(3)[of y] by auto
    moreover have "row_put key r (y # rs) = r # row_put key r rs" using True by (simp add: row_put_def)
    moreover have "on y \<Longrightarrow> pair y \<notin> pair ` set (filter on (row_put key r rs))"
      using Cons.prems(1) sub by (auto simp: one_active_def)
    ultimately show ?thesis using ih by (simp add: one_active_def del: set_filter)
  next
    case False
    then have "row_put key r (y # rs) = y # row_put key r rs" by (simp add: row_put_def)
    moreover have "on y \<Longrightarrow> pair y \<notin> pair ` set (filter on (row_put key r rs))"
      using Cons.prems(1) sub by (auto simp: one_active_def)
    ultimately show ?thesis using ih by (simp add: one_active_def del: set_filter)
  qed
qed (simp add: one_active_def row_put_def)

definition established_ok :: "account_link \<Rightarrow> bool" where
  "established_ok l \<longleftrightarrow> (al_source l \<noteq> AdminDeclared \<longrightarrow> al_established_by_user_id l = al_user_id l)"

definition request_pair :: "account_link_request \<Rightarrow> int \<times> int" where
  "request_pair q = (lr_requester_user_id q, lr_physical_account_id q)"

definition entry_pair :: "authorized_key_entry \<Rightarrow> int \<times> int" where
  "entry_pair e = (ke_physical_account_id e, ke_ssh_public_key_id e)"

definition access_ok :: "db \<Rightarrow> bool" where
  "access_ok d \<longleftrightarrow> links_keyed d
     \<and> one_active al_is_active link_pair (link_rows d) \<and> (\<forall>l \<in> set (link_rows d). established_ok l)
     \<and> distinct (map lr_id (d_link_requests d)) \<and> (\<forall>q \<in> set (d_link_requests d). lr_id q < d_next_link_request d)
     \<and> one_active (\<lambda>q. lr_status q = ReqPending) request_pair (d_link_requests d)
     \<and> distinct (map ke_id (d_key_entries d)) \<and> (\<forall>e \<in> set (d_key_entries d). ke_id e < d_next_key_entry d)
     \<and> distinct (map entry_pair (d_key_entries d))"

lemma access_okD:
  assumes "access_ok d"
  shows "links_keyed d" "one_active al_is_active link_pair (link_rows d)" "\<forall>l \<in> set (link_rows d). established_ok l"
    "distinct (map lr_id (d_link_requests d))" "\<forall>q \<in> set (d_link_requests d). lr_id q < d_next_link_request d"
    "one_active (\<lambda>q. lr_status q = ReqPending) request_pair (d_link_requests d)"
    "distinct (map ke_id (d_key_entries d))" "\<forall>e \<in> set (d_key_entries d). ke_id e < d_next_key_entry d"
    "distinct (map entry_pair (d_key_entries d))"
  using assms by (simp_all add: access_ok_def)

lemma active_links_le_1: "access_ok d \<Longrightarrow> length (active_links_of d u p) \<le> 1"
  using one_active_filter[of al_is_active link_pair "link_rows d" "(u, p)"]
  by (simp add: access_ok_def active_links_of_def link_pair_def)

lemma existing_active_link_total: "access_ok (s_db s) \<Longrightarrow>
    existing_active_link s u p = Inr (case active_links_of (s_db s) u p of [] \<Rightarrow> None | l # _ \<Rightarrow> Some l)"
  using active_links_le_1[of "s_db s" u p]
  by (cases "active_links_of (s_db s) u p" rule: remdups_adj.cases) (auto simp: existing_active_link_def)

section \<open>How the access tables may change\<close>

definition link_dev :: "account_link \<Rightarrow> account_link \<Rightarrow> bool" where
  "link_dev a b \<longleftrightarrow> al_id b = al_id a \<and> link_pair b = link_pair a \<and> al_source b = al_source a
     \<and> al_proof_evidence b = al_proof_evidence a \<and> al_established_by_user_id b = al_established_by_user_id a
     \<and> (\<not> al_is_active a \<longrightarrow> b = a)"

definition request_dev :: "account_link_request \<Rightarrow> account_link_request \<Rightarrow> bool" where
  "request_dev a b \<longleftrightarrow> lr_id b = lr_id a \<and> request_pair b = request_pair a
     \<and> lr_request_note b = lr_request_note a \<and> (lr_status a \<noteq> ReqPending \<longrightarrow> b = a)"

definition entry_dev :: "authorized_key_entry \<Rightarrow> authorized_key_entry \<Rightarrow> bool" where
  "entry_dev a b \<longleftrightarrow> ke_id b = ke_id a \<and> entry_pair b = entry_pair a"

text \<open>Rows develop in place and new rows come behind.\<close>

definition rows_dev :: "('r \<Rightarrow> 'r \<Rightarrow> bool) \<Rightarrow> 'r list \<Rightarrow> 'r list \<Rightarrow> bool" where
  "rows_dev dev xs ys \<longleftrightarrow> list_all2 dev xs (take (length xs) ys) \<and> length xs \<le> length ys"

definition access_dev :: "db \<Rightarrow> db \<Rightarrow> bool" where
  "access_dev d d' \<longleftrightarrow> rows_dev link_dev (link_rows d) (link_rows d')
     \<and> rows_dev request_dev (d_link_requests d) (d_link_requests d')
     \<and> rows_dev entry_dev (d_key_entries d) (d_key_entries d')
     \<and> prefix (d_audit d) (d_audit d')"

lemma link_dev_refl [simp]: "link_dev a a"
  by (simp add: link_dev_def)

lemma request_dev_refl [simp]: "request_dev a a"
  by (simp add: request_dev_def)

lemma entry_dev_refl [simp]: "entry_dev a a"
  by (simp add: entry_dev_def)

lemma dev_trans: "link_dev a b \<Longrightarrow> link_dev b c \<Longrightarrow> link_dev a c"
  "request_dev q r \<Longrightarrow> request_dev r t \<Longrightarrow> request_dev q t"
  "entry_dev e f \<Longrightarrow> entry_dev f g \<Longrightarrow> entry_dev e g"
  by (auto simp: link_dev_def request_dev_def entry_dev_def)

lemma rows_dev_refl: "(\<And>a. dev a a) \<Longrightarrow> rows_dev dev xs xs"
  by (simp add: rows_dev_def list_all2_refl)

lemma rows_dev_append: "(\<And>a. dev a a) \<Longrightarrow> rows_dev dev xs (xs @ ys)"
  by (simp add: rows_dev_def list_all2_refl)

lemma rows_dev_trans:
  assumes "\<And>a b c. dev a b \<Longrightarrow> dev b c \<Longrightarrow> dev a c" and "rows_dev dev xs ys" and "rows_dev dev ys zs"
  shows "rows_dev dev xs zs"
proof -
  have "list_all2 dev ys (take (length ys) zs)" using assms(3) by (simp add: rows_dev_def)
  then have "list_all2 dev (take (length xs) ys) (take (length xs) (take (length ys) zs))"
    by (rule list_all2_takeI)
  then have "list_all2 dev (take (length xs) ys) (take (length xs) zs)"
    using assms(2) by (simp add: rows_dev_def min_def)
  with assms show ?thesis
    by (auto simp: rows_dev_def intro: list_all2_trans[OF assms(1)])
qed

lemma rows_dev_row_put:
  assumes "\<And>a. dev a a" and "\<And>x. x \<in> set rs \<Longrightarrow> key x = key r \<Longrightarrow> dev x r"
  shows "rows_dev dev rs (row_put key r rs)"
proof -
  have "list_all2 dev rs (row_put key r rs)"
    using assms(2) by (induction rs) (auto simp: row_put_def assms(1))
  then show ?thesis by (simp add: rows_dev_def row_put_def)
qed

lemma rows_devD: "rows_dev dev xs ys \<Longrightarrow> x \<in> set xs \<Longrightarrow> \<exists>y \<in> set ys. dev x y"
  by (metis in_set_conv_nth in_set_takeD list_all2_conv_all_nth nth_mem rows_dev_def)

lemma access_dev_refl [simp]: "access_dev d d"
  by (simp add: access_dev_def rows_dev_refl)

lemma access_dev_trans: "access_dev d d' \<Longrightarrow> access_dev d' d'' \<Longrightarrow> access_dev d d''"
  unfolding access_dev_def
  by (auto intro: rows_dev_trans[OF dev_trans(1)] rows_dev_trans[OF dev_trans(2)] rows_dev_trans[OF dev_trans(3)]
      prefix_order.trans)

text \<open>What an operation has to show.\<close>

definition access_step_ok :: "db \<Rightarrow> db \<Rightarrow> bool" where
  "access_step_ok d d' \<longleftrightarrow> (access_ok d \<longrightarrow> access_ok d' \<and> access_dev d d')"

lemma access_step_refl [simp]: "access_step_ok d d"
  by (simp add: access_step_ok_def)

lemma access_step_trans: "access_step_ok d d' \<Longrightarrow> access_step_ok d' d'' \<Longrightarrow> access_step_ok d d''"
  by (auto simp: access_step_ok_def intro: access_dev_trans)

section \<open>The elementary writes\<close>

named_theorems access_steps

lemma audit_write_step [access_steps]: "access_step_ok (s_db s) (s_db (audit_write e s))"
  by (simp add: access_step_ok_def access_ok_def access_dev_def rows_dev_refl audit_write_def links_keyed_def link_rows_def)

lemma insert_notification_step: "access_step_ok (s_db s) (s_db (insert_notification r ty ti se bo pl ct s))"
  by (simp add: access_step_ok_def access_ok_def access_dev_def rows_dev_refl insert_notification_def Let_def
      push_to_user_def links_keyed_def link_rows_def)

lemma create_notification_step [access_steps]:
  "access_step_ok (s_db s) (s_db (create_notification_within w r ty ti se bo pl ct s))"
  "access_step_ok (s_db s) (s_db (create_notification r ty ti se bo pl ct s))"
  using create_notification_within_cases[of w r ty ti se bo pl ct s] create_notification_cases[of r ty ti se bo pl ct s]
    insert_notification_step[of s r ty ti se bo pl ct] by auto

lemma link_rows_frame [simp]: "link_rows (d\<lparr>d_link_requests := q\<rparr>) = link_rows d"
    "link_rows (d\<lparr>d_key_entries := k\<rparr>) = link_rows d" "link_rows (d\<lparr>d_next_link_request := n\<rparr>) = link_rows d"
    "link_rows (d\<lparr>d_next_key_entry := n\<rparr>) = link_rows d"
  by (simp_all add: link_rows_def)

lemma links_keyed_frame [simp]: "links_keyed (d\<lparr>d_link_requests := q\<rparr>) = links_keyed d"
    "links_keyed (d\<lparr>d_key_entries := k\<rparr>) = links_keyed d" "links_keyed (d\<lparr>d_next_link_request := n\<rparr>) = links_keyed d"
    "links_keyed (d\<lparr>d_next_key_entry := n\<rparr>) = links_keyed d"
  by (simp_all add: links_keyed_def)

lemma put_link_frame [simp]: "d_link_requests (put_link l d) = d_link_requests d"
    "d_key_entries (put_link l d) = d_key_entries d" "d_next_link_request (put_link l d) = d_next_link_request d"
    "d_next_key_entry (put_link l d) = d_next_key_entry d" "d_audit (put_link l d) = d_audit d"
    "d_ssh_keys (put_link l d) = d_ssh_keys d" "d_pas (put_link l d) = d_pas d" "d_servers (put_link l d) = d_servers d"
    "d_link_requests (add_link l d) = d_link_requests d" "d_key_entries (add_link l d) = d_key_entries d"
    "d_next_link_request (add_link l d) = d_next_link_request d" "d_next_key_entry (add_link l d) = d_next_key_entry d"
    "d_audit (add_link l d) = d_audit d"
  by (simp_all add: put_link_def add_link_def)

text \<open>Deactivating a stored link.\<close>

lemma revoke_row_step:
  assumes "d_links (s_db s) (al_id l) = Some l" and "al_is_active l"
  shows "access_step_ok (s_db s) (put_link (revoked_row l actor reason s) (s_db s))"
  unfolding access_step_ok_def
proof (intro impI conjI)
  let ?r = "revoked_row l actor reason s"
  have id: "al_id ?r = al_id l" by (simp add: revoked_row_def)
  assume ok: "access_ok (s_db s)"
  note o = access_okD[OF ok]
  have mem: "al_id ?r \<in> set (d_link_ids (s_db s))" using o(1) assms(1) by (auto simp: links_keyed_def id)
  note rows = link_rows_put[OF o(1) mem]
  have same: "x = l" if "x \<in> set (link_rows (s_db s))" "al_id x = al_id ?r" for x
    using that assms(1) in_link_rows[OF o(1), of x] by (simp add: id)
  have "one_active al_is_active link_pair (row_put al_id ?r (link_rows (s_db s)))"
    by (rule one_active_row_put[OF o(2) link_rows_distinct[OF o(1)]])
      (auto dest!: same simp: revoked_row_def link_pair_def)
  moreover have "\<forall>x \<in> set (row_put al_id ?r (link_rows (s_db s))). established_ok x"
    using o(3) assms(1) in_link_rows[OF o(1), of l]
    by (auto dest!: row_putD simp: revoked_row_def established_ok_def)
  ultimately show "access_ok (put_link ?r (s_db s))"
    using ok put_link_keyed[OF o(1) mem] by (simp add: access_ok_def rows)
  have "rows_dev link_dev (link_rows (s_db s)) (row_put al_id ?r (link_rows (s_db s)))"
    by (rule rows_dev_row_put) (auto dest!: same simp: revoked_row_def link_dev_def link_pair_def assms(2))
  then show "access_dev (s_db s) (put_link ?r (s_db s))"
    by (simp add: access_dev_def rows rows_dev_refl)
qed

lemma insert_link_step:
  assumes "insert_link l s = Inr (row, s')" and "established_ok l"
  shows "access_step_ok (s_db s) (s_db s')"
  unfolding access_step_ok_def
proof (intro impI conjI)
  assume ok: "access_ok (s_db s)"
  note o = access_okD[OF ok]
  have r: "row = l\<lparr>al_id := d_next_link (s_db s), al_established_at := s_clock s\<rparr>" and s': "s_db s' = add_link row (s_db s)"
    and free: "al_is_active l \<Longrightarrow> active_links_of (s_db s) (al_user_id l) (al_physical_account_id l) = []"
    using assms(1) by (auto simp: insert_link_Inr)
  have id: "al_id row = d_next_link (s_db s)" by (simp add: r)
  note rows = link_rows_add[OF o(1) id]
  have "one_active al_is_active link_pair (link_rows (s_db s) @ [row])"
    using o(2) free by (simp add: one_active_append r link_pair_def active_links_of_def conj_assoc)
  moreover have "established_ok row" using assms(2) by (simp add: r established_ok_def)
  ultimately show "access_ok (s_db s')"
    using ok add_link_keyed[OF o(1) id] by (auto simp: access_ok_def s' rows)
  show "access_dev (s_db s) (s_db s')"
    by (simp add: access_dev_def s' rows rows_dev_refl rows_dev_append)
qed

text \<open>Key entries.\<close>

lemma insert_key_entry_step:
  assumes "insert_key_entry e s = Inr (row, s')"
  shows "access_step_ok (s_db s) (s_db s')"
proof -
  have "find_key_entry_rows (s_db s) (ke_physical_account_id e) (ke_ssh_public_key_id e) = []"
    and r: "row = e\<lparr>ke_id := d_next_key_entry (s_db s), ke_pushed_at := s_clock s\<rparr>"
    and s': "s_db s' = (s_db s)\<lparr>d_key_entries := d_key_entries (s_db s) @ [row], d_next_key_entry := ke_id row + 1\<rparr>"
    using assms by (auto simp: insert_key_entry_def Let_def split: if_splits)
  then have "entry_pair row \<notin> entry_pair ` set (d_key_entries (s_db s))"
    by (auto simp: find_key_entry_rows_def filter_empty_conv entry_pair_def)
  then show ?thesis
    by (auto simp: access_step_ok_def access_ok_def access_dev_def s' r rows_dev_refl rows_dev_append)
qed

lemma map_row_put_pair:
  assumes "\<And>x. x \<in> set rs \<Longrightarrow> key x = key r \<Longrightarrow> f x = f r"
  shows "map f (row_put key r rs) = map f rs"
  using assms by (induction rs) (auto simp: row_put_def)

lemma put_key_entry_step:
  assumes "e \<in> set (d_key_entries d)" and "ke_id e' = ke_id e" and "entry_pair e' = entry_pair e"
  shows "access_step_ok d (put_key_entry e' d)"
  unfolding access_step_ok_def
proof (intro impI conjI)
  assume ok: "access_ok d"
  note o = access_okD[OF ok]
  have same: "x = e" if "x \<in> set (d_key_entries d)" "ke_id x = ke_id e'" for x
    using that assms o(7) by (auto simp: distinct_map inj_on_def)
  have "map entry_pair (row_put ke_id e' (d_key_entries d)) = map entry_pair (d_key_entries d)"
    by (rule map_row_put_pair) (auto dest: same simp: assms)
  moreover have "\<forall>x \<in> set (row_put ke_id e' (d_key_entries d)). ke_id x < d_next_key_entry d"
    using o(8) assms by (auto dest!: row_putD)
  ultimately show "access_ok (put_key_entry e' d)"
    using ok by (simp add: access_ok_def put_key_entry_def map_key_row_put)
  have "rows_dev entry_dev (d_key_entries d) (row_put ke_id e' (d_key_entries d))"
    by (rule rows_dev_row_put) (auto dest!: same simp: entry_dev_def assms)
  then show "access_dev d (put_key_entry e' d)"
    by (simp add: access_dev_def put_key_entry_def rows_dev_refl)
qed

text \<open>Requests.\<close>

lemma put_request_step:
  assumes "q \<in> set (d_link_requests d)" and "lr_status q = ReqPending" and "lr_id q' = lr_id q"
    and "request_pair q' = request_pair q" and "lr_request_note q' = lr_request_note q" and "lr_status q' \<noteq> ReqPending"
  shows "access_step_ok d (put_link_request q' d)"
  unfolding access_step_ok_def
proof (intro impI conjI)
  assume ok: "access_ok d"
  note o = access_okD[OF ok]
  have same: "x = q" if "x \<in> set (d_link_requests d)" "lr_id x = lr_id q'" for x
    using that assms o(4) by (auto simp: distinct_map inj_on_def)
  have "one_active (\<lambda>q. lr_status q = ReqPending) request_pair (row_put lr_id q' (d_link_requests d))"
    by (rule one_active_row_put[OF o(6,4)]) (auto dest!: same simp: assms)
  moreover have "\<forall>x \<in> set (row_put lr_id q' (d_link_requests d)). lr_id x < d_next_link_request d"
    using o(5) assms by (auto dest!: row_putD)
  ultimately show "access_ok (put_link_request q' d)"
    using ok by (simp add: access_ok_def put_link_request_def map_key_row_put)
  have "rows_dev request_dev (d_link_requests d) (row_put lr_id q' (d_link_requests d))"
    by (rule rows_dev_row_put) (auto dest!: same simp: request_dev_def assms)
  then show "access_dev d (put_link_request q' d)"
    by (simp add: access_dev_def put_link_request_def rows_dev_refl)
qed

lemma insert_request_step:
  assumes "pending_rows (s_db s) (lr_requester_user_id q) (lr_physical_account_id q) = []"
  shows "access_step_ok (s_db s) (s_db (snd (insert_link_request q s)))"
proof -
  have "filter (\<lambda>x. request_pair x = request_pair q \<and> lr_status x = ReqPending) (d_link_requests (s_db s)) = []"
    using assms by (auto simp: pending_rows_def filter_empty_conv request_pair_def)
  then have "one_active (\<lambda>q. lr_status q = ReqPending) request_pair (d_link_requests (s_db s)) \<Longrightarrow>
      one_active (\<lambda>q. lr_status q = ReqPending) request_pair
        (d_link_requests (s_db s) @ [q\<lparr>lr_id := d_next_link_request (s_db s), lr_created_at := s_clock s\<rparr>])"
    by (simp add: one_active_append request_pair_def)
  then show ?thesis
    by (auto simp: access_step_ok_def access_ok_def access_dev_def insert_link_request_def Let_def rows_dev_refl rows_dev_append)
qed

end
