(* ===== verification/Rate_Limit.thy ===== *)
theory Rate_Limit
  imports CoreLab_Prelude
begin

text \<open>
  \<open>middleware/rate_limit.py\<close>: the request budget of a caller (a sliding window over the requests of the
  last minute) and the lock after repeated failures. Times are milliseconds, as in the code. The
  in-process store is a record of two maps; the optional Redis server is a parameter: a record of the
  commands the code sends, with their documented behaviour as the hypothesis \<open>redis_doc\<close>.
\<close>

section \<open>The in-process store\<close>

definition DEFAULT_READ_PER_MINUTE :: nat where "DEFAULT_READ_PER_MINUTE = 600"
definition DEFAULT_WRITE_PER_MINUTE :: nat where "DEFAULT_WRITE_PER_MINUTE = 60"
definition WINDOW_SECONDS :: int where "WINDOW_SECONDS = 60"
definition LOGIN_FAILURE_THRESHOLD :: nat where "LOGIN_FAILURE_THRESHOLD = 3"
definition LOGIN_LOCK_SECONDS :: int where "LOGIN_LOCK_SECONDS = 300"
definition LOGIN_FAILURE_WINDOW_SECONDS :: int where "LOGIN_FAILURE_WINDOW_SECONDS = 300"

record limiter =
  lm_buckets :: "string \<rightharpoonup> int list"
  lm_locks_until_ms :: "string \<rightharpoonup> int"

definition limiter_empty :: limiter where
  "limiter_empty = \<lparr>lm_buckets = Map.empty, lm_locks_until_ms = Map.empty\<rparr>"

definition bucket :: "limiter \<Rightarrow> string \<Rightarrow> int list" where
  "bucket st key = (case lm_buckets st key of None \<Rightarrow> [] | Some ts \<Rightarrow> ts)"

definition bucket_count_after_hit :: "int \<Rightarrow> string \<Rightarrow> int \<Rightarrow> limiter \<Rightarrow> nat \<times> limiter" where
  "bucket_count_after_hit now_ms key window_seconds st =
    (let cutoff_ms = now_ms - window_seconds * 1000;
         ts = filter (\<lambda>t. t > cutoff_ms) (bucket st key) @ [now_ms]
     in (length ts, st\<lparr>lm_buckets := (lm_buckets st)(key \<mapsto> ts)\<rparr>))"

definition hit :: "int \<Rightarrow> string \<Rightarrow> nat \<Rightarrow> int \<Rightarrow> limiter \<Rightarrow> (bool \<times> nat) \<times> limiter" where
  "hit now_ms key max_requests window_seconds st =
    (let (count, st') = bucket_count_after_hit now_ms key window_seconds st
     in ((count \<le> max_requests, max_requests - count), st'))"

text \<open>\<open>failure_hit\<close> reads the clock twice: for the bucket, and again when it sets the lock.\<close>

definition failure_hit :: "int \<Rightarrow> int \<Rightarrow> string \<Rightarrow> string \<Rightarrow> nat \<Rightarrow> int \<Rightarrow> int \<Rightarrow> limiter \<Rightarrow> bool \<times> limiter" where
  "failure_hit now_ms later_ms count_key lock_key threshold window_seconds lock_seconds st =
    (let (count, st') = bucket_count_after_hit now_ms count_key window_seconds st
     in if count \<ge> threshold
        then (True, st'\<lparr>lm_locks_until_ms := (lm_locks_until_ms st')(lock_key \<mapsto> later_ms + lock_seconds * 1000)\<rparr>)
        else (False, st'))"

definition is_locked :: "int \<Rightarrow> string \<Rightarrow> limiter \<Rightarrow> bool \<times> limiter" where
  "is_locked now_ms key st = (case lm_locks_until_ms st key of
      None \<Rightarrow> (False, st)
    | Some expires_at \<Rightarrow>
        if expires_at \<le> now_ms then (False, st\<lparr>lm_locks_until_ms := (lm_locks_until_ms st)(key := None)\<rparr>)
        else (True, st))"

definition clear_failure :: "string \<Rightarrow> string \<Rightarrow> limiter \<Rightarrow> limiter" where
  "clear_failure count_key lock_key st =
    st\<lparr>lm_buckets := (lm_buckets st)(count_key := None),
       lm_locks_until_ms := (lm_locks_until_ms st)(lock_key := None)\<rparr>"

section \<open>Redis\<close>

text \<open>
  The commands the middleware sends, each with the server's clock, in milliseconds. A client that
  is configured can still raise: \<open>RedisRaises\<close> carries whatever the server was left with.
\<close>

record 'r redis =
  zremrangebyscore :: "int \<Rightarrow> string \<Rightarrow> int \<Rightarrow> int \<Rightarrow> 'r \<Rightarrow> 'r"
  zadd :: "int \<Rightarrow> string \<Rightarrow> string \<Rightarrow> int \<Rightarrow> 'r \<Rightarrow> 'r"
  zcard :: "int \<Rightarrow> string \<Rightarrow> 'r \<Rightarrow> nat"
  incr :: "int \<Rightarrow> string \<Rightarrow> 'r \<Rightarrow> nat \<times> 'r"
  expire :: "int \<Rightarrow> string \<Rightarrow> int \<Rightarrow> 'r \<Rightarrow> 'r"
  setex :: "int \<Rightarrow> string \<Rightarrow> int \<Rightarrow> string \<Rightarrow> 'r \<Rightarrow> 'r"
  exists_key :: "int \<Rightarrow> string \<Rightarrow> 'r \<Rightarrow> bool"
  delete_key :: "int \<Rightarrow> string \<Rightarrow> 'r \<Rightarrow> 'r"
  getdel :: "int \<Rightarrow> string \<Rightarrow> 'r \<Rightarrow> string option \<times> 'r"

datatype 'r redis_reply = NoClient | RedisRaises 'r | RedisReplies

record 'r rate_store =
  rs_local :: limiter
  rs_redis :: 'r

definition on_local :: "(limiter \<Rightarrow> 'a \<times> limiter) \<Rightarrow> 'r rate_store \<Rightarrow> 'a \<times> 'r rate_store" where
  "on_local f st = (let (x, l) = f (rs_local st) in (x, st\<lparr>rs_local := l\<rparr>))"

definition sliding_window_hit :: "'r redis \<Rightarrow> 'r redis_reply \<Rightarrow> int \<Rightarrow> string \<Rightarrow> string \<Rightarrow> nat \<Rightarrow> int \<Rightarrow>
    'r rate_store \<Rightarrow> (bool \<times> nat) \<times> 'r rate_store" where
  "sliding_window_hit R reply now_ms uuid key max_requests window_seconds st =
    (case reply of
      NoClient \<Rightarrow> on_local (hit now_ms key max_requests window_seconds) st
    | RedisRaises r \<Rightarrow> on_local (hit now_ms key max_requests window_seconds) (st\<lparr>rs_redis := r\<rparr>)
    | RedisReplies \<Rightarrow>
        (let r1 = zremrangebyscore R now_ms key 0 (now_ms - window_seconds * 1000) (rs_redis st);
             r2 = zadd R now_ms key uuid now_ms r1;
             count = zcard R now_ms key r2;
             r3 = expire R now_ms key (window_seconds + 60) r2
         in ((count \<le> max_requests, max_requests - count), st\<lparr>rs_redis := r3\<rparr>)))"

section \<open>The request budget\<close>

definition EXEMPT_PATH_PREFIXES :: "string list" where
  "EXEMPT_PATH_PREFIXES = [''/healthz'', ''/readyz'', ''/openapi.json'', ''/docs'', ''/ws/'', ''/api/v1/auth/login'']"

definition WRITE_METHODS :: "string list" where
  "WRITE_METHODS = [''POST'', ''PUT'', ''PATCH'', ''DELETE'']"

record http_request =
  hr_path :: string
  hr_method :: string
  hr_authorization :: string
  hr_forwarded_for :: string
  hr_client_host :: "string option"

text \<open>\<open>str.strip()\<close> on the Latin-1 text of a header.\<close>

definition py_space :: "char \<Rightarrow> bool" where
  "py_space c \<longleftrightarrow> (let n = (of_char c :: nat) in 9 \<le> n \<and> n \<le> 13 \<or> 28 \<le> n \<and> n \<le> 32 \<or> n = 133 \<or> n = 160)"

definition strip :: "string \<Rightarrow> string" where
  "strip s = rev (dropWhile py_space (rev (dropWhile py_space s)))"

text \<open>\<open>decode\<close> stands for \<open>decode_access_token\<close> followed by \<open>get("sub")\<close>: \<^const>\<open>None\<close> when it raises.\<close>

definition request_identity :: "(string \<Rightarrow> string option) \<Rightarrow> http_request \<Rightarrow> string" where
  "request_identity decode rq =
    (let sub = (if prefix ''Bearer '' (hr_authorization rq) then decode (strip (drop 7 (hr_authorization rq))) else None)
     in case sub of
       Some u \<Rightarrow> ''user:'' @ u
     | None \<Rightarrow>
         if hr_forwarded_for rq \<noteq> [] then ''ip:'' @ strip (takeWhile (\<lambda>c. c \<noteq> CHR '','') (hr_forwarded_for rq))
         else (case hr_client_host rq of Some h \<Rightarrow> ''ip:'' @ h | None \<Rightarrow> ''ip:unknown''))"

definition is_exempt :: "http_request \<Rightarrow> bool" where
  "is_exempt rq = list_ex (\<lambda>p. prefix p (hr_path rq)) EXEMPT_PATH_PREFIXES"

definition is_write :: "http_request \<Rightarrow> bool" where
  "is_write rq = (hr_method rq \<in> set WRITE_METHODS)"

definition budget_key :: "(string \<Rightarrow> string option) \<Rightarrow> http_request \<Rightarrow> string" where
  "budget_key decode rq = ''ratelimit:'' @ request_identity decode rq @ '':'' @ (if is_write rq then ''w'' else ''r'')"

text \<open>What the middleware does with a request; the numbers are the two \<open>X-RateLimit\<close> headers.\<close>

datatype budget_outcome = Exempt | Forwarded nat nat | RateLimited nat

definition rate_limit_dispatch :: "(string \<Rightarrow> string option) \<Rightarrow> nat \<Rightarrow> nat \<Rightarrow> 'r redis \<Rightarrow> 'r redis_reply \<Rightarrow>
    int \<Rightarrow> string \<Rightarrow> http_request \<Rightarrow> 'r rate_store \<Rightarrow> budget_outcome \<times> 'r rate_store" where
  "rate_limit_dispatch decode reads writes R reply now_ms uuid rq st =
    (if is_exempt rq then (Exempt, st)
     else let limit = (if is_write rq then writes else reads);
              ((allowed, remaining), st') =
                sliding_window_hit R reply now_ms uuid (budget_key decode rq) limit WINDOW_SECONDS st
          in if \<not> allowed then (RateLimited limit, st') else (Forwarded limit remaining, st'))"

text \<open>Requests one after the other, each with the clock and the member name drawn for it.\<close>

fun serve :: "(string \<Rightarrow> string option) \<Rightarrow> nat \<Rightarrow> nat \<Rightarrow> 'r redis \<Rightarrow> 'r redis_reply \<Rightarrow>
    (int \<times> string \<times> http_request) list \<Rightarrow> 'r rate_store \<Rightarrow> budget_outcome list" where
  "serve decode reads writes R reply [] st = []"
| "serve decode reads writes R reply ((now_ms, uuid, rq) # evs) st =
    (let (out, st') = rate_limit_dispatch decode reads writes R reply now_ms uuid rq st
     in out # serve decode reads writes R reply evs st')"

section \<open>The failure lock\<close>

record lock_manager =
  lk_key_prefix :: string
  lk_threshold :: nat
  lk_window :: int
  lk_lock :: int

definition login_lock_manager :: lock_manager where
  "login_lock_manager = \<lparr>lk_key_prefix = ''rate_limit:login'', lk_threshold = LOGIN_FAILURE_THRESHOLD,
     lk_window = LOGIN_FAILURE_WINDOW_SECONDS, lk_lock = LOGIN_LOCK_SECONDS\<rparr>"

definition ssh_challenge_lock_manager :: lock_manager where
  "ssh_challenge_lock_manager = \<lparr>lk_key_prefix = ''rate_limit:ssh_challenge'', lk_threshold = LOGIN_FAILURE_THRESHOLD,
     lk_window = LOGIN_FAILURE_WINDOW_SECONDS, lk_lock = LOGIN_LOCK_SECONDS\<rparr>"

definition count_key :: "lock_manager \<Rightarrow> string \<Rightarrow> string" where
  "count_key m subject = lk_key_prefix m @ '':fails:'' @ subject"

definition lock_key :: "lock_manager \<Rightarrow> string \<Rightarrow> string" where
  "lock_key m subject = lk_key_prefix m @ '':lock:'' @ subject"

definition manager_is_locked :: "'r redis \<Rightarrow> 'r redis_reply \<Rightarrow> lock_manager \<Rightarrow> int \<Rightarrow> string \<Rightarrow>
    'r rate_store \<Rightarrow> bool \<times> 'r rate_store" where
  "manager_is_locked R reply m now_ms subject st = (case reply of
      NoClient \<Rightarrow> on_local (is_locked now_ms (lock_key m subject)) st
    | RedisRaises r \<Rightarrow> (False, st\<lparr>rs_redis := r\<rparr>)
    | RedisReplies \<Rightarrow> (exists_key R now_ms (lock_key m subject) (rs_redis st), st))"

definition record_failure :: "'r redis \<Rightarrow> 'r redis_reply \<Rightarrow> lock_manager \<Rightarrow> int \<Rightarrow> int \<Rightarrow> string \<Rightarrow>
    'r rate_store \<Rightarrow> bool \<times> 'r rate_store" where
  "record_failure R reply m now_ms later_ms subject st = (case reply of
      NoClient \<Rightarrow> on_local (failure_hit now_ms later_ms (count_key m subject) (lock_key m subject)
                    (lk_threshold m) (lk_window m) (lk_lock m)) st
    | RedisRaises r \<Rightarrow> (False, st\<lparr>rs_redis := r\<rparr>)
    | RedisReplies \<Rightarrow>
        (let (count, r1) = incr R now_ms (count_key m subject) (rs_redis st);
             r2 = expire R now_ms (count_key m subject) (lk_window m) r1
         in if count \<ge> lk_threshold m
            then (True, st\<lparr>rs_redis := setex R later_ms (lock_key m subject) (lk_lock m) ''1'' r2\<rparr>)
            else (False, st\<lparr>rs_redis := r2\<rparr>)))"

definition record_success :: "'r redis \<Rightarrow> 'r redis_reply \<Rightarrow> lock_manager \<Rightarrow> int \<Rightarrow> string \<Rightarrow>
    'r rate_store \<Rightarrow> 'r rate_store" where
  "record_success R reply m now_ms subject st = (case reply of
      NoClient \<Rightarrow> st\<lparr>rs_local := clear_failure (count_key m subject) (lock_key m subject) (rs_local st)\<rparr>
    | RedisRaises r \<Rightarrow> st\<lparr>rs_redis := r\<rparr>
    | RedisReplies \<Rightarrow> st\<lparr>rs_redis := delete_key R now_ms (lock_key m subject)
                          (delete_key R now_ms (count_key m subject) (rs_redis st))\<rparr>)"

end
