(* ===== verification/Rate_Props.thy ===== *)
theory Rate_Props
  imports Rate_Limit
begin

text \<open>
  What the request budget and the failure lock guarantee. The locale \<open>window_store\<close> is the contract of a
  counter of recent requests; the in-process store and a Redis server that behaves as documented
  both provide it, so the middleware decides the same with either.
\<close>

section \<open>Documented behaviour of the Redis commands\<close>

text \<open>
  \<open>live r t k\<close> is the entry a command at time \<open>t\<close> finds at key \<open>k\<close>, with its deadline: an entry whose deadline has
  passed is gone. A sorted set that becomes empty is removed.
\<close>

datatype redis_value = RText string | RCounter nat | RZset "string \<rightharpoonup> int"

type_synonym redis_entry = "(redis_value \<times> int option) option"

definition survives :: "int \<Rightarrow> redis_entry \<Rightarrow> redis_entry" where
  "survives t e = (case e of Some (v, Some d) \<Rightarrow> if d \<le> t then None else e | _ \<Rightarrow> e)"

definition zset_of :: "redis_entry \<Rightarrow> (string \<rightharpoonup> int)" where
  "zset_of e = (case e of Some (RZset z, _) \<Rightarrow> z | _ \<Rightarrow> Map.empty)"

definition zset_or_absent :: "redis_entry \<Rightarrow> bool" where
  "zset_or_absent e = (case e of None \<Rightarrow> True | Some (RZset z, _) \<Rightarrow> finite (dom z) | _ \<Rightarrow> False)"

definition deadline_of :: "redis_entry \<Rightarrow> int option" where
  "deadline_of e = (case e of None \<Rightarrow> None | Some (_, d) \<Rightarrow> d)"

definition zentry :: "(string \<rightharpoonup> int) \<Rightarrow> int option \<Rightarrow> redis_entry" where
  "zentry z d = (if z = Map.empty then None else Some (RZset z, d))"

definition redis_doc :: "'r redis \<Rightarrow> ('r \<Rightarrow> int \<Rightarrow> string \<Rightarrow> redis_entry) \<Rightarrow> bool" where
  "redis_doc R live \<longleftrightarrow>
     (\<forall>r k t u. t \<le> u \<longrightarrow> live r u k = survives u (live r t k))
   \<and> (\<forall>r t k j lo hi. zset_or_absent (live r t k) \<longrightarrow> live (zremrangebyscore R t k lo hi r) t j =
        (if j = k then zentry (\<lambda>m. case zset_of (live r t k) m of Some s \<Rightarrow> if lo \<le> s \<and> s \<le> hi then None else Some s
                              | None \<Rightarrow> None) (deadline_of (live r t k)) else live r t j))
   \<and> (\<forall>r t k j m s. zset_or_absent (live r t k) \<longrightarrow> live (zadd R t k m s r) t j =
        (if j = k then zentry ((zset_of (live r t k))(m \<mapsto> s)) (deadline_of (live r t k)) else live r t j))
   \<and> (\<forall>r t k. zset_or_absent (live r t k) \<longrightarrow> zcard R t k r = card (dom (zset_of (live r t k))))
   \<and> (\<forall>r t k j. (case live r t k of
        None \<Rightarrow> fst (incr R t k r) = 1 \<and> live (snd (incr R t k r)) t j = (if j = k then Some (RCounter 1, None) else live r t j)
      | Some (RCounter n, d) \<Rightarrow> fst (incr R t k r) = Suc n
          \<and> live (snd (incr R t k r)) t j = (if j = k then Some (RCounter (Suc n), d) else live r t j)
      | _ \<Rightarrow> True))
   \<and> (\<forall>r t k j secs. 0 < secs \<longrightarrow> live (expire R t k secs r) t j =
        (if j = k then map_option (\<lambda>(v, d). (v, Some (t + secs * 1000))) (live r t k) else live r t j))
   \<and> (\<forall>r t k j secs v. 0 < secs \<longrightarrow> live (setex R t k secs v r) t j =
        (if j = k then Some (RText v, Some (t + secs * 1000)) else live r t j))
   \<and> (\<forall>r t k. exists_key R t k r = (live r t k \<noteq> None))
   \<and> (\<forall>r t k j. live (delete_key R t k r) t j = (if j = k then None else live r t j))
   \<and> (\<forall>r t k j. live (snd (getdel R t k r)) t j = (if j = k then None else live r t j)
        \<and> fst (getdel R t k r) = (case live r t k of Some (RText v, _) \<Rightarrow> Some v | _ \<Rightarrow> None))"

lemmas redis_expiry = redis_doc_def[THEN iffD1, THEN conjunct1, rule_format]
lemmas redis_zrem = redis_doc_def[THEN iffD1, THEN conjunct2, THEN conjunct1, rule_format]
lemmas redis_zadd = redis_doc_def[THEN iffD1, THEN conjunct2, THEN conjunct2, THEN conjunct1, rule_format]
lemmas redis_zcard = redis_doc_def[THEN iffD1, THEN conjunct2, THEN conjunct2, THEN conjunct2, THEN conjunct1, rule_format]
lemmas redis_incr = redis_doc_def[THEN iffD1, THEN conjunct2, THEN conjunct2, THEN conjunct2, THEN conjunct2, THEN conjunct1, rule_format]
lemmas redis_expire = redis_doc_def[THEN iffD1, THEN conjunct2, THEN conjunct2, THEN conjunct2, THEN conjunct2, THEN conjunct2, THEN conjunct1, rule_format]
lemmas redis_setex = redis_doc_def[THEN iffD1, THEN conjunct2, THEN conjunct2, THEN conjunct2, THEN conjunct2, THEN conjunct2, THEN conjunct2, THEN conjunct1, rule_format]
lemmas redis_exists = redis_doc_def[THEN iffD1, THEN conjunct2, THEN conjunct2, THEN conjunct2, THEN conjunct2, THEN conjunct2, THEN conjunct2, THEN conjunct2, THEN conjunct1, rule_format]
lemmas redis_delete = redis_doc_def[THEN iffD1, THEN conjunct2, THEN conjunct2, THEN conjunct2, THEN conjunct2, THEN conjunct2, THEN conjunct2, THEN conjunct2, THEN conjunct2, THEN conjunct1, rule_format]
lemmas redis_getdel = redis_doc_def[THEN iffD1, THEN conjunct2, THEN conjunct2, THEN conjunct2, THEN conjunct2, THEN conjunct2, THEN conjunct2, THEN conjunct2, THEN conjunct2, THEN conjunct2, rule_format]

section \<open>A server with the documented behaviour\<close>

text \<open>The documented behaviour is consistent: a map of entries with deadlines has it.\<close>

type_synonym redis_map = "string \<Rightarrow> redis_entry"

definition map_live :: "redis_map \<Rightarrow> int \<Rightarrow> string \<Rightarrow> redis_entry" where
  "map_live r t k = survives t (r k)"

definition map_zrem :: "(string \<rightharpoonup> int) \<Rightarrow> int \<Rightarrow> int \<Rightarrow> (string \<rightharpoonup> int)" where
  "map_zrem z lo hi = (\<lambda>m. case z m of Some s \<Rightarrow> if lo \<le> s \<and> s \<le> hi then None else Some s | None \<Rightarrow> None)"

definition map_redis :: "redis_map redis" where
  "map_redis = \<lparr>
     zremrangebyscore = (\<lambda>t k lo hi r. r(k := zentry (map_zrem (zset_of (map_live r t k)) lo hi) (deadline_of (map_live r t k)))),
     zadd = (\<lambda>t k m s r. r(k := zentry ((zset_of (map_live r t k))(m \<mapsto> s)) (deadline_of (map_live r t k)))),
     zcard = (\<lambda>t k r. card (dom (zset_of (map_live r t k)))),
     incr = (\<lambda>t k r. case map_live r t k of
         None \<Rightarrow> (1, r(k \<mapsto> (RCounter 1, None)))
       | Some (RCounter n, d) \<Rightarrow> (Suc n, r(k \<mapsto> (RCounter (Suc n), d)))
       | _ \<Rightarrow> (0, r)),
     expire = (\<lambda>t k secs r. r(k := map_option (\<lambda>(v, d). (v, Some (t + secs * 1000))) (map_live r t k))),
     setex = (\<lambda>t k secs v r. r(k \<mapsto> (RText v, Some (t + secs * 1000)))),
     exists_key = (\<lambda>t k r. map_live r t k \<noteq> None),
     delete_key = (\<lambda>t k r. r(k := None)),
     getdel = (\<lambda>t k r. (case map_live r t k of Some (RText v, _) \<Rightarrow> Some v | _ \<Rightarrow> None, r(k := None)))\<rparr>"

lemma survives_simps [simp]: "survives t None = None" "survives t (survives t e) = survives t e"
  by (auto simp: survives_def split: option.splits prod.splits)

lemma survives_later: "t \<le> u \<Longrightarrow> survives u (survives t e) = survives u e"
  by (auto simp: survives_def split: option.splits prod.splits)

lemma survives_zentry: "survives t (zentry z (deadline_of (survives t e))) = zentry z (deadline_of (survives t e))"
  by (auto simp: survives_def zentry_def deadline_of_def split: option.splits prod.splits)

lemma survives_incr: "survives t e = Some (RCounter n, d) \<Longrightarrow> survives t (Some (RCounter m, d)) = Some (RCounter m, d)"
  by (auto simp: survives_def split: option.splits prod.splits if_splits)

lemma survives_expire: "0 < secs \<Longrightarrow> survives t (map_option (\<lambda>(v, d). (v, Some (t + secs * 1000))) e) =
    map_option (\<lambda>(v, d). (v, Some (t + secs * 1000))) e"
  by (auto simp: survives_def split: option.splits prod.splits)

lemma map_redis_doc: "redis_doc map_redis map_live"
  unfolding redis_doc_def
proof (intro conjI allI impI, goal_cases)
  case (5 r t k j)
  show ?case
    by (auto simp: map_redis_def map_live_def survives_def split: option.splits redis_value.splits prod.splits if_splits)
qed (auto simp: map_redis_def map_live_def survives_later survives_zentry survives_expire map_zrem_def survives_def[of _ "Some _"])

section \<open>Counting the recent requests\<close>

text \<open>
  The requests seen so far, oldest first: time, the member name used in Redis, and the key. \<open>recent\<close>
  counts those of a key in the window that ends now; refused requests count as well.
\<close>

type_synonym attempt = "int \<times> string \<times> string"

definition recent :: "attempt list \<Rightarrow> int \<Rightarrow> string \<Rightarrow> int \<Rightarrow> nat" where
  "recent past now key w = length (filter (\<lambda>(t, _, k). k = key \<and> t > now - w * 1000) past)"

definition upto :: "attempt list \<Rightarrow> int \<Rightarrow> bool" where
  "upto past now \<longleftrightarrow> 0 \<le> now \<and> (\<forall>(t, _, _) \<in> set past. t \<le> now)"

lemma upto_later: "upto past now \<Longrightarrow> now \<le> t \<Longrightarrow> upto past t"
  by (auto simp: upto_def)

lemma upto_snoc: "upto (past @ [(now, u, k)]) t \<longleftrightarrow> upto past t \<and> now \<le> t"
  by (auto simp: upto_def)

lemma recent_later: "recent past t key w \<le> recent past now key w" if "now \<le> t"
  unfolding recent_def by (induction past) (use that in auto)

locale window_store =
  fixes R :: "'r redis" and reply :: "'r redis_reply"
    and counts :: "int \<Rightarrow> attempt list \<Rightarrow> 'r rate_store \<Rightarrow> bool"
  assumes counted: "0 < w \<Longrightarrow> counts w past st \<Longrightarrow> upto past now \<Longrightarrow> uuid \<notin> (fst \<circ> snd) ` set past \<Longrightarrow>
      \<exists>st'. sliding_window_hit R reply now uuid key m w st =
        ((Suc (recent past now key w) \<le> m, m - Suc (recent past now key w)), st')
        \<and> counts w (past @ [(now, uuid, key)]) st'"

text \<open>The decision stated on the requests alone, and the middleware follows it.\<close>

fun budget_spec :: "(string \<Rightarrow> string option) \<Rightarrow> nat \<Rightarrow> nat \<Rightarrow> attempt list \<Rightarrow>
    (int \<times> string \<times> http_request) list \<Rightarrow> budget_outcome list" where
  "budget_spec decode reads writes past [] = []"
| "budget_spec decode reads writes past ((now, uuid, rq) # evs) =
    (if is_exempt rq then Exempt # budget_spec decode reads writes past evs
     else let limit = (if is_write rq then writes else reads);
              n = Suc (recent past now (budget_key decode rq) WINDOW_SECONDS)
          in (if n \<le> limit then Forwarded limit (limit - n) else RateLimited limit)
             # budget_spec decode reads writes (past @ [(now, uuid, budget_key decode rq)]) evs)"

definition orderly :: "(int \<times> string \<times> http_request) list \<Rightarrow> bool" where
  "orderly evs \<longleftrightarrow> sorted (map fst evs) \<and> distinct (map (fst \<circ> snd) evs) \<and> (\<forall>(t, _, _) \<in> set evs. 0 \<le> t)"

context window_store begin

lemma serve_spec:
  assumes "counts WINDOW_SECONDS past st" and "orderly evs"
    and "\<And>t. t \<in> fst ` set evs \<Longrightarrow> upto past t" and "(fst \<circ> snd) ` set past \<inter> (fst \<circ> snd) ` set evs = {}"
  shows "serve decode reads writes R reply evs st = budget_spec decode reads writes past evs"
  using assms
proof (induction evs arbitrary: past st)
  case (Cons e evs)
  obtain now uuid rq where e: "e = (now, uuid, rq)" by (cases e)
  have o: "orderly evs" and up: "upto past now" and fresh: "uuid \<notin> (fst \<circ> snd) ` set past"
    using Cons.prems e by (auto simp: orderly_def)
  show ?case
  proof (cases "is_exempt rq")
    case True
    with Cons.IH[OF Cons.prems(1) o] Cons.prems e show ?thesis by (simp add: rate_limit_dispatch_def)
  next
    case False
    define key where "key = budget_key decode rq"
    define m where "m = (if is_write rq then writes else reads)"
    obtain st' where st': "sliding_window_hit R reply now uuid key m WINDOW_SECONDS st =
        ((Suc (recent past now key WINDOW_SECONDS) \<le> m, m - Suc (recent past now key WINDOW_SECONDS)), st')"
      and c: "counts WINDOW_SECONDS (past @ [(now, uuid, key)]) st'"
      using counted[OF _ Cons.prems(1) up fresh] by (auto simp: WINDOW_SECONDS_def)
    have "now \<le> t" if "t \<in> fst ` set evs" for t using Cons.prems(2) e that by (auto simp: orderly_def)
    then have "\<And>t. t \<in> fst ` set evs \<Longrightarrow> upto (past @ [(now, uuid, key)]) t"
      using Cons.prems(3) by (simp add: upto_snoc)
    moreover have "(fst \<circ> snd) ` set (past @ [(now, uuid, key)]) \<inter> (fst \<circ> snd) ` set evs = {}"
      using Cons.prems(2,4) e by (auto simp: orderly_def)
    ultimately have "serve decode reads writes R reply evs st' = budget_spec decode reads writes (past @ [(now, uuid, key)]) evs"
      using Cons.IH[OF c o] by blast
    with False e st' show ?thesis by (simp add: rate_limit_dispatch_def key_def m_def Let_def)
  qed
qed simp

end

section \<open>The in-process store counts\<close>

definition local_counts :: "int \<Rightarrow> attempt list \<Rightarrow> 'r rate_store \<Rightarrow> bool" where
  "local_counts w past st \<longleftrightarrow> (\<forall>now key. upto past now \<longrightarrow>
     filter (\<lambda>t. t > now - w * 1000) (bucket (rs_local st) key)
     = map fst (filter (\<lambda>(t, _, k). k = key \<and> t > now - w * 1000) past))"

lemma bucket_after_hit:
  "bucket (snd (bucket_count_after_hit now key w st)) k =
     (if k = key then filter (\<lambda>t. t > now - w * 1000) (bucket st key) @ [now] else bucket st k)"
  "fst (bucket_count_after_hit now key w st) = Suc (length (filter (\<lambda>t. t > now - w * 1000) (bucket st key)))"
  "lm_locks_until_ms (snd (bucket_count_after_hit now key w st)) = lm_locks_until_ms st"
  by (simp_all add: bucket_count_after_hit_def bucket_def Let_def)

lemma filter_later: "now \<le> t \<Longrightarrow> filter (\<lambda>x. now - w < x \<and> t - w < x) xs = filter ((<) (t - w)) (xs :: int list)"
  by (rule filter_cong) auto

lemma local_counted:
  assumes w: "0 < w" and c: "local_counts w past st" and u: "upto past now"
  shows "\<exists>st'. sliding_window_hit R NoClient now uuid key m w st =
        ((Suc (recent past now key w) \<le> m, m - Suc (recent past now key w)), st')
        \<and> local_counts w (past @ [(now, uuid, key)]) st'"
proof -
  define l where "l = snd (bucket_count_after_hit now key w (rs_local st))"
  have "filter (\<lambda>t. t > now - w * 1000) (bucket (rs_local st) key)
      = map fst (filter (\<lambda>(t, _, k). k = key \<and> t > now - w * 1000) past)"
    using c u unfolding local_counts_def by blast
  then have n: "fst (bucket_count_after_hit now key w (rs_local st)) = Suc (recent past now key w)"
    by (simp add: bucket_after_hit recent_def)
  have "local_counts w (past @ [(now, uuid, key)]) (st\<lparr>rs_local := l\<rparr>)"
    unfolding local_counts_def
  proof (intro allI impI)
    fix t k assume t: "upto (past @ [(now, uuid, key)]) t"
    then have "upto past t" "now \<le> t" by (simp_all add: upto_snoc)
    with c have "filter (\<lambda>x. x > t - w * 1000) (bucket (rs_local st) k)
      = map fst (filter (\<lambda>(x, _, k'). k' = k \<and> x > t - w * 1000) past)" by (simp add: local_counts_def)
    with \<open>now \<le> t\<close> show "filter (\<lambda>x. x > t - w * 1000) (bucket (rs_local (st\<lparr>rs_local := l\<rparr>)) k)
      = map fst (filter (\<lambda>(x, _, k'). k' = k \<and> x > t - w * 1000) (past @ [(now, uuid, key)]))"
      by (cases "k = key") (simp_all add: l_def bucket_after_hit filter_later)
  qed
  with n show ?thesis
    by (simp add: sliding_window_hit_def on_local_def hit_def l_def split_def)
qed

interpretation in_process: window_store R NoClient local_counts for R
  by unfold_locales (rule local_counted)

section \<open>A Redis server counts\<close>

definition redis_counts :: "'r redis \<Rightarrow> ('r \<Rightarrow> int \<Rightarrow> string \<Rightarrow> redis_entry) \<Rightarrow> int \<Rightarrow> attempt list \<Rightarrow>
    'r rate_store \<Rightarrow> bool" where
  "redis_counts R live w past st \<longleftrightarrow> redis_doc R live \<and> distinct (map (fst \<circ> snd) past) \<and> (\<forall>(t, _, _) \<in> set past. 0 \<le> t)
     \<and> (\<forall>now key. upto past now \<longrightarrow> zset_or_absent (live (rs_redis st) now key)
         \<and> (\<forall>m s. zset_of (live (rs_redis st) now key) m = Some s \<longrightarrow> (s, m, key) \<in> set past)
         \<and> (\<forall>m s. (s, m, key) \<in> set past \<longrightarrow> s > now - w * 1000 \<longrightarrow> zset_of (live (rs_redis st) now key) m = Some s))"

lemma zset_of_zentry [simp]: "zset_of (zentry z d) = z"
  by (simp add: zset_of_def zentry_def)

lemma zset_or_absent_zentry [simp]: "zset_or_absent (zentry z d) \<longleftrightarrow> finite (dom z)"
  by (auto simp: zset_or_absent_def zentry_def)

lemma card_dom_recent:
  assumes d: "distinct (map (fst \<circ> snd) past)"
    and z: "\<And>m s. z m = Some s \<longleftrightarrow> (s, m, key) \<in> set past \<and> s > now - w * 1000"
  shows "card (dom z) = recent past now key w"
proof -
  let ?P = "\<lambda>(t, _, k). k = key \<and> t > now - w * 1000"
  have "dom z = (fst \<circ> snd) ` set (filter ?P past)"
    unfolding dom_def using z by (force simp: image_iff)
  moreover have "distinct (map (fst \<circ> snd) (filter ?P past))" using d by (rule distinct_map_filter)
  ultimately show ?thesis
    using distinct_card[of "map (fst \<circ> snd) (filter ?P past)"] by (simp add: recent_def)
qed

lemma redis_counted:
  assumes w: "0 < w" and c: "redis_counts R live w past st" and u: "upto past now"
    and fresh: "uuid \<notin> (fst \<circ> snd) ` set past"
  shows "\<exists>st'. sliding_window_hit R RedisReplies now uuid key m w st =
        ((Suc (recent past now key w) \<le> m, m - Suc (recent past now key w)), st')
        \<and> redis_counts R live w (past @ [(now, uuid, key)]) st'"
proof -
  have D: "redis_doc R live" and ds: "distinct (map (fst \<circ> snd) past)" and nn: "\<forall>(t, _, _) \<in> set past. 0 \<le> t"
    using c by (simp_all add: redis_counts_def)
  have L: "\<And>t k. upto past t \<Longrightarrow> zset_or_absent (live (rs_redis st) t k)
         \<and> (\<forall>m s. zset_of (live (rs_redis st) t k) m = Some s \<longrightarrow> (s, m, k) \<in> set past)
         \<and> (\<forall>m s. (s, m, k) \<in> set past \<longrightarrow> s > t - w * 1000 \<longrightarrow> zset_of (live (rs_redis st) t k) m = Some s)"
    using c unfolding redis_counts_def by blast
  define z0 where "z0 = zset_of (live (rs_redis st) now key)"
  define z1 where "z1 = (\<lambda>m. case z0 m of Some s \<Rightarrow> if 0 \<le> s \<and> s \<le> now - w * 1000 then None else Some s | None \<Rightarrow> None)"
  define r1 where "r1 = zremrangebyscore R now key 0 (now - w * 1000) (rs_redis st)"
  define r2 where "r2 = zadd R now key uuid now r1"
  define r3 where "r3 = expire R now key (w + 60) r2"
  have a0: "zset_or_absent (live (rs_redis st) now key)" using L[OF u] by blast
  have z1: "z1 m = Some s \<longleftrightarrow> (s, m, key) \<in> set past \<and> s > now - w * 1000" for m s
  proof -
    have n: "0 \<le> s" if "(s, m, key) \<in> set past" for s using nn that by blast
    have i: "\<And>s. z0 m = Some s \<Longrightarrow> (s, m, key) \<in> set past"
      "\<And>s. (s, m, key) \<in> set past \<Longrightarrow> s > now - w * 1000 \<Longrightarrow> z0 m = Some s"
      using L[OF u, of key] unfolding z0_def by blast+
    show ?thesis
    proof (cases "z0 m")
      case None
      with i(2)[of s] show ?thesis by (auto simp: z1_def)
    next
      case (Some x)
      with i(1)[of x] i(2)[of s] n[of x] show ?thesis by (auto simp: z1_def)
    qed
  qed
  have fin: "finite (dom z1)"
  proof -
    have "dom z1 \<subseteq> (fst \<circ> snd) ` set past" using z1 by (force simp: image_iff)
    then show ?thesis by (rule finite_subset) simp
  qed
  have l1: "live r1 now j = (if j = key then zentry z1 (deadline_of (live (rs_redis st) now key)) else live (rs_redis st) now j)" for j
    unfolding r1_def z1_def z0_def by (rule redis_zrem[OF D a0])
  then have "zset_or_absent (live r1 now key)" using fin by simp
  from redis_zadd[OF D this, of uuid now] l1
  have l2: "\<exists>d. live r2 now j = (if j = key then zentry (z1(uuid \<mapsto> now)) d else live (rs_redis st) now j)" for j
    unfolding r2_def by auto
  have count: "zcard R now key r2 = Suc (recent past now key w)"
  proof -
    have "uuid \<notin> dom z1" using z1 fresh by (force simp: image_iff)
    moreover have "card (dom z1) = recent past now key w" using ds z1 by (rule card_dom_recent)
    moreover have "zcard R now key r2 = card (dom (z1(uuid \<mapsto> now)))"
      using redis_zcard[OF D, of r2 now key] l2[of key] fin by auto
    ultimately show ?thesis using fin by simp
  qed
  have l3: "live r3 now j = (if j = key then Some (RZset (z1(uuid \<mapsto> now)), Some (now + (w + 60) * 1000))
      else live (rs_redis st) now j)" for j
    using redis_expire[OF D, of "w + 60" now key r2 j] w l2[of j] l2[of key]
    unfolding r3_def by (auto simp: zentry_def)
  have l3': "live r3 t j = survives t (if j = key then Some (RZset (z1(uuid \<mapsto> now)), Some (now + (w + 60) * 1000))
      else live (rs_redis st) now j)" if "now \<le> t" for t j
    using redis_expiry[OF D that, of r3 j] l3 by simp
  have "redis_counts R live w (past @ [(now, uuid, key)]) (st\<lparr>rs_redis := r3\<rparr>)"
    unfolding redis_counts_def
  proof (intro conjI allI impI)
    show "distinct (map (fst \<circ> snd) (past @ [(now, uuid, key)]))" using ds fresh by simp
    show "\<forall>(t, _, _) \<in> set (past @ [(now, uuid, key)]). 0 \<le> t" using nn u by (auto simp: upto_def)
  next
    fix t k assume "upto (past @ [(now, uuid, key)]) t"
    then have t: "upto past t" "now \<le> t" by (simp_all add: upto_snoc)
    have o: "live r3 t k = live (rs_redis st) t k" if "k \<noteq> key"
      using l3'[OF t(2), of k] that redis_expiry[OF D t(2), of "rs_redis st" k] by simp
    have k: "live r3 t key = (if now + (w + 60) * 1000 \<le> t then None
        else Some (RZset (z1(uuid \<mapsto> now)), Some (now + (w + 60) * 1000)))"
      using l3'[OF t(2), of key] by (simp add: survives_def)
    have zz: "zset_of (live r3 t key) = (if now + (w + 60) * 1000 \<le> t then Map.empty else z1(uuid \<mapsto> now))"
      using k by (simp add: zset_of_def)
    show "zset_or_absent (live (rs_redis (st\<lparr>rs_redis := r3\<rparr>)) t k)"
      using L[OF t(1), of k] o k fin by (cases "k = key") (simp_all add: zset_or_absent_def)
    have old: "\<And>m s. zset_of (live (rs_redis st) t k) m = Some s \<Longrightarrow> (s, m, k) \<in> set past"
      "\<And>m s. (s, m, k) \<in> set past \<Longrightarrow> s > t - w * 1000 \<Longrightarrow> zset_of (live (rs_redis st) t k) m = Some s"
      using L[OF t(1), of k] by blast+
    { fix m s assume *: "zset_of (live (rs_redis (st\<lparr>rs_redis := r3\<rparr>)) t k) m = Some s"
      show "(s, m, k) \<in> set (past @ [(now, uuid, key)])"
      proof (cases "k = key")
        case True
        with * have "(z1(uuid \<mapsto> now)) m = Some s" by (simp add: zz split: if_splits)
        then show ?thesis using True z1[of m s] by (cases "m = uuid") simp_all
      next
        case False
        with * old(1)[of m s] show ?thesis by (simp add: o)
      qed }
    { fix m s assume *: "(s, m, k) \<in> set (past @ [(now, uuid, key)])" "s > t - w * 1000"
      have "s \<le> now" using *(1) u by (auto simp: upto_def)
      then have lv: "\<not> now + (w + 60) * 1000 \<le> t" using *(2) by simp
      show "zset_of (live (rs_redis (st\<lparr>rs_redis := r3\<rparr>)) t k) m = Some s"
      proof (cases "k = key")
        case True
        have "m \<noteq> uuid" if "(s, m, key) \<in> set past" using that fresh by (force simp: image_iff)
        with True * z1[of m s] t(2) lv show ?thesis by (auto simp: zz)
      next
        case False
        with * old(2)[of s m] show ?thesis by (simp add: o)
      qed }
  qed (use D in simp)
  with count show ?thesis
    unfolding sliding_window_hit_def r3_def r2_def r1_def by (simp add: Let_def)
qed

interpretation over_redis: window_store R RedisReplies "redis_counts R live" for R live
  by unfold_locales (rule redis_counted)

section \<open>The budget of a window\<close>

definition attempts_of :: "(string \<Rightarrow> string option) \<Rightarrow> (int \<times> string \<times> http_request) list \<Rightarrow> attempt list" where
  "attempts_of decode evs = map (\<lambda>(t, u, rq). (t, u, budget_key decode rq)) (filter (\<lambda>(_, _, rq). \<not> is_exempt rq) evs)"

definition budget_decision :: "nat \<Rightarrow> nat \<Rightarrow> budget_outcome" where
  "budget_decision limit n = (if n \<le> limit then Forwarded limit (limit - n) else RateLimited limit)"

definition request_limit :: "nat \<Rightarrow> nat \<Rightarrow> http_request \<Rightarrow> nat" where
  "request_limit reads writes rq = (if is_write rq then writes else reads)"

lemma budget_spec_nth:
  assumes "i < length evs" and "evs ! i = (t, u, rq)"
  shows "budget_spec decode reads writes past evs ! i = (if is_exempt rq then Exempt
     else budget_decision (request_limit reads writes rq)
       (Suc (recent (past @ attempts_of decode (take i evs)) t (budget_key decode rq) WINDOW_SECONDS)))"
  using assms
proof (induction evs arbitrary: past i)
  case (Cons e evs)
  obtain t' u' rq' where e: "e = (t', u', rq')" by (cases e)
  show ?case
  proof (cases i)
    case 0
    with Cons.prems e show ?thesis
      by (simp add: attempts_of_def budget_decision_def request_limit_def Let_def)
  next
    case (Suc j)
    with Cons.prems have j: "j < length evs" "evs ! j = (t, u, rq)" by simp_all
    have "take i (e # evs) = e # take j evs" using Suc by simp
    then show ?thesis
      using Cons.IH[OF j] Suc e by (simp add: attempts_of_def Let_def)
  qed
qed simp

lemma budget_spec_length [simp]: "length (budget_spec decode reads writes past evs) = length evs"
  by (induction decode reads writes past evs rule: budget_spec.induct) (auto simp: Let_def)

fun is_forwarded :: "budget_outcome \<Rightarrow> bool" where
  "is_forwarded (Forwarded _ _) = True"
| "is_forwarded _ = False"

text \<open>The requests of one caller and kind that were let through in the minute after \<open>a\<close>, by position.\<close>

definition admitted_in :: "(string \<Rightarrow> string option) \<Rightarrow> (int \<times> string \<times> http_request) list \<Rightarrow> budget_outcome list \<Rightarrow>
    string \<Rightarrow> bool \<Rightarrow> int \<Rightarrow> nat set" where
  "admitted_in decode evs outs who wr a = {i. i < length evs \<and> (case evs ! i of (t, _, rq) \<Rightarrow>
     is_forwarded (outs ! i) \<and> request_identity decode rq = who \<and> is_write rq = wr
     \<and> a < t \<and> t \<le> a + WINDOW_SECONDS * 1000)}"

lemma recent_card: "recent (attempts_of decode xs) now key w =
    card {i. i < length xs \<and> (case xs ! i of (t, _, rq) \<Rightarrow> \<not> is_exempt rq \<and> budget_key decode rq = key \<and> t > now - w * 1000)}"
proof -
  have "recent (attempts_of decode xs) now key w =
      length (filter (\<lambda>(t, _, rq). \<not> is_exempt rq \<and> budget_key decode rq = key \<and> t > now - w * 1000) xs)"
    by (induction xs) (auto simp: recent_def attempts_of_def)
  then show ?thesis by (simp add: length_filter_conv_card)
qed

lemma budget_spec_bounded:
  "card (admitted_in decode evs (budget_spec decode reads writes [] evs) who wr a) \<le> (if wr then writes else reads)"
proof (cases "admitted_in decode evs (budget_spec decode reads writes [] evs) who wr a = {}")
  case False
  let ?S = "admitted_in decode evs (budget_spec decode reads writes [] evs) who wr a"
  have fin: "finite ?S" by (rule finite_subset[of _ "{..<length evs}"]) (auto simp: admitted_in_def)
  define m where "m = Max ?S"
  have m: "m \<in> ?S" using False fin by (simp add: m_def)
  obtain t u rq where e: "evs ! m = (t, u, rq)" by (cases "evs ! m")
  have lim: "request_limit reads writes rq = (if wr then writes else reads)"
    and len: "m < length evs" and who: "request_identity decode rq = who" "is_write rq = wr"
    and t: "t \<le> a + WINDOW_SECONDS * 1000"
    and fw: "is_forwarded (budget_spec decode reads writes [] evs ! m)"
    using m e by (auto simp: admitted_in_def request_limit_def)
  let ?n = "recent (attempts_of decode (take m evs)) t (budget_key decode rq) WINDOW_SECONDS"
  have ne: "\<not> is_exempt rq" and le: "Suc ?n \<le> (if wr then writes else reads)"
    using fw budget_spec_nth[OF len e, of decode reads writes "[]"] lim
    by (auto simp: budget_decision_def split: if_splits)
  let ?Q = "{i. i < length (take m evs) \<and> (case take m evs ! i of (t', _, rq') \<Rightarrow>
      \<not> is_exempt rq' \<and> budget_key decode rq' = budget_key decode rq \<and> t' > t - WINDOW_SECONDS * 1000)}"
  have "?S \<subseteq> insert m ?Q"
  proof
    fix i assume i: "i \<in> ?S"
    then have "i \<le> m" using fin by (simp add: m_def)
    show "i \<in> insert m ?Q"
    proof (cases "i = m")
      case False
      with \<open>i \<le> m\<close> len have im: "i < m" "i < length evs" by simp_all
      obtain t' u' rq' where e': "evs ! i = (t', u', rq')" by (cases "evs ! i")
      have "request_identity decode rq' = who" "is_write rq' = wr" "a < t'"
        and fw': "is_forwarded (budget_spec decode reads writes [] evs ! i)" using i e' by (auto simp: admitted_in_def)
      moreover have "\<not> is_exempt rq'"
        using fw' budget_spec_nth[OF im(2) e', of decode reads writes "[]"] by auto
      ultimately show ?thesis using im e' who t len by (auto simp: budget_key_def)
    qed simp
  qed
  then have "card ?S \<le> card (insert m ?Q)" by (intro card_mono) auto
  also have "\<dots> \<le> Suc (card ?Q)" by (simp add: card_insert_if)
  also have "card ?Q = ?n" by (simp only: recent_card)
  finally show ?thesis using le by simp
qed simp

lemma local_counts_empty: "lm_buckets (rs_local st) = Map.empty \<Longrightarrow> local_counts w [] st"
  by (simp add: local_counts_def bucket_def)

lemma redis_counts_fresh: "redis_doc R live \<Longrightarrow> (\<And>t k. live (rs_redis st) t k = None) \<Longrightarrow> redis_counts R live w [] st"
  by (simp add: redis_counts_def zset_or_absent_def zset_of_def)

lemma orderly_upto: "orderly evs \<Longrightarrow> t \<in> fst ` set evs \<Longrightarrow> upto [] t"
  by (force simp: orderly_def upto_def)

lemma serve_local:
  assumes "orderly evs" and "lm_buckets (rs_local st) = Map.empty"
  shows "serve decode reads writes R NoClient evs st = budget_spec decode reads writes [] evs"
  by (rule in_process.serve_spec[OF local_counts_empty[OF assms(2)] assms(1)]) (simp_all add: orderly_upto[OF assms(1)])

lemma serve_redis:
  assumes "orderly evs" and "redis_doc R live" and "\<And>t k. live (rs_redis st) t k = None"
  shows "serve decode reads writes R RedisReplies evs st = budget_spec decode reads writes [] evs"
  by (rule over_redis.serve_spec[OF redis_counts_fresh[OF assms(2,3)] assms(1)]) (simp_all add: orderly_upto[OF assms(1)])

end
