(* ===== verification/Ssh_Challenge.thy ===== *)
theory Ssh_Challenge
  imports Rate_Props
begin

text \<open>
  \<open>services/ssh_challenge.py\<close>: a nonce stored in Redis for five minutes, spent by one \<open>GETDEL\<close> whoever
  asks. \<open>dumps\<close> and \<open>loads\<close> are the JSON encoding of the stored record; random texts are arguments.
\<close>

section \<open>Minting and consuming\<close>

definition SIGNING_NAMESPACE :: string where "SIGNING_NAMESPACE = ''corelab''"
definition TTL_SECONDS :: int where "TTL_SECONDS = 300"
definition REDIS_PREFIX :: string where "REDIS_PREFIX = ''ssh-challenge:''"

record challenge_data =
  cd_user_id :: int
  cd_server_id :: int
  cd_physical_account_id :: int
  cd_ssh_public_key_id :: int
  cd_nonce :: string

datatype challenge_error = RedisUnavailableError | ChallengeExpiredOrUsedError | ActorMismatchError | ChallengeRaises

record issued_challenge =
  ic_challenge_id :: string
  ic_nonce :: string
  ic_expires_at :: datetime
  ic_sign_command :: string
  ic_signing_namespace :: string

definition sign_command :: "string \<Rightarrow> string" where
  "sign_command nonce = ''echo \"'' @ nonce @ ''\" | ssh-keygen -Y sign -n '' @ SIGNING_NAMESPACE @ '' -f ~/.ssh/id_ed25519''"

text \<open>\<open>now_ms\<close> is the clock of the Redis server, \<open>now\<close> that of the backend.\<close>

definition mint :: "'r redis \<Rightarrow> 'r redis_reply \<Rightarrow> (challenge_data \<Rightarrow> string) \<Rightarrow> int \<Rightarrow> int \<Rightarrow> string \<Rightarrow> string \<Rightarrow>
    int \<Rightarrow> int \<Rightarrow> int \<Rightarrow> int \<Rightarrow> 'r rate_store \<Rightarrow> (challenge_error + issued_challenge) \<times> 'r rate_store" where
  "mint R reply dumps now_ms now nonce cid uid sid pid kid st = (case reply of
      NoClient \<Rightarrow> (Inl RedisUnavailableError, st)
    | RedisRaises r \<Rightarrow> (Inl ChallengeRaises, st\<lparr>rs_redis := r\<rparr>)
    | RedisReplies \<Rightarrow>
        (Inr \<lparr>ic_challenge_id = cid, ic_nonce = nonce, ic_expires_at = dt_utc (now + seconds TTL_SECONDS),
              ic_sign_command = sign_command nonce, ic_signing_namespace = SIGNING_NAMESPACE\<rparr>,
         st\<lparr>rs_redis := setex R now_ms (REDIS_PREFIX @ cid) TTL_SECONDS
              (dumps \<lparr>cd_user_id = uid, cd_server_id = sid, cd_physical_account_id = pid,
                      cd_ssh_public_key_id = kid, cd_nonce = nonce\<rparr>) (rs_redis st)\<rparr>))"

definition consume :: "'r redis \<Rightarrow> 'r redis_reply \<Rightarrow> (string \<Rightarrow> challenge_data option) \<Rightarrow> int \<Rightarrow> string \<Rightarrow> int \<Rightarrow>
    'r rate_store \<Rightarrow> (challenge_error + challenge_data) \<times> 'r rate_store" where
  "consume R reply loads now_ms cid actor st = (case reply of
      NoClient \<Rightarrow> (Inl RedisUnavailableError, st)
    | RedisRaises r \<Rightarrow> (Inl ChallengeRaises, st\<lparr>rs_redis := r\<rparr>)
    | RedisReplies \<Rightarrow>
        (let (raw, r) = getdel R now_ms (REDIS_PREFIX @ cid) (rs_redis st); st' = st\<lparr>rs_redis := r\<rparr> in
         case raw of
           None \<Rightarrow> (Inl ChallengeExpiredOrUsedError, st')
         | Some text \<Rightarrow> (case loads text of
             None \<Rightarrow> (Inl ChallengeRaises, st')
           | Some data \<Rightarrow> if cd_user_id data \<noteq> actor then (Inl ActorMismatchError, st') else (Inr data, st'))))"

section \<open>A challenge is spent at most once, by its owner, within its time\<close>

text \<open>What else may happen to the store: requests of other keys, the passing of time.\<close>

definition untouched :: "('r \<Rightarrow> int \<Rightarrow> string \<Rightarrow> redis_entry) \<Rightarrow> string \<Rightarrow> int \<Rightarrow> 'r \<Rightarrow> int \<Rightarrow> 'r \<Rightarrow> bool" where
  "untouched live key t r u r' \<longleftrightarrow> t \<le> u \<and> live r' u key = survives u (live r t key)"

definition challenge_entry :: "('r \<Rightarrow> int \<Rightarrow> string \<Rightarrow> redis_entry) \<Rightarrow> int \<Rightarrow> string \<Rightarrow> 'r rate_store \<Rightarrow> redis_entry" where
  "challenge_entry live t cid st = live (rs_redis st) t (REDIS_PREFIX @ cid)"

lemma mint_stores:
  assumes "redis_doc R live"
    and "mint R RedisReplies dumps now_ms now nonce cid uid sid pid kid st = (Inr ic, st')"
  shows "challenge_entry live now_ms cid st' = Some (RText (dumps \<lparr>cd_user_id = uid, cd_server_id = sid,
      cd_physical_account_id = pid, cd_ssh_public_key_id = kid, cd_nonce = nonce\<rparr>), Some (now_ms + TTL_SECONDS * 1000))"
  using assms(2) redis_setex[OF assms(1), of TTL_SECONDS]
  by (auto simp: mint_def challenge_entry_def TTL_SECONDS_def)

lemma consume_burns:
  assumes "redis_doc R live" and "consume R RedisReplies loads t cid actor st = (out, st')"
  shows "challenge_entry live t cid st' = None"
  using assms(2) redis_getdel[OF assms(1), of t "REDIS_PREFIX @ cid" "rs_redis st" "REDIS_PREFIX @ cid"]
  by (auto simp: consume_def challenge_entry_def Let_def split: prod.splits option.splits if_splits)

lemma consume_result:
  assumes "redis_doc R live"
  shows "fst (consume R RedisReplies loads t cid actor st) = (case challenge_entry live t cid st of
      Some (RText text, _) \<Rightarrow> (case loads text of None \<Rightarrow> Inl ChallengeRaises
        | Some data \<Rightarrow> if cd_user_id data \<noteq> actor then Inl ActorMismatchError else Inr data)
    | _ \<Rightarrow> Inl ChallengeExpiredOrUsedError)"
proof -
  have g: "fst (getdel R t (REDIS_PREFIX @ cid) (rs_redis st)) =
      (case challenge_entry live t cid st of Some (RText v, _) \<Rightarrow> Some v | _ \<Rightarrow> None)"
    using redis_getdel[OF assms] by (simp add: challenge_entry_def)
  have "fst (consume R RedisReplies loads t cid actor st) = (case fst (getdel R t (REDIS_PREFIX @ cid) (rs_redis st)) of
      None \<Rightarrow> Inl ChallengeExpiredOrUsedError
    | Some text \<Rightarrow> (case loads text of None \<Rightarrow> Inl ChallengeRaises
        | Some data \<Rightarrow> if cd_user_id data \<noteq> actor then Inl ActorMismatchError else Inr data))"
    by (simp add: consume_def Let_def split_def split: option.split)
  then show ?thesis unfolding g by (simp split: option.split redis_value.split)
qed

end
