(* ===== verification/Access_Api.thy ===== *)
theory Access_Api
  imports Link_Requests Ssh_Challenge Reservation_Api
begin

text \<open>
  The endpoints of \<open>api/v1/account_links.py\<close> and \<open>api/v1/account_link_requests.py\<close>, with the
  permission checks of \<open>auth_dependencies.py\<close>. An endpoint takes the request session and, where it talks
  to Redis, the rate-limit store, and returns its outcome with what it leaves.
\<close>

section \<open>What a request depends on\<close>

record 'r access_env =
  ae_redis :: "'r redis"
  ae_lock_reply :: "'r redis_reply"
  ae_failure_reply :: "'r redis_reply"
  ae_challenge_reply :: "'r redis_reply"
  ae_now_ms :: int
  ae_later_ms :: int
  ae_dumps :: "challenge_data \<Rightarrow> string"
  ae_loads :: "string \<Rightarrow> challenge_data option"
  ae_rpc :: rpc
  ae_coll :: "string \<Rightarrow> string \<Rightarrow> bool"
  ae_str :: "access_error \<Rightarrow> string"
  ae_ctx :: req_ctx

definition http :: "nat \<Rightarrow> string \<Rightarrow> api_error" where
  "http code detail = HttpException code [(''detail'', JStr detail)]"

definition locked_error :: api_error where
  "locked_error = HttpException 429 [(''code'', JStr ''SSH_CHALLENGE_LOCKED'')]"

text \<open>The failures a handler lets through.\<close>

fun escapes :: "access_error \<Rightarrow> bool" where
  "escapes IntegrityError = True"
| "escapes MultipleResultsFound = True"
| "escapes RpcUncaught = True"
| "escapes _ = False"

text \<open>
  \<open>get_current_user\<close>: the credentials are the scheme, in lower case, and the token; \<open>decode\<close> is the JWT
  check, \<^const>\<open>None\<close> when it raises, and \<open>to_int\<close> is Python's \<open>int\<close> on a text.
\<close>

definition get_current_user :: "(string \<Rightarrow> payload option) \<Rightarrow> (string \<times> string) option \<Rightarrow> (string \<Rightarrow> int option) \<Rightarrow>
    session \<Rightarrow> user outcome" where
  "get_current_user decode credentials to_int s = (case credentials of
      None \<Rightarrow> Inl (http 401 ''missing or malformed Authorization header'')
    | Some (scheme, token) \<Rightarrow>
      if scheme \<noteq> ''bearer'' then Inl (http 401 ''missing or malformed Authorization header'')
      else (case decode token of
        None \<Rightarrow> Inl (http 401 ''invalid token'')
      | Some pl \<Rightarrow> (case (case map_of pl ''sub'' of Some (JStr t) \<Rightarrow> to_int t | Some (JInt i) \<Rightarrow> Some i | _ \<Rightarrow> None) of
          None \<Rightarrow> Inl (http 401 ''token missing sub'')
        | Some uid \<Rightarrow> (case d_users (s_db s) uid of
            None \<Rightarrow> Inl (http 401 ''user not found or disabled'')
          | Some u \<Rightarrow> if u_is_active u then Inr u else Inl (http 401 ''user not found or disabled'')))))"

definition require_lab_admin :: "user \<Rightarrow> user outcome" where
  "require_lab_admin u = (if u_role u = RoleLabAdmin then Inr u else Inl (http 403 ''role is not allowed''))"

definition active_grants :: "db \<Rightarrow> int \<Rightarrow> server_admin_grant list" where
  "active_grants d uid = filter (\<lambda>g. gr_user_id g = uid \<and> gr_is_active g) (d_grants d)"

definition assert_server_admin :: "user \<Rightarrow> int \<Rightarrow> session \<Rightarrow> unit outcome" where
  "assert_server_admin u sid s =
    (if u_role u = RoleLabAdmin then Inr ()
     else (case filter (\<lambda>g. gr_server_id g = sid) (active_grants (s_db s) (u_id u)) of
        [] \<Rightarrow> Inl (http 403 ''not_server_admin'') | [_] \<Rightarrow> Inr () | _ \<Rightarrow> Inl Uncaught))"

definition list_granted_server_ids :: "user \<Rightarrow> session \<Rightarrow> int list" where
  "list_granted_server_ids u s = (if u_role u = RoleLabAdmin
     then map srv_id (filter (\<lambda>sv. srv_lab_id sv = u_lab_id u) (server_rows (s_db s)))
     else map gr_server_id (active_grants (s_db s) (u_id u)))"

section \<open>Claiming by SSH challenge\<close>

text \<open>A service result becomes an endpoint result: \<open>code\<close> is the status of the errors the handler names.\<close>

definition mapped :: "'r access_env \<Rightarrow> (access_error \<Rightarrow> nat) \<Rightarrow> access_error \<Rightarrow> api_error" where
  "mapped env code e = (if escapes e then Uncaught else http (code e) (ae_str env e))"

definition find_server :: "int \<Rightarrow> user \<Rightarrow> session \<Rightarrow> server outcome" where
  "find_server sid u s = (case d_servers (s_db s) sid of
      None \<Rightarrow> Inl (http 404 ''server_not_found'')
    | Some sv \<Rightarrow> if srv_lab_id sv = u_lab_id u then Inr sv else Inl (http 404 ''server_not_found''))"

definition lock_subject :: "user \<Rightarrow> string" where
  "lock_subject u = int_str (u_id u)"

fun challenge_http :: "challenge_error \<Rightarrow> api_error" where
  "challenge_http RedisUnavailableError = http 503 ''redis_unavailable''"
| "challenge_http ChallengeExpiredOrUsedError = http 410 ''challenge_expired_or_used''"
| "challenge_http ActorMismatchError = http 403 ''actor_mismatch''"
| "challenge_http ChallengeRaises = Uncaught"

definition create_challenge_ep :: "'r access_env \<Rightarrow> string \<Rightarrow> string \<Rightarrow> user \<Rightarrow> int \<Rightarrow> string \<Rightarrow> int \<Rightarrow>
    session \<times> 'r rate_store \<Rightarrow> issued_challenge outcome \<times> session \<times> 'r rate_store" where
  "create_challenge_ep env nonce cid u sid uname kid st = (case st of (s, rs0) \<Rightarrow>
    (let (locked, rs) = manager_is_locked (ae_redis env) (ae_lock_reply env) ssh_challenge_lock_manager (ae_now_ms env) (lock_subject u) rs0 in
     if locked then (Inl locked_error, s, rs)
     else (case find_server sid u s of
       Inl e \<Rightarrow> (Inl e, s, rs)
     | Inr sv \<Rightarrow> (case resolve_physical_account (ae_coll env) s sid uname of
         Inl e \<Rightarrow> (Inl (mapped env (\<lambda>_. 404) e), s, rs)
       | Inr p \<Rightarrow> (case assert_ssh_key_owned s kid (u_id u) of
           Inl e \<Rightarrow> (Inl (mapped env (\<lambda>_. 403) e), s, rs)
         | Inr k \<Rightarrow> (case mint (ae_redis env) (ae_challenge_reply env) (ae_dumps env) (ae_now_ms env) (s_clock s)
                          nonce cid (u_id u) sid (pa_id p) kid rs of
             (Inl e, rs') \<Rightarrow> (Inl (challenge_http e), s, rs')
           | (Inr issued, rs') \<Rightarrow>
               (Inr issued, audit_write (audit_of ''account_link.challenge.create'' (Some (u_id u)) (Some (u_lab_id u))
                  (Some ''physical_account'') (Some (pa_id p)) (Some (u_lab_id u)) (Some sid)
                  (Some [(''challenge_id'', JStr cid), (''linux_username'', JStr uname), (''ssh_public_key_id'', JInt kid)])
                  (ae_ctx env)) s, rs')))))))"

text \<open>
  The signature goes to the agent with the account and the nonce of the challenge; the key the challenge
  was minted for is not part of the question. The answer is the JSON payload of the response.
\<close>

definition ask_agent :: "'r access_env \<Rightarrow> int \<Rightarrow> string \<Rightarrow> payload \<Rightarrow> payload outcome" where
  "ask_agent env sid frame pl = (case ae_rpc env sid frame pl of
      RpcReturned r \<Rightarrow> Inr r
    | AgentOffline m \<Rightarrow> Inl (http 503 m)
    | AgentRpcTimeout m \<Rightarrow> Inl (http 504 m)
    | _ \<Rightarrow> Inl Uncaught)"

definition truthy_field :: "payload \<Rightarrow> string \<Rightarrow> bool" where
  "truthy_field r k = json_truthy (rpc_get r k JNull)"

definition verify_signature :: "'r access_env \<Rightarrow> challenge_data \<Rightarrow> ustring \<Rightarrow> session \<Rightarrow> json outcome" where
  "verify_signature env cx sig s = (case d_pas (s_db s) (cd_physical_account_id cx) of
      None \<Rightarrow> Inl (http 404 ''physical_account_gone'')
    | Some p \<Rightarrow> (case ask_agent env (cd_server_id cx) ''backend.ssh.verify_sig''
          [(''linux_username'', JStr (pa_linux_username p)), (''nonce'', JStr (cd_nonce cx)),
           (''namespace'', JStr SIGNING_NAMESPACE), (''signature_armored'', JText sig)] of
        Inl e \<Rightarrow> Inl e
      | Inr r \<Rightarrow> if truthy_field r ''ok'' then Inr (rpc_get r ''signer_fingerprint'' (JStr ''unknown''))
                 else Inl (http 401 ''signature_verification_failed'')))"

definition verify_failed :: "'r access_env \<Rightarrow> user \<Rightarrow> string \<Rightarrow> string \<Rightarrow> session \<Rightarrow> session" where
  "verify_failed env u reason cid = audit_write (audit_of ''account_link.verify_failed'' (Some (u_id u)) (Some (u_lab_id u))
     (Some ''ssh_challenge'') None (Some (u_lab_id u)) None
     (Some [(''reason'', JStr reason), (''challenge_id'', JStr cid)]) (ae_ctx env))"

definition count_failure :: "'r access_env \<Rightarrow> user \<Rightarrow> 'r rate_store \<Rightarrow> 'r rate_store" where
  "count_failure env u rs = snd (record_failure (ae_redis env) (ae_failure_reply env) ssh_challenge_lock_manager
     (ae_now_ms env) (ae_later_ms env) (lock_subject u) rs)"

text \<open>The flag for a claim that uses a key CoreLab pushed itself.\<close>

definition flag_platform_key :: "'r access_env \<Rightarrow> user \<Rightarrow> challenge_data \<Rightarrow> string \<Rightarrow> session \<Rightarrow> session outcome" where
  "flag_platform_key env u cx cid s =
    (case filter (\<lambda>e. ke_is_active e) (find_key_entry_rows (s_db s) (cd_physical_account_id cx) (cd_ssh_public_key_id cx)) of
       [] \<Rightarrow> Inr s
     | [e] \<Rightarrow> Inr (audit_write (audit_of ''account_link.verify.platform_pushed_key'' (Some (u_id u)) (Some (u_lab_id u))
          (Some ''account_link'') None (Some (u_lab_id u)) (Some (cd_server_id cx))
          (Some [(''challenge_id'', JStr cid), (''authorized_key_entry_id'', JInt (ke_id e)),
                 (''note'', JStr ''user verified via a key CoreLab itself pushed'')]) (ae_ctx env)) s)
     | _ \<Rightarrow> Inl Uncaught)"

definition verify_challenge_ep :: "'r access_env \<Rightarrow> user \<Rightarrow> string \<Rightarrow> ustring \<Rightarrow>
    session \<times> 'r rate_store \<Rightarrow> (account_link \<times> json) outcome \<times> session \<times> 'r rate_store" where
  "verify_challenge_ep env u cid sig st = (case st of (s, rs0) \<Rightarrow>
    (let (locked, rs) = manager_is_locked (ae_redis env) (ae_lock_reply env) ssh_challenge_lock_manager (ae_now_ms env) (lock_subject u) rs0 in
     if locked then (Inl locked_error, s, rs)
     else (case consume (ae_redis env) (ae_challenge_reply env) (ae_loads env) (ae_now_ms env) cid (u_id u) rs of
       (Inl ChallengeExpiredOrUsedError, rs') \<Rightarrow> (Inl (challenge_http ChallengeExpiredOrUsedError),
            verify_failed env u ''expired_or_used'' cid s, count_failure env u rs')
     | (Inl ActorMismatchError, rs') \<Rightarrow> (Inl (challenge_http ActorMismatchError),
            verify_failed env u ''actor_mismatch'' cid s, count_failure env u rs')
     | (Inl e, rs') \<Rightarrow> (Inl (challenge_http e), s, rs')
     | (Inr cx, rs') \<Rightarrow> (case verify_signature env cx sig s of
         Inl e \<Rightarrow> (Inl e, s, rs')
       | Inr signer \<Rightarrow> (case flag_platform_key env u cx cid s of
           Inl e \<Rightarrow> (Inl e, s, rs')
         | Inr s1 \<Rightarrow> (case establish_via_ssh_challenge (cd_user_id cx) (cd_physical_account_id cx) cid signer
                          (u_lab_id u) (cd_server_id cx) (ae_ctx env) s1 of
             Inl e \<Rightarrow> (Inl (mapped env (\<lambda>_. 409) e), s1, rs')
           | Inr (link, s2) \<Rightarrow> (Inr (link, signer), s2, rs')))))))"

section \<open>Claiming by password, reading, revoking\<close>

definition try_password_ep :: "'r access_env \<Rightarrow> user \<Rightarrow> int \<Rightarrow> string \<Rightarrow> ustring \<Rightarrow> session \<Rightarrow>
    account_link outcome \<times> session" where
  "try_password_ep env u sid uname password s = (case find_server sid u s of
      Inl e \<Rightarrow> (Inl e, s)
    | Inr sv \<Rightarrow> (case resolve_physical_account (ae_coll env) s sid uname of
        Inl e \<Rightarrow> (Inl (mapped env (\<lambda>_. 404) e), s)
      | Inr p \<Rightarrow> (case ask_agent env sid ''backend.pam.verify''
            [(''linux_username'', JStr uname), (''password'', JText password)] of
          Inl e \<Rightarrow> (Inl e, s)
        | Inr r \<Rightarrow>
            if \<not> truthy_field r ''verify_ok''
            then (Inl (http 401 ''pam_verify_failed''),
                  audit_write (audit_of ''account_link.pam_failed'' (Some (u_id u)) (Some (u_lab_id u))
                    (Some ''physical_account'') (Some (pa_id p)) (Some (u_lab_id u)) (Some sid)
                    (Some [(''linux_username'', JStr uname), (''reason'', JStr ''pam_reject'')]) (ae_ctx env)) s)
            else (case establish_via_pam (u_id u) (pa_id p) (u_lab_id u) sid (ae_ctx env) s of
                Inl e \<Rightarrow> (Inl (mapped env (\<lambda>_. 409) e), s)
              | Inr (link, s') \<Rightarrow> (Inr link, s')))))"

definition get_link_ep :: "'r access_env \<Rightarrow> user \<Rightarrow> int \<Rightarrow> session \<Rightarrow> account_link outcome" where
  "get_link_ep env u lid s = (case load_link_in_lab s lid (u_lab_id u) of
      Inl e \<Rightarrow> Inl (mapped env (\<lambda>_. 404) e)
    | Inr l \<Rightarrow> if u_role u \<noteq> RoleLabAdmin \<and> al_user_id l \<noteq> u_id u then Inl (http 403 ''not_owner'') else Inr l)"

datatype revoke_reason = RSelf | RAdminForce | RUserDisabled | RPaDisabled

fun reason_str :: "revoke_reason \<Rightarrow> string" where
  "reason_str RSelf = ''self''"
| "reason_str RAdminForce = ''admin_force''"
| "reason_str RUserDisabled = ''user_disabled''"
| "reason_str RPaDisabled = ''pa_disabled''"

definition revoke_link_ep :: "'r access_env \<Rightarrow> user \<Rightarrow> int \<Rightarrow> revoke_reason \<Rightarrow> bool \<Rightarrow> session \<Rightarrow>
    account_link outcome \<times> session" where
  "revoke_link_ep env u lid reason revoke_key s = (case load_link_in_lab s lid (u_lab_id u) of
      Inl e \<Rightarrow> (Inl (mapped env (\<lambda>_. 404) e), s)
    | Inr l \<Rightarrow>
      let is_self = (al_user_id l = u_id u); is_admin = (u_role u = RoleLabAdmin) in
      if reason = RSelf \<and> \<not> is_self then (Inl (http 403 ''not_owner''), s)
      else if reason = RAdminForce \<and> \<not> is_admin then (Inl (http 403 ''not_admin''), s)
      else if reason \<in> {RUserDisabled, RPaDisabled} \<and> \<not> is_admin then (Inl (http 403 ''not_admin''), s)
      else (let sid = (case d_pas (s_db s) (al_physical_account_id l) of Some p \<Rightarrow> pa_server_id p | None \<Rightarrow> 0) in
        case revoke_link (ae_rpc env) l (u_id u) (reason_str reason) (u_lab_id u) sid revoke_key (ae_ctx env) s of
          Inl e \<Rightarrow> (Inl (mapped env (\<lambda>_. 409) e), s)
        | Inr (row, s') \<Rightarrow> (Inr row, s')))"

definition upgrade_via_challenge_ep :: "'r access_env \<Rightarrow> user \<Rightarrow> int \<Rightarrow> string \<Rightarrow> ustring \<Rightarrow>
    session \<times> 'r rate_store \<Rightarrow> (account_link \<times> json) outcome \<times> session \<times> 'r rate_store" where
  "upgrade_via_challenge_ep env u lid cid sig st = (case st of (s, rs) \<Rightarrow>
    (case load_link_in_lab s lid (u_lab_id u) of
      Inl e \<Rightarrow> (Inl (mapped env (\<lambda>_. 404) e), s, rs)
    | Inr l \<Rightarrow>
      if al_user_id l \<noteq> u_id u then (Inl (http 403 ''not_owner''), s, rs)
      else if al_source l \<noteq> AdminDeclared then (Inl (http 409 ''only admin_declared can upgrade''), s, rs)
      else (case consume (ae_redis env) (ae_challenge_reply env) (ae_loads env) (ae_now_ms env) cid (u_id u) rs of
        (Inl e, rs') \<Rightarrow> (Inl (challenge_http e), s, rs')
      | (Inr cx, rs') \<Rightarrow>
        if cd_physical_account_id cx \<noteq> al_physical_account_id l then (Inl (http 400 ''challenge_pa_mismatch''), s, rs')
        else (case verify_signature env cx sig s of
          Inl e \<Rightarrow> (Inl e, s, rs')
        | Inr signer \<Rightarrow> (case upgrade_admin_declared_to_ssh (u_id u) (cd_physical_account_id cx) cid signer
                             (u_lab_id u) (cd_server_id cx) (ae_ctx env) s of
            Inl e \<Rightarrow> (Inl (mapped env (\<lambda>_. 409) e), s, rs')
          | Inr (row, s') \<Rightarrow> (Inr (row, signer), s', rs'))))))"

section \<open>Requests for an account\<close>

fun request_code :: "access_error \<Rightarrow> nat" where
  "request_code RequestNotFoundError = 404"
| "request_code PhysicalAccountNotFoundError = 404"
| "request_code NoActiveSshKeyError = 422"
| "request_code NotRequester = 403"
| "request_code _ = 409"

definition create_request_ep :: "'r access_env \<Rightarrow> user \<Rightarrow> int \<Rightarrow> ustring option \<Rightarrow> session \<Rightarrow>
    account_link_request outcome \<times> session" where
  "create_request_ep env u pid note s = (case create_request (u_id u) pid note (u_lab_id u) (ae_ctx env) s of
      Inl e \<Rightarrow> (Inl (mapped env request_code e), s) | Inr (q, s') \<Rightarrow> (Inr q, s'))"

text \<open>The gate of the four administrator endpoints: the context first, then the right on its server.\<close>

definition request_gate :: "'r access_env \<Rightarrow> user \<Rightarrow> int \<Rightarrow> session \<Rightarrow> request_context outcome" where
  "request_gate env u rid s = (case build_request_context s rid (u_lab_id u) of
      Inl e \<Rightarrow> Inl (mapped env (\<lambda>_. 404) e)
    | Inr cx \<Rightarrow> rbind (assert_server_admin u (srv_id (rq_server cx)) s) (\<lambda>_. Inr cx))"

definition approve_ep :: "'r access_env \<Rightarrow> user \<Rightarrow> int \<Rightarrow> ustring option \<Rightarrow> session \<Rightarrow>
    account_link_request outcome \<times> session" where
  "approve_ep env u rid note s = (case request_gate env u rid s of
      Inl e \<Rightarrow> (Inl e, s)
    | Inr _ \<Rightarrow> (case approve_request (ae_rpc env) rid note (u_id u) (u_lab_id u) (ae_ctx env) s of
        Inl e \<Rightarrow> (Inl (mapped env request_code e), s) | Inr (q, s') \<Rightarrow> (Inr q, s')))"

definition retry_push_ep :: "'r access_env \<Rightarrow> user \<Rightarrow> int \<Rightarrow> session \<Rightarrow>
    (account_link_request \<times> payload) outcome \<times> session" where
  "retry_push_ep env u rid s = (case request_gate env u rid s of
      Inl e \<Rightarrow> (Inl e, s)
    | Inr _ \<Rightarrow> (case retry_push_for_request (ae_rpc env) rid (u_id u) (u_lab_id u) (ae_ctx env) s of
        Inl e \<Rightarrow> (Inl (mapped env request_code e), s) | Inr (q, outcome, s') \<Rightarrow> (Inr (q, outcome), s')))"

definition deny_ep :: "'r access_env \<Rightarrow> user \<Rightarrow> int \<Rightarrow> ustring option \<Rightarrow> session \<Rightarrow>
    account_link_request outcome \<times> session" where
  "deny_ep env u rid note s = (case request_gate env u rid s of
      Inl e \<Rightarrow> (Inl e, s)
    | Inr _ \<Rightarrow> (case deny_request rid note (u_id u) (u_lab_id u) (ae_ctx env) s of
        Inl e \<Rightarrow> (Inl (mapped env request_code e), s) | Inr (q, s') \<Rightarrow> (Inr q, s')))"

definition withdraw_ep :: "'r access_env \<Rightarrow> user \<Rightarrow> int \<Rightarrow> session \<Rightarrow> account_link_request outcome \<times> session" where
  "withdraw_ep env u rid s = (case withdraw_request rid (u_id u) (u_lab_id u) (ae_ctx env) s of
      Inl e \<Rightarrow> (Inl (mapped env request_code e), s) | Inr (q, s') \<Rightarrow> (Inr q, s'))"

text \<open>Which of the lab's requests an administrator sees.\<close>

definition filter_rows_for_current_admin :: "user \<Rightarrow> account_link_request list \<Rightarrow> session \<Rightarrow> account_link_request list" where
  "filter_rows_for_current_admin u rows s =
    (if u_role u = RoleLabAdmin then rows
     else let granted = list_granted_server_ids u s in
       if granted = [] then []
       else filter (\<lambda>q. case d_pas (s_db s) (lr_physical_account_id q) of None \<Rightarrow> False
                     | Some p \<Rightarrow> pa_server_id p \<in> set granted) rows)"

definition list_pending_ep :: "user \<Rightarrow> session \<Rightarrow> account_link_request list" where
  "list_pending_ep u s = filter_rows_for_current_admin u (list_pending_in_lab s (u_lab_id u)) s"

definition list_needs_push_ep :: "user \<Rightarrow> session \<Rightarrow> account_link_request list outcome" where
  "list_needs_push_ep u s = (case list_needing_key_push_in_lab s (u_lab_id u) of
      Inl e \<Rightarrow> Inl Uncaught | Inr rows \<Rightarrow> Inr (filter_rows_for_current_admin u rows s))"

end
