(* ===== verification/Access_System.thy ===== *)
theory Access_System
  imports Link_Props Access_Api
begin

text \<open>
  The access endpoints as transactions. Each lemma of the collection \<open>access_steps\<close> says that one
  operation keeps the access tables legal and only develops them; \<open>access_step\<close> is the step relation
  whose steps are committed requests, and its runs inherit both.
\<close>

section \<open>The services\<close>

text \<open>A result whose session, if there is one, is a legal development of the given one.\<close>

definition leads :: "session \<Rightarrow> ('a \<Rightarrow> session) \<Rightarrow> access_error + 'a \<Rightarrow> bool" where
  "leads s final m \<longleftrightarrow> (\<forall>x. m = Inr x \<longrightarrow> access_step_ok (s_db s) (s_db (final x)))"

lemma leads_Inl: "leads s final (Inl e)"
  by (simp add: leads_def)

lemma leads_Inr: "access_step_ok (s_db s) (s_db (final x)) \<Longrightarrow> leads s final (Inr x)"
  by (simp add: leads_def)

lemma leads_bind: "(\<And>a. m = Inr a \<Longrightarrow> leads s final (f a)) \<Longrightarrow> leads s final (rbind m f)"
  by (cases m) (auto simp: leads_def)

lemma leads_if: "(b \<Longrightarrow> leads s final x) \<Longrightarrow> (\<not> b \<Longrightarrow> leads s final y) \<Longrightarrow> leads s final (if b then x else y)"
  by simp

lemma leadsD: "leads s final m \<Longrightarrow> m = Inr x \<Longrightarrow> access_step_ok (s_db s) (s_db (final x))"
  by (simp add: leads_def)

lemmas leads_intros = leads_Inl leads_Inr leads_bind leads_if

lemma establish_link_step:
  assumes "establish_link l action actor lab sid pl ctx s = Inr (row, s')" and "established_ok l"
  shows "access_step_ok (s_db s) (s_db s')"
  using assms insert_link_step[OF _ assms(2)]
  by (auto simp: establish_link_def rbind_eq_Inr split: option.splits intro!: access_step_trans[OF _ audit_write_step])

lemma draft_established [simp]: "established_ok (draft_link uid pid src proof uid)"
    "established_ok (draft_link uid pid AdminDeclared proof by)"
  by (simp_all add: established_ok_def draft_link_def)

lemma establish_steps [access_steps]:
  "establish_via_pam uid pid lab sid ctx s = Inr (row, s') \<Longrightarrow> access_step_ok (s_db s) (s_db s')"
  "establish_via_ssh_challenge uid pid cid fp lab sid ctx s = Inr (row, s') \<Longrightarrow> access_step_ok (s_db s) (s_db s')"
  "admin_declare_link pid owner reason by lab sid ctx s = Inr (row, s') \<Longrightarrow> access_step_ok (s_db s) (s_db s')"
  by (auto simp: establish_via_pam_def establish_via_ssh_challenge_def admin_declare_link_def intro: establish_link_step)

text \<open>Revoking: the entries are read once and written one by one.\<close>

lemma revoke_entries_step:
  assumes "revoke_entries rpc p actor es s = Inr (os, s')" and "set es \<subseteq> set (d_key_entries (s_db s))"
    and "distinct (map ke_id es)"
  shows "access_step_ok (s_db s) (s_db s')"
  using assms
proof (induction es arbitrary: s os)
  case (Cons e es)
  show ?case
  proof (cases "get_key s (ke_ssh_public_key_id e)")
    case None
    with Cons show ?thesis by simp
  next
    case (Some k)
    let ?s = "upd_db (put_key_entry (removed_entry e actor s)) s"
    obtain os' where r: "revoke_entries rpc p actor es ?s = Inr (os', s')"
      using Cons.prems(1) Some by (auto simp: rbind_eq_Inr)
    have "x \<in> set (d_key_entries (s_db ?s))" if "x \<in> set es" for x
    proof -
      have "ke_id x \<noteq> ke_id e" using that Cons.prems(3) by (auto simp: image_iff)
      then have "x \<in> set (row_put ke_id (removed_entry e actor s) (d_key_entries (s_db s)))"
        using that Cons.prems(2) by (intro row_put_other) (auto simp: removed_entry_def)
      then show ?thesis by (simp add: put_key_entry_def)
    qed
    then have "access_step_ok (s_db ?s) (s_db s')"
      using Cons.IH[OF r] Cons.prems(3) by auto
    moreover have "access_step_ok (s_db s) (s_db ?s)"
      using put_key_entry_step[of e "s_db s" "removed_entry e actor s"] Cons.prems(2)
      by (simp add: removed_entry_def entry_pair_def)
    ultimately show ?thesis by (rule access_step_trans[rotated])
  qed
qed simp

lemma revoke_link_step [access_steps]:
  assumes "revoke_link rpc l actor reason lab sid rk ctx s = Inr (row, s')" and "d_links (s_db s) (al_id l) = Some l"
  shows "access_step_ok (s_db s) (s_db s')"
proof -
  let ?s1 = "upd_db (put_link (revoked_row l actor reason s)) s"
  have act: "al_is_active l" using assms(1) by (simp add: revoke_link_def split: if_splits)
  obtain out s2 e where s2: "(if rk then (case d_pas (s_db ?s1) (al_physical_account_id l) of None \<Rightarrow> Inr ([], ?s1)
      | Some p \<Rightarrow> revoke_entries rpc p actor (entries_to_revoke (s_db ?s1) (pa_id p) (al_user_id l)) ?s1)
      else Inr ([], ?s1)) = Inr (out, s2)" and s': "s' = audit_write e s2"
    using assms(1) act by (auto simp: revoke_link_def rbind_eq_Inr Let_def)
  have 1: "access_step_ok (s_db s) (s_db ?s1)"
    using revoke_row_step[OF assms(2) act] by simp
  have "access_ok (s_db ?s1) \<Longrightarrow> access_step_ok (s_db ?s1) (s_db s2)"
  proof -
    assume ok: "access_ok (s_db ?s1)"
    have "distinct (map ke_id (entries_to_revoke (s_db ?s1) i u))" for i u
      using access_okD(7)[OF ok] unfolding entries_to_revoke_def by (rule distinct_map_filter)
    note dist = this
    show ?thesis
    proof (cases "rk \<and> d_pas (s_db ?s1) (al_physical_account_id l) \<noteq> None")
      case False
      with s2 show ?thesis by (auto split: if_splits option.splits)
    next
      case True
      then obtain p where "rk" "d_pas (s_db ?s1) (al_physical_account_id l) = Some p" by blast
      with s2 have r: "revoke_entries rpc p actor (entries_to_revoke (s_db ?s1) (pa_id p) (al_user_id l)) ?s1 = Inr (out, s2)"
        by simp
      show ?thesis
        by (rule revoke_entries_step[OF r _ dist]) (simp add: entries_to_revoke_def)
    qed
  qed
  then have "access_step_ok (s_db ?s1) (s_db s2)" by (auto simp: access_step_ok_def)
  with 1 have "access_step_ok (s_db s) (s_db s2)" by (rule access_step_trans)
  then show ?thesis unfolding s' by (rule access_step_trans[OF _ audit_write_step])
qed

lemma active_in_links:
  assumes "access_ok (s_db s)" and "existing_active_link s u p = Inr (Some l)"
  shows "d_links (s_db s) (al_id l) = Some l" "al_is_active l" "al_user_id l = u" "al_physical_account_id l = p"
proof -
  have "l \<in> set (active_links_of (s_db s) u p)" using assms(2) by (simp add: existing_active_link_def one_or_none_Some)
  then show "d_links (s_db s) (al_id l) = Some l" "al_is_active l" "al_user_id l = u" "al_physical_account_id l = p"
    using in_link_rows[OF access_okD(1)[OF assms(1)]] by (auto simp: active_links_of_def)
qed

lemma upgrade_step [access_steps]:
  assumes "upgrade_admin_declared_to_ssh uid pid cid fp lab sid ctx s = Inr (row, s')"
  shows "access_step_ok (s_db s) (s_db s')"
  unfolding access_step_ok_def
proof (rule impI)
  assume ok: "access_ok (s_db s)"
  obtain old s1 s2 e l where old: "existing_active_link s uid pid = Inr (Some old)"
    and s1: "s1 = upd_db (put_link (revoked_row old uid ''upgraded_to_verified'' s)) s"
    and ins: "insert_link l s1 = Inr (row, s2)" and l: "established_ok l" and s': "s' = audit_write e s2"
    using assms by (auto simp: upgrade_admin_declared_to_ssh_def rbind_eq_Inr Let_def split: option.splits if_splits)
  have "access_step_ok (s_db s) (s_db s1)"
    using revoke_row_step active_in_links[OF ok old] by (simp add: s1)
  moreover have "access_step_ok (s_db s1) (s_db s2)" by (rule insert_link_step[OF ins l])
  moreover have "access_step_ok (s_db s2) (s_db s')" by (simp add: s' audit_write_step)
  ultimately have "access_step_ok (s_db s) (s_db s')" by (blast intro: access_step_trans)
  with ok show "access_ok (s_db s') \<and> access_dev (s_db s) (s_db s')" by (simp add: access_step_ok_def)
qed

text \<open>Requests.\<close>

lemma create_request_step [access_steps]:
  assumes "create_request uid pid note lab ctx s = Inr (q, s')"
  shows "access_step_ok (s_db s) (s_db s')"
proof -
  let ?q0 = "\<lparr>lr_id = 0, lr_requester_user_id = uid, lr_physical_account_id = pid, lr_status = ReqPending,
    lr_request_note = note, lr_decided_by_user_id = None, lr_decided_at = None, lr_decision_note = None, lr_created_at = 0\<rparr>"
  have none: "pending_rows (s_db s) uid pid = []"
    and s': "\<exists>e. s' = audit_write e (snd (insert_link_request ?q0 s))"
    using assms by (auto simp: create_request_def rbind_eq_Inr one_or_none_None Let_def split_def split: option.splits if_splits)
  have "access_step_ok (s_db s) (s_db (snd (insert_link_request ?q0 s)))"
    using none by (intro insert_request_step) simp
  with s' show ?thesis by (auto intro: access_step_trans[OF _ audit_write_step])
qed

lemma load_request_row: "load_request_in_lab s rid lab = Inr a \<Longrightarrow> fst a \<in> set (d_link_requests (s_db s))"
  by (auto simp: load_request_in_lab_def split: option.splits if_splits dest: row_by_Some)

lemma request_audit_step [access_steps]: "access_step_ok (s_db s) (s_db (request_audit action actor lab q sv pl ctx s))"
  by (simp add: request_audit_def audit_write_step)

lemma insert_key_entry_requests: "insert_key_entry x s = Inr (e, s') \<Longrightarrow> d_link_requests (s_db s') = d_link_requests (s_db s)"
  by (auto simp: insert_key_entry_def Let_def split: if_splits)

lemma approve_push_step:
  assumes "approve_push rpc q p sv k admin s = Inr r"
  shows "access_step_ok (s_db s) (s_db (snd (snd r)))" "d_link_requests (s_db (snd (snd r))) = d_link_requests (s_db s)"
proof -
  have cs: "snd (snd r) = s \<or> (\<exists>x e. insert_key_entry x s = Inr (e, snd (snd r)))"
    using assms by (auto simp: approve_push_def rbind_eq_Inr split: rpc_outcome.splits)
  then show "access_step_ok (s_db s) (s_db (snd (snd r)))" by (auto intro: insert_key_entry_step)
  from cs show "d_link_requests (s_db (snd (snd r))) = d_link_requests (s_db s)"
    by (auto dest: insert_key_entry_requests)
qed

text \<open>The decided row written behind the push, with the audit row and the notification.\<close>

lemma decide_step:
  assumes "load_request_in_lab s rid lab = Inr a" and "\<not> lr_status (fst a) \<noteq> ReqPending"
    and "access_step_ok (s_db s) (s_db s1)" and "d_link_requests (s_db s1) = d_link_requests (s_db s)"
    and "lr_id q' = lr_id (fst a)" and "request_pair q' = request_pair (fst a)"
    and "lr_request_note q' = lr_request_note (fst a)" and "lr_status q' \<noteq> ReqPending"
  shows "access_step_ok (s_db s) (s_db (request_audit aud actor lb q' sv al ctx (upd_db (put_link_request q') s1)))"
proof -
  have "access_step_ok (s_db s1) (put_link_request q' (s_db s1))"
    by (rule put_request_step[of "fst a"]) (use assms load_request_row[OF assms(1)] in auto)
  with assms(3) have "access_step_ok (s_db s) (s_db (upd_db (put_link_request q') s1))"
    by (auto intro: access_step_trans)
  then show ?thesis by (rule access_step_trans[OF _ request_audit_step])
qed

lemmas decided_simps = decided_def request_pair_def

lemma approve_request_step: "leads s snd (approve_request rpc rid note admin lab ctx s)"
  unfolding approve_request_def Let_def split_def
  by (intro leads_intros, unfold fst_conv snd_conv)
    (rule access_step_trans[OF _ create_notification_step(2)], erule decide_step,
      simp_all add: approve_push_step decided_simps)

lemma deny_request_step: "leads s snd (deny_request rid note admin lab ctx s)"
  unfolding deny_request_def Let_def split_def
  by (intro leads_intros, unfold fst_conv snd_conv)
    (rule access_step_trans[OF _ create_notification_step(2)], erule decide_step, simp_all add: decided_simps)

lemma withdraw_request_step: "leads s snd (withdraw_request rid uid lab ctx s)"
  unfolding withdraw_request_def Let_def split_def
  by (intro leads_intros, unfold fst_conv snd_conv) (erule decide_step, simp_all add: request_pair_def)

lemma find_entry_row: "find_key_entry s pid kid = Inr (Some e) \<Longrightarrow> e \<in> set (d_key_entries (s_db s))
    \<and> entry_pair e = (pid, kid)"
proof -
  assume "find_key_entry s pid kid = Inr (Some e)"
  then have "e \<in> set (find_key_entry_rows (s_db s) pid kid)" by (simp add: find_key_entry_def one_or_none_Some)
  then show ?thesis by (simp add: find_key_entry_rows_def entry_pair_def)
qed

lemma retry_push_step:
  assumes "\<And>e. existing = Some e \<Longrightarrow> e \<in> set (d_key_entries (s_db s))"
  shows "leads s (snd \<circ> snd) (retry_push rpc q p sv k existing admin s)"
proof -
  have "access_step_ok (s_db s) (s_db s')"
    if "(case existing of None \<Rightarrow> insert_key_entry x s
        | Some e \<Rightarrow> Inr (f e, upd_db (put_key_entry (revived_entry e admin u s)) s)) = Inr (r, s')" for x f u r s'
    using that assms put_key_entry_step[of _ "s_db s"]
    by (cases existing) (auto simp: revived_entry_def entry_pair_def intro: insert_key_entry_step)
  then show ?thesis
    unfolding retry_push_def Let_def
    by (auto intro!: leads_intros split: rpc_outcome.split)
qed

lemma retry_push_for_request_step: "leads s (snd \<circ> snd) (retry_push_for_request rpc rid admin lab ctx s)"
proof -
  have push: "access_step_ok (s_db s) (s_db s1)"
    if "retry_push rpc q p sv k existing admin s = Inr (ok, out, s1)" "find_key_entry s pid kid = Inr existing"
    for q p sv k existing ok out s1 pid kid
  proof -
    have "leads s (snd \<circ> snd) (retry_push rpc q p sv k existing admin s)"
      by (rule retry_push_step) (use that(2) find_entry_row in blast)
    from leadsD[OF this that(1)] show ?thesis by simp
  qed
  show ?thesis
    unfolding retry_push_for_request_def Let_def
    apply (rule leads_bind, simp only: split_def, rule leads_if, rule leads_Inl, rule leads_bind, rule leads_bind)
    subgoal for a k existing
      by (cases existing) (auto simp: split_def intro!: leads_Inr leads_bind request_audit_step
        access_step_trans[OF _ create_notification_step(1)] access_step_trans[OF _ request_audit_step] intro: push)
    done
qed

section \<open>The endpoints\<close>

text \<open>What a request leaves in its session, whatever its outcome.\<close>

lemma leads_ok: "leads s snd m \<Longrightarrow> m = Inr (x, s') \<Longrightarrow> access_step_ok (s_db s) (s_db s')"
  by (auto simp: leads_def)

lemma load_link_row: "load_link_in_lab s lid lab = Inr l \<Longrightarrow> d_links (s_db s) lid = Some l"
  by (auto simp: load_link_in_lab_def split: option.splits if_splits)

lemma load_link_keyed: "access_ok (s_db s) \<Longrightarrow> load_link_in_lab s lid lab = Inr l \<Longrightarrow> d_links (s_db s) (al_id l) = Some l"
  using load_link_row[of s lid lab l] by (force simp: access_ok_def links_keyed_def)

lemma create_challenge_step: "access_step_ok (s_db s) (s_db (fst (snd (create_challenge_ep env nonce cid u sid uname kid (s, rs)))))"
  by (auto simp: create_challenge_ep_def Let_def audit_write_step split: prod.split sum.split)

lemma flag_platform_key_step: "flag_platform_key env u cx cid s = Inr s1 \<Longrightarrow> access_step_ok (s_db s) (s_db s1)"
  by (auto simp: flag_platform_key_def audit_write_step split: list.splits)

lemma verify_challenge_step: "access_step_ok (s_db s) (s_db (fst (snd (verify_challenge_ep env u cid sig (s, rs)))))"
proof -
  have claim: "access_step_ok (s_db s) (s_db (fst (snd (case flag_platform_key env u cx cid s of
           Inl e \<Rightarrow> (Inl e, s, rs')
         | Inr s1 \<Rightarrow> (case establish_via_ssh_challenge (cd_user_id cx) (cd_physical_account_id cx) cid signer
                          (u_lab_id u) (cd_server_id cx) (ae_ctx env) s1 of
             Inl e \<Rightarrow> (Inl (mapped env (\<lambda>_. 409) e), s1, rs')
           | Inr (link, s2) \<Rightarrow> (Inr (link, signer), s2, rs'))))))" for cx signer rs'
    by (auto split: sum.split dest: flag_platform_key_step intro: access_step_trans establish_steps(2))
  show ?thesis
    unfolding verify_challenge_ep_def Let_def
    by (auto simp: verify_failed_def audit_write_step claim split: prod.split sum.split challenge_error.split)
qed

lemma try_password_step: "access_step_ok (s_db s) (s_db (snd (try_password_ep env u sid uname pw s)))"
  by (auto simp: try_password_ep_def audit_write_step split: sum.split intro: establish_steps(1))

lemma revoke_link_ep_step: "access_step_ok (s_db s) (s_db (snd (revoke_link_ep env u lid reason rk s)))"
  unfolding access_step_ok_def
proof (rule impI)
  assume ok: "access_ok (s_db s)"
  have "access_step_ok (s_db s) (s_db (snd (revoke_link_ep env u lid reason rk s)))"
  proof (cases "load_link_in_lab s lid (u_lab_id u)")
    case (Inl e)
    then show ?thesis by (simp add: revoke_link_ep_def)
  next
    case (Inr l)
    with load_link_keyed[OF ok Inr] show ?thesis
      by (auto simp: revoke_link_ep_def Let_def split: sum.split intro: revoke_link_step)
  qed
  with ok show "access_ok (s_db (snd (revoke_link_ep env u lid reason rk s)))
      \<and> access_dev (s_db s) (s_db (snd (revoke_link_ep env u lid reason rk s)))"
    by (simp add: access_step_ok_def)
qed

lemma upgrade_via_challenge_step:
  "access_step_ok (s_db s) (s_db (fst (snd (upgrade_via_challenge_ep env u lid cid sig (s, rs)))))"
  by (auto simp: upgrade_via_challenge_ep_def split: sum.split prod.split intro: upgrade_step)

lemma request_ep_steps:
  "access_step_ok (s_db s) (s_db (snd (create_request_ep env u pid note s)))"
  "access_step_ok (s_db s) (s_db (snd (approve_ep env u rid note s)))"
  "access_step_ok (s_db s) (s_db (snd (deny_ep env u rid note s)))"
  "access_step_ok (s_db s) (s_db (snd (withdraw_ep env u rid s)))"
  by (auto simp: create_request_ep_def approve_ep_def deny_ep_def withdraw_ep_def split: sum.split
      intro: create_request_step leads_ok[OF approve_request_step] leads_ok[OF deny_request_step] leads_ok[OF withdraw_request_step])

lemma retry_push_ep_step: "access_step_ok (s_db s) (s_db (snd (retry_push_ep env u rid s)))"
  using retry_push_for_request_step[of s "ae_rpc env" rid "u_id u" "u_lab_id u" "ae_ctx env"]
  by (auto simp: retry_push_ep_def leads_def split: sum.split)

section \<open>The system\<close>

text \<open>
  One step is one request: its endpoint runs on a session opened on the database and the session ends
  as \<open>get_session\<close> ends it. An administrator's declaration comes from the physical-account endpoints.
\<close>

inductive access_step :: "'r access_env \<Rightarrow> db \<Rightarrow> db \<Rightarrow> bool" for env where
  challenge: "access_step env d (snd (end_request d (out, s)))"
    if "create_challenge_ep env nonce cid u sid uname kid (open_session d c, rs) = (out, s, rs')"
| verify: "access_step env d (snd (end_request d (out, s)))"
    if "verify_challenge_ep env u cid sig (open_session d c, rs) = (out, s, rs')"
| password: "access_step env d (snd (end_request d (try_password_ep env u sid uname pw (open_session d c))))"
| revoke: "access_step env d (snd (end_request d (revoke_link_ep env u lid reason rk (open_session d c))))"
| upgrade: "access_step env d (snd (end_request d (out, s)))"
    if "upgrade_via_challenge_ep env u lid cid sig (open_session d c, rs) = (out, s, rs')"
| declare_owner: "access_step env d (s_db s)"
    if "admin_declare_link pid owner reason by lab sid ctx (open_session d c) = Inr (row, s)"
| ask: "access_step env d (snd (end_request d (create_request_ep env u pid note (open_session d c))))"
| approve: "access_step env d (snd (end_request d (approve_ep env u rid note (open_session d c))))"
| retry: "access_step env d (snd (end_request d (retry_push_ep env u rid (open_session d c))))"
| deny: "access_step env d (snd (end_request d (deny_ep env u rid note (open_session d c))))"
| withdraw: "access_step env d (snd (end_request d (withdraw_ep env u rid (open_session d c))))"

lemma commit_step: "commit s = Inr d \<Longrightarrow> access_step_ok (s_db s) d"
  by (auto simp: commit_def flush_res_def s_update_res_def db_update_res_def access_step_ok_def access_ok_def access_dev_def
      rows_dev_refl links_keyed_def link_rows_def split: option.splits if_splits)

lemma end_request_step:
  assumes "access_step_ok d (s_db (snd out))"
  shows "access_step_ok d (snd (end_request d out))"
  using assms commit_step[of "snd out"]
  by (auto simp: end_request_def split: prod.splits sum.splits api_error.splits intro: access_step_trans)

lemma access_step_keeps: "access_step env d d' \<Longrightarrow> access_step_ok d d'"
proof (induction rule: access_step.induct)
  case (challenge nonce cid u sid uname kid d c rs out s rs')
  then show ?case using create_challenge_step[of "open_session d c" env nonce cid u sid uname kid rs]
    by (intro end_request_step) simp
next
  case (verify u cid sig d c rs out s rs')
  then show ?case using verify_challenge_step[of "open_session d c" env u cid sig rs]
    by (intro end_request_step) simp
next
  case (password d u sid uname pw c)
  show ?case using try_password_step[of "open_session d c" env u sid uname pw] by (intro end_request_step) simp
next
  case (revoke d u lid reason rk c)
  show ?case using revoke_link_ep_step[of "open_session d c" env u lid reason rk] by (intro end_request_step) simp
next
  case (upgrade u lid cid sig d c rs out s rs')
  then show ?case using upgrade_via_challenge_step[of "open_session d c" env u lid cid sig rs]
    by (intro end_request_step) simp
next
  case (declare_owner pid owner why admin lab sid ctx d c row s)
  then show ?case using establish_steps(3) by fastforce
next
  case (ask d u pid nt c)
  show ?case using request_ep_steps(1)[of "open_session d c" env u pid nt] by (intro end_request_step) simp
next
  case (approve d u rid nt c)
  show ?case using request_ep_steps(2)[of "open_session d c" env u rid nt] by (intro end_request_step) simp
next
  case (retry d u rid c)
  show ?case using retry_push_ep_step[of "open_session d c" env u rid] by (intro end_request_step) simp
next
  case (deny d u rid nt c)
  show ?case using request_ep_steps(3)[of "open_session d c" env u rid nt] by (intro end_request_step) simp
next
  case (withdraw d u rid c)
  show ?case using request_ep_steps(4)[of "open_session d c" env u rid] by (intro end_request_step) simp
qed

lemma access_runs_keep: "(access_step env)\<^sup>*\<^sup>* d d' \<Longrightarrow> access_step_ok d d'"
  by (induction rule: rtranclp_induct) (auto intro: access_step_trans access_step_keeps)

end
