(* ===== verification/Guarantees_Access.thy ===== *)
theory Guarantees_Access
  imports Access_System Scheduler_Props Scenario Agent_Rpc
begin

text \<open>
  The guarantees of the access to accounts: links, requests, challenges, and what becomes of a key that
  was pushed. \<open>sc_env\<close> is the environment of the examples: a Redis server with the documented behaviour
  and an agent that answers every frame alike.
\<close>

section \<open>The scenario\<close>

definition sc_challenge :: challenge_data where
  "sc_challenge = \<lparr>cd_user_id = 1, cd_server_id = 1, cd_physical_account_id = 1, cd_ssh_public_key_id = 1, cd_nonce = ''n''\<rparr>"

definition no_redis :: "unit redis" where
  "no_redis = \<lparr>zremrangebyscore = (\<lambda>_ _ _ _ r. r), zadd = (\<lambda>_ _ _ _ r. r), zcard = (\<lambda>_ _ _. 0), incr = (\<lambda>_ _ r. (0, r)),
     expire = (\<lambda>_ _ _ r. r), setex = (\<lambda>_ _ _ _ r. r), exists_key = (\<lambda>_ _ _. False), delete_key = (\<lambda>_ _ r. r),
     getdel = (\<lambda>_ _ r. (None, r))\<rparr>"

definition sc_env :: "'r redis \<Rightarrow> rpc_outcome \<Rightarrow> 'r access_env" where
  "sc_env R answer = \<lparr>ae_redis = R, ae_lock_reply = NoClient, ae_failure_reply = NoClient,
     ae_challenge_reply = RedisReplies, ae_now_ms = 0, ae_later_ms = 0, ae_dumps = (\<lambda>_. ''c''),
     ae_loads = (\<lambda>_. Some sc_challenge), ae_rpc = (\<lambda>_ _ _. answer), ae_coll = (=), ae_str = (\<lambda>_. ''error''),
     ae_ctx = no_ctx\<rparr>"

definition sc_key :: ssh_public_key where
  "sc_key = \<lparr>sk_id = 1, sk_user_id = 1, sk_public_key = [115], sk_fingerprint_sha256 = ''F'', sk_key_type = ''ssh-ed25519'',
     sk_comment = None, sk_is_active = True, sk_disabled_at = None\<rparr>"

definition sc_key_entry :: "bool \<Rightarrow> authorized_key_entry" where
  "sc_key_entry on = \<lparr>ke_id = 1, ke_physical_account_id = 1, ke_ssh_public_key_id = 1, ke_pushed_by_user_id = 9,
     ke_pushed_for_user_id = 1, ke_pushed_at = 0, ke_is_active = on, ke_removed_at = None, ke_removed_by_user_id = None\<rparr>"

definition sc_request :: account_link_request where
  "sc_request = \<lparr>lr_id = 1, lr_requester_user_id = 1, lr_physical_account_id = 1, lr_status = ReqPending,
     lr_request_note = None, lr_decided_by_user_id = None, lr_decided_at = None, lr_decision_note = None, lr_created_at = 0\<rparr>"

text \<open>User 1 without a link, with a registered key that was pushed once and taken back, asking again.\<close>

definition sc_access :: db where
  "sc_access = (sc_db [] 1)\<lparr>d_links := [2 \<mapsto> sc_link 2], d_link_ids := [2], d_ssh_keys := [sc_key],
     d_key_entries := [sc_key_entry False], d_next_key_entry := 2, d_link_requests := [sc_request], d_next_link_request := 2\<rparr>"

lemma sc_access_ok: "access_ok sc_access" "access_ok (sc_db rs n)"
  by (simp_all add: sc_access_def sc_db_def access_ok_def links_keyed_def link_rows_def List.map_filter_simps
      one_active_def link_pair_def established_ok_def sc_link_def sc_request_def sc_key_entry_def)

section \<open>The tables\<close>

text \<open>
  C11. Along every run of the access endpoints, with any agent and any Redis server, the access tables
  stay legal: keys are unique, a user has at most one active link and one pending request on an account, a
  verified link was established by its own user. No row is lost; a revoked link and a decided request never
  change again; the audit log only grows.
\<close>

theorem access_tables_stay_legal:
  assumes "access_ok d" and "(access_step env)\<^sup>*\<^sup>* d d'"
  shows "access_ok d' \<and> rows_dev link_dev (link_rows d) (link_rows d')
    \<and> rows_dev request_dev (d_link_requests d) (d_link_requests d')
    \<and> rows_dev entry_dev (d_key_entries d) (d_key_entries d') \<and> prefix (d_audit d) (d_audit d')"
  using access_runs_keep[OF assms(2)] assms(1) by (simp add: access_step_ok_def access_dev_def)

theorem access_tables_stay_legal_witness:
  "access_ok (snd (end_request (sc_db [] 1) (create_request_ep (sc_env no_redis (AgentOffline '''')) (sc_user 1) 2 None (open_session (sc_db [] 1) 0))))"
proof -
  let ?out = "create_request_ep (sc_env no_redis (AgentOffline '''')) (sc_user 1) 2 None (open_session (sc_db [] 1) 0)"
  have "access_step (sc_env no_redis (AgentOffline '''')) (sc_db [] 1) (snd (end_request (sc_db [] 1) ?out))"
    by (rule access_step.ask)
  then have "(access_step (sc_env no_redis (AgentOffline '''')))\<^sup>*\<^sup>* (sc_db [] 1) (snd (end_request (sc_db [] 1) ?out))" ..
  from access_tables_stay_legal[OF sc_access_ok(2) this] show ?thesis by simp
qed

text \<open>
  The link that lets a user act as an account is an active link of that user on that account which the
  user proved, by password or by signature; an administrator's declaration is not enough.
\<close>

theorem only_proven_links_act:
  assumes "access_ok (s_db s)" and "get_active_link_for_actas s uid pid = Inr l"
  shows "d_links (s_db s) (al_id l) = Some l \<and> al_user_id l = uid \<and> al_physical_account_id l = pid \<and> al_is_active l
    \<and> al_source l \<noteq> AdminDeclared \<and> al_established_by_user_id l = uid"
proof -
  have l: "l \<in> set (active_links_of (s_db s) uid pid)" and src: "al_source l \<noteq> AdminDeclared"
    using assms existing_active_link_total[OF assms(1), of uid pid]
    by (auto simp: get_active_link_for_actas_def split: if_splits list.splits)
  have row: "l \<in> set (link_rows (s_db s))" using l by (simp add: active_links_of_def)
  have "established_ok l" using access_okD(3)[OF assms(1)] row by blast
  with l src row in_link_rows[OF access_okD(1)[OF assms(1)], of l] show ?thesis
    by (auto simp: active_links_of_def established_ok_def)
qed

theorem only_proven_links_act_witness: "al_source (sc_link 2) \<noteq> AdminDeclared"
proof -
  have "get_active_link_for_actas (open_session sc_access 0) 2 2 = Inr (sc_link 2)" by code_simp
  from only_proven_links_act[OF _ this] show ?thesis by (simp add: open_session_def sc_access_ok)
qed

section \<open>Challenges\<close>

text \<open>
  C13. A challenge can be redeemed within five minutes by the user it was minted for, with the data it was
  minted with, and only once: whoever asks after the first attempt gets nothing.
\<close>

theorem challenge_redeemed_once:
  assumes "redis_doc R live"
    and "mint R RedisReplies dumps t now nonce cid uid sid pid kid st = (Inr ic, st1)"
    and "loads (dumps c) = Some c"
    and "c = \<lparr>cd_user_id = uid, cd_server_id = sid, cd_physical_account_id = pid, cd_ssh_public_key_id = kid, cd_nonce = nonce\<rparr>"
    and "untouched live (REDIS_PREFIX @ cid) t (rs_redis st1) u (rs_redis st2)" and "u < t + TTL_SECONDS * 1000"
    and "consume R RedisReplies loads u cid uid st2 = (out, st3)"
    and "untouched live (REDIS_PREFIX @ cid) u (rs_redis st3) v (rs_redis st4)"
    and "consume R RedisReplies loads v cid who st4 = (out', st5)"
  shows "out = Inr c \<and> out' = Inl ChallengeExpiredOrUsedError"
proof -
  have "challenge_entry live u cid st2 = Some (RText (dumps c), Some (t + TTL_SECONDS * 1000))"
    using mint_stores[OF assms(1,2)] assms(4,5,6) by (simp add: untouched_def challenge_entry_def survives_def)
  then have "out = Inr c"
    using consume_result[OF assms(1), of loads u cid uid st2] assms(3,4,7) by simp
  moreover have "challenge_entry live v cid st4 = None"
    using consume_burns[OF assms(1,7)] assms(8) by (simp add: untouched_def challenge_entry_def)
  then have "out' = Inl ChallengeExpiredOrUsedError"
    using consume_result[OF assms(1), of loads v cid who st4] assms(9) by simp
  ultimately show ?thesis by simp
qed

definition sc_store :: "redis_map rate_store" where
  "sc_store = \<lparr>rs_local = \<lparr>lm_buckets = Map.empty, lm_locks_until_ms = Map.empty\<rparr>, rs_redis = (\<lambda>_. None)\<rparr>"

lemma map_untouched: "t \<le> u \<Longrightarrow> untouched map_live k t r u r"
  by (simp add: untouched_def map_live_def survives_later)

theorem challenge_redeemed_once_witness:
  "\<exists>st st'. fst (consume map_redis RedisReplies (\<lambda>_. Some sc_challenge) 1000 ''c'' 1 st) = Inr sc_challenge
    \<and> fst (consume map_redis RedisReplies (\<lambda>_. Some sc_challenge) 2000 ''c'' 1 st') = Inl ChallengeExpiredOrUsedError"
proof -
  let ?m = "mint map_redis RedisReplies (\<lambda>_. ''c'') 0 0 ''n'' ''c'' 1 1 1 1 sc_store"
  let ?c = "consume map_redis RedisReplies (\<lambda>_. Some sc_challenge) 1000 ''c'' 1 (snd ?m)"
  let ?d = "consume map_redis RedisReplies (\<lambda>_. Some sc_challenge) 2000 ''c'' 1 (snd ?c)"
  have m: "\<exists>ic. ?m = (Inr ic, snd ?m)" by (simp add: mint_def)
  then obtain ic where m: "?m = (Inr ic, snd ?m)" ..
  have c: "?c = (fst ?c, snd ?c)" and d: "?d = (fst ?d, snd ?d)" by simp_all
  have "fst ?c = Inr sc_challenge \<and> fst ?d = Inl ChallengeExpiredOrUsedError"
    by (rule challenge_redeemed_once[OF map_redis_doc m _ _ _ _ c _ d])
      (simp_all add: sc_challenge_def map_untouched TTL_SECONDS_def)
  then show ?thesis by blast
qed

text \<open>
  C12. A claim by signature succeeds only for the user the challenge was minted for, after the agent of the
  account's server confirmed the signature of the challenge's nonce; the link is for that user and the
  challenge's account, and the challenge is spent.
\<close>

theorem claim_needs_confirmation:
  assumes "redis_doc (ae_redis env) live" and "ae_challenge_reply env = RedisReplies" and "\<forall>r. ae_lock_reply env \<noteq> RedisRaises r"
    and "verify_challenge_ep env u cid sig (s, rs) = (Inr (link, signer), s', rs')"
  shows "\<exists>text dl c p r. challenge_entry live (ae_now_ms env) cid rs = Some (RText text, dl) \<and> ae_loads env text = Some c
    \<and> cd_user_id c = u_id u \<and> d_pas (s_db s) (cd_physical_account_id c) = Some p
    \<and> ae_rpc env (cd_server_id c) ''backend.ssh.verify_sig''
         [(''linux_username'', JStr (pa_linux_username p)), (''nonce'', JStr (cd_nonce c)),
          (''namespace'', JStr SIGNING_NAMESPACE), (''signature_armored'', JText sig)] = RpcReturned r
    \<and> truthy_field r ''ok'' \<and> al_user_id link = u_id u \<and> al_physical_account_id link = cd_physical_account_id c
    \<and> al_source link = SshChallenge \<and> challenge_entry live (ae_now_ms env) cid rs' = None"
proof -
  define rs1 where "rs1 = snd (manager_is_locked (ae_redis env) (ae_lock_reply env) ssh_challenge_lock_manager (ae_now_ms env) (lock_subject u) rs)"
  have same: "rs_redis rs1 = rs_redis rs"
    using assms(3) by (auto simp: rs1_def manager_is_locked_def on_local_def split: redis_reply.splits prod.splits)
  obtain c s1 s2 where
    take: "consume (ae_redis env) RedisReplies (ae_loads env) (ae_now_ms env) cid (u_id u) rs1 = (Inr c, rs')"
    and ver: "verify_signature env c sig s = Inr signer"
    and est: "establish_via_ssh_challenge (cd_user_id c) (cd_physical_account_id c) cid signer (u_lab_id u) (cd_server_id c)
       (ae_ctx env) s1 = Inr (link, s2)"
    using assms(2,4)
    by (auto simp: verify_challenge_ep_def Let_def rs1_def split: prod.splits if_splits sum.splits challenge_error.splits)
  have "\<exists>text dl. challenge_entry live (ae_now_ms env) cid rs = Some (RText text, dl) \<and> ae_loads env text = Some c \<and> cd_user_id c = u_id u"
    using consume_result[OF assms(1), of "ae_loads env" "ae_now_ms env" cid "u_id u" rs1] take
    by (auto simp: challenge_entry_def same split: option.splits prod.splits redis_value.splits if_splits)
  moreover have "challenge_entry live (ae_now_ms env) cid rs' = None" by (rule consume_burns[OF assms(1) take])
  moreover have "al_user_id link = cd_user_id c \<and> al_physical_account_id link = cd_physical_account_id c \<and> al_source link = SshChallenge"
    using est by (auto simp: establish_via_ssh_challenge_def establish_link_def rbind_eq_Inr insert_link_Inr draft_link_def split: option.splits)
  moreover have "\<exists>p r. d_pas (s_db s) (cd_physical_account_id c) = Some p
    \<and> ae_rpc env (cd_server_id c) ''backend.ssh.verify_sig''
         [(''linux_username'', JStr (pa_linux_username p)), (''nonce'', JStr (cd_nonce c)),
          (''namespace'', JStr SIGNING_NAMESPACE), (''signature_armored'', JText sig)] = RpcReturned r \<and> truthy_field r ''ok''"
    using ver by (auto simp: verify_signature_def ask_agent_def split: option.splits sum.splits rpc_outcome.splits if_splits)
  ultimately show ?thesis by force
qed

definition sc_yes :: rpc_outcome where
  "sc_yes = RpcReturned [(''ok'', JBool True)]"

definition sc_minted :: "redis_map rate_store" where
  "sc_minted = snd (mint map_redis RedisReplies (\<lambda>_. ''c'') 0 0 ''n'' ''c'' 1 1 1 1 sc_store)"

lemma sc_take: "consume map_redis RedisReplies (\<lambda>_. Some sc_challenge) 0 ''c'' 1 sc_minted =
    (Inr sc_challenge, snd (consume map_redis RedisReplies (\<lambda>_. Some sc_challenge) 0 ''c'' 1 sc_minted))"
proof -
  have "fst (consume map_redis RedisReplies (\<lambda>_. Some sc_challenge) 0 ''c'' 1 sc_minted) = Inr sc_challenge"
    by (simp add: sc_minted_def sc_store_def mint_def consume_def map_redis_def map_live_def survives_def sc_challenge_def TTL_SECONDS_def)
  then show ?thesis by (metis prod.collapse)
qed

lemma sc_unlocked: "manager_is_locked R NoClient m t who sc_minted = (False, sc_minted)"
  by (simp add: manager_is_locked_def on_local_def is_locked_def sc_minted_def mint_def sc_store_def)

lemma sc_verify: "verify_challenge_ep (sc_env map_redis answer) (sc_user 1) ''c'' sig (s, sc_minted) =
    (let rs' = snd (consume map_redis RedisReplies (\<lambda>_. Some sc_challenge) 0 ''c'' 1 sc_minted); env = sc_env map_redis answer in
     case verify_signature env sc_challenge sig s of
       Inl e \<Rightarrow> (Inl e, s, rs')
     | Inr signer \<Rightarrow> (case flag_platform_key env (sc_user 1) sc_challenge ''c'' s of
         Inl e \<Rightarrow> (Inl e, s, rs')
       | Inr s1 \<Rightarrow> (case establish_via_ssh_challenge 1 1 ''c'' signer 1 1 no_ctx s1 of
           Inl e \<Rightarrow> (Inl (mapped env (\<lambda>_. 409) e), s1, rs')
         | Inr (link, s2) \<Rightarrow> (Inr (link, signer), s2, rs'))))"
proof -
  have env: "ae_redis (sc_env map_redis answer) = map_redis" "ae_lock_reply (sc_env map_redis answer) = NoClient"
    "ae_challenge_reply (sc_env map_redis answer) = RedisReplies" "ae_loads (sc_env map_redis answer) = (\<lambda>_. Some sc_challenge)"
    "ae_now_ms (sc_env map_redis answer) = 0" "ae_ctx (sc_env map_redis answer) = no_ctx" "u_id (sc_user 1) = 1" "u_lab_id (sc_user 1) = 1"
    by (simp_all add: sc_env_def sc_user_def)
  have c: "cd_user_id sc_challenge = 1" "cd_physical_account_id sc_challenge = 1" "cd_server_id sc_challenge = 1"
    by (simp_all add: sc_challenge_def)
  obtain rs1 where t: "consume map_redis RedisReplies (\<lambda>_. Some sc_challenge) 0 ''c'' 1 sc_minted = (Inr sc_challenge, rs1)"
    using sc_take by blast
  show ?thesis
    by (simp add: verify_challenge_ep_def env Let_def sc_unlocked t) (simp only: c env)
qed

lemma sc_signature: "verify_signature (sc_env R (RpcReturned r)) sc_challenge sig (open_session (sc_access\<lparr>d_key_entries := es\<rparr>) 0) =
    (if truthy_field r ''ok'' then Inr (rpc_get r ''signer_fingerprint'' (JStr ''unknown''))
     else Inl (http 401 ''signature_verification_failed''))"
  by (simp add: verify_signature_def ask_agent_def sc_env_def open_session_def sc_access_def sc_db_def sc_challenge_def)

lemma sc_no_flag: "flag_platform_key (sc_env R answer) (sc_user 1) sc_challenge ''c'' (open_session sc_access 0) = Inr (open_session sc_access 0)"
  by (simp add: flag_platform_key_def find_key_entry_rows_def open_session_def sc_access_def sc_key_entry_def)

lemma sc_entries_same: "sc_access = sc_access\<lparr>d_key_entries := [sc_key_entry False]\<rparr>"
  by (simp add: sc_access_def)

theorem claim_needs_confirmation_witness:
  "\<exists>link signer s' rs'. verify_challenge_ep (sc_env map_redis sc_yes) (sc_user 1) ''c'' [] (open_session sc_access 0, sc_minted)
     = (Inr (link, signer), s', rs') \<and> al_source link = SshChallenge \<and> challenge_entry map_live 0 ''c'' rs' = None"
proof -
  let ?v = "verify_challenge_ep (sc_env map_redis sc_yes) (sc_user 1) ''c'' [] (open_session sc_access 0, sc_minted)"
  have ver: "verify_signature (sc_env map_redis sc_yes) sc_challenge [] (open_session sc_access 0) = Inr (JStr ''unknown'')"
    by (subst sc_entries_same) (simp add: sc_yes_def sc_signature truthy_field_def rpc_get_def)
  have est: "\<not> isl (establish_via_ssh_challenge 1 1 ''c'' (JStr ''unknown'') 1 1 no_ctx (open_session sc_access 0))" by code_simp
  have "\<not> isl (fst ?v)" unfolding sc_verify Let_def ver using est by (auto simp: sc_no_flag split: sum.split)
  then obtain link signer where "fst ?v = Inr (link, signer)" by (cases "fst ?v") auto
  then have v: "?v = (Inr (link, signer), fst (snd ?v), snd (snd ?v))" by (metis prod.collapse)
  have env: "redis_doc (ae_redis (sc_env map_redis sc_yes)) map_live" "ae_challenge_reply (sc_env map_redis sc_yes) = RedisReplies"
    "\<forall>r. ae_lock_reply (sc_env map_redis sc_yes) \<noteq> RedisRaises r" "ae_now_ms (sc_env map_redis sc_yes) = 0"
    by (simp_all add: sc_env_def map_redis_doc)
  have "al_source link = SshChallenge \<and> challenge_entry map_live 0 ''c'' (snd (snd ?v)) = None"
    using claim_needs_confirmation[OF env(1,2,3) v] by (auto simp: env(4))
  with v show ?thesis by blast
qed

text \<open>
  A signature the agent rejects does not count towards the lock: the failure counters stay as they are,
  and nothing is written to the audit log.
\<close>

theorem rejected_signature_not_counted:
  assumes "ae_lock_reply env = NoClient"
    and "verify_challenge_ep env u cid sig (s, rs) = (Inl (http 401 ''signature_verification_failed''), s', rs')"
  shows "s' = s \<and> lm_buckets (rs_local rs') = lm_buckets (rs_local rs)"
proof -
  define l where "l = manager_is_locked (ae_redis env) (ae_lock_reply env) ssh_challenge_lock_manager (ae_now_ms env) (lock_subject u) rs"
  define c where "c = consume (ae_redis env) (ae_challenge_reply env) (ae_loads env) (ae_now_ms env) cid (u_id u) (snd l)"
  have buckets: "lm_buckets (rs_local (snd l)) = lm_buckets (rs_local rs)"
    by (auto simp: l_def assms(1) manager_is_locked_def on_local_def is_locked_def split: option.splits)
  have same: "rs_local (snd c) = rs_local (snd l)"
    by (auto simp: c_def consume_def Let_def split: redis_reply.splits prod.splits option.splits)
  have v: "(if fst l then (Inl locked_error, s, snd l)
     else (case c of
       (Inl ChallengeExpiredOrUsedError, rs') \<Rightarrow> (Inl (challenge_http ChallengeExpiredOrUsedError),
            verify_failed env u ''expired_or_used'' cid s, count_failure env u rs')
     | (Inl ActorMismatchError, rs') \<Rightarrow> (Inl (challenge_http ActorMismatchError),
            verify_failed env u ''actor_mismatch'' cid s, count_failure env u rs')
     | (Inl e, rs') \<Rightarrow> (Inl (challenge_http e), s, rs')
     | (Inr cx, rs') \<Rightarrow> (case verify_signature env cx sig s of
         Inl e \<Rightarrow> (Inl e, s, rs')
       | Inr signer \<Rightarrow> (case flag_platform_key env u cx cid s of
           Inl e \<Rightarrow> (Inl e, s, rs')
         | Inr s1 \<Rightarrow> (case establish_via_ssh_challenge (cd_user_id cx) (cd_physical_account_id cx) cid signer
                          (u_lab_id u) (cd_server_id cx) (ae_ctx env) s1 of
             Inl e \<Rightarrow> (Inl (mapped env (\<lambda>_. 409) e), s1, rs')
           | Inr (link, s2) \<Rightarrow> (Inr (link, signer), s2, rs'))))))
      = (Inl (http 401 ''signature_verification_failed''), s', rs')"
    using assms(2) unfolding verify_challenge_ep_def l_def c_def Let_def split_beta fst_conv snd_conv .
  show ?thesis
  proof (cases "fst l")
    case True
    with v show ?thesis by (simp add: locked_error_def http_def)
  next
    case False
    obtain r rc where c: "c = (r, rc)" by (cases c)
    show ?thesis
    proof (cases r)
      case (Inl e)
      with v False c show ?thesis by (cases e) (simp_all add: http_def)
    next
      case (Inr cx)
      note v' = v[unfolded c Inr, simplified, simplified False, simplified]
      show ?thesis
      proof (cases "verify_signature env cx sig s")
        case (Inl e)
        with v' buckets same c show ?thesis by simp
      next
        case (Inr signer)
        with v' buckets same c show ?thesis
          by (auto simp: mapped_def http_def flag_platform_key_def split: list.splits sum.splits if_splits)
      qed
    qed
  qed
qed

theorem rejected_signature_not_counted_witness:
  "lm_buckets (rs_local (snd (snd (verify_challenge_ep (sc_env map_redis (RpcReturned [])) (sc_user 1) ''c'' []
     (open_session sc_access 0, sc_minted))))) = lm_buckets (rs_local sc_minted)"
proof -
  let ?v = "verify_challenge_ep (sc_env map_redis (RpcReturned [])) (sc_user 1) ''c'' [] (open_session sc_access 0, sc_minted)"
  have "verify_signature (sc_env map_redis (RpcReturned [])) sc_challenge [] (open_session sc_access 0) = Inl (http 401 ''signature_verification_failed'')"
    by (subst sc_entries_same) (simp add: sc_signature truthy_field_def rpc_get_def)
  then have "fst ?v = Inl (http 401 ''signature_verification_failed'')" by (simp add: sc_verify)
  then have v: "?v = (Inl (http 401 ''signature_verification_failed''), fst (snd ?v), snd (snd ?v))" by (metis prod.collapse)
  have "ae_lock_reply (sc_env map_redis (RpcReturned [])) = NoClient" by (simp add: sc_env_def)
  from rejected_signature_not_counted[OF this v] show ?thesis by simp
qed

definition sc_pushed :: db where
  "sc_pushed = sc_access\<lparr>d_key_entries := [(sc_key_entry True)\<lparr>ke_ssh_public_key_id := 2\<rparr>]\<rparr>"

text \<open>
  The mark for a claim with a key the platform pushed itself looks at the key the challenge was minted
  for, not at the key that signed: a user who names another of his keys claims the account with the pushed
  key, and the audit log has only the ordinary row.
\<close>

theorem platform_key_unmarked:
  "\<exists>link s' rs'. verify_challenge_ep (sc_env map_redis (RpcReturned [(''ok'', JBool True), (''signer_fingerprint'', JStr ''key 2'')]))
       (sc_user 1) ''c'' [] (open_session sc_pushed 0, sc_minted) = (Inr (link, JStr ''key 2''), s', rs')
     \<and> map au_action (d_audit (s_db s')) = [''account_link.established'']"
proof -
  let ?r = "[(''ok'', JBool True), (''signer_fingerprint'', JStr ''key 2'')]"
  let ?e = "establish_via_ssh_challenge 1 1 ''c'' (JStr ''key 2'') 1 1 no_ctx (open_session sc_pushed 0)"
  have ver: "verify_signature (sc_env map_redis (RpcReturned ?r)) sc_challenge [] (open_session sc_pushed 0) = Inr (JStr ''key 2'')"
    unfolding sc_pushed_def by (simp add: sc_signature truthy_field_def rpc_get_def)
  have flag: "flag_platform_key (sc_env map_redis (RpcReturned ?r)) (sc_user 1) sc_challenge ''c'' (open_session sc_pushed 0) = Inr (open_session sc_pushed 0)"
    by (simp add: flag_platform_key_def find_key_entry_rows_def open_session_def sc_pushed_def sc_key_entry_def sc_challenge_def)
  have "map_sum id (\<lambda>(l, s'). map au_action (d_audit (s_db s'))) ?e = Inr [''account_link.established'']" by code_simp
  then obtain link s' where est: "?e = Inr (link, s')" "map au_action (d_audit (s_db s')) = [''account_link.established'']"
    by (cases ?e) auto
  show ?thesis unfolding sc_verify Let_def ver using est by (simp add: flag)
qed

section \<open>What becomes of a pushed key\<close>

text \<open>
  A key that was once pushed to an account can not be approved for it again: when the agent installs
  the key, the insert of its second entry violates the unique key, the request fails with a server error and
  is rolled back; the key stays installed without an active entry and the request stays pending.
\<close>

theorem second_approval_never_recorded:
  assumes "request_gate env u rid s = Inr cx" and "load_request_in_lab s rid (u_lab_id u) = Inr (q, p, sv)"
    and "lr_status q = ReqPending" and "latest_active_key_for_user s (lr_requester_user_id q) = Inr k"
    and "find_key_entry_rows (s_db s) (pa_id p) (sk_id k) \<noteq> []"
    and "\<forall>pl. \<exists>r. ae_rpc env (srv_id sv) ''backend.authorized_key.push'' pl = RpcReturned r"
  shows "approve_ep env u rid note s = (Inl Uncaught, s) \<and> snd (end_request d (approve_ep env u rid note s)) = d"
proof -
  have "approve_push (ae_rpc env) q p sv k admin s = Inl IntegrityError" for admin
    using assms(5) assms(6)[rule_format, of "push_payload p k
        (''corelab:user='' @ int_str (lr_requester_user_id q) @ '';link_request='' @ int_str (lr_id q))"]
    by (auto simp: approve_push_def insert_key_entry_def draft_entry_def Let_def)
  then have "approve_ep env u rid note s = (Inl Uncaught, s)"
    using assms by (simp add: approve_ep_def approve_request_def mapped_def)
  then show ?thesis by (simp add: end_request_def)
qed

theorem second_approval_never_recorded_witness:
  "fst (approve_ep (sc_env no_redis sc_yes) (sc_user 9) 1 None (open_session sc_access 0)) = Inl Uncaught"
proof -
  let ?s = "open_session sc_access 0"
  have g: "\<not> isl (request_gate (sc_env no_redis sc_yes) (sc_user 9) 1 ?s)" by code_simp
  then obtain cx where g: "request_gate (sc_env no_redis sc_yes) (sc_user 9) 1 ?s = Inr cx"
    by (cases "request_gate (sc_env no_redis sc_yes) (sc_user 9) 1 ?s") auto
  have l: "load_request_in_lab ?s 1 (u_lab_id (sc_user 9)) = Inr (sc_request, sc_pa 1, sc_server)" by code_simp
  have k: "latest_active_key_for_user ?s (lr_requester_user_id sc_request) = Inr sc_key" by code_simp
  have e: "find_key_entry_rows (s_db ?s) (pa_id (sc_pa 1)) (sk_id sc_key) \<noteq> []" by code_simp
  have "lr_status sc_request = ReqPending" by (simp add: sc_request_def)
  moreover have "\<forall>pl. \<exists>r. ae_rpc (sc_env no_redis sc_yes) (srv_id sc_server) ''backend.authorized_key.push'' pl = RpcReturned r"
    by (simp add: sc_env_def sc_yes_def)
  ultimately show ?thesis using second_approval_never_recorded[OF g l _ k e] by simp
qed

lemma revoke_entries_clears:
  assumes "revoke_entries rpc p actor es s = Inr (os, s')" and "\<forall>e \<in> set es. get_key s (ke_ssh_public_key_id e) \<noteq> None"
  shows "\<forall>x \<in> set (d_key_entries (s_db s')). ke_is_active x \<longrightarrow>
      x \<in> set (d_key_entries (s_db s)) \<and> ke_id x \<notin> ke_id ` set es"
  using assms
proof (induction es arbitrary: s os s')
  case (Cons e es)
  obtain k where k: "get_key s (ke_ssh_public_key_id e) = Some k" using Cons.prems(2) by auto
  let ?s = "upd_db (put_key_entry (removed_entry e actor s)) s"
  have keys: "get_key ?s i = get_key s i" for i by (simp add: get_key_def put_key_entry_def upd_db_sel)
  obtain os' where r: "revoke_entries rpc p actor es ?s = Inr (os', s')"
    using Cons.prems(1) k by (auto simp: rbind_eq_Inr)
  have "\<forall>e \<in> set es. get_key ?s (ke_ssh_public_key_id e) \<noteq> None" using Cons.prems(2) by (simp add: keys)
  note ih = Cons.IH[OF r this]
  have "x \<in> set (d_key_entries (s_db s)) \<and> ke_id x \<noteq> ke_id e"
    if "x \<in> set (d_key_entries (s_db ?s))" "ke_is_active x" for x
    using that by (auto simp: upd_db_sel put_key_entry_def row_put_def removed_entry_def split: if_splits)
  with ih show ?case by auto
qed simp

text \<open>
  Revoking a link with its keys marks every key entry of the user on the account as removed, whatever
  the agent answered, when it was offline too; a later revocation asks the agent for nothing.
\<close>

theorem revocation_is_not_retried:
  assumes "revoke_link rpc l actor reason lab sid True ctx s = Inr (row, s')"
    and "d_pas (s_db s) (al_physical_account_id l) = Some p"
    and "\<forall>e \<in> set (entries_to_revoke (s_db s) (pa_id p) (al_user_id l)). get_key s (ke_ssh_public_key_id e) \<noteq> None"
  shows "entries_to_revoke (s_db s') (pa_id p) (al_user_id l) = []"
proof -
  let ?s1 = "upd_db (put_link (revoked_row l actor reason s)) s"
  have frame: "entries_to_revoke (s_db ?s1) a b = entries_to_revoke (s_db s) a b" "d_pas (s_db ?s1) = d_pas (s_db s)"
    "get_key ?s1 i = get_key s i" "d_key_entries (s_db ?s1) = d_key_entries (s_db s)" for a b i
    by (simp_all add: entries_to_revoke_def upd_db_sel get_key_def)
  have puts: "entries_to_revoke (put_link x d) a b = entries_to_revoke d a b" for x d a b
    by (simp add: entries_to_revoke_def)
  obtain os s2 where r: "revoke_entries rpc p actor (entries_to_revoke (s_db s) (pa_id p) (al_user_id l)) ?s1 = Inr (os, s2)"
    and s': "d_key_entries (s_db s') = d_key_entries (s_db s2)"
    using assms(1,2) by (auto simp: revoke_link_def Let_def rbind_eq_Inr frame puts audit_write_def split: if_splits)
  have "\<not> (ke_physical_account_id x = pa_id p \<and> ke_pushed_for_user_id x = al_user_id l \<and> ke_is_active x)"
    if "x \<in> set (d_key_entries (s_db s2))" for x
    using revoke_entries_clears[OF r] assms(3) that by (auto simp: frame entries_to_revoke_def)
  then show ?thesis by (auto simp: entries_to_revoke_def s' filter_empty_conv)
qed

definition sc_linked :: db where
  "sc_linked = (sc_db [] 1)\<lparr>d_ssh_keys := [sc_key], d_key_entries := [sc_key_entry True], d_next_key_entry := 2\<rparr>"

theorem revocation_is_not_retried_witness:
  "\<exists>row s'. revoke_link (\<lambda>_ _ _. AgentOffline ''down'') (sc_link 1) 9 ''admin_force'' 1 1 True no_ctx (open_session sc_linked 0) = Inr (row, s')
     \<and> entries_to_revoke (s_db s') 1 1 = [] \<and> entries_to_revoke sc_linked 1 1 \<noteq> []"
proof -
  let ?r = "revoke_link (\<lambda>_ _ _. AgentOffline ''down'') (sc_link 1) 9 ''admin_force'' 1 1 True no_ctx (open_session sc_linked 0)"
  have "\<not> isl ?r" by code_simp
  then obtain row s' where r: "?r = Inr (row, s')" by (cases ?r) auto
  have p: "d_pas (s_db (open_session sc_linked 0)) (al_physical_account_id (sc_link 1)) = Some (sc_pa 1)" by code_simp
  have "list_all (\<lambda>e. get_key (open_session sc_linked 0) (ke_ssh_public_key_id e) \<noteq> None)
      (entries_to_revoke (s_db (open_session sc_linked 0)) (pa_id (sc_pa 1)) (al_user_id (sc_link 1)))" by code_simp
  then have "entries_to_revoke (s_db s') (pa_id (sc_pa 1)) (al_user_id (sc_link 1)) = []"
    by (intro revocation_is_not_retried[OF r p]) (simp add: list_all_iff)
  moreover have "entries_to_revoke sc_linked 1 1 \<noteq> []" by code_simp
  ultimately show ?thesis using r by (simp add: sc_pa_def sc_link_def)
qed

text \<open>
  The revocation of a link does not reach the reservations made with it: the scheduler still sends the
  script of an active reservation to the server under the revoked account.
\<close>

lemma revoke_entries_frame: "revoke_entries rpc p actor es s = Inr (os, s') \<Longrightarrow>
    s_db s' = (s_db s)\<lparr>d_key_entries := d_key_entries (s_db s')\<rparr>"
proof (induction es arbitrary: s os)
  case (Cons e es)
  then show ?case
    by (cases "get_key s (ke_ssh_public_key_id e)")
      (fastforce simp: rbind_eq_Inr upd_db_sel put_key_entry_def)+
qed simp

lemma revoke_link_frame:
  assumes "revoke_link rpc l actor reason lab sid rk ctx s = Inr (row, s')"
  shows "row = revoked_row l actor reason s \<and> (\<exists>ks as n. s_db s' = (put_link row (s_db s))\<lparr>d_key_entries := ks, d_audit := as, d_next_audit := n\<rparr>)"
proof -
  let ?s1 = "upd_db (put_link (revoked_row l actor reason s)) s"
  obtain os s2 ks where s2: "s_db s2 = (s_db ?s1)\<lparr>d_key_entries := ks\<rparr>"
    and s': "row = revoked_row l actor reason s" "\<exists>e. s' = audit_write e s2"
  proof -
    obtain os s2 where r: "row = revoked_row l actor reason s" "\<exists>e. s' = audit_write e s2"
      "s2 = ?s1 \<or> (\<exists>p es. revoke_entries rpc p actor es ?s1 = Inr (os, s2))"
      using assms by (auto simp: revoke_link_def Let_def rbind_eq_Inr split: if_splits option.splits)
    from r(3) have "s_db s2 = (s_db ?s1)\<lparr>d_key_entries := d_key_entries (s_db s2)\<rparr>"
      by (auto dest: revoke_entries_frame)
    with r that show ?thesis by blast
  qed
  then obtain e where e: "s' = audit_write e s2" by blast
  have "s_db s' = (put_link row (s_db s))\<lparr>d_key_entries := ks, d_audit := d_audit (s_db s'), d_next_audit := d_next_audit (s_db s')\<rparr>"
    by (simp add: e audit_write_def s2 s'(1) upd_db_sel)
  with s'(1) show ?thesis by blast
qed

text \<open>
  The revocation of a link does not reach the reservations made with it: a tick of the scheduler sends
  the same scripts to the agents after the revocation as it would have before, under the same account names.
\<close>

theorem revoked_link_still_runs:
  assumes "db_ok d" and "d_links d (al_id l) = Some l"
    and "revoke_link rpc l actor reason lab sid rk ctx (open_session d c) = Inr (row, s')"
  shows "\<not> al_is_active row \<and> (\<exists>pending w w' s1 s2. tick_body (open_session d now) = Inr ((pending, w), s1)
    \<and> tick_body (open_session (s_db s') now) = Inr ((pending, w'), s2))"
proof -
  let ?s = "open_session d now" and ?s' = "open_session (s_db s') now"
  obtain ks as n where d': "s_db s' = (put_link row d)\<lparr>d_key_entries := ks, d_audit := as, d_next_audit := n\<rparr>"
    and row: "row = revoked_row l actor reason (open_session d c)"
    using revoke_link_frame[OF assms(3)] by auto
  have res: "d_reservations (s_db s') = d_reservations d" "d_next_reservation (s_db s') = d_next_reservation d"
    by (simp_all add: d' put_link_def)
  then have ok: "db_ok (s_db s')" using assms(1) by (simp add: db_ok_def db_wf_def)
  have reads: "server_lab_id ?s' = server_lab_id ?s" "linux_username_of ?s' = linux_username_of ?s"
    using assms(2) by (auto simp: fun_eq_iff server_lab_id_def linux_username_of_def open_session_def d' put_link_def row revoked_row_def)
  have f: "settled_row ?s' = settled_row ?s" "dispatchable ?s' = dispatchable ?s" "row_rpc ?s' = row_rpc ?s"
    by (simp_all add: fun_eq_iff settled_row_def promoted_row_def closed_row_def known_server_def dispatchable_def row_rpc_def reads Let_def)
  have "\<exists>(w :: watchdog_counts) s1. tick_body ?s = Inr ((concat (map (row_rpc ?s) (filter (\<lambda>r. due_script now r \<and> dispatchable ?s r)
      (map (settled_row ?s now) (reservations ?s)))), wc_pending w), s1)"
    using tick_body_runs[of ?s now] assms(1) by (auto simp: open_session_def)
  moreover have "\<exists>(w :: watchdog_counts) s1. tick_body ?s' = Inr ((concat (map (row_rpc ?s') (filter (\<lambda>r. due_script now r \<and> dispatchable ?s' r)
      (map (settled_row ?s' now) (reservations ?s')))), wc_pending w), s1)"
    using tick_body_runs[of ?s' now] ok by (auto simp: open_session_def)
  moreover have "reservations ?s' = reservations ?s" by (simp add: open_session_def reservations_def res)
  moreover have "\<not> al_is_active row" by (simp add: row revoked_row_def)
  ultimately show ?thesis unfolding f by (elim exE) (intro conjI exI, assumption+, simp)
qed

definition sc_scripted :: db where
  "sc_scripted = sc_db [sc_script 1 1 1 1 5 Active] 2"

theorem revoked_link_still_runs_witness:
  "\<exists>row s' pending w s2. revoke_link (\<lambda>_ _ _. sc_yes) (sc_link 1) 9 ''admin_force'' 1 1 True no_ctx (open_session sc_scripted 0) = Inr (row, s')
    \<and> tick_body (open_session (s_db s') (2 * hour)) = Inr ((pending, w), s2) \<and> map fst pending = [1]"
proof -
  let ?r = "revoke_link (\<lambda>_ _ _. sc_yes) (sc_link 1) 9 ''admin_force'' 1 1 True no_ctx (open_session sc_scripted 0)"
  have ok: "db_ok sc_scripted" by (simp add: sc_scripted_def sc_defs row_ok_defs)
  have l: "d_links sc_scripted (al_id (sc_link 1)) = Some (sc_link 1)" by (simp add: sc_scripted_def sc_defs)
  have "\<not> isl ?r" by code_simp
  then obtain row s' where r: "?r = Inr (row, s')" by (cases ?r) auto
  obtain pending w w' s1 s2 where t: "tick_body (open_session sc_scripted (2 * hour)) = Inr ((pending, w), s1)"
    "tick_body (open_session (s_db s') (2 * hour)) = Inr ((pending, w'), s2)"
    using revoked_link_still_runs[OF ok l r] by blast
  have "pending = concat (map (row_rpc (open_session sc_scripted (2 * hour)))
      (filter (\<lambda>r. due_script (2 * hour) r \<and> dispatchable (open_session sc_scripted (2 * hour)) r)
        (map (settled_row (open_session sc_scripted (2 * hour)) (2 * hour)) (reservations (open_session sc_scripted (2 * hour))))))"
    using tick_body_runs[of "open_session sc_scripted (2 * hour)" "2 * hour"] ok t(1) by (auto simp: open_session_def)
  also have "map fst \<dots> = [1]" by code_simp
  finally have "map fst pending = [1]" .
  with r t(2) show ?thesis by (intro exI[of _ row] exI[of _ s'] exI[of _ pending] exI[of _ w'] exI[of _ s2]) simp
qed

section \<open>The calls to the agents\<close>

text \<open>
  A request the agent's socket took ends with the first frame that carries its correlation id: with its
  payload if the frame has the type the request expects, with an error if not, with a timeout if none
  comes. Frames of other requests do not matter.
\<close>

theorem rpc_answered_by_its_first_frame:
  assumes "RPC_REQUEST_TO_RESPONSE frame = Some expected" and "pool sid = Some ws"
  shows "\<exists>st1. start_request pool sid frame cid True st = (None, st1)
    \<and> fst (finish_request msg cid (deliver_all rs st1)) = answer_of msg cid expected rs"
proof -
  let ?st1 = "st\<lparr>rp_pending := (rp_pending st)(cid \<mapsto> expected), rp_futures := (rp_futures st)(cid \<mapsto> Waiting)\<rparr>"
  have "start_request pool sid frame cid True st = (None, ?st1)" using assms by (simp add: start_request_def)
  moreover have "fst (finish_request msg cid (deliver_all rs ?st1)) = answer_of msg cid expected rs"
    by (rule deliver_all_answer) simp_all
  ultimately show ?thesis by blast
qed

theorem rpc_answered_by_its_first_frame_witness:
  "\<exists>st1. start_request [1 \<mapsto> 5] 1 ''backend.pam.verify'' ''x'' True \<lparr>rp_pending = Map.empty, rp_futures = Map.empty, rp_optional = []\<rparr> = (None, st1)
    \<and> fst (finish_request ''late'' ''x'' (deliver_all [(Some ''y'', ''agent.pam.verify.response'', []), (Some ''x'', ''agent.pam.verify.response'', [(''verify_ok'', JBool True)])] st1))
      = RpcReturned [(''verify_ok'', JBool True)]"
proof -
  let ?rs = "[(Some ''y'', ''agent.pam.verify.response'', []), (Some ''x'', ''agent.pam.verify.response'', [(''verify_ok'', JBool True)])]"
  have e: "RPC_REQUEST_TO_RESPONSE ''backend.pam.verify'' = Some ''agent.pam.verify.response''" by code_simp
  have a: "answer_of ''late'' ''x'' ''agent.pam.verify.response'' ?rs = RpcReturned [(''verify_ok'', JBool True)]" by code_simp
  show ?thesis
    using rpc_answered_by_its_first_frame[OF e, of "[1 \<mapsto> 5]" 1 5 "''x''" "\<lparr>rp_pending = Map.empty, rp_futures = Map.empty, rp_optional = []\<rparr>" "''late''" ?rs]
    unfolding a by simp
qed

end
