(* ===== verification/Py_Text.thy ===== *)
theory Py_Text
  imports CoreLab_Prelude
begin

text \<open>
  Python's text operations on code points: the whitespace of \<open>str.strip\<close> and \<open>str.split\<close>, and the line
  boundaries of \<open>str.splitlines\<close>, which are more than the newline.
\<close>

section \<open>Whitespace\<close>

definition is_space :: "nat \<Rightarrow> bool" where
  "is_space c \<longleftrightarrow> 9 \<le> c \<and> c \<le> 13 \<or> 28 \<le> c \<and> c \<le> 32 \<or> c = 133 \<or> c = 160 \<or> c = 5760
     \<or> 8192 \<le> c \<and> c \<le> 8202 \<or> c = 8232 \<or> c = 8233 \<or> c = 8239 \<or> c = 8287 \<or> c = 12288"

definition ulstrip :: "ustring \<Rightarrow> ustring" where
  "ulstrip s = dropWhile is_space s"

definition ustrip :: "ustring \<Rightarrow> ustring" where
  "ustrip s = rev (ulstrip (rev (ulstrip s)))"

text \<open>\<open>s.split(None, n)\<close>: at most \<open>n\<close> splits, the rest in one piece.\<close>

fun usplit :: "nat \<Rightarrow> ustring \<Rightarrow> ustring list" where
  "usplit 0 s = (if ulstrip s = [] then [] else [ulstrip s])"
| "usplit (Suc n) s = (let t = ulstrip s in
     if t = [] then [] else takeWhile (\<lambda>c. \<not> is_space c) t # usplit n (dropWhile (\<lambda>c. \<not> is_space c) t))"

definition u_of :: "string \<Rightarrow> ustring" where
  "u_of t = map of_char t"

section \<open>Lines\<close>

definition is_line_break :: "nat \<Rightarrow> bool" where
  "is_line_break c \<longleftrightarrow> 10 \<le> c \<and> c \<le> 13 \<or> 28 \<le> c \<and> c \<le> 30 \<or> c = 133 \<or> c = 8232 \<or> c = 8233"

text \<open>A carriage return with a newline is one boundary, and a boundary at the end opens no further line.\<close>

fun ulines :: "ustring \<Rightarrow> ustring \<Rightarrow> ustring list" where
  "ulines cur [] = (if cur = [] then [] else [rev cur])"
| "ulines cur (c # s) =
    (if c = 13 \<and> s \<noteq> [] \<and> hd s = 10 then rev cur # ulines [] (tl s)
     else if is_line_break c then rev cur # ulines [] s else ulines (c # cur) s)"

definition splitlines :: "ustring \<Rightarrow> ustring list" where
  "splitlines s = ulines [] s"

lemma newline_break [simp]: "is_line_break 10"
  by (simp add: is_line_break_def)

lemma ulines_line:
  assumes "\<forall>c \<in> set l. \<not> is_line_break c"
  shows "ulines cur (l @ 10 # s) = (rev cur @ l) # ulines [] s"
  using assms
proof (induction l arbitrary: cur)
  case Nil
  show ?case by simp
next
  case (Cons c l)
  then have "c \<noteq> 13" by (auto simp: is_line_break_def)
  with Cons show ?case by (cases "l @ 10 # s") simp_all
qed

lemma ulines_last: "\<forall>c \<in> set l. \<not> is_line_break c \<Longrightarrow> cur \<noteq> [] \<or> l \<noteq> [] \<Longrightarrow> ulines cur l = [rev cur @ l]"
proof (induction l arbitrary: cur)
  case (Cons c l)
  then have "c \<noteq> 13" by (auto simp: is_line_break_def)
  with Cons show ?case by (cases l) simp_all
qed simp

text \<open>Lines without boundaries of their own survive joining and splitting.\<close>

definition line_ok :: "ustring \<Rightarrow> bool" where
  "line_ok l \<longleftrightarrow> (\<forall>c \<in> set l. \<not> is_line_break c)"

definition unlines :: "ustring list \<Rightarrow> ustring" where
  "unlines ls = concat (map (\<lambda>l. l @ [10]) ls)"

lemma splitlines_unlines: "\<forall>l \<in> set ls. line_ok l \<Longrightarrow> splitlines (unlines ls) = ls"
proof (induction ls)
  case (Cons l ls)
  then have "ulines [] (l @ 10 # unlines ls) = l # ulines [] (unlines ls)"
    using ulines_line[of l "[]" "unlines ls"] by (simp add: line_ok_def)
  with Cons show ?case by (simp add: splitlines_def unlines_def)
qed (simp add: splitlines_def unlines_def)

lemma ulines_ok: "line_ok (rev cur) \<Longrightarrow> l \<in> set (ulines cur s) \<Longrightarrow> line_ok l"
proof (induction cur s rule: ulines.induct)
  case (1 cur)
  then show ?case by (auto split: if_splits)
next
  case (2 cur c s)
  have nil: "line_ok (rev [])" by (simp add: line_ok_def)
  show ?case
  proof (cases "c = 13 \<and> s \<noteq> [] \<and> hd s = 10")
    case True
    with 2(1)[OF True nil] 2(4,5) show ?thesis by auto
  next
    case F: False
    show ?thesis
    proof (cases "is_line_break c")
      case True
      with F 2(2)[OF F True nil] 2(4,5) show ?thesis by auto
    next
      case False
      with 2(4) have "line_ok (rev (c # cur))" by (auto simp: line_ok_def)
      with 2(3)[OF F False] 2(5) show ?thesis
        using F False by (simp only: ulines.simps if_False)
    qed
  qed
qed

lemma splitlines_ok: "l \<in> set (splitlines s) \<Longrightarrow> line_ok l"
  unfolding splitlines_def by (rule ulines_ok[of "[]"]) (simp_all add: line_ok_def)

end
