(* ===== verification/Key_File.thy ===== *)
theory Key_File
  imports Py_Text
begin

text \<open>
  \<open>agent/corelab_agent/authorized_keys.py\<close> with the capability gate of \<open>capabilities.py\<close>: the content of an
  \<open>authorized_keys\<close> file is computed as text and installed with \<open>sudo install\<close>. Base64 and SHA-256 are a
  parameter: \<open>digest\<close> maps the base64 body of a key to its fingerprint, \<^const>\<open>None\<close> where it does not decode.
\<close>

section \<open>Keys\<close>

datatype key_error =
    InvalidUsernameError
  | InvalidPublicKeyError
  | UserNotFoundError
  | UnsupportedHomeDirectoryError
  | CapabilityDisabledError
  | CommandError ustring

text \<open>The pattern \<open>[a-z_][a-z0-9_-]{0,31}\<close>.\<close>

definition name_start :: "char \<Rightarrow> bool" where
  "name_start c \<longleftrightarrow> (let n = (of_char c :: nat) in 97 \<le> n \<and> n \<le> 122 \<or> n = 95)"

definition name_rest :: "char \<Rightarrow> bool" where
  "name_rest c \<longleftrightarrow> (let n = (of_char c :: nat) in name_start c \<or> 48 \<le> n \<and> n \<le> 57 \<or> n = 45)"

definition username_ok :: "string \<Rightarrow> bool" where
  "username_ok u = (case u of [] \<Rightarrow> False | c # cs \<Rightarrow> name_start c \<and> list_all name_rest cs \<and> length cs \<le> 31)"

definition validate_single_line :: "ustring \<Rightarrow> key_error + ustring" where
  "validate_single_line v = (let stripped = ustrip v in
     if stripped = [] then Inl InvalidPublicKeyError
     else if list_ex (\<lambda>c. c = 10 \<or> c = 13 \<or> c = 0) stripped then Inl InvalidPublicKeyError
     else Inr stripped)"

definition is_key_type :: "ustring \<Rightarrow> bool" where
  "is_key_type p \<longleftrightarrow> prefix (u_of ''ssh-'') p \<or> prefix (u_of ''ecdsa-'') p \<or> prefix (u_of ''sk-'') p
     \<or> prefix (u_of ''rsa-sha2-'') p"

text \<open>\<open>s.split()\<close>.\<close>

function (sequential) usplit_all :: "ustring \<Rightarrow> ustring list" where
  "usplit_all [] = []"
| "usplit_all (c # s) = (if is_space c then usplit_all s
     else (c # takeWhile (\<lambda>x. \<not> is_space x) s) # usplit_all (dropWhile (\<lambda>x. \<not> is_space x) s))"
  by pat_completeness auto
termination by (relation "measure length") (auto simp: le_imp_less_Suc length_dropWhile_le)

text \<open>The first key type among all tokens but the last, with what follows it.\<close>

fun key_at :: "ustring list \<Rightarrow> (ustring \<times> ustring \<times> ustring list) option" where
  "key_at (p # q # rest) = (if is_key_type p then Some (p, q, rest) else key_at (q # rest))"
| "key_at _ = None"

definition fingerprint_for_pubkey :: "(ustring \<Rightarrow> string option) \<Rightarrow> ustring \<Rightarrow> key_error + string" where
  "fingerprint_for_pubkey digest key = (case key_at (usplit_all (ustrip key)) of
      None \<Rightarrow> Inl InvalidPublicKeyError
    | Some (_, body, _) \<Rightarrow> (case digest body of None \<Rightarrow> Inl InvalidPublicKeyError | Some f \<Rightarrow> Inr f))"

section \<open>Reading a file\<close>

record read_key_entry =
  rk_line_number :: nat
  rk_fingerprint_sha256 :: string
  rk_key_type :: ustring
  rk_comment :: "ustring option"

fun join_spaces :: "ustring list \<Rightarrow> ustring" where
  "join_spaces [] = []"
| "join_spaces [w] = w"
| "join_spaces (w # ws) = w @ 32 # join_spaces ws"

definition summarize_authorized_key_line :: "(ustring \<Rightarrow> string option) \<Rightarrow> ustring \<Rightarrow> nat \<Rightarrow> key_error + read_key_entry" where
  "summarize_authorized_key_line digest line n = (case key_at (usplit_all (ustrip line)) of
      None \<Rightarrow> Inl InvalidPublicKeyError
    | Some (ty, _, comment) \<Rightarrow> rbind (fingerprint_for_pubkey digest line) (\<lambda>f.
        Inr \<lparr>rk_line_number = n, rk_fingerprint_sha256 = f, rk_key_type = ty,
             rk_comment = (if comment = [] then None else Some (join_spaces comment))\<rparr>))"

text \<open>A blank line or a comment is not a key line.\<close>

definition key_line :: "ustring \<Rightarrow> bool" where
  "key_line line \<longleftrightarrow> ustrip line \<noteq> [] \<and> \<not> prefix (u_of ''#'') (ustrip line)"

fun summarize_lines :: "(ustring \<Rightarrow> string option) \<Rightarrow> nat \<Rightarrow> ustring list \<Rightarrow> read_key_entry list \<times> nat \<times> nat" where
  "summarize_lines digest n [] = ([], 0, 0)"
| "summarize_lines digest n (l # ls) = (let (keys, count, invalid) = summarize_lines digest (Suc n) ls in
     if \<not> key_line l then (keys, count, invalid)
     else (case summarize_authorized_key_line digest (ustrip l) n of
        Inr k \<Rightarrow> (k # keys, Suc count, invalid)
      | Inl _ \<Rightarrow> (keys, Suc count, Suc invalid)))"

definition summarize_authorized_keys :: "(ustring \<Rightarrow> string option) \<Rightarrow> ustring \<Rightarrow> read_key_entry list \<times> nat \<times> nat" where
  "summarize_authorized_keys digest t = summarize_lines digest 1 (splitlines t)"

section \<open>Rewriting a file\<close>

definition authorized_key_line :: "(ustring \<Rightarrow> string option) \<Rightarrow> ustring \<Rightarrow> ustring \<Rightarrow> key_error + ustring" where
  "authorized_key_line digest public_key label =
    rbind (validate_single_line public_key) (\<lambda>key.
    rbind (validate_single_line label) (\<lambda>comment.
    rbind (fingerprint_for_pubkey digest key) (\<lambda>_. Inr (key @ 32 # comment))))"

fun join_lines :: "ustring list \<Rightarrow> ustring" where
  "join_lines [] = []"
| "join_lines [l] = l"
| "join_lines (l # ls) = l @ 10 # join_lines ls"

definition join_authorized_key_lines :: "ustring list \<Rightarrow> ustring" where
  "join_authorized_key_lines ls = (if ls = [] then [] else join_lines ls @ [10])"

text \<open>The fingerprint of a line of the file, if it is a key line with one.\<close>

definition line_fingerprint :: "(ustring \<Rightarrow> string option) \<Rightarrow> ustring \<Rightarrow> string option" where
  "line_fingerprint digest l = (if key_line l then (case fingerprint_for_pubkey digest (ustrip l) of
     Inr f \<Rightarrow> Some f | Inl _ \<Rightarrow> None) else None)"

definition rewrite_authorized_keys_for_push :: "(ustring \<Rightarrow> string option) \<Rightarrow> ustring \<Rightarrow> ustring \<Rightarrow> key_error + ustring" where
  "rewrite_authorized_keys_for_push digest existing line =
    (let ls = splitlines existing in
     rbind (fingerprint_for_pubkey digest line) (\<lambda>target.
       if list_ex (\<lambda>l. line_fingerprint digest l = Some target) ls then Inr (join_authorized_key_lines ls)
       else Inr (join_authorized_key_lines (ls @ [line]))))"

text \<open>The loop of the revocation; \<open>kept\<close> is in reverse order.\<close>

definition corelab_comment :: "ustring \<Rightarrow> bool" where
  "corelab_comment l \<longleftrightarrow> prefix (u_of ''# corelab'') (ulstrip l)"

fun revoke_lines :: "(ustring \<Rightarrow> string option) \<Rightarrow> string \<Rightarrow> ustring list \<Rightarrow> ustring list \<Rightarrow> bool \<Rightarrow> ustring list \<times> bool" where
  "revoke_lines digest f [] kept removed = (rev kept, removed)"
| "revoke_lines digest f (l # ls) kept removed =
    (if line_fingerprint digest l = Some f
     then revoke_lines digest f ls (if kept \<noteq> [] \<and> corelab_comment (hd kept) then tl kept else kept) True
     else revoke_lines digest f ls (l # kept) removed)"

definition rewrite_authorized_keys_for_revoke :: "(ustring \<Rightarrow> string option) \<Rightarrow> ustring \<Rightarrow> string \<Rightarrow> ustring \<times> bool" where
  "rewrite_authorized_keys_for_revoke digest existing f =
    (let (kept, removed) = revoke_lines digest f (splitlines existing) [] False in
     (join_authorized_key_lines kept, removed))"

section \<open>The handlers\<close>

text \<open>
  The host: capability cache, accounts, files. A \<open>sudo\<close> command can fail; then its message is the
  fault. Reading a missing file is not a fault.
\<close>

record user_info =
  ui_gid :: int
  ui_home_directory :: string

record agent_host =
  ah_capabilities :: "string \<rightharpoonup> bool"
  ah_users :: "string \<rightharpoonup> user_info"
  ah_files :: "string \<rightharpoonup> ustring"

record command_faults =
  cf_mkdir :: "ustring option"
  cf_cat :: "ustring option"
  cf_install :: "ustring option"

definition capability_enabled :: "string \<Rightarrow> bool \<Rightarrow> agent_host \<Rightarrow> bool" where
  "capability_enabled key dflt h = (case ah_capabilities h key of None \<Rightarrow> dflt | Some b \<Rightarrow> b)"

definition set_capability :: "string \<Rightarrow> bool \<Rightarrow> agent_host \<Rightarrow> agent_host" where
  "set_capability key on h = h\<lparr>ah_capabilities := (ah_capabilities h)(key \<mapsto> on)\<rparr>"

definition require_enabled :: "string \<Rightarrow> agent_host \<Rightarrow> key_error + unit" where
  "require_enabled key h = (if capability_enabled key True h then Inr () else Inl CapabilityDisabledError)"

definition PUSH_CAPABILITY_KEY :: string where "PUSH_CAPABILITY_KEY = ''ssh.push_authorized_key''"
definition REVOKE_CAPABILITY_KEY :: string where "REVOKE_CAPABILITY_KEY = ''ssh.remove_authorized_key''"

text \<open>The pattern \<open>/home/[A-Za-z0-9._-]+\<close> on the normalised path, without \<open>..\<close> components.\<close>

definition home_char :: "char \<Rightarrow> bool" where
  "home_char c \<longleftrightarrow> (let n = (of_char c :: nat) in 65 \<le> n \<and> n \<le> 90 \<or> 97 \<le> n \<and> n \<le> 122 \<or> 48 \<le> n \<and> n \<le> 57
     \<or> n = 46 \<or> n = 95 \<or> n = 45)"

definition authorized_key_paths :: "user_info \<Rightarrow> key_error + (string \<times> string)" where
  "authorized_key_paths info = (let home = ui_home_directory info; name = drop 6 home in
     if prefix ''/home/'' home \<and> name \<noteq> [] \<and> list_all home_char name \<and> name \<noteq> ''..''
     then Inr (home @ ''/.ssh'', home @ ''/.ssh/authorized_keys'')
     else Inl UnsupportedHomeDirectoryError)"

definition ensure_ssh_dir :: "command_faults \<Rightarrow> key_error + unit" where
  "ensure_ssh_dir cf = (case cf_mkdir cf of None \<Rightarrow> Inr () | Some m \<Rightarrow> Inl (CommandError m))"

definition read_authorized_keys :: "command_faults \<Rightarrow> string \<Rightarrow> agent_host \<Rightarrow> key_error + ustring" where
  "read_authorized_keys cf path h = (case cf_cat cf of
      Some m \<Rightarrow> Inl (CommandError m)
    | None \<Rightarrow> (case ah_files h path of Some t \<Rightarrow> Inr t | None \<Rightarrow> Inr []))"

definition install_authorized_keys :: "command_faults \<Rightarrow> ustring \<Rightarrow> string \<Rightarrow> agent_host \<Rightarrow> key_error + agent_host" where
  "install_authorized_keys cf content path h = (case cf_install cf of
      Some m \<Rightarrow> Inl (CommandError m)
    | None \<Rightarrow> Inr (h\<lparr>ah_files := (ah_files h)(path \<mapsto> content)\<rparr>))"

definition MOCK_PATH :: string where "MOCK_PATH = ''/dev/null/mock-mac''"

text \<open>The results carry the host they leave; a failing handler leaves the host as it was.\<close>

definition push :: "(ustring \<Rightarrow> string option) \<Rightarrow> bool \<Rightarrow> command_faults \<Rightarrow> string \<Rightarrow> ustring \<Rightarrow> ustring \<Rightarrow>
    agent_host \<Rightarrow> key_error + ((string \<times> string) \<times> agent_host)" where
  "push digest mock cf uname public_key label h =
    rbind (require_enabled PUSH_CAPABILITY_KEY h) (\<lambda>_.
    if \<not> username_ok uname then Inl InvalidUsernameError
    else rbind (fingerprint_for_pubkey digest public_key) (\<lambda>fp.
    rbind (authorized_key_line digest public_key label) (\<lambda>line.
    if mock then Inr ((MOCK_PATH, fp), h)
    else (case ah_users h uname of
      None \<Rightarrow> Inl UserNotFoundError
    | Some info \<Rightarrow>
      rbind (authorized_key_paths info) (\<lambda>(dir, path).
      rbind (ensure_ssh_dir cf) (\<lambda>_.
      rbind (read_authorized_keys cf path h) (\<lambda>existing.
      rbind (rewrite_authorized_keys_for_push digest existing line) (\<lambda>desired.
      rbind (if desired \<noteq> existing then install_authorized_keys cf desired path h else Inr h) (\<lambda>h'.
        Inr ((path, fp), h'))))))))))"

definition revoke :: "(ustring \<Rightarrow> string option) \<Rightarrow> bool \<Rightarrow> command_faults \<Rightarrow> string \<Rightarrow> string \<Rightarrow>
    agent_host \<Rightarrow> key_error + (bool \<times> agent_host)" where
  "revoke digest mock cf uname f h =
    rbind (require_enabled REVOKE_CAPABILITY_KEY h) (\<lambda>_.
    if \<not> username_ok uname then Inl InvalidUsernameError
    else if mock then Inr (True, h)
    else (case ah_users h uname of
      None \<Rightarrow> Inr (False, h)
    | Some info \<Rightarrow>
      rbind (authorized_key_paths info) (\<lambda>(dir, path).
      rbind (read_authorized_keys cf path h) (\<lambda>existing.
        let (desired, removed) = rewrite_authorized_keys_for_revoke digest existing f in
        rbind (if removed \<and> desired \<noteq> existing then install_authorized_keys cf desired path h else Inr h) (\<lambda>h'.
          Inr (removed, h'))))))"

definition read_keys :: "(ustring \<Rightarrow> string option) \<Rightarrow> bool \<Rightarrow> command_faults \<Rightarrow> string \<Rightarrow> agent_host \<Rightarrow>
    key_error + (string \<times> nat \<times> nat \<times> read_key_entry list)" where
  "read_keys digest mock cf uname h =
    (if \<not> username_ok uname then Inl InvalidUsernameError
     else if mock then Inr (MOCK_PATH, 0, 0, [])
     else (case ah_users h uname of
       None \<Rightarrow> Inl UserNotFoundError
     | Some info \<Rightarrow>
       rbind (authorized_key_paths info) (\<lambda>(dir, path).
       rbind (read_authorized_keys cf path h) (\<lambda>existing.
         let (keys, count, invalid) = summarize_authorized_keys digest existing in Inr (path, count, invalid, keys)))))"

end
