(* ===== verification/Key_Props.thy ===== *)
theory Key_Props
  imports Key_File
begin

text \<open>
  The lemmas of the key files. A file is read as the list of its lines, and as the set of fingerprints
  of its key lines; a push adds one fingerprint to that set and a revocation removes one.
\<close>

section \<open>Words\<close>

lemma usplit_lstrip [simp]: "usplit_all (ulstrip s) = usplit_all s"
  by (induction s) (auto simp: ulstrip_def)

lemma usplit_append: "is_space c \<Longrightarrow> usplit_all (a @ c # b) = usplit_all a @ usplit_all b"
proof (induction a rule: usplit_all.induct)
  case (2 d s)
  show ?case
  proof (cases "is_space d")
    case False
    let ?w = "\<lambda>x. \<not> is_space x"
    show ?thesis
    proof (cases "dropWhile ?w s")
      case Nil
      then have all: "\<forall>x \<in> set s. ?w x" by (simp add: dropWhile_eq_Nil_conv)
      with 2(3) False show ?thesis
        by (simp add: takeWhile_append2 dropWhile_append2 takeWhile_eq_all_conv[THEN iffD2] dropWhile_eq_Nil_conv[THEN iffD2])
    next
      case (Cons x xs)
      then have "\<exists>y \<in> set s. is_space y"
        by (metis dropWhile_eq_Nil_conv list.distinct(1))
      then have "takeWhile ?w (s @ c # b) = takeWhile ?w s" "dropWhile ?w (s @ c # b) = dropWhile ?w s @ c # b"
        by (auto simp: takeWhile_append1 dropWhile_append1)
      with 2(2)[OF False 2(3)] False show ?thesis by simp
    qed
  qed (use 2 in simp)
qed simp

lemma usplit_spaces: "\<forall>x \<in> set w. is_space x \<Longrightarrow> usplit_all (a @ w) = usplit_all a"
proof (induction w arbitrary: a)
  case (Cons c w)
  then have "usplit_all w = []" using Cons.IH[of "[]"] by simp
  with Cons show ?case by (simp add: usplit_append)
qed simp

lemma lstrip_append: "s = takeWhile is_space s @ ulstrip s"
  by (simp add: ulstrip_def)

lemma rstrip_append: "s = rev (ulstrip (rev s)) @ rev (takeWhile is_space (rev s))"
  by (metis lstrip_append rev_append rev_rev_ident)

lemma usplit_strip [simp]: "usplit_all (ustrip s) = usplit_all s"
proof -
  have "usplit_all (ulstrip s) = usplit_all (rev (ulstrip (rev (ulstrip s))) @ rev (takeWhile is_space (rev (ulstrip s))))"
    using rstrip_append[of "ulstrip s"] by simp
  also have "\<dots> = usplit_all (ustrip s)"
    unfolding ustrip_def by (rule usplit_spaces) (auto dest: set_takeWhileD)
  finally show ?thesis by simp
qed

lemma lstrip_idem: "s = [] \<or> \<not> is_space (hd s) \<Longrightarrow> ulstrip s = s"
  by (cases s) (auto simp: ulstrip_def)

lemma hd_lstrip: "ulstrip s = [] \<or> \<not> is_space (hd (ulstrip s))"
  using hd_dropWhile[of is_space s] by (auto simp: ulstrip_def)

lemma strip_prefix: "\<exists>w. ulstrip s = ustrip s @ w"
  using rstrip_append[of "ulstrip s"] by (auto simp: ustrip_def)

lemma strip_idem [simp]: "ustrip (ustrip s) = ustrip s"
proof -
  obtain w where w: "ulstrip s = ustrip s @ w" using strip_prefix by blast
  have "ustrip s = [] \<or> \<not> is_space (hd (ustrip s))"
    using hd_lstrip[of s] w by (cases "ustrip s") auto
  then have l: "ulstrip (ustrip s) = ustrip s" by (rule lstrip_idem)
  have "ulstrip (rev (ustrip s)) = rev (ustrip s)"
    using hd_lstrip[of "rev (ulstrip s)"] by (intro lstrip_idem) (auto simp: ustrip_def)
  with l show ?thesis by (simp add: ustrip_def)
qed

lemma strip_sub: "set (ustrip s) \<subseteq> set s"
  by (auto simp: ustrip_def ulstrip_def dest!: set_dropWhileD)

section \<open>Lines\<close>

lemma join_is_unlines: "join_authorized_key_lines ls = unlines ls"
proof -
  have "ls \<noteq> [] \<Longrightarrow> join_lines ls @ [10] = unlines ls"
    by (induction ls rule: join_lines.induct) (auto simp: unlines_def)
  then show ?thesis by (simp add: join_authorized_key_lines_def unlines_def)
qed

lemma split_join: "\<forall>l \<in> set ls. line_ok l \<Longrightarrow> splitlines (join_authorized_key_lines ls) = ls"
  by (simp add: join_is_unlines splitlines_unlines)

lemma split_join_split [simp]: "splitlines (join_authorized_key_lines (splitlines t)) = splitlines t"
  by (rule split_join) (simp add: splitlines_ok)

text \<open>The fingerprints a file grants, in order and as a set.\<close>

definition file_fingerprints :: "(ustring \<Rightarrow> string option) \<Rightarrow> ustring \<Rightarrow> string list" where
  "file_fingerprints digest t = List.map_filter (line_fingerprint digest) (splitlines t)"

lemma set_file_fingerprints: "f \<in> set (file_fingerprints digest t) \<longleftrightarrow> (\<exists>l \<in> set (splitlines t). line_fingerprint digest l = Some f)"
  by (force simp: file_fingerprints_def List.map_filter_def)

lemma key_at_append: "key_at xs = Some (p, q, r) \<Longrightarrow> key_at (xs @ ys) = Some (p, q, r @ ys)"
  by (induction xs rule: key_at.induct) (auto split: if_splits)

lemma key_at_first: "key_at xs = Some (p, q, r) \<Longrightarrow> is_key_type p"
  by (induction xs rule: key_at.induct) (auto split: if_splits)

lemma space_32 [simp]: "is_space 32"
  by (simp add: is_space_def)

lemma fingerprint_strip [simp]: "fingerprint_for_pubkey digest (ustrip k) = fingerprint_for_pubkey digest k"
  by (simp add: fingerprint_for_pubkey_def)

lemma fingerprint_append: "fingerprint_for_pubkey digest k = Inr f \<Longrightarrow> fingerprint_for_pubkey digest (k @ 32 # c) = Inr f"
  by (auto simp: fingerprint_for_pubkey_def usplit_append key_at_append split: option.splits prod.splits)

text \<open>The line a push installs has the fingerprint of the key.\<close>

lemma authorized_key_line_cases:
  assumes "authorized_key_line digest k c = Inr line"
  shows "line = ustrip k @ 32 # ustrip c" "ustrip k \<noteq> []" "ustrip c \<noteq> []"
    "\<exists>f. fingerprint_for_pubkey digest k = Inr f \<and> fingerprint_for_pubkey digest line = Inr f"
  using assms fingerprint_append[of digest "ustrip k"]
  by (auto simp: authorized_key_line_def validate_single_line_def Let_def rbind_eq_Inr split: if_splits)

lemma line_ok_append [simp]: "line_ok (a @ b) \<longleftrightarrow> line_ok a \<and> line_ok b" "line_ok (c # b) \<longleftrightarrow> \<not> is_line_break c \<and> line_ok b"
  by (auto simp: line_ok_def)

lemma line_ok_strip: "line_ok s \<Longrightarrow> line_ok (ustrip s)"
  using strip_sub[of s] by (auto simp: line_ok_def)

lemma authorized_key_line_ok:
  "authorized_key_line digest k c = Inr line \<Longrightarrow> line_ok (ustrip k) \<Longrightarrow> line_ok (ustrip c) \<Longrightarrow> line_ok line"
  using authorized_key_line_cases(1)[of digest k c line] by (simp add: is_line_break_def)

section \<open>Pushing\<close>

lemma push_rewrite:
  assumes "fingerprint_for_pubkey digest line = Inr f"
  shows "rewrite_authorized_keys_for_push digest t line = Inr (join_authorized_key_lines
      (if f \<in> set (file_fingerprints digest t) then splitlines t else splitlines t @ [line]))"
  using assms by (auto simp: rewrite_authorized_keys_for_push_def Let_def set_file_fingerprints list_ex_iff)

lemma push_lines:
  assumes "fingerprint_for_pubkey digest line = Inr f" and "line_ok line"
    and "rewrite_authorized_keys_for_push digest t line = Inr t'"
  shows "splitlines t' = (if f \<in> set (file_fingerprints digest t) then splitlines t else splitlines t @ [line])"
proof -
  have "\<forall>l \<in> set (splitlines t @ [line]). line_ok l" using assms(2) splitlines_ok by auto
  then have "splitlines (join_authorized_key_lines (splitlines t @ [line])) = splitlines t @ [line]" by (rule split_join)
  with assms(3) push_rewrite[OF assms(1), of t] show ?thesis by (auto split: if_splits)
qed

text \<open>A line that is read as a key: it starts with neither a blank nor a comment sign.\<close>

lemma usplit_hd: "s \<noteq> [] \<Longrightarrow> \<not> is_space (hd s) \<Longrightarrow> \<exists>w ws. usplit_all s = (hd s # w) # ws"
  by (cases s) auto

lemma pushed_line_fingerprint:
  assumes "fingerprint_for_pubkey digest line = Inr f" and "\<not> prefix (u_of ''#'') (ustrip line)"
  shows "line_fingerprint digest line = Some f"
proof -
  have "ustrip line \<noteq> []"
  proof
    assume "ustrip line = []"
    then have "usplit_all line = []" by (metis usplit_strip usplit_all.simps(1))
    with assms(1) show False by (simp add: fingerprint_for_pubkey_def)
  qed
  with assms show ?thesis by (simp add: line_fingerprint_def key_line_def)
qed

lemma push_grants:
  assumes "fingerprint_for_pubkey digest line = Inr f" and "line_ok line" and "\<not> prefix (u_of ''#'') (ustrip line)"
    and "rewrite_authorized_keys_for_push digest t line = Inr t'"
  shows "file_fingerprints digest t' = (if f \<in> set (file_fingerprints digest t) then file_fingerprints digest t
      else file_fingerprints digest t @ [f])"
  using push_lines[OF assms(1,2,4)] pushed_line_fingerprint[OF assms(1,3)]
  by (simp add: file_fingerprints_def List.map_filter_def)

lemma push_again:
  assumes "fingerprint_for_pubkey digest line = Inr f" and "line_ok line" and "\<not> prefix (u_of ''#'') (ustrip line)"
    and "rewrite_authorized_keys_for_push digest t line = Inr t'"
  shows "rewrite_authorized_keys_for_push digest t' line = Inr t'"
proof -
  have "f \<in> set (file_fingerprints digest t')" using push_grants[OF assms] by auto
  then have "rewrite_authorized_keys_for_push digest t' line = Inr (join_authorized_key_lines (splitlines t'))"
    using push_rewrite[OF assms(1)] by simp
  also have "join_authorized_key_lines (splitlines t') = t'"
    using push_lines[OF assms(1,2,4)] push_rewrite[OF assms(1), of t] assms(4) by (auto split: if_splits)
  finally show ?thesis .
qed

section \<open>Revoking\<close>

lemma revoke_lines_removed: "snd (revoke_lines digest f ls kept r) \<longleftrightarrow> r \<or> (\<exists>l \<in> set ls. line_fingerprint digest l = Some f)"
  by (induction ls arbitrary: kept r) auto

lemma revoke_lines_none: "\<forall>l \<in> set ls. line_fingerprint digest l \<noteq> Some f \<Longrightarrow>
    revoke_lines digest f ls kept r = (rev kept @ ls, r)"
  by (induction ls arbitrary: kept) auto

lemma revoke_lines_sub: "set (fst (revoke_lines digest f ls kept r)) \<subseteq> set kept \<union> set ls"
proof (induction ls arbitrary: kept r)
  case (Cons l ls)
  show ?case using Cons[of kept True] Cons[of "tl kept" True] Cons[of "l # kept" r] list.set_sel(2)[of kept]
    by (cases "kept = []") auto
qed simp

text \<open>What is no comment of the program and has another fingerprint stays, in order.\<close>

lemma revoke_lines_keeps:
  assumes "\<And>l. P l \<Longrightarrow> \<not> corelab_comment l"
  shows "filter (\<lambda>l. P l \<and> line_fingerprint digest l \<noteq> Some f) (fst (revoke_lines digest f ls kept r)) =
    filter (\<lambda>l. P l \<and> line_fingerprint digest l \<noteq> Some f) (rev kept @ ls)"
proof (induction ls arbitrary: kept r)
  case (Cons l ls)
  show ?case
  proof (cases "line_fingerprint digest l = Some f")
    case False
    then show ?thesis using Cons[of "l # kept" r] by simp
  next
    case True
    show ?thesis
    proof (cases "kept \<noteq> [] \<and> corelab_comment (hd kept)")
      case drop: True
      then have "filter (\<lambda>l. P l \<and> line_fingerprint digest l \<noteq> Some f) (rev (tl kept)) =
          filter (\<lambda>l. P l \<and> line_fingerprint digest l \<noteq> Some f) (rev kept)"
        using assms by (cases kept) auto
      with drop True Cons[of "tl kept" True] show ?thesis by simp
    next
      case False
      with True Cons[of kept True] show ?thesis by auto
    qed
  qed
qed simp

lemma revoke_lines_gone:
  assumes "\<forall>l \<in> set kept. line_fingerprint digest l \<noteq> Some f"
  shows "\<forall>l \<in> set (fst (revoke_lines digest f ls kept r)). line_fingerprint digest l \<noteq> Some f"
  using assms
proof (induction ls arbitrary: kept r)
  case (Cons l ls)
  have "\<forall>l \<in> set (tl kept). line_fingerprint digest l \<noteq> Some f"
    using Cons.prems list.set_sel(2)[of kept] by (cases "kept = []") auto
  note tl_ok = Cons.IH[OF this, of True] and kept_ok = Cons.IH[OF Cons.prems, of True]
  show ?case
  proof (cases "line_fingerprint digest l = Some f")
    case True
    with tl_ok kept_ok show ?thesis by (simp only: revoke_lines.simps if_True split: if_splits) blast
  next
    case False
    with Cons.prems have "\<forall>l \<in> set (l # kept). line_fingerprint digest l \<noteq> Some f" by simp
    from Cons.IH[OF this, of r] False show ?thesis by (simp only: revoke_lines.simps if_False)
  qed
qed simp

lemma comment_no_fingerprint: "corelab_comment l \<Longrightarrow> line_fingerprint digest l = None"
proof -
  assume c: "corelab_comment l"
  obtain w where w: "ulstrip l = ustrip l @ w" using strip_prefix by blast
  have "prefix (u_of ''#'') (ulstrip l)"
    using c by (auto simp: corelab_comment_def u_of_def prefix_def)
  then have "ustrip l = [] \<or> prefix (u_of ''#'') (ustrip l)"
    using w by (cases "ustrip l") (auto simp: u_of_def)
  then show ?thesis by (auto simp: line_fingerprint_def key_line_def)
qed

lemma map_filter_cong_filter: "(\<And>l. l \<in> set xs \<union> set ys \<Longrightarrow> \<not> P l \<Longrightarrow> g l = None) \<Longrightarrow> filter P xs = filter P ys \<Longrightarrow>
    List.map_filter g xs = List.map_filter g ys"
proof -
  have h: "(\<And>l. l \<in> set zs \<Longrightarrow> \<not> P l \<Longrightarrow> g l = None) \<Longrightarrow> List.map_filter g zs = List.map_filter g (filter P zs)" for zs
    by (induction zs) (auto simp: map_filter_simps split: option.splits)
  assume "\<And>l. l \<in> set xs \<union> set ys \<Longrightarrow> \<not> P l \<Longrightarrow> g l = None" "filter P xs = filter P ys"
  then show ?thesis using h[of xs] h[of ys] by auto
qed

lemma revoke_rewrite_lines:
  "rewrite_authorized_keys_for_revoke digest t f = (t', removed) \<Longrightarrow>
    splitlines t' = fst (revoke_lines digest f (splitlines t) [] False)"
  using split_join[of "fst (revoke_lines digest f (splitlines t) [] False)"]
    revoke_lines_sub[of digest f "splitlines t" "[]" False] splitlines_ok
  by (auto simp: rewrite_authorized_keys_for_revoke_def Let_def split_def)

lemma revoke_takes_away:
  assumes "rewrite_authorized_keys_for_revoke digest t f = (t', removed)"
  shows "file_fingerprints digest t' = filter (\<lambda>x. x \<noteq> f) (file_fingerprints digest t)"
    "removed \<longleftrightarrow> f \<in> set (file_fingerprints digest t)"
proof -
  let ?k = "fst (revoke_lines digest f (splitlines t) [] False)"
  let ?P = "\<lambda>l. \<not> corelab_comment l"
  let ?g = "\<lambda>l. case line_fingerprint digest l of None \<Rightarrow> None | Some x \<Rightarrow> if x = f then None else Some x"
  have g: "List.map_filter ?g ls = filter (\<lambda>x. x \<noteq> f) (List.map_filter (line_fingerprint digest) ls)" for ls
    by (induction ls) (auto simp: map_filter_simps split: option.splits)
  have "List.map_filter ?g ?k = List.map_filter ?g (splitlines t)"
    by (rule map_filter_cong_filter[where P = "\<lambda>l. ?P l \<and> line_fingerprint digest l \<noteq> Some f"])
      (use revoke_lines_keeps[where P = ?P and kept = "[]" and r = False and ls = "splitlines t"] in
        \<open>auto simp: comment_no_fingerprint split: option.split\<close>)
  then have "filter (\<lambda>x. x \<noteq> f) (List.map_filter (line_fingerprint digest) ?k) = filter (\<lambda>x. x \<noteq> f) (file_fingerprints digest t)"
    by (simp add: g file_fingerprints_def)
  moreover have "f \<notin> set (List.map_filter (line_fingerprint digest) ?k)"
    using revoke_lines_gone[of "[]" digest f "splitlines t" False]
    by (auto simp: List.map_filter_def)
  then have "filter (\<lambda>x. x \<noteq> f) (List.map_filter (line_fingerprint digest) ?k) = List.map_filter (line_fingerprint digest) ?k"
    by (intro filter_True) blast
  ultimately show "file_fingerprints digest t' = filter (\<lambda>x. x \<noteq> f) (file_fingerprints digest t)"
    by (simp only: file_fingerprints_def revoke_rewrite_lines[OF assms])
  show "removed \<longleftrightarrow> f \<in> set (file_fingerprints digest t)"
    using assms revoke_lines_removed[of digest f "splitlines t" "[]" False]
    by (auto simp: rewrite_authorized_keys_for_revoke_def Let_def split_def set_file_fingerprints)
qed

text \<open>A push of an absent key followed by its revocation leaves the lines as they were, unless the last one was a
  comment of the program.\<close>

lemma revoke_lines_snoc:
  "\<forall>l \<in> set ls. line_fingerprint digest l \<noteq> Some f \<Longrightarrow> line_fingerprint digest x = Some f \<Longrightarrow>
    fst (revoke_lines digest f (ls @ [x]) kept r) =
      (let k = rev kept @ ls in if k \<noteq> [] \<and> corelab_comment (last k) then butlast k else k)"
proof (induction ls arbitrary: kept)
  case Nil
  then show ?case by (cases kept) (auto simp: Let_def butlast_append)
qed (simp add: Let_def)

lemma push_revoke:
  assumes "fingerprint_for_pubkey digest line = Inr f" and "line_ok line" and "\<not> prefix (u_of ''#'') (ustrip line)"
    and "f \<notin> set (file_fingerprints digest t)" and "rewrite_authorized_keys_for_push digest t line = Inr t'"
    and "rewrite_authorized_keys_for_revoke digest t' f = (t'', removed)"
  shows "removed" "splitlines t'' = (if splitlines t \<noteq> [] \<and> corelab_comment (last (splitlines t))
      then butlast (splitlines t) else splitlines t)"
proof -
  have l: "splitlines t' = splitlines t @ [line]" using push_lines[OF assms(1,2,5)] assms(4) by simp
  show "removed" using revoke_takes_away(2)[OF assms(6)] push_grants[OF assms(1,2,3,5)] by simp
  show "splitlines t'' = (if splitlines t \<noteq> [] \<and> corelab_comment (last (splitlines t))
      then butlast (splitlines t) else splitlines t)"
    unfolding revoke_rewrite_lines[OF assms(6)] l
    using revoke_lines_snoc[where ls = "splitlines t" and kept = "[]"] assms(4) pushed_line_fingerprint[OF assms(1,3)]
    by (simp add: set_file_fingerprints)
qed

section \<open>Reading\<close>

lemma summarize_line_cases: "summarize_authorized_key_line digest l n = Inr k \<Longrightarrow>
    fingerprint_for_pubkey digest l = Inr (rk_fingerprint_sha256 k) \<and> rk_line_number k = n"
  by (auto simp: summarize_authorized_key_line_def rbind_eq_Inr split: option.splits)

lemma summarize_line_fails: "summarize_authorized_key_line digest l n = Inl e \<Longrightarrow> \<exists>e'. fingerprint_for_pubkey digest l = Inl e'"
  by (auto simp: summarize_authorized_key_line_def fingerprint_for_pubkey_def rbind_eq_Inl split: option.splits)

lemma summarize_lines_spec:
  "summarize_lines digest n ls = (keys, count, invalid) \<Longrightarrow>
    map rk_fingerprint_sha256 keys = List.map_filter (line_fingerprint digest) ls
    \<and> count = length (filter key_line ls) \<and> count = length keys + invalid"
proof (induction ls arbitrary: n keys count invalid)
  case (Cons l ls)
  obtain ks c i where r: "summarize_lines digest (Suc n) ls = (ks, c, i)" by (cases "summarize_lines digest (Suc n) ls") auto
  note IH = Cons.IH[OF r]
  show ?case
  proof (cases "key_line l")
    case False
    with r Cons.prems IH show ?thesis by (simp add: map_filter_simps line_fingerprint_def)
  next
    case True
    show ?thesis
    proof (cases "summarize_authorized_key_line digest (ustrip l) n")
      case (Inl e)
      with summarize_line_fails[OF Inl] True r Cons.prems IH show ?thesis
        by (auto simp: map_filter_simps line_fingerprint_def)
    next
      case (Inr k)
      with summarize_line_cases[OF Inr] True r Cons.prems IH show ?thesis
        by (auto simp: map_filter_simps line_fingerprint_def)
    qed
  qed
qed (simp add: map_filter_simps)

lemma summary_is_the_file:
  assumes "summarize_authorized_keys digest t = (keys, count, invalid)"
  shows "map rk_fingerprint_sha256 keys = file_fingerprints digest t" "count = length keys + invalid"
  using summarize_lines_spec[of digest 1 "splitlines t"] assms
  by (auto simp: summarize_authorized_keys_def file_fingerprints_def)

section \<open>The handlers on the host\<close>

definition user_keys_path :: "string \<Rightarrow> agent_host \<Rightarrow> string option" where
  "user_keys_path u h = (case ah_users h u of None \<Rightarrow> None
     | Some info \<Rightarrow> (case authorized_key_paths info of Inl _ \<Rightarrow> None | Inr (_, path) \<Rightarrow> Some path))"

definition file_text :: "string \<Rightarrow> agent_host \<Rightarrow> ustring" where
  "file_text path h = (case ah_files h path of None \<Rightarrow> [] | Some t \<Rightarrow> t)"

lemma read_file_text: "read_authorized_keys cf path h = Inr t \<Longrightarrow> t = file_text path h"
  by (auto simp: read_authorized_keys_def file_text_def split: option.splits)

lemma install_text: "install_authorized_keys cf t path h = Inr h' \<Longrightarrow> h' = h\<lparr>ah_files := (ah_files h)(path \<mapsto> t)\<rparr>"
  by (auto simp: install_authorized_keys_def split: option.splits)

lemma push_effect:
  assumes "push digest False cf u key label h = Inr ((path, f), h')"
  shows "\<exists>line t'. user_keys_path u h = Some path \<and> fingerprint_for_pubkey digest key = Inr f
    \<and> authorized_key_line digest key label = Inr line
    \<and> rewrite_authorized_keys_for_push digest (file_text path h) line = Inr t' \<and> file_text path h' = t'
    \<and> (\<forall>p. p \<noteq> path \<longrightarrow> ah_files h' p = ah_files h p)"
  using assms
  by (auto simp: push_def rbind_eq_Inr user_keys_path_def file_text_def
      split: option.splits if_splits dest!: read_file_text install_text)

lemma revoke_effect:
  assumes "revoke digest False cf u f h = Inr (removed, h')" and "user_keys_path u h = Some path"
  shows "\<exists>t'. rewrite_authorized_keys_for_revoke digest (file_text path h) f = (t', removed)
    \<and> file_text path h' = (if removed then t' else file_text path h)
    \<and> (\<forall>p. p \<noteq> path \<longrightarrow> ah_files h' p = ah_files h p)"
proof -
  obtain info dir where i: "ah_users h u = Some info" "authorized_key_paths info = Inr (dir, path)"
    using assms(2) by (auto simp: user_keys_path_def split: option.splits sum.splits)
  obtain t' r where t: "rewrite_authorized_keys_for_revoke digest (file_text path h) f = (t', r)" by fastforce
  have "r = removed \<and> (if r \<and> t' \<noteq> file_text path h then install_authorized_keys cf t' path h else Inr h) = Inr h'"
    using assms(1) i t by (auto simp: revoke_def rbind_eq_Inr split: if_splits dest!: read_file_text)
  with t show ?thesis
    by (auto simp: file_text_def split: if_splits dest!: install_text)
qed

end
