(* ===== verification/Guarantees_Keys.thy ===== *)
theory Guarantees_Keys
  imports Key_Props Rate_Props
begin

text \<open>
  The guarantees of the key files on the servers and of the request limits.
\<close>

section \<open>Key files\<close>

text \<open>The keys that let a user in: the fingerprints of the user's file.\<close>

definition keys_of :: "(ustring \<Rightarrow> string option) \<Rightarrow> string \<Rightarrow> agent_host \<Rightarrow> string set" where
  "keys_of digest path h = set (file_fingerprints digest (file_text path h))"

text \<open>A toy digest for the examples: two keys.\<close>

definition toy_digest :: "ustring \<Rightarrow> string option" where
  "toy_digest b = (if b = u_of ''AAAA'' then Some ''A'' else if b = u_of ''BBBB'' then Some ''B'' else None)"

definition toy_host :: agent_host where
  "toy_host = \<lparr>ah_capabilities = Map.empty, ah_users = [''bob'' \<mapsto> \<lparr>ui_gid = 1, ui_home_directory = ''/home/bob''\<rparr>],
     ah_files = [''/home/bob/.ssh/authorized_keys'' \<mapsto> u_of ''# mine'' @ [10] @ u_of ''ssh-rsa BBBB b'' @ [10]]\<rparr>"

definition no_faults :: command_faults where
  "no_faults = \<lparr>cf_mkdir = None, cf_cat = None, cf_install = None\<rparr>"

lemmas text_eval = u_of_def is_space_def ustrip_def ulstrip_def is_line_break_def splitlines_def is_key_type_def
  validate_single_line_def key_line_def corelab_comment_def line_ok_def
lemmas host_eval = push_def revoke_def read_keys_def require_enabled_def capability_enabled_def authorized_key_paths_def
  home_char_def username_ok_def name_start_def name_rest_def ensure_ssh_dir_def read_authorized_keys_def install_authorized_keys_def
lemmas file_eval = rewrite_authorized_keys_for_push_def rewrite_authorized_keys_for_revoke_def line_fingerprint_def
  fingerprint_for_pubkey_def authorized_key_line_def join_authorized_key_lines_def summarize_authorized_keys_def
  summarize_authorized_key_line_def file_text_def user_keys_path_def
lemmas toy_eval = host_eval file_eval text_eval toy_digest_def toy_host_def no_faults_def

lemma strip_hash: "prefix (u_of ''#'') (ustrip (ustrip k @ 32 # c)) \<Longrightarrow> ustrip k \<noteq> [] \<Longrightarrow> prefix (u_of ''#'') (ustrip k)"
proof -
  assume p: "prefix (u_of ''#'') (ustrip (ustrip k @ 32 # c))" and n: "ustrip k \<noteq> []"
  obtain w where w: "ulstrip k = ustrip k @ w" using strip_prefix by blast
  have h: "\<not> is_space (hd (ustrip k))" using hd_lstrip[of k] w n by auto
  have l: "ulstrip (ustrip k @ 32 # c) = ustrip k @ 32 # c" using n h by (intro lstrip_idem) auto
  obtain v where "ustrip k @ 32 # c = ustrip (ustrip k @ 32 # c) @ v" using strip_prefix[of "ustrip k @ 32 # c"] l by auto
  then have "hd (ustrip k) = hd (ustrip (ustrip k @ 32 # c))" using p n
    by (metis append_is_Nil_conv hd_append2 list.discI prefix_Nil u_of_def list.simps(9))
  with p n show ?thesis by (cases "ustrip k"; cases "ustrip (ustrip k @ 32 # c)") (auto simp: u_of_def)
qed

text \<open>
  C14. For a key and a label in which \<open>str.splitlines\<close> sees no line boundary, and a key that does not start with a number
  sign: installing the key adds its fingerprint to the keys of the user and nothing else; every other key of the
  file stays, every other file stays, and a second installation changes nothing. Without these conditions it is not so, as
  \<open>smuggled_key_survives\<close> shows: the handler refuses only some of the boundaries.
\<close>

theorem push_adds_one_key:
  assumes "push digest False cf u key label h = Inr ((path, f), h')"
    and "line_ok (ustrip key)" and "line_ok (ustrip label)" and "\<not> prefix (u_of ''#'') (ustrip key)"
  shows "keys_of digest path h' = insert f (keys_of digest path h) \<and> fingerprint_for_pubkey digest key = Inr f
    \<and> (\<forall>p. p \<noteq> path \<longrightarrow> ah_files h' p = ah_files h p)
    \<and> (\<forall>cf' h'' x. push digest False cf' u key label h' = Inr (x, h'') \<longrightarrow> file_text path h'' = file_text path h')"
proof -
  obtain line t' where p: "user_keys_path u h = Some path" "fingerprint_for_pubkey digest key = Inr f"
    "authorized_key_line digest key label = Inr line"
    "rewrite_authorized_keys_for_push digest (file_text path h) line = Inr t'" "file_text path h' = t'"
    "\<forall>p. p \<noteq> path \<longrightarrow> ah_files h' p = ah_files h p"
    using push_effect[OF assms(1)] by blast
  note l = authorized_key_line_cases[OF p(3)]
  have f: "fingerprint_for_pubkey digest line = Inr f" using l(4) p(2) by auto
  have nc: "\<not> prefix (u_of ''#'') (ustrip line)" using strip_hash[of key "ustrip label"] l(1,2) assms(4) by auto
  note ok = authorized_key_line_ok[OF p(3) assms(2,3)]
  have users: "ah_users h' = ah_users h"
    using assms(1) by (auto simp: push_def rbind_eq_Inr split: option.splits if_splits dest!: install_text)
  have "file_text path h'' = file_text path h'" if q: "push digest False cf' u key label h' = Inr (x, h'')" for cf' h'' x
  proof -
    obtain path' f' where x: "x = (path', f')" by (cases x)
    obtain line' t'' where r: "user_keys_path u h' = Some path'" "authorized_key_line digest key label = Inr line'"
      "rewrite_authorized_keys_for_push digest (file_text path' h') line' = Inr t''" "file_text path' h'' = t''"
      using push_effect q unfolding x by blast
    have "path' = path" using r(1) p(1) users by (simp add: user_keys_path_def)
    with r p(3,5) push_again[OF f ok nc p(4)] show ?thesis by simp
  qed
  moreover have "keys_of digest path h' = insert f (keys_of digest path h)"
    using push_grants[OF f ok nc p(4)] by (auto simp: keys_of_def p(5))
  ultimately show ?thesis using p(2,6) by blast
qed

theorem push_adds_one_key_witness:
  "\<exists>h'. push toy_digest False no_faults ''bob'' (u_of ''ssh-rsa AAAA'') (u_of ''a'') toy_host
      = Inr ((''/home/bob/.ssh/authorized_keys'', ''A''), h')
    \<and> keys_of toy_digest ''/home/bob/.ssh/authorized_keys'' h' = {''A'', ''B''}"
proof -
  let ?r = "push toy_digest False no_faults ''bob'' (u_of ''ssh-rsa AAAA'') (u_of ''a'') toy_host"
  have "\<exists>h'. ?r = Inr ((''/home/bob/.ssh/authorized_keys'', ''A''), h')" by (simp add: toy_eval)
  then obtain h' where r: "?r = Inr ((''/home/bob/.ssh/authorized_keys'', ''A''), h')" ..
  have "keys_of toy_digest ''/home/bob/.ssh/authorized_keys'' h' = insert ''A'' (keys_of toy_digest ''/home/bob/.ssh/authorized_keys'' toy_host)"
  proof (rule push_adds_one_key[OF r, THEN conjunct1])
    show "line_ok (ustrip (u_of ''ssh-rsa AAAA''))" by (simp add: text_eval)
    show "line_ok (ustrip (u_of ''a''))" by (simp add: text_eval)
    show "\<not> prefix (u_of ''#'') (ustrip (u_of ''ssh-rsa AAAA''))" by (simp add: text_eval)
  qed
  also have "keys_of toy_digest ''/home/bob/.ssh/authorized_keys'' toy_host = {''B''}"
    by (simp add: keys_of_def file_fingerprints_def List.map_filter_simps toy_eval)
  finally show ?thesis using r by blast
qed

text \<open>
  C15. Revoking a fingerprint takes exactly that key away: afterwards no line of the user's file has it, all
  other keys are there in their order, and the answer says whether there was something to take away.
\<close>

theorem revoke_takes_one_key:
  assumes "revoke digest False cf u f h = Inr (removed, h')" and "user_keys_path u h = Some path"
  shows "file_fingerprints digest (file_text path h') = filter (\<lambda>x. x \<noteq> f) (file_fingerprints digest (file_text path h))
    \<and> (removed \<longleftrightarrow> f \<in> keys_of digest path h) \<and> (\<forall>p. p \<noteq> path \<longrightarrow> ah_files h' p = ah_files h p)"
proof -
  obtain t' where t: "rewrite_authorized_keys_for_revoke digest (file_text path h) f = (t', removed)"
    "file_text path h' = (if removed then t' else file_text path h)" "\<forall>p. p \<noteq> path \<longrightarrow> ah_files h' p = ah_files h p"
    using revoke_effect[OF assms] by blast
  note r = revoke_takes_away[OF t(1)]
  have without: "x \<notin> set xs \<Longrightarrow> filter (\<lambda>y. y \<noteq> x) xs = xs" for x and xs :: "string list"
    by (induction xs) auto
  have "file_fingerprints digest (file_text path h') = filter (\<lambda>x. x \<noteq> f) (file_fingerprints digest (file_text path h))"
    using r t(2) without[of f "file_fingerprints digest (file_text path h)"] by (cases removed) simp_all
  with r(2) t(3) show ?thesis by (simp add: keys_of_def)
qed

theorem revoke_takes_one_key_witness:
  "\<exists>h'. revoke toy_digest False no_faults ''bob'' ''B'' toy_host = Inr (True, h')
    \<and> file_fingerprints toy_digest (file_text ''/home/bob/.ssh/authorized_keys'' h') = []"
proof -
  let ?r = "revoke toy_digest False no_faults ''bob'' ''B'' toy_host"
  have "\<exists>h'. ?r = Inr (True, h')" by (simp add: toy_eval)
  then obtain h' where r: "?r = Inr (True, h')" ..
  have p: "user_keys_path ''bob'' toy_host = Some ''/home/bob/.ssh/authorized_keys''" by (simp add: toy_eval)
  have "filter (\<lambda>x. x \<noteq> ''B'') (file_fingerprints toy_digest (file_text ''/home/bob/.ssh/authorized_keys'' toy_host)) = []"
    by (simp add: file_fingerprints_def List.map_filter_simps toy_eval)
  with revoke_takes_one_key[OF r p] r show ?thesis by auto
qed

text \<open>
  Reading a user's file reports exactly its keys, in order, and counts every key line once, as a key
  or as invalid.
\<close>

theorem read_reports_the_keys:
  assumes "read_keys digest False cf u h = Inr (path, count, invalid, keys)"
  shows "map rk_fingerprint_sha256 keys = file_fingerprints digest (file_text path h) \<and> count = length keys + invalid
    \<and> user_keys_path u h = Some path"
proof -
  obtain info dir p t where o: "ah_users h u = Some info" "authorized_key_paths info = Inr (dir, p)" "read_authorized_keys cf p h = Inr t"
    "(case summarize_authorized_keys digest t of (keys, count, invalid) \<Rightarrow> Inr (p, count, invalid, keys)) = (Inr (path, count, invalid, keys) :: key_error + _)"
    using assms by (auto simp: read_keys_def rbind_eq_Inr split: if_splits option.splits)
  have "t = file_text p h" by (rule read_file_text[OF o(3)])
  then have "summarize_authorized_keys digest (file_text path h) = (keys, count, invalid) \<and> user_keys_path u h = Some path"
    using o by (auto simp: user_keys_path_def split: prod.splits)
  then show ?thesis using summary_is_the_file by blast
qed

theorem read_reports_the_keys_witness:
  "\<exists>path keys. read_keys toy_digest False no_faults ''bob'' toy_host = Inr (path, 1, 0, keys) \<and> map rk_fingerprint_sha256 keys = [''B'']"
proof -
  have "\<exists>keys. read_keys toy_digest False no_faults ''bob'' toy_host = Inr (''/home/bob/.ssh/authorized_keys'', 1, 0, keys)"
    by (simp add: toy_eval)
  then obtain keys where r: "read_keys toy_digest False no_faults ''bob'' toy_host = Inr (''/home/bob/.ssh/authorized_keys'', 1, 0, keys)" ..
  have "file_fingerprints toy_digest (file_text ''/home/bob/.ssh/authorized_keys'' toy_host) = [''B'']"
    by (simp add: file_fingerprints_def List.map_filter_simps toy_eval)
  with read_reports_the_keys[OF r] r show ?thesis by auto
qed

text \<open>
  A key text with a line boundary other than the newline (here the next-line character) passes for one
  line. The next rewrite of the file turns it into two lines: revoking the key that was installed leaves the
  second key, which no fingerprint in the database names.
\<close>

theorem smuggled_key_survives:
  "\<exists>h1 h2. push toy_digest False no_faults ''bob'' (u_of ''ssh-rsa AAAA'' @ [133] @ u_of ''ssh-rsa BBBB'') (u_of ''x'')
      (toy_host\<lparr>ah_files := Map.empty\<rparr>) = Inr ((''/home/bob/.ssh/authorized_keys'', ''A''), h1)
    \<and> revoke toy_digest False no_faults ''bob'' ''A'' h1 = Inr (True, h2)
    \<and> file_text ''/home/bob/.ssh/authorized_keys'' h2 = u_of ''ssh-rsa BBBB x'' @ [10]"
  by (simp add: toy_eval)

section \<open>Request limits\<close>

text \<open>
  C16. One worker that counts in its own memory, without a Redis client, from empty buckets and with a clock that does not go
  back: in no minute are more requests of one caller and kind let through by the count than the limit of that kind.
  Requests for exempt paths are let through uncounted and are not among these.
\<close>

theorem request_budget:
  assumes "orderly evs" and "lm_buckets (rs_local st) = Map.empty"
  shows "card (admitted_in decode evs (serve decode reads writes R NoClient evs st) who wr a) \<le> (if wr then writes else reads)"
  unfolding serve_local[OF assms] by (rule budget_spec_bounded)

definition toy_request :: http_request where
  "toy_request = \<lparr>hr_path = ''/api'', hr_method = ''GET'', hr_authorization = [], hr_forwarded_for = [], hr_client_host = None\<rparr>"

definition toy_store :: "redis_map rate_store" where
  "toy_store = \<lparr>rs_local = \<lparr>lm_buckets = Map.empty, lm_locks_until_ms = Map.empty\<rparr>, rs_redis = (\<lambda>_. None)\<rparr>"

lemma toy_orderly: "orderly [(0, ''u'', toy_request), (5, ''v'', toy_request)]"
  by (simp add: orderly_def)

theorem request_budget_witness:
  "card (admitted_in (\<lambda>_. None) [(0, ''u'', toy_request), (5, ''v'', toy_request)]
     (serve (\<lambda>_. None) 1 1 map_redis NoClient [(0, ''u'', toy_request), (5, ''v'', toy_request)] toy_store) ''ip:unknown'' False (-1)) \<le> 1"
  using request_budget[OF toy_orderly, of toy_store "\<lambda>_. None" 1 1 map_redis "''ip:unknown''" False "-1"]
  by (simp add: toy_store_def)

text \<open>
  C17. The sliding window decides the same over a Redis server as in the process.
\<close>

theorem redis_decides_like_memory:
  assumes "orderly evs" and "redis_doc R live" and "\<forall>t k. live (rs_redis st) t k = None" and "lm_buckets (rs_local st) = Map.empty"
  shows "serve decode reads writes R RedisReplies evs st = serve decode reads writes R NoClient evs st"
  using serve_redis[OF assms(1,2)] serve_local[OF assms(1,4)] assms(3) by metis

theorem redis_decides_like_memory_witness:
  "serve (\<lambda>_. None) 1 1 map_redis RedisReplies [(0, ''u'', toy_request), (5, ''v'', toy_request)] toy_store
    = serve (\<lambda>_. None) 1 1 map_redis NoClient [(0, ''u'', toy_request), (5, ''v'', toy_request)] toy_store"
  using redis_decides_like_memory[OF toy_orderly map_redis_doc, of toy_store] by (simp add: toy_store_def map_live_def)

text \<open>
  C7. The failure counter of the lock does not: over Redis every failure renews the life of the counter, so
  three failures four minutes apart lock the subject, which the in-process window of five minutes does not.
\<close>

definition three_failures :: "'r redis \<Rightarrow> 'r redis_reply \<Rightarrow> 'r rate_store \<Rightarrow> bool" where
  "three_failures R reply st =
    (let f = (\<lambda>t. record_failure R reply login_lock_manager t t ''s'');
         st1 = snd (f 0 st); st2 = snd (f 240000 st1)
     in fst (f 480000 st2))"

theorem failure_counters_differ:
  "three_failures map_redis RedisReplies toy_store \<and> \<not> three_failures map_redis NoClient toy_store"
  by (simp add: three_failures_def Let_def record_failure_def on_local_def failure_hit_def bucket_count_after_hit_def bucket_def
      login_lock_manager_def count_key_def lock_key_def map_redis_def map_live_def survives_def toy_store_def
      LOGIN_FAILURE_THRESHOLD_def LOGIN_FAILURE_WINDOW_SECONDS_def LOGIN_LOCK_SECONDS_def)

end
