(* ===== verification/Auth_Service.thy ===== *)
theory Auth_Service
  imports Access_Api Py_Text
begin

text \<open>
  \<open>services/auth_service.py\<close> with \<open>services/ssh_key_service.py\<close> and \<open>services/ssh_key_helpers.py\<close>: login
  under the failure lock, one-time tokens, registration invites, activation, and the keys of a user.
  Password hashing, token hashing, the access token, base64 with SHA-256, and the equality of the
  database's collation are parameters; a fresh random token is an argument.
\<close>

section \<open>Parameters and errors\<close>

record 'r auth_env =
  av_redis :: "'r redis"
  av_lock_reply :: "'r redis_reply"
  av_failure_reply :: "'r redis_reply"
  av_success_reply :: "'r redis_reply"
  av_now_ms :: int
  av_later_ms :: int
  av_coll :: "string \<Rightarrow> string \<Rightarrow> bool"
  av_verify_password :: "string \<Rightarrow> string \<Rightarrow> bool"
  av_hash_password :: "string \<Rightarrow> string"
  av_hash_token :: "string \<Rightarrow> string"
  av_access_token :: "user \<Rightarrow> string"
  av_token_ttl_hours :: int
  av_digest :: "ustring \<Rightarrow> string option"
  av_ctx :: req_ctx

datatype ssh_key_error =
    KeyNotSingleLine
  | KeyNeedsBlob
  | UnsupportedKeyType
  | BadKeyBlob
  | DuplicateKeyError string
  | KeyNotFoundError

datatype auth_error =
    InvalidCredentialsError
  | AccountDisabledError
  | AccountLockedError
  | InvalidActivationTokenError string
  | ActivationProfileConflictError string
  | ActivationSshKeyError ssh_key_error
  | RegistrationInviteNotFoundError
  | RegistrationInviteNotRevokableError
  | AuthUncaught

section \<open>Users\<close>

definition put_user :: "user \<Rightarrow> db \<Rightarrow> db" where
  "put_user u d = d\<lparr>d_users := (d_users d)(u_id u \<mapsto> u)\<rparr>"

text \<open>The unique keys \<open>uq_user_lab_username\<close> and \<open>uq_user_lab_email\<close>, under the collation.\<close>

definition user_clash :: "(string \<Rightarrow> string \<Rightarrow> bool) \<Rightarrow> user \<Rightarrow> user \<Rightarrow> bool" where
  "user_clash coll u v \<longleftrightarrow> u_lab_id u = u_lab_id v \<and> (coll (u_username u) (u_username v) \<or> coll (u_email u) (u_email v))"

definition flush_user :: "(string \<Rightarrow> string \<Rightarrow> bool) \<Rightarrow> user \<Rightarrow> session \<Rightarrow> unit + session" where
  "flush_user coll u s = (if list_ex (\<lambda>v. u_id v \<noteq> u_id u \<and> user_clash coll u v) (user_rows (s_db s)) then Inl ()
     else Inr (upd_db (put_user u) s))"

definition insert_user :: "(string \<Rightarrow> string \<Rightarrow> bool) \<Rightarrow> user \<Rightarrow> session \<Rightarrow> unit + (user \<times> session)" where
  "insert_user coll u s = (let row = u\<lparr>u_id := d_next_user (s_db s)\<rparr> in
     if list_ex (user_clash coll row) (user_rows (s_db s)) then Inl ()
     else Inr (row, upd_db (\<lambda>d. (put_user row d)\<lparr>d_user_ids := d_user_ids d @ [u_id row], d_next_user := u_id row + 1\<rparr>) s))"

section \<open>Keys\<close>

definition ALLOWED_KEY_TYPES :: "string list" where
  "ALLOWED_KEY_TYPES = [''ssh-ed25519'', ''ssh-rsa'', ''ecdsa-sha2-nistp256'', ''ecdsa-sha2-nistp384'',
     ''ecdsa-sha2-nistp521'', ''sk-ssh-ed25519@openssh.com'', ''sk-ecdsa-sha2-nistp256@openssh.com'']"

definition parse_public_key :: "(ustring \<Rightarrow> string option) \<Rightarrow> ustring \<Rightarrow>
    ssh_key_error + (string \<times> ustring \<times> ustring option)" where
  "parse_public_key digest raw = (let cleaned = ustrip raw in
     if list_ex (\<lambda>c. c = 10 \<or> c = 13) cleaned then Inl KeyNotSingleLine
     else (case usplit 2 cleaned of
       ty # blob # rest \<Rightarrow> (case find (\<lambda>t. u_of t = ty) ALLOWED_KEY_TYPES of
           None \<Rightarrow> Inl UnsupportedKeyType
         | Some t \<Rightarrow> (case digest blob of None \<Rightarrow> Inl BadKeyBlob
             | Some _ \<Rightarrow> Inr (t, blob, case rest of [] \<Rightarrow> None | c # _ \<Rightarrow> Some c)))
     | _ \<Rightarrow> Inl KeyNeedsBlob))"

text \<open>\<open>fingerprint_sha256\<close> is applied to a blob that decodes.\<close>

definition blob_fingerprint :: "(ustring \<Rightarrow> string option) \<Rightarrow> ustring \<Rightarrow> string" where
  "blob_fingerprint digest blob = (case digest blob of Some f \<Rightarrow> f | None \<Rightarrow> [])"

definition list_keys :: "session \<Rightarrow> int \<Rightarrow> bool \<Rightarrow> ssh_public_key list" where
  "list_keys s owner active_only =
    filter (\<lambda>k. sk_user_id k = owner \<and> (active_only \<longrightarrow> sk_is_active k)) (d_ssh_keys (s_db s))"

definition keys_with :: "session \<Rightarrow> int \<Rightarrow> string \<Rightarrow> ssh_public_key list" where
  "keys_with s owner fp = filter (\<lambda>k. sk_user_id k = owner \<and> sk_fingerprint_sha256 k = fp) (d_ssh_keys (s_db s))"

definition add_key :: "(ustring \<Rightarrow> string option) \<Rightarrow> ustring \<Rightarrow> ustring option \<Rightarrow> int \<Rightarrow> int \<Rightarrow> req_ctx \<Rightarrow> session \<Rightarrow>
    ssh_key_error + (ssh_public_key \<times> session)" where
  "add_key digest raw label owner lab ctx s =
    rbind (parse_public_key digest raw) (\<lambda>(ty, blob, comment).
      let fp = blob_fingerprint digest blob in
      if keys_with s owner fp \<noteq> [] then Inl (DuplicateKeyError fp)
      else let row = \<lparr>sk_id = d_next_ssh_key (s_db s), sk_user_id = owner, sk_public_key = ustrip raw,
               sk_fingerprint_sha256 = fp, sk_key_type = ty,
               sk_comment = (case label of None \<Rightarrow> comment | Some l \<Rightarrow> if l = [] then comment else Some l),
               sk_is_active = True, sk_disabled_at = None\<rparr>;
             s1 = upd_db (\<lambda>d. d\<lparr>d_ssh_keys := d_ssh_keys d @ [row], d_next_ssh_key := sk_id row + 1\<rparr>) s
           in Inr (row, audit_write (audit_of ''ssh_key.add'' (Some owner) (Some lab) (Some ''ssh_public_key'')
                (Some (sk_id row)) (Some lab) None
                (Some [(''fingerprint_sha256'', JStr fp), (''key_type'', JStr ty)]) ctx) s1))"

definition put_key :: "ssh_public_key \<Rightarrow> db \<Rightarrow> db" where
  "put_key k d = d\<lparr>d_ssh_keys := row_put sk_id k (d_ssh_keys d)\<rparr>"

text \<open>The result says whether the key was still active.\<close>

definition remove_key :: "int \<Rightarrow> int \<Rightarrow> int \<Rightarrow> req_ctx \<Rightarrow> session \<Rightarrow> ssh_key_error + ((ssh_public_key \<times> bool) \<times> session)" where
  "remove_key kid owner lab ctx s = (case get_key s kid of
      None \<Rightarrow> Inl KeyNotFoundError
    | Some k \<Rightarrow>
      if sk_user_id k \<noteq> owner then Inl KeyNotFoundError
      else if \<not> sk_is_active k then Inr ((k, False), s)
      else let row = k\<lparr>sk_is_active := False, sk_disabled_at := Some (s_clock s)\<rparr> in
        Inr ((row, True), audit_write (audit_of ''ssh_key.delete'' (Some owner) (Some lab) (Some ''ssh_public_key'')
          (Some (sk_id k)) (Some lab) None (Some [(''fingerprint_sha256'', JStr (sk_fingerprint_sha256 k))]) ctx)
          (upd_db (put_key row) s)))"

section \<open>Login\<close>

definition login_subject :: "string \<Rightarrow> req_ctx \<Rightarrow> string" where
  "login_subject name ctx = name @ '':'' @ (case rc_ip ctx of Some ip \<Rightarrow> ip | None \<Rightarrow> ''noip'')"

definition login_audit :: "'r auth_env \<Rightarrow> user option \<Rightarrow> payload option \<Rightarrow> string option \<Rightarrow> session \<Rightarrow> session" where
  "login_audit env u pl err = audit_write ((audit_of ''auth.login'' (map_option u_id u) (map_option u_lab_id u) (Some ''user'')
     (map_option u_id u) None None pl (av_ctx env))
       \<lparr>au_result := (if err = None then ''ok'' else ''denied''), au_error_message := err\<rparr>)"

definition login_rows :: "'r auth_env \<Rightarrow> string \<Rightarrow> session \<Rightarrow> user list" where
  "login_rows env name s = filter (\<lambda>u. av_coll env (u_username u) name \<or> av_coll env (u_email u) name) (user_rows (s_db s))"

definition login_failed :: "'r auth_env \<Rightarrow> string \<Rightarrow> 'r rate_store \<Rightarrow> 'r rate_store" where
  "login_failed env subject rs = snd (record_failure (av_redis env) (av_failure_reply env) login_lock_manager
     (av_now_ms env) (av_later_ms env) subject rs)"

definition authenticate :: "'r auth_env \<Rightarrow> string \<Rightarrow> string \<Rightarrow> session \<times> 'r rate_store \<Rightarrow>
    (auth_error + (string \<times> user)) \<times> session \<times> 'r rate_store" where
  "authenticate env name pw st = (case st of (s, rs) \<Rightarrow>
    (let subject = login_subject name (av_ctx env);
         (locked, rs1) = manager_is_locked (av_redis env) (av_lock_reply env) login_lock_manager (av_now_ms env) subject rs;
         unknown = (Inl InvalidCredentialsError,
           login_audit env None (Some [(''username_attempt'', JStr name)]) (Some ''invalid_credentials'') s,
           login_failed env subject rs1)
     in if locked then (Inl AccountLockedError, s, rs1)
     else (case login_rows env name s of
       [] \<Rightarrow> unknown
     | [u] \<Rightarrow> (case u_password_hash u of
         None \<Rightarrow> unknown
       | Some h \<Rightarrow>
         if \<not> av_verify_password env pw h
         then (Inl InvalidCredentialsError, login_audit env (Some u) None (Some ''invalid_credentials'') s,
               login_failed env subject rs1)
         else if \<not> u_is_active u
         then (Inl AccountDisabledError, login_audit env (Some u) None (Some ''account_disabled'') s, rs1)
         else let u' = u\<lparr>u_last_login_at := Some (s_clock s)\<rparr> in
           (Inr (av_access_token env u, u'), login_audit env (Some u) None None (upd_db (put_user u') s),
            record_success (av_redis env) (av_success_reply env) login_lock_manager (av_now_ms env) subject rs1))
     | _ \<Rightarrow> (Inl AuthUncaught, s, rs1))))"

definition record_logout :: "int \<Rightarrow> int \<Rightarrow> req_ctx \<Rightarrow> session \<Rightarrow> session" where
  "record_logout uid lab ctx = audit_write (audit_of ''auth.logout'' (Some uid) (Some lab) (Some ''user'') (Some uid) None None None ctx)"

section \<open>Setup tokens\<close>

definition purpose_str :: "token_purpose \<Rightarrow> string" where
  "purpose_str p = (case p of Activation \<Rightarrow> ''activation'' | PasswordReset \<Rightarrow> ''password_reset'')"

definition retire_tokens :: "int \<Rightarrow> int \<Rightarrow> setup_token list \<Rightarrow> setup_token list" where
  "retire_tokens uid now = map (\<lambda>t. if tk_user_id t = uid \<and> tk_used_at t = None then t\<lparr>tk_used_at := Some now\<rparr> else t)"

text \<open>The unique key \<open>uq_setup_token_hash\<close> makes the flush fail when the hash exists.\<close>

definition issue_setup_token :: "'r auth_env \<Rightarrow> string \<Rightarrow> int \<Rightarrow> token_purpose \<Rightarrow> int option \<Rightarrow> int option \<Rightarrow> session \<Rightarrow>
    auth_error + ((string \<times> int) \<times> session)" where
  "issue_setup_token env plaintext uid purpose actor lab s =
    (let now = s_clock s; expires_at = now + minutes (60 * av_token_ttl_hours env); hashed = av_hash_token env plaintext;
         old = retire_tokens uid now (d_setup_tokens (s_db s));
         row = \<lparr>tk_id = d_next_setup_token (s_db s), tk_user_id = uid, tk_token_hash = hashed, tk_purpose = purpose,
           tk_expires_at = expires_at, tk_used_at = None, tk_created_by_user_id = actor\<rparr>
     in if list_ex (\<lambda>t. tk_token_hash t = hashed) old then Inl AuthUncaught
        else Inr ((plaintext, expires_at),
          audit_write (audit_of (if purpose = Activation then ''setup_token.invite'' else ''setup_token.password_reset'')
             actor lab (Some ''user'') (Some uid) lab None
             (Some [(''purpose'', JStr (purpose_str purpose)), (''expires_at'', JTime (dt_utc expires_at))]) (av_ctx env))
           (upd_db (\<lambda>d. d\<lparr>d_setup_tokens := old @ [row], d_next_setup_token := tk_id row + 1\<rparr>) s)))"

section \<open>Registration invites\<close>

definition role_str :: "user_role \<Rightarrow> string" where
  "role_str r = (case r of RoleUser \<Rightarrow> ''user'' | RoleLabAdmin \<Rightarrow> ''lab_admin'')"

definition issue_registration_invite :: "'r auth_env \<Rightarrow> string \<Rightarrow> int \<Rightarrow> user_role \<Rightarrow> int \<Rightarrow> session \<Rightarrow>
    auth_error + ((registration_invite \<times> string \<times> int) \<times> session)" where
  "issue_registration_invite env plaintext lab role actor s =
    (let expires_at = s_clock s + minutes (60 * av_token_ttl_hours env); hashed = av_hash_token env plaintext;
         row = \<lparr>ri_id = d_next_invite (s_db s), ri_lab_id = lab, ri_token_hash = hashed, ri_role = role,
           ri_expires_at = expires_at, ri_used_at = None, ri_used_by_user_id = None, ri_created_at = s_clock s,
           ri_created_by_user_id = Some actor\<rparr>
     in if list_ex (\<lambda>i. ri_token_hash i = hashed) (d_invites (s_db s)) then Inl AuthUncaught
        else Inr ((row, plaintext, expires_at),
          audit_write (audit_of ''registration_invite.create'' (Some actor) (Some lab) (Some ''registration_invite'')
             (Some (ri_id row)) (Some lab) None
             (Some [(''role'', JStr (role_str role)), (''expires_at'', JTime (dt_utc expires_at))]) (av_ctx env))
           (upd_db (\<lambda>d. d\<lparr>d_invites := d_invites d @ [row], d_next_invite := ri_id row + 1\<rparr>) s)))"

datatype invite_state = InviteActive | InviteUsed | InviteExpired | InviteRevoked

definition invite_status :: "registration_invite \<Rightarrow> int \<Rightarrow> invite_state" where
  "invite_status i now = (case ri_used_at i of
      Some _ \<Rightarrow> (if ri_used_by_user_id i \<noteq> None then InviteUsed else InviteRevoked)
    | None \<Rightarrow> if ri_expires_at i \<le> now then InviteExpired else InviteActive)"

record invite_read =
  iv_invite :: registration_invite
  iv_status :: invite_state
  iv_created_by :: "user option"
  iv_used_by :: "user option"
  iv_can_revoke :: bool

definition invite_read_of :: "session \<Rightarrow> registration_invite \<Rightarrow> invite_read" where
  "invite_read_of s i = \<lparr>iv_invite = i, iv_status = invite_status i (s_clock s),
     iv_created_by = Option.bind (ri_created_by_user_id i) (d_users (s_db s)),
     iv_used_by = Option.bind (ri_used_by_user_id i) (d_users (s_db s)),
     iv_can_revoke = (invite_status i (s_clock s) = InviteActive)\<rparr>"

definition list_registration_invites :: "session \<Rightarrow> int \<Rightarrow> nat \<Rightarrow> invite_read list" where
  "list_registration_invites s lab limit =
    map (invite_read_of s) (take limit (rev (filter (\<lambda>i. ri_lab_id i = lab) (d_invites (s_db s)))))"

definition invite_in_lab :: "session \<Rightarrow> int \<Rightarrow> int \<Rightarrow> registration_invite option" where
  "invite_in_lab s iid lab = find (\<lambda>i. ri_id i = iid \<and> ri_lab_id i = lab) (d_invites (s_db s))"

definition get_registration_invite :: "session \<Rightarrow> int \<Rightarrow> int \<Rightarrow> auth_error + invite_read" where
  "get_registration_invite s iid lab = (case invite_in_lab s iid lab of
      None \<Rightarrow> Inl RegistrationInviteNotFoundError | Some i \<Rightarrow> Inr (invite_read_of s i))"

definition put_invite :: "registration_invite \<Rightarrow> db \<Rightarrow> db" where
  "put_invite i d = d\<lparr>d_invites := row_put ri_id i (d_invites d)\<rparr>"

definition revoke_registration_invite :: "int \<Rightarrow> int \<Rightarrow> int \<Rightarrow> req_ctx \<Rightarrow> session \<Rightarrow> auth_error + (invite_read \<times> session)" where
  "revoke_registration_invite iid lab actor ctx s = (case invite_in_lab s iid lab of
      None \<Rightarrow> Inl RegistrationInviteNotFoundError
    | Some i \<Rightarrow>
      if invite_status i (s_clock s) \<noteq> InviteActive then Inl RegistrationInviteNotRevokableError
      else let s1 = audit_write (audit_of ''registration_invite.revoke'' (Some actor) (Some lab) (Some ''registration_invite'')
               (Some (ri_id i)) (Some lab) None
               (Some [(''role'', JStr (role_str (ri_role i))), (''expires_at'', JTime (dt_utc (ri_expires_at i)))]) ctx)
             (upd_db (put_invite (i\<lparr>ri_used_at := Some (s_clock s), ri_used_by_user_id := None\<rparr>)) s)
        in rbind (get_registration_invite s1 iid lab) (\<lambda>r. Inr (r, s1)))"

section \<open>Activation\<close>

definition live_check :: "int option \<Rightarrow> int \<Rightarrow> int \<Rightarrow> auth_error + unit" where
  "live_check used_at expires_at now =
    (if used_at \<noteq> None then Inl (InvalidActivationTokenError ''token already used'')
     else if expires_at \<le> now then Inl (InvalidActivationTokenError ''token expired'')
     else Inr ())"

definition lookup_active_token :: "'r auth_env \<Rightarrow> string \<Rightarrow> session \<Rightarrow> auth_error + setup_token" where
  "lookup_active_token env plaintext s =
    rbind (one_or_none AuthUncaught (filter (\<lambda>t. tk_token_hash t = av_hash_token env plaintext) (d_setup_tokens (s_db s))))
      (\<lambda>x. case x of None \<Rightarrow> Inl (InvalidActivationTokenError ''token not found'')
         | Some t \<Rightarrow> rbind (live_check (tk_used_at t) (tk_expires_at t) (s_clock s)) (\<lambda>_. Inr t))"

definition lookup_active_registration_invite :: "'r auth_env \<Rightarrow> string \<Rightarrow> session \<Rightarrow> auth_error + registration_invite" where
  "lookup_active_registration_invite env plaintext s =
    rbind (one_or_none AuthUncaught (filter (\<lambda>i. ri_token_hash i = av_hash_token env plaintext) (d_invites (s_db s))))
      (\<lambda>x. case x of None \<Rightarrow> Inl (InvalidActivationTokenError ''token not found'')
         | Some i \<Rightarrow> rbind (live_check (ri_used_at i) (ri_expires_at i) (s_clock s)) (\<lambda>_. Inr i))"

text \<open>The preview of a token: the user row of a setup token, or the role of an invite.\<close>

datatype activate_preview = PreviewUser user token_purpose | PreviewRegistration user_role

definition token_not_found :: "auth_error \<Rightarrow> bool" where
  "token_not_found e \<longleftrightarrow> e = InvalidActivationTokenError ''token not found''"

definition validate_activation_token :: "'r auth_env \<Rightarrow> string \<Rightarrow> session \<Rightarrow> auth_error + activate_preview" where
  "validate_activation_token env token s = (case lookup_active_token env token s of
      Inl e \<Rightarrow> if token_not_found e
        then rbind (lookup_active_registration_invite env token s) (\<lambda>i. Inr (PreviewRegistration (ri_role i))) else Inl e
    | Inr t \<Rightarrow> (case d_users (s_db s) (tk_user_id t) of
        None \<Rightarrow> Inl (InvalidActivationTokenError ''user no longer exists'')
      | Some u \<Rightarrow> Inr (PreviewUser u (tk_purpose t))))"

text \<open>The look-up of a clashing user inside the lab; two clashing rows raise.\<close>

definition taken :: "(user \<Rightarrow> bool) \<Rightarrow> string \<Rightarrow> session \<Rightarrow> auth_error + unit" where
  "taken P msg s = rbind (one_or_none AuthUncaught (filter P (user_rows (s_db s))))
     (\<lambda>x. if x = None then Inr () else Inl (ActivationProfileConflictError msg))"

definition validate_registration_profile :: "'r auth_env \<Rightarrow> user \<Rightarrow> string option \<Rightarrow> string option \<Rightarrow> session \<Rightarrow> auth_error + unit" where
  "validate_registration_profile env u uname email s =
    rbind (case uname of Some n \<Rightarrow> if n \<noteq> u_username u
           then taken (\<lambda>v. u_lab_id v = u_lab_id u \<and> av_coll env (u_username v) n \<and> u_id v \<noteq> u_id u) ''username_taken'' s
           else Inr () | None \<Rightarrow> Inr ())
      (\<lambda>_. case email of Some m \<Rightarrow> if m \<noteq> u_email u
           then taken (\<lambda>v. u_lab_id v = u_lab_id u \<and> av_coll env (u_email v) m \<and> u_id v \<noteq> u_id u) ''email_taken'' s
           else Inr () | None \<Rightarrow> Inr ())"

definition validate_new_registration_profile :: "'r auth_env \<Rightarrow> int \<Rightarrow> string \<Rightarrow> string \<Rightarrow> session \<Rightarrow> auth_error + unit" where
  "validate_new_registration_profile env lab uname email s =
    rbind (taken (\<lambda>v. u_lab_id v = lab \<and> av_coll env (u_username v) uname) ''username_taken'' s)
      (\<lambda>_. taken (\<lambda>v. u_lab_id v = lab \<and> av_coll env (u_email v) email) ''email_taken'' s)"

definition validate_registration_ssh_key :: "'r auth_env \<Rightarrow> int option \<Rightarrow> ustring \<Rightarrow> session \<Rightarrow> auth_error + unit" where
  "validate_registration_ssh_key env owner key s = (case parse_public_key (av_digest env) key of
      Inl e \<Rightarrow> Inl (ActivationSshKeyError e)
    | Inr (_, blob, _) \<Rightarrow> (case owner of None \<Rightarrow> Inr ()
        | Some uid \<Rightarrow> let fp = blob_fingerprint (av_digest env) blob in
            if keys_with s uid fp \<noteq> [] then Inl (ActivationSshKeyError (DuplicateKeyError fp)) else Inr ()))"

record activation =
  ac_token :: string
  ac_password :: string
  ac_username :: "string option"
  ac_email :: "string option"
  ac_display_name :: "ustring option"
  ac_key_label :: "ustring option"
  ac_public_key :: "ustring option"

text \<open>A key error after the validation is not handled.\<close>

definition add_initial_key :: "'r auth_env \<Rightarrow> activation \<Rightarrow> user \<Rightarrow> session \<Rightarrow> auth_error + session" where
  "add_initial_key env a u s = (case ac_public_key a of None \<Rightarrow> Inr s
    | Some key \<Rightarrow> (case add_key (av_digest env) key (ac_key_label a) (u_id u) (u_lab_id u) (av_ctx env) s of
        Inl _ \<Rightarrow> Inl AuthUncaught | Inr (_, s') \<Rightarrow> Inr s'))"

definition complete_registration_invite :: "'r auth_env \<Rightarrow> registration_invite \<Rightarrow> activation \<Rightarrow> session \<Rightarrow>
    auth_error + (user \<times> session)" where
  "complete_registration_invite env i a s = (case (ac_username a, ac_email a, ac_display_name a) of
      (Some uname, Some email, Some display) \<Rightarrow>
        rbind (validate_new_registration_profile env (ri_lab_id i) uname email s) (\<lambda>_.
        rbind (case ac_public_key a of None \<Rightarrow> Inr () | Some k \<Rightarrow> validate_registration_ssh_key env None k s) (\<lambda>_.
        case insert_user (av_coll env) \<lparr>u_id = 0, u_lab_id = ri_lab_id i, u_username = uname, u_role = ri_role i, u_is_active = True,
            u_email = email, u_display_name = display, u_password_hash = Some (av_hash_password env (ac_password a)),
            u_last_login_at = None, u_created_by_user_id = ri_created_by_user_id i\<rparr> s of
          Inl _ \<Rightarrow> Inl (ActivationProfileConflictError ''username_or_email_taken'')
        | Inr (u, s1) \<Rightarrow>
            let s2 = upd_db (put_invite (i\<lparr>ri_used_at := Some (s_clock s), ri_used_by_user_id := Some (u_id u)\<rparr>)) s1 in
            rbind (add_initial_key env a u s2) (\<lambda>s3.
            let s4 = audit_write (audit_of ''user.register'' (Some (u_id u)) (Some (u_lab_id u)) (Some ''user'') (Some (u_id u))
                  (Some (u_lab_id u)) None (Some [(''registration_invite_id'', JInt (ri_id i)), (''role'', JStr (role_str (u_role u)))]) (av_ctx env)) s3;
                s5 = audit_write (audit_of ''registration_invite.consume'' (Some (u_id u)) (Some (u_lab_id u)) (Some ''registration_invite'')
                  (Some (ri_id i)) (Some (u_lab_id u)) None (Some [(''user_id'', JInt (u_id u))]) (av_ctx env)) s4
            in Inr (u, s5))))
    | _ \<Rightarrow> Inl (InvalidActivationTokenError ''registration requires username, email and display_name''))"

definition put_token :: "setup_token \<Rightarrow> db \<Rightarrow> db" where
  "put_token t d = d\<lparr>d_setup_tokens := row_put tk_id t (d_setup_tokens d)\<rparr>"

text \<open>The checks of the two purposes, and the row the activation leaves.\<close>

definition activation_check :: "'r auth_env \<Rightarrow> setup_token \<Rightarrow> user \<Rightarrow> activation \<Rightarrow> session \<Rightarrow> auth_error + unit" where
  "activation_check env t u a s = (case tk_purpose t of
      Activation \<Rightarrow>
        if u_password_hash u \<noteq> None then Inl (InvalidActivationTokenError ''user already activated'')
        else rbind (validate_registration_profile env u (ac_username a) (ac_email a) s) (\<lambda>_.
          case ac_public_key a of None \<Rightarrow> Inr () | Some k \<Rightarrow> validate_registration_ssh_key env (Some (u_id u)) k s)
    | PasswordReset \<Rightarrow>
        if ac_username a \<noteq> None \<or> ac_email a \<noteq> None \<or> ac_display_name a \<noteq> None
        then Inl (InvalidActivationTokenError ''password reset cannot update profile'')
        else if ac_public_key a \<noteq> None \<or> ac_key_label a \<noteq> None
        then Inl (InvalidActivationTokenError ''password reset cannot add ssh key'')
        else Inr ())"

definition or_keep :: "'a option \<Rightarrow> 'a \<Rightarrow> 'a" where
  "or_keep x y = (case x of Some v \<Rightarrow> v | None \<Rightarrow> y)"

definition activated_user :: "'r auth_env \<Rightarrow> setup_token \<Rightarrow> user \<Rightarrow> activation \<Rightarrow> user" where
  "activated_user env t u a =
    (let u1 = (if tk_purpose t = Activation then u\<lparr>u_username := or_keep (ac_username a) (u_username u),
                 u_email := or_keep (ac_email a) (u_email u), u_display_name := or_keep (ac_display_name a) (u_display_name u)\<rparr> else u)
     in u1\<lparr>u_password_hash := Some (av_hash_password env (ac_password a))\<rparr>)"

definition activate :: "'r auth_env \<Rightarrow> activation \<Rightarrow> session \<Rightarrow> auth_error + (user \<times> session)" where
  "activate env a s = (case lookup_active_token env (ac_token a) s of
      Inl e \<Rightarrow> if token_not_found e
        then rbind (lookup_active_registration_invite env (ac_token a) s) (\<lambda>i. complete_registration_invite env i a s) else Inl e
    | Inr t \<Rightarrow> (case d_users (s_db s) (tk_user_id t) of
        None \<Rightarrow> Inl (InvalidActivationTokenError ''user no longer exists'')
      | Some u \<Rightarrow> rbind (activation_check env t u a s) (\<lambda>_.
          let u' = activated_user env t u a in
          case flush_user (av_coll env) u' s of
            Inl _ \<Rightarrow> Inl AuthUncaught
          | Inr s1 \<Rightarrow>
            let s2 = upd_db (put_token (t\<lparr>tk_used_at := Some (s_clock s)\<rparr>)) s1 in
            rbind (if tk_purpose t = Activation then add_initial_key env a u' s2 else Inr s2) (\<lambda>s3.
              Inr (u', audit_write (audit_of ''setup_token.activate'' (Some (u_id u')) (Some (u_lab_id u')) (Some ''user'')
                (Some (u_id u')) None None None (av_ctx env)) s3)))))"

section \<open>The endpoints\<close>

text \<open>
  A failed flush rolls the transaction back and leaves the session unusable until \<open>rollback\<close> is called.
  A handler that turns it into an \<open>HTTPException\<close> makes \<open>get_session\<close> call \<open>commit\<close>, which raises
  \<open>PendingRollbackError\<close> instead: the caller sees an internal error, and nothing is stored.
\<close>

definition after_failed_flush :: "nat \<Rightarrow> string \<Rightarrow> api_error" where
  "after_failed_flush code detail = Uncaught"

fun auth_http :: "auth_error \<Rightarrow> api_error" where
  "auth_http AccountLockedError = HttpException 429 [(''code'', JStr ''ACCOUNT_LOCKED''), (''reason'', JStr ''too_many_failed_attempts'')]"
| "auth_http AccountDisabledError = http 403 ''account_disabled''"
| "auth_http InvalidCredentialsError = http 401 ''invalid_credentials''"
| "auth_http (InvalidActivationTokenError m) = http 400 m"
| "auth_http (ActivationProfileConflictError m) = (if m = ''username_or_email_taken'' then after_failed_flush else http) 409 m"
| "auth_http (ActivationSshKeyError _) = http 400 ''ssh_key''"
| "auth_http RegistrationInviteNotFoundError = http 404 ''registration_invite_not_found''"
| "auth_http RegistrationInviteNotRevokableError = http 409 ''registration_invite_not_revokable''"
| "auth_http AuthUncaught = Uncaught"

definition auth_outcome :: "auth_error + ('a \<times> session) \<Rightarrow> session \<Rightarrow> 'a outcome \<times> session" where
  "auth_outcome r s = (case r of Inl e \<Rightarrow> (Inl (auth_http e), s) | Inr (x, s') \<Rightarrow> (Inr x, s'))"

definition login_ep :: "'r auth_env \<Rightarrow> string \<Rightarrow> string \<Rightarrow> session \<times> 'r rate_store \<Rightarrow>
    (string \<times> user) outcome \<times> session \<times> 'r rate_store" where
  "login_ep env name pw st = (case authenticate env name pw st of
      (Inl e, st') \<Rightarrow> (Inl (auth_http e), st') | (Inr r, st') \<Rightarrow> (Inr r, st'))"

definition logout_ep :: "'r auth_env \<Rightarrow> user \<Rightarrow> session \<Rightarrow> unit outcome \<times> session" where
  "logout_ep env u s = (Inr (), record_logout (u_id u) (u_lab_id u) (av_ctx env) s)"

definition activate_ep :: "'r auth_env \<Rightarrow> activation \<Rightarrow> session \<Rightarrow> user outcome \<times> session" where
  "activate_ep env a s = auth_outcome (activate env a s) s"

definition activate_validate_ep :: "'r auth_env \<Rightarrow> string \<Rightarrow> session \<Rightarrow> activate_preview outcome" where
  "activate_validate_ep env token s = (case validate_activation_token env token s of Inl e \<Rightarrow> Inl (auth_http e) | Inr p \<Rightarrow> Inr p)"

fun key_http :: "ssh_key_error \<Rightarrow> api_error" where
  "key_http (DuplicateKeyError _) = http 409 ''key already exists''"
| "key_http KeyNotFoundError = http 404 ''ssh_key_not_found''"
| "key_http _ = http 400 ''ssh_key''"

definition add_my_key_ep :: "'r auth_env \<Rightarrow> user \<Rightarrow> ustring \<Rightarrow> ustring option \<Rightarrow> session \<Rightarrow> ssh_public_key outcome \<times> session" where
  "add_my_key_ep env u raw label s = (case add_key (av_digest env) raw label (u_id u) (u_lab_id u) (av_ctx env) s of
      Inl e \<Rightarrow> (Inl (key_http e), s) | Inr (k, s') \<Rightarrow> (Inr k, s'))"

definition delete_my_key_ep :: "'r auth_env \<Rightarrow> user \<Rightarrow> int \<Rightarrow> session \<Rightarrow> (ssh_public_key \<times> bool) outcome \<times> session" where
  "delete_my_key_ep env u kid s = (case remove_key kid (u_id u) (u_lab_id u) (av_ctx env) s of
      Inl e \<Rightarrow> (Inl (key_http e), s) | Inr (r, s') \<Rightarrow> (Inr r, s'))"

definition list_my_keys_ep :: "user \<Rightarrow> session \<Rightarrow> ssh_public_key list" where
  "list_my_keys_ep u s = list_keys s (u_id u) True"

definition list_user_keys_ep :: "user \<Rightarrow> int \<Rightarrow> session \<Rightarrow> ssh_public_key list outcome" where
  "list_user_keys_ep u uid s =
    (if u_role u \<noteq> RoleLabAdmin \<and> uid \<noteq> u_id u then Inl (http 403 ''forbidden'')
     else (case d_users (s_db s) uid of
        None \<Rightarrow> Inl (http 404 ''user_not_found'')
      | Some v \<Rightarrow> if u_lab_id v \<noteq> u_lab_id u then Inl (http 404 ''user_not_found'') else Inr (list_keys s uid True)))"

end
