(* ===== verification/Server_Service.thy ===== *)
theory Server_Service
  imports Auth_Service
begin

text \<open>
  \<open>services/server_service.py\<close> with \<open>services/telemetry_service.py\<close> and
  \<open>services/capability_sync_service.py\<close>: the servers of a lab, the one-time tokens that enrol their agents,
  the administrators and the capabilities of a server, and what an agent may write. Token hashing and
  bcrypt are parameters; a fresh random token is an argument. The install snippet, a text
  around the token, is left out.
\<close>

section \<open>Parameters, errors, tables\<close>

record server_env =
  se_coll :: "string \<Rightarrow> string \<Rightarrow> bool"
  se_hash_token :: "string \<Rightarrow> string"
  se_checkpw :: "string \<Rightarrow> string \<Rightarrow> bool"
  se_hashpw :: "string \<Rightarrow> string"
  se_ctx :: req_ctx

datatype server_error =
    ServerNotFoundError
  | DuplicateHostnameError
  | DangerousCapabilityWithoutNotesError
  | ServerError string
  | ServerUncaught

definition put_server :: "server \<Rightarrow> db \<Rightarrow> db" where
  "put_server v d = d\<lparr>d_servers := (d_servers d)(srv_id v \<mapsto> v)\<rparr>"

definition put_enrollment :: "enrollment_token \<Rightarrow> db \<Rightarrow> db" where
  "put_enrollment t d = d\<lparr>d_enrollments := row_put en_id t (d_enrollments d)\<rparr>"

definition put_capability :: "agent_capability \<Rightarrow> db \<Rightarrow> db" where
  "put_capability c d = d\<lparr>d_capabilities := row_put cp_id c (d_capabilities d)\<rparr>"

definition put_grant :: "server_admin_grant \<Rightarrow> db \<Rightarrow> db" where
  "put_grant g d = d\<lparr>d_grants := row_put gr_id g (d_grants d)\<rparr>"

definition server_audit :: "string \<Rightarrow> int option \<Rightarrow> int \<Rightarrow> string \<Rightarrow> int \<Rightarrow> int \<Rightarrow> payload option \<Rightarrow> req_ctx \<Rightarrow> session \<Rightarrow> session" where
  "server_audit action actor lab ttype tid sid pl ctx =
    audit_write (audit_of action actor (Some lab) (Some ttype) (Some tid) (Some lab) (Some sid) pl ctx)"

definition jstring :: "string option \<Rightarrow> json" where
  "jstring x = jopt JStr x"

section \<open>Reading\<close>

definition list_servers :: "session \<Rightarrow> int \<Rightarrow> server list" where
  "list_servers s lab = filter (\<lambda>v. srv_lab_id v = lab \<and> srv_is_active v) (server_rows (s_db s))"

definition get_server :: "session \<Rightarrow> int \<Rightarrow> int \<Rightarrow> server_error + server" where
  "get_server s sid lab = (case d_servers (s_db s) sid of
      None \<Rightarrow> Inl ServerNotFoundError
    | Some v \<Rightarrow> if srv_lab_id v = lab then Inr v else Inl ServerNotFoundError)"

definition list_gpus :: "session \<Rightarrow> int \<Rightarrow> gpu list" where
  "list_gpus s sid = sort_key gpu_index (filter (\<lambda>g. gpu_server_id g = sid) (gpu_rows (s_db s)))"

definition list_admins :: "session \<Rightarrow> int \<Rightarrow> server_admin_grant list" where
  "list_admins s sid = filter (\<lambda>g. gr_server_id g = sid \<and> gr_is_active g) (d_grants (s_db s))"

text \<open>The join of the active grants of a user with the servers of the lab, without its ordering by host name.\<close>

definition list_grants_for_user :: "session \<Rightarrow> int \<Rightarrow> int \<Rightarrow> (server_admin_grant \<times> server) list" where
  "list_grants_for_user s uid lab = List.map_filter (\<lambda>g. case d_servers (s_db s) (gr_server_id g) of
      Some v \<Rightarrow> if srv_lab_id v = lab then Some (g, v) else None | None \<Rightarrow> None) (active_grants (s_db s) uid)"

section \<open>Creating and deleting\<close>

text \<open>The seeded keys, with their default and whether they are dangerous.\<close>

definition CAPABILITY_SEED :: "(string \<times> bool \<times> bool) list" where
  "CAPABILITY_SEED = [(''gpu.read_telemetry'', True, False), (''gpu.kill_process'', False, True),
     (''linux.useradd'', False, True), (''linux.userdel'', False, True), (''linux.usermod_lock'', True, False),
     (''ssh.push_authorized_key'', True, False), (''ssh.remove_authorized_key'', True, False),
     (''ssh.verify_signature'', True, False), (''pam.authenticate'', True, False),
     (''script.execute_as_user'', True, False), (''linux.scan_users'', True, False)]"

definition seed_capability :: "int \<Rightarrow> int \<Rightarrow> int \<Rightarrow> string \<times> bool \<times> bool \<Rightarrow> agent_capability" where
  "seed_capability i sid actor seed = (case seed of (key, on, dangerous) \<Rightarrow>
     \<lparr>cp_id = i, cp_server_id = sid, cp_capability_key = key, cp_is_enabled = on, cp_is_dangerous = dangerous,
      cp_notes = None, cp_updated_by_user_id = actor\<rparr>)"

definition seed_capabilities :: "int \<Rightarrow> int \<Rightarrow> db \<Rightarrow> db" where
  "seed_capabilities sid actor d = d\<lparr>
     d_capabilities := d_capabilities d @
       map (\<lambda>(i, seed). seed_capability (d_next_capability d + int i) sid actor seed) (enumerate 0 CAPABILITY_SEED),
     d_next_capability := d_next_capability d + int (length CAPABILITY_SEED)\<rparr>"

definition or_else :: "string option \<Rightarrow> string \<Rightarrow> string" where
  "or_else x y = (case x of Some v \<Rightarrow> if v = [] then y else v | None \<Rightarrow> y)"

definition insert_enrollment :: "server_env \<Rightarrow> string \<Rightarrow> int \<Rightarrow> string \<Rightarrow> int \<Rightarrow> int \<Rightarrow> session \<Rightarrow> server_error + (enrollment_token \<times> session)" where
  "insert_enrollment env plaintext lab hint expires_at actor s =
    (let row = \<lparr>en_id = d_next_enrollment (s_db s), en_lab_id = lab, en_token_hash = se_hash_token env plaintext,
         en_expected_hostname_pattern = Some hint, en_expires_at = expires_at, en_used_at = None,
         en_used_by_server_id = None, en_created_at = s_clock s, en_created_by_user_id = actor\<rparr>
     in if list_ex (\<lambda>t. en_token_hash t = en_token_hash row) (d_enrollments (s_db s)) then Inl ServerUncaught
        else Inr (row, upd_db (\<lambda>d. d\<lparr>d_enrollments := d_enrollments d @ [row], d_next_enrollment := en_id row + 1\<rparr>) s))"

record new_server =
  ns_hostname :: string
  ns_display_name :: "string option"
  ns_max_reservation_hours :: "int option"
  ns_expected_hostname_pattern :: "string option"

definition create_server :: "server_env \<Rightarrow> string \<Rightarrow> new_server \<Rightarrow> int \<Rightarrow> int \<Rightarrow> session \<Rightarrow> server_error + ((server \<times> string \<times> int) \<times> session)" where
  "create_server env plaintext n lab actor s =
    rbind (one_or_none ServerUncaught
        (filter (\<lambda>v. srv_lab_id v = lab \<and> se_coll env (srv_hostname v) (ns_hostname n)) (server_rows (s_db s))))
      (\<lambda>existing. if existing \<noteq> None then Inl DuplicateHostnameError
       else let row = \<lparr>srv_id = d_next_server (s_db s), srv_lab_id = lab, srv_hostname = ns_hostname n,
                  srv_status = Pending, srv_last_heartbeat_at = None, srv_max_reservation_hours = ns_max_reservation_hours n,
                  srv_is_active = True, srv_approved_at = None, srv_approved_by_user_id = None,
                  srv_display_name = ns_display_name n, srv_agent_token_hash = None, srv_agent_version = None,
                  srv_created_by_user_id = Some actor\<rparr>;
                s1 = upd_db (\<lambda>d. (put_server row d)\<lparr>d_server_ids := d_server_ids d @ [srv_id row],
                  d_next_server := srv_id row + 1\<rparr>) s;
                s2 = upd_db (seed_capabilities (srv_id row) actor) s1;
                expires_at = s_clock s + days 7
            in rbind (insert_enrollment env plaintext lab (or_else (ns_expected_hostname_pattern n) (ns_hostname n)) expires_at actor s2)
              (\<lambda>(_, s3). Inr ((row, plaintext, expires_at),
                 server_audit ''server.enrollment_token.generate'' (Some actor) lab ''server'' (srv_id row) (srv_id row)
                   (Some [(''expires_at'', JTime (dt_utc expires_at))]) (se_ctx env)
                 (server_audit ''server.create'' (Some actor) lab ''server'' (srv_id row) (srv_id row)
                   (Some [(''hostname'', JStr (srv_hostname row)), (''display_name'', jstring (srv_display_name row))]) (se_ctx env) s3))))"

definition delete_server :: "int \<Rightarrow> int \<Rightarrow> int \<Rightarrow> req_ctx \<Rightarrow> session \<Rightarrow> server_error + (server \<times> session)" where
  "delete_server sid lab actor ctx s = rbind (get_server s sid lab) (\<lambda>v.
     let row = v\<lparr>srv_is_active := False, srv_status := Maintenance\<rparr> in
     Inr (row, server_audit ''server.delete'' (Some actor) lab ''server'' (srv_id row) (srv_id row) None ctx (upd_db (put_server row) s)))"

section \<open>Approval\<close>

definition approve_server :: "int \<Rightarrow> int \<Rightarrow> int \<Rightarrow> bool \<Rightarrow> req_ctx \<Rightarrow> session \<Rightarrow> server_error + (server \<times> session)" where
  "approve_server sid lab actor is_connected ctx s = rbind (get_server s sid lab) (\<lambda>v.
     if \<not> srv_is_active v then Inl (ServerError ''server is soft-deleted'')
     else if srv_agent_token_hash v = None then Inl (ServerError ''server_has_not_phoned_home'')
     else let newly = (srv_approved_at v = None);
              v1 = (if newly then v\<lparr>srv_approved_at := Some (s_clock s), srv_approved_by_user_id := Some actor\<rparr> else v);
              s1 = (if newly then server_audit ''server.approve'' (Some actor) lab ''server'' (srv_id v) (srv_id v)
                 (Some [(''hostname'', JStr (srv_hostname v)), (''agent_version'', jstring (srv_agent_version v)),
                        (''last_heartbeat_at'', jopt (\<lambda>t. JTime (dt_naive t)) (srv_last_heartbeat_at v)),
                        (''connected_at_approval'', JBool is_connected)]) ctx s else s);
              v2 = (if newly \<or> srv_status v1 \<noteq> Maintenance
                    then v1\<lparr>srv_status := (if is_connected then Online else Offline)\<rparr> else v1)
          in Inr (v2, upd_db (put_server v2) s1))"

section \<open>Administrators\<close>

text \<open>The unique key \<open>uq_grant_user_server_active\<close> refuses a second active grant.\<close>

definition grant_admin :: "int \<Rightarrow> int \<Rightarrow> ustring option \<Rightarrow> int \<Rightarrow> int \<Rightarrow> req_ctx \<Rightarrow> session \<Rightarrow> server_error + (server_admin_grant \<times> session)" where
  "grant_admin sid uid notes actor lab ctx s =
    (let row = \<lparr>gr_id = d_next_grant (s_db s), gr_user_id = uid, gr_server_id = sid, gr_is_active = True,
         gr_granted_by_user_id = actor, gr_notes = notes, gr_revoked_by_user_id = None, gr_revoked_at = None\<rparr>
     in if list_ex (\<lambda>g. gr_server_id g = sid) (active_grants (s_db s) uid) then Inl ServerUncaught
        else Inr (row, server_audit ''server.admin_grant.create'' (Some actor) lab ''server_admin_grant'' (gr_id row) sid
          (Some [(''user_id'', JInt uid), (''notes'', jopt JText notes)]) ctx
          (upd_db (\<lambda>d. d\<lparr>d_grants := d_grants d @ [row], d_next_grant := gr_id row + 1\<rparr>) s)))"

definition revoke_admin :: "int \<Rightarrow> int \<Rightarrow> int \<Rightarrow> int \<Rightarrow> req_ctx \<Rightarrow> session \<Rightarrow> server_error + (server_admin_grant option \<times> session)" where
  "revoke_admin sid uid actor lab ctx s =
    rbind (one_or_none ServerUncaught (filter (\<lambda>g. gr_server_id g = sid) (active_grants (s_db s) uid)))
      (\<lambda>x. case x of None \<Rightarrow> Inr (None, s)
         | Some g \<Rightarrow> let row = g\<lparr>gr_is_active := False, gr_revoked_by_user_id := Some actor, gr_revoked_at := Some (s_clock s)\<rparr> in
             Inr (Some row, server_audit ''server.admin_grant.delete'' (Some actor) lab ''server_admin_grant'' (gr_id row) sid
               (Some [(''user_id'', JInt uid)]) ctx (upd_db (put_grant row) s)))"

section \<open>Capabilities\<close>

definition capability_rows :: "session \<Rightarrow> int \<Rightarrow> agent_capability list" where
  "capability_rows s sid = filter (\<lambda>c. cp_server_id c = sid) (d_capabilities (s_db s))"

definition update_capability :: "(string \<Rightarrow> string \<Rightarrow> bool) \<Rightarrow> int \<Rightarrow> string \<Rightarrow> bool \<Rightarrow> ustring option \<Rightarrow> int \<Rightarrow> int \<Rightarrow> req_ctx \<Rightarrow> session \<Rightarrow>
    server_error + (agent_capability \<times> session)" where
  "update_capability coll sid key enabled notes actor lab ctx s =
    rbind (one_or_none ServerUncaught (filter (\<lambda>c. coll (cp_capability_key c) key) (capability_rows s sid))) (\<lambda>x. case x of
      None \<Rightarrow> Inl (ServerError ''capability not found'')
    | Some c \<Rightarrow>
      if enabled \<and> cp_is_dangerous c \<and> (case notes of None \<Rightarrow> True | Some n \<Rightarrow> length (ustrip n) < 10)
      then Inl DangerousCapabilityWithoutNotesError
      else let row = c\<lparr>cp_is_enabled := enabled, cp_notes := notes, cp_updated_by_user_id := actor\<rparr> in
        Inr (row, server_audit ''capability.toggle'' (Some actor) lab ''agent_capability'' (cp_id row) sid
          (Some [(''capability_key'', JStr key), (''enabled'', JBool enabled), (''notes'', jopt JText notes)]) ctx
          (upd_db (put_capability row) s)))"

text \<open>What the agent's gate is sent, and whether the agent took it.\<close>

definition compose_capabilities :: "session \<Rightarrow> int \<Rightarrow> payload" where
  "compose_capabilities s sid = [(''capabilities'', JList (map (\<lambda>c. JObj [(''key'', JStr (cp_capability_key c)),
     (''enabled'', JBool (cp_is_enabled c))]) (capability_rows s sid)))]"

definition push_capabilities :: "rpc \<Rightarrow> session \<Rightarrow> int \<Rightarrow> bool outcome" where
  "push_capabilities rpc s sid =
    (if capability_rows s sid = [] then Inr False
     else (case rpc sid ''backend.capability.sync'' (compose_capabilities s sid) of
       RpcReturned r \<Rightarrow> Inr (truthy_field r ''ok'')
     | AgentOffline _ \<Rightarrow> Inr False
     | AgentRpcTimeout _ \<Rightarrow> Inr False
     | _ \<Rightarrow> Inl Uncaught))"

section \<open>Enrollment tokens\<close>

definition regenerate_enrollment_token :: "server_env \<Rightarrow> string \<Rightarrow> int \<Rightarrow> int \<Rightarrow> int \<Rightarrow> session \<Rightarrow>
    server_error + ((string \<times> int \<times> int list) \<times> session)" where
  "regenerate_enrollment_token env plaintext sid lab actor s = rbind (get_server s sid lab) (\<lambda>v.
     if \<not> srv_is_active v then Inl (ServerError ''server is soft-deleted'')
     else let now = s_clock s;
              live = (\<lambda>t. en_lab_id t = lab
                 \<and> (case en_expected_hostname_pattern t of None \<Rightarrow> False | Some h \<Rightarrow> se_coll env h (srv_hostname v))
                 \<and> en_used_at t = None \<and> en_expires_at t > now);
              revoked = map en_id (filter live (d_enrollments (s_db s)));
              s1 = upd_db (\<lambda>d. d\<lparr>d_enrollments := map (\<lambda>t. if live t then t\<lparr>en_expires_at := now\<rparr> else t) (d_enrollments d)\<rparr>) s;
              expires_at = now + days 7
          in rbind (insert_enrollment env plaintext lab (srv_hostname v) expires_at actor s1) (\<lambda>(row, s2).
            Inr ((plaintext, expires_at, revoked),
              server_audit ''server.enrollment_token.regenerate'' (Some actor) lab ''server'' sid sid
                (Some [(''new_token_id'', JInt (en_id row)), (''revoked_token_ids'', JList (map JInt revoked)),
                       (''expires_at'', JTime (dt_utc expires_at))]) (se_ctx env) s2)))"

definition list_enrollment_tokens :: "session \<Rightarrow> int \<Rightarrow> enrollment_token list" where
  "list_enrollment_tokens s lab = rev (sort_key en_created_at (filter (\<lambda>t. en_lab_id t = lab) (d_enrollments (s_db s))))"

section \<open>What an agent may write\<close>

datatype agent_auth_error =
    AgentServerGone
  | AgentTokenMismatch
  | EnrollmentNotFound
  | EnrollmentUsed
  | EnrollmentExpired
  | AgentAuthUncaught

definition authenticate_agent :: "server_env \<Rightarrow> int \<Rightarrow> string \<Rightarrow> session \<Rightarrow> agent_auth_error + (server \<times> session)" where
  "authenticate_agent env sid token s = (case d_servers (s_db s) sid of
      None \<Rightarrow> Inl AgentServerGone
    | Some v \<Rightarrow>
      if \<not> srv_is_active v then Inl AgentServerGone
      else (case srv_agent_token_hash v of
        Some h \<Rightarrow> if se_checkpw env token h then Inr (v, s) else Inl AgentTokenMismatch
      | None \<Rightarrow> rbind (one_or_none AgentAuthUncaught
            (filter (\<lambda>t. en_token_hash t = se_hash_token env token \<and> en_lab_id t = srv_lab_id v) (d_enrollments (s_db s))))
          (\<lambda>x. case x of
             None \<Rightarrow> Inl EnrollmentNotFound
           | Some t \<Rightarrow>
             if en_used_at t \<noteq> None \<and> en_used_by_server_id t \<noteq> Some sid then Inl EnrollmentUsed
             else if en_expires_at t \<le> s_clock s then Inl EnrollmentExpired
             else let row = v\<lparr>srv_agent_token_hash := Some (se_hashpw env token)\<rparr> in
               Inr (row, upd_db (put_enrollment (t\<lparr>en_used_at := Some (s_clock s), en_used_by_server_id := Some sid\<rparr>) \<circ> put_server row) s))))"

definition mark_heartbeat :: "int \<Rightarrow> string option \<Rightarrow> session \<Rightarrow> bool \<times> session" where
  "mark_heartbeat sid version s = (case d_servers (s_db s) sid of
      None \<Rightarrow> (False, s)
    | Some v \<Rightarrow>
      let v1 = v\<lparr>srv_last_heartbeat_at := Some (s_clock s)\<rparr>;
          v2 = (case version of None \<Rightarrow> v1 | Some x \<Rightarrow> v1\<lparr>srv_agent_version := Some x\<rparr>);
          approved = (srv_approved_at v2 \<noteq> None \<and> srv_is_active v2);
          v3 = (if approved then v2\<lparr>srv_status := Online\<rparr> else v2)
      in (approved, upd_db (put_server v3) s))"

definition is_server_approved :: "session \<Rightarrow> int \<Rightarrow> bool" where
  "is_server_approved s sid = (case d_servers (s_db s) sid of None \<Rightarrow> False
     | Some v \<Rightarrow> srv_is_active v \<and> srv_approved_at v \<noteq> None)"

text \<open>One entry of a telemetry frame, with the columns of the model, is an upsert on (server, index).\<close>

definition gpu_at :: "db \<Rightarrow> int \<Rightarrow> int \<Rightarrow> gpu option" where
  "gpu_at d sid i = find (\<lambda>g. gpu_server_id g = sid \<and> gpu_index g = i) (gpu_rows d)"

definition upsert_gpu :: "int \<Rightarrow> int \<times> int option \<Rightarrow> db \<Rightarrow> db" where
  "upsert_gpu sid e d = (case e of (i, memory) \<Rightarrow> (case gpu_at d sid i of
      Some g \<Rightarrow> d\<lparr>d_gpus := (d_gpus d)(gpu_id g \<mapsto> g\<lparr>gpu_memory_total_mb := memory, gpu_is_active := True\<rparr>)\<rparr>
    | None \<Rightarrow> let k = d_next_gpu d in
        d\<lparr>d_gpus := (d_gpus d)(k \<mapsto> \<lparr>gpu_id = k, gpu_server_id = sid, gpu_index = i, gpu_memory_total_mb = memory, gpu_is_active = True\<rparr>),
          d_gpu_ids := d_gpu_ids d @ [k], d_next_gpu := k + 1\<rparr>))"

definition upsert_telemetry :: "int \<Rightarrow> (int \<times> int option) list \<Rightarrow> session \<Rightarrow> bool \<times> session" where
  "upsert_telemetry sid entries s = (if is_server_approved s sid then (True, upd_db (fold (upsert_gpu sid) entries) s) else (False, s))"

section \<open>The endpoints\<close>

fun server_http :: "server_error \<Rightarrow> api_error" where
  "server_http ServerNotFoundError = http 404 ''server_not_found''"
| "server_http ServerUncaught = Uncaught"
| "server_http DuplicateHostnameError = http 409 ''hostname already taken''"
| "server_http DangerousCapabilityWithoutNotesError = http 422 ''dangerous capabilities require notes >= 10 chars''"
| "server_http (ServerError m) = http 409 m"

definition server_outcome :: "server_error + ('a \<times> session) \<Rightarrow> session \<Rightarrow> 'a outcome \<times> session" where
  "server_outcome r s = (case r of Inl e \<Rightarrow> (Inl (server_http e), s) | Inr (x, s') \<Rightarrow> (Inr x, s'))"

text \<open>An endpoint of \<open>api/v1/servers.py\<close> for lab administrators.\<close>

definition by_lab_admin :: "user \<Rightarrow> (session \<Rightarrow> 'a outcome \<times> session) \<Rightarrow> session \<Rightarrow> 'a outcome \<times> session" where
  "by_lab_admin u f s = (case require_lab_admin u of Inl e \<Rightarrow> (Inl e, s) | Inr _ \<Rightarrow> f s)"

definition list_servers_ep :: "user \<Rightarrow> session \<Rightarrow> server list" where
  "list_servers_ep u s = list_servers s (u_lab_id u)"

definition get_server_ep :: "user \<Rightarrow> int \<Rightarrow> session \<Rightarrow> server outcome" where
  "get_server_ep u sid s = (case get_server s sid (u_lab_id u) of Inl e \<Rightarrow> Inl (server_http e) | Inr v \<Rightarrow> Inr v)"

definition list_gpus_ep :: "user \<Rightarrow> int \<Rightarrow> session \<Rightarrow> gpu list outcome" where
  "list_gpus_ep u sid s = rbind (get_server_ep u sid s) (\<lambda>_. Inr (list_gpus s sid))"

definition list_admins_ep :: "user \<Rightarrow> int \<Rightarrow> session \<Rightarrow> server_admin_grant list outcome" where
  "list_admins_ep u sid s = rbind (get_server_ep u sid s) (\<lambda>_. Inr (list_admins s sid))"

definition create_server_ep :: "server_env \<Rightarrow> string \<Rightarrow> user \<Rightarrow> new_server \<Rightarrow> session \<Rightarrow> (server \<times> string \<times> int) outcome \<times> session" where
  "create_server_ep env plaintext u n = by_lab_admin u (\<lambda>s. server_outcome (create_server env plaintext n (u_lab_id u) (u_id u) s) s)"

definition delete_server_ep :: "server_env \<Rightarrow> user \<Rightarrow> int \<Rightarrow> session \<Rightarrow> server outcome \<times> session" where
  "delete_server_ep env u sid = by_lab_admin u (\<lambda>s. server_outcome (delete_server sid (u_lab_id u) (u_id u) (se_ctx env) s) s)"

definition regenerate_ep :: "server_env \<Rightarrow> string \<Rightarrow> user \<Rightarrow> int \<Rightarrow> session \<Rightarrow> (string \<times> int \<times> int list) outcome \<times> session" where
  "regenerate_ep env plaintext u sid = by_lab_admin u (\<lambda>s. server_outcome (regenerate_enrollment_token env plaintext sid (u_lab_id u) (u_id u) s) s)"

text \<open>The context pushed to a connected agent after the commit changes no row.\<close>

definition approve_server_ep :: "server_env \<Rightarrow> (int \<Rightarrow> bool) \<Rightarrow> user \<Rightarrow> int \<Rightarrow> session \<Rightarrow> server outcome \<times> session" where
  "approve_server_ep env online u sid = by_lab_admin u (\<lambda>s. server_outcome (approve_server sid (u_lab_id u) (u_id u) (online sid) (se_ctx env) s) s)"

definition grant_admin_ep :: "server_env \<Rightarrow> user \<Rightarrow> int \<Rightarrow> int \<Rightarrow> ustring option \<Rightarrow> session \<Rightarrow> server_admin_grant outcome \<times> session" where
  "grant_admin_ep env u sid uid notes = by_lab_admin u (\<lambda>s. case get_server s sid (u_lab_id u) of
      Inl e \<Rightarrow> (Inl (server_http e), s)
    | Inr _ \<Rightarrow> server_outcome (grant_admin sid uid notes (u_id u) (u_lab_id u) (se_ctx env) s) s)"

definition revoke_admin_ep :: "server_env \<Rightarrow> user \<Rightarrow> int \<Rightarrow> int \<Rightarrow> session \<Rightarrow> unit outcome \<times> session" where
  "revoke_admin_ep env u sid uid = by_lab_admin u (\<lambda>s. case get_server s sid (u_lab_id u) of
      Inl e \<Rightarrow> (Inl (server_http e), s)
    | Inr _ \<Rightarrow> (case revoke_admin sid uid (u_id u) (u_lab_id u) (se_ctx env) s of
        Inl e \<Rightarrow> (Inl (server_http e), s)
      | Inr (None, s') \<Rightarrow> (Inl (http 404 ''grant_not_found''), s')
      | Inr (Some _, s') \<Rightarrow> (Inr (), s')))"

fun capability_http :: "server_error \<Rightarrow> api_error" where
  "capability_http (ServerError m) = http 404 m"
| "capability_http e = server_http e"

text \<open>The flip is committed before the push, so the result comes with the database it leaves.\<close>

definition update_capability_ep :: "server_env \<Rightarrow> rpc \<Rightarrow> user \<Rightarrow> int \<Rightarrow> string \<Rightarrow> bool \<Rightarrow> ustring option \<Rightarrow> session \<Rightarrow>
    agent_capability outcome \<times> db" where
  "update_capability_ep env rpc u sid key enabled notes s = (case assert_server_admin u sid s of
      Inl e \<Rightarrow> end_request (s_db s) (Inl e, s)
    | Inr _ \<Rightarrow> (case get_server s sid (u_lab_id u) of
        Inl e \<Rightarrow> end_request (s_db s) (Inl (server_http e), s)
      | Inr _ \<Rightarrow> (case update_capability (se_coll env) sid key enabled notes (u_id u) (u_lab_id u) (se_ctx env) s of
          Inl e \<Rightarrow> end_request (s_db s) (Inl (capability_http e), s)
        | Inr (c, s') \<Rightarrow> (case commit s' of
            Inl _ \<Rightarrow> (Inl Uncaught, s_db s)
          | Inr d \<Rightarrow> (case push_capabilities rpc s' sid of Inl e \<Rightarrow> (Inl e, d) | Inr _ \<Rightarrow> (Inr c, d))))))"

end
