(* ===== verification/User_Service.thy ===== *)
theory User_Service
  imports Server_Service
begin

text \<open>
  \<open>services/user_service.py\<close> and \<open>api/v1/users.py\<close>: the accounts of a lab, who administers it, and what a
  user loses when an administrator disables the account. The profile pages, which only read, are
  left out.
\<close>

section \<open>Errors and look-ups\<close>

datatype user_error =
    UserNotFoundError
  | DuplicateUserError
  | LastAdminError
  | SelfRoleChangeError
  | SelfDisableError
  | WrongPasswordError
  | UserNotActivatedError
  | UserAlreadyActivatedError
  | UserError string
  | OfAuth auth_error
  | OfLinks access_error
  | OfServers server_error

definition list_users :: "session \<Rightarrow> int \<Rightarrow> user list" where
  "list_users s lab = filter (\<lambda>u. u_lab_id u = lab) (user_rows (s_db s))"

definition get_user :: "session \<Rightarrow> int \<Rightarrow> int \<Rightarrow> user_error + user" where
  "get_user s uid lab = (case d_users (s_db s) uid of
      None \<Rightarrow> Inl UserNotFoundError
    | Some u \<Rightarrow> if u_lab_id u = lab then Inr u else Inl UserNotFoundError)"

definition user_audit :: "string \<Rightarrow> int \<Rightarrow> int \<Rightarrow> int \<Rightarrow> payload option \<Rightarrow> req_ctx \<Rightarrow> session \<Rightarrow> session" where
  "user_audit action actor lab uid pl ctx =
    audit_write (audit_of action (Some actor) (Some lab) (Some ''user'') (Some uid) (Some lab) None pl ctx)"

definition active_admins :: "db \<Rightarrow> int \<Rightarrow> user list" where
  "active_admins d lab = filter (\<lambda>u. u_lab_id u = lab \<and> u_role u = RoleLabAdmin \<and> u_is_active u) (user_rows d)"

definition ensure_at_least_one_active_admin :: "session \<Rightarrow> int \<Rightarrow> int \<Rightarrow> user_error + unit" where
  "ensure_at_least_one_active_admin s exclude lab =
    (if filter (\<lambda>u. u_id u \<noteq> exclude) (active_admins (s_db s) lab) = [] then Inl LastAdminError else Inr ())"

section \<open>Creating and editing\<close>

record user_create =
  uc_username :: string
  uc_email :: string
  uc_display_name :: ustring
  uc_role :: user_role

definition create_user :: "'r auth_env \<Rightarrow> user_create \<Rightarrow> int \<Rightarrow> int \<Rightarrow> session \<Rightarrow> user_error + (user \<times> session)" where
  "create_user env p lab actor s =
    (case insert_user (av_coll env) \<lparr>u_id = 0, u_lab_id = lab, u_username = uc_username p, u_role = uc_role p, u_is_active = True,
        u_email = uc_email p, u_display_name = uc_display_name p, u_password_hash = None, u_last_login_at = None,
        u_created_by_user_id = Some actor\<rparr> s of
      Inl _ \<Rightarrow> Inl DuplicateUserError
    | Inr (u, s1) \<Rightarrow> Inr (u, user_audit ''user.create'' actor lab (u_id u)
        (Some [(''username'', JStr (u_username u)), (''email'', JStr (u_email u)), (''role'', JStr (role_str (u_role u)))]) (av_ctx env) s1))"

definition profile_json :: "user \<Rightarrow> json" where
  "profile_json u = JObj [(''display_name'', JText (u_display_name u)), (''email'', JStr (u_email u))]"

definition update_user :: "'r auth_env \<Rightarrow> int \<Rightarrow> ustring option \<Rightarrow> string option \<Rightarrow> int \<Rightarrow> user_role \<Rightarrow> int \<Rightarrow> session \<Rightarrow>
    user_error + (user \<times> session)" where
  "update_user env uid display email actor role lab s = rbind (get_user s uid lab) (\<lambda>u.
     if actor \<noteq> u_id u \<and> role \<noteq> RoleLabAdmin then Inl (UserError ''forbidden: only the user or a lab_admin may edit this profile'')
     else let u' = u\<lparr>u_display_name := or_keep display (u_display_name u), u_email := or_keep email (u_email u)\<rparr> in
       (case flush_user (av_coll env) u' s of
          Inl _ \<Rightarrow> Inl DuplicateUserError
        | Inr s1 \<Rightarrow> Inr (u', user_audit ''user.update'' actor lab (u_id u')
            (Some [(''before'', profile_json u), (''after'', profile_json u')]) (av_ctx env) s1)))"

definition change_role :: "int \<Rightarrow> user_role \<Rightarrow> int \<Rightarrow> int \<Rightarrow> req_ctx \<Rightarrow> session \<Rightarrow> user_error + (user \<times> session)" where
  "change_role uid role actor lab ctx s =
    (if actor = uid then Inl SelfRoleChangeError
     else rbind (get_user s uid lab) (\<lambda>u.
       rbind (if u_role u = RoleLabAdmin \<and> role \<noteq> RoleLabAdmin then ensure_at_least_one_active_admin s (u_id u) lab else Inr ()) (\<lambda>_.
         let u' = u\<lparr>u_role := role\<rparr> in
         Inr (u', user_audit ''user.role_change'' actor lab (u_id u)
           (Some [(''before'', JStr (role_str (u_role u))), (''after'', JStr (role_str role))]) ctx (upd_db (put_user u') s)))))"

section \<open>Disabling\<close>

text \<open>The active links of a user, joined with their accounts.\<close>

definition links_to_cut :: "db \<Rightarrow> int \<Rightarrow> (account_link \<times> int) list" where
  "links_to_cut d uid = List.map_filter (\<lambda>l. if al_user_id l = uid \<and> al_is_active l
     then map_option (\<lambda>p. (l, pa_server_id p)) (d_pas d (al_physical_account_id l)) else None) (link_rows d)"

fun cut_links :: "rpc \<Rightarrow> int \<Rightarrow> int \<Rightarrow> req_ctx \<Rightarrow> (account_link \<times> int) list \<Rightarrow> session \<Rightarrow> user_error + session" where
  "cut_links rpc actor lab ctx [] s = Inr s"
| "cut_links rpc actor lab ctx ((l, sid) # ls) s =
    (case revoke_link rpc l actor ''user_disabled'' lab sid True ctx s of
       Inl e \<Rightarrow> Inl (OfLinks e) | Inr (_, s') \<Rightarrow> cut_links rpc actor lab ctx ls s')"

fun cut_grants :: "int \<Rightarrow> int \<Rightarrow> int \<Rightarrow> req_ctx \<Rightarrow> server_admin_grant list \<Rightarrow> session \<Rightarrow> user_error + session" where
  "cut_grants uid actor lab ctx [] s = Inr s"
| "cut_grants uid actor lab ctx (g # gs) s =
    (case revoke_admin (gr_server_id g) uid actor lab ctx s of
       Inl e \<Rightarrow> Inl (OfServers e) | Inr (_, s') \<Rightarrow> cut_grants uid actor lab ctx gs s')"

definition cascade_revoke_access :: "rpc \<Rightarrow> int \<Rightarrow> int \<Rightarrow> int \<Rightarrow> req_ctx \<Rightarrow> session \<Rightarrow> user_error + session" where
  "cascade_revoke_access rpc uid actor lab ctx s =
    rbind (cut_links rpc actor lab ctx (links_to_cut (s_db s) uid) s) (\<lambda>s1.
      cut_grants uid actor lab ctx (active_grants (s_db s1) uid) s1)"

definition disable_user :: "rpc \<Rightarrow> int \<Rightarrow> int \<Rightarrow> int \<Rightarrow> req_ctx \<Rightarrow> session \<Rightarrow> user_error + (user \<times> session)" where
  "disable_user rpc uid actor lab ctx s =
    (if actor = uid then Inl SelfDisableError
     else rbind (get_user s uid lab) (\<lambda>u.
       rbind (if u_is_active u \<and> u_role u = RoleLabAdmin then ensure_at_least_one_active_admin s (u_id u) lab else Inr ()) (\<lambda>_.
         let u' = u\<lparr>u_is_active := False\<rparr>; s1 = user_audit ''user.disable'' actor lab (u_id u) None ctx (upd_db (put_user u') s) in
         rbind (cascade_revoke_access rpc uid actor lab ctx s1) (\<lambda>s2. Inr (u', s2)))))"

definition reactivate_user :: "int \<Rightarrow> int \<Rightarrow> int \<Rightarrow> req_ctx \<Rightarrow> session \<Rightarrow> user_error + (user \<times> session)" where
  "reactivate_user uid actor lab ctx s = rbind (get_user s uid lab) (\<lambda>u.
     if u_is_active u then Inr (u, s)
     else let u' = u\<lparr>u_is_active := True\<rparr> in
       Inr (u', user_audit ''user.reactivate'' actor lab (u_id u) (Some [(''access_restored'', JBool False)]) ctx (upd_db (put_user u') s)))"

section \<open>Passwords\<close>

text \<open>The wrong old password is audited before it is reported, so the result keeps the session.\<close>

definition change_password :: "'r auth_env \<Rightarrow> int \<Rightarrow> int \<Rightarrow> string \<Rightarrow> string \<Rightarrow> session \<Rightarrow> (user_error + unit) \<times> session" where
  "change_password env actor lab old new s = (case get_user s actor lab of
      Inl e \<Rightarrow> (Inl e, s)
    | Inr u \<Rightarrow>
      let entry = audit_of ''user.password_change'' (Some actor) (Some lab) (Some ''user'') (Some actor) (Some lab) None None (av_ctx env) in
      if (case u_password_hash u of None \<Rightarrow> True | Some h \<Rightarrow> \<not> av_verify_password env old h)
      then (Inl WrongPasswordError, audit_write (entry\<lparr>au_result := ''denied'', au_error_message := Some ''wrong_old_password''\<rparr>) s)
      else (Inr (), audit_write entry (upd_db (put_user (u\<lparr>u_password_hash := Some (av_hash_password env new)\<rparr>)) s)))"

definition issue_for :: "'r auth_env \<Rightarrow> string \<Rightarrow> token_purpose \<Rightarrow> user \<Rightarrow> int \<Rightarrow> int \<Rightarrow> session \<Rightarrow> user_error + ((user \<times> string \<times> int) \<times> session)" where
  "issue_for env plaintext purpose u actor lab s =
    (case issue_setup_token env plaintext (u_id u) purpose (Some actor) (Some lab) s of
       Inl e \<Rightarrow> Inl (OfAuth e) | Inr ((tok, expires), s') \<Rightarrow> Inr ((u, tok, expires), s'))"

definition issue_password_reset :: "'r auth_env \<Rightarrow> string \<Rightarrow> int \<Rightarrow> int \<Rightarrow> int \<Rightarrow> session \<Rightarrow> user_error + ((user \<times> string \<times> int) \<times> session)" where
  "issue_password_reset env plaintext uid actor lab s = rbind (get_user s uid lab) (\<lambda>u.
     if u_password_hash u = None then Inl UserNotActivatedError else issue_for env plaintext PasswordReset u actor lab s)"

definition resend_invite :: "'r auth_env \<Rightarrow> string \<Rightarrow> int \<Rightarrow> int \<Rightarrow> int \<Rightarrow> session \<Rightarrow> user_error + ((user \<times> string \<times> int) \<times> session)" where
  "resend_invite env plaintext uid actor lab s = rbind (get_user s uid lab) (\<lambda>u.
     if u_password_hash u \<noteq> None then Inl UserAlreadyActivatedError else issue_for env plaintext Activation u actor lab s)"

section \<open>The endpoints\<close>

fun user_http :: "user_error \<Rightarrow> api_error" where
  "user_http UserNotFoundError = http 404 ''user_not_found''"
| "user_http DuplicateUserError = after_failed_flush 409 ''email already taken in this lab''"
| "user_http LastAdminError = http 409 ''must_keep_one_active_admin''"
| "user_http SelfRoleChangeError = http 400 ''cannot_change_own_role''"
| "user_http SelfDisableError = http 400 ''cannot_disable_self''"
| "user_http WrongPasswordError = http 400 ''wrong_old_password''"
| "user_http UserNotActivatedError = http 409 ''user_not_activated''"
| "user_http UserAlreadyActivatedError = http 409 ''user_already_activated''"
| "user_http (UserError m) = http 403 m"
| "user_http (OfAuth _) = Uncaught"
| "user_http (OfLinks _) = Uncaught"
| "user_http (OfServers _) = Uncaught"

definition user_outcome :: "user_error + ('a \<times> session) \<Rightarrow> session \<Rightarrow> 'a outcome \<times> session" where
  "user_outcome r s = (case r of Inl e \<Rightarrow> (Inl (user_http e), s) | Inr (x, s') \<Rightarrow> (Inr x, s'))"

definition list_users_ep :: "user \<Rightarrow> session \<Rightarrow> user list" where
  "list_users_ep u s = list_users s (u_lab_id u)"

definition get_user_ep :: "user \<Rightarrow> int \<Rightarrow> session \<Rightarrow> user outcome" where
  "get_user_ep u uid s = (case get_user s uid (u_lab_id u) of Inl e \<Rightarrow> Inl (user_http e) | Inr v \<Rightarrow> Inr v)"

definition update_user_ep :: "'r auth_env \<Rightarrow> user \<Rightarrow> int \<Rightarrow> ustring option \<Rightarrow> string option \<Rightarrow> session \<Rightarrow> user outcome \<times> session" where
  "update_user_ep env u uid display email s = user_outcome (update_user env uid display email (u_id u) (u_role u) (u_lab_id u) s) s"

definition change_role_ep :: "'r auth_env \<Rightarrow> user \<Rightarrow> int \<Rightarrow> user_role \<Rightarrow> session \<Rightarrow> user outcome \<times> session" where
  "change_role_ep env u uid role = by_lab_admin u (\<lambda>s. user_outcome (change_role uid role (u_id u) (u_lab_id u) (av_ctx env) s) s)"

definition disable_user_ep :: "'r auth_env \<Rightarrow> rpc \<Rightarrow> user \<Rightarrow> int \<Rightarrow> session \<Rightarrow> user outcome \<times> session" where
  "disable_user_ep env rpc u uid = by_lab_admin u (\<lambda>s. user_outcome (disable_user rpc uid (u_id u) (u_lab_id u) (av_ctx env) s) s)"

definition reactivate_user_ep :: "'r auth_env \<Rightarrow> user \<Rightarrow> int \<Rightarrow> session \<Rightarrow> user outcome \<times> session" where
  "reactivate_user_ep env u uid = by_lab_admin u (\<lambda>s. user_outcome (reactivate_user uid (u_id u) (u_lab_id u) (av_ctx env) s) s)"

definition change_password_ep :: "'r auth_env \<Rightarrow> user \<Rightarrow> string \<Rightarrow> string \<Rightarrow> session \<Rightarrow> unit outcome \<times> session" where
  "change_password_ep env u old new s = (case change_password env (u_id u) (u_lab_id u) old new s of
      (Inl WrongPasswordError, s') \<Rightarrow> (Inl (user_http WrongPasswordError), s')
    | (Inl _, s') \<Rightarrow> (Inl Uncaught, s')
    | (Inr _, s') \<Rightarrow> (Inr (), s'))"

definition reset_user_password_ep :: "'r auth_env \<Rightarrow> string \<Rightarrow> user \<Rightarrow> int \<Rightarrow> session \<Rightarrow> (user \<times> string \<times> int) outcome \<times> session" where
  "reset_user_password_ep env plaintext u uid = by_lab_admin u (\<lambda>s. user_outcome (issue_password_reset env plaintext uid (u_id u) (u_lab_id u) s) s)"

definition resend_invite_ep :: "'r auth_env \<Rightarrow> string \<Rightarrow> user \<Rightarrow> int \<Rightarrow> session \<Rightarrow> (user \<times> string \<times> int) outcome \<times> session" where
  "resend_invite_ep env plaintext u uid = by_lab_admin u (\<lambda>s. user_outcome (resend_invite env plaintext uid (u_id u) (u_lab_id u) s) s)"

text \<open>\<open>invite_user\<close> ignores the profile it is sent and does what \<open>create_registration_invite\<close> does.\<close>

definition create_registration_invite_ep :: "'r auth_env \<Rightarrow> string \<Rightarrow> user \<Rightarrow> user_role \<Rightarrow> session \<Rightarrow>
    (registration_invite \<times> string \<times> int) outcome \<times> session" where
  "create_registration_invite_ep env plaintext u role =
    by_lab_admin u (\<lambda>s. auth_outcome (issue_registration_invite env plaintext (u_lab_id u) role (u_id u) s) s)"

definition invite_user_ep :: "'r auth_env \<Rightarrow> string \<Rightarrow> user \<Rightarrow> user_create \<Rightarrow> session \<Rightarrow>
    (registration_invite \<times> string \<times> int) outcome \<times> session" where
  "invite_user_ep env plaintext u p =
    by_lab_admin u (\<lambda>s. auth_outcome (issue_registration_invite env plaintext (u_lab_id u) (uc_role p) (u_id u) s) s)"

definition revoke_registration_invite_ep :: "'r auth_env \<Rightarrow> user \<Rightarrow> int \<Rightarrow> session \<Rightarrow> invite_read outcome \<times> session" where
  "revoke_registration_invite_ep env u iid =
    by_lab_admin u (\<lambda>s. auth_outcome (revoke_registration_invite iid (u_lab_id u) (u_id u) (av_ctx env) s) s)"

definition list_registration_invites_ep :: "user \<Rightarrow> nat \<Rightarrow> session \<Rightarrow> invite_read list outcome" where
  "list_registration_invites_ep u limit s = rbind (require_lab_admin u) (\<lambda>_. Inr (list_registration_invites s (u_lab_id u) limit))"

definition list_my_account_links_ep :: "user \<Rightarrow> bool \<Rightarrow> session \<Rightarrow> account_link list" where
  "list_my_account_links_ep u history s = (if history then list_all_for_user s (u_id u) else list_active_for_user s (u_id u))"

text \<open>An administrator of the lab is shown a grant for every server; the grant itself is then missing.\<close>

definition list_my_grants_ep :: "user \<Rightarrow> session \<Rightarrow> (server_admin_grant option \<times> server) list" where
  "list_my_grants_ep u s = (if u_role u = RoleLabAdmin then map (\<lambda>v. (None, v)) (list_servers s (u_lab_id u))
     else map (\<lambda>(g, v). (Some g, v)) (list_grants_for_user s (u_id u) (u_lab_id u)))"

end
