(* ===== verification/Step_Contract.thy ===== *)
theory Step_Contract
  imports Link_Props Reservation_Api
begin

text \<open>
  What the invariant proofs of the account, server and policy tables share. \<open>keyed\<close> is a table held as a
  map with the list of its keys. \<open>step_ok\<close> says that a change keeps a table legal (\<open>ok\<close>) and only develops
  it (\<open>dev\<close>); the locale \<open>step_contract\<close> is what \<open>ok\<close> and \<open>dev\<close> must satisfy for operations, requests and
  runs to be composed.
\<close>

section \<open>Keyed tables\<close>

definition keyed :: "('r \<Rightarrow> int) \<Rightarrow> (int \<rightharpoonup> 'r) \<Rightarrow> int list \<Rightarrow> int \<Rightarrow> bool" where
  "keyed key m ids nxt \<longleftrightarrow> distinct ids \<and> (\<forall>i \<in> set ids. (\<exists>r. m i = Some r \<and> key r = i) \<and> i < nxt)
     \<and> (\<forall>i. m i \<noteq> None \<longrightarrow> i \<in> set ids)"

lemma keyed_rows: "keyed key m ids nxt \<Longrightarrow> List.map_filter m ids = map (\<lambda>i. the (m i)) ids"
  by (rule map_filter_some) (auto simp: keyed_def)

lemma keyed_mem: "keyed key m ids nxt \<Longrightarrow> r \<in> set (List.map_filter m ids) \<longleftrightarrow> m (key r) = Some r"
  by (force simp: keyed_rows keyed_def)

lemma keyed_key: "keyed key m ids nxt \<Longrightarrow> m i = Some r \<Longrightarrow> key r = i"
  unfolding keyed_def by (metis option.distinct(1) option.inject)

lemma keyed_put: "keyed key m ids nxt \<Longrightarrow> m (key r) \<noteq> None \<Longrightarrow> keyed key (m(key r \<mapsto> r)) ids nxt"
  by (auto simp: keyed_def)

lemma keyed_add: "keyed key m ids nxt \<Longrightarrow> key r = nxt \<Longrightarrow> keyed key (m(nxt \<mapsto> r)) (ids @ [nxt]) (nxt + 1)"
  by (auto simp: keyed_def)

lemma keyed_fresh: "keyed key m ids nxt \<Longrightarrow> m nxt = None"
  by (force simp: keyed_def)

section \<open>Steps\<close>

definition step_ok :: "(db \<Rightarrow> bool) \<Rightarrow> (db \<Rightarrow> db \<Rightarrow> bool) \<Rightarrow> db \<Rightarrow> db \<Rightarrow> bool" where
  "step_ok ok dev d d' \<longleftrightarrow> (ok d \<longrightarrow> ok d' \<and> dev d d')"

text \<open>A service result whose session, if there is one, is a legal development of the given one.\<close>

definition settles :: "(db \<Rightarrow> bool) \<Rightarrow> (db \<Rightarrow> db \<Rightarrow> bool) \<Rightarrow> session \<Rightarrow> 'e + ('a \<times> session) \<Rightarrow> bool" where
  "settles ok dev s m \<longleftrightarrow> (\<forall>x s'. m = Inr (x, s') \<longrightarrow> step_ok ok dev (s_db s) (s_db s'))"

lemma step_okI: "(ok d \<Longrightarrow> ok d' \<and> dev d d') \<Longrightarrow> step_ok ok dev d d'"
  by (simp add: step_ok_def)

lemma settles_Inl: "settles ok dev s (Inl e)"
  by (simp add: settles_def)

lemma settles_Inr: "step_ok ok dev (s_db s) (s_db s') \<Longrightarrow> settles ok dev s (Inr (x, s'))"
  by (simp add: settles_def)

lemma settles_bind: "(\<And>a. m = Inr a \<Longrightarrow> settles ok dev s (f a)) \<Longrightarrow> settles ok dev s (rbind m f)"
  by (cases m) (auto simp: settles_def)

lemma settles_if: "(b \<Longrightarrow> settles ok dev s x) \<Longrightarrow> (\<not> b \<Longrightarrow> settles ok dev s y) \<Longrightarrow> settles ok dev s (if b then x else y)"
  by simp

lemma settles_option: "(x = None \<Longrightarrow> settles ok dev s n) \<Longrightarrow> (\<And>a. x = Some a \<Longrightarrow> settles ok dev s (f a)) \<Longrightarrow>
    settles ok dev s (case x of None \<Rightarrow> n | Some a \<Rightarrow> f a)"
  by (cases x) simp_all

lemma settlesD: "settles ok dev s m \<Longrightarrow> m = Inr (x, s') \<Longrightarrow> step_ok ok dev (s_db s) (s_db s')"
  by (simp add: settles_def)

lemmas settles_intros = settles_Inl settles_Inr settles_bind settles_if settles_option

locale step_contract =
  fixes ok :: "db \<Rightarrow> bool" and dev :: "db \<Rightarrow> db \<Rightarrow> bool"
  assumes dev_refl: "dev d d"
    and dev_trans: "dev d d' \<Longrightarrow> dev d' d'' \<Longrightarrow> dev d d''"
    and flush_step: "ok d \<Longrightarrow> ok (db_update_res r d) \<and> dev d (db_update_res r d)"
    and audit_step: "ok (s_db s) \<Longrightarrow> ok (s_db (audit_write e s)) \<and> dev (s_db s) (s_db (audit_write e s))"
begin

lemma refl_step [simp]: "step_ok ok dev d d"
  by (simp add: step_ok_def dev_refl)

lemma trans_step: "step_ok ok dev d d' \<Longrightarrow> step_ok ok dev d' d'' \<Longrightarrow> step_ok ok dev d d''"
  by (auto simp: step_ok_def intro: dev_trans)

text \<open>An audit row behind a step.\<close>

lemma audited: "step_ok ok dev d (s_db s) \<Longrightarrow> step_ok ok dev d (s_db (audit_write e s))"
  using audit_step by (auto simp: step_ok_def intro: dev_trans)

lemma commit_ok: "commit s = Inr d \<Longrightarrow> step_ok ok dev (s_db s) d"
  using flush_step by (auto simp: step_ok_def commit_def flush_res_def s_update_res_def dev_refl split: option.splits if_splits)

lemma request_step:
  assumes "step_ok ok dev d (s_db (snd out))"
  shows "step_ok ok dev d (snd (end_request d out))"
  using assms commit_ok[of "snd out"]
  by (auto simp: end_request_def split: prod.splits sum.splits api_error.splits intro: trans_step)

lemma runs_ok:
  assumes "R\<^sup>*\<^sup>* d d'" and "\<And>a b. R a b \<Longrightarrow> step_ok ok dev a b"
  shows "step_ok ok dev d d'"
  using assms(1) by (induction rule: rtranclp_induct) (auto intro: trans_step assms(2))

lemma settles_step: "settles ok dev s m \<Longrightarrow> m = Inr (x, s') \<Longrightarrow> step_ok ok dev d (s_db s) \<Longrightarrow> step_ok ok dev d (s_db s')"
  by (blast dest: settlesD intro: trans_step)

end

end
