(* ===== verification/Account_Props.thy ===== *)
theory Account_Props
  imports User_Service Step_Contract
begin

text \<open>
  What the account services keep. \<open>accounts_ok\<close> is the legality of the tables of users, one-time tokens,
  invites and keys; \<open>accounts_dev\<close> is how they may change: no row is lost, what was used stays used, a
  removed key stays removed, and a lab that has an active administrator keeps one. Every request of
  \<open>account_step\<close> keeps the first and obeys the second.
\<close>

section \<open>Legal account tables\<close>

definition users_apart :: "(string \<Rightarrow> string \<Rightarrow> bool) \<Rightarrow> db \<Rightarrow> bool" where
  "users_apart coll d \<longleftrightarrow> (\<forall>i u j v. d_users d i = Some u \<longrightarrow> d_users d j = Some v \<longrightarrow> i \<noteq> j \<longrightarrow> \<not> user_clash coll u v)"

definition accounts_ok :: "(string \<Rightarrow> string \<Rightarrow> bool) \<Rightarrow> db \<Rightarrow> bool" where
  "accounts_ok coll d \<longleftrightarrow> keyed u_id (d_users d) (d_user_ids d) (d_next_user d) \<and> users_apart coll d
     \<and> distinct (map tk_id (d_setup_tokens d)) \<and> (\<forall>t \<in> set (d_setup_tokens d). tk_id t < d_next_setup_token d)
     \<and> distinct (map tk_token_hash (d_setup_tokens d)) \<and> one_active (\<lambda>t. tk_used_at t = None) tk_user_id (d_setup_tokens d)
     \<and> distinct (map ri_id (d_invites d)) \<and> (\<forall>i \<in> set (d_invites d). ri_id i < d_next_invite d)
     \<and> distinct (map ri_token_hash (d_invites d))
     \<and> distinct (map sk_id (d_ssh_keys d)) \<and> (\<forall>k \<in> set (d_ssh_keys d). sk_id k < d_next_ssh_key d)
     \<and> distinct (map (\<lambda>k. (sk_user_id k, sk_fingerprint_sha256 k)) (d_ssh_keys d))"

lemma accounts_okD:
  assumes "accounts_ok coll d"
  shows "keyed u_id (d_users d) (d_user_ids d) (d_next_user d)" "users_apart coll d"
    "distinct (map tk_id (d_setup_tokens d))" "\<forall>t \<in> set (d_setup_tokens d). tk_id t < d_next_setup_token d"
    "distinct (map tk_token_hash (d_setup_tokens d))" "one_active (\<lambda>t. tk_used_at t = None) tk_user_id (d_setup_tokens d)"
    "distinct (map ri_id (d_invites d))" "\<forall>i \<in> set (d_invites d). ri_id i < d_next_invite d"
    "distinct (map ri_token_hash (d_invites d))"
    "distinct (map sk_id (d_ssh_keys d))" "\<forall>k \<in> set (d_ssh_keys d). sk_id k < d_next_ssh_key d"
    "distinct (map (\<lambda>k. (sk_user_id k, sk_fingerprint_sha256 k)) (d_ssh_keys d))"
  using assms by (simp_all add: accounts_ok_def)

section \<open>How they may change\<close>

definition token_dev :: "setup_token \<Rightarrow> setup_token \<Rightarrow> bool" where
  "token_dev a b \<longleftrightarrow> b\<lparr>tk_used_at := None\<rparr> = a\<lparr>tk_used_at := None\<rparr> \<and> (tk_used_at a \<noteq> None \<longrightarrow> b = a)"

definition invite_dev :: "registration_invite \<Rightarrow> registration_invite \<Rightarrow> bool" where
  "invite_dev a b \<longleftrightarrow> b\<lparr>ri_used_at := None, ri_used_by_user_id := None\<rparr> = a\<lparr>ri_used_at := None, ri_used_by_user_id := None\<rparr>
     \<and> (ri_used_at a \<noteq> None \<longrightarrow> b = a)"

definition key_dev :: "ssh_public_key \<Rightarrow> ssh_public_key \<Rightarrow> bool" where
  "key_dev a b \<longleftrightarrow> b\<lparr>sk_is_active := True, sk_disabled_at := None\<rparr> = a\<lparr>sk_is_active := True, sk_disabled_at := None\<rparr>
     \<and> (\<not> sk_is_active a \<longrightarrow> b = a)"

definition user_dev :: "user \<Rightarrow> user \<Rightarrow> bool" where
  "user_dev a b \<longleftrightarrow> u_id b = u_id a \<and> u_lab_id b = u_lab_id a \<and> u_created_by_user_id b = u_created_by_user_id a"

definition has_admin :: "db \<Rightarrow> int \<Rightarrow> bool" where
  "has_admin d lab \<longleftrightarrow> (\<exists>i u. d_users d i = Some u \<and> u_lab_id u = lab \<and> u_role u = RoleLabAdmin \<and> u_is_active u)"

definition users_dev :: "db \<Rightarrow> db \<Rightarrow> bool" where
  "users_dev d d' \<longleftrightarrow> (\<forall>i u. d_users d i = Some u \<longrightarrow> (\<exists>v. d_users d' i = Some v \<and> user_dev u v))"

definition accounts_dev :: "db \<Rightarrow> db \<Rightarrow> bool" where
  "accounts_dev d d' \<longleftrightarrow> users_dev d d'
     \<and> (\<forall>lab. has_admin d lab \<longrightarrow> has_admin d' lab)
     \<and> rows_dev token_dev (d_setup_tokens d) (d_setup_tokens d')
     \<and> rows_dev invite_dev (d_invites d) (d_invites d')
     \<and> rows_dev key_dev (d_ssh_keys d) (d_ssh_keys d')"

lemma account_dev_refl [simp]: "token_dev t t" "invite_dev i i" "key_dev k k" "user_dev u u"
  by (simp_all add: token_dev_def invite_dev_def key_dev_def user_dev_def)

lemma account_dev_trans:
  "token_dev a b \<Longrightarrow> token_dev b c \<Longrightarrow> token_dev a c"
  "invite_dev i j \<Longrightarrow> invite_dev j k \<Longrightarrow> invite_dev i k"
  "key_dev x y \<Longrightarrow> key_dev y z \<Longrightarrow> key_dev x z"
  "user_dev u v \<Longrightarrow> user_dev v w \<Longrightarrow> user_dev u w"
  by (auto simp: token_dev_def invite_dev_def key_dev_def user_dev_def)

lemma users_dev_refl [simp]: "users_dev d d"
  by (simp add: users_dev_def)

lemma users_dev_trans: "users_dev d d' \<Longrightarrow> users_dev d' d'' \<Longrightarrow> users_dev d d''"
  unfolding users_dev_def by (meson account_dev_trans(4))

lemma accounts_dev_refl [simp]: "accounts_dev d d"
  by (simp add: accounts_dev_def rows_dev_refl)

lemma accounts_dev_trans: "accounts_dev d d' \<Longrightarrow> accounts_dev d' d'' \<Longrightarrow> accounts_dev d d''"
  unfolding accounts_dev_def
  by (auto intro: users_dev_trans rows_dev_trans[OF account_dev_trans(1)] rows_dev_trans[OF account_dev_trans(2)]
      rows_dev_trans[OF account_dev_trans(3)])

text \<open>A change of other tables.\<close>

definition same_accounts :: "db \<Rightarrow> db \<Rightarrow> bool" where
  "same_accounts d d' \<longleftrightarrow> d_users d' = d_users d \<and> d_user_ids d' = d_user_ids d \<and> d_next_user d' = d_next_user d
     \<and> d_setup_tokens d' = d_setup_tokens d \<and> d_next_setup_token d' = d_next_setup_token d
     \<and> d_invites d' = d_invites d \<and> d_next_invite d' = d_next_invite d
     \<and> d_ssh_keys d' = d_ssh_keys d \<and> d_next_ssh_key d' = d_next_ssh_key d"

lemma same_accounts_trans: "same_accounts d d' \<Longrightarrow> same_accounts d' d'' \<Longrightarrow> same_accounts d d''"
  by (simp add: same_accounts_def)

lemma same_accounts_step: "same_accounts d d' \<Longrightarrow> step_ok (accounts_ok coll) accounts_dev d d'"
  by (simp add: same_accounts_def step_ok_def accounts_ok_def users_apart_def accounts_dev_def users_dev_def
      rows_dev_refl has_admin_def)

lemma same_accounts_audit [simp]: "same_accounts (s_db s) (s_db (audit_write e s))"
  by (simp add: same_accounts_def audit_write_def)

interpretation accounts: step_contract "accounts_ok coll" accounts_dev
proof unfold_locales
  show "accounts_dev d d" for d by simp
  show "accounts_dev d d' \<Longrightarrow> accounts_dev d' d'' \<Longrightarrow> accounts_dev d d''" for d d' d'' by (rule accounts_dev_trans)
  have "same_accounts d (db_update_res r d)" for d r by (simp add: same_accounts_def db_update_res_def)
  then show "accounts_ok coll d \<Longrightarrow> accounts_ok coll (db_update_res r d) \<and> accounts_dev d (db_update_res r d)" for d r
    using same_accounts_step by (metis step_ok_def)
  show "accounts_ok coll (s_db s) \<Longrightarrow> accounts_ok coll (s_db (audit_write e s)) \<and> accounts_dev (s_db s) (s_db (audit_write e s))" for s e
    using same_accounts_step[OF same_accounts_audit] by (metis step_ok_def)
qed

section \<open>The elementary writes\<close>

text \<open>The equality of a collation is symmetric; so is a clash of two users.\<close>

lemma user_clash_sym: "symp coll \<Longrightarrow> user_clash coll u v \<longleftrightarrow> user_clash coll v u"
  by (auto simp: user_clash_def dest: sympD)

definition is_admin :: "user \<Rightarrow> bool" where
  "is_admin u \<longleftrightarrow> u_role u = RoleLabAdmin \<and> u_is_active u"

lemma has_admin_iff: "has_admin d lab \<longleftrightarrow> (\<exists>i u. d_users d i = Some u \<and> u_lab_id u = lab \<and> is_admin u)"
  by (simp add: has_admin_def is_admin_def)

lemma put_user_step:
  assumes "symp coll" and old: "d_users d (u_id u') = Some u" and "user_dev u u'"
    and apart: "\<And>j v. d_users d j = Some v \<Longrightarrow> j \<noteq> u_id u' \<Longrightarrow> \<not> user_clash coll u' v"
    and admin: "is_admin u \<Longrightarrow> \<not> is_admin u' \<Longrightarrow> \<exists>j v. j \<noteq> u_id u' \<and> d_users d j = Some v \<and> u_lab_id v = u_lab_id u \<and> is_admin v"
  shows "step_ok (accounts_ok coll) accounts_dev d (put_user u' d)"
proof (rule step_okI)
  assume ok: "accounts_ok coll d"
  have "users_apart coll (put_user u' d)"
    using accounts_okD(2)[OF ok] apart user_clash_sym[OF assms(1)]
    by (auto simp: users_apart_def put_user_def)
  moreover have "keyed u_id (d_users (put_user u' d)) (d_user_ids d) (d_next_user d)"
    using keyed_put[OF accounts_okD(1)[OF ok], of u'] old by (simp add: put_user_def)
  ultimately have "accounts_ok coll (put_user u' d)"
    using ok by (simp add: accounts_ok_def put_user_def)
  moreover have "users_dev d (put_user u' d)"
    using old assms(3) by (auto simp: users_dev_def put_user_def)
  moreover have "has_admin (put_user u' d) lab" if h: "has_admin d lab" for lab
  proof -
    obtain i v where v: "d_users d i = Some v" "u_lab_id v = lab" "is_admin v" using h by (auto simp: has_admin_iff)
    show ?thesis
    proof (cases "i = u_id u'")
      case True
      with v old have "v = u" by simp
      show ?thesis
      proof (cases "is_admin u'")
        case True
        with v \<open>v = u\<close> assms(3) show ?thesis by (auto simp: has_admin_iff put_user_def user_dev_def)
      next
        case False
        with v \<open>v = u\<close> obtain j w where w: "j \<noteq> u_id u'" "d_users d j = Some w" "u_lab_id w = lab" "is_admin w"
          using admin by auto
        then have "d_users (put_user u' d) j = Some w" by (simp add: put_user_def)
        with w show ?thesis by (auto simp: has_admin_iff)
      qed
    next
      case False
      with v have "d_users (put_user u' d) i = Some v" by (simp add: put_user_def)
      with v show ?thesis by (auto simp: has_admin_iff)
    qed
  qed
  ultimately show "accounts_ok coll (put_user u' d) \<and> accounts_dev d (put_user u' d)"
    by (simp add: accounts_dev_def put_user_def rows_dev_refl)
qed

text \<open>A change that leaves the names alone cannot clash.\<close>

lemma put_same_name_step:
  assumes "symp coll" and "d_users d (u_id u') = Some u" and "user_dev u u'"
    and "u_username u' = u_username u" and "u_email u' = u_email u"
    and "is_admin u \<Longrightarrow> \<not> is_admin u' \<Longrightarrow> \<exists>j v. j \<noteq> u_id u' \<and> d_users d j = Some v \<and> u_lab_id v = u_lab_id u \<and> is_admin v"
  shows "step_ok (accounts_ok coll) accounts_dev d (put_user u' d)"
proof (rule step_okI)
  assume ok: "accounts_ok coll d"
  have "\<not> user_clash coll u' v" if "d_users d j = Some v" "j \<noteq> u_id u'" for j v
    using accounts_okD(2)[OF ok] that assms(2-5) by (auto simp: users_apart_def user_clash_def user_dev_def)
  from put_user_step[OF assms(1-3) this assms(6)] ok
  show "accounts_ok coll (put_user u' d) \<and> accounts_dev d (put_user u' d)" by (simp add: step_ok_def)
qed

lemma user_rows_mem: "accounts_ok coll d \<Longrightarrow> v \<in> set (user_rows d) \<longleftrightarrow> d_users d (u_id v) = Some v"
  unfolding user_rows_def by (rule keyed_mem[OF accounts_okD(1)])

lemma user_row: "accounts_ok coll d \<Longrightarrow> d_users d i = Some u \<Longrightarrow> u_id u = i \<and> u \<in> set (user_rows d)"
  using user_rows_mem keyed_key[OF accounts_okD(1)] by metis

lemma flush_user_step:
  assumes "symp coll" and "flush_user coll u' s = Inr s'" and "d_users (s_db s) (u_id u') = Some u" and "user_dev u u'"
    and "is_admin u \<Longrightarrow> is_admin u'"
  shows "step_ok (accounts_ok coll) accounts_dev (s_db s) (s_db s')"
proof (rule step_okI)
  assume ok: "accounts_ok coll (s_db s)"
  from assms(2) have s': "s_db s' = put_user u' (s_db s)"
    and no: "\<And>v. v \<in> set (user_rows (s_db s)) \<Longrightarrow> u_id v \<noteq> u_id u' \<Longrightarrow> \<not> user_clash coll u' v"
    by (auto simp: flush_user_def list_ex_iff split: if_splits)
  have "\<not> user_clash coll u' v" if "d_users (s_db s) j = Some v" "j \<noteq> u_id u'" for j v
    using user_row[OF ok that(1)] no that by auto
  from put_user_step[OF assms(1,3,4) this] assms(5) ok
  show "accounts_ok coll (s_db s') \<and> accounts_dev (s_db s) (s_db s')" by (simp add: step_ok_def s')
qed

lemma insert_user_step:
  assumes "symp coll" and "insert_user coll u s = Inr (row, s')"
  shows "step_ok (accounts_ok coll) accounts_dev (s_db s) (s_db s')"
    and "row = u\<lparr>u_id := d_next_user (s_db s)\<rparr>" and "d_users (s_db s') (u_id row) = Some row"
proof -
  from assms(2) have s': "s_db s' = (put_user row (s_db s))\<lparr>d_user_ids := d_user_ids (s_db s) @ [u_id row], d_next_user := u_id row + 1\<rparr>"
    and row: "row = u\<lparr>u_id := d_next_user (s_db s)\<rparr>"
    and no: "\<And>v. v \<in> set (user_rows (s_db s)) \<Longrightarrow> \<not> user_clash coll row v"
    by (auto simp: insert_user_def Let_def list_ex_iff split: if_splits)
  show "row = u\<lparr>u_id := d_next_user (s_db s)\<rparr>" by (rule row)
  show "d_users (s_db s') (u_id row) = Some row" by (simp add: s' put_user_def)
  show "step_ok (accounts_ok coll) accounts_dev (s_db s) (s_db s')"
  proof (rule step_okI)
    assume ok: "accounts_ok coll (s_db s)"
    have id: "u_id row = d_next_user (s_db s)" by (simp add: row)
    note fresh = keyed_fresh[OF accounts_okD(1)[OF ok]]
    have "\<not> user_clash coll row v" if "d_users (s_db s) j = Some v" for j v
      using user_row[OF ok that] no by auto
    then have "users_apart coll (s_db s')"
      using accounts_okD(2)[OF ok] user_clash_sym[OF assms(1)] by (auto simp: users_apart_def s' put_user_def)
    moreover have "keyed u_id (d_users (s_db s')) (d_user_ids (s_db s')) (d_next_user (s_db s'))"
      using keyed_add[OF accounts_okD(1)[OF ok], of row] id by (simp add: s' put_user_def)
    ultimately have "accounts_ok coll (s_db s')" using ok by (simp add: accounts_ok_def s' put_user_def)
    moreover have "users_dev (s_db s) (s_db s')" using fresh id by (auto simp: users_dev_def s' put_user_def)
    moreover have "has_admin (s_db s') lab" if h: "has_admin (s_db s) lab" for lab
    proof -
      obtain i v where v: "d_users (s_db s) i = Some v" "u_lab_id v = lab" "is_admin v" using h by (auto simp: has_admin_iff)
      then have "i \<noteq> u_id row" using fresh id by auto
      with v have "d_users (s_db s') i = Some v" by (simp add: s' put_user_def)
      with v show ?thesis by (auto simp: has_admin_iff)
    qed
    ultimately show "accounts_ok coll (s_db s') \<and> accounts_dev (s_db s) (s_db s')"
      by (simp add: accounts_dev_def s' put_user_def rows_dev_refl)
  qed
qed

text \<open>The tables that are lists: a row is replaced by one of its developments, or a fresh row comes behind.\<close>

lemma rows_dev_map:
  assumes "\<And>x. x \<in> set rs \<Longrightarrow> dev x (f x)"
  shows "rows_dev dev rs (map f rs)"
  using assms by (simp add: rows_dev_def list_all2_conv_all_nth)

lemma tokens_step:
  assumes "accounts_ok coll d \<Longrightarrow> rows_dev token_dev (d_setup_tokens d) ts \<and> distinct (map tk_id ts) \<and> distinct (map tk_token_hash ts)
      \<and> one_active (\<lambda>t. tk_used_at t = None) tk_user_id ts \<and> (\<forall>t \<in> set ts. tk_id t < n)"
  shows "step_ok (accounts_ok coll) accounts_dev d (d\<lparr>d_setup_tokens := ts, d_next_setup_token := n\<rparr>)"
proof (rule step_okI)
  assume ok: "accounts_ok coll d"
  show "accounts_ok coll (d\<lparr>d_setup_tokens := ts, d_next_setup_token := n\<rparr>)
      \<and> accounts_dev d (d\<lparr>d_setup_tokens := ts, d_next_setup_token := n\<rparr>)"
    using assms[OF ok] ok
    by (simp add: accounts_ok_def users_apart_def accounts_dev_def users_dev_def has_admin_def rows_dev_refl)
qed

lemma invites_step:
  assumes "accounts_ok coll d \<Longrightarrow> rows_dev invite_dev (d_invites d) is \<and> distinct (map ri_id is) \<and> distinct (map ri_token_hash is)
      \<and> (\<forall>i \<in> set is. ri_id i < n)"
  shows "step_ok (accounts_ok coll) accounts_dev d (d\<lparr>d_invites := is, d_next_invite := n\<rparr>)"
proof (rule step_okI)
  assume ok: "accounts_ok coll d"
  show "accounts_ok coll (d\<lparr>d_invites := is, d_next_invite := n\<rparr>) \<and> accounts_dev d (d\<lparr>d_invites := is, d_next_invite := n\<rparr>)"
    using assms[OF ok] ok
    by (simp add: accounts_ok_def users_apart_def accounts_dev_def users_dev_def has_admin_def rows_dev_refl)
qed

lemma keys_step:
  assumes "accounts_ok coll d \<Longrightarrow> rows_dev key_dev (d_ssh_keys d) ks \<and> distinct (map sk_id ks)
      \<and> distinct (map (\<lambda>k. (sk_user_id k, sk_fingerprint_sha256 k)) ks) \<and> (\<forall>k \<in> set ks. sk_id k < n)"
  shows "step_ok (accounts_ok coll) accounts_dev d (d\<lparr>d_ssh_keys := ks, d_next_ssh_key := n\<rparr>)"
proof (rule step_okI)
  assume ok: "accounts_ok coll d"
  show "accounts_ok coll (d\<lparr>d_ssh_keys := ks, d_next_ssh_key := n\<rparr>) \<and> accounts_dev d (d\<lparr>d_ssh_keys := ks, d_next_ssh_key := n\<rparr>)"
    using assms[OF ok] ok
    by (simp add: accounts_ok_def users_apart_def accounts_dev_def users_dev_def has_admin_def rows_dev_refl)
qed

text \<open>The identity columns of a table survive the replacement of a row by one with the same columns.\<close>

lemma same_key_row: "distinct (map key rs) \<Longrightarrow> x \<in> set rs \<Longrightarrow> y \<in> set rs \<Longrightarrow> key x = key y \<Longrightarrow> x = y"
  by (auto simp: distinct_map inj_on_def)

lemma map_row_put_same:
  assumes "distinct (map key rs)" and "x \<in> set rs" and "key x = key r" and "g x = g r"
  shows "map g (row_put key r rs) = map g rs"
proof -
  have "g (if key y = key r then r else y) = g y" if "y \<in> set rs" for y
    using same_key_row[OF assms(1) that assms(2)] assms(3,4) by auto
  then show ?thesis by (simp add: row_put_def)
qed

lemma rows_dev_replace:
  assumes "distinct (map key rs)" and "x \<in> set rs" and "key x = key r" and "\<And>a. dev a a" and "dev x r"
  shows "rows_dev dev rs (row_put key r rs)"
proof (rule rows_dev_row_put[OF assms(4)])
  fix y assume "y \<in> set rs" "key y = key r"
  then have "y = x" using same_key_row[OF assms(1), of y x] assms(2,3) by simp
  with assms(5) show "dev y r" by simp
qed

lemma use_token_step:
  assumes "t \<in> set (d_setup_tokens d)" and "tk_used_at t = None"
  shows "step_ok (accounts_ok coll) accounts_dev d (put_token (t\<lparr>tk_used_at := Some now\<rparr>) d)"
proof -
  let ?r = "t\<lparr>tk_used_at := Some now\<rparr>" and ?ts = "d_setup_tokens d"
  have eq: "put_token ?r d = d\<lparr>d_setup_tokens := row_put tk_id ?r ?ts, d_next_setup_token := d_next_setup_token d\<rparr>"
    by (simp add: put_token_def)
  show ?thesis unfolding eq
  proof (rule tokens_step, intro conjI)
    assume ok: "accounts_ok coll d"
    note D = accounts_okD[OF ok]
    show "rows_dev token_dev ?ts (row_put tk_id ?r ?ts)"
      by (rule rows_dev_replace[OF D(3) assms(1)]) (simp_all add: token_dev_def assms(2))
    show "distinct (map tk_id (row_put tk_id ?r ?ts))" using D(3) by (simp add: row_simps)
    show "distinct (map tk_token_hash (row_put tk_id ?r ?ts))"
      using D(5) map_row_put_same[OF D(3) assms(1), of ?r tk_token_hash] by simp
    show "one_active (\<lambda>t. tk_used_at t = None) tk_user_id (row_put tk_id ?r ?ts)"
    proof (rule one_active_row_put[OF D(6,3)])
      fix x assume "x \<in> set ?ts" "tk_id x = tk_id ?r"
      then have "x = t" using same_key_row[OF D(3), of x t] assms(1) by simp
      then show "tk_user_id x = tk_user_id ?r \<and> (tk_used_at ?r = None \<longrightarrow> tk_used_at x = None)" by simp
    qed
    show "\<forall>t \<in> set (row_put tk_id ?r ?ts). tk_id t < d_next_setup_token d"
      using D(4) assms(1) by (auto dest: row_putD)
  qed
qed

lemma put_invite_step:
  assumes "i \<in> set (d_invites d)" and "ri_used_at i = None"
  shows "step_ok (accounts_ok coll) accounts_dev d (put_invite (i\<lparr>ri_used_at := a, ri_used_by_user_id := b\<rparr>) d)"
proof -
  let ?r = "i\<lparr>ri_used_at := a, ri_used_by_user_id := b\<rparr>" and ?is = "d_invites d"
  have eq: "put_invite ?r d = d\<lparr>d_invites := row_put ri_id ?r ?is, d_next_invite := d_next_invite d\<rparr>"
    by (simp add: put_invite_def)
  show ?thesis unfolding eq
  proof (rule invites_step, intro conjI)
    assume ok: "accounts_ok coll d"
    note D = accounts_okD[OF ok]
    show "rows_dev invite_dev ?is (row_put ri_id ?r ?is)"
      by (rule rows_dev_replace[OF D(7) assms(1)]) (simp_all add: invite_dev_def assms(2))
    show "distinct (map ri_id (row_put ri_id ?r ?is))" using D(7) by (simp add: row_simps)
    show "distinct (map ri_token_hash (row_put ri_id ?r ?is))"
      using D(9) map_row_put_same[OF D(7) assms(1), of ?r ri_token_hash] by simp
    show "\<forall>t \<in> set (row_put ri_id ?r ?is). ri_id t < d_next_invite d"
      using D(8) assms(1) by (auto dest: row_putD)
  qed
qed

lemma one_active_map:
  assumes "one_active on pair rs" and "\<And>x. x \<in> set rs \<Longrightarrow> pair (f x) = pair x \<and> (on (f x) \<longrightarrow> on x)"
  shows "one_active on pair (map f rs)"
  using assms
proof (induction rs)
  case (Cons y rs)
  then have "one_active on pair (map f rs)" by (auto simp: one_active_def split: if_splits)
  moreover have "pair y \<notin> pair ` {x \<in> set rs. on x}" if "on y" using Cons.prems(1) that by (simp add: one_active_def)
  moreover have "pair (f x) = pair x" "on (f x) \<Longrightarrow> on x" if "x \<in> set (y # rs)" for x using Cons.prems(2)[OF that] by auto
  ultimately show ?case by (fastforce simp: one_active_def)
qed (simp add: one_active_def)

lemma distinct_map_snoc: "distinct (map f (xs @ [r])) \<longleftrightarrow> distinct (map f xs) \<and> (\<forall>x \<in> set xs. f x \<noteq> f r)"
proof -
  have "f r \<notin> f ` set xs \<longleftrightarrow> (\<forall>x \<in> set xs. f x \<noteq> f r)" by (metis image_iff)
  then show ?thesis by simp
qed

section \<open>The services\<close>

lemma issue_setup_token_step: "settles (accounts_ok coll) accounts_dev s (issue_setup_token env plaintext uid purpose actor lab s)"
  unfolding settles_def
proof (intro allI impI)
  fix x s' assume eq: "issue_setup_token env plaintext uid purpose actor lab s = Inr (x, s')"
  let ?d = "s_db s" and ?old = "retire_tokens uid (s_clock s) (d_setup_tokens (s_db s))"
  obtain row where r: "row = \<lparr>tk_id = d_next_setup_token ?d, tk_user_id = uid, tk_token_hash = av_hash_token env plaintext,
      tk_purpose = purpose, tk_expires_at = s_clock s + minutes (60 * av_token_ttl_hours env), tk_used_at = None,
      tk_created_by_user_id = actor\<rparr>" by simp
  obtain e where s': "s' = audit_write e (upd_db (\<lambda>d. d\<lparr>d_setup_tokens := ?old @ [row], d_next_setup_token := tk_id row + 1\<rparr>) s)"
    and no: "\<forall>t \<in> set ?old. tk_token_hash t \<noteq> tk_token_hash row"
    using eq by (auto simp: issue_setup_token_def Let_def r list_ex_iff split: if_splits)
  have "step_ok (accounts_ok coll) accounts_dev ?d (?d\<lparr>d_setup_tokens := ?old @ [row], d_next_setup_token := tk_id row + 1\<rparr>)"
  proof (rule tokens_step, intro conjI)
    assume ok: "accounts_ok coll ?d"
    note D = accounts_okD[OF ok]
    have ids: "map tk_id ?old = map tk_id (d_setup_tokens ?d)" "map tk_token_hash ?old = map tk_token_hash (d_setup_tokens ?d)"
      by (simp_all add: retire_tokens_def)
    have below: "\<forall>t \<in> set ?old. tk_id t < tk_id row" using D(4) by (auto simp: retire_tokens_def r)
    have "rows_dev token_dev (d_setup_tokens ?d) ?old"
      unfolding retire_tokens_def by (rule rows_dev_map) (auto simp: token_dev_def)
    then show "rows_dev token_dev (d_setup_tokens ?d) (?old @ [row])"
      using rows_dev_append[of token_dev ?old "[row]"] rows_dev_trans[OF account_dev_trans(1)] by auto
    have "distinct (map tk_id ?old)" "distinct (map tk_token_hash ?old)" using D(3,5) by (simp_all only: ids)
    then show "distinct (map tk_id (?old @ [row]))" "distinct (map tk_token_hash (?old @ [row]))"
      unfolding distinct_map_snoc using below no by auto
    show "\<forall>t \<in> set (?old @ [row]). tk_id t < tk_id row + 1" using below by auto
    have "one_active (\<lambda>t. tk_used_at t = None) tk_user_id ?old"
      unfolding retire_tokens_def by (rule one_active_map[OF D(6)]) simp
    moreover have "filter (\<lambda>x. tk_user_id x = uid \<and> tk_used_at x = None) ?old = []"
      unfolding filter_empty_conv retire_tokens_def set_map by (intro ballI) (elim imageE, simp)
    moreover have "tk_user_id row = uid" by (simp add: r)
    ultimately show "one_active (\<lambda>t. tk_used_at t = None) tk_user_id (?old @ [row])"
      by (simp add: one_active_append)
  qed
  then show "step_ok (accounts_ok coll) accounts_dev ?d (s_db s')"
    unfolding s' by (intro accounts.audited) simp
qed

lemma issue_invite_step: "settles (accounts_ok coll) accounts_dev s (issue_registration_invite env plaintext lab role actor s)"
  unfolding settles_def
proof (intro allI impI)
  fix x s' assume eq: "issue_registration_invite env plaintext lab role actor s = Inr (x, s')"
  let ?d = "s_db s"
  obtain row e where s': "s' = audit_write e (upd_db (\<lambda>d. d\<lparr>d_invites := d_invites d @ [row], d_next_invite := ri_id row + 1\<rparr>) s)"
    and id: "ri_id row = d_next_invite ?d" and no: "\<forall>i \<in> set (d_invites ?d). ri_token_hash i \<noteq> ri_token_hash row"
    using eq by (auto simp: issue_registration_invite_def Let_def list_ex_iff split: if_splits)
  have "step_ok (accounts_ok coll) accounts_dev ?d (?d\<lparr>d_invites := d_invites ?d @ [row], d_next_invite := ri_id row + 1\<rparr>)"
  proof (rule invites_step, intro conjI)
    assume ok: "accounts_ok coll ?d"
    note D = accounts_okD[OF ok]
    show "rows_dev invite_dev (d_invites ?d) (d_invites ?d @ [row])" by (rule rows_dev_append) simp
    show "distinct (map ri_id (d_invites ?d @ [row]))" using D(7,8) id by auto
    show "distinct (map ri_token_hash (d_invites ?d @ [row]))" using D(9) no by (auto simp: image_iff)
    show "\<forall>i \<in> set (d_invites ?d @ [row]). ri_id i < ri_id row + 1" using D(8) id by auto
  qed
  then show "step_ok (accounts_ok coll) accounts_dev ?d (s_db s')"
    unfolding s' by (intro accounts.audited) simp
qed

lemma revoke_invite_step: "settles (accounts_ok coll) accounts_dev s (revoke_registration_invite iid lab actor ctx s)"
  unfolding settles_def
proof (intro allI impI)
  fix x s' assume eq: "revoke_registration_invite iid lab actor ctx s = Inr (x, s')"
  then obtain i e where i: "invite_in_lab s iid lab = Some i" "invite_status i (s_clock s) = InviteActive"
    and s': "s' = audit_write e (upd_db (put_invite (i\<lparr>ri_used_at := Some (s_clock s), ri_used_by_user_id := None\<rparr>)) s)"
    by (auto simp: revoke_registration_invite_def Let_def rbind_eq_Inr split: option.splits if_splits)
  have "i \<in> set (d_invites (s_db s))" using i(1) by (auto simp: invite_in_lab_def find_Some_iff)
  moreover have "ri_used_at i = None" using i(2) by (auto simp: invite_status_def split: option.splits if_splits)
  ultimately show "step_ok (accounts_ok coll) accounts_dev (s_db s) (s_db s')"
    unfolding s' by (intro accounts.audited) (simp add: put_invite_step)
qed

lemma add_key_step: "settles (accounts_ok coll) accounts_dev s (add_key digest raw label owner lab ctx s)"
  unfolding settles_def
proof (intro allI impI)
  fix x s' assume eq: "add_key digest raw label owner lab ctx s = Inr (x, s')"
  let ?d = "s_db s"
  obtain row e where s': "s' = audit_write e (upd_db (\<lambda>d. d\<lparr>d_ssh_keys := d_ssh_keys d @ [row], d_next_ssh_key := sk_id row + 1\<rparr>) s)"
    and id: "sk_id row = d_next_ssh_key ?d" and no: "keys_with s (sk_user_id row) (sk_fingerprint_sha256 row) = []"
    using eq by (auto simp: add_key_def Let_def rbind_eq_Inr split: if_splits)
  have "step_ok (accounts_ok coll) accounts_dev ?d (?d\<lparr>d_ssh_keys := d_ssh_keys ?d @ [row], d_next_ssh_key := sk_id row + 1\<rparr>)"
  proof (rule keys_step, intro conjI)
    assume ok: "accounts_ok coll ?d"
    note D = accounts_okD[OF ok]
    show "rows_dev key_dev (d_ssh_keys ?d) (d_ssh_keys ?d @ [row])" by (rule rows_dev_append) simp
    show "distinct (map sk_id (d_ssh_keys ?d @ [row]))" using D(10,11) id by auto
    show "distinct (map (\<lambda>k. (sk_user_id k, sk_fingerprint_sha256 k)) (d_ssh_keys ?d @ [row]))"
      using D(12) no by (auto simp: keys_with_def filter_empty_conv image_iff)
    show "\<forall>i \<in> set (d_ssh_keys ?d @ [row]). sk_id i < sk_id row + 1" using D(11) id by auto
  qed
  then show "step_ok (accounts_ok coll) accounts_dev ?d (s_db s')"
    unfolding s' by (intro accounts.audited) simp
qed

lemma remove_key_step: "settles (accounts_ok coll) accounts_dev s (remove_key kid owner lab ctx s)"
  unfolding settles_def
proof (intro allI impI)
  fix x s' assume eq: "remove_key kid owner lab ctx s = Inr (x, s')"
  let ?d = "s_db s"
  show "step_ok (accounts_ok coll) accounts_dev ?d (s_db s')"
  proof (cases "s' = s")
    case False
    with eq obtain k e where k: "get_key s kid = Some k" "sk_is_active k"
      and s': "s' = audit_write e (upd_db (put_key (k\<lparr>sk_is_active := False, sk_disabled_at := Some (s_clock s)\<rparr>)) s)"
      by (auto simp: remove_key_def Let_def split: option.splits if_splits)
    let ?r = "k\<lparr>sk_is_active := False, sk_disabled_at := Some (s_clock s)\<rparr>" and ?ks = "d_ssh_keys ?d"
    have mem: "k \<in> set ?ks" using k(1) by (auto simp: get_key_def dest: row_by_Some)
    have eq: "put_key ?r ?d = ?d\<lparr>d_ssh_keys := row_put sk_id ?r ?ks, d_next_ssh_key := d_next_ssh_key ?d\<rparr>"
      by (simp add: put_key_def)
    have "step_ok (accounts_ok coll) accounts_dev ?d (put_key ?r ?d)" unfolding eq
    proof (rule keys_step, intro conjI)
      assume ok: "accounts_ok coll ?d"
      note D = accounts_okD[OF ok]
      show "rows_dev key_dev ?ks (row_put sk_id ?r ?ks)"
        by (rule rows_dev_replace[OF D(10) mem]) (simp_all add: key_dev_def k(2))
      show "distinct (map sk_id (row_put sk_id ?r ?ks))" using D(10) by (simp add: row_simps)
      show "distinct (map (\<lambda>k. (sk_user_id k, sk_fingerprint_sha256 k)) (row_put sk_id ?r ?ks))"
        using D(12) map_row_put_same[OF D(10) mem, of ?r "\<lambda>k. (sk_user_id k, sk_fingerprint_sha256 k)"] by simp
      show "\<forall>t \<in> set (row_put sk_id ?r ?ks). sk_id t < d_next_ssh_key ?d"
        using D(11) mem by (auto dest: row_putD)
    qed
    then show ?thesis unfolding s' by (intro accounts.audited) simp
  qed simp
qed

end
