(* ===== verification/Account_System.thy ===== *)
theory Account_System
  imports Account_Props
begin

text \<open>
  The account endpoints as transactions: each keeps the account tables legal and only develops them.
  \<open>account_step\<close> is the step relation whose steps are committed requests; its runs inherit both, and
  from them that a lab keeps its administrators and that one-time tokens work once.
\<close>

section \<open>Login and activation\<close>

lemma one_or_none_mem: "one_or_none e xs = Inr (Some x) \<Longrightarrow> x \<in> set xs"
  by (simp add: one_or_none_Some)

lemma login_user_step:
  assumes "symp coll" and "accounts_ok coll (s_db s)" and "u \<in> set (user_rows (s_db s))"
  shows "step_ok (accounts_ok coll) accounts_dev (s_db s) (put_user (u\<lparr>u_last_login_at := t\<rparr>) (s_db s))"
  using assms(3) user_rows_mem[OF assms(2)]
  by (intro put_same_name_step[OF assms(1)]) (auto simp: user_dev_def is_admin_def)

lemma authenticate_step:
  assumes "symp coll"
  shows "step_ok (accounts_ok coll) accounts_dev (s_db s) (s_db (fst (snd (authenticate env name pw (s, rs)))))"
proof (rule step_okI)
  assume ok: "accounts_ok coll (s_db s)"
  have "step_ok (accounts_ok coll) accounts_dev (s_db s) (s_db (fst (snd (authenticate env name pw (s, rs)))))"
  proof (cases "login_rows env name s" rule: remdups_adj.cases)
    case (2 u)
    then have "u \<in> set (login_rows env name s)" by simp
    then have "u \<in> set (user_rows (s_db s))" by (simp add: login_rows_def)
    note login = login_user_step[OF assms ok this]
    show ?thesis using 2 login
      by (auto simp: authenticate_def login_audit_def Let_def split: prod.splits option.splits intro!: accounts.audited)
  qed (auto simp: authenticate_def login_audit_def Let_def split: prod.splits intro!: accounts.audited)
  with ok show "accounts_ok coll (s_db (fst (snd (authenticate env name pw (s, rs)))))
      \<and> accounts_dev (s_db s) (s_db (fst (snd (authenticate env name pw (s, rs)))))" by (simp add: step_ok_def)
qed

lemma add_initial_key_step:
  assumes "add_initial_key env a u s = Inr s'" and "step_ok (accounts_ok coll) accounts_dev d (s_db s)"
  shows "step_ok (accounts_ok coll) accounts_dev d (s_db s')"
  using assms
  by (auto simp: add_initial_key_def split: option.splits sum.splits intro: accounts.settles_step[OF add_key_step])

lemma lookup_token: "lookup_active_token env tok s = Inr t \<Longrightarrow>
    t \<in> set (d_setup_tokens (s_db s)) \<and> tk_used_at t = None \<and> tk_token_hash t = av_hash_token env tok \<and> s_clock s < tk_expires_at t"
  by (auto simp: lookup_active_token_def live_check_def rbind_eq_Inr split: option.splits if_splits dest!: one_or_none_mem)

lemma lookup_invite: "lookup_active_registration_invite env tok s = Inr i \<Longrightarrow>
    i \<in> set (d_invites (s_db s)) \<and> ri_used_at i = None \<and> ri_token_hash i = av_hash_token env tok \<and> s_clock s < ri_expires_at i"
  by (auto simp: lookup_active_registration_invite_def live_check_def rbind_eq_Inr split: option.splits if_splits dest!: one_or_none_mem)

lemma complete_registration_step:
  assumes "symp (av_coll env)" and "i \<in> set (d_invites (s_db s))" and "ri_used_at i = None"
  shows "settles (accounts_ok (av_coll env)) accounts_dev s (complete_registration_invite env i a s)"
  unfolding settles_def
proof (intro allI impI)
  fix u s' assume eq: "complete_registration_invite env i a s = Inr (u, s')"
  then obtain new s1 s3 e e' where ins: "insert_user (av_coll env) new s = Inr (u, s1)"
    and key: "add_initial_key env a u (upd_db (put_invite (i\<lparr>ri_used_at := Some (s_clock s), ri_used_by_user_id := Some (u_id u)\<rparr>)) s1) = Inr s3"
    and s': "s' = audit_write e (audit_write e' s3)"
    by (auto simp: complete_registration_invite_def Let_def rbind_eq_Inr split: option.splits sum.splits)
  have "d_invites (s_db s1) = d_invites (s_db s)"
    using ins by (auto simp: insert_user_def Let_def put_user_def split: if_splits)
  with assms(2) have "i \<in> set (d_invites (s_db s1))" by simp
  from accounts.trans_step[OF insert_user_step(1)[OF assms(1) ins] put_invite_step[OF this assms(3)]]
  have "step_ok (accounts_ok (av_coll env)) accounts_dev (s_db s)
      (s_db (upd_db (put_invite (i\<lparr>ri_used_at := Some (s_clock s), ri_used_by_user_id := Some (u_id u)\<rparr>)) s1))" by simp
  from add_initial_key_step[OF key this]
  show "step_ok (accounts_ok (av_coll env)) accounts_dev (s_db s) (s_db s')"
    unfolding s' by (intro accounts.audited)
qed

lemma activate_step:
  assumes "symp (av_coll env)"
  shows "settles (accounts_ok (av_coll env)) accounts_dev s (activate env a s)"
proof (cases "lookup_active_token env (ac_token a) s")
  case (Inl e)
  then show ?thesis
    by (auto simp: activate_def intro!: settles_Inl settles_bind complete_registration_step[OF assms] dest: lookup_invite)
next
  case (Inr t)
  note t = lookup_token[OF Inr]
  show ?thesis unfolding settles_def
  proof (intro allI impI)
    fix x s' assume eq: "activate env a s = Inr (x, s')"
    let ?w = "\<lambda>u. activated_user env t u a" and ?r = "t\<lparr>tk_used_at := Some (s_clock s)\<rparr>"
    obtain u s1 s3 e where u: "d_users (s_db s) (tk_user_id t) = Some u" and fl: "flush_user (av_coll env) (?w u) s = Inr s1"
      and key: "s3 = upd_db (put_token ?r) s1 \<or> add_initial_key env a (?w u) (upd_db (put_token ?r) s1) = Inr s3"
      and s': "s' = audit_write e s3"
      using eq Inr by (auto simp: activate_def Let_def rbind_eq_Inr split: option.splits sum.splits if_splits)
    show "step_ok (accounts_ok (av_coll env)) accounts_dev (s_db s) (s_db s')"
    proof (rule step_okI)
      assume ok: "accounts_ok (av_coll env) (s_db s)"
      have w: "u_id (?w u) = u_id u" "user_dev u (?w u)" "is_admin u \<Longrightarrow> is_admin (?w u)"
        by (simp_all add: activated_user_def Let_def user_dev_def is_admin_def)
      have "u_id u = tk_user_id t" using user_row[OF ok u] by simp
      with u w(1) have old: "d_users (s_db s) (u_id (?w u)) = Some u" by simp
      note s1 = flush_user_step[OF assms fl old w(2,3)]
      have "t \<in> set (d_setup_tokens (s_db s1))"
        using fl t by (auto simp: flush_user_def put_user_def split: if_splits)
      from use_token_step[OF this] t s1
      have "step_ok (accounts_ok (av_coll env)) accounts_dev (s_db s) (s_db (upd_db (put_token ?r) s1))"
        by (auto intro: accounts.trans_step)
      then have "step_ok (accounts_ok (av_coll env)) accounts_dev (s_db s) (s_db s3)"
        using key add_initial_key_step by blast
      then show "accounts_ok (av_coll env) (s_db s') \<and> accounts_dev (s_db s) (s_db s')"
        using ok accounts.audited unfolding s' by (metis step_ok_def)
    qed
  qed
qed

section \<open>User administration\<close>

lemma get_user_Inr: "get_user s uid lab = Inr u \<longleftrightarrow> d_users (s_db s) uid = Some u \<and> u_lab_id u = lab"
  by (auto simp: get_user_def split: option.splits)

lemma create_user_step:
  assumes "symp (av_coll env)"
  shows "settles (accounts_ok (av_coll env)) accounts_dev s (create_user env p lab actor s)"
  unfolding settles_def
proof (intro allI impI)
  fix x s' assume "create_user env p lab actor s = Inr (x, s')"
  then obtain new s1 where ins: "insert_user (av_coll env) new s = Inr (x, s1)" and "\<exists>e. s' = audit_write e s1"
    by (auto simp: create_user_def user_audit_def split: sum.splits)
  then obtain e where s': "s' = audit_write e s1" by blast
  show "step_ok (accounts_ok (av_coll env)) accounts_dev (s_db s) (s_db s')"
    unfolding s' by (rule accounts.audited[OF insert_user_step(1)[OF assms ins]])
qed

lemma update_user_step:
  assumes "symp (av_coll env)"
  shows "settles (accounts_ok (av_coll env)) accounts_dev s (update_user env uid display email actor role lab s)"
  unfolding settles_def
proof (intro allI impI)
  fix x s' assume eq: "update_user env uid display email actor role lab s = Inr (x, s')"
  then obtain u s1 where u: "d_users (s_db s) uid = Some u" and fl: "flush_user (av_coll env) x s = Inr s1"
    and x: "x = u\<lparr>u_display_name := or_keep display (u_display_name u), u_email := or_keep email (u_email u)\<rparr>"
    and "\<exists>e. s' = audit_write e s1"
    by (auto simp: update_user_def user_audit_def Let_def rbind_eq_Inr get_user_Inr split: sum.splits if_splits)
  then obtain e where s': "s' = audit_write e s1" by blast
  show "step_ok (accounts_ok (av_coll env)) accounts_dev (s_db s) (s_db s')"
  proof (rule step_okI)
    assume ok: "accounts_ok (av_coll env) (s_db s)"
    have "d_users (s_db s) (u_id x) = Some u" using user_row[OF ok u] u by (simp add: x)
    from flush_user_step[OF assms fl this]
    have "step_ok (accounts_ok (av_coll env)) accounts_dev (s_db s) (s_db s1)" by (simp add: x user_dev_def is_admin_def)
    with ok show "accounts_ok (av_coll env) (s_db s') \<and> accounts_dev (s_db s) (s_db s')"
      using accounts.audited unfolding s' by (metis step_ok_def)
  qed
qed

text \<open>What the check of the last administrator establishes.\<close>

lemma other_admin:
  assumes "accounts_ok coll (s_db s)" and "ensure_at_least_one_active_admin s uid lab = Inr ()"
  shows "\<exists>j v. j \<noteq> uid \<and> d_users (s_db s) j = Some v \<and> u_lab_id v = lab \<and> is_admin v"
proof -
  from assms(2) obtain v where "v \<in> set (active_admins (s_db s) lab)" "u_id v \<noteq> uid"
    by (auto simp: ensure_at_least_one_active_admin_def filter_empty_conv split: if_splits)
  then have "d_users (s_db s) (u_id v) = Some v" "u_lab_id v = lab" "is_admin v" "u_id v \<noteq> uid"
    using user_rows_mem[OF assms(1)] by (auto simp: active_admins_def is_admin_def)
  then show ?thesis by blast
qed

text \<open>A change of one row that keeps its names; the last administrator stays unless another one was found.\<close>

lemma edit_user_step:
  assumes "symp coll" and u: "d_users (s_db s) uid = Some u" and "u_lab_id u = lab"
    and same: "u_id u' = u_id u" "u_username u' = u_username u" "u_email u' = u_email u" "user_dev u u'"
    and admin: "is_admin u \<Longrightarrow> \<not> is_admin u' \<Longrightarrow> ensure_at_least_one_active_admin s (u_id u) lab = Inr ()"
  shows "step_ok (accounts_ok coll) accounts_dev (s_db s) (put_user u' (s_db s))"
proof (rule step_okI)
  assume ok: "accounts_ok coll (s_db s)"
  have "d_users (s_db s) (u_id u') = Some u" using user_row[OF ok u] u same by simp
  moreover have "\<exists>j v. j \<noteq> u_id u' \<and> d_users (s_db s) j = Some v \<and> u_lab_id v = u_lab_id u \<and> is_admin v"
    if "is_admin u" "\<not> is_admin u'"
    using other_admin[OF ok admin[OF that]] same(1) assms(3) by simp
  ultimately show "accounts_ok coll (put_user u' (s_db s)) \<and> accounts_dev (s_db s) (put_user u' (s_db s))"
    using put_same_name_step[OF assms(1) _ same(4,2,3)] ok by (metis step_ok_def)
qed

lemma change_role_step:
  assumes "symp coll"
  shows "settles (accounts_ok coll) accounts_dev s (change_role uid role actor lab ctx s)"
  unfolding settles_def
proof (intro allI impI)
  fix x s' assume eq: "change_role uid role actor lab ctx s = Inr (x, s')"
  then obtain u where u: "d_users (s_db s) uid = Some u" "u_lab_id u = lab" and x: "x = u\<lparr>u_role := role\<rparr>"
    and chk: "u_role u = RoleLabAdmin \<Longrightarrow> role \<noteq> RoleLabAdmin \<Longrightarrow> ensure_at_least_one_active_admin s (u_id u) lab = Inr ()"
    and "\<exists>e. s' = audit_write e (upd_db (put_user x) s)"
    by (auto simp: change_role_def user_audit_def Let_def rbind_eq_Inr get_user_Inr split: if_splits)
  then obtain e where s': "s' = audit_write e (upd_db (put_user x) s)" by blast
  have "step_ok (accounts_ok coll) accounts_dev (s_db s) (put_user x (s_db s))"
    by (rule edit_user_step[OF assms u]) (use chk in \<open>auto simp: x user_dev_def is_admin_def\<close>)
  then show "step_ok (accounts_ok coll) accounts_dev (s_db s) (s_db s')"
    unfolding s' by (intro accounts.audited) simp
qed

lemma reactivate_user_step:
  assumes "symp coll"
  shows "settles (accounts_ok coll) accounts_dev s (reactivate_user uid actor lab ctx s)"
  unfolding settles_def
proof (intro allI impI)
  fix x s' assume eq: "reactivate_user uid actor lab ctx s = Inr (x, s')"
  then obtain u where u: "d_users (s_db s) uid = Some u" "u_lab_id u = lab"
    and "s' = s \<or> (\<exists>e. s' = audit_write e (upd_db (put_user (u\<lparr>u_is_active := True\<rparr>)) s))"
    by (auto simp: reactivate_user_def user_audit_def Let_def rbind_eq_Inr get_user_Inr split: if_splits)
  moreover have "step_ok (accounts_ok coll) accounts_dev (s_db s) (put_user (u\<lparr>u_is_active := True\<rparr>) (s_db s))"
    by (rule edit_user_step[OF assms u]) (auto simp: user_dev_def is_admin_def)
  ultimately show "step_ok (accounts_ok coll) accounts_dev (s_db s) (s_db s')"
    by (auto intro!: accounts.audited)
qed

lemma change_password_step:
  assumes "symp coll"
  shows "step_ok (accounts_ok coll) accounts_dev (s_db s) (s_db (snd (change_password env actor lab old new s)))"
proof (cases "get_user s actor lab")
  case (Inr u)
  then have u: "d_users (s_db s) actor = Some u" "u_lab_id u = lab" by (simp_all add: get_user_Inr)
  have "step_ok (accounts_ok coll) accounts_dev (s_db s) (put_user (u\<lparr>u_password_hash := h\<rparr>) (s_db s))" for h
    by (rule edit_user_step[OF assms u]) (auto simp: user_dev_def is_admin_def)
  with Inr show ?thesis by (auto simp: change_password_def Let_def intro!: accounts.audited)
qed (simp add: change_password_def)

lemma issue_for_step: "settles (accounts_ok coll) accounts_dev s (issue_for env tok purpose u actor lab s)"
  using issue_setup_token_step[of coll s env tok "u_id u" purpose "Some actor" "Some lab"]
  by (auto simp: issue_for_def settles_def split: sum.splits)

lemma password_reset_step: "settles (accounts_ok coll) accounts_dev s (issue_password_reset env tok uid actor lab s)"
  unfolding issue_password_reset_def by (intro settles_intros issue_for_step)

lemma resend_invite_step: "settles (accounts_ok coll) accounts_dev s (resend_invite env tok uid actor lab s)"
  unfolding resend_invite_def by (intro settles_intros issue_for_step)

section \<open>Disabling\<close>

text \<open>Revoking links and grants touches no account table.\<close>

lemma revoke_entries_same: "revoke_entries rpc p actor es s = Inr (os, s') \<Longrightarrow> same_accounts (s_db s) (s_db s')"
proof (induction es arbitrary: s os)
  case Nil
  then show ?case by (simp add: same_accounts_def)
next
  case (Cons e es)
  have put: "same_accounts (s_db s) (s_db (upd_db (put_key_entry x) s))" for x
    by (simp add: same_accounts_def put_key_entry_def)
  from Cons show ?case
    by (auto simp: rbind_eq_Inr split: option.splits intro: same_accounts_trans[OF put])
qed

lemma revoke_link_Inr:
  assumes "revoke_link rpc l actor reason lab sid rk ctx s = Inr (row, s')"
  shows "al_is_active l \<and> row = revoked_row l actor reason s \<and>
    (let s1 = upd_db (put_link row) s in \<exists>out s2 e. s' = audit_write e s2 \<and>
      (if rk then (case d_pas (s_db s1) (al_physical_account_id l) of None \<Rightarrow> Inr ([], s1)
         | Some p \<Rightarrow> revoke_entries rpc p actor (entries_to_revoke (s_db s1) (pa_id p) (al_user_id l)) s1) else Inr ([], s1)) = Inr (out, s2))"
  using assms by (auto simp: revoke_link_def Let_def rbind_eq_Inr split: if_splits)

lemma revoke_link_same: "revoke_link rpc l actor reason lab sid rk ctx s = Inr (row, s') \<Longrightarrow> same_accounts (s_db s) (s_db s')"
proof -
  assume "revoke_link rpc l actor reason lab sid rk ctx s = Inr (row, s')"
  from revoke_link_Inr[OF this] obtain out s2 e where s': "s' = audit_write e s2"
    and s2: "(if rk then (case d_pas (s_db (upd_db (put_link row) s)) (al_physical_account_id l) of None \<Rightarrow> Inr ([], upd_db (put_link row) s)
         | Some p \<Rightarrow> revoke_entries rpc p actor (entries_to_revoke (s_db (upd_db (put_link row) s)) (pa_id p) (al_user_id l)) (upd_db (put_link row) s))
       else Inr ([], upd_db (put_link row) s)) = Inr (out, s2)"
    unfolding Let_def by blast
  have "same_accounts (s_db s) (s_db (upd_db (put_link row) s))"
    by (simp add: same_accounts_def put_link_def)
  with s2 have "same_accounts (s_db s) (s_db s2)"
    by (auto intro: same_accounts_trans dest!: revoke_entries_same split: if_splits option.splits)
  then show ?thesis unfolding s' by (rule same_accounts_trans) simp
qed

lemma cut_links_same: "cut_links rpc actor lab ctx ls s = Inr s' \<Longrightarrow> same_accounts (s_db s) (s_db s')"
proof (induction ls arbitrary: s)
  case Nil
  then show ?case by (simp add: same_accounts_def)
next
  case (Cons l ls)
  obtain a sid where l: "l = (a, sid)" by (cases l)
  from Cons.prems[unfolded l] obtain row s1 where "revoke_link rpc a actor ''user_disabled'' lab sid True ctx s = Inr (row, s1)"
    and "cut_links rpc actor lab ctx ls s1 = Inr s'" by (auto split: sum.splits)
  then show ?case using Cons.IH revoke_link_same same_accounts_trans by blast
qed

lemma revoke_admin_same: "revoke_admin sid uid actor lab ctx s = Inr (g, s') \<Longrightarrow> same_accounts (s_db s) (s_db s')"
  by (auto simp: revoke_admin_def server_audit_def Let_def rbind_eq_Inr same_accounts_def put_grant_def audit_write_def split: option.splits)

lemma cut_grants_same: "cut_grants uid actor lab ctx gs s = Inr s' \<Longrightarrow> same_accounts (s_db s) (s_db s')"
proof (induction gs arbitrary: s)
  case Nil
  then show ?case by (simp add: same_accounts_def)
next
  case (Cons g gs)
  then obtain x s1 where "revoke_admin (gr_server_id g) uid actor lab ctx s = Inr (x, s1)"
    and "cut_grants uid actor lab ctx gs s1 = Inr s'" by (auto split: sum.splits)
  then show ?case using Cons.IH revoke_admin_same same_accounts_trans by blast
qed

lemma cascade_same: "cascade_revoke_access rpc uid actor lab ctx s = Inr s' \<Longrightarrow> same_accounts (s_db s) (s_db s')"
  by (auto simp: cascade_revoke_access_def rbind_eq_Inr dest!: cut_links_same cut_grants_same intro: same_accounts_trans)

lemma disable_user_Inr:
  assumes "disable_user rpc uid actor lab ctx s = Inr (u', s')"
  obtains u e where "actor \<noteq> uid" "d_users (s_db s) uid = Some u" "u_lab_id u = lab" "u' = u\<lparr>u_is_active := False\<rparr>"
    "is_admin u \<Longrightarrow> ensure_at_least_one_active_admin s (u_id u) lab = Inr ()"
    "cascade_revoke_access rpc uid actor lab ctx (audit_write e (upd_db (put_user u') s)) = Inr s'"
  using assms by (auto simp: disable_user_def user_audit_def Let_def rbind_eq_Inr get_user_Inr is_admin_def split: if_splits)

lemma disable_user_step:
  assumes "symp coll"
  shows "settles (accounts_ok coll) accounts_dev s (disable_user rpc uid actor lab ctx s)"
  unfolding settles_def
proof (intro allI impI)
  fix u' s' assume "disable_user rpc uid actor lab ctx s = Inr (u', s')"
  then obtain u e where u: "d_users (s_db s) uid = Some u" "u_lab_id u = lab" and u': "u' = u\<lparr>u_is_active := False\<rparr>"
    and chk: "is_admin u \<Longrightarrow> ensure_at_least_one_active_admin s (u_id u) lab = Inr ()"
    and casc: "cascade_revoke_access rpc uid actor lab ctx (audit_write e (upd_db (put_user u') s)) = Inr s'"
    by (rule disable_user_Inr) blast
  have "step_ok (accounts_ok coll) accounts_dev (s_db s) (put_user u' (s_db s))"
    by (rule edit_user_step[OF assms u]) (use chk in \<open>auto simp: u' user_dev_def is_admin_def\<close>)
  then have "step_ok (accounts_ok coll) accounts_dev (s_db s) (s_db (audit_write e (upd_db (put_user u') s)))"
    by (intro accounts.audited) simp
  from accounts.trans_step[OF this same_accounts_step[OF cascade_same[OF casc]]]
  show "step_ok (accounts_ok coll) accounts_dev (s_db s) (s_db s')" .
qed

section \<open>The system\<close>

text \<open>One step is one request of any caller; its session ends as \<open>get_session\<close> ends it.\<close>

inductive account_step :: "'r redis \<Rightarrow> (string \<Rightarrow> string \<Rightarrow> bool) \<Rightarrow> db \<Rightarrow> db \<Rightarrow> bool" for R coll where
  login: "account_step R coll d (snd (end_request d (out, s)))"
    if "login_ep env name pw (open_session d c, rs) = (out, s, rs')" "av_coll env = coll" "av_redis env = R"
| logout: "account_step R coll d (snd (end_request d (logout_ep env u (open_session d c))))" if "av_redis env = R"
| activation: "account_step R coll d (snd (end_request d (activate_ep env a (open_session d c))))" if "av_coll env = coll" "av_redis env = R"
| add_my_key: "account_step R coll d (snd (end_request d (add_my_key_ep env u raw label (open_session d c))))" if "av_redis env = R"
| delete_my_key: "account_step R coll d (snd (end_request d (delete_my_key_ep env u kid (open_session d c))))" if "av_redis env = R"
| edit: "account_step R coll d (snd (end_request d (update_user_ep env u uid display email (open_session d c))))" if "av_coll env = coll" "av_redis env = R"
| role: "account_step R coll d (snd (end_request d (change_role_ep env u uid r (open_session d c))))" if "av_redis env = R"
| disable: "account_step R coll d (snd (end_request d (disable_user_ep env rpc u uid (open_session d c))))" if "av_redis env = R"
| reactivate: "account_step R coll d (snd (end_request d (reactivate_user_ep env u uid (open_session d c))))" if "av_redis env = R"
| password: "account_step R coll d (snd (end_request d (change_password_ep env u old new (open_session d c))))" if "av_redis env = R"
| reset: "account_step R coll d (snd (end_request d (reset_user_password_ep env tok u uid (open_session d c))))" if "av_redis env = R"
| resend: "account_step R coll d (snd (end_request d (resend_invite_ep env tok u uid (open_session d c))))" if "av_redis env = R"
| invite: "account_step R coll d (snd (end_request d (create_registration_invite_ep env tok u r (open_session d c))))" if "av_redis env = R"
| old_invite: "account_step R coll d (snd (end_request d (invite_user_ep env tok u p (open_session d c))))" if "av_redis env = R"
| revoke_invite: "account_step R coll d (snd (end_request d (revoke_registration_invite_ep env u iid (open_session d c))))" if "av_redis env = R"

text \<open>Endpoints made of a service that settles.\<close>

lemma auth_outcome_step: "settles ok dev s m \<Longrightarrow> step_ok ok dev (s_db s) (s_db s) \<Longrightarrow> step_ok ok dev (s_db s) (s_db (snd (auth_outcome m s)))"
  by (auto simp: auth_outcome_def settles_def split: sum.splits)

lemma user_outcome_step: "settles ok dev s m \<Longrightarrow> step_ok ok dev (s_db s) (s_db s) \<Longrightarrow> step_ok ok dev (s_db s) (s_db (snd (user_outcome m s)))"
  by (auto simp: user_outcome_def settles_def split: sum.splits)

text \<open>A request of a lab administrator.\<close>

lemma admin_request_step:
  assumes "settles (accounts_ok coll) accounts_dev (open_session d c) (m (open_session d c))"
  shows "step_ok (accounts_ok coll) accounts_dev d (snd (end_request d (by_lab_admin u (\<lambda>s. user_outcome (m s) s) (open_session d c))))"
  using user_outcome_step[OF assms] by (intro accounts.request_step) (simp add: by_lab_admin_def split: sum.splits)

lemma admin_auth_step:
  assumes "settles (accounts_ok coll) accounts_dev (open_session d c) (m (open_session d c))"
  shows "step_ok (accounts_ok coll) accounts_dev d (snd (end_request d (by_lab_admin u (\<lambda>s. auth_outcome (m s) s) (open_session d c))))"
  using auth_outcome_step[OF assms] by (intro accounts.request_step) (simp add: by_lab_admin_def split: sum.splits)

lemma account_step_keeps:
  assumes "symp coll" and "account_step R coll d d'"
  shows "step_ok (accounts_ok coll) accounts_dev d d'"
  using assms(2)
proof cases
  case (login env name pw c rs out s rs')
  have "s = fst (snd (authenticate env name pw (open_session d c, rs)))"
    using login(2) by (auto simp: login_ep_def split: prod.splits sum.splits)
  with authenticate_step[OF assms(1), of "open_session d c" env name pw rs]
  show ?thesis unfolding login(1) by (intro accounts.request_step) simp
next
  case (logout env u c)
  show ?thesis unfolding logout(1)
    using accounts.audited[OF accounts.refl_step, where s = "open_session d c"]
    by (intro accounts.request_step) (simp add: logout_ep_def record_logout_def)
next
  case (activation env a c)
  show ?thesis unfolding activation(1) activate_ep_def
    using auth_outcome_step[OF activate_step[of env "open_session d c" a]] assms(1) activation(2)
    by (intro accounts.request_step) simp
next
  case (add_my_key env u raw label c)
  show ?thesis unfolding add_my_key(1)
    using add_key_step[of coll "open_session d c" "av_digest env" raw label "u_id u" "u_lab_id u" "av_ctx env"]
    by (intro accounts.request_step) (auto simp: add_my_key_ep_def settles_def split: sum.splits)
next
  case (delete_my_key env u kid c)
  show ?thesis unfolding delete_my_key(1)
    using remove_key_step[of coll "open_session d c" kid "u_id u" "u_lab_id u" "av_ctx env"]
    by (intro accounts.request_step) (auto simp: delete_my_key_ep_def settles_def split: sum.splits)
next
  case (edit env u uid display email c)
  show ?thesis unfolding edit(1) update_user_ep_def
    using user_outcome_step[OF update_user_step[of env "open_session d c" uid display email "u_id u" "u_role u" "u_lab_id u"]] assms(1) edit(2)
    by (intro accounts.request_step) simp
next
  case (role env u uid r c)
  show ?thesis unfolding role(1) change_role_ep_def
    by (rule admin_request_step) (rule change_role_step[OF assms(1)])
next
  case (disable env rpc u uid c)
  show ?thesis unfolding disable(1) disable_user_ep_def
    by (rule admin_request_step) (rule disable_user_step[OF assms(1)])
next
  case (reactivate env u uid c)
  show ?thesis unfolding reactivate(1) reactivate_user_ep_def
    by (rule admin_request_step) (rule reactivate_user_step[OF assms(1)])
next
  case (password env u old new c)
  show ?thesis unfolding password(1)
    using change_password_step[OF assms(1), of "open_session d c" env "u_id u" "u_lab_id u" old new]
    by (intro accounts.request_step) (auto simp: change_password_ep_def split: prod.splits sum.splits user_error.splits)
next
  case (reset env tok u uid c)
  show ?thesis unfolding reset(1) reset_user_password_ep_def
    by (rule admin_request_step) (rule password_reset_step)
next
  case (resend env tok u uid c)
  show ?thesis unfolding resend(1) resend_invite_ep_def
    by (rule admin_request_step) (rule resend_invite_step)
next
  case (invite env tok u r c)
  show ?thesis unfolding invite(1) create_registration_invite_ep_def
    by (rule admin_auth_step) (rule issue_invite_step)
next
  case (old_invite env tok u p c)
  show ?thesis unfolding old_invite(1) invite_user_ep_def
    by (rule admin_auth_step) (rule issue_invite_step)
next
  case (revoke_invite env u iid c)
  show ?thesis unfolding revoke_invite(1) revoke_registration_invite_ep_def
    by (rule admin_auth_step) (rule revoke_invite_step)
qed

lemma account_runs_keep: "symp coll \<Longrightarrow> (account_step R coll)\<^sup>*\<^sup>* d d' \<Longrightarrow> step_ok (accounts_ok coll) accounts_dev d d'"
  by (rule accounts.runs_ok[where R = "account_step R coll"]) (auto intro: account_step_keeps)

end
