(* ===== verification/Disable_Props.thy ===== *)
theory Disable_Props
  imports Account_System
begin

text \<open>
  What disabling an account takes away: the lemmas follow the cascade from one key entry to one link, to
  all links, to the grants.
\<close>

section \<open>One link\<close>

text \<open>Revoking key entries changes the entries only: those it names stop being active, the others stay.\<close>

lemma revoke_entries_Cons:
  assumes "revoke_entries rpc p actor (x # xs) s = Inr (os, s')" and "get_key s (ke_ssh_public_key_id x) = Some k"
  shows "\<exists>os'. revoke_entries rpc p actor xs (upd_db (put_key_entry (removed_entry x actor s)) s) = Inr (os', s')"
  using assms
  apply (simp add: rbind_eq_Inr)
  apply (elim exE conjE)
  apply (rule exI)
  apply assumption
  done

lemma revoke_entries_effect:
  assumes "revoke_entries rpc p actor es s = Inr (os, s')"
  shows "\<exists>E. s_db s' = (s_db s)\<lparr>d_key_entries := E\<rparr>"
    and "e \<in> set (d_key_entries (s_db s')) \<Longrightarrow> ke_is_active e \<Longrightarrow> e \<in> set (d_key_entries (s_db s))
      \<and> (\<forall>x \<in> set es. get_key s (ke_ssh_public_key_id x) \<noteq> None \<longrightarrow> ke_id x \<noteq> ke_id e)"
    and "e \<in> set (d_key_entries (s_db s)) \<Longrightarrow> ke_id e \<notin> ke_id ` set es \<Longrightarrow> e \<in> set (d_key_entries (s_db s'))"
  using assms
proof (induction es arbitrary: s os)
  case (Cons x xs)
  have keys: "get_key (upd_db (put_key_entry (removed_entry x actor s)) s) k = get_key s k" for k and s :: session
    by (simp add: get_key_def put_key_entry_def)
  have id: "ke_id (removed_entry x actor s) = ke_id x" "\<not> ke_is_active (removed_entry x actor s)" for s :: session
    by (simp_all add: removed_entry_def)
  {
    case 1
    let ?s1 = "upd_db (put_key_entry (removed_entry x actor s)) s"
    show ?case
    proof (cases "get_key s (ke_ssh_public_key_id x)")
      case None
      with 1 have "revoke_entries rpc p actor xs s = Inr (os, s')" by simp
      from Cons.IH(1)[OF this] show ?thesis .
    next
      case (Some k)
      have "\<exists>os'. revoke_entries rpc p actor xs ?s1 = Inr (os', s')" by (rule revoke_entries_Cons[OF 1 Some])
      then obtain os' where "revoke_entries rpc p actor xs ?s1 = Inr (os', s')" ..
      from Cons.IH(1)[OF this] obtain E where "s_db s' = (s_db ?s1)\<lparr>d_key_entries := E\<rparr>" by blast
      then have "s_db s' = (s_db s)\<lparr>d_key_entries := E\<rparr>" by (simp add: put_key_entry_def)
      then show ?thesis ..
    qed
  next
    case 2
    let ?s1 = "upd_db (put_key_entry (removed_entry x actor s)) s"
    show ?case
    proof (cases "get_key s (ke_ssh_public_key_id x)")
      case None
      then show ?thesis using 2 Cons.IH(2)[of s] by auto
    next
      case (Some k)
      have "\<exists>os'. revoke_entries rpc p actor xs ?s1 = Inr (os', s')" by (rule revoke_entries_Cons[OF 2(3) Some])
      then obtain os' where "revoke_entries rpc p actor xs ?s1 = Inr (os', s')" ..
      from Cons.IH(2)[OF 2(1,2) this] have e: "e \<in> set (d_key_entries (s_db ?s1))"
        "\<forall>y \<in> set xs. get_key s (ke_ssh_public_key_id y) \<noteq> None \<longrightarrow> ke_id y \<noteq> ke_id e" by (simp_all add: keys)
      from e(1) 2(2) id have "e \<in> set (d_key_entries (s_db s))" "ke_id e \<noteq> ke_id x"
        by (auto simp: put_key_entry_def dest: row_putD)
      with e(2) show ?thesis by auto
    qed
  next
    case 3
    let ?s1 = "upd_db (put_key_entry (removed_entry x actor s)) s"
    have "e \<in> set (d_key_entries (s_db ?s1))"
      using 3(1,2) by (auto simp: put_key_entry_def id(1) intro: row_put_other)
    with 3 show ?case using Cons.IH(3)[of ?s1] Cons.IH(3)[of s]
      by (auto simp: rbind_eq_Inr split: option.splits)
  }
next
  case Nil
  {
    case 1
    then have "s_db s' = (s_db s)\<lparr>d_key_entries := d_key_entries (s_db s)\<rparr>" by simp
    then show ?case ..
  }
qed auto

text \<open>What revoking one link with its keys does to links, accounts, grants and entries.\<close>

lemma revoke_link_effect:
  assumes "revoke_link rpc l actor reason lab sid True ctx s = Inr (row, s')"
  shows "d_links (s_db s') = (d_links (s_db s))(al_id l \<mapsto> row)" and "al_id row = al_id l" and "\<not> al_is_active row"
    and "d_pas (s_db s') = d_pas (s_db s)" and "d_grants (s_db s') = d_grants (s_db s)"
    and "d_ssh_keys (s_db s') = d_ssh_keys (s_db s)" and "d_link_ids (s_db s') = d_link_ids (s_db s)"
    and "e \<in> set (d_key_entries (s_db s')) \<Longrightarrow> ke_is_active e \<Longrightarrow> e \<in> set (d_key_entries (s_db s))
      \<and> (\<forall>q. d_pas (s_db s) (al_physical_account_id l) = Some q \<longrightarrow> get_key s (ke_ssh_public_key_id e) \<noteq> None \<longrightarrow>
           \<not> (ke_physical_account_id e = pa_id q \<and> ke_pushed_for_user_id e = al_user_id l))"
    and "e \<in> set (d_key_entries (s_db s)) \<Longrightarrow> distinct (map ke_id (d_key_entries (s_db s))) \<Longrightarrow>
      (\<And>q. d_pas (s_db s) (al_physical_account_id l) = Some q \<Longrightarrow> \<not> (ke_physical_account_id e = pa_id q \<and> ke_pushed_for_user_id e = al_user_id l)) \<Longrightarrow>
      e \<in> set (d_key_entries (s_db s'))"
proof -
  let ?s1 = "upd_db (put_link row) s"
  from revoke_link_Inr[OF assms] obtain out s2 a where row: "row = revoked_row l actor reason s" and s': "s' = audit_write a s2"
    and s2: "(case d_pas (s_db ?s1) (al_physical_account_id l) of None \<Rightarrow> Inr ([], ?s1)
         | Some q \<Rightarrow> revoke_entries rpc q actor (entries_to_revoke (s_db ?s1) (pa_id q) (al_user_id l)) ?s1) = Inr (out, s2)"
    unfolding Let_def by auto
  have s1: "d_pas (s_db ?s1) = d_pas (s_db s)" "d_key_entries (s_db ?s1) = d_key_entries (s_db s)"
    "get_key ?s1 k = get_key s k" for k by (simp_all add: put_link_def get_key_def)
  obtain E where fr: "s_db s2 = (s_db ?s1)\<lparr>d_key_entries := E\<rparr>"
  proof (cases "d_pas (s_db ?s1) (al_physical_account_id l)")
    case None
    with s2 have "s_db s2 = (s_db ?s1)\<lparr>d_key_entries := d_key_entries (s_db ?s1)\<rparr>" by auto
    then show ?thesis by (rule that)
  next
    case (Some q)
    with s2 have "revoke_entries rpc q actor (entries_to_revoke (s_db ?s1) (pa_id q) (al_user_id l)) ?s1 = Inr (out, s2)" by simp
    from revoke_entries_effect(1)[OF this] that show ?thesis by blast
  qed
  have fields: "d_links (s_db s2) = d_links (s_db ?s1)" "d_pas (s_db s2) = d_pas (s_db s)" "d_grants (s_db s2) = d_grants (s_db s)"
    "d_ssh_keys (s_db s2) = d_ssh_keys (s_db s)" "d_link_ids (s_db s2) = d_link_ids (s_db s)"
    by (simp_all add: fr put_link_def)
  show "al_id row = al_id l" "\<not> al_is_active row" by (simp_all add: row revoked_row_def)
  show "d_links (s_db s') = (d_links (s_db s))(al_id l \<mapsto> row)"
    using fields(1) by (simp add: s' audit_write_def put_link_def row revoked_row_def)
  show "d_pas (s_db s') = d_pas (s_db s)" "d_grants (s_db s') = d_grants (s_db s)"
    "d_ssh_keys (s_db s') = d_ssh_keys (s_db s)" "d_link_ids (s_db s') = d_link_ids (s_db s)"
    using fields by (simp_all add: s' audit_write_def)
  have ent: "d_key_entries (s_db s') = d_key_entries (s_db s2)" by (simp add: s' audit_write_def)
  show "e \<in> set (d_key_entries (s_db s)) \<and> (\<forall>q. d_pas (s_db s) (al_physical_account_id l) = Some q \<longrightarrow> get_key s (ke_ssh_public_key_id e) \<noteq> None \<longrightarrow>
           \<not> (ke_physical_account_id e = pa_id q \<and> ke_pushed_for_user_id e = al_user_id l))"
    if "e \<in> set (d_key_entries (s_db s'))" "ke_is_active e"
  proof (cases "d_pas (s_db s) (al_physical_account_id l)")
    case None
    with s2 that show ?thesis by (auto simp: ent s1 put_link_def)
  next
    case (Some q)
    with s2 have r: "revoke_entries rpc q actor (entries_to_revoke (s_db ?s1) (pa_id q) (al_user_id l)) ?s1 = Inr (out, s2)"
      by (simp add: s1)
    from revoke_entries_effect(2)[OF r that(1)[unfolded ent] that(2)]
    have "e \<in> set (d_key_entries (s_db s))" and no: "\<forall>x \<in> set (entries_to_revoke (s_db ?s1) (pa_id q) (al_user_id l)).
        get_key s (ke_ssh_public_key_id x) \<noteq> None \<longrightarrow> ke_id x \<noteq> ke_id e" by (simp_all add: s1)
    moreover from this have "e \<notin> set (entries_to_revoke (s_db ?s1) (pa_id q) (al_user_id l))"
      if "get_key s (ke_ssh_public_key_id e) \<noteq> None" using that by blast
    ultimately show ?thesis using Some \<open>ke_is_active e\<close> by (auto simp: entries_to_revoke_def s1)
  qed
  show "e \<in> set (d_key_entries (s_db s'))" if "e \<in> set (d_key_entries (s_db s))" "distinct (map ke_id (d_key_entries (s_db s)))"
      "\<And>q. d_pas (s_db s) (al_physical_account_id l) = Some q \<Longrightarrow> \<not> (ke_physical_account_id e = pa_id q \<and> ke_pushed_for_user_id e = al_user_id l)"
  proof (cases "d_pas (s_db s) (al_physical_account_id l)")
    case None
    with s2 that(1) show ?thesis by (simp add: ent s1) (auto simp: put_link_def)
  next
    case (Some q)
    with s2 have r: "revoke_entries rpc q actor (entries_to_revoke (s_db ?s1) (pa_id q) (al_user_id l)) ?s1 = Inr (out, s2)"
      by (simp add: s1)
    have "ke_id e \<notin> ke_id ` set (entries_to_revoke (s_db ?s1) (pa_id q) (al_user_id l))"
    proof
      assume "ke_id e \<in> ke_id ` set (entries_to_revoke (s_db ?s1) (pa_id q) (al_user_id l))"
      then obtain x where x: "x \<in> set (entries_to_revoke (s_db ?s1) (pa_id q) (al_user_id l))" "ke_id x = ke_id e" by auto
      then have "x \<in> set (d_key_entries (s_db s))" by (simp add: entries_to_revoke_def s1)
      with same_key_row[OF that(2)] that(1) x(2) have "x = e" by blast
      with x(1) that(3)[OF Some] show False by (simp add: entries_to_revoke_def)
    qed
    from revoke_entries_effect(3)[OF r _ this] that(1) show ?thesis by (simp add: ent s1)
  qed
qed

lemma revoke_entries_ids: "revoke_entries rpc p actor es s = Inr (os, s') \<Longrightarrow> map ke_id (d_key_entries (s_db s')) = map ke_id (d_key_entries (s_db s))"
proof (induction es arbitrary: s os)
  case (Cons x xs)
  have "map ke_id (d_key_entries (s_db (upd_db (put_key_entry (removed_entry x actor s)) s))) = map ke_id (d_key_entries (s_db s))"
    by (simp add: put_key_entry_def map_key_row_put)
  with Cons show ?case by (auto simp: rbind_eq_Inr split: option.splits)
qed simp

lemma revoke_link_ids:
  assumes "revoke_link rpc l actor reason lab sid True ctx s = Inr (row, s')"
  shows "map ke_id (d_key_entries (s_db s')) = map ke_id (d_key_entries (s_db s))"
  using revoke_link_Inr[OF assms]
  by (auto simp: Let_def audit_write_def put_link_def dest!: revoke_entries_ids split: option.splits)

section \<open>All links\<close>

text \<open>What every cut does: links and entries only end, accounts, keys and identities stay.\<close>

definition access_cut :: "db \<Rightarrow> db \<Rightarrow> bool" where
  "access_cut d d' \<longleftrightarrow> d_pas d' = d_pas d \<and> d_ssh_keys d' = d_ssh_keys d \<and> d_link_ids d' = d_link_ids d
     \<and> map ke_id (d_key_entries d') = map ke_id (d_key_entries d)
     \<and> (\<forall>i l. d_links d' i = Some l \<longrightarrow> al_is_active l \<longrightarrow> d_links d i = Some l)
     \<and> (\<forall>e \<in> set (d_key_entries d'). ke_is_active e \<longrightarrow> e \<in> set (d_key_entries d))"

lemma access_cut_refl [simp]: "access_cut d d"
  by (simp add: access_cut_def)

lemma access_cut_trans: "access_cut d e \<Longrightarrow> access_cut e f \<Longrightarrow> access_cut d f"
  unfolding access_cut_def by (elim conjE) (intro conjI; simp)

lemma revoke_link_cuts:
  assumes "revoke_link rpc l actor reason lab sid True ctx s = Inr (row, s')"
  shows "access_cut (s_db s) (s_db s')"
  using revoke_link_effect(1-7)[OF assms] revoke_link_effect(8)[OF assms] revoke_link_ids[OF assms]
  unfolding access_cut_def by (auto split: if_splits)

text \<open>The entry was pushed for the user of the link on its account.\<close>

definition entry_of_link :: "db \<Rightarrow> account_link \<Rightarrow> authorized_key_entry \<Rightarrow> bool" where
  "entry_of_link d l e \<longleftrightarrow> (case d_pas d (al_physical_account_id l) of None \<Rightarrow> False
     | Some q \<Rightarrow> ke_physical_account_id e = pa_id q \<and> ke_pushed_for_user_id e = al_user_id l)"

lemma cut_links_effect:
  assumes "cut_links rpc actor lab ctx ls s = Inr s'"
  shows "access_cut (s_db s) (s_db s')" and "d_grants (s_db s') = d_grants (s_db s)"
    and "(l, sid) \<in> set ls \<Longrightarrow> d_links (s_db s') (al_id l) = Some r \<Longrightarrow> \<not> al_is_active r"
    and "(l, sid) \<in> set ls \<Longrightarrow> e \<in> set (d_key_entries (s_db s')) \<Longrightarrow> ke_is_active e \<Longrightarrow>
      get_key s (ke_ssh_public_key_id e) \<noteq> None \<Longrightarrow> \<not> entry_of_link (s_db s) l e"
    and "e \<in> set (d_key_entries (s_db s)) \<Longrightarrow> distinct (map ke_id (d_key_entries (s_db s))) \<Longrightarrow>
      (\<And>l sid. (l, sid) \<in> set ls \<Longrightarrow> \<not> entry_of_link (s_db s) l e) \<Longrightarrow> e \<in> set (d_key_entries (s_db s'))"
  using assms
proof (induction ls arbitrary: s)
  case (Cons x xs)
  obtain k n where x: "x = (k, n)" by (cases x)
  have split: "\<exists>row s1. revoke_link rpc k actor ''user_disabled'' lab n True ctx s = Inr (row, s1)
      \<and> cut_links rpc actor lab ctx xs s1 = Inr s'" if "cut_links rpc actor lab ctx (x # xs) s = Inr s'" for s
    using that by (auto simp: x split: sum.splits)
  {
    case 1
    from split[OF this] show ?case using Cons.IH(1) revoke_link_cuts access_cut_trans by blast
  next
    case 2
    from split[OF this] show ?case using Cons.IH(2) revoke_link_effect(5) by fastforce
  next
    case 3
    from split[OF 3(3)] obtain row s1 where r: "revoke_link rpc k actor ''user_disabled'' lab n True ctx s = Inr (row, s1)"
      and c: "cut_links rpc actor lab ctx xs s1 = Inr s'" by blast
    show ?case
    proof (cases "(l, sid) \<in> set xs")
      case True
      from Cons.IH(3)[OF True 3(2) c] show ?thesis .
    next
      case False
      with 3(1) x have "l = k" by simp
      moreover have "d_links (s_db s1) (al_id k) = Some row" "\<not> al_is_active row" using revoke_link_effect(1-3)[OF r] by simp_all
      ultimately show ?thesis using Cons.IH(1)[OF c] 3(2) unfolding access_cut_def by fastforce
    qed
  next
    case 4
    from split[OF 4(5)] obtain row s1 where r: "revoke_link rpc k actor ''user_disabled'' lab n True ctx s = Inr (row, s1)"
      and c: "cut_links rpc actor lab ctx xs s1 = Inr s'" by blast
    have same: "get_key s1 i = get_key s i" "entry_of_link (s_db s1) = entry_of_link (s_db s)" for i
      using revoke_link_effect(4,6)[OF r] by (simp_all add: get_key_def entry_of_link_def fun_eq_iff)
    show ?case
    proof (cases "(l, sid) \<in> set xs")
      case True
      with Cons.IH(4)[OF True 4(2,3) _ c] 4(4) show ?thesis by (simp add: same)
    next
      case False
      with 4(1) x have "l = k" by simp
      moreover have "e \<in> set (d_key_entries (s_db s1))" using Cons.IH(1)[OF c] 4(2,3) by (simp add: access_cut_def)
      ultimately show ?thesis using revoke_link_effect(8)[OF r _ 4(3)] 4(4) by (auto simp: entry_of_link_def split: option.splits)
    qed
  next
    case 5
    from split[OF 5(4)] obtain row s1 where r: "revoke_link rpc k actor ''user_disabled'' lab n True ctx s = Inr (row, s1)"
      and c: "cut_links rpc actor lab ctx xs s1 = Inr s'" by blast
    have same: "entry_of_link (s_db s1) = entry_of_link (s_db s)"
      using revoke_link_effect(4)[OF r] by (simp add: entry_of_link_def fun_eq_iff)
    have "\<not> entry_of_link (s_db s) k e" using 5(3)[of k n] x by simp
    then have "e \<in> set (d_key_entries (s_db s1))"
      by (intro revoke_link_effect(9)[OF r 5(1,2)]) (auto simp: entry_of_link_def)
    then show ?case
      by (rule Cons.IH(5)[OF _ _ _ c]) (use 5(2,3) revoke_link_ids[OF r] in \<open>auto simp: same\<close>)
  }
qed auto

section \<open>Grants\<close>

text \<open>Revoking a grant ends the active grant of the user on that server and touches no other.\<close>

lemma revoke_admin_effect:
  assumes "revoke_admin sid uid actor lab ctx s = Inr (x, s')"
  shows "access_cut (s_db s) (s_db s') \<and> d_links (s_db s') = d_links (s_db s) \<and> d_key_entries (s_db s') = d_key_entries (s_db s)"
    and "g \<in> set (d_grants (s_db s')) \<Longrightarrow> gr_is_active g \<Longrightarrow> g \<in> set (d_grants (s_db s)) \<and> \<not> (gr_user_id g = uid \<and> gr_server_id g = sid)"
proof -
  let ?mine = "filter (\<lambda>g. gr_server_id g = sid) (active_grants (s_db s) uid)"
  from assms consider "?mine = []" "s' = s"
    | h e where "?mine = [h]" "s' = audit_write e (upd_db (put_grant (h\<lparr>gr_is_active := False, gr_revoked_by_user_id := Some actor,
        gr_revoked_at := Some (s_clock s)\<rparr>)) s)"
    by (auto simp: revoke_admin_def server_audit_def Let_def rbind_eq_Inr one_or_none_Some one_or_none_None split: option.splits)
  note cases = this
  show "access_cut (s_db s) (s_db s') \<and> d_links (s_db s') = d_links (s_db s) \<and> d_key_entries (s_db s') = d_key_entries (s_db s)"
    by (cases rule: cases) (simp_all add: access_cut_def audit_write_def put_grant_def)
  assume g: "g \<in> set (d_grants (s_db s'))" "gr_is_active g"
  show "g \<in> set (d_grants (s_db s)) \<and> \<not> (gr_user_id g = uid \<and> gr_server_id g = sid)"
  proof (cases rule: cases)
    case 1
    with g show ?thesis by (auto simp: active_grants_def filter_empty_conv)
  next
    case (2 h e)
    with g have "g \<in> set (d_grants (s_db s))" "gr_id g \<noteq> gr_id h"
      by (auto simp: audit_write_def put_grant_def dest!: row_putD)
    moreover have "g \<in> set ?mine \<Longrightarrow> g = h" using 2(1) by simp
    ultimately show ?thesis using g(2) by (auto simp: active_grants_def)
  qed
qed

lemma cut_grants_effect:
  assumes "cut_grants uid actor lab ctx gs s = Inr s'"
  shows "access_cut (s_db s) (s_db s') \<and> d_links (s_db s') = d_links (s_db s) \<and> d_key_entries (s_db s') = d_key_entries (s_db s)"
    and "g \<in> set (d_grants (s_db s')) \<Longrightarrow> gr_is_active g \<Longrightarrow>
      g \<in> set (d_grants (s_db s)) \<and> \<not> (gr_user_id g = uid \<and> gr_server_id g \<in> gr_server_id ` set gs)"
  using assms
proof (induction gs arbitrary: s)
  case (Cons x xs)
  have split: "\<exists>y s1. revoke_admin (gr_server_id x) uid actor lab ctx s = Inr (y, s1) \<and> cut_grants uid actor lab ctx xs s1 = Inr s'"
    if "cut_grants uid actor lab ctx (x # xs) s = Inr s'" for s
    using that by (auto split: sum.splits)
  {
    case 1
    from split[OF this] show ?case using Cons.IH(1) revoke_admin_effect(1) access_cut_trans by metis
  next
    case 2
    from split[OF 2(3)] obtain y s1 where "revoke_admin (gr_server_id x) uid actor lab ctx s = Inr (y, s1)"
      and c: "cut_grants uid actor lab ctx xs s1 = Inr s'" by blast
    with Cons.IH(2)[OF 2(1,2) c] revoke_admin_effect(2)[OF this(1) _ 2(2)] show ?case by auto
  }
qed auto

section \<open>Disabling\<close>

lemma map_filter_mem: "y \<in> set (List.map_filter f xs) \<longleftrightarrow> (\<exists>x \<in> set xs. f x = Some y)"
  by (induction xs) (auto simp: List.map_filter_simps split: option.splits)

lemma links_to_cut_mem: "(l, sid) \<in> set (links_to_cut d uid) \<longleftrightarrow> l \<in> set (link_rows d) \<and> al_user_id l = uid \<and> al_is_active l
    \<and> (\<exists>p. d_pas d (al_physical_account_id l) = Some p \<and> sid = pa_server_id p)"
  by (auto simp: links_to_cut_def map_filter_mem split: if_splits)

lemma cascade_effect:
  assumes "cascade_revoke_access rpc uid actor lab ctx s = Inr s'"
  shows "access_cut (s_db s) (s_db s')"
    and "active_grants (s_db s') uid = []"
    and "(l, sid) \<in> set (links_to_cut (s_db s) uid) \<Longrightarrow> d_links (s_db s') (al_id l) = Some r \<Longrightarrow> \<not> al_is_active r"
    and "(l, sid) \<in> set (links_to_cut (s_db s) uid) \<Longrightarrow> e \<in> set (d_key_entries (s_db s')) \<Longrightarrow> ke_is_active e \<Longrightarrow>
      get_key s (ke_ssh_public_key_id e) \<noteq> None \<Longrightarrow> \<not> entry_of_link (s_db s) l e"
    and "e \<in> set (d_key_entries (s_db s)) \<Longrightarrow> distinct (map ke_id (d_key_entries (s_db s))) \<Longrightarrow>
      (\<And>l sid. (l, sid) \<in> set (links_to_cut (s_db s) uid) \<Longrightarrow> \<not> entry_of_link (s_db s) l e) \<Longrightarrow> e \<in> set (d_key_entries (s_db s'))"
proof -
  from assms obtain s1 where l: "cut_links rpc actor lab ctx (links_to_cut (s_db s) uid) s = Inr s1"
    and g: "cut_grants uid actor lab ctx (active_grants (s_db s1) uid) s1 = Inr s'"
    by (auto simp: cascade_revoke_access_def rbind_eq_Inr)
  note L = cut_links_effect[OF l] and G = cut_grants_effect[OF g]
  show "access_cut (s_db s) (s_db s')" using L(1) G(1) access_cut_trans by blast
  show "active_grants (s_db s') uid = []"
  proof (rule ccontr)
    assume "active_grants (s_db s') uid \<noteq> []"
    then obtain x where "x \<in> set (d_grants (s_db s'))" "gr_user_id x = uid" "gr_is_active x"
      by (auto simp: active_grants_def filter_empty_conv)
    with G(2)[of x] show False by (auto simp: active_grants_def)
  qed
  show "\<not> al_is_active r" if "(l, sid) \<in> set (links_to_cut (s_db s) uid)" "d_links (s_db s') (al_id l) = Some r"
    using L(3)[OF that(1)] that(2) G(1) by simp
  show "\<not> entry_of_link (s_db s) l e" if "(l, sid) \<in> set (links_to_cut (s_db s) uid)" "e \<in> set (d_key_entries (s_db s'))"
    "ke_is_active e" "get_key s (ke_ssh_public_key_id e) \<noteq> None"
    using L(4)[OF that(1) _ that(3,4)] that(2) G(1) by simp
  show "e \<in> set (d_key_entries (s_db s'))" if "e \<in> set (d_key_entries (s_db s))" "distinct (map ke_id (d_key_entries (s_db s)))"
    "\<And>l sid. (l, sid) \<in> set (links_to_cut (s_db s) uid) \<Longrightarrow> \<not> entry_of_link (s_db s) l e"
    using L(5)[OF that(1,2) that(3)] G(1) by simp
qed

end
