(* ===== verification/Guarantees_Accounts.thy ===== *)
theory Guarantees_Accounts
  imports Disable_Props Guarantees_Access
begin

text \<open>
  The guarantees of the accounts: legal tables, administrators that stay, tokens that work once, what an
  account loses when it is disabled, and where the code falls short of its comments.
\<close>

section \<open>The scenario\<close>

text \<open>The laboratory with names that are apart; the environment hashes a text to itself and accepts equal passwords.\<close>

definition sc_member :: "int \<Rightarrow> user" where
  "sc_member i = (sc_user i)\<lparr>u_username := (if i = 1 then ''ann'' else if i = 2 then ''bob'' else ''eva''),
     u_email := (if i = 1 then ''ann@lab'' else if i = 2 then ''bob@lab'' else ''eva@lab''),
     u_password_hash := (if i = 2 then None else Some ''pw'')\<rparr>"

definition sc_token :: "int \<Rightarrow> token_purpose \<Rightarrow> setup_token" where
  "sc_token uid p = \<lparr>tk_id = 1, tk_user_id = uid, tk_token_hash = ''tok'', tk_purpose = p, tk_expires_at = 10,
     tk_used_at = None, tk_created_by_user_id = Some 9\<rparr>"

definition sc_accounts :: db where
  "sc_accounts = sc_access\<lparr>d_users := [1 \<mapsto> sc_member 1, 2 \<mapsto> sc_member 2, 9 \<mapsto> sc_member 9],
     d_setup_tokens := [sc_token 2 Activation], d_next_setup_token := 2, d_next_ssh_key := 2\<rparr>"

definition sc_auth :: "int \<Rightarrow> unit auth_env" where
  "sc_auth now = \<lparr>av_redis = no_redis, av_lock_reply = NoClient, av_failure_reply = NoClient, av_success_reply = NoClient,
     av_now_ms = now, av_later_ms = now, av_coll = (=), av_verify_password = (=), av_hash_password = (\<lambda>p. p),
     av_hash_token = (\<lambda>t. t), av_access_token = (\<lambda>_. ''jwt''), av_token_ttl_hours = 72, av_digest = (\<lambda>_. None), av_ctx = no_ctx\<rparr>"

definition sc_activation :: activation where
  "sc_activation = \<lparr>ac_token = ''tok'', ac_password = ''pw2'', ac_username = None, ac_email = None, ac_display_name = None,
     ac_key_label = None, ac_public_key = None\<rparr>"

lemmas sc_account_defs = sc_accounts_def sc_access_def sc_db_def sc_member_def sc_user_def sc_token_def sc_key_def

lemma sc_accounts_ok: "accounts_ok (=) sc_accounts"
  by (simp add: sc_account_defs accounts_ok_def keyed_def users_apart_def user_clash_def one_active_def)

lemma symp_eq: "symp ((=) :: string \<Rightarrow> string \<Rightarrow> bool)"
  by (simp add: symp_def)

section \<open>The tables\<close>

text \<open>
  C18. Along every run of the login, activation, key and user endpoints, whoever calls them, the account
  tables stay legal: names and addresses of a lab stay apart under the collation, no two tokens, invites or
  keys coincide, a user has at most one unused setup token. No row is lost; a used token, a used or
  revoked invite and a removed key never change again.
\<close>

theorem account_tables_stay_legal:
  assumes "symp coll" and "accounts_ok coll d" and "(account_step R coll)\<^sup>*\<^sup>* d d'"
  shows "accounts_ok coll d' \<and> users_dev d d' \<and> rows_dev token_dev (d_setup_tokens d) (d_setup_tokens d')
    \<and> rows_dev invite_dev (d_invites d) (d_invites d') \<and> rows_dev key_dev (d_ssh_keys d) (d_ssh_keys d')"
  using account_runs_keep[OF assms(1,3)] assms(2) by (simp add: step_ok_def accounts_dev_def)

lemma sc_disable_run: "(account_step no_redis (=))\<^sup>*\<^sup>* sc_accounts
    (snd (end_request sc_accounts (disable_user_ep (sc_auth 0) (\<lambda>_ _ _. AgentOffline '''') (sc_member 9) 1 (open_session sc_accounts 5))))"
  by (rule r_into_rtranclp, rule account_step.disable) (simp add: sc_auth_def)

theorem account_tables_stay_legal_witness:
  "accounts_ok (=) (snd (end_request sc_accounts (disable_user_ep (sc_auth 0) (\<lambda>_ _ _. AgentOffline '''') (sc_member 9) 1 (open_session sc_accounts 5))))"
  using account_tables_stay_legal[OF symp_eq sc_accounts_ok sc_disable_run] by simp

text \<open>
  C19. A lab that has an active administrator has one after every run of the account endpoints: neither a
  change of role, nor disabling, nor any other request by anybody takes the last one away.
\<close>

theorem lab_keeps_an_administrator:
  assumes "symp coll" and "accounts_ok coll d" and "(account_step R coll)\<^sup>*\<^sup>* d d'" and "active_admins d lab \<noteq> []"
  shows "active_admins d' lab \<noteq> []"
proof -
  have iff: "active_admins e lab \<noteq> [] \<longleftrightarrow> has_admin e lab" if ok: "accounts_ok coll e" for e
  proof
    assume "active_admins e lab \<noteq> []"
    then obtain u where "u \<in> set (active_admins e lab)" by (meson last_in_set)
    then show "has_admin e lab" using user_rows_mem[OF ok] by (auto simp: active_admins_def has_admin_def)
  next
    assume "has_admin e lab"
    then obtain i u where u: "d_users e i = Some u" "u_lab_id u = lab" "u_role u = RoleLabAdmin" "u_is_active u"
      by (auto simp: has_admin_def)
    with user_row[OF ok u(1)] have "u \<in> set (active_admins e lab)" by (simp add: active_admins_def)
    then show "active_admins e lab \<noteq> []" by auto
  qed
  from account_runs_keep[OF assms(1,3)] assms(2) have "accounts_ok coll d'" "has_admin d lab \<longrightarrow> has_admin d' lab"
    by (simp_all add: step_ok_def accounts_dev_def)
  then show ?thesis using iff assms(2,4) by blast
qed

theorem lab_keeps_an_administrator_witness:
  "active_admins (snd (end_request sc_accounts (disable_user_ep (sc_auth 0) (\<lambda>_ _ _. AgentOffline '''') (sc_member 9) 1 (open_session sc_accounts 5)))) 1 \<noteq> []"
proof (rule lab_keeps_an_administrator[OF symp_eq sc_accounts_ok sc_disable_run])
  show "active_admins sc_accounts 1 \<noteq> []"
    by (simp add: sc_account_defs active_admins_def user_rows_def List.map_filter_simps)
qed

section \<open>One-time tokens\<close>

lemma one_row:
  assumes "distinct (map f xs)" and "x \<in> set xs" and "f x = h"
  shows "filter (\<lambda>y. f y = h) xs = [x]"
  using assms
proof (induction xs)
  case (Cons y ys)
  show ?case
  proof (cases "y = x")
    case True
    with Cons.prems have "f z \<noteq> h" if "z \<in> set ys" for z
      using that same_key_row[of f "y # ys" z y] by auto
    with True Cons.prems(3) show ?thesis by (simp add: filter_empty_conv)
  next
    case False
    with Cons.prems have "x \<in> set ys" by simp
    then have "f y \<noteq> h" using Cons.prems False same_key_row[of f "y # ys" y x] by auto
    with Cons False \<open>x \<in> set ys\<close> show ?thesis by simp
  qed
qed simp

lemma used_token_lookup:
  assumes "accounts_ok coll (s_db s)" and "t \<in> set (d_setup_tokens (s_db s))"
    and "tk_token_hash t = av_hash_token env tok" and "tk_used_at t \<noteq> None"
  shows "lookup_active_token env tok s = Inl (InvalidActivationTokenError ''token already used'')"
  using one_row[OF accounts_okD(5)[OF assms(1)] assms(2,3)] assms(4)
  by (simp add: lookup_active_token_def live_check_def)

lemma used_invite_lookup:
  assumes "accounts_ok coll (s_db s)" and "i \<in> set (d_invites (s_db s))"
    and "ri_token_hash i = av_hash_token env tok" and "ri_used_at i \<noteq> None"
  shows "lookup_active_registration_invite env tok s = Inl (InvalidActivationTokenError ''token already used'')"
  using one_row[OF accounts_okD(9)[OF assms(1)] assms(2,3)] assms(4)
  by (simp add: lookup_active_registration_invite_def live_check_def)

lemma no_token_lookup: "(\<And>t. t \<in> set (d_setup_tokens (s_db s)) \<Longrightarrow> tk_token_hash t \<noteq> av_hash_token env tok) \<Longrightarrow>
    lookup_active_token env tok s = Inl (InvalidActivationTokenError ''token not found'')"
  using filter_False[of "d_setup_tokens (s_db s)" "\<lambda>t. tk_token_hash t = av_hash_token env tok"]
  by (simp add: lookup_active_token_def)

lemma not_found_none:
  assumes "lookup_active_token env tok s = Inl e" and "token_not_found e" and "t \<in> set (d_setup_tokens (s_db s))"
  shows "tk_token_hash t \<noteq> av_hash_token env tok"
  using assms
  by (auto simp: lookup_active_token_def live_check_def token_not_found_def rbind_eq_Inl one_or_none_None filter_empty_conv one_or_none_def
      split: option.splits if_splits list.splits)

lemma add_initial_key_frame: "add_initial_key env a u s = Inr s' \<Longrightarrow>
    d_setup_tokens (s_db s') = d_setup_tokens (s_db s) \<and> d_invites (s_db s') = d_invites (s_db s) \<and> d_users (s_db s') = d_users (s_db s)"
  by (auto simp: add_initial_key_def add_key_def Let_def rbind_eq_Inr audit_write_def split: option.splits sum.splits if_splits)

text \<open>What an activation leaves of the token it was given.\<close>

definition token_spent :: "db \<Rightarrow> string \<Rightarrow> bool" where
  "token_spent d h \<longleftrightarrow> (\<exists>t \<in> set (d_setup_tokens d). tk_token_hash t = h \<and> tk_used_at t \<noteq> None)
     \<or> (\<exists>i \<in> set (d_invites d). ri_token_hash i = h \<and> ri_used_at i \<noteq> None)
       \<and> (\<forall>t \<in> set (d_setup_tokens d). tk_token_hash t \<noteq> h)"

lemma activate_spends:
  assumes "activate env a s = Inr (u, s')"
  shows "token_spent (s_db s') (av_hash_token env (ac_token a))"
proof (cases "lookup_active_token env (ac_token a) s")
  case (Inr t)
  note t = lookup_token[OF Inr]
  let ?r = "t\<lparr>tk_used_at := Some (s_clock s)\<rparr>"
  obtain w s1 s3 e where fl: "flush_user (av_coll env) w s = Inr s1"
    and key: "s3 = upd_db (put_token ?r) s1 \<or> add_initial_key env a w (upd_db (put_token ?r) s1) = Inr s3"
    and s': "s' = audit_write e s3"
    using assms Inr by (auto simp: activate_def Let_def rbind_eq_Inr split: option.splits sum.splits if_splits)
  have "d_setup_tokens (s_db s1) = d_setup_tokens (s_db s)"
    using fl by (auto simp: flush_user_def put_user_def split: if_splits)
  then have "?r \<in> set (d_setup_tokens (s_db (upd_db (put_token ?r) s1)))"
    using t by (force simp: put_token_def row_put_def)
  then have "?r \<in> set (d_setup_tokens (s_db s'))" using key unfolding s'
    by (auto simp: audit_write_def dest!: add_initial_key_frame)
  then show ?thesis using t unfolding token_spent_def by (intro disjI1 bexI[of _ ?r]) auto
next
  case (Inl e)
  with assms have nf: "token_not_found e" by (auto simp: activate_def split: if_splits)
  from assms Inl nf obtain i where i: "lookup_active_registration_invite env (ac_token a) s = Inr i"
    and reg: "complete_registration_invite env i a s = Inr (u, s')" by (auto simp: activate_def rbind_eq_Inr)
  note i = lookup_invite[OF i]
  let ?r = "i\<lparr>ri_used_at := Some (s_clock s), ri_used_by_user_id := Some (u_id u)\<rparr>"
  obtain new s1 s3 e1 e2 where ins: "insert_user (av_coll env) new s = Inr (u, s1)"
    and key: "add_initial_key env a u (upd_db (put_invite ?r) s1) = Inr s3" and s': "s' = audit_write e1 (audit_write e2 s3)"
    using reg by (auto simp: complete_registration_invite_def Let_def rbind_eq_Inr split: option.splits sum.splits)
  have "d_setup_tokens (s_db s1) = d_setup_tokens (s_db s)" "d_invites (s_db s1) = d_invites (s_db s)"
    using ins by (auto simp: insert_user_def Let_def put_user_def split: if_splits)
  then have "?r \<in> set (d_invites (s_db s'))" "d_setup_tokens (s_db s') = d_setup_tokens (s_db s)"
    using add_initial_key_frame[OF key] i unfolding s' by (force simp: put_invite_def row_put_def audit_write_def)+
  then show ?thesis using i not_found_none[OF Inl nf] unfolding token_spent_def by (intro disjI2 conjI bexI[of _ ?r]) auto
qed

lemma rows_dev_used:
  assumes "rows_dev token_dev ts ts'" and "t \<in> set ts" and "tk_used_at t \<noteq> None"
  shows "t \<in> set ts'"
  using rows_devD[OF assms(1,2)] assms(3) by (auto simp: token_dev_def)

lemma rows_dev_used_invite:
  assumes "rows_dev invite_dev is is'" and "i \<in> set is" and "ri_used_at i \<noteq> None"
  shows "i \<in> set is'"
  using rows_devD[OF assms(1,2)] assms(3) by (auto simp: invite_dev_def)

lemma spent_stays:
  assumes "accounts_dev d d'" and "token_spent d h"
    and "\<And>t. t \<in> set (d_setup_tokens d') \<Longrightarrow> tk_token_hash t = h \<Longrightarrow> \<exists>t0 \<in> set (d_setup_tokens d). tk_token_hash t0 = h"
  shows "token_spent d' h"
  using assms(2)
proof (unfold token_spent_def, elim disjE)
  assume "\<exists>t \<in> set (d_setup_tokens d). tk_token_hash t = h \<and> tk_used_at t \<noteq> None"
  then show "(\<exists>t \<in> set (d_setup_tokens d'). tk_token_hash t = h \<and> tk_used_at t \<noteq> None)
     \<or> (\<exists>i \<in> set (d_invites d'). ri_token_hash i = h \<and> ri_used_at i \<noteq> None) \<and> (\<forall>t \<in> set (d_setup_tokens d'). tk_token_hash t \<noteq> h)"
    using assms(1) rows_dev_used unfolding accounts_dev_def by blast
next
  assume "(\<exists>i \<in> set (d_invites d). ri_token_hash i = h \<and> ri_used_at i \<noteq> None) \<and> (\<forall>t \<in> set (d_setup_tokens d). tk_token_hash t \<noteq> h)"
  then show "(\<exists>t \<in> set (d_setup_tokens d'). tk_token_hash t = h \<and> tk_used_at t \<noteq> None)
     \<or> (\<exists>i \<in> set (d_invites d'). ri_token_hash i = h \<and> ri_used_at i \<noteq> None) \<and> (\<forall>t \<in> set (d_setup_tokens d'). tk_token_hash t \<noteq> h)"
    using assms(1,3) rows_dev_used_invite unfolding accounts_dev_def by blast
qed

lemma spent_refused:
  assumes "accounts_ok coll (s_db s)" and "token_spent (s_db s) (av_hash_token env (ac_token a))"
  shows "activate_ep env a s = (Inl (http 400 ''token already used''), s)"
  using assms(2)
proof (unfold token_spent_def, elim disjE conjE bexE)
  fix t assume "t \<in> set (d_setup_tokens (s_db s))" "tk_token_hash t = av_hash_token env (ac_token a)" "tk_used_at t \<noteq> None"
  from used_token_lookup[OF assms(1) this] show ?thesis
    by (simp add: activate_ep_def activate_def auth_outcome_def token_not_found_def)
next
  fix i assume i: "i \<in> set (d_invites (s_db s))" "ri_token_hash i = av_hash_token env (ac_token a)" "ri_used_at i \<noteq> None"
    and none: "\<forall>t \<in> set (d_setup_tokens (s_db s)). tk_token_hash t \<noteq> av_hash_token env (ac_token a)"
  from none have "lookup_active_token env (ac_token a) s = Inl (InvalidActivationTokenError ''token not found'')"
    by (intro no_token_lookup) blast
  with used_invite_lookup[OF assms(1) i] show ?thesis
    by (simp add: activate_ep_def activate_def auth_outcome_def token_not_found_def)
qed

lemma commit_same: "commit s = Inr d \<Longrightarrow> same_accounts (s_db s) d"
  by (auto simp: commit_def flush_res_def s_update_res_def db_update_res_def same_accounts_def split: option.splits if_splits)

text \<open>
  C20. A setup token or a registration link works once: after an activation with it succeeded, every later
  activation with it is refused as already used, whatever requests came between, provided the tokens
  issued since have other hashes.
\<close>

theorem token_works_once:
  assumes "symp coll" and "accounts_ok coll d" and "av_coll env = coll" and "av_redis env = R"
    and "end_request d (activate_ep env a (open_session d c)) = (Inr u, d1)"
    and "(account_step R coll)\<^sup>*\<^sup>* d1 d2"
    and "\<And>t. t \<in> set (d_setup_tokens d2) \<Longrightarrow> tk_token_hash t = av_hash_token env (ac_token a) \<Longrightarrow>
      \<exists>t1 \<in> set (d_setup_tokens d1). tk_token_hash t1 = tk_token_hash t"
    and "av_hash_token env' (ac_token a') = av_hash_token env (ac_token a)"
  shows "end_request d2 (activate_ep env' a' (open_session d2 c')) = (Inl (http 400 ''token already used''), d2)"
proof -
  obtain s where act: "activate env a (open_session d c) = Inr (u, s)" and com: "commit s = Inr d1"
    using assms(5) by (auto simp: end_request_def activate_ep_def auth_outcome_def split: sum.splits api_error.splits prod.splits)
  have "token_spent d1 (av_hash_token env (ac_token a))"
    using activate_spends[OF act] commit_same[OF com] by (simp add: token_spent_def same_accounts_def)
  have "step_ok (accounts_ok coll) accounts_dev d d1"
    using account_step_keeps[OF assms(1) account_step.activation[OF assms(3,4), of d a c]] assms(5) by simp
  then have ok1: "accounts_ok coll d1" using assms(2) by (simp add: step_ok_def)
  with account_runs_keep[OF assms(1,6)] have ok2: "accounts_ok coll d2" and dev: "accounts_dev d1 d2"
    by (simp_all add: step_ok_def)
  have "token_spent d2 (av_hash_token env' (ac_token a'))"
    unfolding assms(8) by (rule spent_stays[OF dev \<open>token_spent d1 _\<close>]) (use assms(7) in force)
  with spent_refused[of coll "open_session d2 c'" env' a'] ok2 show ?thesis
    by (simp add: end_request_def http_def)
qed

definition sc_activated :: db where
  "sc_activated = snd (end_request sc_accounts (activate_ep (sc_auth 0) sc_activation (open_session sc_accounts 5)))"

theorem token_works_once_witness:
  "end_request sc_activated (activate_ep (sc_auth 0) sc_activation (open_session sc_activated 6)) = (Inl (http 400 ''token already used''), sc_activated)"
proof (rule token_works_once[where coll = "(=)" and R = no_redis and d = sc_accounts and env = "sc_auth 0" and a = sc_activation and c = 5])
  have "\<not> isl (fst (end_request sc_accounts (activate_ep (sc_auth 0) sc_activation (open_session sc_accounts 5))))" by code_simp
  then obtain u where "fst (end_request sc_accounts (activate_ep (sc_auth 0) sc_activation (open_session sc_accounts 5))) = Inr u"
    using not_isl_Inr by blast
  then show "end_request sc_accounts (activate_ep (sc_auth 0) sc_activation (open_session sc_accounts 5)) = (Inr (THE u.
      fst (end_request sc_accounts (activate_ep (sc_auth 0) sc_activation (open_session sc_accounts 5))) = Inr u), sc_activated)"
    by (simp add: sc_activated_def prod_eq_iff)
qed (auto simp: symp_eq sc_accounts_ok sc_auth_def)

section \<open>Disabling\<close>

lemma commit_frame: "commit s = Inr d \<Longrightarrow> \<exists>R. d = (s_db s)\<lparr>d_reservations := R\<rparr>"
  by (cases "s_dirty s") (auto simp: commit_def flush_res_def s_update_res_def db_update_res_def
      split: sum.splits if_splits intro: exI[of _ "d_reservations d"])

text \<open>
  C21. Disabling an account takes away what the account had: the user can no longer be authenticated, has no
  active grant and no active link to an existing account, and no key entry stays active that was pushed
  for him on an account he was linked to.
\<close>

theorem disabled_user_loses_access:
  assumes "symp coll" and "accounts_ok coll d" and "access_ok d"
    and "end_request d (disable_user_ep env rpc admin uid (open_session d c)) = (Inr u, d')"
  shows "(\<forall>decode cred to_int c' v. get_current_user decode cred to_int (open_session d' c') = Inr v \<longrightarrow> u_id v \<noteq> uid)
    \<and> active_grants d' uid = []
    \<and> (\<forall>l \<in> set (link_rows d'). al_user_id l = uid \<and> al_is_active l \<longrightarrow> d_pas d' (al_physical_account_id l) = None)
    \<and> (\<forall>l \<in> set (link_rows d). \<forall>e \<in> set (d_key_entries d'). al_user_id l = uid \<and> al_is_active l \<and> entry_of_link d l e
         \<and> get_key (open_session d c) (ke_ssh_public_key_id e) \<noteq> None \<longrightarrow> \<not> ke_is_active e)"
proof -
  obtain s' where dis: "disable_user rpc uid (u_id admin) (u_lab_id admin) (av_ctx env) (open_session d c) = Inr (u, s')"
    and com: "commit s' = Inr d'"
    using assms(4) by (auto simp: end_request_def disable_user_ep_def by_lab_admin_def require_lab_admin_def user_outcome_def
      split: sum.splits api_error.splits if_splits)
  from dis obtain u0 e where u0: "d_users d uid = Some u0" "u = u0\<lparr>u_is_active := False\<rparr>"
    and cas: "cascade_revoke_access rpc uid (u_id admin) (u_lab_id admin) (av_ctx env)
      (audit_write e (upd_db (put_user u) (open_session d c))) = Inr s'"
    by (rule disable_user_Inr) auto
  let ?s = "audit_write e (upd_db (put_user u) (open_session d c))"
  have id: "u_id u0 = uid" using user_row[OF assms(2) u0(1)] by simp
  have s: "d_users (s_db ?s) uid = Some u" "d_links (s_db ?s) = d_links d" "d_link_ids (s_db ?s) = d_link_ids d" "d_pas (s_db ?s) = d_pas d"
      "d_key_entries (s_db ?s) = d_key_entries d" "get_key ?s = get_key (open_session d c)"
    using id u0 by (simp_all add: audit_write_def put_user_def get_key_def fun_eq_iff)
  have rows: "link_rows (s_db ?s) = link_rows d" "entry_of_link (s_db ?s) = entry_of_link d"
    by (simp only: link_rows_def s) (intro ext, simp only: entry_of_link_def s)
  note C = cascade_effect[OF cas]
  obtain R where d': "d' = (s_db s')\<lparr>d_reservations := R\<rparr>" using commit_frame[OF com] by blast
  have gone: "d_users d' uid = Some u"
    using cascade_same[OF cas] s(1) unfolding d' same_accounts_def by simp
  have ok': "accounts_ok coll d'"
    using account_step_keeps[OF assms(1) account_step.disable[of env "av_redis env" coll d rpc admin uid c]] assms(2,4)
    by (simp add: step_ok_def)
  show ?thesis
  proof (intro conjI allI ballI impI)
    fix decode cred to_int c' v assume "get_current_user decode cred to_int (open_session d' c') = Inr v"
    then obtain i where i: "d_users d' i = Some v" "u_is_active v" 
      by (auto simp: get_current_user_def split: option.splits if_splits)
    with user_row[OF ok' i(1)] gone u0(2) show "u_id v \<noteq> uid" by auto
  next
    show "active_grants d' uid = []" using C(2) unfolding d' by (simp add: active_grants_def)
  next
    fix l assume l: "l \<in> set (link_rows d')" "al_user_id l = uid \<and> al_is_active l"
    have "l \<in> set (link_rows (s_db s'))" using l(1) unfolding d' by (simp add: link_rows_def)
    then obtain i where "d_links (s_db s') i = Some l" "i \<in> set (d_link_ids d)"
      using C(1) s by (auto simp: link_rows_def map_filter_mem access_cut_def)
    then have "d_links d i = Some l" using C(1) l(2) by (simp add: access_cut_def s)
    moreover have "links_keyed d" by (rule access_okD(1)) (rule assms(3))
    ultimately have mem: "al_id l = i" "l \<in> set (link_rows d)"
      using \<open>i \<in> set (d_link_ids d)\<close> by (force simp: links_keyed_def, auto simp: link_rows_def map_filter_mem)
    show "d_pas d' (al_physical_account_id l) = None"
    proof (rule ccontr)
      assume "d_pas d' (al_physical_account_id l) \<noteq> None"
      then obtain p where "d_pas d (al_physical_account_id l) = Some p" using C(1) s unfolding d' by (auto simp: access_cut_def)
      then have "(l, pa_server_id p) \<in> set (links_to_cut (s_db ?s) uid)" using l(2) mem(2) by (simp add: links_to_cut_mem rows s)
      from C(3)[OF this] \<open>d_links (s_db s') i = Some l\<close> mem(1) l(2) show False by simp
    qed
  next
    fix l e' assume e': "l \<in> set (link_rows d)" "e' \<in> set (d_key_entries d')" and
      a: "al_user_id l = uid \<and> al_is_active l \<and> entry_of_link d l e' \<and> get_key (open_session d c) (ke_ssh_public_key_id e') \<noteq> None"
    then obtain p where "d_pas d (al_physical_account_id l) = Some p" by (auto simp: entry_of_link_def split: option.splits)
    with e'(1) a have "(l, pa_server_id p) \<in> set (links_to_cut (s_db ?s) uid)" by (simp add: links_to_cut_mem rows s)
    from C(4)[OF this, of e'] e' a show "\<not> ke_is_active e'" unfolding d' by (auto simp: s rows)
  qed
qed

lemma sc_disable_answer: "end_request sc_accounts (disable_user_ep (sc_auth 0) (\<lambda>_ _ _. AgentOffline '''') (sc_member 9) 2 (open_session sc_accounts 5))
    = (Inr ((sc_member 2)\<lparr>u_is_active := False\<rparr>), snd (end_request sc_accounts
        (disable_user_ep (sc_auth 0) (\<lambda>_ _ _. AgentOffline '''') (sc_member 9) 2 (open_session sc_accounts 5))))"
proof (rule prod_eqI)
  show "fst (end_request sc_accounts (disable_user_ep (sc_auth 0) (\<lambda>_ _ _. AgentOffline '''') (sc_member 9) 2 (open_session sc_accounts 5)))
      = fst (Inr ((sc_member 2)\<lparr>u_is_active := False\<rparr>), snd (end_request sc_accounts
        (disable_user_ep (sc_auth 0) (\<lambda>_ _ _. AgentOffline '''') (sc_member 9) 2 (open_session sc_accounts 5))))" by code_simp
qed simp

lemma sc_accounts_access: "access_ok sc_accounts"
  using sc_access_ok(1) by (simp add: sc_accounts_def access_ok_def links_keyed_def link_rows_def)

theorem disabled_user_loses_access_witness:
  "get_current_user (\<lambda>_. Some [(''sub'', JInt 2)]) (Some (''bearer'', ''jwt'')) (\<lambda>_. None) (open_session (snd (end_request sc_accounts
      (disable_user_ep (sc_auth 0) (\<lambda>_ _ _. AgentOffline '''') (sc_member 9) 2 (open_session sc_accounts 5)))) 6) \<noteq> Inr (sc_member 2)"
proof
  have "u_id (sc_member 2) = 2" by (simp add: sc_member_def sc_user_def)
  moreover assume "get_current_user (\<lambda>_. Some [(''sub'', JInt 2)]) (Some (''bearer'', ''jwt'')) (\<lambda>_. None) (open_session (snd (end_request sc_accounts
      (disable_user_ep (sc_auth 0) (\<lambda>_ _ _. AgentOffline '''') (sc_member 9) 2 (open_session sc_accounts 5)))) 6) = Inr (sc_member 2)"
  ultimately show False
    using disabled_user_loses_access[OF symp_eq sc_accounts_ok sc_accounts_access sc_disable_answer] by blast
qed

text \<open>
  The reach of a disabled user on Linux can remain: an active key entry that was pushed for him stays active, with
  nobody asking the agent to take the key out, when he has no active link on its account, as after a
  revocation that left the key in place. The comment of the cascade wants the reach to end.
\<close>

theorem pushed_key_survives_disabling:
  assumes "access_ok d" and "e \<in> set (d_key_entries d)" and "ke_is_active e" and "ke_pushed_for_user_id e = uid"
    and "\<And>l. l \<in> set (link_rows d) \<Longrightarrow> al_user_id l = uid \<Longrightarrow> al_is_active l \<Longrightarrow> \<not> entry_of_link d l e"
    and "end_request d (disable_user_ep env rpc admin uid (open_session d c)) = (Inr u, d')"
  shows "e \<in> set (d_key_entries d')"
proof -
  obtain s' where dis: "disable_user rpc uid (u_id admin) (u_lab_id admin) (av_ctx env) (open_session d c) = Inr (u, s')"
    and com: "commit s' = Inr d'"
    using assms(6) by (auto simp: end_request_def disable_user_ep_def by_lab_admin_def require_lab_admin_def user_outcome_def
      split: sum.splits api_error.splits if_splits)
  from dis obtain x where cas: "cascade_revoke_access rpc uid (u_id admin) (u_lab_id admin) (av_ctx env)
      (audit_write x (upd_db (put_user u) (open_session d c))) = Inr s'"
    by (rule disable_user_Inr) auto
  let ?s = "audit_write x (upd_db (put_user u) (open_session d c))"
  have s: "d_links (s_db ?s) = d_links d" "d_link_ids (s_db ?s) = d_link_ids d" "d_pas (s_db ?s) = d_pas d"
      "d_key_entries (s_db ?s) = d_key_entries d"
    by (simp_all add: audit_write_def put_user_def)
  have rows: "link_rows (s_db ?s) = link_rows d" "entry_of_link (s_db ?s) = entry_of_link d"
    by (simp only: link_rows_def s) (intro ext, simp only: entry_of_link_def s)
  have "e \<in> set (d_key_entries (s_db s'))"
    by (rule cascade_effect(5)[OF cas]) (use assms(1,2,5) in \<open>auto simp: s rows links_to_cut_mem access_okD(7)\<close>)
  then show ?thesis using commit_frame[OF com] by auto
qed

definition sc_left_key :: db where
  "sc_left_key = sc_accounts\<lparr>d_key_entries := [sc_key_entry True]\<rparr>"

theorem pushed_key_survives_disabling_witness:
  "sc_key_entry True \<in> set (d_key_entries (snd (end_request sc_left_key
      (disable_user_ep (sc_auth 0) (\<lambda>_ _ _. RpcReturned []) (sc_member 9) 1 (open_session sc_left_key 5)))))"
proof (rule pushed_key_survives_disabling[where u = "(sc_member 1)\<lparr>u_is_active := False\<rparr>" and uid = 1])
  show "access_ok sc_left_key"
    by (simp add: sc_left_key_def sc_accounts_def sc_access_def sc_db_def access_ok_def links_keyed_def link_rows_def List.map_filter_simps
        one_active_def link_pair_def established_ok_def sc_link_def sc_request_def sc_key_entry_def)
  have "fst (end_request sc_left_key (disable_user_ep (sc_auth 0) (\<lambda>_ _ _. RpcReturned []) (sc_member 9) 1 (open_session sc_left_key 5)))
      = Inr ((sc_member 1)\<lparr>u_is_active := False\<rparr>)" by code_simp
  then show "end_request sc_left_key (disable_user_ep (sc_auth 0) (\<lambda>_ _ _. RpcReturned []) (sc_member 9) 1 (open_session sc_left_key 5))
      = (Inr ((sc_member 1)\<lparr>u_is_active := False\<rparr>), snd (end_request sc_left_key
          (disable_user_ep (sc_auth 0) (\<lambda>_ _ _. RpcReturned []) (sc_member 9) 1 (open_session sc_left_key 5))))"
    by (simp add: prod_eq_iff)
  fix l assume "l \<in> set (link_rows sc_left_key)"
  then have "l = sc_link 2" by (simp add: sc_left_key_def sc_accounts_def sc_access_def link_rows_def List.map_filter_simps)
  then show "al_user_id l = 1 \<Longrightarrow> \<not> entry_of_link sc_left_key l (sc_key_entry True)" by (simp add: sc_link_def)
qed (simp_all add: sc_left_key_def sc_key_entry_def)

end
