(* ===== verification/Compliance_Agent.thy ===== *)
theory Compliance_Agent
  imports Key_File Data_Model "HOL-Library.Sublist"
begin

text \<open>
  The compliance monitor of the agent: \<open>policy_cache.py\<close> and \<open>reverse_cache.py\<close>, what the backend pushed;
  \<open>compliance_monitor.py\<close>, which looks at the processes of every GPU; \<open>grace_tracker.py\<close>,
  \<open>policy_handlers.py\<close> and \<open>process_killer.py\<close>, what is done about a violation. Clock readings are integers
  in microseconds. Logging is left out.
\<close>

section \<open>Numbers\<close>

text \<open>\<open>int(x)\<close> on a JSON value; \<^const>\<open>None\<close> where Python raises. A text is the parameter's business.\<close>

definition py_int :: "(string \<Rightarrow> int option) \<Rightarrow> json \<Rightarrow> int option" where
  "py_int to_int j = (case j of
      JInt i \<Rightarrow> Some i
    | JBool b \<Rightarrow> Some (if b then 1 else 0)
    | JNum q \<Rightarrow> Some (if q < 0 then - \<lfloor>- q\<rfloor> else \<lfloor>q\<rfloor>)
    | JStr t \<Rightarrow> to_int t
    | _ \<Rightarrow> None)"

text \<open>
  Binary64 in its normal range: the nearest multiple of the unit in the last place, ties to even. The
  length of numerator and denominator gives the exponent up to one.
\<close>

fun bit_len :: "nat \<Rightarrow> nat" where
  "bit_len n = (if n = 0 then 0 else Suc (bit_len (n div 2)))"

declare bit_len.simps [simp del]

definition pow2 :: "int \<Rightarrow> rat" where
  "pow2 k = (if 0 \<le> k then 2 ^ nat k else 1 / 2 ^ nat (- k))"

definition binade :: "rat \<Rightarrow> int" where
  "binade x = (case quotient_of x of (n, d) \<Rightarrow>
     (let k = int (bit_len (nat n)) - int (bit_len (nat d)) in if pow2 k \<le> x then k else k - 1))"

definition half_even :: "rat \<Rightarrow> int" where
  "half_even x = (let f = \<lfloor>x\<rfloor>; r = x - of_int f in
     if r < 1 / 2 then f else if r > 1 / 2 then f + 1 else if even f then f else f + 1)"

definition fl :: "rat \<Rightarrow> rat" where
  "fl x = (if x = 0 then 0 else let u = pow2 (binade \<bar>x\<bar> - 52) in of_int (half_even (x / u)) * u)"

text \<open>\<open>quota_mb * (1 + pct / 100.0)\<close>\<close>

definition mem_limit :: "int \<Rightarrow> int \<Rightarrow> rat" where
  "mem_limit quota pct = fl (fl (of_int quota) * fl (1 + fl (fl (of_int pct) / 100)))"

section \<open>The policy cache\<close>

record policy_entry =
  pe_key :: string
  pe_enabled :: bool
  pe_severity :: string
  pe_threshold_value :: "payload option"
  pe_grace_period_seconds :: "int option"
  pe_notify_admin :: bool

record policy_cache =
  pc_entries :: "((int \<times> string) \<times> policy_entry) list"
  pc_etags :: "int \<rightharpoonup> string"

definition no_policies :: policy_cache where
  "no_policies = \<lparr>pc_entries = [], pc_etags = Map.empty\<rparr>"

definition drop_server :: "int \<Rightarrow> ((int \<times> 'k) \<times> 'v) list \<Rightarrow> ((int \<times> 'k) \<times> 'v) list" where
  "drop_server sid = filter (\<lambda>e. fst (fst e) \<noteq> sid)"

definition count_server :: "int \<Rightarrow> ((int \<times> 'k) \<times> 'v) list \<Rightarrow> nat" where
  "count_server sid xs = length (filter (\<lambda>e. fst (fst e) = sid) xs)"

definition apply_policy_sync :: "int \<Rightarrow> policy_entry list \<Rightarrow> string \<Rightarrow> policy_cache \<Rightarrow> nat \<times> policy_cache" where
  "apply_policy_sync sid policies etag c =
    (let es = fold (\<lambda>p es. dict_set es (sid, pe_key p) p) policies (drop_server sid (pc_entries c)) in
     (count_server sid es, \<lparr>pc_entries = es, pc_etags = (pc_etags c)(sid \<mapsto> etag)\<rparr>))"

definition cached_policy :: "policy_cache \<Rightarrow> int \<Rightarrow> string \<Rightarrow> policy_entry option" where
  "cached_policy c sid key = map_of (pc_entries c) (sid, key)"

section \<open>The reverse cache\<close>

text \<open>The frames that fill it; a text that is no timestamp is a missing time.\<close>

record active_reservation =
  ar_reservation_id :: int
  ar_gpu_id :: "int option"
  ar_start_at :: "datetime option"
  ar_end_at :: "datetime option"
  ar_status :: res_status
  ar_gpu_memory_mb :: "int option"
  ar_gpu_compute_share_pct :: "int option"
  ar_source :: link_source

record link_entry =
  le_linux_username :: string
  le_user_ids :: "int list"
  le_active_reservations :: "(string \<times> active_reservation list) list"

record cache_entry =
  ce_user_ids :: "int list"
  ce_active_reservations :: "(int \<times> active_reservation list) list"

record reverse_cache =
  rc_entries :: "((int \<times> string) \<times> cache_entry) list"
  rc_last_full_sync :: int

definition no_links :: reverse_cache where
  "no_links = \<lparr>rc_entries = [], rc_last_full_sync = 0\<rparr>"

definition parse_active_reservations :: "(string \<Rightarrow> int option) \<Rightarrow> (string \<times> active_reservation list) list \<Rightarrow>
    (int \<times> active_reservation list) list" where
  "parse_active_reservations to_int raw =
    fold (\<lambda>(t, rs) out. case to_int t of None \<Rightarrow> out | Some uid \<Rightarrow> dict_set out uid rs) raw []"

definition store_entry :: "(string \<Rightarrow> int option) \<Rightarrow> int \<Rightarrow> link_entry \<Rightarrow>
    ((int \<times> string) \<times> cache_entry) list \<Rightarrow> ((int \<times> string) \<times> cache_entry) list" where
  "store_entry to_int sid e es = dict_set es (sid, le_linux_username e)
     \<lparr>ce_user_ids = le_user_ids e, ce_active_reservations = parse_active_reservations to_int (le_active_reservations e)\<rparr>"

definition apply_full_snapshot :: "(string \<Rightarrow> int option) \<Rightarrow> int \<Rightarrow> int \<Rightarrow> link_entry list \<Rightarrow> reverse_cache \<Rightarrow> nat \<times> reverse_cache" where
  "apply_full_snapshot to_int now sid entries c =
    (let es = fold (store_entry to_int sid) entries (drop_server sid (rc_entries c)) in
     (count_server sid es, \<lparr>rc_entries = es, rc_last_full_sync = now\<rparr>))"

definition apply_incremental :: "(string \<Rightarrow> int option) \<Rightarrow> int \<Rightarrow> link_entry list \<Rightarrow> string list \<Rightarrow> reverse_cache \<Rightarrow> nat \<times> reverse_cache" where
  "apply_incremental to_int sid entries removed c =
    (let es = filter (\<lambda>e. fst (fst e) \<noteq> sid \<or> snd (fst e) \<notin> set removed) (fold (store_entry to_int sid) entries (rc_entries c)) in
     (count_server sid es, c\<lparr>rc_entries := es\<rparr>))"

definition lookup_user_ids :: "reverse_cache \<Rightarrow> int \<Rightarrow> string \<Rightarrow> int list" where
  "lookup_user_ids c sid name = (case map_of (rc_entries c) (sid, name) of None \<Rightarrow> [] | Some e \<Rightarrow> ce_user_ids e)"

definition lookup_active_reservations :: "reverse_cache \<Rightarrow> int \<Rightarrow> string \<Rightarrow> int \<Rightarrow> active_reservation list" where
  "lookup_active_reservations c sid name uid = (case map_of (rc_entries c) (sid, name) of
      None \<Rightarrow> []
    | Some e \<Rightarrow> (case map_of (ce_active_reservations e) uid of None \<Rightarrow> [] | Some rs \<Rightarrow> rs))"

definition CACHE_TTL_SECONDS :: int where "CACHE_TTL_SECONDS = 300"

definition needs_full_sync :: "int \<Rightarrow> reverse_cache \<Rightarrow> bool" where
  "needs_full_sync now c \<longleftrightarrow> rc_last_full_sync c = 0 \<or> now - rc_last_full_sync c > CACHE_TTL_SECONDS * 1000000"

section \<open>The monitor\<close>

record violation =
  vi_policy_key :: string
  vi_server_id :: int
  vi_gpu_id_local :: int
  vi_linux_username :: "string option"
  vi_pid :: "int option"
  vi_linked_user_ids :: "int list"
  vi_payload :: payload

record gpu_process =
  gp_pid :: int
  gp_linux_username :: string
  gp_memory_mb :: int

record gpu_entry =
  ge_gpu_index :: int
  ge_util_pct :: int
  ge_memory_used_mb :: "int option"
  ge_temperature_c :: "int option"
  ge_processes :: "gpu_process list"

definition GPU_HANG_DEFAULT_UTIL_ZERO_S :: int where "GPU_HANG_DEFAULT_UTIL_ZERO_S = 600"
definition GPU_HANG_DEFAULT_MEM_FLOOR_MB :: int where "GPU_HANG_DEFAULT_MEM_FLOOR_MB = 1024"
definition MEMORY_OVERUSE_DEFAULT_PCT :: int where "MEMORY_OVERUSE_DEFAULT_PCT = 20"
definition GPU_TEMP_HIGH_DEFAULT_C :: int where "GPU_TEMP_HIGH_DEFAULT_C = 85"

definition reservation_overlaps_now :: "int \<Rightarrow> datetime option \<Rightarrow> datetime option \<Rightarrow> bool" where
  "reservation_overlaps_now now start_at end_at = (case (start_at, end_at) of
      (Some a, Some b) \<Rightarrow> dt_to_utc a \<le> now \<and> now < dt_to_utc b
    | _ \<Rightarrow> False)"

text \<open>A cached reservation that lets its user use the GPU of this index now.\<close>

definition holds_gpu :: "int \<Rightarrow> int \<Rightarrow> active_reservation \<Rightarrow> bool" where
  "holds_gpu now gpu r \<longleftrightarrow> ar_gpu_id r = Some gpu \<and> ar_source r \<noteq> AdminDeclared
     \<and> reservation_overlaps_now now (ar_start_at r) (ar_end_at r)"

definition own_reservation :: "reverse_cache \<Rightarrow> int \<Rightarrow> int \<Rightarrow> int \<Rightarrow> string \<Rightarrow> active_reservation option" where
  "own_reservation rc now sid gpu name =
    find (holds_gpu now gpu) (concat (map (lookup_active_reservations rc sid name) (lookup_user_ids rc sid name)))"

definition cache_keys_for_server :: "reverse_cache \<Rightarrow> int \<Rightarrow> string list" where
  "cache_keys_for_server rc sid = map (snd \<circ> fst) (filter (\<lambda>e. fst (fst e) = sid) (rc_entries rc))"

definition other_holder :: "reverse_cache \<Rightarrow> int \<Rightarrow> int \<Rightarrow> int \<Rightarrow> string \<Rightarrow> bool" where
  "other_holder rc now sid gpu name = list_ex (\<lambda>other. list_ex (\<lambda>uid.
     list_ex (holds_gpu now gpu) (lookup_active_reservations rc sid other uid)) (lookup_user_ids rc sid other))
     (filter (\<lambda>k. k \<noteq> name) (cache_keys_for_server rc sid))"

text \<open>\<^const>\<open>None\<close> where \<open>int(...)\<close> raises.\<close>

definition threshold_field :: "(string \<Rightarrow> int option) \<Rightarrow> policy_cache \<Rightarrow> int \<Rightarrow> string \<Rightarrow> string \<Rightarrow> int \<Rightarrow> int option" where
  "threshold_field to_int pc sid key field dflt = (case Option.bind (cached_policy pc sid key) pe_threshold_value of
      None \<Rightarrow> Some dflt
    | Some t \<Rightarrow> (case map_of t field of None \<Rightarrow> Some dflt | Some j \<Rightarrow> py_int to_int j))"

definition memory_overuse_threshold_pct :: "(string \<Rightarrow> int option) \<Rightarrow> policy_cache \<Rightarrow> int \<Rightarrow> int option" where
  "memory_overuse_threshold_pct to_int pc sid =
    threshold_field to_int pc sid ''memory_overuse'' ''value'' MEMORY_OVERUSE_DEFAULT_PCT"

definition process_violation :: "string \<Rightarrow> int \<Rightarrow> int \<Rightarrow> gpu_process \<Rightarrow> int list \<Rightarrow> payload \<Rightarrow> violation" where
  "process_violation key sid gpu p users pl = \<lparr>vi_policy_key = key, vi_server_id = sid, vi_gpu_id_local = gpu,
     vi_linux_username = Some (gp_linux_username p), vi_pid = Some (gp_pid p), vi_linked_user_ids = users, vi_payload = pl\<rparr>"

definition evaluate_process :: "(string \<Rightarrow> int option) \<Rightarrow> policy_cache \<Rightarrow> reverse_cache \<Rightarrow> int \<Rightarrow> int \<Rightarrow> int \<Rightarrow> gpu_process \<Rightarrow>
    violation option option" where
  "evaluate_process to_int pc rc now sid gpu p =
    (let users = lookup_user_ids rc sid (gp_linux_username p); used = (''memory_used_mb'', JInt (gp_memory_mb p)) in
     if users = [] then Some (Some (process_violation ''unlinked_user_occupy'' sid gpu p [] [used]))
     else (case own_reservation rc now sid gpu (gp_linux_username p) of
       Some r \<Rightarrow> (case ar_gpu_memory_mb r of
           None \<Rightarrow> Some None
         | Some quota \<Rightarrow> (case memory_overuse_threshold_pct to_int pc sid of
             None \<Rightarrow> None
           | Some pct \<Rightarrow> if of_int (gp_memory_mb p) > mem_limit quota pct
               then Some (Some (process_violation ''memory_overuse'' sid gpu p users
                 [used, (''memory_quota_mb'', JInt quota), (''reservation_id'', JInt (ar_reservation_id r))]))
               else Some None))
     | None \<Rightarrow> Some (Some (process_violation
         (if other_holder rc now sid gpu (gp_linux_username p) then ''preempt_others_reservation'' else ''no_reservation_occupy'')
         sid gpu p users [used]))))"

text \<open>
  The state kept per GPU is the reading since which its utilisation is zero. The clock is read when the
  streak starts and again when it is measured. An exception leaves the streak recorded.
\<close>

type_synonym gpu_state = "int \<times> int \<rightharpoonup> int"

definition util_zero_since :: "gpu_state \<Rightarrow> int \<Rightarrow> int \<Rightarrow> gpu_entry \<Rightarrow> int option" where
  "util_zero_since gs now sid g = (if ge_util_pct g = 0
     then Some (case gs (sid, ge_gpu_index g) of None \<Rightarrow> now | Some t \<Rightarrow> t) else None)"

definition gpu_violation :: "string \<Rightarrow> int \<Rightarrow> gpu_entry \<Rightarrow> payload \<Rightarrow> violation" where
  "gpu_violation key sid g pl = \<lparr>vi_policy_key = key, vi_server_id = sid, vi_gpu_id_local = ge_gpu_index g,
     vi_linux_username = None, vi_pid = None, vi_linked_user_ids = [], vi_payload = pl\<rparr>"

definition or_zero :: "int option \<Rightarrow> int" where
  "or_zero x = (case x of None \<Rightarrow> 0 | Some i \<Rightarrow> i)"

definition evaluate_gpu :: "(string \<Rightarrow> int option) \<Rightarrow> policy_cache \<Rightarrow> int \<Rightarrow> int \<Rightarrow> int \<Rightarrow> gpu_entry \<Rightarrow> gpu_state \<Rightarrow>
    violation list option \<times> gpu_state" where
  "evaluate_gpu to_int pc now later sid g gs =
    (let since = util_zero_since gs now sid g; gs' = gs((sid, ge_gpu_index g) := since);
         used = or_zero (ge_memory_used_mb g); temp = or_zero (ge_temperature_c g);
         found =
      Option.bind (threshold_field to_int pc sid ''gpu_hang'' ''util_zero_seconds'' GPU_HANG_DEFAULT_UTIL_ZERO_S) (\<lambda>zero_s.
      Option.bind (threshold_field to_int pc sid ''gpu_hang'' ''mem_floor_mb'' GPU_HANG_DEFAULT_MEM_FLOOR_MB) (\<lambda>floor_mb.
      Option.bind (threshold_field to_int pc sid ''gpu_temp_high'' ''value'' GPU_TEMP_HIGH_DEFAULT_C) (\<lambda>limit.
        Some ((case since of
            None \<Rightarrow> []
          | Some t \<Rightarrow> if used \<ge> floor_mb \<and> later - t \<ge> zero_s * 1000000
              then [gpu_violation ''gpu_hang'' sid g [(''util_zero_for_s'', JInt ((later - t) div 1000000)),
                     (''memory_used_mb'', JInt used), (''mem_floor_mb'', JInt floor_mb), (''threshold_value_s'', JInt zero_s)]]
              else [])
          @ (if temp > limit
             then [gpu_violation ''gpu_temp_high'' sid g [(''temperature_c'', JInt temp), (''threshold_c'', JInt limit)]]
             else [])))))
     in (found, gs'))"

section \<open>Grace periods\<close>

text \<open>When a violation was first and last seen, by its signature.\<close>

type_synonym signature = "string \<times> int \<times> int \<times> string option \<times> int option"
type_synonym pending = "signature \<rightharpoonup> int \<times> int"

definition signature_of :: "violation \<Rightarrow> signature" where
  "signature_of v = (vi_policy_key v, vi_server_id v, vi_gpu_id_local v, vi_linux_username v, vi_pid v)"

definition grace_record :: "int \<Rightarrow> signature \<Rightarrow> int option \<Rightarrow> pending \<Rightarrow> bool \<times> pending" where
  "grace_record now k grace p = (case grace of
      None \<Rightarrow> (True, p)
    | Some g \<Rightarrow> if g = 0 then (True, p)
      else (case p k of
        None \<Rightarrow> (False, p(k \<mapsto> (now, now)))
      | Some (first, _) \<Rightarrow> (now - first \<ge> g * 1000000, p(k \<mapsto> (first, now)))))"

definition grace_clear :: "signature \<Rightarrow> pending \<Rightarrow> pending" where
  "grace_clear k p = p(k := None)"

section \<open>Killing a process\<close>

text \<open>
  What the operating system answers to a signal: delivered, no such process, or not permitted; in the last
  case \<open>sudo\<close> is asked: missing, without a kill binary, or with its exit code and output.
\<close>

datatype sudo_answer = NoSudo | NoKillBin | SudoRan int string string
datatype signal_answer = Delivered | NoProcess | NotPermitted string sudo_answer

record signal_attempt =
  sg_ok :: bool
  sg_missing :: bool
  sg_used_sudo :: bool
  sg_error :: "string option"

record kill_result =
  kr_ok :: bool
  kr_killed :: bool
  kr_error :: "string option"
  kr_mock_warning :: "string option"

text \<open>The answers to the two signals, and whether the process is there after the grace of three seconds.\<close>

record kill_os =
  ko_term :: signal_answer
  ko_alive :: bool
  ko_kill :: signal_answer

definition lower_char :: "char \<Rightarrow> char" where
  "lower_char c = (let n = (of_char c :: nat) in if 65 \<le> n \<and> n \<le> 90 then char_of (n + 32) else c)"

definition looks_missing :: "string \<Rightarrow> bool" where
  "looks_missing m = (let t = map lower_char m in sublist ''no such process'' t \<or> sublist ''not found'' t)"

definition sudo_message :: "int \<Rightarrow> string \<Rightarrow> string \<Rightarrow> string" where
  "sudo_message code err outp = (let m = (if err \<noteq> [] then err else outp) in
     if m = [] then ''sudo kill exited '' @ int_str code else m)"

text \<open>The captured outputs are given without the whitespace that \<open>strip\<close> removes.\<close>

definition sudo_signal :: "sudo_answer \<Rightarrow> signal_attempt" where
  "sudo_signal a = (case a of
      NoSudo \<Rightarrow> \<lparr>sg_ok = False, sg_missing = False, sg_used_sudo = False, sg_error = Some ''sudo not found''\<rparr>
    | NoKillBin \<Rightarrow> \<lparr>sg_ok = False, sg_missing = False, sg_used_sudo = False, sg_error = Some ''kill binary not found''\<rparr>
    | SudoRan code err outp \<Rightarrow>
      if code = 0 then \<lparr>sg_ok = True, sg_missing = False, sg_used_sudo = True, sg_error = None\<rparr>
      else let m = sudo_message code err outp in
        \<lparr>sg_ok = looks_missing m, sg_missing = looks_missing m, sg_used_sudo = True, sg_error = Some m\<rparr>)"

definition send_signal :: "signal_answer \<Rightarrow> signal_attempt" where
  "send_signal a = (case a of
      Delivered \<Rightarrow> \<lparr>sg_ok = True, sg_missing = False, sg_used_sudo = False, sg_error = None\<rparr>
    | NoProcess \<Rightarrow> \<lparr>sg_ok = True, sg_missing = True, sg_used_sudo = False, sg_error = None\<rparr>
    | NotPermitted m sudo \<Rightarrow> (let r = sudo_signal sudo in
        if sg_ok r then r
        else \<lparr>sg_ok = False, sg_missing = False, sg_used_sudo = sg_used_sudo r,
          sg_error = Some (''permission denied; sudo fallback failed: '' @ (case sg_error r of Some e \<Rightarrow> if e = [] then m else e | None \<Rightarrow> m))\<rparr>))"

definition KILL_CAPABILITY :: string where "KILL_CAPABILITY = ''gpu.kill_process''"

datatype posix_signal = SIGTERM | SIGKILL

text \<open>The result, and the signals the process was sent.\<close>

definition opt_text :: "string option \<Rightarrow> string" where
  "opt_text x = (case x of None \<Rightarrow> ''None'' | Some t \<Rightarrow> t)"

definition kill_failed :: "string \<Rightarrow> kill_result" where
  "kill_failed m = \<lparr>kr_ok = False, kr_killed = False, kr_error = Some m, kr_mock_warning = None\<rparr>"

definition kill_done :: kill_result where
  "kill_done = \<lparr>kr_ok = True, kr_killed = True, kr_error = None, kr_mock_warning = None\<rparr>"

definition kill_pid :: "agent_host \<Rightarrow> bool \<Rightarrow> kill_os \<Rightarrow> int \<Rightarrow> kill_result \<times> posix_signal list" where
  "kill_pid h mock os pid =
    (if \<not> capability_enabled KILL_CAPABILITY False h then (kill_failed ''gpu.kill_process capability is disabled'', [])
     else if mock then (kill_done\<lparr>kr_mock_warning := Some ''MOCK-MAC-NO-KILL: no process was signalled''\<rparr>, [])
     else let term = send_signal (ko_term os) in
       if sg_missing term
       then (kill_done\<lparr>kr_killed := False, kr_error := Some ''process not found (already exited)''\<rparr>, [SIGTERM])
       else if \<not> sg_ok term
       then (kill_failed (''permission denied signalling pid '' @ int_str pid @ '': '' @ opt_text (sg_error term)), [SIGTERM])
       else if ko_alive os
       then let kill = send_signal (ko_kill os) in
         (if \<not> sg_ok kill \<and> \<not> sg_missing kill
          then kill_failed (''SIGKILL permission denied for pid '' @ int_str pid @ '': '' @ opt_text (sg_error kill)) else kill_done,
          [SIGTERM, SIGKILL])
       else (kill_done, [SIGTERM]))"

definition kill_process_for_policy :: "agent_host \<Rightarrow> bool \<Rightarrow> kill_os \<Rightarrow> int \<Rightarrow> bool" where
  "kill_process_for_policy h mock os pid = (let r = fst (kill_pid h mock os pid) in kr_ok r \<and> kr_killed r)"

section \<open>The dispatcher\<close>

record violation_event =
  ve_server_id :: int
  ve_gpu_id :: int
  ve_policy_key :: string
  ve_severity :: string
  ve_linux_username :: "string option"
  ve_linux_pid :: "int option"
  ve_linked_platform_user_ids :: "int list"
  ve_action_taken :: string
  ve_downgraded_from :: "string option"

datatype agent_effect =
    Notified violation string
  | KillAsked int
  | EventPushed violation_event

text \<open>
  The callbacks of the dispatcher: whether a notification and an event callback are given, and what the kill
  callback answers, \<^const>\<open>None\<close> if it raises. A callback that fails is only logged.
\<close>

record dispatcher =
  di_server_id :: int
  di_notify :: bool
  di_kill :: "(int \<Rightarrow> bool option) option"
  di_event :: bool

record agent_state =
  ag_policies :: policy_cache
  ag_links :: reverse_cache
  ag_host :: agent_host
  ag_gpu :: gpu_state
  ag_pending :: pending
  ag_effects :: "agent_effect list"

definition AUTO_KILL_ALLOWED_KEYS :: "string list" where
  "AUTO_KILL_ALLOWED_KEYS = [''preempt_others_reservation'', ''script_overrun_grace'']"

definition do_notify :: "dispatcher \<Rightarrow> violation \<Rightarrow> string \<Rightarrow> agent_effect list" where
  "do_notify d v sev = (if di_notify d then [Notified v sev] else [])"

definition route :: "dispatcher \<Rightarrow> string \<Rightarrow> violation \<Rightarrow> string \<times> agent_effect list" where
  "route d sev v =
    (if sev = ''log_only'' then (''log_only'', [])
     else if sev = ''notify'' then (''notify'', do_notify d v sev)
     else if sev = ''warn'' then (''warn'', do_notify d v sev)
     else if sev = ''auto_kill''
     then let (killed, asked) = (case (vi_pid v, di_kill d) of
             (Some pid, Some kill) \<Rightarrow> (kill pid = Some True, [KillAsked pid])
           | _ \<Rightarrow> (False, []));
           v' = v\<lparr>vi_payload := dict_update (vi_payload v) [(''action_taken'', JStr ''killed''), (''killed'', JBool killed)]\<rparr>
       in (if killed then ''kill'' else ''kill_downgraded_to_warn'', asked @ do_notify d v' sev)
     else (''log_only'', []))"

definition effective_severity :: "agent_host \<Rightarrow> string \<Rightarrow> string \<Rightarrow> string \<times> string option" where
  "effective_severity h key sev =
    (if sev = ''auto_kill'' \<and> key \<notin> set AUTO_KILL_ALLOWED_KEYS then (''warn'', Some ''auto_kill'')
     else if sev = ''auto_kill'' \<and> \<not> capability_enabled KILL_CAPABILITY False h then (''warn'', Some ''auto_kill'')
     else (sev, None))"

definition dispatch :: "dispatcher \<Rightarrow> int \<Rightarrow> violation \<Rightarrow> agent_state \<Rightarrow> string \<times> agent_state" where
  "dispatch d now v st = (case cached_policy (ag_policies st) (di_server_id d) (vi_policy_key v) of
      None \<Rightarrow> (''log_only'', st)
    | Some e \<Rightarrow>
      if \<not> pe_enabled e then (''log_only'', st)
      else let (act, pend) = grace_record now (signature_of v) (pe_grace_period_seconds e) (ag_pending st);
               st1 = st\<lparr>ag_pending := pend\<rparr> in
        if \<not> act then (''deferred'', st1)
        else let (sev, downgraded) = effective_severity (ag_host st) (vi_policy_key v) (pe_severity e);
                 (action, effects) = route d sev v;
                 pushed = (if di_event d then [EventPushed \<lparr>ve_server_id = di_server_id d, ve_gpu_id = vi_gpu_id_local v,
                   ve_policy_key = vi_policy_key v, ve_severity = sev, ve_linux_username = vi_linux_username v,
                   ve_linux_pid = vi_pid v, ve_linked_platform_user_ids = vi_linked_user_ids v,
                   ve_action_taken = action, ve_downgraded_from = downgraded\<rparr>] else [])
             in (sev, st1\<lparr>ag_effects := ag_effects st1 @ effects @ pushed\<rparr>))"

section \<open>A tick\<close>

text \<open>
  The clocks of a tick: the time of day, and the monotonic clock. \<open>run_tick\<close> returns the number of violations,
  \<^const>\<open>None\<close> when an exception ended it; what was dispatched before stays done.
\<close>

record tick_clock =
  tc_now :: int
  tc_mono :: int
  tc_later :: int

fun tick_processes :: "(string \<Rightarrow> int option) \<Rightarrow> dispatcher \<Rightarrow> tick_clock \<Rightarrow> int \<Rightarrow> int \<Rightarrow> gpu_process list \<Rightarrow> agent_state \<Rightarrow>
    nat option \<times> agent_state" where
  "tick_processes to_int d t sid gpu [] st = (Some 0, st)"
| "tick_processes to_int d t sid gpu (p # ps) st =
    (case evaluate_process to_int (ag_policies st) (ag_links st) (tc_now t) sid gpu p of
       None \<Rightarrow> (None, st)
     | Some None \<Rightarrow> tick_processes to_int d t sid gpu ps st
     | Some (Some v) \<Rightarrow> (case tick_processes to_int d t sid gpu ps (snd (dispatch d (tc_mono t) v st)) of
         (n, st') \<Rightarrow> (map_option Suc n, st')))"

definition dispatch_all :: "dispatcher \<Rightarrow> int \<Rightarrow> violation list \<Rightarrow> agent_state \<Rightarrow> agent_state" where
  "dispatch_all d now = fold (\<lambda>v st. snd (dispatch d now v st))"

fun run_tick :: "(string \<Rightarrow> int option) \<Rightarrow> dispatcher \<Rightarrow> tick_clock \<Rightarrow> int \<Rightarrow> gpu_entry list \<Rightarrow> agent_state \<Rightarrow> nat option \<times> agent_state" where
  "run_tick to_int d t sid [] st = (Some 0, st)"
| "run_tick to_int d t sid (g # gs) st =
    (case tick_processes to_int d t sid (ge_gpu_index g) (ge_processes g) st of
       (None, st1) \<Rightarrow> (None, st1)
     | (Some n, st1) \<Rightarrow> (case evaluate_gpu to_int (ag_policies st1) (tc_mono t) (tc_later t) sid g (ag_gpu st1) of
         (None, gst) \<Rightarrow> (None, st1\<lparr>ag_gpu := gst\<rparr>)
       | (Some vs, gst) \<Rightarrow> (case run_tick to_int d t sid gs (dispatch_all d (tc_mono t) vs (st1\<lparr>ag_gpu := gst\<rparr>)) of
           (m, st2) \<Rightarrow> (map_option (\<lambda>k. n + length vs + k) m, st2))))"

text \<open>The dispatcher as \<open>__main__.py\<close> wires it: no notification callback, the kill callback and the events of the client.\<close>

definition agent_dispatcher :: "int \<Rightarrow> bool \<Rightarrow> (int \<Rightarrow> kill_os) \<Rightarrow> agent_host \<Rightarrow> dispatcher" where
  "agent_dispatcher sid mock os h = \<lparr>di_server_id = sid, di_notify = False,
     di_kill = Some (\<lambda>pid. Some (kill_process_for_policy h mock (os pid) pid)), di_event = True\<rparr>"

section \<open>Frames of the backend\<close>

text \<open>
  The handlers of the websocket client for what the backend pushes. A reservation without a GPU does not
  pass the validation of the frame: \<^const>\<open>None\<close>, the connection is closed.
\<close>

datatype sync_mode = FullSync | IncrementalSync

definition link_frame_ok :: "link_entry list \<Rightarrow> bool" where
  "link_frame_ok = list_all (\<lambda>e. list_all (\<lambda>(_, rs). list_all (\<lambda>r. ar_gpu_id r \<noteq> None) rs) (le_active_reservations e))"

definition on_link_cache_sync :: "(string \<Rightarrow> int option) \<Rightarrow> int \<Rightarrow> int \<Rightarrow> sync_mode \<Rightarrow> link_entry list \<Rightarrow> string list \<Rightarrow>
    agent_state \<Rightarrow> (nat \<times> agent_state) option" where
  "on_link_cache_sync to_int now sid mode entries removed st =
    (if \<not> link_frame_ok entries then None
     else case (case mode of FullSync \<Rightarrow> apply_full_snapshot to_int now sid entries (ag_links st)
                 | IncrementalSync \<Rightarrow> apply_incremental to_int sid entries removed (ag_links st)) of
       (n, links) \<Rightarrow> Some (n, st\<lparr>ag_links := links\<rparr>))"

definition on_policy_sync :: "int \<Rightarrow> policy_entry list \<Rightarrow> string \<Rightarrow> agent_state \<Rightarrow> agent_state" where
  "on_policy_sync sid policies etag st = st\<lparr>ag_policies := snd (apply_policy_sync sid policies etag (ag_policies st))\<rparr>"

definition on_capability_sync :: "(string \<times> bool) list \<Rightarrow> agent_state \<Rightarrow> agent_state" where
  "on_capability_sync caps st = st\<lparr>ag_host := fold (\<lambda>(k, on). set_capability k on) caps (ag_host st)\<rparr>"

end
