(* ===== verification/Compliance_Props.thy ===== *)
theory Compliance_Props
  imports Compliance_Agent
begin

text \<open>
  Lemmas about the compliance monitor: what a dispatch can do, what a tick can do, which entries the grace
  tracker keeps, and when the thresholds of the cache are well typed.
\<close>

section \<open>One dispatch\<close>

text \<open>The effects of a dispatch are appended, the caches stay, and no entry of the grace tracker loses its first sighting.\<close>

definition same_caches :: "agent_state \<Rightarrow> agent_state \<Rightarrow> bool" where
  "same_caches a b \<longleftrightarrow> ag_policies b = ag_policies a \<and> ag_links b = ag_links a \<and> ag_host b = ag_host a"

lemma same_caches_refl [simp]: "same_caches a a"
  by (simp add: same_caches_def)

lemma same_caches_trans: "same_caches a b \<Longrightarrow> same_caches b c \<Longrightarrow> same_caches a c"
  by (simp add: same_caches_def)

definition keeps_first :: "pending \<Rightarrow> pending \<Rightarrow> bool" where
  "keeps_first p q \<longleftrightarrow> (\<forall>k first l. p k = Some (first, l) \<longrightarrow> (\<exists>l'. q k = Some (first, l')))"

lemma keeps_firstD: "keeps_first p q \<Longrightarrow> p k = Some (first, l) \<Longrightarrow> \<exists>l'. q k = Some (first, l')"
  unfolding keeps_first_def by blast

lemma keeps_first_refl [simp]: "keeps_first p p"
  by (simp add: keeps_first_def)

lemma keeps_first_trans: "keeps_first p q \<Longrightarrow> keeps_first q r \<Longrightarrow> keeps_first p r"
  unfolding keeps_first_def by meson

lemma grace_keeps: "grace_record now k g p = (b, q) \<Longrightarrow> keeps_first p q"
  by (auto simp: grace_record_def keeps_first_def split: option.splits if_splits)

text \<open>A new entry starts now.\<close>

definition starts_at :: "int \<Rightarrow> pending \<Rightarrow> pending \<Rightarrow> bool" where
  "starts_at now p q \<longleftrightarrow> (\<forall>k first l. q k = Some (first, l) \<longrightarrow> (\<exists>l0. p k = Some (first, l0)) \<or> p k = None \<and> first = now)"

lemma starts_atD: "starts_at now p q \<Longrightarrow> q k = Some (first, l) \<Longrightarrow> (\<exists>l0. p k = Some (first, l0)) \<or> p k = None \<and> first = now"
  unfolding starts_at_def by blast

lemma starts_at_refl [simp]: "starts_at now p p"
  by (auto simp: starts_at_def)

lemma starts_at_trans:
  assumes pq: "starts_at now p q" and qr: "starts_at now q r" and keep: "keeps_first p q"
  shows "starts_at now p r"
  unfolding starts_at_def
proof (intro allI impI)
  fix k first l
  assume "r k = Some (first, l)"
  from starts_atD[OF qr this] consider l0 where "q k = Some (first, l0)" | "q k = None" "first = now" by auto
  then show "(\<exists>l0. p k = Some (first, l0)) \<or> p k = None \<and> first = now"
  proof cases
    case 1
    with pq show ?thesis unfolding starts_at_def by blast
  next
    case 2
    have "p k = None"
    proof (cases "p k")
      case (Some fl)
      then show ?thesis using keeps_firstD[OF keep, of k "fst fl" "snd fl"] 2 by simp
    qed simp
    with 2 show ?thesis by simp
  qed
qed

lemma grace_starts: "grace_record now k g p = (b, q) \<Longrightarrow> starts_at now p q"
  by (auto simp: grace_record_def starts_at_def split: option.splits if_splits)

text \<open>When a process is killed: the key is one of the two, the policy says so, the switch is on, the grace is over.\<close>

definition may_kill :: "dispatcher \<Rightarrow> int \<Rightarrow> violation \<Rightarrow> agent_state \<Rightarrow> bool" where
  "may_kill d now v st \<longleftrightarrow> (\<exists>e. cached_policy (ag_policies st) (di_server_id d) (vi_policy_key v) = Some e
     \<and> pe_enabled e \<and> pe_severity e = ''auto_kill'' \<and> vi_policy_key v \<in> set AUTO_KILL_ALLOWED_KEYS
     \<and> capability_enabled KILL_CAPABILITY False (ag_host st)
     \<and> (\<forall>g. pe_grace_period_seconds e = Some g \<longrightarrow> g > 0 \<longrightarrow>
          (\<exists>first l. ag_pending st (signature_of v) = Some (first, l) \<and> now - first \<ge> g * 1000000)))"

lemma route_kill: "KillAsked pid \<in> set (snd (route d sev v)) \<longleftrightarrow> sev = ''auto_kill'' \<and> vi_pid v = Some pid \<and> di_kill d \<noteq> None"
  by (auto simp: route_def do_notify_def Let_def split: option.splits)

lemma effective_auto_kill: "fst (effective_severity h key sev) = ''auto_kill'' \<longleftrightarrow>
    sev = ''auto_kill'' \<and> key \<in> set AUTO_KILL_ALLOWED_KEYS \<and> capability_enabled KILL_CAPABILITY False h"
  by (auto simp: effective_severity_def)

text \<open>
  What a piece of a tick does to the state: the caches and the switches stay, the grace tracker forgets nothing and
  dates new entries by the clock, effects are appended, and a process is only killed for one of the given violations.
\<close>

definition within_policy :: "dispatcher \<Rightarrow> int \<Rightarrow> violation set \<Rightarrow> agent_state \<Rightarrow> agent_state \<Rightarrow> bool" where
  "within_policy d now V st st' \<longleftrightarrow> same_caches st st' \<and> keeps_first (ag_pending st) (ag_pending st')
     \<and> starts_at now (ag_pending st) (ag_pending st')
     \<and> (\<exists>es. ag_effects st' = ag_effects st @ es
          \<and> (\<forall>pid. KillAsked pid \<in> set es \<longrightarrow> (\<exists>v \<in> V. vi_pid v = Some pid \<and> may_kill d now v st)))"

lemma within_policy_refl [simp]: "within_policy d now V st st"
  by (simp add: within_policy_def)

lemma may_kill_back:
  assumes "may_kill d now v b" and "same_caches a b" and st: "starts_at now (ag_pending a) (ag_pending b)"
  shows "may_kill d now v a"
proof -
  from assms(1) obtain e where e: "cached_policy (ag_policies b) (di_server_id d) (vi_policy_key v) = Some e"
    "pe_enabled e" "pe_severity e = ''auto_kill''" "vi_policy_key v \<in> set AUTO_KILL_ALLOWED_KEYS"
    "capability_enabled KILL_CAPABILITY False (ag_host b)"
    and g: "\<And>g. pe_grace_period_seconds e = Some g \<Longrightarrow> g > 0 \<Longrightarrow>
          \<exists>first l. ag_pending b (signature_of v) = Some (first, l) \<and> now - first \<ge> g * 1000000"
    unfolding may_kill_def by blast
  have "\<exists>first l. ag_pending a (signature_of v) = Some (first, l) \<and> now - first \<ge> x * 1000000"
    if x: "pe_grace_period_seconds e = Some x" "x > 0" for x
  proof -
    from g[OF x] obtain first l where b: "ag_pending b (signature_of v) = Some (first, l)" "now - first \<ge> x * 1000000" by blast
    from starts_atD[OF st b(1)] b(2) x(2) show ?thesis by auto
  qed
  with e assms(2) show ?thesis unfolding may_kill_def same_caches_def by auto
qed

lemma within_policy_trans:
  assumes ab: "within_policy d now V a b" and bc: "within_policy d now W b c"
  shows "within_policy d now (V \<union> W) a c"
proof -
  from ab have sc: "same_caches a b" and st: "starts_at now (ag_pending a) (ag_pending b)"
    and kf: "keeps_first (ag_pending a) (ag_pending b)" by (simp_all add: within_policy_def)
  from ab obtain es where es: "ag_effects b = ag_effects a @ es"
    "\<And>pid. KillAsked pid \<in> set es \<Longrightarrow> \<exists>v \<in> V. vi_pid v = Some pid \<and> may_kill d now v a" unfolding within_policy_def by blast
  from bc obtain fs where fs: "ag_effects c = ag_effects b @ fs"
    "\<And>pid. KillAsked pid \<in> set fs \<Longrightarrow> \<exists>v \<in> W. vi_pid v = Some pid \<and> may_kill d now v b" unfolding within_policy_def by blast
  have "\<exists>v \<in> V \<union> W. vi_pid v = Some pid \<and> may_kill d now v a" if "KillAsked pid \<in> set (es @ fs)" for pid
    using that es(2)[of pid] fs(2)[of pid] may_kill_back[OF _ sc st] by auto
  moreover have "ag_effects c = ag_effects a @ es @ fs" using es(1) fs(1) by simp
  ultimately have "\<exists>gs. ag_effects c = ag_effects a @ gs
      \<and> (\<forall>pid. KillAsked pid \<in> set gs \<longrightarrow> (\<exists>v \<in> V \<union> W. vi_pid v = Some pid \<and> may_kill d now v a))" by blast
  with ab bc kf show ?thesis unfolding within_policy_def
    using same_caches_trans[of a b c] keeps_first_trans starts_at_trans by blast
qed

lemma within_policy_mono: "within_policy d now V a b \<Longrightarrow> V \<subseteq> W \<Longrightarrow> within_policy d now W a b"
  unfolding within_policy_def by blast

lemma dispatch_kill:
  assumes k: "KillAsked pid \<in> set (snd (route d (fst (effective_severity (ag_host st) (vi_policy_key v) (pe_severity e))) v))"
    and e: "cached_policy (ag_policies st) (di_server_id d) (vi_policy_key v) = Some e" "pe_enabled e"
    and g: "grace_record now (signature_of v) (pe_grace_period_seconds e) (ag_pending st) = (True, pend)"
  shows "vi_pid v = Some pid \<and> may_kill d now v st"
proof -
  from k have r: "pe_severity e = ''auto_kill''" "vi_policy_key v \<in> set AUTO_KILL_ALLOWED_KEYS"
    "capability_enabled KILL_CAPABILITY False (ag_host st)" "vi_pid v = Some pid"
    by (simp_all add: route_kill effective_auto_kill)
  moreover have "\<exists>first l. ag_pending st (signature_of v) = Some (first, l) \<and> now - first \<ge> x * 1000000"
    if "pe_grace_period_seconds e = Some x" "x > 0" for x
    using g that by (auto simp: grace_record_def split: option.splits prod.splits if_splits)
  ultimately show ?thesis using e unfolding may_kill_def by blast
qed

lemma dispatch_within_policy: "within_policy d now {v} st (snd (dispatch d now v st))"
proof (cases "\<exists>e. cached_policy (ag_policies st) (di_server_id d) (vi_policy_key v) = Some e \<and> pe_enabled e")
  case False
  then have "snd (dispatch d now v st) = st" by (auto simp: dispatch_def split: option.splits)
  then show ?thesis by simp
next
  case True
  then obtain e where e: "cached_policy (ag_policies st) (di_server_id d) (vi_policy_key v) = Some e" "pe_enabled e" by blast
  obtain act pend where g: "grace_record now (signature_of v) (pe_grace_period_seconds e) (ag_pending st) = (act, pend)" by fastforce
  have pend: "keeps_first (ag_pending st) pend" "starts_at now (ag_pending st) pend" using grace_keeps[OF g] grace_starts[OF g] by blast+
  show ?thesis
  proof (cases act)
    case False
    with e g have "snd (dispatch d now v st) = st\<lparr>ag_pending := pend\<rparr>" by (simp add: dispatch_def)
    with pend show ?thesis by (simp add: within_policy_def same_caches_def)
  next
    case True
    obtain sv dn where ef: "effective_severity (ag_host st) (vi_policy_key v) (pe_severity e) = (sv, dn)" by fastforce
    obtain ac fx where ro: "route d sv v = (ac, fx)" by fastforce
    define es where "es = (if di_event d then [EventPushed \<lparr>ve_server_id = di_server_id d, ve_gpu_id = vi_gpu_id_local v,
      ve_policy_key = vi_policy_key v, ve_severity = sv, ve_linux_username = vi_linux_username v,
      ve_linux_pid = vi_pid v, ve_linked_platform_user_ids = vi_linked_user_ids v,
      ve_action_taken = ac, ve_downgraded_from = dn\<rparr>] else [])"
    have es: "snd (dispatch d now v st) = (st\<lparr>ag_pending := pend\<rparr>)\<lparr>ag_effects := ag_effects st @ fx @ es\<rparr>"
      using e g ef ro True by (simp add: dispatch_def Let_def es_def)
    have "vi_pid v = Some pid \<and> may_kill d now v st" if "KillAsked pid \<in> set (fx @ es)" for pid
    proof -
      from that have "KillAsked pid \<in> set fx" by (auto simp: es_def split: if_splits)
      with g True show ?thesis by (intro dispatch_kill[OF _ e]) (simp_all add: ef ro)
    qed
    then have "\<exists>gs. ag_effects st @ fx @ es = ag_effects st @ gs
      \<and> (\<forall>pid. KillAsked pid \<in> set gs \<longrightarrow> (\<exists>w \<in> {v}. vi_pid w = Some pid \<and> may_kill d now w st))"
      by (intro exI[of _ "fx @ es"]) simp
    with es pend show ?thesis by (simp add: within_policy_def same_caches_def)
  qed
qed

section \<open>A tick\<close>

definition found_in :: "(string \<Rightarrow> int option) \<Rightarrow> agent_state \<Rightarrow> int \<Rightarrow> int \<Rightarrow> int \<Rightarrow> gpu_process list \<Rightarrow> violation set" where
  "found_in to_int st now sid gpu ps = {v. \<exists>p \<in> set ps. evaluate_process to_int (ag_policies st) (ag_links st) now sid gpu p = Some (Some v)}"

lemma found_in_same: "same_caches a b \<Longrightarrow> found_in to_int b now sid gpu ps = found_in to_int a now sid gpu ps"
  by (simp add: found_in_def same_caches_def)

lemma tick_processes_within_policy:
  "within_policy d (tc_mono t) (found_in to_int st (tc_now t) sid gpu ps) st (snd (tick_processes to_int d t sid gpu ps st))"
proof (induction ps arbitrary: st)
  case (Cons p ps)
  show ?case
  proof (cases "\<exists>v. evaluate_process to_int (ag_policies st) (ag_links st) (tc_now t) sid gpu p = Some (Some v)")
    case False
    have sub: "found_in to_int st (tc_now t) sid gpu ps \<subseteq> found_in to_int st (tc_now t) sid gpu (p # ps)" by (auto simp: found_in_def)
    consider "evaluate_process to_int (ag_policies st) (ag_links st) (tc_now t) sid gpu p = None"
      | "evaluate_process to_int (ag_policies st) (ag_links st) (tc_now t) sid gpu p = Some None"
      using False by (metis not_Some_eq)
    then show ?thesis using within_policy_mono[OF Cons.IH[of st] sub] by cases simp_all
  next
    case True
    then obtain v where v: "evaluate_process to_int (ag_policies st) (ag_links st) (tc_now t) sid gpu p = Some (Some v)" by blast
    let ?b = "snd (dispatch d (tc_mono t) v st)"
    have o1: "within_policy d (tc_mono t) {v} st ?b" by (rule dispatch_within_policy)
    then have sc: "same_caches st ?b" by (simp add: within_policy_def)
    have "within_policy d (tc_mono t) ({v} \<union> found_in to_int st (tc_now t) sid gpu ps) st
        (snd (tick_processes to_int d t sid gpu ps ?b))"
      using within_policy_trans[OF o1 Cons.IH[of ?b]] by (simp add: found_in_same[OF sc])
    moreover have "{v} \<union> found_in to_int st (tc_now t) sid gpu ps \<subseteq> found_in to_int st (tc_now t) sid gpu (p # ps)"
      using v by (auto simp: found_in_def)
    ultimately show ?thesis using v by (auto intro: within_policy_mono simp: case_prod_unfold)
  qed
qed simp

lemma dispatch_all_within_policy: "within_policy d now (set vs) st (dispatch_all d now vs st)"
proof (induction vs arbitrary: st)
  case (Cons v vs)
  have "dispatch_all d now (v # vs) st = dispatch_all d now vs (snd (dispatch d now v st))" by (simp add: dispatch_all_def)
  with within_policy_trans[OF dispatch_within_policy[of d now v st] Cons.IH] show ?case by simp
qed (simp add: dispatch_all_def)

lemma gpu_state_within_policy: "within_policy d now V st (st\<lparr>ag_gpu := g\<rparr>)"
  by (simp add: within_policy_def same_caches_def)

lemma evaluate_gpu_no_pid:
  "evaluate_gpu to_int pc now later sid g gs = (Some vs, gs') \<Longrightarrow> v \<in> set vs \<Longrightarrow> vi_pid v = None"
  unfolding evaluate_gpu_def Let_def prod.inject bind_eq_Some_conv
  by (elim conjE exE) (auto simp: gpu_violation_def split: option.split_asm if_split_asm)

text \<open>A process of the telemetry that violates a policy.\<close>

definition tick_violations :: "(string \<Rightarrow> int option) \<Rightarrow> agent_state \<Rightarrow> int \<Rightarrow> int \<Rightarrow> gpu_entry list \<Rightarrow> violation set" where
  "tick_violations to_int st now sid gs = (\<Union>g \<in> set gs. found_in to_int st now sid (ge_gpu_index g) (ge_processes g))"

lemma run_tick_within_policy:
  "within_policy d (tc_mono t) (tick_violations to_int st (tc_now t) sid gs \<union> {v. vi_pid v = None}) st (snd (run_tick to_int d t sid gs st))"
proof (induction gs arbitrary: st)
  case (Cons g gs)
  let ?V = "tick_violations to_int st (tc_now t) sid (g # gs) \<union> {v. vi_pid v = None}"
  obtain r st1 where t1: "tick_processes to_int d t sid (ge_gpu_index g) (ge_processes g) st = (r, st1)" by fastforce
  obtain f gst where ev: "evaluate_gpu to_int (ag_policies st1) (tc_mono t) (tc_later t) sid g (ag_gpu st1) = (f, gst)" by fastforce
  have o1: "within_policy d (tc_mono t) ?V st st1"
    using tick_processes_within_policy[of d t to_int st sid "ge_gpu_index g" "ge_processes g"] t1
    by (auto intro: within_policy_mono simp: tick_violations_def)
  then have sc: "same_caches st st1" by (simp add: within_policy_def)
  show ?case
  proof (cases r)
    case None
    with t1 o1 show ?thesis by simp
  next
    case (Some n)
    show ?thesis
    proof (cases f)
      case None
      with t1 ev Some show ?thesis using within_policy_trans[OF o1 gpu_state_within_policy[where V = ?V]] by simp
    next
      case (Some vs)
      let ?c = "dispatch_all d (tc_mono t) vs (st1\<lparr>ag_gpu := gst\<rparr>)"
      have "set vs \<subseteq> ?V" using evaluate_gpu_no_pid[OF ev[unfolded Some]] by auto
      then have "within_policy d (tc_mono t) ?V (st1\<lparr>ag_gpu := gst\<rparr>) ?c" by (rule within_policy_mono[OF dispatch_all_within_policy])
      from within_policy_trans[OF o1 within_policy_trans[OF gpu_state_within_policy[where V = ?V] this]] have o2: "within_policy d (tc_mono t) ?V st ?c" by simp
      then have sc2: "same_caches st ?c" by (simp add: within_policy_def)
      have "tick_violations to_int ?c (tc_now t) sid gs \<union> {v. vi_pid v = None} \<subseteq> ?V"
        by (auto simp: tick_violations_def found_in_same[OF sc2])
      from within_policy_trans[OF o2 within_policy_mono[OF Cons.IH[of ?c] this]]
      show ?thesis using t1 ev \<open>r = Some n\<close> Some by (simp add: case_prod_unfold)
    qed
  qed
qed simp

end
