(* ===== verification/Policy_Service.thy ===== *)
theory Policy_Service
  imports User_Service Compliance_Agent
begin

text \<open>
  \<open>services/agent_policy_service.py\<close>, the policies of a server and the preset profiles;
  \<open>services/policy_sync_service.py\<close> and \<open>services/link_cache_sync_service.py\<close>, what an agent is told. The
  integer coercion of the validator and the hash of the etags are parameters.
\<close>

section \<open>Thresholds\<close>

datatype threshold_schema = NoThreshold | PctThreshold | GpuHangThreshold | TempThreshold

definition POLICY_KEYS :: "string list" where
  "POLICY_KEYS = [''no_reservation_occupy'', ''preempt_others_reservation'', ''script_overrun_grace'', ''memory_overuse'',
     ''gpu_hang'', ''gpu_temp_high'', ''zombie_process'', ''unlinked_user_occupy'']"

definition THRESHOLD_SCHEMAS :: "string \<Rightarrow> threshold_schema option" where
  "THRESHOLD_SCHEMAS = map_of [(''no_reservation_occupy'', NoThreshold), (''preempt_others_reservation'', NoThreshold),
     (''script_overrun_grace'', NoThreshold), (''memory_overuse'', PctThreshold), (''gpu_hang'', GpuHangThreshold),
     (''gpu_temp_high'', TempThreshold), (''zombie_process'', NoThreshold), (''unlinked_user_occupy'', NoThreshold)]"

text \<open>A required integer field in a range, and a literal field with its default.\<close>

definition int_field :: "(json \<Rightarrow> int option) \<Rightarrow> payload \<Rightarrow> string \<Rightarrow> (int \<Rightarrow> bool) \<Rightarrow> int option" where
  "int_field coerce pl k ok = (case Option.bind (map_of pl k) coerce of None \<Rightarrow> None | Some i \<Rightarrow> if ok i then Some i else None)"

definition unit_ok :: "payload \<Rightarrow> string \<Rightarrow> bool" where
  "unit_ok pl u \<longleftrightarrow> (case map_of pl ''unit'' of None \<Rightarrow> True | Some j \<Rightarrow> j = JStr u)"

text \<open>\<open>schema.model_validate(...).model_dump()\<close>, \<^const>\<open>None\<close> on a validation error.\<close>

definition dump_threshold :: "(json \<Rightarrow> int option) \<Rightarrow> threshold_schema \<Rightarrow> payload \<Rightarrow> payload option" where
  "dump_threshold coerce sc pl = (case sc of
      NoThreshold \<Rightarrow> Some []
    | PctThreshold \<Rightarrow> if unit_ok pl ''pct''
        then map_option (\<lambda>i. [(''value'', JInt i), (''unit'', JStr ''pct'')]) (int_field coerce pl ''value'' (\<lambda>i. 0 \<le> i \<and> i \<le> 100)) else None
    | TempThreshold \<Rightarrow> if unit_ok pl ''celsius''
        then map_option (\<lambda>i. [(''value'', JInt i), (''unit'', JStr ''celsius'')]) (int_field coerce pl ''value'' (\<lambda>i. 0 \<le> i \<and> i \<le> 200)) else None
    | GpuHangThreshold \<Rightarrow> Option.bind (int_field coerce pl ''util_zero_seconds'' (\<lambda>i. 10 \<le> i)) (\<lambda>z.
        map_option (\<lambda>m. [(''util_zero_seconds'', JInt z), (''mem_floor_mb'', JInt m)]) (int_field coerce pl ''mem_floor_mb'' (\<lambda>i. 0 \<le> i))))"

datatype policy_error =
    UnknownPolicyKeyError
  | UnknownProfileError
  | InvalidThresholdError
  | AutoKillNotAllowedError
  | PolicyUncaught

definition validate_threshold :: "(json \<Rightarrow> int option) \<Rightarrow> string \<Rightarrow> payload option \<Rightarrow> policy_error + payload option" where
  "validate_threshold coerce key t = (case THRESHOLD_SCHEMAS key of
      None \<Rightarrow> Inl UnknownPolicyKeyError
    | Some sc \<Rightarrow> if sc = NoThreshold then Inr None
      else (case t of None \<Rightarrow> Inr None
        | Some pl \<Rightarrow> (case dump_threshold coerce sc pl of None \<Rightarrow> Inl InvalidThresholdError | Some out \<Rightarrow> Inr (Some out))))"

section \<open>Profiles\<close>

record preset_row =
  pr_severity :: policy_severity
  pr_threshold_value :: "payload option"
  pr_grace_period_seconds :: "int option"
  pr_notify_admin :: bool

definition preset :: "policy_severity \<Rightarrow> payload option \<Rightarrow> int option \<Rightarrow> bool \<Rightarrow> preset_row" where
  "preset sev t g n = \<lparr>pr_severity = sev, pr_threshold_value = t, pr_grace_period_seconds = g, pr_notify_admin = n\<rparr>"

definition pct20 :: "payload option" where "pct20 = Some [(''value'', JInt 20), (''unit'', JStr ''pct'')]"
definition hang600 :: "payload option" where "hang600 = Some [(''util_zero_seconds'', JInt 600), (''mem_floor_mb'', JInt 1024)]"
definition celsius85 :: "payload option" where "celsius85 = Some [(''value'', JInt 85), (''unit'', JStr ''celsius'')]"

definition permissive_preset :: "(string \<times> preset_row) list" where
  "permissive_preset =
    [(''no_reservation_occupy'', preset LogOnly None (Some 300) True),
     (''preempt_others_reservation'', preset LogOnly None (Some 60) True),
     (''script_overrun_grace'', preset AutoKill None (Some 300) True),
     (''memory_overuse'', preset LogOnly pct20 (Some 60) True),
     (''gpu_hang'', preset LogOnly hang600 None False),
     (''gpu_temp_high'', preset LogOnly celsius85 None False),
     (''zombie_process'', preset LogOnly None None False),
     (''unlinked_user_occupy'', preset LogOnly None None False)]"

definition standard_preset :: "(string \<times> preset_row) list" where
  "standard_preset =
    [(''no_reservation_occupy'', preset Notify None (Some 300) True),
     (''preempt_others_reservation'', preset SevWarn None (Some 60) True),
     (''script_overrun_grace'', preset AutoKill None (Some 300) True),
     (''memory_overuse'', preset Notify pct20 (Some 60) True),
     (''gpu_hang'', preset Notify hang600 None False),
     (''gpu_temp_high'', preset Notify celsius85 None False),
     (''zombie_process'', preset Notify None None False),
     (''unlinked_user_occupy'', preset LogOnly None None False)]"

definition strict_preset :: "(string \<times> preset_row) list" where
  "strict_preset =
    [(''no_reservation_occupy'', preset SevWarn None (Some 300) True),
     (''preempt_others_reservation'', preset AutoKill None (Some 60) True),
     (''script_overrun_grace'', preset AutoKill None (Some 300) True),
     (''memory_overuse'', preset SevWarn pct20 (Some 60) True),
     (''gpu_hang'', preset SevWarn hang600 None True),
     (''gpu_temp_high'', preset SevWarn celsius85 None True),
     (''zombie_process'', preset Notify None None True),
     (''unlinked_user_occupy'', preset Notify None None True)]"

definition profile_preset :: "string \<Rightarrow> (string \<times> preset_row) list option" where
  "profile_preset name = map_of [(''permissive'', permissive_preset), (''standard'', standard_preset), (''strict'', strict_preset)] name"

section \<open>The policies of a server\<close>

definition AUTO_KILL_SETTABLE_KEYS :: "string list" where
  "AUTO_KILL_SETTABLE_KEYS = [''preempt_others_reservation'', ''script_overrun_grace'']"

definition AUTO_KILL_CAPABLE_KEYS :: "string list" where
  "AUTO_KILL_CAPABLE_KEYS = [''preempt_others_reservation'']"

text \<open>Whether the warning is given; the key and the server name at most one capability row.\<close>

definition auto_kill_capability_warning :: "session \<Rightarrow> int \<Rightarrow> string \<Rightarrow> policy_severity \<Rightarrow> policy_error + bool" where
  "auto_kill_capability_warning s sid key sev =
    (if sev \<noteq> AutoKill \<or> key \<notin> set AUTO_KILL_CAPABLE_KEYS then Inr False
     else rbind (one_or_none PolicyUncaught (filter (\<lambda>c. cp_capability_key c = KILL_CAPABILITY) (capability_rows s sid)))
       (\<lambda>c. Inr (case c of None \<Rightarrow> True | Some r \<Rightarrow> \<not> cp_is_enabled r)))"

text \<open>The rows of a server, without their ordering by key.\<close>

definition list_for_server :: "session \<Rightarrow> int \<Rightarrow> agent_policy list" where
  "list_for_server s sid = filter (\<lambda>p. ap_server_id p = sid) (d_policies (s_db s))"

definition get_policy :: "session \<Rightarrow> int \<Rightarrow> string \<Rightarrow> policy_error + agent_policy option" where
  "get_policy s sid key = one_or_none PolicyUncaught (filter (\<lambda>p. ap_policy_key p = key) (list_for_server s sid))"

definition preset_policy :: "int \<Rightarrow> string \<Rightarrow> int \<Rightarrow> preset_row \<Rightarrow> agent_policy" where
  "preset_policy sid key actor r = \<lparr>ap_id = 0, ap_server_id = sid, ap_policy_key = key, ap_enabled = True,
     ap_severity = pr_severity r, ap_threshold_value = pr_threshold_value r, ap_grace_period_seconds = pr_grace_period_seconds r,
     ap_notify_admin = pr_notify_admin r, ap_notes = None, ap_updated_by_user_id = actor\<rparr>"

definition insert_policy :: "agent_policy \<Rightarrow> db \<Rightarrow> db" where
  "insert_policy p d = d\<lparr>d_policies := d_policies d @ [p\<lparr>ap_id := d_next_policy d\<rparr>], d_next_policy := d_next_policy d + 1\<rparr>"

definition put_policy :: "agent_policy \<Rightarrow> db \<Rightarrow> db" where
  "put_policy p d = d\<lparr>d_policies := row_put ap_id p (d_policies d)\<rparr>"

definition profile_audit :: "int \<Rightarrow> int \<Rightarrow> int \<Rightarrow> payload \<Rightarrow> session \<Rightarrow> session" where
  "profile_audit sid lab actor pl = audit_write (audit_of ''agent_policy.profile_set'' (Some actor) (Some lab) (Some ''server'') (Some sid)
     (Some lab) (Some sid) (Some pl) no_ctx)"

text \<open>\<open>preset[key]\<close>: every preset has every key.\<close>

definition preset_at :: "(string \<times> preset_row) list \<Rightarrow> string \<Rightarrow> preset_row" where
  "preset_at ps key = (case map_of ps key of Some r \<Rightarrow> r | None \<Rightarrow> preset LogOnly None None False)"

definition seed_default_profile :: "int \<Rightarrow> int \<Rightarrow> int \<Rightarrow> string \<Rightarrow> session \<Rightarrow> policy_error + (nat \<times> session)" where
  "seed_default_profile sid lab actor profile s =
    (if list_for_server s sid \<noteq> [] then Inr (0, s)
     else (case profile_preset profile of
       None \<Rightarrow> Inl PolicyUncaught
     | Some ps \<Rightarrow> let s1 = fold (\<lambda>key. upd_db (insert_policy (preset_policy sid key actor (preset_at ps key)))) POLICY_KEYS s in
         Inr (length POLICY_KEYS, profile_audit sid lab actor
           [(''profile'', JStr profile), (''seeded'', JBool True), (''rows'', JInt (int (length POLICY_KEYS)))] s1)))"

text \<open>Two dictionaries are equal when they have the same entries, in any order.\<close>

definition same_dict :: "payload option \<Rightarrow> payload option \<Rightarrow> bool" where
  "same_dict a b = (case (a, b) of
      (None, None) \<Rightarrow> True
    | (Some x, Some y) \<Rightarrow> list_all (\<lambda>(k, _). map_of x k = map_of y k) (x @ y)
    | _ \<Rightarrow> False)"

definition same_preset :: "agent_policy \<Rightarrow> preset_row \<Rightarrow> bool" where
  "same_preset p r \<longleftrightarrow> ap_severity p = pr_severity r \<and> same_dict (ap_threshold_value p) (pr_threshold_value r)
     \<and> ap_grace_period_seconds p = pr_grace_period_seconds r \<and> ap_notify_admin p = pr_notify_admin r"

definition set_preset :: "int \<Rightarrow> preset_row \<Rightarrow> agent_policy \<Rightarrow> agent_policy" where
  "set_preset actor r p = p\<lparr>ap_severity := pr_severity r, ap_threshold_value := pr_threshold_value r,
     ap_grace_period_seconds := pr_grace_period_seconds r, ap_notify_admin := pr_notify_admin r, ap_updated_by_user_id := actor\<rparr>"

text \<open>The dictionary of the existing rows keeps the last row of a key.\<close>

definition switch_one :: "int \<Rightarrow> int \<Rightarrow> agent_policy list \<Rightarrow> (string \<times> preset_row) list \<Rightarrow> string \<Rightarrow> nat \<times> session \<Rightarrow> nat \<times> session" where
  "switch_one sid actor existing ps key st = (case st of (n, s) \<Rightarrow>
    (let r = preset_at ps key in case find (\<lambda>p. ap_policy_key p = key) (rev existing) of
      None \<Rightarrow> (n + 1, upd_db (insert_policy (preset_policy sid key actor r)) s)
    | Some p \<Rightarrow> if same_preset p r then (n, s) else (n + 1, upd_db (put_policy (set_preset actor r p)) s)))"

definition switch_profile :: "int \<Rightarrow> int \<Rightarrow> int \<Rightarrow> string \<Rightarrow> session \<Rightarrow> policy_error + (nat \<times> session)" where
  "switch_profile sid lab actor profile s = (case profile_preset profile of
      None \<Rightarrow> Inl UnknownProfileError
    | Some ps \<Rightarrow> (case fold (switch_one sid actor (list_for_server s sid) ps) POLICY_KEYS (0, s) of
        (n, s1) \<Rightarrow> Inr (n, profile_audit sid lab actor
          [(''profile'', JStr profile), (''rows_changed'', JInt (int n))] s1)))"

section \<open>Editing one policy\<close>

record policy_edit =
  pp_enabled :: "bool option"
  pp_severity :: "policy_severity option"
  pp_threshold_value :: "payload option"
  pp_grace_period_seconds :: "int option"
  pp_notify_admin :: "bool option"
  pp_notes :: "ustring option"

fun policy_severity_str :: "policy_severity \<Rightarrow> string" where
  "policy_severity_str LogOnly = ''log_only''"
| "policy_severity_str Notify = ''notify''"
| "policy_severity_str SevWarn = ''warn''"
| "policy_severity_str AutoKill = ''auto_kill''"

definition policy_json :: "agent_policy \<Rightarrow> json" where
  "policy_json p = JObj [(''enabled'', JInt (if ap_enabled p then 1 else 0)), (''severity'', JStr (policy_severity_str (ap_severity p))),
     (''threshold_value'', jopt JObj (ap_threshold_value p)), (''grace_period_seconds'', jopt JInt (ap_grace_period_seconds p)),
     (''notify_admin'', JInt (if ap_notify_admin p then 1 else 0)), (''notes'', jopt JText (ap_notes p))]"

definition edited_policy :: "policy_edit \<Rightarrow> payload option \<Rightarrow> int \<Rightarrow> agent_policy \<Rightarrow> agent_policy" where
  "edited_policy e threshold actor p = p\<lparr>
     ap_enabled := or_keep (pp_enabled e) (ap_enabled p), ap_severity := or_keep (pp_severity e) (ap_severity p),
     ap_threshold_value := (if threshold = None then ap_threshold_value p else threshold),
     ap_grace_period_seconds := (if pp_grace_period_seconds e = None then ap_grace_period_seconds p else pp_grace_period_seconds e),
     ap_notify_admin := or_keep (pp_notify_admin e) (ap_notify_admin p),
     ap_notes := (if pp_notes e = None then ap_notes p else pp_notes e), ap_updated_by_user_id := actor\<rparr>"

text \<open>The column of the grace period is an unsigned 32-bit integer.\<close>

definition grace_column_ok :: "int option \<Rightarrow> bool" where
  "grace_column_ok g = (case g of None \<Rightarrow> True | Some i \<Rightarrow> 0 \<le> i \<and> i < 2 ^ 32)"

text \<open>The row of the key, inserted from the standard preset when it is missing.\<close>

definition ensure_policy :: "int \<Rightarrow> string \<Rightarrow> int \<Rightarrow> session \<Rightarrow> policy_error + (agent_policy \<times> session)" where
  "ensure_policy sid key actor s = rbind (get_policy s sid key) (\<lambda>x. case x of
      Some p \<Rightarrow> Inr (p, s)
    | None \<Rightarrow> let p = preset_policy sid key actor (preset_at standard_preset key) in
        Inr (p\<lparr>ap_id := d_next_policy (s_db s)\<rparr>, upd_db (insert_policy p) s))"

definition update_one :: "(json \<Rightarrow> int option) \<Rightarrow> int \<Rightarrow> string \<Rightarrow> int \<Rightarrow> int \<Rightarrow> policy_edit \<Rightarrow> session \<Rightarrow>
    policy_error + (agent_policy \<times> session)" where
  "update_one coerce sid key lab actor e s =
    (if key \<notin> set POLICY_KEYS then Inl UnknownPolicyKeyError
     else if pp_severity e = Some AutoKill \<and> key \<notin> set AUTO_KILL_SETTABLE_KEYS then Inl AutoKillNotAllowedError
     else rbind (if pp_threshold_value e = None then Inr None else validate_threshold coerce key (pp_threshold_value e)) (\<lambda>threshold.
       rbind (ensure_policy sid key actor s) (\<lambda>(p, s1).
         let p' = edited_policy e threshold actor p in
         if \<not> grace_column_ok (ap_grace_period_seconds p') then Inl PolicyUncaught
         else Inr (p', audit_write (audit_of ''agent_policy.update'' (Some actor) (Some lab) (Some ''agent_policy'') (Some (ap_id p'))
           (Some lab) (Some sid) (Some [(''policy_key'', JStr key), (''before'', policy_json p), (''after'', policy_json p')]) no_ctx)
           (upd_db (put_policy p') s1)))))"

section \<open>What the agent is told\<close>

definition policy_entry_of :: "agent_policy \<Rightarrow> policy_entry" where
  "policy_entry_of p = \<lparr>pe_key = ap_policy_key p, pe_enabled = ap_enabled p, pe_severity = policy_severity_str (ap_severity p),
     pe_threshold_value = ap_threshold_value p, pe_grace_period_seconds = ap_grace_period_seconds p,
     pe_notify_admin = ap_notify_admin p\<rparr>"

definition compose_policies :: "session \<Rightarrow> int \<Rightarrow> policy_entry list" where
  "compose_policies s sid = map policy_entry_of (list_for_server s sid)"

text \<open>The frame on the wire; \<open>push_to_server\<close> waits for the acknowledgement.\<close>

definition policy_entry_json :: "policy_entry \<Rightarrow> json" where
  "policy_entry_json e = JObj [(''key'', JStr (pe_key e)), (''enabled'', JBool (pe_enabled e)), (''severity'', JStr (pe_severity e)),
     (''threshold_value'', jopt JObj (pe_threshold_value e)), (''grace_period_seconds'', jopt JInt (pe_grace_period_seconds e)),
     (''notify_admin'', JBool (pe_notify_admin e))]"

definition policy_payload :: "(policy_entry list \<Rightarrow> string) \<Rightarrow> session \<Rightarrow> int \<Rightarrow> payload" where
  "policy_payload etag s sid = [(''server_id'', JInt sid), (''policies'', JList (map policy_entry_json (compose_policies s sid))),
     (''etag'', JStr (etag (compose_policies s sid)))]"

definition push_policies :: "(policy_entry list \<Rightarrow> string) \<Rightarrow> rpc \<Rightarrow> session \<Rightarrow> int \<Rightarrow> bool outcome" where
  "push_policies etag rpc s sid = (case rpc sid ''backend.policy.sync'' (policy_payload etag s sid) of
      RpcReturned r \<Rightarrow> Inr (truthy_field r ''ok'')
    | AgentOffline _ \<Rightarrow> Inr False
    | AgentRpcTimeout _ \<Rightarrow> Inr False
    | _ \<Rightarrow> Inl Uncaught)"

text \<open>
  The reservations of a link that the agent is told: live and not over. The entry of an account groups
  them by the text of the user id; an account without an active link is left out.
\<close>

definition link_snapshots :: "session \<Rightarrow> account_link \<Rightarrow> active_reservation list" where
  "link_snapshots s l = map (\<lambda>r. \<lparr>ar_reservation_id = r_id r, ar_gpu_id = r_gpu_id r, ar_start_at = Some (dt_utc (r_start_at r)),
     ar_end_at = Some (dt_utc (r_end_at r)), ar_status = r_status r, ar_gpu_memory_mb = r_gpu_memory_mb r,
     ar_gpu_compute_share_pct = r_gpu_compute_share_pct r, ar_source = al_source l\<rparr>)
     (filter (\<lambda>r. r_account_link_id r = al_id l \<and> active_status (r_status r) \<and> r_end_at r \<ge> s_clock s) (reservations s))"

definition add_snapshots :: "session \<Rightarrow> account_link \<Rightarrow> (string \<times> active_reservation list) list \<Rightarrow> (string \<times> active_reservation list) list" where
  "add_snapshots s l out = (let key = int_str (al_user_id l); rs = link_snapshots s l in
     if rs = [] then out else dict_set out key ((case map_of out key of None \<Rightarrow> [] | Some xs \<Rightarrow> xs) @ rs))"

definition linked_users_rows :: "session \<Rightarrow> physical_account \<Rightarrow> account_link list" where
  "linked_users_rows s p = filter (\<lambda>l. al_physical_account_id l = pa_id p \<and> al_is_active l \<and> d_users (s_db s) (al_user_id l) \<noteq> None)
     (link_rows (s_db s))"

definition account_entry :: "session \<Rightarrow> physical_account \<Rightarrow> link_entry option" where
  "account_entry s p = (let ls = linked_users_rows s p in
     if ls = [] then None
     else Some \<lparr>le_linux_username = pa_linux_username p, le_user_ids = sort (remdups (map al_user_id ls)),
       le_active_reservations = fold (add_snapshots s) ls []\<rparr>)"

definition entries_for_linux_users :: "(string \<Rightarrow> string \<Rightarrow> bool) \<Rightarrow> session \<Rightarrow> int \<Rightarrow> string list option \<Rightarrow> link_entry list" where
  "entries_for_linux_users coll s sid names = List.map_filter (account_entry s)
     (filter (\<lambda>p. pa_server_id p = sid \<and> pa_is_active p
       \<and> (case names of None \<Rightarrow> True | Some ns \<Rightarrow> list_ex (coll (pa_linux_username p)) ns)) (pa_rows (s_db s)))"

text \<open>The two payloads, without their etag: the mode, the entries, the removed names.\<close>

definition compose_full_payload :: "(string \<Rightarrow> string \<Rightarrow> bool) \<Rightarrow> session \<Rightarrow> int \<Rightarrow> sync_mode \<times> link_entry list \<times> string list" where
  "compose_full_payload coll s sid = (FullSync, entries_for_linux_users coll s sid None, [])"

definition compose_incremental_payload :: "(string \<Rightarrow> string \<Rightarrow> bool) \<Rightarrow> session \<Rightarrow> int \<Rightarrow> string list \<Rightarrow> string list \<Rightarrow>
    sync_mode \<times> link_entry list \<times> string list" where
  "compose_incremental_payload coll s sid names removed = (IncrementalSync, entries_for_linux_users coll s sid (Some names), removed)"

end
