(* ===== verification/Alert_Service.thy ===== *)
theory Alert_Service
  imports Policy_Service
begin

text \<open>
  \<open>services/compliance_ingest_service.py\<close> and \<open>services/alert_service.py\<close>, what becomes of a violation an agent
  reports, with the branch of \<open>api/agent_ws.py\<close> that receives it; the endpoints of \<open>policies.py\<close> and
  \<open>alerts.py\<close>. The insertion of an alert checks the foreign keys of its row.
\<close>

section \<open>The frame\<close>

record violation_holder =
  vh_user_id :: int
  vh_username :: "string option"
  vh_reservation_id :: "int option"

record violation_frame =
  vf_server_id :: int
  vf_gpu_id :: int
  vf_policy_key :: string
  vf_severity :: string
  vf_linux_username :: "string option"
  vf_linux_pid :: "int option"
  vf_linked_platform_user_ids :: "int list"
  vf_current_reservation_holders :: "violation_holder list"
  vf_action_taken :: string
  vf_memory_used_mb :: "int option"
  vf_memory_declared_mb :: "int option"
  vf_util_pct :: "int option"
  vf_downgraded_from :: "string option"
  vf_details :: "ustring option"

text \<open>The frame \<open>push_compliance_violation\<close> of the agent's client builds from an event.\<close>

definition push_compliance_violation :: "violation_event \<Rightarrow> violation_frame" where
  "push_compliance_violation e = \<lparr>vf_server_id = ve_server_id e, vf_gpu_id = ve_gpu_id e, vf_policy_key = ve_policy_key e,
     vf_severity = ve_severity e, vf_linux_username = ve_linux_username e, vf_linux_pid = ve_linux_pid e,
     vf_linked_platform_user_ids = ve_linked_platform_user_ids e, vf_current_reservation_holders = [],
     vf_action_taken = ve_action_taken e, vf_memory_used_mb = None, vf_memory_declared_mb = None, vf_util_pct = None,
     vf_downgraded_from = ve_downgraded_from e, vf_details = None\<rparr>"

section \<open>Notifications and audit\<close>

definition notify_severity :: "string \<Rightarrow> severity" where
  "notify_severity sev = (if sev = ''auto_kill'' then Error else if sev = ''warn'' then Warn else Info)"

definition alert_severity_for :: "string \<Rightarrow> alert_severity" where
  "alert_severity_for sev = (case map_of [(''log_only'', AlertInfo), (''notify'', AlertInfo), (''warn'', AlertWarn),
     (''auto_kill'', AlertCritical)] sev of Some a \<Rightarrow> a | None \<Rightarrow> AlertInfo)"

definition compose_occupier_title :: "violation_frame \<Rightarrow> string" where
  "compose_occupier_title e = ''Compliance: '' @ vf_policy_key e @ '' on GPU-'' @ int_str (vf_gpu_id e) @ '' ('' @ vf_action_taken e @ '')''"

definition compose_holder_title :: "violation_frame \<Rightarrow> string option \<Rightarrow> string" where
  "compose_holder_title e occupier = ''GPU-'' @ int_str (vf_gpu_id e) @ '' occupied by ''
     @ (case occupier of Some n \<Rightarrow> if n = [] then ''an unknown user'' else n | None \<Rightarrow> ''an unknown user'')
     @ '' (your reservation)''"

definition notify_occupier :: "violation_frame \<Rightarrow> int \<Rightarrow> session \<Rightarrow> session" where
  "notify_occupier e uid = create_notification uid (''compliance.'' @ vf_policy_key e) (compose_occupier_title e)
     (notify_severity (vf_severity e)) None
     (Some [(''alert_event_id'', JNull), (''server_id'', JInt (vf_server_id e)), (''gpu_id'', JInt (vf_gpu_id e)),
            (''policy_key'', JStr (vf_policy_key e)), (''action_taken'', JStr (vf_action_taken e))]) None"

definition notify_holder :: "violation_frame \<Rightarrow> violation_holder \<Rightarrow> session \<Rightarrow> session" where
  "notify_holder e h = create_notification (vh_user_id h) ''compliance.your_gpu_occupied'' (compose_holder_title e (vh_username h))
     (notify_severity (vf_severity e)) None
     (Some [(''server_id'', JInt (vf_server_id e)), (''gpu_id'', JInt (vf_gpu_id e)),
            (''reservation_id'', jopt JInt (vh_reservation_id h)), (''occupier_linux_username'', jstring (vf_linux_username e))]) None"

definition violation_log :: "violation_frame \<Rightarrow> payload" where
  "violation_log e = [(''policy_key'', JStr (vf_policy_key e)), (''severity'', JStr (vf_severity e)),
     (''linux_username'', jstring (vf_linux_username e)), (''linux_pid'', jopt JInt (vf_linux_pid e)),
     (''linked_platform_user_ids'', JList (map JInt (vf_linked_platform_user_ids e))),
     (''current_reservation_holders'', JList (map (\<lambda>h. JObj [(''user_id'', JInt (vh_user_id h)),
        (''username'', jstring (vh_username h)), (''reservation_id'', jopt JInt (vh_reservation_id h))]) (vf_current_reservation_holders e))),
     (''action_taken'', JStr (vf_action_taken e)), (''memory_used_mb'', jopt JInt (vf_memory_used_mb e)),
     (''memory_declared_mb'', jopt JInt (vf_memory_declared_mb e)), (''util_pct'', jopt JInt (vf_util_pct e)),
     (''downgraded_from'', jstring (vf_downgraded_from e)), (''details'', jopt JText (vf_details e))]"

definition handle_violation :: "violation_frame \<Rightarrow> int \<Rightarrow> session \<Rightarrow> session" where
  "handle_violation e lab s =
    (let s1 = fold (notify_occupier e) (vf_linked_platform_user_ids e) s;
         s2 = fold (notify_holder e) (vf_current_reservation_holders e) s1
     in audit_write (audit_of ''compliance.violation'' None (Some lab) (Some ''gpu'') (Some (vf_gpu_id e)) (Some lab)
          (Some (vf_server_id e)) (Some (violation_log e)) no_ctx) s2)"

section \<open>Alerts\<close>

definition ALERT_DEDUP_WINDOW_SECONDS :: int where "ALERT_DEDUP_WINDOW_SECONDS = 3600"

text \<open>The newest alert of the kind in the window; equal times are taken in the order of insertion.\<close>

definition alert_dedup_hit :: "session \<Rightarrow> int \<Rightarrow> int option \<Rightarrow> string \<Rightarrow> int \<Rightarrow> alert_event option" where
  "alert_dedup_hit s sid gid ty window =
    (case sort_key (\<lambda>a. - ev_created_at a) (filter (\<lambda>a. ev_server_id a = sid \<and> ev_event_type a = ty \<and> ev_gpu_id a = gid
         \<and> ev_created_at a \<ge> s_clock s - window * 1000000) (d_alerts (s_db s))) of
       [] \<Rightarrow> None | a # _ \<Rightarrow> Some a)"

definition determine_recipients :: "session \<Rightarrow> int \<Rightarrow> int option \<Rightarrow> int list" where
  "determine_recipients s sid rid =
    (let granted = map gr_user_id (filter (\<lambda>g. gr_server_id g = sid \<and> gr_is_active g) (d_grants (s_db s)));
         admins = (case d_servers (s_db s) sid of None \<Rightarrow> []
           | Some v \<Rightarrow> map u_id (filter (\<lambda>u. u_lab_id u = srv_lab_id v \<and> u_role u = RoleLabAdmin \<and> u_is_active u) (user_rows (s_db s))));
         owner = (case Option.bind rid (get_reservation s) of None \<Rightarrow> [] | Some r \<Rightarrow> [r_user_id r])
     in sort (remdups (granted @ admins @ owner)))"

text \<open>The foreign keys \<open>fk_alert_server\<close>, \<open>fk_alert_gpu\<close> and \<open>fk_alert_res\<close>.\<close>

definition alert_refs_ok :: "db \<Rightarrow> alert_event \<Rightarrow> bool" where
  "alert_refs_ok d a \<longleftrightarrow> d_servers d (ev_server_id a) \<noteq> None \<and> (case ev_gpu_id a of None \<Rightarrow> True | Some g \<Rightarrow> d_gpus d g \<noteq> None)
     \<and> (case ev_reservation_id a of None \<Rightarrow> True | Some r \<Rightarrow> row_by r_id r (d_reservations d) \<noteq> None)"

definition insert_alert :: "alert_event \<Rightarrow> db \<Rightarrow> db" where
  "insert_alert a d = d\<lparr>d_alerts := d_alerts d @ [a], d_next_alert := ev_id a + 1\<rparr>"

fun alert_severity_str :: "alert_severity \<Rightarrow> string" where
  "alert_severity_str AlertInfo = ''info''"
| "alert_severity_str AlertWarn = ''warn''"
| "alert_severity_str AlertCritical = ''critical''"

definition alert_frame :: "alert_event \<Rightarrow> payload" where
  "alert_frame a = [(''alert_event_id'', JInt (ev_id a)), (''server_id'', JInt (ev_server_id a)), (''gpu_id'', jopt JInt (ev_gpu_id a)),
     (''reservation_id'', jopt JInt (ev_reservation_id a)), (''event_type'', JStr (ev_event_type a)),
     (''severity'', JStr (alert_severity_str (ev_severity a))), (''payload'', jopt JObj (ev_payload a)),
     (''created_at'', JTime (dt_naive (ev_created_at a)))]"

text \<open>
  The service commits its own session before it pushes: \<^const>\<open>None\<close> when the flush or the commit
  raises, and then nothing is pushed.
\<close>

definition create_alert :: "int \<Rightarrow> string \<Rightarrow> alert_severity \<Rightarrow> int option \<Rightarrow> int option \<Rightarrow> payload option \<Rightarrow> int \<Rightarrow> session \<Rightarrow>
    (alert_event \<times> session) option" where
  "create_alert sid ty sev gid rid pl window s = (case alert_dedup_hit s sid gid ty window of
      Some a \<Rightarrow> Some (a, s)
    | None \<Rightarrow>
      let recipients = determine_recipients s sid rid;
          row = \<lparr>ev_id = d_next_alert (s_db s), ev_server_id = sid, ev_gpu_id = gid, ev_reservation_id = rid, ev_event_type = ty,
            ev_severity = sev, ev_payload = pl, ev_notified_user_ids = recipients, ev_is_resolved = False, ev_resolved_at = None,
            ev_resolved_by_user_id = None, ev_resolution_note = None, ev_created_at = s_clock s\<rparr>
      in if \<not> alert_refs_ok (s_db s) row then None
         else Some (row, fold (\<lambda>uid. push_to_user uid (AlertNew (alert_frame row))) recipients (upd_db (insert_alert row) s)))"

definition put_alert :: "alert_event \<Rightarrow> db \<Rightarrow> db" where
  "put_alert a d = d\<lparr>d_alerts := row_put ev_id a (d_alerts d)\<rparr>"

definition get_alert :: "session \<Rightarrow> int \<Rightarrow> alert_event option" where
  "get_alert s aid = row_by ev_id aid (d_alerts (s_db s))"

definition resolve_alert :: "int \<Rightarrow> int \<Rightarrow> ustring option \<Rightarrow> session \<Rightarrow> alert_event option \<times> session" where
  "resolve_alert aid resolver note s = (case get_alert s aid of
      None \<Rightarrow> (None, s)
    | Some a \<Rightarrow> if ev_is_resolved a then (Some a, s)
      else let a' = a\<lparr>ev_is_resolved := True, ev_resolved_at := Some (s_clock s), ev_resolved_by_user_id := Some resolver,
             ev_resolution_note := note\<rparr>
        in (Some a', upd_db (put_alert a') s))"

section \<open>The violation branch of the agent's websocket\<close>

text \<open>
  Two transactions: notifications with the audit row, then the alert. An exception in the second one leaves
  the receive loop: the connection ends (\<^const>\<open>False\<close>) and the first one stays committed. The users and
  the server the frame names are taken to exist, so that the first one commits.
\<close>

definition alert_payload :: "violation_frame \<Rightarrow> payload" where
  "alert_payload e = [(''policy_key'', JStr (vf_policy_key e)), (''severity'', JStr (vf_severity e)),
     (''linux_username'', jstring (vf_linux_username e)), (''linux_pid'', jopt JInt (vf_linux_pid e)),
     (''action_taken'', JStr (vf_action_taken e)), (''downgraded_from'', jstring (vf_downgraded_from e)),
     (''memory_used_mb'', jopt JInt (vf_memory_used_mb e)), (''memory_declared_mb'', jopt JInt (vf_memory_declared_mb e)),
     (''util_pct'', jopt JInt (vf_util_pct e)), (''details'', jopt JText (vf_details e))]"

definition on_compliance_violation :: "violation_frame \<Rightarrow> int \<Rightarrow> session \<Rightarrow> bool \<times> session" where
  "on_compliance_violation e lab s = (let s1 = handle_violation e lab s in
     case create_alert (vf_server_id e) (''compliance.'' @ vf_policy_key e) (alert_severity_for (vf_severity e)) (Some (vf_gpu_id e))
         None (Some (alert_payload e)) ALERT_DEDUP_WINDOW_SECONDS s1 of
       None \<Rightarrow> (False, s1)
     | Some (_, s2) \<Rightarrow> (True, s2))"

section \<open>Endpoints\<close>

text \<open>\<open>_require_policy_admin\<close> and \<open>_load_alert_with_admin_check\<close>; two active grants for one server raise.\<close>

definition code_error :: "nat \<Rightarrow> string \<Rightarrow> api_error" where
  "code_error n c = HttpException n [(''code'', JStr c)]"

definition require_server_admin :: "string \<Rightarrow> user \<Rightarrow> int \<Rightarrow> session \<Rightarrow> unit outcome" where
  "require_server_admin code u sid s =
    (if u_role u = RoleLabAdmin then Inr ()
     else (case filter (\<lambda>g. gr_server_id g = sid) (active_grants (s_db s) (u_id u)) of
       [] \<Rightarrow> Inl (code_error 403 code) | [g] \<Rightarrow> Inr () | _ \<Rightarrow> Inl Uncaught))"

definition server_in_lab_of :: "string \<Rightarrow> user \<Rightarrow> int \<Rightarrow> session \<Rightarrow> server outcome" where
  "server_in_lab_of code u sid s = (case d_servers (s_db s) sid of
      None \<Rightarrow> Inl (code_error 404 code)
    | Some v \<Rightarrow> if srv_lab_id v = u_lab_id u then Inr v else Inl (code_error 404 code))"

definition require_policy_admin :: "user \<Rightarrow> int \<Rightarrow> session \<Rightarrow> server outcome" where
  "require_policy_admin u sid s = rbind (server_in_lab_of ''SERVER_NOT_FOUND'' u sid s) (\<lambda>v.
     rbind (require_server_admin ''POLICY_ADMIN_REQUIRED'' u sid s) (\<lambda>_. Inr v))"

definition list_policy_ep :: "user \<Rightarrow> int \<Rightarrow> session \<Rightarrow> agent_policy list outcome" where
  "list_policy_ep u sid s = rbind (require_policy_admin u sid s) (\<lambda>_. Inr (list_for_server s sid))"

fun policy_http :: "policy_error \<Rightarrow> api_error" where
  "policy_http UnknownPolicyKeyError = code_error 422 ''UNKNOWN_POLICY_KEY''"
| "policy_http InvalidThresholdError = code_error 422 ''INVALID_THRESHOLD''"
| "policy_http AutoKillNotAllowedError = code_error 422 ''AUTO_KILL_NOT_ALLOWED''"
| "policy_http UnknownProfileError = code_error 422 ''UNKNOWN_PROFILE''"
| "policy_http PolicyUncaught = Uncaught"

record policy_env =
  po_coerce :: "json \<Rightarrow> int option"
  po_etag :: "policy_entry list \<Rightarrow> string"
  po_rpc :: rpc

text \<open>An edit is committed before the push: the result comes with the database it leaves.\<close>

definition commit_and_push :: "policy_env \<Rightarrow> int \<Rightarrow> db \<Rightarrow> 'a \<times> session \<Rightarrow> ('a \<times> bool) outcome \<times> db" where
  "commit_and_push env sid base m = (case m of (x, s) \<Rightarrow> (case commit s of
      Inl _ \<Rightarrow> (Inl Uncaught, base)
    | Inr d \<Rightarrow> (case push_policies (po_etag env) (po_rpc env) (open_session d (s_clock s)) sid of
        Inl e \<Rightarrow> (Inl e, d) | Inr ok \<Rightarrow> (Inr (x, ok), d))))"

definition update_policy_ep :: "policy_env \<Rightarrow> user \<Rightarrow> int \<Rightarrow> string \<Rightarrow> policy_edit \<Rightarrow> session \<Rightarrow>
    ((agent_policy \<times> bool) \<times> bool) outcome \<times> db" where
  "update_policy_ep env u sid key e s = (case require_policy_admin u sid s of
      Inl err \<Rightarrow> end_request (s_db s) (Inl err, s)
    | Inr v \<Rightarrow> (case (case pp_severity e of None \<Rightarrow> Inr False | Some sev \<Rightarrow> auto_kill_capability_warning s sid key sev) of
        Inl err \<Rightarrow> end_request (s_db s) (Inl (policy_http err), s)
      | Inr warning \<Rightarrow> (case update_one (po_coerce env) sid key (srv_lab_id v) (u_id u) e s of
          Inl err \<Rightarrow> end_request (s_db s) (Inl (policy_http err), s)
        | Inr (p, s') \<Rightarrow> commit_and_push env sid (s_db s) ((p, warning), s'))))"

definition switch_profile_ep :: "policy_env \<Rightarrow> user \<Rightarrow> int \<Rightarrow> string \<Rightarrow> session \<Rightarrow> (nat \<times> bool) outcome \<times> db" where
  "switch_profile_ep env u sid profile s = (case require_policy_admin u sid s of
      Inl err \<Rightarrow> end_request (s_db s) (Inl err, s)
    | Inr v \<Rightarrow> (case (if list_for_server s sid = []
          then map_sum id (\<lambda>(_, s'). (8, s')) (seed_default_profile sid (srv_lab_id v) (u_id u) profile s)
          else switch_profile sid (srv_lab_id v) (u_id u) profile s) of
        Inl err \<Rightarrow> end_request (s_db s) (Inl (policy_http err), s)
      | Inr m \<Rightarrow> commit_and_push env sid (s_db s) m))"

text \<open>The lower bound of a listing is given as a wall-clock time in UTC.\<close>

definition list_alerts_ep :: "user \<Rightarrow> int option \<Rightarrow> int option \<Rightarrow> nat \<Rightarrow> session \<Rightarrow> alert_event list" where
  "list_alerts_ep u since sid limit s = take limit (sort_key (\<lambda>a. - ev_created_at a)
     (filter (\<lambda>a. (case d_servers (s_db s) (ev_server_id a) of None \<Rightarrow> False | Some v \<Rightarrow> srv_lab_id v = u_lab_id u)
        \<and> (case since of None \<Rightarrow> True | Some t \<Rightarrow> ev_created_at a > t)
        \<and> (case sid of None \<Rightarrow> True | Some i \<Rightarrow> ev_server_id a = i)) (d_alerts (s_db s))))"

definition load_alert_with_admin_check :: "string \<Rightarrow> user \<Rightarrow> int \<Rightarrow> session \<Rightarrow> alert_event outcome" where
  "load_alert_with_admin_check code u aid s = (case get_alert s aid of
      None \<Rightarrow> Inl (code_error 404 ''ALERT_NOT_FOUND'')
    | Some a \<Rightarrow> rbind (server_in_lab_of ''ALERT_NOT_FOUND'' u (ev_server_id a) s) (\<lambda>_.
        rbind (require_server_admin code u (ev_server_id a) s) (\<lambda>_. Inr a)))"

definition alert_audit :: "string \<Rightarrow> user \<Rightarrow> alert_event \<Rightarrow> payload \<Rightarrow> audit_entry" where
  "alert_audit action u a pl = audit_of action (Some (u_id u)) (Some (u_lab_id u)) (Some ''alert_event'') (Some (ev_id a)) None
     (Some (ev_server_id a)) (Some pl) no_ctx"

definition resolve_alert_ep :: "user \<Rightarrow> int \<Rightarrow> ustring option \<Rightarrow> session \<Rightarrow> alert_event outcome \<times> session" where
  "resolve_alert_ep u aid note s = (case load_alert_with_admin_check ''ALERT_RESOLVE_NOT_PERMITTED'' u aid s of
      Inl e \<Rightarrow> (Inl e, s)
    | Inr a \<Rightarrow> (case resolve_alert aid (u_id u) note s of
        (None, s') \<Rightarrow> (Inl (code_error 404 ''ALERT_NOT_FOUND''), s')
      | (Some r, s') \<Rightarrow> (Inr r, audit_write (alert_audit ''alert.resolve'' u a
          [(''event_type'', JStr (ev_event_type a)), (''resolution_note'', jopt JText note)]) s')))"

text \<open>The process id of an alert; a boolean is an integer in Python.\<close>

definition alert_pid :: "alert_event \<Rightarrow> int option" where
  "alert_pid a = (case ev_payload a of None \<Rightarrow> None | Some pl \<Rightarrow> (case map_of pl ''linux_pid'' of
      Some (JInt i) \<Rightarrow> Some i | Some (JBool b) \<Rightarrow> Some (if b then 1 else 0) | _ \<Rightarrow> None))"

record kill_reply =
  ky_killed :: bool
  ky_ok :: bool
  ky_error :: json

definition kill_process_ep :: "rpc \<Rightarrow> user \<Rightarrow> int \<Rightarrow> ustring option \<Rightarrow> session \<Rightarrow> kill_reply outcome \<times> session" where
  "kill_process_ep rpc u aid reason s = (case load_alert_with_admin_check ''ALERT_KILL_NOT_PERMITTED'' u aid s of
      Inl e \<Rightarrow> (Inl e, s)
    | Inr a \<Rightarrow> (case alert_pid a of
        None \<Rightarrow> (Inl (code_error 409 ''ALERT_HAS_NO_PID''), s)
      | Some pid \<Rightarrow>
        let name = rpc_get (case ev_payload a of None \<Rightarrow> [] | Some pl \<Rightarrow> pl) ''linux_username'' JNull;
            why = (case reason of Some t \<Rightarrow> if t = [] then JStr (''manual kill via alert #'' @ int_str aid) else JText t
              | None \<Rightarrow> JStr (''manual kill via alert #'' @ int_str aid))
        in (case rpc (ev_server_id a) ''backend.gpu.kill_process'' [(''pid'', JInt pid), (''linux_username'', name), (''reason'', why)] of
            AgentOffline _ \<Rightarrow> (Inl (code_error 409 ''AGENT_OFFLINE''), s)
          | AgentRpcTimeout _ \<Rightarrow> (Inl (code_error 504 ''AGENT_TIMEOUT''), s)
          | RpcReturned r \<Rightarrow>
            let killed = truthy_field r ''killed''; ok = truthy_field r ''ok''; err = rpc_get r ''error'' JNull in
            (Inr \<lparr>ky_killed = killed, ky_ok = ok, ky_error = err\<rparr>,
             audit_write ((alert_audit ''alert.kill_process'' u a
               [(''event_type'', JStr (ev_event_type a)), (''linux_pid'', JInt pid), (''linux_username'', name),
                (''killed'', JBool killed), (''rpc_ok'', JBool ok), (''rpc_error'', err), (''reason'', jopt JText reason)])
               \<lparr>au_result := (if ok then ''ok'' else ''error''),
                au_error_message := (if ok then None else Some (case err of JStr t \<Rightarrow> if t = [] then ''kill not confirmed'' else t
                  | _ \<Rightarrow> ''kill not confirmed''))\<rparr>) s)
          | _ \<Rightarrow> (Inl Uncaught, s))))"

end
