(* ===== verification/Policy_Props.thy ===== *)
theory Policy_Props
  imports Compliance_Props Alert_Service Step_Contract
begin

text \<open>
  The policy rows of the servers: what makes the table well typed, that the two endpoints that write it
  keep it so, and that an agent that was told a server's rows looks up exactly them. A typed cache is what keeps a
  tick of the agent from raising.
\<close>

section \<open>Well typed rows\<close>

text \<open>A stored threshold is what its schema dumps.\<close>

definition json_int :: "json \<Rightarrow> int option" where
  "json_int j = (case j of JInt i \<Rightarrow> Some i | _ \<Rightarrow> None)"

lemma json_int_simps [simp]: "json_int (JInt i) = Some i" "json_int (JStr t) = None"
  by (simp_all add: json_int_def)

definition threshold_typed :: "string \<Rightarrow> payload option \<Rightarrow> bool" where
  "threshold_typed key t \<longleftrightarrow> (case t of None \<Rightarrow> True | Some pl \<Rightarrow>
     (case THRESHOLD_SCHEMAS key of None \<Rightarrow> False | Some sc \<Rightarrow> sc \<noteq> NoThreshold \<and> dump_threshold json_int sc pl = Some pl))"

definition policy_typed :: "agent_policy \<Rightarrow> bool" where
  "policy_typed p \<longleftrightarrow> ap_policy_key p \<in> set POLICY_KEYS
     \<and> (ap_severity p = AutoKill \<longrightarrow> ap_policy_key p \<in> set AUTO_KILL_SETTABLE_KEYS)
     \<and> threshold_typed (ap_policy_key p) (ap_threshold_value p) \<and> grace_column_ok (ap_grace_period_seconds p)"

definition policy_slot :: "agent_policy \<Rightarrow> int \<times> string" where
  "policy_slot p = (ap_server_id p, ap_policy_key p)"

definition policies_ok :: "db \<Rightarrow> bool" where
  "policies_ok d \<longleftrightarrow> (\<forall>p \<in> set (d_policies d). policy_typed p \<and> ap_id p < d_next_policy d)
     \<and> distinct (map ap_id (d_policies d)) \<and> distinct (map policy_slot (d_policies d))"

text \<open>Rows are neither lost nor moved to another server or key.\<close>

definition policies_dev :: "db \<Rightarrow> db \<Rightarrow> bool" where
  "policies_dev d d' \<longleftrightarrow> (\<exists>new. map policy_slot (d_policies d') = map policy_slot (d_policies d) @ new)"

lemma dump_int: "dump_threshold coerce sc pl = Some out \<Longrightarrow> sc \<noteq> NoThreshold \<Longrightarrow> dump_threshold json_int sc out = Some out"
  by (cases sc) (auto simp: dump_threshold_def int_field_def unit_ok_def bind_eq_Some_conv split: if_splits option.splits)

lemma validated_typed: "validate_threshold coerce key t = Inr out \<Longrightarrow> threshold_typed key out"
  by (auto simp: validate_threshold_def threshold_typed_def dest: dump_int split: option.splits if_splits)

lemma policies_frame: "d_policies d' = d_policies d \<Longrightarrow> d_next_policy d' = d_next_policy d \<Longrightarrow> policies_ok d \<Longrightarrow> policies_ok d' \<and> policies_dev d d'"
  by (simp add: policies_ok_def policies_dev_def)

lemma audit_policies [simp]: "d_policies (s_db (audit_write e s)) = d_policies (s_db s)"
    "d_next_policy (s_db (audit_write e s)) = d_next_policy (s_db s)"
  by (simp_all add: audit_write_def upd_db_def)

interpretation policy_run: step_contract policies_ok policies_dev
proof unfold_locales
  show "policies_dev d d" for d by (simp add: policies_dev_def)
  show "policies_dev d d''" if "policies_dev d d'" "policies_dev d' d''" for d d' d'' using that by (auto simp: policies_dev_def)
  show "policies_ok (db_update_res r d) \<and> policies_dev d (db_update_res r d)" if "policies_ok d" for d r
    by (rule policies_frame[OF _ _ that]) (simp_all add: db_update_res_def)
  show "policies_ok (s_db (audit_write e s)) \<and> policies_dev (s_db s) (s_db (audit_write e s))" if "policies_ok (s_db s)" for s e
    by (rule policies_frame[OF _ _ that]) simp_all
qed

section \<open>The writers\<close>

abbreviation policy_step :: "db \<Rightarrow> db \<Rightarrow> bool" where
  "policy_step \<equiv> step_ok policies_ok policies_dev"

lemma insert_policy_step:
  assumes "policy_typed p" and "policy_slot p \<notin> policy_slot ` set (d_policies d)"
  shows "policy_step d (insert_policy p d)"
proof (rule step_okI)
  assume ok: "policies_ok d"
  have t: "policy_typed (p\<lparr>ap_id := i\<rparr>)" "policy_slot (p\<lparr>ap_id := i\<rparr>) = policy_slot p" for i
    using assms(1) by (simp_all add: policy_typed_def policy_slot_def)
  show "policies_ok (insert_policy p d) \<and> policies_dev d (insert_policy p d)"
    using ok assms(2) by (auto simp: policies_ok_def policies_dev_def insert_policy_def t)
qed

lemma put_policy_step:
  assumes "policy_typed p" and "q \<in> set (d_policies d)" and "ap_id p = ap_id q" and "policy_slot p = policy_slot q"
  shows "policy_step d (put_policy p d)"
proof (rule step_okI)
  assume ok: "policies_ok d"
  then have dist: "distinct (map ap_id (d_policies d))" by (simp add: policies_ok_def)
  have same: "x = q" if "x \<in> set (d_policies d)" "ap_id x = ap_id p" for x
    using dist assms(2,3) that by (simp add: distinct_map inj_on_def)
  have slots: "map policy_slot (d_policies (put_policy p d)) = map policy_slot (d_policies d)"
    and ids: "map ap_id (d_policies (put_policy p d)) = map ap_id (d_policies d)"
    using same assms(4) by (auto simp: put_policy_def row_put_def)
  have "policy_typed x \<and> ap_id x < d_next_policy (put_policy p d)" if "x \<in> set (d_policies (put_policy p d))" for x
    using that ok assms(1-3) by (auto simp: put_policy_def row_put_def policies_ok_def)
  with ok show "policies_ok (put_policy p d) \<and> policies_dev d (put_policy p d)"
    unfolding policies_ok_def policies_dev_def slots ids by simp
qed

lemma presets_typed:
  assumes "profile_preset name = Some ps" and "key \<in> set POLICY_KEYS"
  shows "policy_typed (preset_policy sid key actor (preset_at ps key))"
proof -
  from assms(1) have "ps \<in> {permissive_preset, standard_preset, strict_preset}" by (auto simp: profile_preset_def split: if_splits)
  moreover have "list_all (\<lambda>k. policy_typed (preset_policy sid k actor (preset_at ps k))) POLICY_KEYS"
    if "ps = permissive_preset \<or> ps = standard_preset \<or> ps = strict_preset"
    using that by (elim disjE) (simp_all add: POLICY_KEYS_def policy_typed_def preset_policy_def preset_at_def permissive_preset_def
      standard_preset_def strict_preset_def preset_def AUTO_KILL_SETTABLE_KEYS_def threshold_typed_def grace_column_ok_def
      THRESHOLD_SCHEMAS_def pct20_def hang600_def celsius85_def dump_threshold_def int_field_def unit_ok_def)
  ultimately show ?thesis using assms(2) by (auto simp: list_all_iff)
qed

lemma upd_db_db [simp]: "s_db (upd_db f s) = f (s_db s)" "s_clock (upd_db f s) = s_clock s" "s_dirty (upd_db f s) = s_dirty s"
  by (simp_all add: upd_db_def)

lemma insert_policy_rows: "d_policies (insert_policy p d) = d_policies d @ [p\<lparr>ap_id := d_next_policy d\<rparr>]"
  by (simp add: insert_policy_def)

lemma slot_upd [simp]: "policy_slot (p\<lparr>ap_id := i\<rparr>) = policy_slot p" "policy_slot (set_preset a r p) = policy_slot p"
  "policy_slot (preset_policy sid key actor r) = (sid, key)"
  by (simp_all add: policy_slot_def set_preset_def preset_policy_def)

lemma distinct_keys [simp]: "distinct POLICY_KEYS"
  by (simp add: POLICY_KEYS_def)

lemma seed_fold:
  assumes "profile_preset name = Some ps" and "distinct ks" and "set ks \<subseteq> set POLICY_KEYS"
    and "\<And>k. k \<in> set ks \<Longrightarrow> (sid, k) \<notin> policy_slot ` set (d_policies (s_db s))"
  shows "policy_step (s_db s) (s_db (fold (\<lambda>key. upd_db (insert_policy (preset_policy sid key actor (preset_at ps key)))) ks s))"
  using assms(2-4)
proof (induction ks arbitrary: s)
  case (Cons k ks)
  let ?s = "upd_db (insert_policy (preset_policy sid k actor (preset_at ps k))) s"
  have "policy_step (s_db s) (s_db ?s)"
    using insert_policy_step[OF presets_typed[OF assms(1), of k], of sid actor "s_db s"] Cons.prems by simp
  moreover have "policy_step (s_db ?s) (s_db (fold (\<lambda>key. upd_db (insert_policy (preset_policy sid key actor (preset_at ps key)))) ks ?s))"
    using Cons.prems by (intro Cons.IH) (auto simp: insert_policy_rows)
  ultimately show ?case using policy_run.trans_step by simp
qed simp

lemma seed_step: "settles policies_ok policies_dev s (seed_default_profile sid lab actor profile s)"
proof -
  have "policy_step (s_db s) (s_db (fold (\<lambda>key. upd_db (insert_policy (preset_policy sid key actor (preset_at ps key)))) POLICY_KEYS s))"
    if "profile_preset profile = Some ps" "list_for_server s sid = []" for ps
    using that by (intro seed_fold) (auto simp: list_for_server_def filter_empty_conv policy_slot_def)
  then show ?thesis
    by (auto simp: seed_default_profile_def profile_audit_def intro!: settles_intros policy_run.audited split: option.splits)
qed

lemma switch_fold:
  assumes ps: "profile_preset name = Some ps" and ex: "\<And>p. p \<in> set existing \<Longrightarrow> ap_server_id p = sid"
  shows "distinct ks \<Longrightarrow> set ks \<subseteq> set POLICY_KEYS \<Longrightarrow> policies_ok (s_db s)
    \<Longrightarrow> (\<forall>p \<in> set existing. ap_policy_key p \<in> set ks \<longrightarrow> p \<in> set (d_policies (s_db s)))
    \<Longrightarrow> (\<forall>k \<in> set ks. (sid, k) \<in> policy_slot ` set (d_policies (s_db s)) \<longrightarrow> k \<in> ap_policy_key ` set existing)
    \<Longrightarrow> policies_ok (s_db (snd (fold (switch_one sid actor existing ps) ks (n, s))))
      \<and> policies_dev (s_db s) (s_db (snd (fold (switch_one sid actor existing ps) ks (n, s))))"
proof (induction ks arbitrary: n s)
  case Nil
  then show ?case by (simp add: policy_run.dev_refl)
next
  case (Cons k ks)
  obtain n' s' where one: "switch_one sid actor existing ps k (n, s) = (n', s')" by fastforce
  have "policy_step (s_db s) (s_db s')
    \<and> (\<forall>q. q \<in> set (d_policies (s_db s)) \<longrightarrow> ap_policy_key q \<noteq> k \<longrightarrow> q \<in> set (d_policies (s_db s')))
    \<and> policy_slot ` set (d_policies (s_db s')) \<subseteq> insert (sid, k) (policy_slot ` set (d_policies (s_db s)))"
  proof (cases "find (\<lambda>p. ap_policy_key p = k) (rev existing)")
    case None
    then have new: "k \<notin> ap_policy_key ` set existing" by (auto simp: find_None_iff)
    let ?p = "preset_policy sid k actor (preset_at ps k)"
    from None one have s': "s_db s' = insert_policy ?p (s_db s)" by (auto simp: switch_one_def Let_def)
    have "policy_step (s_db s) (insert_policy ?p (s_db s))"
      using Cons.prems(2,5) new by (intro insert_policy_step presets_typed[OF ps]) auto
    then show ?thesis by (auto simp: s' insert_policy_rows)
  next
    case (Some p)
    then obtain i where "i < length (rev existing)" "ap_policy_key (rev existing ! i) = k" "p = rev existing ! i" by (auto simp: find_Some_iff)
    then have p: "p \<in> set existing" "ap_policy_key p = k" using nth_mem[of i "rev existing"] by simp_all
    with Cons.prems(4) have mem: "p \<in> set (d_policies (s_db s))" by simp
    show ?thesis
    proof (cases "same_preset p (preset_at ps k)")
      case True
      with Some one show ?thesis by (auto simp: switch_one_def Let_def)
    next
      case False
      let ?p = "set_preset actor (preset_at ps k) p"
      from False Some one have s': "s_db s' = put_policy ?p (s_db s)" by (auto simp: switch_one_def Let_def)
      have id: "ap_id ?p = ap_id p" by (simp add: set_preset_def)
      have "policy_typed ?p" using presets_typed[OF ps, of k sid actor] Cons.prems(2) p(2)
        by (simp add: policy_typed_def preset_policy_def set_preset_def)
      then have step: "policy_step (s_db s) (s_db s')" unfolding s' by (rule put_policy_step[OF _ mem id]) simp
      have eq: "q = p" if "q \<in> set (d_policies (s_db s))" "ap_id q = ap_id p" for q
        using Cons.prems(3) mem that by (simp add: policies_ok_def distinct_map inj_on_def)
      have "q \<in> set (d_policies (s_db s'))" if "q \<in> set (d_policies (s_db s))" "ap_policy_key q \<noteq> k" for q
        using that eq[of q] p(2) id by (auto simp: s' put_policy_def row_put_def image_iff intro!: bexI[of _ q])
      moreover have "policy_slot ` set (d_policies (s_db s')) \<subseteq> insert (sid, k) (policy_slot ` set (d_policies (s_db s)))"
        using p ex[of p] by (auto simp: s' put_policy_def row_put_def policy_slot_def set_preset_def)
      ultimately show ?thesis using step by blast
    qed
  qed
  then have a: "policies_ok (s_db s')" "policies_dev (s_db s) (s_db s')"
    and b: "\<And>q. q \<in> set (d_policies (s_db s)) \<Longrightarrow> ap_policy_key q \<noteq> k \<Longrightarrow> q \<in> set (d_policies (s_db s'))"
    and c: "policy_slot ` set (d_policies (s_db s')) \<subseteq> insert (sid, k) (policy_slot ` set (d_policies (s_db s)))"
    using Cons.prems(3) by (auto simp: step_ok_def)
  have "policies_ok (s_db (snd (fold (switch_one sid actor existing ps) ks (n', s'))))
      \<and> policies_dev (s_db s') (s_db (snd (fold (switch_one sid actor existing ps) ks (n', s'))))"
  proof (rule Cons.IH)
    show "\<forall>p \<in> set existing. ap_policy_key p \<in> set ks \<longrightarrow> p \<in> set (d_policies (s_db s'))"
      using Cons.prems(1,4) b by auto
    show "\<forall>j \<in> set ks. (sid, j) \<in> policy_slot ` set (d_policies (s_db s')) \<longrightarrow> j \<in> ap_policy_key ` set existing"
    proof (intro ballI impI)
      fix j assume j: "j \<in> set ks" "(sid, j) \<in> policy_slot ` set (d_policies (s_db s'))"
      with c Cons.prems(1) have "(sid, j) \<in> policy_slot ` set (d_policies (s_db s))" by auto
      with Cons.prems(5) j(1) show "j \<in> ap_policy_key ` set existing" by simp
    qed
  qed (use Cons.prems a in auto)
  with a(2) show ?case using policy_run.dev_trans by (simp add: one)
qed

lemma switch_step: "settles policies_ok policies_dev s (switch_profile sid lab actor profile s)"
proof -
  have "policy_step (s_db s) (s_db (snd (fold (switch_one sid actor (list_for_server s sid) ps) POLICY_KEYS (0, s))))"
    if "profile_preset profile = Some ps" for ps
    using that by (intro step_okI switch_fold) (auto simp: list_for_server_def policy_slot_def image_iff)
  then show ?thesis
    by (auto simp: switch_profile_def profile_audit_def case_prod_unfold intro!: settles_intros policy_run.audited split: option.splits)
qed

lemma ensured:
  assumes "ensure_policy sid key actor s = Inr (p, s')" and "key \<in> set POLICY_KEYS"
  shows "policy_step (s_db s) (s_db s')" and "p \<in> set (d_policies (s_db s'))" and "policy_slot p = (sid, key)"
proof -
  have "policy_step (s_db s) (s_db s') \<and> p \<in> set (d_policies (s_db s')) \<and> policy_slot p = (sid, key)"
  proof (cases "filter (\<lambda>p. ap_policy_key p = key) (list_for_server s sid)")
    case Nil
    let ?q = "preset_policy sid key actor (preset_at standard_preset key)"
    from Nil assms(1) have s': "s_db s' = insert_policy ?q (s_db s)" "p = ?q\<lparr>ap_id := d_next_policy (s_db s)\<rparr>"
      by (auto simp: ensure_policy_def get_policy_def Let_def)
    have "policy_typed ?q" using assms(2) by (intro presets_typed[of "''standard''"]) (simp_all add: profile_preset_def)
    then have "policy_step (s_db s) (insert_policy ?q (s_db s))"
      using Nil by (intro insert_policy_step) (auto simp: filter_empty_conv list_for_server_def policy_slot_def preset_policy_def)
    with s' show ?thesis by (simp add: insert_policy_rows)
  next
    case (Cons q qs)
    from Cons assms(1) have "s' = s" "p = q" by (cases qs; simp add: ensure_policy_def get_policy_def)+
    moreover have "q \<in> set (filter (\<lambda>p. ap_policy_key p = key) (list_for_server s sid))" by (simp add: Cons)
    ultimately show ?thesis by (auto simp: list_for_server_def policy_slot_def)
  qed
  then show "policy_step (s_db s) (s_db s')" "p \<in> set (d_policies (s_db s'))" "policy_slot p = (sid, key)" by simp_all
qed

lemma edited_typed:
  assumes "policy_typed p" and "policy_slot p = (sid, key)"
    and "pp_severity e = Some AutoKill \<Longrightarrow> key \<in> set AUTO_KILL_SETTABLE_KEYS"
    and "threshold_typed key t" and "grace_column_ok (ap_grace_period_seconds (edited_policy e t actor p))"
  shows "policy_typed (edited_policy e t actor p)"
  using assms by (auto simp: policy_typed_def edited_policy_def policy_slot_def or_keep_def split: option.splits)

lemma update_step: "settles policies_ok policies_dev s (update_one coerce sid key lab actor e s)"
proof -
  have "policy_step (s_db s) (s_db (upd_db (put_policy (edited_policy e t actor p)) s'))"
    if key: "key \<in> set POLICY_KEYS" and sev: "pp_severity e = Some AutoKill \<longrightarrow> key \<in> set AUTO_KILL_SETTABLE_KEYS"
      and t: "(if pp_threshold_value e = None then Inr None else validate_threshold coerce key (pp_threshold_value e)) = Inr t"
      and en: "ensure_policy sid key actor s = Inr (p, s')"
      and g: "grace_column_ok (ap_grace_period_seconds (edited_policy e t actor p))" for t p s'
  proof (rule step_okI)
    assume ok: "policies_ok (s_db s)"
    note E = ensured[OF en key]
    from E(1) ok have ok': "policies_ok (s_db s')" "policies_dev (s_db s) (s_db s')" by (simp_all add: step_ok_def)
    with E(2) have typed: "policy_typed p" by (simp add: policies_ok_def)
    have tt: "threshold_typed key t" using t validated_typed by (auto simp: threshold_typed_def split: if_splits)
    have "policy_typed (edited_policy e t actor p)" using edited_typed[OF typed E(3) _ tt g] sev by simp
    then have "policy_step (s_db s') (put_policy (edited_policy e t actor p) (s_db s'))"
      by (rule put_policy_step[OF _ E(2)]) (simp_all add: edited_policy_def policy_slot_def)
    with ok' show "policies_ok (s_db (upd_db (put_policy (edited_policy e t actor p)) s'))
        \<and> policies_dev (s_db s) (s_db (upd_db (put_policy (edited_policy e t actor p)) s'))"
      using policy_run.dev_trans by (simp add: step_ok_def)
  qed
  then show ?thesis
    unfolding update_one_def by (auto simp: Let_def intro!: settles_intros policy_run.audited split: option.splits)
qed

section \<open>The endpoints\<close>

lemma commit_push_step: "policy_step (s_db s) (s_db s') \<Longrightarrow> policy_step (s_db s) (snd (commit_and_push env sid (s_db s) (x, s')))"
  using policy_run.commit_ok[of s'] policy_run.trans_step by (auto simp: commit_and_push_def split: sum.splits)

lemma failed_step: "policy_step (s_db s) (snd (end_request (s_db s) (r, s)))"
  by (rule policy_run.request_step) simp

lemma update_ep_step: "policy_step (s_db s) (snd (update_policy_ep env u sid key e s))"
  by (auto simp: update_policy_ep_def failed_step intro!: commit_push_step elim: settlesD[OF update_step] split: sum.splits prod.splits)

lemma switch_ep_step: "policy_step (s_db s) (snd (switch_profile_ep env u sid profile s))"
proof -
  have "policy_step (s_db s) (s_db (snd m))"
    if "(if list_for_server s sid = [] then map_sum id (\<lambda>(_, s'). (8, s')) (seed_default_profile sid lab actor profile s)
          else switch_profile sid lab actor profile s) = Inr m" for m lab actor
    using that settlesD[OF seed_step] settlesD[OF switch_step]
    by (cases "seed_default_profile sid lab actor profile s"; cases m) (auto split: if_splits)
  then show ?thesis
    by (auto simp: switch_profile_ep_def failed_step split: sum.split) (metis commit_push_step prod.collapse)+
qed

inductive policy_request :: "policy_env \<Rightarrow> db \<Rightarrow> db \<Rightarrow> bool" for env where
  update: "policy_request env d (snd (update_policy_ep env u sid key e (open_session d now)))"
| switch: "policy_request env d (snd (switch_profile_ep env u sid profile (open_session d now)))"

lemma policy_request_step: "policy_request env d d' \<Longrightarrow> policy_step d d'"
  using update_ep_step[of "open_session d _"] switch_ep_step[of "open_session d _"]
  by (auto elim!: policy_request.cases simp: open_session_def)

lemma policy_requests_step: "(policy_request env)\<^sup>*\<^sup>* d d' \<Longrightarrow> policy_step d d'"
  by (erule policy_run.runs_ok) (rule policy_request_step)

end
