(* ===== verification/Sync_Props.thy ===== *)
theory Sync_Props
  imports Policy_Props
begin

text \<open>
  What the agent knows after the backend told it: the caches answer for the tables, the thresholds of a
  typed table never make a tick raise, and the grace tracker forgets nothing along a run of the agent.
\<close>

section \<open>The policy cache answers for the table\<close>

lemma find_False [simp]: "find (\<lambda>x. False) xs = None"
  by (induction xs) simp_all

lemma map_of_drop_server: "map_of (drop_server sid es) (i, k) = (if i = sid then None else map_of es (i, k))"
  by (induction es) (auto simp: drop_server_def)

lemma map_of_fold_dict_set:
  "map_of (fold (\<lambda>p es. dict_set es (f p) (g p)) ps es) k =
     (case find (\<lambda>p. f p = k) (rev ps) of Some p \<Rightarrow> Some (g p) | None \<Rightarrow> map_of es k)"
  by (induction ps rule: rev_induct) (auto simp: map_of_dict_set)

lemma find_rev_distinct:
  assumes "distinct (map f xs)"
  shows "find (\<lambda>x. f x = k) (rev xs) = find (\<lambda>x. f x = k) xs"
proof (cases "\<exists>x \<in> set xs. f x = k")
  case True
  then obtain x where x: "x \<in> set xs" "f x = k" by blast
  have "find (\<lambda>x. f x = k) ys = Some x" if "distinct (map f ys)" "x \<in> set ys" for ys
    using that x(2) by (induction ys) auto
  with assms x(1) show ?thesis by (simp add: rev_map[symmetric])
next
  case False
  then have "find (\<lambda>x. f x = k) xs = None" "find (\<lambda>x. f x = k) (rev xs) = None" by (simp_all add: find_None_iff)
  then show ?thesis by simp
qed

definition policy_row :: "db \<Rightarrow> int \<Rightarrow> string \<Rightarrow> agent_policy option" where
  "policy_row d sid key = find (\<lambda>p. policy_slot p = (sid, key)) (d_policies d)"

lemma find_map_some: "find P (map f xs) = map_option f (find (P \<circ> f) xs)"
  by (induction xs) auto

lemma find_filter_and: "find P (filter Q xs) = find (\<lambda>x. Q x \<and> P x) xs"
  by (induction xs) auto

lemma synced_lookup:
  assumes "policies_ok d"
  shows "cached_policy (ag_policies (on_policy_sync sid (compose_policies (open_session d now) sid) etag st)) i key =
    (if i = sid then map_option policy_entry_of (policy_row d sid key) else cached_policy (ag_policies st) i key)"
proof -
  let ?ps = "list_for_server (open_session d now) sid"
  let ?es = "compose_policies (open_session d now) sid"
  have "distinct (map policy_slot ?ps)"
    using assms by (simp add: policies_ok_def list_for_server_def distinct_map_filter)
  moreover have "map policy_slot ?ps = map (Pair sid) (map ap_policy_key ?ps)"
    by (simp add: list_for_server_def policy_slot_def)
  ultimately have "distinct (map ap_policy_key ?ps)" by (metis distinct_map)
  moreover have keys: "map pe_key ?es = map ap_policy_key ?ps" by (simp add: compose_policies_def policy_entry_of_def)
  ultimately have dist: "distinct (map (\<lambda>p. (sid, pe_key p)) ?es)"
    by (metis (mono_tags, lifting) distinct_map inj_onI map_map comp_def prod.inject list.map_cong0)
  have look: "find (\<lambda>p. (sid, pe_key p) = (sid, key)) ?es = map_option policy_entry_of (policy_row d sid key)"
    by (simp add: compose_policies_def find_map_some comp_def policy_entry_of_def list_for_server_def find_filter_and policy_row_def policy_slot_def)
  show ?thesis
  proof (cases "i = sid")
    case True
    have "find (\<lambda>p. (sid, pe_key p) = (sid, key)) (rev ?es) = map_option policy_entry_of (policy_row d sid key)"
      unfolding find_rev_distinct[OF dist] by (rule look)
    then show ?thesis using True
      by (simp add: on_policy_sync_def apply_policy_sync_def cached_policy_def Let_def map_of_fold_dict_set map_of_drop_server split: option.split)
  next
    case False
    then show ?thesis
      by (simp add: on_policy_sync_def apply_policy_sync_def cached_policy_def Let_def map_of_fold_dict_set map_of_drop_server)
  qed
qed

section \<open>Typed caches\<close>

definition entry_typed :: "policy_entry \<Rightarrow> bool" where
  "entry_typed e \<longleftrightarrow> threshold_typed (pe_key e) (pe_threshold_value e)"

definition cache_typed :: "policy_cache \<Rightarrow> bool" where
  "cache_typed c \<longleftrightarrow> (\<forall>i k e. cached_policy c i k = Some e \<longrightarrow> pe_key e = k \<and> entry_typed e)"

lemma no_policies_typed [simp]: "cache_typed no_policies"
  by (simp add: cache_typed_def cached_policy_def no_policies_def)

lemma policy_row_typed: "policies_ok d \<Longrightarrow> policy_row d sid key = Some p \<Longrightarrow> policy_typed p \<and> policy_slot p = (sid, key)"
  unfolding policy_row_def policies_ok_def by (metis (mono_tags, lifting) find_Some_iff nth_mem)

lemma sync_typed:
  assumes "policies_ok d" and "cache_typed (ag_policies st)"
  shows "cache_typed (ag_policies (on_policy_sync sid (compose_policies (open_session d now) sid) etag st))"
  using assms(2) policy_row_typed[OF assms(1)]
  by (fastforce simp: cache_typed_def synced_lookup[OF assms(1)] entry_typed_def policy_entry_of_def policy_typed_def policy_slot_def)

lemma typed_threshold:
  assumes "cache_typed pc" and "(key, field) \<in> {(''memory_overuse'', ''value''), (''gpu_temp_high'', ''value''),
      (''gpu_hang'', ''util_zero_seconds''), (''gpu_hang'', ''mem_floor_mb'')}"
  shows "\<exists>i. threshold_field to_int pc sid key field dflt = Some i"
proof (cases "Option.bind (cached_policy pc sid key) pe_threshold_value")
  case None
  then show ?thesis by (simp add: threshold_field_def)
next
  case (Some pl)
  then obtain e where e: "cached_policy pc sid key = Some e" "pe_threshold_value e = Some pl" by (auto simp: bind_eq_Some_conv)
  with assms(1) have "threshold_typed key (Some pl)" unfolding cache_typed_def entry_typed_def by force
  with assms(2) have "\<exists>i. map_of pl field = Some (JInt i)"
    by (auto simp: threshold_typed_def THRESHOLD_SCHEMAS_def dump_threshold_def bind_eq_Some_conv split: if_split_asm)
  with Some show ?thesis by (auto simp: threshold_field_def py_int_def)
qed

lemma evaluate_process_total: "cache_typed pc \<Longrightarrow> evaluate_process to_int pc rc now sid gpu p \<noteq> None"
  using typed_threshold[of pc "''memory_overuse''" "''value''" to_int sid MEMORY_OVERUSE_DEFAULT_PCT]
  by (auto simp: evaluate_process_def memory_overuse_threshold_pct_def Let_def split: option.splits)

lemma evaluate_gpu_total:
  assumes "cache_typed pc"
  shows "\<exists>vs. fst (evaluate_gpu to_int pc now later sid g gs) = Some vs"
proof -
  obtain a b c where "threshold_field to_int pc sid ''gpu_hang'' ''util_zero_seconds'' GPU_HANG_DEFAULT_UTIL_ZERO_S = Some a"
    "threshold_field to_int pc sid ''gpu_hang'' ''mem_floor_mb'' GPU_HANG_DEFAULT_MEM_FLOOR_MB = Some b"
    "threshold_field to_int pc sid ''gpu_temp_high'' ''value'' GPU_TEMP_HIGH_DEFAULT_C = Some c"
    using typed_threshold[OF assms, of "''gpu_hang''" "''util_zero_seconds''" to_int sid GPU_HANG_DEFAULT_UTIL_ZERO_S]
      typed_threshold[OF assms, of "''gpu_hang''" "''mem_floor_mb''" to_int sid GPU_HANG_DEFAULT_MEM_FLOOR_MB]
      typed_threshold[OF assms, of "''gpu_temp_high''" "''value''" to_int sid GPU_TEMP_HIGH_DEFAULT_C] by auto
  then show ?thesis by (simp add: evaluate_gpu_def Let_def)
qed

lemma tick_processes_total:
  "cache_typed (ag_policies st) \<Longrightarrow> \<exists>n. fst (tick_processes to_int d t sid gpu ps st) = Some n"
proof (induction ps arbitrary: st)
  case (Cons p ps)
  have sc: "ag_policies (snd (dispatch d (tc_mono t) v st)) = ag_policies st" for v
    using dispatch_within_policy[of d "tc_mono t" v st] by (simp add: within_policy_def same_caches_def)
  from evaluate_process_total[OF Cons.prems] obtain r where
    r: "evaluate_process to_int (ag_policies st) (ag_links st) (tc_now t) sid gpu p = Some r" by blast
  show ?case
  proof (cases r)
    case None
    with r Cons.IH[OF Cons.prems] show ?thesis by simp
  next
    case (Some v)
    with Cons.prems sc[of v] Cons.IH[of "snd (dispatch d (tc_mono t) v st)"] r show ?thesis by (auto simp: case_prod_unfold)
  qed
qed simp

lemma run_tick_total: "cache_typed (ag_policies st) \<Longrightarrow> \<exists>n. fst (run_tick to_int d t sid gs st) = Some n"
proof (induction gs arbitrary: st)
  case (Cons g gs)
  obtain n st1 where t1: "tick_processes to_int d t sid (ge_gpu_index g) (ge_processes g) st = (Some n, st1)"
    using tick_processes_total[OF Cons.prems] by (metis prod.collapse)
  have "ag_policies st1 = ag_policies st"
    using tick_processes_within_policy[of d t to_int st sid "ge_gpu_index g" "ge_processes g"] t1 by (simp add: within_policy_def same_caches_def)
  with Cons.prems have ty: "cache_typed (ag_policies st1)" by simp
  obtain vs gst where ev: "evaluate_gpu to_int (ag_policies st1) (tc_mono t) (tc_later t) sid g (ag_gpu st1) = (Some vs, gst)"
    using evaluate_gpu_total[OF ty] by (metis prod.collapse)
  let ?c = "dispatch_all d (tc_mono t) vs (st1\<lparr>ag_gpu := gst\<rparr>)"
  have "ag_policies ?c = ag_policies st1"
    using dispatch_all_within_policy[of d "tc_mono t" vs "st1\<lparr>ag_gpu := gst\<rparr>"] by (simp add: within_policy_def same_caches_def)
  with ty Cons.IH[of ?c] show ?case by (auto simp: t1 ev case_prod_unfold)
qed simp

section \<open>The reverse cache answers for the links\<close>

lemma int_str_inj:
  assumes "\<And>i. to_int (int_str i) = Some i" and "int_str i = int_str j"
  shows "i = j"
proof -
  have "Some i = to_int (int_str j)" using assms(1)[of i] assms(2) by simp
  then show ?thesis by (simp add: assms(1))
qed

lemma map_of_parse:
  assumes "\<And>i. to_int (int_str i) = Some i" and "\<forall>(t, rs) \<in> set raw. \<exists>i. t = int_str i" and "distinct (map fst raw)"
  shows "map_of (parse_active_reservations to_int raw) uid = map_of raw (int_str uid)"
proof -
  have inj: "int_str i = int_str j \<longleftrightarrow> i = j" for i j using int_str_inj[of to_int i j, OF assms(1)] by blast
  have "map_of (fold (\<lambda>(t, rs) out. case to_int t of None \<Rightarrow> out | Some uid \<Rightarrow> dict_set out uid rs) raw out) uid
      = (case map_of raw (int_str uid) of Some rs \<Rightarrow> Some rs | None \<Rightarrow> map_of out uid)" for out
    using assms(2,3)
  proof (induction raw arbitrary: out)
    case (Cons x raw)
    then obtain i rs where x: "x = (int_str i, rs)" by (cases x) auto
    have n: "map_of raw (int_str i) = None" using Cons.prems(2) x by (simp add: map_of_eq_None_iff)
    have "map_of (fold (\<lambda>(t, rs) out. case to_int t of None \<Rightarrow> out | Some uid \<Rightarrow> dict_set out uid rs) raw (dict_set out i rs)) uid
      = (case map_of raw (int_str uid) of Some rs \<Rightarrow> Some rs | None \<Rightarrow> map_of (dict_set out i rs) uid)"
      using Cons.prems by (intro Cons.IH) auto
    with n show ?case by (auto simp: x assms(1) inj map_of_dict_set split: option.splits)
  qed simp
  then show ?thesis by (simp add: parse_active_reservations_def split: option.split)
qed

definition user_snapshots :: "session \<Rightarrow> account_link list \<Rightarrow> int \<Rightarrow> active_reservation list" where
  "user_snapshots s ls uid = concat (map (link_snapshots s) (filter (\<lambda>l. al_user_id l = uid) ls))"

lemma map_of_add_one:
  "map_of (add_snapshots s l out) (int_str (al_user_id l)) = (if link_snapshots s l = [] then map_of out (int_str (al_user_id l))
     else Some ((case map_of out (int_str (al_user_id l)) of None \<Rightarrow> [] | Some xs \<Rightarrow> xs) @ link_snapshots s l))"
  "t \<noteq> int_str (al_user_id l) \<Longrightarrow> map_of (add_snapshots s l out) t = map_of out t"
  by (simp_all add: add_snapshots_def Let_def map_of_dict_set)

lemma map_of_add_snapshots:
  assumes inj: "\<And>i j. int_str i = int_str j \<Longrightarrow> i = j"
  shows "map_of (fold (add_snapshots s) ls out) (int_str uid) =
    (if user_snapshots s ls uid = [] then map_of out (int_str uid)
     else Some ((case map_of out (int_str uid) of None \<Rightarrow> [] | Some xs \<Rightarrow> xs) @ user_snapshots s ls uid))"
proof (induction ls arbitrary: out)
  case (Cons l ls)
  show ?case
  proof (cases "al_user_id l = uid")
    case True
    then have "user_snapshots s (l # ls) uid = link_snapshots s l @ user_snapshots s ls uid" by (simp add: user_snapshots_def)
    with True map_of_add_one(1)[of s l out] show ?thesis by (simp add: Cons.IH split: option.split)
  next
    case False
    then have "int_str uid \<noteq> int_str (al_user_id l)" using inj by metis
    moreover have "user_snapshots s (l # ls) uid = user_snapshots s ls uid" using False by (simp add: user_snapshots_def)
    ultimately show ?thesis by (simp add: Cons.IH map_of_add_one(2))
  qed
qed (simp add: user_snapshots_def)

lemma dict_set_keys: "fst ` set (dict_set d k v) = insert k (fst ` set d)"
  by (induction d k v rule: dict_set.induct) auto

lemma dict_set_distinct: "distinct (map fst d) \<Longrightarrow> distinct (map fst (dict_set d k v))"
  by (induction d k v rule: dict_set.induct) (auto simp: dict_set_keys image_iff split: if_splits)

lemma snapshots_keys:
  "(\<forall>k \<in> fst ` set out. \<exists>i. k = int_str i) \<and> distinct (map fst out) \<Longrightarrow>
   (\<forall>k \<in> fst ` set (fold (add_snapshots s) ls out). \<exists>i. k = int_str i) \<and> distinct (map fst (fold (add_snapshots s) ls out))"
proof (induction ls arbitrary: out)
  case (Cons l ls)
  have "fst ` set (add_snapshots s l out) \<subseteq> insert (int_str (al_user_id l)) (fst ` set out)"
    by (auto simp: add_snapshots_def Let_def dict_set_keys simp del: set_map)
  moreover have "distinct (map fst (add_snapshots s l out))"
    using Cons.prems by (simp add: add_snapshots_def Let_def dict_set_distinct)
  ultimately have "(\<forall>k \<in> fst ` set (add_snapshots s l out). \<exists>i. k = int_str i) \<and> distinct (map fst (add_snapshots s l out))"
    using Cons.prems by blast
  from Cons.IH[OF this] show ?case by simp
qed simp

text \<open>What the agent must know of an account: who is linked to it, and what each of them has reserved through it.\<close>

definition account_view :: "session \<Rightarrow> physical_account \<Rightarrow> cache_entry \<Rightarrow> bool" where
  "account_view s p e \<longleftrightarrow> set (ce_user_ids e) = al_user_id ` set (linked_users_rows s p)
     \<and> (\<forall>uid. (case map_of (ce_active_reservations e) uid of None \<Rightarrow> [] | Some rs \<Rightarrow> rs) = user_snapshots s (linked_users_rows s p) uid)"

lemma account_entry_view:
  assumes "\<And>i. to_int (int_str i) = Some i" and "account_entry s p = Some le"
  shows "account_view s p \<lparr>ce_user_ids = le_user_ids le, ce_active_reservations = parse_active_reservations to_int (le_active_reservations le)\<rparr>"
proof -
  have inj: "int_str i = int_str j \<Longrightarrow> i = j" for i j using int_str_inj[of to_int i j, OF assms(1)] by blast
  let ?raw = "fold (add_snapshots s) (linked_users_rows s p) []"
  have le: "le_user_ids le = sort (remdups (map al_user_id (linked_users_rows s p)))" "le_active_reservations le = ?raw"
    using assms(2) by (auto simp: account_entry_def Let_def split: if_splits)
  have k: "\<forall>(t, rs) \<in> set ?raw. \<exists>i. t = int_str i" "distinct (map fst ?raw)" using snapshots_keys[of "[]" s "linked_users_rows s p"] by force+
  have "map_of (parse_active_reservations to_int ?raw) uid = map_of ?raw (int_str uid)" for uid
    by (rule map_of_parse[OF assms(1) k])
  then show ?thesis by (simp add: account_view_def le map_of_add_snapshots[OF inj])
qed

definition synced_accounts :: "session \<Rightarrow> int \<Rightarrow> physical_account list" where
  "synced_accounts s sid = filter (\<lambda>p. pa_server_id p = sid \<and> pa_is_active p \<and> linked_users_rows s p \<noteq> []) (pa_rows (s_db s))"

lemma full_entries: "entries_for_linux_users coll s sid None = map (\<lambda>p. the (account_entry s p)) (synced_accounts s sid)"
proof -
  have "List.map_filter (account_entry s) ps = map (\<lambda>p. the (account_entry s p)) (filter (\<lambda>p. linked_users_rows s p \<noteq> []) ps)" for ps
    by (induction ps) (auto simp: List.map_filter_simps account_entry_def Let_def)
  moreover have "filter (\<lambda>p. linked_users_rows s p \<noteq> []) (filter (\<lambda>p. pa_server_id p = sid \<and> pa_is_active p) (pa_rows (s_db s))) = synced_accounts s sid"
    by (auto simp: synced_accounts_def intro: filter_cong)
  ultimately show ?thesis by (simp add: entries_for_linux_users_def)
qed

lemma synced_link_lookup:
  assumes to_int: "\<And>i. to_int (int_str i) = Some i"
    and step: "on_link_cache_sync to_int now sid FullSync (fst (snd (compose_full_payload coll s sid))) [] st = Some (n, st')"
  shows "map_of (rc_entries (ag_links st')) (sid, name) = None \<longleftrightarrow> (\<forall>p \<in> set (synced_accounts s sid). pa_linux_username p \<noteq> name)"
    and "map_of (rc_entries (ag_links st')) (sid, name) = Some e \<Longrightarrow>
      \<exists>p \<in> set (synced_accounts s sid). pa_linux_username p = name \<and> account_view s p e"
proof -
  let ?ps = "synced_accounts s sid" and ?le = "\<lambda>p. the (account_entry s p)"
  let ?ce = "\<lambda>le. \<lparr>ce_user_ids = le_user_ids le, ce_active_reservations = parse_active_reservations to_int (le_active_reservations le)\<rparr>"
  have ae: "account_entry s p = Some (?le p)" "le_linux_username (?le p) = pa_linux_username p" if "p \<in> set ?ps" for p
    using that by (auto simp: synced_accounts_def account_entry_def Let_def)
  have es: "rc_entries (ag_links st') = fold (\<lambda>e es. dict_set es (sid, le_linux_username e) (?ce e)) (map ?le ?ps) (drop_server sid (rc_entries (ag_links st)))"
    using step by (auto simp: on_link_cache_sync_def apply_full_snapshot_def Let_def compose_full_payload_def full_entries store_entry_def[abs_def] split: if_splits)
  have look: "map_of (rc_entries (ag_links st')) (sid, name) =
      map_option ?ce (find (\<lambda>e. le_linux_username e = name) (rev (map ?le ?ps)))"
    unfolding es map_of_fold_dict_set by (simp add: map_of_drop_server split: option.split)
  have "map_of (rc_entries (ag_links st')) (sid, name) = None \<longleftrightarrow> (\<forall>p \<in> set ?ps. le_linux_username (?le p) \<noteq> name)"
    unfolding look by (simp add: find_None_iff)
  then show "map_of (rc_entries (ag_links st')) (sid, name) = None \<longleftrightarrow> (\<forall>p \<in> set ?ps. pa_linux_username p \<noteq> name)"
    using ae(2) by simp
  show "\<exists>p \<in> set ?ps. pa_linux_username p = name \<and> account_view s p e" if some: "map_of (rc_entries (ag_links st')) (sid, name) = Some e"
  proof -
    from some look obtain le where le: "find (\<lambda>e. le_linux_username e = name) (rev (map ?le ?ps)) = Some le" "e = ?ce le" by auto
    then obtain i where "i < length (rev (map ?le ?ps))" "le_linux_username le = name" "le = rev (map ?le ?ps) ! i" by (auto simp: find_Some_iff)
    then have "le \<in> set (rev (map ?le ?ps))" using nth_mem[of i "rev (map ?le ?ps)"] by (simp only:)
    then obtain p where p: "p \<in> set ?ps" "le = ?le p" by auto
    moreover have "pa_linux_username p = name" using ae(2)[OF p(1)] p(2) \<open>le_linux_username le = name\<close> by simp
    moreover have "account_view s p e" unfolding le(2) p(2) by (rule account_entry_view[OF to_int ae(1)[OF p(1)]])
    ultimately show ?thesis by (intro bexI[of _ p] conjI)
  qed
qed

text \<open>A live reservation of the GPU row \<open>i\<close> at the time \<open>t\<close> through a link of the account that lets its user act.\<close>

definition reserved_through :: "session \<Rightarrow> physical_account \<Rightarrow> int \<Rightarrow> int \<Rightarrow> bool" where
  "reserved_through s p t i \<longleftrightarrow> (\<exists>l \<in> set (linked_users_rows s p). al_source l \<noteq> AdminDeclared \<and>
     (\<exists>r \<in> set (reservations s). r_account_link_id r = al_id l \<and> active_status (r_status r) \<and> r_end_at r \<ge> s_clock s
        \<and> r_gpu_id r = Some i \<and> r_start_at r \<le> t \<and> t < r_end_at r))"

lemma snapshot_holds: "(\<exists>x \<in> set (link_snapshots s l). holds_gpu t i x) \<longleftrightarrow> al_source l \<noteq> AdminDeclared \<and>
     (\<exists>r \<in> set (reservations s). r_account_link_id r = al_id l \<and> active_status (r_status r) \<and> r_end_at r \<ge> s_clock s
        \<and> r_gpu_id r = Some i \<and> r_start_at r \<le> t \<and> t < r_end_at r)"
  by (auto simp: link_snapshots_def holds_gpu_def reservation_overlaps_now_def)

lemma view_holds:
  assumes "account_view s p e"
  shows "(\<exists>uid \<in> set (ce_user_ids e). \<exists>x \<in> set (case map_of (ce_active_reservations e) uid of None \<Rightarrow> [] | Some rs \<Rightarrow> rs). holds_gpu t i x)
    \<longleftrightarrow> reserved_through s p t i"
proof -
  have "(\<exists>uid \<in> set (ce_user_ids e). \<exists>x \<in> set (user_snapshots s (linked_users_rows s p) uid). holds_gpu t i x)
      \<longleftrightarrow> (\<exists>l \<in> set (linked_users_rows s p). \<exists>x \<in> set (link_snapshots s l). holds_gpu t i x)"
    using assms by (auto simp: account_view_def user_snapshots_def)
  with assms show ?thesis unfolding reserved_through_def snapshot_holds by (simp add: account_view_def)
qed

lemma find_some_iff: "(find P xs \<noteq> None) = (\<exists>x \<in> set xs. P x)"
  by (auto simp: find_None_iff)

lemma own_by_view:
  assumes "map_of (rc_entries rc) (sid, name) = Some e" and "account_view s p e"
  shows "own_reservation rc t sid i name \<noteq> None \<longleftrightarrow> reserved_through s p t i"
  unfolding own_reservation_def find_some_iff view_holds[OF assms(2), symmetric]
  by (simp add: lookup_user_ids_def lookup_active_reservations_def assms(1))

lemma cache_key_mem: "name \<in> set (cache_keys_for_server rc sid) \<longleftrightarrow> (\<exists>e. map_of (rc_entries rc) (sid, name) = Some e)"
proof -
  have "(\<exists>e. map_of (rc_entries rc) (sid, name) = Some e) \<longleftrightarrow> (sid, name) \<in> fst ` set (rc_entries rc)"
    using map_of_eq_None_iff[of "rc_entries rc" "(sid, name)"] by auto
  then show ?thesis by (force simp: cache_keys_for_server_def)
qed

lemma other_by_view:
  assumes "\<And>n e. map_of (rc_entries rc) (sid, n) = Some e \<Longrightarrow> \<exists>p \<in> set ps. pa_linux_username p = n \<and> account_view s p e"
    and "\<And>p. p \<in> set ps \<Longrightarrow> \<exists>e. map_of (rc_entries rc) (sid, pa_linux_username p) = Some e"
    and dist: "distinct (map pa_linux_username ps)"
  shows "other_holder rc t sid i name \<longleftrightarrow> (\<exists>q \<in> set ps. pa_linux_username q \<noteq> name \<and> reserved_through s q t i)"
proof -
  have one: "p = q" if "p \<in> set ps" "q \<in> set ps" "pa_linux_username p = pa_linux_username q" for p q
    using dist that by (simp add: distinct_map inj_on_def)
  have key: "(\<exists>uid \<in> set (lookup_user_ids rc sid (pa_linux_username q)). \<exists>x \<in> set (lookup_active_reservations rc sid (pa_linux_username q) uid). holds_gpu t i x)
      \<longleftrightarrow> reserved_through s q t i" if q: "q \<in> set ps" for q
  proof -
    obtain e where e: "map_of (rc_entries rc) (sid, pa_linux_username q) = Some e" using assms(2)[OF q] by blast
    from assms(1)[OF e] one[OF _ q] have "account_view s q e" by blast
    from view_holds[OF this] show ?thesis by (simp add: lookup_user_ids_def lookup_active_reservations_def e)
  qed
  have "other_holder rc t sid i name \<longleftrightarrow> (\<exists>n. n \<noteq> name \<and> n \<in> set (cache_keys_for_server rc sid)
      \<and> (\<exists>uid \<in> set (lookup_user_ids rc sid n). \<exists>x \<in> set (lookup_active_reservations rc sid n uid). holds_gpu t i x))"
    by (auto simp: other_holder_def list_ex_iff)
  also have "\<dots> \<longleftrightarrow> (\<exists>q \<in> set ps. pa_linux_username q \<noteq> name \<and> reserved_through s q t i)"
    using assms(1,2) key by (metis cache_key_mem)
  finally show ?thesis .
qed

text \<open>The texts of integers are read back by a decimal reader.\<close>

fun read_digits :: "nat \<Rightarrow> string \<Rightarrow> nat option" where
  "read_digits a [] = Some a"
| "read_digits a (c # cs) = (let n = (of_char c :: nat) in if 48 \<le> n \<and> n < 58 then read_digits (10 * a + (n - 48)) cs else None)"

definition decimal :: "string \<Rightarrow> int option" where
  "decimal t = (case t of [] \<Rightarrow> None
     | c # cs \<Rightarrow> if c = CHR ''-'' then map_option (\<lambda>n. - int n) (read_digits 0 cs) else map_option int (read_digits 0 t))"

lemma digit_code: "d < 10 \<Longrightarrow> (of_char (digit_char d) :: nat) = 48 + d"
  by (simp add: digit_char_def of_char_of take_bit_eq_mod)

lemma read_digits_append: "read_digits a (xs @ ys) = Option.bind (read_digits a xs) (\<lambda>b. read_digits b ys)"
  by (induction xs arbitrary: a) (simp_all add: Let_def)

lemma read_nat_str: "read_digits 0 (nat_str n) = Some n"
proof (induction n rule: nat_str.induct)
  case (1 n)
  show ?case
  proof (cases "n < 10")
    case True
    then show ?thesis by (simp add: nat_str.simps[of n] digit_code Let_def)
  next
    case False
    with 1 show ?thesis by (simp add: nat_str.simps[of n] read_digits_append digit_code Let_def)
  qed
qed

lemma nat_str_head: "\<exists>c cs. nat_str n = c # cs \<and> c \<noteq> CHR ''-''"
proof (induction n rule: nat_str.induct)
  case (1 n)
  have "digit_char n \<noteq> CHR ''-''" if "n < 10"
  proof
    assume "digit_char n = CHR ''-''"
    with digit_code[OF that] show False by simp
  qed
  with 1 show ?case by (cases "n < 10") (auto simp: nat_str.simps[of n])
qed

lemma decimal_int_str [simp]: "decimal (int_str i) = Some i"
proof (cases "i < 0")
  case True
  then show ?thesis by (simp add: decimal_def int_str_def read_nat_str)
next
  case False
  obtain c cs where c: "nat_str (nat i) = c # cs" "c \<noteq> CHR ''-''" using nat_str_head by blast
  have "decimal (nat_str (nat i)) = map_option int (read_digits 0 (nat_str (nat i)))" using c by (simp add: decimal_def)
  with False show ?thesis by (simp add: int_str_def read_nat_str)
qed

section \<open>Runs of the backend and its agent\<close>

text \<open>
  The endpoints edit the policies; the backend tells the agent the rows of a server as they are; link
  snapshots and switches arrive; the agent ticks.
\<close>

inductive fleet_step :: "policy_env \<Rightarrow> (string \<Rightarrow> int option) \<Rightarrow> db \<times> agent_state \<Rightarrow> db \<times> agent_state \<Rightarrow> bool" for env to_int where
  request: "policy_request env d d' \<Longrightarrow> fleet_step env to_int (d, st) (d', st)"
| policies: "fleet_step env to_int (d, st) (d, on_policy_sync sid (compose_policies (open_session d now) sid) etag st)"
| links: "on_link_cache_sync to_int now sid mode entries removed st = Some (n, st') \<Longrightarrow> fleet_step env to_int (d, st) (d, st')"
| switches: "fleet_step env to_int (d, st) (d, on_capability_sync caps st)"
| tick: "fleet_step env to_int (d, st) (d, snd (run_tick to_int di t sid gs st))"

lemma link_sync_policies: "on_link_cache_sync to_int now sid mode entries removed st = Some (n, st') \<Longrightarrow>
    ag_policies st' = ag_policies st \<and> ag_pending st' = ag_pending st"
  by (auto simp: on_link_cache_sync_def split: if_splits prod.splits)

lemma capability_sync_policies [simp]: "ag_policies (on_capability_sync caps st) = ag_policies st"
    "ag_pending (on_capability_sync caps st) = ag_pending st"
  by (simp_all add: on_capability_sync_def)

lemma policy_sync_pending [simp]: "ag_pending (on_policy_sync sid es etag st) = ag_pending st"
  by (simp add: on_policy_sync_def)

lemma run_tick_same: "same_caches st (snd (run_tick to_int d t sid gs st))"
    "keeps_first (ag_pending st) (ag_pending (snd (run_tick to_int d t sid gs st)))"
  using run_tick_within_policy[of d t to_int st sid gs] by (simp_all add: within_policy_def)

lemma fleet_step_typed:
  assumes "fleet_step env to_int x y" and "policies_ok (fst x)" and "cache_typed (ag_policies (snd x))"
  shows "policies_ok (fst y) \<and> cache_typed (ag_policies (snd y))"
  using assms
proof cases
  case (request d d' st)
  with assms policy_request_step[OF request(3)] show ?thesis by (simp add: step_ok_def)
next
  case (policies d st sid now etag)
  with assms sync_typed show ?thesis by simp
next
  case (links now sid mode entries removed st n st' d)
  with assms link_sync_policies[OF links(3)] show ?thesis by simp
next
  case (tick d st di t sid gs)
  with assms run_tick_same(1)[of st to_int di t sid gs] show ?thesis by (simp add: same_caches_def)
qed auto

lemma fleet_typed:
  assumes "(fleet_step env to_int)\<^sup>*\<^sup>* x y" and "policies_ok (fst x)" and "cache_typed (ag_policies (snd x))"
  shows "policies_ok (fst y) \<and> cache_typed (ag_policies (snd y))"
  using assms by (induction rule: rtranclp_induct) (auto dest: fleet_step_typed)

lemma fleet_step_pending: "fleet_step env to_int x y \<Longrightarrow> keeps_first (ag_pending (snd x)) (ag_pending (snd y))"
  by (auto elim!: fleet_step.cases dest: link_sync_policies simp: run_tick_same)

lemma fleet_pending: "(fleet_step env to_int)\<^sup>*\<^sup>* x y \<Longrightarrow> keeps_first (ag_pending (snd x)) (ag_pending (snd y))"
  by (induction rule: rtranclp_induct) (auto intro: keeps_first_trans dest: fleet_step_pending)

end
