(* ===== verification/Guarantees_Compliance.thy ===== *)
theory Guarantees_Compliance
  imports Sync_Props Scenario
begin

text \<open>
  What the policy endpoints, the synchronisation and the compliance monitor guarantee: the policies a server
  can have, what its agent makes of them, when a process is killed, and where the two sides speak of different GPUs.
\<close>

section \<open>Scenario\<close>

text \<open>
  The server of the scenario with the strict policy against preemption. Alice has reserved the GPU of row 2, which
  is the one of index 1; bob the one of row 1, of index 0.
\<close>

definition sc_strict :: agent_policy where
  "sc_strict = (preset_policy 1 ''preempt_others_reservation'' 9 (preset_at strict_preset ''preempt_others_reservation''))\<lparr>ap_id := 1\<rparr>"

definition sc_fleet :: db where
  "sc_fleet = (sc_db [sc_res 1 1 2 0 5 Active, sc_res 2 2 1 0 5 Active] 3)\<lparr>
     d_pas := [1 \<mapsto> sc_pa 1, 2 \<mapsto> (sc_pa 2)\<lparr>pa_linux_username := ''bob''\<rparr>], d_policies := [sc_strict], d_next_policy := 2\<rparr>"

definition sc_agent :: agent_state where
  "sc_agent = \<lparr>ag_policies = no_policies, ag_links = no_links,
     ag_host = \<lparr>ah_capabilities = [KILL_CAPABILITY \<mapsto> True], ah_users = Map.empty, ah_files = Map.empty\<rparr>,
     ag_gpu = Map.empty, ag_pending = Map.empty, ag_effects = []\<rparr>"

definition sc_told :: agent_state where
  "sc_told = on_policy_sync 1 (compose_policies (open_session sc_fleet hour) 1) [] sc_agent"

definition sc_synced :: agent_state where
  "sc_synced = (case on_link_cache_sync decimal hour 1 FullSync (fst (snd (compose_full_payload (=) (open_session sc_fleet hour) 1))) [] sc_told of
     Some (_, st) \<Rightarrow> st | None \<Rightarrow> sc_told)"

definition sc_dispatcher :: dispatcher where
  "sc_dispatcher = \<lparr>di_server_id = 1, di_notify = False, di_kill = Some (\<lambda>_. Some True), di_event = True\<rparr>"

text \<open>A process of alice on the GPU she has reserved.\<close>

definition sc_telemetry :: "gpu_entry list" where
  "sc_telemetry = [\<lparr>ge_gpu_index = 1, ge_util_pct = 90, ge_memory_used_mb = Some 4000, ge_temperature_c = Some 60,
     ge_processes = [\<lparr>gp_pid = 42, gp_linux_username = ''alice'', gp_memory_mb = 4000\<rparr>]\<rparr>]"

definition sc_tick :: "int \<Rightarrow> agent_state \<Rightarrow> nat option \<times> agent_state" where
  "sc_tick t = run_tick decimal sc_dispatcher \<lparr>tc_now = hour + t, tc_mono = t, tc_later = t\<rparr> 1 sc_telemetry"

lemmas sc_fleet_defs = sc_fleet_def sc_defs sc_strict_def preset_policy_def preset_at_def strict_preset_def preset_def

lemma sc_fleet_ok: "policies_ok sc_fleet"
  by (simp add: sc_fleet_defs policies_ok_def policy_typed_def POLICY_KEYS_def AUTO_KILL_SETTABLE_KEYS_def threshold_typed_def
      grace_column_ok_def)

lemma sc_told_eq: "compose_policies (open_session sc_fleet hour) 1 = [\<lparr>pe_key = ''preempt_others_reservation'', pe_enabled = True,
    pe_severity = ''auto_kill'', pe_threshold_value = None, pe_grace_period_seconds = Some 60, pe_notify_admin = True\<rparr>]"
  by (simp add: compose_policies_def list_for_server_def sc_fleet_defs policy_entry_of_def)

lemma sc_snapshots:
  "link_snapshots (open_session sc_fleet hour) (sc_link 1) = [\<lparr>ar_reservation_id = 1, ar_gpu_id = Some 2, ar_start_at = Some (dt_utc 0),
     ar_end_at = Some (dt_utc 18000000000), ar_status = Active, ar_gpu_memory_mb = None, ar_gpu_compute_share_pct = None, ar_source = SshChallenge\<rparr>]"
  "link_snapshots (open_session sc_fleet hour) (sc_link 2) = [\<lparr>ar_reservation_id = 2, ar_gpu_id = Some 1, ar_start_at = Some (dt_utc 0),
     ar_end_at = Some (dt_utc 18000000000), ar_status = Active, ar_gpu_memory_mb = None, ar_gpu_compute_share_pct = None, ar_source = SshChallenge\<rparr>]"
  by (simp_all add: link_snapshots_def reservations_def sc_fleet_defs)

lemma sc_profile_request: "(policy_request env)\<^sup>*\<^sup>* sc_fleet (snd (switch_profile_ep env (sc_user 9) 1 ''standard'' (open_session sc_fleet 7)))"
  by (rule r_into_rtranclp) (rule policy_request.switch)

section \<open>The policy table\<close>

text \<open>
  C23. The policy table stays well typed along every run of its two endpoints: a key is one of the eight, a
  killing severity stands on a key that may have it, a threshold is what the schema of its key dumps, the grace period fits its
  column, a server has a key at most once, and no row is lost or moved.
\<close>

theorem policy_rows_stay_typed:
  assumes "policies_ok d" and "(policy_request env)\<^sup>*\<^sup>* d d'"
  shows "(\<forall>p \<in> set (d_policies d'). ap_policy_key p \<in> set POLICY_KEYS
      \<and> (ap_severity p = AutoKill \<longrightarrow> ap_policy_key p \<in> set AUTO_KILL_SETTABLE_KEYS)
      \<and> threshold_typed (ap_policy_key p) (ap_threshold_value p) \<and> grace_column_ok (ap_grace_period_seconds p))
    \<and> distinct (map policy_slot (d_policies d')) \<and> (\<exists>new. map policy_slot (d_policies d') = map policy_slot (d_policies d) @ new)"
proof -
  from policy_requests_step[OF assms(2)] assms(1) have "policies_ok d'" "policies_dev d d'" by (simp_all add: step_ok_def)
  then show ?thesis unfolding policies_ok_def policy_typed_def policies_dev_def by blast
qed

theorem policy_rows_stay_typed_witness:
  "distinct (map policy_slot (d_policies (snd (switch_profile_ep
     \<lparr>po_coerce = json_int, po_etag = (\<lambda>_. []), po_rpc = (\<lambda>_ _ _. AgentOffline [])\<rparr> (sc_user 9) 1 ''standard'' (open_session sc_fleet 7)))))"
  using policy_rows_stay_typed[OF sc_fleet_ok sc_profile_request] by blast

section \<open>What the agent knows\<close>

text \<open>
  C24. After a policy synchronisation the agent answers for the policy of a key exactly what the table
  has for the server, nothing where the table has no row, and what it knew of other servers as before.
\<close>

theorem agent_answers_for_the_table:
  assumes "policies_ok d"
  shows "cached_policy (ag_policies (on_policy_sync sid (compose_policies (open_session d now) sid) etag st)) i key =
    (if i = sid then map_option policy_entry_of (policy_row d sid key) else cached_policy (ag_policies st) i key)"
  using assms by (rule synced_lookup)

theorem agent_answers_for_the_table_witness:
  "cached_policy (ag_policies sc_told) 1 ''gpu_hang'' = None"
  unfolding sc_told_def agent_answers_for_the_table[OF sc_fleet_ok] by (simp add: policy_row_def policy_slot_def sc_fleet_defs)

text \<open>
  C25. Along every run of the policy endpoints, the synchronisations and the ticks, starting with an agent that
  was told nothing, no tick ends in an exception: every threshold the agent reads is an integer.
\<close>

theorem synced_agent_never_raises:
  assumes "policies_ok d" and "ag_policies st = no_policies" and "(fleet_step env to_int)\<^sup>*\<^sup>* (d, st) (d', st')"
  shows "\<exists>n. fst (run_tick to_int di t sid gs st') = Some n"
  using fleet_typed[OF assms(3)] assms(1,2) by (intro run_tick_total) simp

lemma sc_told_run: "(fleet_step env to_int)\<^sup>*\<^sup>* (sc_fleet, sc_agent) (sc_fleet, sc_told)"
  unfolding sc_told_def by (rule r_into_rtranclp) (rule fleet_step.policies)

theorem synced_agent_never_raises_witness:
  "\<exists>n. fst (run_tick decimal sc_dispatcher \<lparr>tc_now = 0, tc_mono = 0, tc_later = 0\<rparr> 1 sc_telemetry sc_told) = Some n"
  by (rule synced_agent_never_raises[OF sc_fleet_ok _ sc_told_run]) (simp add: sc_agent_def)

text \<open>
  C26. After a full link synchronisation the agent takes a process of an account on the GPU of index \<open>i\<close> for
  covered exactly when a user linked to the account, not by a mere declaration, has a live reservation of the GPU whose row in the
  database has the number \<open>i\<close>, and it sees another holder exactly when another account has one: the row number is compared with
  the index.
\<close>

theorem agent_judges_by_row_number:
  assumes "\<And>j. to_int (int_str j) = Some j" and "distinct (map pa_linux_username (synced_accounts s sid))"
    and "on_link_cache_sync to_int now sid FullSync (fst (snd (compose_full_payload coll s sid))) [] st = Some (n, st')"
    and "p \<in> set (synced_accounts s sid)" and "pa_linux_username p = name"
  shows "(own_reservation (ag_links st') t sid i name \<noteq> None \<longleftrightarrow> reserved_through s p t i)
    \<and> (other_holder (ag_links st') t sid i name \<longleftrightarrow>
        (\<exists>q \<in> set (synced_accounts s sid). pa_linux_username q \<noteq> name \<and> reserved_through s q t i))"
proof -
  note sync = synced_link_lookup[OF assms(1,3)]
  have known: "\<exists>e. map_of (rc_entries (ag_links st')) (sid, pa_linux_username q) = Some e" if "q \<in> set (synced_accounts s sid)" for q
    using sync(1)[of "pa_linux_username q"] that by blast
  then obtain e where e: "map_of (rc_entries (ag_links st')) (sid, name) = Some e" using assms(4,5) by blast
  from sync(2)[OF this] obtain q where q: "q \<in> set (synced_accounts s sid)" "pa_linux_username q = name" "account_view s q e" by blast
  with assms(2,4,5) have "q = p" by (simp add: distinct_map inj_on_def)
  with own_by_view[OF e q(3)] other_by_view[OF sync(2) known assms(2)] show ?thesis by blast
qed

lemma sc_accounts_synced: "map pa_id (synced_accounts (open_session sc_fleet hour) 1) = [1, 2]"
    "map pa_linux_username (synced_accounts (open_session sc_fleet hour) 1) = [''alice'', ''bob'']"
    "sc_pa 1 \<in> set (synced_accounts (open_session sc_fleet hour) 1)"
  by (simp_all add: synced_accounts_def linked_users_rows_def pa_rows_def link_rows_def List.map_filter_simps sc_fleet_defs)

lemma sc_link_frame: "link_frame_ok (fst (snd (compose_full_payload (=) (open_session sc_fleet hour) 1)))"
  by code_simp

lemma sc_link_sync: "\<exists>n. on_link_cache_sync decimal hour 1 FullSync (fst (snd (compose_full_payload (=) (open_session sc_fleet hour) 1))) [] sc_told
    = Some (n, sc_synced)"
  using sc_link_frame by (auto simp: sc_synced_def on_link_cache_sync_def split: prod.split)

theorem agent_judges_by_row_number_witness:
  "own_reservation (ag_links sc_synced) hour 1 1 ''alice'' \<noteq> None \<longleftrightarrow> reserved_through (open_session sc_fleet hour) (sc_pa 1) hour 1"
proof -
  obtain n where n: "on_link_cache_sync decimal hour 1 FullSync (fst (snd (compose_full_payload (=) (open_session sc_fleet hour) 1))) [] sc_told
    = Some (n, sc_synced)" using sc_link_sync by blast
  have "distinct (map pa_linux_username (synced_accounts (open_session sc_fleet hour) 1))" by (simp add: sc_accounts_synced)
  from agent_judges_by_row_number[OF decimal_int_str this n sc_accounts_synced(3)] show ?thesis by (simp add: sc_pa_def)
qed

text \<open>
  A user on the GPU he has reserved is killed: alice holds the GPU of row 2, which has the index 1 on its
  server, bob holds the one of row 1. With the strict policy, told the links and the policies, the agent takes alice's process on index 1
  for a preemption of bob and kills it at the second tick, a minute after the first.
\<close>

theorem reserved_gpu_user_is_killed:
  "(\<exists>r \<in> set (d_reservations sc_fleet). r_user_id r = 1 \<and> r_status r = Active \<and> r_start_at r \<le> hour \<and> hour + 60000000 < r_end_at r
      \<and> (\<exists>g. r_gpu_id r = Some g \<and> map_option gpu_index (d_gpus sc_fleet g) = Some 1))
   \<and> KillAsked 42 \<in> set (ag_effects (snd (sc_tick 60000000 (snd (sc_tick 0 sc_synced)))))"
proof
  show "\<exists>r \<in> set (d_reservations sc_fleet). r_user_id r = 1 \<and> r_status r = Active \<and> r_start_at r \<le> hour \<and> hour + 60000000 < r_end_at r
      \<and> (\<exists>g. r_gpu_id r = Some g \<and> map_option gpu_index (d_gpus sc_fleet g) = Some 1)"
    by (simp add: sc_fleet_defs)
  show "KillAsked 42 \<in> set (ag_effects (snd (sc_tick 60000000 (snd (sc_tick 0 sc_synced)))))"
    by code_simp
qed

section \<open>When a process is killed\<close>

lemma process_key: "evaluate_process to_int pc rc now sid gpu p = Some (Some v) \<Longrightarrow> vi_policy_key v \<in> set AUTO_KILL_ALLOWED_KEYS \<Longrightarrow>
    v = process_violation ''preempt_others_reservation'' sid gpu p (lookup_user_ids rc sid (gp_linux_username p)) [(''memory_used_mb'', JInt (gp_memory_mb p))]
    \<and> lookup_user_ids rc sid (gp_linux_username p) \<noteq> [] \<and> own_reservation rc now sid gpu (gp_linux_username p) = None
    \<and> other_holder rc now sid gpu (gp_linux_username p)"
  by (auto simp: evaluate_process_def Let_def process_violation_def AUTO_KILL_ALLOWED_KEYS_def split: option.split_asm if_split_asm)

text \<open>
  C22. A tick kills a process only if its Linux account is linked, no reservation of the GPU's number is held through a link
  of this account, one is held through another account (also one of the same user, whom a second account does not protect), the policy against preemption is enabled with the killing severity, the kill switch is on, and
  the process was already seen so on this GPU for the grace period.
\<close>

theorem tick_kills_only_preemptors:
  assumes "KillAsked pid \<in> set (drop (length (ag_effects st)) (ag_effects (snd (run_tick to_int di t sid gs st))))"
  shows "\<exists>g \<in> set gs. \<exists>p \<in> set (ge_processes g). gp_pid p = pid
     \<and> lookup_user_ids (ag_links st) sid (gp_linux_username p) \<noteq> []
     \<and> own_reservation (ag_links st) (tc_now t) sid (ge_gpu_index g) (gp_linux_username p) = None
     \<and> other_holder (ag_links st) (tc_now t) sid (ge_gpu_index g) (gp_linux_username p)
     \<and> capability_enabled KILL_CAPABILITY False (ag_host st)
     \<and> (\<exists>e. cached_policy (ag_policies st) (di_server_id di) ''preempt_others_reservation'' = Some e \<and> pe_enabled e
          \<and> pe_severity e = ''auto_kill''
          \<and> (\<forall>x. pe_grace_period_seconds e = Some x \<longrightarrow> x > 0 \<longrightarrow> (\<exists>first l.
               ag_pending st (''preempt_others_reservation'', sid, ge_gpu_index g, Some (gp_linux_username p), Some pid) = Some (first, l)
               \<and> tc_mono t - first \<ge> x * 1000000)))"
proof -
  let ?V = "tick_violations to_int st (tc_now t) sid gs \<union> {v. vi_pid v = None}"
  obtain es where "ag_effects (snd (run_tick to_int di t sid gs st)) = ag_effects st @ es"
    and es: "\<And>pid. KillAsked pid \<in> set es \<Longrightarrow> \<exists>v \<in> ?V. vi_pid v = Some pid \<and> may_kill di (tc_mono t) v st"
    using run_tick_within_policy[of di t to_int st sid gs] unfolding within_policy_def by blast
  with assms have "KillAsked pid \<in> set es" by simp
  with es obtain v where v: "v \<in> ?V" "vi_pid v = Some pid" and may: "may_kill di (tc_mono t) v st" by blast
  then have "v \<in> tick_violations to_int st (tc_now t) sid gs" by auto
  then obtain g p where g: "g \<in> set gs" "p \<in> set (ge_processes g)"
    and ev: "evaluate_process to_int (ag_policies st) (ag_links st) (tc_now t) sid (ge_gpu_index g) p = Some (Some v)"
    by (auto simp: tick_violations_def found_in_def)
  from may obtain e where e: "cached_policy (ag_policies st) (di_server_id di) (vi_policy_key v) = Some e" "pe_enabled e"
    "pe_severity e = ''auto_kill''" "vi_policy_key v \<in> set AUTO_KILL_ALLOWED_KEYS" "capability_enabled KILL_CAPABILITY False (ag_host st)"
    and grace: "\<And>x. pe_grace_period_seconds e = Some x \<Longrightarrow> x > 0 \<Longrightarrow>
          \<exists>first l. ag_pending st (signature_of v) = Some (first, l) \<and> tc_mono t - first \<ge> x * 1000000"
    unfolding may_kill_def by blast
  note k = process_key[OF ev e(4)]
  have sig: "signature_of v = (''preempt_others_reservation'', sid, ge_gpu_index g, Some (gp_linux_username p), Some pid)"
    and key: "vi_policy_key v = ''preempt_others_reservation''" and pid: "gp_pid p = pid"
    using k v(2) by (simp_all add: signature_of_def process_violation_def)
  have "\<exists>e. cached_policy (ag_policies st) (di_server_id di) ''preempt_others_reservation'' = Some e \<and> pe_enabled e
          \<and> pe_severity e = ''auto_kill''
          \<and> (\<forall>x. pe_grace_period_seconds e = Some x \<longrightarrow> x > 0 \<longrightarrow> (\<exists>first l.
               ag_pending st (''preempt_others_reservation'', sid, ge_gpu_index g, Some (gp_linux_username p), Some pid) = Some (first, l)
               \<and> tc_mono t - first \<ge> x * 1000000))"
    using e(1-3) grace unfolding sig key by (intro exI[of _ e]) simp
  with g k pid e(5) show ?thesis by (intro bexI[OF _ g(1)] bexI[OF _ g(2)]) simp
qed

lemma sc_second_tick: "KillAsked 42 \<in> set (drop (length (ag_effects (snd (sc_tick 0 sc_synced))))
    (ag_effects (snd (run_tick decimal sc_dispatcher \<lparr>tc_now = hour + 60000000, tc_mono = 60000000, tc_later = 60000000\<rparr> 1 sc_telemetry
      (snd (sc_tick 0 sc_synced))))))"
  by code_simp

theorem tick_kills_only_preemptors_witness:
  "\<exists>g \<in> set sc_telemetry. \<exists>p \<in> set (ge_processes g). gp_pid p = 42
     \<and> other_holder (ag_links (snd (sc_tick 0 sc_synced))) (hour + 60000000) 1 (ge_gpu_index g) (gp_linux_username p)"
  using tick_kills_only_preemptors[OF sc_second_tick] by force

text \<open>
  A sighting is never forgotten: whatever happens after a violation was first seen, synchronisations and
  ticks at which the process was compliant included, the next time it is seen after the grace period it is acted on at once. The
  entries of the grace tracker are never cleared, so the periods of compliance in between count.
\<close>

theorem interrupted_violations_add_up:
  assumes "(fleet_step env to_int)\<^sup>*\<^sup>* (d, st) (d', st')" and "ag_pending st (signature_of v) = Some (first, l)"
    and "cached_policy (ag_policies st') (di_server_id di) (vi_policy_key v) = Some e" and "pe_enabled e"
    and "pe_grace_period_seconds e = Some x" and "now - first \<ge> x * 1000000"
  shows "fst (dispatch di now v st') = fst (effective_severity (ag_host st') (vi_policy_key v) (pe_severity e))"
proof -
  have "keeps_first (ag_pending st) (ag_pending st')" using fleet_pending[OF assms(1)] by simp
  from keeps_firstD[OF this assms(2)] obtain l' where "ag_pending st' (signature_of v) = Some (first, l')" ..
  with assms(3-6) show ?thesis by (simp add: dispatch_def grace_record_def case_prod_unfold Let_def)
qed

text \<open>In between the agent ticks without seeing the process.\<close>

lemma sc_quiet_run: "(fleet_step env decimal)\<^sup>*\<^sup>* (sc_fleet, snd (sc_tick 0 sc_synced))
    (sc_fleet, snd (run_tick decimal sc_dispatcher \<lparr>tc_now = hour, tc_mono = 30000000, tc_later = 30000000\<rparr> 1 [] (snd (sc_tick 0 sc_synced))))"
  by (rule r_into_rtranclp) (rule fleet_step.tick)

definition sc_preemption :: violation where
  "sc_preemption = process_violation ''preempt_others_reservation'' 1 1 \<lparr>gp_pid = 42, gp_linux_username = ''alice'', gp_memory_mb = 4000\<rparr> [1] []"

lemma sc_preemption_seen: "ag_pending (snd (sc_tick 0 sc_synced)) (signature_of sc_preemption) = Some (0, 0)"
  by code_simp

lemma sc_strict_cached: "cached_policy (ag_policies (snd (sc_tick 0 sc_synced))) 1 ''preempt_others_reservation'' =
    Some \<lparr>pe_key = ''preempt_others_reservation'', pe_enabled = True, pe_severity = ''auto_kill'', pe_threshold_value = None,
      pe_grace_period_seconds = Some 60, pe_notify_admin = True\<rparr>"
  by code_simp

theorem interrupted_violations_add_up_witness:
  "fst (dispatch sc_dispatcher 60000000 sc_preemption (snd (run_tick decimal sc_dispatcher
     \<lparr>tc_now = hour, tc_mono = 30000000, tc_later = 30000000\<rparr> 1 [] (snd (sc_tick 0 sc_synced))))) = ''auto_kill''"
proof -
  have "fst (effective_severity (ag_host (snd (sc_tick 0 sc_synced))) ''preempt_others_reservation'' ''auto_kill'') = ''auto_kill''"
    by code_simp
  with interrupted_violations_add_up[OF sc_quiet_run sc_preemption_seen, of sc_dispatcher _ 60 60000000] sc_strict_cached
  show ?thesis by (simp add: sc_dispatcher_def sc_preemption_def process_violation_def)
qed

section \<open>What becomes of a report\<close>

definition alerts_ok :: "db \<Rightarrow> bool" where
  "alerts_ok d \<longleftrightarrow> (\<forall>a \<in> set (d_alerts d). alert_refs_ok d a)"

lemma handle_violation_tables:
  "d_alerts (s_db (handle_violation e lab s)) = d_alerts (s_db s) \<and> d_gpus (s_db (handle_violation e lab s)) = d_gpus (s_db s)"
proof -
  have n: "d_alerts (s_db (create_notification u ty ti sv bo pl ct s)) = d_alerts (s_db s)
      \<and> d_gpus (s_db (create_notification u ty ti sv bo pl ct s)) = d_gpus (s_db s)" for u ty ti sv bo pl ct s
    using create_notification_cases[of u ty ti sv bo pl ct s] by (elim disjE) (simp_all add: insert_notification_def Let_def row_simps upd_db_def)
  have f: "d_alerts (s_db (fold g xs s)) = d_alerts (s_db s) \<and> d_gpus (s_db (fold g xs s)) = d_gpus (s_db s)"
    if "\<And>x s. d_alerts (s_db (g x s)) = d_alerts (s_db s) \<and> d_gpus (s_db (g x s)) = d_gpus (s_db s)" for g :: "'x \<Rightarrow> session \<Rightarrow> session" and xs s
    using that by (induction xs arbitrary: s) simp_all
  show ?thesis by (simp add: handle_violation_def Let_def f notify_occupier_def notify_holder_def n audit_write_def upd_db_def)
qed

text \<open>
  The first GPU of a server cannot be reported: a violation on a GPU index that is no row number of the GPU
  table, as 0 never is, ends the connection of the agent. The notifications and the audit row stay, there is no alert.
\<close>

theorem first_gpu_cannot_be_reported:
  assumes "alerts_ok (s_db s)" and "d_gpus (s_db s) (vf_gpu_id e) = None"
  shows "on_compliance_violation e lab s = (False, handle_violation e lab s) \<and> d_alerts (s_db (handle_violation e lab s)) = d_alerts (s_db s)"
proof -
  let ?s = "handle_violation e lab s"
  have t: "d_alerts (s_db ?s) = d_alerts (s_db s)" "d_gpus (s_db ?s) = d_gpus (s_db s)" using handle_violation_tables by blast+
  have "ev_gpu_id a \<noteq> Some (vf_gpu_id e)" if "a \<in> set (d_alerts (s_db s))" for a
    using assms that by (force simp: alerts_ok_def alert_refs_ok_def)
  then have "alert_dedup_hit ?s (vf_server_id e) (Some (vf_gpu_id e)) ty w = None" for ty w
    using filter_False[of "d_alerts (s_db s)"] by (auto simp: alert_dedup_hit_def t)
  with assms(2) show ?thesis by (simp add: on_compliance_violation_def create_alert_def Let_def alert_refs_ok_def t)
qed

theorem first_gpu_cannot_be_reported_witness:
  "fst (on_compliance_violation (push_compliance_violation \<lparr>ve_server_id = 1, ve_gpu_id = 0, ve_policy_key = ''gpu_hang'', ve_severity = ''warn'',
     ve_linux_username = None, ve_linux_pid = None, ve_linked_platform_user_ids = [], ve_action_taken = ''warn'', ve_downgraded_from = None\<rparr>) 1
     (open_session sc_fleet hour)) = False"
proof -
  have "alerts_ok (s_db (open_session sc_fleet hour))" by (simp add: alerts_ok_def sc_fleet_defs)
  moreover have "d_gpus (s_db (open_session sc_fleet hour)) (vf_gpu_id (push_compliance_violation \<lparr>ve_server_id = 1, ve_gpu_id = 0,
     ve_policy_key = ''gpu_hang'', ve_severity = ''warn'', ve_linux_username = None, ve_linux_pid = None,
     ve_linked_platform_user_ids = [], ve_action_taken = ''warn'', ve_downgraded_from = None\<rparr>)) = None"
    by (simp add: push_compliance_violation_def sc_fleet_defs)
  ultimately show ?thesis by (simp add: first_gpu_cannot_be_reported)
qed

end
