(* ===== verification/Physical_Accounts.thy ===== *)
theory Physical_Accounts
  imports User_Service
begin

text \<open>
  \<open>services/physical_account_service.py\<close> and \<open>api/v1/physical_accounts.py\<close>: the registry of the Linux accounts
  of a server, what an account scan of the agent does to it, the inventory of pushed keys and its repair, and the onboarding of a
  user, which asks the agent to create the account and to install a key. \<open>coll\<close> is the equality of the database's collation.
\<close>

section \<open>Rows\<close>

datatype pa_error =
    PaNotFoundError
  | DuplicatePhysicalAccountError
  | InvalidSourceError
  | AuthorizedKeyEntryNotFoundError
  | PaUncaught

definition VALID_SOURCES :: "(string \<times> pa_source) list" where
  "VALID_SOURCES = [(''agent_created'', AgentCreated), (''discovered_scan'', DiscoveredScan), (''admin_manual_register'', AdminManualRegister)]"

text \<open>The unique key \<open>uq_pa_server_user_active\<close> and the unsigned columns.\<close>

definition pa_clash :: "(string \<Rightarrow> string \<Rightarrow> bool) \<Rightarrow> physical_account \<Rightarrow> physical_account \<Rightarrow> bool" where
  "pa_clash coll p q \<longleftrightarrow> pa_is_active p \<and> pa_is_active q \<and> pa_server_id p = pa_server_id q \<and> coll (pa_linux_username p) (pa_linux_username q)"

definition pa_row_ok :: "physical_account \<Rightarrow> bool" where
  "pa_row_ok p \<longleftrightarrow> unsigned_int_col (pa_uid p) \<and> unsigned_int_col (pa_gid p)"

definition put_pa :: "physical_account \<Rightarrow> db \<Rightarrow> db" where
  "put_pa p d = d\<lparr>d_pas := (d_pas d)(pa_id p \<mapsto> p)\<rparr>"

definition add_pa :: "physical_account \<Rightarrow> db \<Rightarrow> db" where
  "add_pa p d = (put_pa p d)\<lparr>d_pa_ids := d_pa_ids d @ [pa_id p], d_next_pa := pa_id p + 1\<rparr>"

text \<open>\<^const>\<open>None\<close> where the flush raises.\<close>

definition insert_pa :: "(string \<Rightarrow> string \<Rightarrow> bool) \<Rightarrow> physical_account \<Rightarrow> session \<Rightarrow> (physical_account \<times> session) option" where
  "insert_pa coll p s = (let row = p\<lparr>pa_id := d_next_pa (s_db s)\<rparr> in
     if pa_row_ok row \<and> \<not> list_ex (pa_clash coll row) (pa_rows (s_db s)) then Some (row, upd_db (add_pa row) s) else None)"

definition update_pa :: "physical_account \<Rightarrow> session \<Rightarrow> session option" where
  "update_pa p s = (if pa_row_ok p then Some (upd_db (put_pa p) s) else None)"

definition or_raise :: "'a option \<Rightarrow> pa_error + 'a" where
  "or_raise x = (case x of None \<Rightarrow> Inl PaUncaught | Some a \<Rightarrow> Inr a)"

definition pa_audit :: "string \<Rightarrow> int \<Rightarrow> int \<Rightarrow> physical_account \<Rightarrow> payload \<Rightarrow> req_ctx \<Rightarrow> session \<Rightarrow> session" where
  "pa_audit action actor lab p pl ctx = audit_write (audit_of action (Some actor) (Some lab) (Some ''physical_account'')
     (Some (pa_id p)) (Some lab) (Some (pa_server_id p)) (Some pl) ctx)"

section \<open>The registry\<close>

definition list_pas_for_server :: "session \<Rightarrow> int \<Rightarrow> physical_account list" where
  "list_pas_for_server s sid = filter (\<lambda>p. pa_server_id p = sid \<and> pa_is_active p) (pa_rows (s_db s))"

definition get_pa_row :: "session \<Rightarrow> int \<Rightarrow> int \<Rightarrow> pa_error + physical_account" where
  "get_pa_row s pid lab = (case d_pas (s_db s) pid of
      None \<Rightarrow> Inl PaNotFoundError
    | Some p \<Rightarrow> (case d_servers (s_db s) (pa_server_id p) of
        None \<Rightarrow> Inl PaNotFoundError
      | Some v \<Rightarrow> if srv_lab_id v = lab then Inr p else Inl PaNotFoundError))"

definition new_pa :: "int \<Rightarrow> string \<Rightarrow> pa_source \<Rightarrow> ustring option \<Rightarrow> int option \<Rightarrow> physical_account" where
  "new_pa sid name src notes by = \<lparr>pa_id = 0, pa_server_id = sid, pa_linux_username = name, pa_is_active = True, pa_uid = None,
     pa_gid = None, pa_home_directory = None, pa_default_shell = None, pa_source = src, pa_created_by_user_id = by, pa_notes = notes,
     pa_last_seen_at = None\<rparr>"

definition create_pa :: "(string \<Rightarrow> string \<Rightarrow> bool) \<Rightarrow> int \<Rightarrow> string \<Rightarrow> string \<Rightarrow> ustring option \<Rightarrow> int \<Rightarrow> int \<Rightarrow> req_ctx \<Rightarrow> session \<Rightarrow>
    pa_error + (physical_account \<times> session)" where
  "create_pa coll sid name source notes actor lab ctx s = (case map_of VALID_SOURCES source of
      None \<Rightarrow> Inl InvalidSourceError
    | Some src \<Rightarrow> (case d_servers (s_db s) sid of
        None \<Rightarrow> Inl PaNotFoundError
      | Some v \<Rightarrow> if srv_lab_id v \<noteq> lab then Inl PaNotFoundError
        else rbind (one_or_none PaUncaught (filter (\<lambda>p. pa_server_id p = sid \<and> coll name (pa_linux_username p) \<and> pa_is_active p)
            (pa_rows (s_db s)))) (\<lambda>existing.
          if existing \<noteq> None then Inl DuplicatePhysicalAccountError
          else rbind (or_raise (insert_pa coll (new_pa sid name src notes (Some actor)) s)) (\<lambda>(p, s').
            Inr (p, pa_audit ''physical_account.create'' actor lab p
              [(''linux_username'', JStr name), (''source'', JStr source)] ctx s')))))"

definition delete_pa :: "int \<Rightarrow> int \<Rightarrow> int \<Rightarrow> req_ctx \<Rightarrow> session \<Rightarrow> pa_error + (physical_account \<times> session)" where
  "delete_pa pid actor lab ctx s = rbind (get_pa_row s pid lab) (\<lambda>p.
     if \<not> pa_is_active p then Inr (p, s)
     else let p' = p\<lparr>pa_is_active := False\<rparr> in
       Inr (p', pa_audit ''physical_account.delete'' actor lab p' [(''linux_username'', JStr (pa_linux_username p))] ctx
         (upd_db (put_pa p') s)))"

section \<open>Account scans\<close>

record scan_entry =
  se_linux_username :: string
  se_uid :: "int option"
  se_gid :: "int option"
  se_home_directory :: "string option"
  se_default_shell :: "string option"

record scan_stats =
  ss_created :: nat
  ss_backfilled :: nat
  ss_skipped_inactive :: nat
  ss_scanned :: nat

definition given_or :: "'a option \<Rightarrow> 'a option \<Rightarrow> 'a option" where
  "given_or new old = (if new = None then old else new)"

definition scanned_pa :: "int \<Rightarrow> scan_entry \<Rightarrow> physical_account \<Rightarrow> physical_account" where
  "scanned_pa now e p = p\<lparr>pa_uid := given_or (se_uid e) (pa_uid p), pa_gid := given_or (se_gid e) (pa_gid p),
     pa_home_directory := given_or (se_home_directory e) (pa_home_directory p),
     pa_default_shell := given_or (se_default_shell e) (pa_default_shell p), pa_last_seen_at := Some now\<rparr>"

definition same_profile :: "physical_account \<Rightarrow> physical_account \<Rightarrow> bool" where
  "same_profile p q \<longleftrightarrow> pa_uid p = pa_uid q \<and> pa_gid p = pa_gid q \<and> pa_home_directory p = pa_home_directory q
     \<and> pa_default_shell p = pa_default_shell q"

definition found_pa :: "int \<Rightarrow> int \<Rightarrow> scan_entry \<Rightarrow> physical_account" where
  "found_pa sid now e = (new_pa sid (se_linux_username e) DiscoveredScan None None)\<lparr>pa_uid := se_uid e, pa_gid := se_gid e,
     pa_home_directory := se_home_directory e, pa_default_shell := se_default_shell e, pa_last_seen_at := Some now\<rparr>"

text \<open>
  The dictionary of the active rows by name, the set of inactive names, the names created and the two counters. The names
  are compared as Python compares them.
\<close>

record scan_state =
  sn_active :: "(string \<times> physical_account) list"
  sn_created :: "string list"
  sn_backfilled :: nat
  sn_skipped :: nat

definition scan_one :: "int \<Rightarrow> int \<Rightarrow> string list \<Rightarrow> scan_entry \<Rightarrow> scan_state \<Rightarrow> scan_state" where
  "scan_one sid now inactive e st =
    (let name = se_linux_username e in
     if name = [] then st
     else (case map_of (sn_active st) name of
       Some p \<Rightarrow> st\<lparr>sn_active := dict_set (sn_active st) name (scanned_pa now e p),
         sn_backfilled := sn_backfilled st + (if same_profile (scanned_pa now e p) p then 0 else 1)\<rparr>
     | None \<Rightarrow> if name \<in> set inactive then st\<lparr>sn_skipped := sn_skipped st + 1\<rparr>
         else st\<lparr>sn_active := dict_set (sn_active st) name (found_pa sid now e), sn_created := sn_created st @ [name]\<rparr>))"

text \<open>The flush writes the changed rows and inserts the new ones, in order; \<^const>\<open>None\<close> where it raises.\<close>

fun flush_scan :: "(string \<Rightarrow> string \<Rightarrow> bool) \<Rightarrow> string list \<Rightarrow> (string \<times> physical_account) list \<Rightarrow> session \<Rightarrow> session option" where
  "flush_scan coll created [] s = Some s"
| "flush_scan coll created ((name, p) # ps) s = Option.bind
     (if name \<in> set created then map_option snd (insert_pa coll p s) else update_pa p s) (flush_scan coll created ps)"

definition sync_discovered :: "(string \<Rightarrow> string \<Rightarrow> bool) \<Rightarrow> int \<Rightarrow> int \<Rightarrow> scan_entry list \<Rightarrow> session \<Rightarrow> (scan_stats \<times> session) option" where
  "sync_discovered coll sid lab entries s =
    (let existing = filter (\<lambda>p. pa_server_id p = sid) (pa_rows (s_db s));
         active = fold (\<lambda>p d. dict_set d (pa_linux_username p) p) (filter pa_is_active existing) [];
         inactive = map pa_linux_username (filter (\<lambda>p. \<not> pa_is_active p) existing);
         st = fold (scan_one sid (s_clock s) inactive) entries
           \<lparr>sn_active = active, sn_created = [], sn_backfilled = 0, sn_skipped = 0\<rparr>;
         stats = \<lparr>ss_created = length (sn_created st), ss_backfilled = sn_backfilled st, ss_skipped_inactive = sn_skipped st,
           ss_scanned = length entries\<rparr>
     in map_option (\<lambda>s'. (stats, if sn_created st = [] then s' else audit_write (audit_of ''physical_account.discovered'' None (Some lab)
            (Some ''server'') (Some sid) (Some lab) (Some sid)
            (Some [(''created'', JList (map JStr (sn_created st))), (''backfilled'', JInt (int (sn_backfilled st))),
              (''skipped_inactive'', JInt (int (sn_skipped st))), (''scanned'', JInt (int (length entries)))]) no_ctx) s'))
       (flush_scan coll (sn_created st) (sn_active st) s))"

section \<open>Pushed keys\<close>

datatype entry_status = EntryActive | EntryRemoved | EntryPushFailed

definition authorized_key_entry_status :: "authorized_key_entry \<Rightarrow> entry_status" where
  "authorized_key_entry_status e = (if ke_is_active e then EntryActive else if ke_removed_at e \<noteq> None then EntryRemoved else EntryPushFailed)"

text \<open>One line of the inventory; the names of the three users are left out, and the order by account name.\<close>

record inventory_entry =
  iv_entry :: authorized_key_entry
  iv_account :: physical_account
  iv_key :: ssh_public_key
  iv_status :: entry_status
  iv_can_retry :: bool

definition inventory_of :: "db \<Rightarrow> int \<Rightarrow> int \<Rightarrow> authorized_key_entry \<Rightarrow> inventory_entry option" where
  "inventory_of d sid lab e = (case (d_pas d (ke_physical_account_id e), row_by sk_id (ke_ssh_public_key_id e) (d_ssh_keys d)) of
      (Some p, Some k) \<Rightarrow> (case d_servers d (pa_server_id p) of
          None \<Rightarrow> None
        | Some v \<Rightarrow> if srv_id v = sid \<and> srv_lab_id v = lab \<and> d_users d (ke_pushed_for_user_id e) \<noteq> None
              \<and> d_users d (ke_pushed_by_user_id e) \<noteq> None
            then (let st = authorized_key_entry_status e in Some \<lparr>iv_entry = e, iv_account = p, iv_key = k, iv_status = st,
              iv_can_retry = (st = EntryPushFailed \<and> sk_is_active k \<and> pa_is_active p)\<rparr>)
            else None)
    | _ \<Rightarrow> None)"

definition list_authorized_key_inventory :: "session \<Rightarrow> int \<Rightarrow> int \<Rightarrow> inventory_entry list" where
  "list_authorized_key_inventory s sid lab = List.map_filter (inventory_of (s_db s) sid lab) (d_key_entries (s_db s))"

definition retried_entry :: "authorized_key_entry \<Rightarrow> int \<Rightarrow> session \<Rightarrow> authorized_key_entry" where
  "retried_entry e actor s = e\<lparr>ke_pushed_by_user_id := actor, ke_pushed_at := s_clock s, ke_is_active := True, ke_removed_at := None,
     ke_removed_by_user_id := None\<rparr>"

text \<open>The account and the entry with its key, as \<open>retry_authorized_key_push\<close> loads them.\<close>

definition load_key_entry :: "session \<Rightarrow> physical_account \<Rightarrow> int \<Rightarrow> pa_error + (authorized_key_entry \<times> ssh_public_key)" where
  "load_key_entry s p eid = (case row_by ke_id eid (d_key_entries (s_db s)) of
      None \<Rightarrow> Inl AuthorizedKeyEntryNotFoundError
    | Some e \<Rightarrow> if ke_physical_account_id e \<noteq> pa_id p then Inl AuthorizedKeyEntryNotFoundError
      else (case get_key s (ke_ssh_public_key_id e) of
        None \<Rightarrow> Inl AuthorizedKeyEntryNotFoundError
      | Some k \<Rightarrow> if sk_is_active k then Inr (e, k) else Inl AuthorizedKeyEntryNotFoundError))"

definition retry_entry_push :: "rpc \<Rightarrow> physical_account \<Rightarrow> authorized_key_entry \<Rightarrow> ssh_public_key \<Rightarrow> int \<Rightarrow> session \<Rightarrow>
    pa_error + (payload \<times> session)" where
  "retry_entry_push rpc p e k actor s =
    (let ids = [(''authorized_key_entry_id'', JInt (ke_id e)), (''ssh_public_key_id'', JInt (sk_id k))];
         base = (''attempted'', JBool True) # ids;
         failed = (\<lambda>m. Inr (base @ [(''ok'', JBool False), (''error'', JStr m)], s)) in
     if ke_is_active e then Inr ([(''ok'', JBool True), (''attempted'', JBool False), (''already_active'', JBool True)] @ ids, s)
     else (case rpc (pa_server_id p) ''backend.authorized_key.push'' (push_payload p k
            (''corelab:user='' @ int_str (ke_pushed_for_user_id e) @ '';onboard='' @ int_str (pa_id p) @ '';retry=1'')) of
         RpcReturned pl \<Rightarrow> Inr (base @ pushed_fields pl, upd_db (put_key_entry (retried_entry e actor s)) s)
       | AgentOffline m \<Rightarrow> failed m
       | AgentRpcTimeout m \<Rightarrow> failed m
       | _ \<Rightarrow> Inl PaUncaught))"

definition retry_authorized_key_push :: "rpc \<Rightarrow> int \<Rightarrow> int \<Rightarrow> int \<Rightarrow> int \<Rightarrow> req_ctx \<Rightarrow> session \<Rightarrow> pa_error + (payload \<times> session)" where
  "retry_authorized_key_push rpc pid eid actor lab ctx s = rbind (get_pa_row s pid lab) (\<lambda>p.
     rbind (load_key_entry s p eid) (\<lambda>(e, k). rbind (retry_entry_push rpc p e k actor s) (\<lambda>(outcome, s').
       Inr (outcome, pa_audit ''physical_account.authorized_key_retry'' actor lab p
         [(''linux_username'', JStr (pa_linux_username p)), (''authorized_key_entry_id'', JInt (ke_id e)),
          (''key_push_outcome'', JObj outcome)] ctx s'))))"

section \<open>Reading the file of the host\<close>

record host_key =
  hk_line_number :: int
  hk_fingerprint_sha256 :: string
  hk_key_type :: json
  hk_comment :: json

text \<open>An entry of the answer that is no object with a line number and a fingerprint is dropped; a boolean is an integer in Python.\<close>

definition host_key_of :: "json \<Rightarrow> host_key option" where
  "host_key_of j = (case j of
      JObj r \<Rightarrow> (case (rpc_get r ''fingerprint_sha256'' JNull, rpc_get r ''line_number'' JNull) of
          (JStr f, JInt n) \<Rightarrow> Some \<lparr>hk_line_number = n, hk_fingerprint_sha256 = f, hk_key_type = rpc_get r ''key_type'' JNull,
             hk_comment = rpc_get r ''comment'' JNull\<rparr>
        | (JStr f, JBool b) \<Rightarrow> Some \<lparr>hk_line_number = (if b then 1 else 0), hk_fingerprint_sha256 = f,
             hk_key_type = rpc_get r ''key_type'' JNull, hk_comment = rpc_get r ''comment'' JNull\<rparr>
        | _ \<Rightarrow> None)
    | _ \<Rightarrow> None)"

record readback =
  rb_account :: physical_account
  rb_ok :: bool
  rb_error :: json
  rb_path :: json
  rb_line_count :: int
  rb_invalid_line_count :: int
  rb_host_keys :: "host_key list"
  rb_managed :: "(authorized_key_entry \<times> ssh_public_key \<times> bool) list"
  rb_unknown :: "host_key list"
  rb_mock_warning :: json

text \<open>The counters of the answer are integers by its schema.\<close>

definition count_field :: "payload \<Rightarrow> string \<Rightarrow> int" where
  "count_field r k = (case rpc_get r k JNull of JInt i \<Rightarrow> i | _ \<Rightarrow> 0)"

definition managed_rows :: "session \<Rightarrow> physical_account \<Rightarrow> (authorized_key_entry \<times> ssh_public_key) list" where
  "managed_rows s p = List.map_filter (\<lambda>e. if ke_physical_account_id e = pa_id p \<and> ke_is_active e
       \<and> d_users (s_db s) (ke_pushed_for_user_id e) \<noteq> None
     then (case get_key s (ke_ssh_public_key_id e) of Some k \<Rightarrow> if sk_is_active k then Some (e, k) else None | None \<Rightarrow> None)
     else None) (d_key_entries (s_db s))"

definition compose_readback :: "session \<Rightarrow> physical_account \<Rightarrow> rpc_outcome \<Rightarrow> pa_error + readback" where
  "compose_readback s p out =
    (let rows = managed_rows s p;
         answer = (\<lambda>ok err r. let hks = List.map_filter host_key_of (case rpc_get r ''keys'' JNull of JList ks \<Rightarrow> ks | _ \<Rightarrow> []);
              present = (\<lambda>k. sk_fingerprint_sha256 k \<in> hk_fingerprint_sha256 ` set hks) in
            \<lparr>rb_account = p, rb_ok = ok, rb_error = err, rb_path = rpc_get r ''authorized_keys_path'' JNull,
             rb_line_count = count_field r ''line_count'', rb_invalid_line_count = count_field r ''invalid_line_count'',
             rb_host_keys = hks, rb_managed = map (\<lambda>(e, k). (e, k, present k)) rows,
             rb_unknown = filter (\<lambda>h. hk_fingerprint_sha256 h \<notin> sk_fingerprint_sha256 ` snd ` set rows) hks,
             rb_mock_warning = rpc_get r ''mock_warning'' JNull\<rparr>)
     in case out of
       RpcReturned r \<Rightarrow> (let ok = (rpc_get r ''ok'' JNull = JBool True) in Inr (answer ok (if ok then JNull else rpc_get r ''error'' JNull) r))
     | AgentOffline m \<Rightarrow> Inr (answer False (JStr m) [])
     | AgentRpcTimeout m \<Rightarrow> Inr (answer False (JStr m) [])
     | UnexpectedResponseType m \<Rightarrow> Inr (answer False (JStr m) [])
     | RpcOtherError \<Rightarrow> Inl PaUncaught)"

definition read_authorized_keys_from_host :: "rpc \<Rightarrow> int \<Rightarrow> int \<Rightarrow> int \<Rightarrow> req_ctx \<Rightarrow> session \<Rightarrow> pa_error + (readback \<times> session)" where
  "read_authorized_keys_from_host rpc pid actor lab ctx s = rbind (get_pa_row s pid lab) (\<lambda>p.
     rbind (compose_readback s p (rpc (pa_server_id p) ''backend.authorized_key.read'' [(''linux_username'', JStr (pa_linux_username p))])) (\<lambda>r.
       Inr (r, pa_audit ''physical_account.authorized_key_readback'' actor lab p
         [(''linux_username'', JStr (pa_linux_username p)), (''ok'', JBool (rb_ok r)), (''error'', rb_error r),
          (''line_count'', JInt (rb_line_count r)), (''invalid_line_count'', JInt (rb_invalid_line_count r)),
          (''managed_entry_count'', JInt (int (length (rb_managed r)))),
          (''missing_managed_count'', JInt (int (length (filter (\<lambda>(e, k, present). \<not> present) (rb_managed r))))),
          (''unknown_host_key_count'', JInt (int (length (rb_unknown r))))] ctx s)))"

section \<open>Endpoints\<close>

record pa_env =
  px_rpc :: rpc
  px_coll :: "string \<Rightarrow> string \<Rightarrow> bool"
  px_str :: "pa_error \<Rightarrow> string"
  px_link_str :: "access_error \<Rightarrow> string"
  px_ctx :: req_ctx

fun pa_http :: "pa_env \<Rightarrow> pa_error \<Rightarrow> api_error" where
  "pa_http env PaNotFoundError = http 404 (px_str env PaNotFoundError)"
| "pa_http env DuplicatePhysicalAccountError = http 409 (px_str env DuplicatePhysicalAccountError)"
| "pa_http env InvalidSourceError = http 422 (px_str env InvalidSourceError)"
| "pa_http env AuthorizedKeyEntryNotFoundError = http 404 (px_str env AuthorizedKeyEntryNotFoundError)"
| "pa_http env PaUncaught = Uncaught"

definition pa_outcome :: "pa_env \<Rightarrow> session \<Rightarrow> pa_error + ('a \<times> session) \<Rightarrow> 'a outcome \<times> session" where
  "pa_outcome env s m = (case m of Inl e \<Rightarrow> (Inl (pa_http env e), s) | Inr (x, s') \<Rightarrow> (Inr x, s'))"

definition list_pas_ep :: "user \<Rightarrow> int \<Rightarrow> session \<Rightarrow> physical_account list outcome" where
  "list_pas_ep u sid s = rbind (find_server sid u s) (\<lambda>_. Inr (list_pas_for_server s sid))"

definition list_authorized_key_entries_ep :: "user \<Rightarrow> int \<Rightarrow> session \<Rightarrow> inventory_entry list outcome" where
  "list_authorized_key_entries_ep u sid s = rbind (find_server sid u s) (\<lambda>_. rbind (assert_server_admin u sid s) (\<lambda>_.
     Inr (list_authorized_key_inventory s sid (u_lab_id u))))"

definition create_pa_ep :: "pa_env \<Rightarrow> user \<Rightarrow> int \<Rightarrow> string \<Rightarrow> string \<Rightarrow> ustring option \<Rightarrow> session \<Rightarrow> physical_account outcome \<times> session" where
  "create_pa_ep env u sid name source notes s = (case assert_server_admin u sid s of
      Inl e \<Rightarrow> (Inl e, s)
    | Inr _ \<Rightarrow> pa_outcome env s (create_pa (px_coll env) sid name source notes (u_id u) (u_lab_id u) (px_ctx env) s))"

text \<open>The account of a request: in the caller's lab, on a server the caller administers.\<close>

definition pa_gate :: "pa_env \<Rightarrow> user \<Rightarrow> int \<Rightarrow> session \<Rightarrow> physical_account outcome" where
  "pa_gate env u pid s = (case get_pa_row s pid (u_lab_id u) of
      Inl e \<Rightarrow> Inl (pa_http env e)
    | Inr p \<Rightarrow> rbind (assert_server_admin u (pa_server_id p) s) (\<lambda>_. Inr p))"

definition get_pa_ep :: "pa_env \<Rightarrow> user \<Rightarrow> int \<Rightarrow> session \<Rightarrow> physical_account outcome" where
  "get_pa_ep env u pid s = map_sum (pa_http env) id (get_pa_row s pid (u_lab_id u))"

definition delete_pa_ep :: "pa_env \<Rightarrow> user \<Rightarrow> int \<Rightarrow> session \<Rightarrow> physical_account outcome \<times> session" where
  "delete_pa_ep env u pid s = (case pa_gate env u pid s of
      Inl e \<Rightarrow> (Inl e, s) | Inr _ \<Rightarrow> pa_outcome env s (delete_pa pid (u_id u) (u_lab_id u) (px_ctx env) s))"

definition retry_authorized_key_push_ep :: "pa_env \<Rightarrow> user \<Rightarrow> int \<Rightarrow> int \<Rightarrow> session \<Rightarrow> payload outcome \<times> session" where
  "retry_authorized_key_push_ep env u pid eid s = (case pa_gate env u pid s of
      Inl e \<Rightarrow> (Inl e, s)
    | Inr _ \<Rightarrow> pa_outcome env s (retry_authorized_key_push (px_rpc env) pid eid (u_id u) (u_lab_id u) (px_ctx env) s))"

definition read_authorized_keys_from_host_ep :: "pa_env \<Rightarrow> user \<Rightarrow> int \<Rightarrow> session \<Rightarrow> readback outcome \<times> session" where
  "read_authorized_keys_from_host_ep env u pid s = (case pa_gate env u pid s of
      Inl e \<Rightarrow> (Inl e, s)
    | Inr _ \<Rightarrow> pa_outcome env s (read_authorized_keys_from_host (px_rpc env) pid (u_id u) (u_lab_id u) (px_ctx env) s))"

text \<open>\<open>get\<close> of the services in the handler of a declaration; a link that exists is a conflict.\<close>

definition link_http :: "pa_env \<Rightarrow> access_error \<Rightarrow> api_error" where
  "link_http env e = (case e of LinkAlreadyActiveError _ _ \<Rightarrow> http 409 (px_link_str env e) | _ \<Rightarrow> Uncaught)"

definition owner_in_lab :: "string \<Rightarrow> user \<Rightarrow> int \<Rightarrow> session \<Rightarrow> user outcome" where
  "owner_in_lab detail u oid s = (case d_users (s_db s) oid of
      None \<Rightarrow> Inl (http 404 detail)
    | Some ow \<Rightarrow> if u_lab_id ow = u_lab_id u then Inr ow else Inl (http 404 detail))"

definition pa_on_server :: "pa_env \<Rightarrow> user \<Rightarrow> int \<Rightarrow> int \<Rightarrow> session \<Rightarrow> physical_account outcome" where
  "pa_on_server env u sid pid s = rbind (get_pa_ep env u pid s) (\<lambda>p.
     if pa_server_id p \<noteq> sid then Inl (http 400 ''pa_server_mismatch'') else Inr p)"

definition declare_owner_ep :: "pa_env \<Rightarrow> user \<Rightarrow> int \<Rightarrow> int \<Rightarrow> int \<Rightarrow> string \<Rightarrow> session \<Rightarrow> account_link outcome \<times> session" where
  "declare_owner_ep env u sid pid oid reason s =
    (case rbind (assert_server_admin u sid s) (\<lambda>_. rbind (find_server sid u s) (\<lambda>_. rbind (pa_on_server env u sid pid s) (\<lambda>_.
        owner_in_lab ''owner_user_not_in_lab'' u oid s))) of
       Inl e \<Rightarrow> (Inl e, s)
     | Inr _ \<Rightarrow> (case admin_declare_link pid oid reason (u_id u) (u_lab_id u) sid (px_ctx env) s of
         Inl e \<Rightarrow> (Inl (link_http env e), s) | Inr (l, s') \<Rightarrow> (Inr l, s')))"

definition reverse_lookup_via_pa_ep :: "pa_env \<Rightarrow> user \<Rightarrow> int \<Rightarrow> int \<Rightarrow> session \<Rightarrow> (account_link list \<times> bool) outcome" where
  "reverse_lookup_via_pa_ep env u sid pid s = rbind (pa_on_server env u sid pid s) (\<lambda>p.
     (case reverse_lookup_users (px_coll env) s sid (pa_linux_username p) of
        Inl e \<Rightarrow> Inl Uncaught | Inr ls \<Rightarrow> Inr (ls, length ls > 1)))"

section \<open>Onboarding\<close>

text \<open>
  An RPC of the onboarding: whatever answer comes back is marked \<open>ok\<close>, an agent that is offline or late is
  recorded; \<^const>\<open>None\<close> where the exception is not caught.
\<close>

definition onboard_rpc :: "rpc_outcome \<Rightarrow> (bool \<times> payload) option" where
  "onboard_rpc out = (let attempted = [(''attempted'', JBool True)] in case out of
      RpcReturned r \<Rightarrow> Some (True, dict_set (dict_update attempted r) ''ok'' (JBool True))
    | AgentOffline m \<Rightarrow> Some (False, attempted @ [(''ok'', JBool False), (''error'', JStr m)])
    | AgentRpcTimeout m \<Rightarrow> Some (False, attempted @ [(''ok'', JBool False), (''error'', JStr m)])
    | _ \<Rightarrow> None)"

text \<open>The fields of the new account, typed by the schema of the answer.\<close>

definition int_of_field :: "payload \<Rightarrow> string \<Rightarrow> int option" where
  "int_of_field r k = (case rpc_get r k JNull of JInt i \<Rightarrow> Some i | _ \<Rightarrow> None)"

definition text_of_field :: "payload \<Rightarrow> string \<Rightarrow> string option" where
  "text_of_field r k = (case rpc_get r k JNull of JStr t \<Rightarrow> Some t | _ \<Rightarrow> None)"

definition useradd_pa :: "payload \<Rightarrow> physical_account \<Rightarrow> physical_account" where
  "useradd_pa r p = p\<lparr>pa_uid := int_of_field r ''uid'', pa_gid := int_of_field r ''gid'',
     pa_home_directory := text_of_field r ''home_directory'', pa_default_shell := text_of_field r ''default_shell''\<rparr>"

record onboard_request =
  ob_linux_username :: string
  ob_owner_user_id :: int
  ob_ssh_public_key_id :: int
  ob_reason :: string

record onboard_response =
  or_physical_account_id :: int
  or_account_link_id :: int
  or_authorized_key_entry_id :: int
  or_useradd_outcome :: payload
  or_key_push_outcome :: payload

definition onboard_gate :: "user \<Rightarrow> int \<Rightarrow> onboard_request \<Rightarrow> session \<Rightarrow> (server \<times> user \<times> ssh_public_key) outcome" where
  "onboard_gate u sid rq s = rbind (assert_server_admin u sid s) (\<lambda>_. rbind (find_server sid u s) (\<lambda>v.
     rbind (owner_in_lab ''owner_not_found'' u (ob_owner_user_id rq) s) (\<lambda>ow. (case get_key s (ob_ssh_public_key_id rq) of
         None \<Rightarrow> Inl (http 404 ''ssh_key_not_owned_or_inactive'')
       | Some k \<Rightarrow> if sk_user_id k = u_id ow \<and> sk_is_active k then Inr (v, ow, k) else Inl (http 404 ''ssh_key_not_owned_or_inactive'')))))"

text \<open>
  The rows: the account, its fields from the answer, the key entry, the declared link, the audit row. The
  errors carry the session, because an \<open>HTTPException\<close> commits what was flushed.
\<close>

definition onboard_account :: "pa_env \<Rightarrow> user \<Rightarrow> server \<Rightarrow> user \<Rightarrow> onboard_request \<Rightarrow> bool \<times> payload \<Rightarrow> session \<Rightarrow>
    pa_error + (physical_account \<times> session)" where
  "onboard_account env u v ow rq added s = (case create_pa (px_coll env) (srv_id v) (ob_linux_username rq) ''admin_manual_register''
        (Some (map of_char (''onboarded for user '' @ int_str (u_id ow) @ '' ('' @ u_username ow @ '')''))) (u_id u) (u_lab_id u) (px_ctx env) s of
      Inl DuplicatePhysicalAccountError \<Rightarrow> Inl DuplicatePhysicalAccountError
    | Inl _ \<Rightarrow> Inl PaUncaught
    | Inr (p, s1) \<Rightarrow> if fst added
        then (let p' = useradd_pa (snd added) p in map_sum id (Pair p') (or_raise (update_pa p' s1)))
        else Inr (p, s1))"

definition onboard_user_ep :: "pa_env \<Rightarrow> user \<Rightarrow> int \<Rightarrow> onboard_request \<Rightarrow> session \<Rightarrow> onboard_response outcome \<times> session" where
  "onboard_user_ep env u sid rq s = (case onboard_gate u sid rq s of
      Inl e \<Rightarrow> (Inl e, s)
    | Inr (v, ow, k) \<Rightarrow>
      (case onboard_rpc (px_rpc env (srv_id v) ''backend.linux.useradd'' [(''linux_username'', JStr (ob_linux_username rq))]) of
         None \<Rightarrow> (Inl Uncaught, s)
       | Some added \<Rightarrow> (case onboard_account env u v ow rq added s of
           Inl e \<Rightarrow> (Inl (pa_http env e), s)
         | Inr (p, s1) \<Rightarrow> (case onboard_rpc (px_rpc env (srv_id v) ''backend.authorized_key.push'' (push_payload p k
                (''corelab:user='' @ int_str (u_id ow) @ '';onboard='' @ int_str (pa_id p)))) of
             None \<Rightarrow> (Inl Uncaught, s1)
           | Some pushed \<Rightarrow> (case insert_key_entry ((draft_entry (pa_id p) (sk_id k) (u_id u) (u_id ow))\<lparr>ke_is_active := fst pushed\<rparr>) s1 of
               Inl _ \<Rightarrow> (Inl Uncaught, s1)
             | Inr (e, s2) \<Rightarrow> (case admin_declare_link (pa_id p) (u_id ow) (ob_reason rq) (u_id u) (u_lab_id u) (srv_id v) (px_ctx env) s2 of
                 Inl err \<Rightarrow> (Inl (link_http env err), s2)
               | Inr (l, s3) \<Rightarrow> (Inr \<lparr>or_physical_account_id = pa_id p, or_account_link_id = al_id l, or_authorized_key_entry_id = ke_id e,
                     or_useradd_outcome = snd added, or_key_push_outcome = snd pushed\<rparr>,
                   pa_audit ''physical_account.onboard_user'' (u_id u) (u_lab_id u) p
                     [(''linux_username'', JStr (ob_linux_username rq)), (''owner_user_id'', JInt (u_id ow)),
                      (''ssh_public_key_id'', JInt (sk_id k)), (''reason'', JStr (ob_reason rq)),
                      (''useradd_outcome'', JObj (snd added)), (''key_push_outcome'', JObj (snd pushed))] (px_ctx env) s3)))))))"

section \<open>The scan branch of the agent's websocket\<close>

text \<open>An exception leaves the receive loop, the connection ends (\<^const>\<open>False\<close>) and nothing is committed.\<close>

definition on_account_scan :: "(string \<Rightarrow> string \<Rightarrow> bool) \<Rightarrow> int \<Rightarrow> int \<Rightarrow> scan_entry list \<Rightarrow> int \<Rightarrow> db \<Rightarrow> bool \<times> db" where
  "on_account_scan coll sid lab entries now d = (case sync_discovered coll sid lab entries (open_session d now) of
      None \<Rightarrow> (False, d)
    | Some (_, s) \<Rightarrow> (case commit s of Inl _ \<Rightarrow> (False, d) | Inr d' \<Rightarrow> (True, d')))"

end
