(* ===== verification/Pa_Props.thy ===== *)
theory Pa_Props
  imports Physical_Accounts Step_Contract
begin

text \<open>
  The invariant of the account registry: rows are kept under their ids, and no server has one name twice among its
  active accounts, as the collation compares names. \<open>step_contract\<close> is interpreted for it; every endpoint and every scan is
  a step.
\<close>

section \<open>The registry\<close>

definition pas_ok :: "(string \<Rightarrow> string \<Rightarrow> bool) \<Rightarrow> db \<Rightarrow> bool" where
  "pas_ok coll d \<longleftrightarrow> keyed pa_id (d_pas d) (d_pa_ids d) (d_next_pa d)
     \<and> (\<forall>i j p q. d_pas d i = Some p \<longrightarrow> d_pas d j = Some q \<longrightarrow> i \<noteq> j \<longrightarrow> \<not> pa_clash coll p q)
     \<and> (\<forall>i p. d_pas d i = Some p \<longrightarrow> pa_row_ok p)"

text \<open>A row keeps its server, name, origin; an account that was deleted stays as it is.\<close>

definition pa_dev :: "physical_account \<Rightarrow> physical_account \<Rightarrow> bool" where
  "pa_dev p p' \<longleftrightarrow> pa_id p' = pa_id p \<and> pa_server_id p' = pa_server_id p \<and> pa_linux_username p' = pa_linux_username p
     \<and> pa_source p' = pa_source p \<and> pa_created_by_user_id p' = pa_created_by_user_id p \<and> (\<not> pa_is_active p \<longrightarrow> p' = p)"

definition pas_dev :: "db \<Rightarrow> db \<Rightarrow> bool" where
  "pas_dev d d' \<longleftrightarrow> (\<forall>i p. d_pas d i = Some p \<longrightarrow> (\<exists>p'. d_pas d' i = Some p' \<and> pa_dev p p'))"

lemma pa_dev_refl [simp]: "pa_dev p p"
  by (simp add: pa_dev_def)

lemma pa_dev_trans: "pa_dev p q \<Longrightarrow> pa_dev q r \<Longrightarrow> pa_dev p r"
  by (auto simp: pa_dev_def)

lemma pas_dev_refl [simp]: "pas_dev d d"
  by (simp add: pas_dev_def)

lemma pas_dev_trans: "pas_dev d d' \<Longrightarrow> pas_dev d' d'' \<Longrightarrow> pas_dev d d''"
  unfolding pas_dev_def by (meson pa_dev_trans)

definition same_pas :: "db \<Rightarrow> db \<Rightarrow> bool" where
  "same_pas d d' \<longleftrightarrow> d_pas d' = d_pas d \<and> d_pa_ids d' = d_pa_ids d \<and> d_next_pa d' = d_next_pa d"

lemma same_pas_refl [simp]: "same_pas d d"
  by (simp add: same_pas_def)

lemma same_pas_trans: "same_pas d d' \<Longrightarrow> same_pas d' d'' \<Longrightarrow> same_pas d d''"
  by (simp add: same_pas_def)

lemma same_pas_step: "same_pas d d' \<Longrightarrow> step_ok (pas_ok coll) pas_dev d d'"
  by (simp add: step_ok_def same_pas_def pas_ok_def pas_dev_def)

lemma audit_same_pas [simp]: "same_pas (s_db s) (s_db (audit_write e s))"
  by (simp add: same_pas_def audit_write_def upd_db_def)

interpretation pa_run: step_contract "pas_ok coll" pas_dev
proof unfold_locales
  show "pas_dev d d" for d by simp
  show "pas_dev d d''" if "pas_dev d d'" "pas_dev d' d''" for d d' d'' using that by (rule pas_dev_trans)
  show "pas_ok coll (db_update_res r d) \<and> pas_dev d (db_update_res r d)" if "pas_ok coll d" for d r
    using same_pas_step[of d "db_update_res r d" coll] that by (simp add: step_ok_def same_pas_def db_update_res_def)
  show "pas_ok coll (s_db (audit_write e s)) \<and> pas_dev (s_db s) (s_db (audit_write e s))" if "pas_ok coll (s_db s)" for s e
    using same_pas_step[OF audit_same_pas, of coll s e] that by (simp add: step_ok_def)
qed

abbreviation pa_step :: "(string \<Rightarrow> string \<Rightarrow> bool) \<Rightarrow> db \<Rightarrow> db \<Rightarrow> bool" where
  "pa_step coll \<equiv> step_ok (pas_ok coll) pas_dev"

lemma pas_okD:
  assumes "pas_ok coll d"
  shows "keyed pa_id (d_pas d) (d_pa_ids d) (d_next_pa d)"
    and "d_pas d i = Some p \<Longrightarrow> d_pas d j = Some q \<Longrightarrow> i \<noteq> j \<Longrightarrow> \<not> pa_clash coll p q"
    and "d_pas d i = Some p \<Longrightarrow> pa_row_ok p"
  using assms unfolding pas_ok_def by blast+

lemma pa_row_mem: "pas_ok coll d \<Longrightarrow> p \<in> set (pa_rows d) \<longleftrightarrow> d_pas d (pa_id p) = Some p"
  unfolding pa_rows_def by (rule keyed_mem[OF pas_okD(1)])

lemma pa_at:
  assumes "pas_ok coll d" and "d_pas d i = Some p"
  shows "pa_id p = i \<and> p \<in> set (pa_rows d)"
  using keyed_key[OF pas_okD(1)[OF assms(1)] assms(2)] pa_row_mem[OF assms(1), of p] assms(2) by simp

lemma pa_clash_sym: "symp coll \<Longrightarrow> pa_clash coll p q \<Longrightarrow> pa_clash coll q p"
  by (auto simp: pa_clash_def symp_def)

section \<open>Writers\<close>

lemma put_pa_step:
  assumes "d_pas d (pa_id p') = Some p" and "pa_dev p p'" and "pa_is_active p' \<longrightarrow> pa_is_active p" and "pa_row_ok p'"
  shows "pa_step coll d (put_pa p' d)"
proof (rule step_okI)
  assume ok: "pas_ok coll d"
  then have k: "keyed pa_id (d_pas (put_pa p' d)) (d_pa_ids (put_pa p' d)) (d_next_pa (put_pa p' d))"
    using keyed_put[of pa_id "d_pas d" "d_pa_ids d" "d_next_pa d" p'] assms(1) by (simp add: pas_ok_def put_pa_def)
  have clash: "pa_clash coll p' q \<Longrightarrow> pa_clash coll p q" "pa_clash coll q p' \<Longrightarrow> pa_clash coll q p" for q
    using assms(2,3) by (auto simp: pa_clash_def pa_dev_def)
  have "\<not> pa_clash coll x y" if "d_pas (put_pa p' d) i = Some x" "d_pas (put_pa p' d) j = Some y" "i \<noteq> j" for i j x y
  proof -
    have "\<not> pa_clash coll p y" if "i = pa_id p'" using pas_okD(2)[OF ok assms(1), of j y] that \<open>d_pas (put_pa p' d) j = Some y\<close> \<open>i \<noteq> j\<close>
      by (simp add: put_pa_def split: if_splits)
    moreover have "\<not> pa_clash coll x p" if "j = pa_id p'" using pas_okD(2)[OF ok _ assms(1), of i x] that \<open>d_pas (put_pa p' d) i = Some x\<close> \<open>i \<noteq> j\<close>
      by (simp add: put_pa_def split: if_splits)
    moreover have "\<not> pa_clash coll x y" if "i \<noteq> pa_id p'" "j \<noteq> pa_id p'"
      using pas_okD(2)[OF ok, of i x j y] that \<open>d_pas (put_pa p' d) i = Some x\<close> \<open>d_pas (put_pa p' d) j = Some y\<close> \<open>i \<noteq> j\<close>
      by (simp add: put_pa_def)
    moreover have "x = p'" if "i = pa_id p'" using that \<open>d_pas (put_pa p' d) i = Some x\<close> by (simp add: put_pa_def)
    moreover have "y = p'" if "j = pa_id p'" using that \<open>d_pas (put_pa p' d) j = Some y\<close> by (simp add: put_pa_def)
    ultimately show ?thesis using clash by (cases "i = pa_id p'"; cases "j = pa_id p'") auto
  qed
  moreover have "pa_row_ok x" if "d_pas (put_pa p' d) i = Some x" for i x
    using that ok assms(4) by (auto simp: put_pa_def pas_ok_def split: if_splits)
  moreover have "pas_dev d (put_pa p' d)" using assms(1,2) by (auto simp: pas_dev_def put_pa_def)
  ultimately show "pas_ok coll (put_pa p' d) \<and> pas_dev d (put_pa p' d)" using k unfolding pas_ok_def by blast
qed

lemma insert_pa_step:
  assumes "symp coll" and ins: "insert_pa coll p s = Some (row, s')"
  shows "pa_step coll (s_db s) (s_db s')" and "row = p\<lparr>pa_id := d_next_pa (s_db s)\<rparr>" and "s_db s' = add_pa row (s_db s)"
    and "s_dirty s' = s_dirty s" and "s_clock s' = s_clock s"
proof -
  show row: "row = p\<lparr>pa_id := d_next_pa (s_db s)\<rparr>" and s': "s_db s' = add_pa row (s_db s)"
    and "s_dirty s' = s_dirty s" and "s_clock s' = s_clock s"
    using ins by (auto simp: insert_pa_def Let_def upd_db_def split: if_splits)
  have rok: "pa_row_ok row" and no: "\<And>q. q \<in> set (pa_rows (s_db s)) \<Longrightarrow> \<not> pa_clash coll row q"
    using ins by (auto simp: insert_pa_def Let_def list_ex_iff split: if_splits)
  show "pa_step coll (s_db s) (s_db s')"
  proof (rule step_okI)
    assume ok: "pas_ok coll (s_db s)"
    have fresh: "d_pas (s_db s) (d_next_pa (s_db s)) = None" using ok keyed_fresh unfolding pas_ok_def by blast
    have id: "pa_id row = d_next_pa (s_db s)" by (simp add: row)
    have no2: "\<not> pa_clash coll row q \<and> \<not> pa_clash coll q row" if "d_pas (s_db s) j = Some q" for j q
      using no pa_at[OF ok that] pa_clash_sym[OF assms(1)] by blast
    have "keyed pa_id (d_pas (s_db s')) (d_pa_ids (s_db s')) (d_next_pa (s_db s'))"
      using ok keyed_add[of pa_id "d_pas (s_db s)" "d_pa_ids (s_db s)" "d_next_pa (s_db s)" row] id
      by (simp add: pas_ok_def s' add_pa_def put_pa_def)
    moreover have "\<not> pa_clash coll x y" if "d_pas (s_db s') i = Some x" "d_pas (s_db s') j = Some y" "i \<noteq> j" for i j x y
      using that ok no2 by (auto simp: s' add_pa_def put_pa_def pas_ok_def id split: if_splits)
    moreover have "pa_row_ok x" if "d_pas (s_db s') i = Some x" for i x
      using that ok rok by (auto simp: s' add_pa_def put_pa_def pas_ok_def split: if_splits)
    moreover have "pas_dev (s_db s) (s_db s')" using fresh id by (auto simp: pas_dev_def s' add_pa_def put_pa_def)
    ultimately show "pas_ok coll (s_db s') \<and> pas_dev (s_db s) (s_db s')" unfolding pas_ok_def by blast
  qed
qed

abbreviation pa_settles :: "(string \<Rightarrow> string \<Rightarrow> bool) \<Rightarrow> session \<Rightarrow> 'e + ('a \<times> session) \<Rightarrow> bool" where
  "pa_settles coll \<equiv> settles (pas_ok coll) pas_dev"

lemma pa_audited: "pa_step coll d (s_db s) \<Longrightarrow> pa_step coll d (s_db (pa_audit a ac lab p pl ctx s))"
  unfolding pa_audit_def by (rule pa_run.audited)

lemma create_pa_step:
  assumes "symp coll"
  shows "pa_settles coll s (create_pa coll sid name source notes actor lab ctx s)"
  unfolding create_pa_def
  by (auto simp: or_raise_def intro!: settles_intros pa_audited dest: insert_pa_step(1)[OF assms] split: option.splits)

lemma get_pa_row_at: "get_pa_row s pid lab = Inr p \<Longrightarrow> d_pas (s_db s) pid = Some p"
  by (auto simp: get_pa_row_def split: option.splits if_splits)

lemma delete_pa_step: "pa_settles coll s (delete_pa pid actor lab ctx s)"
proof -
  have "pa_step coll (s_db s) (put_pa (p\<lparr>pa_is_active := False\<rparr>) (s_db s))"
    if p: "get_pa_row s pid lab = Inr p" "pa_is_active p" for p
  proof (rule step_okI)
    assume ok: "pas_ok coll (s_db s)"
    note at = get_pa_row_at[OF p(1)]
    have "pa_row_ok p" "pa_id p = pid" using ok at pa_at[OF ok at] unfolding pas_ok_def by blast+
    then have "pa_step coll (s_db s) (put_pa (p\<lparr>pa_is_active := False\<rparr>) (s_db s))"
      using at p(2) by (intro put_pa_step[of _ _ p]) (simp_all add: pa_dev_def pa_row_ok_def)
    with ok show "pas_ok coll (put_pa (p\<lparr>pa_is_active := False\<rparr>) (s_db s)) \<and> pas_dev (s_db s) (put_pa (p\<lparr>pa_is_active := False\<rparr>) (s_db s))"
      by (simp add: step_ok_def)
  qed
  then show ?thesis
    unfolding delete_pa_def by (auto simp: upd_db_def Let_def intro!: settles_intros pa_audited)
qed

section \<open>A scan\<close>

text \<open>A row the flush updates is there, is active, and is only developed.\<close>

definition pending_row :: "db \<Rightarrow> physical_account \<Rightarrow> bool" where
  "pending_row d p \<longleftrightarrow> (\<exists>q. d_pas d (pa_id p) = Some q \<and> pa_dev q p \<and> pa_is_active q)"

definition flushed :: "string list \<Rightarrow> (string \<times> physical_account) list \<Rightarrow> db \<Rightarrow> db \<Rightarrow> bool" where
  "flushed created ps d d' \<longleftrightarrow>
     (\<forall>n p. (n, p) \<in> set ps \<longrightarrow> (\<exists>i. d_pas d' i = Some (p\<lparr>pa_id := i\<rparr>) \<and> (n \<notin> set created \<longrightarrow> i = pa_id p)))
   \<and> (\<forall>i r. d_pas d i = Some r \<longrightarrow> (\<forall>n p. (n, p) \<in> set ps \<longrightarrow> n \<notin> set created \<longrightarrow> pa_id p \<noteq> i) \<longrightarrow> d_pas d' i = Some r)
   \<and> (\<forall>i r. d_pas d' i = Some r \<longrightarrow> d_pas d i = Some r \<or> (\<exists>n p. (n, p) \<in> set ps \<and> r = p\<lparr>pa_id := i\<rparr> \<and> (n \<in> set created \<or> pa_id p = i)))"

lemma flushed_cons:
  assumes one: "d_pas d1 i = Some (p\<lparr>pa_id := i\<rparr>)" "n \<notin> set created \<Longrightarrow> i = pa_id p" "\<And>j. j \<noteq> i \<Longrightarrow> d_pas d1 j = d_pas d j"
    and new: "n \<in> set created \<Longrightarrow> d_pas d i = None"
    and other: "\<And>m q. (m, q) \<in> set ps \<Longrightarrow> m \<notin> set created \<Longrightarrow> pa_id q \<noteq> i"
    and rest: "flushed created ps d1 d'"
  shows "flushed created ((n, p) # ps) d d'"
proof -
  have keep: "d_pas d' j = Some r" if "d_pas d1 j = Some r" "\<And>m q. (m, q) \<in> set ps \<Longrightarrow> m \<notin> set created \<Longrightarrow> pa_id q \<noteq> j" for j r
    using rest that unfolding flushed_def by blast
  have "d_pas d' i = Some (p\<lparr>pa_id := i\<rparr>)" using keep[OF one(1)] other by blast
  then have "\<exists>j. d_pas d' j = Some (q\<lparr>pa_id := j\<rparr>) \<and> (m \<notin> set created \<longrightarrow> j = pa_id q)" if "(m, q) \<in> set ((n, p) # ps)" for m q
    using that one(2) rest unfolding flushed_def by auto
  moreover have "d_pas d' j = Some r"
    if "d_pas d j = Some r" and no: "\<forall>m q. (m, q) \<in> set ((n, p) # ps) \<longrightarrow> m \<notin> set created \<longrightarrow> pa_id q \<noteq> j" for j r
  proof -
    have "j \<noteq> i" using that one(2) new by (cases "n \<in> set created") auto
    with one(3) that(1) have "d_pas d1 j = Some r" by simp
    then show ?thesis by (rule keep) (use no in auto)
  qed
  moreover have "d_pas d j = Some r \<or> (\<exists>m q. (m, q) \<in> set ((n, p) # ps) \<and> r = q\<lparr>pa_id := j\<rparr> \<and> (m \<in> set created \<or> pa_id q = j))"
    if "d_pas d' j = Some r" for j r
  proof -
    from that rest consider "d_pas d1 j = Some r" | m q where "(m, q) \<in> set ps" "r = q\<lparr>pa_id := j\<rparr>" "m \<in> set created \<or> pa_id q = j"
      unfolding flushed_def by blast
    then show ?thesis
    proof cases
      case 1
      with one show ?thesis by (cases "j = i") auto
    qed auto
  qed
  ultimately show ?thesis unfolding flushed_def by blast
qed

lemma flush_scan_effect:
  assumes "symp coll"
  shows "flush_scan coll created ps s = Some s' \<Longrightarrow> pas_ok coll (s_db s)
    \<Longrightarrow> (\<forall>n p. (n, p) \<in> set ps \<longrightarrow> pa_linux_username p = n \<and> (n \<notin> set created \<longrightarrow> pending_row (s_db s) p)) \<Longrightarrow> distinct (map fst ps)
    \<Longrightarrow> pas_ok coll (s_db s') \<and> pas_dev (s_db s) (s_db s') \<and> flushed created ps (s_db s) (s_db s')
      \<and> s_dirty s' = s_dirty s \<and> s_clock s' = s_clock s"
proof (induction ps arbitrary: s)
  case Nil
  then show ?case by (simp add: flushed_def)
next
  case (Cons x ps)
  obtain n p where x: "x = (n, p)" by fastforce
  have "\<exists>s1 i. flush_scan coll created ps s1 = Some s' \<and> pa_step coll (s_db s) (s_db s1) \<and> s_dirty s1 = s_dirty s \<and> s_clock s1 = s_clock s
      \<and> d_pas (s_db s1) i = Some (p\<lparr>pa_id := i\<rparr>) \<and> (n \<notin> set created \<longrightarrow> i = pa_id p)
      \<and> (\<forall>j. j \<noteq> i \<longrightarrow> d_pas (s_db s1) j = d_pas (s_db s) j) \<and> (n \<in> set created \<longrightarrow> d_pas (s_db s) i = None)"
  proof (cases "n \<in> set created")
    case True
    with Cons.prems(1) obtain row s1 where ins: "insert_pa coll p s = Some (row, s1)" and r: "flush_scan coll created ps s1 = Some s'"
      by (auto simp: x bind_eq_Some_conv)
    note i = insert_pa_step[OF assms ins]
    have "d_pas (s_db s) (d_next_pa (s_db s)) = None" by (rule keyed_fresh[OF pas_okD(1)[OF Cons.prems(2)]])
    with r i True show ?thesis
      by (intro exI[of _ s1] exI[of _ "d_next_pa (s_db s)"]) (auto simp: add_pa_def put_pa_def)
  next
    case False
    with Cons.prems(1) obtain s1 where up: "update_pa p s = Some s1" and r: "flush_scan coll created ps s1 = Some s'"
      by (auto simp: x bind_eq_Some_conv)
    from up have s1: "s_db s1 = put_pa p (s_db s)" "pa_row_ok p" "s_dirty s1 = s_dirty s" "s_clock s1 = s_clock s"
      by (auto simp: update_pa_def upd_db_def split: if_splits)
    have "(n, p) \<in> set (x # ps)" by (simp add: x)
    with False Cons.prems(3) have "pending_row (s_db s) p" by blast
    then obtain q where q: "d_pas (s_db s) (pa_id p) = Some q" "pa_dev q p" "pa_is_active q"
      unfolding pending_row_def by blast
    have "pa_step coll (s_db s) (s_db s1)" unfolding s1(1) using q s1(2) by (intro put_pa_step[of _ _ q]) auto
    with r s1 False show ?thesis by (intro exI[of _ s1] exI[of _ "pa_id p"]) (auto simp: put_pa_def)
  qed
  then obtain s1 i where r: "flush_scan coll created ps s1 = Some s'" and step: "pa_step coll (s_db s) (s_db s1)"
    and dc: "s_dirty s1 = s_dirty s" "s_clock s1 = s_clock s"
    and one: "d_pas (s_db s1) i = Some (p\<lparr>pa_id := i\<rparr>)" "n \<notin> set created \<longrightarrow> i = pa_id p"
      "\<forall>j. j \<noteq> i \<longrightarrow> d_pas (s_db s1) j = d_pas (s_db s) j" "n \<in> set created \<longrightarrow> d_pas (s_db s) i = None" by blast
  from step Cons.prems(2) have ok1: "pas_ok coll (s_db s1)" "pas_dev (s_db s) (s_db s1)" by (simp_all add: step_ok_def)
  have apart: "pa_id q \<noteq> i" if q: "(m, q) \<in> set ps" "m \<notin> set created" for m q
  proof
    assume e: "pa_id q = i"
    from q(1) have "(m, q) \<in> set (x # ps)" by simp
    with q(2) Cons.prems(3) have nm: "pa_linux_username q = m" "pending_row (s_db s) q" by blast+
    then obtain q0 where q0: "d_pas (s_db s) i = Some q0" "pa_dev q0 q" using e by (auto simp: pending_row_def)
    with one(4) have "n \<notin> set created" by auto
    have "(n, p) \<in> set (x # ps)" by (simp add: x)
    with \<open>n \<notin> set created\<close> Cons.prems(3) have pn: "pa_linux_username p = n" "pending_row (s_db s) p" by blast+
    with one(2) \<open>n \<notin> set created\<close> obtain p0 where "d_pas (s_db s) i = Some p0" "pa_dev p0 p"
      unfolding pending_row_def by blast
    with q0 nm pn have "m = n" by (auto simp: pa_dev_def)
    with q(1) Cons.prems(4) show False by (force simp: x)
  qed
  have pend: "\<forall>m q. (m, q) \<in> set ps \<longrightarrow> pa_linux_username q = m \<and> (m \<notin> set created \<longrightarrow> pending_row (s_db s1) q)"
  proof (intro allI impI conjI)
    fix m q assume m: "(m, q) \<in> set ps"
    then have "(m, q) \<in> set (x # ps)" by simp
    with Cons.prems(3) have h: "pa_linux_username q = m" "m \<notin> set created \<longrightarrow> pending_row (s_db s) q" by blast+
    show "pa_linux_username q = m" by (rule h(1))
    show "pending_row (s_db s1) q" if c: "m \<notin> set created"
      using h(2) c apart[OF m c] one(3) by (simp add: pending_row_def)
  qed
  from Cons.IH[OF r ok1(1) pend] Cons.prems(4)
  have ih: "pas_ok coll (s_db s')" "pas_dev (s_db s1) (s_db s')" "flushed created ps (s_db s1) (s_db s')"
    "s_dirty s' = s_dirty s1" "s_clock s' = s_clock s1" by (auto simp: x)
  have "flushed created ((n, p) # ps) (s_db s) (s_db s')"
    by (rule flushed_cons[OF one(1) _ _ _ apart ih(3)]) (use one in auto)
  with ih ok1(2) dc show ?case by (auto simp: x intro: pas_dev_trans)
qed

text \<open>
  What holds while the entries are taken in: the dictionary is by name; what is not new is a developed row;
  a name that only deleted accounts have does not get in.
\<close>

definition scan_inv :: "db \<Rightarrow> int \<Rightarrow> string list \<Rightarrow> string set \<Rightarrow> scan_state \<Rightarrow> bool" where
  "scan_inv d sid inactive old st \<longleftrightarrow> distinct (map fst (sn_active st))
     \<and> (\<forall>n p. (n, p) \<in> set (sn_active st) \<longrightarrow> pa_linux_username p = n \<and> pa_server_id p = sid \<and> pa_is_active p
          \<and> (n \<notin> set (sn_created st) \<longrightarrow> pending_row d p) \<and> (n \<in> old \<or> n \<notin> set inactive))"

lemma dict_set_mem: "distinct (map fst d) \<Longrightarrow> (x, y) \<in> set (dict_set d k v) \<longleftrightarrow> (x = k \<and> y = v) \<or> (x \<noteq> k \<and> (x, y) \<in> set d)"
  by (induction d k v rule: dict_set.induct) (auto simp: image_iff)

lemma dict_set_fsts: "fst ` set (dict_set d k v) = insert k (fst ` set d)"
  by (induction d k v rule: dict_set.induct) auto

lemma dict_set_dist: "distinct (map fst d) \<Longrightarrow> distinct (map fst (dict_set d k v))"
  by (induction d k v rule: dict_set.induct) (auto simp: dict_set_fsts image_iff split: if_splits)

lemma scanned_pa_dev: "pa_is_active p \<Longrightarrow> pa_dev q p \<Longrightarrow> pa_is_active q \<Longrightarrow> pa_dev q (scanned_pa now e p)"
  by (simp add: pa_dev_def scanned_pa_def)

lemma scan_one_inv:
  assumes inv: "scan_inv d sid inactive old st"
  shows "scan_inv d sid inactive old (scan_one sid now inactive e st)"
proof -
  let ?n = "se_linux_username e"
  have dist: "distinct (map fst (sn_active st))" and
    all: "\<And>n p. (n, p) \<in> set (sn_active st) \<Longrightarrow> pa_linux_username p = n \<and> pa_server_id p = sid \<and> pa_is_active p
          \<and> (n \<notin> set (sn_created st) \<longrightarrow> pending_row d p) \<and> (n \<in> old \<or> n \<notin> set inactive)"
    using inv unfolding scan_inv_def by blast+
  show ?thesis
  proof (cases "?n = []")
    case True
    with inv show ?thesis by (simp add: scan_one_def Let_def)
  next
    case False
    show ?thesis
    proof (cases "map_of (sn_active st) ?n")
      case None
      show ?thesis
      proof (cases "?n \<in> set inactive")
        case True
        with None False inv show ?thesis by (simp add: scan_one_def Let_def scan_inv_def)
      next
        case in_no: False
        from None False in_no have st': "sn_active (scan_one sid now inactive e st) = dict_set (sn_active st) ?n (found_pa sid now e)"
          "sn_created (scan_one sid now inactive e st) = sn_created st @ [?n]" by (simp_all add: scan_one_def Let_def)
        have "pa_linux_username p = n \<and> pa_server_id p = sid \<and> pa_is_active p
          \<and> (n \<notin> set (sn_created st @ [?n]) \<longrightarrow> pending_row d p) \<and> (n \<in> old \<or> n \<notin> set inactive)"
          if "(n, p) \<in> set (dict_set (sn_active st) ?n (found_pa sid now e))" for n p
        proof (cases "n = ?n")
          case True
          with that dist in_no show ?thesis by (simp add: dict_set_mem found_pa_def new_pa_def)
        next
          case False
          with that dist have "(n, p) \<in> set (sn_active st)" by (simp add: dict_set_mem)
          from all[OF this] show ?thesis by auto
        qed
        with dict_set_dist[OF dist] show ?thesis unfolding scan_inv_def st' by blast
      qed
    next
      case (Some q)
      from Some False have st': "sn_active (scan_one sid now inactive e st) = dict_set (sn_active st) ?n (scanned_pa now e q)"
          "sn_created (scan_one sid now inactive e st) = sn_created st" by (simp_all add: scan_one_def Let_def)
      from Some have q: "(?n, q) \<in> set (sn_active st)" by (rule map_of_SomeD)
      have "pa_linux_username p = n \<and> pa_server_id p = sid \<and> pa_is_active p
          \<and> (n \<notin> set (sn_created st) \<longrightarrow> pending_row d p) \<and> (n \<in> old \<or> n \<notin> set inactive)"
        if "(n, p) \<in> set (dict_set (sn_active st) ?n (scanned_pa now e q))" for n p
      proof (cases "n = ?n")
        case True
        with that dist have p: "p = scanned_pa now e q" by (simp add: dict_set_mem)
        have "pending_row d q \<Longrightarrow> pa_is_active q \<Longrightarrow> pending_row d (scanned_pa now e q)"
          using scanned_pa_dev[of q _ now e] unfolding pending_row_def by (auto simp: scanned_pa_def)
        with all[OF q] True show ?thesis by (simp add: p) (simp add: scanned_pa_def)
      next
        case False
        with that dist have "(n, p) \<in> set (sn_active st)" by (simp add: dict_set_mem)
        from all[OF this] show ?thesis .
      qed
      with dict_set_dist[OF dist] show ?thesis unfolding scan_inv_def st' by blast
    qed
  qed
qed

lemma scan_fold_inv: "scan_inv d sid inactive old st \<Longrightarrow> scan_inv d sid inactive old (fold (scan_one sid now inactive) es st)"
  by (induction es arbitrary: st) (simp_all add: scan_one_inv)

text \<open>What an entry of the scan leads to.\<close>

definition entry_seen :: "int \<Rightarrow> string list \<Rightarrow> scan_state \<Rightarrow> scan_entry \<Rightarrow> bool" where
  "entry_seen now inactive st e \<longleftrightarrow> se_linux_username e = []
     \<or> (case map_of (sn_active st) (se_linux_username e) of Some p \<Rightarrow> pa_last_seen_at p = Some now | None \<Rightarrow> se_linux_username e \<in> set inactive)"

lemma scan_one_sees: "entry_seen now inactive (scan_one sid now inactive e st) e"
  by (auto simp: entry_seen_def scan_one_def Let_def map_of_dict_set scanned_pa_def found_pa_def split: option.split)

lemma scan_one_keeps: "entry_seen now inactive st e \<Longrightarrow> entry_seen now inactive (scan_one sid now inactive x st) e"
  by (auto simp: entry_seen_def scan_one_def Let_def map_of_dict_set scanned_pa_def found_pa_def split: option.splits)

lemma scan_fold_sees: "e \<in> set es \<Longrightarrow> entry_seen now inactive (fold (scan_one sid now inactive) es st) e"
proof (induction es arbitrary: st)
  case (Cons x es)
  have keep: "entry_seen now inactive st e \<Longrightarrow> entry_seen now inactive (fold (scan_one sid now inactive) es st) e" for st
    by (induction es arbitrary: st) (simp_all add: scan_one_keeps)
  show ?case
  proof (cases "e \<in> set es")
    case True
    with Cons.IH show ?thesis by simp
  next
    case False
    with Cons.prems have "e = x" by simp
    with keep[of "scan_one sid now inactive x st"] scan_one_sees show ?thesis by simp
  qed
qed simp

section \<open>The synchronisation\<close>

definition active_dict :: "session \<Rightarrow> int \<Rightarrow> (string \<times> physical_account) list" where
  "active_dict s sid = fold (\<lambda>p d. dict_set d (pa_linux_username p) p) (list_pas_for_server s sid) []"

definition deleted_names :: "session \<Rightarrow> int \<Rightarrow> string list" where
  "deleted_names s sid = map pa_linux_username (filter (\<lambda>p. pa_server_id p = sid \<and> \<not> pa_is_active p) (pa_rows (s_db s)))"

definition scan_result :: "session \<Rightarrow> int \<Rightarrow> scan_entry list \<Rightarrow> scan_state" where
  "scan_result s sid es = fold (scan_one sid (s_clock s) (deleted_names s sid)) es
     \<lparr>sn_active = active_dict s sid, sn_created = [], sn_backfilled = 0, sn_skipped = 0\<rparr>"

lemma sync_flush:
  assumes "sync_discovered coll sid lab es s = Some (stats, s')"
  shows "\<exists>s1. flush_scan coll (sn_created (scan_result s sid es)) (sn_active (scan_result s sid es)) s = Some s1
    \<and> d_pas (s_db s') = d_pas (s_db s1) \<and> same_pas (s_db s1) (s_db s') \<and> s_dirty s' = s_dirty s1"
proof -
  have e: "fold (scan_one sid (s_clock s) (map pa_linux_username (filter (\<lambda>p. \<not> pa_is_active p) (filter (\<lambda>p. pa_server_id p = sid) (pa_rows (s_db s)))))) es
        \<lparr>sn_active = fold (\<lambda>p d. dict_set d (pa_linux_username p) p) (filter pa_is_active (filter (\<lambda>p. pa_server_id p = sid) (pa_rows (s_db s)))) [],
          sn_created = [], sn_backfilled = 0, sn_skipped = 0\<rparr> = scan_result s sid es"
    by (simp add: scan_result_def deleted_names_def active_dict_def list_pas_for_server_def conj_commute)
  from assms show ?thesis unfolding sync_discovered_def Let_def e
    by (auto simp: same_pas_def audit_write_def upd_db_def)
qed

lemma dict_fold_mem:
  "distinct (map fst d) \<Longrightarrow> distinct (map fst (fold (\<lambda>p d. dict_set d (pa_linux_username p) p) ps d))
    \<and> (\<forall>n p. (n, p) \<in> set (fold (\<lambda>p d. dict_set d (pa_linux_username p) p) ps d) \<longrightarrow> (n, p) \<in> set d \<or> (p \<in> set ps \<and> n = pa_linux_username p))"
proof (induction ps arbitrary: d)
  case (Cons p ps)
  from Cons.IH[OF dict_set_dist[OF Cons.prems], of "pa_linux_username p" p] Cons.prems show ?case
    by (auto simp: dict_set_mem)
qed simp

lemma start_inv:
  assumes "pas_ok coll (s_db s)"
  shows "scan_inv (s_db s) sid (deleted_names s sid) (fst ` set (active_dict s sid)) (scan_result s sid es)"
  unfolding scan_result_def
proof (rule scan_fold_inv)
  have "pa_linux_username p = n \<and> pa_server_id p = sid \<and> pa_is_active p \<and> pending_row (s_db s) p" if "(n, p) \<in> set (active_dict s sid)" for n p
  proof -
    from that have p: "p \<in> set (list_pas_for_server s sid)" "n = pa_linux_username p"
      using dict_fold_mem[of "[]" "list_pas_for_server s sid"] by (auto simp: active_dict_def)
    then have "d_pas (s_db s) (pa_id p) = Some p" using pa_row_mem[OF assms, of p] by (simp add: list_pas_for_server_def)
    with p show ?thesis by (auto simp: list_pas_for_server_def pending_row_def)
  qed
  moreover have "distinct (map fst (active_dict s sid))"
    using dict_fold_mem[of "[]" "list_pas_for_server s sid"] by (simp add: active_dict_def)
  ultimately show "scan_inv (s_db s) sid (deleted_names s sid) (fst ` set (active_dict s sid))
     \<lparr>sn_active = active_dict s sid, sn_created = [], sn_backfilled = 0, sn_skipped = 0\<rparr>"
    unfolding scan_inv_def by force
qed

lemma sync_effect:
  assumes "symp coll" and "pas_ok coll (s_db s)" and "sync_discovered coll sid lab es s = Some (stats, s')"
  shows "pas_ok coll (s_db s') \<and> pas_dev (s_db s) (s_db s') \<and> s_dirty s' = s_dirty s
    \<and> flushed (sn_created (scan_result s sid es)) (sn_active (scan_result s sid es)) (s_db s) (s_db s')"
proof -
  let ?st = "scan_result s sid es"
  obtain s1 where f: "flush_scan coll (sn_created ?st) (sn_active ?st) s = Some s1" and e: "d_pas (s_db s') = d_pas (s_db s1)"
    "same_pas (s_db s1) (s_db s')" "s_dirty s' = s_dirty s1" using sync_flush[OF assms(3)] by blast
  have inv: "scan_inv (s_db s) sid (deleted_names s sid) (fst ` set (active_dict s sid)) ?st" by (rule start_inv[OF assms(2)])
  then have pend: "\<forall>n p. (n, p) \<in> set (sn_active ?st) \<longrightarrow> pa_linux_username p = n \<and> (n \<notin> set (sn_created ?st) \<longrightarrow> pending_row (s_db s) p)"
    and dist: "distinct (map fst (sn_active ?st))" unfolding scan_inv_def by blast+
  from flush_scan_effect[OF assms(1) f assms(2) pend dist] same_pas_step[OF e(2), of coll] e(1,3) show ?thesis
    by (auto simp: step_ok_def flushed_def intro: pas_dev_trans)
qed

lemma scan_step:
  assumes "symp coll"
  shows "pa_step coll d (snd (on_account_scan coll sid lab es now d))"
proof (rule step_okI)
  assume ok: "pas_ok coll d"
  show "pas_ok coll (snd (on_account_scan coll sid lab es now d)) \<and> pas_dev d (snd (on_account_scan coll sid lab es now d))"
  proof (cases "sync_discovered coll sid lab es (open_session d now)")
    case None
    with ok show ?thesis by (simp add: on_account_scan_def)
  next
    case (Some r)
    then obtain stats s' where r: "sync_discovered coll sid lab es (open_session d now) = Some (stats, s')" by (cases r) auto
    from sync_effect[OF assms _ this] ok have "pas_ok coll (s_db s')" "pas_dev d (s_db s')" "s_dirty s' = None" by auto
    with r show ?thesis by (simp add: on_account_scan_def)
  qed
qed

section \<open>The endpoints\<close>

lemma pa_audit_pas [simp]: "same_pas d (s_db (pa_audit action actor lab p pl ctx s)) = same_pas d (s_db s)"
  by (simp add: same_pas_def pa_audit_def audit_write_def upd_db_def)

lemma retry_push_same: "retry_entry_push rpc p e k actor s = Inr (out, s') \<Longrightarrow> same_pas (s_db s) (s_db s')"
  by (auto simp: retry_entry_push_def Let_def same_pas_def upd_db_def put_key_entry_def split: if_splits rpc_outcome.splits)

lemma retry_key_step: "pa_settles coll s (retry_authorized_key_push rpc pid eid actor lab ctx s)"
  unfolding retry_authorized_key_push_def
  by (auto intro!: settles_intros same_pas_step dest: retry_push_same)

lemma readback_step: "pa_settles coll s (read_authorized_keys_from_host rpc pid actor lab ctx s)"
  unfolding read_authorized_keys_from_host_def by (auto intro!: settles_intros pa_audited)

lemma key_entry_same: "insert_key_entry e s = Inr (row, s') \<Longrightarrow> same_pas (s_db s) (s_db s')"
  by (auto simp: insert_key_entry_def Let_def same_pas_def upd_db_def split: if_splits)

lemma declare_same: "admin_declare_link pid owner reason by lab sid ctx s = Inr (l, s') \<Longrightarrow> same_pas (s_db s) (s_db s')"
  by (auto simp: admin_declare_link_def establish_link_def insert_link_def Let_def same_pas_def upd_db_def audit_write_def put_link_def
      rbind_eq_Inr split: if_splits option.splits)

lemma pa_outcome_step: "pa_settles coll s m \<Longrightarrow> pa_step coll (s_db s) (s_db (snd (pa_outcome env s m)))"
  by (auto simp: pa_outcome_def settles_def split: sum.split)

lemma create_ep_step: "symp coll \<Longrightarrow> px_coll env = coll \<Longrightarrow> pa_step coll (s_db s) (s_db (snd (create_pa_ep env u sid name source notes s)))"
  using create_pa_step by (auto simp: create_pa_ep_def intro!: pa_outcome_step split: sum.split)

lemma delete_ep_step: "pa_step coll (s_db s) (s_db (snd (delete_pa_ep env u pid s)))"
  using delete_pa_step by (auto simp: delete_pa_ep_def intro!: pa_outcome_step split: sum.split)

lemma retry_ep_step: "pa_step coll (s_db s) (s_db (snd (retry_authorized_key_push_ep env u pid eid s)))"
  using retry_key_step by (auto simp: retry_authorized_key_push_ep_def intro!: pa_outcome_step split: sum.split)

lemma readback_ep_step: "pa_step coll (s_db s) (s_db (snd (read_authorized_keys_from_host_ep env u pid s)))"
  using readback_step by (auto simp: read_authorized_keys_from_host_ep_def intro!: pa_outcome_step split: sum.split)

lemma declare_ep_step: "pa_step coll (s_db s) (s_db (snd (declare_owner_ep env u sid pid oid reason s)))"
  by (auto simp: declare_owner_ep_def intro!: same_pas_step dest: declare_same split: sum.split)

text \<open>The account a creation returns is the row it has inserted.\<close>

lemma created_at:
  assumes "symp coll" and "create_pa coll sid name source notes actor lab ctx s = Inr (p, s')"
  shows "d_pas (s_db s') (pa_id p) = Some p" and "pa_is_active p" and "pa_linux_username p = name" and "pa_server_id p = sid"
proof -
  from assms(2) obtain src s1 where ins: "insert_pa coll (new_pa sid name src notes (Some actor)) s = Some (p, s1)"
    and s': "d_pas (s_db s') = d_pas (s_db s1)"
    by (auto simp: create_pa_def or_raise_def pa_audit_def audit_write_def upd_db_def rbind_eq_Inr split: option.splits if_splits)
  note i = insert_pa_step(2,3)[OF assms(1) ins]
  show "d_pas (s_db s') (pa_id p) = Some p" using s' i(2) by (simp add: add_pa_def put_pa_def)
  show "pa_is_active p" and "pa_linux_username p = name" and "pa_server_id p = sid" by (simp_all add: i(1) new_pa_def)
qed

lemma onboard_account_step:
  assumes "symp coll" and "px_coll env = coll"
  shows "pa_settles coll s (onboard_account env u v ow rq added s)"
proof -
  have "pa_step coll (s_db s) (s_db s2)"
    if c: "create_pa coll a b c' n act lab ctx s = Inr (p, s1)" and up: "update_pa (useradd_pa r p) s1 = Some s2"
    for a b c' n act lab ctx p s1 r s2
  proof -
    have 1: "pa_step coll (s_db s) (s_db s1)" using settlesD[OF create_pa_step[OF assms(1)] c] .
    from up have s2: "s_db s2 = put_pa (useradd_pa r p) (s_db s1)" "pa_row_ok (useradd_pa r p)"
      by (auto simp: update_pa_def upd_db_def split: if_splits)
    have "pa_step coll (s_db s1) (s_db s2)" unfolding s2(1)
      using created_at[OF assms(1) c] s2(2) by (intro put_pa_step[of _ _ p]) (simp_all add: useradd_pa_def pa_dev_def)
    with 1 show ?thesis by (rule pa_run.trans_step)
  qed
  then show ?thesis using settlesD[OF create_pa_step[OF assms(1)]] assms(2)
    by (auto simp: onboard_account_def or_raise_def Let_def settles_def split: sum.splits pa_error.splits option.splits)
qed

lemma onboard_ep_step:
  assumes "symp coll" and "px_coll env = coll"
  shows "pa_step coll (s_db s) (s_db (snd (onboard_user_ep env u sid rq s)))"
proof (cases "onboard_gate u sid rq s")
  case (Inr g)
  then obtain v ow k where g: "onboard_gate u sid rq s = Inr (v, ow, k)" by (cases g) auto
  show ?thesis
  proof (cases "onboard_rpc (px_rpc env (srv_id v) ''backend.linux.useradd'' [(''linux_username'', JStr (ob_linux_username rq))])")
    case added: (Some added)
    show ?thesis
    proof (cases "onboard_account env u v ow rq added s")
      case (Inr r)
      then obtain p s1 where acc: "onboard_account env u v ow rq added s = Inr (p, s1)" by (cases r) auto
      have 1: "pa_step coll (s_db s) (s_db s1)" using settlesD[OF onboard_account_step[OF assms] acc] .
      have "same_pas (s_db s1) (s_db (snd (onboard_user_ep env u sid rq s)))"
        using g added acc
        by (auto simp: onboard_user_ep_def split: sum.split option.split prod.split
            dest!: key_entry_same declare_same intro: same_pas_trans)
      with 1 show ?thesis using same_pas_step pa_run.trans_step by blast
    qed (use g added in \<open>simp add: onboard_user_ep_def\<close>)
  qed (use g in \<open>simp add: onboard_user_ep_def\<close>)
qed (simp add: onboard_user_ep_def)

section \<open>Runs\<close>

inductive registry_step :: "(string \<Rightarrow> string \<Rightarrow> bool) \<Rightarrow> db \<Rightarrow> db \<Rightarrow> bool" for coll where
  create: "px_coll env = coll \<Longrightarrow> registry_step coll d (snd (end_request d (create_pa_ep env u sid name source nts (open_session d now))))"
| delete: "registry_step coll d (snd (end_request d (delete_pa_ep env u pid (open_session d now))))"
| retry: "registry_step coll d (snd (end_request d (retry_authorized_key_push_ep env u pid eid (open_session d now))))"
| readback: "registry_step coll d (snd (end_request d (read_authorized_keys_from_host_ep env u pid (open_session d now))))"
| declare_owner: "registry_step coll d (snd (end_request d (declare_owner_ep env u sid pid oid reason (open_session d now))))"
| onboard: "px_coll env = coll \<Longrightarrow> registry_step coll d (snd (end_request d (onboard_user_ep env u sid rq (open_session d now))))"
| scan: "registry_step coll d (snd (on_account_scan coll sid lab es now d))"

lemma registry_step_ok:
  assumes "symp coll" and "registry_step coll d d'"
  shows "pa_step coll d d'"
  using assms(2)
proof cases
  case (create env u sid name source nts now)
  then show ?thesis using create_ep_step[OF assms(1), of env "open_session d now"] by (auto intro: pa_run.request_step)
next
  case (delete env u pid now)
  then show ?thesis using delete_ep_step[of coll "open_session d now"] by (auto intro: pa_run.request_step)
next
  case (retry env u pid eid now)
  then show ?thesis using retry_ep_step[of coll "open_session d now"] by (auto intro: pa_run.request_step)
next
  case (readback env u pid now)
  then show ?thesis using readback_ep_step[of coll "open_session d now"] by (auto intro: pa_run.request_step)
next
  case (declare_owner env u sid pid oid reason now)
  then show ?thesis using declare_ep_step[of coll "open_session d now"] by (auto intro: pa_run.request_step)
next
  case (onboard env u sid rq now)
  then show ?thesis using onboard_ep_step[OF assms(1), of env "open_session d now"] by (auto intro: pa_run.request_step)
next
  case (scan sid lab es now)
  then show ?thesis using scan_step[OF assms(1)] by simp
qed

lemma registry_runs: "symp coll \<Longrightarrow> (registry_step coll)\<^sup>*\<^sup>* d d' \<Longrightarrow> pa_step coll d d'"
  by (erule pa_run.runs_ok) (rule registry_step_ok)

end
