(* ===== verification/Guarantees_Registry.thy ===== *)
theory Guarantees_Registry
  imports Pa_Props Scenario
begin

text \<open>
  What the registry of the Linux accounts guarantees: its names stay unique, a scan of the agent has exactly the
  effect of its entries, and where scans, repairs and onboardings go wrong.
\<close>

section \<open>The effect of a scan\<close>

lemma map_of_active_dict:
  assumes "pas_ok coll (s_db s)" and "reflp coll"
  shows "map_of (active_dict s sid) n = Some p \<longleftrightarrow> p \<in> set (list_pas_for_server s sid) \<and> pa_linux_username p = n"
proof -
  have mem: "distinct (map fst (active_dict s sid))"
    "\<And>m q. (m, q) \<in> set (active_dict s sid) \<Longrightarrow> q \<in> set (list_pas_for_server s sid) \<and> m = pa_linux_username q"
    using dict_fold_mem[of "[]" "list_pas_for_server s sid"] by (auto simp: active_dict_def)
  have "fst ` set (fold (\<lambda>p d. dict_set d (pa_linux_username p) p) ps d) = fst ` set d \<union> pa_linux_username ` set ps" for ps d
    by (induction ps arbitrary: d) (auto simp: dict_set_fsts)
  from this[of "list_pas_for_server s sid" "[]"] have dom: "pa_linux_username q \<in> fst ` set (active_dict s sid)" if "q \<in> set (list_pas_for_server s sid)" for q
    using that by (simp add: active_dict_def image_image)
  have unique: "q = p" if "q \<in> set (list_pas_for_server s sid)" "p \<in> set (list_pas_for_server s sid)"
    "pa_linux_username q = pa_linux_username p" for p q
  proof (rule ccontr)
    assume "q \<noteq> p"
    have "d_pas (s_db s) (pa_id q) = Some q" "d_pas (s_db s) (pa_id p) = Some p"
      using that(1,2) pa_row_mem[OF assms(1)] by (simp_all add: list_pas_for_server_def)
    moreover from this \<open>q \<noteq> p\<close> have "pa_id q \<noteq> pa_id p" by auto
    ultimately have "\<not> pa_clash coll q p" by (rule pas_okD(2)[OF assms(1)])
    with that assms(2) show False by (simp add: pa_clash_def list_pas_for_server_def reflp_def)
  qed
  show ?thesis
  proof
    show "p \<in> set (list_pas_for_server s sid) \<and> pa_linux_username p = n" if "map_of (active_dict s sid) n = Some p"
      using mem(2)[OF map_of_SomeD[OF that]] by simp
    show "map_of (active_dict s sid) n = Some p" if p: "p \<in> set (list_pas_for_server s sid) \<and> pa_linux_username p = n"
    proof -
      from dom[of p] p have "n \<in> fst ` set (active_dict s sid)" by simp
      then obtain q where q: "(n, q) \<in> set (active_dict s sid)" by auto
      from mem(2)[OF q] p have "q \<in> set (list_pas_for_server s sid)" "pa_linux_username q = pa_linux_username p" by (metis, metis)
      from unique[OF this(1) conjunct1[OF p] this(2)] have "q = p" .
      show ?thesis by (subst \<open>q = p\<close>[symmetric]) (rule map_of_is_SomeI[OF mem(1) q])
    qed
  qed
qed

text \<open>Folding the entries of a scan into the dictionary.\<close>

lemma scan_one_other: "n \<noteq> se_linux_username e \<Longrightarrow> map_of (sn_active (scan_one sid now inactive e st)) n = map_of (sn_active st) n"
  by (auto simp: scan_one_def Let_def map_of_dict_set split: option.split)

lemma scan_other: "n \<notin> se_linux_username ` set es \<Longrightarrow>
    map_of (sn_active (fold (scan_one sid now inactive) es st)) n = map_of (sn_active st) n"
  by (induction es arbitrary: st) (simp_all add: scan_one_other)

definition scan_target :: "int \<Rightarrow> int \<Rightarrow> string list \<Rightarrow> scan_entry \<Rightarrow> physical_account option \<Rightarrow> physical_account option" where
  "scan_target sid now inactive e old = (case old of
      Some p \<Rightarrow> Some (scanned_pa now e p)
    | None \<Rightarrow> if se_linux_username e \<in> set inactive then None else Some (found_pa sid now e))"

lemma scan_named:
  assumes "distinct (map se_linux_username es)" and "e \<in> set es" and "se_linux_username e \<noteq> []"
  shows "map_of (sn_active (fold (scan_one sid now inactive) es st)) (se_linux_username e)
    = scan_target sid now inactive e (map_of (sn_active st) (se_linux_username e))"
  using assms
proof (induction es arbitrary: st)
  case (Cons x es)
  show ?case
  proof (cases "x = e")
    case True
    with Cons.prems have "se_linux_username e \<notin> se_linux_username ` set es" by auto
    with True Cons.prems(3) show ?thesis
      by (simp add: scan_other) (simp add: scan_one_def Let_def map_of_dict_set scan_target_def split: option.split)
  next
    case False
    with Cons.prems(2) have "e \<in> set es" by simp
    moreover from this Cons.prems(1) have "se_linux_username e \<noteq> se_linux_username x" by (metis distinct.simps(2) imageI list.simps(9) set_map)
    ultimately show ?thesis using Cons.IH Cons.prems by (simp add: scan_one_other)
  qed
qed simp

lemma scan_one_created:
  "n \<in> set (sn_created (scan_one sid now inactive x st)) \<longleftrightarrow> n \<in> set (sn_created st)
    \<or> (n \<noteq> [] \<and> n = se_linux_username x \<and> map_of (sn_active st) n = None \<and> n \<notin> set inactive)"
  by (auto simp: scan_one_def Let_def split: option.split)

lemma scan_one_dom:
  "map_of (sn_active (scan_one sid now inactive x st)) n = None \<longleftrightarrow> map_of (sn_active st) n = None
    \<and> \<not> (n \<noteq> [] \<and> n = se_linux_username x \<and> n \<notin> set inactive)"
  by (auto simp: scan_one_def Let_def map_of_dict_set split: option.split)

lemma scan_created:
  "n \<in> set (sn_created (fold (scan_one sid now inactive) es st)) \<longleftrightarrow> n \<in> set (sn_created st)
    \<or> (n \<noteq> [] \<and> n \<in> se_linux_username ` set es \<and> map_of (sn_active st) n = None \<and> n \<notin> set inactive)"
  by (induction es arbitrary: st) (auto simp: scan_one_created scan_one_dom)

text \<open>The rows of the server an entry names, deleted ones included.\<close>

definition named_on :: "int \<Rightarrow> string \<Rightarrow> physical_account \<Rightarrow> bool" where
  "named_on sid n p \<longleftrightarrow> pa_server_id p = sid \<and> pa_linux_username p = n"

lemma active_iff:
  assumes "pas_ok coll (s_db s)" and "reflp coll"
  shows "map_of (active_dict s sid) n = Some p \<longleftrightarrow> d_pas (s_db s) (pa_id p) = Some p \<and> named_on sid n p \<and> pa_is_active p"
  using pa_row_mem[OF assms(1)] unfolding map_of_active_dict[OF assms] by (auto simp: list_pas_for_server_def named_on_def)

lemma unseen_iff:
  assumes "pas_ok coll (s_db s)" and "reflp coll"
  shows "map_of (active_dict s sid) n = None \<and> n \<notin> set (deleted_names s sid)
    \<longleftrightarrow> (\<forall>i p. d_pas (s_db s) i = Some p \<longrightarrow> \<not> named_on sid n p)"
proof
  assume l: "map_of (active_dict s sid) n = None \<and> n \<notin> set (deleted_names s sid)"
  show "\<forall>i p. d_pas (s_db s) i = Some p \<longrightarrow> \<not> named_on sid n p"
  proof (intro allI impI notI)
    fix i p assume p: "d_pas (s_db s) i = Some p" "named_on sid n p"
    from pa_at[OF assms(1) p(1)] have "pa_id p = i" "p \<in> set (pa_rows (s_db s))" by simp_all
    with l p active_iff[OF assms, of sid n p] show False
      by (cases "pa_is_active p") (auto simp: deleted_names_def named_on_def)
  qed
next
  assume r: "\<forall>i p. d_pas (s_db s) i = Some p \<longrightarrow> \<not> named_on sid n p"
  have "map_of (active_dict s sid) n = None"
  proof (rule ccontr)
    assume "map_of (active_dict s sid) n \<noteq> None"
    then obtain p where "map_of (active_dict s sid) n = Some p" by auto
    with r active_iff[OF assms, of sid n p] show False by blast
  qed
  moreover have "n \<notin> set (deleted_names s sid)"
    using r pa_row_mem[OF assms(1)] by (auto simp: deleted_names_def named_on_def)
  ultimately show "map_of (active_dict s sid) n = None \<and> n \<notin> set (deleted_names s sid)" ..
qed

text \<open>A scan the backend takes in writes the dictionary and nothing else.\<close>

lemma scan_flushed:
  assumes "symp coll" and "pas_ok coll d" and "on_account_scan coll sid lab es now d = (True, d')"
  shows "flushed (sn_created (scan_result (open_session d now) sid es)) (sn_active (scan_result (open_session d now) sid es)) d d'"
    and "pas_ok coll d'"
proof -
  from assms(3) obtain stats s' where sync: "sync_discovered coll sid lab es (open_session d now) = Some (stats, s')" and cm: "commit s' = Inr d'"
    by (auto simp: on_account_scan_def split: option.splits sum.splits)
  from sync_effect[OF assms(1) _ sync] assms(2) have eff: "s_dirty s' = None" "pas_ok coll (s_db s')"
    "flushed (sn_created (scan_result (open_session d now) sid es)) (sn_active (scan_result (open_session d now) sid es)) d (s_db s')" by auto
  with cm have "d' = s_db s'" by (auto simp: commit_def flush_res_def split: option.splits)
  with eff show "flushed (sn_created (scan_result (open_session d now) sid es)) (sn_active (scan_result (open_session d now) sid es)) d d'"
    and "pas_ok coll d'" by simp_all
qed

lemma scan_dict:
  assumes "pas_ok coll d" and "(n, p) \<in> set (sn_active (scan_result (open_session d now) sid es))"
  shows "pa_linux_username p = n" and "pa_server_id p = sid"
    and "n \<notin> set (sn_created (scan_result (open_session d now) sid es)) \<Longrightarrow> pending_row d p"
  using start_inv[of coll "open_session d now" sid es] assms unfolding scan_inv_def by auto

lemma scan_dict_iff:
  assumes "pas_ok coll d"
  shows "(n, p) \<in> set (sn_active (scan_result (open_session d now) sid es))
    \<longleftrightarrow> map_of (sn_active (scan_result (open_session d now) sid es)) n = Some p"
  using start_inv[of coll "open_session d now" sid es] assms unfolding scan_inv_def by simp

lemma scan_writes:
  assumes "distinct (map se_linux_username es)" and "e \<in> set es" and "se_linux_username e \<noteq> []"
  shows "map_of (sn_active (scan_result s sid es)) (se_linux_username e)
    = scan_target sid (s_clock s) (deleted_names s sid) e (map_of (active_dict s sid) (se_linux_username e))"
  unfolding scan_result_def using scan_named[OF assms] by simp

lemma scan_leaves:
  assumes "n \<notin> se_linux_username ` set es \<or> n = []"
  shows "map_of (sn_active (scan_result s sid es)) n = map_of (active_dict s sid) n"
proof (cases "n = []")
  case True
  have "map_of (sn_active (fold (scan_one sid now inactive) es st)) [] = map_of (sn_active st) []" for inactive st now
    by (induction es arbitrary: st) (auto simp: scan_one_def Let_def map_of_dict_set split: option.split)
  with True show ?thesis by (simp add: scan_result_def)
qed (use assms in \<open>simp add: scan_result_def scan_other\<close>)

lemma scan_new:
  assumes "pas_ok coll d" and "reflp coll"
  shows "n \<in> set (sn_created (scan_result (open_session d now) sid es)) \<longleftrightarrow> n \<noteq> [] \<and> n \<in> se_linux_username ` set es
    \<and> (\<forall>i p. d_pas d i = Some p \<longrightarrow> \<not> named_on sid n p)"
  using unseen_iff[of coll "open_session d now" sid n] assms by (auto simp: scan_result_def scan_created)

text \<open>The four effects of a scan: a known account is seen, the others stay, an unknown one is found, nothing else comes in.\<close>

lemma scan_sees:
  assumes "symp coll" and "reflp coll" and ok: "pas_ok coll d" and "distinct (map se_linux_username es)"
    and run: "on_account_scan coll sid lab es now d = (True, d')"
    and e: "e \<in> set es" "se_linux_username e \<noteq> []"
    and p: "d_pas d i = Some p" "named_on sid (se_linux_username e) p" "pa_is_active p"
  shows "d_pas d' i = Some (scanned_pa now e p)"
proof -
  let ?st = "scan_result (open_session d now) sid es"
  have i: "pa_id p = i" using pa_at[OF ok p(1)] by simp
  with p have "map_of (active_dict (open_session d now) sid) (se_linux_username e) = Some p"
    using active_iff[of coll "open_session d now" sid "se_linux_username e" p] ok assms(2) by simp
  with scan_writes[OF assms(4) e, of "open_session d now" sid]
  have "(se_linux_username e, scanned_pa now e p) \<in> set (sn_active ?st)" by (simp add: scan_dict_iff[OF ok] scan_target_def)
  moreover have "se_linux_username e \<notin> set (sn_created ?st)" using p scan_new[OF ok assms(2)] by blast
  ultimately have "d_pas d' (pa_id (scanned_pa now e p)) = Some ((scanned_pa now e p)\<lparr>pa_id := pa_id (scanned_pa now e p)\<rparr>)"
    using scan_flushed(1)[OF assms(1) ok run] unfolding flushed_def by blast
  with i show ?thesis by (simp add: scanned_pa_def)
qed

lemma scan_spares:
  assumes "symp coll" and "reflp coll" and ok: "pas_ok coll d"
    and run: "on_account_scan coll sid lab es now d = (True, d')"
    and p: "d_pas d i = Some p" and no: "\<forall>e \<in> set es. se_linux_username e \<noteq> [] \<longrightarrow> \<not> (named_on sid (se_linux_username e) p \<and> pa_is_active p)"
  shows "d_pas d' i = Some p"
proof (cases "\<exists>n q. (n, q) \<in> set (sn_active (scan_result (open_session d now) sid es))
    \<and> n \<notin> set (sn_created (scan_result (open_session d now) sid es)) \<and> pa_id q = i")
  case False
  with scan_flushed(1)[OF assms(1) ok run] p show ?thesis unfolding flushed_def by blast
next
  case True
  then obtain n q where q: "(n, q) \<in> set (sn_active (scan_result (open_session d now) sid es))"
    "n \<notin> set (sn_created (scan_result (open_session d now) sid es))" "pa_id q = i" by blast
  from scan_dict(3)[OF ok q(1,2)] q(3) p have dev: "pa_dev p q" "pa_is_active p" by (auto simp: pending_row_def)
  with scan_dict(1,2)[OF ok q(1)] have "named_on sid n p" by (simp add: named_on_def pa_dev_def)
  with no dev(2) have "n \<notin> se_linux_username ` set es \<or> n = []" by auto
  from scan_leaves[OF this] q(1) have "map_of (active_dict (open_session d now) sid) n = Some q" by (simp add: scan_dict_iff[OF ok])
  then have "d_pas d (pa_id q) = Some q" using active_iff[of coll "open_session d now" sid n q] ok assms(2) by simp
  with q(3) p have "q = p" by simp
  moreover have "d_pas d' (pa_id q) = Some (q\<lparr>pa_id := pa_id q\<rparr>)"
    using scan_flushed(1)[OF assms(1) ok run] q(1,2) unfolding flushed_def by blast
  ultimately show ?thesis using q(3) by simp
qed

lemma scan_finds:
  assumes "symp coll" and "reflp coll" and ok: "pas_ok coll d" and "distinct (map se_linux_username es)"
    and run: "on_account_scan coll sid lab es now d = (True, d')"
    and e: "e \<in> set es" "se_linux_username e \<noteq> []"
    and none: "\<forall>i p. d_pas d i = Some p \<longrightarrow> \<not> named_on sid (se_linux_username e) p"
  shows "\<exists>i. d_pas d' i = Some ((found_pa sid now e)\<lparr>pa_id := i\<rparr>)"
proof -
  from none unseen_iff[of coll "open_session d now" sid "se_linux_username e"] ok assms(2)
  have "map_of (active_dict (open_session d now) sid) (se_linux_username e) = None"
    "se_linux_username e \<notin> set (deleted_names (open_session d now) sid)" by simp_all
  with scan_writes[OF assms(4) e, of "open_session d now" sid]
  have "(se_linux_username e, found_pa sid now e) \<in> set (sn_active (scan_result (open_session d now) sid es))"
    by (simp add: scan_dict_iff[OF ok] scan_target_def)
  with scan_flushed(1)[OF assms(1) ok run] show ?thesis unfolding flushed_def by blast
qed

lemma scan_only_finds:
  assumes "symp coll" and "reflp coll" and ok: "pas_ok coll d" and "distinct (map se_linux_username es)"
    and run: "on_account_scan coll sid lab es now d = (True, d')"
    and p: "d_pas d' i = Some p" "d_pas d i = None"
  shows "\<exists>e \<in> set es. se_linux_username e \<noteq> [] \<and> (\<forall>j q. d_pas d j = Some q \<longrightarrow> \<not> named_on sid (se_linux_username e) q)
    \<and> p = (found_pa sid now e)\<lparr>pa_id := i\<rparr>"
proof -
  from scan_flushed(1)[OF assms(1) ok run] p obtain n q where
    q: "(n, q) \<in> set (sn_active (scan_result (open_session d now) sid es))" "p = q\<lparr>pa_id := i\<rparr>"
       "n \<in> set (sn_created (scan_result (open_session d now) sid es)) \<or> pa_id q = i" unfolding flushed_def by (metis option.distinct(1))
  have "n \<in> set (sn_created (scan_result (open_session d now) sid es))"
  proof (rule ccontr)
    assume c: "n \<notin> set (sn_created (scan_result (open_session d now) sid es))"
    from scan_dict(3)[OF ok q(1) c] q(3) c p(2) show False by (auto simp: pending_row_def)
  qed
  note c = iffD1[OF scan_new[OF ok assms(2)] this]
  from c have none: "\<forall>i p. d_pas d i = Some p \<longrightarrow> \<not> named_on sid n p" by (elim conjE)
  from c obtain e where e: "e \<in> set es" "n = se_linux_username e" "n \<noteq> []" by (elim conjE imageE)
  from none unseen_iff[of coll "open_session d now" sid n] ok assms(2)
  have "map_of (active_dict (open_session d now) sid) n = None" "n \<notin> set (deleted_names (open_session d now) sid)" by simp_all
  with scan_writes[OF assms(4) e(1), of "open_session d now" sid] e q(1) have "q = found_pa sid now e"
    by (simp add: scan_dict_iff[OF ok] scan_target_def)
  with e none q(2) show ?thesis by blast
qed

section \<open>Scenario\<close>

text \<open>
  The server of the scenario with an active account alice and a deleted account bob; the collation takes a capital
  A for a small one. The key of user 1 was pushed to alice and removed again.
\<close>

definition sc_coll :: "string \<Rightarrow> string \<Rightarrow> bool" where
  "sc_coll a b \<longleftrightarrow> map (\<lambda>c. if c = CHR ''A'' then CHR ''a'' else c) a = map (\<lambda>c. if c = CHR ''A'' then CHR ''a'' else c) b"

definition sc_ssh_key :: ssh_public_key where
  "sc_ssh_key = \<lparr>sk_id = 1, sk_user_id = 1, sk_public_key = map of_char ''ssh-ed25519 AAAA'', sk_fingerprint_sha256 = ''SHA256:k'', sk_key_type = ''ssh-ed25519'',
     sk_comment = None, sk_is_active = True, sk_disabled_at = None\<rparr>"

definition sc_removed :: authorized_key_entry where
  "sc_removed = (draft_entry 1 1 9 1)\<lparr>ke_id := 1, ke_is_active := False, ke_removed_at := Some 5, ke_removed_by_user_id := Some 9\<rparr>"

definition sc_hosts :: db where
  "sc_hosts = (sc_db [] 1)\<lparr>d_pas := [1 \<mapsto> sc_pa 1, 2 \<mapsto> (sc_pa 2)\<lparr>pa_linux_username := ''bob'', pa_is_active := False\<rparr>],
     d_ssh_keys := [sc_ssh_key], d_next_ssh_key := 2, d_key_entries := [sc_removed], d_next_key_entry := 2\<rparr>"

text \<open>An agent that answers every request with a refusal.\<close>

definition sc_refusing :: pa_env where
  "sc_refusing = \<lparr>px_rpc = (\<lambda>_ _ _. RpcReturned [(''ok'', JBool False)]), px_coll = sc_coll, px_str = (\<lambda>_. []), px_link_str = (\<lambda>_. []), px_ctx = no_ctx\<rparr>"

definition sc_seen :: "string \<Rightarrow> scan_entry" where
  "sc_seen n = \<lparr>se_linux_username = n, se_uid = Some 1001, se_gid = None, se_home_directory = None, se_default_shell = None\<rparr>"

lemmas sc_hosts_defs = sc_hosts_def sc_defs sc_ssh_key_def sc_removed_def draft_entry_def

lemma sc_coll_equiv [simp]: "symp sc_coll" "reflp sc_coll"
  by (auto simp: sc_coll_def symp_def reflp_def)

lemma sc_hosts_pas: "d_pas sc_hosts i = (if i = 1 then Some (sc_pa 1) else if i = 2 then Some ((sc_pa 2)\<lparr>pa_linux_username := ''bob'', pa_is_active := False\<rparr>) else None)"
  by (simp add: sc_hosts_def)

lemma sc_hosts_ok: "pas_ok sc_coll sc_hosts"
  by (auto simp: pas_ok_def sc_hosts_pas keyed_def pa_clash_def pa_row_ok_def sc_pa_def unsigned_int_col_def split: if_splits)
    (auto simp: sc_hosts_defs)

section \<open>The registry\<close>

text \<open>
  C27. Along every run of the account endpoints and the scans no server has one name twice among its active
  accounts, as the collation compares names; no account is lost, none changes its server, name or origin, and one that was
  deleted stays exactly as it was.
\<close>

theorem registry_stays_legal:
  assumes "symp coll" and "pas_ok coll d" and "(registry_step coll)\<^sup>*\<^sup>* d d'"
  shows "(\<forall>i j p q. d_pas d' i = Some p \<longrightarrow> d_pas d' j = Some q \<longrightarrow> i \<noteq> j \<longrightarrow> pa_is_active p \<longrightarrow> pa_is_active q \<longrightarrow>
        pa_server_id p = pa_server_id q \<longrightarrow> \<not> coll (pa_linux_username p) (pa_linux_username q))
    \<and> (\<forall>i p. d_pas d i = Some p \<longrightarrow> (\<exists>p'. d_pas d' i = Some p' \<and> pa_server_id p' = pa_server_id p
        \<and> pa_linux_username p' = pa_linux_username p \<and> pa_source p' = pa_source p \<and> (\<not> pa_is_active p \<longrightarrow> p' = p)))"
proof -
  from registry_runs[OF assms(1,3)] assms(2) have "pas_ok coll d'" "pas_dev d d'" by (simp_all add: step_ok_def)
  then show ?thesis unfolding pas_ok_def pas_dev_def pa_clash_def pa_dev_def by meson
qed

lemma sc_scan_run: "(registry_step sc_coll)\<^sup>*\<^sup>* sc_hosts (snd (on_account_scan sc_coll 1 1 [sc_seen ''bob'', sc_seen ''carol''] 7 sc_hosts))"
  by (rule r_into_rtranclp) (rule registry_step.scan)

theorem registry_stays_legal_witness:
  "\<exists>p'. d_pas (snd (on_account_scan sc_coll 1 1 [sc_seen ''bob'', sc_seen ''carol''] 7 sc_hosts)) 2 = Some p' \<and> \<not> pa_is_active p'"
proof -
  have "d_pas sc_hosts 2 = Some ((sc_pa 2)\<lparr>pa_linux_username := ''bob'', pa_is_active := False\<rparr>)" by (simp add: sc_hosts_pas)
  with registry_stays_legal[OF sc_coll_equiv(1) sc_hosts_ok sc_scan_run]
  obtain p' where "d_pas (snd (on_account_scan sc_coll 1 1 [sc_seen ''bob'', sc_seen ''carol''] 7 sc_hosts)) 2 = Some p'"
    "\<not> pa_is_active ((sc_pa 2)\<lparr>pa_linux_username := ''bob'', pa_is_active := False\<rparr>) \<longrightarrow> p' = (sc_pa 2)\<lparr>pa_linux_username := ''bob'', pa_is_active := False\<rparr>"
    by blast
  then show ?thesis by simp
qed

text \<open>
  C28. A scan that is taken in, and that names no account twice, has exactly the effect of its entries. That the names are
  distinct is up to the host: nothing on the way checks it. An active account of the server that an entry
  names gets what the entry tells of it and the time of the scan; every other account stays as it was, a deleted one too, even
  when the host still has it; a name no account of the server ever had becomes a new account; and nothing else comes in.
\<close>

theorem scan_settles_the_registry:
  assumes "symp coll" and "reflp coll" and "pas_ok coll d" and "distinct (map se_linux_username es)"
    and "on_account_scan coll sid lab es now d = (True, d')"
  shows "(\<forall>i p. d_pas d i = Some p \<longrightarrow> (if \<exists>e \<in> set es. se_linux_username e \<noteq> [] \<and> named_on sid (se_linux_username e) p \<and> pa_is_active p
        then \<exists>e \<in> set es. named_on sid (se_linux_username e) p \<and> d_pas d' i = Some (scanned_pa now e p) else d_pas d' i = Some p))
    \<and> (\<forall>e \<in> set es. se_linux_username e \<noteq> [] \<longrightarrow> (\<forall>i p. d_pas d i = Some p \<longrightarrow> \<not> named_on sid (se_linux_username e) p) \<longrightarrow>
        (\<exists>i. d_pas d' i = Some ((found_pa sid now e)\<lparr>pa_id := i\<rparr>)))
    \<and> (\<forall>i p. d_pas d' i = Some p \<longrightarrow> d_pas d i = None \<longrightarrow> (\<exists>e \<in> set es. se_linux_username e \<noteq> []
        \<and> (\<forall>j q. d_pas d j = Some q \<longrightarrow> \<not> named_on sid (se_linux_username e) q) \<and> p = (found_pa sid now e)\<lparr>pa_id := i\<rparr>))"
proof (intro conjI allI impI ballI)
  fix i p assume p: "d_pas d i = Some p"
  show "if \<exists>e \<in> set es. se_linux_username e \<noteq> [] \<and> named_on sid (se_linux_username e) p \<and> pa_is_active p
        then \<exists>e \<in> set es. named_on sid (se_linux_username e) p \<and> d_pas d' i = Some (scanned_pa now e p) else d_pas d' i = Some p"
    using scan_sees[OF assms(1-5) _ _ p] scan_spares[OF assms(1-3,5) p] by simp blast
next
  show "\<exists>i. d_pas d' i = Some ((found_pa sid now e)\<lparr>pa_id := i\<rparr>)" if "e \<in> set es" "se_linux_username e \<noteq> []"
    "\<forall>i p. d_pas d i = Some p \<longrightarrow> \<not> named_on sid (se_linux_username e) p" for e
    by (rule scan_finds[OF assms that])
next
  show "\<exists>e \<in> set es. se_linux_username e \<noteq> [] \<and> (\<forall>j q. d_pas d j = Some q \<longrightarrow> \<not> named_on sid (se_linux_username e) q)
      \<and> p = (found_pa sid now e)\<lparr>pa_id := i\<rparr>" if "d_pas d' i = Some p" "d_pas d i = None" for i p
    by (rule scan_only_finds[OF assms that])
qed

lemma sc_scan_taken: "\<exists>d'. on_account_scan sc_coll 1 1 [sc_seen ''alice'', sc_seen ''bob'', sc_seen ''carol''] 7 sc_hosts = (True, d')"
proof -
  have "fst (on_account_scan sc_coll 1 1 [sc_seen ''alice'', sc_seen ''bob'', sc_seen ''carol''] 7 sc_hosts)" by code_simp
  then show ?thesis by (cases "on_account_scan sc_coll 1 1 [sc_seen ''alice'', sc_seen ''bob'', sc_seen ''carol''] 7 sc_hosts") simp
qed

theorem scan_settles_the_registry_witness:
  "\<exists>d' i. on_account_scan sc_coll 1 1 [sc_seen ''alice'', sc_seen ''bob'', sc_seen ''carol''] 7 sc_hosts = (True, d')
    \<and> d_pas d' i = Some ((found_pa 1 7 (sc_seen ''carol''))\<lparr>pa_id := i\<rparr>)"
proof -
  obtain d' where d': "on_account_scan sc_coll 1 1 [sc_seen ''alice'', sc_seen ''bob'', sc_seen ''carol''] 7 sc_hosts = (True, d')"
    using sc_scan_taken by blast
  have dist: "distinct (map se_linux_username [sc_seen ''alice'', sc_seen ''bob'', sc_seen ''carol''])" by (simp add: sc_seen_def)
  have new: "\<forall>i p. d_pas sc_hosts i = Some p \<longrightarrow> \<not> named_on 1 (se_linux_username (sc_seen ''carol'')) p"
    by (auto simp: sc_hosts_pas sc_pa_def named_on_def sc_seen_def)
  have "\<exists>i. d_pas d' i = Some ((found_pa 1 7 (sc_seen ''carol''))\<lparr>pa_id := i\<rparr>)"
    using scan_settles_the_registry[OF sc_coll_equiv sc_hosts_ok dist d'] new by (force simp: sc_seen_def)
  with d' show ?thesis by blast
qed

section \<open>Where it goes wrong\<close>

text \<open>
  The backend looks a scanned name up exactly, the unique key compares with the collation. When a
  host has an account whose name differs from a registered one only in what the collation ignores, every scan of the host raises: the
  connection of the agent ends and nothing is stored, each time it connects.
\<close>

theorem clashing_name_ends_the_connection:
  assumes "symp coll" and "reflp coll" and "pas_ok coll d" and "distinct (map se_linux_username es)"
    and "d_pas d i = Some p" and "pa_is_active p" and "pa_server_id p = sid"
    and "e \<in> set es" and "se_linux_username e \<noteq> []" and "coll (se_linux_username e) (pa_linux_username p)"
    and "\<forall>j q. d_pas d j = Some q \<longrightarrow> \<not> named_on sid (se_linux_username e) q"
  shows "on_account_scan coll sid lab es now d = (False, d)"
proof (rule ccontr)
  assume "on_account_scan coll sid lab es now d \<noteq> (False, d)"
  then obtain d' where run: "on_account_scan coll sid lab es now d = (True, d')"
    by (auto simp: on_account_scan_def split: option.splits sum.splits)
  obtain j where j: "d_pas d' j = Some ((found_pa sid now e)\<lparr>pa_id := j\<rparr>)"
    using scan_finds[OF assms(1-4) run assms(8,9,11)] by blast
  obtain p' where p': "d_pas d' i = Some p'" "pa_is_active p'" "pa_server_id p' = sid" "pa_linux_username p' = pa_linux_username p"
  proof (cases "\<exists>x \<in> set es. se_linux_username x \<noteq> [] \<and> named_on sid (se_linux_username x) p \<and> pa_is_active p")
    case True
    then obtain x where x: "x \<in> set es" "se_linux_username x \<noteq> []" "named_on sid (se_linux_username x) p" by blast
    from scan_sees[OF assms(1-4) run x(1,2) assms(5) x(3) assms(6)] assms(6,7) show thesis
      by (intro that[of "scanned_pa now x p"]) (simp_all add: scanned_pa_def)
  next
    case False
    with scan_spares[OF assms(1-3) run assms(5)] assms(6,7) show thesis by (intro that[of p]) blast+
  qed
  have "i \<noteq> j"
  proof
    assume "i = j"
    with j p'(1,4) have "pa_linux_username p = se_linux_username e" by (auto simp: found_pa_def new_pa_def)
    with assms(5,7,11) show False by (auto simp: named_on_def)
  qed
  with pas_okD(2)[OF scan_flushed(2)[OF assms(1,3) run] j p'(1)] p' assms(10) show False
    by (simp add: pa_clash_def found_pa_def new_pa_def)
qed

theorem clashing_name_ends_the_connection_witness:
  "on_account_scan sc_coll 1 1 [sc_seen ''Alice'', sc_seen ''carol''] 7 sc_hosts = (False, sc_hosts)"
  by (rule clashing_name_ends_the_connection[of _ _ _ 1 "sc_pa 1" _ "sc_seen ''Alice''"])
    (auto simp: sc_hosts_ok sc_hosts_pas sc_pa_def sc_seen_def sc_coll_def named_on_def)

lemma inventory_line: "inventory_of d sid lab x = Some iv \<Longrightarrow> iv_entry iv = x \<and> iv_status iv = authorized_key_entry_status x
    \<and> iv_can_retry iv = (iv_status iv = EntryPushFailed \<and> sk_is_active (iv_key iv) \<and> pa_is_active (iv_account iv))"
  by (auto simp: inventory_of_def Let_def split: option.splits if_splits)

lemma inventory_lines: "iv \<in> set (list_authorized_key_inventory s sid lab) \<Longrightarrow> \<exists>x. inventory_of (s_db s) sid lab x = Some iv"
  unfolding list_authorized_key_inventory_def by (auto simp: map_filter_def)

text \<open>
  A key entry that was removed, as by a revocation, can be pushed again by the repair endpoint: the inventory
  calls the entry removed and not repairable, the endpoint asks the agent to install the key and makes the entry active, whether or
  not the user still has a link to the account.
\<close>

theorem removed_key_can_be_pushed_again:
  assumes "pa_gate env u pid s = Inr p" and "load_key_entry s p eid = Inr (e, k)" and "\<not> ke_is_active e" and "ke_removed_at e \<noteq> None"
    and "\<And>body. \<exists>pl. px_rpc env (pa_server_id p) ''backend.authorized_key.push'' body = RpcReturned pl"
  shows "(\<forall>sid lab iv. iv \<in> set (list_authorized_key_inventory s sid lab) \<longrightarrow> iv_entry iv = e \<longrightarrow> iv_status iv = EntryRemoved \<and> \<not> iv_can_retry iv)
    \<and> \<not> isl (fst (retry_authorized_key_push_ep env u pid eid s))
    \<and> row_by ke_id eid (d_key_entries (s_db (snd (retry_authorized_key_push_ep env u pid eid s)))) = Some (retried_entry e (u_id u) s)
    \<and> ke_is_active (retried_entry e (u_id u) s)"
proof (intro conjI allI impI)
  fix sid lab iv assume "iv \<in> set (list_authorized_key_inventory s sid lab)" "iv_entry iv = e"
  with inventory_lines inventory_line have "iv_status iv = authorized_key_entry_status e"
    "iv_can_retry iv \<longrightarrow> iv_status iv = EntryPushFailed" by blast+
  with assms(3,4) show "iv_status iv = EntryRemoved" and "\<not> iv_can_retry iv" by (auto simp: authorized_key_entry_status_def)
next
  have p: "get_pa_row s pid (u_lab_id u) = Inr p"
    using assms(1) by (auto simp: pa_gate_def rbind_eq_Inr split: sum.splits)
  have e: "row_by ke_id eid (d_key_entries (s_db s)) = Some e"
    using assms(2) by (auto simp: load_key_entry_def split: option.splits if_splits)
  note at = row_by_Some[OF e]
  obtain pl where pl: "px_rpc env (pa_server_id p) ''backend.authorized_key.push'' (push_payload p k
      (''corelab:user='' @ int_str (ke_pushed_for_user_id e) @ '';onboard='' @ int_str (pa_id p) @ '';retry=1'')) = RpcReturned pl"
    using assms(5) by blast
  have run: "\<exists>out s'. retry_authorized_key_push_ep env u pid eid s = (Inr out, s')
      \<and> d_key_entries (s_db s') = row_put ke_id (retried_entry e (u_id u) s) (d_key_entries (s_db s))"
    using assms(1-3) p pl
    by (simp add: retry_authorized_key_push_ep_def pa_outcome_def retry_authorized_key_push_def retry_entry_push_def Let_def
        pa_audit_def audit_write_def upd_db_def put_key_entry_def)
  from run show "\<not> isl (fst (retry_authorized_key_push_ep env u pid eid s))" by auto
  from run at show "row_by ke_id eid (d_key_entries (s_db (snd (retry_authorized_key_push_ep env u pid eid s)))) = Some (retried_entry e (u_id u) s)"
    by (auto simp: row_by_row_put retried_entry_def)
  show "ke_is_active (retried_entry e (u_id u) s)" by (simp add: retried_entry_def)
qed

theorem removed_key_can_be_pushed_again_witness:
  "row_by ke_id 1 (d_key_entries (s_db (snd (retry_authorized_key_push_ep sc_refusing (sc_user 9) 1 1 (open_session sc_hosts 7)))))
    = Some (retried_entry sc_removed 9 (open_session sc_hosts 7))"
proof -
  have gate: "pa_gate sc_refusing (sc_user 9) 1 (open_session sc_hosts 7) = Inr (sc_pa 1)"
    by (simp add: pa_gate_def get_pa_row_def sc_hosts_pas assert_server_admin_def sc_hosts_defs)
  have load: "load_key_entry (open_session sc_hosts 7) (sc_pa 1) 1 = Inr (sc_removed, sc_ssh_key)"
    by (simp add: load_key_entry_def get_key_def row_by_def sc_hosts_defs)
  have "\<not> ke_is_active sc_removed" "ke_removed_at sc_removed \<noteq> None" "u_id (sc_user 9) = 9" by (simp_all add: sc_removed_def sc_user_def)
  with removed_key_can_be_pushed_again[OF gate load] show ?thesis by (simp add: sc_refusing_def)
qed

section \<open>Onboarding\<close>

lemma onboard_rpc_ok: "onboard_rpc out = Some r \<Longrightarrow> rpc_get (snd r) ''ok'' JNull = JBool (fst r) \<and> fst r = (\<exists>pl. out = RpcReturned pl)"
  by (auto simp: onboard_rpc_def Let_def rpc_get_def map_of_dict_set split: rpc_outcome.splits)

lemma onboarded_account:
  assumes "symp coll" and "px_coll env = coll" and "onboard_account env u v ow rq added s = Inr (p, s1)"
  shows "d_pas (s_db s1) (pa_id p) = Some p \<and> pa_is_active p \<and> named_on (srv_id v) (ob_linux_username rq) p"
proof -
  from assms(3) obtain p0 s0 nts where c: "create_pa (px_coll env) (srv_id v) (ob_linux_username rq) ''admin_manual_register'' nts (u_id u) (u_lab_id u) (px_ctx env) s = Inr (p0, s0)"
    and r: "(p, s1) = (p0, s0) \<or> (p = useradd_pa (snd added) p0 \<and> update_pa p s0 = Some s1)"
    unfolding onboard_account_def
    by (auto simp: Let_def or_raise_def split: sum.splits pa_error.splits if_splits option.splits)
  from r have "d_pas (s_db s1) (pa_id p) = Some p \<or> (p = p0 \<and> s1 = s0)"
    by (auto simp: update_pa_def upd_db_def put_pa_def useradd_pa_def split: if_splits)
  with r created_at[OF assms(1)] c assms(2) show ?thesis by (auto simp: named_on_def useradd_pa_def)
qed

lemma declared_link:
  assumes "admin_declare_link pid owner reason by lab sid ctx s = Inr (l, s')"
  shows "d_links (s_db s') (al_id l) = Some l \<and> al_is_active l \<and> al_user_id l = owner \<and> al_physical_account_id l = pid \<and> al_source l = AdminDeclared
    \<and> d_key_entries (s_db s') = d_key_entries (s_db s)"
  using assms by (auto simp: admin_declare_link_def establish_link_def insert_link_def draft_link_def rbind_eq_Inr Let_def upd_db_def
      audit_write_def put_link_def split: option.splits if_splits)

text \<open>
  A successful onboarding leaves an active account of the requested name on the server, an active declared
  link of the owner to it, and an entry for the pushed key. The outcomes it reports say whether the agent answered, not what it
  answered: a refused account creation and a refused key are reported as done, and the entry of the refused key is active.
\<close>

theorem onboarding_believes_any_answer:
  assumes "symp coll" and "px_coll env = coll" and "onboard_user_ep env u sid rq s = (Inr r, s')"
  shows "\<exists>v ow p e l k label. d_servers (s_db s) sid = Some v \<and> d_users (s_db s) (ob_owner_user_id rq) = Some ow
    \<and> d_pas (s_db s') (or_physical_account_id r) = Some p \<and> pa_is_active p \<and> named_on (srv_id v) (ob_linux_username rq) p
    \<and> d_links (s_db s') (or_account_link_id r) = Some l \<and> al_is_active l \<and> al_user_id l = u_id ow
    \<and> al_physical_account_id l = pa_id p \<and> al_source l = AdminDeclared
    \<and> e \<in> set (d_key_entries (s_db s')) \<and> ke_id e = or_authorized_key_entry_id r \<and> ke_physical_account_id e = pa_id p
    \<and> rpc_get (or_useradd_outcome r) ''ok'' JNull
        = JBool (\<exists>pl. px_rpc env (srv_id v) ''backend.linux.useradd'' [(''linux_username'', JStr (ob_linux_username rq))] = RpcReturned pl)
    \<and> rpc_get (or_key_push_outcome r) ''ok'' JNull = JBool (ke_is_active e)
    \<and> ke_is_active e = (\<exists>pl. px_rpc env (srv_id v) ''backend.authorized_key.push'' (push_payload p k label) = RpcReturned pl)"
proof -
  obtain g where g: "onboard_gate u sid rq s = Inr g"
    using assms(3) by (auto simp: onboard_user_ep_def split: sum.splits)
  obtain v ow k where g: "onboard_gate u sid rq s = Inr (v, ow, k)" using g by (cases g) auto
  from g have v: "d_servers (s_db s) sid = Some v" and ow: "d_users (s_db s) (ob_owner_user_id rq) = Some ow"
    by (auto simp: onboard_gate_def find_server_def owner_in_lab_def rbind_eq_Inr split: option.splits if_splits)
  obtain added where added: "onboard_rpc (px_rpc env (srv_id v) ''backend.linux.useradd'' [(''linux_username'', JStr (ob_linux_username rq))]) = Some added"
    using assms(3) g by (auto simp: onboard_user_ep_def split: option.splits)
  obtain p s1 where acc: "onboard_account env u v ow rq added s = Inr (p, s1)"
    using assms(3) g added by (auto simp: onboard_user_ep_def split: sum.splits)
  define label where "label = ''corelab:user='' @ int_str (u_id ow) @ '';onboard='' @ int_str (pa_id p)"
  obtain pushed where pushed: "onboard_rpc (px_rpc env (srv_id v) ''backend.authorized_key.push'' (push_payload p k label)) = Some pushed"
    using assms(3) g added acc by (auto simp: onboard_user_ep_def label_def split: option.splits)
  obtain e s2 where e: "insert_key_entry ((draft_entry (pa_id p) (sk_id k) (u_id u) (u_id ow))\<lparr>ke_is_active := fst pushed\<rparr>) s1 = Inr (e, s2)"
    using assms(3) g added acc pushed by (auto simp: onboard_user_ep_def label_def split: sum.splits)
  obtain l s3 where l: "admin_declare_link (pa_id p) (u_id ow) (ob_reason rq) (u_id u) (u_lab_id u) (srv_id v) (px_ctx env) s2 = Inr (l, s3)"
    using assms(3) g added acc pushed e by (auto simp: onboard_user_ep_def label_def split: sum.splits)
  have r: "r = \<lparr>or_physical_account_id = pa_id p, or_account_link_id = al_id l, or_authorized_key_entry_id = ke_id e,
      or_useradd_outcome = snd added, or_key_push_outcome = snd pushed\<rparr>"
    and s': "d_pas (s_db s') = d_pas (s_db s3)" "d_links (s_db s') = d_links (s_db s3)" "d_key_entries (s_db s') = d_key_entries (s_db s3)"
    using assms(3) g added acc pushed e l
    by (auto simp: onboard_user_ep_def label_def pa_audit_def audit_write_def upd_db_def)
  note a = onboarded_account[OF assms(1,2) acc]
  note lk = declared_link[OF l]
  have "d_pas (s_db s3) = d_pas (s_db s1)"
    using key_entry_same[OF e] declare_same[OF l] by (simp add: same_pas_def)
  moreover have "e \<in> set (d_key_entries (s_db s2))" "ke_physical_account_id e = pa_id p" "ke_is_active e = fst pushed"
    using e by (auto simp: insert_key_entry_def draft_entry_def upd_db_def Let_def split: if_splits)
  ultimately show ?thesis
    using a lk v ow s' onboard_rpc_ok[OF added] onboard_rpc_ok[OF pushed]
    by (intro exI[of _ v] exI[of _ ow] exI[of _ p] exI[of _ e] exI[of _ l] exI[of _ k] exI[of _ label]) (simp add: r)
qed

definition sc_onboard :: onboard_request where
  "sc_onboard = \<lparr>ob_linux_username = ''dave'', ob_owner_user_id = 1, ob_ssh_public_key_id = 1, ob_reason = ''new''\<rparr>"

lemma sc_onboarded: "\<exists>r s'. onboard_user_ep sc_refusing (sc_user 9) 1 sc_onboard (open_session sc_hosts 7) = (Inr r, s')"
proof -
  have "\<not> isl (fst (onboard_user_ep sc_refusing (sc_user 9) 1 sc_onboard (open_session sc_hosts 7)))" by code_simp
  then obtain r where "fst (onboard_user_ep sc_refusing (sc_user 9) 1 sc_onboard (open_session sc_hosts 7)) = Inr r"
    by (cases "fst (onboard_user_ep sc_refusing (sc_user 9) 1 sc_onboard (open_session sc_hosts 7))") simp_all
  then show ?thesis by (metis prod.collapse)
qed

theorem onboarding_believes_any_answer_witness:
  "\<exists>r s'. onboard_user_ep sc_refusing (sc_user 9) 1 sc_onboard (open_session sc_hosts 7) = (Inr r, s')
    \<and> rpc_get (or_useradd_outcome r) ''ok'' JNull = JBool True \<and> rpc_get (or_key_push_outcome r) ''ok'' JNull = JBool True"
proof -
  obtain r s' where run: "onboard_user_ep sc_refusing (sc_user 9) 1 sc_onboard (open_session sc_hosts 7) = (Inr r, s')"
    using sc_onboarded by blast
  have "px_coll sc_refusing = sc_coll" "\<exists>pl. px_rpc sc_refusing i t b = RpcReturned pl" for i t b by (simp_all add: sc_refusing_def)
  with onboarding_believes_any_answer[OF sc_coll_equiv(1) _ run] have "rpc_get (or_useradd_outcome r) ''ok'' JNull = JBool True"
    "rpc_get (or_key_push_outcome r) ''ok'' JNull = JBool True" by auto
  with run show ?thesis by blast
qed

end
