(* ===== verification/Lab_Urls.thy ===== *)
theory Lab_Urls
  imports Server_Service
begin

text \<open>
  The addresses of a lab: \<open>services/lab_url_service.py\<close>, \<open>services/lab_url_scheduler.py\<close>, \<open>services/agent_url_broadcast.py\<close>,
  \<open>services/setup_service.py\<close> and the endpoints of \<open>api/v1/public_urls.py\<close> and \<open>setup.py\<close>. The addresses are a JSON column of the
  lab; every operation reads it whole and writes it back whole. A probe awaits the answers of all addresses between its read
  and its write, so it is two steps. The text of a JSON value that is none (\<open>uv_str\<close>), \<open>isoformat\<close> and \<open>fromisoformat\<close> are
  parameters. Logging is left out, and so are the tunnel columns of the answers and the DNS check of the domain wizard, which writes nothing.
\<close>

section \<open>Entries\<close>

definition VALID_KINDS :: "string list" where
  "VALID_KINDS = [''lan'', ''public_ip'', ''custom_domain'', ''cloudflare_quick'', ''cloudflare_named'']"

definition VALID_SOURCES :: "string list" where
  "VALID_SOURCES = [''install_sh_probe'', ''manual_admin'', ''tunnel_runtime'']"

definition AGENT_URL_STALE_SECONDS :: int where "AGENT_URL_STALE_SECONDS = 10 * 60"

definition EPHEMERAL_AGENT_URL_KINDS :: "string list" where "EPHEMERAL_AGENT_URL_KINDS = [''cloudflare_quick'']"

record url_env =
  uv_str :: "json \<Rightarrow> string"
  uv_iso :: "int \<Rightarrow> string"
  uv_fromiso :: "string \<Rightarrow> datetime option"

record url_entry =
  ue_url :: string
  ue_kind :: string
  ue_source :: string
  ue_verified_at :: json
  ue_last_reachable_at :: json
  ue_primary :: bool

definition url_to_dict :: "url_entry \<Rightarrow> json" where
  "url_to_dict e = JObj [(''url'', JStr (ue_url e)), (''kind'', JStr (ue_kind e)), (''source'', JStr (ue_source e)),
     (''verified_at'', ue_verified_at e), (''last_reachable_at'', ue_last_reachable_at e), (''primary'', JBool (ue_primary e))]"

text \<open>\<open>str(x)\<close>.\<close>

definition text_of :: "url_env \<Rightarrow> json \<Rightarrow> string" where
  "text_of env j = (case j of JStr t \<Rightarrow> t | _ \<Rightarrow> uv_str env j)"

definition url_from_dict :: "url_env \<Rightarrow> payload \<Rightarrow> url_entry" where
  "url_from_dict env d = \<lparr>ue_url = text_of env (opt_else (map_of d ''url'') JNull), ue_kind = text_of env (opt_else (map_of d ''kind'') (JStr ''lan'')),
     ue_source = text_of env (opt_else (map_of d ''source'') (JStr ''manual_admin'')), ue_verified_at = opt_else (map_of d ''verified_at'') JNull,
     ue_last_reachable_at = opt_else (map_of d ''last_reachable_at'') JNull,
     ue_primary = json_truthy (opt_else (map_of d ''primary'') (JBool False))\<rparr>"

definition entry_of :: "url_env \<Rightarrow> json \<Rightarrow> url_entry option" where
  "entry_of env j = (case j of JObj d \<Rightarrow> if map_of d ''url'' = None then None else Some (url_from_dict env d) | _ \<Rightarrow> None)"

definition parse_entries :: "url_env \<Rightarrow> json list \<Rightarrow> url_entry list" where
  "parse_entries env js = List.map_filter (entry_of env) js"

definition load_entries :: "url_env \<Rightarrow> lab \<Rightarrow> url_entry list" where
  "load_entries env l = parse_entries env (lab_public_urls l)"

definition urls_only :: "url_env \<Rightarrow> lab \<Rightarrow> string list" where
  "urls_only env l = map ue_url (load_entries env l)"

section \<open>The addresses for the agents\<close>

text \<open>
  \<open>astimezone(UTC)\<close>, in microseconds since 1970: a naive time is taken as it is, an aware one is \<open>OverflowError\<close>
  (here \<^const>\<open>None\<close>) where its instant lies before year 1 or after year 9999.
\<close>

definition datetime_min :: int where "datetime_min = - 62135596800000000"

definition datetime_max :: int where "datetime_max = 253402300799999999"

definition as_utc :: "datetime \<Rightarrow> int option" where
  "as_utc t = (if dt_off t = None \<or> datetime_min \<le> dt_to_utc t \<and> dt_to_utc t \<le> datetime_max then Some (dt_to_utc t) else None)"

definition iso_text :: "string \<Rightarrow> string" where
  "iso_text t = concat (map (\<lambda>c. if c = CHR ''Z'' then ''+00:00'' else [c]) t)"

text \<open>
  \<^const>\<open>None\<close> where Python raises (a time stamp that is neither empty nor a text, and one out of range: only
  \<open>ValueError\<close> is caught), \<open>Some None\<close> for a text that is no time.
\<close>

definition parse_iso_datetime :: "url_env \<Rightarrow> json \<Rightarrow> int option option" where
  "parse_iso_datetime env j = (if \<not> json_truthy j then Some None
     else case j of
       JStr t \<Rightarrow> (case uv_fromiso env (iso_text t) of None \<Rightarrow> Some None | Some x \<Rightarrow> map_option Some (as_utc x))
     | _ \<Rightarrow> None)"

definition is_recent :: "url_env \<Rightarrow> int \<Rightarrow> int \<Rightarrow> json \<Rightarrow> bool option" where
  "is_recent env now stale j = map_option (\<lambda>p. case p of None \<Rightarrow> False | Some t \<Rightarrow> now - stale \<le> t) (parse_iso_datetime env j)"

definition is_agent_url_candidate :: "url_env \<Rightarrow> int \<Rightarrow> int \<Rightarrow> url_entry \<Rightarrow> bool option" where
  "is_agent_url_candidate env now stale e =
    (if ue_kind e \<notin> set EPHEMERAL_AGENT_URL_KINDS then Some True
     else if ue_source e = ''tunnel_runtime'' \<and> \<not> json_truthy (ue_verified_at e) \<and> \<not> json_truthy (ue_last_reachable_at e) then Some True
     else case is_recent env now stale (ue_last_reachable_at e) of
       None \<Rightarrow> None
     | Some True \<Rightarrow> Some True
     | Some False \<Rightarrow> is_recent env now stale (ue_verified_at e))"

fun candidates :: "url_env \<Rightarrow> int \<Rightarrow> int \<Rightarrow> url_entry list \<Rightarrow> string list option" where
  "candidates env now stale [] = Some []"
| "candidates env now stale (e # es) = (case is_agent_url_candidate env now stale e of
      None \<Rightarrow> None
    | Some b \<Rightarrow> map_option (\<lambda>us. if b then ue_url e # us else us) (candidates env now stale es))"

definition agent_urls_only :: "url_env \<Rightarrow> int \<Rightarrow> lab \<Rightarrow> string list option" where
  "agent_urls_only env now l = (let es = load_entries env l in
     if es = [] then Some []
     else map_option (\<lambda>us. if us = [] then map ue_url es else us) (candidates env now (seconds AGENT_URL_STALE_SECONDS) es))"

section \<open>Writing the column\<close>

text \<open>
  An UPDATE is sent only when the assigned value differs from the loaded one, and it sets that column only; objects
  compare without the order of their keys.
\<close>

fun same_json :: "json \<Rightarrow> json \<Rightarrow> bool" where
  "same_json (JObj a) (JObj b) \<longleftrightarrow> length a = length b \<and> list_all (\<lambda>(k, v). map_of b k = Some v) a"
| "same_json x y \<longleftrightarrow> x = y"

definition put_urls :: "int \<Rightarrow> json list \<Rightarrow> db \<Rightarrow> db" where
  "put_urls i v d = d\<lparr>d_labs := map (\<lambda>r. if lab_id r = i then r\<lparr>lab_public_urls := v\<rparr> else r) (d_labs d)\<rparr>"

definition persist_urls :: "lab \<Rightarrow> url_entry list \<Rightarrow> session \<Rightarrow> lab \<times> session" where
  "persist_urls l es s = (let v = map url_to_dict es in
     (l\<lparr>lab_public_urls := v\<rparr>, if list_all2 same_json v (lab_public_urls l) then s else upd_db (put_urls (lab_id l) v) s))"

section \<open>Mutations\<close>

fun url_faults :: "url_entry list \<Rightarrow> string option" where
  "url_faults [] = None"
| "url_faults (e # es) = (if ue_kind e \<notin> set VALID_KINDS then Some (''invalid kind: '' @ ue_kind e)
     else if ue_source e \<notin> set VALID_SOURCES then Some (''invalid source: '' @ ue_source e) else url_faults es)"

definition replace_all :: "lab \<Rightarrow> url_entry list \<Rightarrow> session \<Rightarrow> string + (lab \<times> session)" where
  "replace_all l es s = (case url_faults es of Some m \<Rightarrow> Inl m | None \<Rightarrow> Inr (persist_urls l es s))"

definition clear_primary :: "url_entry \<Rightarrow> url_entry" where
  "clear_primary e = e\<lparr>ue_primary := False\<rparr>"

text \<open>The first entry with the address is changed; \<open>b\<close> says whether it becomes the primary one.\<close>

fun touch_url :: "string \<Rightarrow> string \<Rightarrow> string \<Rightarrow> bool \<Rightarrow> url_entry list \<Rightarrow> url_entry list" where
  "touch_url u kind source b [] = []"
| "touch_url u kind source b (e # es) = (if ue_url e = u
     then e\<lparr>ue_kind := kind, ue_source := source, ue_primary := (b \<or> ue_primary e)\<rparr> # es
     else e # touch_url u kind source b es)"

definition added_entries :: "string \<Rightarrow> string \<Rightarrow> string \<Rightarrow> bool \<Rightarrow> url_entry list \<Rightarrow> url_entry list" where
  "added_entries u kind source b es = (let es' = (if b then map clear_primary es else es) in
     if u \<in> ue_url ` set es then touch_url u kind source b es'
     else es' @ [\<lparr>ue_url = u, ue_kind = kind, ue_source = source, ue_verified_at = JNull, ue_last_reachable_at = JNull, ue_primary = b\<rparr>])"

definition add_url :: "url_env \<Rightarrow> lab \<Rightarrow> string \<Rightarrow> string \<Rightarrow> string \<Rightarrow> bool \<Rightarrow> session \<Rightarrow> string + (lab \<times> session)" where
  "add_url env l u kind source b s =
    (if kind \<notin> set VALID_KINDS then Inl (''invalid kind: '' @ kind)
     else if source \<notin> set VALID_SOURCES then Inl (''invalid source: '' @ source)
     else if u = [] then Inl ''url must not be empty''
     else Inr (persist_urls l (added_entries u kind source b (load_entries env l)) s))"

definition remove_url :: "url_env \<Rightarrow> lab \<Rightarrow> string \<Rightarrow> session \<Rightarrow> lab \<times> session" where
  "remove_url env l u s = persist_urls l (filter (\<lambda>e. ue_url e \<noteq> u) (load_entries env l)) s"

definition reached :: "string \<Rightarrow> url_entry \<Rightarrow> url_entry" where
  "reached now e = e\<lparr>ue_last_reachable_at := JStr now,
     ue_verified_at := (if ue_verified_at e = JNull then JStr now else ue_verified_at e)\<rparr>"

fun reach_first :: "string \<Rightarrow> string \<Rightarrow> url_entry list \<Rightarrow> url_entry list" where
  "reach_first now u [] = []"
| "reach_first now u (e # es) = (if ue_url e = u then reached now e # es else e # reach_first now u es)"

definition mark_reachable :: "url_env \<Rightarrow> lab \<Rightarrow> string \<Rightarrow> bool \<Rightarrow> session \<Rightarrow> lab \<times> session" where
  "mark_reachable env l u ok s = (let es = load_entries env l in
     if u \<in> ue_url ` set es
     then persist_urls l (if ok then reach_first (uv_iso env (s_clock s)) u es else es) s
     else (l, s))"

text \<open>The second half of \<open>probe_lab\<close>, on the entries the first half loaded; \<open>results\<close> are the answers of the addresses.\<close>

definition probed :: "string \<Rightarrow> url_entry list \<Rightarrow> bool list \<Rightarrow> url_entry list" where
  "probed now es results = map (\<lambda>(e, ok). if ok then reached now e else e) (zip es results)"

definition finish_probe :: "url_env \<Rightarrow> lab \<Rightarrow> bool list \<Rightarrow> session \<Rightarrow> (string \<times> bool) list \<times> lab \<times> session" where
  "finish_probe env l results s = (let es = load_entries env l in
     if es = [] then ([], l, s)
     else (fold (\<lambda>(e, ok) d. dict_set d (ue_url e) ok) (zip es results) [],
           persist_urls l (probed (uv_iso env (s_clock s)) es results) s))"

section \<open>Broadcast\<close>

definition rstrip_slash :: "string \<Rightarrow> string" where
  "rstrip_slash u = rev (dropWhile (\<lambda>c. c = CHR ''/'') (rev u))"

definition starts_with :: "'a list \<Rightarrow> 'a list \<Rightarrow> bool" where
  "starts_with p u \<longleftrightarrow> take (length p) u = p"

definition ends_with :: "'a list \<Rightarrow> 'a list \<Rightarrow> bool" where
  "ends_with p u \<longleftrightarrow> starts_with (rev p) (rev u)"

text \<open>The scheme of a websocket; it is the same few lines in the backend and in the agent.\<close>

definition ws_scheme :: "string \<Rightarrow> string" where
  "ws_scheme u = (if starts_with ''https://'' u then ''wss://'' @ drop 8 u
     else if starts_with ''http://'' u then ''ws://'' @ drop 7 u else u)"

definition to_wss :: "string \<Rightarrow> string" where
  "to_wss u = (let v = ws_scheme (rstrip_slash u) in if ends_with ''/ws/agent'' v then v else v @ ''/ws/agent'')"

text \<open>A frame carries the server, the fresh id under which its acknowledgement is expected, and the addresses.\<close>

record url_frame =
  uf_server_id :: int
  uf_id :: string
  uf_urls :: "string list"

definition broadcast_update_urls :: "int list \<Rightarrow> (int \<Rightarrow> string) \<Rightarrow> string list \<Rightarrow> hub \<Rightarrow> rpc_state \<Rightarrow> url_frame list \<times> rpc_state" where
  "broadcast_update_urls sids ids urls h st =
    (if urls = [] then ([], st)
     else (let frames = map (\<lambda>sid. \<lparr>uf_server_id = sid, uf_id = ids sid, uf_urls = map to_wss urls\<rparr>) (filter (\<lambda>sid. h sid \<noteq> None) sids) in
       (frames, fold (\<lambda>f t. snd (expect_optional_response (uf_id f) ''backend.config.update_urls'' t)) frames st)))"

definition push_update_urls :: "int \<Rightarrow> string \<Rightarrow> string list \<Rightarrow> hub \<Rightarrow> rpc_state \<Rightarrow> url_frame option \<times> rpc_state" where
  "push_update_urls sid i urls h st = (if h sid = None then (None, st)
     else (Some \<lparr>uf_server_id = sid, uf_id = i, uf_urls = map to_wss urls\<rparr>,
           snd (expect_optional_response i ''backend.config.update_urls'' st)))"

definition broadcast_urls_to_agents :: "url_env \<Rightarrow> int \<Rightarrow> lab \<Rightarrow> (int \<Rightarrow> string) \<Rightarrow> hub \<Rightarrow> rpc_state \<Rightarrow> db \<Rightarrow> (url_frame list \<times> rpc_state) option" where
  "broadcast_urls_to_agents env now l ids h st d = map_option (\<lambda>urls.
     if urls = [] then ([], st)
     else broadcast_update_urls (map srv_id (filter (\<lambda>v. srv_lab_id v = lab_id l \<and> srv_is_active v \<and> h (srv_id v) \<noteq> None) (server_rows d)))
       ids urls h st) (agent_urls_only env now l)"

section \<open>Endpoints\<close>

definition get_lab :: "session \<Rightarrow> int \<Rightarrow> lab outcome" where
  "get_lab s i = (case row_by lab_id i (d_labs (s_db s)) of None \<Rightarrow> Inl (http 404 ''lab not found'') | Some l \<Rightarrow> Inr l)"

text \<open>The entries with what a probe found, if there was one.\<close>

definition serialize_urls :: "url_env \<Rightarrow> lab \<Rightarrow> (string \<times> bool) list \<Rightarrow> (url_entry \<times> bool option) list" where
  "serialize_urls env l found = map (\<lambda>e. (e, map_of found (ue_url e))) (load_entries env l)"

definition list_public_urls_ep :: "url_env \<Rightarrow> user \<Rightarrow> session \<Rightarrow> (url_entry \<times> bool option) list outcome" where
  "list_public_urls_ep env u s = rbind (require_lab_admin u) (\<lambda>_. rbind (get_lab s (u_lab_id u)) (\<lambda>l. Inr (serialize_urls env l [])))"

definition url_length_ok :: "string \<Rightarrow> bool" where
  "url_length_ok url \<longleftrightarrow> 1 \<le> length url \<and> length url \<le> 500"

text \<open>The change is committed before the broadcast; an exception of the broadcast is a 500 for a change that is stored.\<close>

definition commit_and_broadcast :: "url_env \<Rightarrow> (int \<Rightarrow> string) \<Rightarrow> hub \<Rightarrow> rpc_state \<Rightarrow> db \<Rightarrow> lab \<Rightarrow> session \<Rightarrow>
    (url_entry \<times> bool option) list outcome \<times> db \<times> url_frame list \<times> rpc_state" where
  "commit_and_broadcast env ids h st base l s = (case commit s of
      Inl _ \<Rightarrow> (Inl Uncaught, base, [], st)
    | Inr d \<Rightarrow> (case broadcast_urls_to_agents env (s_clock s) l ids h st d of
        None \<Rightarrow> (Inl Uncaught, d, [], st)
      | Some (frames, st') \<Rightarrow> (Inr (serialize_urls env l []), d, frames, st')))"

definition url_refused :: "api_error \<Rightarrow> db \<Rightarrow> rpc_state \<Rightarrow> (url_entry \<times> bool option) list outcome \<times> db \<times> url_frame list \<times> rpc_state" where
  "url_refused e d st = (Inl e, d, [], st)"

definition url_audit :: "string \<Rightarrow> user \<Rightarrow> lab \<Rightarrow> payload \<Rightarrow> session \<Rightarrow> session" where
  "url_audit action u l pl = audit_write (audit_of action (Some (u_id u)) (Some (lab_id l)) (Some ''lab'') (Some (lab_id l)) None None (Some pl) no_ctx)"

definition add_public_url_ep :: "url_env \<Rightarrow> (int \<Rightarrow> string) \<Rightarrow> hub \<Rightarrow> rpc_state \<Rightarrow> user \<Rightarrow> string \<Rightarrow> string \<Rightarrow> bool \<Rightarrow> session \<Rightarrow>
    (url_entry \<times> bool option) list outcome \<times> db \<times> url_frame list \<times> rpc_state" where
  "add_public_url_ep env ids h st u url kind b s =
    (case require_lab_admin u of Inl e \<Rightarrow> url_refused e (s_db s) st | Inr _ \<Rightarrow>
      if \<not> url_length_ok url then url_refused (http 422 ''url'') (s_db s) st
      else (case get_lab s (u_lab_id u) of Inl e \<Rightarrow> url_refused e (s_db s) st | Inr l \<Rightarrow>
        (case add_url env l url kind ''manual_admin'' b s of
          Inl m \<Rightarrow> url_refused (http 400 m) (s_db s) st
        | Inr (l', s1) \<Rightarrow> commit_and_broadcast env ids h st (s_db s) l'
            (url_audit ''lab.public_url.add'' u l' [(''url'', JStr url), (''kind'', JStr kind)] s1))))"

text \<open>An address that is not there is a 404, after which the session is committed with the column as it was read.\<close>

definition remove_public_url_ep :: "url_env \<Rightarrow> (int \<Rightarrow> string) \<Rightarrow> hub \<Rightarrow> rpc_state \<Rightarrow> user \<Rightarrow> string \<Rightarrow> session \<Rightarrow>
    (url_entry \<times> bool option) list outcome \<times> db \<times> url_frame list \<times> rpc_state" where
  "remove_public_url_ep env ids h st u url s =
    (case require_lab_admin u of Inl e \<Rightarrow> url_refused e (s_db s) st | Inr _ \<Rightarrow>
      if \<not> url_length_ok url then url_refused (http 422 ''url'') (s_db s) st
      else (case get_lab s (u_lab_id u) of Inl e \<Rightarrow> url_refused e (s_db s) st | Inr l \<Rightarrow>
        (case remove_url env l url s of (l', s1) \<Rightarrow>
          if length (load_entries env l') = length (load_entries env l)
          then url_refused (http 404 ''url not in this lab's public_urls'') (s_db s1) st
          else commit_and_broadcast env ids h st (s_db s) l' (url_audit ''lab.public_url.remove'' u l' [(''url'', JStr url)] s1))))"

definition start_probe_ep :: "user \<Rightarrow> session \<Rightarrow> lab outcome" where
  "start_probe_ep u s = rbind (require_lab_admin u) (\<lambda>_. get_lab s (u_lab_id u))"

definition finish_probe_ep :: "url_env \<Rightarrow> lab \<Rightarrow> bool list \<Rightarrow> session \<Rightarrow> (url_entry \<times> bool option) list outcome \<times> db" where
  "finish_probe_ep env l results s = (case finish_probe env l results s of (found, l', s') \<Rightarrow>
     end_request (s_db s) (Inr (serialize_urls env l' found), s'))"

text \<open>The tick of the scheduler: every lab as it was loaded at its start, with the answers of its addresses.\<close>

definition url_probe_tick :: "url_env \<Rightarrow> (lab \<times> bool list) list \<Rightarrow> session \<Rightarrow> session" where
  "url_probe_tick env labs s = fold (\<lambda>(l, results) s. snd (snd (finish_probe env l results s))) labs s"

section \<open>Setting up\<close>

definition slug_alnum :: "nat \<Rightarrow> bool" where
  "slug_alnum c \<longleftrightarrow> 48 \<le> c \<and> c \<le> 57 \<or> 65 \<le> c \<and> c \<le> 90 \<or> 97 \<le> c \<and> c \<le> 122"

text \<open>\<open>str.lower\<close>, as far as it matters: the Kelvin sign and the dotted capital I are the others that give an ASCII letter.\<close>

definition slug_lower :: "nat \<Rightarrow> ustring" where
  "slug_lower c = (if 65 \<le> c \<and> c \<le> 90 then [c + 32] else if c = 8490 then [107] else if c = 304 then [105, 775] else [c])"

text \<open>\<open>re.sub\<close>: a run of other characters becomes one hyphen.\<close>

fun hyphenate :: "bool \<Rightarrow> ustring \<Rightarrow> ustring" where
  "hyphenate run [] = []"
| "hyphenate run (c # s) = (if slug_alnum c then c # hyphenate False s
     else if run then hyphenate True s else 45 # hyphenate True s)"

definition strip_hyphens :: "ustring \<Rightarrow> ustring" where
  "strip_hyphens s = rev (dropWhile (\<lambda>c. c = 45) (rev (dropWhile (\<lambda>c. c = 45) s)))"

definition slug_alpha :: "nat \<Rightarrow> bool" where
  "slug_alpha c \<longleftrightarrow> 65 \<le> c \<and> c \<le> 90 \<or> 97 \<le> c \<and> c \<le> 122"

definition derive_slug :: "string \<Rightarrow> ustring \<Rightarrow> string" where
  "derive_slug hex name =
    (let cleaned = strip_hyphens (hyphenate False (concat (map slug_lower name)));
         named = (if cleaned \<noteq> [] \<and> \<not> slug_alpha (hd cleaned) then map of_char ''lab-'' @ cleaned else cleaned);
         short = take 50 named
     in if length short < 2 then ''lab-'' @ hex else map char_of short)"

text \<open>The \<open>LabSlugPattern\<close> a given slug must match: a small letter, then 1 to 49 small letters, digits and hyphens.\<close>

definition slug_char :: "char \<Rightarrow> bool" where
  "slug_char c \<longleftrightarrow> (let n = (of_char c :: nat) in 97 \<le> n \<and> n \<le> 122 \<or> 48 \<le> n \<and> n \<le> 57 \<or> n = 45)"

definition lab_slug_pattern :: "string \<Rightarrow> bool" where
  "lab_slug_pattern t \<longleftrightarrow> 2 \<le> length t \<and> length t \<le> 50 \<and> (let n = (of_char (hd t) :: nat) in 97 \<le> n \<and> n \<le> 122) \<and> list_all slug_char t"

text \<open>What Redis has under the key of the installer.\<close>

datatype seed_value = SeedMissing | SeedUnreadable | SeedJson json

definition primary_first :: "url_entry list \<Rightarrow> url_entry list" where
  "primary_first es = (case es of [] \<Rightarrow> [] | e # rest \<Rightarrow> if list_ex ue_primary es then es else e\<lparr>ue_primary := True\<rparr> # rest)"

definition load_seed_urls :: "url_env \<Rightarrow> bool \<Rightarrow> seed_value \<Rightarrow> url_entry list \<times> seed_value" where
  "load_seed_urls env deleted v = (case v of
      SeedJson (JList js) \<Rightarrow> (primary_first (parse_entries env js), if deleted then SeedMissing else v)
    | _ \<Rightarrow> ([], v))"

definition ascii_lower :: "char \<Rightarrow> char" where
  "ascii_lower c = (let n = (of_char c :: nat) in if 65 \<le> n \<and> n \<le> 90 then char_of (n + 32) else c)"

definition fallback_seed_url :: "string \<Rightarrow> url_entry list" where
  "fallback_seed_url url = (if url = [] then []
     else [\<lparr>ue_url = url, ue_kind = (let t = map ascii_lower url in if sublist ''localhost'' t \<or> sublist ''127.0.0.1'' t then ''lan'' else ''public_ip''),
        ue_source = ''install_sh_probe'', ue_verified_at = JNull, ue_last_reachable_at = JNull, ue_primary = True\<rparr>])"

record setup_request =
  si_lab_name :: ustring
  si_lab_slug :: "string option"
  si_admin_username :: string
  si_admin_email :: string
  si_admin_display_name :: ustring
  si_admin_password :: string

record setup_env =
  su_urls :: url_env
  su_coll :: "string \<Rightarrow> string \<Rightarrow> bool"
  su_hashpw :: "string \<Rightarrow> string"
  su_hex :: string
  su_public_url :: string
  su_deleted :: bool
  su_ctx :: req_ctx

definition is_initialized :: "session \<Rightarrow> bool" where
  "is_initialized s \<longleftrightarrow> d_labs (s_db s) \<noteq> []"

definition insert_lab :: "ustring \<Rightarrow> string \<Rightarrow> session \<Rightarrow> lab \<times> session" where
  "insert_lab name slug s = (let l = \<lparr>lab_id = d_next_lab (s_db s), lab_name = name, lab_slug = slug, lab_public_urls = []\<rparr> in
     (l, upd_db (\<lambda>d. d\<lparr>d_labs := d_labs d @ [l], d_next_lab := d_next_lab d + 1\<rparr>) s))"

definition setup_slug :: "setup_env \<Rightarrow> setup_request \<Rightarrow> string" where
  "setup_slug env p = (case si_lab_slug p of Some t \<Rightarrow> if t = [] then derive_slug (su_hex env) (si_lab_name p) else t
     | None \<Rightarrow> derive_slug (su_hex env) (si_lab_name p))"

definition setup_admin :: "setup_env \<Rightarrow> setup_request \<Rightarrow> lab \<Rightarrow> user" where
  "setup_admin env p l = \<lparr>u_id = 0, u_lab_id = lab_id l, u_username = si_admin_username p, u_role = RoleLabAdmin, u_is_active = True,
     u_email = si_admin_email p, u_display_name = si_admin_display_name p, u_password_hash = Some (su_hashpw env (si_admin_password p)),
     u_last_login_at = None, u_created_by_user_id = None\<rparr>"

text \<open>\<open>initialize\<close> behind its endpoint; the seed leaves Redis whatever becomes of the request.\<close>

definition setup_init_ep :: "setup_env \<Rightarrow> setup_request \<Rightarrow> seed_value \<Rightarrow> session \<Rightarrow> ((int \<times> user) outcome \<times> session) \<times> seed_value" where
  "setup_init_ep env p v s =
    (if is_initialized s then ((Inl (http 409 ''already_initialized''), s), v)
     else (let (l, s1) = insert_lab (si_lab_name p) (setup_slug env p) s;
               (seeds, v') = load_seed_urls (su_urls env) (su_deleted env) v;
               entries = (if seeds = [] then fallback_seed_url (su_public_url env) else seeds)
           in case (if entries = [] then Inr (l, s1) else replace_all l entries s1) of
                Inl _ \<Rightarrow> ((Inl Uncaught, s), v')
              | Inr (l2, s2) \<Rightarrow> (case insert_user (su_coll env) (setup_admin env p l2) s2 of
                  Inl _ \<Rightarrow> ((Inl (http 409 ''admin_username or admin_email already taken''), s), v')
                | Inr (row, s3) \<Rightarrow> ((Inr (lab_id l2, row),
                    audit_write (audit_of ''setup.init'' (Some (u_id row)) (Some (lab_id l2)) (Some ''lab'') (Some (lab_id l2)) None None
                      (Some [(''lab_slug'', JStr (lab_slug l2)), (''admin_username'', JStr (u_username row)), (''admin_email'', JStr (u_email row))])
                      (su_ctx env)) s3), v'))))"

end
