(* ===== verification/Agent_Connection.thy ===== *)
theory Agent_Connection
  imports Lab_Urls Physical_Accounts Alert_Service Script_Lifecycle
begin

text \<open>
  \<open>api/agent_ws.py\<close>: the life of the websocket of an agent. The handshake authenticates it and enters it into the pool of
  \<open>agent_hub.py\<close> and sends the addresses of the lab; then every frame is one step, in a session of its own; whatever ends the receive loop, the
  \<open>finally\<close> clause takes the socket out of the pool and marks the server offline. Sockets are named by numbers. The
  frames that are sent after the handshake appear as the optional responses they announce; logging is left out.
\<close>

section \<open>The state of the process\<close>

text \<open>
  \<open>bk_open\<close> are the connections whose receive loop runs; \<open>bk_dead\<close> are the sockets that an exception closed after they
  were entered into the pool and before the loop.
\<close>

record connection =
  cx_server_id :: int
  cx_lab_id :: int

record backend =
  bk_db :: db
  bk_hub :: hub
  bk_rpc :: rpc_state
  bk_kills :: kill_registry
  bk_open :: "nat \<rightharpoonup> connection"
  bk_dead :: "nat set"

text \<open>What \<open>parse_envelope\<close> makes of a text; a text it refuses and a frame that is none of an agent's end the connection.\<close>

datatype agent_frame =
    BadFrame
  | HeartbeatFrame string
  | PongFrame
  | TelemetryFrame "(int \<times> int option) list"
  | AccountScanFrame "scan_entry list"
  | ScriptStartedFrame script_started_event
  | ScriptOutputFrame script_output_chunk_event
  | ScriptFinishedFrame script_finished_event
  | ViolationFrame violation_frame
  | ResponseFrame "string option" string payload

section \<open>The handshake\<close>

definition connect_audit :: "bool \<Rightarrow> server \<Rightarrow> session \<Rightarrow> session" where
  "connect_audit approved v = server_audit (if approved then ''server.online'' else ''server.phone_home_pending_approval'')
     None (srv_lab_id v) ''server'' (srv_id v) (srv_id v) None no_ctx"

text \<open>The addresses for the agent of an approved server, if the lab is there; \<^const>\<open>None\<close> where Python raises.\<close>

definition urls_on_connect :: "url_env \<Rightarrow> bool \<Rightarrow> int \<Rightarrow> session \<Rightarrow> string list option" where
  "urls_on_connect uenv approved lab s = (case row_by lab_id lab (d_labs (s_db s)) of
      None \<Rightarrow> Some []
    | Some l \<Rightarrow> if approved then agent_urls_only uenv (s_clock s) l else Some [])"

text \<open>
  \<^const>\<open>None\<close> where the socket is closed before it is accepted. The second session runs outside of every \<open>try\<close>: when the
  database fails in it (\<open>broken\<close>) or the addresses cannot be read, it is rolled back and the socket stays in the pool. \<open>uid\<close> is
  the id of the frame with the addresses; \<open>pushes\<close> are the frames of the three synchronisations behind it.
\<close>

definition connect_agent :: "server_env \<Rightarrow> url_env \<Rightarrow> bool \<Rightarrow> string \<Rightarrow> int \<Rightarrow> int \<Rightarrow> string \<Rightarrow> nat \<Rightarrow> (string \<times> string) list \<Rightarrow>
    backend \<Rightarrow> backend option" where
  "connect_agent env uenv broken uid now sid token ws pushes b = (case authenticate_agent env sid token (open_session (bk_db b) now) of
      Inl _ \<Rightarrow> None
    | Inr (v, s) \<Rightarrow> (case commit s of
        Inl _ \<Rightarrow> None
      | Inr d1 \<Rightarrow>
        (let hub' = snd (hub_register sid ws (bk_hub b));
             (approved, s2) = mark_heartbeat sid None (open_session d1 now);
             s3 = connect_audit approved v s2;
             found = (if broken then None else urls_on_connect uenv approved (srv_lab_id v) s3)
         in case (found, commit s3) of
           (Some urls, Inr d2) \<Rightarrow>
             (let told = (if urls = [] then bk_rpc b else snd (push_update_urls sid uid urls hub' (bk_rpc b))) in
              Some (b\<lparr>bk_db := d2, bk_hub := hub',
                bk_rpc := (if approved then fold (\<lambda>(cid, frame) st. snd (expect_optional_response cid frame st)) pushes told else told),
                bk_open := (bk_open b)(ws \<mapsto> \<lparr>cx_server_id = sid, cx_lab_id = srv_lab_id v\<rparr>)\<rparr>))
         | _ \<Rightarrow> Some (b\<lparr>bk_db := d1, bk_hub := hub', bk_dead := insert ws (bk_dead b)\<rparr>))))"

section \<open>The receive loop\<close>

text \<open>Heartbeats and pongs are taken from a server that waits for its approval, the others are not.\<close>

fun ungated :: "agent_frame \<Rightarrow> bool" where
  "ungated (HeartbeatFrame _) = True"
| "ungated PongFrame = True"
| "ungated _ = False"

text \<open>The result of a handler and the commit behind it; \<^const>\<open>False\<close> where the exception leaves the loop.\<close>

definition committed :: "backend \<Rightarrow> res_error + session \<Rightarrow> bool \<times> backend" where
  "committed b m = (case rbind m commit of Inl _ \<Rightarrow> (False, b) | Inr d \<Rightarrow> (True, b\<lparr>bk_db := d\<rparr>))"

definition scan_frame :: "(string \<Rightarrow> string \<Rightarrow> bool) \<Rightarrow> int \<Rightarrow> connection \<Rightarrow> scan_entry list \<Rightarrow> backend \<Rightarrow> bool \<times> backend" where
  "scan_frame coll now c es b = (case on_account_scan coll (cx_server_id c) (cx_lab_id c) es now (bk_db b) of
     (ok, d) \<Rightarrow> (ok, b\<lparr>bk_db := d\<rparr>))"

definition finished_frame :: "int \<Rightarrow> connection \<Rightarrow> script_finished_event \<Rightarrow> backend \<Rightarrow> bool \<times> backend" where
  "finished_frame now c e b = (case on_script_finished e (cx_lab_id c) (bk_kills b) (open_session (bk_db b) now) of
      Inl _ \<Rightarrow> (False, b)
    | Inr (k, s) \<Rightarrow> committed (b\<lparr>bk_kills := k\<rparr>) (Inr s))"

definition violation_step :: "int \<Rightarrow> connection \<Rightarrow> violation_frame \<Rightarrow> backend \<Rightarrow> bool \<times> backend" where
  "violation_step now c e b = (case on_compliance_violation e (cx_lab_id c) (open_session (bk_db b) now) of
     (ok, s) \<Rightarrow> (ok, b\<lparr>bk_db := s_db s\<rparr>))"

fun operate :: "(string \<Rightarrow> string \<Rightarrow> bool) \<Rightarrow> int \<Rightarrow> connection \<Rightarrow> agent_frame \<Rightarrow> backend \<Rightarrow> bool \<times> backend" where
  "operate coll now c BadFrame b = (False, b)"
| "operate coll now c (HeartbeatFrame v) b = committed b (Inr (snd (mark_heartbeat (cx_server_id c) (Some v) (open_session (bk_db b) now))))"
| "operate coll now c PongFrame b = (True, b)"
| "operate coll now c (TelemetryFrame gs) b = committed b (Inr (snd (upsert_telemetry (cx_server_id c) gs (open_session (bk_db b) now))))"
| "operate coll now c (AccountScanFrame es) b = scan_frame coll now c es b"
| "operate coll now c (ScriptStartedFrame e) b = committed b (on_script_started e (cx_lab_id c) (open_session (bk_db b) now))"
| "operate coll now c (ScriptOutputFrame e) b = committed b (on_script_output_chunk e (open_session (bk_db b) now))"
| "operate coll now c (ScriptFinishedFrame e) b = finished_frame now c e b"
| "operate coll now c (ViolationFrame e) b = violation_step now c e b"
| "operate coll now c (ResponseFrame cid ty pl) b = (True, b\<lparr>bk_rpc := snd (deliver_response cid ty pl (bk_rpc b))\<rparr>)"

definition handle_frame :: "(string \<Rightarrow> string \<Rightarrow> bool) \<Rightarrow> int \<Rightarrow> connection \<Rightarrow> agent_frame \<Rightarrow> backend \<Rightarrow> bool \<times> backend" where
  "handle_frame coll now c f b =
    (if f \<noteq> BadFrame \<and> \<not> ungated f \<and> \<not> is_server_approved (open_session (bk_db b) now) (cx_server_id c) then (True, b)
     else operate coll now c f b)"

section \<open>The end of a connection\<close>

definition mark_offline :: "int \<Rightarrow> int \<Rightarrow> session \<Rightarrow> session" where
  "mark_offline sid lab s = (case d_servers (s_db s) sid of
      None \<Rightarrow> s
    | Some v \<Rightarrow> if srv_approved_at v = None then s
      else if srv_status v = Online
        then server_audit ''server.offline'' None lab ''server'' sid sid (Some [(''at'', JTime (dt_utc (s_clock s)))]) no_ctx
          (upd_db (put_server (v\<lparr>srv_status := Offline\<rparr>)) s)
        else s)"

definition leave_loop :: "int \<Rightarrow> nat \<Rightarrow> backend \<Rightarrow> backend" where
  "leave_loop now ws b = (case bk_open b ws of
      None \<Rightarrow> b
    | Some c \<Rightarrow> (let b1 = b\<lparr>bk_hub := hub_unregister (cx_server_id c) ws (bk_hub b), bk_open := (bk_open b)(ws := None)\<rparr> in
        case commit (mark_offline (cx_server_id c) (cx_lab_id c) (open_session (bk_db b) now)) of
          Inl _ \<Rightarrow> b1 | Inr d \<Rightarrow> b1\<lparr>bk_db := d\<rparr>))"

definition receive_frame :: "(string \<Rightarrow> string \<Rightarrow> bool) \<Rightarrow> int \<Rightarrow> nat \<Rightarrow> agent_frame \<Rightarrow> backend \<Rightarrow> backend" where
  "receive_frame coll now ws f b = (case bk_open b ws of
      None \<Rightarrow> b
    | Some c \<Rightarrow> (case handle_frame coll now c f b of (going, b') \<Rightarrow> if going then b' else leave_loop now ws b'))"

end
