(* ===== verification/Server_Props.thy ===== *)
theory Server_Props
  imports Agent_Connection Step_Contract
begin

text \<open>
  The invariant of the servers and their enrollment tokens, as an interpretation of \<open>step_contract\<close>: an online server is
  approved, an approved one is enrolled, an enrollment is for good, a used token stays as it is. The handshake, every frame, the end
  of a connection and every endpoint is a step; the pool holds open connections, or sockets that died in their handshake.
\<close>

section \<open>What the other components leave alone\<close>

definition server_part :: "db \<Rightarrow> (int \<rightharpoonup> server) \<times> int list \<times> int \<times> enrollment_token list \<times> int" where
  "server_part d = (d_servers d, d_server_ids d, d_next_server d, d_enrollments d, d_next_enrollment d)"

named_theorems server_frame

lemma server_part_writers [server_frame]:
  "server_part (s_db (audit_write e s)) = server_part (s_db s)"
  "server_part (s_db (server_audit a ac lab ty t sid pl ctx s)) = server_part (s_db s)"
  "server_part (db_update_res r d) = server_part d"
  "server_part (s_db (s_update_res r s)) = server_part (s_db s)"
  "server_part (put_grant g d) = server_part d"
  "server_part (put_capability c d) = server_part d"
  "server_part (seed_capabilities sid actor d) = server_part d"
  "server_part (put_pa p d) = server_part d"
  "server_part (insert_alert al d) = server_part d"
  "server_part (s_db (push_to_user u f s)) = server_part (s_db s)"
  by (simp_all add: server_part_def audit_write_def server_audit_def db_update_res_def s_update_res_def put_grant_def put_capability_def
      seed_capabilities_def put_pa_def insert_alert_def push_to_user_def upd_db_def)

lemma server_part_notification [server_frame]:
  "server_part (s_db (create_notification u ty ti sv bo pl ct s)) = server_part (s_db s)"
  using create_notification_cases[of u ty ti sv bo pl ct s]
  by (elim disjE) (simp_all add: server_part_def insert_notification_def Let_def row_simps upd_db_def)

lemma server_part_fold:
  "(\<And>x s. server_part (s_db (g x s)) = server_part (s_db s)) \<Longrightarrow> server_part (s_db (fold g xs s)) = server_part (s_db s)"
  by (induction xs arbitrary: s) simp_all

lemma server_part_db_fold: "(\<And>x d. server_part (g x d) = server_part d) \<Longrightarrow> server_part (fold g xs d) = server_part d"
  by (induction xs arbitrary: d) simp_all

lemma server_part_gpu [server_frame]: "server_part (upsert_gpu sid e d) = server_part d"
  by (auto simp: server_part_def upsert_gpu_def Let_def split: prod.split option.split)

lemma server_part_telemetry [server_frame]: "server_part (s_db (snd (upsert_telemetry sid gs s))) = server_part (s_db s)"
  by (simp add: upsert_telemetry_def upd_db_def server_part_db_fold server_frame)

lemma server_part_flush: "flush_res r s = Inr s' \<Longrightarrow> server_part (s_db s') = server_part (s_db s)"
  by (auto simp: flush_res_def server_frame split: if_splits)

lemma server_part_commit: "commit s = Inr d \<Longrightarrow> server_part d = server_part (s_db s)"
  by (auto simp: commit_def split: option.splits sum.splits dest: server_part_flush)

lemma server_part_status: "update_script_status row new lab tr ec st fi ac ctx s = Inr (r, s') \<Longrightarrow> server_part (s_db s') = server_part (s_db s)"
  by (auto simp: update_script_status_def Let_def rbind_eq_Inr server_frame split: if_splits dest!: server_part_flush)

lemma server_part_notify [server_frame]:
  "server_part (s_db (started_notification e row s)) = server_part (s_db s)"
  "server_part (s_db (finished_notification f st row s)) = server_part (s_db s)"
  by (auto simp: started_notification_def finished_notification_def notify_script_event_def server_frame split: option.split prod.split)

lemma server_part_started: "on_script_started e lab s = Inr s' \<Longrightarrow> server_part (s_db s') = server_part (s_db s)"
  by (auto simp: on_script_started_def Let_def rbind_eq_Inr server_frame split: option.splits if_splits
      dest!: server_part_flush server_part_status)

lemma server_part_output: "on_script_output_chunk c s = Inr s' \<Longrightarrow> server_part (s_db s') = server_part (s_db s)"
  by (auto simp: on_script_output_chunk_def append_script_log_tail_def Let_def rbind_eq_Inr split: option.splits if_splits
      dest!: server_part_flush)

lemma server_part_finished: "on_script_finished f lab k s = Inr (k', s') \<Longrightarrow> server_part (s_db s') = server_part (s_db s)"
  by (auto simp: on_script_finished_def Let_def rbind_eq_Inr server_frame split: option.splits if_splits
      dest!: server_part_flush server_part_status)

lemma server_part_violation [server_frame]: "server_part (s_db (snd (on_compliance_violation e lab s))) = server_part (s_db s)"
proof -
  have "server_part (s_db (handle_violation e lab s)) = server_part (s_db s)" for s
    by (simp add: handle_violation_def Let_def server_frame server_part_fold notify_occupier_def notify_holder_def)
  then show ?thesis
    by (auto simp: on_compliance_violation_def create_alert_def Let_def server_frame server_part_fold upd_db_def
        split: option.splits if_splits prod.splits)
qed

lemma server_part_scan [server_frame]: "server_part (snd (on_account_scan coll sid lab es now d)) = server_part d"
proof -
  have fl: "flush_scan coll created ps s = Some s' \<Longrightarrow> server_part (s_db s') = server_part (s_db s)" for created ps s s'
    by (induction coll created ps s rule: flush_scan.induct)
      (auto simp: bind_eq_Some_conv insert_pa_def update_pa_def Let_def add_pa_def upd_db_def put_pa_def server_part_def split: if_splits)
  show ?thesis
    by (auto simp: on_account_scan_def sync_discovered_def Let_def server_frame split: option.splits sum.splits
        dest!: fl server_part_commit)
qed

section \<open>The invariant\<close>

definition server_sane :: "server \<Rightarrow> bool" where
  "server_sane v \<longleftrightarrow> (srv_status v = Online \<longrightarrow> srv_is_active v \<and> srv_approved_at v \<noteq> None)
     \<and> (srv_approved_at v \<noteq> None \<longrightarrow> srv_agent_token_hash v \<noteq> None)"

definition enrolled_by :: "db \<Rightarrow> enrollment_token \<Rightarrow> bool" where
  "enrolled_by d t \<longleftrightarrow> (\<exists>i v. en_used_by_server_id t = Some i \<and> d_servers d i = Some v \<and> srv_agent_token_hash v \<noteq> None)"

definition servers_ok :: "db \<Rightarrow> bool" where
  "servers_ok d \<longleftrightarrow> keyed srv_id (d_servers d) (d_server_ids d) (d_next_server d)
     \<and> (\<forall>i v. d_servers d i = Some v \<longrightarrow> server_sane v)
     \<and> distinct (map en_id (d_enrollments d)) \<and> distinct (map en_token_hash (d_enrollments d))
     \<and> (\<forall>t \<in> set (d_enrollments d). en_id t < d_next_enrollment d \<and> (en_used_at t \<noteq> None \<longrightarrow> enrolled_by d t))"

text \<open>An approval, an enrollment and a deletion are for good; a used token stays, an unused one may only expire earlier.\<close>

definition server_dev :: "server \<Rightarrow> server \<Rightarrow> bool" where
  "server_dev v v' \<longleftrightarrow> srv_id v' = srv_id v \<and> srv_lab_id v' = srv_lab_id v \<and> srv_hostname v' = srv_hostname v
     \<and> (srv_approved_at v \<noteq> None \<longrightarrow> srv_approved_at v' = srv_approved_at v)
     \<and> (srv_agent_token_hash v \<noteq> None \<longrightarrow> srv_agent_token_hash v' = srv_agent_token_hash v)
     \<and> (\<not> srv_is_active v \<longrightarrow> \<not> srv_is_active v')"

definition token_dev :: "enrollment_token \<Rightarrow> enrollment_token \<Rightarrow> bool" where
  "token_dev t t' \<longleftrightarrow> en_id t' = en_id t \<and> en_lab_id t' = en_lab_id t \<and> en_token_hash t' = en_token_hash t
     \<and> en_expires_at t' \<le> en_expires_at t \<and> (en_used_at t \<noteq> None \<longrightarrow> t' = t)"

definition servers_dev :: "db \<Rightarrow> db \<Rightarrow> bool" where
  "servers_dev d d' \<longleftrightarrow> (\<forall>i v. d_servers d i = Some v \<longrightarrow> (\<exists>v'. d_servers d' i = Some v' \<and> server_dev v v'))
     \<and> (\<forall>t \<in> set (d_enrollments d). \<exists>t' \<in> set (d_enrollments d'). token_dev t t')"

lemma server_dev_refl [simp]: "server_dev v v"
  by (simp add: server_dev_def)

lemma token_dev_refl [simp]: "token_dev t t"
  by (simp add: token_dev_def)

lemma server_dev_trans: "server_dev a b \<Longrightarrow> server_dev b c \<Longrightarrow> server_dev a c"
  by (auto simp: server_dev_def)

lemma token_dev_trans: "token_dev a b \<Longrightarrow> token_dev b c \<Longrightarrow> token_dev a c"
  by (auto simp: token_dev_def)

lemma servers_dev_refl [simp]: "servers_dev d d"
  unfolding servers_dev_def using server_dev_refl token_dev_refl by blast

lemma servers_dev_trans: "servers_dev a b \<Longrightarrow> servers_dev b c \<Longrightarrow> servers_dev a c"
  unfolding servers_dev_def by (meson server_dev_trans token_dev_trans)

lemma server_part_ok: "server_part d' = server_part d \<Longrightarrow> servers_ok d' = servers_ok d"
  by (simp add: server_part_def servers_ok_def enrolled_by_def)

lemma server_part_dev: "server_part d' = server_part d \<Longrightarrow> servers_dev d d'"
  unfolding server_part_def servers_dev_def using server_dev_refl token_dev_refl by (metis prod.inject)

lemma server_part_step: "server_part d' = server_part d \<Longrightarrow> step_ok servers_ok servers_dev d d'"
  unfolding step_ok_def by (blast dest: server_part_ok[THEN iffD2] server_part_dev)

interpretation server_run: step_contract servers_ok servers_dev
proof unfold_locales
  show "servers_dev d d" for d by simp
  show "servers_dev d d''" if "servers_dev d d'" "servers_dev d' d''" for d d' d'' using that by (rule servers_dev_trans)
  show "servers_ok (db_update_res r d) \<and> servers_dev d (db_update_res r d)" if "servers_ok d" for d r
    using server_part_step[OF server_part_writers(3)] that unfolding step_ok_def by blast
  show "servers_ok (s_db (audit_write e s)) \<and> servers_dev (s_db s) (s_db (audit_write e s))" if "servers_ok (s_db s)" for s e
    using server_part_step[OF server_part_writers(1)] that unfolding step_ok_def by blast
qed

abbreviation server_step :: "db \<Rightarrow> db \<Rightarrow> bool" where
  "server_step \<equiv> step_ok servers_ok servers_dev"

lemma server_audited: "server_step d (s_db s) \<Longrightarrow> server_step d (s_db (server_audit a ac lab ty t sid pl ctx s))"
  unfolding server_audit_def by (rule server_run.audited)

lemma server_key: "servers_ok d \<Longrightarrow> d_servers d i = Some v \<Longrightarrow> srv_id v = i"
  by (rule keyed_key[of srv_id "d_servers d" "d_server_ids d" "d_next_server d"]) (simp_all add: servers_ok_def)

lemma server_saneD: "servers_ok d \<Longrightarrow> d_servers d i = Some v \<Longrightarrow> server_sane v"
  unfolding servers_ok_def by blast

section \<open>Writers\<close>

lemma enrolled_by_dev:
  assumes "\<And>i v. d_servers d i = Some v \<Longrightarrow> \<exists>v'. d_servers d' i = Some v' \<and> server_dev v v'" and "enrolled_by d t"
  shows "enrolled_by d' t"
proof -
  from assms(2) obtain i v where v: "en_used_by_server_id t = Some i" "d_servers d i = Some v" "srv_agent_token_hash v \<noteq> None"
    unfolding enrolled_by_def by blast
  from assms(1)[OF v(2)] obtain v' where "d_servers d' i = Some v'" "server_dev v v'" by blast
  with v show ?thesis by (auto simp: enrolled_by_def server_dev_def)
qed

lemma put_server_step:
  assumes "d_servers d (srv_id v') = Some v" and "server_dev v v'" and "server_sane v \<Longrightarrow> server_sane v'"
  shows "server_step d (put_server v' d)"
proof (rule step_okI)
  assume ok: "servers_ok d"
  then have k: "keyed srv_id (d_servers d) (d_server_ids d) (d_next_server d)" by (simp add: servers_ok_def)
  have dev: "\<exists>w'. d_servers (put_server v' d) i = Some w' \<and> server_dev w w'" if "d_servers d i = Some w" for i w
    using that assms(1,2) by (auto simp: put_server_def)
  have "keyed srv_id (d_servers (put_server v' d)) (d_server_ids d) (d_next_server d)"
    using keyed_put[OF k, of v'] assms(1) by (simp add: put_server_def)
  moreover have "server_sane w" if "d_servers (put_server v' d) i = Some w" for i w
    using that server_saneD[OF ok] assms(1,3) by (auto simp: put_server_def split: if_splits)
  moreover have "enrolled_by (put_server v' d) t" if "enrolled_by d t" for t
    using enrolled_by_dev[of d "put_server v' d", OF dev that] .
  moreover have "d_server_ids (put_server v' d) = d_server_ids d" "d_next_server (put_server v' d) = d_next_server d"
    "d_enrollments (put_server v' d) = d_enrollments d" "d_next_enrollment (put_server v' d) = d_next_enrollment d"
    by (simp_all add: put_server_def)
  ultimately show "servers_ok (put_server v' d) \<and> servers_dev d (put_server v' d)"
    using ok dev token_dev_refl unfolding servers_ok_def servers_dev_def by (simp; blast)
qed

lemma add_server_step:
  assumes "srv_id v = d_next_server d" and "server_sane v"
  shows "server_step d ((put_server v d)\<lparr>d_server_ids := d_server_ids d @ [srv_id v], d_next_server := srv_id v + 1\<rparr>)"
    (is "server_step d ?d")
proof (rule step_okI)
  assume ok: "servers_ok d"
  then have k: "keyed srv_id (d_servers d) (d_server_ids d) (d_next_server d)" by (simp add: servers_ok_def)
  from keyed_fresh[OF k] have fresh: "d_servers d (srv_id v) = None" by (simp add: assms(1))
  have dev: "\<exists>w'. d_servers ?d i = Some w' \<and> server_dev w w'" if "d_servers d i = Some w" for i w
    using that fresh by (auto simp: put_server_def)
  have "keyed srv_id (d_servers ?d) (d_server_ids ?d) (d_next_server ?d)"
    using keyed_add[OF k assms(1)] assms(1) by (simp add: put_server_def)
  moreover have "server_sane w" if "d_servers ?d i = Some w" for i w
    using that server_saneD[OF ok] assms(2) by (auto simp: put_server_def split: if_splits)
  moreover have "enrolled_by ?d t" if "enrolled_by d t" for t using enrolled_by_dev[of d ?d, OF dev that] .
  moreover have "d_enrollments ?d = d_enrollments d" "d_next_enrollment ?d = d_next_enrollment d" by (simp_all add: put_server_def)
  ultimately show "servers_ok ?d \<and> servers_dev d ?d"
    using ok dev token_dev_refl unfolding servers_ok_def servers_dev_def by (simp; blast)
qed

text \<open>Changes of the enrollment tokens alone.\<close>

lemma enrollments_step:
  assumes "d_servers d' = d_servers d" and "d_server_ids d' = d_server_ids d" and "d_next_server d' = d_next_server d"
    and "d_enrollments d' = map f (d_enrollments d) @ new" and "\<And>t. t \<in> set (d_enrollments d) \<Longrightarrow> token_dev t (f t) \<and> en_used_at (f t) = en_used_at t"
    and "distinct (map en_id new)" and "distinct (map en_token_hash new)"
    and "\<And>t. t \<in> set new \<Longrightarrow> d_next_enrollment d \<le> en_id t \<and> en_id t < d_next_enrollment d' \<and> en_used_at t = None
        \<and> en_token_hash t \<notin> en_token_hash ` set (d_enrollments d)" and "d_next_enrollment d \<le> d_next_enrollment d'"
  shows "server_step d d'"
proof (rule step_okI)
  assume ok: "servers_ok d"
  have f: "en_id (f t) = en_id t" "en_token_hash (f t) = en_token_hash t" "en_used_at (f t) = en_used_at t"
    "en_used_at t \<noteq> None \<Longrightarrow> f t = t" if "t \<in> set (d_enrollments d)" for t
    using assms(5)[OF that] by (auto simp: token_dev_def)
  then have ids: "map en_id (map f (d_enrollments d)) = map en_id (d_enrollments d)"
    "map en_token_hash (map f (d_enrollments d)) = map en_token_hash (d_enrollments d)" by simp_all
  have eb: "enrolled_by d' t = enrolled_by d t" for t by (simp add: enrolled_by_def assms(1))
  have "en_id ` set (d_enrollments d) \<inter> en_id ` set new = {}"
  proof (rule ccontr)
    assume "en_id ` set (d_enrollments d) \<inter> en_id ` set new \<noteq> {}"
    then obtain t u where t: "t \<in> set (d_enrollments d)" "u \<in> set new" "en_id t = en_id u" by auto
    from ok t(1) have "en_id t < d_next_enrollment d" by (simp add: servers_ok_def)
    with assms(8)[OF t(2)] t(3) show False by simp
  qed
  moreover have "en_token_hash ` set (d_enrollments d) \<inter> en_token_hash ` set new = {}"
  proof (rule ccontr)
    assume "en_token_hash ` set (d_enrollments d) \<inter> en_token_hash ` set new \<noteq> {}"
    then obtain h where h: "h \<in> en_token_hash ` set (d_enrollments d)" "h \<in> en_token_hash ` set new" by blast
    from h(2) obtain u where u: "u \<in> set new" "h = en_token_hash u" by (rule imageE)
    from assms(8)[OF u(1)] h(1) u(2) show False by simp
  qed
  ultimately have "distinct (map en_id (map f (d_enrollments d) @ new))" "distinct (map en_token_hash (map f (d_enrollments d) @ new))"
    using ok assms(6,7) by (simp_all only: map_append distinct_append ids set_map servers_ok_def simp_thms)
  then have "distinct (map en_id (d_enrollments d'))" "distinct (map en_token_hash (d_enrollments d'))" by (simp_all only: assms(4))
  moreover have "en_id t < d_next_enrollment d' \<and> (en_used_at t \<noteq> None \<longrightarrow> enrolled_by d' t)" if t: "t \<in> set (d_enrollments d')" for t
  proof (cases "t \<in> set new")
    case True
    with assms(8) show ?thesis by simp
  next
    case False
    with t obtain u where u: "u \<in> set (d_enrollments d)" "t = f u" by (auto simp: assms(4))
    with ok have "en_id u < d_next_enrollment d" "en_used_at u \<noteq> None \<longrightarrow> enrolled_by d u" by (simp_all add: servers_ok_def)
    with f[OF u(1)] u(2) assms(9) eb show ?thesis by auto
  qed
  ultimately have "servers_ok d'" using ok assms(1-3) unfolding servers_ok_def by simp
  moreover have "\<exists>t' \<in> set (d_enrollments d'). token_dev t t'" if "t \<in> set (d_enrollments d)" for t
    using assms(5)[OF that] that by (intro bexI[of _ "f t"]) (simp_all add: assms(4))
  moreover have "\<exists>v'. d_servers d' i = Some v' \<and> server_dev v v'" if "d_servers d i = Some v" for i v
    using that by (simp add: assms(1))
  ultimately show "servers_ok d' \<and> servers_dev d d'" unfolding servers_dev_def by blast
qed

lemma insert_enrollment_step:
  assumes "insert_enrollment env plaintext lab hint ex actor s = Inr (row, s')"
  shows "server_step (s_db s) (s_db s')"
  using assms
  by (intro enrollments_step[of _ _ id "[row]"])
    (auto simp: insert_enrollment_def Let_def upd_db_def list_ex_iff split: if_splits)

section \<open>The operations\<close>

lemma create_server_step: "settles servers_ok servers_dev s (create_server env pt n lab actor s)"
  unfolding settles_def
proof (intro allI impI)
  fix x s' assume eq: "create_server env pt n lab actor s = Inr (x, s')"
  define row where "row = \<lparr>srv_id = d_next_server (s_db s), srv_lab_id = lab, srv_hostname = ns_hostname n,
      srv_status = Pending, srv_last_heartbeat_at = None, srv_max_reservation_hours = ns_max_reservation_hours n,
      srv_is_active = True, srv_approved_at = None, srv_approved_by_user_id = None,
      srv_display_name = ns_display_name n, srv_agent_token_hash = None, srv_agent_version = None,
      srv_created_by_user_id = Some actor\<rparr>"
  have row: "srv_id row = d_next_server (s_db s)" "server_sane row" by (simp_all add: row_def server_sane_def)
  obtain e s3 where
    ins: "insert_enrollment env pt lab (or_else (ns_expected_hostname_pattern n) (ns_hostname n)) (s_clock s + days 7) actor
      (upd_db (seed_capabilities (srv_id row) actor) (upd_db (\<lambda>d. (put_server row d)\<lparr>d_server_ids := d_server_ids d @ [srv_id row], d_next_server := srv_id row + 1\<rparr>) s)) = Inr (e, s3)"
    and s': "server_part (s_db s') = server_part (s_db s3)"
    using eq by (auto simp: create_server_def Let_def rbind_eq_Inr server_frame row_def split: if_splits)
  let ?d1 = "(put_server row (s_db s))\<lparr>d_server_ids := d_server_ids (s_db s) @ [srv_id row], d_next_server := srv_id row + 1\<rparr>"
  have "server_step (s_db s) ?d1" by (rule add_server_step[OF row])
  moreover have "server_step ?d1 (seed_capabilities (srv_id row) actor ?d1)" by (rule server_part_step[OF server_part_writers(7)])
  moreover have "server_step (seed_capabilities (srv_id row) actor ?d1) (s_db s3)"
    using insert_enrollment_step[OF ins] by (simp add: upd_db_def)
  ultimately show "server_step (s_db s) (s_db s')"
    using server_part_step[OF s'] by (blast intro: server_run.trans_step)
qed

lemma get_server_Inr: "get_server s sid lab = Inr v \<longleftrightarrow> d_servers (s_db s) sid = Some v \<and> srv_lab_id v = lab"
  by (auto simp: get_server_def split: option.splits)

text \<open>A row replaced by a development of it, found by its key.\<close>

lemma put_found_step:
  assumes "d_servers d sid = Some v" and "server_dev v v'" and "server_sane v \<Longrightarrow> server_sane v'"
  shows "server_step d (put_server v' d)"
proof (rule step_okI)
  assume ok: "servers_ok d"
  have "srv_id v' = sid" using assms(2) server_key[OF ok assms(1)] by (simp add: server_dev_def)
  with put_server_step[of d v' v] assms ok show "servers_ok (put_server v' d) \<and> servers_dev d (put_server v' d)"
    by (simp add: step_ok_def)
qed

lemma delete_server_step: "settles servers_ok servers_dev s (delete_server sid lab actor ctx s)"
  by (auto simp: settles_def delete_server_def rbind_eq_Inr get_server_Inr Let_def upd_db_def server_dev_def server_sane_def
      intro!: server_audited put_found_step)

lemma approve_server_step: "settles servers_ok servers_dev s (approve_server sid lab actor conn ctx s)"
  unfolding settles_def
proof (intro allI impI)
  fix x s' assume eq: "approve_server sid lab actor conn ctx s = Inr (x, s')"
  then obtain v where v: "d_servers (s_db s) sid = Some v" "srv_is_active v" "srv_agent_token_hash v \<noteq> None" "srv_lab_id v = lab"
    by (auto simp: approve_server_def rbind_eq_Inr get_server_Inr split: if_splits)
  define s1 where "s1 = (if srv_approved_at v = None then server_audit ''server.approve'' (Some actor) lab ''server'' (srv_id v) (srv_id v)
      (Some [(''hostname'', JStr (srv_hostname v)), (''agent_version'', jstring (srv_agent_version v)),
             (''last_heartbeat_at'', jopt (\<lambda>t. JTime (dt_naive t)) (srv_last_heartbeat_at v)),
             (''connected_at_approval'', JBool conn)]) ctx s else s)"
  have s1: "server_part (s_db s1) = server_part (s_db s)" by (simp add: s1_def server_frame)
  have s': "s_db s' = put_server x (s_db s1)"
    using eq v by (auto simp: approve_server_def get_server_def Let_def s1_def upd_db_def)
  have x: "server_dev v x" "server_sane v \<Longrightarrow> server_sane x"
    using eq v by (auto simp: approve_server_def get_server_def Let_def server_dev_def server_sane_def split: if_splits)
  have "d_servers (s_db s1) sid = Some v" using s1 v(1) by (simp add: server_part_def)
  from put_found_step[OF this x] server_part_step[OF s1] s'
  show "server_step (s_db s) (s_db s')" by (metis server_run.trans_step)
qed

lemma regenerate_step: "settles servers_ok servers_dev s (regenerate_enrollment_token env pt sid lab actor s)"
  unfolding settles_def
proof (intro allI impI)
  fix x s' assume eq: "regenerate_enrollment_token env pt sid lab actor s = Inr (x, s')"
  then obtain v where v: "d_servers (s_db s) sid = Some v" by (auto simp: regenerate_enrollment_token_def rbind_eq_Inr get_server_Inr)
  define live :: "enrollment_token \<Rightarrow> bool" where "live t \<longleftrightarrow> en_lab_id t = lab \<and> (case en_expected_hostname_pattern t of None \<Rightarrow> False | Some h \<Rightarrow> se_coll env h (srv_hostname v))
      \<and> en_used_at t = None \<and> en_expires_at t > s_clock s" for t
  obtain row s2 where
    ins: "insert_enrollment env pt lab (srv_hostname v) (s_clock s + days 7) actor
       (upd_db (\<lambda>d. d\<lparr>d_enrollments := map (\<lambda>t. if live t then t\<lparr>en_expires_at := s_clock s\<rparr> else t) (d_enrollments d)\<rparr>) s) = Inr (row, s2)"
    and s': "server_part (s_db s') = server_part (s_db s2)"
    using eq v by (auto simp: regenerate_enrollment_token_def rbind_eq_Inr get_server_Inr Let_def server_frame live_def split: if_splits)
  let ?d = "(s_db s)\<lparr>d_enrollments := map (\<lambda>t. if live t then t\<lparr>en_expires_at := s_clock s\<rparr> else t) (d_enrollments (s_db s))\<rparr>"
  have "server_step (s_db s) ?d"
    by (rule enrollments_step[of _ _ "\<lambda>t. if live t then t\<lparr>en_expires_at := s_clock s\<rparr> else t" "[]"])
      (simp_all add: token_dev_def live_def)
  moreover have "server_step ?d (s_db s2)" using insert_enrollment_step[OF ins] by (simp add: upd_db_def)
  ultimately show "server_step (s_db s) (s_db s')" using server_part_step[OF s'] by (blast intro: server_run.trans_step)
qed

lemma server_part_admin:
  "grant_admin sid uid nts actor lab ctx s = Inr (g, s') \<Longrightarrow> server_part (s_db s') = server_part (s_db s)"
  "revoke_admin sid uid actor lab ctx s = Inr (x, s') \<Longrightarrow> server_part (s_db s') = server_part (s_db s)"
  "update_capability coll sid key en nts actor lab ctx s = Inr (c, s') \<Longrightarrow> server_part (s_db s') = server_part (s_db s)"
proof -
  show "grant_admin sid uid nts actor lab ctx s = Inr (g, s') \<Longrightarrow> server_part (s_db s') = server_part (s_db s)"
    by (auto simp: grant_admin_def Let_def upd_db_def server_frame split: if_splits) (simp add: server_part_def)
  show "revoke_admin sid uid actor lab ctx s = Inr (x, s') \<Longrightarrow> server_part (s_db s') = server_part (s_db s)"
    by (auto simp: revoke_admin_def rbind_eq_Inr Let_def upd_db_def server_frame split: option.splits)
  show "update_capability coll sid key en nts actor lab ctx s = Inr (c, s') \<Longrightarrow> server_part (s_db s') = server_part (s_db s)"
    by (auto simp: update_capability_def rbind_eq_Inr Let_def upd_db_def server_frame split: option.splits if_splits)
qed

text \<open>The enrollment: the token is bound to the server, the server to the token.\<close>

lemma authenticate_cases:
  assumes "authenticate_agent env sid token s = Inr (v, s')"
  obtains (known) h where "d_servers (s_db s) sid = Some v" "srv_is_active v" "srv_agent_token_hash v = Some h" "se_checkpw env token h" "s' = s"
  | (enrolled) v0 t where "d_servers (s_db s) sid = Some v0" "srv_is_active v0" "srv_agent_token_hash v0 = None"
      "t \<in> set (d_enrollments (s_db s))" "en_token_hash t = se_hash_token env token" "en_lab_id t = srv_lab_id v0"
      "en_used_at t = None \<or> en_used_by_server_id t = Some sid" "s_clock s < en_expires_at t"
      "v = v0\<lparr>srv_agent_token_hash := Some (se_hashpw env token)\<rparr>"
      "s' = upd_db (put_enrollment (t\<lparr>en_used_at := Some (s_clock s), en_used_by_server_id := Some sid\<rparr>) \<circ> put_server v) s"
proof -
  from assms obtain v0 where v0: "d_servers (s_db s) sid = Some v0" "srv_is_active v0"
    by (auto simp: authenticate_agent_def split: option.splits if_splits)
  show thesis
  proof (cases "srv_agent_token_hash v0")
    case (Some h)
    with assms v0 show thesis by (auto simp: authenticate_agent_def split: if_splits intro: known)
  next
    case None
    with assms v0 obtain t where t: "one_or_none AgentAuthUncaught
        (filter (\<lambda>t. en_token_hash t = se_hash_token env token \<and> en_lab_id t = srv_lab_id v0) (d_enrollments (s_db s))) = Inr (Some t)"
      and r: "en_used_at t = None \<or> en_used_by_server_id t = Some sid" "s_clock s < en_expires_at t"
        "v = v0\<lparr>srv_agent_token_hash := Some (se_hashpw env token)\<rparr>"
        "s' = upd_db (put_enrollment (t\<lparr>en_used_at := Some (s_clock s), en_used_by_server_id := Some sid\<rparr>) \<circ> put_server v) s"
      by (auto simp: authenticate_agent_def rbind_eq_Inr Let_def split: option.splits if_splits)
    from t have "t \<in> set (filter (\<lambda>t. en_token_hash t = se_hash_token env token \<and> en_lab_id t = srv_lab_id v0) (d_enrollments (s_db s)))"
      by (simp add: one_or_none_Some)
    with None v0 r show thesis by (intro enrolled) auto
  qed
qed

lemma authenticate_agent_step: "settles servers_ok servers_dev s (authenticate_agent env sid token s)"
  unfolding settles_def
proof (intro allI impI)
  fix v s' assume eq: "authenticate_agent env sid token s = Inr (v, s')"
  then show "server_step (s_db s) (s_db s')"
  proof (cases rule: authenticate_cases)
    case known
    then show ?thesis by simp
  next
    case (enrolled v0 t)
    show ?thesis
    proof (rule step_okI)
      assume ok: "servers_ok (s_db s)"
      have id: "srv_id v0 = sid" using server_key[OF ok enrolled(1)] .
      have unused: "en_used_at t = None"
      proof (rule ccontr)
        assume u: "en_used_at t \<noteq> None"
        with ok enrolled(4) have "enrolled_by (s_db s) t" by (simp add: servers_ok_def)
        with u enrolled(1,3,7) show False by (auto simp: enrolled_by_def)
      qed
      let ?t = "t\<lparr>en_used_at := Some (s_clock s), en_used_by_server_id := Some sid\<rparr>"
      have v: "server_dev v0 v" "server_sane v0 \<Longrightarrow> server_sane v"
        using enrolled(3) by (auto simp: enrolled(9) server_dev_def server_sane_def)
      have 1: "servers_ok (put_server v (s_db s))" "servers_dev (s_db s) (put_server v (s_db s))"
        using put_found_step[OF enrolled(1) v] ok by (simp_all add: step_ok_def)
      have E: "d_enrollments (put_server v (s_db s)) = d_enrollments (s_db s)" by (simp add: put_server_def)
      have srv: "d_servers (put_server v (s_db s)) sid = Some v" using id by (simp add: put_server_def enrolled(9))
      let ?d = "put_enrollment ?t (put_server v (s_db s))"
      have rows: "d_enrollments ?d = map (\<lambda>u. if en_id u = en_id t then ?t else u) (d_enrollments (s_db s))"
        by (simp add: put_enrollment_def row_put_def E)
      have same: "u = t" if "u \<in> set (d_enrollments (s_db s))" "en_id u = en_id t" for u
        using ok that enrolled(4) unfolding servers_ok_def by (metis inj_on_def distinct_map)
      have maps: "map en_id (d_enrollments ?d) = map en_id (d_enrollments (s_db s))"
        "map en_token_hash (d_enrollments ?d) = map en_token_hash (d_enrollments (s_db s))"
        unfolding rows using same by (auto simp: comp_def)
      have eb: "enrolled_by ?d u = enrolled_by (put_server v (s_db s)) u" for u by (simp add: enrolled_by_def put_enrollment_def)
      have "en_id u < d_next_enrollment ?d \<and> (en_used_at u \<noteq> None \<longrightarrow> enrolled_by ?d u)" if "u \<in> set (d_enrollments ?d)" for u
      proof (cases "u = ?t")
        case True
        with srv ok enrolled(4) show ?thesis
          by (auto simp: eb enrolled_by_def enrolled(9) put_enrollment_def put_server_def servers_ok_def)
      next
        case False
        with that have "u \<in> set (d_enrollments (put_server v (s_db s)))" unfolding rows E by auto
        moreover have "d_next_enrollment ?d = d_next_enrollment (put_server v (s_db s))" by (simp add: put_enrollment_def)
        ultimately show ?thesis using 1(1) unfolding eb servers_ok_def by auto
      qed
      moreover have "d_servers ?d = d_servers (put_server v (s_db s))" "d_server_ids ?d = d_server_ids (put_server v (s_db s))"
        "d_next_server ?d = d_next_server (put_server v (s_db s))" by (simp_all add: put_enrollment_def)
      ultimately have "servers_ok ?d" using 1(1) ok maps unfolding servers_ok_def by simp
      moreover have "\<exists>u' \<in> set (d_enrollments ?d). token_dev u u'" if "u \<in> set (d_enrollments (s_db s))" for u
        using that unused same[OF that] unfolding rows
        by (intro bexI[of _ "if en_id u = en_id t then ?t else u"]) (auto simp: token_dev_def)
      moreover have "d_servers ?d = d_servers (put_server v (s_db s))" by (simp add: put_enrollment_def)
      ultimately show "servers_ok (s_db s') \<and> servers_dev (s_db s) (s_db s')"
        using 1(2) unfolding servers_dev_def enrolled(10) by (simp add: upd_db_def)
    qed
  qed
qed

lemma heartbeat_step: "server_step (s_db s) (s_db (snd (mark_heartbeat sid ver s)))"
proof (cases "d_servers (s_db s) sid")
  case (Some v)
  let ?v2 = "case ver of None \<Rightarrow> v\<lparr>srv_last_heartbeat_at := Some (s_clock s)\<rparr> | Some x \<Rightarrow> v\<lparr>srv_last_heartbeat_at := Some (s_clock s), srv_agent_version := Some x\<rparr>"
  let ?v3 = "if srv_approved_at ?v2 \<noteq> None \<and> srv_is_active ?v2 then ?v2\<lparr>srv_status := Online\<rparr> else ?v2"
  have "server_dev v ?v3" "server_sane v \<Longrightarrow> server_sane ?v3"
    by (auto simp: server_dev_def server_sane_def split: option.split)
  from put_found_step[OF Some this] show ?thesis
    by (auto simp: mark_heartbeat_def Some Let_def upd_db_def split: option.split if_splits)
qed (simp add: mark_heartbeat_def)

lemma offline_step: "server_step (s_db s) (s_db (mark_offline sid lab s))"
  by (auto simp: mark_offline_def upd_db_def server_dev_def server_sane_def split: option.split
      intro!: server_audited put_found_step)

end
