(* ===== verification/Connection_Props.thy ===== *)
theory Connection_Props
  imports Server_Props
begin

text \<open>
  The backend process as a transition system: handshakes, frames, ends of connections and the server endpoints.
  Its runs keep the servers legal, and the pool holds for a server an open connection of that server or a socket that died in its handshake.
\<close>

section \<open>One step\<close>

lemma connect_audit_part [server_frame]: "server_part (s_db (connect_audit a v s)) = server_part (s_db s)"
  by (simp add: connect_audit_def server_frame)

lemma authenticate_clean: "authenticate_agent env sid token s = Inr (v, s') \<Longrightarrow> s_dirty s' = s_dirty s"
  by (erule authenticate_cases) (simp_all add: upd_db_def)

lemma heartbeat_clean: "s_dirty (snd (mark_heartbeat sid ver s)) = s_dirty s"
  by (auto simp: mark_heartbeat_def Let_def upd_db_def split: option.split)

lemma connect_audit_clean [simp]: "s_dirty (connect_audit a v s) = s_dirty s"
  by (simp add: connect_audit_def server_audit_def audit_write_def)

text \<open>
  A handshake behind the authentication, unfolded: it opens the connection, or it leaves a dead socket. No commit
  fails by itself.
\<close>

lemma connect_agentE:
  assumes "connect_agent env uenv broken uid now sid token ws pushes b = Some b'"
  obtains v s where "authenticate_agent env sid token (open_session (bk_db b) now) = Inr (v, s)"
    and "bk_hub b' = snd (hub_register sid ws (bk_hub b))" and "bk_kills b' = bk_kills b"
    and "(bk_open b' = (bk_open b)(ws \<mapsto> \<lparr>cx_server_id = sid, cx_lab_id = srv_lab_id v\<rparr>) \<and> bk_dead b' = bk_dead b
        \<and> bk_db b' = s_db (connect_audit (fst (mark_heartbeat sid None (open_session (s_db s) now))) v
        (snd (mark_heartbeat sid None (open_session (s_db s) now)))))
      \<or> (bk_open b' = bk_open b \<and> bk_dead b' = insert ws (bk_dead b) \<and> bk_db b' = s_db s)"
proof -
  from assms obtain v s where a: "authenticate_agent env sid token (open_session (bk_db b) now) = Inr (v, s)"
    by (auto simp: connect_agent_def split: sum.splits)
  have "s_dirty s = None" using authenticate_clean[OF a] by simp
  with assms a show thesis
    using heartbeat_clean[of sid None "open_session (s_db s) now"]
    by (intro that[OF a]) (auto simp: connect_agent_def Let_def split: prod.splits option.splits)
qed

lemma connect_step:
  assumes "connect_agent env uenv broken uid now sid token ws pushes b = Some b'"
  shows "server_step (bk_db b) (bk_db b')"
proof -
  from assms obtain v s where a: "authenticate_agent env sid token (open_session (bk_db b) now) = Inr (v, s)"
    and d: "bk_db b' = s_db (connect_audit (fst (mark_heartbeat sid None (open_session (s_db s) now))) v
        (snd (mark_heartbeat sid None (open_session (s_db s) now)))) \<or> bk_db b' = s_db s" by (rule connect_agentE) blast
  have one: "server_step (bk_db b) (s_db s)" using settlesD[OF authenticate_agent_step a] by simp
  have two: "server_step (s_db s) (s_db (connect_audit ap v (snd (mark_heartbeat sid None (open_session (s_db s) now)))))" for ap
    using server_run.trans_step[OF heartbeat_step[of "open_session (s_db s) now" sid None] server_part_step[OF connect_audit_part]] by simp
  from d one two show ?thesis by (auto intro: server_run.trans_step)
qed

lemma committed_step:
  assumes "\<And>s. m = Inr s \<Longrightarrow> server_step (bk_db b) (s_db s)"
  shows "server_step (bk_db b) (bk_db (snd (committed b m)))"
  using assms by (auto simp: committed_def rbind_eq_Inr split: sum.split intro: server_run.trans_step server_run.commit_ok)

lemma committed_sel [simp]: "bk_hub (snd (committed b m)) = bk_hub b" "bk_open (snd (committed b m)) = bk_open b"
    "bk_dead (snd (committed b m)) = bk_dead b"
  by (simp_all add: committed_def split: sum.split)

lemma operate_step: "server_step (bk_db b) (bk_db (snd (operate coll now c f b)))"
proof (cases f)
  case (ScriptFinishedFrame e)
  show ?thesis
  proof (cases "on_script_finished e (cx_lab_id c) (bk_kills b) (open_session (bk_db b) now)")
    case (Inr r)
    then obtain k s where r: "on_script_finished e (cx_lab_id c) (bk_kills b) (open_session (bk_db b) now) = Inr (k, s)" by (cases r) auto
    from server_part_step[OF server_part_finished[OF r]]
    have "server_step (bk_db (b\<lparr>bk_kills := k\<rparr>)) (bk_db (snd (committed (b\<lparr>bk_kills := k\<rparr>) (Inr s))))"
      by (intro committed_step) simp
    with r show ?thesis by (simp add: ScriptFinishedFrame finished_frame_def)
  qed (simp add: ScriptFinishedFrame finished_frame_def)
next
  case (HeartbeatFrame v)
  then show ?thesis using heartbeat_step[of "open_session (bk_db b) now" "cx_server_id c" "Some v"] by (auto intro!: committed_step)
next
  case (TelemetryFrame gs)
  then show ?thesis
    using server_part_step[OF server_part_telemetry[of "cx_server_id c" gs "open_session (bk_db b) now"]] by (auto intro!: committed_step)
next
  case (AccountScanFrame es)
  then show ?thesis
    using server_part_step[OF server_part_scan[of coll "cx_server_id c" "cx_lab_id c" es now "bk_db b"]]
    by (auto simp: scan_frame_def split: prod.split)
next
  case (ScriptStartedFrame e)
  then show ?thesis using server_part_step[OF server_part_started] by (fastforce intro!: committed_step)
next
  case (ScriptOutputFrame e)
  then show ?thesis using server_part_step[OF server_part_output] by (fastforce intro!: committed_step)
next
  case (ViolationFrame e)
  then show ?thesis
    using server_part_step[OF server_part_violation[of e "cx_lab_id c" "open_session (bk_db b) now"]]
    by (auto simp: violation_step_def split: prod.split)
qed simp_all

lemma operate_sel [simp]: "bk_hub (snd (operate coll now c f b)) = bk_hub b" "bk_open (snd (operate coll now c f b)) = bk_open b"
    "bk_dead (snd (operate coll now c f b)) = bk_dead b"
  by (cases f; simp add: scan_frame_def finished_frame_def violation_step_def split: prod.split sum.split)+

lemma handle_step: "server_step (bk_db b) (bk_db (snd (handle_frame coll now c f b)))"
  using operate_step by (simp add: handle_frame_def)

lemma handle_sel [simp]: "bk_hub (snd (handle_frame coll now c f b)) = bk_hub b" "bk_open (snd (handle_frame coll now c f b)) = bk_open b"
    "bk_dead (snd (handle_frame coll now c f b)) = bk_dead b"
  by (simp_all add: handle_frame_def)

lemma offline_clean [simp]: "s_dirty (mark_offline sid lab s) = s_dirty s"
  by (simp add: mark_offline_def server_audit_def audit_write_def upd_db_def split: option.split)

lemma leave_loop_open:
  assumes "bk_open b ws = Some c"
  shows "leave_loop now ws b = b\<lparr>bk_db := s_db (mark_offline (cx_server_id c) (cx_lab_id c) (open_session (bk_db b) now)),
    bk_hub := hub_unregister (cx_server_id c) ws (bk_hub b), bk_open := (bk_open b)(ws := None)\<rparr>"
  using assms by (simp add: leave_loop_def Let_def)

lemma leave_step: "server_step (bk_db b) (bk_db (leave_loop now ws b))"
proof (cases "bk_open b ws")
  case (Some c)
  then show ?thesis using offline_step[of "open_session (bk_db b) now"] by (simp add: leave_loop_open)
qed (simp add: leave_loop_def)

lemma receive_step: "server_step (bk_db b) (bk_db (receive_frame coll now ws f b))"
  using handle_step[of b coll now _ f] leave_step[of _ now ws]
  by (auto simp: receive_frame_def split: option.split prod.split intro: server_run.trans_step) (metis server_run.trans_step snd_conv)+

section \<open>Runs of the process\<close>

text \<open>The requests to the server endpoints; the approval looks into the pool for the agent.\<close>

inductive server_request :: "server_env \<Rightarrow> hub \<Rightarrow> db \<Rightarrow> db \<Rightarrow> bool" for env pool where
  create: "server_request env pool d (snd (end_request d (create_server_ep env pt u n (open_session d now))))"
| delete: "server_request env pool d (snd (end_request d (delete_server_ep env u sid (open_session d now))))"
| regenerate: "server_request env pool d (snd (end_request d (regenerate_ep env pt u sid (open_session d now))))"
| approve: "server_request env pool d (snd (end_request d (approve_server_ep env (\<lambda>i. pool i \<noteq> None) u sid (open_session d now))))"
| grant: "server_request env pool d (snd (end_request d (grant_admin_ep env u sid uid nts (open_session d now))))"
| revoke: "server_request env pool d (snd (end_request d (revoke_admin_ep env u sid uid (open_session d now))))"
| capability: "server_request env pool d (snd (update_capability_ep env rpc u sid key en nts (open_session d now)))"

inductive backend_step :: "server_env \<Rightarrow> url_env \<Rightarrow> (string \<Rightarrow> string \<Rightarrow> bool) \<Rightarrow> backend \<Rightarrow> backend \<Rightarrow> bool" for env uenv coll where
  connect: "bk_open b ws = None \<Longrightarrow> (\<And>i. bk_hub b i \<noteq> Some ws) \<Longrightarrow> ws \<notin> bk_dead b \<Longrightarrow>
    connect_agent env uenv broken uid now sid token ws pushes b = Some b' \<Longrightarrow>
    backend_step env uenv coll b b'"
| receive: "backend_step env uenv coll b (receive_frame coll now ws f b)"
| leave: "backend_step env uenv coll b (leave_loop now ws b)"
| request: "server_request env (bk_hub b) (bk_db b) d' \<Longrightarrow> backend_step env uenv coll b (b\<lparr>bk_db := d'\<rparr>)"

lemma server_outcome_step: "settles servers_ok servers_dev s m \<Longrightarrow> server_step (s_db s) (s_db (snd (server_outcome m s)))"
  by (auto simp: server_outcome_def settles_def split: sum.split)

lemma by_lab_admin_step:
  "(\<And>s. server_step (s_db s) (s_db (snd (f s)))) \<Longrightarrow> server_step (s_db s) (s_db (snd (by_lab_admin u f s)))"
  by (simp add: by_lab_admin_def split: sum.split)

lemma admin_part_step:
  "(\<And>x s'. m = Inr (x, s') \<Longrightarrow> server_part (s_db s') = server_part (s_db s)) \<Longrightarrow> settles servers_ok servers_dev s m"
  by (auto simp: settles_def intro: server_part_step)

lemma server_request_step: "server_request env pool d d' \<Longrightarrow> server_step d d'"
proof (induction rule: server_request.induct)
  case (create d pt u n now)
  have "server_step (s_db s) (s_db (snd (create_server_ep env pt u n s)))" for s
    unfolding create_server_ep_def by (intro by_lab_admin_step server_outcome_step create_server_step)
  from this[of "open_session d now"] show ?case by (intro server_run.request_step) simp
next
  case (delete d u sid now)
  have "server_step (s_db s) (s_db (snd (delete_server_ep env u sid s)))" for s
    unfolding delete_server_ep_def by (intro by_lab_admin_step server_outcome_step delete_server_step)
  from this[of "open_session d now"] show ?case by (intro server_run.request_step) simp
next
  case (regenerate d pt u sid now)
  have "server_step (s_db s) (s_db (snd (regenerate_ep env pt u sid s)))" for s
    unfolding regenerate_ep_def by (intro by_lab_admin_step server_outcome_step regenerate_step)
  from this[of "open_session d now"] show ?case by (intro server_run.request_step) simp
next
  case (approve d u sid now)
  have "server_step (s_db s) (s_db (snd (approve_server_ep env (\<lambda>i. pool i \<noteq> None) u sid s)))" for s
    unfolding approve_server_ep_def by (intro by_lab_admin_step server_outcome_step approve_server_step)
  from this[of "open_session d now"] show ?case by (intro server_run.request_step) simp
next
  case (grant d u sid uid nts now)
  have "server_step (s_db s) (s_db (snd (grant_admin_ep env u sid uid nts s)))" for s
    unfolding grant_admin_ep_def
    by (rule by_lab_admin_step)
      (simp split: sum.split, intro allI impI, rule server_outcome_step, rule admin_part_step, erule server_part_admin(1))
  from this[of "open_session d now"] show ?case by (intro server_run.request_step) simp
next
  case (revoke d u sid uid now)
  have "server_step (s_db s) (s_db (snd (revoke_admin_ep env u sid uid s)))" for s
    unfolding revoke_admin_ep_def
    by (rule by_lab_admin_step) (auto split: sum.split option.split prod.split intro: server_part_step dest: server_part_admin(2))
  from this[of "open_session d now"] show ?case by (intro server_run.request_step) simp
next
  case (capability d rpc u sid key en nts now)
  have ended: "server_step d (snd (end_request d (Inl e, open_session d now)))" for e
    by (intro server_run.request_step) simp
  have flip: "server_step d x" if "update_capability coll' i k e no a lab ctx (open_session d now) = Inr (c, s')" "commit s' = Inr x"
    for coll' i k e no a lab ctx c s' x
    using server_run.trans_step[OF server_part_step[OF server_part_admin(3)[OF that(1)]] server_run.commit_ok[OF that(2)]] by simp
  show ?case
    by (auto simp: update_capability_ep_def split: sum.split prod.split intro: ended flip)
qed

lemma backend_step_ok: "backend_step env uenv coll b b' \<Longrightarrow> server_step (bk_db b) (bk_db b')"
  by (induction rule: backend_step.induct) (auto intro: connect_step receive_step leave_step server_request_step)

lemma backend_runs_ok:
  assumes "(backend_step env uenv coll)\<^sup>*\<^sup>* b b'"
  shows "server_step (bk_db b) (bk_db b')"
  using assms by (induction rule: rtranclp_induct) (auto intro: server_run.trans_step backend_step_ok)

section \<open>The pool\<close>

text \<open>
  The pool names for a server an open connection of that server or a dead socket, and connections are those of enrolled servers.
\<close>

definition pool_ok :: "backend \<Rightarrow> bool" where
  "pool_ok b \<longleftrightarrow> (\<forall>i ws. bk_hub b i = Some ws \<longrightarrow> (\<exists>c. bk_open b ws = Some c \<and> cx_server_id c = i) \<or> ws \<in> bk_dead b)
     \<and> (\<forall>ws \<in> bk_dead b. bk_open b ws = None)
     \<and> (\<forall>ws c. bk_open b ws = Some c \<longrightarrow> (\<exists>v. d_servers (bk_db b) (cx_server_id c) = Some v \<and> srv_lab_id v = cx_lab_id c
          \<and> srv_agent_token_hash v \<noteq> None))"

lemma pool_ok_dev:
  assumes "pool_ok b" and "servers_dev (bk_db b) d'" and "b' = b\<lparr>bk_db := d'\<rparr> \<or> (bk_hub b' = bk_hub b \<and> bk_open b' = bk_open b \<and> bk_dead b' = bk_dead b \<and> bk_db b' = d')"
  shows "pool_ok b'"
proof -
  from assms(3) have b': "bk_hub b' = bk_hub b" "bk_open b' = bk_open b" "bk_dead b' = bk_dead b" "bk_db b' = d'" by auto
  have "\<exists>v. d_servers d' (cx_server_id c) = Some v \<and> srv_lab_id v = cx_lab_id c \<and> srv_agent_token_hash v \<noteq> None"
    if c: "bk_open b ws = Some c" for ws c
  proof -
    from assms(1) c obtain v where v: "d_servers (bk_db b) (cx_server_id c) = Some v" "srv_lab_id v = cx_lab_id c" "srv_agent_token_hash v \<noteq> None"
      unfolding pool_ok_def by blast
    from assms(2) v(1) obtain v' where "d_servers d' (cx_server_id c) = Some v'" "server_dev v v'" unfolding servers_dev_def by blast
    with v show ?thesis by (auto simp: server_dev_def)
  qed
  with assms(1) show ?thesis unfolding pool_ok_def b' by blast
qed

lemma pool_ok_leave:
  assumes "pool_ok b" and "servers_ok (bk_db b)"
  shows "pool_ok (leave_loop now ws b)"
proof (cases "bk_open b ws")
  case (Some c)
  from leave_step[of b now ws] assms(2) have dev: "servers_dev (bk_db b) (bk_db (leave_loop now ws b))" by (simp add: step_ok_def)
  define b1 where "b1 = b\<lparr>bk_db := bk_db (leave_loop now ws b)\<rparr>"
  have ok: "pool_ok b1" using pool_ok_dev[OF assms(1) dev, of b1] by (simp add: b1_def)
  have eq: "bk_db (leave_loop now ws b) = bk_db b1" "bk_hub (leave_loop now ws b) = hub_unregister (cx_server_id c) ws (bk_hub b1)"
    "bk_open (leave_loop now ws b) = (bk_open b1)(ws := None)" "bk_dead (leave_loop now ws b) = bk_dead b1"
    using Some by (simp_all add: b1_def leave_loop_open)
  have alive: "ws \<notin> bk_dead b1" using Some assms(1) unfolding pool_ok_def b1_def by auto
  have mine: "cx_server_id c = i" if "bk_hub b1 i = Some ws" for i
  proof -
    from that assms(1) alive obtain c' where "bk_open b ws = Some c'" "cx_server_id c' = i" unfolding pool_ok_def b1_def by auto
    with Some show ?thesis by simp
  qed
  have hub: "bk_hub b1 i = Some w \<and> w \<noteq> ws" if "hub_unregister (cx_server_id c) ws (bk_hub b1) i = Some w" for i w
    using that mine[of i] by (auto simp: hub_unregister_def split: if_splits)
  have "(\<exists>c'. ((bk_open b1)(ws := None)) w = Some c' \<and> cx_server_id c' = i) \<or> w \<in> bk_dead b1"
    if "hub_unregister (cx_server_id c) ws (bk_hub b1) i = Some w" for i w
    using hub[OF that] ok unfolding pool_ok_def by auto
  moreover have "\<exists>v. d_servers (bk_db b1) (cx_server_id c') = Some v \<and> srv_lab_id v = cx_lab_id c' \<and> srv_agent_token_hash v \<noteq> None"
    if "((bk_open b1)(ws := None)) w = Some c'" for w c'
    using that ok unfolding pool_ok_def by (auto split: if_splits)
  moreover have "\<forall>w \<in> bk_dead b1. ((bk_open b1)(ws := None)) w = None" using ok unfolding pool_ok_def by auto
  ultimately show ?thesis unfolding pool_ok_def eq by blast
qed (use assms in \<open>simp add: leave_loop_def\<close>)

lemma pool_ok_connect:
  assumes "pool_ok b" and "servers_ok (bk_db b)" and "bk_open b ws = None" and "ws \<notin> bk_dead b"
    and "connect_agent env uenv broken uid now sid token ws pushes b = Some b'"
  shows "pool_ok b'"
proof -
  from assms(5) obtain v s where a: "authenticate_agent env sid token (open_session (bk_db b) now) = Inr (v, s)"
    and hub: "bk_hub b' = snd (hub_register sid ws (bk_hub b))"
    and cases: "(bk_open b' = (bk_open b)(ws \<mapsto> \<lparr>cx_server_id = sid, cx_lab_id = srv_lab_id v\<rparr>) \<and> bk_dead b' = bk_dead b
        \<and> bk_db b' = s_db (connect_audit (fst (mark_heartbeat sid None (open_session (s_db s) now))) v
        (snd (mark_heartbeat sid None (open_session (s_db s) now)))))
      \<or> (bk_open b' = bk_open b \<and> bk_dead b' = insert ws (bk_dead b) \<and> bk_db b' = s_db s)" by (rule connect_agentE)
  from connect_step[OF assms(5)] assms(2) have dev: "servers_dev (bk_db b) (bk_db b')" by (simp add: step_ok_def)
  define b1 where "b1 = b\<lparr>bk_db := bk_db b'\<rparr>"
  have ok1: "pool_ok b1" using pool_ok_dev[OF assms(1) dev, of b1] by (simp add: b1_def)
  have pool: "bk_hub b' i = (if i = sid then Some ws else bk_hub b i)" for i using hub by (auto simp: hub_register_def split: option.splits)
  from cases show ?thesis
  proof (elim disjE conjE)
    assume "bk_open b' = bk_open b" "bk_dead b' = insert ws (bk_dead b)"
    with ok1 pool assms(3) show ?thesis unfolding pool_ok_def b1_def by auto
  next
    assume opened: "bk_open b' = (bk_open b)(ws \<mapsto> \<lparr>cx_server_id = sid, cx_lab_id = srv_lab_id v\<rparr>)" and dead: "bk_dead b' = bk_dead b"
      and d: "bk_db b' = s_db (connect_audit (fst (mark_heartbeat sid None (open_session (s_db s) now))) v
        (snd (mark_heartbeat sid None (open_session (s_db s) now))))"
    have at: "d_servers (s_db s) sid = Some v \<and> srv_agent_token_hash v \<noteq> None"
      using a
    proof (cases rule: authenticate_cases)
      case (enrolled v0 t)
      then show ?thesis using server_key[OF assms(2), of sid v0] by (simp add: upd_db_def put_enrollment_def put_server_def)
    qed auto
    have ok: "servers_ok (s_db s)" using settlesD[OF authenticate_agent_step a] assms(2) by (simp add: step_ok_def)
    have "servers_dev (s_db s) (bk_db b')"
      using heartbeat_step[of "open_session (s_db s) now" sid None] ok server_part_dev[OF connect_audit_part] unfolding d
      by (metis servers_dev_trans session.select_convs(1) open_session_def step_ok_def)
    with at obtain v' where v': "d_servers (bk_db b') sid = Some v'" "srv_lab_id v' = srv_lab_id v" "srv_agent_token_hash v' \<noteq> None"
      unfolding servers_dev_def server_dev_def by metis
    have "(\<exists>c. bk_open b' w = Some c \<and> cx_server_id c = i) \<or> w \<in> bk_dead b'" if "bk_hub b' i = Some w" for i w
    proof (cases "i = sid")
      case True
      with that pool opened show ?thesis by simp
    next
      case False
      with that pool have "bk_hub b i = Some w" by simp
      with assms(1,3) opened dead show ?thesis unfolding pool_ok_def by fastforce
    qed
    moreover have "\<exists>u. d_servers (bk_db b') (cx_server_id c) = Some u \<and> srv_lab_id u = cx_lab_id c \<and> srv_agent_token_hash u \<noteq> None"
      if "bk_open b' w = Some c" for w c
    proof (cases "w = ws")
      case True
      with that opened have "c = \<lparr>cx_server_id = sid, cx_lab_id = srv_lab_id v\<rparr>" by simp
      with v' show ?thesis by simp
    next
      case False
      with that opened have "bk_open b1 w = Some c" by (simp add: b1_def)
      with ok1 show ?thesis unfolding pool_ok_def b1_def by auto
    qed
    moreover have "\<forall>w \<in> bk_dead b'. bk_open b' w = None" using assms(1,4) opened dead unfolding pool_ok_def by auto
    ultimately show ?thesis unfolding pool_ok_def by blast
  qed
qed

lemma pool_ok_step:
  assumes "backend_step env uenv coll b b'" and "pool_ok b" and "servers_ok (bk_db b)"
  shows "pool_ok b'"
  using assms(1)
proof cases
  case (connect ws broken uid now sid token pushes)
  then show ?thesis using pool_ok_connect[OF assms(2,3)] by blast
next
  case (receive now ws f)
  show ?thesis
  proof (cases "bk_open b ws")
    case (Some c)
    obtain going b1 where h: "handle_frame coll now c f b = (going, b1)" by fastforce
    have dev: "servers_ok (bk_db b1)" "servers_dev (bk_db b) (bk_db b1)" using handle_step[of b coll now c f] assms(3) h by (simp_all add: step_ok_def)
    have "bk_hub b1 = bk_hub b" "bk_open b1 = bk_open b" "bk_dead b1 = bk_dead b" using handle_sel[of coll now c f b] h by simp_all
    with pool_ok_dev[OF assms(2) dev(2), of b1] have "pool_ok b1" by simp
    with receive Some h pool_ok_leave[OF _ dev(1)] show ?thesis by (simp add: receive_frame_def)
  qed (use receive assms in \<open>simp add: receive_frame_def\<close>)
next
  case (leave now ws)
  then show ?thesis using pool_ok_leave[OF assms(2,3)] by simp
next
  case (request d')
  from server_request_step[OF request(2)] assms(3) have "servers_dev (bk_db b) d'" by (simp add: step_ok_def)
  from pool_ok_dev[OF assms(2) this] request(1) show ?thesis by blast
qed

lemma pool_runs_ok:
  assumes "(backend_step env uenv coll)\<^sup>*\<^sup>* b b'" and "pool_ok b" and "servers_ok (bk_db b)"
  shows "pool_ok b' \<and> servers_ok (bk_db b')"
  using assms
proof (induction rule: rtranclp_induct)
  case (step c d)
  then have "pool_ok c" "servers_ok (bk_db c)" by simp_all
  with step(2) pool_ok_step backend_step_ok[OF step(2)] show ?case by (simp add: step_ok_def)
qed simp

end
