(* ===== verification/Guarantees_Servers.thy ===== *)
theory Guarantees_Servers
  imports Connection_Props Script_Props Scenario
begin

text \<open>
  What enrollment, approval and the websocket of the agents guarantee: which states a server can be in, what an agent
  may do before it is approved, that an enrollment is for good, and what the end of an old connection does to the new one.
\<close>

section \<open>Scenario\<close>

text \<open>
  A server that was created and not yet enrolled, with its token; the hash of a token is the token, a password
  matches its own hash.
\<close>

definition sc_env :: server_env where
  "sc_env = \<lparr>se_coll = (=), se_hash_token = id, se_checkpw = (=), se_hashpw = id, se_ctx = no_ctx\<rparr>"

definition sc_fresh_server :: server where
  "sc_fresh_server = sc_server\<lparr>srv_status := Pending, srv_approved_at := None, srv_approved_by_user_id := None\<rparr>"

definition sc_token :: enrollment_token where
  "sc_token = \<lparr>en_id = 1, en_lab_id = 1, en_token_hash = ''secret-token'', en_expected_hostname_pattern = Some ''node'',
     en_expires_at = hour, en_used_at = None, en_used_by_server_id = None, en_created_at = 0, en_created_by_user_id = 9\<rparr>"

definition sc_unenrolled :: db where
  "sc_unenrolled = (sc_db [] 1)\<lparr>d_servers := [1 \<mapsto> sc_fresh_server], d_enrollments := [sc_token], d_next_enrollment := 2\<rparr>"

definition sc_approved_db :: db where
  "sc_approved_db = (sc_db [] 1)\<lparr>d_servers := [1 \<mapsto> sc_server\<lparr>srv_agent_token_hash := Some ''secret-token''\<rparr>]\<rparr>"

definition sc_process :: "db \<Rightarrow> backend" where
  "sc_process d = \<lparr>bk_db = d, bk_hub = Map.empty,
     bk_rpc = \<lparr>rp_pending = Map.empty, rp_futures = Map.empty, rp_optional = []\<rparr>,
     bk_kills = \<lparr>kr_waiting = Map.empty, kr_set = {}, kr_next = 0\<rparr>, bk_open = Map.empty, bk_dead = {}\<rparr>"

definition sc_stamps :: url_env where
  "sc_stamps = \<lparr>uv_str = (\<lambda>_. []), uv_iso = (\<lambda>_. []), uv_fromiso = (\<lambda>_. None)\<rparr>"

lemmas sc_process_defs = sc_process_def sc_unenrolled_def sc_approved_db_def sc_fresh_server_def sc_token_def sc_env_def sc_defs

lemma sc_unenrolled_ok: "servers_ok sc_unenrolled"
  by (simp add: servers_ok_def keyed_def server_sane_def sc_process_defs)

lemma sc_approved_ok: "servers_ok sc_approved_db"
  by (simp add: servers_ok_def keyed_def server_sane_def sc_process_defs)

lemma sc_pool_ok: "pool_ok (sc_process d)"
  by (simp add: pool_ok_def sc_process_def)

lemma no_urls_kept: "lab_public_urls l = [] \<Longrightarrow> agent_urls_only uenv now l = Some []"
  by (simp add: agent_urls_only_def load_entries_def parse_entries_def List.map_filter_def)

lemma sc_connects: "\<exists>b. connect_agent sc_env sc_stamps False ''f'' 5 1 ''secret-token'' 7 [] (sc_process sc_unenrolled) = Some b \<and> bk_open b 7 \<noteq> None"
  by (simp add: connect_agent_def authenticate_agent_def sc_process_defs one_or_none_def commit_def upd_db_def put_server_def
      put_enrollment_def mark_heartbeat_def Let_def connect_audit_def server_audit_def audit_write_def urls_on_connect_def row_by_def no_urls_kept)

lemma sc_approved_connects: "\<exists>b. connect_agent sc_env sc_stamps False ''f'' t 1 ''secret-token'' ws [] ((sc_process sc_approved_db)\<lparr>bk_open := conns, bk_hub := pool\<rparr>) = Some b
    \<and> ws \<notin> bk_dead b"
  by (simp add: connect_agent_def authenticate_agent_def sc_process_defs commit_def upd_db_def put_server_def
      mark_heartbeat_def Let_def connect_audit_def server_audit_def audit_write_def urls_on_connect_def row_by_def no_urls_kept)

section \<open>The states of a server\<close>

text \<open>
  C29. Along every run of handshakes, frames, ends of connections and server requests: an online server is active and
  approved, an approved server is enrolled; an approval, an enrollment and a deletion are for good; a token that was used names
  an enrolled server and never changes; the pool names, for a server, an open connection of that server or a socket whose
  handshake failed behind the entry into the pool, which is not open; and every open connection is one of an enrolled server
  and its lab.
\<close>

theorem servers_stay_legal:
  assumes "servers_ok (bk_db b)" and "pool_ok b" and "(backend_step env uenv coll)\<^sup>*\<^sup>* b b'"
  shows "(\<forall>i v. d_servers (bk_db b') i = Some v \<longrightarrow> (srv_status v = Online \<longrightarrow> srv_is_active v \<and> srv_approved_at v \<noteq> None)
        \<and> (srv_approved_at v \<noteq> None \<longrightarrow> srv_agent_token_hash v \<noteq> None))
    \<and> (\<forall>i v. d_servers (bk_db b) i = Some v \<longrightarrow> (\<exists>v'. d_servers (bk_db b') i = Some v'
        \<and> (srv_approved_at v \<noteq> None \<longrightarrow> srv_approved_at v' = srv_approved_at v)
        \<and> (srv_agent_token_hash v \<noteq> None \<longrightarrow> srv_agent_token_hash v' = srv_agent_token_hash v)
        \<and> (\<not> srv_is_active v \<longrightarrow> \<not> srv_is_active v')))
    \<and> (\<forall>t \<in> set (d_enrollments (bk_db b)). en_used_at t \<noteq> None \<longrightarrow> t \<in> set (d_enrollments (bk_db b')))
    \<and> (\<forall>t \<in> set (d_enrollments (bk_db b')). en_used_at t \<noteq> None \<longrightarrow> enrolled_by (bk_db b') t)
    \<and> (\<forall>i ws. bk_hub b' i = Some ws \<longrightarrow> (\<exists>c. bk_open b' ws = Some c \<and> cx_server_id c = i) \<or> ws \<in> bk_dead b' \<and> bk_open b' ws = None)
    \<and> (\<forall>ws c. bk_open b' ws = Some c \<longrightarrow> (\<exists>v. d_servers (bk_db b') (cx_server_id c) = Some v \<and> srv_lab_id v = cx_lab_id c
        \<and> srv_agent_token_hash v \<noteq> None))"
proof -
  from pool_runs_ok[OF assms(3,2,1)] have ok: "pool_ok b'" "servers_ok (bk_db b')" by simp_all
  from backend_runs_ok[OF assms(3)] assms(1) have dev: "servers_dev (bk_db b) (bk_db b')" by (simp add: step_ok_def)
  show ?thesis
  proof (intro conjI)
    show "\<forall>i v. d_servers (bk_db b') i = Some v \<longrightarrow> (srv_status v = Online \<longrightarrow> srv_is_active v \<and> srv_approved_at v \<noteq> None)
        \<and> (srv_approved_at v \<noteq> None \<longrightarrow> srv_agent_token_hash v \<noteq> None)"
      using server_saneD[OF ok(2)] unfolding server_sane_def by blast
    show "\<forall>i v. d_servers (bk_db b) i = Some v \<longrightarrow> (\<exists>v'. d_servers (bk_db b') i = Some v'
        \<and> (srv_approved_at v \<noteq> None \<longrightarrow> srv_approved_at v' = srv_approved_at v)
        \<and> (srv_agent_token_hash v \<noteq> None \<longrightarrow> srv_agent_token_hash v' = srv_agent_token_hash v)
        \<and> (\<not> srv_is_active v \<longrightarrow> \<not> srv_is_active v'))"
      using dev unfolding servers_dev_def server_dev_def by meson
    show "\<forall>t \<in> set (d_enrollments (bk_db b)). en_used_at t \<noteq> None \<longrightarrow> t \<in> set (d_enrollments (bk_db b'))"
      using dev unfolding servers_dev_def token_dev_def by metis
    show "\<forall>t \<in> set (d_enrollments (bk_db b')). en_used_at t \<noteq> None \<longrightarrow> enrolled_by (bk_db b') t"
      using ok(2) unfolding servers_ok_def by blast
  qed (use ok(1) in \<open>unfold pool_ok_def, blast+\<close>)
qed

theorem servers_stay_legal_witness:
  "\<exists>b c. connect_agent sc_env sc_stamps False ''f'' 5 1 ''secret-token'' 7 [] (sc_process sc_unenrolled) = Some b \<and> bk_open b 7 = Some c
    \<and> (\<exists>v. d_servers (bk_db b) (cx_server_id c) = Some v \<and> srv_agent_token_hash v \<noteq> None)"
proof -
  obtain b where b: "connect_agent sc_env sc_stamps False ''f'' 5 1 ''secret-token'' 7 [] (sc_process sc_unenrolled) = Some b"
    and opened: "bk_open b 7 \<noteq> None" using sc_connects by blast
  have "backend_step sc_env sc_stamps (=) (sc_process sc_unenrolled) b"
    by (rule backend_step.connect[OF _ _ _ b]) (simp_all add: sc_process_def)
  then have run: "(backend_step sc_env sc_stamps (=))\<^sup>*\<^sup>* (sc_process sc_unenrolled) b" by (rule r_into_rtranclp)
  have "servers_ok (bk_db (sc_process sc_unenrolled))" using sc_unenrolled_ok by (simp add: sc_process_def)
  note legal = servers_stay_legal[OF this sc_pool_ok run]
  from opened obtain c where "bk_open b 7 = Some c" by blast
  with legal b show ?thesis by meson
qed

text \<open>
  A handshake whose second session fails leaves its socket in the pool, where nothing reads it and nothing takes it out but
  another handshake of the same server.
\<close>

theorem failed_handshake_stays_in_the_pool:
  assumes "authenticate_agent env sid token (open_session (bk_db b) now) = Inr (v, s)" and "bk_open b ws = None"
  shows "\<exists>b'. connect_agent env uenv True uid now sid token ws pushes b = Some b' \<and> bk_hub b' sid = Some ws
    \<and> receive_frame coll later ws f b' = b' \<and> leave_loop later ws b' = b'"
proof -
  have "s_dirty s = None" using authenticate_clean[OF assms(1)] by simp
  then have "\<exists>b'. connect_agent env uenv True uid now sid token ws pushes b = Some b' \<and> bk_hub b' sid = Some ws \<and> bk_open b' ws = None"
    using assms by (auto simp: connect_agent_def Let_def hub_register_def split: prod.split option.split)
  then show ?thesis by (auto simp: receive_frame_def leave_loop_def)
qed

section \<open>Before the approval\<close>

text \<open>
  A frame from an agent whose server is not approved changes nothing: a heartbeat sets the time and the version
  of the server and not its state, a response reaches no request, every other frame is dropped, a frame that cannot be read ends
  the connection.
\<close>

theorem waiting_agent_changes_nothing:
  assumes "d_servers (bk_db b) (cx_server_id c) = Some v" and "srv_approved_at v = None \<or> \<not> srv_is_active v"
  shows "handle_frame coll now c f b = (case f of
      HeartbeatFrame ver \<Rightarrow> (True, b\<lparr>bk_db := put_server (v\<lparr>srv_last_heartbeat_at := Some now, srv_agent_version := Some ver\<rparr>) (bk_db b)\<rparr>)
    | BadFrame \<Rightarrow> (False, b)
    | _ \<Rightarrow> (True, b))"
proof -
  have "\<not> is_server_approved (open_session (bk_db b) now) (cx_server_id c)" using assms by (auto simp: is_server_approved_def)
  moreover have "snd (mark_heartbeat (cx_server_id c) (Some ver) (open_session (bk_db b) now))
      = upd_db (put_server (v\<lparr>srv_last_heartbeat_at := Some now, srv_agent_version := Some ver\<rparr>)) (open_session (bk_db b) now)" for ver
    using assms by (auto simp: mark_heartbeat_def Let_def)
  ultimately show ?thesis
    by (cases f) (simp_all add: handle_frame_def committed_def commit_def upd_db_def)
qed

theorem waiting_agent_changes_nothing_witness:
  "handle_frame (=) 5 \<lparr>cx_server_id = 1, cx_lab_id = 1\<rparr> (TelemetryFrame [(0, Some 8000)]) (sc_process sc_unenrolled)
    = (True, sc_process sc_unenrolled)"
  using waiting_agent_changes_nothing[of "sc_process sc_unenrolled" "\<lparr>cx_server_id = 1, cx_lab_id = 1\<rparr>" sc_fresh_server "(=)" 5 "TelemetryFrame [(0, Some 8000)]"]
  by (simp add: sc_process_defs)

section \<open>Enrollment\<close>

lemma connected_server:
  assumes "connect_agent env uenv broken uid now sid token ws pushes b = Some b'" and "servers_ok (bk_db b)"
    and "d_servers (bk_db b) sid = Some v" and "srv_agent_token_hash v = None"
  shows "\<exists>v'. d_servers (bk_db b') sid = Some v' \<and> srv_agent_token_hash v' = Some (se_hashpw env token)"
proof -
  from assms(1) obtain w s where a: "authenticate_agent env sid token (open_session (bk_db b) now) = Inr (w, s)"
    and d: "bk_db b' = s_db (connect_audit (fst (mark_heartbeat sid None (open_session (s_db s) now))) w
        (snd (mark_heartbeat sid None (open_session (s_db s) now)))) \<or> bk_db b' = s_db s" by (rule connect_agentE) blast
  have ok: "servers_ok (s_db s)" using settlesD[OF authenticate_agent_step a] assms(2) by (simp add: step_ok_def)
  from a have w: "d_servers (s_db s) sid = Some w \<and> srv_agent_token_hash w = Some (se_hashpw env token)"
  proof (cases rule: authenticate_cases)
    case (enrolled v0 t)
    with assms(3) have "srv_id v0 = sid" using server_key[OF assms(2), of sid v0] by simp
    with enrolled show ?thesis by (simp add: upd_db_def put_enrollment_def put_server_def)
  qed (use assms in simp)
  from d show ?thesis
  proof
    assume d: "bk_db b' = s_db (connect_audit (fst (mark_heartbeat sid None (open_session (s_db s) now))) w
        (snd (mark_heartbeat sid None (open_session (s_db s) now))))"
    have "servers_dev (s_db s) (bk_db b')"
      using heartbeat_step[of "open_session (s_db s) now" sid None] ok
        server_part_step[OF connect_audit_part[of "fst (mark_heartbeat sid None (open_session (s_db s) now))" w "snd (mark_heartbeat sid None (open_session (s_db s) now))"]]
      by (auto simp: d step_ok_def intro: servers_dev_trans)
    with w show ?thesis unfolding servers_dev_def server_dev_def by (metis option.distinct(1))
  qed (use w in simp)
qed

text \<open>
  An enrollment is for good: once an agent was enrolled with a token, a handshake for the server succeeds, at any
  later point of any run, only with a token that matches the hash of the first one. A token that is generated for the server
  afterwards enrols nobody.
\<close>

theorem enrollment_is_for_good:
  assumes "servers_ok (bk_db b)" and "d_servers (bk_db b) sid = Some v" and "srv_agent_token_hash v = None"
    and "connect_agent env uenv broken uid now sid token ws pushes b = Some b1" and "(backend_step env uenv coll)\<^sup>*\<^sup>* b1 b2"
    and "connect_agent env uenv' broken' uid' now' sid token' ws' pushes' b2 = Some b3"
  shows "se_checkpw env token' (se_hashpw env token)"
proof -
  obtain v1 where v1: "d_servers (bk_db b1) sid = Some v1" "srv_agent_token_hash v1 = Some (se_hashpw env token)"
    using connected_server[OF assms(4,1-3)] by blast
  have "servers_ok (bk_db b1)" using connect_step[OF assms(4)] assms(1) by (simp add: step_ok_def)
  with backend_runs_ok[OF assms(5)] have "servers_dev (bk_db b1) (bk_db b2)" by (simp add: step_ok_def)
  with v1 obtain v2 where v2: "d_servers (bk_db b2) sid = Some v2" "srv_agent_token_hash v2 = Some (se_hashpw env token)"
    unfolding servers_dev_def server_dev_def by (metis option.distinct(1))
  from assms(6) obtain w s where "authenticate_agent env sid token' (open_session (bk_db b2) now') = Inr (w, s)" by (rule connect_agentE)
  then show ?thesis by (cases rule: authenticate_cases) (use v2 in simp_all)
qed

theorem enrollment_is_for_good_witness:
  "\<exists>b. connect_agent sc_env sc_stamps False ''f'' 5 1 ''secret-token'' 7 [] (sc_process sc_unenrolled) = Some b
    \<and> connect_agent sc_env sc_stamps False ''f'' 6 1 ''another-token'' 8 [] b = None"
proof -
  obtain b where b: "connect_agent sc_env sc_stamps False ''f'' 5 1 ''secret-token'' 7 [] (sc_process sc_unenrolled) = Some b" using sc_connects by blast
  have "connect_agent sc_env sc_stamps False ''f'' 6 1 ''another-token'' 8 [] b = None"
  proof (rule ccontr)
    assume "connect_agent sc_env sc_stamps False ''f'' 6 1 ''another-token'' 8 [] b \<noteq> None"
    then obtain b3 where b3: "connect_agent sc_env sc_stamps False ''f'' 6 1 ''another-token'' 8 [] b = Some b3" by blast
    have "servers_ok (bk_db (sc_process sc_unenrolled))" "d_servers (bk_db (sc_process sc_unenrolled)) 1 = Some sc_fresh_server"
      "srv_agent_token_hash sc_fresh_server = None" using sc_unenrolled_ok by (simp_all add: sc_process_def) (simp_all add: sc_process_defs)
    from enrollment_is_for_good[OF this b rtranclp.rtrancl_refl b3] show False by (simp add: sc_env_def)
  qed
  with b show ?thesis by blast
qed

section \<open>The end of an old connection\<close>

lemma heartbeat_at:
  assumes "d_servers d sid = Some v" and "srv_id v = sid" and "srv_is_active v" and "srv_approved_at v \<noteq> None"
  shows "d_servers (s_db (snd (mark_heartbeat sid None (open_session d now)))) sid
    = Some (v\<lparr>srv_last_heartbeat_at := Some now, srv_status := Online\<rparr>)"
  using assms by (auto simp: mark_heartbeat_def Let_def upd_db_def put_server_def)

text \<open>
  When an agent connects again while its old connection is still open, the old one is closed; its end leaves
  the new connection in the pool and marks the server offline all the same, with an audit row that says so.
\<close>

theorem old_connection_marks_offline:
  assumes "servers_ok (bk_db b)" and "d_servers (bk_db b) sid = Some v" and "srv_approved_at v \<noteq> None"
    and "bk_open b old = Some c" and "cx_server_id c = sid" and "old \<noteq> new"
    and "connect_agent env uenv broken uid now sid token new pushes b = Some b1"
    and "new \<notin> bk_dead b1"
  shows "bk_hub (leave_loop later old b1) sid = Some new
    \<and> (\<exists>v'. d_servers (bk_db b1) sid = Some v' \<and> srv_status v' = Online)
    \<and> (\<exists>v'. d_servers (bk_db (leave_loop later old b1)) sid = Some v' \<and> srv_status v' = Offline)
    \<and> au_action (last (d_audit (bk_db (leave_loop later old b1)))) = ''server.offline''"
proof -
  from assms(7) obtain w s where a: "authenticate_agent env sid token (open_session (bk_db b) now) = Inr (w, s)"
    and hub: "bk_hub b1 = snd (hub_register sid new (bk_hub b))"
    and opened: "bk_open b1 = (bk_open b)(new \<mapsto> \<lparr>cx_server_id = sid, cx_lab_id = srv_lab_id w\<rparr>)"
    and d: "bk_db b1 = s_db (connect_audit (fst (mark_heartbeat sid None (open_session (s_db s) now))) w
        (snd (mark_heartbeat sid None (open_session (s_db s) now))))" using assms(8) by (elim connect_agentE) auto
  have "srv_agent_token_hash v \<noteq> None" using server_saneD[OF assms(1,2)] assms(3) by (simp add: server_sane_def)
  with a assms(2) have w: "s_db s = bk_db b" "srv_is_active v"
    by (cases rule: authenticate_cases; simp)+
  have id: "srv_id v = sid" by (rule server_key[OF assms(1,2)])
  have "d_servers (bk_db b1) = d_servers (s_db (snd (mark_heartbeat sid None (open_session (s_db s) now))))"
    using connect_audit_part unfolding d server_part_def by blast
  with heartbeat_at[OF assms(2) id w(2) assms(3), of now] w(1)
  have on: "d_servers (bk_db b1) sid = Some (v\<lparr>srv_last_heartbeat_at := Some now, srv_status := Online\<rparr>)" by simp
  have "bk_open b1 old = Some c" using opened assms(4,6) by simp
  note gone = leave_loop_open[OF this, of later]
  have "bk_hub b1 sid = Some new" using hub by (auto simp: hub_register_def split: option.split)
  with assms(5,6) have "bk_hub (leave_loop later old b1) sid = Some new" by (simp add: gone hub_unregister_def)
  moreover have "bk_db (leave_loop later old b1) = s_db (mark_offline sid (cx_lab_id c) (open_session (bk_db b1) later))"
    by (simp add: gone assms(5))
  ultimately show ?thesis using on assms(3) id
    by (auto simp: mark_offline_def server_audit_def audit_write_def upd_db_def put_server_def audit_of_def)
qed

theorem old_connection_marks_offline_witness:
  "\<exists>b. connect_agent sc_env sc_stamps False ''f'' 6 1 ''secret-token'' 8 [] ((sc_process sc_approved_db)\<lparr>bk_open := [7 \<mapsto> \<lparr>cx_server_id = 1, cx_lab_id = 1\<rparr>], bk_hub := [1 \<mapsto> 7]\<rparr>) = Some b
    \<and> bk_hub (leave_loop 9 7 b) 1 = Some 8"
proof -
  let ?b = "(sc_process sc_approved_db)\<lparr>bk_open := [7 \<mapsto> \<lparr>cx_server_id = 1, cx_lab_id = 1\<rparr>], bk_hub := [1 \<mapsto> 7]\<rparr>"
  obtain b where b: "connect_agent sc_env sc_stamps False ''f'' 6 1 ''secret-token'' 8 [] ?b = Some b" "8 \<notin> bk_dead b"
    using sc_approved_connects by blast
  have "servers_ok (bk_db ?b)" using sc_approved_ok by (simp add: sc_process_def)
  moreover have "d_servers (bk_db ?b) 1 = Some (sc_server\<lparr>srv_agent_token_hash := Some ''secret-token''\<rparr>)"
    "srv_approved_at (sc_server\<lparr>srv_agent_token_hash := Some ''secret-token''\<rparr>) \<noteq> None"
    "bk_open ?b 7 = Some \<lparr>cx_server_id = 1, cx_lab_id = 1\<rparr>" by (simp_all add: sc_process_defs)
  ultimately have "bk_hub (leave_loop 9 7 b) 1 = Some 8"
    using old_connection_marks_offline[of ?b 1 _ 7 "\<lparr>cx_server_id = 1, cx_lab_id = 1\<rparr>" 8] b by fastforce
  with b show ?thesis by blast
qed

text \<open>
  The events of an agent are not tied to its server: the agent of any approved server of the lab ends the
  script of any reservation, and reports violations in the name of any server.
\<close>

theorem events_are_not_tied_to_a_server:
  assumes "is_server_approved (open_session (bk_db b) now) i" and "is_server_approved (open_session (bk_db b) now) j"
  shows "handle_frame coll now \<lparr>cx_server_id = i, cx_lab_id = lab\<rparr> (ScriptFinishedFrame e) b
      = handle_frame coll now \<lparr>cx_server_id = j, cx_lab_id = lab\<rparr> (ScriptFinishedFrame e) b
    \<and> handle_frame coll now \<lparr>cx_server_id = i, cx_lab_id = lab\<rparr> (ViolationFrame w) b
      = handle_frame coll now \<lparr>cx_server_id = j, cx_lab_id = lab\<rparr> (ViolationFrame w) b"
  using assms by (simp add: handle_frame_def finished_frame_def violation_step_def)

text \<open>
  A finished event that reports more than its columns hold, such as a log of 4 GiB, ends the connection, and the row keeps the
  running script.
\<close>

theorem large_log_ends_the_connection:
  assumes "db_wf (bk_db b)" and "bk_open b ws = Some c" and "is_server_approved (open_session (bk_db b) now) (cx_server_id c)"
    and "get_reservation (open_session (bk_db b) now) (sf_reservation_id e) = Some row" and "r_script_status row = Some S_Running"
    and "\<not> event_fits e"
  shows "receive_frame coll now ws (ScriptFinishedFrame e) b = leave_loop now ws b"
proof -
  have "on_script_finished e (cx_lab_id c) (bk_kills b) (open_session (bk_db b) now) = Inl DbFlushError"
    by (rule finished_overflow[OF _ assms(4-6)]) (simp add: assms(1))
  with assms(2,3) show ?thesis by (simp add: receive_frame_def handle_frame_def finished_frame_def)
qed

end
