(* ===== verification/Script_Runner.thy ===== *)
theory Script_Runner
  imports Script_Lifecycle Key_File Py_Text
begin

text \<open>
  \<open>agent/corelab_agent/script_runner.py\<close>: the scripts an agent has in flight, with the part of \<open>ws_client.py\<close> that calls
  it. The receive loop handles one request after the other; between its awaits the tasks of the running scripts, the
  pumps of their output and the delayed kills take their turns. Every turn is one action (\<open>runner_act\<close>). A run
  is named by the number of its entry, which is also the handle of its process; the log of pushed events and of commands
  carries that name. What the operating system answers is part of an action: the account database, the outcome of a
  spawn, of a signal, of a look at the log file. Logging is left out, and the content of log files; so is time: a wait may end
  by its limit at any turn. The output task that a \<open>finally\<close> clause stops ends in the same turn.
\<close>

section \<open>Requests and responses\<close>

record execute_request =
  xq_reservation_id :: int
  xq_linux_username :: string
  xq_script :: ustring
  xq_working_directory :: "string option"
  xq_env :: "(string \<times> string) list"
  xq_max_runtime_seconds :: "int option"
  xq_stdout_log_path_hint :: string

record execute_response =
  xr_ok :: bool
  xr_started :: bool
  xr_pid :: "int option"
  xr_log_path :: "string option"
  xr_error :: "string option"
  xr_mock_warning :: "string option"

record cancel_request =
  cq_reservation_id :: int
  cq_reason :: string

record cancel_response =
  cr_ok :: bool
  cr_cancelled :: bool
  cr_detail :: "string option"
  cr_mock_warning :: "string option"

definition execute_refused :: "string \<Rightarrow> execute_response" where
  "execute_refused e = \<lparr>xr_ok = False, xr_started = False, xr_pid = None, xr_log_path = None, xr_error = Some e, xr_mock_warning = None\<rparr>"

text \<open>\<open>model_dump(mode="json")\<close> of a response.\<close>

definition execute_payload :: "execute_response \<Rightarrow> payload" where
  "execute_payload r = [(''ok'', JBool (xr_ok r)), (''started'', JBool (xr_started r)), (''pid'', jopt JInt (xr_pid r)),
     (''log_path'', jopt JStr (xr_log_path r)), (''error'', jopt JStr (xr_error r)), (''mock_warning'', jopt JStr (xr_mock_warning r))]"

text \<open>What a request comes to: its response, or an exception that leaves the receive loop and with it the connection.\<close>

datatype runner_reply =
    ExecuteReply execute_response
  | CancelReply cancel_response
  | ConnectionLost

datatype runner_event =
    StartedPushed script_started_event
  | OutputPushed script_output_chunk_event
  | FinishedPushed script_finished_event

section \<open>The operating system\<close>

definition MIN_UID :: int where "MIN_UID = 1000"

definition script_capability :: string where "script_capability = ''script.execute_as_user''"

definition MOCK_LOG_DIR :: string where "MOCK_LOG_DIR = ''/tmp/corelab-agent/script-mock''"

text \<open>
  \<open>os_getpwnam\<close> is the uid of an account; the errors of the log file and of the spawn are the texts of their
  \<open>OSError\<close>s; \<open>os_platform\<close> and \<open>os_header\<close> are the names the mock shows.
\<close>

record script_os =
  os_getpwnam :: "string \<rightharpoonup> int"
  os_has_sudo :: bool
  os_mkdir :: "string option"
  os_touch :: "string option"
  os_spawn :: "string + int"
  os_getpid :: int
  os_platform :: string
  os_header :: string

datatype signal_result = SigSent | SigNoProcess | SigDenied

record command =
  cm_argv :: "ustring list"
  cm_env :: "(string \<times> string) list"
  cm_cwd :: "string option"

section \<open>State\<close>

record run_entry =
  re_process :: "nat option"
  re_started_at :: int
  re_log_path :: "string option"
  re_pid :: "int option"
  re_killed_reason :: "string option"

text \<open>
  Where the task \<open>_await_and_push\<close> of a run stands: it waits for the process (or the mock timer), for the process it
  has killed, for the end of the output with what it will report, for the end of its last push, or it is over.
\<close>

datatype run_phase =
    AwaitExit
  | AwaitKilled
  | AwaitOutput bool "int option"
  | Reporting
  | RunOver

record run_task =
  rt_request :: execute_request
  rt_phase :: run_phase
  rt_output_open :: bool

text \<open>What the receive loop is at: it waits for a frame, or it is inside \<open>execute\<close>.\<close>

datatype loop_state =
    LoopIdle
  | Launching execute_request
  | Announcing nat bool

text \<open>A shutdown that is under way: the runs it waits for, then the processes, and the one it has killed last.\<close>

record shutdown_call =
  sd_runs :: "nat list"
  sd_processes :: "nat list"
  sd_killed :: "nat option"

text \<open>\<open>rn_cancelled\<close> are the runs whose task was told to stop; the exception reaches it at its await.\<close>

record runner =
  rn_entries :: "nat \<rightharpoonup> run_entry"
  rn_runs :: "nat \<rightharpoonup> run_task"
  rn_next :: nat
  rn_running :: "(int \<times> nat) list"
  rn_tasks :: "(int \<times> nat) list"
  rn_returncode :: "nat \<rightharpoonup> int"
  rn_overdue :: "int list"
  rn_loop :: loop_state
  rn_pushed :: "(nat \<times> runner_event) list"
  rn_replies :: "runner_reply list"
  rn_commands :: "(nat \<times> command) list"
  rn_cancelled :: "nat set"
  rn_shutdowns :: "shutdown_call list"

definition new_runner :: runner where
  "new_runner = \<lparr>rn_entries = Map.empty, rn_runs = Map.empty, rn_next = 0, rn_running = [], rn_tasks = [],
     rn_returncode = Map.empty, rn_overdue = [], rn_loop = LoopIdle, rn_pushed = [], rn_replies = [], rn_commands = [],
     rn_cancelled = {}, rn_shutdowns = []\<rparr>"

definition dict_pop :: "'k \<Rightarrow> ('k \<times> 'v) list \<Rightarrow> ('k \<times> 'v) list" where
  "dict_pop k d = filter (\<lambda>p. fst p \<noteq> k) d"

definition put_entry :: "nat \<Rightarrow> run_entry \<Rightarrow> runner \<Rightarrow> runner" where
  "put_entry e x r = r\<lparr>rn_entries := (rn_entries r)(e \<mapsto> x)\<rparr>"

definition put_run :: "nat \<Rightarrow> run_task \<Rightarrow> runner \<Rightarrow> runner" where
  "put_run e x r = r\<lparr>rn_runs := (rn_runs r)(e \<mapsto> x)\<rparr>"

definition set_reason :: "nat \<Rightarrow> string option \<Rightarrow> runner \<Rightarrow> runner" where
  "set_reason e why r = (case rn_entries r e of None \<Rightarrow> r | Some x \<Rightarrow> put_entry e (x\<lparr>re_killed_reason := why\<rparr>) r)"

definition set_phase :: "nat \<Rightarrow> run_phase \<Rightarrow> runner \<Rightarrow> runner" where
  "set_phase e ph r = (case rn_runs r e of None \<Rightarrow> r | Some t \<Rightarrow> put_run e (t\<lparr>rt_phase := ph\<rparr>) r)"

definition push_run_event :: "nat \<Rightarrow> runner_event \<Rightarrow> runner \<Rightarrow> runner" where
  "push_run_event e ev r = r\<lparr>rn_pushed := rn_pushed r @ [(e, ev)]\<rparr>"

definition reply :: "runner_reply \<Rightarrow> runner \<Rightarrow> runner" where
  "reply x r = r\<lparr>rn_replies := rn_replies r @ [x], rn_loop := LoopIdle\<rparr>"

text \<open>\<open>entry.killed_reason or why\<close>.\<close>

definition reason_or :: "string option \<Rightarrow> string \<Rightarrow> string option" where
  "reason_or x why = (if str_truthy x then x else Some why)"

section \<open>Execute\<close>

definition resolve_user_or_error :: "script_os \<Rightarrow> string \<Rightarrow> string option" where
  "resolve_user_or_error os name = (case os_getpwnam os name of
      None \<Rightarrow> Some ''USER_NOT_FOUND''
    | Some uid \<Rightarrow> if uid < MIN_UID then Some ''UID_BELOW_THRESHOLD'' else None)"

text \<open>The checks of \<open>execute\<close> and \<open>_execute_linux\<close> before the first await.\<close>

definition execute_refusal :: "bool \<Rightarrow> agent_host \<Rightarrow> script_os \<Rightarrow> execute_request \<Rightarrow> runner \<Rightarrow> string option" where
  "execute_refusal mock h os q r =
    (if \<not> capability_enabled script_capability True h then Some ''CAPABILITY_DISABLED''
     else if map_of (rn_running r) (xq_reservation_id q) \<noteq> None then Some ''ALREADY_RUNNING''
     else if mock then None
     else case resolve_user_or_error os (xq_linux_username q) of
       Some e \<Rightarrow> Some e
     | None \<Rightarrow> if \<not> os_has_sudo os then Some ''SUDO_NOT_FOUND''
         else case os_mkdir os of None \<Rightarrow> None | Some e \<Rightarrow> Some (''LOG_DIR_MKDIR_FAILED: '' @ e))"

definition execute :: "bool \<Rightarrow> agent_host \<Rightarrow> script_os \<Rightarrow> execute_request \<Rightarrow> runner \<Rightarrow> runner" where
  "execute mock h os q r = (case execute_refusal mock h os q r of
      Some e \<Rightarrow> reply (ExecuteReply (execute_refused e)) r
    | None \<Rightarrow> r\<lparr>rn_loop := Launching q\<rparr>)"

definition script_command :: "execute_request \<Rightarrow> command" where
  "script_command q = \<lparr>cm_argv = map u_of [''sudo'', ''-u'', xq_linux_username q, ''-i'', ''/bin/bash'', ''-c''] @ [xq_script q],
     cm_env = dict_update [(''PATH'', ''/usr/local/bin:/usr/bin:/bin'')] (xq_env q), cm_cwd = xq_working_directory q\<rparr>"

text \<open>A new entry with its task, in both dictionaries.\<close>

definition register_run :: "execute_request \<Rightarrow> run_entry \<Rightarrow> bool \<Rightarrow> runner \<Rightarrow> runner" where
  "register_run q x out r = (let e = rn_next r in
     r\<lparr>rn_entries := (rn_entries r)(e \<mapsto> x),
       rn_runs := (rn_runs r)(e \<mapsto> \<lparr>rt_request = q, rt_phase = AwaitExit, rt_output_open = out\<rparr>), rn_next := e + 1,
       rn_running := dict_set (rn_running r) (xq_reservation_id q) e,
       rn_tasks := dict_set (rn_tasks r) (xq_reservation_id q) e, rn_loop := Announcing e False\<rparr>)"

definition launch_linux :: "script_os \<Rightarrow> int \<Rightarrow> execute_request \<Rightarrow> runner \<Rightarrow> runner" where
  "launch_linux os now q r = (case os_touch os of
      Some e \<Rightarrow> reply (ExecuteReply (execute_refused (''LOG_OPEN_FAILED: '' @ e))) r
    | None \<Rightarrow> (case os_spawn os of
        Inl e \<Rightarrow> reply (ExecuteReply (execute_refused (''SUBPROCESS_SPAWN_FAILED: '' @ e))) r
      | Inr pid \<Rightarrow> register_run q \<lparr>re_process = Some (rn_next r), re_started_at = now,
            re_log_path = Some (xq_stdout_log_path_hint q), re_pid = Some pid, re_killed_reason = None\<rparr> True
          (r\<lparr>rn_commands := rn_commands r @ [(rn_next r, script_command q)]\<rparr>)))"

definition mock_log_path :: "execute_request \<Rightarrow> string" where
  "mock_log_path q = MOCK_LOG_DIR @ ''/reservation-'' @ int_str (xq_reservation_id q) @ ''.log''"

definition launch_mock :: "int \<Rightarrow> execute_request \<Rightarrow> runner \<Rightarrow> runner" where
  "launch_mock now q r = register_run q \<lparr>re_process = None, re_started_at = now, re_log_path = Some (mock_log_path q),
     re_pid = None, re_killed_reason = None\<rparr> False r"

definition launch :: "bool \<Rightarrow> script_os \<Rightarrow> int \<Rightarrow> runner \<Rightarrow> runner option" where
  "launch mock os now r = (case rn_loop r of
      Launching q \<Rightarrow> Some (if mock then launch_mock now q r else launch_linux os now q r)
    | _ \<Rightarrow> None)"

definition started_event :: "script_os \<Rightarrow> run_entry \<Rightarrow> run_task \<Rightarrow> script_started_event" where
  "started_event os x t = \<lparr>ss_reservation_id = xq_reservation_id (rt_request t),
     ss_pid = (case re_pid x of Some pid \<Rightarrow> pid | None \<Rightarrow> os_getpid os), ss_started_at = dt_utc (re_started_at x),
     ss_log_path = re_log_path x\<rparr>"

definition execute_started :: "script_os \<Rightarrow> run_entry \<Rightarrow> execute_response" where
  "execute_started os x = \<lparr>xr_ok = True, xr_started = True, xr_pid = re_pid x, xr_log_path = re_log_path x, xr_error = None,
     xr_mock_warning = (if re_process x = None then Some (''MOCK-'' @ os_platform os @ ''-NO-SUBPROCESS'') else None)\<rparr>"

text \<open>The pushes behind the launch; the mock pushes its header as well. Then the response goes out.\<close>

definition announce :: "script_os \<Rightarrow> runner \<Rightarrow> runner option" where
  "announce os r = (case rn_loop r of
      Announcing e said \<Rightarrow> (case (rn_entries r e, rn_runs r e) of
          (Some x, Some t) \<Rightarrow>
            if \<not> said
            then (let r1 = push_run_event e (StartedPushed (started_event os x t)) r in
              Some (if re_process x = None then r1\<lparr>rn_loop := Announcing e True\<rparr>
                    else reply (ExecuteReply (execute_started os x)) r1))
            else Some (reply (ExecuteReply (execute_started os x))
              (push_run_event e (OutputPushed \<lparr>oc_reservation_id = xq_reservation_id (rt_request t), oc_text = u_of (os_header os)\<rparr>) r))
        | _ \<Rightarrow> None)
    | _ \<Rightarrow> None)"

section \<open>Cancel\<close>

definition cancel_answer :: "bool \<Rightarrow> string option \<Rightarrow> string option \<Rightarrow> cancel_response" where
  "cancel_answer done detail warning = \<lparr>cr_ok = True, cr_cancelled = done, cr_detail = detail, cr_mock_warning = warning\<rparr>"

text \<open>A signal that is not permitted raises \<open>PermissionError\<close>, which nothing on the way to the receive loop catches.\<close>

definition cancel :: "signal_result \<Rightarrow> cancel_request \<Rightarrow> runner \<Rightarrow> runner" where
  "cancel sig q r = (case map_of (rn_running r) (cq_reservation_id q) of
      None \<Rightarrow> reply (CancelReply (cancel_answer False (Some ''no live process for this reservation'') None)) r
    | Some e \<Rightarrow> (let r1 = set_reason e (Some (cq_reason q)) r in
        case rn_entries r e of
          None \<Rightarrow> r1
        | Some x \<Rightarrow> if re_process x = None then reply (CancelReply (cancel_answer True None (Some ''MOCK-MAC-NO-PROCESS''))) r1
            else (case sig of
                SigNoProcess \<Rightarrow> reply (CancelReply (cancel_answer False (Some ''already exited'') None)) r1
              | SigDenied \<Rightarrow> reply ConnectionLost r1
              | SigSent \<Rightarrow> reply (CancelReply (cancel_answer True None None))
                  (r1\<lparr>rn_overdue := rn_overdue r1 @ [cq_reservation_id q]\<rparr>))))"

text \<open>
  The delayed kill looks its reservation up again. A signal that is denied ends the delayed task alone, and the
  effect of one that is sent is an exit of the process, an action of its own: the runner stays as it is.
\<close>

definition sigkill_if_overdue :: "nat \<Rightarrow> runner \<Rightarrow> (nat option \<times> runner) option" where
  "sigkill_if_overdue i r = (if i < length (rn_overdue r)
     then Some ((case map_of (rn_running r) (rn_overdue r ! i) of
           None \<Rightarrow> None
         | Some e \<Rightarrow> (case rn_entries r e of None \<Rightarrow> None | Some x \<Rightarrow> (case re_process x of
               None \<Rightarrow> None | Some p \<Rightarrow> if rn_returncode r p = None then Some p else None))),
       r\<lparr>rn_overdue := take i (rn_overdue r) @ drop (Suc i) (rn_overdue r)\<rparr>)
     else None)"

section \<open>The task of a run\<close>

text \<open>\<open>finally\<close>: the output task is stopped and both dictionaries forget the reservation.\<close>

definition clean_up :: "nat \<Rightarrow> run_task \<Rightarrow> runner \<Rightarrow> runner" where
  "clean_up e t r = (put_run e (t\<lparr>rt_phase := RunOver, rt_output_open := False\<rparr>) r)
     \<lparr>rn_running := dict_pop (xq_reservation_id (rt_request t)) (rn_running r),
      rn_tasks := dict_pop (xq_reservation_id (rt_request t)) (rn_tasks r)\<rparr>"

text \<open>The wait for the process, or of the mock for its timer, is over.\<close>

definition exit_awaited :: "nat \<Rightarrow> runner \<Rightarrow> runner option" where
  "exit_awaited e r = (case (rn_entries r e, rn_runs r e) of
      (Some x, Some t) \<Rightarrow> (let killed = (re_killed_reason x \<noteq> None) in
        (case re_process x of
           None \<Rightarrow> if rt_phase t = AwaitExit
             then Some (set_phase e (AwaitOutput killed (Some (if killed then - 15 else 0))) r) else None
         | Some p \<Rightarrow> if rn_returncode r p = None then None
             else if rt_phase t = AwaitExit then Some (set_phase e (AwaitOutput killed (rn_returncode r p)) r)
             else if rt_phase t = AwaitKilled then Some (set_phase e (AwaitOutput True (rn_returncode r p)) r)
             else None))
    | _ \<Rightarrow> None)"

text \<open>\<open>wait_for\<close> gives up after the limit of the request; a denied signal leaves through \<open>finally\<close>, without an event.\<close>

definition runtime_over :: "nat \<Rightarrow> signal_result \<Rightarrow> runner \<Rightarrow> runner option" where
  "runtime_over e sig r = (case (rn_entries r e, rn_runs r e) of
      (Some x, Some t) \<Rightarrow>
        if re_process x \<noteq> None \<and> rt_phase t = AwaitExit \<and> xq_max_runtime_seconds (rt_request t) \<noteq> None
        then (let r1 = set_reason e (reason_or (re_killed_reason x) ''max_runtime'') r in
          Some (if sig = SigDenied then clean_up e t r1 else set_phase e AwaitKilled r1))
        else None
    | _ \<Rightarrow> None)"

definition finished_report :: "int \<Rightarrow> int option \<Rightarrow> run_entry \<Rightarrow> run_task \<Rightarrow> bool \<Rightarrow> int option \<Rightarrow> script_finished_event" where
  "finished_report now nbytes x t killed code = \<lparr>sf_reservation_id = xq_reservation_id (rt_request t), sf_exit_code = code,
     sf_finished_at = dt_utc now, sf_duration_seconds = of_int (now - re_started_at x) / 1000000,
     sf_output_size_bytes = (case re_log_path x of None \<Rightarrow> 0 | Some _ \<Rightarrow> (case nbytes of None \<Rightarrow> 0 | Some n \<Rightarrow> n)),
     sf_log_path = re_log_path x, sf_killed_by_corelab = killed, sf_killed_reason = re_killed_reason x\<rparr>"

definition report :: "nat \<Rightarrow> int \<Rightarrow> int option \<Rightarrow> runner \<Rightarrow> runner option" where
  "report e now nbytes r = (case (rn_entries r e, rn_runs r e) of
      (Some x, Some t) \<Rightarrow> (case rt_phase t of
          AwaitOutput killed code \<Rightarrow> if rt_output_open t then None
            else Some (set_phase e Reporting (push_run_event e (FinishedPushed (finished_report now nbytes x t killed code)) r))
        | _ \<Rightarrow> None)
    | _ \<Rightarrow> None)"

definition run_cleaned :: "nat \<Rightarrow> runner \<Rightarrow> runner option" where
  "run_cleaned e r = (case rn_runs r e of
      Some t \<Rightarrow> if rt_phase t = Reporting then Some (clean_up e t r) else None
    | None \<Rightarrow> None)"

section \<open>Output and exits\<close>

definition pump_chunk :: "nat \<Rightarrow> ustring \<Rightarrow> runner \<Rightarrow> runner option" where
  "pump_chunk e text r = (case rn_runs r e of
      Some t \<Rightarrow> if rt_output_open t
        then Some (push_run_event e (OutputPushed \<lparr>oc_reservation_id = xq_reservation_id (rt_request t), oc_text = text\<rparr>) r)
        else None
    | None \<Rightarrow> None)"

definition pump_ends :: "nat \<Rightarrow> runner \<Rightarrow> runner option" where
  "pump_ends e r = (case rn_runs r e of
      Some t \<Rightarrow> if rt_output_open t then Some (put_run e (t\<lparr>rt_output_open := False\<rparr>) r) else None
    | None \<Rightarrow> None)"

definition process_exits :: "nat \<Rightarrow> int \<Rightarrow> runner \<Rightarrow> runner option" where
  "process_exits p code r = (if p < rn_next r \<and> rn_returncode r p = None
     then Some (r\<lparr>rn_returncode := (rn_returncode r)(p \<mapsto> code)\<rparr>) else None)"

section \<open>Shutdown\<close>

text \<open>The entries in the order of the dictionary; \<^const>\<open>False\<close> where a denied signal stops the loop.\<close>

fun shut_entries :: "(nat \<Rightarrow> signal_result) \<Rightarrow> (int \<times> nat) list \<Rightarrow> runner \<Rightarrow> bool \<times> runner" where
  "shut_entries sig [] r = (True, r)"
| "shut_entries sig ((rid, e) # xs) r = (case rn_entries r e of
      None \<Rightarrow> shut_entries sig xs r
    | Some x \<Rightarrow> (let r1 = set_reason e (reason_or (re_killed_reason x) ''agent_shutdown'') r in
        case re_process x of
          None \<Rightarrow> shut_entries sig xs r1
        | Some p \<Rightarrow> if rn_returncode r p = None \<and> sig p = SigDenied then (False, r1) else shut_entries sig xs r1))"

definition end_run :: "run_task \<Rightarrow> run_task" where
  "end_run t = t\<lparr>rt_phase := RunOver, rt_output_open := False\<rparr>"

text \<open>The part before the first await: reasons and signals, then every task is told to stop.\<close>

definition shutdown :: "(nat \<Rightarrow> signal_result) \<Rightarrow> runner \<Rightarrow> runner" where
  "shutdown sig r = (if rn_tasks r = [] then r else (case shut_entries sig (rn_running r) r of
      (False, r1) \<Rightarrow> r1
    | (True, r1) \<Rightarrow> r1\<lparr>rn_cancelled := rn_cancelled r1 \<union> snd ` set (rn_tasks r1),
        rn_shutdowns := rn_shutdowns r1 @ [\<lparr>sd_runs = map snd (rn_tasks r1),
          sd_processes = List.map_filter (\<lambda>(_, e). Option.bind (rn_entries r1 e) re_process) (rn_running r1), sd_killed = None\<rparr>]\<rparr>))"

text \<open>
  The exception reaches a task: one that has begun leaves through \<open>finally\<close>; one that has not ends there, without it, so that the
  dictionaries keep its reservation and its output goes on.
\<close>

definition cancel_lands :: "nat \<Rightarrow> bool \<Rightarrow> runner \<Rightarrow> runner option" where
  "cancel_lands e begun r = (case rn_runs r e of
      None \<Rightarrow> None
    | Some t \<Rightarrow> if e \<notin> rn_cancelled r \<or> rt_phase t = RunOver then None
        else if begun then Some (clean_up e t r)
        else if rt_phase t = AwaitExit then Some (put_run e (t\<lparr>rt_phase := RunOver\<rparr>) r) else None)"

text \<open>\<open>gather\<close> has returned when all of its tasks are over.\<close>

definition all_over :: "runner \<Rightarrow> nat list \<Rightarrow> bool" where
  "all_over r es \<longleftrightarrow> list_all (\<lambda>e. case rn_runs r e of None \<Rightarrow> True | Some t \<Rightarrow> rt_phase t = RunOver) es"

definition running_process :: "runner \<Rightarrow> shutdown_call \<Rightarrow> nat option" where
  "running_process r c = List.find (\<lambda>p. rn_returncode r p = None) (sd_processes c)"

definition drop_shutdown :: "nat \<Rightarrow> runner \<Rightarrow> runner" where
  "drop_shutdown i r = r\<lparr>rn_shutdowns := take i (rn_shutdowns r) @ drop (Suc i) (rn_shutdowns r)\<rparr>"

text \<open>The wait for a process was too long; a signal that is denied ends the shutdown. The effect of one that is sent is an exit.\<close>

definition shutdown_kills :: "nat \<Rightarrow> signal_result \<Rightarrow> runner \<Rightarrow> runner option" where
  "shutdown_kills i sig r = (if i < length (rn_shutdowns r) \<and> all_over r (sd_runs (rn_shutdowns r ! i))
     then (let c = rn_shutdowns r ! i in case running_process r c of
         None \<Rightarrow> None
       | Some p \<Rightarrow> if sd_killed c = Some p then None
           else Some (if sig = SigDenied then drop_shutdown i r
             else r\<lparr>rn_shutdowns := (rn_shutdowns r)[i := c\<lparr>sd_killed := Some p\<rparr>]\<rparr>))
     else None)"

text \<open>All processes have ended: both dictionaries are cleared, of whatever is in them by now.\<close>

definition shutdown_ends :: "nat \<Rightarrow> runner \<Rightarrow> runner option" where
  "shutdown_ends i r = (if i < length (rn_shutdowns r) \<and> all_over r (sd_runs (rn_shutdowns r ! i))
       \<and> running_process r (rn_shutdowns r ! i) = None
     then Some ((drop_shutdown i r)\<lparr>rn_running := [], rn_tasks := []\<rparr>) else None)"

section \<open>Runs\<close>

datatype runner_action =
    GetExecute agent_host script_os execute_request
  | Launch script_os int
  | Announce script_os
  | GetCancel signal_result cancel_request
  | Overdue nat
  | ExitAwaited nat
  | RuntimeOver nat signal_result
  | Report nat int "int option"
  | Cleaned nat
  | Chunk nat ustring
  | OutputEnds nat
  | Exits nat int
  | Shutdown "nat \<Rightarrow> signal_result"
  | CancelLands nat bool
  | ShutdownKills nat signal_result
  | ShutdownEnds nat

text \<open>
  The receive loop takes a request when it has answered the one before; the other actions need no turn of it. A task that was
  told to stop does nothing else any more.
\<close>

definition unless_cancelled :: "nat \<Rightarrow> runner \<Rightarrow> runner option \<Rightarrow> runner option" where
  "unless_cancelled e r m = (if e \<in> rn_cancelled r then None else m)"

fun runner_act :: "bool \<Rightarrow> runner_action \<Rightarrow> runner \<Rightarrow> runner option" where
  "runner_act mock (GetExecute h os q) r = (if rn_loop r = LoopIdle then Some (execute mock h os q r) else None)"
| "runner_act mock (Launch os now) r = launch mock os now r"
| "runner_act mock (Announce os) r = announce os r"
| "runner_act mock (GetCancel sig q) r = (if rn_loop r = LoopIdle then Some (cancel sig q r) else None)"
| "runner_act mock (Overdue i) r = map_option snd (sigkill_if_overdue i r)"
| "runner_act mock (ExitAwaited e) r = unless_cancelled e r (exit_awaited e r)"
| "runner_act mock (RuntimeOver e sig) r = unless_cancelled e r (runtime_over e sig r)"
| "runner_act mock (Report e now nbytes) r = unless_cancelled e r (report e now nbytes r)"
| "runner_act mock (Cleaned e) r = unless_cancelled e r (run_cleaned e r)"
| "runner_act mock (Chunk e text) r = pump_chunk e text r"
| "runner_act mock (OutputEnds e) r = pump_ends e r"
| "runner_act mock (Exits p code) r = process_exits p code r"
| "runner_act mock (Shutdown sig) r = Some (shutdown sig r)"
| "runner_act mock (CancelLands e begun) r = cancel_lands e begun r"
| "runner_act mock (ShutdownKills i sig) r = shutdown_kills i sig r"
| "runner_act mock (ShutdownEnds i) r = shutdown_ends i r"

fun runner_acts :: "bool \<Rightarrow> runner_action list \<Rightarrow> runner \<Rightarrow> runner option" where
  "runner_acts mock [] r = Some r"
| "runner_acts mock (a # as) r = (case runner_act mock a r of None \<Rightarrow> None | Some r' \<Rightarrow> runner_acts mock as r')"

end
