(* ===== verification/Runner_Props.thy ===== *)
theory Runner_Props
  imports Script_Runner
begin

text \<open>
  Invariants of the script runner: \<open>runs_ok\<close> says what stands in the two dictionaries, \<open>tracked\<close> that every run which is not over
  does (until a shutdown forgets one), \<open>log_ok\<close> ties the reports to the exits of the processes and
  the kill reasons to the actions so far, \<open>commands_ok\<close> says which requests commands come from. The locale \<open>action_runs\<close> lifts a property that every action keeps to
  runs; it is interpreted for each of them.
\<close>

section \<open>Runs of a guarded system\<close>

locale action_runs =
  fixes act :: "'a \<Rightarrow> 's \<Rightarrow> 's option"
    and runs :: "'a list \<Rightarrow> 's \<Rightarrow> 's option"
    and inv :: "'a list \<Rightarrow> 's \<Rightarrow> bool"
  assumes runs_Nil: "runs [] s = Some s"
    and runs_Cons: "runs (a # as) s = Option.bind (act a s) (runs as)"
    and inv_act: "inv past s \<Longrightarrow> act a s = Some s' \<Longrightarrow> inv (past @ [a]) s'"
begin

lemma inv_runs: "inv past s \<Longrightarrow> runs as s = Some s' \<Longrightarrow> inv (past @ as) s'"
proof (induction as arbitrary: past s)
  case Nil
  then show ?case by (simp add: runs_Nil)
next
  case (Cons a as)
  from Cons.prems(2) obtain s1 where s1: "act a s = Some s1" "runs as s1 = Some s'"
    by (auto simp: runs_Cons bind_eq_Some_conv)
  from Cons.IH[OF inv_act[OF Cons.prems(1) s1(1)] s1(2)] show ?case by simp
qed

end

lemma runner_acts_Cons: "runner_acts mock (a # as) r = Option.bind (runner_act mock a r) (runner_acts mock as)"
  by (cases "runner_act mock a r") simp_all

lemma runner_acts_append: "runner_acts mock (as @ bs) r = Option.bind (runner_acts mock as r) (runner_acts mock bs)"
  by (induction as arbitrary: r) (auto simp: runner_acts_Cons simp del: runner_acts.simps(2) split: Option.bind_splits)

section \<open>The dictionaries and the tasks\<close>

abbreviation rid_of :: "run_task \<Rightarrow> int" where
  "rid_of t \<equiv> xq_reservation_id (rt_request t)"

definition live_run :: "runner \<Rightarrow> int \<Rightarrow> nat \<Rightarrow> bool" where
  "live_run r rid e \<longleftrightarrow> (\<exists>t. rn_runs r e = Some t \<and> rid_of t = rid \<and> rt_phase t \<noteq> RunOver)"

text \<open>What stands in the dictionary is a run of that reservation, over only if its task was stopped before it began.\<close>

definition listed_run :: "runner \<Rightarrow> int \<Rightarrow> nat \<Rightarrow> bool" where
  "listed_run r rid e \<longleftrightarrow> (\<exists>t. rn_runs r e = Some t \<and> rid_of t = rid \<and> (rt_phase t = RunOver \<longrightarrow> e \<in> rn_cancelled r))"

definition runs_ok :: "runner \<Rightarrow> bool" where
  "runs_ok r \<longleftrightarrow> rn_tasks r = rn_running r \<and> distinct (map fst (rn_running r))
     \<and> (\<forall>rid e. (rid, e) \<in> set (rn_running r) \<longrightarrow> listed_run r rid e)
     \<and> (\<forall>e. rn_runs r e = None \<longleftrightarrow> rn_next r \<le> e) \<and> (\<forall>e. rn_entries r e = None \<longleftrightarrow> rn_next r \<le> e)
     \<and> (\<forall>e x. rn_entries r e = Some x \<longrightarrow> re_process x = None \<or> re_process x = Some e)
     \<and> (\<forall>e. rn_next r \<le> e \<longrightarrow> rn_returncode r e = None)
     \<and> (\<forall>q. rn_loop r = Launching q \<longrightarrow> xq_reservation_id q \<notin> fst ` set (rn_running r))"

text \<open>Every run that is not over stands in the dictionary: true until a shutdown clears it.\<close>

definition tracked :: "runner \<Rightarrow> bool" where
  "tracked r \<longleftrightarrow> (\<forall>rid e. live_run r rid e \<longrightarrow> (rid, e) \<in> set (rn_running r))"

lemma runs_okD:
  assumes "runs_ok r"
  shows "rn_tasks r = rn_running r" "distinct (map fst (rn_running r))"
    "(rid, e) \<in> set (rn_running r) \<Longrightarrow> listed_run r rid e" "rn_runs r e = None \<longleftrightarrow> rn_next r \<le> e"
    "rn_entries r e = None \<longleftrightarrow> rn_next r \<le> e" "rn_entries r e = Some x \<Longrightarrow> re_process x = None \<or> re_process x = Some e"
    "rn_next r \<le> e \<Longrightarrow> rn_returncode r e = None"
    "rn_loop r = Launching q \<Longrightarrow> xq_reservation_id q \<notin> fst ` set (rn_running r)"
  using assms unfolding runs_ok_def by blast+

lemma runs_ok_new: "runs_ok new_runner"
  by (simp add: runs_ok_def new_runner_def)

text \<open>The actions are compositions of a few writes; what they leave alone.\<close>

lemma reply_sel [simp]:
  "rn_entries (reply x r) = rn_entries r" "rn_runs (reply x r) = rn_runs r" "rn_next (reply x r) = rn_next r"
  "rn_running (reply x r) = rn_running r" "rn_tasks (reply x r) = rn_tasks r" "rn_returncode (reply x r) = rn_returncode r"
  "rn_overdue (reply x r) = rn_overdue r" "rn_loop (reply x r) = LoopIdle" "rn_pushed (reply x r) = rn_pushed r"
  "rn_replies (reply x r) = rn_replies r @ [x]" "rn_commands (reply x r) = rn_commands r"
  "rn_cancelled (reply x r) = rn_cancelled r" "rn_shutdowns (reply x r) = rn_shutdowns r"
  by (simp_all add: reply_def)

lemma push_run_event_sel [simp]:
  "rn_entries (push_run_event e v r) = rn_entries r" "rn_runs (push_run_event e v r) = rn_runs r" "rn_next (push_run_event e v r) = rn_next r"
  "rn_running (push_run_event e v r) = rn_running r" "rn_tasks (push_run_event e v r) = rn_tasks r"
  "rn_returncode (push_run_event e v r) = rn_returncode r" "rn_overdue (push_run_event e v r) = rn_overdue r"
  "rn_loop (push_run_event e v r) = rn_loop r" "rn_pushed (push_run_event e v r) = rn_pushed r @ [(e, v)]"
  "rn_replies (push_run_event e v r) = rn_replies r" "rn_commands (push_run_event e v r) = rn_commands r"
  "rn_cancelled (push_run_event e v r) = rn_cancelled r" "rn_shutdowns (push_run_event e v r) = rn_shutdowns r"
  by (simp_all add: push_run_event_def)

lemma put_run_sel [simp]:
  "rn_entries (put_run e t r) = rn_entries r" "rn_runs (put_run e t r) = (rn_runs r)(e \<mapsto> t)" "rn_next (put_run e t r) = rn_next r"
  "rn_running (put_run e t r) = rn_running r" "rn_tasks (put_run e t r) = rn_tasks r" "rn_returncode (put_run e t r) = rn_returncode r"
  "rn_overdue (put_run e t r) = rn_overdue r" "rn_loop (put_run e t r) = rn_loop r" "rn_pushed (put_run e t r) = rn_pushed r"
  "rn_replies (put_run e t r) = rn_replies r" "rn_commands (put_run e t r) = rn_commands r"
  "rn_cancelled (put_run e t r) = rn_cancelled r" "rn_shutdowns (put_run e t r) = rn_shutdowns r"
  by (simp_all add: put_run_def)

lemma set_reason_sel [simp]:
  "rn_entries (set_reason e why r) = (case rn_entries r e of None \<Rightarrow> rn_entries r
      | Some x \<Rightarrow> (rn_entries r)(e \<mapsto> x\<lparr>re_killed_reason := why\<rparr>))"
  "rn_runs (set_reason e why r) = rn_runs r" "rn_next (set_reason e why r) = rn_next r"
  "rn_running (set_reason e why r) = rn_running r" "rn_tasks (set_reason e why r) = rn_tasks r"
  "rn_returncode (set_reason e why r) = rn_returncode r" "rn_overdue (set_reason e why r) = rn_overdue r"
  "rn_loop (set_reason e why r) = rn_loop r" "rn_pushed (set_reason e why r) = rn_pushed r"
  "rn_replies (set_reason e why r) = rn_replies r" "rn_commands (set_reason e why r) = rn_commands r"
  "rn_cancelled (set_reason e why r) = rn_cancelled r" "rn_shutdowns (set_reason e why r) = rn_shutdowns r"
  by (simp_all add: set_reason_def put_entry_def split: option.split)

lemma set_phase_eq: "rn_runs r e = Some t \<Longrightarrow> set_phase e ph r = put_run e (t\<lparr>rt_phase := ph\<rparr>) r"
  by (simp add: set_phase_def)

lemma clean_up_sel [simp]:
  "rn_entries (clean_up e t r) = rn_entries r" "rn_runs (clean_up e t r) = (rn_runs r)(e \<mapsto> end_run t)" "rn_next (clean_up e t r) = rn_next r"
  "rn_running (clean_up e t r) = dict_pop (rid_of t) (rn_running r)" "rn_tasks (clean_up e t r) = dict_pop (rid_of t) (rn_tasks r)"
  "rn_returncode (clean_up e t r) = rn_returncode r" "rn_overdue (clean_up e t r) = rn_overdue r" "rn_loop (clean_up e t r) = rn_loop r"
  "rn_pushed (clean_up e t r) = rn_pushed r" "rn_replies (clean_up e t r) = rn_replies r" "rn_commands (clean_up e t r) = rn_commands r"
  "rn_cancelled (clean_up e t r) = rn_cancelled r" "rn_shutdowns (clean_up e t r) = rn_shutdowns r"
  by (simp_all add: clean_up_def end_run_def)

lemma register_run_sel [simp]:
  "rn_entries (register_run q x out r) = (rn_entries r)(rn_next r \<mapsto> x)"
  "rn_runs (register_run q x out r) = (rn_runs r)(rn_next r \<mapsto> \<lparr>rt_request = q, rt_phase = AwaitExit, rt_output_open = out\<rparr>)"
  "rn_next (register_run q x out r) = rn_next r + 1"
  "rn_running (register_run q x out r) = dict_set (rn_running r) (xq_reservation_id q) (rn_next r)"
  "rn_tasks (register_run q x out r) = dict_set (rn_tasks r) (xq_reservation_id q) (rn_next r)"
  "rn_returncode (register_run q x out r) = rn_returncode r" "rn_overdue (register_run q x out r) = rn_overdue r"
  "rn_loop (register_run q x out r) = Announcing (rn_next r) False" "rn_pushed (register_run q x out r) = rn_pushed r"
  "rn_replies (register_run q x out r) = rn_replies r" "rn_commands (register_run q x out r) = rn_commands r"
  "rn_cancelled (register_run q x out r) = rn_cancelled r" "rn_shutdowns (register_run q x out r) = rn_shutdowns r"
  by (simp_all add: register_run_def Let_def)

lemma end_run_sel [simp]: "rt_phase (end_run t) = RunOver" "rt_request (end_run t) = rt_request t" "rt_output_open (end_run t) = False"
  by (simp_all add: end_run_def)

text \<open>The end of a shutdown loop: reasons were added, in the entries of the dictionary.\<close>

definition entry_added :: "run_entry option \<Rightarrow> run_entry option \<Rightarrow> bool" where
  "entry_added a b \<longleftrightarrow> b = a \<or> (\<exists>x why. a = Some x \<and> b = Some (x\<lparr>re_killed_reason := Some why\<rparr>)
     \<and> (why = ''agent_shutdown'' \<or> re_killed_reason x = Some why))"

definition reasons_added :: "runner \<Rightarrow> runner \<Rightarrow> bool" where
  "reasons_added r r' \<longleftrightarrow> r' = r\<lparr>rn_entries := rn_entries r'\<rparr> \<and> (\<forall>e. entry_added (rn_entries r e) (rn_entries r' e))"

lemma entry_added_refl: "entry_added a a"
  by (simp add: entry_added_def)

lemma entry_added_trans: "entry_added a b \<Longrightarrow> entry_added b c \<Longrightarrow> entry_added a c"
  unfolding entry_added_def by (elim disjE exE conjE; simp; blast)

lemma entry_added_Some: "entry_added (Some x) b \<Longrightarrow> \<exists>why. b = Some (x\<lparr>re_killed_reason := why\<rparr>)
    \<and> (why = re_killed_reason x \<or> why = Some ''agent_shutdown'') \<and> (re_killed_reason x \<noteq> None \<longrightarrow> why \<noteq> None)"
  by (cases x) (auto simp: entry_added_def)

lemma entry_added_None: "entry_added None b \<Longrightarrow> b = None"
  by (simp add: entry_added_def)

lemma reasons_added_refl: "reasons_added r r"
  by (simp add: reasons_added_def entry_added_refl)

lemma reasons_added_trans:
  assumes "reasons_added r r1" and "reasons_added r1 r2"
  shows "reasons_added r r2"
proof -
  from assms have "r1 = r\<lparr>rn_entries := rn_entries r1\<rparr>" "r2 = r1\<lparr>rn_entries := rn_entries r2\<rparr>" by (simp_all add: reasons_added_def)
  then obtain f g where "r1 = r\<lparr>rn_entries := f\<rparr>" "r2 = r1\<lparr>rn_entries := g\<rparr>" by blast
  then have "r2 = r\<lparr>rn_entries := rn_entries r2\<rparr>" by simp
  with assms show ?thesis unfolding reasons_added_def using entry_added_trans by blast
qed

lemma reason_or_added: "rn_entries r e = Some x \<Longrightarrow> reasons_added r (set_reason e (reason_or (re_killed_reason x) ''agent_shutdown'') r)"
  by (cases "re_killed_reason x") (auto simp: reasons_added_def entry_added_def set_reason_def put_entry_def reason_or_def str_truthy_def)

lemma shut_entries_added: "shut_entries sig xs r = (ok, r') \<Longrightarrow> reasons_added r r'"
proof (induction sig xs r arbitrary: r' rule: shut_entries.induct)
  case (1 sig r)
  then show ?case by (simp add: reasons_added_refl)
next
  case (2 sig rid e xs r)
  show ?case
  proof (cases "rn_entries r e")
    case None
    with 2 show ?thesis by simp
  next
    case (Some x)
    let ?r1 = "set_reason e (reason_or (re_killed_reason x) ''agent_shutdown'') r"
    have a: "reasons_added r ?r1" by (rule reason_or_added[OF Some])
    show ?thesis
    proof (cases "\<exists>p. re_process x = Some p \<and> rn_returncode r p = None \<and> sig p = SigDenied")
      case True
      with 2(4) Some have "r' = ?r1" by (auto simp: Let_def)
      with a show ?thesis by simp
    next
      case False
      with 2(4) Some have s: "shut_entries sig xs ?r1 = (ok, r')" by (auto simp: Let_def split: option.splits if_splits)
      from False 2(2)[OF Some refl] 2(3)[OF Some refl] s have "reasons_added ?r1 r'"
        by (cases "re_process x") auto
      with a show ?thesis by (rule reasons_added_trans)
    qed
  qed
qed

text \<open>Most actions change neither which runs are live nor whose they are.\<close>

lemma live_run_cong: "map_option (\<lambda>t. (rid_of t, rt_phase t = RunOver)) (rn_runs r' e) = map_option (\<lambda>t. (rid_of t, rt_phase t = RunOver)) (rn_runs r e) \<Longrightarrow>
    live_run r' rid e = live_run r rid e"
  unfolding live_run_def by (cases "rn_runs r e"; cases "rn_runs r' e") auto

lemma listed_run_cong: "map_option (\<lambda>t. (rid_of t, rt_phase t = RunOver)) (rn_runs r' e) = map_option (\<lambda>t. (rid_of t, rt_phase t = RunOver)) (rn_runs r e) \<Longrightarrow>
    rn_cancelled r \<subseteq> rn_cancelled r' \<Longrightarrow> listed_run r rid e \<Longrightarrow> listed_run r' rid e"
  unfolding listed_run_def by (cases "rn_runs r e"; cases "rn_runs r' e") auto

lemma runs_ok_same:
  assumes ok: "runs_ok r" and "rn_tasks r' = rn_tasks r" "rn_running r' = rn_running r" "rn_next r' = rn_next r"
    and rc: "\<And>e. rn_next r \<le> e \<Longrightarrow> rn_returncode r' e = None"
    and en: "\<And>e. map_option re_process (rn_entries r' e) = map_option re_process (rn_entries r e)"
    and ru: "\<And>e. map_option (\<lambda>t. (rid_of t, rt_phase t = RunOver)) (rn_runs r' e) = map_option (\<lambda>t. (rid_of t, rt_phase t = RunOver)) (rn_runs r e)"
    and lo: "\<And>q. rn_loop r' = Launching q \<Longrightarrow> rn_loop r = Launching q \<or> xq_reservation_id q \<notin> fst ` set (rn_running r)"
    and ca: "rn_cancelled r \<subseteq> rn_cancelled r'"
  shows "runs_ok r'"
proof -
  have listed: "listed_run r' rid e" if "(rid, e) \<in> set (rn_running r)" for rid e
    using listed_run_cong[OF ru ca] runs_okD(3)[OF ok that] .
  have n: "rn_runs r' e = None \<longleftrightarrow> rn_runs r e = None" for e using ru[of e] by (cases "rn_runs r e"; cases "rn_runs r' e") auto
  have m: "rn_entries r' e = None \<longleftrightarrow> rn_entries r e = None" for e using en[of e] by (cases "rn_entries r e"; cases "rn_entries r' e") auto
  have pr: "re_process x = None \<or> re_process x = Some e" if "rn_entries r' e = Some x" for e x
    using en[of e] that runs_okD(6)[OF ok, of e] by (cases "rn_entries r e") auto
  have lq: "xq_reservation_id q \<notin> fst ` set (rn_running r)" if "rn_loop r' = Launching q" for q
    using lo[OF that] runs_okD(8)[OF ok] by blast
  show ?thesis unfolding runs_ok_def assms(2,3,4) n m
    using runs_okD(1,2,4,5)[OF ok] listed rc pr lq by blast
qed

lemma map_option_upd: "m e = Some t \<Longrightarrow> f t' = f t \<Longrightarrow> map_option f ((m(e \<mapsto> t')) i) = map_option f (m i)"
  by simp

lemma runs_ok_reply: "runs_ok r \<Longrightarrow> runs_ok (reply x r)"
  by (rule runs_ok_same) (auto dest: runs_okD(7))

lemma runs_ok_push: "runs_ok r \<Longrightarrow> runs_ok (push_run_event e v r)"
  by (rule runs_ok_same) (auto dest: runs_okD(7))

lemma runs_ok_fields: "runs_ok r \<Longrightarrow> runs_ok (r\<lparr>rn_overdue := xs\<rparr>)" "runs_ok r \<Longrightarrow> runs_ok (r\<lparr>rn_commands := cs\<rparr>)"
  "runs_ok r \<Longrightarrow> \<forall>q. l \<noteq> Launching q \<Longrightarrow> runs_ok (r\<lparr>rn_loop := l\<rparr>)"
proof -
  assume ok: "runs_ok r"
  show "runs_ok (r\<lparr>rn_overdue := xs\<rparr>)" by (rule runs_ok_same[OF ok]) (use runs_okD(7)[OF ok] in auto)
next
  assume ok: "runs_ok r"
  show "runs_ok (r\<lparr>rn_commands := cs\<rparr>)" by (rule runs_ok_same[OF ok]) (use runs_okD(7)[OF ok] in auto)
next
  assume ok: "runs_ok r" and "\<forall>q. l \<noteq> Launching q"
  then show "runs_ok (r\<lparr>rn_loop := l\<rparr>)" by (intro runs_ok_same[OF ok]) (use runs_okD(7)[OF ok] in auto)
qed

lemma runs_ok_reason: "runs_ok r \<Longrightarrow> runs_ok (set_reason e why r)"
  by (rule runs_ok_same) (auto simp: runs_okD(7) split: option.splits)

lemma runs_ok_put: "runs_ok r \<Longrightarrow> rn_runs r e = Some t \<Longrightarrow> rid_of t' = rid_of t \<Longrightarrow> rt_phase t' = RunOver \<longleftrightarrow> rt_phase t = RunOver \<Longrightarrow>
    runs_ok (put_run e t' r)"
  by (rule runs_ok_same) (auto simp: runs_okD(7))

lemma runs_ok_exits: "runs_ok r \<Longrightarrow> p < rn_next r \<Longrightarrow> runs_ok (r\<lparr>rn_returncode := (rn_returncode r)(p \<mapsto> c)\<rparr>)"
  by (rule runs_ok_same) (auto simp: runs_okD(7))

lemma set_dict_set: "distinct (map fst d) \<Longrightarrow> set (dict_set d k v) = insert (k, v) {p \<in> set d. fst p \<noteq> k}"
  by (induction d) force+

lemma dict_set_new: "k \<notin> fst ` set d \<Longrightarrow> dict_set d k v = d @ [(k, v)]"
  by (induction d) auto

lemma set_dict_pop: "set (dict_pop k d) = {p \<in> set d. fst p \<noteq> k}"
  by (auto simp: dict_pop_def)

lemma distinct_dict_pop: "distinct (map fst d) \<Longrightarrow> distinct (map fst (dict_pop k d))"
  by (simp add: dict_pop_def distinct_map_filter)

lemma runs_ok_register:
  assumes ok: "runs_ok r" and q: "xq_reservation_id q \<notin> fst ` set (rn_running r)" and p: "re_process x = None \<or> re_process x = Some (rn_next r)"
  shows "runs_ok (register_run q x out r)"
proof -
  note d = runs_okD[OF ok]
  have new: "rn_runs r (rn_next r) = None" by (simp add: d(4))
  have old: "listed_run (register_run q x out r) rid e" if "(rid, e) \<in> set (rn_running r)" for rid e
    using d(3)[OF that] new by (auto simp: listed_run_def)
  have "listed_run (register_run q x out r) (xq_reservation_id q) (rn_next r)" by (simp add: listed_run_def)
  with old show ?thesis unfolding runs_ok_def using d(1,2,4,5,7) p q d(6)
    by (auto simp: dict_set_new dest: d(6))
qed

lemma runs_ok_clean:
  assumes ok: "runs_ok r" and t: "rn_runs r e = Some t"
  shows "runs_ok (clean_up e t r)"
proof -
  note d = runs_okD[OF ok]
  have listed: "listed_run (clean_up e t r) rid e'" if "(rid, e') \<in> set (rn_running (clean_up e t r))" for rid e'
  proof -
    from that have "(rid, e') \<in> set (rn_running r)" "rid \<noteq> rid_of t" by (simp_all add: set_dict_pop)
    with d(3)[of rid e'] t show ?thesis by (auto simp: listed_run_def)
  qed
  show ?thesis unfolding runs_ok_def
  proof (intro conjI allI impI)
    show "listed_run (clean_up e t r) rid e'" if "(rid, e') \<in> set (rn_running (clean_up e t r))" for rid e'
      using listed[OF that] .
    show "xq_reservation_id q \<notin> fst ` set (rn_running (clean_up e t r))" if "rn_loop (clean_up e t r) = Launching q" for q
      using that d(8) by (auto simp: set_dict_pop)
    show "rn_runs (clean_up e t r) e' = None \<longleftrightarrow> rn_next (clean_up e t r) \<le> e'" for e'
      using t d(4)[of e'] by auto
    show "rn_entries (clean_up e t r) e' = None \<longleftrightarrow> rn_next (clean_up e t r) \<le> e'" for e'
      using d(5)[of e'] by simp
    show "re_process x = None \<or> re_process x = Some e'" if "rn_entries (clean_up e t r) e' = Some x" for e' x
      using d(6)[of e' x] that by simp
    show "rn_returncode (clean_up e t r) e' = None" if "rn_next (clean_up e t r) \<le> e'" for e'
      using d(7)[of e'] that by simp
  qed (simp_all only: clean_up_sel d(1) distinct_dict_pop[OF d(2)])
qed

text \<open>A task that ends before it began, and a dictionary that is cleared.\<close>

lemma runs_ok_unbegun:
  assumes ok: "runs_ok r" and t: "rn_runs r e = Some t" and c: "e \<in> rn_cancelled r"
  shows "runs_ok (put_run e (t\<lparr>rt_phase := RunOver\<rparr>) r)"
proof -
  note d = runs_okD[OF ok]
  have "listed_run (put_run e (t\<lparr>rt_phase := RunOver\<rparr>) r) rid e'" if "(rid, e') \<in> set (rn_running r)" for rid e'
    using d(3)[OF that] t c by (auto simp: listed_run_def)
  moreover have "e < rn_next r" using t d(4)[of e] by simp
  ultimately show ?thesis unfolding runs_ok_def using d(1,2,5,6,7,8) d(4) by auto
qed

lemma runs_ok_cleared: "runs_ok r \<Longrightarrow> runs_ok (r\<lparr>rn_running := [], rn_tasks := []\<rparr>)"
  unfolding runs_ok_def by simp

lemma runs_ok_shutdowns: "runs_ok r \<Longrightarrow> rn_cancelled r \<subseteq> C \<Longrightarrow> runs_ok (r\<lparr>rn_cancelled := C, rn_shutdowns := xs\<rparr>)"
  "runs_ok r \<Longrightarrow> runs_ok (r\<lparr>rn_shutdowns := xs\<rparr>)"
proof -
  assume ok: "runs_ok r"
  show "runs_ok (r\<lparr>rn_shutdowns := xs\<rparr>)" by (rule runs_ok_same[OF ok]) (use runs_okD(7)[OF ok] in auto)
next
  assume ok: "runs_ok r" and "rn_cancelled r \<subseteq> C"
  then show "runs_ok (r\<lparr>rn_cancelled := C, rn_shutdowns := xs\<rparr>)" by (intro runs_ok_same[OF ok]) (use runs_okD(7)[OF ok] in auto)
qed

lemma runs_ok_reasons: "runs_ok r \<Longrightarrow> reasons_added r r' \<Longrightarrow> runs_ok r'"
proof -
  assume ok: "runs_ok r" and a: "reasons_added r r'"
  from a obtain f where r': "r' = r\<lparr>rn_entries := f\<rparr>" unfolding reasons_added_def by blast
  have "map_option re_process (f e) = map_option re_process (rn_entries r e)" for e
    using a unfolding reasons_added_def r' by (cases "rn_entries r e") (auto dest!: spec[of _ e] entry_added_Some entry_added_None)
  then show ?thesis unfolding r' by (intro runs_ok_same[OF ok]) (simp_all add: runs_okD(7)[OF ok])
qed

text \<open>A shutdown adds reasons; one that is not stopped tells tasks to stop.\<close>

lemma shutdown_cases:
  obtains f C xs where "reasons_added r (r\<lparr>rn_entries := f\<rparr>)" "rn_cancelled r \<subseteq> C"
    "shutdown sig r = r\<lparr>rn_entries := f, rn_cancelled := C, rn_shutdowns := xs\<rparr>"
proof (cases "rn_tasks r = []")
  case True
  then show ?thesis using that[of "rn_entries r" "rn_cancelled r" "rn_shutdowns r"] by (simp add: shutdown_def reasons_added_refl)
next
  case False
  obtain b r1 where s: "shut_entries sig (rn_running r) r = (b, r1)" by (cases "shut_entries sig (rn_running r) r")
  from shut_entries_added[OF s] have a: "reasons_added r r1" .
  then obtain f where r1: "r1 = r\<lparr>rn_entries := f\<rparr>" unfolding reasons_added_def by blast
  show ?thesis
  proof (cases b)
    case True
    with s False show ?thesis using a unfolding r1
      by (intro that[of f]) (auto simp: shutdown_def intro!: exI)
  next
    case no: False
    with False s show ?thesis using a unfolding r1
      by (intro that[of f "rn_cancelled r" "rn_shutdowns r"]) (simp_all add: shutdown_def)
  qed
qed

lemma runs_ok_shutdown: "runs_ok r \<Longrightarrow> runs_ok (shutdown sig r)"
proof (rule shutdown_cases[of r sig])
  fix f C xs
  assume ok: "runs_ok r" and f: "reasons_added r (r\<lparr>rn_entries := f\<rparr>)" and C: "rn_cancelled r \<subseteq> C"
    and s: "shutdown sig r = r\<lparr>rn_entries := f, rn_cancelled := C, rn_shutdowns := xs\<rparr>"
  from runs_ok_shutdowns(1)[OF runs_ok_reasons[OF ok f], of C xs] C show "runs_ok (shutdown sig r)" by (simp add: s)
qed

text \<open>The steps of a shutdown behind its signals.\<close>

lemma cancel_lands_cases:
  assumes "cancel_lands e begun r = Some r'"
  obtains (left) t where "rn_runs r e = Some t" "rt_phase t \<noteq> RunOver" "r' = clean_up e t r"
  | (unbegun) t where "rn_runs r e = Some t" "rt_phase t = AwaitExit" "e \<in> rn_cancelled r" "r' = put_run e (t\<lparr>rt_phase := RunOver\<rparr>) r"
  using assms by (auto simp: cancel_lands_def split: option.splits if_splits)

lemma shutdown_kills_cases:
  assumes "shutdown_kills i sig r = Some r'"
  obtains xs where "r' = r\<lparr>rn_shutdowns := xs\<rparr>"
  using assms by (auto simp: shutdown_kills_def drop_shutdown_def Let_def split: option.splits if_splits)

lemma shutdown_ends_cases:
  assumes "shutdown_ends i r = Some r'"
  obtains xs where "r' = r\<lparr>rn_shutdowns := xs, rn_running := [], rn_tasks := []\<rparr>"
  using assms by (auto simp: shutdown_ends_def drop_shutdown_def split: if_splits)

lemma shutdown_steps_ok:
  "runs_ok r \<Longrightarrow> cancel_lands e begun r = Some r' \<Longrightarrow> runs_ok r'"
  "runs_ok r \<Longrightarrow> shutdown_kills i sig r = Some r' \<Longrightarrow> runs_ok r'"
  "runs_ok r \<Longrightarrow> shutdown_ends i r = Some r' \<Longrightarrow> runs_ok r'"
  by (auto elim!: cancel_lands_cases shutdown_kills_cases shutdown_ends_cases intro: runs_ok_clean runs_ok_unbegun runs_ok_shutdowns(2))
    (use runs_ok_cleared runs_ok_shutdowns(2) in fastforce)

lemma runner_launch_ok: "runs_ok r \<Longrightarrow> launch mock os now r = Some r' \<Longrightarrow> runs_ok r'"
proof -
  assume ok: "runs_ok r" and l: "launch mock os now r = Some r'"
  then obtain q where q: "rn_loop r = Launching q" by (auto simp: launch_def split: loop_state.splits)
  from runs_okD(8)[OF ok q] have new: "xq_reservation_id q \<notin> fst ` set (rn_running r)" .
  show ?thesis
  proof (cases mock)
    case True
    with l q have "r' = launch_mock now q r" by (simp add: launch_def)
    then show ?thesis using ok new by (simp add: launch_mock_def runs_ok_register)
  next
    case False
    with l q have "r' = launch_linux os now q r" by (simp add: launch_def)
    then show ?thesis using ok new runs_ok_fields(2)[OF ok]
      by (auto simp: launch_linux_def runs_ok_register runs_ok_reply split: option.splits sum.splits)
  qed
qed

lemma announce_cases:
  assumes "announce os r = Some r'"
  obtains e x t v r1 where "rn_entries r e = Some x" "rn_runs r e = Some t" "\<And>f. v \<noteq> FinishedPushed f" "r1 = push_run_event e v r"
    "r' = r1\<lparr>rn_loop := Announcing e True\<rparr> \<or> r' = reply (ExecuteReply (execute_started os x)) r1"
proof -
  from assms obtain e b where l: "rn_loop r = Announcing e b" by (auto simp: announce_def split: loop_state.splits)
  with assms obtain x where x: "rn_entries r e = Some x" by (auto simp: announce_def split: option.splits)
  with assms l obtain t where t: "rn_runs r e = Some t" by (auto simp: announce_def split: option.splits)
  from assms l x t show thesis
    by (auto simp: announce_def Let_def split: if_splits intro: that[OF x t _ refl])
qed

lemma announce_ok: "runs_ok r \<Longrightarrow> announce os r = Some r' \<Longrightarrow> runs_ok r'"
  by (erule announce_cases) (auto simp: runs_ok_push runs_ok_fields(3) runs_ok_reply)

lemma cancel_cases:
  obtains x where "cancel sig q r = reply x r" "map_of (rn_running r) (cq_reservation_id q) = None"
  | e y where "map_of (rn_running r) (cq_reservation_id q) = Some e"
      "cancel sig q r = set_reason e (Some (cq_reason q)) r \<or> cancel sig q r = reply y (set_reason e (Some (cq_reason q)) r)
      \<or> cancel sig q r = reply y ((set_reason e (Some (cq_reason q)) r)\<lparr>rn_overdue := rn_overdue r @ [cq_reservation_id q]\<rparr>)"
proof (cases "map_of (rn_running r) (cq_reservation_id q)")
  case None
  then show ?thesis using that(1) by (simp add: cancel_def)
next
  case (Some e)
  let ?r1 = "set_reason e (Some (cq_reason q)) r"
  from Some have "cancel sig q r = ?r1 \<or> (\<exists>y. cancel sig q r = reply y ?r1)
      \<or> (\<exists>y. cancel sig q r = reply y (?r1\<lparr>rn_overdue := rn_overdue r @ [cq_reservation_id q]\<rparr>))"
    unfolding cancel_def by (simp add: Let_def split: option.split signal_result.split) blast
  then show ?thesis using that(2)[OF Some] by blast
qed

lemma runner_cancel_ok: "runs_ok r \<Longrightarrow> runs_ok (cancel sig q r)"
  by (rule cancel_cases[of sig q r]) (auto simp: runs_ok_reply runs_ok_reason runs_ok_fields(1))

lemma runner_execute_ok: "runs_ok r \<Longrightarrow> runs_ok (execute mock h os q r)"
proof (cases "execute_refusal mock h os q r")
  case None
  assume ok: "runs_ok r"
  from None have "xq_reservation_id q \<notin> fst ` set (rn_running r)"
    by (auto simp: execute_refusal_def map_of_eq_None_iff split: if_splits)
  with None show ?thesis unfolding execute_def
    by (simp, intro runs_ok_same[OF ok]) (use runs_okD(7)[OF ok] in auto)
next
  case (Some e)
  then show "runs_ok r \<Longrightarrow> ?thesis" by (simp add: execute_def runs_ok_reply)
qed

lemma exit_awaited_cases:
  assumes "exit_awaited e r = Some r'"
  obtains x t k c where "rn_entries r e = Some x" "rn_runs r e = Some t" "rt_phase t = AwaitExit \<or> rt_phase t = AwaitKilled"
    "r' = put_run e (t\<lparr>rt_phase := AwaitOutput k c\<rparr>) r"
    "k \<longleftrightarrow> re_killed_reason x \<noteq> None \<or> rt_phase t = AwaitKilled"
    "case re_process x of None \<Rightarrow> c = Some (if k then - 15 else 0) \<and> rt_phase t = AwaitExit | Some p \<Rightarrow> c = rn_returncode r p \<and> c \<noteq> None"
proof -
  from assms obtain x where x: "rn_entries r e = Some x" by (auto simp: exit_awaited_def split: option.splits)
  with assms obtain t where t: "rn_runs r e = Some t" by (auto simp: exit_awaited_def split: option.splits)
  show thesis
  proof (cases "re_process x")
    case None
    with assms x t show thesis
      by (intro that[OF x t, of "re_killed_reason x \<noteq> None" "Some (if re_killed_reason x \<noteq> None then - 15 else 0)"])
        (auto simp: exit_awaited_def Let_def set_phase_eq split: if_splits)
  next
    case (Some p)
    with assms x t show thesis
      by (intro that[OF x t, of "re_killed_reason x \<noteq> None \<or> rt_phase t = AwaitKilled" "rn_returncode r p"])
        (auto simp: exit_awaited_def Let_def set_phase_eq split: if_splits)
  qed
qed

lemma exit_awaited_ok: "runs_ok r \<Longrightarrow> exit_awaited e r = Some r' \<Longrightarrow> runs_ok r'"
  by (erule exit_awaited_cases) (auto intro: runs_ok_put)

lemma runtime_over_cases:
  assumes "runtime_over e sig r = Some r'"
  obtains x t w r1 where "rn_entries r e = Some x" "rn_runs r e = Some t" "rt_phase t = AwaitExit" "re_process x \<noteq> None"
    "xq_max_runtime_seconds (rt_request t) \<noteq> None" "r1 = set_reason e (Some w) r" "w = ''max_runtime'' \<or> re_killed_reason x = Some w"
    "r' = (if sig = SigDenied then clean_up e t r1 else put_run e (t\<lparr>rt_phase := AwaitKilled\<rparr>) r1)"
proof -
  from assms obtain x where x: "rn_entries r e = Some x" by (auto simp: runtime_over_def split: option.splits)
  with assms obtain t where t: "rn_runs r e = Some t" by (auto simp: runtime_over_def split: option.splits)
  obtain w where w: "reason_or (re_killed_reason x) ''max_runtime'' = Some w" "w = ''max_runtime'' \<or> re_killed_reason x = Some w"
    by (cases "str_truthy (re_killed_reason x)") (auto simp: reason_or_def str_truthy_def split: option.splits)
  from assms x t w show thesis
    by (intro that[OF x t _ _ _ refl w(2)]) (auto simp: runtime_over_def Let_def set_phase_def split: if_splits)
qed

lemma runtime_over_ok: "runs_ok r \<Longrightarrow> runtime_over e sig r = Some r' \<Longrightarrow> runs_ok r'"
  by (erule runtime_over_cases) (auto intro!: runs_ok_put runs_ok_clean runs_ok_reason)

lemma report_cases:
  assumes "report e now nbytes r = Some r'"
  obtains x t k c where "rn_entries r e = Some x" "rn_runs r e = Some t" "rt_phase t = AwaitOutput k c" "\<not> rt_output_open t"
    "r' = put_run e (t\<lparr>rt_phase := Reporting\<rparr>) (push_run_event e (FinishedPushed (finished_report now nbytes x t k c)) r)"
  using assms by (auto simp: report_def set_phase_eq split: option.splits run_phase.splits if_splits)

lemma report_ok: "runs_ok r \<Longrightarrow> report e now nbytes r = Some r' \<Longrightarrow> runs_ok r'"
  by (erule report_cases) (auto intro!: runs_ok_put runs_ok_push)

lemma run_cleaned_ok: "runs_ok r \<Longrightarrow> run_cleaned e r = Some r' \<Longrightarrow> runs_ok r'"
  by (auto simp: run_cleaned_def intro!: runs_ok_clean split: option.splits if_splits)

lemma pump_ok: "runs_ok r \<Longrightarrow> pump_chunk e text r = Some r' \<Longrightarrow> runs_ok r'" "runs_ok r \<Longrightarrow> pump_ends e r = Some r' \<Longrightarrow> runs_ok r'"
  by (auto simp: pump_chunk_def pump_ends_def intro: runs_ok_push runs_ok_put split: option.splits if_splits)

lemma unless_cancelledD: "unless_cancelled e r m = Some r' \<Longrightarrow> m = Some r'"
  by (simp add: unless_cancelled_def split: if_splits)

lemma act_runs_ok: "runs_ok r \<Longrightarrow> runner_act mock a r = Some r' \<Longrightarrow> runs_ok r'"
  by (cases a) (auto simp: sigkill_if_overdue_def process_exits_def runner_execute_ok runner_cancel_ok runs_ok_shutdown runs_ok_fields(1) runs_ok_exits
      dest!: unless_cancelledD dest: runner_launch_ok announce_ok exit_awaited_ok runtime_over_ok report_ok run_cleaned_ok pump_ok
        shutdown_steps_ok split: if_splits)

interpretation tables: action_runs "runner_act mock" "runner_acts mock" "\<lambda>past r. runs_ok r" for mock
  by unfold_locales (auto simp: runner_acts_Cons simp del: runner_acts.simps(2) intro: act_runs_ok)

section \<open>Reports\<close>

text \<open>Who asked for a run to be killed, in terms of the actions so far.\<close>

definition asked :: "runner_action set \<Rightarrow> int \<Rightarrow> nat \<Rightarrow> string \<Rightarrow> bool" where
  "asked past rid e w \<longleftrightarrow> (\<exists>sig q. GetCancel sig q \<in> past \<and> cq_reservation_id q = rid \<and> cq_reason q = w)
     \<or> (w = ''max_runtime'' \<and> (\<exists>sig. RuntimeOver e sig \<in> past)) \<or> (w = ''agent_shutdown'' \<and> (\<exists>sig. Shutdown sig \<in> past))"

definition exit_of :: "(nat \<rightharpoonup> int) \<Rightarrow> run_entry \<Rightarrow> bool \<Rightarrow> int option \<Rightarrow> bool" where
  "exit_of rc x k c \<longleftrightarrow> (case re_process x of None \<Rightarrow> c = Some (if k then - 15 else 0) | Some p \<Rightarrow> c = rc p \<and> c \<noteq> None)"

definition settled :: "run_task \<Rightarrow> bool" where
  "settled t \<longleftrightarrow> (rt_phase t = Reporting \<or> rt_phase t = RunOver) \<and> \<not> rt_output_open t"

definition run_ok :: "runner_action set \<Rightarrow> (nat \<rightharpoonup> int) \<Rightarrow> nat \<Rightarrow> run_entry \<Rightarrow> run_task \<Rightarrow> bool" where
  "run_ok past rc e x t \<longleftrightarrow> (\<forall>w. re_killed_reason x = Some w \<longrightarrow> asked past (rid_of t) e w)
     \<and> (\<forall>k c. rt_phase t = AwaitOutput k c \<longrightarrow> (k \<longrightarrow> re_killed_reason x \<noteq> None) \<and> exit_of rc x k c)
     \<and> (rt_phase t = AwaitKilled \<longrightarrow> re_killed_reason x \<noteq> None)
     \<and> (rt_phase t = Reporting \<longrightarrow> \<not> rt_output_open t)"

definition report_ok :: "runner_action set \<Rightarrow> (nat \<rightharpoonup> int) \<Rightarrow> nat \<Rightarrow> run_entry \<Rightarrow> run_task \<Rightarrow> script_finished_event \<Rightarrow> bool" where
  "report_ok past rc e x t f \<longleftrightarrow> settled t \<and> sf_reservation_id f = rid_of t \<and> exit_of rc x (sf_killed_by_corelab f) (sf_exit_code f)
     \<and> (sf_killed_by_corelab f \<longrightarrow> sf_killed_reason f \<noteq> None) \<and> (\<forall>w. sf_killed_reason f = Some w \<longrightarrow> asked past (rid_of t) e w)"

fun is_finished :: "nat \<times> runner_event \<Rightarrow> bool" where
  "is_finished (e, FinishedPushed f) = True"
| "is_finished (e, _) = False"

definition log_ok :: "runner_action set \<Rightarrow> runner \<Rightarrow> bool" where
  "log_ok past r \<longleftrightarrow> runs_ok r
     \<and> (\<forall>e x t. rn_entries r e = Some x \<longrightarrow> rn_runs r e = Some t \<longrightarrow> run_ok past (rn_returncode r) e x t)
     \<and> (\<forall>e f. (e, FinishedPushed f) \<in> set (rn_pushed r) \<longrightarrow> (\<exists>x t. rn_entries r e = Some x \<and> rn_runs r e = Some t
          \<and> report_ok past (rn_returncode r) e x t f))
     \<and> distinct (map fst (filter is_finished (rn_pushed r)))"

lemma log_okD:
  assumes "log_ok past r"
  shows "runs_ok r" "rn_entries r e = Some x \<Longrightarrow> rn_runs r e = Some t \<Longrightarrow> run_ok past (rn_returncode r) e x t"
    "(e, FinishedPushed f) \<in> set (rn_pushed r) \<Longrightarrow> \<exists>x t. rn_entries r e = Some x \<and> rn_runs r e = Some t \<and> report_ok past (rn_returncode r) e x t f"
    "distinct (map fst (filter is_finished (rn_pushed r)))"
  using assms unfolding log_ok_def by blast+

lemma log_ok_new: "log_ok {} new_runner"
  by (simp add: log_ok_def runs_ok_new) (simp add: new_runner_def)

lemma asked_mono: "asked A rid e w \<Longrightarrow> A \<subseteq> B \<Longrightarrow> asked B rid e w"
  unfolding asked_def by blast

lemma exit_of_mono: "exit_of rc x k c \<Longrightarrow> (\<And>p v. rc p = Some v \<Longrightarrow> rc' p = Some v) \<Longrightarrow> re_process x' = re_process x \<Longrightarrow> exit_of rc' x' k c"
  by (cases c; cases "re_process x") (simp_all add: exit_of_def, metis)

lemma run_ok_mono: "run_ok A rc e x t \<Longrightarrow> A \<subseteq> B \<Longrightarrow> (\<And>p v. rc p = Some v \<Longrightarrow> rc' p = Some v) \<Longrightarrow> run_ok B rc' e x t"
  unfolding run_ok_def by (intro conjI allI impI; (elim conjE)?; blast intro: asked_mono exit_of_mono[OF _ _ refl])

lemma report_ok_mono: "report_ok A rc e x t f \<Longrightarrow> A \<subseteq> B \<Longrightarrow> (\<And>p v. rc p = Some v \<Longrightarrow> rc' p = Some v) \<Longrightarrow> re_process x' = re_process x \<Longrightarrow>
    rid_of t' = rid_of t \<Longrightarrow> settled t' \<Longrightarrow> report_ok B rc' e x' t' f"
  unfolding report_ok_def by (elim conjE, intro conjI allI impI; (blast intro: asked_mono exit_of_mono | simp add: asked_mono))

text \<open>An action that reports nothing: it is enough to look at the runs it leaves.\<close>

lemma log_ok_step:
  assumes ok: "log_ok past r" and r': "runs_ok r'"
    and rc: "\<And>p v. rn_returncode r p = Some v \<Longrightarrow> rn_returncode r' p = Some v"
    and fin: "filter is_finished (rn_pushed r') = filter is_finished (rn_pushed r)"
    and keep: "\<And>e x t. rn_entries r e = Some x \<Longrightarrow> rn_runs r e = Some t \<Longrightarrow> settled t \<Longrightarrow>
      \<exists>x' t'. rn_entries r' e = Some x' \<and> rn_runs r' e = Some t' \<and> re_process x' = re_process x \<and> rid_of t' = rid_of t \<and> settled t'"
    and new: "\<And>e x' t'. rn_entries r' e = Some x' \<Longrightarrow> rn_runs r' e = Some t' \<Longrightarrow>
      rn_entries r e = Some x' \<and> rn_runs r e = Some t' \<or> run_ok (insert a past) (rn_returncode r') e x' t'"
  shows "log_ok (insert a past) r'"
  unfolding log_ok_def
proof (intro conjI allI impI)
  show "runs_ok r'" by (rule r')
  show "run_ok (insert a past) (rn_returncode r') e x' t'" if "rn_entries r' e = Some x'" "rn_runs r' e = Some t'" for e x' t'
  proof (rule disjE[OF new[OF that]])
    assume "rn_entries r e = Some x' \<and> rn_runs r e = Some t'"
    with log_okD(2)[OF ok] have "run_ok past (rn_returncode r) e x' t'" by blast
    then show ?thesis by (rule run_ok_mono) (auto intro: rc)
  qed
  show "distinct (map fst (filter is_finished (rn_pushed r')))" unfolding fin by (rule log_okD(4)[OF ok])
next
  fix e f assume "(e, FinishedPushed f) \<in> set (rn_pushed r')"
  then have "(e, FinishedPushed f) \<in> set (filter is_finished (rn_pushed r'))" by simp
  then have "(e, FinishedPushed f) \<in> set (rn_pushed r)" unfolding fin by simp
  from log_okD(3)[OF ok this] obtain x t where x: "rn_entries r e = Some x" "rn_runs r e = Some t" "report_ok past (rn_returncode r) e x t f" by blast
  from x(3) have "settled t" by (simp add: report_ok_def)
  from keep[OF x(1,2) this] obtain x' t' where x': "rn_entries r' e = Some x'" "rn_runs r' e = Some t'" "re_process x' = re_process x"
    "rid_of t' = rid_of t" "settled t'" by blast
  have "report_ok (insert a past) (rn_returncode r') e x' t' f"
    by (rule report_ok_mono[OF x(3) _ rc x'(3,4,5)]) auto
  with x' show "\<exists>x t. rn_entries r' e = Some x \<and> rn_runs r' e = Some t \<and> report_ok (insert a past) (rn_returncode r') e x t f" by blast
qed

lemma log_ok_quiet:
  assumes "log_ok past r" "runs_ok r'" "rn_entries r' = rn_entries r" "rn_runs r' = rn_runs r" "rn_returncode r' = rn_returncode r"
    "filter is_finished (rn_pushed r') = filter is_finished (rn_pushed r)"
  shows "log_ok (insert a past) r'"
  by (rule log_ok_step[OF assms(1,2)]) (auto simp: assms(3-6))

lemma launch_log_ok:
  assumes ok: "log_ok past r" and l: "launch mock os now r = Some r'"
  shows "log_ok (insert a past) r'"
proof -
  note r = log_okD(1)[OF ok]
  from l obtain q where q: "rn_loop r = Launching q" by (auto simp: launch_def split: loop_state.splits)
  have "(\<exists>x out r1. r' = register_run q x out r1 \<and> re_killed_reason x = None \<and> (r1 = r \<or> (\<exists>cs. r1 = r\<lparr>rn_commands := cs\<rparr>)))
      \<or> (\<exists>y. r' = reply y r)"
    using l q by (auto simp: launch_def launch_mock_def launch_linux_def split: if_splits option.splits sum.splits)
      (metis run_entry.select_convs(5))+
  then show ?thesis
  proof (elim disjE exE conjE)
    fix y assume "r' = reply y r"
    then show ?thesis by (intro log_ok_quiet[OF ok runner_launch_ok[OF r l]]) simp_all
  next
    have reg: "log_ok (insert a past) r'" if "r' = register_run q x out r1" "re_killed_reason x = None" "rn_entries r1 = rn_entries r"
      "rn_runs r1 = rn_runs r" "rn_next r1 = rn_next r" "rn_returncode r1 = rn_returncode r" "rn_pushed r1 = rn_pushed r" for x out r1
    proof (rule log_ok_step[OF ok runner_launch_ok[OF r l]])
      show "\<exists>x' t'. rn_entries r' e = Some x' \<and> rn_runs r' e = Some t' \<and> re_process x' = re_process y \<and> rid_of t' = rid_of t \<and> settled t'"
        if "rn_entries r e = Some y" "rn_runs r e = Some t" "settled t" for e y t
      proof -
        from that(1) have "e \<noteq> rn_next r" using runs_okD(5)[OF r, of e] by auto
        with that \<open>r' = register_run q x out r1\<close> show ?thesis using \<open>rn_entries r1 = _\<close> \<open>rn_runs r1 = _\<close> \<open>rn_next r1 = _\<close> by auto
      qed
      show "rn_entries r e = Some x' \<and> rn_runs r e = Some t' \<or> run_ok (insert a past) (rn_returncode r') e x' t'"
        if "rn_entries r' e = Some x'" "rn_runs r' e = Some t'" for e x' t'
        using that \<open>r' = register_run q x out r1\<close> \<open>re_killed_reason x = None\<close> \<open>rn_entries r1 = _\<close> \<open>rn_runs r1 = _\<close> \<open>rn_next r1 = _\<close>
        by (auto simp: run_ok_def split: if_splits)
    qed (use that in simp_all)
    { fix x out r1 assume "r' = register_run q x out r1" "re_killed_reason x = None" "r1 = r"
      then show ?thesis by (intro reg[of x out r]) simp_all }
    { fix x out r1 cs assume "r' = register_run q x out r1" "re_killed_reason x = None" "r1 = r\<lparr>rn_commands := cs\<rparr>"
      then show ?thesis by (intro reg[of x out "r\<lparr>rn_commands := cs\<rparr>"]) simp_all }
  qed
qed

lemma announce_log_ok: "log_ok past r \<Longrightarrow> announce os r = Some r' \<Longrightarrow> log_ok (insert a past) r'"
proof -
  assume ok: "log_ok past r" and n: "announce os r = Some r'"
  from n show ?thesis
  proof (cases rule: announce_cases)
    case (1 e x t v r1)
    then have "\<not> is_finished (e, v)" by (cases v) auto
    with 1(4,5) show ?thesis by (intro log_ok_quiet[OF ok announce_ok[OF log_okD(1)[OF ok] n]]) auto
  qed
qed

text \<open>A reason that was asked for.\<close>

lemma run_ok_reason: "run_ok A rc e x t \<Longrightarrow> asked A (rid_of t) e w \<Longrightarrow> run_ok A rc e (x\<lparr>re_killed_reason := Some w\<rparr>) t"
  by (simp add: run_ok_def exit_of_def)

lemma reason_log_ok:
  assumes ok: "log_ok past r" and r': "runs_ok r'" and e: "rn_entries r' = rn_entries (set_reason e (Some w) r)"
    and same: "rn_runs r' = rn_runs r" "rn_returncode r' = rn_returncode r" "rn_pushed r' = rn_pushed r"
    and w: "\<And>t. rn_runs r e = Some t \<Longrightarrow> asked (insert a past) (rid_of t) e w"
  shows "log_ok (insert a past) r'"
proof (rule log_ok_step[OF ok r'])
  show "\<exists>x' t'. rn_entries r' i = Some x' \<and> rn_runs r' i = Some t' \<and> re_process x' = re_process x \<and> rid_of t' = rid_of t \<and> settled t'"
    if "rn_entries r i = Some x" "rn_runs r i = Some t" "settled t" for i x t
    using that by (cases "i = e") (auto simp: e same split: option.split)
  show "rn_entries r i = Some x' \<and> rn_runs r i = Some t' \<or> run_ok (insert a past) (rn_returncode r') i x' t'"
    if x': "rn_entries r' i = Some x'" and t': "rn_runs r' i = Some t'" for i x' t'
  proof (cases "i = e \<and> rn_entries r e \<noteq> None")
    case True
    then obtain x where x: "rn_entries r e = Some x" by blast
    with x' True e have eq: "x' = x\<lparr>re_killed_reason := Some w\<rparr>" by simp
    from log_okD(2)[OF ok x] t' True same(1) have old: "run_ok past (rn_returncode r) e x t'" by simp
    have "run_ok (insert a past) (rn_returncode r) e x t'" by (rule run_ok_mono[OF old]) auto
    with w[of t'] t' True same(1) have "run_ok (insert a past) (rn_returncode r) e x' t'"
      unfolding eq by (intro run_ok_reason) simp_all
    with True same show ?thesis by simp
  next
    case False
    with x' t' same(1) show ?thesis by (auto simp: e split: option.splits if_splits)
  qed
qed (simp_all add: same)

lemma cancel_log_ok: "log_ok past r \<Longrightarrow> log_ok (insert (GetCancel sig q) past) (cancel sig q r)"
proof -
  assume ok: "log_ok past r"
  note r = log_okD(1)[OF ok]
  show ?thesis
  proof (cases rule: cancel_cases[of sig q r])
    case (1 x)
    then show ?thesis by (intro log_ok_quiet[OF ok runner_cancel_ok[OF r]]) simp_all
  next
    case (2 e y)
    have rid: "rid_of t = cq_reservation_id q" if "rn_runs r e = Some t" for t
      using runs_okD(3)[OF r map_of_SomeD[OF 2(1)]] that by (auto simp: listed_run_def)
    have "asked (insert (GetCancel sig q) past) (rid_of t) e (cq_reason q)" if "rn_runs r e = Some t" for t
      using rid[OF that] by (auto simp: asked_def)
    then show ?thesis using 2(2)
      by (intro reason_log_ok[OF ok runner_cancel_ok[OF r], where e = e and w = "cq_reason q"]) auto
  qed
qed

text \<open>One task moves on.\<close>

lemma put_log_ok:
  assumes ok: "log_ok past r" and r': "runs_ok r'" and same: "rn_entries r' = rn_entries r" "rn_runs r' = (rn_runs r)(e \<mapsto> t')"
      "rn_returncode r' = rn_returncode r" "filter is_finished (rn_pushed r') = filter is_finished (rn_pushed r)"
    and t: "rn_runs r e = Some t" "rid_of t' = rid_of t" "settled t \<Longrightarrow> settled t'"
    and n: "\<And>x. rn_entries r e = Some x \<Longrightarrow> run_ok past (rn_returncode r) e x t \<Longrightarrow> run_ok past (rn_returncode r) e x t'"
  shows "log_ok (insert a past) r'"
proof (rule log_ok_step[OF ok r'])
  show "\<exists>x' s'. rn_entries r' i = Some x' \<and> rn_runs r' i = Some s' \<and> re_process x' = re_process x \<and> rid_of s' = rid_of s \<and> settled s'"
    if "rn_entries r i = Some x" "rn_runs r i = Some s" "settled s" for i x s
    using that t by (cases "i = e") (auto simp: same)
  show "rn_entries r i = Some x' \<and> rn_runs r i = Some s' \<or> run_ok (insert a past) (rn_returncode r') i x' s'"
    if x': "rn_entries r' i = Some x'" "rn_runs r' i = Some s'" for i x' s'
  proof (cases "i = e")
    case True
    with x' same have x: "rn_entries r e = Some x'" "s' = t'" by simp_all
    from n[OF x(1) log_okD(2)[OF ok x(1) t(1)]] have "run_ok past (rn_returncode r) e x' t'" .
    then have "run_ok (insert a past) (rn_returncode r) e x' t'" by (rule run_ok_mono) auto
    with True x(2) same(3) show ?thesis by simp
  qed (use x' same in simp)
qed (simp_all add: same)

lemma exit_awaited_log_ok: "log_ok past r \<Longrightarrow> exit_awaited e r = Some r' \<Longrightarrow> log_ok (insert a past) r'"
proof -
  assume ok: "log_ok past r" and n: "exit_awaited e r = Some r'"
  from n show ?thesis
  proof (cases rule: exit_awaited_cases)
    case (1 x t k c)
    have "run_ok past (rn_returncode r) e x (t\<lparr>rt_phase := AwaitOutput k c\<rparr>)" if "run_ok past (rn_returncode r) e x t"
      using that 1(3,5,6) by (auto simp: run_ok_def exit_of_def split: option.splits)
    with 1(1) have "run_ok past (rn_returncode r) e y t \<Longrightarrow> run_ok past (rn_returncode r) e y (t\<lparr>rt_phase := AwaitOutput k c\<rparr>)"
      if "rn_entries r e = Some y" for y using that by simp
    then show ?thesis
      by (rule put_log_ok[OF ok exit_awaited_ok[OF log_okD(1)[OF ok] n], where e = e and t = t and t' = "t\<lparr>rt_phase := AwaitOutput k c\<rparr>", rotated -1])
        (use 1(2,3,4) in \<open>auto simp: settled_def\<close>)
  qed
qed

lemma runtime_over_log_ok: "log_ok past r \<Longrightarrow> runtime_over e sig r = Some r' \<Longrightarrow> log_ok (insert (RuntimeOver e sig) past) r'"
proof -
  assume ok: "log_ok past r" and n: "runtime_over e sig r = Some r'"
  note r = log_okD(1)[OF ok]
  from n show ?thesis
  proof (cases rule: runtime_over_cases)
    case (1 x t w r1)
    from log_okD(2)[OF ok 1(1,2)] have "re_killed_reason x = Some v \<Longrightarrow> asked past (rid_of t) e v" for v by (simp add: run_ok_def)
    with 1(7) have w: "asked (insert (RuntimeOver e sig) past) (rid_of t) e w" by (auto simp: asked_def)
    have r1: "log_ok (insert (RuntimeOver e sig) past) r1"
      by (rule reason_log_ok[OF ok _, where e = e and w = w]) (use w 1(2) in \<open>auto simp: 1(6) runs_ok_reason[OF r]\<close>)
    have en: "rn_entries r1 e = Some (x\<lparr>re_killed_reason := Some w\<rparr>)" "rn_runs r1 e = Some t" using 1(1,2,6) by simp_all
    have "log_ok (insert (RuntimeOver e sig) (insert (RuntimeOver e sig) past)) r'"
    proof (cases "sig = SigDenied")
      case True
      with 1(8) have r': "r' = clean_up e t r1" by simp
      show ?thesis
        by (rule put_log_ok[OF r1 runtime_over_ok[OF r n], where e = e and t = t and t' = "end_run t"])
          (use en in \<open>auto simp: r' settled_def run_ok_def\<close>)
    next
      case False
      with 1(8) have r': "r' = put_run e (t\<lparr>rt_phase := AwaitKilled\<rparr>) r1" by simp
      show ?thesis
        by (rule put_log_ok[OF r1 runtime_over_ok[OF r n], where e = e and t = t and t' = "t\<lparr>rt_phase := AwaitKilled\<rparr>"])
          (use en 1(3) in \<open>auto simp: r' settled_def run_ok_def\<close>)
    qed
    then show ?thesis by (simp only: insert_absorb2)
  qed
qed

lemma run_cleaned_log_ok: "log_ok past r \<Longrightarrow> run_cleaned e r = Some r' \<Longrightarrow> log_ok (insert a past) r'"
proof -
  assume ok: "log_ok past r" and n: "run_cleaned e r = Some r'"
  then obtain t where t: "rn_runs r e = Some t" "rt_phase t = Reporting" "r' = clean_up e t r"
    by (auto simp: run_cleaned_def split: option.splits if_splits)
  show ?thesis
    by (rule put_log_ok[OF ok run_cleaned_ok[OF log_okD(1)[OF ok] n], where e = e and t = t and t' = "end_run t"])
      (use t in \<open>auto simp: settled_def run_ok_def\<close>)
qed

lemma pump_log_ok: "log_ok past r \<Longrightarrow> pump_chunk e text r = Some r' \<Longrightarrow> log_ok (insert a past) r'"
  "log_ok past r \<Longrightarrow> pump_ends e r = Some r' \<Longrightarrow> log_ok (insert a past) r'"
proof -
  assume ok: "log_ok past r" and n: "pump_chunk e text r = Some r'"
  then show "log_ok (insert a past) r'"
    by (intro log_ok_quiet[OF ok pump_ok(1)[OF log_okD(1)[OF ok] n]]) (auto simp: pump_chunk_def split: option.splits if_splits)
next
  assume ok: "log_ok past r" and n: "pump_ends e r = Some r'"
  then obtain t where t: "rn_runs r e = Some t" "r' = put_run e (t\<lparr>rt_output_open := False\<rparr>) r"
    by (auto simp: pump_ends_def split: option.splits if_splits)
  show "log_ok (insert a past) r'"
    by (rule put_log_ok[OF ok pump_ok(2)[OF log_okD(1)[OF ok] n], where e = e and t = t and t' = "t\<lparr>rt_output_open := False\<rparr>"])
      (use t in \<open>auto simp: settled_def run_ok_def\<close>)
qed

lemma process_exits_log_ok: "log_ok past r \<Longrightarrow> process_exits p c r = Some r' \<Longrightarrow> log_ok (insert a past) r'"
proof -
  assume ok: "log_ok past r" and n: "process_exits p c r = Some r'"
  then have c: "p < rn_next r" "rn_returncode r p = None" "r' = r\<lparr>rn_returncode := (rn_returncode r)(p \<mapsto> c)\<rparr>"
    by (auto simp: process_exits_def split: if_splits)
  show ?thesis
    by (rule log_ok_step[OF ok]) (use c runs_ok_exits[OF log_okD(1)[OF ok] c(1)] in auto)
qed

lemma report_log_ok: "log_ok past r \<Longrightarrow> report e now nbytes r = Some r' \<Longrightarrow> log_ok (insert a past) r'"
proof -
  assume ok: "log_ok past r" and n: "report e now nbytes r = Some r'"
  from n show ?thesis
  proof (cases rule: report_cases)
    case (1 x t k c)
    let ?f = "finished_report now nbytes x t k c" and ?t = "t\<lparr>rt_phase := Reporting\<rparr>"
    have old: "run_ok past (rn_returncode r) e x t" by (rule log_okD(2)[OF ok 1(1,2)])
    have none: "(e, FinishedPushed f) \<notin> set (rn_pushed r)" for f
    proof
      assume "(e, FinishedPushed f) \<in> set (rn_pushed r)"
      from log_okD(3)[OF ok this] 1(2) have "settled t" by (auto simp: report_ok_def)
      with 1(3) show False by (simp add: settled_def)
    qed
    from old 1(3,4) have rep: "report_ok past (rn_returncode r) e x ?t ?f"
      by (simp add: report_ok_def run_ok_def finished_report_def settled_def)
    have "log_ok (insert a past) (put_run e ?t r)"
      by (rule put_log_ok[OF ok, where e = e and t = t and t' = ?t])
        (use 1(2,3,4) runs_ok_put[OF log_okD(1)[OF ok] 1(2)] in \<open>auto simp: settled_def run_ok_def\<close>)
    note l = this
    have r': "r' = push_run_event e (FinishedPushed ?f) (put_run e ?t r)"
      using 1(5) by (simp add: push_run_event_def put_run_def)
    have "e \<notin> fst ` set (filter is_finished (rn_pushed r))"
    proof
      assume "e \<in> fst ` set (filter is_finished (rn_pushed r))"
      then obtain v where "(e, v) \<in> set (rn_pushed r)" "is_finished (e, v)" by auto
      with none show False by (cases v) auto
    qed
    moreover have "report_ok (insert a past) (rn_returncode r) e x ?t ?f"
      by (rule report_ok_mono[OF rep]) (auto simp: settled_def 1(4))
    ultimately show ?thesis using l 1(1) unfolding r' log_ok_def by (auto simp: runs_ok_push)
  qed
qed

lemma shutdown_log_ok: "log_ok past r \<Longrightarrow> log_ok (insert (Shutdown sig) past) (shutdown sig r)"
proof (rule shutdown_cases[of r sig])
  fix f C xs
  assume ok: "log_ok past r" and added: "reasons_added r (r\<lparr>rn_entries := f\<rparr>)" and C: "rn_cancelled r \<subseteq> C"
    and s: "shutdown sig r = r\<lparr>rn_entries := f, rn_cancelled := C, rn_shutdowns := xs\<rparr>"
  note r = log_okD(1)[OF ok]
  let ?B = "insert (Shutdown sig) past"
  from added have f: "entry_added (rn_entries r e) (f e)" for e unfolding reasons_added_def by simp
  show ?thesis
  proof (rule log_ok_step[OF ok runs_ok_shutdown[OF r]])
    show "\<exists>x' t'. rn_entries (shutdown sig r) e = Some x' \<and> rn_runs (shutdown sig r) e = Some t' \<and> re_process x' = re_process x
        \<and> rid_of t' = rid_of t \<and> settled t'" if "rn_entries r e = Some x" "rn_runs r e = Some t" "settled t" for e x t
      using f[of e] entry_added_Some[of x "f e"] that by (auto simp: s)
    show "rn_entries r e = Some y \<and> rn_runs r e = Some t \<or> run_ok ?B (rn_returncode (shutdown sig r)) e y t"
      if y: "rn_entries (shutdown sig r) e = Some y" "rn_runs (shutdown sig r) e = Some t" for e y t
    proof -
      from y(1) f[of e] obtain x where x: "rn_entries r e = Some x" "entry_added (Some x) (Some y)"
        by (cases "rn_entries r e") (auto simp: s dest: entry_added_None)
      from y(2) have t: "rn_runs r e = Some t" by (simp add: s)
      from log_okD(2)[OF ok x(1) t] have o: "run_ok ?B (rn_returncode r) e x t" by (rule run_ok_mono) auto
      from entry_added_Some[OF x(2)] obtain why where w: "y = x\<lparr>re_killed_reason := why\<rparr>"
        "why = re_killed_reason x \<or> why = Some ''agent_shutdown''" by auto
      have "asked ?B (rid_of t) e ''agent_shutdown''" by (auto simp: asked_def)
      with run_ok_reason[OF o] o w show ?thesis by (auto simp: s)
    qed
  qed (simp_all add: s)
qed

lemma cancel_lands_log_ok: "log_ok past r \<Longrightarrow> cancel_lands e begun r = Some r' \<Longrightarrow> log_ok (insert a past) r'"
proof -
  assume ok: "log_ok past r" and n: "cancel_lands e begun r = Some r'"
  note r' = shutdown_steps_ok(1)[OF log_okD(1)[OF ok] n]
  from n show ?thesis
  proof (cases rule: cancel_lands_cases)
    case (left t)
    show ?thesis
      by (rule put_log_ok[OF ok r', where e = e and t = t and t' = "end_run t"]) (use left in \<open>auto simp: settled_def run_ok_def\<close>)
  next
    case (unbegun t)
    show ?thesis
      by (rule put_log_ok[OF ok r', where e = e and t = t and t' = "t\<lparr>rt_phase := RunOver\<rparr>"]) (use unbegun in \<open>auto simp: settled_def run_ok_def\<close>)
  qed
qed

lemma shutdown_steps_log_ok:
  "log_ok past r \<Longrightarrow> shutdown_kills i sig r = Some r' \<Longrightarrow> log_ok (insert a past) r'"
  "log_ok past r \<Longrightarrow> shutdown_ends i r = Some r' \<Longrightarrow> log_ok (insert a past) r'"
proof -
  assume ok: "log_ok past r" and n: "shutdown_kills i sig r = Some r'"
  then show "log_ok (insert a past) r'"
    by (intro log_ok_quiet[OF ok shutdown_steps_ok(2)[OF log_okD(1)[OF ok] n]]) (auto elim: shutdown_kills_cases)
next
  assume ok: "log_ok past r" and n: "shutdown_ends i r = Some r'"
  then show "log_ok (insert a past) r'"
    by (intro log_ok_quiet[OF ok shutdown_steps_ok(3)[OF log_okD(1)[OF ok] n]]) (auto elim: shutdown_ends_cases)
qed

lemma act_log_ok: "log_ok past r \<Longrightarrow> runner_act mock a r = Some r' \<Longrightarrow> log_ok (insert a past) r'"
proof (cases a)
  case (GetExecute h os q)
  assume ok: "log_ok past r" and "runner_act mock a r = Some r'"
  with GetExecute have r': "r' = execute mock h os q r" by (auto split: if_splits)
  show ?thesis
    by (rule log_ok_quiet[OF ok]) (use runner_execute_ok[OF log_okD(1)[OF ok], of mock h os q] in \<open>auto simp: r' execute_def split: option.split\<close>)
next
  case (Overdue i)
  assume ok: "log_ok past r" and "runner_act mock a r = Some r'"
  with Overdue have r': "r' = r\<lparr>rn_overdue := take i (rn_overdue r) @ drop (Suc i) (rn_overdue r)\<rparr>"
    by (auto simp: sigkill_if_overdue_def split: if_splits)
  show ?thesis by (rule log_ok_quiet[OF ok]) (auto simp: r' runs_ok_fields(1) log_okD(1)[OF ok])
qed (auto dest!: unless_cancelledD intro: launch_log_ok announce_log_ok cancel_log_ok exit_awaited_log_ok runtime_over_log_ok report_log_ok
    run_cleaned_log_ok pump_log_ok process_exits_log_ok shutdown_log_ok cancel_lands_log_ok shutdown_steps_log_ok split: if_splits)

interpretation reports: action_runs "runner_act mock" "runner_acts mock" "\<lambda>past r. log_ok (set past) r" for mock
  by unfold_locales (auto simp: runner_acts_Cons simp del: runner_acts.simps(2) intro: act_log_ok)

section \<open>Commands\<close>

definition may_run :: "agent_host \<Rightarrow> script_os \<Rightarrow> execute_request \<Rightarrow> bool" where
  "may_run h os q \<longleftrightarrow> capability_enabled script_capability True h
     \<and> (\<exists>uid. os_getpwnam os (xq_linux_username q) = Some uid \<and> MIN_UID \<le> uid)"

definition commands_ok :: "runner_action list \<Rightarrow> runner \<Rightarrow> bool" where
  "commands_ok past r \<longleftrightarrow> (\<forall>e c. (e, c) \<in> set (rn_commands r) \<longrightarrow> (\<exists>h os q. GetExecute h os q \<in> set past \<and> may_run h os q \<and> c = script_command q))
     \<and> (\<forall>q. rn_loop r = Launching q \<longrightarrow> (\<exists>h os. GetExecute h os q \<in> set past \<and> may_run h os q))"

lemma not_refused: "execute_refusal False h os q r = None \<Longrightarrow> may_run h os q"
  by (auto simp: execute_refusal_def may_run_def resolve_user_or_error_def MIN_UID_def split: if_splits option.splits)

text \<open>Only an execute request leads to a launch, and only a launch starts a command.\<close>

lemma act_frame:
  assumes "runner_act mock a r = Some r'" and "\<And>h os q. a \<noteq> GetExecute h os q" and "\<And>os now. a \<noteq> Launch os now"
  shows "rn_commands r' = rn_commands r" "rn_loop r' = Launching q \<Longrightarrow> rn_loop r = Launching q"
proof -
  have "rn_commands r' = rn_commands r \<and> (rn_loop r' = rn_loop r \<or> (\<forall>q. rn_loop r' \<noteq> Launching q))"
  proof (cases a)
    case (Announce os)
    with assms(1) have "announce os r = Some r'" by simp
    then show ?thesis by (cases rule: announce_cases) auto
  next
    case (GetCancel sig q)
    with assms(1) have "r' = cancel sig q r" "rn_loop r = LoopIdle" by (auto split: if_splits)
    then show ?thesis by (cases rule: cancel_cases[of sig q r]) auto
  next
    case (ExitAwaited e)
    with assms(1) have "exit_awaited e r = Some r'" by (auto dest: unless_cancelledD)
    then show ?thesis by (cases rule: exit_awaited_cases) auto
  next
    case (RuntimeOver e sig)
    with assms(1) have "runtime_over e sig r = Some r'" by (auto dest: unless_cancelledD)
    then show ?thesis by (cases rule: runtime_over_cases) auto
  next
    case (Report e now nbytes)
    with assms(1) have "report e now nbytes r = Some r'" by (auto dest: unless_cancelledD)
    then show ?thesis by (cases rule: report_cases) auto
  next
    case (Shutdown sig)
    with assms(1) show ?thesis by (auto intro: shutdown_cases[of r sig])
  next
    case (CancelLands e begun)
    with assms(1) have "cancel_lands e begun r = Some r'" by simp
    then show ?thesis by (cases rule: cancel_lands_cases) auto
  next
    case (ShutdownKills i sig)
    with assms(1) have "shutdown_kills i sig r = Some r'" by simp
    then show ?thesis by (cases rule: shutdown_kills_cases) auto
  next
    case (ShutdownEnds i)
    with assms(1) have "shutdown_ends i r = Some r'" by simp
    then show ?thesis by (cases rule: shutdown_ends_cases) auto
  qed (use assms in \<open>auto simp: sigkill_if_overdue_def run_cleaned_def pump_chunk_def pump_ends_def process_exits_def
      dest!: unless_cancelledD split: if_splits option.splits\<close>)
  then show "rn_commands r' = rn_commands r" "rn_loop r' = Launching q \<Longrightarrow> rn_loop r = Launching q" by auto
qed

lemma commands_ok_mono: "commands_ok past r \<Longrightarrow> rn_commands r' = rn_commands r \<Longrightarrow>
    (\<And>q. rn_loop r' = Launching q \<Longrightarrow> rn_loop r = Launching q) \<Longrightarrow> commands_ok (past @ [a]) r'"
  unfolding commands_ok_def by (metis in_set_butlast_appendI butlast_snoc in_set_conv_decomp append_is_Nil_conv set_append UnI1)

lemma act_commands_ok: "commands_ok past r \<Longrightarrow> runner_act False a r = Some r' \<Longrightarrow> commands_ok (past @ [a]) r'"
proof (cases a)
  case (GetExecute h os q)
  assume ok: "commands_ok past r" and "runner_act False a r = Some r'"
  with GetExecute have r': "r' = execute False h os q r" by (auto split: if_splits)
  show ?thesis
  proof (cases "execute_refusal False h os q r")
    case None
    with r' have "r' = r\<lparr>rn_loop := Launching q\<rparr>" by (simp add: execute_def)
    with ok not_refused[OF None] GetExecute show ?thesis by (auto simp: commands_ok_def) blast+
  next
    case (Some e)
    with r' ok show ?thesis by (intro commands_ok_mono) (auto simp: execute_def)
  qed
next
  case (Launch os now)
  assume ok: "commands_ok past r" and n: "runner_act False a r = Some r'"
  with Launch obtain q where q: "rn_loop r = Launching q" "r' = launch_linux os now q r"
    by (auto simp: launch_def split: loop_state.splits)
  from ok q(1) obtain h ho where "GetExecute h ho q \<in> set past" "may_run h ho q" by (auto simp: commands_ok_def)
  moreover have "rn_commands r' = rn_commands r \<or> rn_commands r' = rn_commands r @ [(rn_next r, script_command q)]" "\<forall>q. rn_loop r' \<noteq> Launching q"
    using q(2) by (auto simp: launch_linux_def split: option.splits sum.splits)
  ultimately show ?thesis using ok unfolding commands_ok_def by auto blast+
qed (use act_frame in \<open>auto intro!: commands_ok_mono simp del: runner_act.simps\<close>)

interpretation commands: action_runs "runner_act False" "runner_acts False" commands_ok
  by unfold_locales (auto simp: runner_acts_Cons simp del: runner_acts.simps(2) intro: act_commands_ok)

section \<open>Runs that are over\<close>

definition over_without :: "nat \<Rightarrow> runner \<Rightarrow> bool" where
  "over_without e r \<longleftrightarrow> runs_ok r \<and> e \<notin> snd ` set (rn_running r) \<and> (\<exists>t. rn_runs r e = Some t \<and> rt_phase t = RunOver \<and> \<not> rt_output_open t)
     \<and> (\<forall>f. (e, FinishedPushed f) \<notin> set (rn_pushed r))"

lemma act_over_without:
  assumes ok: "over_without e r" and n: "runner_act mock a r = Some r'"
  shows "over_without e r'"
proof -
  from ok obtain t where r: "runs_ok r" and t: "rn_runs r e = Some t" "rt_phase t = RunOver" "\<not> rt_output_open t"
    and f: "\<And>f. (e, FinishedPushed f) \<notin> set (rn_pushed r)" and gone: "e \<notin> snd ` set (rn_running r)" unfolding over_without_def by blast
  from t(1) runs_okD(4)[OF r, of e] have e: "e \<noteq> rn_next r" by auto
  have end_t: "end_run t = t" using t(2,3) by (cases t) (simp add: end_run_def)
  have popped: "e \<notin> snd ` set (dict_pop k (rn_running r))" for k using gone by (auto simp: set_dict_pop)
  have "rn_runs r' e = Some t \<and> (\<forall>f. (e, FinishedPushed f) \<notin> set (rn_pushed r')) \<and> e \<notin> snd ` set (rn_running r')"
  proof (cases a)
    case (Launch os now)
    with n obtain q where q: "rn_loop r = Launching q" by (auto simp: launch_def split: loop_state.splits)
    from dict_set_new[OF runs_okD(8)[OF r q]] gone e
    have "e \<notin> snd ` set (dict_set (rn_running r) (xq_reservation_id q) (rn_next r))" by simp
    with Launch n e t(1) f gone q show ?thesis
      by (auto simp: launch_def launch_mock_def launch_linux_def split: if_splits option.splits sum.splits)
  next
    case (Announce os)
    with n have "announce os r = Some r'" by simp
    then show ?thesis
    proof (cases rule: announce_cases)
      case (1 i x s v r1)
      from 1(3) have "FinishedPushed g \<noteq> v" for g by metis
      with 1(4,5) t(1) f gone show ?thesis by auto
    qed
  next
    case (GetCancel sig q)
    with n have "r' = cancel sig q r" by (auto split: if_splits)
    then show ?thesis using t(1) f gone by (cases rule: cancel_cases[of sig q r]) auto
  next
    case (ExitAwaited i)
    with n have "exit_awaited i r = Some r'" by (auto dest: unless_cancelledD)
    then show ?thesis using t(1,2) f gone by (cases rule: exit_awaited_cases) auto
  next
    case (RuntimeOver i sig)
    with n have "runtime_over i sig r = Some r'" by (auto dest: unless_cancelledD)
    then show ?thesis using t(1,2) f gone popped by (cases rule: runtime_over_cases) auto
  next
    case (Report i now nbytes)
    with n have "report i now nbytes r = Some r'" by (auto dest: unless_cancelledD)
    then show ?thesis using t(1,2) f gone by (cases rule: report_cases) auto
  next
    case (Cleaned i)
    with n have "run_cleaned i r = Some r'" by (auto dest: unless_cancelledD)
    then obtain u where u: "rn_runs r i = Some u" "rt_phase u = Reporting" "r' = clean_up i u r"
      by (auto simp: run_cleaned_def split: option.splits if_splits)
    with t(1,2) have "i \<noteq> e" by auto
    with u t(1,2) f popped show ?thesis by simp
  next
    case (Shutdown sig)
    with n have "r' = shutdown sig r" by simp
    then show ?thesis using t(1) f gone by (cases rule: shutdown_cases[of r sig]) simp
  next
    case (CancelLands i begun)
    with n have "cancel_lands i begun r = Some r'" by simp
    then show ?thesis using t(1,2) f gone popped by (cases rule: cancel_lands_cases) auto
  next
    case (ShutdownKills i sig)
    with n have "shutdown_kills i sig r = Some r'" by simp
    then show ?thesis using t(1) f gone by (cases rule: shutdown_kills_cases) auto
  next
    case (ShutdownEnds i)
    with n have "shutdown_ends i r = Some r'" by simp
    then show ?thesis using t(1) f by (cases rule: shutdown_ends_cases) auto
  qed (use n t f gone in \<open>auto simp: execute_def sigkill_if_overdue_def pump_chunk_def pump_ends_def process_exits_def
      split: if_splits option.splits\<close>)
  with t(2,3) act_runs_ok[OF r n] show ?thesis unfolding over_without_def by blast
qed

interpretation over: action_runs "runner_act mock" "runner_acts mock" "\<lambda>past. over_without e" for mock e
  by unfold_locales (auto simp: runner_acts_Cons simp del: runner_acts.simps(2) intro: act_over_without)

section \<open>Runs without a shutdown that forgets\<close>

text \<open>What an action does to the dictionary and to the runs that are not over.\<close>

lemma act_live:
  assumes r: "runs_ok r" and n: "runner_act mock a r = Some r'"
  obtains (same) "rn_running r' = rn_running r" "\<And>rid e. live_run r' rid e \<Longrightarrow> live_run r rid e"
  | (new) q x out r0 where "r' = register_run q x out r0" "rn_running r0 = rn_running r" "rn_runs r0 = rn_runs r" "rn_next r0 = rn_next r"
      "xq_reservation_id q \<notin> fst ` set (rn_running r)"
  | (gone) e t where "rn_runs r e = Some t" "rt_phase t \<noteq> RunOver" "rn_running r' = dict_pop (rid_of t) (rn_running r)"
      "rn_runs r' = (rn_runs r)(e \<mapsto> end_run t)"
  | (cleared) i where "a = ShutdownEnds i" "rn_runs r' = rn_runs r"
proof -
  have frame: thesis if "rn_running r' = rn_running r" "rn_runs r' = rn_runs r" using that same by (simp add: live_run_def)
  have put: thesis if "rn_running r' = rn_running r" "rn_runs r' = (rn_runs r)(e \<mapsto> t')" "rn_runs r e = Some t" "rid_of t' = rid_of t"
    "rt_phase t \<noteq> RunOver \<or> rt_phase t' = RunOver" for e t t'
    using that by (intro same) (auto simp: live_run_def split: if_splits)
  show thesis
  proof (cases a)
    case (GetExecute h os q)
    with n show thesis by (intro frame) (auto simp: execute_def split: if_splits option.splits)
  next
    case (Launch os now)
    with n obtain q where q: "rn_loop r = Launching q" by (auto simp: launch_def split: loop_state.splits)
    note fresh = runs_okD(8)[OF r q]
    from n Launch q have "r' = launch_mock now q r \<or> r' = launch_linux os now q r" by (auto simp: launch_def split: if_splits)
    then show thesis
    proof
      assume "r' = launch_mock now q r"
      then show thesis unfolding launch_mock_def by (rule new) (simp_all add: fresh)
    next
      assume l: "r' = launch_linux os now q r"
      show thesis
      proof (cases "os_touch os = None \<and> \<not> isl (os_spawn os)")
        case True
        then obtain pid where "os_touch os = None" "os_spawn os = Inr pid" by (cases "os_spawn os") auto
        with l have "r' = register_run q \<lparr>re_process = Some (rn_next r), re_started_at = now, re_log_path = Some (xq_stdout_log_path_hint q),
            re_pid = Some pid, re_killed_reason = None\<rparr> True (r\<lparr>rn_commands := rn_commands r @ [(rn_next r, script_command q)]\<rparr>)"
          by (simp add: launch_linux_def)
        then show thesis by (rule new) (simp_all add: fresh)
      next
        case False
        with l show thesis by (intro frame) (auto simp: launch_linux_def split: option.splits sum.splits)
      qed
    qed
  next
    case (Announce os)
    with n have "announce os r = Some r'" by simp
    then show thesis by (cases rule: announce_cases) (auto intro!: frame)
  next
    case (GetCancel sig q)
    with n have "r' = cancel sig q r" by (auto split: if_splits)
    then show thesis by (cases rule: cancel_cases[of sig q r]) (auto intro!: frame)
  next
    case (ExitAwaited e)
    with n have "exit_awaited e r = Some r'" by (auto dest: unless_cancelledD)
    then show thesis by (cases rule: exit_awaited_cases) (auto intro!: put)
  next
    case (RuntimeOver e sig)
    with n have "runtime_over e sig r = Some r'" by (auto dest: unless_cancelledD)
    then show thesis
    proof (cases rule: runtime_over_cases)
      case (1 x t w r1)
      then show thesis using gone[of e t] put[of e "t\<lparr>rt_phase := AwaitKilled\<rparr>" t] by (cases "sig = SigDenied") auto
    qed
  next
    case (Report e now nbytes)
    with n have "report e now nbytes r = Some r'" by (auto dest: unless_cancelledD)
    then show thesis by (cases rule: report_cases) (auto intro!: put)
  next
    case (Cleaned e)
    with n have "run_cleaned e r = Some r'" by (auto dest: unless_cancelledD)
    then show thesis using gone by (auto simp: run_cleaned_def split: option.splits if_splits)
  next
    case (OutputEnds e)
    with n show thesis using put by (auto simp: pump_ends_def split: option.splits if_splits)
  next
    case (Shutdown sig)
    with n have "r' = shutdown sig r" by simp
    then show thesis by (cases rule: shutdown_cases[of r sig]) (simp add: frame)
  next
    case (CancelLands e begun)
    with n have "cancel_lands e begun r = Some r'" by simp
    then show thesis
    proof (cases rule: cancel_lands_cases)
      case (left t)
      then show thesis using gone[of e t] by auto
    next
      case (unbegun t)
      then show thesis using put[of e "t\<lparr>rt_phase := RunOver\<rparr>" t] by auto
    qed
  next
    case (ShutdownKills i sig)
    with n have "shutdown_kills i sig r = Some r'" by simp
    then show thesis by (cases rule: shutdown_kills_cases) (auto intro!: frame)
  next
    case (ShutdownEnds i)
    with n have "shutdown_ends i r = Some r'" by simp
    then show thesis using cleared[OF ShutdownEnds] by (cases rule: shutdown_ends_cases) auto
  qed (use n in \<open>auto simp: sigkill_if_overdue_def pump_chunk_def process_exits_def intro!: frame split: if_splits option.splits\<close>)
qed

definition nothing_live :: "runner \<Rightarrow> bool" where
  "nothing_live r \<longleftrightarrow> all_over r [0..<rn_next r]"

lemma nothing_liveD:
  assumes "runs_ok r" and "nothing_live r"
  shows "\<not> live_run r rid e"
proof
  assume "live_run r rid e"
  then obtain t where t: "rn_runs r e = Some t" "rt_phase t \<noteq> RunOver" by (auto simp: live_run_def)
  with runs_okD(4)[OF assms(1), of e] have "e \<in> set [0..<rn_next r]" by simp
  with assms(2) have "case rn_runs r e of None \<Rightarrow> True | Some t \<Rightarrow> rt_phase t = RunOver"
    unfolding nothing_live_def all_over_def list_all_iff by blast
  with t show False by simp
qed

text \<open>No shutdown of the run finishes while a run it does not wait for is under way.\<close>

fun forgets_nothing :: "bool \<Rightarrow> runner_action list \<Rightarrow> runner \<Rightarrow> bool" where
  "forgets_nothing mock [] r \<longleftrightarrow> True"
| "forgets_nothing mock (a # as) r \<longleftrightarrow> (case a of ShutdownEnds i \<Rightarrow> nothing_live r | _ \<Rightarrow> True)
     \<and> (case runner_act mock a r of None \<Rightarrow> True | Some r' \<Rightarrow> forgets_nothing mock as r')"

lemma act_tracked:
  assumes r: "runs_ok r" and t: "tracked r" and n: "runner_act mock a r = Some r'" and q: "\<And>i. a = ShutdownEnds i \<Longrightarrow> nothing_live r"
  shows "tracked r'"
  unfolding tracked_def
proof (intro allI impI)
  fix rid e assume l: "live_run r' rid e"
  from r n show "(rid, e) \<in> set (rn_running r')"
  proof (cases rule: act_live)
    case same
    with l t show ?thesis by (auto simp: tracked_def)
  next
    case (new q x out r0)
    with l t show ?thesis by (auto simp: live_run_def tracked_def dict_set_new split: if_splits)
  next
    case (gone i u)
    have old: "e \<noteq> i" "live_run r rid e" using l gone(4) by (auto simp: live_run_def split: if_splits)
    have "(rid_of u, i) \<in> set (rn_running r)" using t gone(1,2) by (auto simp: tracked_def live_run_def)
    with old t runs_okD(2)[OF r] have "rid \<noteq> rid_of u" unfolding tracked_def by (metis eq_key_imp_eq_value)
    with old t gone(3) show ?thesis by (auto simp: tracked_def set_dict_pop)
  next
    case (cleared i)
    with l nothing_liveD[OF r q[OF cleared(1)]] show ?thesis by (auto simp: live_run_def)
  qed
qed

lemma acts_tracked: "runs_ok r \<Longrightarrow> tracked r \<Longrightarrow> forgets_nothing mock as r \<Longrightarrow> runner_acts mock as r = Some r' \<Longrightarrow> tracked r'"
proof (induction as arbitrary: r)
  case (Cons a as)
  from Cons.prems(4) obtain r1 where r1: "runner_act mock a r = Some r1" "runner_acts mock as r1 = Some r'" by (auto split: option.splits)
  have "tracked r1" by (rule act_tracked[OF Cons.prems(1,2) r1(1)]) (use Cons.prems(3) in auto)
  with Cons.IH[OF act_runs_ok[OF Cons.prems(1) r1(1)]] Cons.prems(3) r1 show ?case by simp
qed simp

end
