(* ===== verification/Guarantees_Runner.thy ===== *)
theory Guarantees_Runner
  imports Runner_Props Scheduler_Props
begin

text \<open>
  What the script runner of an agent guarantees, and what becomes of its answers on the backend: one run of a reservation at a
  time, reports that tell how a run ended, commands for ordinary accounts only, the run that is lost when a signal is
  denied, the failure that is counted for a script that runs.
\<close>

section \<open>Scenario\<close>

definition sc_agent_host :: agent_host where
  "sc_agent_host = \<lparr>ah_capabilities = Map.empty, ah_users = Map.empty, ah_files = Map.empty\<rparr>"

definition sc_os :: script_os where
  "sc_os = \<lparr>os_getpwnam = [''alice'' \<mapsto> 1001], os_has_sudo = True, os_mkdir = None, os_touch = None, os_spawn = Inr 4242,
     os_getpid = 77, os_platform = ''LINUX'', os_header = []\<rparr>"

definition sc_execute :: execute_request where
  "sc_execute = \<lparr>xq_reservation_id = 5, xq_linux_username = ''alice'', xq_script = [], xq_working_directory = None, xq_env = [],
     xq_max_runtime_seconds = Some 60, xq_stdout_log_path_hint = ''/log/5''\<rparr>"

definition sc_cancel :: cancel_request where
  "sc_cancel = \<lparr>cq_reservation_id = 5, cq_reason = ''user_cancel''\<rparr>"

definition sc_start :: "runner_action list" where
  "sc_start = [GetExecute sc_agent_host sc_os sc_execute, Launch sc_os 0, Announce sc_os]"

definition sc_stop :: "runner_action list" where
  "sc_stop = [GetCancel SigSent sc_cancel, Exits 0 (- 15), ExitAwaited 0, OutputEnds 0, Report 0 9 None, Cleaned 0]"

lemmas sc_runner_defs = sc_agent_host_def sc_os_def sc_execute_def sc_cancel_def sc_start_def sc_stop_def new_runner_def

lemma sc_runs: "case runner_acts False sc_start new_runner of None \<Rightarrow> False
    | Some r \<Rightarrow> map_of (rn_running r) 5 = Some 0 \<and> rn_loop r = LoopIdle \<and> (case runner_acts False sc_stop r of None \<Rightarrow> False
      | Some r' \<Rightarrow> rn_running r' = [])"
  by code_simp

lemma sc_started: "\<exists>r. runner_acts False sc_start new_runner = Some r \<and> map_of (rn_running r) 5 = Some 0 \<and> rn_loop r = LoopIdle"
  using sc_runs by (auto split: option.splits)

lemma sc_stopped: "\<exists>r. runner_acts False (sc_start @ sc_stop) new_runner = Some r"
  using sc_runs by (auto simp: runner_acts_append split: option.splits)

lemma sc_reports: "case runner_acts False (sc_start @ sc_stop) new_runner of None \<Rightarrow> False
    | Some r \<Rightarrow> (\<exists>p \<in> set (rn_pushed r). fst p = 0 \<and> (case snd p of FinishedPushed f \<Rightarrow> sf_killed_by_corelab f | _ \<Rightarrow> False))"
  by code_simp

section \<open>One run of a reservation\<close>

lemma one_run_listed: "runner_acts mock as new_runner = Some r \<Longrightarrow> map_of (rn_running r) rid = Some e \<Longrightarrow> listed_run r rid e"
proof -
  assume "runner_acts mock as new_runner = Some r" "map_of (rn_running r) rid = Some e"
  with tables.inv_runs[OF runs_ok_new] show ?thesis using runs_okD(3) map_of_SomeD by metis
qed

lemma one_run_live: "runner_acts mock as new_runner = Some r \<Longrightarrow> forgets_nothing mock as new_runner \<Longrightarrow> live_run r rid e \<Longrightarrow>
    map_of (rn_running r) rid = Some e"
proof -
  assume run: "runner_acts mock as new_runner = Some r" and q: "forgets_nothing mock as new_runner" and l: "live_run r rid e"
  from tables.inv_runs[OF runs_ok_new run] have ok: "runs_ok r" .
  have "tracked new_runner" by (simp add: tracked_def live_run_def new_runner_def)
  from acts_tracked[OF runs_ok_new this q run] l have "(rid, e) \<in> set (rn_running r)" by (simp add: tracked_def)
  with runs_okD(2)[OF ok] show ?thesis by (simp add: map_of_eq_Some_iff)
qed

text \<open>
  C30. In every run of the agent in which no shutdown finishes while a script it did not wait for is under way: a reservation has
  at most one run whose task has not ended, it is the one the dictionary of running scripts has, so the one a cancellation
  finds, and a request to execute the script of that reservation again is refused and starts nothing. What the dictionary
  has is, in every run of the agent, a run of that reservation whose task has not ended, or was stopped by a shutdown before it
  began. A run here is what the agent keeps of one: a process whose kill was denied runs on without it.
\<close>

theorem one_run_of_a_reservation:
  assumes "runner_acts mock as new_runner = Some r"
  shows "(forgets_nothing mock as new_runner \<longrightarrow>
        (\<forall>rid e. live_run r rid e \<longrightarrow> map_of (rn_running r) rid = Some e)
      \<and> (\<forall>rid e e'. live_run r rid e \<longrightarrow> live_run r rid e' \<longrightarrow> e = e')
      \<and> (\<forall>h os q r'. (\<exists>e. live_run r (xq_reservation_id q) e) \<longrightarrow> runner_act mock (GetExecute h os q) r = Some r' \<longrightarrow>
          (\<exists>why. r' = reply (ExecuteReply (execute_refused why)) r)))
    \<and> (\<forall>rid e. map_of (rn_running r) rid = Some e \<longrightarrow> live_run r rid e
        \<or> (\<exists>t. rn_runs r e = Some t \<and> xq_reservation_id (rt_request t) = rid \<and> e \<in> rn_cancelled r))"
proof (intro conjI impI allI)
  fix rid e assume "map_of (rn_running r) rid = Some e"
  from one_run_listed[OF assms this] show "live_run r rid e \<or> (\<exists>t. rn_runs r e = Some t \<and> rid_of t = rid \<and> e \<in> rn_cancelled r)"
    by (auto simp: listed_run_def live_run_def)
next
  assume q: "forgets_nothing mock as new_runner"
  note live = one_run_live[OF assms q]
  show "map_of (rn_running r) rid = Some e" if "live_run r rid e" for rid e using live[OF that] .
  show "e = e'" if "live_run r rid e" "live_run r rid e'" for rid e e' using live[OF that(1)] live[OF that(2)] by simp
  show "\<exists>why. r' = reply (ExecuteReply (execute_refused why)) r"
    if "\<exists>e. live_run r (xq_reservation_id x) e" "runner_act mock (GetExecute h os x) r = Some r'" for h os x r'
  proof -
    from that(1) live obtain e where "map_of (rn_running r) (xq_reservation_id x) = Some e" by blast
    then obtain why where "execute_refusal mock h os x r = Some why" by (cases "execute_refusal mock h os x r") (simp_all add: execute_refusal_def split: if_splits)
    with that(2) show ?thesis by (simp add: execute_def split: if_splits) blast
  qed
qed

lemma sc_live: "\<exists>r. runner_acts False sc_start new_runner = Some r \<and> live_run r 5 0"
proof -
  have "case runner_acts False sc_start new_runner of None \<Rightarrow> False
    | Some r \<Rightarrow> (case rn_runs r 0 of None \<Rightarrow> False | Some t \<Rightarrow> xq_reservation_id (rt_request t) = 5 \<and> rt_phase t = AwaitExit)" by code_simp
  then show ?thesis by (auto simp: live_run_def split: option.splits)
qed

lemma sc_quiet: "forgets_nothing False sc_start new_runner"
  by code_simp

theorem one_run_of_a_reservation_witness:
  "\<exists>r. runner_acts False sc_start new_runner = Some r \<and> live_run r 5 0
    \<and> (\<forall>r'. runner_act False (GetExecute sc_agent_host sc_os sc_execute) r = Some r' \<longrightarrow> rn_next r' = rn_next r)"
proof -
  obtain r where r: "runner_acts False sc_start new_runner = Some r" "map_of (rn_running r) 5 = Some 0" using sc_started by blast
  note one = one_run_of_a_reservation[OF r(1)]
  have none: "rn_cancelled r = {}"
  proof -
    have "case runner_acts False sc_start new_runner of None \<Rightarrow> False | Some r \<Rightarrow> Set.is_empty (rn_cancelled r)" by code_simp
    with r(1) show ?thesis by simp
  qed
  from one r(2) none have live: "live_run r 5 0" by blast
  have id: "xq_reservation_id sc_execute = 5" by (simp add: sc_execute_def)
  have "rn_next r' = rn_next r" if "runner_act False (GetExecute sc_agent_host sc_os sc_execute) r = Some r'" for r'
  proof -
    from one sc_quiet live id that obtain why where "r' = reply (ExecuteReply (execute_refused why)) r" by metis
    then show ?thesis by simp
  qed
  with r live show ?thesis by blast
qed

text \<open>
  A shutdown clears what it did not wait for: a script that was started during it runs on unlisted, a cancellation does not
  find it, and the next request for its reservation starts a second one.
\<close>

theorem shutdown_forgets_a_run:
  "case runner_acts False (sc_start @ [Shutdown (\<lambda>_. SigSent), CancelLands 0 True] @ sc_start @ [Exits 0 (- 15), ShutdownEnds 0] @ sc_start) new_runner of
     None \<Rightarrow> False
   | Some r \<Rightarrow> (case (rn_runs r 1, rn_runs r 2) of
         (Some t, Some u) \<Rightarrow> rt_request t = sc_execute \<and> rt_request u = sc_execute \<and> rt_phase t = AwaitExit \<and> rt_phase u = AwaitExit
       | _ \<Rightarrow> False) \<and> rn_running r = [(5, 2)]"
  by code_simp

section \<open>Reports\<close>

lemma count_distinct: "distinct xs \<Longrightarrow> count_list xs e \<le> 1"
  by (induction xs) (auto simp: count_list_0_iff)

lemma finished_count: "length (filter (\<lambda>p. fst p = e \<and> is_finished p) xs) = count_list (map fst (filter is_finished xs)) e"
  by (induction xs) auto

text \<open>
  C31. Every finished event is about a run whose output has ended, no run has two, and it tells the exit code of the process of
  that run, which has exited. An event that says the script was killed gives a reason, and a reason is one of a cancellation
  of that reservation, the limit of the run time or the shutdown, whichever happened.
\<close>

theorem reports_tell_the_exit:
  assumes "runner_acts mock as new_runner = Some r"
  shows "(\<forall>e f. (e, FinishedPushed f) \<in> set (rn_pushed r) \<longrightarrow> (\<exists>x t. rn_entries r e = Some x \<and> rn_runs r e = Some t
        \<and> sf_reservation_id f = xq_reservation_id (rt_request t) \<and> \<not> rt_output_open t
        \<and> (\<forall>p. re_process x = Some p \<longrightarrow> sf_exit_code f = rn_returncode r p \<and> sf_exit_code f \<noteq> None)
        \<and> (sf_killed_by_corelab f \<longrightarrow> sf_killed_reason f \<noteq> None)
        \<and> (\<forall>w. sf_killed_reason f = Some w \<longrightarrow> asked (set as) (sf_reservation_id f) e w)))
    \<and> (\<forall>e. length (filter (\<lambda>p. fst p = e \<and> is_finished p) (rn_pushed r)) \<le> 1)"
proof (intro conjI allI impI)
  have ok: "log_ok (set as) r" using reports.inv_runs[of "[]" new_runner mock as r] assms log_ok_new by simp
  show "\<exists>x t. rn_entries r e = Some x \<and> rn_runs r e = Some t \<and> sf_reservation_id f = xq_reservation_id (rt_request t) \<and> \<not> rt_output_open t
        \<and> (\<forall>p. re_process x = Some p \<longrightarrow> sf_exit_code f = rn_returncode r p \<and> sf_exit_code f \<noteq> None)
        \<and> (sf_killed_by_corelab f \<longrightarrow> sf_killed_reason f \<noteq> None)
        \<and> (\<forall>w. sf_killed_reason f = Some w \<longrightarrow> asked (set as) (sf_reservation_id f) e w)"
    if "(e, FinishedPushed f) \<in> set (rn_pushed r)" for e f
  proof -
    from log_okD(3)[OF ok that] obtain x t where "rn_entries r e = Some x" "rn_runs r e = Some t" "report_ok (set as) (rn_returncode r) e x t f" by blast
    then show ?thesis
      by (intro exI[of _ x] exI[of _ t] conjI) (auto simp: report_ok_def settled_def exit_of_def, metis+)
  qed
  fix e
  have "length (filter (\<lambda>p. fst p = e \<and> is_finished p) (rn_pushed r)) = count_list (map fst (filter is_finished (rn_pushed r))) e"
    by (rule finished_count)
  also have "\<dots> \<le> 1" using log_okD(4)[OF ok] by (rule count_distinct)
  finally show "length (filter (\<lambda>p. fst p = e \<and> is_finished p) (rn_pushed r)) \<le> 1" .
qed

theorem reports_tell_the_exit_witness:
  "\<exists>r f. runner_acts False (sc_start @ sc_stop) new_runner = Some r \<and> (0, FinishedPushed f) \<in> set (rn_pushed r)
    \<and> sf_killed_reason f \<noteq> None"
proof -
  obtain r where r: "runner_acts False (sc_start @ sc_stop) new_runner = Some r" using sc_stopped by blast
  with sc_reports obtain p where p: "p \<in> set (rn_pushed r)" "fst p = 0" "case snd p of FinishedPushed f \<Rightarrow> sf_killed_by_corelab f | _ \<Rightarrow> False" by auto
  from p(2) obtain v where "p = (0, v)" by (metis prod.collapse)
  with p(3) obtain f where f: "p = (0, FinishedPushed f)" "sf_killed_by_corelab f" by (cases v) auto
  with p(1) have "sf_killed_reason f \<noteq> None" using conjunct1[OF reports_tell_the_exit[OF r]] by metis
  with r f p(1) show ?thesis by blast
qed

section \<open>Commands\<close>

text \<open>
  C32. Every process the script runner starts for a request to execute a script, outside the mock, is that script, for an account
  with a uid of at least 1000, run by sudo as that account, and the capability was on when the request was taken. The
  commands about accounts, which other handlers start, are not among these processes.
\<close>

theorem commands_run_as_ordinary_accounts:
  assumes "runner_acts False as new_runner = Some r" and "(e, c) \<in> set (rn_commands r)"
  shows "\<exists>h os q uid. GetExecute h os q \<in> set as \<and> capability_enabled script_capability True h
    \<and> os_getpwnam os (xq_linux_username q) = Some uid \<and> 1000 \<le> uid
    \<and> cm_argv c = map u_of [''sudo'', ''-u'', xq_linux_username q, ''-i'', ''/bin/bash'', ''-c''] @ [xq_script q]"
proof -
  have "commands_ok [] new_runner" by (simp add: commands_ok_def new_runner_def)
  from commands.inv_runs[OF this assms(1)] have "commands_ok as r" by simp
  with assms(2) obtain h os q where
    "GetExecute h os q \<in> set as" "may_run h os q" "c = script_command q" unfolding commands_ok_def by blast
  then show ?thesis by (auto simp: may_run_def MIN_UID_def script_command_def)
qed

theorem commands_run_as_ordinary_accounts_witness:
  "\<exists>r. runner_acts False sc_start new_runner = Some r \<and> rn_commands r \<noteq> []
    \<and> (\<forall>(e, c) \<in> set (rn_commands r). \<exists>h os q. GetExecute h os q \<in> set sc_start)"
proof -
  have "case runner_acts False sc_start new_runner of None \<Rightarrow> False | Some r \<Rightarrow> rn_commands r \<noteq> []" by code_simp
  then obtain r where r: "runner_acts False sc_start new_runner = Some r" "rn_commands r \<noteq> []" by (auto split: option.splits)
  with commands_run_as_ordinary_accounts[OF r(1)] show ?thesis by fast
qed

section \<open>A signal that is denied\<close>

text \<open>
  C33. When the limit of the run time passes and the operating system denies the signal, as it does to an agent that is not root
  and started sudo, the run is forgotten: in whatever happens afterwards no finished event is pushed for it, a cancellation
  does not find it, and a request to execute the script of the reservation is let through, while the process was left alone.
\<close>

theorem denied_kill_loses_the_run:
  assumes "runner_acts mock as new_runner = Some r" and "runner_act mock (RuntimeOver e SigDenied) r = Some r1"
    and "runner_acts mock bs r1 = Some r2"
  shows "(\<forall>f. (e, FinishedPushed f) \<notin> set (rn_pushed r2)) \<and> e \<notin> snd ` set (rn_running r2)
    \<and> rn_returncode r1 = rn_returncode r
    \<and> (\<forall>rid. live_run r rid e \<longrightarrow> map_of (rn_running r1) rid = None)"
proof -
  have ok: "log_ok (set as) r" using reports.inv_runs[of "[]" new_runner mock as r] assms(1) log_ok_new by simp
  note r = log_okD(1)[OF ok]
  from assms(2) have "runtime_over e SigDenied r = Some r1" by (auto dest: unless_cancelledD)
  then show ?thesis
  proof (cases rule: runtime_over_cases)
    case (1 x t w r0)
    then have r1: "r1 = clean_up e t r0" by simp
    have none: "(e, FinishedPushed f) \<notin> set (rn_pushed r)" for f
      using log_okD(3)[OF ok, of e f] 1(2,3) by (auto simp: report_ok_def settled_def)
    have "rid = rid_of t" if "(rid, e) \<in> set (rn_running r)" for rid
      using runs_okD(3)[OF r that] 1(2) by (auto simp: listed_run_def)
    then have "e \<notin> snd ` set (rn_running r1)" by (auto simp: r1 1(6) set_dict_pop)
    then have "over_without e r1"
      using act_runs_ok[OF r assms(2)] none 1(6) by (auto simp: over_without_def r1)
    from over.inv_runs[OF this assms(3)] have o: "over_without e r2" by simp
    then have "e \<notin> snd ` set (rn_running r2)" by (simp add: over_without_def)
    moreover have "map_of (rn_running r1) rid = None" if "live_run r rid e" for rid
      using that 1(2,6) by (auto simp: r1 live_run_def dict_pop_def map_of_eq_None_iff)
    ultimately show ?thesis using o 1(6) by (simp add: over_without_def r1)
  qed
qed

theorem denied_kill_loses_the_run_witness:
  "\<exists>r r1. runner_acts False sc_start new_runner = Some r \<and> runner_act False (RuntimeOver 0 SigDenied) r = Some r1
    \<and> map_of (rn_running r1) 5 = None \<and> rn_returncode r1 0 = None"
proof -
  have "case runner_acts False sc_start new_runner of None \<Rightarrow> False | Some r \<Rightarrow> rn_returncode r 0 = None
      \<and> (case runner_act False (RuntimeOver 0 SigDenied) r of None \<Rightarrow> False | Some r1 \<Rightarrow> True)" by code_simp
  then obtain r r1 where r: "runner_acts False sc_start new_runner = Some r" "runner_act False (RuntimeOver 0 SigDenied) r = Some r1"
    "rn_returncode r 0 = None" by (auto split: option.splits)
  have "live_run r 5 0" using r(1) sc_live by auto
  with denied_kill_loses_the_run[OF r(1,2), of "[]" r1] r(3) show ?thesis using r(1,2) by auto
qed

text \<open>
  The same denial in a cancellation: the exception leaves the receive loop, the connection is lost, nobody answers; the reason
  stays, so a script that ends by itself with exit code 0 is reported as killed.
\<close>

theorem denied_cancellation:
  "case runner_acts False (sc_start @ [GetCancel SigDenied sc_cancel, Exits 0 0, ExitAwaited 0, OutputEnds 0, Report 0 9 None]) new_runner of
     None \<Rightarrow> False
   | Some r \<Rightarrow> (case rn_replies r of [_, ConnectionLost] \<Rightarrow> True | _ \<Rightarrow> False)
       \<and> (case last (rn_pushed r) of (_, FinishedPushed f) \<Rightarrow> sf_killed_by_corelab f \<and> sf_exit_code f = Some 0 | _ \<Rightarrow> False)"
  by code_simp

text \<open>
  The delayed kill names a reservation: one that was set for a run which has ended kills the next run of that reservation.
\<close>

theorem delayed_kill_hits_the_next_run:
  "case runner_acts False (sc_start @ sc_stop @ sc_start) new_runner of None \<Rightarrow> False
   | Some r \<Rightarrow> (case sigkill_if_overdue 0 r of None \<Rightarrow> False | Some (p, _) \<Rightarrow> p = Some 1)"
  by code_simp

section \<open>The answers on the backend\<close>

text \<open>
  The backend counts a dispatch as failed exactly when the runner refused it, and it counts one also when the
  runner refused because the script of that reservation is running: a request that repeats a dispatch whose start was not
  heard of brings a running script closer to being given up as failed.
\<close>

theorem running_script_counts_as_failed:
  assumes "map_of (rn_running r) (xq_reservation_id q) = Some e"
    and "runner_act mock (GetExecute h os q) r = Some r'" and "capability_enabled script_capability True h"
  shows "\<exists>resp. rn_replies r' = rn_replies r @ [ExecuteReply resp] \<and> xr_error resp = Some ''ALREADY_RUNNING''
    \<and> count_dispatch_failures (dispatch_one py_str (xq_reservation_id q) sid (RpcReturned (execute_payload resp)) s) (xq_reservation_id q)
        = count_dispatch_failures s (xq_reservation_id q) + 1"
proof -
  from assms(1,3) have "execute_refusal mock h os q r = Some ''ALREADY_RUNNING''" by (simp add: execute_refusal_def)
  with assms(2) have "r' = reply (ExecuteReply (execute_refused ''ALREADY_RUNNING'')) r" by (auto simp: execute_def split: if_splits)
  moreover have "count_dispatch_failures (dispatch_one py_str (xq_reservation_id q) sid (RpcReturned (execute_payload (execute_refused ''ALREADY_RUNNING''))) s)
      (xq_reservation_id q) = count_dispatch_failures s (xq_reservation_id q) + 1"
    by (simp add: dispatch_one_trail) (simp add: dispatch_accepted_def execute_payload_def execute_refused_def)
  ultimately show ?thesis by (simp add: execute_refused_def)
qed

theorem running_script_counts_as_failed_witness:
  "\<exists>r r' resp. runner_acts False sc_start new_runner = Some r \<and> runner_act False (GetExecute sc_agent_host sc_os sc_execute) r = Some r'
    \<and> rn_replies r' = rn_replies r @ [ExecuteReply resp]
    \<and> count_dispatch_failures (dispatch_one (\<lambda>_. []) 5 1 (RpcReturned (execute_payload resp)) (open_session db_empty 0)) 5 = 1"
proof -
  obtain r where r: "runner_acts False sc_start new_runner = Some r" "map_of (rn_running r) 5 = Some 0" "rn_loop r = LoopIdle"
    using sc_started by blast
  define r' where "r' = execute False sc_agent_host sc_os sc_execute r"
  have step: "runner_act False (GetExecute sc_agent_host sc_os sc_execute) r = Some r'" by (simp add: r(3) r'_def)
  have live: "map_of (rn_running r) (xq_reservation_id sc_execute) = Some 0" using r(2) by (simp add: sc_execute_def)
  have cap: "capability_enabled script_capability True sc_agent_host" by (simp add: capability_enabled_def sc_agent_host_def)
  have "count_dispatch_failures (open_session db_empty 0) 5 = 0" by (simp add: count_dispatch_failures_def db_empty_def)
  with running_script_counts_as_failed[OF live step cap, of "\<lambda>_. []" 1 "open_session db_empty 0"] step r(1) show ?thesis
    by (auto simp: sc_execute_def)
qed

end
