(* ===== verification/Agent_Urls.thy ===== *)
theory Agent_Urls
  imports Lab_Urls
begin

text \<open>
  The addresses on the agent: the part of \<open>ws_client.py\<close> that decides where and when it connects, and what it does with
  the addresses the backend sends, in memory and in its configuration file. The file is its text; a failing write is
  an argument. Logging is left out, and so is the event that stops the agent.
\<close>

section \<open>Reconnecting\<close>

definition DEFAULT_BACKOFF_SCHEDULE :: "rat list" where
  "DEFAULT_BACKOFF_SCHEDULE = [1, 2, 5, 15, 30]"

definition next_backoff_seconds :: "nat \<Rightarrow> rat \<Rightarrow> rat" where
  "next_backoff_seconds attempt max_seconds = (if attempt < 1 then 0
     else min (DEFAULT_BACKOFF_SCHEDULE ! min (attempt - 1) (length DEFAULT_BACKOFF_SCHEDULE - 1)) max_seconds)"

record agent_config =
  ac_backend_urls :: "string list"
  ac_enrollment_token :: "string option"
  ac_agent_token :: "string option"
  ac_server_id :: "int option"
  ac_reconnect_max_seconds :: rat

text \<open>One connection: refused, dropped after it was open, or closed in order.\<close>

datatype connect_result = Refused | Dropped | Closed

text \<open>One pass over the addresses: the attempts so far, and whether one was closed in order. A drop resets the attempts too.\<close>

fun connect_pass :: "connect_result list \<Rightarrow> nat \<Rightarrow> bool \<times> nat" where
  "connect_pass [] n = (False, n)"
| "connect_pass (Refused # rs) n = connect_pass rs n"
| "connect_pass (Dropped # rs) n = connect_pass rs 0"
| "connect_pass (Closed # rs) n = (True, 0)"

text \<open>A pass of \<open>run\<close> with the pause behind it: the attempts it leaves, and the delay.\<close>

definition run_pass :: "agent_config \<Rightarrow> connect_result list \<Rightarrow> nat \<Rightarrow> nat \<times> rat" where
  "run_pass cfg rs n = (case connect_pass rs n of (any, k) \<Rightarrow>
     let n' = (if any then 1 else k + 1) in (n', next_backoff_seconds n' (ac_reconnect_max_seconds cfg)))"

section \<open>Where to connect\<close>

definition or_text :: "string option \<Rightarrow> string option \<Rightarrow> string option" where
  "or_text a b = (if str_truthy a then a else b)"

fun join_texts :: "'a list \<Rightarrow> 'a list list \<Rightarrow> 'a list" where
  "join_texts sep [] = []"
| "join_texts sep [x] = x"
| "join_texts sep (x # y # xs) = x @ sep @ join_texts sep (y # xs)"

definition connect_params :: "agent_config \<Rightarrow> string list" where
  "connect_params cfg = (case or_text (ac_agent_token cfg) (ac_enrollment_token cfg) of
        None \<Rightarrow> [] | Some t \<Rightarrow> if t = [] then [] else [''token='' @ t])
     @ (case ac_server_id cfg of None \<Rightarrow> [] | Some i \<Rightarrow> [''server_id='' @ int_str i])"

definition build_connect_url_from_base :: "agent_config \<Rightarrow> string \<Rightarrow> string" where
  "build_connect_url_from_base cfg base = (let b = ws_scheme (rstrip_slash base);
       path = (if ends_with ''/ws/agent'' b then [] else ''/ws/agent'') in
     if connect_params cfg = [] then b @ path else b @ path @ ''?'' @ join_texts ''&'' (connect_params cfg))"

definition build_connect_url :: "agent_config \<Rightarrow> string option" where
  "build_connect_url cfg = (case ac_backend_urls cfg of [] \<Rightarrow> None | b # _ \<Rightarrow> Some (build_connect_url_from_base cfg b))"

definition build_connect_urls :: "agent_config \<Rightarrow> string list" where
  "build_connect_urls cfg = map (build_connect_url_from_base cfg) (ac_backend_urls cfg)"

definition redact_query :: "string \<Rightarrow> string" where
  "redact_query url = takeWhile (\<lambda>c. c \<noteq> CHR ''?'') url"

section \<open>The configuration file\<close>

text \<open>The addresses go between quotes as they are.\<close>

definition urls_line :: "string list \<Rightarrow> ustring" where
  "urls_line urls = u_of (''backend_urls = ['' @ join_texts '', '' (map (\<lambda>u. CHR 0x22 # u @ [CHR 0x22]) urls) @ '']'')"

definition is_urls_line :: "ustring \<Rightarrow> bool" where
  "is_urls_line l \<longleftrightarrow> (let t = ulstrip l in starts_with (u_of ''backend_urls'') t \<or> starts_with (u_of ''backend_url '') t
     \<or> starts_with (u_of ''backend_url='') t)"

text \<open>The new line takes the place of the first old one; \<open>written\<close> says whether it is there.\<close>

fun rewrite_lines :: "ustring \<Rightarrow> bool \<Rightarrow> ustring list \<Rightarrow> ustring list" where
  "rewrite_lines new written [] = (if written then [] else [new])"
| "rewrite_lines new written (l # ls) = (if is_urls_line l
     then (if written then rewrite_lines new True ls else new # rewrite_lines new True ls)
     else l # rewrite_lines new written ls)"

definition rewrite_backend_urls_in_toml :: "ustring \<Rightarrow> string list \<Rightarrow> ustring" where
  "rewrite_backend_urls_in_toml text urls = join_texts [10] (rewrite_lines (urls_line urls) False (splitlines text))
     @ (if ends_with [10] text then [] else [10])"

record update_ack =
  ka_ok :: bool
  ka_applied_urls :: "string list"
  ka_error :: "string option"

text \<open>
  The handler of \<open>backend.config.update_urls\<close>. \<open>persist\<close> is \<^const>\<open>None\<close> without a configuration path, otherwise the
  text of the \<open>OSError\<close> of the write, if there is one.
\<close>

definition on_update_urls :: "string option option \<Rightarrow> string list \<Rightarrow> agent_config \<times> ustring option \<Rightarrow> update_ack \<times> agent_config \<times> ustring option" where
  "on_update_urls persist urls st = (case st of (cfg, file) \<Rightarrow>
     if urls = [] then (\<lparr>ka_ok = False, ka_applied_urls = [], ka_error = Some ''empty url list''\<rparr>, cfg, file)
     else (let cfg' = cfg\<lparr>ac_backend_urls := urls\<rparr> in
       case persist of
         None \<Rightarrow> (\<lparr>ka_ok = True, ka_applied_urls = urls, ka_error = None\<rparr>, cfg', file)
       | Some (Some e) \<Rightarrow> (\<lparr>ka_ok = False, ka_applied_urls = [], ka_error = Some (''persist failed: '' @ e)\<rparr>, cfg', file)
       | Some None \<Rightarrow> (\<lparr>ka_ok = True, ka_applied_urls = urls, ka_error = None\<rparr>, cfg',
           Some (rewrite_backend_urls_in_toml (opt_else file []) urls))))"

end
