(* ===== verification/Url_Props.thy ===== *)
theory Url_Props
  imports Agent_Urls
begin

text \<open>
  The column of addresses: what is written is read back, every operation keeps a legal list legal, and the runs in which
  requests and the two halves of probes alternate. Then the addresses on the agent.
\<close>

section \<open>Reading what was written\<close>

lemma entry_of_dict: "entry_of env (url_to_dict e) = Some e"
  by (cases e) (simp add: entry_of_def url_to_dict_def url_from_dict_def text_of_def opt_else_def)

lemma parse_dicts [simp]: "parse_entries env (map url_to_dict es) = es"
  by (induction es) (simp_all add: parse_entries_def List.map_filter_simps entry_of_dict)

section \<open>Legal lists\<close>

definition stamp_ok :: "json \<Rightarrow> bool" where
  "stamp_ok j \<longleftrightarrow> j = JNull \<or> (\<exists>t. j = JStr t)"

definition entry_ok :: "url_entry \<Rightarrow> bool" where
  "entry_ok e \<longleftrightarrow> ue_url e \<noteq> [] \<and> ue_kind e \<in> set VALID_KINDS \<and> ue_source e \<in> set VALID_SOURCES
     \<and> stamp_ok (ue_verified_at e) \<and> stamp_ok (ue_last_reachable_at e)"

definition entries_ok :: "url_entry list \<Rightarrow> bool" where
  "entries_ok es \<longleftrightarrow> distinct (map ue_url es) \<and> length (filter ue_primary es) \<le> 1 \<and> (\<forall>e \<in> set es. entry_ok e)"

definition lab_ok :: "lab \<Rightarrow> bool" where
  "lab_ok l \<longleftrightarrow> (\<exists>es. lab_public_urls l = map url_to_dict es \<and> entries_ok es)"

definition labs_ok :: "db \<Rightarrow> bool" where
  "labs_ok d \<longleftrightarrow> (\<forall>l \<in> set (d_labs d). lab_ok l)"

lemma lab_okD: "lab_ok l \<Longrightarrow> lab_public_urls l = map url_to_dict (load_entries env l) \<and> entries_ok (load_entries env l)"
  by (auto simp: lab_ok_def load_entries_def)

lemma entries_ok_empty [simp]: "entries_ok []"
  by (simp add: entries_ok_def)

lemma entries_ok_filter: "entries_ok es \<Longrightarrow> entries_ok (filter P es)"
proof -
  assume ok: "entries_ok es"
  have "length (filter ue_primary (filter P es)) \<le> length (filter ue_primary es)" by (induction es) auto
  with ok show ?thesis by (auto simp: entries_ok_def distinct_map_filter)
qed

text \<open>A change of the entries that leaves addresses and primary marks.\<close>

lemma entries_ok_same: "entries_ok es \<Longrightarrow> map ue_url es' = map ue_url es \<Longrightarrow> map ue_primary es' = map ue_primary es \<Longrightarrow>
    \<forall>e \<in> set es'. entry_ok e \<Longrightarrow> entries_ok es'"
proof -
  assume ok: "entries_ok es" and u: "map ue_url es' = map ue_url es" and p: "map ue_primary es' = map ue_primary es"
    and e: "\<forall>e \<in> set es'. entry_ok e"
  have "length (filter ue_primary xs) = length (filter id (map ue_primary xs))" for xs by (simp add: filter_map o_def)
  with p have "length (filter ue_primary es') = length (filter ue_primary es)" by metis
  with ok u e show ?thesis by (simp add: entries_ok_def)
qed

lemma touch_url_urls: "map ue_url (touch_url u k src b es) = map ue_url es"
  by (induction es) auto

lemma touch_url_mem: "e \<in> set (touch_url u k src b es) \<Longrightarrow> e \<in> set es \<or> (\<exists>e0 \<in> set es. e = e0\<lparr>ue_kind := k, ue_source := src, ue_primary := (b \<or> ue_primary e0)\<rparr>)"
  by (induction es) (auto split: if_splits)

lemma touch_url_primary: "length (filter ue_primary (touch_url u k src False es)) = length (filter ue_primary es)"
  by (induction es) auto

lemma touch_url_primary_clear: "\<forall>e \<in> set es. \<not> ue_primary e \<Longrightarrow> length (filter ue_primary (touch_url u k src b es)) \<le> 1"
  by (induction es) (auto simp: filter_empty_conv)

lemma clear_primary_sel [simp]: "ue_url (clear_primary e) = ue_url e" "\<not> ue_primary (clear_primary e)" "entry_ok (clear_primary e) = entry_ok e"
  by (simp_all add: clear_primary_def entry_ok_def)

lemma touched_ok: "entry_ok e \<Longrightarrow> k \<in> set VALID_KINDS \<Longrightarrow> src \<in> set VALID_SOURCES \<Longrightarrow> entry_ok (e\<lparr>ue_kind := k, ue_source := src, ue_primary := p\<rparr>)"
  by (simp add: entry_ok_def)

lemma entries_ok_added:
  assumes ok: "entries_ok es" and k: "k \<in> set VALID_KINDS" "src \<in> set VALID_SOURCES" "u \<noteq> []"
  shows "entries_ok (added_entries u k src b es)"
proof -
  define es' where "es' = (if b then map clear_primary es else es)"
  have urls: "map ue_url es' = map ue_url es" by (simp add: es'_def o_def)
  have all: "\<forall>e \<in> set es'. entry_ok e" using ok by (auto simp: es'_def entries_ok_def)
  have clear: "b \<Longrightarrow> \<forall>e \<in> set es'. \<not> ue_primary e" by (simp add: es'_def)
  show ?thesis
  proof (cases "u \<in> ue_url ` set es")
    case True
    have "length (filter ue_primary (touch_url u k src b es')) \<le> 1"
    proof (cases b)
      case True
      with clear touch_url_primary_clear show ?thesis by blast
    next
      case False
      with ok show ?thesis by (simp add: touch_url_primary es'_def entries_ok_def)
    qed
    moreover have "\<forall>e \<in> set (touch_url u k src b es'). entry_ok e" using all k(1,2) touch_url_mem touched_ok by metis
    moreover have "distinct (map ue_url (touch_url u k src b es'))" using ok by (simp add: touch_url_urls urls entries_ok_def)
    ultimately show ?thesis using True by (simp add: added_entries_def Let_def entries_ok_def es'_def[symmetric])
  next
    case False
    have "length (filter ue_primary es') + (if b then 1 else 0) \<le> 1"
      using clear ok by (auto simp: es'_def entries_ok_def filter_empty_conv)
    moreover have "u \<notin> ue_url ` set es'" using False urls by (metis image_set)
    ultimately show ?thesis using False all k ok urls
      by (auto simp: added_entries_def Let_def entries_ok_def es'_def[symmetric] entry_ok_def stamp_ok_def)
  qed
qed

lemma reached_sel [simp]: "ue_url (reached n e) = ue_url e" "ue_primary (reached n e) = ue_primary e" "entry_ok e \<Longrightarrow> entry_ok (reached n e)"
  by (auto simp: reached_def entry_ok_def stamp_ok_def)

lemma probed_map:
  assumes "length results = length es"
  shows "map ue_url (probed n es results) = map ue_url es" "map ue_primary (probed n es results) = map ue_primary es"
  using assms by (induction es results rule: list_induct2') (auto simp: probed_def)

lemma entries_ok_probed: "entries_ok es \<Longrightarrow> length results = length es \<Longrightarrow> entries_ok (probed n es results)"
proof (rule entries_ok_same)
  assume ok: "entries_ok es" and l: "length results = length es"
  show "\<forall>e \<in> set (probed n es results). entry_ok e"
    using ok by (auto simp: probed_def entries_ok_def dest!: set_zip_leftD)
qed (simp_all add: probed_map)

lemma entries_ok_reach_first: "entries_ok es \<Longrightarrow> entries_ok (reach_first n u es)"
proof (rule entries_ok_same)
  assume ok: "entries_ok es"
  then have "\<forall>e \<in> set es. entry_ok e" by (simp add: entries_ok_def)
  then show "\<forall>e \<in> set (reach_first n u es). entry_ok e" by (induction es) auto
  show "map ue_url (reach_first n u es) = map ue_url es" "map ue_primary (reach_first n u es) = map ue_primary es" by (induction es) auto
qed

section \<open>The column\<close>

lemma same_json_dict: "same_json (url_to_dict a) (url_to_dict b) \<longleftrightarrow> a = b"
  by (cases a; cases b) (auto simp: url_to_dict_def)

lemma same_column: "list_all2 same_json (map url_to_dict es) (map url_to_dict es') \<longleftrightarrow> es = es'"
  by (simp add: list_all2_map1 list_all2_map2 same_json_dict list.rel_eq)

lemma put_urls_ok: "labs_ok d \<Longrightarrow> entries_ok es \<Longrightarrow> labs_ok (put_urls i (map url_to_dict es) d)"
  by (auto simp: labs_ok_def put_urls_def lab_ok_def)

lemma persist_ok:
  assumes "labs_ok (s_db s)" and "entries_ok es"
  shows "labs_ok (s_db (snd (persist_urls l es s)))" "lab_ok (fst (persist_urls l es s))" "load_entries env (fst (persist_urls l es s)) = es"
  using assms by (auto simp: persist_urls_def Let_def put_urls_ok upd_db_def lab_ok_def load_entries_def)

lemma audit_labs [simp]: "labs_ok (s_db (audit_write e s)) = labs_ok (s_db s)"
  by (simp add: labs_ok_def audit_write_def)

lemma url_audit_labs [simp]: "labs_ok (s_db (url_audit a u l pl s)) = labs_ok (s_db s)"
  by (simp add: url_audit_def)

lemma commit_labs: "commit s = Inr d \<Longrightarrow> labs_ok d = labs_ok (s_db s)"
  by (auto simp: commit_def flush_res_def labs_ok_def s_update_res_def db_update_res_def split: option.splits if_splits)

lemma add_url_ok: "labs_ok (s_db s) \<Longrightarrow> lab_ok l \<Longrightarrow> add_url env l u k src b s = Inr (l', s') \<Longrightarrow> labs_ok (s_db s') \<and> lab_ok l'"
proof -
  assume a: "labs_ok (s_db s)" "lab_ok l" "add_url env l u k src b s = Inr (l', s')"
  then have "entries_ok (added_entries u k src b (load_entries env l))" "persist_urls l (added_entries u k src b (load_entries env l)) s = (l', s')"
    using lab_okD by (auto simp: add_url_def entries_ok_added split: if_splits)
  with persist_ok[OF a(1)] show ?thesis by (metis fst_conv snd_conv)
qed

lemma remove_url_ok: "labs_ok (s_db s) \<Longrightarrow> lab_ok l \<Longrightarrow> remove_url env l u s = (l', s') \<Longrightarrow> labs_ok (s_db s') \<and> lab_ok l'"
  using persist_ok entries_ok_filter lab_okD unfolding remove_url_def by (metis fst_conv snd_conv)

lemma finish_probe_ok:
  assumes "labs_ok (s_db s)" and "lab_ok l" and "length results = length (load_entries env l)" and "finish_probe env l results s = (found, l', s')"
  shows "labs_ok (s_db s') \<and> lab_ok l'"
proof (cases "load_entries env l = []")
  case True
  with assms show ?thesis by (simp add: finish_probe_def)
next
  case False
  let ?es = "probed (uv_iso env (s_clock s)) (load_entries env l) results"
  have ok: "entries_ok ?es" using lab_okD[OF assms(2)] assms(3) by (intro entries_ok_probed) auto
  from assms(4) False have "persist_urls l ?es s = (l', s')" by (simp add: finish_probe_def Let_def)
  with persist_ok[OF assms(1) ok] show ?thesis by (metis fst_conv snd_conv)
qed

lemma mark_reachable_ok: "labs_ok (s_db s) \<Longrightarrow> lab_ok l \<Longrightarrow> mark_reachable env l u ok s = (l', s') \<Longrightarrow> labs_ok (s_db s') \<and> lab_ok l'"
proof -
  assume a: "labs_ok (s_db s)" "lab_ok l" "mark_reachable env l u ok s = (l', s')"
  show ?thesis
  proof (cases "u \<in> ue_url ` set (load_entries env l)")
    case True
    let ?es = "if ok then reach_first (uv_iso env (s_clock s)) u (load_entries env l) else load_entries env l"
    have "entries_ok ?es" using lab_okD[OF a(2)] by (simp add: entries_ok_reach_first)
    moreover from a(3) True have "persist_urls l ?es s = (l', s')" by (simp add: mark_reachable_def Let_def)
    ultimately show ?thesis using persist_ok[OF a(1)] by (metis fst_conv snd_conv)
  next
    case False
    with a show ?thesis by (simp add: mark_reachable_def Let_def)
  qed
qed

lemma get_lab_ok: "labs_ok (s_db s) \<Longrightarrow> get_lab s i = Inr l \<Longrightarrow> lab_ok l"
  by (auto simp: get_lab_def labs_ok_def dest: row_by_Some split: option.splits)

lemma commit_and_broadcast_db: "labs_ok base \<Longrightarrow> labs_ok (s_db s) \<Longrightarrow> labs_ok (fst (snd (commit_and_broadcast env ids h st base l s)))"
  by (auto simp: commit_and_broadcast_def dest: commit_labs split: sum.splits option.splits)

lemma url_labs:
  "labs_ok (s_db s) \<Longrightarrow> get_lab s i = Inr l \<Longrightarrow> add_url env l u k src b s = Inr (l', s') \<Longrightarrow> labs_ok (s_db s')"
  "labs_ok (s_db s) \<Longrightarrow> get_lab s i = Inr l \<Longrightarrow> remove_url env l u s = (l', s') \<Longrightarrow> labs_ok (s_db s')"
  using get_lab_ok add_url_ok remove_url_ok by blast+

lemma add_ep_ok: "labs_ok (s_db s) \<Longrightarrow> labs_ok (fst (snd (add_public_url_ep env ids h st u url k b s)))"
  by (auto simp: add_public_url_ep_def url_refused_def dest: url_labs intro!: commit_and_broadcast_db split: sum.splits prod.splits)

lemma remove_ep_ok: "labs_ok (s_db s) \<Longrightarrow> labs_ok (fst (snd (remove_public_url_ep env ids h st u url s)))"
  by (auto simp: remove_public_url_ep_def url_refused_def dest: url_labs intro!: commit_and_broadcast_db split: sum.splits prod.splits)

lemma finish_probe_ep_ok: "labs_ok (s_db s) \<Longrightarrow> lab_ok l \<Longrightarrow> length results = length (load_entries env l) \<Longrightarrow>
    labs_ok (snd (finish_probe_ep env l results s))"
  by (auto simp: finish_probe_ep_def end_request_def dest: finish_probe_ok commit_labs split: prod.splits sum.splits)

lemma tick_labs_ok: "labs_ok (s_db s) \<Longrightarrow> \<forall>(l, results) \<in> set labs. lab_ok l \<and> length results = length (load_entries env l) \<Longrightarrow>
    labs_ok (s_db (url_probe_tick env labs s))"
proof (induction labs arbitrary: s)
  case (Cons x labs)
  obtain l results where x: "x = (l, results)" by (cases x)
  obtain f l' s' where p: "finish_probe env l results s = (f, l', s')" by (cases "finish_probe env l results s")
  with Cons.prems x have "labs_ok (s_db s')" using finish_probe_ok[OF Cons.prems(1) _ _ p] by simp
  with Cons.IH[of s'] Cons.prems(2) x p show ?case by (simp add: url_probe_tick_def)
qed (simp add: url_probe_tick_def)

section \<open>Setting up\<close>

text \<open>What the installer left: entries of known kinds, each address once, one of them the primary at most.\<close>

definition seed_ok :: "url_env \<Rightarrow> seed_value \<Rightarrow> bool" where
  "seed_ok env v \<longleftrightarrow> (case v of SeedJson (JList js) \<Rightarrow> entries_ok (parse_entries env js) | _ \<Rightarrow> True)"

lemma entries_ok_primary_first: "entries_ok es \<Longrightarrow> entries_ok (primary_first es)"
  by (cases es) (auto simp: primary_first_def entries_ok_def entry_ok_def list_ex_iff filter_empty_conv split: if_splits)

lemma entries_ok_fallback: "entries_ok (fallback_seed_url u)"
  by (simp add: fallback_seed_url_def entries_ok_def entry_ok_def stamp_ok_def VALID_KINDS_def VALID_SOURCES_def Let_def)

lemma insert_user_labs: "insert_user coll u s = Inr (row, s') \<Longrightarrow> d_labs (s_db s') = d_labs (s_db s)"
  by (auto simp: insert_user_def Let_def put_user_def upd_db_def split: if_splits)

lemma replace_all_ok: "labs_ok (s_db s) \<Longrightarrow> entries_ok es \<Longrightarrow> replace_all l es s = Inr (l', s') \<Longrightarrow> labs_ok (s_db s')"
  using persist_ok(1) unfolding replace_all_def by (metis Inr_inject old.sum.distinct(2) option.case_eq_if snd_conv)

lemma insert_lab_ok: "labs_ok (s_db s) \<Longrightarrow> insert_lab n sl s = (l, s1) \<Longrightarrow> labs_ok (s_db s1)"
  by (auto simp: insert_lab_def Let_def labs_ok_def lab_ok_def upd_db_def intro: exI[of _ "[]"])

lemma setup_ok:
  assumes ok: "labs_ok (s_db s)" and seed: "seed_ok (su_urls env) v"
  shows "labs_ok (s_db (snd (fst (setup_init_ep env p v s))))"
proof (cases "is_initialized s")
  case False
  obtain l s1 where l: "insert_lab (si_lab_name p) (setup_slug env p) s = (l, s1)" by fastforce
  obtain seeds v' where v: "load_seed_urls (su_urls env) (su_deleted env) v = (seeds, v')" by fastforce
  from v seed have "entries_ok seeds"
    by (auto simp: load_seed_urls_def seed_ok_def entries_ok_primary_first split: seed_value.splits json.splits)
  then have es: "entries_ok (if seeds = [] then fallback_seed_url (su_public_url env) else seeds)" by (simp add: entries_ok_fallback)
  have s1: "labs_ok (s_db s1)" by (rule insert_lab_ok[OF ok l])
  have labs: "labs_ok (s_db s3)" if "insert_user c u s2 = Inr (row, s3)" "labs_ok (s_db s2)" for c u s2 row s3
    using that insert_user_labs[OF that(1)] by (simp add: labs_ok_def)
  show ?thesis
    using False l v es s1 ok labs replace_all_ok[OF s1 es]
    by (auto simp: setup_init_ep_def Let_def split: sum.splits prod.splits if_splits)
qed (use ok in \<open>simp add: setup_init_ep_def\<close>)

section \<open>Runs\<close>

text \<open>
  The database with the probes that are under way, each with the lab as it was loaded. Requests that do not touch
  the labs are one kind of step.
\<close>

inductive url_step :: "url_env \<Rightarrow> db \<times> lab list \<Rightarrow> db \<times> lab list \<Rightarrow> bool" for env where
  add: "url_step env (d, ps) (fst (snd (add_public_url_ep env ids h st u url kind b (open_session d c))), ps)"
| remove: "url_step env (d, ps) (fst (snd (remove_public_url_ep env ids h st u url (open_session d c))), ps)"
| start: "l \<in> set (d_labs d) \<Longrightarrow> url_step env (d, ps) (d, l # ps)"
| finish: "l \<in> set ps \<Longrightarrow> length results = length (load_entries env l) \<Longrightarrow>
    url_step env (d, ps) (snd (finish_probe_ep env l results (open_session d c)), remove1 l ps)"
| tick: "\<forall>(l, results) \<in> set labs. l \<in> set ps \<and> length results = length (load_entries env l) \<Longrightarrow>
    commit (url_probe_tick env labs (open_session d c)) = Inr d' \<Longrightarrow> url_step env (d, ps) (d', fold (\<lambda>x. remove1 (fst x)) labs ps)"
| reachable: "l \<in> set (d_labs d) \<Longrightarrow> commit (snd (mark_reachable env l u ok (open_session d c))) = Inr d' \<Longrightarrow> url_step env (d, ps) (d', ps)"
| set_up: "su_urls sv = env \<Longrightarrow> seed_ok env v \<Longrightarrow> url_step env (d, ps) (snd (end_request d (fst (setup_init_ep sv p v (open_session d c)))), ps)"
| other: "d_labs d' = d_labs d \<Longrightarrow> url_step env (d, ps) (d', ps)"

definition url_state_ok :: "db \<times> lab list \<Rightarrow> bool" where
  "url_state_ok x \<longleftrightarrow> labs_ok (fst x) \<and> (\<forall>l \<in> set (snd x). lab_ok l)"

lemma set_fold_remove1: "set (fold (\<lambda>x. remove1 (fst x)) xs ps) \<subseteq> set ps"
  by (induction xs arbitrary: ps) (auto dest: set_mp[OF set_remove1_subset] subsetD)

lemma url_step_ok: "url_step env x y \<Longrightarrow> url_state_ok x \<Longrightarrow> url_state_ok y"
proof (induction rule: url_step.induct)
  case (add d ps ids h st u url kind b c)
  then show ?case using add_ep_ok[of "open_session d c"] by (simp add: url_state_ok_def)
next
  case (remove d ps ids h st u url c)
  then show ?case using remove_ep_ok[of "open_session d c"] by (simp add: url_state_ok_def)
next
  case (start l d ps)
  then show ?case by (auto simp: url_state_ok_def labs_ok_def)
next
  case (finish l ps results d c)
  then show ?case using finish_probe_ep_ok[of "open_session d c"] set_remove1_subset[of l ps] by (auto simp: url_state_ok_def)
next
  case (tick labs ps d c d')
  then have "labs_ok (s_db (url_probe_tick env labs (open_session d c)))" by (intro tick_labs_ok) (auto simp: url_state_ok_def)
  with tick set_fold_remove1[of labs ps] show ?case by (auto simp: url_state_ok_def dest: commit_labs)
next
  case (reachable l d u ok c d' ps)
  then have "lab_ok l" by (simp add: url_state_ok_def labs_ok_def)
  with reachable mark_reachable_ok[of "open_session d c" l env u ok] have "labs_ok (s_db (snd (mark_reachable env l u ok (open_session d c))))"
    by (cases "mark_reachable env l u ok (open_session d c)") (simp add: url_state_ok_def)
  with reachable show ?case by (auto simp: url_state_ok_def dest: commit_labs)
next
  case (set_up sv v d ps p c)
  then have "labs_ok (s_db (snd (fst (setup_init_ep sv p v (open_session d c)))))" by (intro setup_ok) (auto simp: url_state_ok_def)
  with set_up show ?case by (auto simp: url_state_ok_def end_request_def dest: commit_labs split: prod.splits sum.splits api_error.splits)
next
  case (other d' d ps)
  then show ?case by (simp add: url_state_ok_def labs_ok_def)
qed

lemma url_runs_ok: "(url_step env)\<^sup>*\<^sup>* x y \<Longrightarrow> url_state_ok x \<Longrightarrow> url_state_ok y"
  by (induction rule: rtranclp_induct) (auto intro: url_step_ok)

section \<open>Addresses on the agent\<close>

lemma starts_with_iff: "starts_with p u \<longleftrightarrow> (\<exists>t. u = p @ t)"
  unfolding starts_with_def by (metis append_eq_conv_conj append_take_drop_id)

lemma ends_with_iff: "ends_with p u \<longleftrightarrow> (\<exists>t. u = t @ p)"
  unfolding ends_with_def starts_with_iff by (metis rev_append rev_rev_ident)

lemma rstrip_slash_id: "last v \<noteq> CHR ''/'' \<Longrightarrow> rstrip_slash v = v"
  by (cases v rule: rev_cases) (simp_all add: rstrip_slash_def)

lemma rstrip_slash_last: "rstrip_slash u = [] \<or> last (rstrip_slash u) \<noteq> CHR ''/''"
proof (cases "dropWhile (\<lambda>c. c = CHR ''/'') (rev u)")
  case (Cons c cs)
  then have "c \<noteq> CHR ''/''" using hd_dropWhile[of "\<lambda>c. c = CHR ''/''" "rev u"] by simp
  with Cons show ?thesis by (simp add: rstrip_slash_def)
qed (simp add: rstrip_slash_def)

text \<open>A text without an HTTP scheme has none with the path behind it either, unless it ends in a slash.\<close>

definition http_free :: "string \<Rightarrow> bool" where
  "http_free u \<longleftrightarrow> \<not> starts_with ''http://'' u \<and> \<not> starts_with ''https://'' u"

lemma ws_scheme_id: "http_free u \<Longrightarrow> ws_scheme u = u"
  by (simp add: http_free_def ws_scheme_def)

lemma ws_scheme_free: "http_free (ws_scheme u)"
  by (auto simp: http_free_def ws_scheme_def starts_with_iff)

lemma http_free_path: "http_free v \<Longrightarrow> v = [] \<or> last v \<noteq> CHR ''/'' \<Longrightarrow> http_free (v @ ''/ws/agent'')"
  by (auto simp: http_free_def starts_with_iff append_eq_append_conv2 Cons_eq_append_conv append_eq_Cons_conv)

lemma ws_scheme_last: "u = [] \<or> last u \<noteq> CHR ''/'' \<Longrightarrow> ws_scheme u = [] \<or> last (ws_scheme u) \<noteq> CHR ''/''"
  by (cases "drop 8 u = []"; cases "drop 7 u = []") (auto simp: ws_scheme_def starts_with_iff last_append)

lemma to_wss_fixed:
  "rstrip_slash (to_wss u) = to_wss u" "ws_scheme (to_wss u) = to_wss u" "ends_with ''/ws/agent'' (to_wss u)"
proof -
  define v where "v = ws_scheme (rstrip_slash u)"
  have last: "v = [] \<or> last v \<noteq> CHR ''/''" unfolding v_def by (rule ws_scheme_last[OF rstrip_slash_last])
  have free: "http_free v" by (simp add: v_def ws_scheme_free)
  have w: "to_wss u = (if ends_with ''/ws/agent'' v then v else v @ ''/ws/agent'')" by (simp add: to_wss_def v_def Let_def)
  show e: "ends_with ''/ws/agent'' (to_wss u)" by (auto simp: w ends_with_iff)
  then show "rstrip_slash (to_wss u) = to_wss u" by (intro rstrip_slash_id) (auto simp: ends_with_iff)
  show "ws_scheme (to_wss u) = to_wss u" using http_free_path[OF free last] free by (intro ws_scheme_id) (simp add: w)
qed

lemma connect_to_wss: "build_connect_url_from_base cfg (to_wss u) = build_connect_url_from_base cfg u"
proof -
  have "to_wss u = ws_scheme (rstrip_slash u) @ (if ends_with ''/ws/agent'' (ws_scheme (rstrip_slash u)) then [] else ''/ws/agent'')"
    by (simp add: to_wss_def Let_def)
  then show ?thesis
    unfolding build_connect_url_from_base_def Let_def to_wss_fixed(1,2) using to_wss_fixed(3)[of u] by simp
qed

lemma to_wss_idem: "to_wss (to_wss u) = to_wss u"
  unfolding to_wss_def[of "to_wss u"] using to_wss_fixed[of u] by simp

section \<open>The configuration file\<close>

lemma join_texts_snoc: "join_texts [10] (ls @ [x]) = unlines ls @ x"
  by (induction ls rule: induct_list012) (simp_all add: unlines_def)

lemma splitlines_rest: "\<forall>l \<in> set ls. line_ok l \<Longrightarrow> line_ok x \<Longrightarrow> splitlines (unlines ls @ x) = ls @ (if x = [] then [] else [x])"
proof (induction ls)
  case Nil
  then show ?case using ulines_last[of x "[]"] by (simp add: splitlines_def unlines_def line_ok_def)
next
  case (Cons l ls)
  then have "ulines [] (l @ 10 # (unlines ls @ x)) = l # ulines [] (unlines ls @ x)"
    using ulines_line[of l "[]" "unlines ls @ x"] by (simp add: line_ok_def)
  with Cons show ?case by (simp add: splitlines_def unlines_def)
qed

lemma rewrite_lines_urls: "is_urls_line new \<Longrightarrow> filter is_urls_line (rewrite_lines new w ls) = (if w then [] else [new])"
  by (induction new w ls rule: rewrite_lines.induct) auto

lemma rewrite_lines_other: "is_urls_line new \<Longrightarrow> filter (\<lambda>l. \<not> is_urls_line l) (rewrite_lines new w ls) = filter (\<lambda>l. \<not> is_urls_line l) ls"
  by (induction new w ls rule: rewrite_lines.induct) auto

lemma rewrite_lines_mem: "l \<in> set (rewrite_lines new w ls) \<Longrightarrow> l = new \<or> l \<in> set ls"
  by (induction new w ls rule: rewrite_lines.induct) (auto split: if_splits)

lemma urls_line_is: "is_urls_line (urls_line us)"
  by (simp add: is_urls_line_def urls_line_def u_of_def ulstrip_def is_space_def starts_with_def)

text \<open>Addresses without a line boundary.\<close>

definition one_line :: "string list \<Rightarrow> bool" where
  "one_line us \<longleftrightarrow> (\<forall>u \<in> set us. line_ok (u_of u))"

lemma set_join_texts: "set (join_texts sep xs) \<subseteq> set sep \<union> (\<Union>x \<in> set xs. set x)"
  by (induction sep xs rule: join_texts.induct) auto

lemma urls_line_ok: "one_line us \<Longrightarrow> line_ok (urls_line us)"
proof -
  assume one: "one_line us"
  have "\<not> is_line_break (of_char c)" if "c \<in> set (join_texts '', '' (map (\<lambda>u. CHR 0x22 # u @ [CHR 0x22]) us))" for c
    using subsetD[OF set_join_texts that] one by (auto simp: one_line_def line_ok_def u_of_def is_line_break_def split: if_splits)
  then show ?thesis by (auto simp: urls_line_def u_of_def line_ok_def is_line_break_def)
qed

section \<open>Names\<close>

definition slug_code :: "nat \<Rightarrow> bool" where
  "slug_code c \<longleftrightarrow> 97 \<le> c \<and> c \<le> 122 \<or> 48 \<le> c \<and> c \<le> 57 \<or> c = 45"

lemma hyphenate_codes: "\<forall>c \<in> set s. \<not> (65 \<le> c \<and> c \<le> 90) \<Longrightarrow> c \<in> set (hyphenate b s) \<Longrightarrow> slug_code c"
  by (induction b s rule: hyphenate.induct) (auto simp: slug_alnum_def slug_code_def split: if_splits)

lemma slug_lower_small: "c \<in> set (concat (map slug_lower s)) \<Longrightarrow> \<not> (65 \<le> c \<and> c \<le> 90)"
  by (auto simp: slug_lower_def split: if_splits)

lemma set_strip_hyphens: "set (strip_hyphens s) \<subseteq> set s"
  by (auto simp: strip_hyphens_def dest!: set_dropWhileD)

lemma strip_hyphens_hd: "strip_hyphens s \<noteq> [] \<Longrightarrow> hd (strip_hyphens s) \<noteq> 45"
proof -
  define t where "t = dropWhile (\<lambda>c. c = 45) s"
  have "t = strip_hyphens s @ rev (takeWhile (\<lambda>c. c = 45) (rev t))"
    unfolding strip_hyphens_def t_def[symmetric] by (metis rev_append rev_rev_ident takeWhile_dropWhile_id)
  moreover have "t \<noteq> [] \<Longrightarrow> hd t \<noteq> 45" unfolding t_def by (rule hd_dropWhile)
  ultimately show "strip_hyphens s \<noteq> [] \<Longrightarrow> hd (strip_hyphens s) \<noteq> 45" by (metis append_is_Nil_conv hd_append2)
qed

lemma slug_char_code: "slug_code n \<Longrightarrow> slug_char (char_of n)"
  by (auto simp: slug_char_def slug_code_def)

end
