(* ===== verification/Guarantees_Urls.thy ===== *)
theory Guarantees_Urls
  imports Url_Props Scenario
begin

text \<open>
  What the addresses of a lab guarantee: which lists can be stored, which addresses the agents are given and that they reach the
  same place, what becomes of the configuration file, the name a lab is given; and two ways in which addresses are lost.
\<close>

section \<open>Scenario\<close>

definition sc_url_env :: url_env where
  "sc_url_env = \<lparr>uv_str = (\<lambda>_. []), uv_iso = (\<lambda>_. ''now''), uv_fromiso = (\<lambda>_. Some (dt_utc 7))\<rparr>"

definition sc_lan :: url_entry where
  "sc_lan = \<lparr>ue_url = ''http://10.0.0.2'', ue_kind = ''lan'', ue_source = ''install_sh_probe'', ue_verified_at = JNull,
     ue_last_reachable_at = JNull, ue_primary = True\<rparr>"

definition sc_tunnel :: url_entry where
  "sc_tunnel = \<lparr>ue_url = ''https://x.trycloudflare.com'', ue_kind = ''cloudflare_quick'', ue_source = ''install_sh_probe'',
     ue_verified_at = JNull, ue_last_reachable_at = JStr ''seen'', ue_primary = False\<rparr>"

definition sc_lab :: lab where
  "sc_lab = \<lparr>lab_id = 1, lab_name = [], lab_slug = ''lab'', lab_public_urls = map url_to_dict [sc_lan, sc_tunnel]\<rparr>"

definition sc_url_db :: db where
  "sc_url_db = (sc_db [] 1)\<lparr>d_labs := [sc_lab]\<rparr>"

definition sc_rpc :: rpc_state where
  "sc_rpc = \<lparr>rp_pending = Map.empty, rp_futures = Map.empty, rp_optional = []\<rparr>"

lemmas sc_url_defs = sc_url_env_def sc_lan_def sc_tunnel_def sc_lab_def sc_url_db_def sc_rpc_def

lemma sc_lab_ok: "lab_ok sc_lab"
  unfolding lab_ok_def by (intro exI[of _ "[sc_lan, sc_tunnel]"])
    (simp add: sc_url_defs entries_ok_def entry_ok_def stamp_ok_def VALID_KINDS_def VALID_SOURCES_def)

lemma sc_url_ok: "labs_ok sc_url_db"
  using sc_lab_ok by (simp add: labs_ok_def sc_url_db_def)

section \<open>The list of addresses\<close>

text \<open>
  C34. Along every run in which addresses are added and removed, probes start and finish in any interleaving, ticks and other
  requests happen and a lab is set up from a legal seed: the column of every lab holds exactly the entries that are read from
  it, with every address once, at most one primary, known kinds and sources.
\<close>

theorem addresses_stay_legal:
  assumes "labs_ok d" and "(url_step env)\<^sup>*\<^sup>* (d, []) (d', ps)" and "l \<in> set (d_labs d')"
  shows "lab_public_urls l = map url_to_dict (load_entries env l) \<and> distinct (urls_only env l)
    \<and> length (filter ue_primary (load_entries env l)) \<le> 1
    \<and> (\<forall>e \<in> set (load_entries env l). ue_url e \<noteq> [] \<and> ue_kind e \<in> set VALID_KINDS \<and> ue_source e \<in> set VALID_SOURCES)"
proof -
  from url_runs_ok[OF assms(2)] assms(1) have "url_state_ok (d', ps)" by (simp add: url_state_ok_def)
  with assms(3) have "lab_ok l" by (simp add: url_state_ok_def labs_ok_def)
  from lab_okD[OF this, of env] show ?thesis by (simp add: entries_ok_def entry_ok_def urls_only_def)
qed

theorem addresses_stay_legal_witness:
  "\<exists>d' ps l. (url_step sc_url_env)\<^sup>*\<^sup>* (sc_url_db, []) (d', ps) \<and> l \<in> set (d_labs d') \<and> ps \<noteq> [] \<and> distinct (urls_only sc_url_env l)"
proof -
  have l: "sc_lab \<in> set (d_labs sc_url_db)" by (simp add: sc_url_db_def)
  then have r: "(url_step sc_url_env)\<^sup>*\<^sup>* (sc_url_db, []) (sc_url_db, [sc_lab])" by (intro r_into_rtranclp url_step.start)
  from addresses_stay_legal[OF sc_url_ok r l] r l show ?thesis by blast
qed

text \<open>
  Two requests overlap: while a probe waits for its answers an address is added and stored, and the list the probe writes
  does not have it.
\<close>

theorem probe_drops_an_addition:
  "let (answer, d1, _) = add_public_url_ep sc_url_env (\<lambda>_. []) Map.empty sc_rpc (sc_user 9) ''https://new'' ''custom_domain'' False (open_session sc_url_db 9);
       d2 = snd (finish_probe_ep sc_url_env sc_lab [True, False] (open_session d1 10))
   in (case answer of Inr _ \<Rightarrow> True | Inl _ \<Rightarrow> False)
     \<and> map (urls_only sc_url_env) (d_labs d1) = [urls_only sc_url_env sc_lab @ [''https://new'']]
     \<and> map (urls_only sc_url_env) (d_labs d2) = [urls_only sc_url_env sc_lab]"
  by code_simp

text \<open>A seed of an unknown kind ends the set-up with an uncaught exception and is gone from Redis by then.\<close>

theorem seed_is_lost:
  "case setup_init_ep \<lparr>su_urls = sc_url_env, su_coll = (=), su_hashpw = id, su_hex = ''01234567'', su_public_url = [], su_deleted = True, su_ctx = no_ctx\<rparr>
      \<lparr>si_lab_name = [65], si_lab_slug = None, si_admin_username = ''root'', si_admin_email = ''r@x'', si_admin_display_name = [], si_admin_password = ''secret''\<rparr>
      (SeedJson (JList [JObj [(''url'', JStr ''http://a'')], JObj [(''url'', JStr ''http://b''), (''kind'', JStr ''wan'')]])) (open_session db_empty 0) of
     ((Inl Uncaught, s), SeedMissing) \<Rightarrow> d_labs (s_db s) = [] | _ \<Rightarrow> False"
  by code_simp

section \<open>The addresses for the agents\<close>

text \<open>A time stamp for which \<open>astimezone\<close> raises.\<close>

definition bad_stamp :: "url_env \<Rightarrow> json \<Rightarrow> bool" where
  "bad_stamp env j \<longleftrightarrow> (case j of
       JStr t \<Rightarrow> (case uv_fromiso env (iso_text t) of None \<Rightarrow> False | Some x \<Rightarrow> as_utc x = None)
     | _ \<Rightarrow> False)"

lemma recent_fails: "stamp_ok j \<Longrightarrow> is_recent env now stale j = None \<Longrightarrow> bad_stamp env j"
  by (auto simp: stamp_ok_def is_recent_def parse_iso_datetime_def bad_stamp_def split: option.splits if_splits)

lemma candidate_fails: "entry_ok e \<Longrightarrow> is_agent_url_candidate env now stale e = None \<Longrightarrow>
    ue_kind e = ''cloudflare_quick'' \<and> (bad_stamp env (ue_last_reachable_at e) \<or> bad_stamp env (ue_verified_at e))"
  using recent_fails[of "ue_verified_at e" env now stale] recent_fails[of "ue_last_reachable_at e" env now stale]
  by (auto simp: entry_ok_def is_agent_url_candidate_def EPHEMERAL_AGENT_URL_KINDS_def split: option.splits bool.splits if_splits)

lemma candidates_Some: "candidates env now stale es = Some us \<Longrightarrow>
    us = map ue_url (filter (\<lambda>e. is_agent_url_candidate env now stale e = Some True) es)"
  by (induction es arbitrary: us) (auto split: option.splits if_splits)

lemma candidates_None: "candidates env now stale es = None \<Longrightarrow> \<exists>e \<in> set es. is_agent_url_candidate env now stale e = None"
  by (induction es) (auto split: option.splits)

text \<open>
  C35. The list an agent is given is made from a legal column unless an ephemeral tunnel in it has a time stamp whose
  instant lies outside the years 1 to 9999, and is empty only if the column is. It is a part of
  the column in its order, with every address that is not an ephemeral tunnel and every tunnel that answered a probe
  in the last ten minutes; a tunnel that is no candidate is only in it when no address is one.
\<close>

theorem agents_get_addresses:
  assumes "lab_ok l"
  shows "case agent_urls_only env now l of
      None \<Rightarrow> \<exists>e \<in> set (load_entries env l). ue_kind e = ''cloudflare_quick''
        \<and> (bad_stamp env (ue_last_reachable_at e) \<or> bad_stamp env (ue_verified_at e))
    | Some us \<Rightarrow> (us = [] \<longleftrightarrow> lab_public_urls l = []) \<and> subseq us (urls_only env l)
    \<and> (\<forall>e \<in> set (load_entries env l). ue_kind e \<noteq> ''cloudflare_quick'' \<longrightarrow> ue_url e \<in> set us)
    \<and> (\<forall>e \<in> set (load_entries env l). \<forall>r. parse_iso_datetime env (ue_last_reachable_at e) = Some (Some r) \<longrightarrow> now - 600000000 \<le> r \<longrightarrow> ue_url e \<in> set us)
    \<and> (\<forall>e \<in> set (load_entries env l). ue_url e \<in> set us \<longrightarrow> is_agent_url_candidate env now 600000000 e \<noteq> Some True \<longrightarrow>
        us = urls_only env l \<and> (\<forall>e' \<in> set (load_entries env l). is_agent_url_candidate env now 600000000 e' \<noteq> Some True))"
proof -
  define es where "es = load_entries env l"
  define P where "P = (\<lambda>e. is_agent_url_candidate env now 600000000 e = Some True)"
  from lab_okD[OF assms, of env] have col: "lab_public_urls l = map url_to_dict es" and ok: "entries_ok es" by (simp_all add: es_def)
  have all: "\<forall>e \<in> set es. entry_ok e" using ok by (simp add: entries_ok_def)
  have eq: "agent_urls_only env now l = map_option (\<lambda>us. if us = [] then map ue_url es else us) (candidates env now 600000000 es)"
    by (simp add: agent_urls_only_def Let_def es_def[symmetric] seconds_def AGENT_URL_STALE_SECONDS_def)
  show ?thesis
  proof (cases "candidates env now 600000000 es")
    case None
    from candidates_None[OF this] all candidate_fails None show ?thesis by (auto simp: eq es_def[symmetric]) metis
  next
    case (Some cs)
    define us where "us = (if filter P es = [] then map ue_url es else map ue_url (filter P es))"
    have us: "agent_urls_only env now l = Some us" using candidates_Some[OF Some] by (simp add: eq Some us_def P_def)
    have sub: "subseq us (map ue_url es)" by (simp add: us_def subseq_map)
    have stable: "ue_url e \<in> set us" if "e \<in> set es" "P e" for e using that by (auto simp: us_def filter_empty_conv)
    have quick: "P e" if "ue_kind e \<noteq> ''cloudflare_quick''" for e
      using that by (simp add: P_def is_agent_url_candidate_def EPHEMERAL_AGENT_URL_KINDS_def)
    have recent: "P e" if "parse_iso_datetime env (ue_last_reachable_at e) = Some (Some r)" "now - 600000000 \<le> r" for e r
      using that by (simp add: P_def is_agent_url_candidate_def is_recent_def)
    have rest: "filter P es = []" if "e \<in> set es" "ue_url e \<in> set us" "\<not> P e" for e
    proof (rule ccontr)
      assume "filter P es \<noteq> []"
      with that obtain e' where "e' \<in> set es" "P e'" "ue_url e' = ue_url e" by (auto simp: us_def)
      moreover have "inj_on ue_url (set es)" using ok by (simp add: entries_ok_def distinct_map)
      ultimately have "e' = e" using that(1) by (auto dest: inj_onD)
      with \<open>P e'\<close> that(3) show False by simp
    qed
    have empty: "us = [] \<longleftrightarrow> lab_public_urls l = []" by (auto simp: us_def col)
    have ledger: "us = map ue_url es \<and> (\<forall>e' \<in> set es. \<not> P e')" if "e \<in> set es" "ue_url e \<in> set us" "\<not> P e" for e
      using rest[OF that] by (simp add: us_def filter_empty_conv)
    show ?thesis
      unfolding us option.case urls_only_def es_def[symmetric]
      using empty sub stable quick recent ledger unfolding P_def by (intro conjI ballI impI allI) metis+
  qed
qed

theorem agents_get_addresses_witness:
  "\<exists>us. agent_urls_only sc_url_env 8 sc_lab = Some us \<and> us \<noteq> [] \<and> subseq us (urls_only sc_url_env sc_lab)"
proof -
  have "agent_urls_only sc_url_env 8 sc_lab = Some [''http://10.0.0.2'', ''https://x.trycloudflare.com'']" by code_simp
  with agents_get_addresses[OF sc_lab_ok, of sc_url_env 8] show ?thesis by simp
qed

text \<open>One tunnel whose stamp is the first instant of year 1 an hour east of Greenwich leaves the agents of the lab without addresses.\<close>

theorem stamp_before_year_one:
  "agent_urls_only (sc_url_env\<lparr>uv_fromiso := (\<lambda>_. Some \<lparr>dt_wall = datetime_min, dt_off = Some 3600000000\<rparr>)\<rparr>) 8 sc_lab = None"
  by code_simp

section \<open>Where an agent connects\<close>

section \<open>Where an agent connects\<close>

text \<open>
  C36. Every agent to which a broadcast of the addresses goes is an active server of the lab with an open connection. When it has
  handled the frame, it connects to the same places, in the same order, as if it had been given the list of the lab itself,
  with the token and the server id it had, whether its file could be written or not; it acknowledges the frame unless the write failed.
\<close>

theorem broadcast_reaches_the_agent:
  assumes "broadcast_urls_to_agents env now l ids h st d = Some (frames, st')" and "f \<in> set frames"
    and "on_update_urls persist (uf_urls f) (cfg, file) = (ack, cfg', file')"
  shows "(\<exists>v \<in> set (server_rows d). srv_id v = uf_server_id f \<and> srv_lab_id v = lab_id l \<and> srv_is_active v \<and> h (srv_id v) \<noteq> None)
    \<and> (\<exists>us. agent_urls_only env now l = Some us \<and> us \<noteq> [] \<and> build_connect_urls cfg' = map (build_connect_url_from_base cfg) us)
    \<and> (ka_ok ack \<longleftrightarrow> (\<forall>e. persist \<noteq> Some (Some e)))"
proof -
  from assms(1) obtain us where us: "agent_urls_only env now l = Some us"
    and b: "(if us = [] then ([], st) else broadcast_update_urls (map srv_id (filter (\<lambda>v. srv_lab_id v = lab_id l \<and> srv_is_active v \<and> h (srv_id v) \<noteq> None)
      (server_rows d))) ids us h st) = (frames, st')" by (auto simp: broadcast_urls_to_agents_def)
  from b assms(2) have ne: "us \<noteq> []" by auto
  with b have "frames = map (\<lambda>sid. \<lparr>uf_server_id = sid, uf_id = ids sid, uf_urls = map to_wss us\<rparr>) (filter (\<lambda>sid. h sid \<noteq> None)
      (map srv_id (filter (\<lambda>v. srv_lab_id v = lab_id l \<and> srv_is_active v \<and> h (srv_id v) \<noteq> None) (server_rows d))))"
    by (simp add: broadcast_update_urls_def Let_def)
  with assms(2) obtain v where v: "v \<in> set (server_rows d)" "srv_lab_id v = lab_id l" "srv_is_active v" "h (srv_id v) \<noteq> None"
    and f: "f = \<lparr>uf_server_id = srv_id v, uf_id = ids (srv_id v), uf_urls = map to_wss us\<rparr>" by auto
  from assms(3) f ne have cfg: "cfg' = cfg\<lparr>ac_backend_urls := map to_wss us\<rparr>" and ok: "ka_ok ack \<longleftrightarrow> (\<forall>e. persist \<noteq> Some (Some e))"
    by (auto simp: on_update_urls_def Let_def split: option.splits)
  have params: "connect_params cfg' = connect_params cfg" by (simp add: cfg connect_params_def)
  have "build_connect_url_from_base cfg' u = build_connect_url_from_base cfg u" for u
    unfolding build_connect_url_from_base_def params ..
  then have "build_connect_urls cfg' = map (build_connect_url_from_base cfg) us"
    by (simp add: build_connect_urls_def cfg connect_to_wss)
  with us ne v f ok show ?thesis by auto
qed

definition sc_agent :: agent_config where
  "sc_agent = \<lparr>ac_backend_urls = [''http://old''], ac_enrollment_token = None, ac_agent_token = Some ''secret'',
     ac_server_id = Some 1, ac_reconnect_max_seconds = 30\<rparr>"

theorem broadcast_reaches_the_agent_witness:
  "case broadcast_urls_to_agents sc_url_env 8 sc_lab (\<lambda>_. ''f'') [1 \<mapsto> 5] sc_rpc sc_url_db of
     Some ([f], _) \<Rightarrow> (case on_update_urls (Some (Some ''full'')) (uf_urls f) (sc_agent, None) of (ack, cfg', _) \<Rightarrow> \<not> ka_ok ack
        \<and> (\<exists>us. agent_urls_only sc_url_env 8 sc_lab = Some us \<and> build_connect_urls cfg' = map (build_connect_url_from_base sc_agent) us))
   | _ \<Rightarrow> False"
proof -
  define us where "us = [''http://10.0.0.2'', ''https://x.trycloudflare.com'']"
  define f where "f = \<lparr>uf_server_id = 1, uf_id = ''f'', uf_urls = map to_wss us\<rparr>"
  have us: "agent_urls_only sc_url_env 8 sc_lab = Some us" unfolding us_def by code_simp
  have rows: "server_rows sc_url_db = [sc_server]" by (simp add: server_rows_def sc_url_db_def sc_db_def)
  have lab: "lab_id sc_lab = 1" by (simp add: sc_lab_def)
  have server: "srv_id sc_server = 1 \<and> srv_lab_id sc_server = 1 \<and> srv_is_active sc_server" by (simp add: sc_server_def)
  obtain st' where b: "broadcast_urls_to_agents sc_url_env 8 sc_lab (\<lambda>_. ''f'') [1 \<mapsto> 5] sc_rpc sc_url_db = Some ([f], st')"
    by (simp add: broadcast_urls_to_agents_def us[unfolded us_def] rows lab server broadcast_update_urls_def f_def us_def)
  obtain ack cfg' file' where u: "on_update_urls (Some (Some ''full'')) (uf_urls f) (sc_agent, None) = (ack, cfg', file')"
    by (cases "on_update_urls (Some (Some ''full'')) (uf_urls f) (sc_agent, None)")
  from broadcast_reaches_the_agent[OF b _ u] show ?thesis unfolding b by (simp add: u) blast
qed

text \<open>
  The configuration file after the rewrite: one line has the addresses, every other line that is not empty is there as it
  was and in its order, whatever lines about addresses there were.
\<close>

theorem file_keeps_other_lines:
  assumes "one_line us"
  shows "filter is_urls_line (splitlines (rewrite_backend_urls_in_toml text us)) = [urls_line us]
    \<and> filter (\<lambda>l. l \<noteq> [] \<and> \<not> is_urls_line l) (splitlines (rewrite_backend_urls_in_toml text us))
      = filter (\<lambda>l. l \<noteq> [] \<and> \<not> is_urls_line l) (splitlines text)"
proof -
  define out where "out = rewrite_lines (urls_line us) False (splitlines text)"
  have urls: "filter is_urls_line out = [urls_line us]" by (simp add: out_def rewrite_lines_urls[OF urls_line_is])
  have other: "filter (\<lambda>l. \<not> is_urls_line l) out = filter (\<lambda>l. \<not> is_urls_line l) (splitlines text)"
    by (simp add: out_def rewrite_lines_other[OF urls_line_is])
  have ok: "\<forall>l \<in> set out. line_ok l"
    using rewrite_lines_mem[of _ "urls_line us" False "splitlines text"] urls_line_ok[OF assms] splitlines_ok by (auto simp: out_def)
  from urls obtain ls x where out: "out = ls @ [x]" by (cases out rule: rev_cases) auto
  have "rewrite_backend_urls_in_toml text us = unlines ls @ x @ (if ends_with [10] text then [] else [10])"
    by (simp add: rewrite_backend_urls_in_toml_def out_def[symmetric] out join_texts_snoc)
  then have lines: "splitlines (rewrite_backend_urls_in_toml text us) = (if ends_with [10] text \<and> x = [] then ls else out)"
    using splitlines_rest[of ls x] splitlines_unlines[of out] ok by (auto simp: out unlines_def)
  have empty: "\<not> is_urls_line []" by (simp add: is_urls_line_def ulstrip_def starts_with_def u_of_def)
  have two: "filter (\<lambda>l. l \<noteq> [] \<and> \<not> is_urls_line l) xs = filter (\<lambda>l. l \<noteq> []) (filter (\<lambda>l. \<not> is_urls_line l) xs)" for xs
    by (simp add: conj_commute)
  show ?thesis unfolding two other[symmetric] using urls lines empty by (auto simp: out)
qed

theorem file_keeps_other_lines_witness:
  "filter (\<lambda>l. l \<noteq> [] \<and> \<not> is_urls_line l) (splitlines (rewrite_backend_urls_in_toml (u_of ''t=1'' @ [10, 10]) [''ws://a''])) = [u_of ''t=1'']"
proof -
  have "one_line [''ws://a'']" by (simp add: one_line_def line_ok_def u_of_def is_line_break_def)
  note file_keeps_other_lines[OF this, of "u_of ''t=1'' @ [10, 10]"]
  moreover have "filter (\<lambda>l. l \<noteq> [] \<and> \<not> is_urls_line l) (splitlines (u_of ''t=1'' @ [10, 10])) = [u_of ''t=1'']"
    by (simp add: u_of_def splitlines_def is_line_break_def is_urls_line_def starts_with_def ulstrip_def is_space_def)
  ultimately show ?thesis by simp
qed

text \<open>An address with quotes in it is read as two; the backend accepts any text of up to 500 characters.\<close>

theorem quotes_split_an_address:
  "urls_line [''a'' @ [CHR 0x22] @ '', '' @ [CHR 0x22] @ ''b''] = urls_line [''a'', ''b'']"
  by (simp add: urls_line_def)

section \<open>Names\<close>

text \<open>
  The name made for a lab from its display name is always one that the pattern for given names accepts, whatever characters
  the display name has.
\<close>

theorem derived_slug_is_legal:
  assumes "length hex = 8" and "list_all slug_char hex"
  shows "lab_slug_pattern (derive_slug hex name)"
proof -
  define low where "low = concat (map slug_lower name)"
  define cleaned where "cleaned = strip_hyphens (hyphenate False low)"
  define named where "named = (if cleaned \<noteq> [] \<and> \<not> slug_alpha (hd cleaned) then map of_char ''lab-'' @ cleaned else cleaned)"
  have codes: "\<forall>c \<in> set cleaned. slug_code c"
    using set_strip_hyphens hyphenate_codes[of low _ False] slug_lower_small[of _ name] by (auto simp: cleaned_def low_def)
  then have named_codes: "\<forall>c \<in> set named. slug_code c" by (auto simp: named_def slug_code_def)
  have head: "97 \<le> hd named \<and> hd named \<le> 122" if "named \<noteq> []"
    using that codes strip_hyphens_hd[of "hyphenate False low"]
    by (cases cleaned) (auto simp: named_def slug_alpha_def slug_code_def cleaned_def[symmetric])
  have slug: "derive_slug hex name = (if length (take 50 named) < 2 then ''lab-'' @ hex else map char_of (take 50 named))"
    unfolding derive_slug_def Let_def low_def cleaned_def named_def ..
  have chars: "list_all slug_char (map char_of (take 50 named))"
    using named_codes slug_char_code by (auto simp: list_all_iff dest: in_set_takeD)
  show ?thesis
  proof (cases "length (take 50 named) < 2")
    case True
    with assms show ?thesis unfolding slug if_P[OF True] by (simp add: lab_slug_pattern_def slug_char_def)
  next
    case False
    then obtain c cs where n: "named = c # cs" by (cases named) auto
    with False chars head show ?thesis unfolding slug if_not_P[OF False] by (cases cs) (simp_all add: lab_slug_pattern_def)
  qed
qed

theorem derived_slug_is_legal_witness:
  "derive_slug ''01234567'' (u_of ''2 Gpu &'') = ''lab-2-gpu'' \<and> lab_slug_pattern (derive_slug ''01234567'' [22823])"
proof -
  have "lab_slug_pattern (derive_slug ''01234567'' [22823])" by (rule derived_slug_is_legal) (simp_all add: slug_char_def)
  moreover have "derive_slug ''01234567'' (u_of ''2 Gpu &'') = ''lab-2-gpu''" by code_simp
  ultimately show ?thesis by blast
qed

section \<open>When an agent connects again\<close>

text \<open>A pass in which an address was closed in order is followed by the first delay; the delay never passes the limit.\<close>

lemma next_backoff_bounds: "0 \<le> m \<Longrightarrow> 0 \<le> next_backoff_seconds n m \<and> next_backoff_seconds n m \<le> m \<and> next_backoff_seconds n m \<le> 30"
proof -
  have "0 \<le> DEFAULT_BACKOFF_SCHEDULE ! i \<and> DEFAULT_BACKOFF_SCHEDULE ! i \<le> 30" if "i < 5" for i
    using that by (auto simp: DEFAULT_BACKOFF_SCHEDULE_def less_Suc_eq numeral_eq_Suc)
  then have "0 \<le> DEFAULT_BACKOFF_SCHEDULE ! min (n - 1) 4 \<and> DEFAULT_BACKOFF_SCHEDULE ! min (n - 1) 4 \<le> 30" by simp
  moreover have "length DEFAULT_BACKOFF_SCHEDULE - 1 = 4" by (simp add: DEFAULT_BACKOFF_SCHEDULE_def)
  ultimately show "0 \<le> m \<Longrightarrow> 0 \<le> next_backoff_seconds n m \<and> next_backoff_seconds n m \<le> m \<and> next_backoff_seconds n m \<le> 30"
    by (auto simp: next_backoff_seconds_def)
qed

lemma connect_pass_attempts: "connect_pass rs n = (b, k) \<Longrightarrow> k = 0 \<or> k = n"
  by (induction rs n rule: connect_pass.induct) auto

lemma closed_in_order: "Closed \<in> set rs \<Longrightarrow> connect_pass rs n = (True, 0)"
  by (induction rs n rule: connect_pass.induct) auto

end
