(* ===== verification/Agent_Accounts.thy ===== *)
theory Agent_Accounts
  imports Key_File Physical_Accounts
begin

text \<open>
  The Linux accounts of a host as the agent sees and changes them: \<open>linux_users.py\<close>, \<open>account_scanner.py\<close>, \<open>ssh_verifier.py\<close> and
  \<open>pam_handler.py\<close> of the agent, with the branches of \<open>ws_client.py\<close> that call them and the scans it sends. The account database is the
  list \<open>pwd.getpwall\<close> gives. The commands of the system are parameters: what a command does is a function of its arguments.
  The handlers return the commands they started. An exception of a handler leaves the receive loop and ends the
  connection. Logging is left out.
\<close>

section \<open>The account database\<close>

record pw_entry =
  pw_name :: string
  pw_uid :: int
  pw_gid :: int
  pw_dir :: string
  pw_shell :: string

definition getpwnam :: "string \<Rightarrow> pw_entry list \<Rightarrow> pw_entry option" where
  "getpwnam name pws = List.find (\<lambda>e. pw_name e = name) pws"

text \<open>What the handlers of the key files look up, on the same database.\<close>

definition key_users :: "pw_entry list \<Rightarrow> string \<rightharpoonup> user_info" where
  "key_users pws name = map_option (\<lambda>e. \<lparr>ui_gid = pw_gid e, ui_home_directory = pw_dir e\<rparr>) (getpwnam name pws)"

section \<open>Requests\<close>

definition USERADD_CAPABILITY_KEY :: string where "USERADD_CAPABILITY_KEY = ''linux.useradd''"
definition USERDEL_CAPABILITY_KEY :: string where "USERDEL_CAPABILITY_KEY = ''linux.userdel''"
definition MOCK_WARNING :: string where "MOCK_WARNING = ''platform=Darwin, no real Linux user mutation''"

datatype account_error = AccountCapabilityOff | InvalidLinuxUserPayload | InvalidAccountName | CommandNotStarted

record useradd_request =
  uq_linux_username :: string
  uq_uid :: "int option"
  uq_gid :: "int option"
  uq_home_directory :: "string option"
  uq_default_shell :: "string option"

record useradd_result =
  ur_ok :: bool
  ur_uid :: "int option"
  ur_gid :: "int option"
  ur_home_directory :: "string option"
  ur_default_shell :: "string option"
  ur_error :: "ustring option"
  ur_mock_warning :: "string option"

record userdel_result =
  dr_ok :: bool
  dr_error :: "ustring option"
  dr_mock_warning :: "string option"

record command_result =
  cm_returncode :: int
  cm_stdout :: ustring
  cm_stderr :: ustring

text \<open>\<open>ot_run\<close> is \<^const>\<open>None\<close> when the command cannot be started.\<close>

record os_tools =
  ot_useradd :: string
  ot_userdel :: string
  ot_run :: "string list \<Rightarrow> pw_entry list \<Rightarrow> (command_result \<times> pw_entry list) option"

definition account_gate :: "string \<Rightarrow> agent_host \<Rightarrow> account_error + unit" where
  "account_gate key h = (if capability_enabled key True h then Inr () else Inl AccountCapabilityOff)"

definition path_char :: "char \<Rightarrow> bool" where
  "path_char c \<longleftrightarrow> (let n = (of_char c :: nat) in 65 \<le> n \<and> n \<le> 90 \<or> 97 \<le> n \<and> n \<le> 122 \<or> 48 \<le> n \<and> n \<le> 57
     \<or> c \<in> set ''._/+:-'')"

definition abs_path_ok :: "string \<Rightarrow> bool" where
  "abs_path_ok p = (case p of [] \<Rightarrow> False | c # cs \<Rightarrow> c = CHR ''/'' \<and> cs \<noteq> [] \<and> list_all path_char cs)"

definition MIN_ACCOUNT_ID :: int where "MIN_ACCOUNT_ID = 1000"

definition given_ok :: "('a \<Rightarrow> bool) \<Rightarrow> 'a option \<Rightarrow> bool" where
  "given_ok P x = (case x of None \<Rightarrow> True | Some v \<Rightarrow> P v)"

definition useradd_request_ok :: "useradd_request \<Rightarrow> bool" where
  "useradd_request_ok q \<longleftrightarrow> username_ok (uq_linux_username q) \<and> given_ok (\<lambda>i. MIN_ACCOUNT_ID \<le> i) (uq_uid q)
     \<and> given_ok (\<lambda>i. MIN_ACCOUNT_ID \<le> i) (uq_gid q) \<and> given_ok abs_path_ok (uq_home_directory q) \<and> given_ok abs_path_ok (uq_default_shell q)"

section \<open>Creating and deleting accounts\<close>

definition text_or :: "string option \<Rightarrow> string \<Rightarrow> string" where
  "text_or x d = (case x of None \<Rightarrow> d | Some t \<Rightarrow> if t = [] then d else t)"

definition int_or :: "int option \<Rightarrow> int \<Rightarrow> int" where
  "int_or x d = (case x of None \<Rightarrow> d | Some i \<Rightarrow> if i = 0 then d else i)"

definition wanted_shell :: "useradd_request \<Rightarrow> string" where
  "wanted_shell q = text_or (uq_default_shell q) ''/bin/bash''"

definition wanted_home :: "useradd_request \<Rightarrow> string" where
  "wanted_home q = text_or (uq_home_directory q) (''/home/'' @ uq_linux_username q)"

definition result_from_info :: "pw_entry \<Rightarrow> useradd_result" where
  "result_from_info e = \<lparr>ur_ok = True, ur_uid = Some (pw_uid e), ur_gid = Some (pw_gid e), ur_home_directory = Some (pw_dir e),
     ur_default_shell = Some (pw_shell e), ur_error = None, ur_mock_warning = None\<rparr>"

definition useradd_failed :: "ustring \<Rightarrow> useradd_result" where
  "useradd_failed m = \<lparr>ur_ok = False, ur_uid = None, ur_gid = None, ur_home_directory = None, ur_default_shell = None,
     ur_error = Some m, ur_mock_warning = None\<rparr>"

definition mock_useradd :: "useradd_request \<Rightarrow> useradd_result" where
  "mock_useradd q = \<lparr>ur_ok = True, ur_uid = Some (int_or (uq_uid q) 20000), ur_gid = Some (int_or (uq_gid q) (int_or (uq_uid q) 20000)),
     ur_home_directory = Some (wanted_home q), ur_default_shell = Some (wanted_shell q), ur_error = None, ur_mock_warning = Some MOCK_WARNING\<rparr>"

definition useradd_command :: "os_tools \<Rightarrow> useradd_request \<Rightarrow> string list" where
  "useradd_command t q = [''sudo'', ''-n'', ot_useradd t, ''-m'', ''-s'', wanted_shell q, ''-d'', wanted_home q]
     @ (case uq_uid q of None \<Rightarrow> [] | Some i \<Rightarrow> [''-u'', int_str i])
     @ (case uq_gid q of None \<Rightarrow> [] | Some i \<Rightarrow> [''-g'', int_str i]) @ [uq_linux_username q]"

text \<open>The message of a command that failed: its errors, else its output, else a fixed text.\<close>

definition failure_text :: "string \<Rightarrow> command_result \<Rightarrow> ustring" where
  "failure_text d r = (if ustrip (cm_stderr r) \<noteq> [] then ustrip (cm_stderr r)
     else if ustrip (cm_stdout r) \<noteq> [] then ustrip (cm_stdout r) else u_of d)"

definition useradd :: "os_tools \<Rightarrow> bool \<Rightarrow> agent_host \<Rightarrow> useradd_request \<Rightarrow> pw_entry list \<Rightarrow>
    (account_error + useradd_result) \<times> string list list \<times> pw_entry list" where
  "useradd t mock h q pws =
    (case account_gate USERADD_CAPABILITY_KEY h of Inl e \<Rightarrow> (Inl e, [], pws) | Inr _ \<Rightarrow>
      if \<not> useradd_request_ok q then (Inl InvalidLinuxUserPayload, [], pws)
      else if mock then (Inr (mock_useradd q), [], pws)
      else (case getpwnam (uq_linux_username q) pws of
        Some e \<Rightarrow> (Inr (result_from_info e), [], pws)
      | None \<Rightarrow> (case ot_run t (useradd_command t q) pws of
          None \<Rightarrow> (Inl CommandNotStarted, [], pws)
        | Some (r, pws') \<Rightarrow> (if cm_returncode r \<noteq> 0 then Inr (useradd_failed (failure_text ''useradd_failed'' r))
            else (case getpwnam (uq_linux_username q) pws' of
                None \<Rightarrow> Inr (useradd_failed (u_of ''useradd_succeeded_but_user_not_found''))
              | Some e \<Rightarrow> Inr (result_from_info e)), [useradd_command t q], pws'))))"

definition userdel_command :: "os_tools \<Rightarrow> string \<Rightarrow> bool \<Rightarrow> string list" where
  "userdel_command t name remove_home = [''sudo'', ''-n'', ot_userdel t] @ (if remove_home then [''-r''] else []) @ [name]"

definition userdel :: "os_tools \<Rightarrow> bool \<Rightarrow> agent_host \<Rightarrow> string \<Rightarrow> bool \<Rightarrow> pw_entry list \<Rightarrow>
    (account_error + userdel_result) \<times> string list list \<times> pw_entry list" where
  "userdel t mock h name remove_home pws =
    (case account_gate USERDEL_CAPABILITY_KEY h of Inl e \<Rightarrow> (Inl e, [], pws) | Inr _ \<Rightarrow>
      if \<not> username_ok name then (Inl InvalidLinuxUserPayload, [], pws)
      else if mock then (Inr \<lparr>dr_ok = True, dr_error = None, dr_mock_warning = Some MOCK_WARNING\<rparr>, [], pws)
      else if getpwnam name pws = None then (Inr \<lparr>dr_ok = True, dr_error = None, dr_mock_warning = None\<rparr>, [], pws)
      else (case ot_run t (userdel_command t name remove_home) pws of
          None \<Rightarrow> (Inl CommandNotStarted, [], pws)
        | Some (r, pws') \<Rightarrow> (Inr (if cm_returncode r \<noteq> 0
              then \<lparr>dr_ok = False, dr_error = Some (failure_text ''userdel_failed'' r), dr_mock_warning = None\<rparr>
              else \<lparr>dr_ok = True, dr_error = None, dr_mock_warning = None\<rparr>), [userdel_command t name remove_home], pws')))"

section \<open>Verifying a claim\<close>

definition VERIFY_CAPABILITY_KEY :: string where "VERIFY_CAPABILITY_KEY = ''ssh.verify_signature''"
definition MOCK_FINGERPRINT :: string where "MOCK_FINGERPRINT = ''SHA256:MOCK-MAC-NO-VERIFY''"

record verify_result =
  vr_ok :: bool
  vr_signer_fingerprint :: "ustring option"
  vr_error :: "ustring option"

definition fp_char :: "nat \<Rightarrow> bool" where
  "fp_char c \<longleftrightarrow> 65 \<le> c \<and> c \<le> 90 \<or> 97 \<le> c \<and> c \<le> 122 \<or> 48 \<le> c \<and> c \<le> 57 \<or> c = 43 \<or> c = 47 \<or> c = 61"

text \<open>The leftmost match of \<open>SHA256:\<close> with at least one character of the alphabet behind it, as long as it goes.\<close>

fun parse_fingerprint :: "ustring \<Rightarrow> ustring option" where
  "parse_fingerprint [] = None"
| "parse_fingerprint (c # s) = (let body = takeWhile fp_char (drop 7 (c # s)) in
     if prefix (u_of ''SHA256:'') (c # s) \<and> body \<noteq> [] then Some (u_of ''SHA256:'' @ body) else parse_fingerprint s)"

definition verify_command :: "string \<Rightarrow> string \<Rightarrow> string \<Rightarrow> string list" where
  "verify_command name namespace sig_file = [''sudo'', ''-n'', ''-u'', name, ''ssh-keygen'', ''-Y'', ''verify'', ''-f'',
     ''/home/'' @ name @ ''/.ssh/authorized_keys'', ''-I'', [], ''-n'', namespace, ''-s'', sig_file]"

text \<open>
  \<open>run\<close> is the outcome of the command on its arguments and its standard input: the text of a \<open>FileNotFoundError\<close>, or the
  result. \<open>sig_file\<close> is the temporary file with the signature.
\<close>

definition verify_sig :: "(string list \<Rightarrow> string \<Rightarrow> ustring + command_result) \<Rightarrow> string \<Rightarrow> bool \<Rightarrow> agent_host \<Rightarrow> string \<Rightarrow> string \<Rightarrow> string \<Rightarrow>
    (account_error + verify_result) \<times> string list list" where
  "verify_sig run sig_file mock h name nonce namespace =
    (case account_gate VERIFY_CAPABILITY_KEY h of Inl e \<Rightarrow> (Inl e, []) | Inr _ \<Rightarrow>
      if \<not> username_ok name then (Inl InvalidAccountName, [])
      else if mock then (Inr \<lparr>vr_ok = True, vr_signer_fingerprint = Some (u_of MOCK_FINGERPRINT), vr_error = None\<rparr>, [])
      else (let cmd = verify_command name namespace sig_file in
        case run cmd nonce of
          Inl m \<Rightarrow> (Inr \<lparr>vr_ok = False, vr_signer_fingerprint = None, vr_error = Some m\<rparr>, [])
        | Inr r \<Rightarrow> (Inr (if cm_returncode r = 0
            then \<lparr>vr_ok = True, vr_signer_fingerprint = (case parse_fingerprint (cm_stdout r) of
                Some f \<Rightarrow> Some f | None \<Rightarrow> parse_fingerprint (cm_stderr r)), vr_error = None\<rparr>
            else \<lparr>vr_ok = False, vr_signer_fingerprint = None,
              vr_error = Some (if ustrip (cm_stderr r) \<noteq> [] then ustrip (cm_stderr r) else u_of ''verify_failed'')\<rparr>), [cmd])))"

definition PAM_CAPABILITY_KEY :: string where "PAM_CAPABILITY_KEY = ''pam.authenticate''"

record pam_result =
  pr_verify_ok :: bool
  pr_mock_warning :: bool
  pr_error :: "string option"

text \<open>What the PAM library comes to; the strings are the texts of the exceptions, for the last one the name of its class.\<close>

datatype pam_outcome = PamUnavailable string | PamAccepted | PamRefused string | PamInternal string

definition pam_failed :: "string \<Rightarrow> pam_result" where
  "pam_failed m = \<lparr>pr_verify_ok = False, pr_mock_warning = False, pr_error = Some m\<rparr>"

text \<open>Of the mock warning only its presence is kept.\<close>

definition pam_verify :: "(string \<Rightarrow> string \<Rightarrow> pam_outcome) \<Rightarrow> bool \<Rightarrow> agent_host \<Rightarrow> string \<Rightarrow> string \<Rightarrow> account_error + pam_result" where
  "pam_verify pam mock h name password =
    (case account_gate PAM_CAPABILITY_KEY h of Inl e \<Rightarrow> Inl e | Inr _ \<Rightarrow>
      if \<not> username_ok name then Inl InvalidAccountName
      else if mock then Inr (if password = [] then pam_failed ''empty_password'' else \<lparr>pr_verify_ok = True, pr_mock_warning = True, pr_error = None\<rparr>)
      else Inr (case pam name password of
          PamUnavailable m \<Rightarrow> pam_failed (''pamela_unavailable: '' @ m)
        | PamAccepted \<Rightarrow> \<lparr>pr_verify_ok = True, pr_mock_warning = False, pr_error = None\<rparr>
        | PamRefused m \<Rightarrow> pam_failed m
        | PamInternal c \<Rightarrow> pam_failed (''pam_internal: '' @ c)))"

section \<open>The receive loop\<close>

text \<open>The requests of the backend about accounts, and the fields of the answers.\<close>

datatype account_request =
    UseraddRequest useradd_request
  | UserdelRequest string bool
  | VerifyRequest string string string
  | PamRequest string string

record account_env =
  av_tools :: os_tools
  av_verify :: "string list \<Rightarrow> string \<Rightarrow> ustring + command_result"
  av_sig_file :: string
  av_pam :: "string \<Rightarrow> string \<Rightarrow> pam_outcome"
  av_text :: "ustring \<Rightarrow> string"
  av_mock :: bool

definition useradd_payload :: "account_env \<Rightarrow> useradd_result \<Rightarrow> payload" where
  "useradd_payload env r = [(''ok'', JBool (ur_ok r)), (''uid'', jopt JInt (ur_uid r)), (''gid'', jopt JInt (ur_gid r)),
     (''home_directory'', jopt JStr (ur_home_directory r)), (''default_shell'', jopt JStr (ur_default_shell r)),
     (''error'', jopt (\<lambda>m. JStr (av_text env m)) (ur_error r)), (''mock_warning'', jopt JStr (ur_mock_warning r))]"

definition userdel_payload :: "account_env \<Rightarrow> userdel_result \<Rightarrow> payload" where
  "userdel_payload env r = [(''ok'', JBool (dr_ok r)), (''error'', jopt (\<lambda>m. JStr (av_text env m)) (dr_error r)),
     (''mock_warning'', jopt JStr (dr_mock_warning r))]"

definition verify_payload :: "account_env \<Rightarrow> verify_result \<Rightarrow> payload" where
  "verify_payload env r = [(''ok'', JBool (vr_ok r)), (''signer_fingerprint'', jopt (\<lambda>m. JStr (av_text env m)) (vr_signer_fingerprint r)),
     (''error'', jopt (\<lambda>m. JStr (av_text env m)) (vr_error r))]"

definition pam_payload :: "pam_result \<Rightarrow> payload" where
  "pam_payload r = [(''verify_ok'', JBool (pr_verify_ok r)), (''error'', jopt JStr (pr_error r))]"

text \<open>One request: the answer (\<^const>\<open>Inl\<close> when the connection is lost), the commands that were started, the accounts afterwards.\<close>

definition handle_account_request :: "account_env \<Rightarrow> agent_host \<Rightarrow> account_request \<Rightarrow> pw_entry list \<Rightarrow>
    (account_error + payload) \<times> string list list \<times> pw_entry list" where
  "handle_account_request env h q pws = (case q of
      UseraddRequest r \<Rightarrow> (case useradd (av_tools env) (av_mock env) h r pws of (x, cs, pws') \<Rightarrow> (map_sum id (useradd_payload env) x, cs, pws'))
    | UserdelRequest name rm \<Rightarrow> (case userdel (av_tools env) (av_mock env) h name rm pws of (x, cs, pws') \<Rightarrow> (map_sum id (userdel_payload env) x, cs, pws'))
    | VerifyRequest name nonce ns \<Rightarrow> (case verify_sig (av_verify env) (av_sig_file env) (av_mock env) h name nonce ns of
        (x, cs) \<Rightarrow> (map_sum id (verify_payload env) x, cs, pws))
    | PamRequest name pw \<Rightarrow> (map_sum id pam_payload (pam_verify (av_pam env) (av_mock env) h name pw), [], pws))"

section \<open>Scans\<close>

definition MIN_HUMAN_UID :: int where "MIN_HUMAN_UID = 1000"
definition NOBODY_UID :: int where "NOBODY_UID = 65534"
definition STUB_SHELLS :: "string list" where "STUB_SHELLS = [''nologin'', ''false'']"

text \<open>The part of a path behind its last slash.\<close>

definition base_name :: "string \<Rightarrow> string" where
  "base_name p = rev (takeWhile (\<lambda>c. c \<noteq> CHR ''/'') (rev p))"

definition is_human :: "pw_entry \<Rightarrow> bool" where
  "is_human e \<longleftrightarrow> \<not> (pw_uid e < MIN_HUMAN_UID \<or> pw_uid e = NOBODY_UID) \<and> \<not> (pw_name e = [] \<or> 32 < length (pw_name e))
     \<and> base_name (pw_shell e) \<notin> set STUB_SHELLS"

definition or_none :: "string \<Rightarrow> string option" where
  "or_none t = (if t = [] then None else Some t)"

definition scan_entry_of :: "pw_entry \<Rightarrow> scan_entry" where
  "scan_entry_of e = \<lparr>se_linux_username = pw_name e, se_uid = Some (pw_uid e), se_gid = Some (pw_gid e),
     se_home_directory = or_none (pw_dir e), se_default_shell = or_none (pw_shell e)\<rparr>"

text \<open>The bounds of the frame.\<close>

definition scan_entry_ok :: "scan_entry \<Rightarrow> bool" where
  "scan_entry_ok e \<longleftrightarrow> 1 \<le> length (se_linux_username e) \<and> length (se_linux_username e) \<le> 32 \<and> given_ok (\<lambda>i. 0 \<le> i) (se_uid e)
     \<and> given_ok (\<lambda>i. 0 \<le> i) (se_gid e) \<and> given_ok (\<lambda>t. length t \<le> 255) (se_home_directory e) \<and> given_ok (\<lambda>t. length t \<le> 100) (se_default_shell e)"

record scan_report =
  sr_entries :: "scan_entry list"
  sr_mock :: bool

text \<open>\<^const>\<open>None\<close> where the list is too long for the frame, which raises.\<close>

definition make_report :: "scan_entry list \<Rightarrow> bool \<Rightarrow> scan_report option" where
  "make_report es mock = (if length es \<le> 4096 then Some \<lparr>sr_entries = es, sr_mock = mock\<rparr> else None)"

record mock_account =
  mk_linux_username :: string
  mk_uid :: int
  mk_gid :: int
  mk_home_directory :: "string option"
  mk_default_shell :: "string option"

definition mock_entry :: "mock_account \<Rightarrow> scan_entry" where
  "mock_entry a = \<lparr>se_linux_username = mk_linux_username a, se_uid = Some (mk_uid a), se_gid = Some (mk_gid a),
     se_home_directory = Some (text_or (mk_home_directory a) (''/home/'' @ mk_linux_username a)), se_default_shell = mk_default_shell a\<rparr>"

definition MOCK_ENTRIES :: "scan_entry list" where
  "MOCK_ENTRIES = [
     \<lparr>se_linux_username = ''grace'', se_uid = Some 1001, se_gid = Some 1001, se_home_directory = Some ''/home/grace'', se_default_shell = Some ''/bin/bash''\<rparr>,
     \<lparr>se_linux_username = ''heidi'', se_uid = Some 1002, se_gid = Some 1002, se_home_directory = Some ''/home/heidi'', se_default_shell = Some ''/bin/zsh''\<rparr>]"

text \<open>\<open>pws\<close> is \<^const>\<open>None\<close> where the database cannot be read. Entries beyond the bounds raise too; a real scan is empty then.\<close>

definition scan :: "bool \<Rightarrow> mock_account list \<Rightarrow> pw_entry list option \<Rightarrow> scan_report option" where
  "scan mock accounts pws =
    (if mock then (if accounts \<noteq> [] then (if list_all (scan_entry_ok \<circ> mock_entry) accounts then make_report (map mock_entry accounts) True else None)
       else make_report MOCK_ENTRIES True)
     else (case pws of
         None \<Rightarrow> make_report [] False
       | Some es \<Rightarrow> (let entries = map scan_entry_of (filter is_human es) in
           if list_all scan_entry_ok entries then make_report entries False else make_report [] False)))"

text \<open>
  \<open>_send_account_scan\<close>: the frame that goes out, if any, and the snapshot that is remembered. \<open>sent\<close> says whether the socket took it.
\<close>

definition send_account_scan :: "bool \<Rightarrow> scan_report option \<Rightarrow> bool \<Rightarrow> scan_entry list option \<Rightarrow> scan_report option \<times> scan_entry list option" where
  "send_account_scan force rep sent snap = (case rep of
      None \<Rightarrow> (None, snap)
    | Some r \<Rightarrow> if \<not> force \<and> snap = Some (sr_entries r) then (None, snap)
        else if \<not> sent then (None, snap)
        else (Some r, Some (sr_entries r)))"

end
