(* ===== verification/Host_Props.thy ===== *)
theory Host_Props
  imports Agent_Accounts
begin

text \<open>
  The commands on accounts: what stands in their arguments, when one is started, and what an answer with ok rests on.
\<close>

section \<open>Arguments\<close>

definition digit :: "char \<Rightarrow> bool" where
  "digit c \<longleftrightarrow> 48 \<le> (of_char c :: nat) \<and> (of_char c :: nat) \<le> 57"

text \<open>A word that is no option and has no blank, quote or control character in it.\<close>

definition plain :: "string \<Rightarrow> bool" where
  "plain a \<longleftrightarrow> a \<noteq> [] \<and> hd a \<noteq> CHR ''-'' \<and> list_all path_char a"

lemma digit_of: "d < 10 \<Longrightarrow> digit (digit_char d)"
  by (simp add: digit_def digit_char_def)

lemma digits: "nat_str n \<noteq> [] \<and> list_all digit (nat_str n)"
proof (induction n rule: nat_str.induct)
  case (1 n)
  show ?case
  proof (cases "n < 10")
    case True
    then show ?thesis by (subst (1 2) nat_str.simps) (simp add: digit_of)
  next
    case False
    with 1 show ?thesis by (subst (1 2) nat_str.simps) (simp add: digit_of)
  qed
qed

lemma digit_plain: "digit c \<Longrightarrow> path_char c \<and> c \<noteq> CHR ''-''"
  by (auto simp: digit_def path_char_def)

lemma id_plain: "0 \<le> i \<Longrightarrow> plain (int_str i)"
  using digits[of "nat i"] digit_plain by (auto simp: plain_def int_str_def list_all_iff)

lemma char_codes: "of_char c = (95 :: nat) \<longleftrightarrow> c = CHR ''_''" "of_char c = (45 :: nat) \<longleftrightarrow> c = CHR ''-''"
proof -
  have "of_char (CHR ''_'') = (95 :: nat)" "of_char (CHR ''-'') = (45 :: nat)" by simp_all
  then show "of_char c = (95 :: nat) \<longleftrightarrow> c = CHR ''_''" "of_char c = (45 :: nat) \<longleftrightarrow> c = CHR ''-''" by (metis of_char_eq_iff)+
qed

lemma name_char: "name_rest c \<Longrightarrow> path_char c" "name_start c \<Longrightarrow> name_rest c \<and> c \<noteq> CHR ''-''"
  by (auto simp: name_rest_def name_start_def path_char_def Let_def char_codes)

lemma name_plain: "username_ok n \<Longrightarrow> plain n"
  using name_char by (auto simp: username_ok_def plain_def list_all_iff split: list.splits)

lemma path_plain: "abs_path_ok p \<Longrightarrow> plain p"
  by (auto simp: abs_path_ok_def plain_def path_char_def split: list.splits)

lemma plain_app: "plain a \<Longrightarrow> list_all path_char b \<Longrightarrow> plain (a @ b)"
  by (auto simp: plain_def)

lemma home_prefix_plain: "plain ''/home/''" "plain ''/bin/bash''"
  by (simp_all add: plain_def path_char_def)

lemma given_okD: "given_ok P (Some v) \<Longrightarrow> P v"
  by (simp add: given_ok_def)

lemma wanted_plain: "useradd_request_ok q \<Longrightarrow> plain (wanted_shell q) \<and> plain (wanted_home q)"
  using path_plain home_prefix_plain plain_app[OF home_prefix_plain(1)] name_plain[of "uq_linux_username q"]
  by (auto simp: useradd_request_ok_def wanted_shell_def wanted_home_def text_or_def given_ok_def plain_def split: option.splits)

text \<open>The fixed words of the three commands.\<close>

definition fixed_words :: "os_tools \<Rightarrow> string set" where
  "fixed_words t = {''sudo'', ''-n'', ot_useradd t, ot_userdel t, ''-m'', ''-s'', ''-d'', ''-u'', ''-g'', ''-r'',
     ''ssh-keygen'', ''-Y'', ''verify'', ''-f'', ''-I'', []}"

lemma useradd_words: "useradd_request_ok q \<Longrightarrow> a \<in> set (useradd_command t q) \<Longrightarrow> a \<in> fixed_words t \<or> plain a"
  using wanted_plain[of q] id_plain name_plain[of "uq_linux_username q"]
  by (auto simp: useradd_command_def fixed_words_def useradd_request_ok_def given_ok_def MIN_ACCOUNT_ID_def split: option.splits)

lemma userdel_words: "username_ok name \<Longrightarrow> a \<in> set (userdel_command t name rm) \<Longrightarrow> a \<in> fixed_words t \<or> plain a"
  using name_plain[of name] by (auto simp: userdel_command_def fixed_words_def split: if_splits)

lemma verify_words: "username_ok name \<Longrightarrow> a \<in> set (verify_command name ns f) \<Longrightarrow> a \<in> fixed_words t \<or> plain a \<or> a = ns \<or> a = f"
proof -
  assume n: "username_ok name"
  have "plain (''/home/'' @ name @ ''/.ssh/authorized_keys'')"
    using name_plain[OF n] by (intro plain_app[OF home_prefix_plain(1)]) (simp add: plain_def path_char_def)
  with name_plain[OF n] show "a \<in> set (verify_command name ns f) \<Longrightarrow> ?thesis" by (auto simp: verify_command_def fixed_words_def)
qed

section \<open>What the handlers start\<close>

lemma useradd_started: "useradd t mock h q pws = (x, cs, pws') \<Longrightarrow> cmd \<in> set cs \<Longrightarrow>
    capability_enabled USERADD_CAPABILITY_KEY True h \<and> useradd_request_ok q \<and> \<not> mock \<and> getpwnam (uq_linux_username q) pws = None
    \<and> cs = [useradd_command t q] \<and> cmd = useradd_command t q"
  by (auto simp: useradd_def account_gate_def split: if_splits option.splits)

lemma userdel_started: "userdel t mock h name rm pws = (x, cs, pws') \<Longrightarrow> cmd \<in> set cs \<Longrightarrow>
    capability_enabled USERDEL_CAPABILITY_KEY True h \<and> username_ok name \<and> \<not> mock \<and> getpwnam name pws \<noteq> None
    \<and> cs = [userdel_command t name rm] \<and> cmd = userdel_command t name rm"
  by (auto simp: userdel_def account_gate_def split: if_splits option.splits)

lemma verify_started: "verify_sig run f mock h name nonce ns = (x, cs) \<Longrightarrow> cmd \<in> set cs \<Longrightarrow>
    capability_enabled VERIFY_CAPABILITY_KEY True h \<and> username_ok name \<and> \<not> mock \<and> cs = [verify_command name ns f] \<and> cmd = verify_command name ns f"
  by (auto simp: verify_sig_def account_gate_def Let_def split: if_splits sum.splits)

section \<open>A successful answer\<close>

text \<open>
  When the handler answers with ok it has found the account: before the command, which is then not started, or after it.
  Nothing is supposed about what the command does.
\<close>

lemma useradd_ok_cases:
  assumes "useradd t False h q pws = (Inr r, cs, pws')" and "ur_ok r"
  obtains (known) e where "getpwnam (uq_linux_username q) pws = Some e" "r = result_from_info e" "cs = []" "pws' = pws"
  | (made) e c where "getpwnam (uq_linux_username q) pws = None" "ot_run t (useradd_command t q) pws = Some (c, pws')" "cm_returncode c = 0"
      "getpwnam (uq_linux_username q) pws' = Some e" "r = result_from_info e" "cs = [useradd_command t q]"
proof (cases "getpwnam (uq_linux_username q) pws")
  case (Some e)
  with assms(1) show ?thesis by (intro known[of e]) (auto simp: useradd_def split: sum.splits if_splits)
next
  case None
  with assms show ?thesis
    by (auto simp: useradd_def useradd_failed_def split: sum.splits if_splits option.splits intro: made)
qed

lemma result_ok [simp]: "ur_ok (result_from_info e)"
  by (simp add: result_from_info_def)

text \<open>What the backend reads out of an answer.\<close>

definition like_host :: "pw_entry \<Rightarrow> physical_account \<Rightarrow> physical_account" where
  "like_host e p = p\<lparr>pa_uid := Some (pw_uid e), pa_gid := Some (pw_gid e), pa_home_directory := Some (pw_dir e), pa_default_shell := Some (pw_shell e)\<rparr>"

lemma answer_read: "onboard_rpc (RpcReturned (useradd_payload env (result_from_info e))) = Some (b, pl) \<Longrightarrow> b \<and> useradd_pa pl p = like_host e p"
  by (auto simp: onboard_rpc_def useradd_payload_def result_from_info_def useradd_pa_def like_host_def int_of_field_def text_of_field_def
    rpc_get_def jopt_def)

text \<open>A home the agent chose itself is one the handlers of the key files accept.\<close>

lemma name_home: "username_ok n \<Longrightarrow> n \<noteq> [] \<and> list_all home_char n \<and> n \<noteq> ''..''"
  by (auto simp: username_ok_def list_all_iff home_char_def name_rest_def name_start_def Let_def split: list.splits)

lemma default_home_accepted: "username_ok n \<Longrightarrow> pw_dir e = ''/home/'' @ n \<Longrightarrow>
    authorized_key_paths \<lparr>ui_gid = g, ui_home_directory = pw_dir e\<rparr> = Inr (''/home/'' @ n @ ''/.ssh'', ''/home/'' @ n @ ''/.ssh/authorized_keys'')"
  using name_home[of n] by (auto simp: authorized_key_paths_def)

end
