(* ===== verification/Guarantees_Hosts.thy ===== *)
theory Guarantees_Hosts
  imports Host_Props Agent_Connection Guarantees_Registry
begin

text \<open>
  What is guaranteed about the accounts of a host: which commands an agent starts, what an account that was created looks like to the
  agent and to the backend, how a scan brings the people of the host into the registry; and where system accounts and
  scans are not looked after.
\<close>

section \<open>Commands\<close>

text \<open>
  C37. The agent starts at most one command for a request about accounts, only with the capability of the request on and not in mock
  mode: \<open>useradd\<close> for an account that does not exist, \<open>userdel\<close> for one that does, \<open>ssh-keygen\<close> as the account itself. Every
  argument is a fixed word or a word without blanks and control characters that does not look like an option, but for
  the namespace and the temporary file of a verification, which stand behind their options.
\<close>

theorem account_commands_are_closed:
  assumes "handle_account_request env h q pws = (x, cs, pws')" and "cmd \<in> set cs"
  shows "(case q of
       UseraddRequest r \<Rightarrow> capability_enabled USERADD_CAPABILITY_KEY True h \<and> useradd_request_ok r \<and> getpwnam (uq_linux_username r) pws = None
         \<and> cmd = useradd_command (av_tools env) r
     | UserdelRequest name rm \<Rightarrow> capability_enabled USERDEL_CAPABILITY_KEY True h \<and> username_ok name \<and> getpwnam name pws \<noteq> None
         \<and> cmd = userdel_command (av_tools env) name rm
     | VerifyRequest name nonce ns \<Rightarrow> capability_enabled VERIFY_CAPABILITY_KEY True h \<and> username_ok name
         \<and> cmd = verify_command name ns (av_sig_file env)
     | PamRequest _ _ \<Rightarrow> False)
    \<and> \<not> av_mock env \<and> cs = [cmd]
    \<and> (\<forall>a \<in> set cmd. a \<in> fixed_words (av_tools env) \<or> plain a \<or> (\<exists>name nonce ns. q = VerifyRequest name nonce ns \<and> (a = ns \<or> a = av_sig_file env)))"
proof (cases q)
  case (UseraddRequest r)
  with assms obtain y where "useradd (av_tools env) (av_mock env) h r pws = (y, cs, pws')"
    by (auto simp: handle_account_request_def split: prod.splits)
  from useradd_started[OF this assms(2)] UseraddRequest useradd_words[of r _ "av_tools env"] show ?thesis by auto
next
  case (UserdelRequest name rm)
  with assms obtain y where "userdel (av_tools env) (av_mock env) h name rm pws = (y, cs, pws')"
    by (auto simp: handle_account_request_def split: prod.splits)
  from userdel_started[OF this assms(2)] UserdelRequest userdel_words[of name _ "av_tools env" rm] show ?thesis by auto
next
  case (VerifyRequest name nonce ns)
  with assms obtain y where "verify_sig (av_verify env) (av_sig_file env) (av_mock env) h name nonce ns = (y, cs)"
    by (auto simp: handle_account_request_def split: prod.splits)
  from verify_started[OF this assms(2)] VerifyRequest verify_words[of name _ ns "av_sig_file env" "av_tools env"] show ?thesis by auto
next
  case (PamRequest name pw)
  with assms show ?thesis by (simp add: handle_account_request_def)
qed

text \<open>A host with one administrator and one person; \<open>useradd\<close> and \<open>userdel\<close> succeed.\<close>

definition sc_root :: pw_entry where
  "sc_root = \<lparr>pw_name = ''root'', pw_uid = 0, pw_gid = 0, pw_dir = ''/root'', pw_shell = ''/bin/bash''\<rparr>"

definition sc_alice :: pw_entry where
  "sc_alice = \<lparr>pw_name = ''alice'', pw_uid = 1000, pw_gid = 1000, pw_dir = ''/home/alice'', pw_shell = ''/bin/bash''\<rparr>"

definition sc_done :: command_result where
  "sc_done = \<lparr>cm_returncode = 0, cm_stdout = [], cm_stderr = []\<rparr>"

definition sc_run :: "string list \<Rightarrow> pw_entry list \<Rightarrow> (command_result \<times> pw_entry list) option" where
  "sc_run cmd pws = (if length cmd = 9 \<and> hd (drop 2 cmd) = ''useradd''
     then Some (sc_done, pws @ [\<lparr>pw_name = last cmd, pw_uid = 1001, pw_gid = 1001, pw_dir = hd (drop 7 cmd), pw_shell = hd (drop 5 cmd)\<rparr>])
     else if hd (drop 2 cmd) = ''userdel'' then Some (sc_done, filter (\<lambda>e. pw_name e \<noteq> last cmd) pws)
     else Some (sc_done\<lparr>cm_returncode := 1\<rparr>, pws))"

definition sc_account_env :: account_env where
  "sc_account_env = \<lparr>av_tools = \<lparr>ot_useradd = ''useradd'', ot_userdel = ''userdel'', ot_run = sc_run\<rparr>, av_verify = (\<lambda>_ _. Inr sc_done),
     av_sig_file = ''sig'', av_pam = (\<lambda>_ _. PamAccepted), av_text = (\<lambda>_. []), av_mock = False\<rparr>"

definition sc_agent_host :: agent_host where
  "sc_agent_host = \<lparr>ah_capabilities = Map.empty, ah_users = Map.empty, ah_files = Map.empty\<rparr>"

definition sc_bob :: useradd_request where
  "sc_bob = \<lparr>uq_linux_username = ''bob'', uq_uid = None, uq_gid = None, uq_home_directory = None, uq_default_shell = None\<rparr>"

definition sc_new_bob :: pw_entry where
  "sc_new_bob = \<lparr>pw_name = ''bob'', pw_uid = 1001, pw_gid = 1001, pw_dir = ''/home/bob'', pw_shell = ''/bin/bash''\<rparr>"

lemmas sc_host_defs = sc_root_def sc_alice_def sc_account_env_def sc_agent_host_def sc_bob_def sc_run_def sc_done_def sc_new_bob_def

lemma sc_add_bob: "useradd (av_tools sc_account_env) False sc_agent_host sc_bob [sc_root, sc_alice]
    = (Inr (result_from_info sc_new_bob), [useradd_command (av_tools sc_account_env) sc_bob], [sc_root, sc_alice, sc_new_bob])"
  by (simp add: useradd_def account_gate_def capability_enabled_def useradd_request_ok_def given_ok_def username_ok_def name_start_def name_rest_def
    getpwnam_def useradd_command_def wanted_shell_def wanted_home_def text_or_def sc_host_defs)

lemma sc_handle_bob: "handle_account_request sc_account_env sc_agent_host (UseraddRequest sc_bob) [sc_root, sc_alice]
    = (Inr (useradd_payload sc_account_env (result_from_info sc_new_bob)), [useradd_command (av_tools sc_account_env) sc_bob], [sc_root, sc_alice, sc_new_bob])"
proof -
  have "\<not> av_mock sc_account_env" by (simp add: sc_account_env_def)
  then show ?thesis by (simp add: handle_account_request_def sc_add_bob)
qed

theorem account_commands_are_closed_witness:
  "\<exists>cmd. fst (snd (handle_account_request sc_account_env sc_agent_host (UseraddRequest sc_bob) [sc_root, sc_alice])) = [cmd]
     \<and> (\<forall>a \<in> set cmd. a \<in> fixed_words (av_tools sc_account_env) \<or> plain a)"
  using account_commands_are_closed[OF sc_handle_bob] unfolding sc_handle_bob by simp

section \<open>Accounts\<close>

text \<open>
  C38. When \<open>useradd\<close> is answered with ok, whatever the command did: the account exists, and the fields the backend stores are
  those the account has. An account that existed was left alone and no command was started; otherwise the one command that was
  started is the one for this request, and it ended with code 0. If the home of the account is the one of its name, the
  key handlers accept it. Asking again gives the same answer and starts nothing.
\<close>

theorem new_account_is_reported:
  assumes "\<not> av_mock env"
    and "handle_account_request env h (UseraddRequest q) pws = (Inr pl, cs, pws')" and "rpc_get pl ''ok'' JNull = JBool True"
  shows "\<exists>e. getpwnam (uq_linux_username q) pws' = Some e
    \<and> (\<exists>pl'. onboard_rpc (RpcReturned pl) = Some (True, pl') \<and> useradd_pa pl' p = like_host e p)
    \<and> (if getpwnam (uq_linux_username q) pws = None
       then cs = [useradd_command (av_tools env) q]
         \<and> (\<exists>c. ot_run (av_tools env) (useradd_command (av_tools env) q) pws = Some (c, pws') \<and> cm_returncode c = 0)
       else pws' = pws \<and> cs = [])
    \<and> (pw_dir e = ''/home/'' @ uq_linux_username q \<longrightarrow>
        (\<exists>d f. map_option authorized_key_paths (key_users pws' (uq_linux_username q)) = Some (Inr (d, f))))
    \<and> handle_account_request env h (UseraddRequest q) pws' = (Inr pl, [], pws')"
proof -
  have inr: "\<exists>r. x = Inr r \<and> pl = useradd_payload env r" if "map_sum id (useradd_payload env) x = (Inr pl :: account_error + payload)" for x
    using that by (cases x) auto
  from assms(1,2) inr obtain r where u: "useradd (av_tools env) False h q pws = (Inr r, cs, pws')" and pl: "pl = useradd_payload env r"
    by (fastforce simp: handle_account_request_def split: prod.splits)
  from assms(3) pl have ok: "ur_ok r" by (simp add: useradd_payload_def rpc_get_def)
  from u have gate: "account_gate USERADD_CAPABILITY_KEY h = Inr ()" and q: "useradd_request_ok q"
    by (auto simp: useradd_def split: sum.splits if_splits)
  have again: "handle_account_request env h (UseraddRequest q) pws' = (Inr pl, [], pws')"
    if "getpwnam (uq_linux_username q) pws' = Some e" "r = result_from_info e" for e
    using that gate q assms(1) pl by (simp add: handle_account_request_def useradd_def)
  have read: "\<exists>pl'. onboard_rpc (RpcReturned pl) = Some (True, pl') \<and> useradd_pa pl' p = like_host e p" if "r = result_from_info e" for e
    using answer_read[of env e] that pl by (simp add: onboard_rpc_def)
  have home: "\<exists>d f. map_option authorized_key_paths (key_users pws' (uq_linux_username q)) = Some (Inr (d, f))"
    if "getpwnam (uq_linux_username q) pws' = Some e" "pw_dir e = ''/home/'' @ uq_linux_username q" for e
    using default_home_accepted[of "uq_linux_username q" e "pw_gid e"] that q by (simp add: key_users_def useradd_request_ok_def)
  from u ok show ?thesis
  proof (cases rule: useradd_ok_cases)
    case (known e)
    with again[of e] read[of e] home[of e] show ?thesis by (intro exI[of _ e]) simp
  next
    case (made e c)
    with again[of e] read[of e] home[of e] show ?thesis by (intro exI[of _ e]) simp
  qed
qed

theorem new_account_is_reported_witness:
  "\<exists>pl pl' pws'. handle_account_request sc_account_env sc_agent_host (UseraddRequest sc_bob) [sc_root, sc_alice]
      = (Inr pl, [useradd_command (av_tools sc_account_env) sc_bob], pws')
    \<and> onboard_rpc (RpcReturned pl) = Some (True, pl') \<and> useradd_pa pl' (sc_pa 2) = like_host sc_new_bob (sc_pa 2)"
proof -
  let ?pl = "useradd_payload sc_account_env (result_from_info sc_new_bob)"
  have ok: "rpc_get ?pl ''ok'' JNull = JBool True" by (simp add: useradd_payload_def rpc_get_def)
  have real: "\<not> av_mock sc_account_env" by (simp add: sc_account_env_def)
  have e: "getpwnam (uq_linux_username sc_bob) [sc_root, sc_alice, sc_new_bob] = Some sc_new_bob" by (simp add: getpwnam_def sc_host_defs)
  from new_account_is_reported[OF real sc_handle_bob ok, of "sc_pa 2"] e sc_handle_bob show ?thesis by auto
qed

text \<open>A system account that exists is taken for the one that was to be created, and one can be deleted: only numbers that are asked for are checked.\<close>

theorem root_is_adopted:
  "useradd (av_tools sc_account_env) False sc_agent_host (sc_bob\<lparr>uq_linux_username := ''root''\<rparr>) [sc_root, sc_alice]
     = (Inr (result_from_info sc_root), [], [sc_root, sc_alice])
   \<and> snd (snd (userdel (av_tools sc_account_env) False sc_agent_host ''root'' True [sc_root, sc_alice])) = [sc_alice]"
  by (simp add: useradd_def userdel_def userdel_command_def account_gate_def capability_enabled_def useradd_request_ok_def given_ok_def username_ok_def
    name_start_def name_rest_def getpwnam_def sc_host_defs)

section \<open>Scans\<close>





text \<open>
  The scan of a host that waits for its approval is dropped by the backend and remembered as sent by the agent; until the host
  changes or connects again, nothing is sent after the approval either.
\<close>

theorem dropped_scan_is_not_repeated:
  assumes "\<not> is_server_approved (open_session (bk_db b) now) (cx_server_id c)"
  shows "case send_account_scan True (Some r) True snap of (frame, snap') \<Rightarrow> frame = Some r
    \<and> handle_frame coll now c (AccountScanFrame (sr_entries r)) b = (True, b)
    \<and> send_account_scan False (Some r) True snap' = (None, snap')"
  using assms by (simp add: send_account_scan_def handle_frame_def)

end
