(* ===== verification/Usage.thy ===== *)
theory Usage
  imports Policy_Service "HOL-Library.Char_ord" "HOL-Library.List_Lexorder"
begin

text \<open>
  What the platform reports: \<open>services/usage_service.py\<close>, \<open>api/v1/usage.py\<close>, \<open>api/v1/gpus.py\<close>, \<open>api/v1/lab_overview.py\<close> and the
  reservation page of \<open>api/v1/users.py\<close>. Everything here reads. Seconds are counted in integers, as \<open>TIMESTAMPDIFF\<close> does; what
  the database makes of \<open>SUM(..) / 3600.0\<close> is a parameter (a DECIMAL), which Python turns into a float: \<^const>\<open>fl\<close>. Rows
  that a query does not order come in the order of their table. Times count from the Unix epoch.
\<close>

section \<open>Counting seconds\<close>

text \<open>\<open>TIMESTAMPDIFF(SECOND, a, b)\<close> drops the fraction, towards zero.\<close>

definition timestampdiff :: "int \<Rightarrow> int \<Rightarrow> int" where
  "timestampdiff a b = (if a \<le> b then (b - a) div 1000000 else - ((a - b) div 1000000))"

record usage_env =
  ug_hours :: "int \<Rightarrow> rat"

definition counted_status :: "res_status \<Rightarrow> bool" where
  "counted_status st \<longleftrightarrow> st = Active \<or> st = Completed"

definition touches :: "int \<Rightarrow> int \<Rightarrow> reservation \<Rightarrow> bool" where
  "touches ws we r \<longleftrightarrow> r_start_at r < we \<and> ws < r_end_at r"

definition used_seconds :: "int \<Rightarrow> int \<Rightarrow> int \<Rightarrow> reservation \<Rightarrow> int" where
  "used_seconds ws we now r = timestampdiff (max (r_start_at r) ws) (min (min (r_end_at r) now) we)"

definition sum_seconds :: "int \<Rightarrow> int \<Rightarrow> int \<Rightarrow> reservation list \<Rightarrow> int" where
  "sum_seconds ws we now rs = sum_list (map (used_seconds ws we now) rs)"

definition sql_hours :: "usage_env \<Rightarrow> int \<Rightarrow> int \<Rightarrow> int \<Rightarrow> reservation list \<Rightarrow> rat" where
  "sql_hours env ws we now rs = ug_hours env (sum_seconds ws we now rs)"

definition counted_rows :: "(reservation \<Rightarrow> bool) \<Rightarrow> int \<Rightarrow> int \<Rightarrow> session \<Rightarrow> reservation list" where
  "counted_rows P ws we s = filter (\<lambda>r. P r \<and> counted_status (r_status r) \<and> touches ws we r) (reservations s)"

text \<open>\<open>GROUP BY\<close>.\<close>

definition group_by :: "('a \<Rightarrow> 'k) \<Rightarrow> 'a list \<Rightarrow> ('k \<times> 'a list) list" where
  "group_by f xs = map (\<lambda>k. (k, filter (\<lambda>x. f x = k) xs)) (remdups (map f xs))"

text \<open>\<open>round(x, n)\<close> of a float.\<close>

definition py_round :: "nat \<Rightarrow> rat \<Rightarrow> rat" where
  "py_round n x = fl (of_int (half_even (x * 10 ^ n)) / 10 ^ n)"

section \<open>Months\<close>

definition is_digit_char :: "char \<Rightarrow> bool" where
  "is_digit_char c \<longleftrightarrow> 48 \<le> (of_char c :: nat) \<and> (of_char c :: nat) \<le> 57"

definition digits_value :: "string \<Rightarrow> int" where
  "digits_value s = foldl (\<lambda>n c. 10 * n + (of_char c - 48)) 0 s"

text \<open>The pattern of the endpoint; \<open>match\<close> with a dollar lets a final newline pass. The year and the month.\<close>

definition parse_month :: "string \<Rightarrow> (int \<times> int) option" where
  "parse_month m = (let t = (if m \<noteq> [] \<and> last m = CHR 10 then butlast m else m); y = take 4 t; mm = drop 5 t in
     if length t = 7 \<and> list_all is_digit_char y \<and> t ! 4 = CHR ''-'' \<and> list_all is_digit_char mm
       \<and> 1 \<le> digits_value mm \<and> digits_value mm \<le> 12
     then Some (digits_value y, digits_value mm) else None)"

definition is_leap :: "int \<Rightarrow> bool" where
  "is_leap y \<longleftrightarrow> y mod 4 = 0 \<and> (y mod 100 \<noteq> 0 \<or> y mod 400 = 0)"

definition month_days :: "int \<Rightarrow> int \<Rightarrow> int" where
  "month_days y m = (if m = 2 then (if is_leap y then 29 else 28) else if m \<in> {4, 6, 9, 11} then 30 else 31)"

definition days_before_month :: "int \<Rightarrow> int \<Rightarrow> int" where
  "days_before_month y m = sum_list (map (month_days y) [1..m - 1])"

definition days_before_year :: "int \<Rightarrow> int" where
  "days_before_year y = (let p = y - 1 in p * 365 + p div 4 - p div 100 + p div 400)"

text \<open>\<open>datetime(y, m, 1, tzinfo=UTC)\<close>, which raises outside the years 1 to 9999.\<close>

definition month_start :: "int \<Rightarrow> int \<Rightarrow> int option" where
  "month_start y m = (if 1 \<le> y \<and> y \<le> 9999
     then Some ((days_before_year y + days_before_month y m - 719162) * 86400000000) else None)"

definition month_boundaries :: "int \<Rightarrow> int \<Rightarrow> (int \<times> int) option" where
  "month_boundaries y m = Option.bind (month_start y m) (\<lambda>a.
     map_option (Pair a) (if m = 12 then month_start (y + 1) 1 else month_start y (m + 1)))"

section \<open>The month of a user\<close>

record server_hours =
  sh_server_id :: int
  sh_hostname :: string
  sh_hours :: rat

record pa_hours =
  ph_pa_id :: int
  ph_linux_username :: string
  ph_hostname :: string
  ph_hours :: rat

record monthly =
  mu_gpu_hours_used :: rat
  mu_completion_rate :: rat
  mu_reservation_count :: nat
  mu_by_server :: "server_hours list"
  mu_by_pa :: "pa_hours list"
  mu_alerts_received :: nat
  mu_compliance_violations :: nat

definition server_of :: "session \<Rightarrow> reservation \<Rightarrow> (int \<times> string) option" where
  "server_of s r = map_option (\<lambda>v. (srv_id v, srv_hostname v)) (d_servers (s_db s) (r_server_id r))"

definition pa_of :: "session \<Rightarrow> reservation \<Rightarrow> (int \<times> string \<times> string) option" where
  "pa_of s r = Option.bind (d_links (s_db s) (r_account_link_id r)) (\<lambda>l. Option.bind (d_pas (s_db s) (al_physical_account_id l)) (\<lambda>p.
     map_option (\<lambda>v. (pa_id p, pa_linux_username p, srv_hostname v)) (d_servers (s_db s) (r_server_id r))))"

text \<open>A join with a table that gives each row one group at most, and the groups.\<close>

definition joined_groups :: "(reservation \<Rightarrow> 'k option) \<Rightarrow> reservation list \<Rightarrow> ('k \<times> reservation list) list" where
  "joined_groups f rs = map (\<lambda>(k, xs). (k, map snd xs)) (group_by fst (List.map_filter (\<lambda>r. map_option (\<lambda>k. (k, r)) (f r)) rs))"

definition user_rows_in :: "int \<Rightarrow> int \<Rightarrow> int \<Rightarrow> session \<Rightarrow> reservation list" where
  "user_rows_in uid ws we s = filter (\<lambda>r. r_user_id r = uid \<and> touches ws we r) (reservations s)"

definition completion_rate :: "reservation list \<Rightarrow> rat" where
  "completion_rate rs = (let n = (\<lambda>st. length (filter (\<lambda>r. r_status r = st) rs)); terminal = n Completed + n Failed + n Cancelled in
     if 0 < terminal then fl (of_nat (n Completed) / of_nat terminal) else 0)"

definition governance_counts :: "int \<Rightarrow> int \<Rightarrow> int \<Rightarrow> session \<Rightarrow> nat \<times> nat" where
  "governance_counts uid a b s = (let ns = filter (\<lambda>n. nt_recipient_user_id n = uid \<and> a \<le> nt_created_at n \<and> nt_created_at n < b) (d_notifications (s_db s)) in
     (length (filter (\<lambda>n. nt_severity n = Warn \<or> nt_severity n = Error) ns), length (filter (\<lambda>n. prefix ''compliance.'' (nt_type n)) ns)))"

definition monthly_usage :: "usage_env \<Rightarrow> int \<Rightarrow> int \<Rightarrow> int \<Rightarrow> session \<Rightarrow> monthly" where
  "monthly_usage env uid a b s =
    (let now = s_clock s; rows = counted_rows (\<lambda>r. r_user_id r = uid) a b s; h = (\<lambda>rs. fl (sql_hours env a b now rs));
         (alerts, compliance) = governance_counts uid a b s
     in \<lparr>mu_gpu_hours_used = py_round 2 (h rows), mu_completion_rate = py_round 4 (completion_rate (user_rows_in uid a b s)),
         mu_reservation_count = length (user_rows_in uid a b s),
         mu_by_server = map (\<lambda>((i, n), rs). \<lparr>sh_server_id = i, sh_hostname = n, sh_hours = h rs\<rparr>) (joined_groups (server_of s) rows),
         mu_by_pa = map (\<lambda>((i, n, host), rs). \<lparr>ph_pa_id = i, ph_linux_username = n, ph_hostname = host, ph_hours = h rs\<rparr>) (joined_groups (pa_of s) rows),
         mu_alerts_received = alerts, mu_compliance_violations = compliance\<rparr>)"

definition my_usage_ep :: "usage_env \<Rightarrow> user \<Rightarrow> string \<Rightarrow> session \<Rightarrow> monthly outcome" where
  "my_usage_ep env u month s = (case parse_month month of
      None \<Rightarrow> Inl (http 422 ''INVALID_MONTH'')
    | Some (y, m) \<Rightarrow> (case month_boundaries y m of None \<Rightarrow> Inl Uncaught | Some (a, b) \<Rightarrow> Inr (monthly_usage env (u_id u) a b s)))"

section \<open>Windows\<close>

definition gpu_hours_for_user_in_window :: "usage_env \<Rightarrow> int \<Rightarrow> int \<Rightarrow> int \<Rightarrow> session \<Rightarrow> rat" where
  "gpu_hours_for_user_in_window env uid ws we s = fl (sql_hours env ws we (s_clock s) (counted_rows (\<lambda>r. r_user_id r = uid) ws we s))"

record gpu_ranking =
  gk_gpu_id :: int
  gk_gpu_index :: int
  gk_server_id :: int
  gk_server_hostname :: string
  gk_hours :: rat

definition gpu_of :: "session \<Rightarrow> reservation \<Rightarrow> (int \<times> int \<times> int \<times> string) option" where
  "gpu_of s r = Option.bind (Option.bind (r_gpu_id r) (d_gpus (s_db s))) (\<lambda>g.
     map_option (\<lambda>v. (gpu_id g, gpu_index g, srv_id v, srv_hostname v)) (d_servers (s_db s) (gpu_server_id g)))"

definition gpu_ranking_for_user_in_window :: "usage_env \<Rightarrow> int \<Rightarrow> int \<Rightarrow> int \<Rightarrow> nat \<Rightarrow> session \<Rightarrow> gpu_ranking list" where
  "gpu_ranking_for_user_in_window env uid ws we limit s =
    (let h = sql_hours env ws we (s_clock s) in
     map (\<lambda>((g, ix, v, host), rs). \<lparr>gk_gpu_id = g, gk_gpu_index = ix, gk_server_id = v, gk_server_hostname = host, gk_hours = py_round 2 (fl (h rs))\<rparr>)
       (take limit (sort_key (\<lambda>x. - h (snd x)) (joined_groups (gpu_of s) (counted_rows (\<lambda>r. r_user_id r = uid) ws we s)))))"

record window_row =
  wr_reservation :: reservation
  wr_gpu_index :: "int option"
  wr_server_hostname :: string
  wr_hours :: rat

text \<open>An inner join with the server, an outer one with the GPU; the newest first.\<close>

definition user_reservations_window :: "usage_env \<Rightarrow> int \<Rightarrow> int \<Rightarrow> int \<Rightarrow> session \<Rightarrow> window_row list" where
  "user_reservations_window env uid ws we s =
    List.map_filter (\<lambda>r. map_option (\<lambda>v. \<lparr>wr_reservation = r,
        wr_gpu_index = map_option gpu_index (Option.bind (r_gpu_id r) (d_gpus (s_db s))), wr_server_hostname = srv_hostname v,
        wr_hours = py_round 2 (fl (ug_hours env (used_seconds ws we (s_clock s) r)))\<rparr>) (d_servers (s_db s) (r_server_id r)))
      (sort_key (\<lambda>r. - r_start_at r) (user_rows_in uid ws we s))"

definition days :: "int \<Rightarrow> int" where
  "days n = seconds (n * 86400)"

record user_page =
  up_upcoming :: "window_row list"
  up_last_30d :: "window_row list"
  up_gpu_hours_30d :: rat
  up_by_server_30d :: "gpu_ranking list"

definition get_user_reservations_ep :: "usage_env \<Rightarrow> user \<Rightarrow> int \<Rightarrow> session \<Rightarrow> user_page outcome" where
  "get_user_reservations_ep env u uid s = rbind (require_lab_admin u) (\<lambda>_. (case get_user s uid (u_lab_id u) of
      Inl _ \<Rightarrow> Inl (http 404 ''user_not_found'')
    | Inr _ \<Rightarrow> (let now = s_clock s; past = now - days 30 in
        Inr \<lparr>up_upcoming = user_reservations_window env uid now (now + days 60) s,
          up_last_30d = user_reservations_window env uid past now s,
          up_gpu_hours_30d = py_round 2 (gpu_hours_for_user_in_window env uid past now s),
          up_by_server_30d = gpu_ranking_for_user_in_window env uid past now 10 s\<rparr>)))"

end
