(* ===== verification/Overview.thy ===== *)
theory Overview
  imports Usage
begin

text \<open>
  What administrators see: the endpoints of \<open>api/v1/gpus.py\<close> and \<open>api/v1/lab_overview.py\<close>. They read only; the conventions are those of
  \<open>Usage\<close>. Joins with a user or a server whose row is missing drop the row.
\<close>

section \<open>One GPU\<close>

definition load_gpu_or_404 :: "session \<Rightarrow> int \<Rightarrow> int \<Rightarrow> (gpu \<times> server) outcome" where
  "load_gpu_or_404 s i lab = (case d_gpus (s_db s) i of
      None \<Rightarrow> Inl (http 404 ''gpu_not_found'')
    | Some g \<Rightarrow> (case d_servers (s_db s) (gpu_server_id g) of
        None \<Rightarrow> Inl (http 404 ''gpu_not_found'')
      | Some v \<Rightarrow> if srv_lab_id v = lab then Inr (g, v) else Inl (http 404 ''gpu_not_found'')))"

definition gpu_gate :: "user \<Rightarrow> int \<Rightarrow> session \<Rightarrow> (gpu \<times> server) outcome" where
  "gpu_gate u i s = rbind (load_gpu_or_404 s i (u_lab_id u)) (\<lambda>(g, v). rbind (assert_server_admin u (srv_id v) s) (\<lambda>_. Inr (g, v)))"

datatype usage_range = Today | Days7 | Days30

definition range_window :: "usage_range \<Rightarrow> int \<Rightarrow> int \<times> int" where
  "range_window rg now = (case rg of
      Today \<Rightarrow> (let start = now - now mod days 1 in (start, start + days 1))
    | Days7 \<Rightarrow> (now - days 7, now)
    | Days30 \<Rightarrow> (now - days 30, now))"

definition first_script_line :: "ustring option \<Rightarrow> ustring option" where
  "first_script_line script = (case script of
      None \<Rightarrow> None
    | Some t \<Rightarrow> (let stripped = ustrip t in if stripped = [] then None else Some (take 120 (hd (splitlines stripped)))))"

record user_hours =
  uh_user_id :: int
  uh_username :: string
  uh_hours :: rat

record gpu_usage_now =
  gn_reservation_id :: int
  gn_user_id :: int
  gn_username :: string
  gn_started_at :: int
  gn_ends_at :: int
  gn_minutes_in :: int

record gpu_usage =
  gu_window_start :: int
  gu_window_end :: int
  gu_total_hours :: rat
  gu_busy_pct :: rat
  gu_distinct_users :: nat
  gu_by_user :: "user_hours list"
  gu_now :: "gpu_usage_now option"

definition user_of :: "session \<Rightarrow> reservation \<Rightarrow> (int \<times> string) option" where
  "user_of s r = map_option (\<lambda>u. (u_id u, u_username u)) (d_users (s_db s) (r_user_id r))"

definition hours_ranking :: "(reservation list \<Rightarrow> rat) \<Rightarrow> ((int \<times> string) \<times> reservation list) list \<Rightarrow> user_hours list" where
  "hours_ranking h gs = map (\<lambda>((i, n), rs). \<lparr>uh_user_id = i, uh_username = n, uh_hours = py_round 2 (fl (h rs))\<rparr>) (sort_key (\<lambda>x. - h (snd x)) gs)"

text \<open>The reservations with their users, for the queries that take both.\<close>

definition with_user :: "session \<Rightarrow> reservation list \<Rightarrow> (reservation \<times> int \<times> string) list" where
  "with_user s rs = List.map_filter (\<lambda>r. map_option (Pair r) (user_of s r)) rs"

definition usage_now :: "int \<Rightarrow> session \<Rightarrow> gpu_usage_now option" where
  "usage_now i s = (let now = s_clock s in
     case with_user s (sort_key r_start_at (filter (\<lambda>r. r_gpu_id r = Some i \<and> r_status r = Active \<and> r_start_at r \<le> now \<and> now < r_end_at r) (reservations s))) of
       [] \<Rightarrow> None
     | (r, uid, name) # _ \<Rightarrow> Some \<lparr>gn_reservation_id = r_id r, gn_user_id = uid, gn_username = name, gn_started_at = r_start_at r,
         gn_ends_at = r_end_at r, gn_minutes_in = max ((now - r_start_at r) div 60000000) 0\<rparr>)"

definition busy_pct :: "rat \<Rightarrow> int \<Rightarrow> rat" where
  "busy_pct used window = min (py_round 1 (fl (fl (used * 100) / max (fl (of_int window / 3600000000)) 1))) 100"

definition gpu_usage_ep :: "usage_env \<Rightarrow> user \<Rightarrow> int \<Rightarrow> usage_range \<Rightarrow> session \<Rightarrow> gpu_usage outcome" where
  "gpu_usage_ep env u i rg s = rbind (gpu_gate u i s) (\<lambda>_.
     let now = s_clock s; (ws, we) = range_window rg now; rows = counted_rows (\<lambda>r. r_gpu_id r = Some i) ws we s;
         h = sql_hours env ws we now; used = fl (h rows); by_user = hours_ranking h (joined_groups (user_of s) rows)
     in Inr \<lparr>gu_window_start = ws, gu_window_end = we, gu_total_hours = py_round 2 used, gu_busy_pct = busy_pct used (we - ws),
       gu_distinct_users = length (filter (\<lambda>x. 0 < uh_hours x) by_user), gu_by_user = by_user, gu_now = usage_now i s\<rparr>)"

definition gpu_timeline_ep :: "user \<Rightarrow> int \<Rightarrow> int \<Rightarrow> session \<Rightarrow> (reservation \<times> int \<times> string) list outcome" where
  "gpu_timeline_ep u i hours_ahead s = rbind (gpu_gate u i s) (\<lambda>_. let now = s_clock s; horizon = now + seconds (hours_ahead * 3600) in
     Inr (with_user s (sort_key r_start_at (filter (\<lambda>r. r_gpu_id r = Some i \<and> (r_status r = Scheduled \<or> r_status r = Active)
       \<and> r_start_at r < horizon \<and> now < r_end_at r) (reservations s)))))"

text \<open>Scripts that started come first, the latest start first; then by the start of the reservation.\<close>

definition script_order :: "reservation list \<Rightarrow> reservation list" where
  "script_order rs = (let byst = sort_key (\<lambda>r. - r_start_at r) rs in
     sort_key (\<lambda>r. - the (r_script_started_at r)) (filter (\<lambda>r. r_script_started_at r \<noteq> None) byst) @ filter (\<lambda>r. r_script_started_at r = None) byst)"

definition gpu_recent_scripts_ep :: "user \<Rightarrow> int \<Rightarrow> nat \<Rightarrow> session \<Rightarrow> ((reservation \<times> int \<times> string) \<times> ustring option) list outcome" where
  "gpu_recent_scripts_ep u i limit s = rbind (gpu_gate u i s) (\<lambda>_.
     Inr (map (\<lambda>x. (x, first_script_line (r_script (fst x))))
       (take limit (with_user s (script_order (filter (\<lambda>r. r_gpu_id r = Some i \<and> r_script r \<noteq> None) (reservations s)))))))"

section \<open>The lab\<close>

record security_key =
  sy_key :: ssh_public_key
  sy_username :: string
  sy_hostnames :: "string list"

record security_grant =
  sg_user_id :: int
  sg_username :: string
  sg_hostnames :: "string list"

record security_map =
  sm_total_active_keys :: nat
  sm_total_active_grants :: nat
  sm_keys :: "security_key list"
  sm_grants :: "security_grant list"

text \<open>The hosts of the accounts on which a key has an active entry.\<close>

definition key_hosts :: "db \<Rightarrow> int \<Rightarrow> string list" where
  "key_hosts d kid = List.map_filter (\<lambda>e. Option.bind (d_pas d (ke_physical_account_id e)) (\<lambda>p. map_option srv_hostname (d_servers d (pa_server_id p))))
     (filter (\<lambda>e. ke_ssh_public_key_id e = kid \<and> ke_is_active e) (d_key_entries d))"

definition lab_keys :: "db \<Rightarrow> int \<Rightarrow> security_key list" where
  "lab_keys d lab = List.map_filter (\<lambda>k. Option.bind (d_users d (sk_user_id k)) (\<lambda>u. if u_lab_id u = lab
       then Some \<lparr>sy_key = k, sy_username = u_username u, sy_hostnames = sort (remdups (key_hosts d (sk_id k)))\<rparr> else None))
     (sort_key (\<lambda>k. - sk_id k) (filter sk_is_active (d_ssh_keys d)))"

text \<open>The grants of the lab as rows of user, name and host, ordered by user and host, and the rows of one user together.\<close>

definition grant_rows :: "db \<Rightarrow> int \<Rightarrow> ((int \<times> string) \<times> string) list" where
  "grant_rows d lab = sort_key (\<lambda>x. fst (fst x)) (sort_key snd (List.map_filter (\<lambda>g.
     Option.bind (d_users d (gr_user_id g)) (\<lambda>u. Option.bind (d_servers d (gr_server_id g)) (\<lambda>v.
       if srv_lab_id v = lab \<and> u_lab_id u = lab then Some ((u_id u, u_username u), srv_hostname v) else None)))
     (filter gr_is_active (d_grants d))))"

definition lab_grants :: "db \<Rightarrow> int \<Rightarrow> security_grant list" where
  "lab_grants d lab = map (\<lambda>((i, n), xs). \<lparr>sg_user_id = i, sg_username = n, sg_hostnames = map snd xs\<rparr>) (group_by fst (grant_rows d lab))"

text \<open>Python sorts by the negated count, then by the user; the sort is stable.\<close>

definition lab_security_map_ep :: "user \<Rightarrow> session \<Rightarrow> security_map outcome" where
  "lab_security_map_ep u s = rbind (require_lab_admin u) (\<lambda>_.
     let keys = sort_key (\<lambda>k. - int (length (sy_hostnames k))) (sort_key (\<lambda>k. sk_user_id (sy_key k)) (lab_keys (s_db s) (u_lab_id u)));
         grants = sort_key (\<lambda>g. - int (length (sg_hostnames g))) (sort_key sg_user_id (lab_grants (s_db s) (u_lab_id u)))
     in Inr \<lparr>sm_total_active_keys = length keys, sm_total_active_grants = sum_list (map (\<lambda>g. length (sg_hostnames g)) grants),
       sm_keys = keys, sm_grants = grants\<rparr>)"

record lab_usage =
  lg_window_start :: int
  lg_window_end :: int
  lg_total_hours :: rat
  lg_items :: "user_hours list"

definition lab_user_of :: "session \<Rightarrow> int \<Rightarrow> reservation \<Rightarrow> (int \<times> string) option" where
  "lab_user_of s lab r = Option.bind (d_users (s_db s) (r_user_id r)) (\<lambda>u. if u_lab_id u = lab then Some (u_id u, u_username u) else None)"

definition lab_usage_7d_ep :: "usage_env \<Rightarrow> user \<Rightarrow> session \<Rightarrow> lab_usage outcome" where
  "lab_usage_7d_ep env u s = rbind (require_lab_admin u) (\<lambda>_.
     let now = s_clock s; ws = now - days 7; h = sql_hours env ws now now;
         items = hours_ranking h (joined_groups (lab_user_of s (u_lab_id u)) (counted_rows (\<lambda>_. True) ws now s))
     in Inr \<lparr>lg_window_start = ws, lg_window_end = now, lg_total_hours = py_round 2 (foldl (\<lambda>x i. fl (x + uh_hours i)) 0 items), lg_items = items\<rparr>)"

record onboarding =
  ob_servers_count :: nat
  ob_online_servers_count :: nat
  ob_users_count :: nat
  ob_links_count :: nat
  ob_reservations_count :: nat
  ob_all_done :: bool

definition in_lab_server :: "db \<Rightarrow> int \<Rightarrow> int \<Rightarrow> bool" where
  "in_lab_server d lab i = (case d_servers d i of None \<Rightarrow> False | Some v \<Rightarrow> srv_lab_id v = lab)"

definition onboarding_status_ep :: "user \<Rightarrow> session \<Rightarrow> onboarding outcome" where
  "onboarding_status_ep u s = rbind (require_lab_admin u) (\<lambda>_.
     let d = s_db s; lab = u_lab_id u;
         servers = filter (\<lambda>v. srv_lab_id v = lab \<and> srv_is_active v) (server_rows d);
         online = filter (\<lambda>v. srv_status v = Online) servers;
         users = filter (\<lambda>x. u_lab_id x = lab \<and> u_is_active x) (user_rows d);
         links = filter (\<lambda>l. al_is_active l \<and> (case d_pas d (al_physical_account_id l) of None \<Rightarrow> False | Some p \<Rightarrow> in_lab_server d lab (pa_server_id p))) (link_rows d);
         res = filter (\<lambda>r. in_lab_server d lab (r_server_id r)) (reservations s)
     in Inr \<lparr>ob_servers_count = length servers, ob_online_servers_count = length online, ob_users_count = length users, ob_links_count = length links,
       ob_reservations_count = length res,
       ob_all_done = (servers \<noteq> [] \<and> online \<noteq> [] \<and> 1 < length users \<and> links \<noteq> [] \<and> res \<noteq> [])\<rparr>)"

end
