(* ===== verification/Usage_Props.thy ===== *)
theory Usage_Props
  imports Overview Scenario
begin

text \<open>
  Counting: the parts of a breakdown add up to the whole, and reservations that do not overlap use no more than the window. Then what
  the gates of the reports let through.
\<close>

section \<open>Groups\<close>

lemma group_sums:
  "finite K \<Longrightarrow> f ` set xs \<subseteq> K \<Longrightarrow> (\<Sum>k \<in> K. sum_list (map g (filter (\<lambda>x. f x = k) xs))) = (sum_list (map g xs) :: int)"
proof (induction xs)
  case (Cons x xs)
  have "(\<Sum>k \<in> K. sum_list (map g (filter (\<lambda>y. f y = k) (x # xs))))
      = (\<Sum>k \<in> K. (if f x = k then g x else 0) + sum_list (map g (filter (\<lambda>y. f y = k) xs)))"
    by (rule sum.cong) auto
  also have "\<dots> = g x + sum_list (map g xs)" using Cons by (simp add: sum.distrib sum.delta)
  finally show ?case by simp
qed simp

lemma group_by_sum: "sum_list (map (\<lambda>x. sum_list (map g (snd x))) (group_by f xs)) = (sum_list (map g xs) :: int)"
proof -
  have "sum_list (map (\<lambda>x. sum_list (map g (snd x))) (group_by f xs)) = (\<Sum>k \<in> set (map f xs). sum_list (map g (filter (\<lambda>x. f x = k) xs)))"
    by (simp add: group_by_def o_def sum_list_distinct_conv_sum_set)
  also have "\<dots> = sum_list (map g xs)" by (rule group_sums) simp_all
  finally show ?thesis .
qed

lemma group_by_keys: "distinct (map fst (group_by f xs))" "set (map fst (group_by f xs)) = f ` set xs"
  by (simp_all add: group_by_def o_def)

lemma map_filter_all: "\<forall>r \<in> set rs. f r \<noteq> None \<Longrightarrow> map snd (List.map_filter (\<lambda>r. map_option (\<lambda>k. (k, r)) (f r)) rs) = rs"
  by (induction rs) (auto simp: List.map_filter_simps)

lemma joined_groups_sum:
  assumes "\<forall>r \<in> set rs. f r \<noteq> None"
  shows "sum_list (map (\<lambda>x. sum_seconds ws we now (snd x)) (joined_groups f rs)) = sum_seconds ws we now rs"
proof -
  let ?ys = "List.map_filter (\<lambda>r. map_option (\<lambda>k. (k, r)) (f r)) rs"
  have "sum_list (map (\<lambda>x. sum_seconds ws we now (snd x)) (joined_groups f rs))
      = sum_list (map (\<lambda>x. sum_list (map (\<lambda>y. used_seconds ws we now (snd y)) (snd x))) (group_by fst ?ys))"
    by (simp add: joined_groups_def sum_seconds_def o_def split_def)
  also have "\<dots> = sum_list (map (used_seconds ws we now) (map snd ?ys))" by (subst group_by_sum) (simp add: o_def)
  finally show ?thesis by (simp only: map_filter_all[OF assms] sum_seconds_def)
qed

lemma joined_groups_keys: "distinct (map fst (joined_groups f rs))"
  using group_by_keys(1)[of fst "List.map_filter (\<lambda>r. map_option (\<lambda>k. (k, r)) (f r)) rs"]
  by (simp add: joined_groups_def o_def split_def)

lemma joined_groups_key: "x \<in> set (joined_groups f rs) \<Longrightarrow> \<exists>r \<in> set rs. f r = Some (fst x)"
  by (auto simp: joined_groups_def group_by_def List.map_filter_def)

lemma joined_groups_rows: "x \<in> set (joined_groups f rs) \<Longrightarrow> set (snd x) \<subseteq> set rs"
  by (auto simp: joined_groups_def group_by_def List.map_filter_def)

text \<open>Ordering the groups does not change the sum.\<close>

lemma sort_sum: "sum_list (map g (sort_key k xs)) = (sum_list (map g xs) :: int)"
proof -
  have "mset (map g (sort_key k xs)) = mset (map g xs)" by simp
  then show ?thesis by (metis sum_mset_sum_list)
qed

section \<open>Seconds of a window\<close>

text \<open>The instants of a reservation within the window, up to now.\<close>

definition instants :: "int \<Rightarrow> int \<Rightarrow> int \<Rightarrow> reservation \<Rightarrow> int set" where
  "instants ws we now r = {max (r_start_at r) ws ..< min (min (r_end_at r) now) we}"

lemma used_le: "1000000 * used_seconds ws we now r \<le> int (card (instants ws we now r))"
  by (auto simp: used_seconds_def timestampdiff_def instants_def)

lemma used_nonneg: "max (r_start_at r) ws \<le> min (min (r_end_at r) now) we \<Longrightarrow> 0 \<le> used_seconds ws we now r"
  by (simp add: used_seconds_def timestampdiff_def pos_imp_zdiv_nonneg_iff)

definition apart :: "reservation \<Rightarrow> reservation \<Rightarrow> bool" where
  "apart a b \<longleftrightarrow> r_end_at a \<le> r_start_at b \<or> r_end_at b \<le> r_start_at a"

lemma apart_instants: "apart a b \<Longrightarrow> instants ws we now a \<inter> instants ws we now b = {}"
  by (auto simp: apart_def instants_def)

lemma sum_le_card: "distinct rs \<Longrightarrow> (\<forall>a \<in> set rs. \<forall>b \<in> set rs. a \<noteq> b \<longrightarrow> apart a b) \<Longrightarrow>
    1000000 * sum_seconds ws we now rs \<le> int (card (\<Union>r \<in> set rs. instants ws we now r))"
proof (induction rs)
  case (Cons r rs)
  then have "instants ws we now r \<inter> (\<Union>r \<in> set rs. instants ws we now r) = {}"
    using apart_instants[of r _ ws we now] by (auto simp: disjoint_iff)
  then have "card (\<Union>r \<in> set (r # rs). instants ws we now r) = card (instants ws we now r) + card (\<Union>r \<in> set rs. instants ws we now r)"
    by (simp add: card_Un_disjoint instants_def)
  with Cons used_le[of ws we now r] show ?case by (simp add: sum_seconds_def algebra_simps)
qed (simp add: sum_seconds_def)

lemma sum_le_window:
  assumes "distinct rs" and "\<forall>a \<in> set rs. \<forall>b \<in> set rs. a \<noteq> b \<longrightarrow> apart a b" and "ws \<le> we"
  shows "1000000 * sum_seconds ws we now rs \<le> we - ws"
proof -
  have "card (\<Union>r \<in> set rs. instants ws we now r) \<le> card {ws ..< we}" by (rule card_mono) (auto simp: instants_def)
  with sum_le_card[OF assms(1,2), of ws we now] assms(3) show ?thesis by simp
qed

lemma sum_nonneg: "\<forall>r \<in> set rs. 0 \<le> used_seconds ws we now r \<Longrightarrow> 0 \<le> sum_seconds ws we now rs"
  unfolding sum_seconds_def by (induction rs) auto

lemma range_ok: "range_window rg now = (ws, we) \<Longrightarrow> ws \<le> now \<and> ws \<le> we \<and> now \<le> we"
proof (cases rg)
  case Today
  have d: "0 < days 1" by (simp add: days_def seconds_def)
  assume "range_window rg now = (ws, we)"
  with Today have "ws = now - now mod days 1" "we = ws + days 1" by (auto simp: range_window_def Let_def)
  with d pos_mod_bound[OF d, of now] pos_mod_sign[OF d, of now] show ?thesis by linarith
qed (auto simp: range_window_def days_def seconds_def)

lemma counted_mem: "r \<in> set (counted_rows P ws we s) \<longleftrightarrow> r \<in> set (reservations s) \<and> P r \<and> counted_status (r_status r) \<and> touches ws we r"
  by (auto simp: counted_rows_def)

lemma counted_nonneg:
  assumes "r \<in> set (counted_rows P ws we s)" and "r_start_at r \<le> now" and "ws \<le> now" and "ws \<le> we" and "r_start_at r \<le> r_end_at r"
  shows "0 \<le> used_seconds ws we now r"
  using assms by (intro used_nonneg) (auto simp: counted_mem touches_def)

section \<open>The gate of a GPU\<close>

lemma gpu_gateD: "gpu_gate u i s = Inr (g, v) \<Longrightarrow> d_gpus (s_db s) i = Some g \<and> d_servers (s_db s) (gpu_server_id g) = Some v \<and> srv_lab_id v = u_lab_id u
    \<and> (u_role u = RoleLabAdmin \<or> (\<exists>gr \<in> set (d_grants (s_db s)). gr_user_id gr = u_id u \<and> gr_is_active gr \<and> gr_server_id gr = srv_id v))"
proof -
  assume gate: "gpu_gate u i s = Inr (g, v)"
  then have l: "load_gpu_or_404 s i (u_lab_id u) = Inr (g, v)" and a: "assert_server_admin u (srv_id v) s = Inr ()"
    by (auto simp: gpu_gate_def rbind_eq_Inr)
  from a have "u_role u = RoleLabAdmin \<or> filter (\<lambda>g. gr_server_id g = srv_id v) (active_grants (s_db s) (u_id u)) \<noteq> []"
    by (auto simp: assert_server_admin_def split: if_splits list.splits)
  moreover have "\<exists>gr \<in> set (d_grants (s_db s)). gr_user_id gr = u_id u \<and> gr_is_active gr \<and> gr_server_id gr = srv_id v"
    if "filter (\<lambda>g. gr_server_id g = srv_id v) (active_grants (s_db s) (u_id u)) \<noteq> []"
    using that by (auto simp: filter_empty_conv active_grants_def)
  moreover from l have "d_gpus (s_db s) i = Some g \<and> d_servers (s_db s) (gpu_server_id g) = Some v \<and> srv_lab_id v = u_lab_id u"
    by (auto simp: load_gpu_or_404_def split: option.splits if_splits)
  ultimately show ?thesis by blast
qed

section \<open>The map of keys and grants\<close>

lemma key_hosts_iff: "h \<in> set (key_hosts d kid) \<longleftrightarrow> (\<exists>e p v. e \<in> set (d_key_entries d) \<and> ke_ssh_public_key_id e = kid \<and> ke_is_active e
    \<and> d_pas d (ke_physical_account_id e) = Some p \<and> d_servers d (pa_server_id p) = Some v \<and> srv_hostname v = h)"
  by (force simp: key_hosts_def List.map_filter_def Option.bind_eq_Some_conv)

lemma lab_keys_iff: "y \<in> set (lab_keys d lab) \<longleftrightarrow> (\<exists>k u. k \<in> set (d_ssh_keys d) \<and> sk_is_active k \<and> d_users d (sk_user_id k) = Some u \<and> u_lab_id u = lab
    \<and> y = \<lparr>sy_key = k, sy_username = u_username u, sy_hostnames = sort (remdups (key_hosts d (sk_id k)))\<rparr>)"
  by (force simp: lab_keys_def List.map_filter_def Option.bind_eq_Some_conv split: if_splits)

lemma grant_rows_iff: "((i, n), h) \<in> set (grant_rows d lab) \<longleftrightarrow> (\<exists>g u v. g \<in> set (d_grants d) \<and> gr_is_active g \<and> d_users d (gr_user_id g) = Some u
    \<and> d_servers d (gr_server_id g) = Some v \<and> srv_lab_id v = lab \<and> u_lab_id u = lab \<and> i = u_id u \<and> n = u_username u \<and> h = srv_hostname v)"
  by (force simp: grant_rows_def List.map_filter_def Option.bind_eq_Some_conv split: if_splits)

lemma lab_grants_iff: "(\<exists>g \<in> set (lab_grants d lab). sg_user_id g = i \<and> h \<in> set (sg_hostnames g)) \<longleftrightarrow> (\<exists>n. ((i, n), h) \<in> set (grant_rows d lab))"
  by (force simp: lab_grants_def group_by_def)

end
