(* ===== verification/Guarantees_Usage.thy ===== *)
theory Guarantees_Usage
  imports Usage_Props
begin

text \<open>
  What the reports guarantee: that the hours of a GPU are those of its users and fit into the window, that the breakdowns of a month add
  up, who may look, what the map of keys and grants shows; and a month that is reported with negative hours.
\<close>

section \<open>Hours of a GPU\<close>

text \<open>
  C40. When the counted reservations of a GPU do not overlap, the hours of a report come from a number of seconds that fits into its window;
  the seconds of the users in the list add up to it, every user is there once, and none is negative if no counted reservation starts in the future.
  The report is for administrators of the server of the GPU, in their own lab.
\<close>

theorem gpu_hours_fit_the_window:
  assumes "gpu_usage_ep env u i rg s = Inr x" and "db_wf (s_db s)"
    and "\<forall>r \<in> set (reservations s). d_users (s_db s) (r_user_id r) = Some (usr (r_user_id r)) \<and> u_id (usr (r_user_id r)) = r_user_id r"
    and "\<forall>a \<in> set (reservations s). \<forall>b \<in> set (reservations s). r_gpu_id a = Some i \<longrightarrow> r_gpu_id b = Some i \<longrightarrow>
      counted_status (r_status a) \<longrightarrow> counted_status (r_status b) \<longrightarrow> a \<noteq> b \<longrightarrow> apart a b"
  shows "(\<exists>used parts. gu_total_hours x = py_round 2 (fl (ug_hours env used)) \<and> 1000000 * used \<le> gu_window_end x - gu_window_start x
      \<and> map uh_hours (gu_by_user x) = map (\<lambda>p. py_round 2 (fl (ug_hours env p))) parts \<and> sum_list parts = used \<and> distinct (map uh_user_id (gu_by_user x))
      \<and> ((\<forall>r \<in> set (reservations s). r_gpu_id r = Some i \<longrightarrow> counted_status (r_status r) \<longrightarrow> r_start_at r \<le> s_clock s) \<longrightarrow> 0 \<le> used \<and> (\<forall>p \<in> set parts. 0 \<le> p)))
    \<and> (\<exists>g v. d_gpus (s_db s) i = Some g \<and> d_servers (s_db s) (gpu_server_id g) = Some v \<and> srv_lab_id v = u_lab_id u
      \<and> (u_role u = RoleLabAdmin \<or> (\<exists>gr \<in> set (d_grants (s_db s)). gr_user_id gr = u_id u \<and> gr_is_active gr \<and> gr_server_id gr = srv_id v)))"
proof -
  obtain ws we where w: "range_window rg (s_clock s) = (ws, we)" by (cases "range_window rg (s_clock s)")
  define rows where "rows = counted_rows (\<lambda>r. r_gpu_id r = Some i) ws we s"
  define gs where "gs = sort_key (\<lambda>x. - sql_hours env ws we (s_clock s) (snd x)) (joined_groups (user_of s) rows)"
  define parts where "parts = map (\<lambda>x. sum_seconds ws we (s_clock s) (snd x)) gs"
  from assms(1) obtain g v where gate: "gpu_gate u i s = Inr (g, v)"
    and x: "gu_total_hours x = py_round 2 (fl (ug_hours env (sum_seconds ws we (s_clock s) rows)))" "gu_window_start x = ws" "gu_window_end x = we"
      "gu_by_user x = hours_ranking (sql_hours env ws we (s_clock s)) (joined_groups (user_of s) rows)"
    by (auto simp: gpu_usage_ep_def w rbind_eq_Inr Let_def rows_def sql_hours_def)
  have mem: "r \<in> set rows \<Longrightarrow> r \<in> set (reservations s) \<and> r_gpu_id r = Some i \<and> counted_status (r_status r) \<and> touches ws we r" for r
    by (simp add: rows_def counted_mem)
  have hours: "map uh_hours (gu_by_user x) = map (\<lambda>p. py_round 2 (fl (ug_hours env p))) parts"
    by (simp add: x(4) hours_ranking_def parts_def gs_def sql_hours_def split_def)
  have joined: "\<forall>r \<in> set rows. user_of s r = Some (r_user_id r, u_username (usr (r_user_id r)))"
    using mem assms(3) by (auto simp: user_of_def)
  have total: "sum_list parts = sum_seconds ws we (s_clock s) rows"
    unfolding parts_def gs_def sort_sum by (rule joined_groups_sum) (use joined in auto)
  have "distinct (map (fst \<circ> fst) (joined_groups (user_of s) rows))"
  proof -
    have "snd a = u_username (usr (fst a))" if "a \<in> set (map fst (joined_groups (user_of s) rows))" for a
    proof -
      from that obtain x where x: "x \<in> set (joined_groups (user_of s) rows)" "a = fst x" by auto
      from joined_groups_key[OF x(1)] obtain r where r: "r \<in> set rows" "user_of s r = Some (fst x)" ..
      with joined have "fst x = (r_user_id r, u_username (usr (r_user_id r)))" by simp
      with x(2) show ?thesis by simp
    qed
    then have "inj_on fst (set (map fst (joined_groups (user_of s) rows)))" by (intro inj_onI prod_eqI) simp_all
    with joined_groups_keys[of "user_of s" rows] show ?thesis by (simp add: distinct_map flip: map_map)
  qed
  then have dist: "distinct (map uh_user_id (gu_by_user x))"
    by (simp add: x(4) hours_ranking_def o_def split_def distinct_map)
  have "distinct rows" using assms(2) by (simp add: rows_def counted_rows_def db_wf_def reservations_def distinct_map)
  then have fits: "1000000 * sum_seconds ws we (s_clock s) rows \<le> we - ws"
    using assms(4) mem range_ok[OF w] by (intro sum_le_window) blast+
  have nonneg: "0 \<le> sum_seconds ws we (s_clock s) rs" if
    "\<forall>r \<in> set (reservations s). r_gpu_id r = Some i \<longrightarrow> counted_status (r_status r) \<longrightarrow> r_start_at r \<le> s_clock s" "set rs \<subseteq> set rows" for rs
  proof (intro sum_nonneg ballI)
    fix r assume r: "r \<in> set rs"
    with that mem[of r] have "r_start_at r \<le> s_clock s" by blast
    moreover have "r \<in> set (d_reservations (s_db s))" using r that(2) mem[of r] by (auto simp: reservations_def)
    then have "r_start_at r \<le> r_end_at r"
      using assms(2) by (fastforce simp: db_wf_def res_row_ok_def ck_res_time_order_def)
    ultimately show "0 \<le> used_seconds ws we (s_clock s) r"
      using counted_nonneg[of r "\<lambda>r. r_gpu_id r = Some i" ws we s "s_clock s"] r that(2) range_ok[OF w] by (auto simp: rows_def)
  qed
  have "0 \<le> sum_list parts \<and> (\<forall>p \<in> set parts. 0 \<le> p)"
    if "\<forall>r \<in> set (reservations s). r_gpu_id r = Some i \<longrightarrow> counted_status (r_status r) \<longrightarrow> r_start_at r \<le> s_clock s"
    using nonneg[OF that] joined_groups_rows[of _ "user_of s" rows] total by (auto simp: parts_def gs_def)
  with hours total dist fits x gpu_gateD[OF gate] show ?thesis by (intro conjI exI[of _ "sum_list parts"] exI[of _ parts]) auto
qed

text \<open>The GPU of the scenario, with one reservation that runs and one that is over.\<close>

definition sc_usage_db :: db where
  "sc_usage_db = (sc_db [sc_res 1 1 1 0 2 Completed, sc_res 2 2 1 3 8 Active] 3)\<lparr>d_users := (\<lambda>i. Some ((sc_user 1)\<lparr>u_id := i\<rparr>))\<rparr>"

definition sc_usage_env :: usage_env where
  "sc_usage_env = \<lparr>ug_hours = (\<lambda>n. of_int n / 3600)\<rparr>"

lemma sc_usage_wf: "db_wf sc_usage_db"
  by (simp add: db_wf_def sc_usage_db_def sc_db_def sc_res_def hour_def res_row_ok_def ck_res_time_order_def ck_res_script_time_def ck_res_compute_pct_def
    unsigned_int_col_def signed_int_col_def varchar_col_def text_col_def)

lemma sc_usage_rows: "reservations (open_session sc_usage_db c) = [sc_res 1 1 1 0 2 Completed, sc_res 2 2 1 3 8 Active]"
  by (simp add: reservations_def sc_usage_db_def sc_db_def)

lemma sc_usage_gate: "gpu_gate (sc_user 9) 1 (open_session sc_usage_db c) = Inr (sc_gpu 1, sc_server)"
  by (simp add: gpu_gate_def load_gpu_or_404_def assert_server_admin_def sc_usage_db_def sc_db_def sc_user_def sc_gpu_def sc_server_def)

theorem gpu_hours_fit_the_window_witness:
  "case gpu_usage_ep sc_usage_env (sc_user 9) 1 Days7 (open_session sc_usage_db (5 * hour)) of Inl _ \<Rightarrow> False
   | Inr x \<Rightarrow> (\<exists>used. gu_total_hours x = py_round 2 (fl (ug_hours sc_usage_env used)) \<and> 0 \<le> used \<and> used \<le> 7 * 86400)"
proof -
  let ?s = "open_session sc_usage_db (5 * hour)"
  obtain x where x: "gpu_usage_ep sc_usage_env (sc_user 9) 1 Days7 ?s = Inr x" and w: "gu_window_end x - gu_window_start x = days 7"
    by (simp add: gpu_usage_ep_def sc_usage_gate Let_def range_window_def)
  have users: "\<forall>r \<in> set (reservations ?s). d_users (s_db ?s) (r_user_id r) = Some ((sc_user 1)\<lparr>u_id := r_user_id r\<rparr>) \<and> u_id ((sc_user 1)\<lparr>u_id := r_user_id r\<rparr>) = r_user_id r"
    by (simp add: sc_usage_db_def)
  have wf: "db_wf (s_db ?s)" using sc_usage_wf by simp
  have apart: "\<forall>a \<in> set (reservations ?s). \<forall>b \<in> set (reservations ?s). r_gpu_id a = Some 1 \<longrightarrow> r_gpu_id b = Some 1 \<longrightarrow>
      counted_status (r_status a) \<longrightarrow> counted_status (r_status b) \<longrightarrow> a \<noteq> b \<longrightarrow> apart a b"
    by (simp add: sc_usage_rows apart_def sc_res_def hour_def)
  have past: "\<forall>r \<in> set (reservations ?s). r_gpu_id r = Some 1 \<longrightarrow> counted_status (r_status r) \<longrightarrow> r_start_at r \<le> s_clock ?s"
    by (simp add: sc_usage_rows sc_res_def hour_def)
  from gpu_hours_fit_the_window[OF x wf users apart] past obtain used where
    "gu_total_hours x = py_round 2 (fl (ug_hours sc_usage_env used))" "1000000 * used \<le> gu_window_end x - gu_window_start x" "0 \<le> used" by blast
  with x w show ?thesis by (auto simp: days_def seconds_def)
qed

section \<open>Months\<close>

text \<open>
  The breakdowns by server and by account come from seconds that add up to those of the whole month, when no row is missing that a
  reservation refers to.
\<close>

theorem month_adds_up:
  assumes "my_usage_ep env u month s = Inr x"
    and "\<forall>r \<in> set (reservations s). server_of s r \<noteq> None \<and> pa_of s r \<noteq> None"
  shows "\<exists>used servers accounts. mu_gpu_hours_used x = py_round 2 (fl (ug_hours env used))
    \<and> map sh_hours (mu_by_server x) = map (\<lambda>p. fl (ug_hours env p)) servers \<and> sum_list servers = used
    \<and> map ph_hours (mu_by_pa x) = map (\<lambda>p. fl (ug_hours env p)) accounts \<and> sum_list accounts = used"
proof -
  from assms(1) obtain y m a b where "parse_month month = Some (y, m)" "month_boundaries y m = Some (a, b)" and x: "x = monthly_usage env (u_id u) a b s"
    by (auto simp: my_usage_ep_def split: option.splits prod.splits)
  let ?rows = "counted_rows (\<lambda>r. r_user_id r = u_id u) a b s" and ?now = "s_clock s"
  let ?sums = "\<lambda>f. map (\<lambda>g. sum_seconds a b ?now (snd g)) (joined_groups f ?rows)"
  have rows: "\<forall>r \<in> set ?rows. server_of s r \<noteq> None \<and> pa_of s r \<noteq> None" using assms(2) by (simp add: counted_mem)
  then have sums: "sum_list (?sums (server_of s)) = sum_seconds a b ?now ?rows" "sum_list (?sums (pa_of s)) = sum_seconds a b ?now ?rows"
    by (intro joined_groups_sum; blast)+
  show ?thesis
    by (rule exI[of _ "sum_seconds a b ?now ?rows"], rule exI[of _ "?sums (server_of s)"], rule exI[of _ "?sums (pa_of s)"])
      (use sums in \<open>simp add: x monthly_usage_def Let_def sql_hours_def split_def o_def\<close>)
qed

text \<open>
  A running reservation that ends in the next month counts negatively when the next month is asked for: the end of the time it used is before the
  month. The year 9999 ends in an uncaught exception.
\<close>

theorem next_month_is_negative:
  "(case my_usage_ep env (sc_user 1) ''1970-02'' (open_session (sc_db [sc_res 1 1 1 740 748 Active] 2) (742 * hour)) of
      Inr x \<Rightarrow> mu_gpu_hours_used x = py_round 2 (fl (ug_hours env (- 7200))) | Inl _ \<Rightarrow> False)
   \<and> my_usage_ep env u ''9999-12'' s = Inl Uncaught"
  by (simp add: Let_def month_boundaries_def month_start_def days_before_year_def days_before_month_def month_days_def is_leap_def split_def
    my_usage_ep_def parse_month_def digits_value_def is_digit_char_def upto.simps sum_seconds_def counted_rows_def used_seconds_def timestampdiff_def
    counted_status_def touches_def reservations_def sc_db_def sc_res_def sc_user_def hour_def monthly_usage_def sql_hours_def)

section \<open>Keys and grants\<close>

text \<open>
  The map shows the active keys of the users of the lab and no other, each with the hosts, in order and once each, on which an account has an active
  entry of it, and it shows exactly the pairs of a user and a host of the lab between which there is an active grant; the keys on the
  most hosts come first. It is for administrators of the lab.
\<close>

theorem security_map_shows_the_reach:
  assumes "lab_security_map_ep u s = Inr m"
  shows "u_role u = RoleLabAdmin \<and> sm_total_active_keys m = length (sm_keys m)
    \<and> (\<forall>k. (\<exists>y \<in> set (sm_keys m). sy_key y = k) \<longleftrightarrow> k \<in> set (d_ssh_keys (s_db s)) \<and> sk_is_active k
        \<and> (\<exists>w. d_users (s_db s) (sk_user_id k) = Some w \<and> u_lab_id w = u_lab_id u))
    \<and> (\<forall>y \<in> set (sm_keys m). distinct (sy_hostnames y) \<and> sorted (sy_hostnames y) \<and> set (sy_hostnames y) = {srv_hostname v | e p v. e \<in> set (d_key_entries (s_db s))
        \<and> ke_ssh_public_key_id e = sk_id (sy_key y) \<and> ke_is_active e \<and> d_pas (s_db s) (ke_physical_account_id e) = Some p \<and> d_servers (s_db s) (pa_server_id p) = Some v})
    \<and> sorted (map (\<lambda>y. - int (length (sy_hostnames y))) (sm_keys m))
    \<and> (\<forall>i h. (\<exists>g \<in> set (sm_grants m). sg_user_id g = i \<and> h \<in> set (sg_hostnames g)) \<longleftrightarrow> (\<exists>g w v. g \<in> set (d_grants (s_db s)) \<and> gr_is_active g
        \<and> d_users (s_db s) (gr_user_id g) = Some w \<and> d_servers (s_db s) (gr_server_id g) = Some v \<and> srv_lab_id v = u_lab_id u \<and> u_lab_id w = u_lab_id u
        \<and> u_id w = i \<and> srv_hostname v = h))"
proof -
  let ?d = "s_db s" and ?lab = "u_lab_id u"
  from assms have role: "u_role u = RoleLabAdmin" by (auto simp: lab_security_map_ep_def require_lab_admin_def rbind_eq_Inr split: if_splits)
  from assms role have m: "sm_keys m = sort_key (\<lambda>k. - int (length (sy_hostnames k))) (sort_key (\<lambda>k. sk_user_id (sy_key k)) (lab_keys ?d ?lab))"
    "set (sm_grants m) = set (lab_grants ?d ?lab)" "sm_total_active_keys m = length (sm_keys m)"
    by (auto simp: lab_security_map_ep_def require_lab_admin_def Let_def)
  have keys: "y \<in> set (sm_keys m) \<longleftrightarrow> y \<in> set (lab_keys ?d ?lab)" for y by (simp add: m(1))
  have hosts: "set (sy_hostnames y) = set (key_hosts ?d (sk_id (sy_key y))) \<and> distinct (sy_hostnames y) \<and> sorted (sy_hostnames y)" if "y \<in> set (sm_keys m)" for y
    using that by (auto simp: keys lab_keys_iff)
  have grants: "(\<exists>g \<in> set (sm_grants m). sg_user_id g = i \<and> h \<in> set (sg_hostnames g)) \<longleftrightarrow> (\<exists>n. ((i, n), h) \<in> set (grant_rows ?d ?lab))" for i h
    by (simp add: m(2) lab_grants_iff)
  have shown: "(\<exists>y \<in> set (sm_keys m). sy_key y = k) \<longleftrightarrow> k \<in> set (d_ssh_keys ?d) \<and> sk_is_active k
      \<and> (\<exists>w. d_users ?d (sk_user_id k) = Some w \<and> u_lab_id w = ?lab)" for k
    unfolding Bex_def keys lab_keys_iff by force
  have on: "set (key_hosts ?d kid) = {srv_hostname v | e p v. e \<in> set (d_key_entries ?d) \<and> ke_ssh_public_key_id e = kid \<and> ke_is_active e
      \<and> d_pas ?d (ke_physical_account_id e) = Some p \<and> d_servers ?d (pa_server_id p) = Some v}" for kid
    by (rule set_eqI) (simp only: mem_Collect_eq key_hosts_iff, blast)
  have first: "sorted (map (\<lambda>y. - int (length (sy_hostnames y))) (sm_keys m))" by (simp add: m(1))
  show ?thesis
    using role m(3) hosts on shown first by (intro conjI allI ballI) (simp_all add: grants grant_rows_iff, blast)
qed

theorem security_map_shows_the_reach_witness:
  "\<exists>m. lab_security_map_ep (sc_user 9) (open_session sc_usage_db 0) = Inr m \<and> sm_total_active_keys m = length (sm_keys m)"
proof -
  obtain m where m: "lab_security_map_ep (sc_user 9) (open_session sc_usage_db 0) = Inr m"
    by (simp add: lab_security_map_ep_def require_lab_admin_def sc_user_def Let_def)
  from security_map_shows_the_reach[OF m] m show ?thesis by blast
qed

end
