(* ===== verification/User_Hub.thy ===== *)
theory User_Hub
  imports Agent_Rpc Link_Requests
begin

text \<open>
  The websockets of the browsers: \<open>api/ws_user.py\<close> and \<open>services/gpu_broker.py\<close>. The registries of the module are the state; a socket is a
  number, \<open>hb_open\<close> has the receive loops that run, with the user of each. Whether a socket takes a frame is an argument; a
  push is one step, and so is the handling of a frame. Frames that are sent are returned as the sockets that took them. Time is
  the monotonic clock. Logging is left out.
\<close>

section \<open>The registries\<close>

record user_hub =
  hb_connections :: "int \<rightharpoonup> nat set"
  hb_subscribers :: "int \<rightharpoonup> int set"
  hb_open :: "nat \<rightharpoonup> int"
  hb_throttle :: "int \<rightharpoonup> rat"

definition empty_hub :: user_hub where
  "empty_hub = \<lparr>hb_connections = Map.empty, hb_subscribers = Map.empty, hb_open = Map.empty, hb_throttle = Map.empty\<rparr>"

definition set_at :: "('k \<rightharpoonup> 'a set) \<Rightarrow> 'k \<Rightarrow> 'a set" where
  "set_at m k = (case m k of None \<Rightarrow> {} | Some x \<Rightarrow> x)"

definition register_connection :: "int \<Rightarrow> nat \<Rightarrow> user_hub \<Rightarrow> user_hub" where
  "register_connection uid ws h = h\<lparr>hb_connections := (hb_connections h)(uid \<mapsto> insert ws (set_at (hb_connections h) uid))\<rparr>"

text \<open>The subscriptions belong to the user, not to the socket: they go with his last one.\<close>

definition unregister_connection :: "int \<Rightarrow> nat \<Rightarrow> user_hub \<Rightarrow> user_hub" where
  "unregister_connection uid ws h = (case hb_connections h uid of
      None \<Rightarrow> h
    | Some sockets \<Rightarrow> if sockets - {ws} = {}
        then h\<lparr>hb_connections := (hb_connections h)(uid := None), hb_subscribers := (\<lambda>sid. map_option (\<lambda>us. us - {uid}) (hb_subscribers h sid))\<rparr>
        else h\<lparr>hb_connections := (hb_connections h)(uid \<mapsto> sockets - {ws})\<rparr>)"

text \<open>A socket that does not take the frame is discarded; the key of the user stays.\<close>

definition push_to_user :: "(nat \<Rightarrow> bool) \<Rightarrow> int \<Rightarrow> user_hub \<Rightarrow> nat set \<times> user_hub" where
  "push_to_user takes uid h = (case hb_connections h uid of
      None \<Rightarrow> ({}, h)
    | Some sockets \<Rightarrow> (let taken = {ws \<in> sockets. takes ws} in (taken, h\<lparr>hb_connections := (hb_connections h)(uid \<mapsto> taken)\<rparr>)))"

definition add_gpu_subscriber :: "int \<Rightarrow> int \<Rightarrow> user_hub \<Rightarrow> user_hub" where
  "add_gpu_subscriber sid uid h = h\<lparr>hb_subscribers := (hb_subscribers h)(sid \<mapsto> insert uid (set_at (hb_subscribers h) sid))\<rparr>"

definition remove_gpu_subscriber :: "int \<Rightarrow> int \<Rightarrow> user_hub \<Rightarrow> user_hub" where
  "remove_gpu_subscriber sid uid h = (case hb_subscribers h sid of
      None \<Rightarrow> h
    | Some us \<Rightarrow> h\<lparr>hb_subscribers := (hb_subscribers h)(sid := if us - {uid} = {} then None else Some (us - {uid}))\<rparr>)"

definition gpu_subscribers :: "int \<Rightarrow> user_hub \<Rightarrow> int set" where
  "gpu_subscribers sid h = set_at (hb_subscribers h) sid"

section \<open>Frames of the browser\<close>

text \<open>\<open>isinstance(x, int)\<close>: the truth values are integers too.\<close>

definition as_int :: "json \<Rightarrow> int option" where
  "as_int j = (case j of JInt i \<Rightarrow> Some i | JBool b \<Rightarrow> Some (if b then 1 else 0) | _ \<Rightarrow> None)"

datatype frame_effect =
    Continue user_hub
  | PongSent user_hub
  | LoopEnds

text \<open>
  One round of the receive loop on a JSON value, \<^const>\<open>LoopEnds\<close> where an exception leaves it: a type that cannot be hashed, a payload that
  is no object. A pong that the socket does not take ends the loop too.
\<close>

definition handle_client_frame :: "bool \<Rightarrow> int \<Rightarrow> string \<Rightarrow> json \<Rightarrow> user_hub \<Rightarrow> frame_effect" where
  "handle_client_frame takes uid ty payload h =
    (if ty = ''ping'' then (if takes then PongSent h else LoopEnds)
     else (case payload of
         JObj pl \<Rightarrow> (case as_int (rpc_get pl ''server_id'' JNull) of
             None \<Rightarrow> Continue h
           | Some sid \<Rightarrow> Continue (if ty = ''subscribe'' then add_gpu_subscriber sid uid h else remove_gpu_subscriber sid uid h))
       | _ \<Rightarrow> LoopEnds))"

definition client_frame :: "bool \<Rightarrow> int \<Rightarrow> json \<Rightarrow> user_hub \<Rightarrow> frame_effect" where
  "client_frame takes uid frame h = (case frame of
      JObj f \<Rightarrow> (case rpc_get f ''type'' JNull of
          JList _ \<Rightarrow> LoopEnds
        | JObj _ \<Rightarrow> LoopEnds
        | JStr ty \<Rightarrow> if ty \<in> {''ping'', ''subscribe'', ''unsubscribe''}
            then handle_client_frame takes uid ty (let p = rpc_get f ''payload'' JNull in if json_truthy p then p else JObj []) h
            else Continue h
        | _ \<Rightarrow> Continue h)
    | _ \<Rightarrow> Continue h)"

section \<open>Connections\<close>

text \<open>\<open>claims\<close> is the user of a valid token. A socket with an invalid one is closed at once.\<close>

definition open_user_socket :: "int option \<Rightarrow> nat \<Rightarrow> user_hub \<Rightarrow> user_hub" where
  "open_user_socket claims ws h = (case claims of
      None \<Rightarrow> h
    | Some uid \<Rightarrow> (register_connection uid ws h)\<lparr>hb_open := (hb_open h)(ws \<mapsto> uid)\<rparr>)"

definition close_user_socket :: "nat \<Rightarrow> user_hub \<Rightarrow> user_hub" where
  "close_user_socket ws h = (case hb_open h ws of
      None \<Rightarrow> h
    | Some uid \<Rightarrow> (unregister_connection uid ws h)\<lparr>hb_open := (hb_open h)(ws := None)\<rparr>)"

definition receive_client_frame :: "bool \<Rightarrow> nat \<Rightarrow> json \<Rightarrow> user_hub \<Rightarrow> user_hub" where
  "receive_client_frame takes ws frame h = (case hb_open h ws of
      None \<Rightarrow> h
    | Some uid \<Rightarrow> (case client_frame takes uid frame h of
        Continue h' \<Rightarrow> h' | PongSent h' \<Rightarrow> h' | LoopEnds \<Rightarrow> close_user_socket ws h))"

section \<open>Telemetry\<close>

definition min_interval_seconds :: rat where
  "min_interval_seconds = 1"

text \<open>The pushes to the subscribers, in any order, each to the sockets of one user.\<close>

fun push_all :: "(nat \<Rightarrow> bool) \<Rightarrow> int list \<Rightarrow> user_hub \<Rightarrow> nat set list \<times> user_hub" where
  "push_all takes [] h = ([], h)"
| "push_all takes (u # us) h = (case push_to_user takes u h of (t, h1) \<Rightarrow>
     case push_all takes us h1 of (ts, h2) \<Rightarrow> (t # ts, h2))"

text \<open>\<open>order\<close> lists the subscribers; the result is \<^const>\<open>None\<close> when the server was throttled.\<close>

definition fan_out :: "(nat \<Rightarrow> bool) \<Rightarrow> rat \<Rightarrow> int \<Rightarrow> int list \<Rightarrow> user_hub \<Rightarrow> nat set list option \<times> user_hub" where
  "fan_out takes now sid order h =
    (if now - (case hb_throttle h sid of None \<Rightarrow> 0 | Some t \<Rightarrow> t) < min_interval_seconds then (None, h)
     else (case push_all takes order (h\<lparr>hb_throttle := (hb_throttle h)(sid \<mapsto> now)\<rparr>) of (ts, h') \<Rightarrow> (Some ts, h')))"

end
