(* ===== verification/Hub_Props.thy ===== *)
theory Hub_Props
  imports User_Hub
begin

text \<open>
  Runs of the hub: connections open and close, frames arrive, frames are pushed, telemetry fans out. Whose sockets are registered, how often
  a server is fanned out, and a subscription that nobody takes back.
\<close>

section \<open>Runs\<close>

text \<open>The hub with the fan-outs that were not throttled, the last one first. A new socket has a number of its own.\<close>

inductive hub_step :: "user_hub \<times> (int \<times> rat) list \<Rightarrow> user_hub \<times> (int \<times> rat) list \<Rightarrow> bool" where
  opened: "hb_open h ws = None \<Longrightarrow> hub_step (h, fs) (open_user_socket claims ws h, fs)"
| closed: "hub_step (h, fs) (close_user_socket ws h, fs)"
| frame: "hub_step (h, fs) (receive_client_frame takes ws j h, fs)"
| pushed: "hub_step (h, fs) (snd (push_to_user takes uid h), fs)"
| throttled: "fan_out takes now sid order h = (None, h') \<Longrightarrow> hub_step (h, fs) (h', fs)"
| fanned: "fan_out takes now sid order h = (Some ts, h') \<Longrightarrow> hub_step (h, fs) (h', (sid, now) # fs)"

text \<open>A registered socket has a running loop of its user; the throttle has the last fan-out of every server, and fan-outs keep their distance.\<close>

definition registered_ok :: "user_hub \<Rightarrow> bool" where
  "registered_ok h \<longleftrightarrow> (\<forall>uid ws. ws \<in> set_at (hb_connections h) uid \<longrightarrow> hb_open h ws = Some uid)"

fun spaced :: "rat list \<Rightarrow> bool" where
  "spaced (t # u # ts) \<longleftrightarrow> u + min_interval_seconds \<le> t \<and> spaced (u # ts)"
| "spaced ts \<longleftrightarrow> True"

definition times_of :: "int \<Rightarrow> (int \<times> rat) list \<Rightarrow> rat list" where
  "times_of sid fs = map snd (filter (\<lambda>f. fst f = sid) fs)"

definition throttle_ok :: "user_hub \<Rightarrow> (int \<times> rat) list \<Rightarrow> bool" where
  "throttle_ok h fs \<longleftrightarrow> (\<forall>sid. spaced (times_of sid fs) \<and> hb_throttle h sid = (case times_of sid fs of [] \<Rightarrow> None | t # _ \<Rightarrow> Some t))"

definition hub_ok :: "user_hub \<times> (int \<times> rat) list \<Rightarrow> bool" where
  "hub_ok x \<longleftrightarrow> registered_ok (fst x) \<and> throttle_ok (fst x) (snd x)"

lemma throttle_same: "hb_throttle h' = hb_throttle h \<Longrightarrow> throttle_ok h' fs = throttle_ok h fs"
  by (simp add: throttle_ok_def)

lemma registered_mono: "registered_ok h \<Longrightarrow> hb_open h' = hb_open h \<Longrightarrow> \<forall>u. set_at (hb_connections h') u \<subseteq> set_at (hb_connections h) u \<Longrightarrow> registered_ok h'"
  unfolding registered_ok_def by (metis subsetD)

lemma set_at_upd [simp]: "set_at (m(k \<mapsto> x)) k' = (if k' = k then x else set_at m k')" "set_at (m(k := None)) k' = (if k' = k then {} else set_at m k')"
  by (simp_all add: set_at_def)

lemma set_at_map: "set_at (\<lambda>k. map_option f (m k)) k = (if m k = None then {} else f (set_at m k))"
  by (simp add: set_at_def split: option.splits)

lemma set_at_Some: "m k = Some x \<Longrightarrow> set_at m k = x" "m k = None \<Longrightarrow> set_at m k = {}"
  by (simp_all add: set_at_def)

lemma unregister_sockets: "set_at (hb_connections (unregister_connection uid ws h)) u = (if u = uid then set_at (hb_connections h) u - {ws} else set_at (hb_connections h) u)"
  by (auto simp: unregister_connection_def set_at_Some split: option.splits)

lemma unregister_rest [simp]: "hb_open (unregister_connection uid ws h) = hb_open h" "hb_throttle (unregister_connection uid ws h) = hb_throttle h"
  by (auto simp: unregister_connection_def split: option.splits)

lemma subscriber_rest [simp]:
  "hb_open (add_gpu_subscriber sid uid h) = hb_open h" "hb_throttle (add_gpu_subscriber sid uid h) = hb_throttle h"
  "hb_connections (add_gpu_subscriber sid uid h) = hb_connections h"
  "hb_open (remove_gpu_subscriber sid uid h) = hb_open h" "hb_throttle (remove_gpu_subscriber sid uid h) = hb_throttle h"
  "hb_connections (remove_gpu_subscriber sid uid h) = hb_connections h"
  by (auto simp: add_gpu_subscriber_def remove_gpu_subscriber_def split: option.splits)

lemma push_sockets: "push_to_user takes uid h = (t, h') \<Longrightarrow> t = {ws \<in> set_at (hb_connections h) uid. takes ws}
    \<and> (\<forall>u. set_at (hb_connections h') u \<subseteq> set_at (hb_connections h) u) \<and> hb_open h' = hb_open h \<and> hb_throttle h' = hb_throttle h
    \<and> hb_subscribers h' = hb_subscribers h"
  by (auto simp: push_to_user_def set_at_Some Let_def split: option.splits if_splits)

lemma push_all_sockets: "push_all takes us h = (ts, h') \<Longrightarrow> (\<forall>u. set_at (hb_connections h') u \<subseteq> set_at (hb_connections h) u)
    \<and> hb_open h' = hb_open h \<and> hb_throttle h' = hb_throttle h \<and> hb_subscribers h' = hb_subscribers h
    \<and> list_all2 (\<lambda>u t. t \<subseteq> set_at (hb_connections h) u) us ts"
proof (induction us arbitrary: h ts h')
  case (Cons u us)
  obtain t h1 where p: "push_to_user takes u h = (t, h1)" by fastforce
  obtain ts' h2 where q: "push_all takes us h1 = (ts', h2)" by fastforce
  from Cons.prems p q have r: "ts = t # ts'" "h' = h2" by simp_all
  from push_sockets[OF p] Cons.IH[OF q] r show ?case
    by (auto elim!: list_all2_mono[of _ us ts']) blast+
qed simp

text \<open>A frame touches the subscriptions only, or ends the connection.\<close>

lemma frame_effect: "client_frame takes uid j h = Continue h' \<or> client_frame takes uid j h = PongSent h' \<Longrightarrow>
    h' = h \<or> (\<exists>sid. h' = add_gpu_subscriber sid uid h \<or> h' = remove_gpu_subscriber sid uid h)"
  by (auto simp: client_frame_def handle_client_frame_def Let_def split: json.splits if_splits option.splits)

lemma close_ok: "hub_ok (h, fs) \<Longrightarrow> hub_ok (close_user_socket ws h, fs)"
proof -
  assume ok: "hub_ok (h, fs)"
  have t: "hb_throttle (close_user_socket ws h) = hb_throttle h" by (simp add: close_user_socket_def split: option.splits)
  have "registered_ok (close_user_socket ws h)"
    using ok by (auto simp: hub_ok_def registered_ok_def close_user_socket_def unregister_sockets split: option.splits if_splits)
  then show ?thesis using ok by (simp add: hub_ok_def throttle_same[OF t])
qed

lemma subscriber_ok: "h' = h \<or> (\<exists>sid. h' = add_gpu_subscriber sid uid h \<or> h' = remove_gpu_subscriber sid uid h) \<Longrightarrow> hub_ok (h, fs) \<Longrightarrow> hub_ok (h', fs)"
  by (auto simp: hub_ok_def registered_ok_def throttle_ok_def)

lemma frame_ok:
  assumes "hub_ok (h, fs)"
  shows "hub_ok (receive_client_frame takes ws j h, fs)"
proof (cases "hb_open h ws")
  case (Some uid)
  show ?thesis
  proof (cases "client_frame takes uid j h")
    case (Continue h')
    with Some subscriber_ok[OF frame_effect[OF disjI1[OF Continue]] assms] show ?thesis by (simp add: receive_client_frame_def)
  next
    case (PongSent h')
    with Some subscriber_ok[OF frame_effect[OF disjI2[OF PongSent]] assms] show ?thesis by (simp add: receive_client_frame_def)
  next
    case LoopEnds
    with Some close_ok[OF assms] show ?thesis by (simp add: receive_client_frame_def)
  qed
qed (use assms in \<open>simp add: receive_client_frame_def\<close>)

lemma fan_out_effect:
  assumes "fan_out takes now sid order h = (r, h')"
  shows "(\<forall>u. set_at (hb_connections h') u \<subseteq> set_at (hb_connections h) u) \<and> hb_open h' = hb_open h \<and> hb_subscribers h' = hb_subscribers h
    \<and> (case r of None \<Rightarrow> h' = h
       | Some ts \<Rightarrow> hb_throttle h' = (hb_throttle h)(sid \<mapsto> now) \<and> (\<forall>t. hb_throttle h sid = Some t \<longrightarrow> t + min_interval_seconds \<le> now)
           \<and> list_all2 (\<lambda>u t. t \<subseteq> set_at (hb_connections h) u) order ts)"
proof -
  obtain ts h1 where p: "push_all takes order (h\<lparr>hb_throttle := (hb_throttle h)(sid \<mapsto> now)\<rparr>) = (ts, h1)" by fastforce
  from push_all_sockets[OF p] assms p show ?thesis
    by (auto simp: fan_out_def split: if_splits option.splits)
qed

lemma fan_out_ok:
  assumes ok: "hub_ok (h, fs)" and f: "fan_out takes now sid order h = (Some ts, h')"
  shows "hub_ok (h', (sid, now) # fs)"
proof -
  note e = fan_out_effect[OF f]
  from e have o: "hb_open h' = hb_open h" and c: "\<forall>u. set_at (hb_connections h') u \<subseteq> set_at (hb_connections h) u" by simp_all
  have reg: "registered_ok h'" by (rule registered_mono[OF _ o c]) (use ok in \<open>simp add: hub_ok_def\<close>)
  have "spaced (times_of sid' ((sid, now) # fs)) \<and> hb_throttle h' sid' = (case times_of sid' ((sid, now) # fs) of [] \<Rightarrow> None | t # _ \<Rightarrow> Some t)" for sid'
  proof (cases "sid' = sid")
    case True
    from ok have s: "spaced (times_of sid fs)" "hb_throttle h sid = (case times_of sid fs of [] \<Rightarrow> None | t # _ \<Rightarrow> Some t)"
      by (auto simp: hub_ok_def throttle_ok_def)
    from e have d: "\<forall>t. hb_throttle h sid = Some t \<longrightarrow> t + min_interval_seconds \<le> now" and n: "hb_throttle h' sid = Some now" by simp_all
    have "spaced (now # times_of sid fs)" by (cases "times_of sid fs") (use s d in simp_all)
    with True n show ?thesis by (simp add: times_of_def)
  next
    case False
    from e False have "hb_throttle h' sid' = hb_throttle h sid'" by simp
    with ok False show ?thesis by (simp add: hub_ok_def throttle_ok_def times_of_def)
  qed
  with reg show ?thesis by (simp add: hub_ok_def throttle_ok_def)
qed

lemma hub_step_ok: "hub_step x y \<Longrightarrow> hub_ok x \<Longrightarrow> hub_ok y"
proof (induction rule: hub_step.induct)
  case (opened h ws fs claims)
  have t: "hb_throttle (open_user_socket claims ws h) = hb_throttle h" by (simp add: open_user_socket_def register_connection_def split: option.splits)
  have "registered_ok (open_user_socket claims ws h)"
    using opened by (auto simp: hub_ok_def registered_ok_def open_user_socket_def register_connection_def split: option.splits if_splits)
  then show ?case using opened by (simp add: hub_ok_def throttle_same[OF t])
next
  case (closed h fs ws)
  then show ?case by (rule close_ok)
next
  case (frame h fs takes ws j)
  then show ?case by (rule frame_ok)
next
  case (pushed h fs takes uid)
  obtain t h' where p: "push_to_user takes uid h = (t, h')" by fastforce
  from push_sockets[OF p] have e: "hb_throttle h' = hb_throttle h" "hb_open h' = hb_open h" "\<forall>u. set_at (hb_connections h') u \<subseteq> set_at (hb_connections h) u"
    by simp_all
  from pushed registered_mono[OF _ e(2,3)] show ?case by (simp add: hub_ok_def throttle_same[OF e(1)] p)
next
  case (throttled takes now sid order h h' fs)
  from fan_out_effect[OF this(1)] this(2) show ?case by simp
next
  case (fanned takes now sid order h ts h' fs)
  from fan_out_ok[OF this(2,1)] show ?case .
qed

lemma hub_runs_ok: "hub_step\<^sup>*\<^sup>* x y \<Longrightarrow> hub_ok x \<Longrightarrow> hub_ok y"
  by (induction rule: rtranclp_induct) (auto intro: hub_step_ok)

lemma empty_hub_ok: "hub_ok (empty_hub, [])"
  by (simp add: hub_ok_def registered_ok_def throttle_ok_def empty_hub_def set_at_def times_of_def)

section \<open>What the runs guarantee\<close>

lemma spaced_all: "spaced ts \<Longrightarrow> sorted_wrt (\<lambda>t u. u + min_interval_seconds \<le> t) ts"
proof (induction ts rule: spaced.induct)
  case (1 t u ts)
  then have "u + min_interval_seconds \<le> t" and s: "sorted_wrt (\<lambda>t u. u + min_interval_seconds \<le> t) (u # ts)" by simp_all
  then show ?case by (auto simp: min_interval_seconds_def)
qed simp_all

text \<open>
  Along every run of the hub, a frame for a user is taken by sockets only whose receive loop runs for that user, one that was registered for somebody
  else or whose loop has ended gets none, and any two fan-outs of one server are at least a second apart.
\<close>

theorem pushes_reach_own_sockets:
  assumes "hub_step\<^sup>*\<^sup>* (empty_hub, []) (h, fs)"
  shows "(\<forall>takes uid ws. ws \<in> fst (push_to_user takes uid h) \<longrightarrow> hb_open h ws = Some uid \<and> takes ws)
    \<and> (\<forall>takes now sid order ts h'. fan_out takes now sid order h = (Some ts, h') \<longrightarrow> list_all2 (\<lambda>u t. \<forall>ws \<in> t. hb_open h ws = Some u) order ts)
    \<and> (\<forall>sid. sorted_wrt (\<lambda>t u. u + 1 \<le> t) (times_of sid fs))"
proof -
  from hub_runs_ok[OF assms empty_hub_ok] have reg: "registered_ok h" and thr: "throttle_ok h fs" by (simp_all add: hub_ok_def)
  have "hb_open h ws = Some uid \<and> takes ws" if "ws \<in> fst (push_to_user takes uid h)" for takes uid ws
    using that push_sockets[of takes uid h] reg by (cases "push_to_user takes uid h") (auto simp: registered_ok_def)
  moreover have "list_all2 (\<lambda>u t. \<forall>ws \<in> t. hb_open h ws = Some u) order ts" if "fan_out takes now sid order h = (Some ts, h')" for takes now sid order ts h'
    using fan_out_effect[OF that] reg by (auto simp: registered_ok_def elim!: list_all2_mono)
  moreover have "sorted_wrt (\<lambda>t u. u + 1 \<le> t) (times_of sid fs)" for sid
    using spaced_all[of "times_of sid fs"] thr by (simp add: throttle_ok_def min_interval_seconds_def)
  ultimately show ?thesis by blast
qed

lemma sc_hub_run: "hub_step\<^sup>*\<^sup>* (empty_hub, []) (open_user_socket (Some 7) 1 empty_hub, [])"
  by (intro r_into_rtranclp hub_step.opened) (simp add: empty_hub_def)

theorem pushes_reach_own_sockets_witness:
  "fst (push_to_user (\<lambda>_. True) 7 (open_user_socket (Some 7) 1 empty_hub)) = {1} \<and> hb_open (open_user_socket (Some 7) 1 empty_hub) 1 = Some 7"
proof -
  have t: "fst (push_to_user (\<lambda>_. True) 7 (open_user_socket (Some 7) 1 empty_hub)) = {1}"
    by (simp add: push_to_user_def open_user_socket_def register_connection_def empty_hub_def set_at_def Let_def)
  with pushes_reach_own_sockets[OF sc_hub_run] show ?thesis by (metis insertI1)
qed

text \<open>
  Two sockets of a user stop taking frames and are discarded, one is closed, which takes the user out of the registry, and a subscription that still arrives
  on the other one is not taken back when that closes.
\<close>

theorem subscription_outlives_the_user:
  "let h = open_user_socket (Some 7) 2 (open_user_socket (Some 7) 1 empty_hub);
       h = snd (push_to_user (\<lambda>_. False) 7 h);
       h = close_user_socket 1 h;
       h = receive_client_frame True 2 (JObj [(''type'', JStr ''subscribe''), (''payload'', JObj [(''server_id'', JInt 3)])]) h;
       h = close_user_socket 2 h
   in hb_open h = Map.empty \<and> hb_connections h = Map.empty \<and> gpu_subscribers 3 h = {7}"
  by (simp add: Let_def open_user_socket_def register_connection_def empty_hub_def set_at_def push_to_user_def close_user_socket_def
    unregister_connection_def receive_client_frame_def client_frame_def handle_client_frame_def rpc_get_def as_int_def add_gpu_subscriber_def gpu_subscribers_def fun_eq_iff)

end
