(* ===== verification/Spec2Isabelle.thy ===== *)
theory Spec2Isabelle
  imports Guarantees_Booking Guarantees_Lifecycle Guarantees_Reads Guarantees_Access Guarantees_Keys Guarantees_Accounts Guarantees_Compliance Guarantees_Registry Guarantees_Servers Guarantees_Runner Guarantees_Urls Guarantees_Hosts Guarantees_Usage Hub_Props
begin

text \<open>
  CoreLab shares the GPU servers of a laboratory. A backend (\<open>src/backend/corelab_backend\<close>) keeps
  users, servers, accounts and reservations in a MySQL database and answers the browser; an agent on
  every GPU server (\<open>src/agent/corelab_agent\<close>) runs booked scripts, maintains key files and watches
  the processes; the two talk over a websocket with the frames of \<open>src/shared/protocol\<close>. This
  development models the decisions of that program: the code that reads a state, checks, and writes
  a new one.

  The state. \<open>Data_Model\<close> has a record per table (\<open>models/*.py\<close>), the database as one record, and the
  request session of \<open>db.py\<close>: no autoflush, a commit after a normal return and after an
  \<open>HTTPException\<close>, a rollback after anything else. Times are integers in microseconds; a datetime with
  an offset is a record, because the code mixes aware and naive values. Code that raises returns a sum.

  Reservations.
  \<^item> \<open>Audit_Notify\<close>: \<open>services/audit_service.py\<close>, \<open>services/notification_service.py\<close>.
  \<^item> \<open>Reservation_Core\<close>, \<open>Reservation_Booking\<close>, \<open>Reservation_Lifecycle\<close>:
    \<open>services/reservation_service.py\<close> in its order: the transition tables, the validations, the overlap
    query and the conflict classifier; preview, batch creation, modification, listings; cancellation, the
    scheduler transitions, the log tail.
  \<^item> \<open>Scheduler\<close>: \<open>services/reservation_scheduler.py\<close> and \<open>services/_serializable_retry.py\<close>: a tick promotes,
    closes, dispatches, and looks after stuck dispatches.
  \<^item> \<open>Script_Lifecycle\<close>: \<open>services/script_lifecycle_service.py\<close>: the agent's script events and the
    registry of pending kills.
  \<^item> \<open>Recommender\<close>: \<open>services/schedule_recommender.py\<close>.
  \<^item> \<open>Reservation_Api\<close>: \<open>api/v1/reservations.py\<close>, endpoint by endpoint, each over a session of its own.

  Access to accounts.
  \<^item> \<open>Account_Links\<close>, \<open>Link_Requests\<close>: \<open>services/account_link_service.py\<close> and
    \<open>services/account_link_request_service.py\<close>: how a user gets, proves and loses the right to act as an
    account on a server, and what becomes of the keys that were pushed for him.
  \<^item> \<open>Ssh_Challenge\<close>: \<open>services/ssh_challenge.py\<close>, over the Redis commands of \<open>Rate_Limit\<close>.
  \<^item> \<open>Access_Api\<close>: \<open>api/v1/account_links.py\<close>, \<open>api/v1/account_link_requests.py\<close>, \<open>auth_dependencies.py\<close>.
  \<^item> \<open>Rate_Limit\<close>: \<open>middleware/rate_limit.py\<close>. Redis is a record of its commands; \<open>Rate_Props\<close> states their
    documented behaviour as \<open>redis_doc\<close> and shows a server that has it.
  \<^item> \<open>Agent_Rpc\<close>: \<open>services/agent_rpc.py\<close>, \<open>services/agent_hub.py\<close>: how a request to an agent finds its
    response. The services above see its outcome only.
  \<^item> \<open>Key_File\<close>, over the text operations of \<open>Py_Text\<close>: \<open>authorized_keys.py\<close> and \<open>capabilities.py\<close> of the agent.

  Accounts and servers.
  \<^item> \<open>Auth_Service\<close>: \<open>services/auth_service.py\<close>, \<open>services/ssh_key_service.py\<close> and the endpoints of
    \<open>auth.py\<close>, \<open>setup.py\<close> (activation) and \<open>ssh_keys.py\<close>.
  \<^item> \<open>User_Service\<close>: \<open>services/user_service.py\<close>, \<open>api/v1/users.py\<close>.
  \<^item> \<open>Server_Service\<close>: \<open>services/server_service.py\<close>, \<open>services/telemetry_service.py\<close>,
    \<open>services/capability_sync_service.py\<close>, \<open>api/v1/servers.py\<close>.
  \<^item> \<open>Physical_Accounts\<close>: \<open>services/physical_account_service.py\<close>, \<open>api/v1/physical_accounts.py\<close> and the scan branch of
    \<open>api/agent_ws.py\<close>: the registry of the Linux accounts, the inventory of pushed keys, onboarding.
  \<^item> \<open>Step_Contract\<close> is the interface between a table invariant and the requests that must keep it, a locale;
    \<open>Account_Props\<close> interprets it for the account tables, \<open>Account_System\<close> has the requests and their runs,
    \<open>Disable_Props\<close> follows what disabling an account takes away; \<open>Pa_Props\<close> interprets it for the registry.

  \<^item> \<open>Agent_Connection\<close>: \<open>api/agent_ws.py\<close>, the websocket of an agent from its handshake to its end, over the pool of
    \<open>agent_hub.py\<close>. \<open>Server_Props\<close> interprets \<open>step_contract\<close> for servers and enrollment tokens; \<open>Connection_Props\<close> has the runs of
    the backend process, in which frames, handshakes, ends of connections and requests alternate.

  \<^item> \<open>Script_Runner\<close>: \<open>script_runner.py\<close> of the agent, split into actions at the awaits between which state is read or written (\<open>shutdown\<close> too), with the receive
    loop of \<open>ws_client.py\<close> around it. \<open>Runner_Props\<close> has its invariants, lifted to runs by the locale \<open>action_runs\<close>; a run is a list of actions.

  \<^item> \<open>Lab_Urls\<close>: \<open>services/lab_url_service.py\<close>, \<open>services/lab_url_scheduler.py\<close>, \<open>services/agent_url_broadcast.py\<close>,
    \<open>services/setup_service.py\<close>, \<open>api/v1/public_urls.py\<close> and the set-up of \<open>api/v1/setup.py\<close>: the addresses of a lab, in a JSON column that every
    operation reads and writes whole; a probe is two steps, between which other requests run. \<open>Agent_Urls\<close>: the part of \<open>ws_client.py\<close> that
    builds the connect URLs and handles new addresses. \<open>Url_Props\<close> has what is read back from the column, the runs, and the lemmas on the agent.

  \<^item> \<open>Agent_Accounts\<close>: \<open>linux_users.py\<close>, \<open>account_scanner.py\<close>, \<open>ssh_verifier.py\<close>, \<open>pam_handler.py\<close> of the agent over the account database of
    the host; what a command does to it is any function of the arguments, and nothing is assumed of \<open>useradd\<close> and \<open>userdel\<close>.
  \<^item> \<open>Usage\<close>, \<open>Overview\<close>: \<open>services/usage_service.py\<close>, \<open>api/v1/usage.py\<close>, \<open>api/v1/gpus.py\<close>, \<open>api/v1/lab_overview.py\<close>: the reports. Seconds are counted in
    integers; the DECIMAL quotient of the database is a parameter. \<open>Usage_Props\<close> shows that groups add up and that disjoint reservations fit a window.
  \<^item> \<open>User_Hub\<close>: \<open>api/ws_user.py\<close> and \<open>services/gpu_broker.py\<close>, the websockets of the browsers; \<open>Hub_Props\<close> has their runs.

  Compliance.
  \<^item> \<open>Compliance_Agent\<close>: \<open>policy_cache.py\<close>, \<open>reverse_cache.py\<close>, \<open>compliance_monitor.py\<close>, \<open>grace_tracker.py\<close>,
    \<open>policy_handlers.py\<close>, \<open>process_killer.py\<close> of the agent: what the backend told it, the judgement of a process, and what is done.
  \<^item> \<open>Policy_Service\<close>: \<open>services/agent_policy_service.py\<close>, \<open>services/policy_sync_service.py\<close>,
    \<open>services/link_cache_sync_service.py\<close>.
  \<^item> \<open>Alert_Service\<close>: \<open>services/compliance_ingest_service.py\<close>, \<open>services/alert_service.py\<close>, the endpoints of
    \<open>policies.py\<close> and \<open>alerts.py\<close>, the violation branch of \<open>api/agent_ws.py\<close>.
  \<^item> \<open>Compliance_Props\<close> follows a tick; \<open>Policy_Props\<close> interprets \<open>step_contract\<close> for the policy table; \<open>Sync_Props\<close>
    shows that the caches of the agent answer for the tables, and has the runs of backend and agent together.

  What the lemmas show. \<open>Booking_Props\<close>, \<open>Lifecycle_Props\<close>, \<open>Scheduler_Props\<close>, \<open>Script_Props\<close>,
  \<open>Recommender_Props\<close>, \<open>Api_Props\<close>, \<open>Link_Props\<close>, \<open>Rate_Props\<close> and \<open>Key_Props\<close> hold the lemmas of the components: a frame for every operation
  (which rows, which columns, which audit rows), the behaviour on every branch, and the contracts. The
  contracts are locales interpreted on the code's definitions: \<open>lifecycle\<close> (a transition table with a
  rank and final values; reservation and script status), \<open>admission\<close> (a classifier that accepts only
  what fits keeps the capacity), \<open>row_loop\<close> (a loop of the scheduler as a function on rows), \<open>window_store\<close> (a store
  that counts recent requests; the process and a Redis server). \<open>System\<close> is the
  transition system whose steps are committed transactions, with the invariants of its runs; \<open>Access_System\<close> is that of the access endpoints.
  The \<open>Guarantees\<close> theories and this one state the properties; \<open>Scenario\<close> is the laboratory on which
  they are exercised.

  Bounds. Loops over rows are structural. The retry loop counts down its attempts. The recursion of \<open>bit_len\<close> and \<open>nat_str\<close> halves or divides its argument. No fuel is used.
  The memory limit of the monitor is computed in binary64 as a rational rounded to 53 bits.
  Python integers are \<^typ>\<open>int\<close>; the flush of a reservation checks the ranges of its integer columns that a request or an agent fills, its two TEXT
  columns and the length of its log path; other tables have the checks their theories name.

  Not modelled. Foreign keys other than those of an alert; logging, the asyncio loops, sockets and subprocesses: an RPC is its outcome, given as an
  argument. Password hashing, token hashing and JWTs are parameters, and so is the equality of the database's collation. The lengths of other text
  columns are not checked at the flush. Audit and notification writes never fail.
  Requests are serial: one transaction is one step, so lost updates between concurrent requests do not
  appear, except where the code itself names them (the kill registry).
\<close>

section \<open>The reservation system\<close>

text \<open>
  C1. However the system is driven (requests, agent events, dispatch failures, ticks, in any order),
  the database stays legal and only develops: keys stay unique, rows satisfy their constraints, no
  row disappears, its identity columns never change, its two status columns move along their
  machines, its times are fixed once it has started, and the audit log is only extended.
\<close>

theorem runs_keep_the_database_legal:
  assumes "db_run ls d d'" and "db_ok d"
  shows "db_ok d' \<and> develops d d'"
  using run_ok[OF assms] by blast

lemma sc_tick_run: "\<exists>d'. db_run [Other] sc_due d'"
proof -
  obtain x s' where t: "tick_body (open_session sc_due (2 * hour)) = Inr (x, s')"
    using tick_body_runs[of "open_session sc_due (2 * hour)" "2 * hour"] sc_due_ok by auto
  from db_run.more[OF db_run.start db_step.tick[OF t]] show ?thesis by auto
qed

theorem runs_keep_the_database_legal_witness: "\<exists>d'. db_run [Other] sc_due d' \<and> db_ok d' \<and> develops sc_due d'"
proof -
  obtain d' where r: "db_run [Other] sc_due d'" using sc_tick_run by blast
  from runs_keep_the_database_legal[OF r sc_due_ok] r show ?thesis by blast
qed








text \<open>
  The status of a reservation takes at most three values in its life, that of a script too, and
  no value comes back once it was left.
\<close>

theorem status_path_short:
  assumes "successively res_step p" and "successively script_step q"
  shows "length p \<le> 3 \<and> length q \<le> 3 \<and> (res_step a b \<longrightarrow> \<not> res_step\<^sup>*\<^sup>* b a) \<and> (script_step c e \<longrightarrow> \<not> script_step\<^sup>*\<^sup>* e c)"
  using res_life.path_bounded[OF assms(1)] script_life.path_bounded[OF assms(2)]
    res_life.no_return[of a b] script_life.no_return[of c e] by simp

theorem status_path_short_witness:
  "length [Scheduled, Active, Completed] \<le> 3 \<and> length [None, Some S_Running, Some S_Killed] \<le> 3"
proof -
  have "successively res_step [Scheduled, Active, Completed]" by (simp add: res_step_def)
  moreover have "successively script_step [None, Some S_Running, Some S_Killed]" by (simp add: script_step_def)
  ultimately show ?thesis using status_path_short by blast
qed

end
